(* ===== verification/Rust_Prelude.thy ===== *)
theory Rust_Prelude
  imports Main "HOL-Library.Word" "HOL-Library.Sublist" "HOL-Library.AList"
begin

text \<open>
  Shared vocabulary of the development: the result type, the byte view of Rust strings, the
  ASCII predicates of \<open>core\<close>, splitting, integer helpers, durations, and a locale that
  turns "every step keeps the invariant" into "every reachable state has it". A Rust
  \<open>&str\<close> is modelled by its UTF-8 bytes, so \<open>length\<close> is \<open>str::len\<close> and the byte predicates
  are direct; the functions that look at \<open>char\<close>s go through \<open>str_chars\<close>.
\<close>

section \<open>Results and options\<close>

type_synonym ('e, 'a) result = "'e + 'a"

abbreviation Err :: "'e \<Rightarrow> ('e, 'a) result" where "Err \<equiv> Inl"
abbreviation Ok :: "'a \<Rightarrow> ('e, 'a) result" where "Ok \<equiv> Inr"

named_theorems validator_defs \<open>unfolds the input validators\<close>
named_theorems step_defs \<open>unfolds the atomic steps of the state machines\<close>

definition ok_or :: "'e \<Rightarrow> 'a option \<Rightarrow> ('e, 'a) result" where
  "ok_or e x = (case x of None \<Rightarrow> Err e | Some a \<Rightarrow> Ok a)"

definition and_then :: "('e, 'a) result \<Rightarrow> ('a \<Rightarrow> ('e, 'b) result) \<Rightarrow> ('e, 'b) result" where
  "and_then r f = (case r of Inl e \<Rightarrow> Inl e | Inr a \<Rightarrow> f a)"

lemma and_then_simps [simp]:
  "and_then (Inl e) f = Inl e"
  "and_then (Inr a) f = f a"
  by (simp_all add: and_then_def)

lemma and_then_eq_Inr [simp]: "and_then r f = Inr b \<longleftrightarrow> (\<exists>a. r = Inr a \<and> f a = Inr b)"
  by (cases r) auto

lemma ok_or_simps [simp]: "ok_or e None = Inl e" "ok_or e (Some a) = Inr a"
  by (simp_all add: ok_or_def)

lemma ok_or_eq [simp]:
  "ok_or e x = Inr a \<longleftrightarrow> x = Some a"
  "ok_or e x = Inl d \<longleftrightarrow> x = None \<and> d = e"
  by (cases x; auto)+

definition map_err :: "('e \<Rightarrow> 'd) \<Rightarrow> ('e, 'a) result \<Rightarrow> ('d, 'a) result" where
  "map_err f r = (case r of Inl e \<Rightarrow> Inl (f e) | Inr a \<Rightarrow> Inr a)"

lemma map_err_simps [simp]:
  "map_err f (Inl e) = Inl (f e)"
  "map_err f (Inr a) = Inr a"
  by (simp_all add: map_err_def)

lemma map_err_eq_Inr [simp]: "map_err f r = Inr a \<longleftrightarrow> r = Inr a"
  by (cases r) auto

text \<open>\<open>collect::<Result<Vec<_>, _>>()\<close>: the first error wins.\<close>

fun traverse :: "('a \<Rightarrow> ('e, 'b) result) \<Rightarrow> 'a list \<Rightarrow> ('e, 'b list) result" where
  "traverse f [] = Inr []"
| "traverse f (x # xs) =
     and_then (f x) (\<lambda>y. and_then (traverse f xs) (\<lambda>ys. Inr (y # ys)))"

lemma traverse_Inr: "traverse f xs = Inr ys \<Longrightarrow> list_all2 (\<lambda>x y. f x = Inr y) xs ys"
  by (induction xs arbitrary: ys) auto

section \<open>Bytes\<close>

definition byte :: "char \<Rightarrow> nat" where "byte c = of_char c"

definition is_ascii_digit :: "char \<Rightarrow> bool" where
  "is_ascii_digit c \<longleftrightarrow> 48 \<le> byte c \<and> byte c \<le> 57"
definition is_ascii_lowercase :: "char \<Rightarrow> bool" where
  "is_ascii_lowercase c \<longleftrightarrow> 97 \<le> byte c \<and> byte c \<le> 122"
definition is_ascii_uppercase :: "char \<Rightarrow> bool" where
  "is_ascii_uppercase c \<longleftrightarrow> 65 \<le> byte c \<and> byte c \<le> 90"
definition is_ascii_alphanumeric :: "char \<Rightarrow> bool" where
  "is_ascii_alphanumeric c \<longleftrightarrow> is_ascii_digit c \<or> is_ascii_lowercase c \<or> is_ascii_uppercase c"
definition is_ascii_hexdigit :: "char \<Rightarrow> bool" where
  "is_ascii_hexdigit c \<longleftrightarrow> is_ascii_digit c \<or> (65 \<le> byte c \<and> byte c \<le> 70) \<or> (97 \<le> byte c \<and> byte c \<le> 102)"
definition is_ascii_whitespace :: "char \<Rightarrow> bool" where
  "is_ascii_whitespace c \<longleftrightarrow> byte c \<in> {32, 9, 10, 12, 13}"
definition to_ascii_lowercase_byte :: "char \<Rightarrow> char" where
  "to_ascii_lowercase_byte c = (if is_ascii_uppercase c then char_of (byte c + 32) else c)"

definition to_ascii_lowercase :: "string \<Rightarrow> string" where
  "to_ascii_lowercase s = map to_ascii_lowercase_byte s"
definition eq_ignore_ascii_case :: "string \<Rightarrow> string \<Rightarrow> bool" where
  "eq_ignore_ascii_case a b \<longleftrightarrow> to_ascii_lowercase a = to_ascii_lowercase b"

lemmas ascii_defs = is_ascii_digit_def is_ascii_lowercase_def is_ascii_uppercase_def
  is_ascii_alphanumeric_def is_ascii_hexdigit_def is_ascii_whitespace_def byte_def

lemma byte_less_256 [simp]: "byte c < 256"
  by (simp add: byte_def)

lemma byte_char_of [simp]: "n < 256 \<Longrightarrow> byte (char_of n) = n"
  by (simp add: byte_def)

section \<open>UTF-8: from bytes to characters\<close>

text \<open>
  \<open>str::chars\<close> and \<open>char::encode_utf8\<close>. Every \<open>&str\<close> is valid UTF-8, so what
  \<open>str_chars\<close> does on truncated sequences is never observed by the code.
\<close>

fun str_chars :: "string \<Rightarrow> nat list" where
  "str_chars [] = []"
| "str_chars (a # s) =
     (if byte a < 128 then byte a # str_chars s
      else if byte a < 224 then
        (case s of b # t \<Rightarrow> ((byte a - 192) * 64 + (byte b - 128)) # str_chars t | _ \<Rightarrow> [])
      else if byte a < 240 then
        (case s of b # c # t \<Rightarrow>
           ((byte a - 224) * 4096 + (byte b - 128) * 64 + (byte c - 128)) # str_chars t | _ \<Rightarrow> [])
      else
        (case s of b # c # d # t \<Rightarrow>
           ((byte a - 240) * 262144 + (byte b - 128) * 4096 + (byte c - 128) * 64 + (byte d - 128))
             # str_chars t | _ \<Rightarrow> []))"

definition encode_char :: "nat \<Rightarrow> string" where
  "encode_char n =
     (if n < 128 then [char_of n]
      else if n < 2048 then [char_of (192 + n div 64), char_of (128 + n mod 64)]
      else if n < 65536 then
        [char_of (224 + n div 4096), char_of (128 + n div 64 mod 64), char_of (128 + n mod 64)]
      else
        [char_of (240 + n div 262144), char_of (128 + n div 4096 mod 64),
         char_of (128 + n div 64 mod 64), char_of (128 + n mod 64)])"

definition encode_chars :: "nat list \<Rightarrow> string" where
  "encode_chars cs = concat (map encode_char cs)"

definition is_scalar_value :: "nat \<Rightarrow> bool" where
  "is_scalar_value n \<longleftrightarrow> n < 55296 \<or> (57344 \<le> n \<and> n < 1114112)"

lemma mod_mult_64: "n div 64 mod 64 * 64 + n mod 64 = n mod (4096::nat)"
  using mod_mult2_eq [of n 64 64] by (simp add: mult.commute)

lemma str_chars_encode_char:
  assumes "n < 1114112"
  shows "str_chars (encode_char n @ s) = n # str_chars s"
proof -
  consider "n < 128" | "128 \<le> n" "n < 2048" | "2048 \<le> n" "n < 65536" | "65536 \<le> n" by linarith
  then show ?thesis
  proof cases
    case 2
    then have "192 + n div 64 < 224" by auto
    with 2 show ?thesis by (simp add: encode_char_def)
  next
    case 3
    then have "n div 4096 < 16" by auto
    moreover have "n div 4096 * 4096 + (n div 64 mod 64 * 64 + n mod 64) = n"
      by (simp add: mod_mult_64)
    ultimately show ?thesis
      using 3 by (simp add: encode_char_def)
  next
    case 4
    with assms have "n div 262144 < 16" by auto
    moreover have "n div 262144 * 262144 + (n div 4096 mod 64 * 4096 + (n div 64 mod 64 * 64 + n mod 64)) = n"
      using mod_mult2_eq [of n 4096 64] div_mult_mod_eq [of n 262144]
        mod_mult_64 [of n]
      by (simp add: mult.commute)
    ultimately show ?thesis
      using 4 by (simp add: encode_char_def)
  qed (simp add: encode_char_def)
qed

text \<open>Decoding is a left inverse of encoding on Unicode scalar values.\<close>

lemma str_chars_encode_chars:
  "list_all is_scalar_value cs \<Longrightarrow> str_chars (encode_chars cs) = cs"
proof (induction cs)
  case (Cons c cs)
  then have "c < 1114112" by (auto simp: is_scalar_value_def)
  with Cons show ?case by (simp add: encode_chars_def str_chars_encode_char)
qed (simp add: encode_chars_def)

lemma str_chars_ascii: "list_all (\<lambda>c. byte c < 128) s \<Longrightarrow> str_chars s = map byte s"
  by (induction s) auto

text \<open>\<open>char::is_control\<close> is the general category Cc, \<open>char::is_whitespace\<close> the White\_Space property.\<close>

definition is_control :: "nat \<Rightarrow> bool" where
  "is_control c \<longleftrightarrow> c < 32 \<or> (127 \<le> c \<and> c < 160)"

definition is_whitespace :: "nat \<Rightarrow> bool" where
  "is_whitespace c \<longleftrightarrow> (9 \<le> c \<and> c \<le> 13) \<or> c = 32 \<or> c = 133 \<or> c = 160 \<or> c = 5760
     \<or> (8192 \<le> c \<and> c \<le> 8202) \<or> c = 8232 \<or> c = 8233 \<or> c = 8239 \<or> c = 8287 \<or> c = 12288"

definition has_control :: "string \<Rightarrow> bool" where
  "has_control s \<longleftrightarrow> list_ex is_control (str_chars s)"

definition str_trim :: "string \<Rightarrow> string" where
  "str_trim s = encode_chars (rev (dropWhile is_whitespace (rev (dropWhile is_whitespace (str_chars s)))))"

lemma encode_chars_bytes: "list_all (\<lambda>c. byte c < 128) s \<Longrightarrow> encode_chars (map byte s) = s"
  by (induction s) (auto simp: encode_chars_def encode_char_def byte_def)

lemma dropWhile_hd: "xs \<noteq> [] \<Longrightarrow> \<not> p (hd xs) \<Longrightarrow> dropWhile p xs = xs"
  by (cases xs) auto

lemma str_trim_ascii:
  assumes "list_all (\<lambda>c. byte c < 128) s" "s \<noteq> []"
    and "\<not> is_whitespace (byte (hd s))" "\<not> is_whitespace (byte (last s))"
  shows "str_trim s = s"
proof -
  have "dropWhile is_whitespace (map byte s) = map byte s"
    using assms by (intro dropWhile_hd) (auto simp: hd_map)
  moreover have "dropWhile is_whitespace (rev (map byte s)) = rev (map byte s)"
    using assms by (intro dropWhile_hd) (auto simp: hd_rev last_map)
  ultimately show ?thesis
    using assms(1) by (simp add: str_trim_def str_chars_ascii encode_chars_bytes)
qed

section \<open>Searching and splitting\<close>

text \<open>\<open>str::split\<close> on a predicate, over bytes or over characters.\<close>

fun split_by :: "('a \<Rightarrow> bool) \<Rightarrow> 'a list \<Rightarrow> 'a list list" where
  "split_by p [] = [[]]"
| "split_by p (c # s) =
     (if p c then [] # split_by p s
      else (case split_by p s of [] \<Rightarrow> [[c]] | x # xs \<Rightarrow> (c # x) # xs))"

fun join_with :: "char \<Rightarrow> string list \<Rightarrow> string" where
  "join_with c [] = []"
| "join_with c [x] = x"
| "join_with c (x # y # xs) = x @ c # join_with c (y # xs)"

lemma split_by_nonempty [simp]: "split_by p s \<noteq> []"
  by (induction s) (auto split: list.splits)

lemma set_split_by: "x \<in> set (split_by p s) \<Longrightarrow> c \<in> set x \<Longrightarrow> c \<in> set s \<and> \<not> p c"
proof (induction s arbitrary: x)
  case (Cons a s)
  obtain y ys where "split_by p s = y # ys" by (cases "split_by p s") auto
  with Cons.prems Cons.IH [of y] Cons.IH [of x] show ?case by (auto split: if_splits)
qed simp

lemma set_split_by_cover: "c \<in> set s \<Longrightarrow> p c \<or> (\<exists>x \<in> set (split_by p s). c \<in> set x)"
proof (induction s)
  case (Cons a s)
  then show ?case by (cases "split_by p s") auto
qed simp

lemma join_with_split_by: "join_with c (split_by ((=) c) s) = s"
proof (induction s)
  case (Cons a s)
  obtain x xs where sp: "split_by ((=) c) s = x # xs"
    by (cases "split_by ((=) c) s") auto
  with Cons show ?case by (cases xs) auto
qed simp

definition strip_prefix :: "string \<Rightarrow> string \<Rightarrow> string option" where
  "strip_prefix p s = (if prefix p s then Some (drop (length p) s) else None)"

lemma strip_prefix_Some: "strip_prefix p s = Some t \<longleftrightarrow> s = p @ t"
  by (auto simp: strip_prefix_def prefix_def)

lemma strip_prefix_append [simp]: "strip_prefix p (p @ t) = Some t"
  by (simp add: strip_prefix_Some)

definition strip_suffix :: "string \<Rightarrow> string \<Rightarrow> string option" where
  "strip_suffix p s = (if suffix p s then Some (take (length s - length p) s) else None)"

lemma strip_suffix_Some: "strip_suffix p s = Some t \<longleftrightarrow> s = t @ p"
  by (auto simp: strip_suffix_def suffix_def)

text \<open>\<open>str::split_once\<close> and \<open>str::contains\<close> for a string pattern.\<close>

fun split_once :: "string \<Rightarrow> string \<Rightarrow> (string \<times> string) option" where
  "split_once p [] = (if p = [] then Some ([], []) else None)"
| "split_once p (c # s) =
     (case strip_prefix p (c # s) of
        Some t \<Rightarrow> Some ([], t)
      | None \<Rightarrow> map_option (\<lambda>(a, b). (c # a, b)) (split_once p s))"

lemma split_once_Some: "split_once p s = Some (a, b) \<Longrightarrow> s = a @ p @ b"
  by (induction s arbitrary: a b) (auto simp: strip_prefix_Some split: if_splits option.splits)

fun str_contains :: "string \<Rightarrow> string \<Rightarrow> bool" where
  "str_contains p [] \<longleftrightarrow> p = []"
| "str_contains p (c # s) \<longleftrightarrow> prefix p (c # s) \<or> str_contains p s"

lemma str_contains_sublist: "str_contains p s \<longleftrightarrow> sublist p s"
  by (induction s) (auto simp: sublist_Cons_right)

section \<open>Machine integers\<close>

type_synonym u8 = "8 word"
type_synonym u16 = "16 word"
type_synonym u32 = "32 word"
type_synonym u64 = "64 word"
type_synonym usize = "64 word"

definition checked_add :: "'a::len word \<Rightarrow> 'a word \<Rightarrow> 'a word option" where
  "checked_add a b = (if unat a + unat b < 2 ^ LENGTH('a) then Some (a + b) else None)"

lemma checked_add_Some: "checked_add a b = Some c \<Longrightarrow> unat c = unat a + unat b"
  by (auto simp: checked_add_def unat_word_ariths split: if_splits)

lemma checked_add_None: "checked_add a b = None \<longleftrightarrow> 2 ^ LENGTH('a) \<le> unat a + unat (b :: 'a::len word)"
  by (auto simp: checked_add_def not_less)

text \<open>\<open>fetch_sub\<close> wraps; the invariants show that it never does.\<close>

lemma unat_sub: "b \<le> a \<Longrightarrow> unat (a - b) = unat a - unat (b :: 'a::len word)"
  by (simp add: unat_sub_if' word_le_nat_alt)

text \<open>\<open>str::parse\<close> for an unsigned type with largest value \<open>m\<close>, digit by digit.\<close>

datatype parse_int_error = Empty_Int | Invalid_Digit | Pos_Overflow

fun parse_digits :: "nat \<Rightarrow> nat \<Rightarrow> string \<Rightarrow> (parse_int_error, nat) result" where
  "parse_digits m acc [] = Inr acc"
| "parse_digits m acc (c # s) =
     (if \<not> is_ascii_digit c then Inl Invalid_Digit
      else if m < acc * 10 then Inl Pos_Overflow
      else if m < acc * 10 + (byte c - 48) then Inl Pos_Overflow
      else parse_digits m (acc * 10 + (byte c - 48)) s)"

definition parse_uint :: "nat \<Rightarrow> string \<Rightarrow> (parse_int_error, nat) result" where
  "parse_uint m s =
     (if s = [] then Inl Empty_Int
      else if s = ''+'' \<or> s = ''-'' then Inl Invalid_Digit
      else if hd s = CHR ''+'' then parse_digits m 0 (tl s)
      else parse_digits m 0 s)"

lemma parse_digits_le: "parse_digits m acc s = Inr v \<Longrightarrow> acc \<le> m \<Longrightarrow> v \<le> m"
  by (induction s arbitrary: acc) (auto split: if_splits)

lemma parse_uint_le: "parse_uint m s = Inr v \<Longrightarrow> v \<le> m"
  by (auto simp: parse_uint_def split: if_splits dest: parse_digits_le)

text \<open>\<open>to_string\<close> of an unsigned integer.\<close>

fun show_nat :: "nat \<Rightarrow> string" where
  "show_nat n = (if n < 10 then [char_of (48 + n)] else show_nat (n div 10) @ [char_of (48 + n mod 10)])"

declare show_nat.simps [simp del]

lemma is_ascii_digit_show: "k < (10::nat) \<Longrightarrow> is_ascii_digit (char_of (48 + k))"
  by (simp add: is_ascii_digit_def)

lemma show_nat_digits: "list_all is_ascii_digit (show_nat n)"
proof (induction n rule: show_nat.induct)
  case (1 n)
  then show ?case by (subst show_nat.simps) (auto simp: is_ascii_digit_show)
qed

lemma parse_digits_append:
  "parse_digits m acc s = Inr v \<Longrightarrow> parse_digits m acc (s @ t) = parse_digits m v t"
  by (induction s arbitrary: acc) (auto split: if_splits)

lemma parse_digits_show_nat: "n \<le> m \<Longrightarrow> parse_digits m 0 (show_nat n) = Inr n"
proof (induction n rule: show_nat.induct)
  case (1 n)
  show ?case
  proof (cases "n < 10")
    case True
    with 1 show ?thesis by (subst show_nat.simps) (simp add: is_ascii_digit_show)
  next
    case False
    then have "parse_digits m 0 (show_nat (n div 10)) = Inr (n div 10)" using 1 by simp
    with False 1(2) show ?thesis
      by (subst show_nat.simps) (simp add: parse_digits_append is_ascii_digit_show)
  qed
qed

section \<open>Durations\<close>

text \<open>A \<open>Duration\<close> and an \<open>Instant\<close> are counted in nanoseconds.\<close>

definition nanos_per_sec :: nat where "nanos_per_sec = 1000000000"

definition from_secs :: "nat \<Rightarrow> nat" where "from_secs s = s * nanos_per_sec"

text \<open>\<open>as_secs() + u64::from(subsec_nanos() != 0)\<close>: seconds, rounded up.\<close>

definition ceil_secs :: "nat \<Rightarrow> nat" where
  "ceil_secs d = d div nanos_per_sec + (if d mod nanos_per_sec \<noteq> 0 then 1 else 0)"

lemma from_secs_0 [simp]: "from_secs 0 = 0" by (simp add: from_secs_def)

lemma from_secs_mono [simp]: "from_secs a \<le> from_secs b \<longleftrightarrow> a \<le> b"
  by (simp add: from_secs_def nanos_per_sec_def)

lemma ceil_secs_from_secs [simp]: "ceil_secs (from_secs s) = s"
  by (simp add: ceil_secs_def from_secs_def nanos_per_sec_def)

lemma ceil_secs_upper: "d \<le> from_secs (ceil_secs d)"
  using div_mult_mod_eq [of d nanos_per_sec]
  by (auto simp: ceil_secs_def from_secs_def nanos_per_sec_def)

lemma ceil_secs_le_iff: "ceil_secs d \<le> k \<longleftrightarrow> d \<le> from_secs k"
proof -
  define q r where "q = d div nanos_per_sec" and "r = d mod nanos_per_sec"
  have d: "d = q * nanos_per_sec + r" and r: "r < nanos_per_sec"
    by (simp_all add: q_def r_def nanos_per_sec_def)
  have "d \<le> k * nanos_per_sec \<longleftrightarrow> q + (if r \<noteq> 0 then 1 else 0) \<le> k"
  proof (cases "r = 0")
    case False
    then show ?thesis using r unfolding d nanos_per_sec_def by auto
  qed (simp add: d nanos_per_sec_def)
  then show ?thesis by (simp add: ceil_secs_def from_secs_def q_def r_def)
qed

lemma ceil_secs_0_iff [simp]: "ceil_secs d = 0 \<longleftrightarrow> d = 0"
  by (auto simp: ceil_secs_def nanos_per_sec_def)

section \<open>Transition systems\<close>

inductive reachable :: "('s \<Rightarrow> bool) \<Rightarrow> ('s \<Rightarrow> 's \<Rightarrow> bool) \<Rightarrow> 's \<Rightarrow> bool" for start step where
  reach_start: "start s \<Longrightarrow> reachable start step s"
| reach_step: "reachable start step s \<Longrightarrow> step s t \<Longrightarrow> reachable start step t"

locale transition_system =
  fixes start :: "'s \<Rightarrow> bool"
    and step :: "'s \<Rightarrow> 's \<Rightarrow> bool"
    and invariant :: "'s \<Rightarrow> bool"
  assumes invariant_start: "start s \<Longrightarrow> invariant s"
    and invariant_step: "invariant s \<Longrightarrow> step s t \<Longrightarrow> invariant t"
begin

lemma reachable_invariant: "reachable start step s \<Longrightarrow> invariant s"
  by (induction rule: reachable.induct) (auto intro: invariant_start invariant_step)

end

end
