(* ===== verification/Byte_Budget.thy ===== *)
theory Byte_Budget
  imports Rust_Prelude "HOL-Library.Multiset"
begin

text \<open>
  \<open>infisical-mcp/src/files/budget.rs\<close>: the shared byte budget of the file plane. The counter is a
  64-bit word that wraps, as \<open>fetch_sub\<close> does; each operation is one atomic update. The contract
  its owners rely on is the locale \<open>reservation_ledger\<close>: the counter is the sum of the live
  reservations and never passes the limit.
\<close>

section \<open>The counter\<close>

record byte_budget =
  bb_limit :: usize
  bb_used :: usize

type_synonym reservation = usize

definition budget_new :: "usize \<Rightarrow> byte_budget" where
  "budget_new limit = \<lparr>bb_limit = limit, bb_used = 0\<rparr>"

definition budget_reserve :: "usize \<Rightarrow> byte_budget \<Rightarrow> (byte_budget \<times> reservation) option" where
  "budget_reserve bytes b =
     (case checked_add (bb_used b) bytes of
        None \<Rightarrow> None
      | Some new_used \<Rightarrow>
          if new_used \<le> bb_limit b then Some (b\<lparr>bb_used := new_used\<rparr>, bytes) else None)"

text \<open>\<open>shrink\<close>; \<open>None\<close> is its assertion panic.\<close>

definition reservation_shrink ::
    "usize \<Rightarrow> reservation \<Rightarrow> byte_budget \<Rightarrow> (byte_budget \<times> reservation) option" where
  "reservation_shrink bytes r b =
     (if \<not> bytes \<le> r then None
      else Some (b\<lparr>bb_used := bb_used b - (r - bytes)\<rparr>, bytes))"

definition reservation_drop :: "reservation \<Rightarrow> byte_budget \<Rightarrow> byte_budget" where
  "reservation_drop r b = b\<lparr>bb_used := bb_used b - r\<rparr>"

section \<open>The contract\<close>

locale reservation_ledger =
  fixes capacity :: "'b \<Rightarrow> nat"
    and used :: "'b \<Rightarrow> nat"
    and size_of :: "'r \<Rightarrow> nat"
    and reserve :: "'r \<Rightarrow> 'b \<Rightarrow> ('b \<times> 'r) option"
    and shrink :: "'r \<Rightarrow> 'r \<Rightarrow> 'b \<Rightarrow> ('b \<times> 'r) option"
    and release :: "'r \<Rightarrow> 'b \<Rightarrow> 'b"
  assumes reserve_Some: "reserve n b = Some (b', r) \<Longrightarrow>
      r = n \<and> used b' = used b + size_of n \<and> used b' \<le> capacity b' \<and> capacity b' = capacity b"
    and reserve_None: "reserve n b = None \<Longrightarrow> capacity b < used b + size_of n"
    and shrink_Some: "shrink n r b = Some (b', r') \<Longrightarrow> size_of r \<le> used b \<Longrightarrow>
      r' = n \<and> size_of n \<le> size_of r \<and> used b' = used b - (size_of r - size_of n)
      \<and> capacity b' = capacity b"
    and shrink_None: "shrink n r b = None \<Longrightarrow> size_of r < size_of n"
    and release_used: "size_of r \<le> used b \<Longrightarrow>
      used (release r b) = used b - size_of r \<and> capacity (release r b) = capacity b"
begin

definition held :: "'r multiset \<Rightarrow> nat" where
  "held rs = (\<Sum>r \<in># rs. size_of r)"

definition balanced :: "'r multiset \<Rightarrow> 'b \<Rightarrow> bool" where
  "balanced rs b \<longleftrightarrow> used b = held rs \<and> used b \<le> capacity b"

lemma held_simps [simp]:
  "held {#} = 0" "held (add_mset r rs) = size_of r + held rs" "held (rs + ss) = held rs + held ss"
  by (simp_all add: held_def)

lemma balanced_reserve:
  "balanced rs b \<Longrightarrow> reserve n b = Some (b', r) \<Longrightarrow>
     balanced (add_mset r rs) b' \<and> capacity b' = capacity b"
  using reserve_Some [of n b b' r] by (auto simp: balanced_def)

lemma balanced_release:
  "balanced (add_mset r rs) b \<Longrightarrow> balanced rs (release r b) \<and> capacity (release r b) = capacity b"
  using release_used [of r b] by (auto simp: balanced_def)

lemma balanced_shrink:
  "balanced (add_mset r rs) b \<Longrightarrow> shrink n r b = Some (b', r') \<Longrightarrow>
     balanced (add_mset r' rs) b' \<and> capacity b' = capacity b \<and> r' = n"
  using shrink_Some [of n r b b' r'] by (auto simp: balanced_def)

lemma balanced_capacity: "balanced rs b \<Longrightarrow> held rs \<le> capacity b"
  by (simp add: balanced_def)

lemma reserve_refused: "balanced rs b \<Longrightarrow> reserve n b = None \<Longrightarrow> capacity b < held rs + size_of n"
  using reserve_None [of n b] by (simp add: balanced_def)

lemma balanced_release_all:
  "balanced (mset xs + rs) b \<Longrightarrow>
     balanced rs (fold release xs b) \<and> capacity (fold release xs b) = capacity b"
proof (induction xs arbitrary: b)
  case (Cons x xs)
  then have "balanced (add_mset x (mset xs + rs)) b" by simp
  from balanced_release [OF this] Cons.IH [of "release x b"] show ?case by simp
qed simp

end

section \<open>The counter keeps the contract\<close>

interpretation ledger: reservation_ledger "\<lambda>b. unat (bb_limit b)" "\<lambda>b. unat (bb_used b)"
  "\<lambda>r :: reservation. unat r" budget_reserve reservation_shrink reservation_drop
proof
  fix n b b' r
  assume "budget_reserve n b = Some (b', r)"
  then show "r = n \<and> unat (bb_used b') = unat (bb_used b) + unat n
      \<and> unat (bb_used b') \<le> unat (bb_limit b') \<and> unat (bb_limit b') = unat (bb_limit b)"
    by (auto simp: budget_reserve_def word_le_nat_alt checked_add_Some split: option.splits if_splits)
next
  fix n b
  assume a: "budget_reserve n b = None"
  show "unat (bb_limit b) < unat (bb_used b) + unat n"
  proof (cases "checked_add (bb_used b) n")
    case None
    then have "2 ^ 64 \<le> unat (bb_used b) + unat n" by (simp add: checked_add_None)
    moreover have "unat (bb_limit b) < 2 ^ 64" using unsigned_less [of "bb_limit b"] by simp
    ultimately show ?thesis by linarith
  next
    case (Some c)
    with a show ?thesis
      using checked_add_Some [OF Some]
      by (simp add: budget_reserve_def word_le_nat_alt split: if_splits)
  qed
next
  fix n r b b' r'
  assume s: "reservation_shrink n r b = Some (b', r')" and le: "unat r \<le> unat (bb_used b)"
  from s have n: "n \<le> r" "r' = n" "b' = b\<lparr>bb_used := bb_used b - (r - n)\<rparr>"
    by (auto simp: reservation_shrink_def split: if_splits)
  from n(1) have d: "unat (r - n) = unat r - unat n" by (rule unat_sub)
  then have "r - n \<le> bb_used b" using le by (simp add: word_le_nat_alt)
  from unat_sub [OF this] d n show "r' = n \<and> unat n \<le> unat r \<and>
      unat (bb_used b') = unat (bb_used b) - (unat r - unat n) \<and> unat (bb_limit b') = unat (bb_limit b)"
    by (simp add: word_le_nat_alt)
next
  fix n r b
  assume "reservation_shrink n r b = None"
  then show "unat r < unat n"
    by (simp add: reservation_shrink_def word_le_nat_alt split: if_splits)
next
  fix r :: reservation and b :: byte_budget
  assume "unat r \<le> unat (bb_used b)"
  then show "unat (bb_used (reservation_drop r b)) = unat (bb_used b) - unat r
      \<and> unat (bb_limit (reservation_drop r b)) = unat (bb_limit b)"
    by (simp add: reservation_drop_def unat_sub word_le_nat_alt)
qed

lemma shrink_within: "n \<le> r \<Longrightarrow> \<exists>b'. reservation_shrink n r b = Some (b', n)"
  by (simp add: reservation_shrink_def)

section \<open>Owners\<close>

text \<open>Any interleaving of owners: each step is one atomic update by some owner.\<close>

record ledger_state =
  ls_budget :: byte_budget
  ls_live :: "reservation multiset"

inductive ledger_step :: "ledger_state \<Rightarrow> ledger_state \<Rightarrow> bool" where
  ls_reserve: "budget_reserve n (ls_budget s) = Some (b, r) \<Longrightarrow>
    ledger_step s \<lparr>ls_budget = b, ls_live = add_mset r (ls_live s)\<rparr>"
| ls_refuse: "budget_reserve n (ls_budget s) = None \<Longrightarrow> ledger_step s s"
| ls_shrink: "ls_live s = add_mset r live \<Longrightarrow> reservation_shrink n r (ls_budget s) = Some (b, r') \<Longrightarrow>
    ledger_step s \<lparr>ls_budget = b, ls_live = add_mset r' live\<rparr>"
| ls_drop: "ls_live s = add_mset r live \<Longrightarrow>
    ledger_step s \<lparr>ls_budget = reservation_drop r (ls_budget s), ls_live = live\<rparr>"

definition ledger_start :: "usize \<Rightarrow> ledger_state \<Rightarrow> bool" where
  "ledger_start limit s \<longleftrightarrow> s = \<lparr>ls_budget = budget_new limit, ls_live = {#}\<rparr>"

definition ledger_inv :: "usize \<Rightarrow> ledger_state \<Rightarrow> bool" where
  "ledger_inv limit s \<longleftrightarrow> unat (bb_limit (ls_budget s)) = unat limit \<and> ledger.balanced (ls_live s) (ls_budget s)"

lemma ledger_inv_step: "ledger_inv limit s \<Longrightarrow> ledger_step s t \<Longrightarrow> ledger_inv limit t"
  by (erule ledger_step.cases)
    (auto simp: ledger_inv_def dest: ledger.balanced_reserve ledger.balanced_shrink ledger.balanced_release)

interpretation budget: transition_system "ledger_start limit" ledger_step "ledger_inv limit" for limit
proof
  fix s
  assume "ledger_start limit s"
  then show "ledger_inv limit s"
    by (simp add: ledger_start_def ledger_inv_def budget_new_def ledger.balanced_def)
qed (rule ledger_inv_step)

text \<open>
  C36: Under any interleaving of reservations, shrinks and drops the wrapping counter is exactly the
  sum of the live reservations and within the limit, so it never underflows; a reservation is
  refused only when it would really pass the limit.
\<close>

theorem budget_exact:
  assumes "reachable (ledger_start limit) ledger_step s"
  shows "unat (bb_used (ls_budget s)) = (\<Sum>r \<in># ls_live s. unat r)
    \<and> (\<Sum>r \<in># ls_live s. unat r) \<le> unat limit
    \<and> (\<forall>n. budget_reserve n (ls_budget s) = None \<longleftrightarrow> unat limit < (\<Sum>r \<in># ls_live s. unat r) + unat n)"
proof -
  from budget.reachable_invariant [OF assms] have lim: "unat (bb_limit (ls_budget s)) = unat limit"
    and bal: "ledger.balanced (ls_live s) (ls_budget s)" by (simp_all add: ledger_inv_def)
  have "budget_reserve n (ls_budget s) = None \<longleftrightarrow> unat limit < ledger.held (ls_live s) + unat n" for n
  proof
    assume "unat limit < ledger.held (ls_live s) + unat n"
    then show "budget_reserve n (ls_budget s) = None"
      using ledger.reserve_Some [of n "ls_budget s"] bal lim
      by (cases "budget_reserve n (ls_budget s)") (force simp: ledger.balanced_def)+
  next
    assume "budget_reserve n (ls_budget s) = None"
    then show "unat limit < ledger.held (ls_live s) + unat n"
      using ledger.reserve_refused [OF bal] lim by auto
  qed
  with bal lim show ?thesis by (auto simp: ledger.balanced_def ledger.held_def)
qed

lemma budget_exact_witness:
  "\<exists>s. reachable (ledger_start 10) ledger_step s \<and> unat (bb_used (ls_budget s)) = 8
     \<and> budget_reserve 3 (ls_budget s) = None"
proof -
  let ?b = "\<lparr>bb_limit = 10, bb_used = 8\<rparr> :: byte_budget"
  have r: "budget_reserve 8 (budget_new 10) = Some (?b, 8)"
    by (simp add: budget_reserve_def budget_new_def checked_add_def)
  have "reachable (ledger_start 10) ledger_step \<lparr>ls_budget = ?b, ls_live = {#8#}\<rparr>"
    using reach_step [OF reach_start, of "ledger_start 10" "\<lparr>ls_budget = budget_new 10, ls_live = {#}\<rparr>"
        ledger_step "\<lparr>ls_budget = ?b, ls_live = {#8#}\<rparr>"]
      ls_reserve [of 8 "\<lparr>ls_budget = budget_new 10, ls_live = {#}\<rparr>" ?b 8] r
    by (simp add: ledger_start_def)
  from this budget_exact [OF this] show ?thesis by (intro exI) auto
qed

end
