(* ===== verification/File_Plane.thy ===== *)
theory File_Plane
  imports Byte_Budget
begin

text \<open>
  The secret file transfer plane of \<open>infisical-mcp/src/files.rs\<close>. One value of \<open>plane\<close> is
  everything behind the state lock together with the byte budget; each public method is one
  function on it, run at a given instant. Hash maps are association lists; an insertion that
  overwrites releases the old entry's reservation, as dropping it does. Random tokens, SHA-256 and
  base64 decoding are parameters. \<open>None\<close> stands for a panic.
\<close>

section \<open>Types\<close>

definition staged_uri_prefix :: string where "staged_uri_prefix = ''mcp-file://infisical/''"
definition download_route_prefix :: string where "download_route_prefix = ''/files/download/''"
definition upload_route_prefix :: string where "upload_route_prefix = ''/files/upload/''"
definition transfer_credential_header :: string where
  "transfer_credential_header = ''Infisical-Transfer-Credential''"
definition envelope_media_type :: string where "envelope_media_type = ''application/json''"
definition max_upload_bytes :: usize where "max_upload_bytes = 65536"
definition max_envelope_bytes :: usize where "max_envelope_bytes = 134217728"

datatype file_error =
    Unknown_Reference
  | Bad_Credential
  | Too_Many_Staged nat
  | Byte_Capacity
  | Upload_Too_Large u64
  | Size_Mismatch
  | Digest_Mismatch
  | Unsupported_Digest

fun file_error_code :: "file_error \<Rightarrow> string" where
  "file_error_code Unknown_Reference = ''infisical_file_unknown_reference''"
| "file_error_code Bad_Credential = ''infisical_file_bad_credential''"
| "file_error_code (Too_Many_Staged _) = ''infisical_file_too_many_staged''"
| "file_error_code Byte_Capacity = ''infisical_file_byte_capacity''"
| "file_error_code (Upload_Too_Large _) = ''infisical_file_upload_too_large''"
| "file_error_code Size_Mismatch = ''infisical_file_size_mismatch''"
| "file_error_code Digest_Mismatch = ''infisical_file_digest_mismatch''"
| "file_error_code Unsupported_Digest = ''infisical_file_unsupported_digest''"

definition public_code :: "file_error \<Rightarrow> string" where
  "public_code e =
     (if e = Unknown_Reference \<or> e = Bad_Credential then ''infisical_file_unauthorized''
      else file_error_code e)"

record secret_file_reference =
  ref_uri :: string
  ref_name :: string
  ref_mime_type :: string

record transfer_descriptor =
  td_transport :: string
  td_method :: string
  td_url :: string
  td_headers :: "(string \<times> string) list"

record authorize_download_result =
  ad_file :: secret_file_reference
  ad_sensitivity :: string
  ad_download :: transfer_descriptor

record upload_digest =
  dg_algorithm :: string
  dg_value :: string

record authorize_upload_params =
  up_name :: "string option"
  up_mime_type :: "string option"
  up_size :: "u64 option"
  up_digest :: "upload_digest option"

record echoed_file_value =
  ef_uri :: string
  ef_name :: "string option"
  ef_mime_type :: "string option"
  ef_size :: "u64 option"
  ef_digest :: "upload_digest option"

record authorize_upload_result =
  au_file :: echoed_file_value
  au_upload :: transfer_descriptor

record transfer_bytes =
  tb_bytes :: string
  tb_reservation :: reservation

record download_ticket =
  dt_id :: string
  dt_credential_hash :: string

record staged_secret =
  ss_envelope :: transfer_bytes
  ss_name :: string
  ss_staged_at :: nat
  ss_download :: "download_ticket option"

record upload_ticket =
  ut_staged_id :: string
  ut_credential_hash :: string
  ut_declared_size :: "u64 option"
  ut_promised_bytes :: usize
  ut_declared_digest :: "string option"
  ut_created_at :: nat
  ut_reservation :: reservation

record received_secret =
  rs_bytes :: transfer_bytes
  rs_staged_at :: nat

record file_config =
  fc_public_origin :: string
  fc_ttl :: nat
  fc_max_staged :: nat
  fc_max_staged_bytes :: usize

record plane =
  pl_config :: file_config
  pl_staged :: "(string \<times> staged_secret) list"
  pl_reserved :: nat
  pl_uploads :: "(string \<times> upload_ticket) list"
  pl_received :: "(string \<times> received_secret) list"
  pl_budget :: byte_budget

definition plane_new :: "file_config \<Rightarrow> plane" where
  "plane_new config =
     \<lparr>pl_config = config, pl_staged = [], pl_reserved = 0, pl_uploads = [], pl_received = [],
      pl_budget = budget_new (fc_max_staged_bytes config)\<rparr>"

section \<open>Reservations of map entries\<close>

definition ss_reservation :: "staged_secret \<Rightarrow> reservation" where
  "ss_reservation e = tb_reservation (ss_envelope e)"
definition rs_reservation :: "received_secret \<Rightarrow> reservation" where
  "rs_reservation e = tb_reservation (rs_bytes e)"

definition entry_reservations :: "('v \<Rightarrow> reservation) \<Rightarrow> (string \<times> 'v) list \<Rightarrow> reservation list" where
  "entry_reservations res m = map (res \<circ> snd) m"

definition dropped_for :: "('v \<Rightarrow> reservation) \<Rightarrow> string \<Rightarrow> (string \<times> 'v) list \<Rightarrow> reservation list" where
  "dropped_for res k m = (case map_of m k of None \<Rightarrow> [] | Some old \<Rightarrow> [res old])"

section \<open>Sweeping and counting\<close>

definition live :: "nat \<Rightarrow> nat \<Rightarrow> nat \<Rightarrow> bool" where
  "live ttl now since \<longleftrightarrow> now - since \<le> ttl"

definition sweep_locked :: "nat \<Rightarrow> plane \<Rightarrow> plane" where
  "sweep_locked now pl =
     (let ttl = fc_ttl (pl_config pl);
          keep_s = (\<lambda>(_, e). live ttl now (ss_staged_at e));
          keep_u = (\<lambda>(_, t). live ttl now (ut_created_at t));
          keep_r = (\<lambda>(_, e). live ttl now (rs_staged_at e));
          dropped = entry_reservations ss_reservation (filter (Not \<circ> keep_s) (pl_staged pl))
                    @ entry_reservations ut_reservation (filter (Not \<circ> keep_u) (pl_uploads pl))
                    @ entry_reservations rs_reservation (filter (Not \<circ> keep_r) (pl_received pl))
      in pl\<lparr>pl_staged := filter keep_s (pl_staged pl),
            pl_uploads := filter keep_u (pl_uploads pl),
            pl_received := filter keep_r (pl_received pl),
            pl_budget := fold reservation_drop dropped (pl_budget pl)\<rparr>)"

definition outstanding :: "plane \<Rightarrow> nat" where
  "outstanding pl =
     length (pl_staged pl) + pl_reserved pl + length (pl_uploads pl) + length (pl_received pl)"

definition transport :: "plane \<Rightarrow> string" where
  "transport pl =
     (if prefix ''https://'' (fc_public_origin (pl_config pl)) then ''https'' else ''http'')"

section \<open>Staging\<close>

text \<open>A \<open>StageSlot\<close> is the reservation it owns; it is consumed by \<open>stage\<close> or dropped once.\<close>

definition reserve :: "nat \<Rightarrow> plane \<Rightarrow> (file_error, reservation) result \<times> plane" where
  "reserve now pl =
     (let pl = sweep_locked now pl; out = outstanding pl in
      if fc_max_staged (pl_config pl) \<le> out then (Err (Too_Many_Staged out), pl)
      else
        case budget_reserve max_envelope_bytes (pl_budget pl) of
          None \<Rightarrow> (Err Byte_Capacity, pl)
        | Some (b, slot) \<Rightarrow> (Ok slot, pl\<lparr>pl_budget := b, pl_reserved := pl_reserved pl + 1\<rparr>))"

definition drop_slot :: "reservation \<Rightarrow> plane \<Rightarrow> plane" where
  "drop_slot slot pl =
     pl\<lparr>pl_reserved := pl_reserved pl - 1, pl_budget := reservation_drop slot (pl_budget pl)\<rparr>"

definition file_reference :: "string \<Rightarrow> string \<Rightarrow> secret_file_reference" where
  "file_reference ident name =
     \<lparr>ref_uri = staged_uri_prefix @ ident, ref_name = name, ref_mime_type = envelope_media_type\<rparr>"

definition stage ::
    "nat \<Rightarrow> string \<Rightarrow> reservation \<Rightarrow> string \<Rightarrow> string \<Rightarrow> plane
      \<Rightarrow> (secret_file_reference \<times> plane) option" where
  "stage now ident slot operation envelope pl =
     (case reservation_shrink (of_nat (length envelope)) slot (pl_budget pl) of
        None \<Rightarrow> None
      | Some (b, r) \<Rightarrow>
          (let name = operation @ ''.json'';
               entry = \<lparr>ss_envelope = \<lparr>tb_bytes = envelope, tb_reservation = r\<rparr>,
                        ss_name = name, ss_staged_at = now, ss_download = None\<rparr>
           in Some (file_reference ident name,
                pl\<lparr>pl_reserved := pl_reserved pl - 1,
                   pl_staged := AList.update ident entry (pl_staged pl),
                   pl_budget := fold reservation_drop
                     (dropped_for ss_reservation ident (pl_staged pl)) b\<rparr>)))"

section \<open>Downloads\<close>

definition authorize_download ::
    "(string \<Rightarrow> string) \<Rightarrow> nat \<Rightarrow> string \<Rightarrow> string \<Rightarrow> string \<Rightarrow> plane
      \<Rightarrow> (file_error, authorize_download_result) result \<times> plane" where
  "authorize_download sha256 now download_id credential uri pl =
     (case strip_prefix staged_uri_prefix uri of
        None \<Rightarrow> (Err Unknown_Reference, pl)
      | Some ident \<Rightarrow>
          (let pl = sweep_locked now pl in
           case map_of (pl_staged pl) ident of
             None \<Rightarrow> (Err Unknown_Reference, pl)
           | Some entry \<Rightarrow>
               (let ticket = \<lparr>dt_id = download_id, dt_credential_hash = sha256 credential\<rparr> in
                (Ok \<lparr>ad_file = file_reference ident (ss_name entry), ad_sensitivity = ''secret'',
                     ad_download = \<lparr>td_transport = transport pl, td_method = ''GET'',
                       td_url = fc_public_origin (pl_config pl) @ download_route_prefix @ download_id,
                       td_headers = [(transfer_credential_header, credential)]\<rparr>\<rparr>,
                 pl\<lparr>pl_staged :=
                      AList.update ident (entry\<lparr>ss_download := Some ticket\<rparr>) (pl_staged pl)\<rparr>))))"

definition has_download_id :: "string \<Rightarrow> string \<times> staged_secret \<Rightarrow> bool" where
  "has_download_id download_id kv =
     (case ss_download (snd kv) of None \<Rightarrow> False | Some t \<Rightarrow> dt_id t = download_id)"

definition serve ::
    "(string \<Rightarrow> string) \<Rightarrow> nat \<Rightarrow> string \<Rightarrow> string \<Rightarrow> plane
      \<Rightarrow> (file_error, transfer_bytes) result \<times> plane" where
  "serve sha256 now download_id credential pl =
     (let pl = sweep_locked now pl in
      case List.find (has_download_id download_id) (pl_staged pl) of
        None \<Rightarrow> (Err Unknown_Reference, pl)
      | Some (key, entry) \<Rightarrow>
          (case ss_download entry of
             None \<Rightarrow> (Err Unknown_Reference, pl)
           | Some ticket \<Rightarrow>
               if sha256 credential \<noteq> dt_credential_hash ticket then (Err Bad_Credential, pl)
               else (Ok (ss_envelope entry), pl\<lparr>pl_staged := AList.delete key (pl_staged pl)\<rparr>)))"

section \<open>Uploads\<close>

definition decode_digest :: "(string \<Rightarrow> string option) \<Rightarrow> string \<Rightarrow> (file_error, string) result" where
  "decode_digest decode_base64 v =
     (case decode_base64 v of
        None \<Rightarrow> Err Unsupported_Digest
      | Some raw \<Rightarrow> if length raw = 32 then Ok raw else Err Unsupported_Digest)"

definition declared_digest ::
    "(string \<Rightarrow> string option) \<Rightarrow> upload_digest option \<Rightarrow> (file_error, string option) result" where
  "declared_digest decode_base64 d =
     (case d of
        None \<Rightarrow> Ok None
      | Some digest \<Rightarrow>
          if \<not> eq_ignore_ascii_case (dg_algorithm digest) ''sha-256'' then Err Unsupported_Digest
          else and_then (decode_digest decode_base64 (dg_value digest)) (\<lambda>raw. Ok (Some raw)))"

text \<open>The part of \<open>authorize_upload\<close> under the lock, then the whole.\<close>

definition authorize_upload_locked ::
    "(string \<Rightarrow> string) \<Rightarrow> nat \<Rightarrow> string \<Rightarrow> string \<Rightarrow> string
      \<Rightarrow> authorize_upload_params \<Rightarrow> string option \<Rightarrow> plane
      \<Rightarrow> (file_error, authorize_upload_result) result \<times> plane" where
  "authorize_upload_locked sha256 now upload_id staged_id credential params digest pl =
     (let pl = sweep_locked now pl; out = outstanding pl in
      if fc_max_staged (pl_config pl) \<le> out then (Err (Too_Many_Staged out), pl)
      else
        let promised = (case up_size params of Some declared \<Rightarrow> declared | None \<Rightarrow> max_upload_bytes) in
        case budget_reserve promised (pl_budget pl) of
          None \<Rightarrow> (Err Byte_Capacity, pl)
        | Some (b, r) \<Rightarrow>
            (let ticket = \<lparr>ut_staged_id = staged_id, ut_credential_hash = sha256 credential,
                    ut_declared_size = up_size params, ut_promised_bytes = promised,
                    ut_declared_digest = digest, ut_created_at = now, ut_reservation = r\<rparr>
             in (Ok \<lparr>au_file = \<lparr>ef_uri = staged_uri_prefix @ staged_id, ef_name = up_name params,
                         ef_mime_type = up_mime_type params, ef_size = up_size params,
                         ef_digest = up_digest params\<rparr>,
                     au_upload = \<lparr>td_transport = transport pl, td_method = ''PUT'',
                         td_url = fc_public_origin (pl_config pl) @ upload_route_prefix @ upload_id,
                         td_headers = [(transfer_credential_header, credential)]\<rparr>\<rparr>,
                 pl\<lparr>pl_uploads := AList.update upload_id ticket (pl_uploads pl),
                    pl_budget := fold reservation_drop
                      (dropped_for ut_reservation upload_id (pl_uploads pl)) b\<rparr>)))"

definition authorize_upload ::
    "(string \<Rightarrow> string) \<Rightarrow> (string \<Rightarrow> string option) \<Rightarrow> nat \<Rightarrow> string \<Rightarrow> string \<Rightarrow> string
      \<Rightarrow> authorize_upload_params \<Rightarrow> plane
      \<Rightarrow> (file_error, authorize_upload_result) result \<times> plane" where
  "authorize_upload sha256 decode_base64 now upload_id staged_id credential params pl =
     (let too_large = (case up_size params of
            Some declared \<Rightarrow> if max_upload_bytes < declared then Some (Upload_Too_Large declared) else None
          | None \<Rightarrow> None)
      in case too_large of
           Some e \<Rightarrow> (Err e, pl)
         | None \<Rightarrow>
             (case declared_digest decode_base64 (up_digest params) of
                Inl e \<Rightarrow> (Err e, pl)
              | Inr digest \<Rightarrow>
                  authorize_upload_locked sha256 now upload_id staged_id credential params digest pl))"

text \<open>An \<open>UploadClaim\<close> is the ticket it owns, until it completes or is dropped.\<close>

definition claim_upload ::
    "(string \<Rightarrow> string) \<Rightarrow> nat \<Rightarrow> string \<Rightarrow> string \<Rightarrow> plane
      \<Rightarrow> (file_error, upload_ticket) result \<times> plane" where
  "claim_upload sha256 now upload_id credential pl =
     (let pl = sweep_locked now pl in
      case map_of (pl_uploads pl) upload_id of
        None \<Rightarrow> (Err Unknown_Reference, pl)
      | Some ticket \<Rightarrow>
          if sha256 credential \<noteq> ut_credential_hash ticket then (Err Bad_Credential, pl)
          else (Ok ticket, pl\<lparr>pl_uploads := AList.delete upload_id (pl_uploads pl),
                             pl_reserved := pl_reserved pl + 1\<rparr>))"

definition drop_claim :: "upload_ticket \<Rightarrow> plane \<Rightarrow> plane" where
  "drop_claim ticket pl =
     pl\<lparr>pl_reserved := pl_reserved pl - 1,
        pl_budget := reservation_drop (ut_reservation ticket) (pl_budget pl)\<rparr>"

definition upload_check ::
    "(string \<Rightarrow> string) \<Rightarrow> upload_ticket \<Rightarrow> string \<Rightarrow> usize \<Rightarrow> file_error option" where
  "upload_check sha256 ticket bytes capacity =
     (if unat max_upload_bytes < length bytes \<or> ut_promised_bytes ticket < capacity then Some Size_Mismatch
      else if (case ut_declared_size ticket of Some n \<Rightarrow> length bytes \<noteq> unat n | None \<Rightarrow> False)
      then Some Size_Mismatch
      else if (case ut_declared_digest ticket of Some d \<Rightarrow> sha256 bytes \<noteq> d | None \<Rightarrow> False)
      then Some Digest_Mismatch
      else None)"

text \<open>\<open>complete\<close>, for a buffer of the given capacity; an early return drops the claim.\<close>

definition complete ::
    "(string \<Rightarrow> string) \<Rightarrow> nat \<Rightarrow> upload_ticket \<Rightarrow> string \<Rightarrow> usize \<Rightarrow> plane
      \<Rightarrow> ((file_error, unit) result \<times> plane) option" where
  "complete sha256 now ticket bytes capacity pl =
     (case upload_check sha256 ticket bytes capacity of
        Some e \<Rightarrow> Some (Err e, drop_claim ticket pl)
      | None \<Rightarrow>
          (case reservation_shrink capacity (ut_reservation ticket) (pl_budget pl) of
             None \<Rightarrow> None
           | Some (b, r) \<Rightarrow>
               (let entry = \<lparr>rs_bytes = \<lparr>tb_bytes = bytes, tb_reservation = r\<rparr>, rs_staged_at = now\<rparr>
                in Some (Ok (),
                     pl\<lparr>pl_reserved := pl_reserved pl - 1,
                        pl_received := AList.update (ut_staged_id ticket) entry (pl_received pl),
                        pl_budget := fold reservation_drop
                          (dropped_for rs_reservation (ut_staged_id ticket) (pl_received pl)) b\<rparr>))))"

definition take_received :: "nat \<Rightarrow> string \<Rightarrow> plane \<Rightarrow> string option \<times> plane" where
  "take_received now uri pl =
     (case strip_prefix staged_uri_prefix uri of
        None \<Rightarrow> (None, pl)
      | Some ident \<Rightarrow>
          (let pl = sweep_locked now pl in
           case map_of (pl_received pl) ident of
             None \<Rightarrow> (None, pl)
           | Some entry \<Rightarrow>
               (Some (tb_bytes (rs_bytes entry)),
                pl\<lparr>pl_received := AList.delete ident (pl_received pl),
                   pl_budget := reservation_drop (rs_reservation entry) (pl_budget pl)\<rparr>)))"

end
