(* ===== verification/File_Plane_System.thy ===== *)
theory File_Plane_System
  imports File_Plane
begin

text \<open>
  The transfer plane under concurrent use: the state behind the lock together with everything its
  callers still own (slots, claims, transfers in flight), as a transition system whose steps are
  the locked sections. The invariants count slots, claims and bytes exactly and follow every
  identifier ever minted; tokens are fresh, which is what the platform's random generator is
  relied on for.
\<close>

section \<open>Association lists\<close>

lemma mset_update:
  "mset (entry_reservations res (AList.update k v m)) + mset (dropped_for res k m) =
     add_mset (res v) (mset (entry_reservations res m))"
  by (induction m) (auto simp: entry_reservations_def dropped_for_def)

lemma delete_absent: "k \<notin> fst ` set m \<Longrightarrow> AList.delete k m = m"
  by (induction m) auto

lemma mset_delete:
  "distinct (map fst m) \<Longrightarrow> map_of m k = Some v \<Longrightarrow>
     mset (entry_reservations res m) = add_mset (res v) (mset (entry_reservations res (AList.delete k m)))"
  by (induction m) (auto simp: entry_reservations_def delete_absent split: if_splits)

lemma length_update_le: "length (AList.update k v m) \<le> Suc (length m)"
  by (induction m) auto

lemma length_update_in: "map_of m k = Some w \<Longrightarrow> length (AList.update k v m) = length m"
  by (induction m) (auto split: if_splits)

lemma length_delete_in:
  "distinct (map fst m) \<Longrightarrow> map_of m k = Some v \<Longrightarrow> length m = Suc (length (AList.delete k m))"
  by (induction m) (auto simp: delete_absent split: if_splits)

lemma mset_filter_split:
  "mset (entry_reservations res m) =
     mset (entry_reservations res (filter P m)) + mset (entry_reservations res (filter (Not \<circ> P) m))"
  by (induction m) (auto simp: entry_reservations_def)

lemma set_update_cases:
  "kv \<in> set (AList.update k v m) \<Longrightarrow> distinct (map fst m) \<Longrightarrow>
     kv = (k, v) \<or> (kv \<in> set m \<and> fst kv \<noteq> k)"
  by (induction m) (auto split: if_splits intro: rev_image_eqI)

lemma set_delete_cases: "kv \<in> set (AList.delete k m) \<Longrightarrow> kv \<in> set m \<and> fst kv \<noteq> k"
  by (auto simp: AList.delete_eq)

section \<open>Accounting\<close>

definition plane_reservations :: "plane \<Rightarrow> reservation multiset" where
  "plane_reservations pl =
     mset (entry_reservations ss_reservation (pl_staged pl))
     + mset (entry_reservations ut_reservation (pl_uploads pl))
     + mset (entry_reservations rs_reservation (pl_received pl))"

definition accounted :: "reservation multiset \<Rightarrow> plane \<Rightarrow> bool" where
  "accounted ext pl \<longleftrightarrow> ledger.balanced (plane_reservations pl + ext) (pl_budget pl)
     \<and> unat (bb_limit (pl_budget pl)) = unat (fc_max_staged_bytes (pl_config pl))"

lemma accounted_release:
  assumes "accounted ext' pl"
    and split: "plane_reservations pl + ext' = mset xs + (plane_reservations pl' + ext)"
    and budget: "pl_budget pl' = fold reservation_drop xs (pl_budget pl)"
    and config: "pl_config pl' = pl_config pl"
  shows "accounted ext pl'"
proof -
  have "ledger.balanced (mset xs + (plane_reservations pl' + ext)) (pl_budget pl)"
    using assms(1) unfolding accounted_def split by blast
  from ledger.balanced_release_all [OF this] assms(1) show ?thesis
    unfolding accounted_def budget config by simp
qed

lemma accounted_sweep: "accounted ext pl \<Longrightarrow> accounted ext (sweep_locked now pl)"
proof -
  assume a: "accounted ext pl"
  let ?s = "\<lambda>(_ :: string, e). live (fc_ttl (pl_config pl)) now (ss_staged_at e)"
  let ?u = "\<lambda>(_ :: string, t). live (fc_ttl (pl_config pl)) now (ut_created_at t)"
  let ?r = "\<lambda>(_ :: string, e). live (fc_ttl (pl_config pl)) now (rs_staged_at e)"
  let ?d = "entry_reservations ss_reservation (filter (Not \<circ> ?s) (pl_staged pl))
       @ entry_reservations ut_reservation (filter (Not \<circ> ?u) (pl_uploads pl))
       @ entry_reservations rs_reservation (filter (Not \<circ> ?r) (pl_received pl))"
  show ?thesis
  proof (rule accounted_release [OF a, of ?d])
    show "plane_reservations pl + ext = mset ?d + (plane_reservations (sweep_locked now pl) + ext)"
      using mset_filter_split [of ss_reservation "pl_staged pl" ?s]
        mset_filter_split [of ut_reservation "pl_uploads pl" ?u]
        mset_filter_split [of rs_reservation "pl_received pl" ?r]
      by (simp add: plane_reservations_def sweep_locked_def Let_def ac_simps)
  qed (simp_all add: sweep_locked_def Let_def)
qed

lemma sweep_frame [simp]:
  "pl_reserved (sweep_locked now pl) = pl_reserved pl"
  "pl_config (sweep_locked now pl) = pl_config pl"
  by (simp_all add: sweep_locked_def Let_def)

lemma sweep_outstanding: "outstanding (sweep_locked now pl) \<le> outstanding pl"
  by (auto simp: outstanding_def sweep_locked_def Let_def intro!: add_mono)

text \<open>Inserting an entry for a reservation its owner hands over, and removing one.\<close>

lemma accounted_insert_staged:
  assumes "accounted (add_mset (ss_reservation e) ext) pl"
  shows "accounted ext (pl\<lparr>pl_staged := AList.update k e (pl_staged pl),
    pl_budget := fold reservation_drop (dropped_for ss_reservation k (pl_staged pl)) (pl_budget pl)\<rparr>)"
proof (rule accounted_release [OF assms, of "dropped_for ss_reservation k (pl_staged pl)"])
  show "plane_reservations pl + add_mset (ss_reservation e) ext =
      mset (dropped_for ss_reservation k (pl_staged pl)) + (plane_reservations
        (pl\<lparr>pl_staged := AList.update k e (pl_staged pl), pl_budget := fold reservation_drop
           (dropped_for ss_reservation k (pl_staged pl)) (pl_budget pl)\<rparr>) + ext)"
    using mset_update [of ss_reservation k e "pl_staged pl"]
    by (simp add: plane_reservations_def ac_simps)
qed simp_all

lemma accounted_insert_upload:
  assumes "accounted (add_mset (ut_reservation e) ext) pl"
  shows "accounted ext (pl\<lparr>pl_uploads := AList.update k e (pl_uploads pl),
    pl_budget := fold reservation_drop (dropped_for ut_reservation k (pl_uploads pl)) (pl_budget pl)\<rparr>)"
proof (rule accounted_release [OF assms, of "dropped_for ut_reservation k (pl_uploads pl)"])
  show "plane_reservations pl + add_mset (ut_reservation e) ext =
      mset (dropped_for ut_reservation k (pl_uploads pl)) + (plane_reservations
        (pl\<lparr>pl_uploads := AList.update k e (pl_uploads pl), pl_budget := fold reservation_drop
           (dropped_for ut_reservation k (pl_uploads pl)) (pl_budget pl)\<rparr>) + ext)"
    using mset_update [of ut_reservation k e "pl_uploads pl"]
    by (simp add: plane_reservations_def ac_simps)
qed simp_all

lemma accounted_insert_received:
  assumes "accounted (add_mset (rs_reservation e) ext) pl"
  shows "accounted ext (pl\<lparr>pl_received := AList.update k e (pl_received pl),
    pl_budget := fold reservation_drop (dropped_for rs_reservation k (pl_received pl)) (pl_budget pl)\<rparr>)"
proof (rule accounted_release [OF assms, of "dropped_for rs_reservation k (pl_received pl)"])
  show "plane_reservations pl + add_mset (rs_reservation e) ext =
      mset (dropped_for rs_reservation k (pl_received pl)) + (plane_reservations
        (pl\<lparr>pl_received := AList.update k e (pl_received pl), pl_budget := fold reservation_drop
           (dropped_for rs_reservation k (pl_received pl)) (pl_budget pl)\<rparr>) + ext)"
    using mset_update [of rs_reservation k e "pl_received pl"]
    by (simp add: plane_reservations_def ac_simps)
qed simp_all

lemma accounted_reserved [simp]: "accounted ext (pl\<lparr>pl_reserved := n\<rparr>) = accounted ext pl"
  by (simp add: accounted_def plane_reservations_def)

lemma accounted_shrink:
  assumes "accounted (add_mset r ext) pl" "reservation_shrink n r (pl_budget pl) = Some (b, r')"
  shows "accounted (add_mset r' ext) (pl\<lparr>pl_budget := b\<rparr>) \<and> r' = n"
  using assms ledger.balanced_shrink [of r "plane_reservations pl + ext" "pl_budget pl" n b r']
  by (auto simp: accounted_def plane_reservations_def)

lemma accounted_reserve:
  assumes "accounted ext pl" "budget_reserve n (pl_budget pl) = Some (b, r)"
  shows "accounted (add_mset r ext) (pl\<lparr>pl_budget := b\<rparr>) \<and> r = n"
  using assms ledger.balanced_reserve [of "plane_reservations pl + ext" "pl_budget pl" n b r]
    ledger.reserve_Some [of n "pl_budget pl" b r]
  by (simp add: accounted_def plane_reservations_def)

lemma accounted_drop:
  assumes "accounted (add_mset r ext) pl"
  shows "accounted ext (pl\<lparr>pl_budget := reservation_drop r (pl_budget pl)\<rparr>)"
  using assms ledger.balanced_release [of r "plane_reservations pl + ext" "pl_budget pl"]
  by (simp add: accounted_def plane_reservations_def)

lemma accounted_delete_staged:
  assumes "accounted ext pl" "distinct (map fst (pl_staged pl))" "map_of (pl_staged pl) k = Some e"
  shows "accounted (add_mset (ss_reservation e) ext) (pl\<lparr>pl_staged := AList.delete k (pl_staged pl)\<rparr>)"
  using assms mset_delete [of "pl_staged pl" k e ss_reservation]
  by (simp add: accounted_def plane_reservations_def)

lemma accounted_delete_upload:
  assumes "accounted ext pl" "distinct (map fst (pl_uploads pl))" "map_of (pl_uploads pl) k = Some e"
  shows "accounted (add_mset (ut_reservation e) ext) (pl\<lparr>pl_uploads := AList.delete k (pl_uploads pl)\<rparr>)"
  using assms mset_delete [of "pl_uploads pl" k e ut_reservation]
  by (simp add: accounted_def plane_reservations_def)

lemma accounted_delete_received:
  assumes "accounted ext pl" "distinct (map fst (pl_received pl))" "map_of (pl_received pl) k = Some e"
  shows "accounted (add_mset (rs_reservation e) ext) (pl\<lparr>pl_received := AList.delete k (pl_received pl)\<rparr>)"
  using assms mset_delete [of "pl_received pl" k e rs_reservation]
  by (simp add: accounted_def plane_reservations_def)

section \<open>Names\<close>

definition no_download :: "string \<Rightarrow> plane \<Rightarrow> bool" where
  "no_download d pl \<longleftrightarrow> (\<forall>kv \<in> set (pl_staged pl). \<not> has_download_id d kv)"

definition named :: "string set \<Rightarrow> plane \<Rightarrow> bool" where
  "named M pl \<longleftrightarrow>
     distinct (map fst (pl_staged pl)) \<and> distinct (map fst (pl_uploads pl))
     \<and> distinct (map fst (pl_received pl))
     \<and> (\<forall>kv \<in> set (pl_staged pl). fst kv \<in> M) \<and> (\<forall>kv \<in> set (pl_uploads pl). fst kv \<in> M)
     \<and> (\<forall>d. d \<notin> M \<longrightarrow> no_download d pl)
     \<and> (\<forall>a \<in> set (pl_staged pl). \<forall>b \<in> set (pl_staged pl). \<forall>d.
          has_download_id d a \<and> has_download_id d b \<longrightarrow> a = b)
     \<and> (\<forall>kv \<in> set (pl_uploads pl). ut_reservation (snd kv) = ut_promised_bytes (snd kv))"

lemma no_download_sweep: "no_download d pl \<Longrightarrow> no_download d (sweep_locked now pl)"
  by (auto simp: no_download_def sweep_locked_def Let_def)

lemma named_sweep: "named M pl \<Longrightarrow> named M (sweep_locked now pl)"
  by (auto simp: named_def no_download_def sweep_locked_def Let_def distinct_map_filter)

lemma named_mono: "named M pl \<Longrightarrow> M \<subseteq> N \<Longrightarrow> named N pl"
  unfolding named_def by blast

lemma named_irrelevant [simp]:
  "named M (pl\<lparr>pl_reserved := n\<rparr>) = named M pl" "named M (pl\<lparr>pl_budget := b\<rparr>) = named M pl"
  "no_download d (pl\<lparr>pl_reserved := n\<rparr>) = no_download d pl"
  "no_download d (pl\<lparr>pl_budget := b\<rparr>) = no_download d pl"
  "no_download d (pl\<lparr>pl_uploads := u\<rparr>) = no_download d pl"
  "no_download d (pl\<lparr>pl_received := r\<rparr>) = no_download d pl"
  by (simp_all add: named_def no_download_def)

lemma outstanding_irrelevant [simp]: "outstanding (pl\<lparr>pl_budget := b\<rparr>) = outstanding pl"
  by (simp add: outstanding_def)

section \<open>The system\<close>

record system =
  sy_now :: nat
  sy_plane :: plane
  sy_slots :: "reservation multiset"
  sy_claims :: "upload_ticket multiset"
  sy_transfers :: "reservation multiset"
  sy_minted :: "string set"
  sy_served :: "string list"
  sy_claimed :: "string list"

definition external :: "system \<Rightarrow> reservation multiset" where
  "external s = sy_slots s + image_mset ut_reservation (sy_claims s) + sy_transfers s"

definition sys_start :: "file_config \<Rightarrow> system \<Rightarrow> bool" where
  "sys_start config s \<longleftrightarrow> sy_plane s = plane_new config \<and> sy_slots s = {#} \<and> sy_claims s = {#}
     \<and> sy_transfers s = {#} \<and> sy_served s = [] \<and> sy_claimed s = []"

inductive file_step ::
    "(string \<Rightarrow> string) \<Rightarrow> (string \<Rightarrow> string option) \<Rightarrow> system \<Rightarrow> system \<Rightarrow> bool"
  for sha256 decode where
  fs_tick: "file_step sha256 decode s (s\<lparr>sy_now := sy_now s + d\<rparr>)"
| fs_sweep: "file_step sha256 decode s (s\<lparr>sy_plane := sweep_locked (sy_now s) (sy_plane s)\<rparr>)"
| fs_reserve:
    "reserve (sy_now s) (sy_plane s) = (Ok slot, pl) \<Longrightarrow>
     file_step sha256 decode s (s\<lparr>sy_plane := pl, sy_slots := add_mset slot (sy_slots s)\<rparr>)"
| fs_refuse:
    "reserve (sy_now s) (sy_plane s) = (Err e, pl) \<Longrightarrow> file_step sha256 decode s (s\<lparr>sy_plane := pl\<rparr>)"
| fs_stage:
    "sy_slots s = add_mset slot slots \<Longrightarrow> ident \<notin> sy_minted s \<Longrightarrow>
     length envelope \<le> unat max_envelope_bytes \<Longrightarrow>
     stage (sy_now s) ident slot operation envelope (sy_plane s) = Some (ref, pl) \<Longrightarrow>
     file_step sha256 decode s
       (s\<lparr>sy_plane := pl, sy_slots := slots, sy_minted := insert ident (sy_minted s)\<rparr>)"
| fs_drop_slot:
    "sy_slots s = add_mset slot slots \<Longrightarrow>
     file_step sha256 decode s (s\<lparr>sy_plane := drop_slot slot (sy_plane s), sy_slots := slots\<rparr>)"
| fs_authorize_download:
    "did \<notin> sy_minted s \<Longrightarrow> authorize_download sha256 (sy_now s) did cred uri (sy_plane s) = (r, pl) \<Longrightarrow>
     file_step sha256 decode s (s\<lparr>sy_plane := pl, sy_minted := insert did (sy_minted s)\<rparr>)"
| fs_serve:
    "serve sha256 (sy_now s) did cred (sy_plane s) = (Ok tb, pl) \<Longrightarrow>
     file_step sha256 decode s (s\<lparr>sy_plane := pl,
       sy_transfers := add_mset (tb_reservation tb) (sy_transfers s), sy_served := did # sy_served s\<rparr>)"
| fs_serve_refuse:
    "serve sha256 (sy_now s) did cred (sy_plane s) = (Err e, pl) \<Longrightarrow>
     file_step sha256 decode s (s\<lparr>sy_plane := pl\<rparr>)"
| fs_drop_transfer:
    "sy_transfers s = add_mset r transfers \<Longrightarrow>
     file_step sha256 decode s (s\<lparr>sy_plane := (sy_plane s)\<lparr>pl_budget :=
       reservation_drop r (pl_budget (sy_plane s))\<rparr>, sy_transfers := transfers\<rparr>)"
| fs_authorize_upload:
    "uid \<notin> sy_minted s \<Longrightarrow>
     authorize_upload sha256 decode (sy_now s) uid sid cred params (sy_plane s) = (r, pl) \<Longrightarrow>
     file_step sha256 decode s (s\<lparr>sy_plane := pl, sy_minted := insert uid (sy_minted s)\<rparr>)"
| fs_claim:
    "claim_upload sha256 (sy_now s) uid cred (sy_plane s) = (Ok ticket, pl) \<Longrightarrow>
     file_step sha256 decode s (s\<lparr>sy_plane := pl, sy_claims := add_mset ticket (sy_claims s),
       sy_claimed := uid # sy_claimed s\<rparr>)"
| fs_claim_refuse:
    "claim_upload sha256 (sy_now s) uid cred (sy_plane s) = (Err e, pl) \<Longrightarrow>
     file_step sha256 decode s (s\<lparr>sy_plane := pl\<rparr>)"
| fs_complete:
    "sy_claims s = add_mset ticket claims \<Longrightarrow>
     complete sha256 (sy_now s) ticket bytes cap (sy_plane s) = Some (r, pl) \<Longrightarrow>
     file_step sha256 decode s (s\<lparr>sy_plane := pl, sy_claims := claims\<rparr>)"
| fs_drop_claim:
    "sy_claims s = add_mset ticket claims \<Longrightarrow>
     file_step sha256 decode s (s\<lparr>sy_plane := drop_claim ticket (sy_plane s), sy_claims := claims\<rparr>)"
| fs_take:
    "take_received (sy_now s) uri (sy_plane s) = (r, pl) \<Longrightarrow>
     file_step sha256 decode s (s\<lparr>sy_plane := pl\<rparr>)"

definition slots_counted :: "system \<Rightarrow> bool" where
  "slots_counted s \<longleftrightarrow> pl_reserved (sy_plane s) = size (sy_slots s) + size (sy_claims s)
     \<and> outstanding (sy_plane s) \<le> fc_max_staged (pl_config (sy_plane s))"

definition promises_kept :: "system \<Rightarrow> bool" where
  "promises_kept s \<longleftrightarrow> (\<forall>slot \<in># sy_slots s. slot = max_envelope_bytes)
     \<and> (\<forall>t \<in># sy_claims s. ut_reservation t = ut_promised_bytes t)"

definition history_ok :: "system \<Rightarrow> bool" where
  "history_ok s \<longleftrightarrow> distinct (sy_served s) \<and> distinct (sy_claimed s)
     \<and> (\<forall>d \<in> set (sy_served s). d \<in> sy_minted s \<and> no_download d (sy_plane s))
     \<and> (\<forall>u \<in> set (sy_claimed s). u \<in> sy_minted s \<and> u \<notin> fst ` set (pl_uploads (sy_plane s)))"

definition sys_inv :: "file_config \<Rightarrow> system \<Rightarrow> bool" where
  "sys_inv config s \<longleftrightarrow> pl_config (sy_plane s) = config
     \<and> accounted (external s) (sy_plane s) \<and> slots_counted s \<and> promises_kept s
     \<and> named (sy_minted s) (sy_plane s) \<and> history_ok s"

lemmas sys_inv_defs = sys_inv_def slots_counted_def promises_kept_def history_ok_def

lemma sys_inv_start: "sys_start config s \<Longrightarrow> sys_inv config s"
  by (simp add: sys_start_def sys_inv_defs plane_new_def named_def no_download_def accounted_def
      plane_reservations_def entry_reservations_def budget_new_def ledger.balanced_def external_def
      outstanding_def)

text \<open>Sweeping keeps everything, so each operation can be studied after its sweep.\<close>

lemma sys_inv_sweep:
  "sys_inv config s \<Longrightarrow> sys_inv config (s\<lparr>sy_plane := sweep_locked now (sy_plane s)\<rparr>)"
proof -
  assume inv: "sys_inv config s"
  have "history_ok (s\<lparr>sy_plane := sweep_locked now (sy_plane s)\<rparr>)"
    using inv by (auto simp: sys_inv_defs intro: no_download_sweep) (auto simp: sweep_locked_def Let_def)
  moreover have "external (s\<lparr>sy_plane := sweep_locked now (sy_plane s)\<rparr>) = external s"
    by (simp add: external_def)
  moreover have "outstanding (sweep_locked now (sy_plane s)) \<le> fc_max_staged (pl_config (sy_plane s))"
    using inv sweep_outstanding [of now "sy_plane s"] by (auto simp: sys_inv_defs)
  ultimately show ?thesis
    using inv by (auto simp: sys_inv_def slots_counted_def promises_kept_def accounted_sweep named_sweep)
qed

section \<open>Every locked section keeps the invariant\<close>

lemma inv_reserve_ok:
  assumes inv: "sys_inv config s" and op: "reserve now (sy_plane s) = (Ok slot, pl)"
  shows "sys_inv config (s\<lparr>sy_plane := pl, sy_slots := add_mset slot (sy_slots s)\<rparr>)"
proof -
  let ?p = "sweep_locked now (sy_plane s)"
  note inv1 = sys_inv_sweep [OF inv, of now]
  from op obtain b where b: "budget_reserve max_envelope_bytes (pl_budget ?p) = Some (b, slot)"
    and pl: "pl = ?p\<lparr>pl_budget := b, pl_reserved := pl_reserved ?p + 1\<rparr>"
    and room: "outstanding ?p < fc_max_staged (pl_config ?p)"
    by (auto simp: reserve_def Let_def split: if_splits option.splits)
  have "accounted (external s) ?p" using inv1 by (simp add: sys_inv_def external_def)
  from accounted_reserve [OF this b] have "accounted (add_mset slot (external s)) pl" "slot = max_envelope_bytes"
    unfolding pl by auto
  then show ?thesis
    using inv1 room unfolding pl
    by (simp add: sys_inv_defs external_def outstanding_def)
qed

lemma inv_reserve_err:
  assumes inv: "sys_inv config s" and op: "reserve now (sy_plane s) = (Err e, pl)"
  shows "sys_inv config (s\<lparr>sy_plane := pl\<rparr>)"
proof -
  have "pl = sweep_locked now (sy_plane s)"
    using op by (auto simp: reserve_def Let_def split: if_splits option.splits)
  then show ?thesis using sys_inv_sweep [OF inv] by simp
qed

lemma update_absent: "k \<notin> fst ` set m \<Longrightarrow> AList.update k v m = m @ [(k, v)]"
  by (induction m) auto

lemma named_insert_staged:
  assumes n: "named M pl" and k: "k \<notin> M" and e: "ss_download e = None"
  shows "named (insert k M) (pl\<lparr>pl_staged := AList.update k e (pl_staged pl)\<rparr>)"
proof -
  have "\<not> has_download_id d (k, e)" for d using e by (simp add: has_download_id_def)
  moreover have "k \<notin> fst ` set (pl_staged pl)" using n k by (auto simp: named_def)
  ultimately show ?thesis
    using n unfolding named_def no_download_def by (auto simp: update_absent)
qed

lemma named_insert_upload:
  assumes n: "named M pl" and k: "k \<notin> M" and t: "ut_reservation t = ut_promised_bytes t"
  shows "named (insert k M) (pl\<lparr>pl_uploads := AList.update k t (pl_uploads pl)\<rparr>)"
proof -
  have "k \<notin> fst ` set (pl_uploads pl)" using n k by (auto simp: named_def)
  then show ?thesis
    using n t unfolding named_def no_download_def by (auto simp: update_absent)
qed

text \<open>Attaching a freshly minted ticket to a staged entry.\<close>

lemma named_attach:
  assumes n: "named M pl" and d: "did \<notin> M" and e: "map_of (pl_staged pl) k = Some e"
    and t: "dt_id t = did"
  shows "named (insert did M)
    (pl\<lparr>pl_staged := AList.update k (e\<lparr>ss_download := Some t\<rparr>) (pl_staged pl)\<rparr>)"
proof -
  let ?m = "pl_staged pl" and ?e = "e\<lparr>ss_download := Some t\<rparr>"
  have ke: "(k, e) \<in> set ?m" using e by (rule map_of_SomeD)
  have dis: "distinct (map fst ?m)" using n by (simp add: named_def)
  have cases: "kv \<in> set (AList.update k ?e ?m) \<Longrightarrow> kv = (k, ?e) \<or> (kv \<in> set ?m \<and> fst kv \<noteq> k)" for kv
    by (rule set_update_cases [OF _ dis])
  have new: "has_download_id c (k, ?e) \<longleftrightarrow> c = did" for c
    using t by (auto simp: has_download_id_def)
  have old: "kv \<in> set ?m \<Longrightarrow> has_download_id c kv \<Longrightarrow> c \<in> M" for kv c
    using n by (auto simp: named_def no_download_def)
  have uniq: "has_download_id c a \<Longrightarrow> has_download_id c b \<Longrightarrow> a \<in> set (AList.update k ?e ?m)
      \<Longrightarrow> b \<in> set (AList.update k ?e ?m) \<Longrightarrow> a = b" for a b c
    using cases [of a] cases [of b] new old d n unfolding named_def by metis
  have keys: "kv \<in> set (AList.update k ?e ?m) \<Longrightarrow> fst kv \<in> M" for kv
    using cases [of kv] ke n unfolding named_def by force
  have none: "c \<notin> insert did M \<Longrightarrow> kv \<in> set (AList.update k ?e ?m) \<Longrightarrow> \<not> has_download_id c kv" for c kv
    using cases [of kv] new old by blast
  have "distinct (map fst (AList.update k ?e ?m))" using dis by (rule distinct_update)
  then show ?thesis
    using n uniq keys none unfolding named_def no_download_def by simp blast
qed

lemma no_download_attach:
  assumes "no_download c pl" "c \<noteq> did" "distinct (map fst (pl_staged pl))" "dt_id t = did"
  shows "no_download c (pl\<lparr>pl_staged := AList.update k (e\<lparr>ss_download := Some t\<rparr>) (pl_staged pl)\<rparr>)"
  using assms set_update_cases [of _ k "e\<lparr>ss_download := Some t\<rparr>" "pl_staged pl"]
  unfolding no_download_def by (force simp: has_download_id_def)

lemma inv_stage:
  assumes inv: "sys_inv config s" and slot: "sy_slots s = add_mset slot slots"
    and fresh: "ident \<notin> sy_minted s"
    and op: "stage now ident slot operation envelope (sy_plane s) = Some (ref, pl)"
  shows "sys_inv config (s\<lparr>sy_plane := pl, sy_slots := slots, sy_minted := insert ident (sy_minted s)\<rparr>)"
proof -
  let ?p = "sy_plane s"
  from op obtain b r where b: "reservation_shrink (of_nat (length envelope)) slot (pl_budget ?p) = Some (b, r)"
    by (auto simp: stage_def split: option.splits)
  define e where "e = \<lparr>ss_envelope = \<lparr>tb_bytes = envelope, tb_reservation = r\<rparr>,
      ss_name = operation @ ''.json'', ss_staged_at = now, ss_download = None\<rparr>"
  have e: "ss_reservation e = r" "ss_download e = None" by (simp_all add: e_def ss_reservation_def)
  have pl: "pl = ?p\<lparr>pl_reserved := pl_reserved ?p - 1, pl_staged := AList.update ident e (pl_staged ?p),
      pl_budget := fold reservation_drop (dropped_for ss_reservation ident (pl_staged ?p)) b\<rparr>"
    using op b by (simp add: stage_def Let_def e_def)
  let ?ext = "slots + image_mset ut_reservation (sy_claims s) + sy_transfers s"
  have "accounted (add_mset slot ?ext) ?p"
    using inv slot by (simp add: sys_inv_def external_def)
  from accounted_shrink [OF this b] have "accounted (add_mset (ss_reservation e) ?ext) (?p\<lparr>pl_budget := b\<rparr>)"
    using e by auto
  from accounted_insert_staged [OF this, of ident] have acc: "accounted ?ext pl"
    unfolding pl accounted_def plane_reservations_def by simp
  have "named (sy_minted s) ?p" using inv by (simp add: sys_inv_def)
  from named_insert_staged [OF this fresh e(2)] have nam: "named (insert ident (sy_minted s)) pl"
    unfolding pl named_def no_download_def by simp
  have key: "ident \<notin> fst ` set (pl_staged ?p)" using inv fresh by (auto simp: sys_inv_def named_def)
  have "\<not> has_download_id d (ident, e)" for d using e by (simp add: has_download_id_def)
  then have hist: "no_download d pl" if "no_download d ?p" for d
    using that key unfolding pl no_download_def by (auto simp: update_absent)
  show ?thesis
    using inv slot acc nam hist key unfolding sys_inv_defs external_def
    by (auto simp: pl outstanding_def update_absent)
qed

lemma inv_drop_slot:
  assumes inv: "sys_inv config s" and slot: "sy_slots s = add_mset slot slots"
  shows "sys_inv config (s\<lparr>sy_plane := drop_slot slot (sy_plane s), sy_slots := slots\<rparr>)"
proof -
  let ?ext = "slots + image_mset ut_reservation (sy_claims s) + sy_transfers s"
  have "accounted (add_mset slot ?ext) (sy_plane s)"
    using inv slot by (simp add: sys_inv_def external_def)
  from accounted_drop [OF this] have "accounted ?ext (drop_slot slot (sy_plane s))"
    by (simp add: drop_slot_def accounted_def plane_reservations_def)
  with inv slot show ?thesis
    unfolding sys_inv_defs external_def drop_slot_def
    by (auto simp: outstanding_def named_def no_download_def)
qed

lemma authorize_download_cases:
  assumes "authorize_download sha256 now did cred uri p0 = (r, pl)"
  obtains "pl = p0" | "pl = sweep_locked now p0"
  | k e t where "map_of (pl_staged (sweep_locked now p0)) k = Some e" "dt_id t = did"
      "pl = (sweep_locked now p0)\<lparr>pl_staged := AList.update k (e\<lparr>ss_download := Some t\<rparr>)
         (pl_staged (sweep_locked now p0))\<rparr>"
proof (cases "strip_prefix staged_uri_prefix uri")
  case None
  with assms that(1) show ?thesis by (simp add: authorize_download_def)
next
  case (Some k)
  show ?thesis
  proof (cases "map_of (pl_staged (sweep_locked now p0)) k")
    case None
    with assms that(2) Some show ?thesis by (simp add: authorize_download_def Let_def)
  next
    case (Some e)
    show ?thesis
      by (rule that(3) [OF Some, of "\<lparr>dt_id = did, dt_credential_hash = sha256 cred\<rparr>"])
        (use assms \<open>strip_prefix staged_uri_prefix uri = Some k\<close> Some in
          \<open>auto simp: authorize_download_def Let_def\<close>)
  qed
qed

lemma inv_authorize_download:
  assumes inv: "sys_inv config s" and fresh: "did \<notin> sy_minted s"
    and op: "authorize_download sha256 now did cred uri (sy_plane s) = (r, pl)"
  shows "sys_inv config (s\<lparr>sy_plane := pl, sy_minted := insert did (sy_minted s)\<rparr>)"
proof -
  let ?p = "sweep_locked now (sy_plane s)"
  note inv1 = sys_inv_sweep [OF inv, of now]
  have mono: "named (insert did (sy_minted s)) ?p" "named (insert did (sy_minted s)) (sy_plane s)"
    using inv inv1 named_mono [OF _ subset_insertI] by (auto simp: sys_inv_def)
  from op show ?thesis
  proof (cases rule: authorize_download_cases)
    case 1
    with inv mono show ?thesis by (auto simp: sys_inv_defs external_def)
  next
    case 2
    with inv1 mono show ?thesis by (auto simp: sys_inv_defs external_def)
  next
    case (3 k e t)
    have n: "named (sy_minted s) ?p" using inv1 by (simp add: sys_inv_def)
    from named_attach [OF n fresh 3(1,2)] have "named (insert did (sy_minted s)) pl" by (simp add: 3)
    moreover have "plane_reservations pl = plane_reservations ?p"
      using mset_update [of ss_reservation k "e\<lparr>ss_download := Some t\<rparr>" "pl_staged ?p"] 3
      by (simp add: plane_reservations_def dropped_for_def ss_reservation_def)
    moreover have "length (pl_staged pl) = length (pl_staged ?p)"
      using 3 by (simp add: length_update_in)
    moreover have "no_download c ?p \<Longrightarrow> c \<in> sy_minted s \<Longrightarrow> no_download c pl" for c
      using no_download_attach [of c ?p did t k e] n fresh 3 by (auto simp: named_def)
    ultimately show ?thesis
      using inv1 3 unfolding sys_inv_defs external_def accounted_def outstanding_def by auto
  qed
qed

lemma find_serve:
  "List.find P m = Some (k, e) \<Longrightarrow> distinct (map fst m) \<Longrightarrow> map_of m k = Some e \<and> P (k, e) \<and> (k, e) \<in> set m"
  by (auto simp: find_Some_iff)

lemma inv_serve_ok:
  assumes inv: "sys_inv config s"
    and op: "serve sha256 now did cred (sy_plane s) = (Ok tb, pl)"
  shows "sys_inv config (s\<lparr>sy_plane := pl,
    sy_transfers := add_mset (tb_reservation tb) (sy_transfers s), sy_served := did # sy_served s\<rparr>)"
proof -
  let ?p = "sweep_locked now (sy_plane s)"
  note inv1 = sys_inv_sweep [OF inv, of now]
  have n: "named (sy_minted s) ?p" using inv1 by (simp add: sys_inv_def)
  from op obtain k e where f: "List.find (has_download_id did) (pl_staged ?p) = Some (k, e)"
    and pl: "pl = ?p\<lparr>pl_staged := AList.delete k (pl_staged ?p)\<rparr>" and tb: "tb = ss_envelope e"
    by (auto simp: serve_def Let_def split: option.splits if_splits)
  have ke: "map_of (pl_staged ?p) k = Some e" "has_download_id did (k, e)" "(k, e) \<in> set (pl_staged ?p)"
    using find_serve [OF f] n by (auto simp: named_def)
  have dis: "distinct (map fst (pl_staged ?p))" using n by (simp add: named_def)
  have "accounted (external s) ?p" using inv1 by (simp add: sys_inv_def external_def)
  from accounted_delete_staged [OF this dis ke(1)]
  have acc: "accounted (add_mset (tb_reservation tb) (external s)) pl"
    unfolding pl tb by (simp add: ss_reservation_def)
  have sub: "kv \<in> set (pl_staged pl) \<Longrightarrow> kv \<in> set (pl_staged ?p) \<and> fst kv \<noteq> k" for kv
    using set_delete_cases [of kv k "pl_staged ?p"] by (simp add: pl)
  have "distinct (map fst (pl_staged pl))" using dis by (simp add: pl distinct_delete)
  then have nam: "named (sy_minted s) pl"
    using n sub unfolding named_def no_download_def by (auto simp: pl)
  have gone: "no_download did pl"
    using sub n ke unfolding no_download_def named_def by (metis fst_conv)
  have minted: "did \<in> sy_minted s" using n ke unfolding named_def no_download_def by blast
  have keep: "no_download c ?p \<Longrightarrow> no_download c pl" for c using sub by (auto simp: no_download_def)
  have notyet: "did \<notin> set (sy_served s)"
    using inv1 ke unfolding sys_inv_def history_ok_def no_download_def by auto
  have len: "outstanding pl \<le> outstanding ?p"
    using length_delete_in [OF dis ke(1)] by (simp add: outstanding_def pl)
  show ?thesis
    using inv1 acc nam gone minted keep notyet len unfolding sys_inv_defs external_def
    by (auto simp: pl intro: le_trans)
qed

lemma inv_serve_err:
  assumes inv: "sys_inv config s" and op: "serve sha256 now did cred (sy_plane s) = (Err e, pl)"
  shows "sys_inv config (s\<lparr>sy_plane := pl\<rparr>)"
proof -
  have "pl = sweep_locked now (sy_plane s)"
    using op by (auto simp: serve_def Let_def split: option.splits if_splits)
  then show ?thesis using sys_inv_sweep [OF inv] by simp
qed

lemma inv_drop_transfer:
  assumes inv: "sys_inv config s" and t: "sy_transfers s = add_mset r transfers"
  shows "sys_inv config (s\<lparr>sy_plane := (sy_plane s)\<lparr>pl_budget :=
       reservation_drop r (pl_budget (sy_plane s))\<rparr>, sy_transfers := transfers\<rparr>)"
proof -
  let ?ext = "sy_slots s + image_mset ut_reservation (sy_claims s) + transfers"
  have "accounted (add_mset r ?ext) (sy_plane s)" using inv t by (simp add: sys_inv_def external_def)
  from accounted_drop [OF this] inv show ?thesis unfolding sys_inv_defs external_def by auto
qed

lemma authorize_upload_cases:
  assumes "authorize_upload sha256 decode now uid sid cred params p0 = (r, pl)"
  obtains "pl = p0" "\<exists>e. r = Err e" | "pl = sweep_locked now p0" "\<exists>e. r = Err e"
  | b res t where "outstanding (sweep_locked now p0) < fc_max_staged (pl_config p0)"
      "budget_reserve (ut_promised_bytes t) (pl_budget (sweep_locked now p0)) = Some (b, res)"
      "ut_reservation t = res" "ut_created_at t = now" "\<exists>a. r = Ok a"
      "pl = (sweep_locked now p0)\<lparr>pl_uploads := AList.update uid t (pl_uploads (sweep_locked now p0)),
         pl_budget := fold reservation_drop
           (dropped_for ut_reservation uid (pl_uploads (sweep_locked now p0))) b\<rparr>"
proof (cases "declared_digest decode (up_digest params)")
  case (Inl e)
  with assms that(1) show ?thesis
    by (auto simp: authorize_upload_def Let_def split: option.splits if_splits)
next
  case (Inr digest)
  let ?p = "sweep_locked now p0"
  let ?n = "case up_size params of Some declared \<Rightarrow> declared | None \<Rightarrow> max_upload_bytes"
  show ?thesis
  proof (cases "pl = p0 \<and> (\<exists>e. r = Err e)")
    case True
    with that(1) show ?thesis by blast
  next
    case False
    with assms Inr have op: "authorize_upload_locked sha256 now uid sid cred params digest p0 = (r, pl)"
      by (auto simp: authorize_upload_def Let_def split: option.splits if_splits)
    show ?thesis
    proof (cases "fc_max_staged (pl_config p0) \<le> outstanding ?p \<or> budget_reserve ?n (pl_budget ?p) = None")
      case True
      with op that(2) show ?thesis
        by (auto simp: authorize_upload_locked_def Let_def split: if_splits)
    next
      case no: False
      then obtain b res where b: "budget_reserve ?n (pl_budget ?p) = Some (b, res)" by auto
      define t where "t = \<lparr>ut_staged_id = sid, ut_credential_hash = sha256 cred,
                    ut_declared_size = up_size params, ut_promised_bytes = ?n,
                    ut_declared_digest = digest, ut_created_at = now, ut_reservation = res\<rparr>"
      show ?thesis
        by (rule that(3) [of t b res])
          (use op no b in \<open>auto simp: authorize_upload_locked_def Let_def t_def\<close>)
    qed
  qed
qed

lemma inv_authorize_upload:
  assumes inv: "sys_inv config s" and fresh: "uid \<notin> sy_minted s"
    and op: "authorize_upload sha256 decode now uid sid cred params (sy_plane s) = (r, pl)"
  shows "sys_inv config (s\<lparr>sy_plane := pl, sy_minted := insert uid (sy_minted s)\<rparr>)"
proof -
  let ?p = "sweep_locked now (sy_plane s)"
  note inv1 = sys_inv_sweep [OF inv, of now]
  have mono: "named (insert uid (sy_minted s)) ?p" "named (insert uid (sy_minted s)) (sy_plane s)"
    using inv inv1 named_mono [OF _ subset_insertI] by (auto simp: sys_inv_def)
  from op show ?thesis
  proof (cases rule: authorize_upload_cases)
    case 1
    with inv mono show ?thesis by (auto simp: sys_inv_defs external_def)
  next
    case 2
    with inv1 mono show ?thesis by (auto simp: sys_inv_defs external_def)
  next
    case (3 b res t)
    have n: "named (sy_minted s) ?p" using inv1 by (simp add: sys_inv_def)
    have "accounted (external s) ?p" using inv1 by (simp add: sys_inv_def external_def)
    from accounted_reserve [OF this 3(2)] have a: "accounted (add_mset (ut_reservation t) (external s)) (?p\<lparr>pl_budget := b\<rparr>)"
      and prom: "ut_reservation t = ut_promised_bytes t" using 3 by auto
    from accounted_insert_upload [OF a, of uid] have acc: "accounted (external s) pl"
      unfolding 3 by simp
    from named_insert_upload [OF n fresh prom] have nam: "named (insert uid (sy_minted s)) pl"
      unfolding 3 by simp
    have key: "uid \<notin> fst ` set (pl_uploads ?p)" using n fresh by (auto simp: named_def)
    have "uid \<notin> set (sy_claimed s)" using inv fresh by (auto simp: sys_inv_defs)
    then show ?thesis
      using inv1 acc nam key 3(1) unfolding sys_inv_defs external_def
      by (auto simp: 3(6) outstanding_def update_absent no_download_def)
  qed
qed

lemma inv_claim_ok:
  assumes inv: "sys_inv config s"
    and op: "claim_upload sha256 now uid cred (sy_plane s) = (Ok ticket, pl)"
  shows "sys_inv config (s\<lparr>sy_plane := pl, sy_claims := add_mset ticket (sy_claims s),
       sy_claimed := uid # sy_claimed s\<rparr>)"
proof -
  let ?p = "sweep_locked now (sy_plane s)"
  note inv1 = sys_inv_sweep [OF inv, of now]
  have n: "named (sy_minted s) ?p" using inv1 by (simp add: sys_inv_def)
  from op have m: "map_of (pl_uploads ?p) uid = Some ticket"
    and pl: "pl = ?p\<lparr>pl_uploads := AList.delete uid (pl_uploads ?p), pl_reserved := pl_reserved ?p + 1\<rparr>"
    by (auto simp: claim_upload_def Let_def split: option.splits if_splits)
  have dis: "distinct (map fst (pl_uploads ?p))" using n by (simp add: named_def)
  have ke: "(uid, ticket) \<in> set (pl_uploads ?p)" using m by (rule map_of_SomeD)
  have "accounted (external s) ?p" using inv1 by (simp add: sys_inv_def external_def)
  from accounted_delete_upload [OF this dis m]
  have acc: "accounted (add_mset (ut_reservation ticket) (external s)) pl" unfolding pl by simp
  have sub: "kv \<in> set (pl_uploads pl) \<Longrightarrow> kv \<in> set (pl_uploads ?p) \<and> fst kv \<noteq> uid" for kv
    using set_delete_cases [of kv uid "pl_uploads ?p"] by (simp add: pl)
  have "distinct (map fst (pl_uploads pl))" using dis by (simp add: pl distinct_delete)
  then have nam: "named (sy_minted s) pl"
    using n sub unfolding named_def no_download_def by (auto simp: pl)
  have prom: "ut_reservation ticket = ut_promised_bytes ticket" "uid \<in> sy_minted s"
    using n ke unfolding named_def by auto
  have notyet: "uid \<notin> set (sy_claimed s)" using inv1 ke unfolding sys_inv_def history_ok_def by force
  have gone: "uid \<notin> fst ` set (pl_uploads pl)" using sub by force
  have keep: "c \<notin> fst ` set (pl_uploads ?p) \<Longrightarrow> c \<notin> fst ` set (pl_uploads pl)" for c using sub by force
  have len: "outstanding pl = outstanding ?p"
    using length_delete_in [OF dis m] by (simp add: outstanding_def pl)
  have nd: "no_download c pl = no_download c ?p" for c by (simp add: pl)
  have res: "pl_reserved pl = pl_reserved (sy_plane s) + 1" "pl_config pl = pl_config (sy_plane s)"
    by (simp_all add: pl)
  show ?thesis
    using inv1 acc nam prom notyet gone keep
    unfolding sys_inv_defs external_def by (auto simp: len nd res)
qed

lemma inv_claim_err:
  assumes inv: "sys_inv config s" and op: "claim_upload sha256 now uid cred (sy_plane s) = (Err e, pl)"
  shows "sys_inv config (s\<lparr>sy_plane := pl\<rparr>)"
proof -
  have "pl = sweep_locked now (sy_plane s)"
    using op by (auto simp: claim_upload_def Let_def split: option.splits if_splits)
  then show ?thesis using sys_inv_sweep [OF inv] by simp
qed

lemma inv_drop_claim:
  assumes inv: "sys_inv config s" and claim: "sy_claims s = add_mset ticket claims"
  shows "sys_inv config (s\<lparr>sy_plane := drop_claim ticket (sy_plane s), sy_claims := claims\<rparr>)"
proof -
  let ?ext = "sy_slots s + image_mset ut_reservation claims + sy_transfers s"
  have "accounted (add_mset (ut_reservation ticket) ?ext) (sy_plane s)"
    using inv claim by (simp add: sys_inv_def external_def)
  from accounted_drop [OF this] have "accounted ?ext (drop_claim ticket (sy_plane s))"
    by (simp add: drop_claim_def accounted_def plane_reservations_def)
  with inv claim show ?thesis
    unfolding sys_inv_defs external_def drop_claim_def
    by (auto simp: outstanding_def named_def no_download_def)
qed

lemma inv_complete:
  assumes inv: "sys_inv config s" and claim: "sy_claims s = add_mset ticket claims"
    and op: "complete sha256 now ticket bytes cap (sy_plane s) = Some (r, pl)"
  shows "sys_inv config (s\<lparr>sy_plane := pl, sy_claims := claims\<rparr>)"
proof (cases "upload_check sha256 ticket bytes cap")
  case (Some e)
  with op inv_drop_claim [OF inv claim] show ?thesis by (simp add: complete_def)
next
  case None
  let ?p = "sy_plane s"
  from op None obtain b res where b: "reservation_shrink cap (ut_reservation ticket) (pl_budget ?p) = Some (b, res)"
    by (auto simp: complete_def split: option.splits)
  define e where "e = \<lparr>rs_bytes = \<lparr>tb_bytes = bytes, tb_reservation = res\<rparr>, rs_staged_at = now\<rparr>"
  have pl: "pl = ?p\<lparr>pl_reserved := pl_reserved ?p - 1,
      pl_received := AList.update (ut_staged_id ticket) e (pl_received ?p),
      pl_budget := fold reservation_drop (dropped_for rs_reservation (ut_staged_id ticket) (pl_received ?p)) b\<rparr>"
    using op None b by (simp add: complete_def Let_def e_def)
  let ?ext = "sy_slots s + image_mset ut_reservation claims + sy_transfers s"
  have "accounted (add_mset (ut_reservation ticket) ?ext) ?p"
    using inv claim by (simp add: sys_inv_def external_def)
  from accounted_shrink [OF this b]
  have "accounted (add_mset (rs_reservation e) ?ext) (?p\<lparr>pl_budget := b\<rparr>)"
    by (auto simp: e_def rs_reservation_def)
  from accounted_insert_received [OF this, of "ut_staged_id ticket"] have acc: "accounted ?ext pl"
    unfolding pl accounted_def plane_reservations_def by simp
  have "distinct (map fst (pl_received pl))"
    using inv by (simp add: sys_inv_def named_def pl distinct_update)
  then have nam: "named (sy_minted s) pl"
    using inv by (auto simp: sys_inv_def named_def no_download_def pl)
  have "length (pl_received pl) \<le> Suc (length (pl_received ?p))" by (simp add: pl length_update_le)
  moreover have "outstanding ?p \<le> fc_max_staged config" "pl_reserved ?p = size (sy_slots s) + Suc (size claims)"
    using inv claim by (auto simp: sys_inv_defs)
  ultimately have out: "outstanding pl \<le> fc_max_staged config"
    by (simp add: outstanding_def pl)
  have hist: "history_ok (s\<lparr>sy_plane := pl, sy_claims := claims\<rparr>)"
    using inv by (simp add: sys_inv_defs pl no_download_def)
  show ?thesis
    using inv claim acc nam out hist unfolding sys_inv_def slots_counted_def promises_kept_def external_def
    by (auto simp: pl)
qed

lemma take_received_cases:
  assumes "take_received now uri p0 = (r, pl)"
  obtains "pl = p0" | "pl = sweep_locked now p0"
  | k e where "map_of (pl_received (sweep_locked now p0)) k = Some e"
      "pl = (sweep_locked now p0)\<lparr>pl_received := AList.delete k (pl_received (sweep_locked now p0)),
         pl_budget := reservation_drop (rs_reservation e) (pl_budget (sweep_locked now p0))\<rparr>"
proof (cases "strip_prefix staged_uri_prefix uri")
  case None
  with assms that(1) show ?thesis by (simp add: take_received_def)
next
  case (Some k)
  show ?thesis
  proof (cases "map_of (pl_received (sweep_locked now p0)) k")
    case None
    with assms that(2) Some show ?thesis by (simp add: take_received_def Let_def)
  next
    case (Some e)
    show ?thesis
      by (rule that(3) [OF Some])
        (use assms \<open>strip_prefix staged_uri_prefix uri = Some k\<close> Some in
          \<open>auto simp: take_received_def Let_def\<close>)
  qed
qed

lemma inv_take:
  assumes inv: "sys_inv config s" and op: "take_received now uri (sy_plane s) = (r, pl)"
  shows "sys_inv config (s\<lparr>sy_plane := pl\<rparr>)"
proof -
  let ?p = "sweep_locked now (sy_plane s)"
  note inv1 = sys_inv_sweep [OF inv, of now]
  from op show ?thesis
  proof (cases rule: take_received_cases)
    case 1
    with inv show ?thesis by simp
  next
    case 2
    with inv1 show ?thesis by simp
  next
    case (3 k e)
    have dis: "distinct (map fst (pl_received ?p))" using inv1 by (simp add: sys_inv_def named_def)
    have "accounted (external s) ?p" using inv1 by (simp add: sys_inv_def external_def)
    from accounted_drop [OF accounted_delete_received [OF this dis 3(1)]]
    have acc: "accounted (external s) pl" unfolding 3 by simp
    have "outstanding pl \<le> outstanding ?p"
      using length_delete_in [OF dis 3(1)] by (simp add: outstanding_def 3)
    then show ?thesis
      using inv1 acc dis unfolding sys_inv_defs external_def
      by (auto simp: 3(2) named_def no_download_def distinct_delete)
  qed
qed

lemma sys_inv_step:
  assumes inv: "sys_inv config s" and step: "file_step sha256 decode s t"
  shows "sys_inv config t"
  using step
proof cases
  case (fs_tick d)
  with inv show ?thesis by (auto simp: sys_inv_defs external_def)
qed (use inv in \<open>simp_all add: sys_inv_sweep inv_reserve_ok inv_reserve_err inv_stage inv_drop_slot
    inv_authorize_download inv_serve_ok inv_serve_err inv_drop_transfer inv_authorize_upload
    inv_claim_ok inv_claim_err inv_complete inv_drop_claim inv_take\<close>)

interpretation files: transition_system "sys_start config" "file_step sha256 decode" "sys_inv config"
  for config sha256 decode
  by unfold_locales (auto intro: sys_inv_start sys_inv_step)

end
