(* ===== verification/File_Plane_Properties.thy ===== *)
theory File_Plane_Properties
  imports File_Plane_System
begin

text \<open>
  What the transfer plane promises: exact capacity, infallible staging, single use, uniform
  refusals, and the two round trips (a staged envelope is downloaded, an upload is redeemed)
  byte for byte.
\<close>

section \<open>Capacity\<close>

definition small_config :: file_config where
  "small_config = \<lparr>fc_public_origin = ''https://files.example'', fc_ttl = from_secs 60,
     fc_max_staged = 4, fc_max_staged_bytes = 268435456\<rparr>"

definition idle_system :: system where
  "idle_system = \<lparr>sy_now = 0, sy_plane = plane_new small_config, sy_slots = {#}, sy_claims = {#},
     sy_transfers = {#}, sy_minted = {}, sy_served = [], sy_claimed = []\<rparr>"

lemma idle_reachable: "reachable (sys_start small_config) (file_step sha256 decode) idle_system"
  by (rule reach_start) (simp add: sys_start_def idle_system_def)

definition reserved_plane :: plane where
  "reserved_plane = (plane_new small_config)\<lparr>pl_budget := \<lparr>bb_limit = 268435456, bb_used = 134217728\<rparr>,
     pl_reserved := 1\<rparr>"

definition reserved_system :: system where
  "reserved_system = idle_system\<lparr>sy_plane := reserved_plane, sy_slots := {#max_envelope_bytes#}\<rparr>"

lemma sweep_new: "sweep_locked now (plane_new config) = plane_new config"
  by (simp add: sweep_locked_def plane_new_def Let_def entry_reservations_def)

lemma reserve_first: "reserve 0 (plane_new small_config) = (Ok max_envelope_bytes, reserved_plane)"
  by (simp add: reserve_def sweep_new Let_def)
    (simp add: reserved_plane_def plane_new_def small_config_def outstanding_def
      budget_reserve_def budget_new_def checked_add_def max_envelope_bytes_def)

lemma reserved_reachable:
  "reachable (sys_start small_config) (file_step sha256 decode) reserved_system"
proof (rule reach_step [OF idle_reachable])
  have "reserve (sy_now idle_system) (sy_plane idle_system) = (Ok max_envelope_bytes, reserved_plane)"
    by (simp add: idle_system_def reserve_first)
  from fs_reserve [OF this] show "file_step sha256 decode idle_system reserved_system"
    by (simp add: reserved_system_def idle_system_def)
qed

text \<open>
  C1: In every reachable state of the transfer plane, whatever its callers do and in whatever
  order, the staged, promised and received values together never exceed the configured ceiling,
  the promised count is exactly the slots and claims callers still hold, and the byte counter is
  exactly the sum of all reservations, including those of downloads in flight, within the limit.
\<close>

theorem plane_capacity:
  assumes "reachable (sys_start config) (file_step sha256 decode) s"
  shows "outstanding (sy_plane s) \<le> fc_max_staged config
    \<and> pl_reserved (sy_plane s) = size (sy_slots s) + size (sy_claims s)
    \<and> unat (bb_used (pl_budget (sy_plane s))) =
        (\<Sum>r \<in># plane_reservations (sy_plane s) + external s. unat r)
    \<and> (\<Sum>r \<in># plane_reservations (sy_plane s) + external s. unat r) \<le> unat (fc_max_staged_bytes config)"
proof -
  have inv: "sys_inv config s" by (rule files.reachable_invariant [OF assms])
  then have "pl_config (sy_plane s) = config" "slots_counted s" by (simp_all add: sys_inv_def)
  moreover have "accounted (external s) (sy_plane s)" using inv by (simp add: sys_inv_def)
  then have "unat (bb_used (pl_budget (sy_plane s))) = ledger.held (plane_reservations (sy_plane s) + external s)"
    and "ledger.held (plane_reservations (sy_plane s) + external s) \<le> unat (fc_max_staged_bytes (pl_config (sy_plane s)))"
    by (auto simp: accounted_def ledger.balanced_def simp del: ledger.held_simps)
  ultimately show ?thesis unfolding ledger.held_def slots_counted_def by simp
qed

lemma plane_capacity_witness:
  "outstanding (sy_plane reserved_system) \<le> 4 \<and> pl_reserved (sy_plane reserved_system) = 1"
  using plane_capacity [OF reserved_reachable]
  by (simp add: reserved_system_def idle_system_def small_config_def)

text \<open>
  C19: Staging and completing cannot fail: a slot obtained before the upstream call always accepts
  the envelope (which fits the envelope bound), and a claim always accepts or refuses its bytes
  with an error, so neither ever panics and a one-time credential is never lost for want of room.
\<close>

theorem staging_infallible:
  assumes "reachable (sys_start config) (file_step sha256 decode) s"
  shows "(slot \<in># sy_slots s \<and> length envelope \<le> unat max_envelope_bytes \<longrightarrow>
      (\<exists>pl. stage now ident slot operation envelope (sy_plane s) =
         Some (file_reference ident (operation @ ''.json''), pl)))
    \<and> (ticket \<in># sy_claims s \<longrightarrow> complete sha256 now ticket bytes cap (sy_plane s) \<noteq> None)"
proof -
  have inv: "sys_inv config s" by (rule files.reachable_invariant [OF assms])
  have st: "\<exists>pl. stage now ident slot operation envelope (sy_plane s) =
         Some (file_reference ident (operation @ ''.json''), pl)"
    if "slot \<in># sy_slots s" "length envelope \<le> unat max_envelope_bytes"
  proof -
    have "slot = max_envelope_bytes" using inv that by (simp add: sys_inv_def promises_kept_def)
    moreover have "of_nat (length envelope) \<le> max_envelope_bytes"
      using that(2) by (simp add: word_le_nat_alt unat_of_nat max_envelope_bytes_def)
    ultimately obtain b where "reservation_shrink (of_nat (length envelope)) slot (pl_budget (sy_plane s)) =
        Some (b, of_nat (length envelope))"
      using shrink_within by blast
    then show ?thesis by (simp add: stage_def Let_def)
  qed
  have "complete sha256 now ticket bytes cap (sy_plane s) \<noteq> None" if "ticket \<in># sy_claims s"
  proof -
    have t: "ut_reservation ticket = ut_promised_bytes ticket"
      using inv that by (simp add: sys_inv_def promises_kept_def)
    show ?thesis
    proof (cases "upload_check sha256 ticket bytes cap")
      case None
      then have "cap \<le> ut_reservation ticket"
        unfolding t by (auto simp: upload_check_def split: if_splits)
      then obtain b where "reservation_shrink cap (ut_reservation ticket) (pl_budget (sy_plane s)) = Some (b, cap)"
        using shrink_within by blast
      with None show ?thesis by (simp add: complete_def Let_def)
    qed (simp add: complete_def)
  qed
  with st show ?thesis by blast
qed

lemma staging_infallible_witness:
  "\<exists>pl. stage 0 ''i'' max_envelope_bytes ''op'' ''{}'' (sy_plane reserved_system) =
     Some (file_reference ''i'' ''op.json'', pl)"
proof -
  have "max_envelope_bytes \<in># sy_slots reserved_system" "length ''{}'' \<le> unat max_envelope_bytes"
    by (simp_all add: reserved_system_def max_envelope_bytes_def)
  then show ?thesis
    using staging_infallible [OF reserved_reachable, where slot = max_envelope_bytes
        and envelope = "''{}''" and now = 0 and ident = "''i''" and operation = "''op''"]
    by simp
qed

section \<open>Single use and refusals\<close>

lemma serve_absent:
  "no_download did pl \<Longrightarrow> serve sha256 now did cred pl = (Err Unknown_Reference, sweep_locked now pl)"
proof -
  assume "no_download did pl"
  then have "no_download did (sweep_locked now pl)" by (rule no_download_sweep)
  then have "List.find (has_download_id did) (pl_staged (sweep_locked now pl)) = None"
    by (auto simp: find_None_iff no_download_def)
  then show ?thesis by (simp add: serve_def Let_def)
qed

lemma claim_absent:
  "uid \<notin> fst ` set (pl_uploads pl) \<Longrightarrow>
     claim_upload sha256 now uid cred pl = (Err Unknown_Reference, sweep_locked now pl)"
proof -
  assume "uid \<notin> fst ` set (pl_uploads pl)"
  then have "uid \<notin> fst ` set (pl_uploads (sweep_locked now pl))"
    by (auto simp: sweep_locked_def Let_def)
  then have "map_of (pl_uploads (sweep_locked now pl)) uid = None"
    by (simp add: map_of_eq_None_iff)
  then show ?thesis by (simp add: claim_upload_def Let_def)
qed



text \<open>
  Every refusal on the download and upload routes looks the same on the wire, and costs the
  presented identifier nothing: the plane afterwards is what a plain sweep leaves, so a guess
  neither burns a live authorization nor reveals whether the identifier exists.
\<close>

theorem refusals_uniform:
  "(case serve sha256 now did cred pl of
      (Inl e, pl') \<Rightarrow> public_code e = ''infisical_file_unauthorized'' \<and> pl' = sweep_locked now pl
    | (Inr _, _) \<Rightarrow> True)
   \<and> (case claim_upload sha256 now uid cred pl of
      (Inl e, pl') \<Rightarrow> public_code e = ''infisical_file_unauthorized'' \<and> pl' = sweep_locked now pl
    | (Inr _, _) \<Rightarrow> True)"
  by (auto simp: serve_def claim_upload_def Let_def public_code_def split: option.splits)

section \<open>Round trips\<close>

lemma map_of_filter_in:
  "distinct (map fst m) \<Longrightarrow> map_of m k = Some v \<Longrightarrow> P (k, v) \<Longrightarrow> map_of (filter P m) k = Some v"
  by (induction m) (auto split: if_splits dest: map_of_SomeD)

lemma find_unique:
  "x \<in> set m \<Longrightarrow> P x \<Longrightarrow> (\<And>y. y \<in> set m \<Longrightarrow> P y \<Longrightarrow> y = x) \<Longrightarrow> List.find P m = Some x"
proof (induction m)
  case (Cons a m)
  show ?case
  proof (cases "P a")
    case True
    with Cons.prems(3) have "a = x" by (meson list.set_intros(1))
    with True show ?thesis by simp
  next
    case False
    with Cons.prems(1,2) have "x \<in> set m" by auto
    have "List.find P m = Some x"
      by (rule Cons.IH [OF \<open>x \<in> set m\<close> Cons.prems(2) Cons.prems(3) [OF list.set_intros(2)]])
    with False show ?thesis by simp
  qed
qed simp

lemma sweep_keeps_staged:
  "distinct (map fst (pl_staged pl)) \<Longrightarrow> map_of (pl_staged pl) k = Some e \<Longrightarrow>
     live (fc_ttl (pl_config pl)) now (ss_staged_at e) \<Longrightarrow>
     map_of (pl_staged (sweep_locked now pl)) k = Some e"
  by (simp add: sweep_locked_def Let_def map_of_filter_in)

lemma sweep_keeps_upload:
  "distinct (map fst (pl_uploads pl)) \<Longrightarrow> map_of (pl_uploads pl) k = Some e \<Longrightarrow>
     live (fc_ttl (pl_config pl)) now (ut_created_at e) \<Longrightarrow>
     map_of (pl_uploads (sweep_locked now pl)) k = Some e"
  by (simp add: sweep_locked_def Let_def map_of_filter_in)

lemma sweep_keeps_received:
  "distinct (map fst (pl_received pl)) \<Longrightarrow> map_of (pl_received pl) k = Some e \<Longrightarrow>
     live (fc_ttl (pl_config pl)) now (rs_staged_at e) \<Longrightarrow>
     map_of (pl_received (sweep_locked now pl)) k = Some e"
  by (simp add: sweep_locked_def Let_def map_of_filter_in)

lemma map_of_delete_self: "map_of (AList.delete k m) k = None"
  by (induction m) auto

lemma map_of_filter_none: "map_of m k = None \<Longrightarrow> map_of (filter P m) k = None"
  by (induction m) (auto split: if_splits)

lemma serve_ticket:
  assumes n: "named M pl" and m: "map_of (pl_staged pl) k = Some e"
    and t: "ss_download e = Some \<lparr>dt_id = did, dt_credential_hash = h\<rparr>"
    and l: "live (fc_ttl (pl_config pl)) now (ss_staged_at e)"
  shows "serve sha256 now did cred pl =
    (if sha256 cred = h
     then (Ok (ss_envelope e), (sweep_locked now pl)\<lparr>pl_staged := AList.delete k (pl_staged (sweep_locked now pl))\<rparr>)
     else (Err Bad_Credential, sweep_locked now pl))"
proof -
  let ?p = "sweep_locked now pl"
  have n1: "named M ?p" using n by (rule named_sweep)
  have m1: "map_of (pl_staged ?p) k = Some e"
    using n m l by (intro sweep_keeps_staged) (auto simp: named_def)
  have "has_download_id did (k, e)" by (simp add: has_download_id_def t)
  then have "List.find (has_download_id did) (pl_staged ?p) = Some (k, e)"
    using map_of_SomeD [OF m1] n1 unfolding named_def by (intro find_unique) blast+
  then show ?thesis by (simp add: serve_def Let_def t)
qed

text \<open>
  C21: A staged envelope comes back byte for byte. Within the time window the reference a tool
  result carried authorises a download whose metadata repeats it exactly, the credential the
  descriptor carries fetches the very bytes staged, and afterwards the reference is unknown.
\<close>

theorem staged_envelope_downloaded:
  assumes "named M pl" and "ident \<notin> M" and "did \<notin> insert ident M"
    and "stage t0 ident slot operation envelope pl = Some (ref, pl1)"
    and "t1 - t0 \<le> fc_ttl (pl_config pl)" and "t2 - t0 \<le> fc_ttl (pl_config pl)"
    and "authorize_download sha256 t1 did cred (ref_uri ref) pl1 = (r, pl2)"
  shows "\<exists>a tb pl3. r = Ok a \<and> ad_file a = ref
    \<and> td_headers (ad_download a) = [(transfer_credential_header, cred)]
    \<and> serve sha256 t2 did cred pl2 = (Ok tb, pl3) \<and> tb_bytes tb = envelope
    \<and> (\<forall>t3 did' cred'. fst (authorize_download sha256 t3 did' cred' (ref_uri ref) pl3) = Err Unknown_Reference)"
proof -
  from assms(4) obtain b res where b: "reservation_shrink (of_nat (length envelope)) slot (pl_budget pl) = Some (b, res)"
    by (auto simp: stage_def split: option.splits)
  define e where "e = \<lparr>ss_envelope = \<lparr>tb_bytes = envelope, tb_reservation = res\<rparr>,
      ss_name = operation @ ''.json'', ss_staged_at = t0, ss_download = None\<rparr>"
  define u where "u = e\<lparr>ss_download := Some \<lparr>dt_id = did, dt_credential_hash = sha256 cred\<rparr>\<rparr>"
  have ref: "ref = file_reference ident (ss_name e)"
    and pl1: "pl1 = pl\<lparr>pl_reserved := pl_reserved pl - 1, pl_staged := AList.update ident e (pl_staged pl),
      pl_budget := fold reservation_drop (dropped_for ss_reservation ident (pl_staged pl)) b\<rparr>"
    using assms(4) b by (simp_all add: stage_def Let_def e_def)
  have n1: "named (insert ident M) pl1"
    using named_insert_staged [OF assms(1,2), of e] unfolding pl1 by (simp add: e_def named_def no_download_def)
  let ?p = "sweep_locked t1 pl1"
  have cfg: "pl_config pl1 = pl_config pl" by (simp add: pl1)
  have "map_of (pl_staged pl1) ident = Some e" by (simp add: pl1 update_conv')
  then have m: "map_of (pl_staged ?p) ident = Some e"
    using n1 assms(5) by (intro sweep_keeps_staged) (auto simp: named_def cfg live_def e_def)
  have uri: "strip_prefix staged_uri_prefix (ref_uri ref) = Some ident"
    by (simp add: ref file_reference_def)
  have pl2: "pl2 = ?p\<lparr>pl_staged := AList.update ident u (pl_staged ?p)\<rparr>"
    and r: "\<exists>a. r = Ok a \<and> ad_file a = ref \<and> td_headers (ad_download a) = [(transfer_credential_header, cred)]"
    using assms(7) m uri by (auto simp: authorize_download_def Let_def u_def ref)
  have n2: "named (insert did (insert ident M)) pl2"
    unfolding pl2 u_def by (rule named_attach [OF named_sweep [OF n1] assms(3) m]) simp
  have m2: "map_of (pl_staged pl2) ident = Some u" by (simp add: pl2 update_conv')
  have l2: "live (fc_ttl (pl_config pl2)) t2 (ss_staged_at u)"
    using assms(6) by (simp add: pl2 cfg live_def u_def e_def)
  have tk: "ss_download u = Some \<lparr>dt_id = did, dt_credential_hash = sha256 cred\<rparr>" by (simp add: u_def)
  let ?pl3 = "(sweep_locked t2 pl2)\<lparr>pl_staged := AList.delete ident (pl_staged (sweep_locked t2 pl2))\<rparr>"
  have s: "serve sha256 t2 did cred pl2 = (Ok (ss_envelope u), ?pl3)"
    using serve_ticket [OF n2 m2 tk l2, of sha256 cred] by simp
  have "map_of (pl_staged (sweep_locked t3 ?pl3)) ident = None" for t3
    by (simp add: sweep_locked_def Let_def map_of_filter_none map_of_delete_self)
  then have "fst (authorize_download sha256 t3 did' cred' (ref_uri ref) ?pl3) = Err Unknown_Reference" for t3 did' cred'
    using uri by (simp add: authorize_download_def Let_def)
  moreover have "tb_bytes (ss_envelope u) = envelope" by (simp add: u_def e_def)
  ultimately show ?thesis using r s by blast
qed

lemma plane_new_named: "named {} (plane_new config)"
  by (simp add: named_def plane_new_def no_download_def)

definition staged_plane :: plane where
  "staged_plane = reserved_plane\<lparr>pl_reserved := 0,
     pl_staged := [(''s'', \<lparr>ss_envelope = \<lparr>tb_bytes = ''secret'', tb_reservation = 6\<rparr>,
       ss_name = ''op.json'', ss_staged_at = 0, ss_download = None\<rparr>)],
     pl_budget := \<lparr>bb_limit = 268435456, bb_used = 6\<rparr>\<rparr>"

lemma stage_example:
  "stage 0 ''s'' max_envelope_bytes ''op'' ''secret'' reserved_plane =
     Some (file_reference ''s'' ''op.json'', staged_plane)"
  by (simp add: stage_def reservation_shrink_def max_envelope_bytes_def Let_def staged_plane_def
      reserved_plane_def plane_new_def dropped_for_def)

lemma reserved_plane_named: "named {} reserved_plane"
  using plane_new_named [of small_config] by (simp add: reserved_plane_def)

lemma staged_envelope_downloaded_witness:
  "\<exists>a tb pl2 pl3. authorize_download id 5 ''d'' ''c'' (ref_uri (file_reference ''s'' ''op.json'')) staged_plane = (Ok a, pl2)
     \<and> ad_file a = file_reference ''s'' ''op.json''
     \<and> serve id 7 ''d'' ''c'' pl2 = (Ok tb, pl3) \<and> tb_bytes tb = ''secret''"
proof -
  obtain r pl2 where op: "authorize_download id 5 ''d'' ''c'' (ref_uri (file_reference ''s'' ''op.json'')) staged_plane = (r, pl2)"
    by force
  have ttl: "(5 :: nat) - 0 \<le> fc_ttl (pl_config reserved_plane)" "(7 :: nat) - 0 \<le> fc_ttl (pl_config reserved_plane)"
    by (simp_all add: reserved_plane_def plane_new_def small_config_def from_secs_def nanos_per_sec_def)
  show ?thesis
    using staged_envelope_downloaded [OF reserved_plane_named _ _ stage_example ttl op] op by auto
qed

text \<open>
  An uploaded value comes back byte for byte, once. After an authorisation the credential claims
  it within the window and learns the promised size; bytes that meet the declared size and digest
  are accepted, and the reference the authorisation returned then yields exactly those bytes, and
  nothing a second time.
\<close>

theorem upload_redeemed:
  assumes "named M pl" and "uid \<notin> M"
    and "authorize_upload sha256 decode t0 uid sid cred params pl = (Ok auth, pl1)"
    and "t1 - t0 \<le> fc_ttl (pl_config pl)"
    and "claim_upload sha256 t1 uid cred pl1 = (claimed, pl2)"
  shows "\<exists>ticket. claimed = Ok ticket
    \<and> ut_promised_bytes ticket = (case up_size params of Some n \<Rightarrow> n | None \<Rightarrow> max_upload_bytes)
    \<and> (\<forall>bytes cap t2 t3. upload_check sha256 ticket bytes cap = None \<and> t3 - t2 \<le> fc_ttl (pl_config pl) \<longrightarrow>
        (\<exists>pl3 pl4. complete sha256 t2 ticket bytes cap pl2 = Some (Ok (), pl3)
          \<and> take_received t3 (ef_uri (au_file auth)) pl3 = (Some bytes, pl4)
          \<and> (\<forall>t4. fst (take_received t4 (ef_uri (au_file auth)) pl4) = None)))"
proof -
  let ?n = "case up_size params of Some declared \<Rightarrow> declared | None \<Rightarrow> max_upload_bytes"
  let ?p = "sweep_locked t0 pl"
  from assms(3) obtain digest b res t where
    b: "budget_reserve ?n (pl_budget ?p) = Some (b, res)"
    and t: "t = \<lparr>ut_staged_id = sid, ut_credential_hash = sha256 cred, ut_declared_size = up_size params,
       ut_promised_bytes = ?n, ut_declared_digest = digest, ut_created_at = t0, ut_reservation = res\<rparr>"
    and pl1: "pl1 = ?p\<lparr>pl_uploads := AList.update uid t (pl_uploads ?p),
       pl_budget := fold reservation_drop (dropped_for ut_reservation uid (pl_uploads ?p)) b\<rparr>"
    and uri: "ef_uri (au_file auth) = staged_uri_prefix @ sid"
    by (auto simp: authorize_upload_def authorize_upload_locked_def Let_def
        split: option.splits sum.splits if_splits)
  have res: "res = ?n" using b ledger.reserve_Some by blast
  have n1: "named (insert uid M) pl1"
    using named_insert_upload [OF named_sweep [OF assms(1)] assms(2), of t t0] res
    unfolding pl1 by (simp add: t)
  have cfg: "pl_config pl1 = pl_config pl" by (simp add: pl1)
  let ?q = "sweep_locked t1 pl1"
  have "map_of (pl_uploads pl1) uid = Some t" by (simp add: pl1 update_conv')
  then have m: "map_of (pl_uploads ?q) uid = Some t"
    using n1 assms(4) by (intro sweep_keeps_upload) (auto simp: named_def cfg live_def t)
  then have c: "claimed = Ok t"
    and pl2: "pl2 = ?q\<lparr>pl_uploads := AList.delete uid (pl_uploads ?q), pl_reserved := pl_reserved ?q + 1\<rparr>"
    using assms(5) by (auto simp: claim_upload_def Let_def t)
  have "\<exists>pl3 pl4. complete sha256 t2 t bytes cap pl2 = Some (Ok (), pl3)
          \<and> take_received t3 (ef_uri (au_file auth)) pl3 = (Some bytes, pl4)
          \<and> (\<forall>t4. fst (take_received t4 (ef_uri (au_file auth)) pl4) = None)"
    if chk: "upload_check sha256 t bytes cap = None" and ttl: "t3 - t2 \<le> fc_ttl (pl_config pl)"
    for bytes cap t2 t3
  proof -
    have "cap \<le> ut_reservation t"
      using chk res by (auto simp: upload_check_def t split: if_splits)
    then obtain b2 where b2: "reservation_shrink cap (ut_reservation t) (pl_budget pl2) = Some (b2, cap)"
      using shrink_within by blast
    define e where "e = \<lparr>rs_bytes = \<lparr>tb_bytes = bytes, tb_reservation = cap\<rparr>, rs_staged_at = t2\<rparr>"
    define pl3 where "pl3 = pl2\<lparr>pl_reserved := pl_reserved pl2 - 1,
        pl_received := AList.update sid e (pl_received pl2),
        pl_budget := fold reservation_drop (dropped_for rs_reservation sid (pl_received pl2)) b2\<rparr>"
    have comp: "complete sha256 t2 t bytes cap pl2 = Some (Ok (), pl3)"
      using chk b2 by (simp add: complete_def Let_def e_def pl3_def t)
    have "distinct (map fst (pl_received pl2))"
      using named_sweep [OF n1, of t1] by (simp add: named_def pl2)
    then have "distinct (map fst (pl_received pl3))" by (simp add: pl3_def distinct_update)
    moreover have "map_of (pl_received pl3) sid = Some e" by (simp add: pl3_def update_conv')
    ultimately have m3: "map_of (pl_received (sweep_locked t3 pl3)) sid = Some e"
      using ttl by (intro sweep_keeps_received) (auto simp: pl3_def pl2 cfg live_def e_def)
    let ?r = "sweep_locked t3 pl3"
    let ?pl4 = "?r\<lparr>pl_received := AList.delete sid (pl_received ?r),
        pl_budget := reservation_drop (rs_reservation e) (pl_budget ?r)\<rparr>"
    have take: "take_received t3 (ef_uri (au_file auth)) pl3 = (Some bytes, ?pl4)"
      using m3 by (simp add: take_received_def uri Let_def e_def)
    have "map_of (pl_received (sweep_locked t4 ?pl4)) sid = None" for t4
      by (simp add: sweep_locked_def Let_def map_of_filter_none map_of_delete_self)
    then have "fst (take_received t4 (ef_uri (au_file auth)) ?pl4) = None" for t4
      by (simp add: take_received_def uri Let_def)
    with comp take show ?thesis by blast
  qed
  with c show ?thesis by (simp add: t)
qed

definition plain_upload :: authorize_upload_params where
  "plain_upload = \<lparr>up_name = None, up_mime_type = None, up_size = Some 5, up_digest = None\<rparr>"

lemma authorize_example:
  "\<exists>auth pl1. authorize_upload id (\<lambda>_. None) 0 ''u'' ''s'' ''c'' plain_upload (plane_new small_config) = (Ok auth, pl1)"
  by (simp add: authorize_upload_def plain_upload_def max_upload_bytes_def declared_digest_def
      authorize_upload_locked_def sweep_new Let_def)
    (simp add: plane_new_def small_config_def outstanding_def budget_reserve_def budget_new_def checked_add_def)

lemma upload_redeemed_witness:
  "\<exists>auth pl1 ticket pl2 pl3 pl4.
     authorize_upload id (\<lambda>_. None) 0 ''u'' ''s'' ''c'' plain_upload (plane_new small_config) = (Ok auth, pl1)
     \<and> claim_upload id 1 ''u'' ''c'' pl1 = (Ok ticket, pl2)
     \<and> ut_promised_bytes ticket = 5"
proof -
  obtain auth pl1 where a: "authorize_upload id (\<lambda>_. None) 0 ''u'' ''s'' ''c'' plain_upload
      (plane_new small_config) = (Ok auth, pl1)"
    using authorize_example by blast
  obtain claimed pl2 where c: "claim_upload id 1 ''u'' ''c'' pl1 = (claimed, pl2)" by force
  have "(1 :: nat) - 0 \<le> fc_ttl (pl_config (plane_new small_config))"
    by (simp add: plane_new_def small_config_def from_secs_def nanos_per_sec_def)
  from upload_redeemed [OF plane_new_named _ a this c] a c show ?thesis
    by (auto simp: plain_upload_def)
qed

text \<open>
  A value that has outlived its window is answered exactly as one that never existed, on every
  entry point and without any sweep in between: the reference cannot be authorised, the descriptor
  not served or claimed, the upload not redeemed.
\<close>

theorem expired_is_unknown:
  assumes "named M pl"
  shows "(\<forall>k e. map_of (pl_staged pl) k = Some e \<and> fc_ttl (pl_config pl) < now - ss_staged_at e \<longrightarrow>
        fst (authorize_download sha256 now did cred (staged_uri_prefix @ k) pl) = Err Unknown_Reference
        \<and> (\<forall>t. ss_download e = Some t \<longrightarrow>
              fst (serve sha256 now (dt_id t) cred pl) = Err Unknown_Reference))
    \<and> (\<forall>k t. map_of (pl_uploads pl) k = Some t \<and> fc_ttl (pl_config pl) < now - ut_created_at t \<longrightarrow>
        fst (claim_upload sha256 now k cred pl) = Err Unknown_Reference)
    \<and> (\<forall>k e. map_of (pl_received pl) k = Some e \<and> fc_ttl (pl_config pl) < now - rs_staged_at e \<longrightarrow>
        fst (take_received now (staged_uri_prefix @ k) pl) = None)"
proof -
  have gone: "map_of (filter P m) k = None"
    if "distinct (map fst m)" "map_of m k = Some v" "\<not> P (k, v)" for P m k and v :: 'v
    using that by (induction m) (auto simp: map_of_filter_none map_of_eq_None_iff split: if_splits)
  have "fst (serve sha256 now (dt_id t) cred pl) = Err Unknown_Reference"
    if e: "map_of (pl_staged pl) k = Some e" "fc_ttl (pl_config pl) < now - ss_staged_at e"
      "ss_download e = Some t" for k e t
  proof -
    have "\<not> has_download_id (dt_id t) kv" if kv: "kv \<in> set (pl_staged (sweep_locked now pl))" for kv
    proof
      assume h: "has_download_id (dt_id t) kv"
      have kv': "kv \<in> set (pl_staged pl)" "live (fc_ttl (pl_config pl)) now (ss_staged_at (snd kv))"
        using kv by (auto simp: sweep_locked_def Let_def)
      have "(k, e) \<in> set (pl_staged pl)" "has_download_id (dt_id t) (k, e)"
        using e by (auto simp: has_download_id_def map_of_SomeD)
      with h kv'(1) assms have "kv = (k, e)" unfolding named_def by blast
      with kv'(2) e(2) show False by (simp add: live_def)
    qed
    then have "List.find (has_download_id (dt_id t)) (pl_staged (sweep_locked now pl)) = None"
      by (auto simp: find_None_iff)
    then show ?thesis by (simp add: serve_def Let_def)
  qed
  then show ?thesis
    using assms
    by (auto simp: authorize_download_def claim_upload_def take_received_def Let_def sweep_locked_def
        named_def live_def gone)
qed

lemma expired_is_unknown_witness:
  "fst (authorize_download id (from_secs 61) ''d'' ''c'' (staged_uri_prefix @ ''s'') staged_plane) =
     Err Unknown_Reference"
proof -
  have "named {''s''} staged_plane"
    by (simp add: named_def no_download_def has_download_id_def staged_plane_def reserved_plane_def plane_new_def)
  moreover have "map_of (pl_staged staged_plane) ''s'' =
      Some \<lparr>ss_envelope = \<lparr>tb_bytes = ''secret'', tb_reservation = 6\<rparr>,
       ss_name = ''op.json'', ss_staged_at = 0, ss_download = None\<rparr>" by (simp add: staged_plane_def)
  moreover have "fc_ttl (pl_config staged_plane) < from_secs 61 - 0"
    by (simp add: staged_plane_def reserved_plane_def plane_new_def small_config_def from_secs_def nanos_per_sec_def)
  ultimately show ?thesis
    using expired_is_unknown [of "{''s''}" staged_plane "from_secs 61" id "''d''" "''c''"] by force
qed

end
