(* ===== verification/File_Plane_Refinement.thy ===== *)
theory File_Plane_Refinement
  imports File_Plane_Properties
begin

text \<open>
  The contract of the transfer plane, and that it is kept. A \<open>vault\<close> is what a caller may rely
  on: maps from identifiers to the values that have not expired, the descriptors attached to them,
  and a count of places held. It knows nothing of byte budgets, of when expired entries are swept,
  or of how the maps are stored. Every method of the plane acts on its vault as the vault's own
  operation does, and answers alike.
\<close>

section \<open>The contract\<close>

record vault_file =
  vf_name :: string
  vf_bytes :: string
  vf_since :: nat
  vf_ticket :: "(string \<times> string) option"

record vault_offer =
  vo_target :: string
  vo_hash :: string
  vo_size :: "u64 option"
  vo_digest :: "string option"
  vo_since :: nat

record vault =
  vt_files :: "string \<rightharpoonup> vault_file"
  vt_offers :: "string \<rightharpoonup> vault_offer"
  vt_gifts :: "string \<rightharpoonup> string \<times> nat"
  vt_held :: nat

definition vault_count :: "vault \<Rightarrow> nat" where
  "vault_count v = card (dom (vt_files v)) + vt_held v + card (dom (vt_offers v)) + card (dom (vt_gifts v))"

definition keep_live :: "('v \<Rightarrow> bool) \<Rightarrow> ('k \<rightharpoonup> 'v) \<Rightarrow> ('k \<rightharpoonup> 'v)" where
  "keep_live ok m = (\<lambda>k. case m k of None \<Rightarrow> None | Some x \<Rightarrow> if ok x then Some x else None)"

definition vault_expire :: "nat \<Rightarrow> nat \<Rightarrow> vault \<Rightarrow> vault" where
  "vault_expire ttl now v =
     v\<lparr>vt_files := keep_live (\<lambda>f. live ttl now (vf_since f)) (vt_files v),
       vt_offers := keep_live (\<lambda>f. live ttl now (vo_since f)) (vt_offers v),
       vt_gifts := keep_live (\<lambda>g. live ttl now (snd g)) (vt_gifts v)\<rparr>"

definition vault_hold :: "nat \<Rightarrow> vault \<Rightarrow> vault option" where
  "vault_hold most v = (if vault_count v < most then Some (v\<lparr>vt_held := vt_held v + 1\<rparr>) else None)"

definition vault_put :: "string \<Rightarrow> string \<Rightarrow> string \<Rightarrow> nat \<Rightarrow> vault \<Rightarrow> vault" where
  "vault_put ident name bytes now v =
     v\<lparr>vt_held := vt_held v - 1,
       vt_files := (vt_files v)(ident \<mapsto>
         \<lparr>vf_name = name, vf_bytes = bytes, vf_since = now, vf_ticket = None\<rparr>)\<rparr>"

definition vault_grant :: "string \<Rightarrow> string \<Rightarrow> string \<Rightarrow> vault \<Rightarrow> (string \<times> vault) option" where
  "vault_grant did hash ident v =
     map_option (\<lambda>f. (vf_name f, v\<lparr>vt_files := (vt_files v)(ident \<mapsto> f\<lparr>vf_ticket := Some (did, hash)\<rparr>)\<rparr>))
       (vt_files v ident)"

definition holds_ticket :: "string \<Rightarrow> string \<Rightarrow> vault \<Rightarrow> string \<Rightarrow> vault_file \<Rightarrow> bool" where
  "holds_ticket did hash v k f \<longleftrightarrow> vt_files v k = Some f \<and> vf_ticket f = Some (did, hash)"

text \<open>A download takes the one file whose current descriptor it presents.\<close>

definition vault_fetch ::
    "string \<Rightarrow> string \<Rightarrow> vault \<Rightarrow> (file_error, string) result \<Rightarrow> vault \<Rightarrow> bool" where
  "vault_fetch did hash v r v' \<longleftrightarrow>
     (case r of
        Inr bytes \<Rightarrow> \<exists>k f. holds_ticket did hash v k f \<and> bytes = vf_bytes f
          \<and> v' = v\<lparr>vt_files := (vt_files v)(k := None)\<rparr>
      | Inl e \<Rightarrow> v' = v \<and>
          (if \<exists>k f h. holds_ticket did h v k f
           then e = Bad_Credential \<and> (\<forall>k f. \<not> holds_ticket did hash v k f)
           else e = Unknown_Reference))"

definition vault_offer_upload :: "string \<Rightarrow> vault_offer \<Rightarrow> nat \<Rightarrow> vault \<Rightarrow> vault option" where
  "vault_offer_upload uid offer most v =
     (if vault_count v < most then Some (v\<lparr>vt_offers := (vt_offers v)(uid \<mapsto> offer)\<rparr>) else None)"

definition vault_claim :: "string \<Rightarrow> string \<Rightarrow> vault \<Rightarrow> (file_error, vault_offer) result \<times> vault" where
  "vault_claim uid hash v =
     (case vt_offers v uid of
        None \<Rightarrow> (Err Unknown_Reference, v)
      | Some offer \<Rightarrow>
          if hash \<noteq> vo_hash offer then (Err Bad_Credential, v)
          else (Ok offer, v\<lparr>vt_offers := (vt_offers v)(uid := None), vt_held := vt_held v + 1\<rparr>))"

definition vault_receive :: "string \<Rightarrow> string \<Rightarrow> nat \<Rightarrow> vault \<Rightarrow> vault" where
  "vault_receive sid bytes now v =
     v\<lparr>vt_held := vt_held v - 1, vt_gifts := (vt_gifts v)(sid \<mapsto> (bytes, now))\<rparr>"

definition vault_release :: "vault \<Rightarrow> vault" where
  "vault_release v = v\<lparr>vt_held := vt_held v - 1\<rparr>"

definition vault_take :: "string \<Rightarrow> vault \<Rightarrow> string option \<times> vault" where
  "vault_take sid v =
     (map_option fst (vt_gifts v sid), v\<lparr>vt_gifts := (vt_gifts v)(sid := None)\<rparr>)"

section \<open>The vault of a plane\<close>

definition file_of :: "staged_secret \<Rightarrow> vault_file" where
  "file_of e = \<lparr>vf_name = ss_name e, vf_bytes = tb_bytes (ss_envelope e), vf_since = ss_staged_at e,
     vf_ticket = map_option (\<lambda>t. (dt_id t, dt_credential_hash t)) (ss_download e)\<rparr>"

definition offer_of :: "upload_ticket \<Rightarrow> vault_offer" where
  "offer_of t = \<lparr>vo_target = ut_staged_id t, vo_hash = ut_credential_hash t,
     vo_size = ut_declared_size t, vo_digest = ut_declared_digest t, vo_since = ut_created_at t\<rparr>"

definition gift_of :: "received_secret \<Rightarrow> string \<times> nat" where
  "gift_of e = (tb_bytes (rs_bytes e), rs_staged_at e)"

definition answer_of :: "(file_error, transfer_bytes) result \<Rightarrow> (file_error, string) result" where
  "answer_of r = (case r of Inl e \<Rightarrow> Inl e | Inr tb \<Rightarrow> Inr (tb_bytes tb))"

definition stored :: "plane \<Rightarrow> vault" where
  "stored pl = \<lparr>vt_files = map_option file_of \<circ> map_of (pl_staged pl),
     vt_offers = map_option offer_of \<circ> map_of (pl_uploads pl),
     vt_gifts = map_option gift_of \<circ> map_of (pl_received pl), vt_held = pl_reserved pl\<rparr>"

definition vault_at :: "nat \<Rightarrow> plane \<Rightarrow> vault" where
  "vault_at now pl = stored (sweep_locked now pl)"

definition keyed :: "plane \<Rightarrow> bool" where
  "keyed pl \<longleftrightarrow> distinct (map fst (pl_staged pl)) \<and> distinct (map fst (pl_uploads pl))
     \<and> distinct (map fst (pl_received pl))"

lemma file_of_simps [simp]:
  "vf_name (file_of e) = ss_name e" "vf_bytes (file_of e) = tb_bytes (ss_envelope e)"
  "vf_since (file_of e) = ss_staged_at e"
  "vf_ticket (file_of e) = map_option (\<lambda>t. (dt_id t, dt_credential_hash t)) (ss_download e)"
  by (simp_all add: file_of_def)

lemma offer_of_simps [simp]:
  "vo_hash (offer_of t) = ut_credential_hash t" "vo_since (offer_of t) = ut_created_at t"
  by (simp_all add: offer_of_def)

lemma stored_simps [simp]:
  "vt_files (stored pl) = map_option file_of \<circ> map_of (pl_staged pl)"
  "vt_offers (stored pl) = map_option offer_of \<circ> map_of (pl_uploads pl)"
  "vt_gifts (stored pl) = map_option gift_of \<circ> map_of (pl_received pl)"
  "vt_held (stored pl) = pl_reserved pl"
  by (simp_all add: stored_def)

lemma stored_budget [simp]: "stored (pl\<lparr>pl_budget := b\<rparr>) = stored pl"
  by (simp add: stored_def)

lemma named_keyed: "named M pl \<Longrightarrow> keyed pl"
  by (simp add: named_def keyed_def)

lemma keyed_sweep: "keyed pl \<Longrightarrow> keyed (sweep_locked now pl)"
  by (auto simp: keyed_def sweep_locked_def Let_def distinct_map_filter)

lemma card_map_of: "distinct (map fst m) \<Longrightarrow> card (dom (map_of m)) = length m"
  by (metis dom_map_of_conv_image_fst distinct_card length_map list.set_map)

lemma count_stored: "keyed pl \<Longrightarrow> vault_count (stored pl) = outstanding pl"
  by (simp add: vault_count_def outstanding_def keyed_def card_map_of)

section \<open>Expiry\<close>

lemma map_of_filter_value:
  "distinct (map fst m) \<Longrightarrow>
     map_of (filter (\<lambda>(_, x). P x) m) k = (case map_of m k of None \<Rightarrow> None | Some x \<Rightarrow> if P x then Some x else None)"
  by (induction m) (auto split: option.splits if_splits dest: map_of_SomeD intro: rev_image_eqI)

lemma keep_live_map:
  "keep_live ok (map_option f \<circ> m) = map_option f \<circ> keep_live (\<lambda>x. ok (f x)) m"
  by (auto simp: keep_live_def fun_eq_iff split: option.splits)

lemma keep_live_put [simp]:
  "keep_live ok (m(k \<mapsto> x)) = (if ok x then (keep_live ok m)(k \<mapsto> x) else (keep_live ok m)(k := None))"
  by (auto simp: keep_live_def fun_eq_iff)

lemma keep_live_remove [simp]: "keep_live ok (m(k := None)) = (keep_live ok m)(k := None)"
  by (auto simp: keep_live_def fun_eq_iff)

lemma stored_sweep:
  "keyed pl \<Longrightarrow> stored (sweep_locked now pl) = vault_expire (fc_ttl (pl_config pl)) now (stored pl)"
proof -
  assume k: "keyed pl"
  let ?t = "fc_ttl (pl_config pl)"
  have s: "map_of (pl_staged (sweep_locked now pl)) = keep_live (\<lambda>e. live ?t now (ss_staged_at e)) (map_of (pl_staged pl))"
    and u: "map_of (pl_uploads (sweep_locked now pl)) = keep_live (\<lambda>e. live ?t now (ut_created_at e)) (map_of (pl_uploads pl))"
    and r: "map_of (pl_received (sweep_locked now pl)) = keep_live (\<lambda>e. live ?t now (rs_staged_at e)) (map_of (pl_received pl))"
    using k by (simp_all add: sweep_locked_def Let_def keyed_def keep_live_def map_of_filter_value fun_eq_iff)
  have "stored (sweep_locked now pl) = \<lparr>vt_files = map_option file_of \<circ> map_of (pl_staged (sweep_locked now pl)),
     vt_offers = map_option offer_of \<circ> map_of (pl_uploads (sweep_locked now pl)),
     vt_gifts = map_option gift_of \<circ> map_of (pl_received (sweep_locked now pl)), vt_held = pl_reserved pl\<rparr>"
    by (simp add: stored_def)
  then show ?thesis unfolding s u r
    by (simp only: vault_expire_def stored_def vault.simps vault.update_convs keep_live_map file_of_simps
        offer_of_simps gift_of_def snd_conv)
qed

lemma keep_live_twice: "keep_live p (keep_live q m) = keep_live (\<lambda>x. q x \<and> p x) m"
  by (auto simp: keep_live_def fun_eq_iff split: option.splits)

lemma live_later: "s \<le> now \<Longrightarrow> (live ttl s since \<and> live ttl now since) = live ttl now since"
  by (auto simp: live_def)

lemma expire_twice: "s \<le> now \<Longrightarrow> vault_expire ttl now (vault_expire ttl s v) = vault_expire ttl now v"
  by (simp add: vault_expire_def keep_live_twice live_later)

lemma vault_at_expire: "keyed pl \<Longrightarrow> vault_at now pl = vault_expire (fc_ttl (pl_config pl)) now (stored pl)"
  by (simp add: vault_at_def stored_sweep)

lemma vault_at_sweep: "keyed pl \<Longrightarrow> s \<le> now \<Longrightarrow> vault_at now (sweep_locked s pl) = vault_at now pl"
  by (simp add: vault_at_expire keyed_sweep stored_sweep expire_twice)

lemma vault_at_later: "keyed pl \<Longrightarrow> s \<le> now \<Longrightarrow> vault_at now pl = vault_expire (fc_ttl (pl_config pl)) now (vault_at s pl)"
  by (simp add: vault_at_expire expire_twice)

lemma live_now [simp]: "live ttl now now"
  by (simp add: live_def)

section \<open>The operations\<close>

text \<open>Each operation is studied on a plane just swept, whose vault is its stored maps.\<close>

lemma vault_at_swept: "vault_at now (sweep_locked now pl) = vault_at now pl" if "keyed pl"
  using vault_at_sweep [OF that order_refl] .

lemma map_of_update: "map_of (AList.update k v m) = (map_of m)(k \<mapsto> v)"
  by (simp add: update_conv')

lemma map_of_delete: "map_of (AList.delete k m) = (map_of m)(k := None)"
  by (simp add: delete_conv')

lemma map_option_upd [simp]:
  "map_option f \<circ> (m(k \<mapsto> v)) = (map_option f \<circ> m)(k \<mapsto> f v)"
  "map_option f \<circ> (m(k := None)) = (map_option f \<circ> m)(k := None)"
  by (auto simp: fun_eq_iff)

lemma vault_reserve:
  assumes "keyed pl"
  shows "case reserve now pl of
      (Inl e, pl') \<Rightarrow> vault_at now pl' = vault_at now pl \<and>
        (e = Byte_Capacity \<or> e = Too_Many_Staged (vault_count (vault_at now pl))
          \<and> vault_hold (fc_max_staged (pl_config pl)) (vault_at now pl) = None)
    | (Inr _, pl') \<Rightarrow>
        vault_hold (fc_max_staged (pl_config pl)) (vault_at now pl) = Some (vault_at now pl')"
proof -
  let ?p = "sweep_locked now pl"
  have k: "keyed ?p" using assms by (rule keyed_sweep)
  have same: "vault_at now (?p\<lparr>pl_budget := b, pl_reserved := n\<rparr>) = (vault_at now ?p)\<lparr>vt_held := n\<rparr>" for b n
    using k by (subst (1 2) vault_at_expire) (auto simp: keyed_def vault_expire_def stored_def)
  show ?thesis
    using count_stored [OF k] same vault_at_swept [OF assms, of now]
    by (auto simp: reserve_def Let_def vault_hold_def vault_at_def split: option.splits)
qed

lemma keyed_update:
  "keyed pl \<Longrightarrow> keyed (pl\<lparr>pl_reserved := n, pl_staged := AList.update k e (pl_staged pl), pl_budget := b\<rparr>)"
  "keyed pl \<Longrightarrow> keyed (pl\<lparr>pl_staged := AList.update k e (pl_staged pl)\<rparr>)"
  "keyed pl \<Longrightarrow> keyed (pl\<lparr>pl_uploads := AList.update k t (pl_uploads pl), pl_budget := b\<rparr>)"
  "keyed pl \<Longrightarrow> keyed (pl\<lparr>pl_reserved := n, pl_received := AList.update k r (pl_received pl), pl_budget := b\<rparr>)"
  "keyed pl \<Longrightarrow> keyed (pl\<lparr>pl_staged := AList.delete k (pl_staged pl)\<rparr>)"
  "keyed pl \<Longrightarrow> keyed (pl\<lparr>pl_uploads := AList.delete k (pl_uploads pl), pl_reserved := n\<rparr>)"
  "keyed pl \<Longrightarrow> keyed (pl\<lparr>pl_received := AList.delete k (pl_received pl), pl_budget := b\<rparr>)"
  "keyed pl \<Longrightarrow> keyed (pl\<lparr>pl_reserved := n, pl_budget := b\<rparr>)"
  by (auto simp: keyed_def distinct_update distinct_delete)

lemma vault_stage:
  assumes "keyed pl" and "stage now ident slot operation envelope pl = Some (ref, pl')"
  shows "vault_at now pl' = vault_put ident (operation @ ''.json'') envelope now (vault_at now pl)
    \<and> ref = file_reference ident (operation @ ''.json'')"
  using assms(2) assms(1)
  by (auto simp: stage_def Let_def vault_at_expire keyed_update vault_expire_def stored_def
      map_of_update vault_put_def file_of_def split: option.splits)

lemma vault_drop_slot: "keyed pl \<Longrightarrow> vault_at now (drop_slot slot pl) = vault_release (vault_at now pl)"
  by (simp add: drop_slot_def vault_at_expire keyed_update vault_release_def vault_expire_def stored_def)

lemma vault_drop_claim: "keyed pl \<Longrightarrow> vault_at now (drop_claim t pl) = vault_release (vault_at now pl)"
  by (simp add: drop_claim_def vault_at_expire keyed_update vault_release_def vault_expire_def stored_def)

lemma vault_authorize_download:
  assumes k: "keyed pl" and a: "authorize_download sha256 now did cred uri pl = (r, pl')"
  shows "case strip_prefix staged_uri_prefix uri of
      None \<Rightarrow> r = Err Unknown_Reference \<and> pl' = pl
    | Some ident \<Rightarrow>
        (case vault_grant did (sha256 cred) ident (vault_at now pl) of
           None \<Rightarrow> r = Err Unknown_Reference \<and> vault_at now pl' = vault_at now pl
         | Some (name, v') \<Rightarrow> vault_at now pl' = v'
             \<and> (\<exists>x. r = Ok x \<and> ad_file x = file_reference ident name))"
proof (cases "strip_prefix staged_uri_prefix uri")
  case None
  then show ?thesis using a by (auto simp: authorize_download_def)
next
  case (Some ident)
  let ?p = "sweep_locked now pl"
  have kp: "keyed ?p" using k by (rule keyed_sweep)
  have at: "vault_at now pl = stored ?p" by (simp add: vault_at_def)
  show ?thesis
  proof (cases "map_of (pl_staged ?p) ident")
    case None
    then show ?thesis
      using a Some vault_at_swept [OF k, of now]
      by (auto simp: authorize_download_def Let_def vault_grant_def at)
  next
    case found: (Some e)
    define e' where "e' = e\<lparr>ss_download := Some \<lparr>dt_id = did, dt_credential_hash = sha256 cred\<rparr>\<rparr>"
    have pl': "pl' = ?p\<lparr>pl_staged := AList.update ident e' (pl_staged ?p)\<rparr>"
      and r: "\<exists>x. r = Ok x \<and> ad_file x = file_reference ident (ss_name e)"
      using a Some found by (auto simp: authorize_download_def Let_def e'_def)
    have live: "live (fc_ttl (pl_config pl)) now (ss_staged_at e')"
      using map_of_SomeD [OF found] by (auto simp: sweep_locked_def Let_def e'_def)
    have "vault_at now pl' = (vault_at now ?p)\<lparr>vt_files := (vt_files (vault_at now ?p))(ident \<mapsto> file_of e')\<rparr>"
      unfolding pl' using kp live
      by (simp add: vault_at_expire keyed_update vault_expire_def stored_def map_of_update)
    then show ?thesis
      using Some found r vault_at_swept [OF k, of now]
      by (auto simp: vault_grant_def at file_of_def e'_def)
  qed
qed

lemma swept_live:
  "(k, e) \<in> set (pl_staged (sweep_locked now pl)) \<Longrightarrow> live (fc_ttl (pl_config pl)) now (ss_staged_at e)"
  by (auto simp: sweep_locked_def Let_def)

lemma holds_stored:
  "holds_ticket did h (stored pl) k f \<longleftrightarrow>
     (\<exists>e. map_of (pl_staged pl) k = Some e \<and> f = file_of e
        \<and> ss_download e = Some \<lparr>dt_id = did, dt_credential_hash = h\<rparr>)"
  unfolding holds_ticket_def
  by (auto simp: file_of_def)

lemma vault_serve:
  assumes n: "named M pl" and s: "serve sha256 now did cred pl = (r, pl')"
  shows "vault_fetch did (sha256 cred) (vault_at now pl) (answer_of r) (vault_at now pl')"
proof -
  let ?p = "sweep_locked now pl"
  have n1: "named M ?p" using n by (rule named_sweep)
  have k: "keyed pl" and kp: "keyed ?p" using n n1 by (auto intro: named_keyed)
  have at: "vault_at now pl = stored ?p" by (simp add: vault_at_def)
  have same: "vault_at now ?p = stored ?p" using vault_at_swept [OF k] at by simp
  have uniq: "(k1, e1) \<in> set (pl_staged ?p) \<Longrightarrow> (k2, e2) \<in> set (pl_staged ?p) \<Longrightarrow>
      has_download_id did (k1, e1) \<Longrightarrow> has_download_id did (k2, e2) \<Longrightarrow> k1 = k2 \<and> e1 = e2" for k1 e1 k2 e2
    using n1 unfolding named_def by blast
  show ?thesis
  proof (cases "List.find (has_download_id did) (pl_staged ?p)")
    case None
    then have none: "\<not> has_download_id did kv" if "kv \<in> set (pl_staged ?p)" for kv
      using that by (cases kv) (simp add: find_None_iff)
    have "\<not> holds_ticket did h (stored ?p) k f" for h k f
      using none by (force simp: holds_stored has_download_id_def dest!: map_of_SomeD)
    then show ?thesis using s None same at by (auto simp: serve_def Let_def vault_fetch_def answer_of_def)
  next
    case (Some kv)
    obtain key e where kv: "kv = (key, e)" by (cases kv)
    have f: "map_of (pl_staged ?p) key = Some e" "has_download_id did (key, e)" "(key, e) \<in> set (pl_staged ?p)"
      using find_serve [OF Some [unfolded kv]] n1 by (auto simp: named_def)
    from f(2) obtain t where t: "ss_download e = Some t" "dt_id t = did"
      by (auto simp: has_download_id_def split: option.splits)
    define h where "h = dt_credential_hash t"
    have h: "ss_download e = Some \<lparr>dt_id = did, dt_credential_hash = h\<rparr>"
      using t by (cases t) (simp add: h_def)
    have only: "holds_ticket did h' (stored ?p) k' f' \<longleftrightarrow> k' = key \<and> f' = file_of e \<and> h' = h" for h' k' f'
    proof
      assume "holds_ticket did h' (stored ?p) k' f'"
      then obtain e' where e': "map_of (pl_staged ?p) k' = Some e'" "f' = file_of e'"
        "ss_download e' = Some \<lparr>dt_id = did, dt_credential_hash = h'\<rparr>" by (auto simp: holds_stored)
      then have "k' = key \<and> e' = e"
        by (intro uniq [OF map_of_SomeD f(3) _ f(2)]) (auto simp: has_download_id_def)
      with e' h show "k' = key \<and> f' = file_of e \<and> h' = h" by simp
    next
      assume "k' = key \<and> f' = file_of e \<and> h' = h"
      with f(1) h show "holds_ticket did h' (stored ?p) k' f'" by (simp add: holds_stored)
    qed
    show ?thesis
    proof (cases "sha256 cred = h")
      case True
      then have r: "r = Ok (ss_envelope e)" and pl': "pl' = ?p\<lparr>pl_staged := AList.delete key (pl_staged ?p)\<rparr>"
        using s Some kv h by (auto simp: serve_def Let_def)
      have "vault_at now pl' = (vault_at now ?p)\<lparr>vt_files := (vt_files (vault_at now ?p))(key := None)\<rparr>"
        unfolding pl' using kp
        by (simp add: vault_at_expire keyed_update vault_expire_def stored_def map_of_delete)
      then show ?thesis using only True r same at by (simp add: vault_fetch_def answer_of_def)
    next
      case False
      then have "r = Err Bad_Credential" "pl' = ?p" using s Some kv h by (auto simp: serve_def Let_def)
      then show ?thesis using only False same at by (simp add: vault_fetch_def answer_of_def)
    qed
  qed
qed

lemma vault_authorize_upload:
  assumes k: "keyed pl"
    and a: "authorize_upload sha256 decode now uid sid cred params pl = (r, pl')"
  shows "case r of
      Inr x \<Rightarrow> \<exists>digest. declared_digest decode (up_digest params) = Ok digest \<and>
        vault_offer_upload uid \<lparr>vo_target = sid, vo_hash = sha256 cred, vo_size = up_size params,
            vo_digest = digest, vo_since = now\<rparr> (fc_max_staged (pl_config pl)) (vault_at now pl)
          = Some (vault_at now pl')
    | Inl e \<Rightarrow> vault_at now pl' = vault_at now pl"
proof -
  let ?p = "sweep_locked now pl"
  have kp: "keyed ?p" using k by (rule keyed_sweep)
  have put: "vault_at now (?p\<lparr>pl_uploads := AList.update uid t (pl_uploads ?p), pl_budget := b\<rparr>) =
      (vault_at now ?p)\<lparr>vt_offers := (vt_offers (vault_at now ?p))(uid \<mapsto> offer_of t)\<rparr>"
    if "ut_created_at t = now" for t b
    using kp that by (simp add: vault_at_expire keyed_update vault_expire_def stored_def map_of_update)
  show ?thesis
  proof (cases r)
    case (Inr x)
    from a Inr obtain digest where d: "declared_digest decode (up_digest params) = Ok digest"
      and l: "authorize_upload_locked sha256 now uid sid cred params digest pl = (Inr x, pl')"
      by (auto simp: authorize_upload_def Let_def split: if_splits option.splits sum.splits)
    from l obtain b res where room: "outstanding ?p < fc_max_staged (pl_config pl)"
      and pl': "pl' = ?p\<lparr>pl_uploads := AList.update uid \<lparr>ut_staged_id = sid, ut_credential_hash = sha256 cred,
          ut_declared_size = up_size params,
          ut_promised_bytes = (case up_size params of Some declared \<Rightarrow> declared | None \<Rightarrow> max_upload_bytes),
          ut_declared_digest = digest, ut_created_at = now, ut_reservation = res\<rparr> (pl_uploads ?p),
        pl_budget := b\<rparr>"
      by (auto simp: authorize_upload_locked_def Let_def split: if_splits option.splits)
    have "vault_count (vault_at now pl) < fc_max_staged (pl_config pl)"
      using room count_stored [OF kp] by (simp add: vault_at_def)
    then show ?thesis
      using Inr d vault_at_swept [OF k, of now] unfolding pl'
      by (simp add: put vault_offer_upload_def offer_of_def)
  next
    case (Inl e)
    then have "pl' = pl \<or> pl' = ?p"
      using a by (auto simp: authorize_upload_def authorize_upload_locked_def Let_def
          split: if_splits option.splits sum.splits)
    then show ?thesis using Inl vault_at_swept [OF k, of now] by auto
  qed
qed

lemma vault_claim_upload:
  assumes k: "keyed pl" and c: "claim_upload sha256 now uid cred pl = (r, pl')"
  shows "vault_claim uid (sha256 cred) (vault_at now pl) =
    (case r of Inl e \<Rightarrow> Inl e | Inr t \<Rightarrow> Inr (offer_of t), vault_at now pl')"
proof -
  let ?p = "sweep_locked now pl"
  have kp: "keyed ?p" using k by (rule keyed_sweep)
  have at: "vault_at now pl = stored ?p" by (simp add: vault_at_def)
  have same: "vault_at now ?p = stored ?p" using vault_at_swept [OF k] at by simp
  have out: "vault_at now (?p\<lparr>pl_uploads := AList.delete uid (pl_uploads ?p), pl_reserved := n\<rparr>) =
      (vault_at now ?p)\<lparr>vt_offers := (vt_offers (vault_at now ?p))(uid := None), vt_held := n\<rparr>" for n
    using kp by (simp add: vault_at_expire keyed_update vault_expire_def stored_def map_of_delete)
  show ?thesis
    using c out same
    by (auto simp: claim_upload_def Let_def vault_claim_def at split: option.splits if_splits)
qed

lemma vault_complete:
  assumes k: "keyed pl" and c: "complete sha256 now ticket bytes cap pl = Some (r, pl')"
  shows "vault_at now pl' = (case r of
      Inl e \<Rightarrow> vault_release (vault_at now pl)
    | Inr u \<Rightarrow> vault_receive (ut_staged_id ticket) bytes now (vault_at now pl))"
  using c k
  by (auto simp: complete_def Let_def vault_drop_claim vault_at_expire keyed_update vault_expire_def
      stored_def map_of_update vault_receive_def gift_of_def split: option.splits)

lemma vault_take_received:
  assumes k: "keyed pl" and c: "take_received now uri pl = (r, pl')"
  shows "(r, vault_at now pl') = (case strip_prefix staged_uri_prefix uri of
      None \<Rightarrow> (None, vault_at now pl)
    | Some sid \<Rightarrow> vault_take sid (vault_at now pl))"
proof -
  let ?p = "sweep_locked now pl"
  have kp: "keyed ?p" using k by (rule keyed_sweep)
  have at: "vault_at now pl = stored ?p" by (simp add: vault_at_def)
  have same: "vault_at now ?p = stored ?p" using vault_at_swept [OF k] at by simp
  have out: "vault_at now (?p\<lparr>pl_received := AList.delete sid (pl_received ?p), pl_budget := b\<rparr>) =
      (vault_at now ?p)\<lparr>vt_gifts := (vt_gifts (vault_at now ?p))(sid := None)\<rparr>" for sid b
    using kp by (simp add: vault_at_expire keyed_update vault_expire_def stored_def map_of_delete)
  have absent: "map_of m sid = None \<Longrightarrow> (map_option gift_of \<circ> map_of m)(sid := None) = map_option gift_of \<circ> map_of m"
    for m :: "(string \<times> received_secret) list" and sid
    by (auto simp: fun_eq_iff)
  show ?thesis
  proof (cases "strip_prefix staged_uri_prefix uri")
    case None
    then show ?thesis using c by (simp add: take_received_def)
  next
    case (Some sid)
    show ?thesis
    proof (cases "map_of (pl_received ?p) sid")
      case None
      then show ?thesis
        using c Some absent [OF None] same
        by (auto simp: take_received_def Let_def vault_take_def at stored_def)
    next
      case found: (Some e)
      then show ?thesis
        using c Some out same
        by (auto simp: take_received_def Let_def vault_take_def at gift_of_def)
    qed
  qed
qed

section \<open>The refinement\<close>

text \<open>
  C16: The transfer plane implements its contract. In every reachable state, sweeping is invisible;
  the mere passing of time only forgets what has expired; a place is granted exactly while the
  vault has one (bytes permitting), and a refusal reports the vault's own count; staging puts the
  envelope in the vault under its reference; a download answers as taking the one file whose
  current descriptor it presents, and an authorisation as replacing that descriptor; an upload is
  promised, claimed, completed and redeemed as the vault's maps say.
\<close>

theorem plane_refines_vault:
  assumes "reachable (sys_start config) (file_step sha256 decode) s" and "sy_now s \<le> now"
  shows "let pl = sy_plane s; v = vault_at now pl; most = fc_max_staged config in
      vault_at now (sweep_locked (sy_now s) pl) = v
    \<and> v = vault_expire (fc_ttl config) now (vault_at (sy_now s) pl)
    \<and> (case reserve now pl of
         (Inl e, pl') \<Rightarrow> vault_at now pl' = v \<and>
           (e = Byte_Capacity \<or> e = Too_Many_Staged (vault_count v) \<and> vault_hold most v = None)
       | (Inr _, pl') \<Rightarrow> vault_hold most v = Some (vault_at now pl'))
    \<and> (case stage now ident slot operation envelope pl of
         None \<Rightarrow> True
       | Some (ref, pl') \<Rightarrow> vault_at now pl' = vault_put ident (operation @ ''.json'') envelope now v
           \<and> ref = file_reference ident (operation @ ''.json''))
    \<and> (case authorize_download sha256 now did cred (staged_uri_prefix @ ident) pl of (r, pl') \<Rightarrow>
         (case vault_grant did (sha256 cred) ident v of
            None \<Rightarrow> r = Err Unknown_Reference \<and> vault_at now pl' = v
          | Some (name, v') \<Rightarrow> vault_at now pl' = v' \<and> (\<exists>x. r = Ok x \<and> ad_file x = file_reference ident name)))
    \<and> (case serve sha256 now did cred pl of (r, pl') \<Rightarrow>
         vault_fetch did (sha256 cred) v (answer_of r) (vault_at now pl'))
    \<and> (case authorize_upload sha256 decode now uid sid cred params pl of
         (Inl e, pl') \<Rightarrow> vault_at now pl' = v
       | (Inr x, pl') \<Rightarrow> \<exists>digest. declared_digest decode (up_digest params) = Ok digest \<and>
           vault_offer_upload uid \<lparr>vo_target = sid, vo_hash = sha256 cred, vo_size = up_size params,
             vo_digest = digest, vo_since = now\<rparr> most v = Some (vault_at now pl'))
    \<and> (case claim_upload sha256 now uid cred pl of (r, pl') \<Rightarrow>
         vault_claim uid (sha256 cred) v = (case r of Inl e \<Rightarrow> Inl e | Inr t \<Rightarrow> Inr (offer_of t), vault_at now pl'))
    \<and> (case complete sha256 now ticket bytes cap pl of
         None \<Rightarrow> True
       | Some (Inl e, pl') \<Rightarrow> vault_at now pl' = vault_release v
       | Some (Inr u, pl') \<Rightarrow> vault_at now pl' = vault_receive (ut_staged_id ticket) bytes now v)
    \<and> (case take_received now (staged_uri_prefix @ sid) pl of (r, pl') \<Rightarrow> (r, vault_at now pl') = vault_take sid v)
    \<and> vault_at now (drop_slot slot pl) = vault_release v \<and> vault_at now (drop_claim ticket pl) = vault_release v"
proof -
  have inv: "sys_inv config s" by (rule files.reachable_invariant [OF assms(1)])
  then have cfg: "pl_config (sy_plane s) = config" and n: "named (sy_minted s) (sy_plane s)"
    by (simp_all add: sys_inv_def)
  have k: "keyed (sy_plane s)" using n by (rule named_keyed)
  note ops = vault_reserve [OF k, of now] vault_at_sweep [OF k assms(2)] vault_at_later [OF k assms(2)]
    vault_drop_slot [OF k] vault_drop_claim [OF k]
  show ?thesis
    unfolding Let_def
    apply (intro conjI)
    subgoal by (rule ops(2))
    subgoal using ops(3) cfg by simp
    subgoal using ops(1) by (simp only: cfg)
    subgoal using vault_stage [OF k] by (auto split: option.splits)
    subgoal
      using vault_authorize_download [OF k, of sha256 now did cred "staged_uri_prefix @ ident",
          OF prod.collapse [symmetric]]
      by (simp add: case_prod_beta)
    subgoal using vault_serve [OF n prod.collapse [symmetric]] by (simp add: case_prod_beta)
    subgoal using vault_authorize_upload [OF k] cfg by (fastforce split: prod.splits sum.splits)
    subgoal using vault_claim_upload [OF k prod.collapse [symmetric]] by (simp add: case_prod_beta)
    subgoal
      using vault_complete [OF k, of sha256 now ticket bytes cap]
      by (cases "complete sha256 now ticket bytes cap (sy_plane s)") (auto split: prod.splits sum.splits)
    subgoal using vault_take_received [OF k prod.collapse [symmetric]] by (simp add: case_prod_beta)
    subgoal by (rule ops(4))
    subgoal by (rule ops(5))
    done
qed

lemma plane_refines_vault_witness:
  "vault_fetch ''d'' ''c'' (vault_at 7 reserved_plane) (Err Unknown_Reference) (vault_at 7 reserved_plane)"
proof -
  have "serve id 7 ''d'' ''c'' reserved_plane = (Err Unknown_Reference, reserved_plane)"
    by (simp add: serve_def Let_def reserved_plane_def plane_new_def sweep_locked_def entry_reservations_def)
  moreover have "case serve id 7 ''d'' ''c'' (sy_plane reserved_system) of (r, pl') \<Rightarrow>
      vault_fetch ''d'' (id ''c'') (vault_at 7 (sy_plane reserved_system)) (answer_of r) (vault_at 7 pl')"
  proof -
    have "sy_now reserved_system \<le> 7" by (simp add: reserved_system_def idle_system_def)
    from plane_refines_vault [OF reserved_reachable [of id "\<lambda>_. None"] this, unfolded Let_def]
    show ?thesis
      by (rule conjunct1 [OF conjunct2 [OF conjunct2 [OF conjunct2 [OF conjunct2 [OF conjunct2]]]]])
  qed
  ultimately show ?thesis by (simp add: answer_of_def reserved_system_def)
qed

end
