(* ===== verification/File_Envelope.thy ===== *)
theory File_Envelope
  imports File_Plane
begin

text \<open>
  The padded envelope of \<open>infisical-mcp/src/files.rs\<close>: measured through a counting writer, padded
  with random hex to the next bucket, serialised once. JSON serialisation is a parameter that
  yields the chunks written; what the code relies on is that an ASCII pad adds exactly its length.
\<close>

section \<open>Hex\<close>

definition hex_digit :: "nat \<Rightarrow> char" where
  "hex_digit n = char_of (if n < 10 then 48 + n else 87 + n)"

definition hex :: "string \<Rightarrow> string" where
  "hex bytes = concat (map (\<lambda>b. [hex_digit (byte b div 16), hex_digit (byte b mod 16)]) bytes)"

lemma length_hex [simp]: "length (hex bytes) = 2 * length bytes"
  by (induction bytes) (simp_all add: hex_def)

lemma hex_digit_hexdigit: "n < 16 \<Longrightarrow> is_ascii_hexdigit (hex_digit n)"
  by (auto simp: hex_digit_def is_ascii_hexdigit_def is_ascii_digit_def)

lemma byte_div_16: "byte b div 16 < 16"
  by (rule less_mult_imp_div_less) simp

lemma hex_hexdigits: "list_all is_ascii_hexdigit (hex bytes)"
  by (induction bytes) (simp_all add: hex_def hex_digit_hexdigit byte_div_16)

definition div_ceil :: "nat \<Rightarrow> nat \<Rightarrow> nat" where
  "div_ceil a b = a div b + (if a mod b \<noteq> 0 then 1 else 0)"

text \<open>The generator \<open>fill\<close> returns as many random bytes as it is asked for.\<close>

definition random_hex_of_length :: "(nat \<Rightarrow> string) \<Rightarrow> nat \<Rightarrow> string" where
  "random_hex_of_length fill n = take n (hex (fill (div_ceil n 2)))"

definition token_bytes :: nat where "token_bytes = 32"

definition random_token :: "(nat \<Rightarrow> string) \<Rightarrow> string" where
  "random_token fill = hex (fill token_bytes)"

lemma div_ceil_upper:
  assumes "0 < b"
  shows "a \<le> div_ceil a b * b \<and> div_ceil a b * b < a + b"
proof -
  define q r where "q = a div b" and "r = a mod b"
  have a: "a = q * b + r" "r < b" using assms by (simp_all add: q_def r_def)
  have "div_ceil a b = q + (if r \<noteq> 0 then 1 else 0)" by (simp add: div_ceil_def q_def r_def)
  then show ?thesis using a by (cases "r = 0") simp_all
qed

lemma div_ceil_le: "a \<le> k * b \<Longrightarrow> 0 < b \<Longrightarrow> div_ceil a b \<le> k"
proof -
  assume a: "a \<le> k * b" and b: "0 < b"
  have "div_ceil a b * b < k * b + b" using div_ceil_upper [OF b, of a] a by linarith
  then have "div_ceil a b * b < Suc k * b" by simp
  then have "div_ceil a b < Suc k" by (rule mult_less_cancel2 [THEN iffD1, THEN conjunct2])
  then show ?thesis by simp
qed

lemma length_random_hex:
  "(\<And>k. length (fill k) = k) \<Longrightarrow> length (random_hex_of_length fill n) = n"
  using div_ceil_upper [of 2 n] by (simp add: random_hex_of_length_def)

section \<open>Measuring and padding\<close>

definition envelope_bucket_bytes :: nat where "envelope_bucket_bytes = 4096"
definition min_pad_chars :: nat where "min_pad_chars = 32"
definition max_envelope :: nat where "max_envelope = unat max_envelope_bytes"

text \<open>\<open>CountingWriter::write\<close>, chunk by chunk; \<open>None\<close> is its I/O error.\<close>

fun count_writes :: "nat \<Rightarrow> string list \<Rightarrow> nat option" where
  "count_writes c [] = Some c"
| "count_writes c (buffer # chunks) =
     (let n = c + length buffer in
      if 2 ^ 64 \<le> n then None
      else if n \<le> max_envelope - min_pad_chars then count_writes n chunks
      else None)"

definition secret_envelope ::
    "(string \<Rightarrow> 'v \<Rightarrow> string \<Rightarrow> string list option) \<Rightarrow> (nat \<Rightarrow> string) \<Rightarrow> string \<Rightarrow> 'v \<Rightarrow> string option" where
  "secret_envelope to_writer fill operation data =
     Option.bind (to_writer operation data []) (\<lambda>chunks.
     Option.bind (count_writes 0 chunks) (\<lambda>base.
       let target = div_ceil (base + min_pad_chars) envelope_bucket_bytes * envelope_bucket_bytes
       in map_option concat (to_writer operation data (random_hex_of_length fill (target - base)))))"

lemma max_envelope_eq: "max_envelope = 134217728"
  by (simp add: max_envelope_def max_envelope_bytes_def)

lemma count_writes_Some:
  "count_writes c chunks = Some n \<Longrightarrow> c \<le> max_envelope - min_pad_chars \<Longrightarrow>
     n = c + length (concat chunks) \<and> n \<le> max_envelope - min_pad_chars"
  by (induction chunks arbitrary: c) (fastforce simp: Let_def split: if_splits)+

text \<open>What the code relies on: a pad of hex digits adds its own length and no escape.\<close>

definition pad_additive :: "(string \<Rightarrow> 'v \<Rightarrow> string \<Rightarrow> string list option) \<Rightarrow> bool" where
  "pad_additive to_writer \<longleftrightarrow>
     (\<forall>operation data pad empty padded. list_all is_ascii_hexdigit pad \<and>
        to_writer operation data [] = Some empty \<and> to_writer operation data pad = Some padded \<longrightarrow>
        length (concat padded) = length (concat empty) + length pad)"

lemma bucket_target:
  assumes "base \<le> max_envelope - min_pad_chars"
  defines "target \<equiv> div_ceil (base + min_pad_chars) envelope_bucket_bytes * envelope_bucket_bytes"
  shows "base + min_pad_chars \<le> target \<and> target \<le> max_envelope \<and> target < base + min_pad_chars + 4096"
proof -
  have "base + 32 \<le> target" "target < base + 32 + 4096"
    using div_ceil_upper [of 4096 "base + 32"]
    by (simp_all add: target_def envelope_bucket_bytes_def min_pad_chars_def)
  moreover have "target = div_ceil (base + min_pad_chars) 4096 * 4096"
    by (simp add: target_def envelope_bucket_bytes_def)
  moreover have "base + 32 \<le> 32768 * 4096"
    using assms(1) by (simp add: max_envelope_eq min_pad_chars_def)
  then have "div_ceil (base + min_pad_chars) 4096 \<le> 32768"
    by (intro div_ceil_le) (simp_all add: min_pad_chars_def)
  ultimately show ?thesis by (simp add: max_envelope_eq min_pad_chars_def)
qed

text \<open>
  A secret envelope always fits the envelope bound (so it always fits the staging slot), is a
  whole number of 4096-byte buckets, and its size depends on nothing but the bucket the unpadded
  text falls into, with at least 32 random characters of salt: revealing the size reveals only the
  bucket.
\<close>

theorem envelope_bucketed:
  assumes "pad_additive to_writer" and "\<And>k. length (fill k) = k"
    and "secret_envelope to_writer fill operation data = Some env"
  shows "\<exists>empty. to_writer operation data [] = Some empty
    \<and> length env = div_ceil (length (concat empty) + 32) 4096 * 4096
    \<and> length (concat empty) + 32 \<le> length env \<and> length env \<le> unat max_envelope_bytes"
proof -
  from assms(3) obtain empty base padded where e: "to_writer operation data [] = Some empty"
    and c: "count_writes 0 empty = Some base"
    and p: "to_writer operation data (random_hex_of_length fill
        (div_ceil (base + min_pad_chars) envelope_bucket_bytes * envelope_bucket_bytes - base)) = Some padded"
    and env: "env = concat padded"
    by (auto simp: secret_envelope_def bind_eq_Some_conv Let_def)
  let ?t = "div_ceil (base + min_pad_chars) envelope_bucket_bytes * envelope_bucket_bytes"
  have base: "base = length (concat empty)" "base \<le> max_envelope - min_pad_chars"
    using count_writes_Some [OF c] by simp_all
  have "set (take n (hex x)) \<subseteq> set (hex x)" for n x by (rule set_take_subset)
  then have "list_all is_ascii_hexdigit (random_hex_of_length fill n)" for n
    using hex_hexdigits unfolding random_hex_of_length_def list_all_iff by blast
  then have "length env = base + (?t - base)"
    using assms(1) e p unfolding pad_additive_def env base(1)
    by (metis length_random_hex [OF assms(2)])
  with bucket_target [OF base(2)] have "length env = ?t" "base + min_pad_chars \<le> ?t" "?t \<le> max_envelope"
    by auto
  with e base(1) show ?thesis
    by (auto simp: max_envelope_def min_pad_chars_def envelope_bucket_bytes_def simp del: length_concat)
qed

definition plain_writer :: "string \<Rightarrow> string \<Rightarrow> string \<Rightarrow> string list option" where
  "plain_writer operation data pad = Some [''{'', operation, data, pad, ''}'']"

lemma plain_writer_additive: "pad_additive plain_writer"
  by (simp add: pad_additive_def plain_writer_def)

lemma envelope_bucketed_witness:
  "\<exists>env. secret_envelope plain_writer (\<lambda>k. replicate k CHR ''x'') ''op'' ''hunter2'' = Some env
     \<and> length env = 4096"
proof -
  obtain env where env: "secret_envelope plain_writer (\<lambda>k. replicate k CHR ''x'') ''op'' ''hunter2'' = Some env"
    by (simp add: secret_envelope_def plain_writer_def Let_def max_envelope_eq min_pad_chars_def)
  from envelope_bucketed [OF plain_writer_additive _ env] env show ?thesis
    by (simp add: plain_writer_def div_ceil_def)
qed

end
