(* ===== verification/Http.thy ===== *)
theory Http
  imports Rust_Prelude
begin

text \<open>
  The slice of the \<open>http\<close> crate both sides of the program use: methods, and header maps as
  name/value pairs in order with lower-case names, whose values are raw bytes.
\<close>

datatype http_method = GET | POST | PUT | PATCH | DELETE | Other_Method string

type_synonym headers = "(string \<times> string) list"

definition header_values :: "string \<Rightarrow> headers \<Rightarrow> string list" where
  "header_values name hs = map snd (filter (\<lambda>(n, _). n = name) hs)"

text \<open>\<open>HeaderMap::get\<close>: the first value.\<close>

definition header_get :: "string \<Rightarrow> headers \<Rightarrow> string option" where
  "header_get name hs = (case header_values name hs of [] \<Rightarrow> None | v # _ \<Rightarrow> Some v)"

text \<open>\<open>HeaderValue::to_str\<close>: visible ASCII, space and tab only.\<close>

definition header_to_str :: "string \<Rightarrow> string option" where
  "header_to_str v =
     (if list_all (\<lambda>b. (32 \<le> byte b \<and> byte b < 127) \<or> byte b = 9) v then Some v else None)"

lemma header_values_mem: "v \<in> set (header_values name hs) \<longleftrightarrow> (name, v) \<in> set hs"
  by (auto simp: header_values_def image_iff)

end
