(* ===== verification/File_Routes.thy ===== *)
theory File_Routes
  imports File_Plane_System File_Envelope Http
begin

text \<open>
  The two HTTP routes of the transfer plane in \<open>infisical-server/src/server.rs\<close>:
  \<open>receive_upload\<close> and \<open>serve_download\<close>, their refusals, and \<open>healthz\<close>. Axum's routing and
  timeouts are outside; a request body is the sequence of frames the transport yields, \<open>None\<close> for
  a transport error. A handler dropped in mid-body is the prefix of its steps, after which the
  claim's own drop runs.
\<close>

record response =
  rs_status :: nat
  rs_error :: "string option"
  rs_headers :: headers
  rs_body :: string

definition plain_response :: "nat \<Rightarrow> response" where
  "plain_response status = \<lparr>rs_status = status, rs_error = None, rs_headers = [], rs_body = []\<rparr>"

definition refusal :: "nat \<Rightarrow> string \<Rightarrow> response" where
  "refusal status code = \<lparr>rs_status = status, rs_error = Some code, rs_headers = [], rs_body = []\<rparr>"

definition transfer_header_name :: string where
  "transfer_header_name = to_ascii_lowercase transfer_credential_header"

definition transfer_credential :: "headers \<Rightarrow> string option" where
  "transfer_credential hs = Option.bind (header_get transfer_header_name hs) header_to_str"

section \<open>Upload\<close>

text \<open>The streaming loop: bytes are copied only while they fit the promised size.\<close>

fun stream_body :: "nat \<Rightarrow> string \<Rightarrow> string option list \<Rightarrow> (response, string) result" where
  "stream_body maximum bytes [] = Ok bytes"
| "stream_body maximum bytes (None # frames) = Err (refusal 400 ''infisical_file_transfer_failed'')"
| "stream_body maximum bytes (Some frame # frames) =
     (if maximum - length bytes < length frame then Err (refusal 400 (public_code Size_Mismatch))
      else stream_body maximum (bytes @ frame) frames)"

definition complete_status :: "file_error \<Rightarrow> nat" where
  "complete_status e = (if e = Size_Mismatch \<or> e = Digest_Mismatch then 400 else 403)"

definition receive_upload ::
    "(string \<Rightarrow> string) \<Rightarrow> nat \<Rightarrow> nat \<Rightarrow> string \<Rightarrow> headers \<Rightarrow> string option list \<Rightarrow> plane
      \<Rightarrow> (response \<times> plane) option" where
  "receive_upload sha256 claimed_at completed_at ident hs frames pl =
     (case transfer_credential hs of
        None \<Rightarrow> Some (refusal 403 (public_code Bad_Credential), pl)
      | Some credential \<Rightarrow>
          (case claim_upload sha256 claimed_at ident credential pl of
             (Inl e, pl) \<Rightarrow> Some (refusal 403 (public_code e), pl)
           | (Inr ticket, pl) \<Rightarrow>
               (let maximum = ut_promised_bytes ticket in
                case stream_body (unat maximum) [] frames of
                  Inl r \<Rightarrow> Some (r, drop_claim ticket pl)
                | Inr bytes \<Rightarrow>
                    (case complete sha256 completed_at ticket bytes maximum pl of
                       None \<Rightarrow> None
                     | Some (Inr _, pl) \<Rightarrow> Some (plain_response 204, pl)
                     | Some (Inl e, pl) \<Rightarrow> Some (refusal (complete_status e) (public_code e), pl)))))"

section \<open>Download\<close>

definition serve_download ::
    "(string \<Rightarrow> string) \<Rightarrow> nat \<Rightarrow> http_method \<Rightarrow> string \<Rightarrow> headers \<Rightarrow> plane \<Rightarrow> response \<times> plane" where
  "serve_download sha256 now m ident hs pl =
     (if m \<noteq> GET then (refusal 405 (public_code Bad_Credential), pl)
      else
        case transfer_credential hs of
          None \<Rightarrow> (refusal 403 (public_code Bad_Credential), pl)
        | Some credential \<Rightarrow>
            (case serve sha256 now ident credential pl of
               (Inr envelope, pl) \<Rightarrow>
                 (\<lparr>rs_status = 200, rs_error = None,
                   rs_headers = [(''content-type'', envelope_media_type), (''cache-control'', ''no-store'')],
                   rs_body = tb_bytes envelope\<rparr>, pl)
             | (Inl e, pl) \<Rightarrow> (refusal 403 (public_code e), pl)))"

definition healthz :: "string \<Rightarrow> response" where
  "healthz version = \<lparr>rs_status = 200, rs_error = None, rs_headers = [],
     rs_body = ''{\"status\":\"ok\",\"version\":\"'' @ version @ ''\"}''\<rparr>"

definition enforce_body_limit :: "nat \<Rightarrow> string \<Rightarrow> (string \<Rightarrow> response) \<Rightarrow> response" where
  "enforce_body_limit limit body next =
     (if limit < length body then plain_response 413 else next body)"

section \<open>No leak, no panic\<close>

lemma stream_body_ok:
  "stream_body maximum bytes frames = Inr out \<Longrightarrow> length bytes \<le> maximum \<Longrightarrow>
     length out \<le> maximum \<and> out = bytes @ concat (map the frames) \<and> None \<notin> set frames"
proof (induction maximum bytes frames rule: stream_body.induct)
  case (3 maximum bytes frame frames)
  then have "\<not> maximum - length bytes < length frame" by (auto split: if_splits)
  moreover from this 3 have "stream_body maximum (bytes @ frame) frames = Inr out" by simp
  moreover have "length (bytes @ frame) \<le> maximum" using calculation(1) 3(3) by simp
  ultimately show ?case using 3(1) by auto
qed simp_all

lemma stream_body_err: "stream_body maximum bytes frames = Inl r \<Longrightarrow> rs_status r = 400"
  by (induction maximum bytes frames rule: stream_body.induct) (auto simp: refusal_def split: if_splits)

lemma complete_total:
  assumes "ut_reservation ticket = ut_promised_bytes ticket"
  shows "\<exists>r pl'. complete sha256 now ticket bytes (ut_promised_bytes ticket) pl = Some (r, pl')"
proof (cases "upload_check sha256 ticket bytes (ut_promised_bytes ticket)")
  case None
  obtain b where "reservation_shrink (ut_promised_bytes ticket) (ut_reservation ticket) (pl_budget pl) =
      Some (b, ut_promised_bytes ticket)"
    using shrink_within [of "ut_promised_bytes ticket" "ut_reservation ticket"] assms by auto
  with None show ?thesis by (simp add: complete_def Let_def)
qed (simp add: complete_def)

text \<open>
  The upload route gives back every slot it takes, however the transfer ends: missing or wrong
  credential, transport error, oversized body, refused or accepted bytes. It always answers, the
  number of promised slots is what it was before, and the byte accounting stays exact.
\<close>

theorem upload_route_releases:
  assumes "accounted ext pl" and "named M pl"
  shows "\<exists>resp pl'. receive_upload sha256 t1 t2 ident hs frames pl = Some (resp, pl')
    \<and> pl_reserved pl' = pl_reserved pl \<and> accounted ext pl'
    \<and> rs_status resp \<in> {204, 400, 403}"
proof (cases "transfer_credential hs")
  case None
  with assms show ?thesis by (simp add: receive_upload_def refusal_def)
next
  case (Some cred)
  let ?q = "sweep_locked t1 pl"
  have acc: "accounted ext ?q" using assms(1) by (rule accounted_sweep)
  have n: "named M ?q" using assms(2) by (rule named_sweep)
  show ?thesis
  proof (cases "claim_upload sha256 t1 ident cred pl")
    case (Pair r pl1)
    show ?thesis
    proof (cases r)
      case (Inl e)
      with Pair have "pl1 = ?q" by (auto simp: claim_upload_def Let_def split: option.splits if_splits)
      with Some Pair Inl acc show ?thesis by (simp add: receive_upload_def refusal_def)
    next
      case (Inr ticket)
      with Pair have m: "map_of (pl_uploads ?q) ident = Some ticket"
        and pl1: "pl1 = ?q\<lparr>pl_uploads := AList.delete ident (pl_uploads ?q), pl_reserved := pl_reserved ?q + 1\<rparr>"
        by (auto simp: claim_upload_def Let_def split: option.splits if_splits)
      have dis: "distinct (map fst (pl_uploads ?q))" using n by (simp add: named_def)
      have acc1: "accounted (add_mset (ut_reservation ticket) ext) pl1"
        using accounted_delete_upload [OF acc dis m] unfolding pl1 by simp
      have prom: "ut_reservation ticket = ut_promised_bytes ticket"
        using n map_of_SomeD [OF m] unfolding named_def by force
      have dropped: "accounted ext (drop_claim ticket pl1)" "pl_reserved (drop_claim ticket pl1) = pl_reserved pl"
        using accounted_drop [OF acc1] by (simp_all add: drop_claim_def pl1 accounted_def plane_reservations_def)
      show ?thesis
      proof (cases "stream_body (unat (ut_promised_bytes ticket)) [] frames")
        case (Inl resp)
        have "rs_status resp = 400" using stream_body_err [OF Inl] .
        with Inl Some Pair Inr dropped show ?thesis by (simp add: receive_upload_def)
      next
        case bytes: (Inr bytes)
        obtain r2 pl2 where c: "complete sha256 t2 ticket bytes (ut_promised_bytes ticket) pl1 = Some (r2, pl2)"
          using complete_total [OF prom] by blast
        have "pl_reserved pl2 = pl_reserved pl \<and> accounted ext pl2"
        proof (cases "upload_check sha256 ticket bytes (ut_promised_bytes ticket)")
          case None
          from c None obtain b res where b: "reservation_shrink (ut_promised_bytes ticket) (ut_reservation ticket) (pl_budget pl1) = Some (b, res)"
            by (auto simp: complete_def split: option.splits)
          define e where "e = \<lparr>rs_bytes = \<lparr>tb_bytes = bytes, tb_reservation = res\<rparr>, rs_staged_at = t2\<rparr>"
          from accounted_shrink [OF acc1 b] have "accounted (add_mset (rs_reservation e) ext) (pl1\<lparr>pl_budget := b\<rparr>)"
            by (auto simp: e_def rs_reservation_def)
          from accounted_insert_received [OF this, of "ut_staged_id ticket"] c None b show ?thesis
            by (auto simp: complete_def Let_def e_def pl1 accounted_def plane_reservations_def)
        next
          case (Some e)
          with c dropped show ?thesis by (simp add: complete_def)
        qed
        with c bytes Some Pair Inr show ?thesis
          by (cases r2) (auto simp: receive_upload_def refusal_def plain_response_def complete_status_def)
      qed
    qed
  qed
qed

definition tiny_plane :: plane where
  "tiny_plane = plane_new \<lparr>fc_public_origin = [], fc_ttl = 1, fc_max_staged = 1, fc_max_staged_bytes = 1\<rparr>"

lemma upload_route_releases_witness:
  "\<exists>resp pl'. receive_upload id 1 2 ''u'' [(transfer_header_name, ''c'')] [Some ''x''] tiny_plane =
      Some (resp, pl') \<and> pl_reserved pl' = 0"
proof -
  have "accounted {#} tiny_plane"
    by (simp add: tiny_plane_def plane_new_def accounted_def plane_reservations_def
        entry_reservations_def budget_new_def ledger.balanced_def)
  moreover have "named {} tiny_plane" by (simp add: tiny_plane_def plane_new_def named_def no_download_def)
  ultimately show ?thesis
    using upload_route_releases [of "{#}" tiny_plane "{}" id 1 2 "''u''" "[(transfer_header_name, ''c'')]" "[Some ''x'']"]
    by (auto simp: tiny_plane_def plane_new_def)
qed

text \<open>
  Only a GET redeems a download: HEAD and every other method leave the plane untouched, and
  every refusal of a GET, for whatever reason, is one and the same response.
\<close>

theorem download_route_refusals:
  "(m \<noteq> GET \<longrightarrow> snd (serve_download sha256 now m ident hs pl) = pl
      \<and> rs_status (fst (serve_download sha256 now m ident hs pl)) = 405)
   \<and> (rs_status (fst (serve_download sha256 now GET ident hs pl)) \<noteq> 200 \<longrightarrow>
        fst (serve_download sha256 now GET ident hs pl) = refusal 403 ''infisical_file_unauthorized'')"
proof -
  have err: "serve sha256 now ident cred pl = (Inl e, pl') \<Longrightarrow>
      e = Unknown_Reference \<or> e = Bad_Credential" for cred e pl'
    by (auto simp: serve_def Let_def split: option.splits if_splits)
  show ?thesis
    by (auto simp: serve_download_def refusal_def public_code_def
        split: option.splits prod.splits sum.splits dest: err)
qed

lemma download_route_refusals_witness:
  "snd (serve_download id 0 (Other_Method ''HEAD'') ''d'' [] tiny_plane) = tiny_plane
   \<and> rs_status (fst (serve_download id 0 (Other_Method ''HEAD'') ''d'' [] tiny_plane)) = 405"
  using download_route_refusals [of "Other_Method ''HEAD''" id 0 "''d''" "[]" tiny_plane] by simp

end
