(* ===== verification/Network.thy ===== *)
theory Network
  imports Rust_Prelude
begin

unbundle bit_operations_syntax

text \<open>
  The outbound destination policy of \<open>infisical-api/src/network.rs\<close>: which parsed URLs a
  client may dial, and which resolved addresses the private-HTTP resolver lets through.
  A \<open>Url\<close> of the \<open>url\<close> crate is the record of what its accessors return; DNS is a parameter.
\<close>

section \<open>Addresses and URLs\<close>

type_synonym ipv4 = "32 word"
type_synonym ipv6 = "128 word"

datatype ip_addr = V4 ipv4 | V6 ipv6
datatype host = Host_Domain string | Host_Ipv4 ipv4 | Host_Ipv6 ipv6

record socket_addr =
  addr_ip :: ip_addr
  addr_port :: u16

record url =
  url_scheme :: string
  url_username :: string
  url_password :: "string option"
  url_host :: "host option"
  url_port :: "u16 option"
  url_path :: string
  url_query :: "string option"
  url_fragment :: "string option"

datatype resolution_policy = Resolve_System | Resolve_Private_Only

section \<open>Address classes\<close>

text \<open>\<open>Ipv4Addr::is_loopback\<close>, \<open>is_private\<close> and \<open>Ipv6Addr::is_loopback\<close> of the standard library.\<close>

definition ipv4_is_loopback :: "ipv4 \<Rightarrow> bool" where
  "ipv4_is_loopback a \<longleftrightarrow> drop_bit 24 a = 127"

definition ipv4_is_private :: "ipv4 \<Rightarrow> bool" where
  "ipv4_is_private a \<longleftrightarrow>
     drop_bit 24 a = 10 \<or> drop_bit 20 a = 0xAC1 \<or> drop_bit 16 a = 0xC0A8"

definition ipv6_is_loopback :: "ipv6 \<Rightarrow> bool" where
  "ipv6_is_loopback a \<longleftrightarrow> a = 1"

definition ipv6_instance_metadata :: ipv6 where
  "ipv6_instance_metadata = 0xfd000ec2000000000000000000000254"

definition ipv6_is_unique_local :: "ipv6 \<Rightarrow> bool" where
  "ipv6_is_unique_local a \<longleftrightarrow> drop_bit 112 a AND 0xfe00 = 0xfc00"

definition ipv6_is_private_destination :: "ipv6 \<Rightarrow> bool" where
  "ipv6_is_private_destination a \<longleftrightarrow> ipv6_is_unique_local a \<and> a \<noteq> ipv6_instance_metadata"

fun ip_is_private :: "ip_addr \<Rightarrow> bool" where
  "ip_is_private (V4 a) = ipv4_is_private a"
| "ip_is_private (V6 a) = ipv6_is_private_destination a"

section \<open>Host names and the URL policy\<close>

definition is_private_service_name :: "string \<Rightarrow> bool" where
  "is_private_service_name h \<longleftrightarrow>
     length h \<le> 63
     \<and> CHR ''.'' \<notin> set h
     \<and> list_all (\<lambda>b. is_ascii_lowercase b \<or> is_ascii_digit b \<or> b = CHR ''-'') h
     \<and> (case h of [] \<Rightarrow> False | b # _ \<Rightarrow> is_ascii_alphanumeric b)
     \<and> (case rev h of [] \<Rightarrow> False | b # _ \<Rightarrow> is_ascii_alphanumeric b)"

definition host_policy :: "bool \<Rightarrow> host option \<Rightarrow> resolution_policy option" where
  "host_policy allow h =
     (case h of
        Some (Host_Domain d) \<Rightarrow>
          (if eq_ignore_ascii_case d ''localhost'' then Some Resolve_System
           else if allow \<and> is_private_service_name d then Some Resolve_Private_Only
           else None)
      | Some (Host_Ipv4 a) \<Rightarrow>
          (if ipv4_is_loopback a \<or> (allow \<and> ipv4_is_private a) then Some Resolve_System else None)
      | Some (Host_Ipv6 a) \<Rightarrow>
          (if ipv6_is_loopback a \<or> (allow \<and> ipv6_is_private_destination a)
           then Some Resolve_System else None)
      | None \<Rightarrow> None)"

definition url_resolution_policy :: "url \<Rightarrow> bool \<Rightarrow> resolution_policy option" where
  "url_resolution_policy u allow =
     (if url_host u = None \<or> url_username u \<noteq> [] \<or> url_password u \<noteq> None
         \<or> url_query u \<noteq> None \<or> url_fragment u \<noteq> None then None
      else if url_scheme u = ''https'' then Some Resolve_System
      else if url_scheme u \<noteq> ''http'' then None
      else host_policy allow (url_host u))"

section \<open>Resolution\<close>

datatype resolve_error = Lookup_Failed | Unsafe_Private_Resolution

definition validate_private_resolution ::
    "socket_addr list \<Rightarrow> (resolve_error, socket_addr list) result" where
  "validate_private_resolution as =
     (if as = [] \<or> list_ex (\<lambda>a. \<not> ip_is_private (addr_ip a)) as
      then Err Unsafe_Private_Resolution else Ok as)"

text \<open>\<open>SystemResolver::resolve\<close>; \<open>dns\<close> is the operating system's lookup, \<open>None\<close> its failure.\<close>

definition system_resolve ::
    "(string \<Rightarrow> socket_addr list option) \<Rightarrow> string \<Rightarrow> (resolve_error, socket_addr list) result" where
  "system_resolve dns name = ok_or Lookup_Failed (dns name)"

text \<open>\<open>PrivateHttpResolver::resolve\<close> around an inner resolver.\<close>

definition private_http_resolve ::
    "(string \<Rightarrow> (resolve_error, socket_addr list) result)
      \<Rightarrow> string \<Rightarrow> (resolve_error, socket_addr list) result" where
  "private_http_resolve inner name = and_then (inner name) validate_private_resolution"

text \<open>
  The resolver a client is built with (\<open>new_with_system_resolver\<close> of \<open>client.rs\<close> and of
  \<open>auth.rs\<close>): the private one exactly for \<open>PrivateOnly\<close>.
\<close>

definition client_resolve ::
    "resolution_policy \<Rightarrow> (string \<Rightarrow> socket_addr list option)
      \<Rightarrow> string \<Rightarrow> (resolve_error, socket_addr list) result" where
  "client_resolve p dns =
     (case p of
        Resolve_Private_Only \<Rightarrow> private_http_resolve (system_resolve dns)
      | Resolve_System \<Rightarrow> system_resolve dns)"

section \<open>What the policy admits\<close>

lemmas url_policy_defs = url_resolution_policy_def host_policy_def

lemma validate_private_resolution_Ok:
  "validate_private_resolution as = Ok bs \<longleftrightarrow>
     bs = as \<and> as \<noteq> [] \<and> (\<forall>a \<in> set as. ip_is_private (addr_ip a))"
  by (auto simp: validate_private_resolution_def list_ex_iff)

lemma client_resolve_private:
  assumes "client_resolve Resolve_Private_Only dns name = Ok as"
  shows "as \<noteq> [] \<and> (\<forall>a \<in> set as. ip_is_private (addr_ip a)) \<and> dns name = Some as"
  using assms
  by (auto simp: client_resolve_def private_http_resolve_def system_resolve_def
      validate_private_resolution_Ok)

lemma policy_private_only:
  "url_resolution_policy u allow = Some Resolve_Private_Only \<Longrightarrow>
     allow \<and> url_scheme u = ''http'' \<and> (\<exists>d. url_host u = Some (Host_Domain d) \<and> is_private_service_name d)"
  by (auto simp: url_policy_defs split: if_splits option.splits host.splits)

text \<open>No private address is loopback or an instance-metadata endpoint.\<close>

lemma drop_bit_unat: "drop_bit n (a :: 'a::len word) = b \<Longrightarrow> unat a div 2 ^ n = unat b"
  by (metis drop_bit_eq_div unat_drop_bit_eq)

lemma ipv4_private_not_loopback: "ipv4_is_private a \<Longrightarrow> \<not> ipv4_is_loopback a"
proof
  assume p: "ipv4_is_private a" and l: "ipv4_is_loopback a"
  have "unat a div 2 ^ 24 = 127"
    using l drop_bit_unat [of 24 a 127] by (simp only: ipv4_is_loopback_def) simp
  moreover have "unat a div 2 ^ 24 = 10 \<or> unat a div 2 ^ 20 = 0xAC1 \<or> unat a div 2 ^ 16 = 0xC0A8"
    using p drop_bit_unat [of 24 a 10] drop_bit_unat [of 20 a "0xAC1"] drop_bit_unat [of 16 a "0xC0A8"]
    by (simp only: ipv4_is_private_def) auto
  ultimately show False by auto
qed

lemma ipv6_private_not_loopback: "ipv6_is_private_destination a \<Longrightarrow> \<not> ipv6_is_loopback a"
  by (auto simp: ipv6_is_private_destination_def ipv6_is_unique_local_def ipv6_is_loopback_def)

definition is_metadata_endpoint :: "ip_addr \<Rightarrow> bool" where
  "is_metadata_endpoint a \<longleftrightarrow> a = V4 0xA9FEA9FE \<or> a = V6 ipv6_instance_metadata"

definition ip_is_loopback :: "ip_addr \<Rightarrow> bool" where
  "ip_is_loopback a = (case a of V4 b \<Rightarrow> ipv4_is_loopback b | V6 b \<Rightarrow> ipv6_is_loopback b)"

lemma metadata_not_private: "ip_is_private a \<Longrightarrow> \<not> is_metadata_endpoint a"
  by (auto simp: is_metadata_endpoint_def ipv4_is_private_def ipv6_is_private_destination_def)

lemma metadata_not_loopback: "ip_is_loopback a \<Longrightarrow> \<not> is_metadata_endpoint a"
  by (auto simp: is_metadata_endpoint_def ip_is_loopback_def ipv4_is_loopback_def
      ipv6_is_loopback_def ipv6_instance_metadata_def)

text \<open>
  The addresses a client built for \<open>u\<close> connects to: a literal host is dialled as it is, a name
  goes through the resolver the client was built with.
\<close>

definition dial_targets ::
    "url \<Rightarrow> bool \<Rightarrow> (string \<Rightarrow> socket_addr list option) \<Rightarrow> ip_addr list option" where
  "dial_targets u allow dns =
     (case url_resolution_policy u allow of
        None \<Rightarrow> None
      | Some p \<Rightarrow>
          (case url_host u of
             Some (Host_Ipv4 a) \<Rightarrow> Some [V4 a]
           | Some (Host_Ipv6 a) \<Rightarrow> Some [V6 a]
           | Some (Host_Domain d) \<Rightarrow>
               (case client_resolve p dns d of Ok as \<Rightarrow> Some (map addr_ip as) | Err _ \<Rightarrow> None)
           | None \<Rightarrow> None))"

text \<open>
  C6: A plain-HTTP destination that the policy accepts is never an instance-metadata endpoint
  and is always loopback or private, whatever DNS answers for a service name; the one exception
  is the name \<open>localhost\<close>, which the operating system resolves. Without the private-HTTP
  switch only loopback addresses are dialled.
\<close>

theorem http_dials_only_private:
  assumes "dial_targets u allow dns = Some ips"
    and "url_scheme u = ''http''"
    and "\<not> (\<exists>d. url_host u = Some (Host_Domain d) \<and> eq_ignore_ascii_case d ''localhost'')"
  shows "ips \<noteq> [] \<and> (\<forall>ip \<in> set ips. \<not> is_metadata_endpoint ip \<and>
           (ip_is_loopback ip \<or> (allow \<and> ip_is_private ip)))"
proof -
  obtain p where p: "url_resolution_policy u allow = Some p"
    using assms(1) by (auto simp: dial_targets_def split: option.splits)
  have "ips \<noteq> [] \<and> (\<forall>ip \<in> set ips. ip_is_loopback ip \<or> (allow \<and> ip_is_private ip))"
  proof (cases "url_host u")
    case (Some h)
    show ?thesis
    proof (cases h)
      case (Host_Domain d)
      with p assms(2,3) Some have "allow" "p = Resolve_Private_Only"
        by (auto simp: url_policy_defs split: if_splits)
      with assms(1) Some Host_Domain p show ?thesis
        by (auto simp: dial_targets_def dest!: client_resolve_private split: sum.splits)
    qed (use p assms Some in \<open>auto simp: dial_targets_def url_policy_defs ip_is_loopback_def
           split: if_splits\<close>)
  qed (use assms(1) p in \<open>simp add: dial_targets_def\<close>)
  then show ?thesis using metadata_not_private metadata_not_loopback by blast
qed

definition service_url :: url where
  "service_url = \<lparr>url_scheme = ''http'', url_username = [], url_password = None,
     url_host = Some (Host_Domain ''infisical''), url_port = Some 8080, url_path = ''/'',
     url_query = None, url_fragment = None\<rparr>"

definition service_dns :: "string \<Rightarrow> socket_addr list option" where
  "service_dns name = Some [\<lparr>addr_ip = V4 0x0A000001, addr_port = 0\<rparr>]"

lemma service_dial: "dial_targets service_url True service_dns = Some [V4 0x0A000001]"
  by code_simp

lemma service_not_localhost: "\<not> eq_ignore_ascii_case ''infisical'' ''localhost''"
  by code_simp

lemma http_dials_only_private_witness:
  "dial_targets service_url True service_dns = Some [V4 0x0A000001]
     \<and> \<not> is_metadata_endpoint (V4 0x0A000001)
     \<and> (ip_is_loopback (V4 0x0A000001) \<or> ip_is_private (V4 0x0A000001))"
  using http_dials_only_private [OF service_dial] service_not_localhost service_dial
  by (simp add: service_url_def)

end
