(* ===== verification/Identity_Keys.thy ===== *)
theory Identity_Keys
  imports Ingress_Auth
begin

text \<open>
  The JWKS cache of \<open>infisical-server/src/auth.rs\<close>: \<open>KeyCache\<close>, \<open>key_for\<close> and \<open>fetch_jwks\<close>. The
  refresh mutex is held across the fetch, so the state says which fetch is under way; a caller
  cancelled in mid-fetch releases the mutex and leaves the reserved retry window behind.
\<close>

definition unknown_key_refresh_cooldown :: nat where "unknown_key_refresh_cooldown = from_secs 5"
definition failed_key_refresh_cooldown :: nat where "failed_key_refresh_cooldown = from_secs 5"
definition maximum_identity_request_timeout :: nat where
  "maximum_identity_request_timeout = from_secs 30"
definition maximum_jwks_cache_ttl :: nat where "maximum_jwks_cache_ttl = from_secs 3600"
definition maximum_jwks_bytes :: nat where "maximum_jwks_bytes = 64 * 1024"

record identity_settings =
  id_jwks_url :: url
  id_issuer :: string
  id_allow_private_http :: bool
  id_request_timeout :: nat
  id_cache_ttl :: nat

definition validate_jwks_url :: "url \<Rightarrow> bool \<Rightarrow> (identity_error, resolution_policy) result" where
  "validate_jwks_url u allow = ok_or Unsafe_Jwks_Url (url_resolution_policy u allow)"

definition identity_verifier_new :: "identity_settings \<Rightarrow> (identity_error, resolution_policy) result" where
  "identity_verifier_new s =
     and_then (validate_jwks_url (id_jwks_url s) (id_allow_private_http s)) (\<lambda>policy.
       if id_issuer s = [] then Err Empty_Issuer
       else if id_request_timeout s = 0 \<or> maximum_identity_request_timeout < id_request_timeout s
          \<or> id_cache_ttl s = 0 \<or> maximum_jwks_cache_ttl < id_cache_ttl s
       then Err Invalid_Bounds_Identity
       else Ok policy)"

section \<open>The cache\<close>

record key_cache =
  kc_set :: "jwk list option"
  kc_expires_at :: "nat option"
  kc_unknown_key_refresh_after :: "nat option"

datatype key_lookup = Hit jwk | Miss bool | Stale

definition cache_lookup :: "string \<Rightarrow> nat \<Rightarrow> key_cache \<Rightarrow> key_lookup" where
  "cache_lookup key_id now c =
     (if (case kc_expires_at c of None \<Rightarrow> True | Some e \<Rightarrow> e \<le> now) then Stale
      else case kc_set c of
        None \<Rightarrow> Stale
      | Some keys \<Rightarrow>
          (case jwk_set_find key_id keys of
             Some k \<Rightarrow> Hit k
           | None \<Rightarrow> Miss (case kc_unknown_key_refresh_after c of None \<Rightarrow> True | Some r \<Rightarrow> r \<le> now)))"

definition defer_unknown_key_refresh :: "nat \<Rightarrow> key_cache \<Rightarrow> key_cache" where
  "defer_unknown_key_refresh now c =
     c\<lparr>kc_unknown_key_refresh_after := Some (now + unknown_key_refresh_cooldown)\<rparr>"

section \<open>The response body\<close>

definition extend_bounded_jwks_body :: "string \<Rightarrow> string \<Rightarrow> (identity_error, string) result" where
  "extend_bounded_jwks_body body chunk =
     (let new_length = length body + length chunk in
      if 2 ^ 64 \<le> new_length then Err Jwks_Too_Large
      else if maximum_jwks_bytes < new_length then Err Jwks_Too_Large
      else Ok (body @ chunk))"

fun read_jwks :: "string \<Rightarrow> string option list \<Rightarrow> (identity_error, string) result" where
  "read_jwks body [] = Ok body"
| "read_jwks body (None # chunks) = Err Key_Unavailable"
| "read_jwks body (Some chunk # chunks) =
     and_then (extend_bounded_jwks_body body chunk) (\<lambda>body. read_jwks body chunks)"

text \<open>\<open>fetch_jwks\<close>: \<open>None\<close> is a failed send, a chunk that is \<open>None\<close> a failed read.\<close>

definition fetch_jwks ::
    "(string \<Rightarrow> jwk list option) \<Rightarrow> (nat \<times> string option list) option
      \<Rightarrow> (identity_error, jwk list) result" where
  "fetch_jwks from_slice reply =
     (case reply of
        None \<Rightarrow> Err Key_Unavailable
      | Some (status, chunks) \<Rightarrow>
          if \<not> (200 \<le> status \<and> status < 300) then Err Key_Unavailable
          else and_then (read_jwks [] chunks) (\<lambda>body. ok_or Invalid_Jwks (from_slice body)))"

lemma read_jwks_bound:
  "read_jwks body chunks = Ok out \<Longrightarrow> length body \<le> maximum_jwks_bytes \<Longrightarrow>
     length out \<le> maximum_jwks_bytes \<and> out = body @ concat (map the chunks) \<and> None \<notin> set chunks"
  by (induction body chunks rule: read_jwks.induct)
    (fastforce simp: extend_bounded_jwks_body_def Let_def split: if_splits)+

section \<open>Fetching under the refresh lock\<close>

record fetching =
  ft_key_id :: string
  ft_for_miss :: bool
  ft_started :: nat

record verifier_state =
  vs_now :: nat
  vs_cache :: key_cache
  vs_retry_at :: "nat option"
  vs_fetching :: "fetching option"
  vs_last_failure :: "nat option"
  vs_last_miss :: "nat option"
  vs_fetches :: "(nat \<times> bool \<times> nat option \<times> nat option) list"

datatype key_decision = Answer "(identity_error, jwk) result" | Fetch bool

text \<open>What \<open>key_for\<close> decides once it holds the lock, and the reservation it makes before fetching.\<close>

definition key_decide :: "string \<Rightarrow> nat \<Rightarrow> key_cache \<Rightarrow> nat option \<Rightarrow> key_decision" where
  "key_decide key_id now cache retry_at =
     (case cache_lookup key_id now cache of
        Hit k \<Rightarrow> Answer (Ok k)
      | look \<Rightarrow>
          (case retry_at of
             Some deadline \<Rightarrow>
               if deadline - now \<noteq> 0
               then Answer (Err (Key_Refresh_Cooldown (ceil_secs (deadline - now))))
               else (case look of
                       Miss False \<Rightarrow> Answer (Err Key_Unavailable)
                     | Miss True \<Rightarrow> Fetch True
                     | _ \<Rightarrow> Fetch False)
           | None \<Rightarrow>
               (case look of
                  Miss False \<Rightarrow> Answer (Err Key_Unavailable)
                | Miss True \<Rightarrow> Fetch True
                | _ \<Rightarrow> Fetch False)))"

definition begin_fetch :: "identity_settings \<Rightarrow> string \<Rightarrow> bool \<Rightarrow> verifier_state \<Rightarrow> verifier_state" where
  "begin_fetch st key_id for_miss s =
     s\<lparr>vs_cache := (if for_miss then defer_unknown_key_refresh (vs_now s) (vs_cache s) else vs_cache s),
       vs_retry_at := Some (vs_now s + id_request_timeout st + failed_key_refresh_cooldown),
       vs_fetching := Some \<lparr>ft_key_id = key_id, ft_for_miss = for_miss, ft_started = vs_now s\<rparr>,
       vs_fetches := (vs_now s, for_miss, vs_last_failure s, vs_last_miss s) # vs_fetches s,
       vs_last_miss := (if for_miss then Some (vs_now s) else vs_last_miss s)\<rparr>"

definition fetch_failed :: "verifier_state \<Rightarrow> verifier_state" where
  "fetch_failed s =
     s\<lparr>vs_retry_at := Some (vs_now s + failed_key_refresh_cooldown), vs_fetching := None,
       vs_last_failure := Some (vs_now s)\<rparr>"

definition fetch_succeeded ::
    "identity_settings \<Rightarrow> fetching \<Rightarrow> jwk list \<Rightarrow> verifier_state
      \<Rightarrow> verifier_state \<times> (identity_error, jwk) result" where
  "fetch_succeeded st f keys s =
     (let key = jwk_set_find (ft_key_id f) keys in
      (s\<lparr>vs_cache := \<lparr>kc_set = Some keys, kc_expires_at = Some (vs_now s + id_cache_ttl st),
           kc_unknown_key_refresh_after =
             (if ft_for_miss f \<or> key = None then Some (vs_now s + unknown_key_refresh_cooldown) else None)\<rparr>,
         vs_retry_at := None, vs_fetching := None\<rparr>,
       ok_or Key_Unavailable key))"

definition fetch_cancelled :: "verifier_state \<Rightarrow> verifier_state" where
  "fetch_cancelled s = s\<lparr>vs_fetching := None, vs_last_failure := Some (vs_now s)\<rparr>"

definition vs_start :: "verifier_state \<Rightarrow> bool" where
  "vs_start s \<longleftrightarrow> vs_cache s = \<lparr>kc_set = None, kc_expires_at = None, kc_unknown_key_refresh_after = None\<rparr>
     \<and> vs_retry_at s = None \<and> vs_fetching s = None \<and> vs_last_failure s = None
     \<and> vs_last_miss s = None \<and> vs_fetches s = []"

text \<open>
  A fetch ends within the client's request timeout, by an answer, a failure or the cancellation of
  its caller; meanwhile other callers only read the cache or wait for the lock.
\<close>

inductive verifier_step :: "identity_settings \<Rightarrow> verifier_state \<Rightarrow> verifier_state \<Rightarrow> bool" for st where
  vs_tick:
    "(\<And>f. vs_fetching s = Some f \<Longrightarrow> vs_now s + d \<le> ft_started f + id_request_timeout st) \<Longrightarrow>
     verifier_step st s (s\<lparr>vs_now := vs_now s + d\<rparr>)"
| vs_answer: "vs_fetching s = None \<Longrightarrow>
     key_decide key_id (vs_now s) (vs_cache s) (vs_retry_at s) = Answer r \<Longrightarrow> verifier_step st s s"
| vs_begin: "vs_fetching s = None \<Longrightarrow>
     key_decide key_id (vs_now s) (vs_cache s) (vs_retry_at s) = Fetch for_miss \<Longrightarrow>
     verifier_step st s (begin_fetch st key_id for_miss s)"
| vs_fail: "vs_fetching s = Some f \<Longrightarrow> verifier_step st s (fetch_failed s)"
| vs_success: "vs_fetching s = Some f \<Longrightarrow> verifier_step st s (fst (fetch_succeeded st f keys s))"
| vs_cancel: "vs_fetching s = Some f \<Longrightarrow> verifier_step st s (fetch_cancelled s)"

section \<open>Fetch pacing\<close>

definition cooled :: "nat \<Rightarrow> nat \<Rightarrow> bool" where
  "cooled u t \<longleftrightarrow> u + from_secs 5 \<le> t"

definition cache_holds_off :: "nat \<Rightarrow> key_cache \<Rightarrow> bool" where
  "cache_holds_off u c \<longleftrightarrow>
     (\<exists>x d keys. kc_expires_at c = Some x \<and> cooled u x \<and> kc_unknown_key_refresh_after c = Some d
        \<and> cooled u d \<and> kc_set c = Some keys)"

definition vs_inv :: "identity_settings \<Rightarrow> verifier_state \<Rightarrow> bool" where
  "vs_inv st s \<longleftrightarrow>
     (\<forall>u. vs_last_failure s = Some u \<longrightarrow>
        cooled u (vs_now s) \<or> (vs_fetching s = None \<and> (\<exists>d. vs_retry_at s = Some d \<and> cooled u d)))
     \<and> (\<forall>u. vs_last_miss s = Some u \<longrightarrow> u \<le> vs_now s \<and>
          (cooled u (vs_now s) \<or> (\<exists>d. vs_retry_at s = Some d \<and> cooled u d)
            \<or> (vs_fetching s = None \<and> cache_holds_off u (vs_cache s))))
     \<and> (\<forall>f. vs_fetching s = Some f \<longrightarrow> ft_started f \<le> vs_now s
          \<and> vs_now s \<le> ft_started f + id_request_timeout st
          \<and> vs_retry_at s = Some (ft_started f + id_request_timeout st + failed_key_refresh_cooldown)
          \<and> (\<not> ft_for_miss f \<longrightarrow> (\<forall>u. vs_last_miss s = Some u \<longrightarrow> cooled u (vs_now s))))
     \<and> (\<forall>(t, m, lf, lm) \<in> set (vs_fetches s).
          (\<forall>u. lf = Some u \<longrightarrow> cooled u t) \<and> (\<forall>u. lm = Some u \<longrightarrow> cooled u t))"

lemmas cooldown_defs = failed_key_refresh_cooldown_def unknown_key_refresh_cooldown_def

lemma cooled_later: "cooled u t \<Longrightarrow> cooled u (t + d)"
  by (simp add: cooled_def)

lemma vs_inv_start: "vs_start s \<Longrightarrow> vs_inv st s"
  by (simp add: vs_start_def vs_inv_def)

lemma decide_fetch:
  assumes "key_decide key_id now c retry = Fetch m"
  shows "(\<forall>d. retry = Some d \<longrightarrow> d \<le> now) \<and> (cache_holds_off u c \<longrightarrow> cooled u now)"
proof -
  have r: "\<forall>d. retry = Some d \<longrightarrow> d \<le> now"
    using assms by (auto simp: key_decide_def split: key_lookup.splits option.splits if_splits bool.splits)
  have "cache_lookup key_id now c = Miss True \<or> cache_lookup key_id now c = Stale"
    using assms by (auto simp: key_decide_def split: key_lookup.splits option.splits if_splits bool.splits)
  then have "cache_holds_off u c \<Longrightarrow> cooled u now"
    by (auto simp: cache_lookup_def cache_holds_off_def cooled_def split: if_splits option.splits)
  with r show ?thesis by blast
qed

lemma vs_inv_begin:
  assumes inv: "vs_inv st s" and idle: "vs_fetching s = None"
    and d: "key_decide key_id (vs_now s) (vs_cache s) (vs_retry_at s) = Fetch m"
  shows "vs_inv st (begin_fetch st key_id m s)"
proof -
  have lf: "cooled u (vs_now s)" if "vs_last_failure s = Some u" for u
    using inv decide_fetch [OF d, of u] that unfolding vs_inv_def cooled_def by fastforce
  have lm: "cooled u (vs_now s)" if "vs_last_miss s = Some u" for u
    using inv decide_fetch [OF d, of u] that unfolding vs_inv_def cooled_def by fastforce
  show ?thesis
    using inv lf lm unfolding vs_inv_def begin_fetch_def
    by (auto simp: cooled_def cooldown_defs)
qed

lemma vs_inv_step:
  assumes ttl: "from_secs 5 \<le> id_cache_ttl st" and inv: "vs_inv st s" and step: "verifier_step st s t"
  shows "vs_inv st t"
  using step
proof cases
  case (vs_tick d)
  then show ?thesis using inv unfolding vs_inv_def by (auto simp: cooled_later)
next
  case (vs_fail f)
  then show ?thesis using inv unfolding vs_inv_def fetch_failed_def
    by (auto simp: cooled_def cooldown_defs)
next
  case (vs_success f keys)
  have "cooled u (vs_now s) \<or> cache_holds_off u (vs_cache t)" if "vs_last_miss s = Some u" for u
  proof (cases "ft_for_miss f")
    case True
    have "u \<le> vs_now s" using inv that by (simp add: vs_inv_def)
    with True ttl show ?thesis
      by (auto simp: vs_success fetch_succeeded_def cache_holds_off_def cooled_def cooldown_defs)
  next
    case False
    then show ?thesis using inv that vs_success by (simp add: vs_inv_def)
  qed
  moreover have "cooled u (vs_now s)" if "vs_last_failure s = Some u" for u
    using inv that vs_success unfolding vs_inv_def by auto
  ultimately show ?thesis
    using inv vs_success unfolding vs_inv_def by (auto simp: fetch_succeeded_def Let_def)
next
  case (vs_cancel f)
  then show ?thesis using inv unfolding vs_inv_def fetch_cancelled_def
    by (auto simp: cooled_def cooldown_defs)
next
  case (vs_begin key_id for_miss)
  then show ?thesis using vs_inv_begin [OF inv] by simp
qed (use inv in simp)

text \<open>The verifier whose cache lifetime is at least the cooldown, as the configuration demands.\<close>

definition paced_start :: "identity_settings \<Rightarrow> verifier_state \<Rightarrow> bool" where
  "paced_start st s \<longleftrightarrow> vs_start s \<and> from_secs 5 \<le> id_cache_ttl st"

definition paced_inv :: "identity_settings \<Rightarrow> verifier_state \<Rightarrow> bool" where
  "paced_inv st s \<longleftrightarrow> vs_inv st s \<and> from_secs 5 \<le> id_cache_ttl st"

interpretation keys: transition_system "paced_start st" "verifier_step st" "paced_inv st" for st
  by unfold_locales (auto simp: paced_start_def paced_inv_def intro: vs_inv_start vs_inv_step)

text \<open>
  C35: The identity provider is never hammered: with a cache lifetime of at least five seconds every
  key-set fetch starts at least five seconds after the last fetch that failed or was cancelled, and
  at least five seconds after the last fetch an unknown key identifier provoked, whatever tokens
  clients present and however callers are cancelled.
\<close>

theorem key_fetches_paced:
  assumes "reachable (paced_start st) (verifier_step st) s"
    and "(started, for_miss, last_failure, last_miss) \<in> set (vs_fetches s)"
  shows "(\<forall>u. last_failure = Some u \<longrightarrow> u + from_secs 5 \<le> started)
    \<and> (\<forall>u. last_miss = Some u \<longrightarrow> u + from_secs 5 \<le> started)"
  using keys.reachable_invariant [OF assms(1)] assms(2)
  unfolding paced_inv_def vs_inv_def cooled_def by fast

definition quiet_verifier :: verifier_state where
  "quiet_verifier = \<lparr>vs_now = 0, vs_cache = \<lparr>kc_set = None, kc_expires_at = None,
     kc_unknown_key_refresh_after = None\<rparr>, vs_retry_at = None, vs_fetching = None,
     vs_last_failure = None, vs_last_miss = None, vs_fetches = []\<rparr>"

definition demo_identity :: identity_settings where
  "demo_identity = \<lparr>id_jwks_url = service_url, id_issuer = ''gateway'', id_allow_private_http = True,
     id_request_timeout = from_secs 10, id_cache_ttl = from_secs 60\<rparr>"

lemma fetching_reachable:
  "reachable (paced_start demo_identity) (verifier_step demo_identity)
     (begin_fetch demo_identity ''k'' False quiet_verifier)"
proof (rule reach_step)
  show "reachable (paced_start demo_identity) (verifier_step demo_identity) quiet_verifier"
    by (rule reach_start) (simp add: paced_start_def vs_start_def quiet_verifier_def demo_identity_def)
  show "verifier_step demo_identity quiet_verifier (begin_fetch demo_identity ''k'' False quiet_verifier)"
    by (rule vs_begin) (simp_all add: quiet_verifier_def key_decide_def cache_lookup_def)
qed

lemma key_fetches_paced_witness:
  "\<exists>lf lm. (0, False, lf, lm) \<in> set (vs_fetches (begin_fetch demo_identity ''k'' False quiet_verifier))
     \<and> (\<forall>u. lf = Some u \<longrightarrow> u + from_secs 5 \<le> 0)"
proof -
  have "(0, False, None, None) \<in> set (vs_fetches (begin_fetch demo_identity ''k'' False quiet_verifier))"
    by (simp add: begin_fetch_def quiet_verifier_def)
  from this key_fetches_paced [OF fetching_reachable this] show ?thesis by blast
qed

text \<open>
  A key set is decoded only from a body that arrived whole, from a successful response, and of
  at most 64 KiB.
\<close>

theorem jwks_body_bounded:
  assumes "fetch_jwks from_slice reply = Ok keys"
  shows "\<exists>status chunks. reply = Some (status, map Some chunks) \<and> 200 \<le> status \<and> status < 300
    \<and> length (concat chunks) \<le> 65536 \<and> from_slice (concat chunks) = Some keys"
proof -
  from assms obtain status cs body where r: "reply = Some (status, cs)" "200 \<le> status" "status < 300"
    and b: "read_jwks [] cs = Ok body" and k: "from_slice body = Some keys"
    by (auto simp: fetch_jwks_def split: option.splits if_splits)
  from read_jwks_bound [OF b] have "length body \<le> 65536" "body = concat (map the cs)" "None \<notin> set cs"
    by (auto simp: maximum_jwks_bytes_def simp del: length_concat)
  moreover from this(3) have "cs = map Some (map the cs)" by (induction cs) auto
  ultimately show ?thesis using r k by (intro exI [of _ status] exI [of _ "map the cs"]) (auto simp del: length_concat)
qed

lemma jwks_body_bounded_witness:
  "\<exists>status chunks. Some (200 :: nat, [Some ''[]'']) = Some (status, map Some chunks)
    \<and> length (concat chunks) \<le> 65536"
proof -
  have "fetch_jwks (\<lambda>_. Some []) (Some (200, [Some ''[]''])) = Ok []"
    by (simp add: fetch_jwks_def extend_bounded_jwks_body_def maximum_jwks_bytes_def)
  from jwks_body_bounded [OF this] show ?thesis by (elim exE conjE) (rule exI, rule exI, rule conjI)
qed

end
