(* ===== verification/Client_Types.thy ===== *)
theory Client_Types
  imports Network Http
begin

text \<open>
  The data of \<open>infisical-api/src/client.rs\<close>: settings and their validation, fixed endpoints and
  the URLs they produce, the error types, and the sanitised facts taken from response headers.
  \<open>httpdate\<close> and the URL accessors are parameters; headers are name/value pairs in order.
\<close>

section \<open>Errors\<close>

datatype transport_error_kind = Timeout | Connect | Other_Transport

datatype api_error_kind =
  Invalid_Request | Authentication | Permission_Denied | Not_Found | Conflict | Rate_Limited | Server

record api_failure =
  failure_kind :: api_error_kind
  failure_status :: nat
  failure_request_id :: "string option"
  failure_retry_after_seconds :: "nat option"

datatype client_error =
    Work_Budget_Exhausted
  | Transport transport_error_kind
  | Response_Too_Large nat
  | Invalid_Response
  | Invalid_Mutation_Response
  | Invalid_Endpoint
  | Refresh_Interrupted
  | Authentication_Cooldown client_error nat
  | Api api_failure

definition kind_from_status :: "nat \<Rightarrow> api_error_kind" where
  "kind_from_status status =
     (if status = 400 \<or> status = 422 then Invalid_Request
      else if status = 401 then Authentication
      else if status = 403 then Permission_Denied
      else if status = 404 then Not_Found
      else if status = 409 then Conflict
      else if status = 429 then Rate_Limited
      else Server)"

text \<open>\<open>ApiFailure::retry_after\<close> and \<open>ClientError::retry_after\<close>, in nanoseconds.\<close>

definition api_retry_after :: "api_failure \<Rightarrow> nat option" where
  "api_retry_after f = map_option from_secs (failure_retry_after_seconds f)"

definition retry_after :: "client_error \<Rightarrow> nat option" where
  "retry_after e =
     (case e of
        Api f \<Rightarrow> api_retry_after f
      | Authentication_Cooldown _ secs \<Rightarrow> Some (from_secs secs)
      | _ \<Rightarrow> None)"

definition is_api_kind :: "api_error_kind \<Rightarrow> client_error \<Rightarrow> bool" where
  "is_api_kind k e = (case e of Api f \<Rightarrow> failure_kind f = k | _ \<Rightarrow> False)"

section \<open>Headers\<close>

definition max_retry_after :: nat where "max_retry_after = from_secs 300"

definition is_request_id_byte :: "char \<Rightarrow> bool" where
  "is_request_id_byte b \<longleftrightarrow> is_ascii_alphanumeric b \<or> b \<in> {CHR ''-'', CHR ''_'', CHR '':'', CHR ''.''}"

definition safe_request_id :: "headers \<Rightarrow> string option" where
  "safe_request_id hs =
     (case header_values ''x-request-id'' hs of
        [] \<Rightarrow> None
      | v # _ \<Rightarrow>
          Option.bind (header_to_str v) (\<lambda>value.
            if length value \<le> 128 \<and> value \<noteq> [] \<and> list_all is_request_id_byte value
            then Some value else None))"

definition safe_retry_after :: "(string \<Rightarrow> nat option) \<Rightarrow> headers \<Rightarrow> nat \<Rightarrow> nat option" where
  "safe_retry_after http_date hs now =
     (case header_values ''retry-after'' hs of
        [] \<Rightarrow> None
      | v # others \<Rightarrow>
          Option.bind (header_to_str v) (\<lambda>value.
            if others \<noteq> [] \<or> value = [] \<or> 128 < length value then None
            else
              Option.bind
                (if list_all is_ascii_digit value
                 then (case parse_uint (2 ^ 64 - 1) value of
                         Ok n \<Rightarrow> Some (from_secs n) | Err _ \<Rightarrow> None)
                 else map_option (\<lambda>date. date - now) (http_date value))
                (\<lambda>delay. Some (ceil_secs (min delay max_retry_after)))))"

lemma safe_retry_after_bound: "safe_retry_after http_date hs now = Some s \<Longrightarrow> s \<le> 300"
  by (auto simp: safe_retry_after_def bind_eq_Some_conv ceil_secs_le_iff max_retry_after_def
      split: list.splits if_splits)

lemma safe_request_id_Some:
  "safe_request_id hs = Some v \<Longrightarrow>
     v \<noteq> [] \<and> length v \<le> 128 \<and> list_all is_request_id_byte v \<and> (''x-request-id'', v) \<in> set hs"
proof -
  assume a: "safe_request_id hs = Some v"
  then obtain w ws where w: "header_values ''x-request-id'' hs = w # ws"
    by (auto simp: safe_request_id_def split: list.splits)
  then have "w \<in> set (header_values ''x-request-id'' hs)" by simp
  then have "(''x-request-id'', w) \<in> set hs" by (simp add: header_values_mem)
  with a w show ?thesis
    by (auto simp: safe_request_id_def header_to_str_def bind_eq_Some_conv split: if_splits)
qed

section \<open>Settings\<close>

definition default_request_timeout :: nat where "default_request_timeout = from_secs 10"
definition maximum_request_timeout :: nat where "maximum_request_timeout = from_secs 120"
definition default_max_response_bytes :: nat where "default_max_response_bytes = 2 * 1024 * 1024"
definition maximum_response_bytes :: nat where "maximum_response_bytes = 16 * 1024 * 1024"
definition default_token_refresh_skew :: nat where "default_token_refresh_skew = from_secs 30"
definition default_max_concurrent_requests :: nat where "default_max_concurrent_requests = 32"
definition maximum_concurrent_requests :: nat where "maximum_concurrent_requests = 256"

record client_settings =
  api_url :: url
  client_id :: string
  client_secret :: string
  organization_slug :: "string option"
  allow_private_http :: bool
  request_timeout :: nat
  max_concurrent_requests :: nat
  max_response_bytes :: nat
  token_refresh_skew :: nat

definition client_settings_new :: "url \<Rightarrow> string \<Rightarrow> string \<Rightarrow> client_settings" where
  "client_settings_new u ident secret =
     \<lparr>api_url = u, client_id = ident, client_secret = secret, organization_slug = None,
      allow_private_http = False, request_timeout = default_request_timeout,
      max_concurrent_requests = default_max_concurrent_requests,
      max_response_bytes = default_max_response_bytes,
      token_refresh_skew = default_token_refresh_skew\<rparr>"

datatype client_config_error =
  Unsafe_Api_Url | Invalid_Credential | Invalid_Organization_Slug | Invalid_Bounds | Http_Client

definition url_policy :: "url \<Rightarrow> bool \<Rightarrow> resolution_policy option" where
  "url_policy u allow = (if url_path u \<noteq> ''/'' then None else url_resolution_policy u allow)"

definition is_valid_slug :: "string \<Rightarrow> bool" where
  "is_valid_slug value \<longleftrightarrow> value \<noteq> [] \<and> length value \<le> 64
     \<and> list_all (\<lambda>segment. segment \<noteq> []
           \<and> list_all (\<lambda>b. is_ascii_lowercase b \<or> is_ascii_digit b) segment)
         (split_by ((=) (CHR ''-'')) value)"

definition validate_settings ::
    "client_settings \<Rightarrow> (client_config_error, resolution_policy) result" where
  "validate_settings s =
     and_then (ok_or Unsafe_Api_Url (url_policy (api_url s) (allow_private_http s))) (\<lambda>policy.
       if client_id s = [] \<or> str_trim (client_id s) \<noteq> client_id s
          \<or> client_secret s = [] \<or> str_trim (client_secret s) \<noteq> client_secret s
       then Err Invalid_Credential
       else if (case organization_slug s of None \<Rightarrow> False | Some slug \<Rightarrow> \<not> is_valid_slug slug)
       then Err Invalid_Organization_Slug
       else if request_timeout s = 0 \<or> maximum_request_timeout < request_timeout s
          \<or> max_response_bytes s = 0 \<or> maximum_response_bytes < max_response_bytes s
          \<or> max_concurrent_requests s = 0 \<or> maximum_concurrent_requests < max_concurrent_requests s
          \<or> token_refresh_skew s = 0
       then Err Invalid_Bounds
       else Ok policy)"

lemma validate_settings_Ok:
  "validate_settings s = Ok p \<Longrightarrow>
     url_resolution_policy (api_url s) (allow_private_http s) = Some p
     \<and> 0 < request_timeout s \<and> request_timeout s \<le> maximum_request_timeout
     \<and> 0 < max_response_bytes s \<and> max_response_bytes s \<le> maximum_response_bytes
     \<and> 0 < max_concurrent_requests s \<and> max_concurrent_requests s \<le> maximum_concurrent_requests
     \<and> 0 < token_refresh_skew s"
  by (auto simp: validate_settings_def url_policy_def split: if_splits)

section \<open>Endpoints\<close>

datatype api_version = V1 | V2 | V4_Api

fun version_segment :: "api_version \<Rightarrow> string" where
  "version_segment V1 = ''v1''"
| "version_segment V2 = ''v2''"
| "version_segment V4_Api = ''v4''"

record endpoint =
  endpoint_version :: api_version
  endpoint_segments :: "string list"

definition endpoint_from_static :: "api_version \<Rightarrow> string \<Rightarrow> endpoint" where
  "endpoint_from_static v path =
     \<lparr>endpoint_version = v, endpoint_segments = split_by ((=) (CHR ''/'')) path\<rparr>"

definition endpoint_from_segments :: "api_version \<Rightarrow> string list \<Rightarrow> endpoint" where
  "endpoint_from_segments v segments = \<lparr>endpoint_version = v, endpoint_segments = segments\<rparr>"

definition endpoint_is_valid :: "endpoint \<Rightarrow> bool" where
  "endpoint_is_valid e \<longleftrightarrow> endpoint_segments e \<noteq> []
     \<and> list_all (\<lambda>segment. segment \<noteq> [] \<and> segment \<noteq> ''.'' \<and> segment \<noteq> ''..'') (endpoint_segments e)"

text \<open>
  \<open>endpoint_url\<close> up to the percent-encoding of \<open>PathSegmentsMut::push\<close>: the segments the URL gets.
  \<open>path_segments_mut\<close> fails only for URLs that cannot be a base, which \<open>url_policy\<close> excludes.
\<close>

definition endpoint_url :: "endpoint \<Rightarrow> (client_error, string list) result" where
  "endpoint_url e =
     (if \<not> endpoint_is_valid e then Err Invalid_Endpoint
      else Ok (''api'' # version_segment (endpoint_version e) # endpoint_segments e))"

definition plain_segment :: "string \<Rightarrow> bool" where
  "plain_segment x \<longleftrightarrow> x \<noteq> [] \<and> x \<noteq> ''.'' \<and> x \<noteq> ''..''"

lemma version_segment_plain: "plain_segment (version_segment v)"
  by (cases v) (simp_all add: plain_segment_def)

lemma endpoint_url_Ok:
  assumes "endpoint_url e = Ok segs"
  shows "segs = ''api'' # version_segment (endpoint_version e) # endpoint_segments e
     \<and> (\<forall>x \<in> set segs. plain_segment x)"
proof -
  have "segs = ''api'' # version_segment (endpoint_version e) # endpoint_segments e"
    and "\<forall>x \<in> set (endpoint_segments e). plain_segment x"
    using assms unfolding endpoint_url_def endpoint_is_valid_def list_all_iff plain_segment_def
    by (simp_all split: if_splits)
  moreover have "plain_segment ''api''" by (simp add: plain_segment_def)
  ultimately show ?thesis using version_segment_plain by simp
qed

lemma login_endpoint:
  "endpoint_url (endpoint_from_static V1 ''auth/universal-auth/login'') =
     Ok [''api'', ''v1'', ''auth'', ''universal-auth'', ''login'']"
  by code_simp

end
