(* ===== verification/Client_Refresh.thy ===== *)
theory Client_Refresh
  imports Client_Types
begin

text \<open>
  The access-token cache and single-flight refresh of \<open>infisical-api/src/client.rs\<close>. The token
  lock, the coordinator lock and the watch channels become the fields of one state, each critical
  section one step; an \<open>Arc\<close> is told apart by its \<open>token_id\<close>, a channel by its flight number.
  Clock readings inside one critical section coincide.
\<close>

section \<open>Tokens\<close>

definition auth_failure_cooldown :: nat where "auth_failure_cooldown = from_secs 5"
definition auth_rejection_cooldown :: nat where "auth_rejection_cooldown = from_secs 30"

record cached_token =
  token_id :: nat
  token_value :: string
  refresh_after :: nat

definition is_fresh :: "cached_token \<Rightarrow> nat \<Rightarrow> bool" where
  "is_fresh token now \<longleftrightarrow> now < refresh_after token"

definition fresh_token :: "nat \<Rightarrow> cached_token option \<Rightarrow> cached_token option" where
  "fresh_token now cached =
     (case cached of Some token \<Rightarrow> if is_fresh token now then Some token else None | None \<Rightarrow> None)"

definition invalidate_if_current :: "cached_token \<Rightarrow> cached_token option \<Rightarrow> cached_token option" where
  "invalidate_if_current used cached =
     (case cached of
        Some current \<Rightarrow> if token_id current = token_id used then None else cached
      | None \<Rightarrow> None)"

record login_response =
  access_token_field :: string
  expires_in :: nat

text \<open>
  The end of \<open>login\<close>: from the decoded response to the cached token. \<open>Instant::checked_add\<close>
  fails beyond \<open>instant_limit\<close>, the last instant of the platform.
\<close>

definition token_of_login ::
    "nat \<Rightarrow> nat \<Rightarrow> nat \<Rightarrow> nat \<Rightarrow> login_response \<Rightarrow> (client_error, cached_token) result" where
  "token_of_login instant_limit refresh_skew ident login_started_at response =
     (if access_token_field response = [] \<or> expires_in response = 0 then Err Invalid_Response
      else
        let ttl = from_secs (expires_in response);
            skew = min refresh_skew (ttl div 2);
            deadline = login_started_at + (ttl - skew)
        in if instant_limit < deadline then Err Invalid_Response
           else Ok \<lparr>token_id = ident, token_value = access_token_field response,
                    refresh_after = deadline\<rparr>)"

text \<open>
  A cached token is renewed before the server's expiry by the configured skew, or by half the
  lifetime when the lifetime is shorter than twice the skew, and never before half its lifetime has
  passed; so a token with a tiny lifetime is still used, and none is used past its lifetime.
\<close>

theorem token_refresh_window:
  assumes "token_of_login lim skew i started response = Ok tok" and "0 < skew"
  shows "started < refresh_after tok
    \<and> refresh_after tok < started + from_secs (expires_in response)
    \<and> started + from_secs (expires_in response) \<le>
        refresh_after tok + min skew (from_secs (expires_in response) div 2)
    \<and> refresh_after tok \<le> lim \<and> token_value tok \<noteq> []"
  using assms
  by (auto simp: token_of_login_def Let_def from_secs_def nanos_per_sec_def min_def split: if_splits)

definition hour_login :: login_response where
  "hour_login = \<lparr>access_token_field = ''t'', expires_in = 3600\<rparr>"

lemma token_refresh_window_witness:
  "\<exists>tok. token_of_login (2 ^ 63) (from_secs 30) 0 7 hour_login = Ok tok
     \<and> refresh_after tok < 7 + from_secs 3600 \<and> 7 + from_secs 3600 \<le> refresh_after tok + from_secs 30"
proof -
  have "token_of_login (2 ^ 63) (from_secs 30) 0 7 hour_login =
      Ok \<lparr>token_id = 0, token_value = ''t'', refresh_after = 7 + from_secs 3570\<rparr>"
    by (simp add: token_of_login_def hour_login_def from_secs_def nanos_per_sec_def)
  from this token_refresh_window [OF this] show ?thesis
    by (simp add: hour_login_def from_secs_def nanos_per_sec_def)
qed

section \<open>The coordinator\<close>

record coordinator =
  in_flight :: "nat option"
  co_failure :: "(nat \<times> client_error) option"

definition cooldown_for :: "client_error \<Rightarrow> nat" where
  "cooldown_for e =
     (let minimum = (if is_api_kind Authentication e \<or> is_api_kind Permission_Denied e
                     then auth_rejection_cooldown else auth_failure_cooldown)
      in min (max minimum (case retry_after e of None \<Rightarrow> 0 | Some d \<Rightarrow> d)) max_retry_after)"

definition cooldown_error :: "nat \<Rightarrow> nat \<times> client_error \<Rightarrow> client_error" where
  "cooldown_error now f = (case f of (retry_at, e) \<Rightarrow> Authentication_Cooldown e (ceil_secs (retry_at - now)))"

definition finish_refresh ::
    "nat \<Rightarrow> nat \<Rightarrow> client_error option \<Rightarrow> coordinator \<Rightarrow> coordinator \<times> client_error option" where
  "finish_refresh now completed failure co =
     (if in_flight co = Some completed
      then let recorded = map_option (\<lambda>e. (now + cooldown_for e, e)) failure
           in (\<lparr>in_flight = None, co_failure = recorded\<rparr>, map_option (cooldown_error now) recorded)
      else (co, None))"

lemma cooldown_bounds: "auth_failure_cooldown \<le> cooldown_for e \<and> cooldown_for e \<le> max_retry_after"
  by (simp add: cooldown_for_def Let_def auth_failure_cooldown_def auth_rejection_cooldown_def
      max_retry_after_def le_max_iff_disj)

lemma cooldown_rejection:
  "is_api_kind Authentication e \<or> is_api_kind Permission_Denied e \<Longrightarrow>
     auth_rejection_cooldown \<le> cooldown_for e"
  by (auto simp: cooldown_for_def Let_def auth_rejection_cooldown_def max_retry_after_def le_max_iff_disj)

section \<open>Concurrent callers\<close>

type_synonym refresh_outcome = "(client_error, cached_token) result"

text \<open>A flight is one spawned refresh task together with its watch channel.\<close>

datatype flight =
    Logging_In
  | Stored refresh_outcome
  | Finished refresh_outcome
  | Published refresh_outcome
  | Interrupted

record auth_state =
  au_now :: nat
  au_token :: "cached_token option"
  au_co :: coordinator
  au_flights :: "nat \<rightharpoonup> flight"
  au_next :: nat
  au_waiting :: "nat \<rightharpoonup> nat"
  au_last_failure :: "nat option"
  au_logins :: "(nat \<times> nat option) list"

datatype entered = Returned refresh_outcome | Waits nat

text \<open>
  \<open>access_token\<close> up to the point where it waits, under the coordinator lock. The last two fields
  of the state are history: when the last refresh failed, and for every login its start together
  with the failure known then.
\<close>

definition cooling_error :: "nat \<Rightarrow> coordinator \<Rightarrow> client_error option" where
  "cooling_error now co =
     (case co_failure co of
        Some (retry_at, e) \<Rightarrow>
          if retry_at - now \<noteq> 0 then Some (cooldown_error now (retry_at, e)) else None
      | None \<Rightarrow> None)"

definition join_or_start :: "auth_state \<Rightarrow> auth_state \<times> entered" where
  "join_or_start s =
     (case in_flight (au_co s) of
        Some f \<Rightarrow> (s, Waits f)
      | None \<Rightarrow>
          (s\<lparr>au_co := (au_co s)\<lparr>in_flight := Some (au_next s)\<rparr>,
             au_flights := (au_flights s)(au_next s \<mapsto> Logging_In),
             au_next := Suc (au_next s),
             au_logins := au_logins s @ [(au_now s, au_last_failure s)]\<rparr>,
           Waits (au_next s)))"

definition access_token_enter :: "auth_state \<Rightarrow> auth_state \<times> entered" where
  "access_token_enter s =
     (case fresh_token (au_now s) (au_token s) of
        Some token \<Rightarrow> (s, Returned (Ok token))
      | None \<Rightarrow>
          (case cooling_error (au_now s) (au_co s) of
             Some e \<Rightarrow> (s, Returned (Err e))
           | None \<Rightarrow> join_or_start (s\<lparr>au_co := (au_co s)\<lparr>co_failure := None\<rparr>\<rparr>)))"

text \<open>The refresh task: the login's outcome is stored, the refresh finished, the outcome published.\<close>

definition store_outcome :: "nat \<Rightarrow> refresh_outcome \<Rightarrow> auth_state \<Rightarrow> auth_state" where
  "store_outcome f r s =
     s\<lparr>au_token := (case r of Ok token \<Rightarrow> Some token | Err _ \<Rightarrow> au_token s),
       au_flights := (au_flights s)(f \<mapsto> Stored r)\<rparr>"

definition outcome_error :: "refresh_outcome \<Rightarrow> client_error option" where
  "outcome_error r = (case r of Ok _ \<Rightarrow> None | Err e \<Rightarrow> Some e)"

text \<open>\<open>finish_refresh\<close> on the state; a recorded failure is remembered in the history.\<close>

definition finish_step ::
    "nat \<Rightarrow> client_error option \<Rightarrow> auth_state \<Rightarrow> auth_state \<times> client_error option" where
  "finish_step f failure s =
     (case finish_refresh (au_now s) f failure (au_co s) of
        (co, e) \<Rightarrow> (s\<lparr>au_co := co,
                     au_last_failure := (if e = None then au_last_failure s else Some (au_now s))\<rparr>, e))"

definition finish_flight :: "nat \<Rightarrow> refresh_outcome \<Rightarrow> auth_state \<Rightarrow> auth_state" where
  "finish_flight f r s =
     (case finish_step f (outcome_error r) s of
        (s', e) \<Rightarrow>
          s'\<lparr>au_flights := (au_flights s')(f \<mapsto> Finished (case e of None \<Rightarrow> r | Some d \<Rightarrow> Err d))\<rparr>)"

definition publish_flight :: "nat \<Rightarrow> refresh_outcome \<Rightarrow> auth_state \<Rightarrow> auth_state" where
  "publish_flight f r s = s\<lparr>au_flights := (au_flights s)(f \<mapsto> Published r)\<rparr>"

text \<open>A waiter whose channel closed without an outcome finishes the refresh itself.\<close>

definition interrupted_waiter :: "nat \<Rightarrow> nat \<Rightarrow> auth_state \<Rightarrow> auth_state \<times> client_error" where
  "interrupted_waiter c f s =
     (case finish_step f (Some Refresh_Interrupted) s of
        (s', e) \<Rightarrow> (s'\<lparr>au_waiting := (au_waiting s')(c := None)\<rparr>,
                    (case e of None \<Rightarrow> Refresh_Interrupted | Some d \<Rightarrow> d)))"

definition auth_start :: "auth_state \<Rightarrow> bool" where
  "auth_start s \<longleftrightarrow> au_token s = None \<and> au_co s = \<lparr>in_flight = None, co_failure = None\<rparr>
     \<and> au_flights s = Map.empty \<and> au_waiting s = Map.empty \<and> au_last_failure s = None
     \<and> au_logins s = []"

text \<open>Steps of refresh tasks and of waiting callers, then those of the surroundings.\<close>

inductive task_step :: "auth_state \<Rightarrow> auth_state \<Rightarrow> bool" where
  store: "au_flights s f = Some Logging_In \<Longrightarrow> task_step s (store_outcome f r s)"
| finish: "au_flights s f = Some (Stored r) \<Longrightarrow> task_step s (finish_flight f r s)"
| publish: "au_flights s f = Some (Finished r) \<Longrightarrow> task_step s (publish_flight f r s)"
| wake:
    "au_waiting s c = Some f \<Longrightarrow> au_flights s f = Some (Published r) \<Longrightarrow>
     task_step s (s\<lparr>au_waiting := (au_waiting s)(c := None)\<rparr>)"
| wake_interrupted:
    "au_waiting s c = Some f \<Longrightarrow> au_flights s f = Some Interrupted \<Longrightarrow>
     task_step s (fst (interrupted_waiter c f s))"

inductive auth_step :: "auth_state \<Rightarrow> auth_state \<Rightarrow> bool" where
  task: "task_step s t \<Longrightarrow> auth_step s t"
| tick: "auth_step s (s\<lparr>au_now := au_now s + d\<rparr>)"
| enter_return:
    "au_waiting s c = None \<Longrightarrow> access_token_enter s = (s', Returned r) \<Longrightarrow> auth_step s s'"
| enter_wait:
    "au_waiting s c = None \<Longrightarrow> access_token_enter s = (s', Waits f) \<Longrightarrow>
     auth_step s (s'\<lparr>au_waiting := (au_waiting s')(c \<mapsto> f)\<rparr>)"
| interrupt:
    "au_flights s f = Some st \<Longrightarrow> (\<And>r. st \<noteq> Published r) \<Longrightarrow>
     auth_step s (s\<lparr>au_flights := (au_flights s)(f \<mapsto> Interrupted)\<rparr>)"
| cancel: "auth_step s (s\<lparr>au_waiting := (au_waiting s)(c := None)\<rparr>)"
| invalidate: "auth_step s (s\<lparr>au_token := invalidate_if_current used (au_token s)\<rparr>)"

section \<open>Single flight and cooldown\<close>

text \<open>Login and storing happen only while the flight is the registered one.\<close>

definition flight_registered :: "auth_state \<Rightarrow> bool" where
  "flight_registered s \<longleftrightarrow>
     (\<forall>f. (au_flights s f = Some Logging_In \<or> (\<exists>r. au_flights s f = Some (Stored r))) \<longrightarrow>
        in_flight (au_co s) = Some f)"

definition flight_known :: "auth_state \<Rightarrow> bool" where
  "flight_known s \<longleftrightarrow>
     (\<forall>f. in_flight (au_co s) = Some f \<longrightarrow> au_flights s f \<noteq> None)
     \<and> (\<forall>c f. au_waiting s c = Some f \<longrightarrow> au_flights s f \<noteq> None)
     \<and> (\<forall>f. au_flights s f \<noteq> None \<longrightarrow> f < au_next s)"

definition cooldown_kept :: "auth_state \<Rightarrow> bool" where
  "cooldown_kept s \<longleftrightarrow>
     (\<forall>t. au_last_failure s = Some t \<longrightarrow> t + auth_failure_cooldown \<le> au_now s \<or>
          (\<exists>at e. co_failure (au_co s) = Some (at, e) \<and> t + auth_failure_cooldown \<le> at))
     \<and> (\<forall>start t. (start, Some t) \<in> set (au_logins s) \<longrightarrow> t + auth_failure_cooldown \<le> start)"

definition coordinator_idle :: "auth_state \<Rightarrow> bool" where
  "coordinator_idle s \<longleftrightarrow> in_flight (au_co s) = None \<or> co_failure (au_co s) = None"

definition auth_inv :: "auth_state \<Rightarrow> bool" where
  "auth_inv s \<longleftrightarrow> flight_registered s \<and> flight_known s \<and> coordinator_idle s \<and> cooldown_kept s"

lemmas auth_inv_defs = auth_inv_def flight_registered_def flight_known_def coordinator_idle_def
  cooldown_kept_def

lemmas enter_defs = access_token_enter_def join_or_start_def cooling_error_def

lemma cooldown_lower: "auth_failure_cooldown \<le> cooldown_for e"
  using cooldown_bounds by blast

lemma auth_inv_start: "auth_start s \<Longrightarrow> auth_inv s"
  by (auto simp: auth_start_def auth_inv_defs)

lemma auth_inv_tick: "auth_inv s \<Longrightarrow> auth_inv (s\<lparr>au_now := au_now s + d\<rparr>)"
  unfolding auth_inv_defs by (auto split: option.splits)

lemma enter_return_same: "access_token_enter s = (s', Returned r) \<Longrightarrow> s' = s"
  by (auto simp: enter_defs Let_def split: option.splits if_splits)

lemma cooling_none:
  "cooldown_kept s \<Longrightarrow> cooling_error (au_now s) (au_co s) = None \<Longrightarrow>
     (\<forall>t. au_last_failure s = Some t \<longrightarrow> t + auth_failure_cooldown \<le> au_now s)"
  by (auto simp: cooldown_kept_def cooling_error_def split: option.splits if_splits)

lemma enter_wait_inv:
  assumes inv: "auth_inv s" and e: "access_token_enter s = (s', Waits f)"
  shows "auth_inv (s'\<lparr>au_waiting := (au_waiting s')(c \<mapsto> f)\<rparr>)"
proof -
  have cool: "cooling_error (au_now s) (au_co s) = None"
    and j: "join_or_start (s\<lparr>au_co := (au_co s)\<lparr>co_failure := None\<rparr>\<rparr>) = (s', Waits f)"
    using e by (auto simp: access_token_enter_def split: option.splits)
  have last: "\<forall>t. au_last_failure s = Some t \<longrightarrow> t + auth_failure_cooldown \<le> au_now s"
    using inv cool cooling_none by (simp add: auth_inv_def)
  have parts: "flight_registered s" "flight_known s" "cooldown_kept s" using inv by (simp_all add: auth_inv_def)
  show ?thesis
  proof (cases "in_flight (au_co s)")
    case None
    then have f: "f = au_next s" and s': "s' = s\<lparr>au_co := \<lparr>in_flight = Some f, co_failure = None\<rparr>,
        au_flights := (au_flights s)(f \<mapsto> Logging_In), au_next := Suc f,
        au_logins := au_logins s @ [(au_now s, au_last_failure s)]\<rparr>"
      using j by (auto simp: join_or_start_def)
    have "flight_registered s'" using parts None unfolding s' flight_registered_def by auto
    moreover have "flight_known (s'\<lparr>au_waiting := (au_waiting s')(c \<mapsto> f)\<rparr>)"
      using parts unfolding s' f flight_known_def by (auto simp: less_Suc_eq)
    moreover have "cooldown_kept s'"
      using parts last unfolding s' cooldown_kept_def by (auto split: option.splits)
    ultimately show ?thesis
      unfolding s' auth_inv_defs by simp
  next
    case (Some g)
    then have s': "s' = s\<lparr>au_co := (au_co s)\<lparr>co_failure := None\<rparr>\<rparr>" and f: "f = g"
      using j by (auto simp: join_or_start_def)
    show ?thesis
      using parts last Some unfolding s' f auth_inv_defs by (auto split: option.splits)
  qed
qed

lemma store_inv:
  assumes inv: "auth_inv s" and f: "au_flights s f = Some Logging_In"
  shows "auth_inv (store_outcome f r s)"
proof -
  have "in_flight (au_co s) = Some f" using inv f by (simp add: auth_inv_def flight_registered_def)
  moreover from this have "au_flights s g = Some Logging_In \<or> (\<exists>r. au_flights s g = Some (Stored r)) \<Longrightarrow> g = f" for g
    using inv by (auto simp: auth_inv_def flight_registered_def)
  ultimately show ?thesis
    using inv f unfolding auth_inv_defs store_outcome_def by auto
qed

lemma finish_step_inv:
  assumes inv: "auth_inv s"
    and e: "finish_step f failure s = (s', e)"
    and st: "au_flights s f = Some (Stored r) \<or> au_flights s f = Some Interrupted"
    and closed: "st' = Interrupted \<or> (\<exists>r'. st' = Finished r')"
  shows "auth_inv (s'\<lparr>au_flights := (au_flights s')(f \<mapsto> st')\<rparr>)"
proof (cases "in_flight (au_co s) = Some f")
  case True
  then have idle: "co_failure (au_co s) = None" using inv by (simp add: auth_inv_defs)
  define rec where "rec = map_option (\<lambda>e. (au_now s + cooldown_for e, e)) failure"
  have s': "s' = s\<lparr>au_co := \<lparr>in_flight = None, co_failure = rec\<rparr>,
      au_last_failure := (if failure = None then au_last_failure s else Some (au_now s))\<rparr>"
    using True e by (auto simp: finish_step_def finish_refresh_def rec_def Let_def)
  have parts: "flight_registered s" "flight_known s" "cooldown_kept s" using inv by (simp_all add: auth_inv_def)
  have "flight_registered (s'\<lparr>au_flights := (au_flights s')(f \<mapsto> st')\<rparr>)"
    using parts True closed unfolding s' flight_registered_def by auto
  moreover have "flight_known (s'\<lparr>au_flights := (au_flights s')(f \<mapsto> st')\<rparr>)"
    using parts st unfolding s' flight_known_def by auto
  moreover have "cooldown_kept s'"
    using parts idle cooldown_lower unfolding s' rec_def cooldown_kept_def
    by (auto split: option.splits)
  ultimately show ?thesis
    unfolding auth_inv_def coordinator_idle_def cooldown_kept_def s' by simp
next
  case False
  then have s': "s' = s"
    using e by (auto simp: finish_step_def finish_refresh_def)
  show ?thesis
    using inv False st closed unfolding s' auth_inv_defs by auto
qed

lemma auth_inv_flight_irrelevant:
  "auth_inv s \<Longrightarrow> au_flights s f = Some st \<Longrightarrow> st' \<noteq> Logging_In \<Longrightarrow> (\<And>r. st' \<noteq> Stored r) \<Longrightarrow>
     auth_inv (s\<lparr>au_flights := (au_flights s)(f \<mapsto> st')\<rparr>)"
  unfolding auth_inv_defs by auto

lemma auth_inv_unwait: "auth_inv s \<Longrightarrow> auth_inv (s\<lparr>au_waiting := (au_waiting s)(c := None)\<rparr>)"
  unfolding auth_inv_defs by auto

lemma auth_inv_task:
  assumes inv: "auth_inv s" and step: "task_step s t"
  shows "auth_inv t"
  using step
proof cases
  case (finish f r)
  obtain s' e where se: "finish_step f (outcome_error r) s = (s', e)" by force
  show ?thesis
    using finish_step_inv [OF inv se, of r] finish by (simp add: finish_flight_def se)
next
  case (wake_interrupted c f)
  obtain s' e where se: "finish_step f (Some Refresh_Interrupted) s = (s', e)" by force
  have "au_flights s' f = Some Interrupted"
    using se wake_interrupted by (auto simp: finish_step_def split: prod.splits)
  then have "s'\<lparr>au_flights := (au_flights s')(f \<mapsto> Interrupted)\<rparr> = s'"
    by (simp add: map_upd_triv)
  then have "auth_inv s'"
    using finish_step_inv [OF inv se, of _ Interrupted] wake_interrupted by metis
  then show ?thesis
    using auth_inv_unwait by (simp add: wake_interrupted interrupted_waiter_def se)
qed (use inv in \<open>auto intro: store_inv auth_inv_flight_irrelevant auth_inv_unwait
    simp: publish_flight_def\<close>)

lemma auth_inv_step:
  assumes inv: "auth_inv s" and step: "auth_step s t"
  shows "auth_inv t"
  using step
proof cases
  case (enter_return c r)
  then show ?thesis using inv enter_return_same by metis
next
  case (invalidate used)
  then show ?thesis using inv unfolding auth_inv_defs by simp
qed (use inv in \<open>auto intro: auth_inv_task auth_inv_tick enter_wait_inv
    auth_inv_flight_irrelevant auth_inv_unwait\<close>)

interpretation auth: transition_system auth_start auth_step auth_inv
  by unfold_locales (auto intro: auth_inv_start auth_inv_step)

definition fresh_start :: auth_state where
  "fresh_start = \<lparr>au_now = 0, au_token = None, au_co = \<lparr>in_flight = None, co_failure = None\<rparr>,
     au_flights = Map.empty, au_next = 0, au_waiting = Map.empty, au_last_failure = None,
     au_logins = []\<rparr>"

definition one_caller :: auth_state where
  "one_caller = fresh_start\<lparr>au_co := \<lparr>in_flight = Some 0, co_failure = None\<rparr>,
     au_flights := [0 \<mapsto> Logging_In], au_next := 1, au_waiting := [7 \<mapsto> 0], au_logins := [(0, None)]\<rparr>"

lemma one_caller_reachable: "reachable auth_start auth_step one_caller"
proof (rule reach_step)
  show "reachable auth_start auth_step fresh_start"
    by (rule reach_start) (simp add: auth_start_def fresh_start_def)
  have "access_token_enter fresh_start =
      (fresh_start\<lparr>au_co := \<lparr>in_flight = Some 0, co_failure = None\<rparr>,
         au_flights := [0 \<mapsto> Logging_In], au_next := 1, au_logins := [(0, None)]\<rparr>, Waits 0)"
    by (simp add: enter_defs fresh_start_def fresh_token_def)
  from enter_wait [OF _ this, of 7] show "auth_step fresh_start one_caller"
    by (simp add: fresh_start_def one_caller_def)
qed

text \<open>
  C3: However many callers ask for a token at once and however refresh tasks are scheduled,
  cancelled or interrupted, at most one login is under way at any time, it is the one the
  coordinator has registered, and a login that follows a failed refresh starts at least five
  seconds after that failure.
\<close>

theorem single_flight_login:
  assumes "reachable auth_start auth_step s"
  shows "(\<forall>f g. au_flights s f = Some Logging_In \<and> au_flights s g = Some Logging_In \<longrightarrow> f = g)
    \<and> (\<forall>f. au_flights s f = Some Logging_In \<longrightarrow> in_flight (au_co s) = Some f)
    \<and> (\<forall>started failed. (started, Some failed) \<in> set (au_logins s) \<longrightarrow>
         failed + from_secs 5 \<le> started)"
proof -
  have inv: "flight_registered s" "cooldown_kept s"
    using auth.reachable_invariant [OF assms] by (simp_all add: auth_inv_def)
  then have reg: "au_flights s f = Some Logging_In \<Longrightarrow> in_flight (au_co s) = Some f" for f
    by (simp add: flight_registered_def)
  then have "au_flights s f = Some Logging_In \<Longrightarrow> au_flights s g = Some Logging_In \<Longrightarrow> f = g" for f g
    by (metis option.inject)
  with reg inv(2) show ?thesis
    by (simp add: cooldown_kept_def auth_failure_cooldown_def)
qed

lemma single_flight_login_witness: "in_flight (au_co one_caller) = Some 0"
  using single_flight_login [OF one_caller_reachable] by (simp add: one_caller_def)

section \<open>No stranded waiter\<close>

lemma finish_step_frame:
  "finish_step f failure s = (s', e) \<Longrightarrow> au_flights s' = au_flights s \<and> au_waiting s' = au_waiting s"
  by (auto simp: finish_step_def split: prod.splits)

lemma finish_flight_state:
  "(\<exists>r'. au_flights (finish_flight f r s) f = Some (Finished r'))
     \<and> au_waiting (finish_flight f r s) = au_waiting s"
  using finish_step_frame by (force simp: finish_flight_def split: prod.splits)

definition answered :: "nat \<Rightarrow> auth_state \<Rightarrow> bool" where
  "answered f s \<longleftrightarrow> (\<exists>r. au_flights s f = Some (Published r)) \<or> au_flights s f = Some Interrupted"

lemma flight_progress:
  "au_flights s f = Some st \<Longrightarrow>
     \<exists>t. task_step\<^sup>*\<^sup>* s t \<and> au_waiting t = au_waiting s \<and> answered f t"
proof -
  have pub: "\<exists>t. task_step\<^sup>*\<^sup>* s t \<and> au_waiting t = au_waiting s \<and> answered f t"
    if "au_flights s f = Some (Finished r)" for s r
    using publish [OF that]
    by (intro exI [of _ "publish_flight f r s"]) (auto simp: publish_flight_def answered_def)
  have fin: "\<exists>t. task_step\<^sup>*\<^sup>* s t \<and> au_waiting t = au_waiting s \<and> answered f t"
    if st: "au_flights s f = Some (Stored r)" for s r
  proof -
    obtain r' where "au_flights (finish_flight f r s) f = Some (Finished r')"
      using finish_flight_state by blast
    from pub [OF this] finish [OF st] show ?thesis
      by (metis converse_rtranclp_into_rtranclp finish_flight_state)
  qed
  assume "au_flights s f = Some st"
  then show ?thesis
  proof (cases st)
    case Logging_In
    with \<open>au_flights s f = Some st\<close> have "task_step s (store_outcome f (Err Refresh_Interrupted) s)"
      by (simp add: store)
    moreover have "au_flights (store_outcome f (Err Refresh_Interrupted) s) f =
        Some (Stored (Err Refresh_Interrupted))"
      and "au_waiting (store_outcome f (Err Refresh_Interrupted) s) = au_waiting s"
      by (simp_all add: store_outcome_def)
    ultimately show ?thesis using fin by (metis converse_rtranclp_into_rtranclp)
  qed (use pub fin \<open>au_flights s f = Some st\<close> in \<open>auto simp: answered_def\<close>)
qed

text \<open>
  C17: No caller that waits for a token is ever stranded. From every reachable state the refresh
  task it joined can run on until its outcome is published or its channel is closed, while the
  caller still waits, and then the caller's own step ends the wait.
\<close>

theorem waiter_never_stranded:
  assumes "reachable auth_start auth_step s" and "au_waiting s c = Some f"
  shows "\<exists>t u. task_step\<^sup>*\<^sup>* s t \<and> au_waiting t c = Some f \<and> answered f t
    \<and> task_step t u \<and> au_waiting u c = None"
proof -
  have "au_flights s f \<noteq> None"
    using auth.reachable_invariant [OF assms(1)] assms(2) by (auto simp: auth_inv_def flight_known_def)
  then obtain t where t: "task_step\<^sup>*\<^sup>* s t" "au_waiting t c = Some f" "answered f t"
    using flight_progress assms(2) by force
  have "\<exists>u. task_step t u \<and> au_waiting u c = None"
  proof (cases "au_flights t f = Some Interrupted")
    case True
    then show ?thesis
      using wake_interrupted [OF t(2) True]
      by (intro exI [of _ "fst (interrupted_waiter c f t)"])
        (auto simp: interrupted_waiter_def split: prod.splits)
  next
    case False
    then obtain r where "au_flights t f = Some (Published r)" using t(3) by (auto simp: answered_def)
    from wake [OF t(2) this] show ?thesis by force
  qed
  with t show ?thesis by blast
qed

lemma waiter_never_stranded_witness:
  "\<exists>t u. task_step\<^sup>*\<^sup>* one_caller t \<and> au_waiting t 7 = Some 0 \<and> answered 0 t
    \<and> task_step t u \<and> au_waiting u 7 = None"
  by (rule waiter_never_stranded [OF one_caller_reachable]) (simp add: one_caller_def)

end
