(* ===== verification/Client_Requests.thy ===== *)
theory Client_Requests
  imports Client_Refresh
begin

text \<open>
  The request paths of \<open>infisical-api/src/client.rs\<close>: sending one bounded request, reading its
  body, logging in, and the typed reads and mutations built on them. A run is one caller alone
  with the client (\<open>Client_Refresh\<close> treats concurrent callers): the world holds what the network
  answers to the n-th attempt and the log of requests put on the wire. Serialised queries and
  bodies are strings, decoding is a parameter of the operation.
\<close>

section \<open>The wire\<close>

record request =
  rq_method :: http_method
  rq_path :: "string list"
  rq_query :: string
  rq_body :: "string option"
  rq_bearer :: "nat option"

datatype reply =
    No_Response transport_error_kind
  | Response nat headers "string list" "transport_error_kind option"

text \<open>
  One attempt: how long the request slot took (\<open>None\<close> when the deadline came first), the reply,
  the time it all took, and the wall clock when the reply was read.
\<close>

record exchange =
  ex_slot_wait :: "nat option"
  ex_reply :: reply
  ex_elapsed :: nat
  ex_wall_clock :: nat

record client_env =
  env_settings :: client_settings
  env_http_date :: "string \<Rightarrow> nat option"
  env_login_body :: string
  env_decode_login :: "string \<Rightarrow> login_response option"
  env_instant_limit :: nat

record world =
  w_now :: nat
  w_token :: "cached_token option"
  w_co :: coordinator
  w_next :: nat
  w_network :: "nat \<Rightarrow> exchange"
  w_attempts :: nat
  w_sent :: "request list"

section \<open>Response bodies\<close>

record buffer =
  buf_bytes :: string
  buf_capacity :: nat

definition usize_max :: nat where "usize_max = 2 ^ 64 - 1"

definition grow_response_buffer :: "buffer \<Rightarrow> nat \<Rightarrow> nat \<Rightarrow> buffer" where
  "grow_response_buffer body required limit =
     (if required \<le> buf_capacity body then body
      else body\<lparr>buf_capacity := min (max (min (buf_capacity body * 2) usize_max) required) limit\<rparr>)"

definition extend_from_slice :: "buffer \<Rightarrow> string \<Rightarrow> buffer" where
  "extend_from_slice body chunk = body\<lparr>buf_bytes := buf_bytes body @ chunk\<rparr>"

fun read_chunks ::
    "nat \<Rightarrow> buffer \<Rightarrow> string list \<Rightarrow> transport_error_kind option \<Rightarrow> (client_error, buffer) result" where
  "read_chunks limit body [] broken =
     (case broken of None \<Rightarrow> Ok body | Some k \<Rightarrow> Err (Transport k))"
| "read_chunks limit body (chunk # chunks) broken =
     (let new_length = length (buf_bytes body) + length chunk in
      if usize_max < new_length then Err (Response_Too_Large limit)
      else if limit < new_length then Err (Response_Too_Large limit)
      else read_chunks limit (extend_from_slice (grow_response_buffer body new_length limit) chunk)
             chunks broken)"

definition empty_buffer :: buffer where "empty_buffer = \<lparr>buf_bytes = [], buf_capacity = 0\<rparr>"

definition buffer_ok :: "nat \<Rightarrow> buffer \<Rightarrow> bool" where
  "buffer_ok limit b \<longleftrightarrow> length (buf_bytes b) \<le> buf_capacity b \<and> buf_capacity b \<le> limit"

lemma grow_keeps:
  "buffer_ok limit b \<Longrightarrow> required \<le> limit \<Longrightarrow>
     buffer_ok limit (grow_response_buffer b required limit)
     \<and> required \<le> buf_capacity (grow_response_buffer b required limit)
     \<and> buf_bytes (grow_response_buffer b required limit) = buf_bytes b"
  by (auto simp: grow_response_buffer_def buffer_ok_def)

lemma read_chunks_ok:
  "buffer_ok limit b \<Longrightarrow> read_chunks limit b chunks broken = Ok b' \<Longrightarrow>
     buffer_ok limit b' \<and> buf_bytes b' = buf_bytes b @ concat chunks \<and> broken = None"
proof (induction chunks arbitrary: b)
  case (Cons c cs)
  let ?n = "length (buf_bytes b) + length c"
  from Cons.prems have n: "?n \<le> limit"
    and rest: "read_chunks limit (extend_from_slice (grow_response_buffer b ?n limit) c) cs broken = Ok b'"
    by (auto simp: Let_def split: if_splits)
  from grow_keeps [OF Cons.prems(1) n]
  have "buffer_ok limit (extend_from_slice (grow_response_buffer b ?n limit) c)"
    by (simp add: buffer_ok_def extend_from_slice_def)
  from Cons.IH [OF this rest] grow_keeps [OF Cons.prems(1) n] show ?case
    by (simp add: extend_from_slice_def)
qed (auto split: option.splits)

text \<open>
  A response body is accepted only when every chunk arrived and the whole fits the configured
  limit; then it is the concatenation of the chunks, and the allocation that holds it never
  exceeds the limit and always has room for the bytes appended, so no reallocation inside \<open>Vec\<close>
  ever leaves an unwiped copy of a secret behind.
\<close>

theorem response_body_bounded:
  assumes "read_chunks limit empty_buffer chunks broken = Ok body"
  shows "buf_bytes body = concat chunks \<and> length (concat chunks) \<le> buf_capacity body
    \<and> buf_capacity body \<le> limit \<and> broken = None"
proof -
  have "buffer_ok limit empty_buffer" by (simp add: empty_buffer_def buffer_ok_def)
  from read_chunks_ok [OF this assms] show ?thesis
    by (auto simp: empty_buffer_def buffer_ok_def simp del: length_concat)
qed

lemma response_body_bounded_witness:
  "\<exists>body. read_chunks 8 empty_buffer [''abc'', ''de''] None = Ok body \<and> buf_bytes body = ''abcde''
     \<and> buf_capacity body \<le> 8"
proof -
  have "read_chunks 8 empty_buffer [''abc'', ''de''] None = Ok \<lparr>buf_bytes = ''abcde'', buf_capacity = 6\<rparr>"
    by (simp add: empty_buffer_def extend_from_slice_def grow_response_buffer_def usize_max_def)
  from this response_body_bounded [OF this] show ?thesis by auto
qed

section \<open>Sending\<close>

definition is_success :: "nat \<Rightarrow> bool" where "is_success status \<longleftrightarrow> 200 \<le> status \<and> status < 300"

definition read_response ::
    "client_env \<Rightarrow> bool \<Rightarrow> (string \<Rightarrow> 'a option) \<Rightarrow> exchange \<Rightarrow> (client_error, 'a) result" where
  "read_response env accepts_empty decode ex =
     (case ex_reply ex of
        No_Response k \<Rightarrow> Err (Transport k)
      | Response status hs chunks broken \<Rightarrow>
          if \<not> is_success status
          then Err (Api \<lparr>failure_kind = kind_from_status status, failure_status = status,
                 failure_request_id = safe_request_id hs,
                 failure_retry_after_seconds = safe_retry_after (env_http_date env) hs (ex_wall_clock ex)\<rparr>)
          else
            and_then (read_chunks (max_response_bytes (env_settings env)) empty_buffer chunks broken)
              (\<lambda>body.
                if buf_bytes body = [] \<and> accepts_empty then ok_or Invalid_Response (decode ''null'')
                else ok_or Invalid_Response (decode (buf_bytes body))))"

definition send_json ::
    "client_env \<Rightarrow> bool \<Rightarrow> (string \<Rightarrow> 'a option) \<Rightarrow> request \<Rightarrow> world \<Rightarrow> (client_error, 'a) result \<times> world" where
  "send_json env accepts_empty decode req w =
     (let ex = w_network w (w_attempts w);
          w = w\<lparr>w_attempts := Suc (w_attempts w), w_now := w_now w + ex_elapsed ex\<rparr>
      in case ex_slot_wait ex of
           None \<Rightarrow> (Err Work_Budget_Exhausted, w)
         | Some waited \<Rightarrow>
             if request_timeout (env_settings env) - waited = 0 then (Err Work_Budget_Exhausted, w)
             else (read_response env accepts_empty decode ex, w\<lparr>w_sent := w_sent w @ [req]\<rparr>))"

section \<open>Authentication\<close>

definition login_endpoint_path :: string where
  "login_endpoint_path = ''auth/universal-auth/login''"

definition login :: "client_env \<Rightarrow> world \<Rightarrow> (client_error, cached_token) result \<times> world" where
  "login env w =
     (let started = w_now w in
      case endpoint_url (endpoint_from_static V1 login_endpoint_path) of
        Inl e \<Rightarrow> (Inl e, w)
      | Inr path \<Rightarrow>
          (case send_json env False (env_decode_login env)
                  \<lparr>rq_method = POST, rq_path = path, rq_query = [],
                   rq_body = Some (env_login_body env), rq_bearer = None\<rparr> w of
             (Inl e, w) \<Rightarrow> (Inl e, w)
           | (Inr response, w) \<Rightarrow>
               (token_of_login (env_instant_limit env) (token_refresh_skew (env_settings env))
                  (w_next w) started response,
                w\<lparr>w_next := Suc (w_next w)\<rparr>)))"

definition access_token :: "client_env \<Rightarrow> world \<Rightarrow> (client_error, cached_token) result \<times> world" where
  "access_token env w =
     (case fresh_token (w_now w) (w_token w) of
        Some token \<Rightarrow> (Ok token, w)
      | None \<Rightarrow>
          (case cooling_error (w_now w) (w_co w) of
             Some e \<Rightarrow> (Err e, w)
           | None \<Rightarrow>
               (let flight = w_next w;
                    w = w\<lparr>w_co := \<lparr>in_flight = Some flight, co_failure = None\<rparr>, w_next := Suc flight\<rparr>
                in case login env w of
                     (outcome, w) \<Rightarrow>
                       (let w = (case outcome of Inr token \<Rightarrow> w\<lparr>w_token := Some token\<rparr> | Inl _ \<Rightarrow> w) in
                        case finish_refresh (w_now w) flight (outcome_error outcome) (w_co w) of
                          (co, failure) \<Rightarrow>
                            ((case failure of None \<Rightarrow> outcome | Some e \<Rightarrow> Inl e), w\<lparr>w_co := co\<rparr>)))))"

section \<open>Operations\<close>

definition rejected :: "(client_error, 'a) result \<Rightarrow> bool" where
  "rejected r = (case r of Inl e \<Rightarrow> is_api_kind Authentication e | Inr _ \<Rightarrow> False)"

text \<open>The tail of every request: a rejected token is dropped from the cache.\<close>

definition drop_rejected ::
    "cached_token \<Rightarrow> (client_error, 'a) result \<times> world \<Rightarrow> (client_error, 'a) result \<times> world" where
  "drop_rejected token rw =
     (case rw of (r, w) \<Rightarrow>
        (r, if rejected r then w\<lparr>w_token := invalidate_if_current token (w_token w)\<rparr> else w))"

definition execute_get_once ::
    "client_env \<Rightarrow> endpoint \<Rightarrow> string \<Rightarrow> (string \<Rightarrow> 'a option) \<Rightarrow> world
      \<Rightarrow> (client_error, 'a) result \<times> world" where
  "execute_get_once env ep query decode w =
     (case endpoint_url ep of
        Inl e \<Rightarrow> (Inl e, w)
      | Inr path \<Rightarrow>
          (case access_token env w of
             (Inl e, w) \<Rightarrow> (Inl e, w)
           | (Inr token, w) \<Rightarrow>
               drop_rejected token
                 (send_json env False decode
                    \<lparr>rq_method = GET, rq_path = path, rq_query = query, rq_body = None,
                     rq_bearer = Some (token_id token)\<rparr> w)))"

definition execute_read ::
    "client_env \<Rightarrow> endpoint \<Rightarrow> string \<Rightarrow> (string \<Rightarrow> 'a option) \<Rightarrow> world
      \<Rightarrow> (client_error, 'a) result \<times> world" where
  "execute_read env ep query decode w =
     (case execute_get_once env ep query decode w of
        (first, w) \<Rightarrow>
          if \<not> rejected first then (first, w) else execute_get_once env ep query decode w)"

definition execute_observable_read ::
    "client_env \<Rightarrow> endpoint \<Rightarrow> string \<Rightarrow> (string \<Rightarrow> 'a option) \<Rightarrow> world
      \<Rightarrow> (client_error, 'a) result \<times> world" where
  "execute_observable_read env ep query decode w = execute_get_once env ep query decode w"

definition execute_observable_read_body ::
    "client_env \<Rightarrow> endpoint \<Rightarrow> string \<Rightarrow> (string \<Rightarrow> 'a option) \<Rightarrow> world
      \<Rightarrow> (client_error, 'a) result \<times> world" where
  "execute_observable_read_body env ep body decode w =
     (case endpoint_url ep of
        Inl e \<Rightarrow> (Inl e, w)
      | Inr path \<Rightarrow>
          (case access_token env w of
             (Inl e, w) \<Rightarrow> (Inl e, w)
           | (Inr token, w) \<Rightarrow>
               drop_rejected token
                 (send_json env False decode
                    \<lparr>rq_method = POST, rq_path = path, rq_query = [], rq_body = Some body,
                     rq_bearer = Some (token_id token)\<rparr> w)))"

record 'a mutation =
  mu_method :: http_method
  mu_endpoint :: endpoint
  mu_query :: string
  mu_body :: string
  mu_sends_json_body :: bool
  mu_accepts_empty :: bool
  mu_decode :: "string \<Rightarrow> 'a option"

definition mutation_error :: "client_error \<Rightarrow> client_error" where
  "mutation_error e = (if e = Invalid_Response then Invalid_Mutation_Response else e)"

definition execute_mutation ::
    "client_env \<Rightarrow> 'a mutation \<Rightarrow> world \<Rightarrow> (client_error, 'a) result \<times> world" where
  "execute_mutation env m w =
     (if mu_method m \<notin> {POST, PUT, PATCH, DELETE} then (Inl Invalid_Endpoint, w)
      else
        case endpoint_url (mu_endpoint m) of
          Inl e \<Rightarrow> (Inl e, w)
        | Inr path \<Rightarrow>
            (case access_token env w of
               (Inl e, w) \<Rightarrow> (Inl e, w)
             | (Inr token, w) \<Rightarrow>
                 drop_rejected token
                   (apfst (map_err mutation_error)
                     (send_json env (mu_accepts_empty m) (mu_decode m)
                        \<lparr>rq_method = mu_method m, rq_path = path, rq_query = mu_query m,
                         rq_body = (if mu_sends_json_body m then Some (mu_body m) else None),
                         rq_bearer = Some (token_id token)\<rparr> w))))"

datatype capability_availability = Available | Unavailable | Capability_Permission_Denied

definition probe_capability ::
    "client_env \<Rightarrow> endpoint \<Rightarrow> string \<Rightarrow> (string \<Rightarrow> 'a option) \<Rightarrow> world
      \<Rightarrow> (client_error, capability_availability) result \<times> world" where
  "probe_capability env ep query decode w =
     (case execute_read env ep query decode w of
        (r, w) \<Rightarrow>
          ((case r of
              Inr _ \<Rightarrow> Inr Available
            | Inl e \<Rightarrow>
                if is_api_kind Not_Found e then Inr Unavailable
                else if is_api_kind Permission_Denied e then Inr Capability_Permission_Denied
                else Inl e), w))"

section \<open>What goes on the wire\<close>

definition login_request :: "client_env \<Rightarrow> request" where
  "login_request env =
     \<lparr>rq_method = POST, rq_path = [''api'', ''v1'', ''auth'', ''universal-auth'', ''login''],
      rq_query = [], rq_body = Some (env_login_body env), rq_bearer = None\<rparr>"

definition world_ok :: "world \<Rightarrow> bool" where
  "world_ok w \<longleftrightarrow> (\<forall>t. w_token w = Some t \<longrightarrow> token_id t < w_next w)
     \<and> (\<forall>at e. co_failure (w_co w) = Some (at, e) \<longrightarrow> at \<le> w_now w + max_retry_after)"

definition retry_bounded :: "client_error \<Rightarrow> bool" where
  "retry_bounded e \<longleftrightarrow> (\<forall>d. retry_after e = Some d \<longrightarrow> d \<le> max_retry_after)"

lemma login_path: "endpoint_url (endpoint_from_static V1 login_endpoint_path) =
    Ok [''api'', ''v1'', ''auth'', ''universal-auth'', ''login'']"
  using login_endpoint by (simp add: login_endpoint_path_def)

lemma read_chunks_retry: "read_chunks l b cs br = Inl e \<Longrightarrow> retry_bounded e"
  by (induction l b cs br rule: read_chunks.induct)
    (auto simp: Let_def retry_bounded_def retry_after_def split: if_splits option.splits)

lemma read_response_retry: "read_response env a d ex = Inl e \<Longrightarrow> retry_bounded e"
proof (cases "ex_reply ex")
  case (Response st hs cs br)
  assume r: "read_response env a d ex = Inl e"
  show ?thesis
  proof (cases "is_success st")
    case True
    with r Response show ?thesis
      by (cases "read_chunks (max_response_bytes (env_settings env)) empty_buffer cs br")
        (auto simp: read_response_def retry_bounded_def retry_after_def split: if_splits
          dest: read_chunks_retry [unfolded retry_bounded_def])
  next
    case False
    with r Response show ?thesis
      using safe_retry_after_bound
      by (auto simp: read_response_def retry_bounded_def retry_after_def api_retry_after_def
          max_retry_after_def)
  qed
qed (auto simp: read_response_def retry_bounded_def retry_after_def)

lemma send_json_result:
  assumes "send_json env a d req w = (r, w')"
  shows "w_token w' = w_token w \<and> w_co w' = w_co w \<and> w_next w' = w_next w \<and> w_now w \<le> w_now w'
    \<and> (\<exists>ms. w_sent w' = w_sent w @ ms \<and> (ms = [] \<or> ms = [req])
         \<and> (ms = [] \<longrightarrow> r = Inl Work_Budget_Exhausted))
    \<and> (\<forall>e. r = Inl e \<longrightarrow> retry_bounded e)"
  using assms read_response_retry [of env a d]
  by (auto simp: send_json_def Let_def retry_bounded_def retry_after_def
      split: option.splits if_splits)

lemma token_of_login_retry:
  "token_of_login lim sk i st resp = Inl e \<Longrightarrow> retry_bounded e"
  by (auto simp: token_of_login_def retry_bounded_def retry_after_def Let_def split: if_splits)

lemma login_result:
  assumes "login env w = (r, w')"
  shows "w_token w' = w_token w \<and> w_co w' = w_co w \<and> w_now w \<le> w_now w' \<and> w_next w \<le> w_next w'
    \<and> (\<exists>ls. w_sent w' = w_sent w @ ls \<and> (ls = [] \<or> ls = [login_request env]))
    \<and> (\<forall>t. r = Inr t \<longrightarrow> token_id t = w_next w \<and> w_next w < w_next w')"
proof -
  obtain r1 w1 where s: "send_json env False (env_decode_login env) (login_request env) w = (r1, w1)"
    by force
  show ?thesis
    using assms send_json_result [OF s] s
    by (cases r1)
      (auto simp: login_def Let_def login_path login_request_def token_of_login_def split: if_splits)
qed

lemma cooldown_error_retry:
  "at \<le> now + max_retry_after \<Longrightarrow> retry_bounded (cooldown_error now (at, e))"
proof -
  assume "at \<le> now + max_retry_after"
  then have "ceil_secs (at - now) \<le> 300" by (simp add: ceil_secs_le_iff max_retry_after_def)
  then show ?thesis
    by (simp add: cooldown_error_def retry_bounded_def retry_after_def max_retry_after_def)
qed

lemma access_token_result:
  assumes ok: "world_ok w" and acc: "access_token env w = (r, w')"
  shows "world_ok w' \<and> (\<exists>ls. w_sent w' = w_sent w @ ls \<and> (ls = [] \<or> ls = [login_request env]))
    \<and> w_next w \<le> w_next w'
    \<and> (\<forall>t. r = Inr t \<longrightarrow> w_token w' = Some t \<and> (w_token w = None \<longrightarrow> w_next w \<le> token_id t))
    \<and> (\<forall>e. r = Inl e \<longrightarrow> (\<exists>f n. e = Authentication_Cooldown f n) \<and> retry_bounded e)"
proof (cases "fresh_token (w_now w) (w_token w)")
  case (Some t)
  then have "w_token w = Some t" by (auto simp: fresh_token_def split: option.splits if_splits)
  with Some assms show ?thesis by (auto simp: access_token_def)
next
  case None
  show ?thesis
  proof (cases "cooling_error (w_now w) (w_co w)")
    case (Some e)
    then obtain at f where "co_failure (w_co w) = Some (at, f)" "e = cooldown_error (w_now w) (at, f)"
      by (auto simp: cooling_error_def split: option.splits if_splits)
    moreover from this ok have "retry_bounded e"
      by (simp add: world_ok_def cooldown_error_retry)
    ultimately show ?thesis using Some None acc ok
      by (auto simp: access_token_def cooldown_error_def)
  next
    case None2: None
    let ?w = "w\<lparr>w_co := \<lparr>in_flight = Some (w_next w), co_failure = None\<rparr>, w_next := Suc (w_next w)\<rparr>"
    obtain o1 w1 where l: "login env ?w = (o1, w1)" by force
    note lr = login_result [OF l]
    have cd: "cooldown_for e \<le> max_retry_after" for e using cooldown_bounds by blast
    show ?thesis
    proof (cases o1)
      case (Inl e)
      then have "r = Inl (cooldown_error (w_now w1) (w_now w1 + cooldown_for e, e))"
        and "w' = w1\<lparr>w_co := \<lparr>in_flight = None, co_failure = Some (w_now w1 + cooldown_for e, e)\<rparr>\<rparr>"
        using acc None None2 l lr
        by (auto simp: access_token_def Let_def finish_refresh_def outcome_error_def)
      moreover have "retry_bounded (cooldown_error (w_now w1) (w_now w1 + cooldown_for e, e))"
        using cd by (simp add: cooldown_error_retry)
      ultimately show ?thesis using lr ok cd
        by (auto simp: world_ok_def cooldown_error_def intro: less_le_trans)
    next
      case (Inr t)
      then have "r = Inr t"
        and "w' = w1\<lparr>w_token := Some t, w_co := \<lparr>in_flight = None, co_failure = None\<rparr>\<rparr>"
        using acc None None2 l lr
        by (auto simp: access_token_def Let_def finish_refresh_def outcome_error_def)
      with lr Inr show ?thesis by (auto simp: world_ok_def)
    qed
  qed
qed

section \<open>Reads and mutations\<close>

definition get_request :: "string list \<Rightarrow> string \<Rightarrow> nat \<Rightarrow> request" where
  "get_request path query i = \<lparr>rq_method = GET, rq_path = path, rq_query = query,
     rq_body = None, rq_bearer = Some i\<rparr>"

lemma invalidate_own [simp]: "invalidate_if_current t (Some t) = None"
  by (simp add: invalidate_if_current_def)

lemma get_once_result:
  assumes ok: "world_ok w" and g: "execute_get_once env ep query decode w = (r, w')"
  shows "world_ok w' \<and> (\<forall>e. r = Inl e \<longrightarrow> retry_bounded e)
    \<and> (\<exists>ls gs. w_sent w' = w_sent w @ ls @ gs \<and> (ls = [] \<or> ls = [login_request env]) \<and>
        (gs = [] \<or> (\<exists>path i. endpoint_url ep = Inr path \<and> gs = [get_request path query i]
            \<and> i < w_next w' \<and> (w_token w = None \<longrightarrow> w_next w \<le> i)))
        \<and> (rejected r \<and> gs \<noteq> [] \<longrightarrow> w_token w' = None)
        \<and> (\<forall>a. r = Inr a \<longrightarrow> gs \<noteq> []) \<and> (rejected r \<longrightarrow> gs \<noteq> []))"
proof (cases "endpoint_url ep")
  case (Inl e)
  then have "e = Invalid_Endpoint" by (auto simp: endpoint_url_def split: if_splits)
  with Inl g ok show ?thesis
    by (auto simp: execute_get_once_def retry_bounded_def retry_after_def rejected_def is_api_kind_def)
next
  case (Inr path)
  obtain ra w1 where a: "access_token env w = (ra, w1)" by force
  note ar = access_token_result [OF ok a]
  show ?thesis
  proof (cases ra)
    case (Inl e)
    with Inr a g have "r = Inl e" "w' = w1" by (auto simp: execute_get_once_def)
    moreover obtain ls where "w_sent w1 = w_sent w @ ls" "ls = [] \<or> ls = [login_request env]"
      using ar by blast
    ultimately show ?thesis using Inl ar
      by (intro conjI exI [of _ ls] exI [of _ "[]"]) (auto simp: rejected_def is_api_kind_def)
  next
    case tok: (Inr t)
    obtain r2 w2 where s: "send_json env False decode (get_request path query (token_id t)) w1 = (r2, w2)"
      by force
    note sr = send_json_result [OF s]
    have r: "r = r2" and w': "w' = (if rejected r then w2\<lparr>w_token := invalidate_if_current t (w_token w2)\<rparr> else w2)"
      using g Inr a tok s by (auto simp: execute_get_once_def drop_rejected_def get_request_def)
    have w1: "world_ok w1" "w_token w1 = Some t" "token_id t < w_next w1"
      using ar tok by (auto simp: world_ok_def)
    then have "world_ok w2" using sr by (auto simp: world_ok_def intro: le_trans)
    then have "world_ok w'" unfolding w' using w1 sr by (auto simp: world_ok_def)
    moreover obtain ls where ls: "w_sent w1 = w_sent w @ ls" "ls = [] \<or> ls = [login_request env]"
      using ar by blast
    moreover obtain ms where ms: "w_sent w2 = w_sent w1 @ ms"
        "ms = [] \<or> ms = [get_request path query (token_id t)]"
        "ms = [] \<longrightarrow> r2 = Inl Work_Budget_Exhausted"
      using sr by blast
    moreover have "token_id t < w_next w'" "w_token w = None \<longrightarrow> w_next w \<le> token_id t"
      using w1 sr ar tok by (auto simp: w')
    moreover have "rejected r \<longrightarrow> w_token w' = None" using w1 sr by (simp add: w')
    moreover have "w_sent w' = w_sent w2" by (simp add: w')
    moreover have "ms = [] \<Longrightarrow> \<not> rejected r \<and> (\<forall>a. r \<noteq> Inr a)"
      using ms r by (auto simp: rejected_def is_api_kind_def)
    ultimately show ?thesis using Inr r sr
      by (intro conjI exI [of _ ls] exI [of _ ms]) auto
  qed
qed

definition data_requests :: "request list \<Rightarrow> request list" where
  "data_requests qs = filter (\<lambda>q. rq_bearer q \<noteq> None) qs"

lemma data_requests_simps [simp]:
  "data_requests [] = []" "data_requests (qs @ rs) = data_requests qs @ data_requests rs"
  "data_requests [login_request env] = []" "data_requests [get_request p q i] = [get_request p q i]"
  by (simp_all add: data_requests_def login_request_def get_request_def)

lemma read_log:
  assumes "world_ok w" and "execute_read env ep query decode w = (r, w')"
  shows "\<exists>gets others. w_sent w' = w_sent w @ others \<and> data_requests others = gets
    \<and> length gets \<le> 2 \<and> distinct (map rq_bearer gets)
    \<and> (\<forall>q \<in> set gets. rq_method q = GET \<and> Inr (rq_path q) = endpoint_url ep \<and> rq_query q = query)
    \<and> (length gets = 2 \<longrightarrow> rejected (fst (execute_get_once env ep query decode w)))
    \<and> (\<forall>a. r = Inr a \<longrightarrow> gets \<noteq> [])"
proof -
  obtain r1 w1 where g1: "execute_get_once env ep query decode w = (r1, w1)" by force
  note res1 = get_once_result [OF assms(1) g1]
  then obtain ls1 gs1 where s1: "w_sent w1 = w_sent w @ ls1 @ gs1" "data_requests ls1 = []"
      "gs1 = [] \<or> (\<exists>path i. endpoint_url ep = Inr path \<and> gs1 = [get_request path query i] \<and> i < w_next w1)"
      "rejected r1 \<longrightarrow> gs1 \<noteq> [] \<and> w_token w1 = None" "\<forall>a. r1 = Inr a \<longrightarrow> gs1 \<noteq> []"
    using data_requests_simps(1,3) by metis
  show ?thesis
  proof (cases "rejected r1")
    case False
    then have "r = r1" "w' = w1" using assms(2) g1 by (auto simp: execute_read_def)
    then show ?thesis using s1
      by (intro exI [of _ gs1] exI [of _ "ls1 @ gs1"]) (auto simp: get_request_def data_requests_def)
  next
    case True
    then have g2: "execute_get_once env ep query decode w1 = (r, w')"
      using assms(2) g1 by (simp add: execute_read_def)
    obtain path i where p: "endpoint_url ep = Inr path" "gs1 = [get_request path query i]" "i < w_next w1"
      using s1 True by blast
    from res1 get_once_result [OF _ g2] obtain ls2 gs2 where s2: "w_sent w' = w_sent w1 @ ls2 @ gs2"
        "data_requests ls2 = []"
        "gs2 = [] \<or> (\<exists>path i. endpoint_url ep = Inr path \<and> gs2 = [get_request path query i] \<and> w_next w1 \<le> i)"
      using s1 True data_requests_simps(1,3) by metis
    show ?thesis
      using s1 s2 p True g1
      by (intro exI [of _ "gs1 @ gs2"] exI [of _ "ls1 @ gs1 @ ls2 @ gs2"]) (auto simp: get_request_def data_requests_def)
  qed
qed

text \<open>
  C20: A typed read puts at most two data requests on the wire, both the declared GET. The second
  goes out only after the server rejected the first one's access token, and it carries a different,
  newly obtained token: a rejected token is never replayed.
\<close>

theorem read_replayed_once:
  assumes "world_ok w" and "execute_read env ep query decode w = (r, w')"
  shows "\<exists>gets others. w_sent w' = w_sent w @ others \<and> data_requests others = gets
    \<and> length gets \<le> 2 \<and> distinct (map rq_bearer gets)
    \<and> (\<forall>q \<in> set gets. rq_method q = GET \<and> Inr (rq_path q) = endpoint_url ep \<and> rq_query q = query)
    \<and> (length gets = 2 \<longrightarrow> rejected (fst (execute_get_once env ep query decode w)))
    \<and> (\<forall>a. r = Inr a \<longrightarrow> gets \<noteq> [])"
  using read_log [OF assms] .

definition demo_settings :: client_settings where
  "demo_settings = client_settings_new service_url ''id'' ''secret''"

definition demo_env :: client_env where
  "demo_env = \<lparr>env_settings = demo_settings, env_http_date = (\<lambda>_. None), env_login_body = ''{}'',
     env_decode_login = (\<lambda>_. Some hour_login), env_instant_limit = 2 ^ 63\<rparr>"

text \<open>The server accepts logins and rejects the token of the second attempt.\<close>

definition demo_network :: "nat \<Rightarrow> exchange" where
  "demo_network n = \<lparr>ex_slot_wait = Some 0,
     ex_reply = Response (if n = 1 then 401 else 200) [] [''{}''] None,
     ex_elapsed = 1, ex_wall_clock = 0\<rparr>"

definition demo_world :: world where
  "demo_world = \<lparr>w_now = 0, w_token = None, w_co = \<lparr>in_flight = None, co_failure = None\<rparr>,
     w_next = 0, w_network = demo_network, w_attempts = 0, w_sent = []\<rparr>"

definition demo_endpoint :: endpoint where
  "demo_endpoint = \<lparr>endpoint_version = V1, endpoint_segments = [''folders'']\<rparr>"

lemma demo_world_ok: "world_ok demo_world"
  by (simp add: world_ok_def demo_world_def)

lemmas demo_defs = demo_env_def demo_settings_def client_settings_new_def demo_world_def
  demo_network_def hour_login_def default_request_timeout_def default_max_response_bytes_def
  default_token_refresh_skew_def is_success_def usize_max_def

lemmas run_defs = access_token_def login_def send_json_def read_response_def
  drop_rejected_def token_of_login_def finish_refresh_def outcome_error_def fresh_token_def
  is_fresh_def cooling_error_def invalidate_if_current_def rejected_def is_api_kind_def
  kind_from_status_def empty_buffer_def extend_from_slice_def grow_response_buffer_def Let_def
  safe_request_id_def safe_retry_after_def header_values_def from_secs_def nanos_per_sec_def

lemma demo_endpoint_url: "endpoint_url demo_endpoint = Inr [''api'', ''v1'', ''folders'']"
  by code_simp

lemma demo_read:
  "\<exists>w'. execute_read demo_env demo_endpoint [] Some demo_world = (Inr ''{}'', w')
     \<and> data_requests (w_sent w') =
         [get_request [''api'', ''v1'', ''folders''] [] 1, get_request [''api'', ''v1'', ''folders''] [] 3]"
  by (simp add: execute_read_def execute_get_once_def demo_endpoint_url login_path run_defs demo_defs
      data_requests_def get_request_def)

lemma read_replayed_once_witness:
  "\<exists>gets w'. execute_read demo_env demo_endpoint [] Some demo_world = (Inr ''{}'', w')
     \<and> data_requests (w_sent w') = gets \<and> length gets = 2 \<and> distinct (map rq_bearer gets)"
proof -
  obtain w' where run: "execute_read demo_env demo_endpoint [] Some demo_world = (Inr ''{}'', w')"
    and sent: "data_requests (w_sent w') =
      [get_request [''api'', ''v1'', ''folders''] [] 1, get_request [''api'', ''v1'', ''folders''] [] 3]"
    using demo_read by blast
  have "w_sent demo_world = []" by (simp add: demo_world_def)
  with read_replayed_once [OF demo_world_ok run] run sent show ?thesis by auto
qed

definition mutation_request :: "'a mutation \<Rightarrow> string list \<Rightarrow> nat \<Rightarrow> request" where
  "mutation_request m path i = \<lparr>rq_method = mu_method m, rq_path = path, rq_query = mu_query m,
     rq_body = (if mu_sends_json_body m then Some (mu_body m) else None), rq_bearer = Some i\<rparr>"

lemma mutation_log:
  assumes "world_ok w" and "execute_mutation env m w = (r, w')"
  shows "(\<exists>logins sent. w_sent w' = w_sent w @ logins @ sent
      \<and> (logins = [] \<or> logins = [login_request env])
      \<and> (sent = [] \<or> (\<exists>path i. endpoint_url (mu_endpoint m) = Inr path \<and> sent = [mutation_request m path i]
            \<and> mu_method m \<in> {POST, PUT, PATCH, DELETE}))
      \<and> (\<forall>a. r = Inr a \<longrightarrow> sent \<noteq> []))
    \<and> r \<noteq> Inl Invalid_Response \<and> (\<forall>e. r = Inl e \<longrightarrow> retry_bounded e)"
proof (cases "mu_method m \<in> {POST, PUT, PATCH, DELETE}")
  case False
  with assms(2) show ?thesis
    by (auto simp: execute_mutation_def retry_bounded_def retry_after_def)
next
  case meth: True
  show ?thesis
  proof (cases "endpoint_url (mu_endpoint m)")
    case (Inl e)
    then have "e = Invalid_Endpoint" by (auto simp: endpoint_url_def split: if_splits)
    with Inl assms(2) meth show ?thesis
      by (auto simp: execute_mutation_def retry_bounded_def retry_after_def)
  next
    case (Inr path)
    obtain ra w1 where a: "access_token env w = (ra, w1)" by force
    note ar = access_token_result [OF assms(1) a]
    then obtain ls where ls: "w_sent w1 = w_sent w @ ls" "ls = [] \<or> ls = [login_request env]" by blast
    show ?thesis
    proof (cases ra)
      case (Inl e)
      then have "r = Inl e" "w' = w1" using Inr a assms(2) meth by (auto simp: execute_mutation_def)
      with Inl ar ls show ?thesis by (intro conjI exI [of _ ls] exI [of _ "[]"]) auto
    next
      case tok: (Inr t)
      obtain r2 w2 where s: "send_json env (mu_accepts_empty m) (mu_decode m)
          (mutation_request m path (token_id t)) w1 = (r2, w2)" by force
      have r: "r = map_err mutation_error r2" and sent: "w_sent w' = w_sent w2"
        using assms(2) meth Inr a tok s
        by (auto simp: execute_mutation_def drop_rejected_def mutation_request_def split: if_splits)
      obtain ms where ms: "w_sent w2 = w_sent w1 @ ms"
          "ms = [] \<or> ms = [mutation_request m path (token_id t)]" "ms = [] \<longrightarrow> r2 = Inl Work_Budget_Exhausted"
        using send_json_result [OF s] by blast
      have "\<forall>e. r2 = Inl e \<longrightarrow> retry_bounded e" using send_json_result [OF s] by blast
      then have "\<forall>e. r = Inl e \<longrightarrow> retry_bounded e"
        unfolding r by (cases r2) (auto simp: map_err_def mutation_error_def retry_bounded_def retry_after_def)
      moreover have "r \<noteq> Inl Invalid_Response"
        unfolding r by (cases r2) (auto simp: map_err_def mutation_error_def)
      moreover have "ms = [] \<Longrightarrow> \<forall>a. r \<noteq> Inr a" using ms unfolding r by (auto simp: map_err_def)
      ultimately show ?thesis
        using ls ms sent Inr meth by (intro conjI exI [of _ ls] exI [of _ ms]) auto
    qed
  qed
qed


definition demo_mutation :: "string mutation" where
  "demo_mutation = \<lparr>mu_method = DELETE, mu_endpoint = demo_endpoint, mu_query = [], mu_body = [],
     mu_sends_json_body = False, mu_accepts_empty = True, mu_decode = Some\<rparr>"

lemma demo_delete:
  "\<exists>w'. execute_mutation demo_env demo_mutation demo_world =
      (Inl (Api \<lparr>failure_kind = Authentication, failure_status = 401, failure_request_id = None,
             failure_retry_after_seconds = None\<rparr>), w')
     \<and> w_sent w' = [login_request demo_env, mutation_request demo_mutation [''api'', ''v1'', ''folders''] 1]"
  by (simp add: execute_mutation_def demo_mutation_def demo_endpoint_url login_path run_defs demo_defs
      mutation_request_def login_request_def map_err_def mutation_error_def)


end
