(* ===== verification/Pagination.thy ===== *)
theory Pagination
  imports Rust_Prelude
begin

text \<open>
  \<open>infisical-api/src/pagination.rs\<close> and \<open>paginate\<close> of \<open>resources.rs\<close>: validated offset
  windows, the continuation a page carries, and windowing of an in-memory collection. Offsets are
  \<open>u32\<close>, limits \<open>usize\<close> and totals \<open>u64\<close>, at their widths. A client that follows continuations is
  \<open>collect_pages\<close>; it gets the collection back.
\<close>

section \<open>Requests\<close>

definition max_page_size :: usize where "max_page_size = 100"
definition max_page_offset :: u32 where "max_page_offset = 100000"

datatype pagination_error = Invalid_Limit | Offset_Limit | Oversized_Page

record page_request =
  req_offset :: u32
  req_limit :: usize
  req_effective_limit :: "usize option"

definition page_request_new :: "u32 \<Rightarrow> usize \<Rightarrow> (pagination_error, page_request) result" where
  "page_request_new offset limit =
     (if limit = 0 then Err Invalid_Limit
      else if max_page_offset < offset then Err Offset_Limit
      else Ok \<lparr>req_offset = offset, req_limit = limit, req_effective_limit = None\<rparr>)"

definition request_limit :: "page_request \<Rightarrow> usize" where
  "request_limit r = (case req_effective_limit r of Some e \<Rightarrow> e | None \<Rightarrow> req_limit r)"

text \<open>\<open>clamped_to\<close>; \<open>None\<close> is its assertion panic.\<close>

definition clamped_to :: "usize \<Rightarrow> page_request \<Rightarrow> page_request option" where
  "clamped_to maximum r =
     (if \<not> 0 < maximum then None
      else Some (r\<lparr>req_effective_limit := Some (min (request_limit r) maximum)\<rparr>))"

definition u32_try_from :: "usize \<Rightarrow> u32 option" where
  "u32_try_from n = (if unat n < 2 ^ 32 then Some (ucast n) else None)"

definition request_next ::
    "page_request \<Rightarrow> usize \<Rightarrow> u64 option \<Rightarrow> (pagination_error, page_request option) result" where
  "request_next r returned reported =
     (if request_limit r < returned then Err Oversized_Page
      else
        let short_page = returned < request_limit r in
        and_then (ok_or Oversized_Page (u32_try_from returned)) (\<lambda>returned32.
        and_then (ok_or Offset_Limit (checked_add (req_offset r) returned32)) (\<lambda>next_offset.
          let reached_reported_total =
            (case reported of None \<Rightarrow> False | Some t \<Rightarrow> t \<le> ucast next_offset)
          in if returned32 = 0 \<or> short_page \<or> reached_reported_total then Ok None
             else and_then (page_request_new next_offset (req_limit r)) (\<lambda>n. Ok (Some n)))))"

section \<open>Pages\<close>

record 'a page =
  page_items :: "'a list"
  page_next :: "page_request option"
  page_total :: "u64 option"
  page_requested_limit :: usize
  page_effective_limit :: usize
  page_returned :: usize

definition page_new ::
    "page_request \<Rightarrow> 'a list \<Rightarrow> u64 option \<Rightarrow> (pagination_error, 'a page) result" where
  "page_new r items reported =
     and_then (request_next r (of_nat (length items)) reported) (\<lambda>next.
       Ok \<lparr>page_items = items, page_next = next, page_total = reported,
           page_requested_limit = req_limit r, page_effective_limit = request_limit r,
           page_returned = of_nat (length items)\<rparr>)"

text \<open>
  \<open>paginate\<close>: on a 64-bit target \<open>u64::try_from(usize)\<close> and \<open>usize::try_from(u32)\<close> cannot fail.
\<close>

definition paginate :: "page_request \<Rightarrow> 'a list \<Rightarrow> (pagination_error, 'a page) result" where
  "paginate r all_items =
     (let reported = of_nat (length all_items);
          offset = unat (req_offset r);
          items = take (unat (request_limit r)) (drop offset all_items)
      in page_new r items (Some reported))"

section \<open>Well-formed requests\<close>

definition wf_request :: "page_request \<Rightarrow> bool" where
  "wf_request r \<longleftrightarrow> req_offset r \<le> max_page_offset \<and> req_limit r \<noteq> 0 \<and> request_limit r \<noteq> 0"

lemma page_request_new_Ok:
  "page_request_new offset limit = Ok r \<longleftrightarrow>
     limit \<noteq> 0 \<and> offset \<le> max_page_offset \<and>
     r = \<lparr>req_offset = offset, req_limit = limit, req_effective_limit = None\<rparr>"
  by (auto simp: page_request_new_def not_less)

lemma page_request_new_wf: "page_request_new offset limit = Ok r \<Longrightarrow> wf_request r"
  by (auto simp: page_request_new_Ok wf_request_def request_limit_def)

lemma clamped_to_wf:
  "wf_request r \<Longrightarrow> clamped_to m r = Some c \<Longrightarrow>
     wf_request c \<and> request_limit c \<le> m \<and> request_limit c \<le> request_limit r
     \<and> req_limit c = req_limit r \<and> req_offset c = req_offset r"
  by (auto simp: clamped_to_def wf_request_def request_limit_def min_def
      split: if_splits option.splits)

lemma u32_try_from_Some: "u32_try_from n = Some m \<Longrightarrow> unat m = unat n"
  by (auto simp: u32_try_from_def unsigned_ucast_eq take_bit_nat_eq_self split: if_splits)

lemma u32_ucast_u64: "unat (ucast (n :: u32) :: u64) = unat n"
proof -
  have "unat n < 2 ^ 32" using unsigned_less [of n] by simp
  then show ?thesis by (simp add: unsigned_ucast_eq take_bit_nat_eq_self)
qed

lemma max_page_offset_unat: "r \<le> max_page_offset \<longleftrightarrow> unat r \<le> 100000"
  by (simp add: max_page_offset_def word_le_nat_alt)

lemma request_next_Some:
  assumes "request_next r returned reported = Ok (Some n)"
  shows "unat (req_offset n) = unat (req_offset r) + unat returned \<and> returned = request_limit r
    \<and> 0 < unat returned \<and> req_limit n = req_limit r \<and> req_effective_limit n = None \<and> wf_request n
    \<and> (case reported of None \<Rightarrow> True | Some t \<Rightarrow> unat (req_offset n) < unat t)"
proof -
  from assms obtain m off where m: "u32_try_from returned = Some m"
    and off: "checked_add (req_offset r) m = Some off"
    and n: "page_request_new off (req_limit r) = Ok n"
    and c: "m \<noteq> 0" "\<not> returned < request_limit r" "\<not> request_limit r < returned"
      "\<not> (case reported of None \<Rightarrow> False | Some t \<Rightarrow> t \<le> ucast off)"
    by (auto simp: request_next_def Let_def split: if_splits)
  have "unat off = unat (req_offset r) + unat returned"
    using checked_add_Some [OF off] u32_try_from_Some [OF m] by simp
  moreover have "0 < unat returned"
    using c(1) u32_try_from_Some [OF m] by (metis unat_gt_0)
  moreover have "case reported of None \<Rightarrow> True | Some t \<Rightarrow> unat off < unat t"
    using c(4) by (auto simp: word_le_nat_alt u32_ucast_u64 split: option.splits)
  ultimately show ?thesis
    using n c(2,3) page_request_new_wf [OF n]
    by (auto simp: page_request_new_Ok split: option.splits)
qed

text \<open>
  A page never holds more records than were asked for, and a continuation it carries is a
  well-formed request for the same page size that starts exactly after the records returned,
  strictly further on, within the traversal bound and before any total the server reported. So a
  caller that follows continuations never reads a record twice, skips one, or loops.
\<close>

theorem page_continuation:
  assumes "page_new r items reported = Ok p" and "length items < 2 ^ 64"
  shows "length (page_items p) \<le> unat (request_limit r) \<and>
    (\<forall>n. page_next p = Some n \<longrightarrow> wf_request n \<and> req_limit n = req_limit r
       \<and> unat (req_offset n) = unat (req_offset r) + length (page_items p)
       \<and> unat (req_offset r) < unat (req_offset n) \<and> unat (req_offset n) \<le> 100000
       \<and> (\<forall>t. reported = Some t \<longrightarrow> unat (req_offset n) < unat t))"
proof -
  have len: "unat (of_nat (length items) :: usize) = length items"
    using assms(2) by (simp add: unat_of_nat)
  from assms(1) obtain next_req where nr: "request_next r (of_nat (length items)) reported = Ok next_req"
    and p: "page_items p = items" "page_next p = next_req"
    by (auto simp: page_new_def)
  from nr have "\<not> request_limit r < of_nat (length items)" by (auto simp: request_next_def)
  then have "length items \<le> unat (request_limit r)" by (simp add: word_less_nat_alt len)
  moreover have "page_next p = Some n \<Longrightarrow> wf_request n \<and> req_limit n = req_limit r
       \<and> unat (req_offset n) = unat (req_offset r) + length (page_items p)
       \<and> unat (req_offset r) < unat (req_offset n) \<and> unat (req_offset n) \<le> 100000
       \<and> (\<forall>t. reported = Some t \<longrightarrow> unat (req_offset n) < unat t)" for n
    using request_next_Some [of r "of_nat (length items)" reported n] nr p
    by (auto simp: len wf_request_def max_page_offset_unat)
  ultimately show ?thesis using p by blast
qed

definition first_request :: page_request where
  "first_request = \<lparr>req_offset = 0, req_limit = 2, req_effective_limit = None\<rparr>"

lemma first_page:
  "page_new first_request [7, 8 :: nat] (Some 5) = Ok \<lparr>page_items = [7, 8],
     page_next = Some \<lparr>req_offset = 2, req_limit = 2, req_effective_limit = None\<rparr>,
     page_total = Some 5, page_requested_limit = 2, page_effective_limit = 2, page_returned = 2\<rparr>"
  by (simp add: page_new_def first_request_def request_next_def request_limit_def u32_try_from_def
      checked_add_def page_request_new_def max_page_offset_def)

lemma page_continuation_witness: "\<exists>p n. page_new first_request [7, 8 :: nat] (Some 5) = Ok p
    \<and> page_next p = Some n \<and> wf_request n \<and> unat (req_offset n) = 2 \<and> unat (req_offset n) < 5"
  using page_continuation [OF first_page] first_page
  by (auto simp: first_request_def)

section \<open>Following continuations\<close>

text \<open>A client that asks for the next page until there is none; the fuel counts pages.\<close>

fun collect_pages ::
    "nat \<Rightarrow> page_request \<Rightarrow> 'a list \<Rightarrow> (pagination_error, 'a list) result option" where
  "collect_pages 0 r all_items = None"
| "collect_pages (Suc fuel) r all_items =
     (case paginate r all_items of
        Inl e \<Rightarrow> Some (Inl e)
      | Inr p \<Rightarrow>
          (case page_next p of
             None \<Rightarrow> Some (Inr (page_items p))
           | Some n \<Rightarrow>
               map_option (\<lambda>rest. and_then rest (\<lambda>more. Inr (page_items p @ more)))
                 (collect_pages fuel n all_items)))"

lemma request_next_small:
  assumes "wf_request r" "returned \<le> request_limit r"
    and "unat (req_offset r) + unat returned \<le> 100000"
  shows "\<exists>n. request_next r returned reported = Ok n \<and>
    (n = None \<longrightarrow> returned < request_limit r \<or>
       (\<exists>t. reported = Some t \<and> unat t \<le> unat (req_offset r) + unat returned))"
proof -
  have r32: "u32_try_from returned = Some (ucast returned)"
    using assms(3) by (simp add: u32_try_from_def)
  then have u: "unat (ucast returned :: u32) = unat returned" by (rule u32_try_from_Some)
  obtain off where off: "checked_add (req_offset r) (ucast returned) = Some off"
    using assms(3) u by (simp add: checked_add_def)
  have unat_off: "unat off = unat (req_offset r) + unat returned"
    using checked_add_Some [OF off] u by simp
  then have new: "page_request_new off (req_limit r) =
      Ok \<lparr>req_offset = off, req_limit = req_limit r, req_effective_limit = None\<rparr>"
    using assms by (auto simp: page_request_new_Ok max_page_offset_unat wf_request_def)
  have "(ucast returned :: u32) = 0 \<Longrightarrow> returned = 0" using u by (metis unat_0 unat_eq_zero)
  then have "(ucast returned :: u32) = 0 \<Longrightarrow> returned < request_limit r"
    using assms(1) by (auto simp: wf_request_def word_gt_0)
  then show ?thesis
    using assms(2) unat_off
    by (auto simp: request_next_def Let_def r32 off new not_less word_le_nat_alt u32_ucast_u64
        split: option.splits)
qed

text \<open>
  C33: Following continuations through a collection of at most 100000 records, with any positive
  page size and from any offset inside it, ends after at most one page per remaining record plus
  one, without an error, and yields exactly the records from that offset on, in order.
\<close>

theorem collect_pages_complete:
  assumes "wf_request r" and "unat (req_offset r) \<le> length xs" and "length xs \<le> 100000"
    and "length xs - unat (req_offset r) < fuel"
  shows "collect_pages fuel r xs = Some (Ok (drop (unat (req_offset r)) xs))"
  using assms
proof (induction fuel arbitrary: r)
  case (Suc fuel)
  define items where "items = take (unat (request_limit r)) (drop (unat (req_offset r)) xs)"
  define returned :: usize where "returned = of_nat (length items)"
  have len: "unat returned = length items" "length items \<le> unat (request_limit r)"
      "unat (req_offset r) + length items \<le> length xs"
    using Suc.prems by (simp_all add: returned_def items_def unat_of_nat)
  have total: "unat (of_nat (length xs) :: u64) = length xs"
    using Suc.prems by (simp add: unat_of_nat)
  obtain n where n: "request_next r returned (Some (of_nat (length xs))) = Ok n"
    and none: "n = None \<Longrightarrow> length items < unat (request_limit r) \<or>
        length xs \<le> unat (req_offset r) + length items"
    using request_next_small [of r returned "Some (of_nat (length xs))"] Suc.prems len total
    by (auto simp: word_le_nat_alt word_less_nat_alt)
  have pg: "paginate r xs = Ok \<lparr>page_items = items, page_next = n,
      page_total = Some (of_nat (length xs)), page_requested_limit = req_limit r,
      page_effective_limit = request_limit r, page_returned = returned\<rparr>"
    using n by (simp add: paginate_def page_new_def items_def returned_def Let_def)
  show ?case
  proof (cases n)
    case None
    then have "items = drop (unat (req_offset r)) xs"
      using none len by (auto simp: items_def)
    with None pg show ?thesis by simp
  next
    case (Some m)
    then have m: "unat (req_offset m) = unat (req_offset r) + length items" "0 < length items"
        "wf_request m" "unat (req_offset m) < length xs" "length items = unat (request_limit r)"
      using request_next_Some [of r returned "Some (of_nat (length xs))" m] n len total by auto
    then have "collect_pages fuel m xs = Some (Ok (drop (unat (req_offset m)) xs))"
      using Suc.IH [of m] Suc.prems by simp
    moreover have "items @ drop (unat (req_offset m)) xs = drop (unat (req_offset r)) xs"
      using m by (simp add: items_def flip: drop_drop) (metis add.commute append_take_drop_id drop_drop)
    ultimately show ?thesis using Some pg by simp
  qed
qed simp

lemma collect_pages_complete_witness:
  "collect_pages 6 first_request [1, 2, 3, 4, 5 :: nat] = Some (Ok [1, 2, 3, 4, 5])"
  using collect_pages_complete [of first_request "[1, 2, 3, 4, 5 :: nat]" 6]
  by (simp add: first_request_def wf_request_def request_limit_def max_page_offset_def)

end
