(* ===== verification/Utc_Timestamp.thy ===== *)
theory Utc_Timestamp
  imports Rust_Prelude
begin

text \<open>
  \<open>utc_timestamp_millis\<close> of \<open>infisical-api/src/resources.rs\<close>: the strict parser of
  \<open>YYYY-MM-DDThh:mm:ss[.mmm]Z\<close> and its closed-form day count. The parser works at the code's
  widths (\<open>u32\<close> fields, \<open>i64\<close> result) without wrap-around, which the bounds below show, so the
  fields are \<open>nat\<close> and the result is \<open>int\<close>. The reference calendar counts days year by year and
  month by month; the closed form is proved equal to it.
\<close>

section \<open>The parser\<close>

definition decimal_step :: "nat option \<Rightarrow> char \<Rightarrow> nat option" where
  "decimal_step acc b =
     (case acc of None \<Rightarrow> None
      | Some value \<Rightarrow> if is_ascii_digit b then Some (value * 10 + (byte b - 48)) else None)"

definition decimal :: "string \<Rightarrow> nat option" where
  "decimal bytes = foldl decimal_step (Some 0) bytes"

definition byte_range :: "nat \<Rightarrow> nat \<Rightarrow> string \<Rightarrow> string" where
  "byte_range a b s = take (b - a) (drop a s)"

definition is_leap_year :: "nat \<Rightarrow> bool" where
  "is_leap_year year \<longleftrightarrow> year mod 4 = 0 \<and> (year mod 100 \<noteq> 0 \<or> year mod 400 = 0)"

definition days_in_month :: "nat \<Rightarrow> nat \<Rightarrow> nat option" where
  "days_in_month year month =
     (if month \<in> {1, 3, 5, 7, 8, 10, 12} then Some 31
      else if month \<in> {4, 6, 9, 11} then Some 30
      else if month = 2 \<and> is_leap_year year then Some 29
      else if month = 2 then Some 28
      else None)"

definition days_before_month :: "int list" where
  "days_before_month = [0, 31, 59, 90, 120, 151, 181, 212, 243, 273, 304, 334]"

definition absolute_days :: "nat \<Rightarrow> nat \<Rightarrow> nat \<Rightarrow> int" where
  "absolute_days year month day =
     (let prior_year = int (year - 1);
          days_before_year =
            prior_year * 365 + prior_year div 4 - prior_year div 100 + prior_year div 400;
          leap_day = (if is_leap_year year \<and> 2 < month then 1 else 0)
      in days_before_year + days_before_month ! (month - 1) + leap_day + int (day - 1))"

definition date_millis :: "nat \<Rightarrow> nat \<Rightarrow> nat \<Rightarrow> nat \<Rightarrow> nat \<Rightarrow> nat \<Rightarrow> nat \<Rightarrow> int option" where
  "date_millis year month day hour minute second fractional_millis =
     (case days_in_month year month of
        None \<Rightarrow> None
      | Some dim \<Rightarrow>
          if year = 0 \<or> \<not> (1 \<le> day \<and> day \<le> dim) \<or> 23 < hour \<or> 59 < minute \<or> 59 < second then None
          else
            let absolute_seconds = absolute_days year month day * 86400
                  + int hour * 3600 + int minute * 60 + int second
            in Some (absolute_seconds * 1000 + int fractional_millis))"

definition fractional_part :: "string \<Rightarrow> nat option" where
  "fractional_part bytes =
     (if length bytes = 20 \<and> bytes ! 19 = CHR ''Z'' then Some 0
      else if length bytes = 24 \<and> bytes ! 19 = CHR ''.'' \<and> bytes ! 23 = CHR ''Z''
           then decimal (byte_range 20 23 bytes)
      else None)"

definition utc_timestamp_millis :: "string \<Rightarrow> int option" where
  "utc_timestamp_millis bytes =
     Option.bind (fractional_part bytes) (\<lambda>fractional_millis.
       if bytes ! 4 \<noteq> CHR ''-'' \<or> bytes ! 7 \<noteq> CHR ''-'' \<or> bytes ! 10 \<noteq> CHR ''T''
          \<or> bytes ! 13 \<noteq> CHR '':'' \<or> bytes ! 16 \<noteq> CHR '':'' then None
       else
         Option.bind (decimal (byte_range 0 4 bytes)) (\<lambda>year.
         Option.bind (decimal (byte_range 5 7 bytes)) (\<lambda>month.
         Option.bind (decimal (byte_range 8 10 bytes)) (\<lambda>day.
         Option.bind (decimal (byte_range 11 13 bytes)) (\<lambda>hour.
         Option.bind (decimal (byte_range 14 16 bytes)) (\<lambda>minute.
         Option.bind (decimal (byte_range 17 19 bytes)) (\<lambda>second.
           date_millis year month day hour minute second fractional_millis)))))))"

section \<open>Decimal fields\<close>

lemma decimal_snoc:
  "decimal (bs @ [b]) = decimal_step (decimal bs) b"
  by (simp add: decimal_def)

lemma decimal_Nil [simp]: "decimal [] = Some 0"
  by (simp add: decimal_def)

lemma decimal_bound: "decimal bs = Some v \<Longrightarrow> v < 10 ^ length bs"
proof (induction bs arbitrary: v rule: rev_induct)
  case (snoc b bs)
  then obtain w where w: "decimal bs = Some w" "is_ascii_digit b" "v = w * 10 + (byte b - 48)"
    by (auto simp: decimal_snoc decimal_step_def split: option.splits if_splits)
  moreover have "byte b - 48 \<le> 9" using w(2) by (auto simp: is_ascii_digit_def)
  ultimately show ?case using snoc.IH [of w] by simp
qed simp

fun digits :: "nat \<Rightarrow> nat \<Rightarrow> string" where
  "digits 0 n = []"
| "digits (Suc k) n = digits k (n div 10) @ [char_of (48 + n mod 10)]"

lemma length_digits [simp]: "length (digits k n) = k"
  by (induction k arbitrary: n) auto

lemma decimal_digits: "n < 10 ^ k \<Longrightarrow> decimal (digits k n) = Some n"
proof (induction k arbitrary: n)
  case (Suc k)
  have "n div 10 < 10 ^ k" using Suc.prems by (simp add: less_mult_imp_div_less mult.commute)
  moreover have "n mod 10 < 10" by simp
  ultimately show ?case
    using Suc.IH [of "n div 10"] is_ascii_digit_show [of "n mod 10"]
    by (simp add: decimal_snoc decimal_step_def)
qed simp

section \<open>The reference calendar\<close>

definition month_days :: "nat \<Rightarrow> nat \<Rightarrow> nat" where
  "month_days y m = (case days_in_month y m of Some d \<Rightarrow> d | None \<Rightarrow> 0)"

definition year_days :: "nat \<Rightarrow> nat" where
  "year_days y = (\<Sum>m = 1..12. month_days y m)"

text \<open>Days from 0001-01-01 to the given date, one year and one month at a time.\<close>

definition calendar_days :: "nat \<Rightarrow> nat \<Rightarrow> nat \<Rightarrow> nat" where
  "calendar_days y m d = (\<Sum>i = 1..<y. year_days i) + (\<Sum>j = 1..<m. month_days y j) + (d - 1)"

definition valid_date :: "nat \<Rightarrow> nat \<Rightarrow> nat \<Rightarrow> bool" where
  "valid_date y m d \<longleftrightarrow> 1 \<le> y \<and> 1 \<le> m \<and> m \<le> 12 \<and> 1 \<le> d \<and> d \<le> month_days y m"

lemma month_cases:
  "1 \<le> (m :: nat) \<Longrightarrow> m \<le> 12 \<Longrightarrow>
     m \<in> {1, 2, 3, 4, 5, 6, 7, 8, 9, 10, 11, 12}"
  unfolding insert_iff empty_iff by presburger

lemma year_days_eq: "year_days y = (if is_leap_year y then 366 else 365)"
  by (simp add: year_days_def month_days_def days_in_month_def numeral_eq_Suc)

lemma div_Suc_int:
  "int (Suc n) div int k = int n div int k + (if Suc n mod k = 0 then 1 else 0)" if "0 < k"
  using that by (simp add: div_Suc zdiv_int [symmetric] del: of_nat_Suc)

lemma closed_form_step:
  "s' = s + (365 + leap) \<Longrightarrow> e4 - e100 + e400 = leap \<Longrightarrow> s = n * 365 + a - b + c \<Longrightarrow>
     a' = a + e4 \<Longrightarrow> b' = b + e100 \<Longrightarrow> c' = c + e400 \<Longrightarrow> n' = n + 1 \<Longrightarrow>
     s' = n' * 365 + a' - b' + (c' :: int)"
  by simp

lemma years_closed_form:
  "int (\<Sum>i = 1..<Suc n. year_days i) =
     int n * 365 + int n div 4 - int n div 100 + int n div 400"
proof (induction n)
  case (Suc n)
  have leap: "(if Suc n mod 4 = 0 then 1 else 0) - (if Suc n mod 100 = 0 then 1 else 0)
      + (if Suc n mod 400 = 0 then 1 else 0 :: int) = (if is_leap_year (Suc n) then 1 else 0)"
    using mod_mod_cancel [of 4 100 "Suc n"] mod_mod_cancel [of 100 400 "Suc n"]
    by (auto simp: is_leap_year_def)
  have "int (\<Sum>i = 1..<Suc (Suc n). year_days i) =
      int (\<Sum>i = 1..<Suc n. year_days i) + int (year_days (Suc n))" by simp
  moreover have "int (year_days (Suc n)) = 365 + (if is_leap_year (Suc n) then 1 else 0)"
    by (simp add: year_days_eq)
  ultimately have sum: "int (\<Sum>i = 1..<Suc (Suc n). year_days i) =
      int (\<Sum>i = 1..<Suc n. year_days i) + (365 + (if is_leap_year (Suc n) then 1 else 0))"
    by simp
  show ?case
    by (rule closed_form_step [OF sum leap Suc.IH div_Suc_int [of 4 n, simplified of_nat_numeral]
          div_Suc_int [of 100 n, simplified of_nat_numeral]
          div_Suc_int [of 400 n, simplified of_nat_numeral]]) simp_all
qed simp

lemma months_closed_form:
  "1 \<le> m \<Longrightarrow> m \<le> 12 \<Longrightarrow>
     int (\<Sum>j = 1..<m. month_days y j) =
       days_before_month ! (m - 1) + (if is_leap_year y \<and> 2 < m then 1 else 0)"
  by (drule (1) month_cases)
    (auto simp: days_before_month_def month_days_def days_in_month_def numeral_eq_Suc)

lemma absolute_days_calendar:
  assumes "valid_date y m d"
  shows "absolute_days y m d = int (calendar_days y m d)"
proof -
  obtain k where k: "y = Suc k" using assms by (cases y) (auto simp: valid_date_def)
  have m: "int (\<Sum>j = 1..<m. month_days y j) =
       days_before_month ! (m - 1) + (if is_leap_year y \<and> 2 < m then 1 else 0)"
    using assms by (intro months_closed_form) (auto simp: valid_date_def)
  show ?thesis
    unfolding k calendar_days_def of_nat_add m [unfolded k] absolute_days_def Let_def years_closed_form
    by simp
qed

section \<open>The accepted language\<close>

record timestamp =
  ts_year :: nat
  ts_month :: nat
  ts_day :: nat
  ts_hour :: nat
  ts_minute :: nat
  ts_second :: nat
  ts_millis :: "nat option"

definition valid_timestamp :: "timestamp \<Rightarrow> bool" where
  "valid_timestamp t \<longleftrightarrow>
     valid_date (ts_year t) (ts_month t) (ts_day t) \<and> ts_year t \<le> 9999 \<and> ts_hour t \<le> 23
     \<and> ts_minute t \<le> 59 \<and> ts_second t \<le> 59 \<and> (case ts_millis t of None \<Rightarrow> True | Some f \<Rightarrow> f \<le> 999)"

definition render_fraction :: "nat option \<Rightarrow> string" where
  "render_fraction f = (case f of None \<Rightarrow> ''Z'' | Some ms \<Rightarrow> CHR ''.'' # digits 3 ms @ ''Z'')"

definition render_timestamp :: "timestamp \<Rightarrow> string" where
  "render_timestamp t =
     digits 4 (ts_year t) @ CHR ''-'' # digits 2 (ts_month t) @ CHR ''-'' # digits 2 (ts_day t)
     @ CHR ''T'' # digits 2 (ts_hour t) @ CHR '':'' # digits 2 (ts_minute t)
     @ CHR '':'' # digits 2 (ts_second t) @ render_fraction (ts_millis t)"

definition seconds_since_epoch :: "timestamp \<Rightarrow> nat" where
  "seconds_since_epoch t = calendar_days (ts_year t) (ts_month t) (ts_day t) * 86400
     + ts_hour t * 3600 + ts_minute t * 60 + ts_second t"

definition timestamp_value :: "timestamp \<Rightarrow> nat" where
  "timestamp_value t = seconds_since_epoch t * 1000 + (case ts_millis t of None \<Rightarrow> 0 | Some f \<Rightarrow> f)"

lemma byte_range_append:
  "length x = a \<Longrightarrow> length y = b - a \<Longrightarrow> byte_range a b (x @ y @ z) = y"
  by (simp add: byte_range_def)

lemma digits_decimal: "decimal bs = Some v \<Longrightarrow> bs = digits (length bs) v"
proof (induction bs arbitrary: v rule: rev_induct)
  case (snoc b bs)
  then obtain w where w: "decimal bs = Some w" "is_ascii_digit b" "v = w * 10 + (byte b - 48)"
    by (auto simp: decimal_snoc decimal_step_def split: option.splits if_splits)
  obtain e where e: "byte b = 48 + e" "e < 10"
    using w(2) by (auto simp: is_ascii_digit_def le_iff_add)
  have "v div 10 = w" "48 + v mod 10 = byte b" using w(3) e by simp_all
  then show ?case using snoc.IH [OF w(1)] by (simp add: byte_def)
qed simp

lemma month_days_le: "month_days y m \<le> 31"
  by (simp add: month_days_def days_in_month_def)

lemma days_in_month_valid: "1 \<le> m \<Longrightarrow> m \<le> 12 \<Longrightarrow> days_in_month y m = Some (month_days y m)"
  by (drule (1) month_cases) (auto simp: month_days_def days_in_month_def)

lemma days_in_month_Some: "days_in_month y m = Some dim \<Longrightarrow> 1 \<le> m \<and> m \<le> 12 \<and> dim = month_days y m"
  by (auto simp: month_days_def days_in_month_def split: if_splits)

lemma date_millis_iff:
  "date_millis y m d h mi s f = Some v \<longleftrightarrow>
     valid_date y m d \<and> h \<le> 23 \<and> mi \<le> 59 \<and> s \<le> 59 \<and>
     v = int ((calendar_days y m d * 86400 + h * 3600 + mi * 60 + s) * 1000 + f)"
proof (cases "valid_date y m d")
  case True
  then have "days_in_month y m = Some (month_days y m)"
    by (simp add: valid_date_def days_in_month_valid)
  with True show ?thesis
    by (auto simp: date_millis_def Let_def absolute_days_calendar valid_date_def not_less)
next
  case False
  then show ?thesis
    by (auto simp: date_millis_def valid_date_def split: option.splits if_splits
        dest!: days_in_month_Some)
qed


lemma drop_field:
  "b < length s \<Longrightarrow> a \<le> b \<Longrightarrow> drop a s = byte_range a b s @ s ! b # drop (Suc b) s"
  unfolding byte_range_def
  by (metis Cons_nth_drop_Suc append_take_drop_id drop_drop le_add_diff_inverse2)

lemma length_byte_range: "b \<le> length s \<Longrightarrow> length (byte_range a b s) = b - a"
  by (simp add: byte_range_def)

lemma byte_fields:
  assumes "20 \<le> length s"
  shows "s = byte_range 0 4 s @ s ! 4 # byte_range 5 7 s @ s ! 7 # byte_range 8 10 s
    @ s ! 10 # byte_range 11 13 s @ s ! 13 # byte_range 14 16 s @ s ! 16 # byte_range 17 19 s @ drop 19 s"
  using assms drop_field [of 4 s 0] drop_field [of 7 s 5] drop_field [of 10 s 8]
    drop_field [of 13 s 11] drop_field [of 16 s 14] append_take_drop_id [of 2 "drop 17 s"]
  by (simp add: byte_range_def [of 17 19])

lemma drop_19:
  "length s = 20 \<Longrightarrow> drop 19 s = [s ! 19]"
  "length s = 24 \<Longrightarrow> drop 19 s = s ! 19 # byte_range 20 23 s @ [s ! 23]"
  using Cons_nth_drop_Suc [of 19 s] drop_field [of 23 s 20] by simp_all

lemma fractional_part_Some:
  "fractional_part s = Some f \<Longrightarrow>
     20 \<le> length s \<and> (\<exists>frac. drop 19 s = render_fraction frac \<and>
       (case frac of None \<Rightarrow> f = 0 | Some ms \<Rightarrow> ms \<le> 999 \<and> f = ms))"
proof (goal_cases)
  case 1
  consider "length s = 20" "s ! 19 = CHR ''Z''" "f = 0"
    | "length s = 24" "s ! 19 = CHR ''.''" "s ! 23 = CHR ''Z''" "decimal (byte_range 20 23 s) = Some f"
    using 1 by (auto simp: fractional_part_def split: if_splits)
  then show ?case
  proof cases
    case 1
    then show ?thesis
      by (intro conjI exI [of _ None]) (simp_all add: render_fraction_def drop_19)
  next
    case 2
    then have "byte_range 20 23 s = digits 3 f" "f < 1000"
      using digits_decimal [of "byte_range 20 23 s" f] decimal_bound [of "byte_range 20 23 s" f]
      by (simp_all add: length_byte_range)
    with 2 show ?thesis
      by (intro conjI exI [of _ "Some f"]) (simp_all add: render_fraction_def drop_19)
  qed
qed


lemma field_Some:
  "decimal (byte_range a b s) = Some v \<Longrightarrow> b \<le> length s \<Longrightarrow> byte_range a b s = digits (b - a) v"
  using digits_decimal [of "byte_range a b s" v] by (simp add: length_byte_range)

lemma utc_timestamp_sound:
  assumes "utc_timestamp_millis s = Some v"
  shows "\<exists>t. valid_timestamp t \<and> s = render_timestamp t \<and> v = int (timestamp_value t)"
proof -
  from assms obtain f y m d h mi sec where f: "fractional_part s = Some f"
    and punct: "s ! 4 = CHR ''-''" "s ! 7 = CHR ''-''" "s ! 10 = CHR ''T''" "s ! 13 = CHR '':''"
      "s ! 16 = CHR '':''"
    and fields: "decimal (byte_range 0 4 s) = Some y" "decimal (byte_range 5 7 s) = Some m"
      "decimal (byte_range 8 10 s) = Some d" "decimal (byte_range 11 13 s) = Some h"
      "decimal (byte_range 14 16 s) = Some mi" "decimal (byte_range 17 19 s) = Some sec"
    and date: "date_millis y m d h mi sec f = Some v"
    unfolding utc_timestamp_millis_def by (auto simp: bind_eq_Some_conv split: if_splits)
  from fractional_part_Some [OF f] obtain frac where len: "20 \<le> length s"
    and frac: "drop 19 s = render_fraction frac"
      "case frac of None \<Rightarrow> f = 0 | Some ms \<Rightarrow> ms \<le> 999 \<and> f = ms" by blast
  define t where "t = \<lparr>ts_year = y, ts_month = m, ts_day = d, ts_hour = h, ts_minute = mi,
    ts_second = sec, ts_millis = frac\<rparr>"
  have "y \<le> 9999"
    using decimal_bound [OF fields(1)] len by (simp add: length_byte_range)
  then have "valid_timestamp t"
    using date frac(2) by (auto simp: t_def valid_timestamp_def date_millis_iff split: option.splits)
  moreover have "s = render_timestamp t"
    using byte_fields [OF len] len
    by (simp add: punct frac field_Some [OF fields(1)] field_Some [OF fields(2)]
        field_Some [OF fields(3)] field_Some [OF fields(4)] field_Some [OF fields(5)]
        field_Some [OF fields(6)] t_def render_timestamp_def)
  moreover have "v = int (timestamp_value t)"
    using date frac(2)
    by (auto simp: t_def timestamp_value_def seconds_since_epoch_def date_millis_iff split: option.splits)
  ultimately show ?thesis by blast
qed

lemma month_days_31: "valid_date y m d \<Longrightarrow> m < 100 \<and> d < 100"
  using month_days_le [of y m] by (auto simp: valid_date_def)

lemma fractional_part_render:
  "valid_timestamp t \<Longrightarrow>
     fractional_part (render_timestamp t) = Some (case ts_millis t of None \<Rightarrow> 0 | Some f \<Rightarrow> f)"
  by (cases "ts_millis t")
    (simp_all add: fractional_part_def render_timestamp_def render_fraction_def nth_append nth_Cons'
      byte_range_def decimal_digits valid_timestamp_def)

lemma utc_timestamp_complete:
  assumes "valid_timestamp t"
  shows "utc_timestamp_millis (render_timestamp t) = Some (int (timestamp_value t))"
proof -
  let ?s = "render_timestamp t"
  have "?s ! 4 = CHR ''-''" "?s ! 7 = CHR ''-''" "?s ! 10 = CHR ''T''" "?s ! 13 = CHR '':''"
    "?s ! 16 = CHR '':''"
    by (simp_all add: render_timestamp_def nth_append nth_Cons')
  moreover have "byte_range 0 4 ?s = digits 4 (ts_year t)" "byte_range 5 7 ?s = digits 2 (ts_month t)"
    "byte_range 8 10 ?s = digits 2 (ts_day t)" "byte_range 11 13 ?s = digits 2 (ts_hour t)"
    "byte_range 14 16 ?s = digits 2 (ts_minute t)" "byte_range 17 19 ?s = digits 2 (ts_second t)"
    by (simp_all add: render_timestamp_def byte_range_def)
  moreover have "ts_year t < 10 ^ 4" "ts_month t < 10 ^ 2" "ts_day t < 10 ^ 2" "ts_hour t < 10 ^ 2"
    "ts_minute t < 10 ^ 2" "ts_second t < 10 ^ 2"
    using assms month_days_31 [of "ts_year t" "ts_month t" "ts_day t"]
    by (auto simp: valid_timestamp_def)
  ultimately have "utc_timestamp_millis ?s =
      date_millis (ts_year t) (ts_month t) (ts_day t) (ts_hour t) (ts_minute t) (ts_second t)
        (case ts_millis t of None \<Rightarrow> 0 | Some f \<Rightarrow> f)"
    unfolding utc_timestamp_millis_def fractional_part_render [OF assms]
    by (simp add: decimal_digits)
  then show ?thesis
    using assms by (simp add: date_millis_iff valid_timestamp_def timestamp_value_def
        seconds_since_epoch_def)
qed

text \<open>
  C34: The timestamp parser accepts exactly the renderings \<open>YYYY-MM-DDThh:mm:ss[.mmm]Z\<close> of real
  calendar instants of the years 1 to 9999, and its closed-form arithmetic returns the
  milliseconds that counting days year by year and month by month from 0001-01-01 gives.
\<close>

theorem utc_timestamp_reference:
  "utc_timestamp_millis s = Some v \<longleftrightarrow>
     (\<exists>t. valid_timestamp t \<and> s = render_timestamp t \<and> v = int (timestamp_value t))"
  using utc_timestamp_sound utc_timestamp_complete by blast

section \<open>Chronology\<close>

lemma year_step: "(\<Sum>i = 1..<Suc y. year_days i) = (\<Sum>i = 1..<y. year_days i) + year_days y"
  if "1 \<le> y"
  using that by simp

lemma day_of_year_bound:
  assumes "valid_date y m d"
  shows "(\<Sum>j = 1..<m. month_days y j) + d \<le> year_days y"
proof -
  have "(\<Sum>j = 1..<m. month_days y j) + month_days y m = (\<Sum>j \<in> {1..m}. month_days y j)"
    using assms by (simp add: valid_date_def sum.last_plus flip: atLeastLessThanSuc_atLeastAtMost)
  also have "\<dots> \<le> year_days y"
    unfolding year_days_def using assms by (intro sum_mono2) (auto simp: valid_date_def)
  finally show ?thesis using assms by (simp add: valid_date_def)
qed

lemma calendar_mono_year:
  assumes "valid_date y m d" "valid_date y' m' d'" "y < y'"
  shows "calendar_days y m d < calendar_days y' m' d'"
proof -
  have "(\<Sum>i = 1..<Suc y. year_days i) \<le> (\<Sum>i = 1..<y'. year_days i)"
    using assms(3) by (intro sum_mono2) auto
  with day_of_year_bound [OF assms(1)] year_step [of y] assms(1) show ?thesis
    by (clarsimp simp: calendar_days_def valid_date_def) linarith
qed

lemma calendar_mono_month:
  assumes "valid_date y m d" "valid_date y m' d'" "m < m'"
  shows "calendar_days y m d < calendar_days y m' d'"
proof -
  have "(\<Sum>j = 1..<Suc m. month_days y j) \<le> (\<Sum>j = 1..<m'. month_days y j)"
    using assms(3) by (intro sum_mono2) auto
  with assms(1) show ?thesis by (clarsimp simp: calendar_days_def valid_date_def) linarith
qed

definition date_before :: "nat \<times> nat \<times> nat \<Rightarrow> nat \<times> nat \<times> nat \<Rightarrow> bool" where
  "date_before a b = (case (a, b) of ((y, m, d), (y', m', d')) \<Rightarrow>
     y < y' \<or> (y = y' \<and> (m < m' \<or> (m = m' \<and> d < d'))))"

text \<open>
  On real dates the parser's day number orders exactly as the calendar does, year first, then
  month, then day, so comparing two parsed instants compares the dates they name and no two dates
  share a number.
\<close>

theorem absolute_days_chronological:
  assumes "valid_date y m d" "valid_date y' m' d'"
  shows "(absolute_days y m d < absolute_days y' m' d' \<longleftrightarrow> date_before (y, m, d) (y', m', d'))
    \<and> (absolute_days y m d = absolute_days y' m' d' \<longleftrightarrow> (y, m, d) = (y', m', d'))"
proof -
  consider "date_before (y, m, d) (y', m', d')" | "date_before (y', m', d') (y, m, d)"
    | "(y, m, d) = (y', m', d')"
    using less_linear [of y y'] less_linear [of m m'] less_linear [of d d']
    by (auto simp: date_before_def)
  then show ?thesis
  proof cases
    case 1
    then have "calendar_days y m d < calendar_days y' m' d'"
      using assms calendar_mono_year calendar_mono_month
      by (auto simp: date_before_def) (auto simp: calendar_days_def valid_date_def)
    with 1 assms show ?thesis by (auto simp: absolute_days_calendar)
  next
    case 2
    then have "calendar_days y' m' d' < calendar_days y m d"
      using assms calendar_mono_year calendar_mono_month
      by (auto simp: date_before_def) (auto simp: calendar_days_def valid_date_def)
    with 2 assms show ?thesis by (auto simp: absolute_days_calendar date_before_def)
  qed (simp add: date_before_def)
qed

lemma absolute_days_chronological_witness:
  "absolute_days 2024 2 29 < absolute_days 2024 3 1"
proof -
  have "valid_date 2024 2 29" "valid_date 2024 3 1" by code_simp+
  from absolute_days_chronological [OF this] show ?thesis by (simp add: date_before_def)
qed

end
