(* ===== verification/Resource_Input.thy ===== *)
theory Resource_Input
  imports Rust_Prelude
begin

text \<open>
  The validated coordinates of \<open>infisical-api/src/resources.rs\<close>: opaque identifiers, slugs,
  display texts, names, positions and the canonical secret path, together with the strict UTC
  timestamp parser. A transparent newtype over \<open>String\<close> is modelled by the string it wraps, its
  constructor by a function into the error sum. Every constructor obeys one contract, the locale
  \<open>validated_newtype\<close>: it returns its input unchanged or its one error.
\<close>

section \<open>Bounds\<close>

definition max_opaque_id_bytes :: nat where "max_opaque_id_bytes = 128"
definition max_environment_slug_bytes :: nat where "max_environment_slug_bytes = 64"
definition max_secret_path_bytes :: nat where "max_secret_path_bytes = 2048"
definition max_secret_name_bytes :: nat where "max_secret_name_bytes = 512"
definition max_secret_import_position :: u32 where "max_secret_import_position = 100000"
definition max_project_name_bytes :: nat where "max_project_name_bytes = 64"
definition max_project_description_bytes :: nat where "max_project_description_bytes = 1024"
definition min_new_project_slug_bytes :: nat where "min_new_project_slug_bytes = 5"
definition max_new_project_slug_bytes :: nat where "max_new_project_slug_bytes = 36"
definition max_project_slug_bytes :: nat where "max_project_slug_bytes = 64"
definition max_environment_name_bytes :: nat where "max_environment_name_bytes = 64"
definition max_environment_position :: u32 where "max_environment_position = 100000"
definition max_point_in_time_version_limit :: u8 where "max_point_in_time_version_limit = 100"
definition max_folder_name_bytes :: nat where "max_folder_name_bytes = 255"
definition max_folder_description_bytes :: nat where "max_folder_description_bytes = 1024"
definition max_tag_slug_bytes :: nat where "max_tag_slug_bytes = 64"
definition max_tag_color_bytes :: nat where "max_tag_color_bytes = 32"
definition max_identity_name_bytes :: nat where "max_identity_name_bytes = 128"

lemmas resource_bounds = max_opaque_id_bytes_def max_environment_slug_bytes_def
  max_secret_path_bytes_def max_secret_name_bytes_def max_project_name_bytes_def
  max_project_description_bytes_def min_new_project_slug_bytes_def max_new_project_slug_bytes_def
  max_project_slug_bytes_def max_environment_name_bytes_def max_folder_name_bytes_def
  max_folder_description_bytes_def max_tag_slug_bytes_def max_tag_color_bytes_def
  max_identity_name_bytes_def

datatype resource_input_error =
    Invalid_Project_Id | Invalid_Secret_Import_Id | Invalid_Secret_Import_Position
  | Invalid_Environment_Id | Invalid_Folder_Id | Invalid_Tag_Id | Invalid_Organization_Id
  | Invalid_Identity_Id | Invalid_Group_Id | Invalid_Additional_Privilege_Id
  | Invalid_Project_Membership_Id | Invalid_Universal_Auth_Client_Secret_Id
  | Invalid_Token_Auth_Token_Id | Invalid_Identity_Name | Invalid_Project_Name
  | Invalid_Project_Description | Invalid_New_Project_Slug | Invalid_Project_Slug
  | Invalid_Environment_Name | Invalid_Folder_Name | Invalid_Folder_Description
  | Invalid_Tag_Slug | Invalid_Tag_Color | Invalid_Environment_Position
  | Invalid_Point_In_Time_Version_Limit | Invalid_Environment_Slug | Invalid_Secret_Path
  | Invalid_Secret_Name

section \<open>Validators\<close>

definition is_opaque_byte :: "char \<Rightarrow> bool" where
  "is_opaque_byte b \<longleftrightarrow> is_ascii_alphanumeric b \<or> b = CHR ''-'' \<or> b = CHR ''_''"

definition is_slug_byte :: "char \<Rightarrow> bool" where
  "is_slug_byte b \<longleftrightarrow> is_ascii_lowercase b \<or> is_ascii_digit b"

definition is_valid_opaque_id :: "string \<Rightarrow> bool" where
  "is_valid_opaque_id value \<longleftrightarrow>
     value \<noteq> [] \<and> length value \<le> max_opaque_id_bytes \<and> list_all is_opaque_byte value"

definition is_valid_display_text :: "string \<Rightarrow> nat \<Rightarrow> bool \<Rightarrow> bool" where
  "is_valid_display_text value max_bytes allow_empty \<longleftrightarrow>
     (allow_empty \<or> value \<noteq> []) \<and> length value \<le> max_bytes
     \<and> str_trim value = value \<and> \<not> has_control value"

definition is_valid_hyphen_slug :: "string \<Rightarrow> nat \<Rightarrow> bool" where
  "is_valid_hyphen_slug value max_bytes \<longleftrightarrow>
     value \<noteq> [] \<and> length value \<le> max_bytes
     \<and> list_all (\<lambda>segment. segment \<noteq> [] \<and> list_all is_slug_byte segment)
         (split_by ((=) (CHR ''-'')) value)"

definition is_valid_project_slug :: "string \<Rightarrow> nat \<Rightarrow> nat \<Rightarrow> bool" where
  "is_valid_project_slug value min_bytes max_bytes \<longleftrightarrow>
     min_bytes \<le> length value \<and> length value \<le> max_bytes
     \<and> list_all (\<lambda>segment. segment \<noteq> [] \<and> list_all is_slug_byte segment)
         (split_by (\<lambda>c. c = CHR ''-'' \<or> c = CHR ''_'') value)"

definition is_bounded_text :: "string \<Rightarrow> nat \<Rightarrow> bool" where
  "is_bounded_text value max_bytes \<longleftrightarrow>
     value \<noteq> [] \<and> length value \<le> max_bytes \<and> \<not> has_control value"

definition is_uuid :: "string \<Rightarrow> bool" where
  "is_uuid value \<longleftrightarrow> length value = 36
     \<and> list_all (\<lambda>(index, b). if index \<in> {8, 13, 18, 23} then b = CHR ''-'' else is_ascii_hexdigit b)
         (enumerate 0 value)"

section \<open>Constructors\<close>

definition new_project_id :: "string \<Rightarrow> (resource_input_error, string) result" where
  "new_project_id value = (if \<not> is_valid_opaque_id value then Err Invalid_Project_Id else Ok value)"

definition new_secret_import_id :: "string \<Rightarrow> (resource_input_error, string) result" where
  "new_secret_import_id value = (if \<not> is_valid_opaque_id value then Err Invalid_Secret_Import_Id else Ok value)"

definition new_environment_id :: "string \<Rightarrow> (resource_input_error, string) result" where
  "new_environment_id value = (if \<not> is_valid_opaque_id value then Err Invalid_Environment_Id else Ok value)"

definition new_folder_id :: "string \<Rightarrow> (resource_input_error, string) result" where
  "new_folder_id value = (if \<not> is_valid_opaque_id value then Err Invalid_Folder_Id else Ok value)"

definition new_tag_id :: "string \<Rightarrow> (resource_input_error, string) result" where
  "new_tag_id value = (if \<not> is_valid_opaque_id value then Err Invalid_Tag_Id else Ok value)"

definition new_organization_id :: "string \<Rightarrow> (resource_input_error, string) result" where
  "new_organization_id value = (if \<not> is_valid_opaque_id value then Err Invalid_Organization_Id else Ok value)"

definition new_identity_id :: "string \<Rightarrow> (resource_input_error, string) result" where
  "new_identity_id value = (if \<not> is_valid_opaque_id value then Err Invalid_Identity_Id else Ok value)"

definition new_group_id :: "string \<Rightarrow> (resource_input_error, string) result" where
  "new_group_id value = (if \<not> is_valid_opaque_id value then Err Invalid_Group_Id else Ok value)"

definition new_additional_privilege_id :: "string \<Rightarrow> (resource_input_error, string) result" where
  "new_additional_privilege_id value = (if \<not> is_valid_opaque_id value then Err Invalid_Additional_Privilege_Id else Ok value)"

definition new_project_membership_id :: "string \<Rightarrow> (resource_input_error, string) result" where
  "new_project_membership_id value = (if \<not> is_valid_opaque_id value then Err Invalid_Project_Membership_Id else Ok value)"

definition new_token_auth_token_id :: "string \<Rightarrow> (resource_input_error, string) result" where
  "new_token_auth_token_id value = (if \<not> is_valid_opaque_id value then Err Invalid_Token_Auth_Token_Id else Ok value)"

definition new_universal_auth_client_secret_id :: "string \<Rightarrow> (resource_input_error, string) result" where
  "new_universal_auth_client_secret_id value = (if \<not> is_valid_opaque_id value then Err Invalid_Universal_Auth_Client_Secret_Id else Ok value)"

definition new_identity_name :: "string \<Rightarrow> (resource_input_error, string) result" where
  "new_identity_name value = (if \<not> is_valid_display_text value max_identity_name_bytes False then Err Invalid_Identity_Name else Ok value)"

definition new_project_name :: "string \<Rightarrow> (resource_input_error, string) result" where
  "new_project_name value = (if \<not> is_valid_display_text value max_project_name_bytes False then Err Invalid_Project_Name else Ok value)"

definition new_project_description :: "string \<Rightarrow> (resource_input_error, string) result" where
  "new_project_description value = (if \<not> is_valid_display_text value max_project_description_bytes True then Err Invalid_Project_Description else Ok value)"

definition new_environment_name :: "string \<Rightarrow> (resource_input_error, string) result" where
  "new_environment_name value = (if \<not> is_valid_display_text value max_environment_name_bytes False then Err Invalid_Environment_Name else Ok value)"

definition new_folder_description :: "string \<Rightarrow> (resource_input_error, string) result" where
  "new_folder_description value = (if \<not> is_valid_display_text value max_folder_description_bytes True then Err Invalid_Folder_Description else Ok value)"

definition new_tag_color :: "string \<Rightarrow> (resource_input_error, string) result" where
  "new_tag_color value = (if \<not> is_valid_display_text value max_tag_color_bytes True then Err Invalid_Tag_Color else Ok value)"

definition new_project_slug :: "string \<Rightarrow> (resource_input_error, string) result" where
  "new_project_slug value =
     (if \<not> is_valid_project_slug value 1 max_project_slug_bytes
      then Err Invalid_Project_Slug else Ok value)"

definition new_new_project_slug :: "string \<Rightarrow> (resource_input_error, string) result" where
  "new_new_project_slug value =
     (if \<not> is_valid_project_slug value min_new_project_slug_bytes max_new_project_slug_bytes
      then Err Invalid_New_Project_Slug else Ok value)"

definition new_folder_name :: "string \<Rightarrow> (resource_input_error, string) result" where
  "new_folder_name value =
     (if value = [] \<or> max_folder_name_bytes < length value \<or> \<not> list_all is_opaque_byte value
      then Err Invalid_Folder_Name else Ok value)"

definition new_tag_slug :: "string \<Rightarrow> (resource_input_error, string) result" where
  "new_tag_slug value =
     (if \<not> is_valid_hyphen_slug value max_tag_slug_bytes then Err Invalid_Tag_Slug else Ok value)"

definition new_environment_slug :: "string \<Rightarrow> (resource_input_error, string) result" where
  "new_environment_slug value =
     (if \<not> is_valid_hyphen_slug value max_environment_slug_bytes
      then Err Invalid_Environment_Slug else Ok value)"

definition new_environment_position :: "u32 \<Rightarrow> (resource_input_error, u32) result" where
  "new_environment_position value =
     (if \<not> (1 \<le> value \<and> value \<le> max_environment_position)
      then Err Invalid_Environment_Position else Ok value)"

definition new_point_in_time_version_limit :: "u8 \<Rightarrow> (resource_input_error, u8) result" where
  "new_point_in_time_version_limit value =
     (if \<not> (1 \<le> value \<and> value \<le> max_point_in_time_version_limit)
      then Err Invalid_Point_In_Time_Version_Limit else Ok value)"

definition new_secret_import_position :: "u32 \<Rightarrow> (resource_input_error, u32) result" where
  "new_secret_import_position value =
     (if \<not> (1 \<le> value \<and> value \<le> max_secret_import_position)
      then Err Invalid_Secret_Import_Position else Ok value)"

definition valid_path_segment :: "string \<Rightarrow> bool" where
  "valid_path_segment segment \<longleftrightarrow>
     segment \<noteq> [] \<and> segment \<noteq> ''.'' \<and> segment \<noteq> ''..'' \<and> \<not> has_control segment"

definition new_secret_path :: "string \<Rightarrow> (resource_input_error, string) result" where
  "new_secret_path value =
     (let valid_segments =
        value = ''/'' \<or>
        (case strip_prefix ''/'' value of
           None \<Rightarrow> False
         | Some path \<Rightarrow>
             path \<noteq> [] \<and> list_all valid_path_segment (split_by ((=) (CHR ''/'')) path))
      in if max_secret_path_bytes < length value \<or> has_control value \<or> \<not> valid_segments
         then Err Invalid_Secret_Path else Ok value)"

definition new_secret_name :: "string \<Rightarrow> (resource_input_error, string) result" where
  "new_secret_name value =
     (if value = [] \<or> max_secret_name_bytes < length value \<or> str_trim value \<noteq> value
         \<or> value = ''.'' \<or> value = ''..'' \<or> has_control value
         \<or> list_ex (\<lambda>c. c = CHR ''/'' \<or> c = CHR '':'') value
      then Err Invalid_Secret_Name else Ok value)"

record secret_scope =
  scope_project_id :: string
  scope_environment :: string
  scope_path :: string
  scope_recursive :: bool

definition new_secret_scope :: "string \<Rightarrow> string \<Rightarrow> string \<Rightarrow> bool \<Rightarrow> secret_scope" where
  "new_secret_scope project_id environment path recursive =
     \<lparr>scope_project_id = project_id, scope_environment = environment,
      scope_path = path, scope_recursive = recursive\<rparr>"

section \<open>The constructor contract\<close>

locale validated_newtype =
  fixes new :: "'a \<Rightarrow> ('e, 'a) result"
    and valid :: "'a \<Rightarrow> bool"
    and err :: 'e
  assumes new_eq: "new v = (if valid v then Ok v else Err err)"
begin

lemma new_Ok_iff: "new v = Ok w \<longleftrightarrow> w = v \<and> valid v"
  by (auto simp: new_eq)

lemma new_Err_iff: "new v = Err e \<longleftrightarrow> e = err \<and> \<not> valid v"
  by (auto simp: new_eq)

lemma new_stable: "new v = Ok w \<Longrightarrow> new w = Ok w"
  by (simp add: new_Ok_iff)

end

interpretation project_id: validated_newtype new_project_id is_valid_opaque_id Invalid_Project_Id
  by unfold_locales (simp add: new_project_id_def)

interpretation secret_import_id: validated_newtype new_secret_import_id is_valid_opaque_id Invalid_Secret_Import_Id
  by unfold_locales (simp add: new_secret_import_id_def)

interpretation environment_id: validated_newtype new_environment_id is_valid_opaque_id Invalid_Environment_Id
  by unfold_locales (simp add: new_environment_id_def)

interpretation folder_id: validated_newtype new_folder_id is_valid_opaque_id Invalid_Folder_Id
  by unfold_locales (simp add: new_folder_id_def)

interpretation tag_id: validated_newtype new_tag_id is_valid_opaque_id Invalid_Tag_Id
  by unfold_locales (simp add: new_tag_id_def)

interpretation organization_id: validated_newtype new_organization_id is_valid_opaque_id Invalid_Organization_Id
  by unfold_locales (simp add: new_organization_id_def)

interpretation identity_id: validated_newtype new_identity_id is_valid_opaque_id Invalid_Identity_Id
  by unfold_locales (simp add: new_identity_id_def)

interpretation group_id: validated_newtype new_group_id is_valid_opaque_id Invalid_Group_Id
  by unfold_locales (simp add: new_group_id_def)

interpretation additional_privilege_id: validated_newtype new_additional_privilege_id is_valid_opaque_id Invalid_Additional_Privilege_Id
  by unfold_locales (simp add: new_additional_privilege_id_def)

interpretation project_membership_id: validated_newtype new_project_membership_id is_valid_opaque_id Invalid_Project_Membership_Id
  by unfold_locales (simp add: new_project_membership_id_def)

interpretation token_auth_token_id: validated_newtype new_token_auth_token_id is_valid_opaque_id Invalid_Token_Auth_Token_Id
  by unfold_locales (simp add: new_token_auth_token_id_def)

interpretation universal_auth_client_secret_id: validated_newtype new_universal_auth_client_secret_id is_valid_opaque_id Invalid_Universal_Auth_Client_Secret_Id
  by unfold_locales (simp add: new_universal_auth_client_secret_id_def)

interpretation identity_name: validated_newtype new_identity_name "\<lambda>v. is_valid_display_text v max_identity_name_bytes False" Invalid_Identity_Name
  by unfold_locales (simp add: new_identity_name_def)

interpretation project_name: validated_newtype new_project_name "\<lambda>v. is_valid_display_text v max_project_name_bytes False" Invalid_Project_Name
  by unfold_locales (simp add: new_project_name_def)

interpretation project_description: validated_newtype new_project_description "\<lambda>v. is_valid_display_text v max_project_description_bytes True" Invalid_Project_Description
  by unfold_locales (simp add: new_project_description_def)

interpretation environment_name: validated_newtype new_environment_name "\<lambda>v. is_valid_display_text v max_environment_name_bytes False" Invalid_Environment_Name
  by unfold_locales (simp add: new_environment_name_def)

interpretation folder_description: validated_newtype new_folder_description "\<lambda>v. is_valid_display_text v max_folder_description_bytes True" Invalid_Folder_Description
  by unfold_locales (simp add: new_folder_description_def)

interpretation tag_color: validated_newtype new_tag_color "\<lambda>v. is_valid_display_text v max_tag_color_bytes True" Invalid_Tag_Color
  by unfold_locales (simp add: new_tag_color_def)

interpretation project_slug: validated_newtype new_project_slug
  "\<lambda>v. is_valid_project_slug v 1 max_project_slug_bytes" Invalid_Project_Slug
  by unfold_locales (simp add: new_project_slug_def)

interpretation new_slug: validated_newtype new_new_project_slug
  "\<lambda>v. is_valid_project_slug v min_new_project_slug_bytes max_new_project_slug_bytes"
  Invalid_New_Project_Slug
  by unfold_locales (simp add: new_new_project_slug_def)

interpretation folder_name: validated_newtype new_folder_name
  "\<lambda>v. v \<noteq> [] \<and> length v \<le> max_folder_name_bytes \<and> list_all is_opaque_byte v" Invalid_Folder_Name
  by unfold_locales (auto simp: new_folder_name_def)

interpretation tag_slug: validated_newtype new_tag_slug
  "\<lambda>v. is_valid_hyphen_slug v max_tag_slug_bytes" Invalid_Tag_Slug
  by unfold_locales (simp add: new_tag_slug_def)

interpretation environment_slug: validated_newtype new_environment_slug
  "\<lambda>v. is_valid_hyphen_slug v max_environment_slug_bytes" Invalid_Environment_Slug
  by unfold_locales (simp add: new_environment_slug_def)

interpretation environment_position: validated_newtype new_environment_position
  "\<lambda>v. 1 \<le> v \<and> v \<le> max_environment_position" Invalid_Environment_Position
  by unfold_locales (simp add: new_environment_position_def)

interpretation version_limit: validated_newtype new_point_in_time_version_limit
  "\<lambda>v. 1 \<le> v \<and> v \<le> max_point_in_time_version_limit" Invalid_Point_In_Time_Version_Limit
  by unfold_locales (simp add: new_point_in_time_version_limit_def)

interpretation import_position: validated_newtype new_secret_import_position
  "\<lambda>v. 1 \<le> v \<and> v \<le> max_secret_import_position" Invalid_Secret_Import_Position
  by unfold_locales (simp add: new_secret_import_position_def)

definition valid_secret_path :: "string \<Rightarrow> bool" where
  "valid_secret_path v \<longleftrightarrow> length v \<le> max_secret_path_bytes \<and> \<not> has_control v \<and>
     (v = ''/'' \<or> (\<exists>path. v = CHR ''/'' # path \<and> path \<noteq> []
        \<and> list_all valid_path_segment (split_by ((=) (CHR ''/'')) path)))"

interpretation secret_path: validated_newtype new_secret_path valid_secret_path Invalid_Secret_Path
proof
  fix v
  have "(case strip_prefix ''/'' v of None \<Rightarrow> False | Some path \<Rightarrow> P path) \<longleftrightarrow>
          (\<exists>path. v = CHR ''/'' # path \<and> P path)" for P
    by (auto simp: strip_prefix_Some split: option.splits) (metis append_Cons append_Nil option.distinct(1) strip_prefix_append)
  then show "new_secret_path v = (if valid_secret_path v then Ok v else Err Invalid_Secret_Path)"
    by (auto simp: new_secret_path_def valid_secret_path_def Let_def)
qed

definition valid_secret_name :: "string \<Rightarrow> bool" where
  "valid_secret_name v \<longleftrightarrow> v \<noteq> [] \<and> length v \<le> max_secret_name_bytes \<and> str_trim v = v
     \<and> v \<noteq> ''.'' \<and> v \<noteq> ''..'' \<and> \<not> has_control v \<and> CHR ''/'' \<notin> set v \<and> CHR '':'' \<notin> set v"

interpretation secret_name: validated_newtype new_secret_name valid_secret_name Invalid_Secret_Name
  by unfold_locales (auto simp: new_secret_name_def valid_secret_name_def list_ex_iff)

section \<open>Paths are sequences of segments\<close>

lemma concat_split_by: "concat (map (Cons c) (split_by ((=) c) s)) = c # s"
proof (induction s)
  case (Cons a s)
  then show ?case by (cases "split_by ((=) c) s") auto
qed simp

lemma split_by_append_sep: "c \<notin> set x \<Longrightarrow> split_by ((=) c) (x @ c # s) = x # split_by ((=) c) s"
  by (induction x) auto

lemma split_by_single: "c \<notin> set x \<Longrightarrow> split_by ((=) c) x = [x]"
  by (induction x) auto

lemma split_by_concat:
  "xs \<noteq> [] \<Longrightarrow> (\<And>x. x \<in> set xs \<Longrightarrow> c \<notin> set x) \<Longrightarrow>
     split_by ((=) c) (tl (concat (map (Cons c) xs))) = xs"
proof (induction xs)
  case (Cons x xs)
  show ?case
  proof (cases xs)
    case Nil
    with Cons.prems show ?thesis by (simp add: split_by_single)
  next
    case (Cons y ys)
    with Cons.IH Cons.prems show ?thesis by (simp add: split_by_append_sep)
  qed
qed simp

definition is_path_of :: "string \<Rightarrow> string list \<Rightarrow> bool" where
  "is_path_of v segments \<longleftrightarrow> v = concat (map (Cons (CHR ''/'')) segments) \<and> segments \<noteq> []
     \<and> (\<forall>x \<in> set segments. x \<noteq> [] \<and> x \<noteq> ''.'' \<and> x \<noteq> ''..'' \<and> CHR ''/'' \<notin> set x \<and> \<not> has_control x)"

lemma valid_secret_path_segments:
  "valid_secret_path v \<Longrightarrow> v \<noteq> ''/'' \<Longrightarrow> is_path_of v (split_by ((=) (CHR ''/'')) (tl v))"
  using set_split_by [of _ "(=) (CHR ''/'')"]
  by (auto simp: valid_secret_path_def is_path_of_def concat_split_by list_all_iff
      valid_path_segment_def)

lemma is_path_of_unique: "is_path_of v xs \<Longrightarrow> is_path_of v ys \<Longrightarrow> xs = ys"
  by (metis is_path_of_def split_by_concat)

text \<open>
  An accepted secret path is returned unchanged, stays within 2048 bytes, and is either the
  root or reads in exactly one way as a non-empty sequence of \<open>/\<close>-introduced segments, none of
  which is empty, a dot segment or carries a control character: it cannot climb out of the folder
  it names, and no two spellings name the same folder.
\<close>

theorem secret_path_canonical:
  assumes "new_secret_path v = Ok p"
  shows "p = v \<and> length v \<le> 2048 \<and> (v \<noteq> ''/'' \<longrightarrow> (\<exists>!segments. is_path_of v segments))"
proof (intro conjI impI)
  from assms have v: "valid_secret_path v" "p = v" by (simp_all add: secret_path.new_Ok_iff)
  show "p = v" by (rule v)
  show "length v \<le> 2048" using v by (simp add: valid_secret_path_def resource_bounds)
  assume "v \<noteq> ''/''"
  with v(1) show "\<exists>!segments. is_path_of v segments"
    using valid_secret_path_segments is_path_of_unique by blast
qed

lemma app_db_path: "new_secret_path ''/app/db'' = Ok ''/app/db''"
  by code_simp

lemma secret_path_canonical_witness:
  "length ''/app/db'' \<le> 2048 \<and> (\<exists>!segments. is_path_of ''/app/db'' segments)"
  using secret_path_canonical [OF app_db_path] by simp

section \<open>Slugs\<close>

definition single_separators :: "(char \<Rightarrow> bool) \<Rightarrow> string \<Rightarrow> bool" where
  "single_separators p v \<longleftrightarrow> successively (\<lambda>a b. \<not> (p a \<and> p b)) v"

lemma successively_hd:
  "successively R (a # s) \<longleftrightarrow> (s \<noteq> [] \<longrightarrow> R a (hd s)) \<and> successively R s"
  by (cases s) auto

lemma split_by_nonempty_iff:
  "list_all (\<lambda>x. x \<noteq> []) (split_by p s) \<longleftrightarrow>
     s \<noteq> [] \<and> \<not> p (hd s) \<and> list_all (\<lambda>x. x \<noteq> []) (tl (split_by p s))"
  by (cases s) (auto split: list.splits)

lemma split_by_tl_nonempty:
  "list_all (\<lambda>x. x \<noteq> []) (tl (split_by p s)) \<longleftrightarrow>
     (s = [] \<or> \<not> p (last s)) \<and> single_separators p s"
proof (induction s)
  case (Cons a s)
  show ?case
  proof (cases "p a")
    case True
    then have "list_all (\<lambda>x. x \<noteq> []) (tl (split_by p (a # s))) \<longleftrightarrow>
        s \<noteq> [] \<and> \<not> p (hd s) \<and> list_all (\<lambda>x. x \<noteq> []) (tl (split_by p s))"
      using split_by_nonempty_iff [of p s] by simp
    with Cons True show ?thesis by (auto simp: single_separators_def successively_hd)
  next
    case False
    then have "tl (split_by p (a # s)) = tl (split_by p s)" by (simp split: list.splits)
    with Cons False show ?thesis by (auto simp: single_separators_def successively_hd)
  qed
qed (simp add: single_separators_def)

lemma split_by_segments:
  "list_all (\<lambda>x. x \<noteq> [] \<and> list_all q x) (split_by p s) \<longleftrightarrow>
     s \<noteq> [] \<and> \<not> p (hd s) \<and> \<not> p (last s) \<and> single_separators p s \<and> (\<forall>c \<in> set s. p c \<or> q c)"
proof -
  have "list_all (\<lambda>x. x \<noteq> [] \<and> list_all q x) (split_by p s) \<longleftrightarrow>
      list_all (\<lambda>x. x \<noteq> []) (split_by p s) \<and> (\<forall>x \<in> set (split_by p s). \<forall>c \<in> set x. q c)"
    by (auto simp: list_all_iff)
  moreover have "(\<forall>x \<in> set (split_by p s). \<forall>c \<in> set x. q c) \<longleftrightarrow> (\<forall>c \<in> set s. p c \<or> q c)"
    using set_split_by [of _ p s] set_split_by_cover [of _ s p] by fast
  ultimately show ?thesis
    unfolding split_by_nonempty_iff [of p s] split_by_tl_nonempty by auto
qed

text \<open>
  The accepted environment slugs are exactly the non-empty texts of at most 64 lowercase letters,
  digits and hyphens that neither begin nor end with a hyphen nor hold two in a row: the
  segment-by-segment check of the code is that language.
\<close>

theorem slug_language:
  "new_environment_slug v = (if v \<noteq> [] \<and> length v \<le> 64
      \<and> CHR ''-'' \<noteq> hd v \<and> CHR ''-'' \<noteq> last v \<and> single_separators ((=) (CHR ''-'')) v
      \<and> (\<forall>c \<in> set v. CHR ''-'' = c \<or> is_slug_byte c)
     then Ok v else Err Invalid_Environment_Slug)"
proof -
  have "is_valid_hyphen_slug v 64 \<longleftrightarrow> v \<noteq> [] \<and> length v \<le> 64
      \<and> CHR ''-'' \<noteq> hd v \<and> CHR ''-'' \<noteq> last v \<and> single_separators ((=) (CHR ''-'')) v
      \<and> (\<forall>c \<in> set v. CHR ''-'' = c \<or> is_slug_byte c)"
    unfolding is_valid_hyphen_slug_def split_by_segments by argo
  then show ?thesis by (simp add: new_environment_slug_def max_environment_slug_bytes_def)
qed

lemma slug_language_witness: "new_environment_slug ''prod-eu'' = Ok ''prod-eu''"
  by (subst slug_language) code_simp

end
