(* ===== verification/Operation_Names.thy ===== *)
theory Operation_Names
  imports Main
begin

text \<open>
  The names of the published tools and of the typed operations they execute, as declared at the top
  of \<open>crates/infisical-mcp/src/tools.rs\<close>.
\<close>

abbreviation SERVER_INFO_TOOL :: string where "SERVER_INFO_TOOL \<equiv> ''server.info''"
abbreviation SERVER_CAPABILITIES_TOOL :: string where "SERVER_CAPABILITIES_TOOL \<equiv> ''server.capabilities''"
abbreviation TYPES_DESCRIBE_TOOL :: string where "TYPES_DESCRIBE_TOOL \<equiv> ''types.describe''"
abbreviation OPERATIONS_LIST_TOOL :: string where "OPERATIONS_LIST_TOOL \<equiv> ''operations.list''"
abbreviation OPERATIONS_DESCRIBE_TOOL :: string where "OPERATIONS_DESCRIBE_TOOL \<equiv> ''operations.describe''"
abbreviation INFISICAL_READ_TOOL :: string where "INFISICAL_READ_TOOL \<equiv> ''infisical.read''"
abbreviation INFISICAL_READ_AUDITED_TOOL :: string where "INFISICAL_READ_AUDITED_TOOL \<equiv> ''infisical.readAudited''"
abbreviation INFISICAL_WRITE_TOOL :: string where "INFISICAL_WRITE_TOOL \<equiv> ''infisical.write''"
abbreviation INFISICAL_DESTROY_TOOL :: string where "INFISICAL_DESTROY_TOOL \<equiv> ''infisical.destroy''"
abbreviation AUDIT_LOGS_LIST_TOOL :: string where "AUDIT_LOGS_LIST_TOOL \<equiv> ''auditLogs.list''"
abbreviation APP_CONNECTIONS_LIST_TOOL :: string where "APP_CONNECTIONS_LIST_TOOL \<equiv> ''appConnections.list''"
abbreviation GITHUB_APP_CONNECTION_GET_TOOL :: string where "GITHUB_APP_CONNECTION_GET_TOOL \<equiv> ''appConnections.github.get''"
abbreviation GITHUB_APP_CONNECTION_CREATE_TOOL :: string where "GITHUB_APP_CONNECTION_CREATE_TOOL \<equiv> ''appConnections.github.create''"
abbreviation GITHUB_APP_CONNECTION_UPDATE_TOOL :: string where "GITHUB_APP_CONNECTION_UPDATE_TOOL \<equiv> ''appConnections.github.update''"
abbreviation GITHUB_APP_CONNECTION_ROTATE_CREDENTIALS_TOOL :: string where "GITHUB_APP_CONNECTION_ROTATE_CREDENTIALS_TOOL \<equiv> ''appConnections.github.rotateCredentials''"
abbreviation GITHUB_APP_CONNECTION_DELETE_TOOL :: string where "GITHUB_APP_CONNECTION_DELETE_TOOL \<equiv> ''appConnections.github.delete''"
abbreviation SECRET_SYNCS_LIST_TOOL :: string where "SECRET_SYNCS_LIST_TOOL \<equiv> ''secretSyncs.list''"
abbreviation GITHUB_SECRET_SYNC_GET_TOOL :: string where "GITHUB_SECRET_SYNC_GET_TOOL \<equiv> ''secretSyncs.github.get''"
abbreviation GITHUB_SECRET_SYNC_CREATE_TOOL :: string where "GITHUB_SECRET_SYNC_CREATE_TOOL \<equiv> ''secretSyncs.github.create''"
abbreviation GITHUB_SECRET_SYNC_UPDATE_TOOL :: string where "GITHUB_SECRET_SYNC_UPDATE_TOOL \<equiv> ''secretSyncs.github.update''"
abbreviation GITHUB_SECRET_SYNC_DELETE_TOOL :: string where "GITHUB_SECRET_SYNC_DELETE_TOOL \<equiv> ''secretSyncs.github.delete''"
abbreviation GITHUB_SECRET_SYNC_RUN_TOOL :: string where "GITHUB_SECRET_SYNC_RUN_TOOL \<equiv> ''secretSyncs.github.run''"
abbreviation GITHUB_SECRET_SYNC_REMOVE_SECRETS_TOOL :: string where "GITHUB_SECRET_SYNC_REMOVE_SECRETS_TOOL \<equiv> ''secretSyncs.github.removeSecrets''"
abbreviation SECRET_ROTATIONS_LIST_TOOL :: string where "SECRET_ROTATIONS_LIST_TOOL \<equiv> ''secretRotations.list''"
abbreviation SQL_SECRET_ROTATION_GET_TOOL :: string where "SQL_SECRET_ROTATION_GET_TOOL \<equiv> ''secretRotations.sql.get''"
abbreviation SQL_SECRET_ROTATION_GET_BY_NAME_TOOL :: string where "SQL_SECRET_ROTATION_GET_BY_NAME_TOOL \<equiv> ''secretRotations.sql.getByName''"
abbreviation SQL_SECRET_ROTATION_CREATE_TOOL :: string where "SQL_SECRET_ROTATION_CREATE_TOOL \<equiv> ''secretRotations.sql.create''"
abbreviation SQL_SECRET_ROTATION_UPDATE_TOOL :: string where "SQL_SECRET_ROTATION_UPDATE_TOOL \<equiv> ''secretRotations.sql.update''"
abbreviation SQL_SECRET_ROTATION_DELETE_TOOL :: string where "SQL_SECRET_ROTATION_DELETE_TOOL \<equiv> ''secretRotations.sql.delete''"
abbreviation SQL_SECRET_ROTATION_GENERATED_CREDENTIALS_GET_TOOL :: string where "SQL_SECRET_ROTATION_GENERATED_CREDENTIALS_GET_TOOL \<equiv> ''secretRotations.sql.generatedCredentials.get''"
abbreviation SQL_SECRET_ROTATION_MOVE_TOOL :: string where "SQL_SECRET_ROTATION_MOVE_TOOL \<equiv> ''secretRotations.sql.move''"
abbreviation SQL_SECRET_ROTATION_ROTATE_TOOL :: string where "SQL_SECRET_ROTATION_ROTATE_TOOL \<equiv> ''secretRotations.sql.rotate''"
abbreviation SQL_SECRET_ROTATION_CHECK_TOOL :: string where "SQL_SECRET_ROTATION_CHECK_TOOL \<equiv> ''secretRotations.sql.checkCredentials''"
abbreviation PROJECTS_LIST_TOOL :: string where "PROJECTS_LIST_TOOL \<equiv> ''projects.list''"
abbreviation PROJECTS_GET_TOOL :: string where "PROJECTS_GET_TOOL \<equiv> ''projects.get''"
abbreviation PROJECTS_CREATE_TOOL :: string where "PROJECTS_CREATE_TOOL \<equiv> ''projects.create''"
abbreviation PROJECTS_UPDATE_TOOL :: string where "PROJECTS_UPDATE_TOOL \<equiv> ''projects.update''"
abbreviation PROJECTS_DELETE_TOOL :: string where "PROJECTS_DELETE_TOOL \<equiv> ''projects.delete''"
abbreviation ENVIRONMENTS_LIST_TOOL :: string where "ENVIRONMENTS_LIST_TOOL \<equiv> ''environments.list''"
abbreviation ENVIRONMENTS_GET_TOOL :: string where "ENVIRONMENTS_GET_TOOL \<equiv> ''environments.get''"
abbreviation ENVIRONMENTS_CREATE_TOOL :: string where "ENVIRONMENTS_CREATE_TOOL \<equiv> ''environments.create''"
abbreviation ENVIRONMENTS_UPDATE_TOOL :: string where "ENVIRONMENTS_UPDATE_TOOL \<equiv> ''environments.update''"
abbreviation ENVIRONMENTS_DELETE_TOOL :: string where "ENVIRONMENTS_DELETE_TOOL \<equiv> ''environments.delete''"
abbreviation ENVIRONMENTS_RESTORE_TOOL :: string where "ENVIRONMENTS_RESTORE_TOOL \<equiv> ''environments.restore''"
abbreviation FOLDERS_LIST_TOOL :: string where "FOLDERS_LIST_TOOL \<equiv> ''folders.list''"
abbreviation FOLDERS_GET_TOOL :: string where "FOLDERS_GET_TOOL \<equiv> ''folders.get''"
abbreviation FOLDERS_CREATE_TOOL :: string where "FOLDERS_CREATE_TOOL \<equiv> ''folders.create''"
abbreviation FOLDERS_UPDATE_TOOL :: string where "FOLDERS_UPDATE_TOOL \<equiv> ''folders.update''"
abbreviation FOLDERS_BATCH_UPDATE_TOOL :: string where "FOLDERS_BATCH_UPDATE_TOOL \<equiv> ''folders.batch.update''"
abbreviation FOLDERS_DELETE_TOOL :: string where "FOLDERS_DELETE_TOOL \<equiv> ''folders.delete''"
abbreviation TAGS_LIST_TOOL :: string where "TAGS_LIST_TOOL \<equiv> ''tags.list''"
abbreviation TAGS_GET_TOOL :: string where "TAGS_GET_TOOL \<equiv> ''tags.get''"
abbreviation TAGS_CREATE_TOOL :: string where "TAGS_CREATE_TOOL \<equiv> ''tags.create''"
abbreviation TAGS_UPDATE_TOOL :: string where "TAGS_UPDATE_TOOL \<equiv> ''tags.update''"
abbreviation TAGS_DELETE_TOOL :: string where "TAGS_DELETE_TOOL \<equiv> ''tags.delete''"
abbreviation IDENTITIES_LIST_TOOL :: string where "IDENTITIES_LIST_TOOL \<equiv> ''identities.list''"
abbreviation IDENTITIES_GET_TOOL :: string where "IDENTITIES_GET_TOOL \<equiv> ''identities.get''"
abbreviation IDENTITIES_CREATE_TOOL :: string where "IDENTITIES_CREATE_TOOL \<equiv> ''identities.create''"
abbreviation IDENTITIES_UPDATE_TOOL :: string where "IDENTITIES_UPDATE_TOOL \<equiv> ''identities.update''"
abbreviation IDENTITIES_DELETE_TOOL :: string where "IDENTITIES_DELETE_TOOL \<equiv> ''identities.delete''"
abbreviation PROJECT_USER_MEMBERSHIPS_LIST_TOOL :: string where "PROJECT_USER_MEMBERSHIPS_LIST_TOOL \<equiv> ''projectUserMemberships.list''"
abbreviation PROJECT_USER_MEMBERSHIPS_GET_TOOL :: string where "PROJECT_USER_MEMBERSHIPS_GET_TOOL \<equiv> ''projectUserMemberships.get''"
abbreviation PROJECT_USER_MEMBERSHIPS_INVITE_TOOL :: string where "PROJECT_USER_MEMBERSHIPS_INVITE_TOOL \<equiv> ''projectUserMemberships.invite''"
abbreviation PROJECT_USER_MEMBERSHIPS_UPDATE_TOOL :: string where "PROJECT_USER_MEMBERSHIPS_UPDATE_TOOL \<equiv> ''projectUserMemberships.update''"
abbreviation PROJECT_USER_MEMBERSHIPS_DELETE_TOOL :: string where "PROJECT_USER_MEMBERSHIPS_DELETE_TOOL \<equiv> ''projectUserMemberships.delete''"
abbreviation PROJECT_IDENTITY_MEMBERSHIPS_LIST_TOOL :: string where "PROJECT_IDENTITY_MEMBERSHIPS_LIST_TOOL \<equiv> ''projectIdentityMemberships.list''"
abbreviation PROJECT_IDENTITY_MEMBERSHIPS_GET_TOOL :: string where "PROJECT_IDENTITY_MEMBERSHIPS_GET_TOOL \<equiv> ''projectIdentityMemberships.get''"
abbreviation PROJECT_IDENTITY_MEMBERSHIPS_CREATE_TOOL :: string where "PROJECT_IDENTITY_MEMBERSHIPS_CREATE_TOOL \<equiv> ''projectIdentityMemberships.create''"
abbreviation PROJECT_IDENTITY_MEMBERSHIPS_UPDATE_TOOL :: string where "PROJECT_IDENTITY_MEMBERSHIPS_UPDATE_TOOL \<equiv> ''projectIdentityMemberships.update''"
abbreviation PROJECT_IDENTITY_MEMBERSHIPS_DELETE_TOOL :: string where "PROJECT_IDENTITY_MEMBERSHIPS_DELETE_TOOL \<equiv> ''projectIdentityMemberships.delete''"
abbreviation PROJECT_ROLES_LIST_TOOL :: string where "PROJECT_ROLES_LIST_TOOL \<equiv> ''projectRoles.list''"
abbreviation PROJECT_ROLES_GET_TOOL :: string where "PROJECT_ROLES_GET_TOOL \<equiv> ''projectRoles.get''"
abbreviation ORGANIZATION_ROLES_LIST_TOOL :: string where "ORGANIZATION_ROLES_LIST_TOOL \<equiv> ''organizationRoles.list''"
abbreviation ORGANIZATION_ROLES_GET_TOOL :: string where "ORGANIZATION_ROLES_GET_TOOL \<equiv> ''organizationRoles.get''"
abbreviation GROUPS_LIST_TOOL :: string where "GROUPS_LIST_TOOL \<equiv> ''groups.list''"
abbreviation GROUPS_GET_TOOL :: string where "GROUPS_GET_TOOL \<equiv> ''groups.get''"
abbreviation GROUP_MEMBERS_LIST_TOOL :: string where "GROUP_MEMBERS_LIST_TOOL \<equiv> ''groups.members.list''"
abbreviation GROUP_PROJECTS_LIST_TOOL :: string where "GROUP_PROJECTS_LIST_TOOL \<equiv> ''groups.projects.list''"
abbreviation PROJECT_GROUP_MEMBERSHIPS_LIST_TOOL :: string where "PROJECT_GROUP_MEMBERSHIPS_LIST_TOOL \<equiv> ''projectGroupMemberships.list''"
abbreviation PROJECT_GROUP_MEMBERSHIPS_GET_TOOL :: string where "PROJECT_GROUP_MEMBERSHIPS_GET_TOOL \<equiv> ''projectGroupMemberships.get''"
abbreviation IDENTITY_PROJECT_ADDITIONAL_PRIVILEGES_LIST_TOOL :: string where "IDENTITY_PROJECT_ADDITIONAL_PRIVILEGES_LIST_TOOL \<equiv> ''identityProjectAdditionalPrivileges.list''"
abbreviation IDENTITY_PROJECT_ADDITIONAL_PRIVILEGES_GET_TOOL :: string where "IDENTITY_PROJECT_ADDITIONAL_PRIVILEGES_GET_TOOL \<equiv> ''identityProjectAdditionalPrivileges.get''"
abbreviation IDENTITY_PROJECT_ADDITIONAL_PRIVILEGES_GET_BY_SLUG_TOOL :: string where "IDENTITY_PROJECT_ADDITIONAL_PRIVILEGES_GET_BY_SLUG_TOOL \<equiv> ''identityProjectAdditionalPrivileges.getBySlug''"
abbreviation IDENTITY_PROJECT_ADDITIONAL_PRIVILEGES_CREATE_TOOL :: string where "IDENTITY_PROJECT_ADDITIONAL_PRIVILEGES_CREATE_TOOL \<equiv> ''identityProjectAdditionalPrivileges.create''"
abbreviation IDENTITY_PROJECT_ADDITIONAL_PRIVILEGES_UPDATE_TOOL :: string where "IDENTITY_PROJECT_ADDITIONAL_PRIVILEGES_UPDATE_TOOL \<equiv> ''identityProjectAdditionalPrivileges.update''"
abbreviation IDENTITY_PROJECT_ADDITIONAL_PRIVILEGES_DELETE_TOOL :: string where "IDENTITY_PROJECT_ADDITIONAL_PRIVILEGES_DELETE_TOOL \<equiv> ''identityProjectAdditionalPrivileges.delete''"
abbreviation UNIVERSAL_AUTH_GET_TOOL :: string where "UNIVERSAL_AUTH_GET_TOOL \<equiv> ''identityUniversalAuth.get''"
abbreviation UNIVERSAL_AUTH_ATTACH_TOOL :: string where "UNIVERSAL_AUTH_ATTACH_TOOL \<equiv> ''identityUniversalAuth.attach''"
abbreviation UNIVERSAL_AUTH_UPDATE_TOOL :: string where "UNIVERSAL_AUTH_UPDATE_TOOL \<equiv> ''identityUniversalAuth.update''"
abbreviation UNIVERSAL_AUTH_REMOVE_TOOL :: string where "UNIVERSAL_AUTH_REMOVE_TOOL \<equiv> ''identityUniversalAuth.remove''"
abbreviation UNIVERSAL_AUTH_CLIENT_SECRETS_LIST_TOOL :: string where "UNIVERSAL_AUTH_CLIENT_SECRETS_LIST_TOOL \<equiv> ''identityUniversalAuth.clientSecrets.list''"
abbreviation UNIVERSAL_AUTH_CLIENT_SECRETS_GET_TOOL :: string where "UNIVERSAL_AUTH_CLIENT_SECRETS_GET_TOOL \<equiv> ''identityUniversalAuth.clientSecrets.get''"
abbreviation UNIVERSAL_AUTH_CLIENT_SECRETS_CREATE_TOOL :: string where "UNIVERSAL_AUTH_CLIENT_SECRETS_CREATE_TOOL \<equiv> ''identityUniversalAuth.clientSecrets.create''"
abbreviation UNIVERSAL_AUTH_CLIENT_SECRETS_REVOKE_TOOL :: string where "UNIVERSAL_AUTH_CLIENT_SECRETS_REVOKE_TOOL \<equiv> ''identityUniversalAuth.clientSecrets.revoke''"
abbreviation UNIVERSAL_AUTH_LOCKOUTS_CLEAR_TOOL :: string where "UNIVERSAL_AUTH_LOCKOUTS_CLEAR_TOOL \<equiv> ''identityUniversalAuth.lockouts.clear''"
abbreviation TOKEN_AUTH_GET_TOOL :: string where "TOKEN_AUTH_GET_TOOL \<equiv> ''identityTokenAuth.get''"
abbreviation TOKEN_AUTH_ATTACH_TOOL :: string where "TOKEN_AUTH_ATTACH_TOOL \<equiv> ''identityTokenAuth.attach''"
abbreviation TOKEN_AUTH_UPDATE_TOOL :: string where "TOKEN_AUTH_UPDATE_TOOL \<equiv> ''identityTokenAuth.update''"
abbreviation TOKEN_AUTH_REMOVE_TOOL :: string where "TOKEN_AUTH_REMOVE_TOOL \<equiv> ''identityTokenAuth.remove''"
abbreviation TOKEN_AUTH_TOKENS_LIST_TOOL :: string where "TOKEN_AUTH_TOKENS_LIST_TOOL \<equiv> ''identityTokenAuth.tokens.list''"
abbreviation TOKEN_AUTH_TOKENS_GET_TOOL :: string where "TOKEN_AUTH_TOKENS_GET_TOOL \<equiv> ''identityTokenAuth.tokens.get''"
abbreviation TOKEN_AUTH_TOKENS_CREATE_TOOL :: string where "TOKEN_AUTH_TOKENS_CREATE_TOOL \<equiv> ''identityTokenAuth.tokens.create''"
abbreviation TOKEN_AUTH_TOKENS_UPDATE_TOOL :: string where "TOKEN_AUTH_TOKENS_UPDATE_TOOL \<equiv> ''identityTokenAuth.tokens.update''"
abbreviation TOKEN_AUTH_TOKENS_REVOKE_TOOL :: string where "TOKEN_AUTH_TOKENS_REVOKE_TOOL \<equiv> ''identityTokenAuth.tokens.revoke''"
abbreviation KUBERNETES_AUTH_GET_TOOL :: string where "KUBERNETES_AUTH_GET_TOOL \<equiv> ''identityKubernetesAuth.get''"
abbreviation KUBERNETES_AUTH_ATTACH_TOOL :: string where "KUBERNETES_AUTH_ATTACH_TOOL \<equiv> ''identityKubernetesAuth.attach''"
abbreviation KUBERNETES_AUTH_UPDATE_TOOL :: string where "KUBERNETES_AUTH_UPDATE_TOOL \<equiv> ''identityKubernetesAuth.update''"
abbreviation KUBERNETES_AUTH_REMOVE_TOOL :: string where "KUBERNETES_AUTH_REMOVE_TOOL \<equiv> ''identityKubernetesAuth.remove''"
abbreviation SECRET_METADATA_LIST_TOOL :: string where "SECRET_METADATA_LIST_TOOL \<equiv> ''secrets.metadata.list''"
abbreviation SECRET_REVEAL_TOOL :: string where "SECRET_REVEAL_TOOL \<equiv> ''secrets.reveal''"
abbreviation SECRET_CREATE_TOOL :: string where "SECRET_CREATE_TOOL \<equiv> ''secrets.create''"
abbreviation SECRET_UPDATE_TOOL :: string where "SECRET_UPDATE_TOOL \<equiv> ''secrets.update''"
abbreviation SECRET_DELETE_TOOL :: string where "SECRET_DELETE_TOOL \<equiv> ''secrets.delete''"
abbreviation SECRET_BATCH_CREATE_TOOL :: string where "SECRET_BATCH_CREATE_TOOL \<equiv> ''secrets.batch.create''"
abbreviation SECRET_BATCH_UPDATE_TOOL :: string where "SECRET_BATCH_UPDATE_TOOL \<equiv> ''secrets.batch.update''"
abbreviation SECRET_BATCH_DELETE_TOOL :: string where "SECRET_BATCH_DELETE_TOOL \<equiv> ''secrets.batch.delete''"
abbreviation SECRET_IMPORTS_LIST_TOOL :: string where "SECRET_IMPORTS_LIST_TOOL \<equiv> ''secretImports.list''"
abbreviation SECRET_IMPORTS_GET_TOOL :: string where "SECRET_IMPORTS_GET_TOOL \<equiv> ''secretImports.get''"
abbreviation SECRET_IMPORTS_CREATE_TOOL :: string where "SECRET_IMPORTS_CREATE_TOOL \<equiv> ''secretImports.create''"
abbreviation SECRET_IMPORTS_UPDATE_TOOL :: string where "SECRET_IMPORTS_UPDATE_TOOL \<equiv> ''secretImports.update''"
abbreviation SECRET_IMPORTS_DELETE_TOOL :: string where "SECRET_IMPORTS_DELETE_TOOL \<equiv> ''secretImports.delete''"
abbreviation DYNAMIC_SECRETS_LIST_TOOL :: string where "DYNAMIC_SECRETS_LIST_TOOL \<equiv> ''dynamicSecrets.list''"
abbreviation DYNAMIC_SECRETS_GET_TOOL :: string where "DYNAMIC_SECRETS_GET_TOOL \<equiv> ''dynamicSecrets.get''"
abbreviation DYNAMIC_SECRETS_CREATE_TOOL :: string where "DYNAMIC_SECRETS_CREATE_TOOL \<equiv> ''dynamicSecrets.create''"
abbreviation DYNAMIC_SECRETS_UPDATE_TOOL :: string where "DYNAMIC_SECRETS_UPDATE_TOOL \<equiv> ''dynamicSecrets.update''"
abbreviation DYNAMIC_SECRETS_DELETE_TOOL :: string where "DYNAMIC_SECRETS_DELETE_TOOL \<equiv> ''dynamicSecrets.delete''"
abbreviation DYNAMIC_SECRET_LEASES_LIST_TOOL :: string where "DYNAMIC_SECRET_LEASES_LIST_TOOL \<equiv> ''dynamicSecretLeases.list''"
abbreviation DYNAMIC_SECRET_LEASES_GET_TOOL :: string where "DYNAMIC_SECRET_LEASES_GET_TOOL \<equiv> ''dynamicSecretLeases.get''"
abbreviation DYNAMIC_SECRET_LEASES_CREATE_TOOL :: string where "DYNAMIC_SECRET_LEASES_CREATE_TOOL \<equiv> ''dynamicSecretLeases.create''"
abbreviation DYNAMIC_SECRET_LEASES_RENEW_TOOL :: string where "DYNAMIC_SECRET_LEASES_RENEW_TOOL \<equiv> ''dynamicSecretLeases.renew''"
abbreviation DYNAMIC_SECRET_LEASES_REVOKE_TOOL :: string where "DYNAMIC_SECRET_LEASES_REVOKE_TOOL \<equiv> ''dynamicSecretLeases.revoke''"
abbreviation KMS_KEYS_LIST_TOOL :: string where "KMS_KEYS_LIST_TOOL \<equiv> ''kms.keys.list''"
abbreviation KMS_KEYS_GET_TOOL :: string where "KMS_KEYS_GET_TOOL \<equiv> ''kms.keys.get''"
abbreviation KMS_KEYS_GET_BY_NAME_TOOL :: string where "KMS_KEYS_GET_BY_NAME_TOOL \<equiv> ''kms.keys.getByName''"
abbreviation KMS_KEYS_CREATE_TOOL :: string where "KMS_KEYS_CREATE_TOOL \<equiv> ''kms.keys.create''"
abbreviation KMS_KEYS_UPDATE_TOOL :: string where "KMS_KEYS_UPDATE_TOOL \<equiv> ''kms.keys.update''"
abbreviation KMS_KEYS_DELETE_TOOL :: string where "KMS_KEYS_DELETE_TOOL \<equiv> ''kms.keys.delete''"
abbreviation KMS_ENCRYPT_TOOL :: string where "KMS_ENCRYPT_TOOL \<equiv> ''kms.encrypt''"
abbreviation KMS_DECRYPT_TOOL :: string where "KMS_DECRYPT_TOOL \<equiv> ''kms.decrypt''"
abbreviation KMS_PUBLIC_KEY_GET_TOOL :: string where "KMS_PUBLIC_KEY_GET_TOOL \<equiv> ''kms.keys.publicKey.get''"
abbreviation KMS_PRIVATE_KEY_REVEAL_TOOL :: string where "KMS_PRIVATE_KEY_REVEAL_TOOL \<equiv> ''kms.keys.privateKey.reveal''"
abbreviation KMS_KEYS_BULK_IMPORT_TOOL :: string where "KMS_KEYS_BULK_IMPORT_TOOL \<equiv> ''kms.keys.bulkImport''"
abbreviation KMS_PRIVATE_KEYS_BULK_REVEAL_TOOL :: string where "KMS_PRIVATE_KEYS_BULK_REVEAL_TOOL \<equiv> ''kms.keys.privateKeys.bulkReveal''"
abbreviation KMS_SIGNING_ALGORITHMS_LIST_TOOL :: string where "KMS_SIGNING_ALGORITHMS_LIST_TOOL \<equiv> ''kms.keys.signingAlgorithms.list''"
abbreviation KMS_SIGN_TOOL :: string where "KMS_SIGN_TOOL \<equiv> ''kms.sign''"
abbreviation KMS_VERIFY_TOOL :: string where "KMS_VERIFY_TOOL \<equiv> ''kms.verify''"
abbreviation CERTIFICATE_AUTHORITIES_LIST_TOOL :: string where "CERTIFICATE_AUTHORITIES_LIST_TOOL \<equiv> ''certificateAuthorities.list''"
abbreviation INTERNAL_CERTIFICATE_AUTHORITIES_LIST_TOOL :: string where "INTERNAL_CERTIFICATE_AUTHORITIES_LIST_TOOL \<equiv> ''certificateAuthorities.internal.list''"
abbreviation INTERNAL_CERTIFICATE_AUTHORITIES_GET_TOOL :: string where "INTERNAL_CERTIFICATE_AUTHORITIES_GET_TOOL \<equiv> ''certificateAuthorities.internal.get''"
abbreviation INTERNAL_CERTIFICATE_AUTHORITIES_CREATE_TOOL :: string where "INTERNAL_CERTIFICATE_AUTHORITIES_CREATE_TOOL \<equiv> ''certificateAuthorities.internal.create''"
abbreviation INTERNAL_CERTIFICATE_AUTHORITIES_UPDATE_TOOL :: string where "INTERNAL_CERTIFICATE_AUTHORITIES_UPDATE_TOOL \<equiv> ''certificateAuthorities.internal.update''"
abbreviation INTERNAL_CERTIFICATE_AUTHORITIES_DELETE_TOOL :: string where "INTERNAL_CERTIFICATE_AUTHORITIES_DELETE_TOOL \<equiv> ''certificateAuthorities.internal.delete''"
abbreviation INTERNAL_CA_CSR_GET_TOOL :: string where "INTERNAL_CA_CSR_GET_TOOL \<equiv> ''certificateAuthorities.internal.csr.get''"
abbreviation INTERNAL_CA_CERTIFICATES_LIST_TOOL :: string where "INTERNAL_CA_CERTIFICATES_LIST_TOOL \<equiv> ''certificateAuthorities.internal.certificates.list''"
abbreviation INTERNAL_CA_CERTIFICATE_GET_TOOL :: string where "INTERNAL_CA_CERTIFICATE_GET_TOOL \<equiv> ''certificateAuthorities.internal.certificate.get''"
abbreviation INTERNAL_CA_CERTIFICATE_VERSION_GET_TOOL :: string where "INTERNAL_CA_CERTIFICATE_VERSION_GET_TOOL \<equiv> ''certificateAuthorities.internal.certificateVersion.get''"
abbreviation INTERNAL_CA_CERTIFICATE_GENERATE_TOOL :: string where "INTERNAL_CA_CERTIFICATE_GENERATE_TOOL \<equiv> ''certificateAuthorities.internal.certificate.generate''"
abbreviation INTERNAL_CA_CERTIFICATE_RENEW_TOOL :: string where "INTERNAL_CA_CERTIFICATE_RENEW_TOOL \<equiv> ''certificateAuthorities.internal.certificate.renew''"
abbreviation INTERNAL_CA_INTERMEDIATE_SIGN_TOOL :: string where "INTERNAL_CA_INTERMEDIATE_SIGN_TOOL \<equiv> ''certificateAuthorities.internal.intermediate.sign''"
abbreviation INTERNAL_CA_CERTIFICATE_IMPORT_TOOL :: string where "INTERNAL_CA_CERTIFICATE_IMPORT_TOOL \<equiv> ''certificateAuthorities.internal.certificate.import''"
abbreviation INTERNAL_CA_CRLS_LIST_TOOL :: string where "INTERNAL_CA_CRLS_LIST_TOOL \<equiv> ''certificateAuthorities.internal.crls.list''"
abbreviation CERTIFICATES_LIST_TOOL :: string where "CERTIFICATES_LIST_TOOL \<equiv> ''certificates.list''"
abbreviation CERTIFICATES_GET_TOOL :: string where "CERTIFICATES_GET_TOOL \<equiv> ''certificates.get''"
abbreviation CERTIFICATES_ISSUE_TOOL :: string where "CERTIFICATES_ISSUE_TOOL \<equiv> ''certificates.issue''"
abbreviation CERTIFICATES_RENEW_TOOL :: string where "CERTIFICATES_RENEW_TOOL \<equiv> ''certificates.renew''"
abbreviation CERTIFICATES_REVOKE_TOOL :: string where "CERTIFICATES_REVOKE_TOOL \<equiv> ''certificates.revoke''"
abbreviation CERTIFICATES_RENEWAL_CONFIGURATION_UPDATE_TOOL :: string where "CERTIFICATES_RENEWAL_CONFIGURATION_UPDATE_TOOL \<equiv> ''certificates.renewalConfiguration.update''"
abbreviation CERTIFICATES_DELETE_TOOL :: string where "CERTIFICATES_DELETE_TOOL \<equiv> ''certificates.delete''"
abbreviation CERTIFICATES_IMPORT_TOOL :: string where "CERTIFICATES_IMPORT_TOOL \<equiv> ''certificates.import''"
abbreviation CERTIFICATES_CERTIFICATE_GET_TOOL :: string where "CERTIFICATES_CERTIFICATE_GET_TOOL \<equiv> ''certificates.certificate.get''"
abbreviation CERTIFICATES_BUNDLE_REVEAL_TOOL :: string where "CERTIFICATES_BUNDLE_REVEAL_TOOL \<equiv> ''certificates.bundle.reveal''"
abbreviation CERTIFICATES_PRIVATE_KEY_REVEAL_TOOL :: string where "CERTIFICATES_PRIVATE_KEY_REVEAL_TOOL \<equiv> ''certificates.privateKey.reveal''"
abbreviation CERTIFICATE_REQUESTS_LIST_TOOL :: string where "CERTIFICATE_REQUESTS_LIST_TOOL \<equiv> ''certificateRequests.list''"
abbreviation CERTIFICATE_REQUESTS_GET_TOOL :: string where "CERTIFICATE_REQUESTS_GET_TOOL \<equiv> ''certificateRequests.get''"
abbreviation CERTIFICATE_REQUEST_RESULT_REVEAL_TOOL :: string where "CERTIFICATE_REQUEST_RESULT_REVEAL_TOOL \<equiv> ''certificateRequests.result.reveal''"
abbreviation CERTIFICATE_REQUESTS_CANCEL_TOOL :: string where "CERTIFICATE_REQUESTS_CANCEL_TOOL \<equiv> ''certificateRequests.cancel''"
abbreviation CERTIFICATE_POLICIES_LIST_TOOL :: string where "CERTIFICATE_POLICIES_LIST_TOOL \<equiv> ''certificatePolicies.list''"
abbreviation CERTIFICATE_POLICIES_GET_TOOL :: string where "CERTIFICATE_POLICIES_GET_TOOL \<equiv> ''certificatePolicies.get''"
abbreviation CERTIFICATE_POLICIES_CREATE_TOOL :: string where "CERTIFICATE_POLICIES_CREATE_TOOL \<equiv> ''certificatePolicies.create''"
abbreviation CERTIFICATE_POLICIES_UPDATE_TOOL :: string where "CERTIFICATE_POLICIES_UPDATE_TOOL \<equiv> ''certificatePolicies.update''"
abbreviation CERTIFICATE_POLICIES_DELETE_TOOL :: string where "CERTIFICATE_POLICIES_DELETE_TOOL \<equiv> ''certificatePolicies.delete''"
abbreviation CERTIFICATE_PROFILES_LIST_TOOL :: string where "CERTIFICATE_PROFILES_LIST_TOOL \<equiv> ''certificateProfiles.list''"
abbreviation CERTIFICATE_PROFILES_GET_TOOL :: string where "CERTIFICATE_PROFILES_GET_TOOL \<equiv> ''certificateProfiles.get''"
abbreviation CERTIFICATE_PROFILES_GET_BY_SLUG_TOOL :: string where "CERTIFICATE_PROFILES_GET_BY_SLUG_TOOL \<equiv> ''certificateProfiles.getBySlug''"
abbreviation CERTIFICATE_PROFILES_CREATE_TOOL :: string where "CERTIFICATE_PROFILES_CREATE_TOOL \<equiv> ''certificateProfiles.create''"
abbreviation CERTIFICATE_PROFILES_UPDATE_TOOL :: string where "CERTIFICATE_PROFILES_UPDATE_TOOL \<equiv> ''certificateProfiles.update''"
abbreviation CERTIFICATE_PROFILES_DELETE_TOOL :: string where "CERTIFICATE_PROFILES_DELETE_TOOL \<equiv> ''certificateProfiles.delete''"
abbreviation CERTIFICATE_PROFILE_CERTIFICATES_LIST_TOOL :: string where "CERTIFICATE_PROFILE_CERTIFICATES_LIST_TOOL \<equiv> ''certificateProfiles.certificates.list''"
abbreviation CERTIFICATE_PROFILE_LATEST_BUNDLE_REVEAL_TOOL :: string where "CERTIFICATE_PROFILE_LATEST_BUNDLE_REVEAL_TOOL \<equiv> ''certificateProfiles.latestActiveBundle.reveal''"
abbreviation CERTIFICATE_PROFILE_EAB_SECRET_REVEAL_TOOL :: string where "CERTIFICATE_PROFILE_EAB_SECRET_REVEAL_TOOL \<equiv> ''certificateProfiles.acmeEabSecret.reveal''"
abbreviation CODE_SIGNERS_LIST_TOOL :: string where "CODE_SIGNERS_LIST_TOOL \<equiv> ''codeSigners.list''"
abbreviation CODE_SIGNERS_GET_TOOL :: string where "CODE_SIGNERS_GET_TOOL \<equiv> ''codeSigners.get''"
abbreviation CODE_SIGNERS_CREATE_TOOL :: string where "CODE_SIGNERS_CREATE_TOOL \<equiv> ''codeSigners.create''"
abbreviation CODE_SIGNERS_UPDATE_TOOL :: string where "CODE_SIGNERS_UPDATE_TOOL \<equiv> ''codeSigners.update''"
abbreviation CODE_SIGNERS_DELETE_TOOL :: string where "CODE_SIGNERS_DELETE_TOOL \<equiv> ''codeSigners.delete''"
abbreviation CODE_SIGNERS_STATUS_UPDATE_TOOL :: string where "CODE_SIGNERS_STATUS_UPDATE_TOOL \<equiv> ''codeSigners.status.update''"
abbreviation CODE_SIGNERS_CERTIFICATE_REISSUE_TOOL :: string where "CODE_SIGNERS_CERTIFICATE_REISSUE_TOOL \<equiv> ''codeSigners.certificate.reissue''"
abbreviation CODE_SIGNERS_CERTIFICATE_EXPORT_TOOL :: string where "CODE_SIGNERS_CERTIFICATE_EXPORT_TOOL \<equiv> ''codeSigners.certificate.export''"
abbreviation CODE_SIGNERS_PUBLIC_KEY_GET_TOOL :: string where "CODE_SIGNERS_PUBLIC_KEY_GET_TOOL \<equiv> ''codeSigners.publicKey.get''"
abbreviation CODE_SIGNERS_SIGN_TOOL :: string where "CODE_SIGNERS_SIGN_TOOL \<equiv> ''codeSigners.sign''"
abbreviation CODE_SIGNER_MEMBERS_LIST_TOOL :: string where "CODE_SIGNER_MEMBERS_LIST_TOOL \<equiv> ''codeSigners.members.list''"
abbreviation CODE_SIGNER_MEMBERS_ADD_TOOL :: string where "CODE_SIGNER_MEMBERS_ADD_TOOL \<equiv> ''codeSigners.members.add''"
abbreviation CODE_SIGNER_MEMBER_ROLE_UPDATE_TOOL :: string where "CODE_SIGNER_MEMBER_ROLE_UPDATE_TOOL \<equiv> ''codeSigners.members.role.update''"
abbreviation CODE_SIGNER_MEMBERS_REMOVE_TOOL :: string where "CODE_SIGNER_MEMBERS_REMOVE_TOOL \<equiv> ''codeSigners.members.remove''"
abbreviation CODE_SIGNER_EFFECTIVE_MEMBERS_LIST_TOOL :: string where "CODE_SIGNER_EFFECTIVE_MEMBERS_LIST_TOOL \<equiv> ''codeSigners.effectiveMembers.list''"
abbreviation CODE_SIGNER_PERMISSIONS_GET_TOOL :: string where "CODE_SIGNER_PERMISSIONS_GET_TOOL \<equiv> ''codeSigners.permissions.get''"
abbreviation CODE_SIGNER_APPROVAL_POLICY_GET_TOOL :: string where "CODE_SIGNER_APPROVAL_POLICY_GET_TOOL \<equiv> ''codeSigners.approvalPolicy.get''"
abbreviation CODE_SIGNER_APPROVAL_POLICY_REPLACE_TOOL :: string where "CODE_SIGNER_APPROVAL_POLICY_REPLACE_TOOL \<equiv> ''codeSigners.approvalPolicy.replace''"
abbreviation CODE_SIGNER_APPROVAL_REQUESTS_LIST_TOOL :: string where "CODE_SIGNER_APPROVAL_REQUESTS_LIST_TOOL \<equiv> ''codeSigners.approvalRequests.list''"
abbreviation CODE_SIGNER_APPROVAL_REQUESTS_CREATE_TOOL :: string where "CODE_SIGNER_APPROVAL_REQUESTS_CREATE_TOOL \<equiv> ''codeSigners.approvalRequests.create''"
abbreviation CODE_SIGNER_APPROVAL_REQUESTS_PRE_APPROVE_TOOL :: string where "CODE_SIGNER_APPROVAL_REQUESTS_PRE_APPROVE_TOOL \<equiv> ''codeSigners.approvalRequests.preApprove''"
abbreviation CODE_SIGNER_APPROVAL_REQUESTS_REVOKE_TOOL :: string where "CODE_SIGNER_APPROVAL_REQUESTS_REVOKE_TOOL \<equiv> ''codeSigners.approvalRequests.revoke''"
abbreviation CODE_SIGNER_OPERATIONS_LIST_TOOL :: string where "CODE_SIGNER_OPERATIONS_LIST_TOOL \<equiv> ''codeSigners.operations.list''"
abbreviation SSH_CERTIFICATE_AUTHORITIES_LIST_TOOL :: string where "SSH_CERTIFICATE_AUTHORITIES_LIST_TOOL \<equiv> ''sshCertificateAuthorities.list''"
abbreviation SSH_CERTIFICATE_AUTHORITIES_GET_TOOL :: string where "SSH_CERTIFICATE_AUTHORITIES_GET_TOOL \<equiv> ''sshCertificateAuthorities.get''"
abbreviation SSH_CERTIFICATE_AUTHORITIES_PUBLIC_KEY_GET_TOOL :: string where "SSH_CERTIFICATE_AUTHORITIES_PUBLIC_KEY_GET_TOOL \<equiv> ''sshCertificateAuthorities.publicKey.get''"
abbreviation SSH_CERTIFICATE_AUTHORITIES_CREATE_TOOL :: string where "SSH_CERTIFICATE_AUTHORITIES_CREATE_TOOL \<equiv> ''sshCertificateAuthorities.create''"
abbreviation SSH_CERTIFICATE_AUTHORITIES_REPLACE_TOOL :: string where "SSH_CERTIFICATE_AUTHORITIES_REPLACE_TOOL \<equiv> ''sshCertificateAuthorities.replace''"
abbreviation SSH_CERTIFICATE_AUTHORITIES_DELETE_TOOL :: string where "SSH_CERTIFICATE_AUTHORITIES_DELETE_TOOL \<equiv> ''sshCertificateAuthorities.delete''"
abbreviation SSH_CERTIFICATE_TEMPLATES_LIST_TOOL :: string where "SSH_CERTIFICATE_TEMPLATES_LIST_TOOL \<equiv> ''sshCertificateTemplates.list''"
abbreviation SSH_CERTIFICATE_AUTHORITY_TEMPLATES_LIST_TOOL :: string where "SSH_CERTIFICATE_AUTHORITY_TEMPLATES_LIST_TOOL \<equiv> ''sshCertificateAuthorities.templates.list''"
abbreviation SSH_CERTIFICATE_TEMPLATES_GET_TOOL :: string where "SSH_CERTIFICATE_TEMPLATES_GET_TOOL \<equiv> ''sshCertificateTemplates.get''"
abbreviation SSH_CERTIFICATE_TEMPLATES_CREATE_TOOL :: string where "SSH_CERTIFICATE_TEMPLATES_CREATE_TOOL \<equiv> ''sshCertificateTemplates.create''"
abbreviation SSH_CERTIFICATE_TEMPLATES_REPLACE_TOOL :: string where "SSH_CERTIFICATE_TEMPLATES_REPLACE_TOOL \<equiv> ''sshCertificateTemplates.replace''"
abbreviation SSH_CERTIFICATE_TEMPLATES_DELETE_TOOL :: string where "SSH_CERTIFICATE_TEMPLATES_DELETE_TOOL \<equiv> ''sshCertificateTemplates.delete''"
abbreviation SSH_CERTIFICATES_SIGN_TOOL :: string where "SSH_CERTIFICATES_SIGN_TOOL \<equiv> ''sshCertificates.sign''"
abbreviation SSH_CERTIFICATES_ISSUE_TOOL :: string where "SSH_CERTIFICATES_ISSUE_TOOL \<equiv> ''sshCertificates.issue''"
abbreviation SSH_HOSTS_LIST_TOOL :: string where "SSH_HOSTS_LIST_TOOL \<equiv> ''sshHosts.list''"
abbreviation SSH_HOSTS_GET_TOOL :: string where "SSH_HOSTS_GET_TOOL \<equiv> ''sshHosts.get''"
abbreviation SSH_HOSTS_CREATE_TOOL :: string where "SSH_HOSTS_CREATE_TOOL \<equiv> ''sshHosts.create''"
abbreviation SSH_HOSTS_REPLACE_TOOL :: string where "SSH_HOSTS_REPLACE_TOOL \<equiv> ''sshHosts.replace''"
abbreviation SSH_HOSTS_DELETE_TOOL :: string where "SSH_HOSTS_DELETE_TOOL \<equiv> ''sshHosts.delete''"
abbreviation SSH_HOSTS_USER_CA_PUBLIC_KEY_GET_TOOL :: string where "SSH_HOSTS_USER_CA_PUBLIC_KEY_GET_TOOL \<equiv> ''sshHosts.userCaPublicKey.get''"
abbreviation SSH_HOSTS_HOST_CA_PUBLIC_KEY_GET_TOOL :: string where "SSH_HOSTS_HOST_CA_PUBLIC_KEY_GET_TOOL \<equiv> ''sshHosts.hostCaPublicKey.get''"
abbreviation SSH_HOSTS_HOST_CERTIFICATE_ISSUE_TOOL :: string where "SSH_HOSTS_HOST_CERTIFICATE_ISSUE_TOOL \<equiv> ''sshHosts.hostCertificate.issue''"
abbreviation SSH_HOST_GROUPS_LIST_TOOL :: string where "SSH_HOST_GROUPS_LIST_TOOL \<equiv> ''sshHostGroups.list''"
abbreviation SSH_HOST_GROUPS_GET_TOOL :: string where "SSH_HOST_GROUPS_GET_TOOL \<equiv> ''sshHostGroups.get''"
abbreviation SSH_HOST_GROUPS_CREATE_TOOL :: string where "SSH_HOST_GROUPS_CREATE_TOOL \<equiv> ''sshHostGroups.create''"
abbreviation SSH_HOST_GROUPS_REPLACE_TOOL :: string where "SSH_HOST_GROUPS_REPLACE_TOOL \<equiv> ''sshHostGroups.replace''"
abbreviation SSH_HOST_GROUPS_DELETE_TOOL :: string where "SSH_HOST_GROUPS_DELETE_TOOL \<equiv> ''sshHostGroups.delete''"
abbreviation SSH_HOST_GROUP_HOSTS_LIST_TOOL :: string where "SSH_HOST_GROUP_HOSTS_LIST_TOOL \<equiv> ''sshHostGroups.hosts.list''"
abbreviation SSH_HOST_GROUP_HOSTS_ADD_TOOL :: string where "SSH_HOST_GROUP_HOSTS_ADD_TOOL \<equiv> ''sshHostGroups.hosts.add''"
abbreviation SSH_HOST_GROUP_HOSTS_REMOVE_TOOL :: string where "SSH_HOST_GROUP_HOSTS_REMOVE_TOOL \<equiv> ''sshHostGroups.hosts.remove''"

end
