(* ===== verification/Operation_Policy.thy ===== *)
theory Operation_Policy
  imports Rust_Prelude Operation_Names
begin

text \<open>
  Operation profiles: \<open>crates/infisical-mcp/src/policy.rs\<close> and the reviewed membership table of
  \<open>crates/infisical-mcp/src/operation_policy.rs\<close>. Each arm of the table's \<open>match\<close> is one list of
  names; \<open>reviewed_arm\<close> is the \<open>match\<close> itself and \<open>facts\<close> the whole function, whose last arm is
  what an unreviewed name gets.
\<close>

section \<open>Profiles\<close>

datatype operation_profile = Metadata | Secrets | Pki_Ssh | Full

definition parse_profile :: "string \<Rightarrow> (string, operation_profile) result" where
  "parse_profile v =
     (if v = ''metadata'' then Ok Metadata
      else if v = ''secrets'' then Ok Secrets
      else if v = ''pkiSsh'' then Ok Pki_Ssh
      else if v = ''full'' then Ok Full
      else Err ''use metadata, secrets, pkiSsh, or full'')"

record policy_facts =
  pf_reviewed :: bool
  pf_metadata :: bool
  pf_secrets :: bool
  pf_pki_ssh :: bool
  pf_credential_disclosure :: bool

fun allows :: "operation_profile \<Rightarrow> policy_facts \<Rightarrow> bool" where
  "allows Metadata f = pf_metadata f"
| "allows Secrets f = pf_secrets f"
| "allows Pki_Ssh f = pf_pki_ssh f"
| "allows Full f = True"

section \<open>The reviewed table\<close>

definition administration_operations :: "string list" where
  "administration_operations =
     [GITHUB_APP_CONNECTION_CREATE_TOOL, GITHUB_APP_CONNECTION_DELETE_TOOL,
      GITHUB_APP_CONNECTION_ROTATE_CREDENTIALS_TOOL, GITHUB_APP_CONNECTION_UPDATE_TOOL,
      ENVIRONMENTS_CREATE_TOOL, ENVIRONMENTS_DELETE_TOOL, ENVIRONMENTS_RESTORE_TOOL,
      ENVIRONMENTS_UPDATE_TOOL, IDENTITIES_CREATE_TOOL, IDENTITIES_DELETE_TOOL,
      IDENTITIES_UPDATE_TOOL, KUBERNETES_AUTH_ATTACH_TOOL, KUBERNETES_AUTH_REMOVE_TOOL,
      KUBERNETES_AUTH_UPDATE_TOOL, IDENTITY_PROJECT_ADDITIONAL_PRIVILEGES_CREATE_TOOL,
      IDENTITY_PROJECT_ADDITIONAL_PRIVILEGES_DELETE_TOOL,
      IDENTITY_PROJECT_ADDITIONAL_PRIVILEGES_UPDATE_TOOL, TOKEN_AUTH_ATTACH_TOOL,
      TOKEN_AUTH_REMOVE_TOOL, TOKEN_AUTH_TOKENS_REVOKE_TOOL, TOKEN_AUTH_TOKENS_UPDATE_TOOL,
      TOKEN_AUTH_UPDATE_TOOL, UNIVERSAL_AUTH_ATTACH_TOOL,
      UNIVERSAL_AUTH_CLIENT_SECRETS_REVOKE_TOOL, UNIVERSAL_AUTH_LOCKOUTS_CLEAR_TOOL,
      UNIVERSAL_AUTH_REMOVE_TOOL, UNIVERSAL_AUTH_UPDATE_TOOL, KMS_ENCRYPT_TOOL,
      KMS_KEYS_BULK_IMPORT_TOOL, KMS_KEYS_CREATE_TOOL, KMS_KEYS_DELETE_TOOL,
      KMS_KEYS_UPDATE_TOOL, KMS_SIGN_TOOL, KMS_VERIFY_TOOL,
      PROJECT_IDENTITY_MEMBERSHIPS_CREATE_TOOL, PROJECT_IDENTITY_MEMBERSHIPS_DELETE_TOOL,
      PROJECT_IDENTITY_MEMBERSHIPS_UPDATE_TOOL, PROJECT_USER_MEMBERSHIPS_DELETE_TOOL,
      PROJECT_USER_MEMBERSHIPS_INVITE_TOOL, PROJECT_USER_MEMBERSHIPS_UPDATE_TOOL,
      PROJECTS_CREATE_TOOL, PROJECTS_DELETE_TOOL, PROJECTS_UPDATE_TOOL]"

definition directory_reads :: "string list" where
  "directory_reads =
     [GITHUB_APP_CONNECTION_GET_TOOL, APP_CONNECTIONS_LIST_TOOL, AUDIT_LOGS_LIST_TOOL,
      GROUPS_GET_TOOL, GROUPS_LIST_TOOL, GROUP_MEMBERS_LIST_TOOL, GROUP_PROJECTS_LIST_TOOL,
      IDENTITIES_GET_TOOL, IDENTITIES_LIST_TOOL, KUBERNETES_AUTH_GET_TOOL,
      IDENTITY_PROJECT_ADDITIONAL_PRIVILEGES_GET_TOOL,
      IDENTITY_PROJECT_ADDITIONAL_PRIVILEGES_GET_BY_SLUG_TOOL,
      IDENTITY_PROJECT_ADDITIONAL_PRIVILEGES_LIST_TOOL, TOKEN_AUTH_GET_TOOL,
      TOKEN_AUTH_TOKENS_GET_TOOL, TOKEN_AUTH_TOKENS_LIST_TOOL,
      UNIVERSAL_AUTH_CLIENT_SECRETS_GET_TOOL, UNIVERSAL_AUTH_CLIENT_SECRETS_LIST_TOOL,
      UNIVERSAL_AUTH_GET_TOOL, KMS_KEYS_GET_TOOL, KMS_KEYS_GET_BY_NAME_TOOL, KMS_KEYS_LIST_TOOL,
      KMS_PUBLIC_KEY_GET_TOOL, KMS_SIGNING_ALGORITHMS_LIST_TOOL, ORGANIZATION_ROLES_GET_TOOL,
      ORGANIZATION_ROLES_LIST_TOOL, PROJECT_GROUP_MEMBERSHIPS_GET_TOOL,
      PROJECT_GROUP_MEMBERSHIPS_LIST_TOOL, PROJECT_IDENTITY_MEMBERSHIPS_GET_TOOL,
      PROJECT_IDENTITY_MEMBERSHIPS_LIST_TOOL, PROJECT_ROLES_GET_TOOL, PROJECT_ROLES_LIST_TOOL,
      PROJECT_USER_MEMBERSHIPS_GET_TOOL, PROJECT_USER_MEMBERSHIPS_LIST_TOOL]"

definition pki_changes :: "string list" where
  "pki_changes =
     [INTERNAL_CA_CERTIFICATE_GENERATE_TOOL, INTERNAL_CA_CERTIFICATE_IMPORT_TOOL,
      INTERNAL_CA_CERTIFICATE_RENEW_TOOL, INTERNAL_CERTIFICATE_AUTHORITIES_CREATE_TOOL,
      INTERNAL_CERTIFICATE_AUTHORITIES_DELETE_TOOL, INTERNAL_CA_INTERMEDIATE_SIGN_TOOL,
      INTERNAL_CERTIFICATE_AUTHORITIES_UPDATE_TOOL, CERTIFICATE_POLICIES_CREATE_TOOL,
      CERTIFICATE_POLICIES_DELETE_TOOL, CERTIFICATE_POLICIES_UPDATE_TOOL,
      CERTIFICATE_PROFILES_CREATE_TOOL, CERTIFICATE_PROFILES_DELETE_TOOL,
      CERTIFICATE_PROFILES_UPDATE_TOOL, CERTIFICATE_REQUESTS_CANCEL_TOOL,
      CERTIFICATES_DELETE_TOOL, CERTIFICATES_IMPORT_TOOL,
      CERTIFICATES_RENEWAL_CONFIGURATION_UPDATE_TOOL, CERTIFICATES_REVOKE_TOOL,
      CODE_SIGNER_APPROVAL_POLICY_REPLACE_TOOL, CODE_SIGNER_APPROVAL_REQUESTS_CREATE_TOOL,
      CODE_SIGNER_APPROVAL_REQUESTS_PRE_APPROVE_TOOL, CODE_SIGNER_APPROVAL_REQUESTS_REVOKE_TOOL,
      CODE_SIGNERS_CERTIFICATE_REISSUE_TOOL, CODE_SIGNERS_CREATE_TOOL, CODE_SIGNERS_DELETE_TOOL,
      CODE_SIGNER_MEMBERS_ADD_TOOL, CODE_SIGNER_MEMBERS_REMOVE_TOOL,
      CODE_SIGNER_MEMBER_ROLE_UPDATE_TOOL, CODE_SIGNERS_SIGN_TOOL,
      CODE_SIGNERS_STATUS_UPDATE_TOOL, CODE_SIGNERS_UPDATE_TOOL,
      SSH_CERTIFICATE_AUTHORITIES_CREATE_TOOL, SSH_CERTIFICATE_AUTHORITIES_DELETE_TOOL,
      SSH_CERTIFICATE_AUTHORITIES_REPLACE_TOOL, SSH_CERTIFICATE_TEMPLATES_CREATE_TOOL,
      SSH_CERTIFICATE_TEMPLATES_DELETE_TOOL, SSH_CERTIFICATE_TEMPLATES_REPLACE_TOOL,
      SSH_CERTIFICATES_SIGN_TOOL, SSH_HOST_GROUPS_CREATE_TOOL, SSH_HOST_GROUPS_DELETE_TOOL,
      SSH_HOST_GROUP_HOSTS_ADD_TOOL, SSH_HOST_GROUP_HOSTS_REMOVE_TOOL,
      SSH_HOST_GROUPS_REPLACE_TOOL, SSH_HOSTS_CREATE_TOOL, SSH_HOSTS_DELETE_TOOL,
      SSH_HOSTS_HOST_CERTIFICATE_ISSUE_TOOL, SSH_HOSTS_REPLACE_TOOL]"

definition pki_reads :: "string list" where
  "pki_reads =
     [INTERNAL_CA_CERTIFICATE_GET_TOOL, INTERNAL_CA_CERTIFICATE_VERSION_GET_TOOL,
      INTERNAL_CA_CERTIFICATES_LIST_TOOL, INTERNAL_CA_CRLS_LIST_TOOL, INTERNAL_CA_CSR_GET_TOOL,
      INTERNAL_CERTIFICATE_AUTHORITIES_GET_TOOL, INTERNAL_CERTIFICATE_AUTHORITIES_LIST_TOOL,
      CERTIFICATE_AUTHORITIES_LIST_TOOL, CERTIFICATE_POLICIES_GET_TOOL,
      CERTIFICATE_POLICIES_LIST_TOOL, CERTIFICATE_PROFILE_CERTIFICATES_LIST_TOOL,
      CERTIFICATE_PROFILES_GET_TOOL, CERTIFICATE_PROFILES_GET_BY_SLUG_TOOL,
      CERTIFICATE_PROFILES_LIST_TOOL, CERTIFICATE_REQUESTS_GET_TOOL,
      CERTIFICATE_REQUESTS_LIST_TOOL, CERTIFICATES_CERTIFICATE_GET_TOOL, CERTIFICATES_GET_TOOL,
      CERTIFICATES_LIST_TOOL, CODE_SIGNER_APPROVAL_POLICY_GET_TOOL,
      CODE_SIGNER_APPROVAL_REQUESTS_LIST_TOOL, CODE_SIGNERS_CERTIFICATE_EXPORT_TOOL,
      CODE_SIGNER_EFFECTIVE_MEMBERS_LIST_TOOL, CODE_SIGNERS_GET_TOOL, CODE_SIGNERS_LIST_TOOL,
      CODE_SIGNER_MEMBERS_LIST_TOOL, CODE_SIGNER_OPERATIONS_LIST_TOOL,
      CODE_SIGNER_PERMISSIONS_GET_TOOL, CODE_SIGNERS_PUBLIC_KEY_GET_TOOL,
      SSH_CERTIFICATE_AUTHORITIES_GET_TOOL, SSH_CERTIFICATE_AUTHORITIES_LIST_TOOL,
      SSH_CERTIFICATE_AUTHORITIES_PUBLIC_KEY_GET_TOOL,
      SSH_CERTIFICATE_AUTHORITY_TEMPLATES_LIST_TOOL, SSH_CERTIFICATE_TEMPLATES_GET_TOOL,
      SSH_CERTIFICATE_TEMPLATES_LIST_TOOL, SSH_HOST_GROUPS_GET_TOOL,
      SSH_HOST_GROUP_HOSTS_LIST_TOOL, SSH_HOST_GROUPS_LIST_TOOL, SSH_HOSTS_GET_TOOL,
      SSH_HOSTS_HOST_CA_PUBLIC_KEY_GET_TOOL, SSH_HOSTS_LIST_TOOL,
      SSH_HOSTS_USER_CA_PUBLIC_KEY_GET_TOOL]"

definition pki_disclosures :: "string list" where
  "pki_disclosures =
     [CERTIFICATE_PROFILE_EAB_SECRET_REVEAL_TOOL, CERTIFICATE_PROFILE_LATEST_BUNDLE_REVEAL_TOOL,
      CERTIFICATE_REQUEST_RESULT_REVEAL_TOOL, CERTIFICATES_BUNDLE_REVEAL_TOOL,
      CERTIFICATES_ISSUE_TOOL, CERTIFICATES_PRIVATE_KEY_REVEAL_TOOL, CERTIFICATES_RENEW_TOOL,
      SSH_CERTIFICATES_ISSUE_TOOL]"

definition secret_disclosures :: "string list" where
  "secret_disclosures =
     [DYNAMIC_SECRET_LEASES_CREATE_TOOL, SQL_SECRET_ROTATION_GENERATED_CREDENTIALS_GET_TOOL,
      SECRET_REVEAL_TOOL]"

definition secret_reads :: "string list" where
  "secret_reads =
     [DYNAMIC_SECRET_LEASES_GET_TOOL, DYNAMIC_SECRET_LEASES_LIST_TOOL, DYNAMIC_SECRETS_GET_TOOL,
      DYNAMIC_SECRETS_LIST_TOOL, FOLDERS_GET_TOOL, FOLDERS_LIST_TOOL, SECRET_IMPORTS_GET_TOOL,
      SECRET_IMPORTS_LIST_TOOL, SECRET_ROTATIONS_LIST_TOOL, SQL_SECRET_ROTATION_GET_TOOL,
      SQL_SECRET_ROTATION_GET_BY_NAME_TOOL, GITHUB_SECRET_SYNC_GET_TOOL, SECRET_SYNCS_LIST_TOOL,
      SECRET_METADATA_LIST_TOOL, TAGS_GET_TOOL, TAGS_LIST_TOOL]"

definition secret_changes :: "string list" where
  "secret_changes =
     [DYNAMIC_SECRET_LEASES_RENEW_TOOL, DYNAMIC_SECRET_LEASES_REVOKE_TOOL,
      DYNAMIC_SECRETS_CREATE_TOOL, DYNAMIC_SECRETS_DELETE_TOOL, DYNAMIC_SECRETS_UPDATE_TOOL,
      FOLDERS_BATCH_UPDATE_TOOL, FOLDERS_CREATE_TOOL, FOLDERS_DELETE_TOOL, FOLDERS_UPDATE_TOOL,
      SECRET_IMPORTS_CREATE_TOOL, SECRET_IMPORTS_DELETE_TOOL, SECRET_IMPORTS_UPDATE_TOOL,
      SQL_SECRET_ROTATION_CHECK_TOOL, SQL_SECRET_ROTATION_CREATE_TOOL,
      SQL_SECRET_ROTATION_DELETE_TOOL, SQL_SECRET_ROTATION_MOVE_TOOL,
      SQL_SECRET_ROTATION_ROTATE_TOOL, SQL_SECRET_ROTATION_UPDATE_TOOL,
      GITHUB_SECRET_SYNC_CREATE_TOOL, GITHUB_SECRET_SYNC_DELETE_TOOL,
      GITHUB_SECRET_SYNC_REMOVE_SECRETS_TOOL, GITHUB_SECRET_SYNC_RUN_TOOL,
      GITHUB_SECRET_SYNC_UPDATE_TOOL, SECRET_BATCH_CREATE_TOOL, SECRET_BATCH_DELETE_TOOL,
      SECRET_BATCH_UPDATE_TOOL, SECRET_CREATE_TOOL, SECRET_DELETE_TOOL, SECRET_UPDATE_TOOL,
      TAGS_CREATE_TOOL, TAGS_DELETE_TOOL, TAGS_UPDATE_TOOL]"

definition shared_reads :: "string list" where
  "shared_reads =
     [ENVIRONMENTS_GET_TOOL, ENVIRONMENTS_LIST_TOOL, PROJECTS_GET_TOOL, PROJECTS_LIST_TOOL]"

definition administration_disclosures :: "string list" where
  "administration_disclosures =
     [TOKEN_AUTH_TOKENS_CREATE_TOOL, UNIVERSAL_AUTH_CLIENT_SECRETS_CREATE_TOOL,
      KMS_DECRYPT_TOOL, KMS_PRIVATE_KEYS_BULK_REVEAL_TOOL, KMS_PRIVATE_KEY_REVEAL_TOOL]"

text \<open>The four flags of an arm: metadata, secrets, PKI and SSH, credential disclosure.\<close>

definition reviewed_arm :: "string \<Rightarrow> (bool \<times> bool \<times> bool \<times> bool) option" where
  "reviewed_arm name =
     (if name \<in> set administration_operations then Some (False, False, False, False)
      else if name \<in> set directory_reads then Some (True, False, False, False)
      else if name \<in> set pki_changes then Some (False, False, True, False)
      else if name \<in> set pki_reads then Some (True, False, True, False)
      else if name \<in> set pki_disclosures then Some (False, False, True, True)
      else if name \<in> set secret_disclosures then Some (False, True, False, True)
      else if name \<in> set secret_reads then Some (True, True, False, False)
      else if name \<in> set secret_changes then Some (False, True, False, False)
      else if name \<in> set shared_reads then Some (True, True, True, False)
      else if name \<in> set administration_disclosures then Some (False, False, False, True)
      else None)"

definition unreviewed :: policy_facts where
  "unreviewed = \<lparr>pf_reviewed = False, pf_metadata = False, pf_secrets = False, pf_pki_ssh = False,
     pf_credential_disclosure = True\<rparr>"

definition facts :: "string \<Rightarrow> policy_facts" where
  "facts name =
     (case reviewed_arm name of
        Some (metadata, secrets, pki_ssh, disclosure) \<Rightarrow>
          \<lparr>pf_reviewed = True, pf_metadata = metadata, pf_secrets = secrets, pf_pki_ssh = pki_ssh,
           pf_credential_disclosure = disclosure\<rparr>
      | None \<Rightarrow> unreviewed)"

section \<open>What the profiles grant\<close>

lemma metadata_names:
  "pf_metadata (facts n) \<Longrightarrow>
     n \<in> set (directory_reads @ pki_reads @ secret_reads @ shared_reads)"
  by (auto simp: facts_def reviewed_arm_def unreviewed_def split: if_splits)

lemma facts_unreviewed: "\<not> pf_reviewed (facts n) \<Longrightarrow> facts n = unreviewed"
  by (auto simp: facts_def split: option.splits)

lemma metadata_no_disclosure: "pf_metadata (facts n) \<Longrightarrow> \<not> pf_credential_disclosure (facts n)"
  by (auto simp: facts_def reviewed_arm_def unreviewed_def split: if_splits)

lemma allowed_reviewed: "allows p (facts n) \<Longrightarrow> p \<noteq> Full \<Longrightarrow> pf_reviewed (facts n)"
  by (cases p) (auto simp: facts_def unreviewed_def split: option.splits)

lemma parse_profile_Ok:
  "parse_profile v = Ok p \<longleftrightarrow>
     (v = ''metadata'' \<and> p = Metadata) \<or> (v = ''secrets'' \<and> p = Secrets)
     \<or> (v = ''pkiSsh'' \<and> p = Pki_Ssh) \<or> (v = ''full'' \<and> p = Full)"
  by (auto simp: parse_profile_def)

end
