(* ===== verification/Mcp_Types.thy ===== *)
theory Mcp_Types
  imports Rust_Prelude "HOL-Library.List_Lexorder" "HOL-Library.Char_ord"
begin

text \<open>
  The data that crosses the boundary of the MCP framework and of \<open>serde_json\<close>: JSON values as
  trees, a JSON object as its entries in iteration order, tool results and protocol errors. How the
  framework renders a structured result is a parameter; what the code relies on is
  \<open>structured_ok\<close>: the payload is kept and the result is not an error.
\<close>

datatype json_number = Unsigned nat | Signed int | Float string

datatype json =
    Null
  | Bool bool
  | Number json_number
  | String string
  | Array "json list"
  | Object "(string \<times> json) list"

definition json_get :: "string \<Rightarrow> json \<Rightarrow> json option" where
  "json_get key j = (case j of Object m \<Rightarrow> map_of m key | _ \<Rightarrow> None)"

definition as_str :: "json \<Rightarrow> string option" where
  "as_str j = (case j of String s \<Rightarrow> Some s | _ \<Rightarrow> None)"

definition is_object :: "json \<Rightarrow> bool" where
  "is_object j = (case j of Object _ \<Rightarrow> True | _ \<Rightarrow> False)"

lemma json_get_simps [simp]: "json_get k (Object m) = map_of m k" "json_get k (String s) = None"
  by (simp_all add: json_get_def)

lemma as_str_simps [simp]: "as_str (String s) = Some s" "as_str (Object m) = None"
  by (simp_all add: as_str_def)

lemma is_object_simps [simp]: "is_object (Object m)" "\<not> is_object (String s)"
  by (simp_all add: is_object_def)

text \<open>A \<open>serde_json\<close> map keeps its keys in order; an insertion replaces the value of its key.\<close>

fun json_insert :: "string \<Rightarrow> json \<Rightarrow> (string \<times> json) list \<Rightarrow> (string \<times> json) list" where
  "json_insert k v [] = [(k, v)]"
| "json_insert k v ((k', v') # m) =
     (if k = k' then (k, v) # m
      else if k < k' then (k, v) # (k', v') # m
      else (k', v') # json_insert k v m)"

definition object_of :: "(string \<times> json) list \<Rightarrow> json" where
  "object_of fields = Object (fold (\<lambda>(k, v). json_insert k v) fields [])"

text \<open>A field skipped when it is \<open>None\<close>.\<close>

definition optional_field :: "string \<Rightarrow> json option \<Rightarrow> (string \<times> json) list" where
  "optional_field k v = (case v of None \<Rightarrow> [] | Some j \<Rightarrow> [(k, j)])"

lemma map_of_json_insert [simp]: "map_of (json_insert k v m) = (map_of m)(k \<mapsto> v)"
  by (induction k v m rule: json_insert.induct) auto

lemma map_of_fold_insert:
  "map_of (fold (\<lambda>(k, v). json_insert k v) fields m) k
     = (case map_of (rev fields) k of Some v \<Rightarrow> Some v | None \<Rightarrow> map_of m k)"
  by (induction fields arbitrary: m) (auto simp: map_add_def split: option.splits)

lemma json_get_object_of: "json_get k (object_of fields) = map_of (rev fields) k"
  by (simp add: object_of_def map_of_fold_insert split: option.splits)

lemma set_json_insert: "set (json_insert k v m) \<subseteq> insert (k, v) (set m)"
  by (induction k v m rule: json_insert.induct) auto

lemma sorted_json_insert:
  "sorted (map fst m) \<Longrightarrow> distinct (map fst m) \<Longrightarrow>
     sorted (map fst (json_insert k v m)) \<and> distinct (map fst (json_insert k v m))
     \<and> set (map fst (json_insert k v m)) = insert k (set (map fst m))"
  by (induction k v m rule: json_insert.induct) (auto simp: image_iff)

lemma sorted_distinct_map_eq:
  assumes "map_of xs = map_of ys"
    and "sorted (map fst xs)" and "distinct (map fst xs)"
    and "sorted (map fst ys)" and "distinct (map fst ys)"
  shows "xs = ys"
proof -
  have sets: "set xs = set ys"
    using assms(1) map_of_inject_set [OF assms(3) assms(5)] by simp
  have "inj_on fst (set xs \<union> set ys)"
    unfolding sets Un_absorb using assms(5) by (simp add: distinct_map)
  then show ?thesis
    using map_sorted_distinct_set_unique [OF _ assms(2-5) sets] by simp
qed

lemma fold_json_insert_sorted:
  "sorted (map fst m) \<Longrightarrow> distinct (map fst m) \<Longrightarrow>
     sorted (map fst (fold (\<lambda>(k, v). json_insert k v) flds m))
     \<and> distinct (map fst (fold (\<lambda>(k, v). json_insert k v) flds m))"
  by (induction flds arbitrary: m) (auto dest: sorted_json_insert)

lemma object_of_eqI: "map_of (rev xs) = map_of (rev ys) \<Longrightarrow> object_of xs = object_of ys"
  using fold_json_insert_sorted [of "[]" xs] fold_json_insert_sorted [of "[]" ys]
  by (auto simp: object_of_def fun_eq_iff map_of_fold_insert intro!: sorted_distinct_map_eq)

text \<open>The order in which distinct fields are written does not matter.\<close>

lemma object_of_cons:
  assumes "k \<notin> fst ` set flds"
  shows "object_of ((k, v) # flds) = object_of (flds @ [(k, v)])"
proof (rule object_of_eqI)
  have "map_of (rev flds) k = None" using assms by (simp add: map_of_eq_None_iff)
  then show "map_of (rev ((k, v) # flds)) = map_of (rev (flds @ [(k, v)]))"
    by (auto simp: fun_eq_iff map_add_def split: option.splits)
qed

datatype error_code = Method_Not_Found | Invalid_Params | Internal_Error

record mcp_error =
  me_code :: error_code
  me_message :: string
  me_data :: "json option"

definition method_not_found :: mcp_error where
  "method_not_found = \<lparr>me_code = Method_Not_Found, me_message = ''tools/call'', me_data = None\<rparr>"
definition invalid_params :: "string \<Rightarrow> json option \<Rightarrow> mcp_error" where
  "invalid_params message d = \<lparr>me_code = Invalid_Params, me_message = message, me_data = d\<rparr>"
definition internal_error :: "string \<Rightarrow> json option \<Rightarrow> mcp_error" where
  "internal_error message d = \<lparr>me_code = Internal_Error, me_message = message, me_data = d\<rparr>"

record call_tool_result =
  cr_structured :: "json option"
  cr_text :: "string list"
  cr_is_error :: "bool option"

definition structured_ok :: "(json \<Rightarrow> call_tool_result) \<Rightarrow> bool" where
  "structured_ok mk \<longleftrightarrow> (\<forall>v. cr_structured (mk v) = Some v \<and> cr_is_error (mk v) \<noteq> Some True)"

lemma structured_okD [simp]:
  "structured_ok mk \<Longrightarrow> cr_structured (mk v) = Some v"
  "structured_ok mk \<Longrightarrow> cr_is_error (mk v) \<noteq> Some True"
  by (simp_all add: structured_ok_def)

end
