(* ===== verification/Runtime.thy ===== *)
theory Runtime
  imports File_Plane Client_Types Operation_Policy Mcp_Types
begin

text \<open>
  Deployment facts published by discovery: \<open>infisical-mcp/src/runtime.rs\<close> and the public facts of
  the file plane (\<open>FileCapabilities\<close> in \<open>files.rs\<close>). Rendering a duration as floating seconds is
  the parameter \<open>secs\<close>.
\<close>

section \<open>Settings\<close>

definition schema_revision :: string where "schema_revision = ''2026-10-01.2''"

datatype runtime_profile = Gateway_Profile | Standalone_Profile

datatype runtime_settings =
    Embedded
  | Stdio_Host nat
  | Http_Host runtime_profile nat nat nat

datatype host_transport = Embedded_Transport | Stdio_Transport | Streamable_Http_Transport

section \<open>Published capabilities\<close>

record file_capabilities =
  fcap_extension :: string
  fcap_version :: nat
  fcap_ttl :: nat
  fcap_max_staged :: nat
  fcap_max_staged_bytes :: nat
  fcap_max_envelope_bytes :: nat
  fcap_max_upload_bytes :: nat
  fcap_instance_local :: bool
  fcap_lost_on_restart :: bool
  fcap_redemption :: string

definition plane_capabilities :: "plane \<Rightarrow> file_capabilities" where
  "plane_capabilities pl =
     \<lparr>fcap_extension = ''io.cacahuate.infisical.file-transfer'', fcap_version = 1,
      fcap_ttl = fc_ttl (pl_config pl), fcap_max_staged = fc_max_staged (pl_config pl),
      fcap_max_staged_bytes = unat (fc_max_staged_bytes (pl_config pl)),
      fcap_max_envelope_bytes = unat max_envelope_bytes,
      fcap_max_upload_bytes = unat max_upload_bytes, fcap_instance_local = True,
      fcap_lost_on_restart = True, fcap_redemption = ''atMostOneAttempt''\<rparr>"

record runtime_limits =
  rl_max_request_bytes :: "nat option"
  rl_max_concurrent_requests :: "nat option"
  rl_request_timeout :: "nat option"
  rl_upstream_response_bytes :: nat
  rl_upstream_max_concurrent_requests :: nat
  rl_upstream_request_timeout :: nat
  rl_tool_result_bytes :: nat

record delivery_capabilities =
  dc_default_secret_delivery :: string
  dc_secret_modes :: "string list"
  dc_result_modes :: "string list"
  dc_upload_references :: bool
  dc_file_transfer :: "file_capabilities option"

record runtime_capabilities =
  rc_operation_profile :: operation_profile
  rc_transport :: host_transport
  rc_http_profile :: "runtime_profile option"
  rc_limits :: runtime_limits
  rc_delivery :: delivery_capabilities
  rc_upstream_access :: string

fun transport_facts ::
    "runtime_settings \<Rightarrow> host_transport \<times> runtime_profile option \<times> nat option \<times> nat option \<times> nat option" where
  "transport_facts Embedded = (Embedded_Transport, None, None, None, None)"
| "transport_facts (Stdio_Host max_message_bytes) =
     (Stdio_Transport, None, Some max_message_bytes, None, None)"
| "transport_facts (Http_Host profile max_request_bytes max_concurrent timeout) =
     (Streamable_Http_Transport, Some profile, Some max_request_bytes, Some max_concurrent, Some timeout)"

definition delivery_facts :: "plane option \<Rightarrow> delivery_capabilities" where
  "delivery_facts files =
     \<lparr>dc_default_secret_delivery = (if files \<noteq> None then ''reference'' else ''inlineValue''),
      dc_secret_modes = (if files \<noteq> None then [''inlineValue'', ''reference''] else [''inlineValue'']),
      dc_result_modes = (if files \<noteq> None then [''inline'', ''file''] else [''inline'']),
      dc_upload_references = (files \<noteq> None),
      dc_file_transfer = map_option plane_capabilities files\<rparr>"

definition runtime_capabilities_of ::
    "runtime_settings \<Rightarrow> client_settings \<Rightarrow> plane option \<Rightarrow> runtime_capabilities" where
  "runtime_capabilities_of settings client files =
     (let (tr, profile, max_request, max_concurrent, timeout) = transport_facts settings in
      \<lparr>rc_operation_profile = Full, rc_transport = tr, rc_http_profile = profile,
       rc_limits = \<lparr>rl_max_request_bytes = max_request, rl_max_concurrent_requests = max_concurrent,
         rl_request_timeout = timeout,
         rl_upstream_response_bytes = max_response_bytes client,
         rl_upstream_max_concurrent_requests = max_concurrent_requests client,
         rl_upstream_request_timeout = request_timeout client,
         rl_tool_result_bytes = 256 * 1024\<rparr>,
       rc_delivery = delivery_facts files,
       rc_upstream_access = ''notProbed''\<rparr>)"

section \<open>Their JSON\<close>

fun profile_slug :: "operation_profile \<Rightarrow> string" where
  "profile_slug Metadata = ''metadata''"
| "profile_slug Secrets = ''secrets''"
| "profile_slug Pki_Ssh = ''pkiSsh''"
| "profile_slug Full = ''full''"

fun transport_slug :: "host_transport \<Rightarrow> string" where
  "transport_slug Embedded_Transport = ''embedded''"
| "transport_slug Stdio_Transport = ''stdio''"
| "transport_slug Streamable_Http_Transport = ''streamable-http''"

fun runtime_profile_slug :: "runtime_profile \<Rightarrow> string" where
  "runtime_profile_slug Gateway_Profile = ''gateway''"
| "runtime_profile_slug Standalone_Profile = ''standalone''"

definition unsigned_json :: "nat \<Rightarrow> json" where "unsigned_json n = Number (Unsigned n)"
definition seconds_json :: "(nat \<Rightarrow> string) \<Rightarrow> nat \<Rightarrow> json" where
  "seconds_json secs d = Number (Float (secs d))"

definition file_capabilities_json :: "(nat \<Rightarrow> string) \<Rightarrow> file_capabilities \<Rightarrow> json" where
  "file_capabilities_json secs f =
     object_of [(''extension'', String (fcap_extension f)), (''version'', unsigned_json (fcap_version f)),
       (''ttlSeconds'', seconds_json secs (fcap_ttl f)), (''maxStaged'', unsigned_json (fcap_max_staged f)),
       (''maxStagedBytes'', unsigned_json (fcap_max_staged_bytes f)),
       (''maxEnvelopeBytes'', unsigned_json (fcap_max_envelope_bytes f)),
       (''maxUploadBytes'', unsigned_json (fcap_max_upload_bytes f)),
       (''instanceLocal'', Bool (fcap_instance_local f)),
       (''lostOnRestart'', Bool (fcap_lost_on_restart f)), (''redemption'', String (fcap_redemption f))]"

definition runtime_limits_json :: "(nat \<Rightarrow> string) \<Rightarrow> runtime_limits \<Rightarrow> json" where
  "runtime_limits_json secs l =
     object_of
       (optional_field ''maxRequestBytes'' (map_option unsigned_json (rl_max_request_bytes l))
        @ optional_field ''maxConcurrentRequests'' (map_option unsigned_json (rl_max_concurrent_requests l))
        @ optional_field ''requestTimeoutSeconds'' (map_option (seconds_json secs) (rl_request_timeout l))
        @ [(''upstreamResponseBytes'', unsigned_json (rl_upstream_response_bytes l)),
           (''upstreamMaxConcurrentRequests'', unsigned_json (rl_upstream_max_concurrent_requests l)),
           (''upstreamRequestTimeoutSeconds'', seconds_json secs (rl_upstream_request_timeout l)),
           (''toolResultBytes'', unsigned_json (rl_tool_result_bytes l))])"

definition delivery_json :: "(nat \<Rightarrow> string) \<Rightarrow> delivery_capabilities \<Rightarrow> json" where
  "delivery_json secs d =
     object_of
       ([(''defaultSecretDelivery'', String (dc_default_secret_delivery d)),
         (''secretModes'', Array (map String (dc_secret_modes d))),
         (''resultModes'', Array (map String (dc_result_modes d))),
         (''uploadReferences'', Bool (dc_upload_references d))]
        @ optional_field ''fileTransfer'' (map_option (file_capabilities_json secs) (dc_file_transfer d)))"

definition runtime_capabilities_json :: "(nat \<Rightarrow> string) \<Rightarrow> runtime_capabilities \<Rightarrow> json" where
  "runtime_capabilities_json secs c =
     object_of
       ([(''operationProfile'', String (profile_slug (rc_operation_profile c))),
         (''transport'', String (transport_slug (rc_transport c)))]
        @ optional_field ''httpProfile'' (map_option (String \<circ> runtime_profile_slug) (rc_http_profile c))
        @ [(''limits'', runtime_limits_json secs (rc_limits c)),
           (''delivery'', delivery_json secs (rc_delivery c)),
           (''upstreamAccess'', String (rc_upstream_access c))])"

lemma delivery_modes_match_plane:
  "''file'' \<in> set (dc_result_modes (delivery_facts files)) \<longleftrightarrow> files \<noteq> None"
  "''reference'' \<in> set (dc_secret_modes (delivery_facts files)) \<longleftrightarrow> files \<noteq> None"
  by (simp_all add: delivery_facts_def)

end
