(* ===== verification/Server_Capabilities.thy ===== *)
theory Server_Capabilities
  imports Mcp_Types
begin

text \<open>
  The capabilities compiled into the server and the reasons for those that are not
  (\<open>capabilities\<close> and its helpers in \<open>infisical-mcp/src/tools.rs\<close>).
\<close>

record capability =
  cap_name :: string
  cap_available :: bool
  cap_reason :: "string option"

definition available :: "string \<Rightarrow> capability" where
  "available n = \<lparr>cap_name = n, cap_available = True, cap_reason = None\<rparr>"

definition unavailable :: "string \<Rightarrow> string \<Rightarrow> capability" where
  "unavailable n reason = \<lparr>cap_name = n, cap_available = False, cap_reason = Some reason\<rparr>"

definition base_capabilities :: "capability list" where
  "base_capabilities =
     [available ''auditLogs.read'',
      available ''projects.read'',
      available ''projects.create'',
      available ''projects.update'',
      available ''projects.delete'',
      available ''environments.read'',
      available ''environments.create'',
      available ''environments.update'',
      available ''environments.delete'',
      available ''environments.restore'',
      available ''folders.read'',
      available ''folders.create'',
      available ''folders.update'',
      available ''folders.batch.update'',
      available ''folders.delete'',
      available ''tags.read'',
      available ''tags.create'',
      available ''tags.update'',
      available ''tags.delete'',
      available ''identities.read'',
      available ''identities.create'',
      available ''identities.update'',
      available ''identities.delete'',
      available ''identityUniversalAuth.read'',
      available ''identityUniversalAuth.attach'',
      available ''identityUniversalAuth.update'',
      available ''identityUniversalAuth.remove'',
      available ''identityUniversalAuth.clientSecrets.read'',
      available ''identityUniversalAuth.clientSecrets.create'',
      available ''identityUniversalAuth.clientSecrets.revoke'',
      available ''identityUniversalAuth.lockouts.clear'',
      unavailable ''identityUniversalAuth.trustedIps.update''
        (''trusted-IP mutation is an enterprise feature; current ranges remain visible as ''
         @ ''read-only metadata''),
      available ''identityTokenAuth.read'',
      available ''identityTokenAuth.attach'',
      available ''identityTokenAuth.update'',
      available ''identityTokenAuth.remove'',
      available ''identityTokenAuth.tokens.read'',
      available ''identityTokenAuth.tokens.create'',
      available ''identityTokenAuth.tokens.update'',
      available ''identityTokenAuth.tokens.revoke'',
      unavailable ''identityTokenAuth.trustedIps.update''
        (''trusted-IP mutation is an enterprise feature; current ranges remain visible as ''
         @ ''read-only metadata'')]"

definition project_membership_capabilities :: "capability list" where
  "project_membership_capabilities =
     [available ''projectUserMemberships.read'',
      available ''projectUserMemberships.invite'',
      available ''projectUserMemberships.update'',
      available ''projectUserMemberships.delete'',
      available ''projectIdentityMemberships.read'',
      available ''projectIdentityMemberships.create'',
      available ''projectIdentityMemberships.update'',
      available ''projectIdentityMemberships.delete'',
      unavailable ''projectMemberships.temporaryRoles.update''
        (''temporary role creation and scheduling are not implemented; confirmed complete ''
         @ ''replacement may remove omitted temporary assignments'')]"

definition role_capabilities :: "capability list" where
  "role_capabilities =
     [available ''projectRoles.read'',
      unavailable ''projectRoles.admin''
        (''custom project-role creation and update require Infisical's RBAC plan feature; ''
         @ ''partial destructive administration is not exposed''),
      available ''organizationRoles.read'',
      unavailable ''organizationRoles.admin''
        (''custom organization-role creation and update require Infisical's RBAC plan ''
         @ ''feature; partial destructive administration is not exposed'')]"

definition group_capabilities :: "capability list" where
  "group_capabilities =
     [available ''groups.read'',
      unavailable ''groups.admin''
        (''group creation, update, and deletion require Infisical's Groups plan feature; ''
         @ ''partial administration is not exposed''),
      available ''projectGroupMemberships.read'',
      unavailable ''projectGroupMemberships.admin''
        (''project group-membership administration depends on the plan-gated group ''
         @ ''lifecycle and temporary role scheduling is not implemented'')]"

definition identity_project_additional_privilege_capabilities :: "capability list" where
  "identity_project_additional_privilege_capabilities =
     [available ''identityProjectAdditionalPrivileges.read'',
      available ''identityProjectAdditionalPrivileges.create'',
      available ''identityProjectAdditionalPrivileges.update'',
      available ''identityProjectAdditionalPrivileges.delete'',
      unavailable ''userProjectAdditionalPrivileges.read''
        (''the pinned user additional-privilege routes require a user JWT and do not accept ''
         @ ''Universal Auth identity tokens''),
      unavailable ''userProjectAdditionalPrivileges.admin''
        (''the pinned user additional-privilege routes require a user JWT and do not accept ''
         @ ''Universal Auth identity tokens'')]"

definition kubernetes_auth_capabilities :: "capability list" where
  "kubernetes_auth_capabilities =
     [available ''identityKubernetesAuth.read'',
      available ''identityKubernetesAuth.attach'',
      available ''identityKubernetesAuth.update'',
      available ''identityKubernetesAuth.remove'',
      unavailable ''identityKubernetesAuth.trustedIps.update''
        (''trusted-IP mutation is an enterprise feature; current ranges remain visible as ''
         @ ''read-only metadata''),
      unavailable ''identityKubernetesAuth.gateway.update''
        (''Kubernetes token review through an Infisical Gateway requires a paid plan; ''
         @ ''existing gateway IDs remain visible as read-only metadata''),
      unavailable ''identityKubernetesAuth.gatewayPool.update''
        (''Kubernetes token review through a Gateway Pool requires an Enterprise plan; ''
         @ ''existing pool IDs remain visible as read-only metadata'')]"

definition unimplemented_provider_auth_capabilities :: "capability list" where
  "unimplemented_provider_auth_capabilities =
     [unavailable ''identityAwsAuth.admin''
        (''AWS IAM Auth is intentionally not implemented in this server''),
      unavailable ''identityGcpAuth.admin''
        (''GCP Auth is intentionally not implemented in this server''),
      unavailable ''identityAzureAuth.admin''
        (''Azure Auth is intentionally not implemented in this server''),
      unavailable ''identityOidcAuth.admin''
        (''OIDC Auth is intentionally not implemented in this server''),
      unavailable ''identityJwtAuth.admin''
        (''JWT Auth is intentionally not implemented in this server''),
      unavailable ''identityLdapAuth.admin''
        (''LDAP Auth is intentionally not implemented in this server''),
      unavailable ''identityOciAuth.admin''
        (''OCI Auth is intentionally not implemented in this server''),
      unavailable ''identityAliCloudAuth.admin''
        (''Alibaba Cloud Auth is intentionally not implemented in this server''),
      unavailable ''identityTlsCertificateAuth.admin''
        (''TLS Certificate Auth is intentionally not implemented in this server''),
      unavailable ''identitySpiffeAuth.admin''
        (''SPIFFE Auth is intentionally not implemented in this server'')]"

definition dynamic_secret_capabilities :: "capability list" where
  "dynamic_secret_capabilities =
     [available ''dynamicSecrets.read'',
      available ''dynamicSecrets.updateSettings'',
      available ''dynamicSecrets.delete'',
      available ''dynamicSecretLeases.read'',
      available ''dynamicSecretLeases.renew'',
      available ''dynamicSecretLeases.revoke'',
      available ''dynamicSecrets.create'',
      available ''dynamicSecretLeases.create'',
      unavailable ''dynamicSecrets.create.providersExceptSqlDatabase''
        (''typed creation is currently implemented only for the sqlDatabase provider variant''),
      unavailable ''dynamicSecrets.updateProviderInputs''
        (''the pinned API exposes only a name-addressed replacement without an ID or ''
         @ ''version precondition, so a concurrent delete and recreation cannot be targeted ''
         @ ''safely''),
      unavailable ''dynamicSecretLeases.create.providersExceptSqlDatabase''
        (''typed one-time lease credentials are currently implemented only for the ''
         @ ''sqlDatabase provider variant'')]"

definition app_automation_capabilities :: "capability list" where
  "app_automation_capabilities =
     [available ''appConnections.read'',
      available ''appConnections.github.admin'',
      available ''appConnections.github.rotateCredentials'',
      unavailable ''appConnections.otherProviders.admin''
        (''provider-tagged administration is currently implemented only for the pinned ''
         @ ''GitHub contract''),
      available ''secretSyncs.read'',
      available ''secretSyncs.github.admin'',
      unavailable ''secretSyncs.otherDestinations.admin''
        (''provider-tagged administration is currently implemented only for the pinned ''
         @ ''GitHub destination contract''),
      available ''secretSyncs.github.run'',
      unavailable ''secretSyncs.github.import''
        (''the pinned GitHub destination declares canImportSecrets false''),
      unavailable ''secretSyncs.otherDestinations.run''
        (''manual jobs for other destination-tagged contracts are not implemented''),
      available ''secretRotations.read'',
      available ''secretRotations.sql.admin'',
      available ''secretRotations.sql.generatedCredentials.read'',
      available ''secretRotations.sql.rotate'',
      available ''secretRotations.sql.checkCredentials'',
      unavailable ''secretRotations.otherProviders.lifecycle''
        (''provider-tagged lifecycle operations are implemented only for PostgreSQL, MySQL, ''
         @ ''Microsoft SQL Server, and Oracle Database credential rotations; all other pinned ''
         @ ''providers, including AWS IAM, remain unavailable'')]"

definition certificate_authority_capabilities :: "capability list" where
  "certificate_authority_capabilities =
     [available ''certificateAuthorities.read'',
      available ''certificateAuthorities.internal.create'',
      available ''certificateAuthorities.internal.update'',
      available ''certificateAuthorities.internal.delete'',
      unavailable ''certificateAuthorities.external.admin''
        (''external provider credentials remain closed while value-free metadata is ''
         @ ''available through certificateAuthorities.list''),
      available ''certificateAuthorities.internal.certificateOperations'',
      unavailable ''certificateAuthorities.internal.signingConfig''
        (''external Venafi and Azure AD CS signing-provider configuration is outside the ''
         @ ''enabled provider set''),
      unavailable ''certificateAuthorities.internal.autoRenewal''
        (''CA auto-renewal configuration is not implemented in this build; explicit ''
         @ ''one-shot renewal is available''),
      unavailable ''certificateAuthorities.internal.installExternalCertificate''
        (''queued Venafi and Azure AD CS certificate installation is outside the enabled ''
         @ ''provider set''),
      unavailable ''certificateAuthorities.der.read''
        (''the pinned DER-serving route is intentionally public and does not authenticate a ''
         @ ''Machine Identity''),
      unavailable ''certificateAuthorities.deprecatedPkiRoutes''
        (''deprecated /api/v1/pki routes are not exposed; this server uses the current ''
         @ ''/api/v1/cert-manager contract'')]"

definition certificate_capabilities :: "capability list" where
  "certificate_capabilities =
     [available ''certificates.inventory'',
      available ''certificates.issue'',
      available ''certificates.renew'',
      available ''certificates.revoke'',
      available ''certificates.renewalConfiguration.update'',
      available ''certificates.delete'',
      available ''certificates.materialTransfer'',
      available ''certificateRequests.observe'',
      available ''certificateRequests.result.reveal'',
      available ''certificateRequests.cancel'']"

definition certificate_policy_capabilities :: "capability list" where
  "certificate_policy_capabilities =
     [available ''certificatePolicies.read'',
      available ''certificatePolicies.create'',
      available ''certificatePolicies.update'',
      available ''certificatePolicies.delete'']"

definition certificate_profile_capabilities :: "capability list" where
  "certificate_profile_capabilities =
     [available ''certificateProfiles.read'',
      available ''certificateProfiles.create'',
      available ''certificateProfiles.update'',
      available ''certificateProfiles.delete'',
      available ''certificateProfiles.certificates.read'',
      available ''certificateProfiles.latestActiveBundle.reveal'',
      available ''certificateProfiles.acmeEabSecret.reveal'']"

definition ssh_certificate_authority_capabilities :: "capability list" where
  "ssh_certificate_authority_capabilities =
     [available ''sshCertificateAuthorities.read'',
      available ''sshCertificateAuthorities.create'',
      available ''sshCertificateAuthorities.replace'',
      available ''sshCertificateAuthorities.delete'',
      available ''sshCertificateTemplates.read'',
      available ''sshCertificateTemplates.create'',
      available ''sshCertificateTemplates.replace'',
      available ''sshCertificateTemplates.delete'',
      available ''sshCertificates.sign'',
      available ''sshCertificates.issue'',
      available ''sshHosts.read'',
      available ''sshHosts.create'',
      available ''sshHosts.replace'',
      available ''sshHosts.delete'',
      available ''sshHosts.hostCertificate.issue'',
      unavailable ''sshHosts.globalInventory.read''
        (''the pinned global inventory route requires JWT and cannot be served through ''
         @ ''Universal Auth''),
      unavailable ''sshHosts.userCertificate.issue''
        (''the pinned route requires JWT and cannot be served through Universal Auth''),
      available ''sshHostGroups.read'',
      available ''sshHostGroups.create'',
      available ''sshHostGroups.replace'',
      available ''sshHostGroups.delete'',
      available ''sshHostGroups.membership.change'']"

definition code_signer_capabilities :: "capability list" where
  "code_signer_capabilities =
     [available ''codeSigners.read'',
      available ''codeSigners.create'',
      available ''codeSigners.update'',
      available ''codeSigners.delete'',
      available ''codeSigners.status.update'',
      available ''codeSigners.certificate.reissue.internal'',
      available ''codeSigners.certificate.export'',
      available ''codeSigners.publicKey.read'',
      available ''codeSigners.sign'',
      available ''codeSigners.members.read'',
      available ''codeSigners.members.add'',
      available ''codeSigners.members.role.update'',
      available ''codeSigners.members.remove'',
      available ''codeSigners.effectiveMembers.read'',
      available ''codeSigners.permissions.read'',
      available ''codeSigners.approvalPolicy.read'',
      available ''codeSigners.approvalPolicy.replace'',
      available ''codeSigners.approvalRequests.read'',
      available ''codeSigners.approvalRequests.create'',
      available ''codeSigners.approvalRequests.preApprove'',
      available ''codeSigners.approvalRequests.revoke'',
      available ''codeSigners.operations.read'',
      unavailable ''codeSigners.certificate.issue.external''
        (''external certificate-authority provider families are not implemented in this build''),
      unavailable ''codeSigners.certificate.reissue.external''
        (''external certificate-authority provider families are not implemented in this build'')]"

definition kms_capabilities :: "capability list" where
  "kms_capabilities =
     [available ''kms.keys.read'',
      available ''kms.keys.create'',
      available ''kms.keys.update'',
      available ''kms.keys.delete'',
      available ''kms.keys.bulkImport'',
      available ''kms.keys.privateMaterial.reveal'',
      available ''kms.encrypt'',
      available ''kms.decrypt'',
      available ''kms.sign'',
      available ''kms.verify'',
      unavailable ''kms.postQuantum.entitlementDetection''
        (''post-quantum algorithms remain accepted as pinned typed variants, but Infisical ''
         @ ''enforces the kmsPqc plan entitlement and exposes no identity-token entitlement ''
         @ ''probe'')]"

definition secret_capabilities :: "capability list" where
  "secret_capabilities =
     [available ''secretMetadata.read'',
      available ''secrets.reveal'',
      available ''secrets.create'',
      available ''secrets.update'',
      available ''secrets.delete'',
      available ''secrets.batch.create'',
      available ''secrets.batch.update'',
      available ''secrets.batch.delete'',
      available ''secretImports.list'',
      available ''secretImports.get'',
      available ''secretImports.create'',
      available ''secretImports.update'',
      available ''secretImports.delete'',
      unavailable ''secretImports.values.read''
        (''bulk imported-secret values are intentionally omitted; reveal one exact secret ''
         @ ''with secrets.reveal''),
      unavailable ''secretImports.replicationResync''
        (''the pinned replication-resync route does not accept Universal Auth identity tokens''),
      unavailable ''secretVersions.read''
        (''the pinned secret-version route does not accept Universal Auth identity tokens''),
      unavailable ''secrets.rollback''
        (''supported point-in-time recovery routes require a user JWT; the older Universal ''
         @ ''Auth snapshot route is deprecated and always rejects requests''),
      unavailable ''organizations.read''
        (''the pinned organization read routes require a user JWT and do not accept ''
         @ ''Universal Auth identity tokens''),
      unavailable ''organizations.admin''
        (''the pinned organization administration routes require a user JWT and do not ''
         @ ''accept Universal Auth identity tokens'')]"

definition certificate_omission_capabilities :: "capability list" where
  "certificate_omission_capabilities =
     [unavailable ''certificateTemplates.admin''
        (''general certificate-template administration is not implemented; typed ''
         @ ''certificate profiles own the supported enrollment workflows''),
      unavailable ''certificateSyncs.admin''
        (''certificate synchronization providers are not implemented in this server''),
      unavailable ''pkiAlerts.admin''
        (''certificate alert administration is not implemented in this server''),
      unavailable ''pkiCollections.admin''
        (''legacy PKI collection administration is not implemented in this server''),
      unavailable ''pkiDiscovery.admin''
        (''certificate discovery jobs and scans are not implemented in this server''),
      unavailable ''pkiInstallations.admin''
        (''certificate installation targets are not implemented in this server'')]"

definition identity_omission_capabilities :: "capability list" where
  "identity_omission_capabilities =
     [unavailable ''identities.search''
        (''the server exposes bounded identity inventory and exact reads rather than the ''
         @ ''upstream search and count endpoints''),
      unavailable ''identityAuth.tokenMinting''
        (''provider login and access-token lifecycle routes are not MCP tools; callers ''
         @ ''authenticate to the gateway and the server owns its dedicated upstream token''),
      unavailable ''organizationGroupMemberships.admin''
        (''organization group-membership administration is plan-gated and not exposed as a ''
         @ ''partial lifecycle''),
      unavailable ''organizationSso.admin''
        (''organization SSO administration requires a user JWT and is not exposed through ''
         @ ''the Machine Identity''),
      unavailable ''organizationScim.admin''
        (''organization SCIM administration requires a user JWT and is not exposed through ''
         @ ''the Machine Identity''),
      unavailable ''serviceTokens.read''
        (''legacy service tokens are superseded by Machine Identities and typed ''
         @ ''authentication methods''),
      unavailable ''subOrganizations.admin''
        (''sub-organization administration is not implemented in this server''),
      unavailable ''users.read''
        (''current-user and user-organization routes require a user JWT and do not accept ''
         @ ''the dedicated Machine Identity'')]"

definition auxiliary_omission_capabilities :: "capability list" where
  "auxiliary_omission_capabilities =
     [unavailable ''admin.bootstrap''
        (''instance bootstrap is an out-of-band one-time operation and is not reachable ''
         @ ''through the management server''),
      unavailable ''events.subscriptions''
        (''long-lived event subscriptions are outside the stateless MCP request contract''),
      unavailable ''externalMigrations.admin''
        (''provider migration workflows are not implemented in this server''),
      unavailable ''integrations.admin''
        (''the pinned snapshot has no non-deprecated Machine-Identity-compatible ''
         @ ''integration administration contract''),
      unavailable ''projectTemplates.admin''
        (''project-template administration is not implemented in this server''),
      unavailable ''secretScanning.admin''
        (''secret-scanning configuration, sources, scans, and findings are not implemented ''
         @ ''in this server''),
      unavailable ''secrets.duplicate''
        (''bulk secret duplication is intentionally omitted; writes require exact typed ''
         @ ''targets''),
      unavailable ''sharedSecrets.admin''
        (''anonymous shared-secret links are outside the exact authenticated reveal boundary''),
      unavailable ''webhooks.admin''
        (''the pinned snapshot has no non-deprecated Machine-Identity-compatible webhook ''
         @ ''administration contract'')]"

definition capability_list :: "capability list" where
  "capability_list =
     base_capabilities @ project_membership_capabilities @ role_capabilities @ group_capabilities @ identity_project_additional_privilege_capabilities
     @ kubernetes_auth_capabilities @ unimplemented_provider_auth_capabilities
     @ dynamic_secret_capabilities @ app_automation_capabilities
     @ certificate_authority_capabilities @ certificate_capabilities @ certificate_policy_capabilities @ certificate_profile_capabilities
     @ ssh_certificate_authority_capabilities @ code_signer_capabilities @ kms_capabilities
     @ secret_capabilities @ certificate_omission_capabilities @ identity_omission_capabilities @ auxiliary_omission_capabilities"

definition capability_json :: "capability \<Rightarrow> json" where
  "capability_json c =
     object_of ([(''name'', String (cap_name c)), (''available'', Bool (cap_available c))]
       @ optional_field ''reason'' (map_option String (cap_reason c)))"

definition explained :: "capability \<Rightarrow> bool" where
  "explained c \<longleftrightarrow> (cap_available c \<longleftrightarrow> cap_reason c = None)"

lemma capabilities_explained: "list_all explained capability_list"
  by (simp add: explained_def available_def unavailable_def capability_list_def base_capabilities_def
      project_membership_capabilities_def
      role_capabilities_def
      group_capabilities_def
      identity_project_additional_privilege_capabilities_def
      kubernetes_auth_capabilities_def
      unimplemented_provider_auth_capabilities_def
      dynamic_secret_capabilities_def
      app_automation_capabilities_def
      certificate_authority_capabilities_def
      certificate_capabilities_def
      certificate_policy_capabilities_def
      certificate_profile_capabilities_def
      ssh_certificate_authority_capabilities_def
      code_signer_capabilities_def
      kms_capabilities_def
      secret_capabilities_def
      certificate_omission_capabilities_def
      identity_omission_capabilities_def
      auxiliary_omission_capabilities_def)

end
