(* ===== verification/Argument_Decoding.thy ===== *)
theory Argument_Decoding
  imports Mcp_Types
begin

text \<open>
  Decoding of tool arguments (\<open>parse_arguments\<close> of \<open>infisical-mcp/src/tools.rs\<close> and the derived
  deserialisers of its argument structs): field names with their aliases, unknown and duplicate
  fields refused, a value per field. The correction text for arguments that do not decode
  (\<open>argument_error::correction\<close> over the derived schema) is a parameter.
\<close>

section \<open>Structs with named fields\<close>

fun decode_struct ::
    "(string \<Rightarrow> 'f option) \<Rightarrow> 'f list \<Rightarrow> (string \<times> json) list \<Rightarrow> ('f \<times> json) list option" where
  "decode_struct field_of seen [] = Some []"
| "decode_struct field_of seen ((k, v) # m) =
     (case field_of k of
        None \<Rightarrow> None
      | Some f \<Rightarrow>
          if f \<in> set seen then None
          else map_option ((#) (f, v)) (decode_struct field_of (f # seen) m))"

text \<open>Values: a field that must be present, one with a default, and the primitive types.\<close>

definition required_field :: "('f \<times> json) list \<Rightarrow> 'f \<Rightarrow> (json \<Rightarrow> 'a option) \<Rightarrow> 'a option" where
  "required_field fs f decode = Option.bind (map_of fs f) decode"

definition default_field :: "('f \<times> json) list \<Rightarrow> 'f \<Rightarrow> 'a \<Rightarrow> (json \<Rightarrow> 'a option) \<Rightarrow> 'a option" where
  "default_field fs f fallback decode = (case map_of fs f of None \<Rightarrow> Some fallback | Some v \<Rightarrow> decode v)"

definition decode_string :: "json \<Rightarrow> string option" where "decode_string = as_str"

definition decode_bool :: "json \<Rightarrow> bool option" where
  "decode_bool j = (case j of Bool b \<Rightarrow> Some b | _ \<Rightarrow> None)"

definition decode_usize :: "json \<Rightarrow> nat option" where
  "decode_usize j = (case j of Number (Unsigned n) \<Rightarrow> if n < 2 ^ 64 then Some n else None | _ \<Rightarrow> None)"

definition decode_map :: "json \<Rightarrow> (string \<times> json) list option" where
  "decode_map j = (case j of Object m \<Rightarrow> Some m | _ \<Rightarrow> None)"

definition decode_option :: "(json \<Rightarrow> 'a option) \<Rightarrow> json \<Rightarrow> 'a option option" where
  "decode_option decode j = (if j = Null then Some None else map_option Some (decode j))"

text \<open>A unit variant: its name, or an object with the name as its only key and a null value.\<close>

definition decode_variant :: "(string \<Rightarrow> 'a option) \<Rightarrow> json \<Rightarrow> 'a option" where
  "decode_variant variant j =
     (case j of
        String s \<Rightarrow> variant s
      | Object [(s, Null)] \<Rightarrow> variant s
      | _ \<Rightarrow> None)"

lemma decode_struct_keys:
  "decode_struct field_of seen m = Some fs \<Longrightarrow>
     map snd fs = map snd m \<and> list_all2 (\<lambda>(k, _) (f, _). field_of k = Some f) m fs
     \<and> distinct (map fst fs) \<and> (\<forall>f \<in> set seen. f \<notin> set (map fst fs))"
  by (induction field_of seen m arbitrary: fs rule: decode_struct.induct)
    (fastforce split: option.splits if_splits)+

lemma decode_struct_fields:
  assumes "decode_struct field_of seen m = Some fs"
  shows "set fs = {(f, v). \<exists>k. (k, v) \<in> set m \<and> field_of k = Some f}"
  using assms
  by (induction field_of seen m arbitrary: fs rule: decode_struct.induct)
    (auto split: option.splits if_splits)

lemma decode_struct_unique:
  "decode_struct field_of seen m = Some fs \<Longrightarrow> (k, v) \<in> set m \<Longrightarrow> (k', v') \<in> set m \<Longrightarrow>
     field_of k = Some f \<Longrightarrow> field_of k' = Some f \<Longrightarrow> k = k' \<and> v = v'"
proof (induction field_of seen m arbitrary: fs rule: decode_struct.induct)
  case (2 field_of seen k0 v0 m)
  from 2(2) obtain f0 gs where f0: "field_of k0 = Some f0"
    and gs: "decode_struct field_of (f0 # seen) m = Some gs"
    by (auto split: option.splits if_splits)
  have "f0 \<notin> set (map fst gs)" using decode_struct_keys [OF gs] by auto
  then have "field_of j \<noteq> Some f0" if "(j, w) \<in> set m" for j w
    using decode_struct_fields [OF gs] that by force
  with 2 f0 gs show ?case by (auto split: if_splits)
qed simp

text \<open>The value of a field is the value of the one key that names it.\<close>

lemma decode_struct_get:
  assumes "decode_struct field_of [] m = Some fs" and "field_of k = Some f"
    and "map_of m k = Some v"
  shows "map_of fs f = Some v"
proof -
  have "(f, v) \<in> set fs"
    using decode_struct_fields [OF assms(1)] assms(2) map_of_SomeD [OF assms(3)] by blast
  moreover have "distinct (map fst fs)" using decode_struct_keys [OF assms(1)] by simp
  ultimately show ?thesis by simp
qed

lemma decode_struct_missing:
  assumes "decode_struct field_of [] m = Some fs" and "map_of fs f = Some v"
  obtains k where "field_of k = Some f" and "map_of m k = Some v"
    and "\<And>k'. field_of k' = Some f \<Longrightarrow> k' \<noteq> k \<Longrightarrow> map_of m k' = None"
proof -
  from map_of_SomeD [OF assms(2)] obtain k where k: "(k, v) \<in> set m" "field_of k = Some f"
    using decode_struct_fields [OF assms(1)] by blast
  have only: "k' = k \<and> w = v" if "(k', w) \<in> set m" "field_of k' = Some f" for k' w
    using decode_struct_unique [OF assms(1) that(1) k(1) that(2) k(2)] by simp
  have "map_of m k = Some v"
  proof (cases "map_of m k")
    case None
    with k(1) show ?thesis by (force simp: map_of_eq_None_iff)
  next
    case (Some w)
    then show ?thesis using only [OF map_of_SomeD [OF Some] k(2)] by simp
  qed
  moreover have "map_of m k' = None" if "field_of k' = Some f" "k' \<noteq> k" for k'
    using only that by (metis map_of_SomeD option.exhaust)
  ultimately show thesis using that k(2) by blast
qed

section \<open>Arguments of a call\<close>

record call_params =
  cp_name :: string
  cp_arguments :: "(string \<times> json) list option"

text \<open>
  \<open>correction\<close> yields the text and the path of the rejected field for a type, the arguments and the
  fallback message.
\<close>

type_synonym correction = "string \<Rightarrow> (string \<times> json) list \<Rightarrow> string \<Rightarrow> string \<times> string"

definition parse_arguments ::
    "correction \<Rightarrow> string \<Rightarrow> ((string \<times> json) list \<Rightarrow> 'a option) \<Rightarrow> string \<Rightarrow> call_params
      \<Rightarrow> (mcp_error, 'a) result" where
  "parse_arguments correction type decode message params =
     (let arguments = (case cp_arguments params of None \<Rightarrow> [] | Some m \<Rightarrow> m) in
      case decode arguments of
        Some x \<Rightarrow> Ok x
      | None \<Rightarrow>
          (let (text, path) = correction type arguments message in
           Err (invalid_params text (Some (object_of [(''argumentFieldPath'', String path)])))))"

lemma parse_arguments_Ok [simp]:
  "parse_arguments correction type decode message params = Ok x
     \<longleftrightarrow> decode (case cp_arguments params of None \<Rightarrow> [] | Some m \<Rightarrow> m) = Some x"
  by (auto simp: parse_arguments_def Let_def split: option.splits prod.splits)

lemma parse_arguments_Err:
  "parse_arguments correction type decode message params = Err e \<Longrightarrow> me_code e = Invalid_Params"
  by (auto simp: parse_arguments_def Let_def invalid_params_def split: option.splits prod.splits)

end
