(* ===== verification/Operation_Catalog.thy ===== *)
theory Operation_Catalog
  imports Operation_Policy
begin

text \<open>
  The catalog of typed operations of \<open>crates/infisical-mcp/src/tools.rs\<close>: one list per
  \<open>*_tools\<close> function, in the order \<open>build_operation_catalog\<close> joins them. The JSON schemas that
  \<open>schemars\<close> derives from the Rust input and output types are a parameter of the model, so a
  definition keeps the names of the two types in the place of the schema constructors.
\<close>

section \<open>Tiers\<close>

datatype tool_tier = Read | Read_Audited | Write | Destroy

fun tier_executor :: "tool_tier \<Rightarrow> string" where
  "tier_executor Read = INFISICAL_READ_TOOL"
| "tier_executor Read_Audited = INFISICAL_READ_AUDITED_TOOL"
| "tier_executor Write = INFISICAL_WRITE_TOOL"
| "tier_executor Destroy = INFISICAL_DESTROY_TOOL"

fun tier_slug :: "tool_tier \<Rightarrow> string" where
  "tier_slug Read = ''read''"
| "tier_slug Read_Audited = ''readAudited''"
| "tier_slug Write = ''write''"
| "tier_slug Destroy = ''destroy''"

definition all_tiers :: "tool_tier list" where "all_tiers = [Read, Read_Audited, Write, Destroy]"

definition executor_tier :: "string \<Rightarrow> tool_tier option" where
  "executor_tier name = find (\<lambda>tier. tier_executor tier = name) all_tiers"

text \<open>\<open>ToolTier::annotations\<close>: the read-only, destructive and idempotent hints.\<close>

fun tier_hints :: "tool_tier \<Rightarrow> bool \<times> bool \<times> bool" where
  "tier_hints Read = (True, False, True)"
| "tier_hints Read_Audited = (False, False, False)"
| "tier_hints Write = (False, False, False)"
| "tier_hints Destroy = (False, True, False)"

section \<open>Operations\<close>

record operation_definition =
  od_name :: string
  od_description :: string
  od_tier :: tool_tier
  od_open_world :: bool
  od_policy :: policy_facts
  od_input :: string
  od_output :: string

definition tiered_tool ::
    "string \<Rightarrow> string \<Rightarrow> string \<Rightarrow> string \<Rightarrow> tool_tier \<Rightarrow> bool \<Rightarrow> operation_definition" where
  "tiered_tool input_type output_type name description tier open_world =
     \<lparr>od_name = name, od_description = description, od_tier = tier, od_open_world = open_world,
      od_policy = facts name, od_input = input_type, od_output = output_type\<rparr>"

definition mutation_tool ::
    "string \<Rightarrow> string \<Rightarrow> string \<Rightarrow> string \<Rightarrow> bool \<Rightarrow> operation_definition" where
  "mutation_tool input_type output_type name description destructive =
     tiered_tool input_type output_type name description (if destructive then Destroy else Write) True"

definition observable_read_tool ::
    "string \<Rightarrow> string \<Rightarrow> string \<Rightarrow> string \<Rightarrow> operation_definition" where
  "observable_read_tool input_type output_type name description =
     tiered_tool input_type output_type name description Read_Audited True"

definition read_tool ::
    "string \<Rightarrow> string \<Rightarrow> string \<Rightarrow> string \<Rightarrow> bool \<Rightarrow> operation_definition" where
  "read_tool input_type output_type name description open_world =
     tiered_tool input_type output_type name description Read open_world"

lemmas tool_defs = tiered_tool_def mutation_tool_def observable_read_tool_def read_tool_def

section \<open>The families\<close>

definition discovery_tools :: "operation_definition list" where
  "discovery_tools =
     [read_tool ''ProjectsListInput'' ''Page<projections::ProjectSummary>'' PROJECTS_LIST_TOOL
        ''List a bounded page of projects visible to the dedicated Infisical Machine Identity.'' True,
      read_tool ''ProjectGetInput'' ''ProjectGetOutput'' PROJECTS_GET_TOOL
        ''Get concise metadata for one project by exact Infisical project ID.'' True]"

definition project_environment_tools :: "operation_definition list" where
  "project_environment_tools =
     [mutation_tool ''ProjectCreateInput'' ''Project'' PROJECTS_CREATE_TOOL
        ''Create one typed Infisical project with explicit default-environment and deletion-protection settings.'' False,
      mutation_tool ''ProjectUpdateInput'' ''Project'' PROJECTS_UPDATE_TOOL
        ''Apply one exact name, description, slug, protection, capitalization, metadata-encryption, sharing, or retention change to a project.'' False,
      mutation_tool ''ProjectDeleteInput'' ''Project'' PROJECTS_DELETE_TOOL
        ''Soft-delete one exact project after explicit confirmation; Infisical schedules later cleanup.'' True,
      read_tool ''ProjectPageInput'' ''EnvironmentsListOutput'' ENVIRONMENTS_LIST_TOOL
        ''List a bounded page of environments embedded in one exact Infisical project.'' True,
      read_tool ''EnvironmentTargetInput'' ''Environment'' ENVIRONMENTS_GET_TOOL
        ''Get one environment by exact project and environment identifiers.'' True,
      mutation_tool ''EnvironmentCreateInput'' ''Environment'' ENVIRONMENTS_CREATE_TOOL
        ''Create one environment with an exact name, slug, and optional bounded position.'' False,
      mutation_tool ''EnvironmentUpdateInput'' ''Environment'' ENVIRONMENTS_UPDATE_TOOL
        ''Apply one exact name, slug, or position change to an environment.'' False,
      mutation_tool ''EnvironmentDeleteInput'' ''Environment'' ENVIRONMENTS_DELETE_TOOL
        ''Soft-delete one exact environment after explicit confirmation; hard deletion is not exposed.'' True,
      mutation_tool ''EnvironmentTargetInput'' ''Environment'' ENVIRONMENTS_RESTORE_TOOL
        ''Restore one previously soft-deleted environment by exact identifiers.'' False]"

definition folder_tag_tools :: "operation_definition list" where
  "folder_tag_tools =
     [read_tool ''SecretScopePageInput'' ''Page<Folder>'' FOLDERS_LIST_TOOL
        ''List a bounded page of folders under an exact project, environment, and secret-tree path.'' True,
      read_tool ''FolderGetInput'' ''Folder'' FOLDERS_GET_TOOL
        ''Get one folder by exact opaque Infisical folder ID.'' True,
      mutation_tool ''FolderCreateInput'' ''Folder'' FOLDERS_CREATE_TOOL
        ''Create one folder under an exact parent path; Infisical may create missing parent segments.'' False,
      mutation_tool ''FolderUpdateInput'' ''Folder'' FOLDERS_UPDATE_TOOL
        ''Replace one folder's complete name and nullable description at its exact parent path.'' False,
      mutation_tool ''FolderBatchUpdateInput'' ''FolderBatch'' FOLDERS_BATCH_UPDATE_TOOL
        ''Replace the complete mutable state of one to fifty uniquely identified folders in one project.'' False,
      mutation_tool ''FolderDeleteInput'' ''Folder'' FOLDERS_DELETE_TOOL
        ''Delete one exact folder after confirmation; forceDelete must be explicitly selected to remove contained resources.'' True,
      read_tool ''ProjectPageInput'' ''Page<Tag>'' TAGS_LIST_TOOL
        ''List a bounded page of secret tags defined for one exact Infisical project.'' True,
      read_tool ''TagGetInput'' ''Tag'' TAGS_GET_TOOL
        ''Get one project tag by an exact opaque ID or stable slug.'' True,
      mutation_tool ''TagCreateInput'' ''Tag'' TAGS_CREATE_TOOL
        ''Create one project tag with an exact slug and bounded color string.'' False,
      mutation_tool ''TagUpdateInput'' ''Tag'' TAGS_UPDATE_TOOL
        ''Replace one project tag's complete slug and color state.'' False,
      mutation_tool ''TagDeleteInput'' ''Tag'' TAGS_DELETE_TOOL
        ''Permanently delete one exact project tag after explicit confirmation.'' True]"

definition identity_tools :: "operation_definition list" where
  "identity_tools =
     [read_tool ''IdentityPageInput'' ''Page<MachineIdentity>'' IDENTITIES_LIST_TOOL
        ''List a bounded page of non-secret machine-identity metadata for one exact organization.'' True,
      read_tool ''IdentityTargetInput'' ''MachineIdentity'' IDENTITIES_GET_TOOL
        ''Get non-secret metadata and organization membership for one exact machine identity.'' True,
      mutation_tool ''IdentityCreateInput'' ''MachineIdentity'' IDENTITIES_CREATE_TOOL
        ''Create one machine identity with a built-in role and delete protection enabled by default.'' False,
      mutation_tool ''IdentityUpdateInput'' ''MachineIdentity'' IDENTITIES_UPDATE_TOOL
        ''Apply one exact name, built-in role, or delete-protection change to a machine identity.'' False,
      mutation_tool ''IdentityDeleteInput'' ''MachineIdentity'' IDENTITIES_DELETE_TOOL
        ''Permanently delete one exact machine identity and its credentials after explicit confirmation.'' True]"

definition project_membership_tools :: "operation_definition list" where
  "project_membership_tools =
     [read_tool ''ProjectMembershipPageInput'' ''Page<ProjectUserMembership>'' PROJECT_USER_MEMBERSHIPS_LIST_TOOL
        ''List a bounded page of sanitized human-user memberships and role assignments for one project.'' True,
      read_tool ''ProjectUserMembershipTargetInput'' ''ProjectUserMembership'' PROJECT_USER_MEMBERSHIPS_GET_TOOL
        ''Get one sanitized human-user project membership by exact membership ID.'' True,
      mutation_tool ''ProjectUserMembershipInviteInput'' ''ProjectMembershipMutationReceiptBatch'' PROJECT_USER_MEMBERSHIPS_INVITE_TOOL
        ''Invite one to fifty lowercase user handles with a complete permanent role assignment.'' False,
      mutation_tool ''ProjectUserMembershipUpdateInput'' ''ProjectMembershipRoleSet'' PROJECT_USER_MEMBERSHIPS_UPDATE_TOOL
        ''Replace every role on one human-user membership with confirmed permanent assignments.'' True,
      mutation_tool ''ProjectUserMembershipDeleteInput'' ''ProjectMembershipMutationReceipt'' PROJECT_USER_MEMBERSHIPS_DELETE_TOOL
        ''Remove one exact human-user project membership after explicit confirmation.'' True,
      read_tool ''ProjectMembershipPageInput'' ''Page<ProjectIdentityMembership>'' PROJECT_IDENTITY_MEMBERSHIPS_LIST_TOOL
        ''List a bounded page of machine-identity memberships and role assignments for one project.'' True,
      read_tool ''ProjectIdentityMembershipTargetInput'' ''ProjectIdentityMembership'' PROJECT_IDENTITY_MEMBERSHIPS_GET_TOOL
        ''Get one machine-identity project membership by exact project and identity IDs.'' True,
      mutation_tool ''ProjectIdentityMembershipRoleInput'' ''ProjectMembershipMutationReceipt'' PROJECT_IDENTITY_MEMBERSHIPS_CREATE_TOOL
        ''Add one machine identity to a project with a complete permanent role assignment.'' False,
      mutation_tool ''ProjectIdentityMembershipUpdateInput'' ''ProjectMembershipMutationReceipt'' PROJECT_IDENTITY_MEMBERSHIPS_UPDATE_TOOL
        ''Replace every role on one machine-identity membership with confirmed permanent assignments.'' True,
      mutation_tool ''ProjectIdentityMembershipDeleteInput'' ''ProjectMembershipMutationReceipt'' PROJECT_IDENTITY_MEMBERSHIPS_DELETE_TOOL
        ''Remove one exact machine-identity project membership after explicit confirmation.'' True]"

definition role_tools :: "operation_definition list" where
  "role_tools =
     [read_tool ''ProjectPageInput'' ''Page<RoleSummary>'' PROJECT_ROLES_LIST_TOOL
        ''List a bounded page of built-in and custom roles for one exact project without synthetic role IDs or timestamps.'' True,
      read_tool ''ProjectRoleTargetInput'' ''Role'' PROJECT_ROLES_GET_TOOL
        ''Get one project role by stable slug, including its normalized permission rules.'' True,
      read_tool ''OrganizationRolesListInput'' ''Page<RoleSummary>'' ORGANIZATION_ROLES_LIST_TOOL
        ''List a bounded page of built-in and custom roles for the authenticated identity's organization.'' True,
      read_tool ''OrganizationRoleTargetInput'' ''Role'' ORGANIZATION_ROLES_GET_TOOL
        ''Get one organization role by stable slug, including its normalized permission rules.'' True]"

definition group_tools :: "operation_definition list" where
  "group_tools =
     [read_tool ''GroupsListInput'' ''Page<Group>'' GROUPS_LIST_TOOL
        ''List a locally bounded page of groups and organization-role assignments for the authenticated identity's organization.'' True,
      read_tool ''GroupTargetInput'' ''Group'' GROUPS_GET_TOOL
        ''Get one organization group by exact identifier, including its organization-role assignment.'' True,
      read_tool ''GroupMembersListInput'' ''Page<GroupMember>'' GROUP_MEMBERS_LIST_TOOL
        ''List a bounded page of human users and machine identities assigned to one exact group.'' True,
      read_tool ''GroupProjectsListInput'' ''Page<GroupProject>'' GROUP_PROJECTS_LIST_TOOL
        ''List a bounded page of organization projects and their assignment state for one exact group.'' True,
      read_tool ''ProjectPageInput'' ''Page<ProjectGroupMembership>'' PROJECT_GROUP_MEMBERSHIPS_LIST_TOOL
        ''List a locally bounded page of group memberships and role assignments for one exact project.'' True,
      read_tool ''ProjectGroupMembershipTargetInput'' ''ProjectGroupMembership'' PROJECT_GROUP_MEMBERSHIPS_GET_TOOL
        ''Get one project group membership by exact project and group identifiers.'' True]"

definition identity_project_additional_privilege_tools :: "operation_definition list" where
  "identity_project_additional_privilege_tools =
     [read_tool ''IdentityProjectAdditionalPrivilegesListInput'' ''Page<IdentityProjectAdditionalPrivilegeSummary>'' IDENTITY_PROJECT_ADDITIONAL_PRIVILEGES_LIST_TOOL
        ''List a locally bounded page of additional privilege grants for one exact machine identity in one exact project.'' True,
      read_tool ''IdentityProjectAdditionalPrivilegeTargetInput'' ''IdentityProjectAdditionalPrivilege'' IDENTITY_PROJECT_ADDITIONAL_PRIVILEGES_GET_TOOL
        ''Get one identity project additional privilege by exact ID after confirming it belongs to the requested project and identity.'' True,
      read_tool ''IdentityProjectAdditionalPrivilegeBySlugInput'' ''IdentityProjectAdditionalPrivilege'' IDENTITY_PROJECT_ADDITIONAL_PRIVILEGES_GET_BY_SLUG_TOOL
        ''Get one identity project additional privilege by stable slug after confirming it belongs to the requested project and identity.'' True,
      mutation_tool ''IdentityProjectAdditionalPrivilegeCreateInput'' ''IdentityProjectAdditionalPrivilege'' IDENTITY_PROJECT_ADDITIONAL_PRIVILEGES_CREATE_TOOL
        ''Create one permanent or scheduled temporary project permission grant for one exact machine identity, acknowledging any inverted deny rules.'' True,
      mutation_tool ''IdentityProjectAdditionalPrivilegeUpdateInput'' ''IdentityProjectAdditionalPrivilege'' IDENTITY_PROJECT_ADDITIONAL_PRIVILEGES_UPDATE_TOOL
        ''Replace one additional privilege's slug and lifetime, optionally replacing every permission after explicit acknowledgement.'' True,
      mutation_tool ''IdentityProjectAdditionalPrivilegeDeleteInput'' ''IdentityProjectAdditionalPrivilege'' IDENTITY_PROJECT_ADDITIONAL_PRIVILEGES_DELETE_TOOL
        ''Delete one exact identity project additional privilege after scope preflight and explicit confirmation.'' True]"

definition universal_auth_tools :: "operation_definition list" where
  "universal_auth_tools =
     [read_tool ''IdentityTargetInput'' ''UniversalAuthConfig'' UNIVERSAL_AUTH_GET_TOOL
        ''Get non-secret Universal Auth configuration, including public client ID and current trusted-IP metadata, for one machine identity.'' True,
      mutation_tool ''UniversalAuthAttachInput'' ''UniversalAuthConfig'' UNIVERSAL_AUTH_ATTACH_TOOL
        ''Attach one complete community-compatible Universal Auth configuration; enterprise trusted-IP mutation remains capability-gated.'' False,
      mutation_tool ''UniversalAuthUpdateInput'' ''UniversalAuthConfig'' UNIVERSAL_AUTH_UPDATE_TOOL
        ''Apply one coherent token-lifetime, use-limit, or complete lockout-policy change without a read-before-write window.'' False,
      mutation_tool ''UniversalAuthRemoveInput'' ''UniversalAuthConfig'' UNIVERSAL_AUTH_REMOVE_TOOL
        ''Remove Universal Auth and revoke its credentials and derived tokens after explicit confirmation.'' True,
      read_tool ''UniversalAuthClientSecretsListInput'' ''Page<UniversalAuthClientSecret>'' UNIVERSAL_AUTH_CLIENT_SECRETS_LIST_TOOL
        ''List a bounded page of value-free Universal Auth client-secret metadata for one machine identity.'' True,
      read_tool ''UniversalAuthClientSecretTargetInput'' ''UniversalAuthClientSecret'' UNIVERSAL_AUTH_CLIENT_SECRETS_GET_TOOL
        ''Get value-free metadata for one exact Universal Auth client secret.'' True,
      mutation_tool ''UniversalAuthClientSecretCreateInput'' ''UniversalAuthClientSecretCreateOutput'' UNIVERSAL_AUTH_CLIENT_SECRETS_CREATE_TOOL
        ''Create one Universal Auth client secret and reveal the generated credential exactly once with non-secret metadata.'' False,
      mutation_tool ''UniversalAuthClientSecretRevokeInput'' ''UniversalAuthClientSecret'' UNIVERSAL_AUTH_CLIENT_SECRETS_REVOKE_TOOL
        ''Revoke one exact Universal Auth client secret and its derived tokens after explicit confirmation.'' True,
      mutation_tool ''UniversalAuthLockoutsClearInput'' ''UniversalAuthLockoutClear'' UNIVERSAL_AUTH_LOCKOUTS_CLEAR_TOOL
        ''Clear all current Universal Auth lockouts for one machine identity after explicit confirmation.'' True]"

definition token_auth_tools :: "operation_definition list" where
  "token_auth_tools =
     [read_tool ''IdentityTargetInput'' ''TokenAuthConfig'' TOKEN_AUTH_GET_TOOL
        ''Get non-secret Token Auth configuration and current trusted-IP metadata for one machine identity.'' True,
      mutation_tool ''TokenAuthAttachInput'' ''TokenAuthConfig'' TOKEN_AUTH_ATTACH_TOOL
        ''Attach one explicit community-compatible Token Auth configuration; enterprise trusted-IP mutation remains capability-gated.'' False,
      mutation_tool ''TokenAuthUpdateInput'' ''TokenAuthConfig'' TOKEN_AUTH_UPDATE_TOOL
        ''Apply one coherent token-lifetime or use-limit change without a read-before-write window.'' False,
      mutation_tool ''TokenAuthRemoveInput'' ''TokenAuthConfig'' TOKEN_AUTH_REMOVE_TOOL
        ''Remove Token Auth and revoke all of its credentials after explicit confirmation.'' True,
      read_tool ''TokenAuthTokensListInput'' ''Page<TokenAuthToken>'' TOKEN_AUTH_TOKENS_LIST_TOOL
        ''List one bounded upstream page of value-free Token Auth token metadata for one machine identity.'' True,
      read_tool ''TokenAuthTokenTargetInput'' ''TokenAuthToken'' TOKEN_AUTH_TOKENS_GET_TOOL
        ''Get value-free metadata for one exact Token Auth token by opaque ID.'' True,
      mutation_tool ''TokenAuthTokenCreateInput'' ''TokenAuthTokenCreateOutput'' TOKEN_AUTH_TOKENS_CREATE_TOOL
        ''Generate one Token Auth bearer credential and reveal it exactly once with non-secret metadata.'' False,
      mutation_tool ''TokenAuthTokenUpdateInput'' ''TokenAuthToken'' TOKEN_AUTH_TOKENS_UPDATE_TOOL
        ''Replace the complete non-secret operator label of one exact Token Auth token.'' False,
      mutation_tool ''TokenAuthTokenRevokeInput'' ''TokenAuthTokenRevocation'' TOKEN_AUTH_TOKENS_REVOKE_TOOL
        ''Revoke one exact Token Auth bearer credential after explicit confirmation.'' True]"

definition kubernetes_auth_tools :: "operation_definition list" where
  "kubernetes_auth_tools =
     [read_tool ''IdentityTargetInput'' ''KubernetesAuthConfig'' KUBERNETES_AUTH_GET_TOOL
        ''Get value-free Kubernetes Auth configuration, reviewer-credential presence, and current paid-feature metadata for one machine identity.'' True,
      mutation_tool ''KubernetesAuthAttachInput'' ''KubernetesAuthConfig'' KUBERNETES_AUTH_ATTACH_TOOL
        ''Attach a complete direct Kubernetes API review configuration with explicit workload and audience restrictions.'' False,
      mutation_tool ''KubernetesAuthUpdateInput'' ''KubernetesAuthConfig'' KUBERNETES_AUTH_UPDATE_TOOL
        ''Apply one coherent token, workload-policy, or direct-reviewer change without a read-before-write window.'' False,
      mutation_tool ''KubernetesAuthRemoveInput'' ''KubernetesAuthConfig'' KUBERNETES_AUTH_REMOVE_TOOL
        ''Remove Kubernetes Auth and revoke its derived tokens after explicit confirmation.'' True]"

definition secret_tools :: "operation_definition list" where
  "secret_tools =
     [read_tool ''SecretMetadataListInput'' ''Page<projections::SecretMetadataSummary>'' SECRET_METADATA_LIST_TOOL
        ''List bounded, value-free secret metadata under an exact scope; secret values, imports, references, and personal overrides stay disabled.'' True,
      read_tool ''SecretTargetOnlyInput'' ''SecretRevealOutput'' SECRET_REVEAL_TOOL
        ''Reveal the current value of one exact shared secret; imports and reference expansion stay disabled.'' True,
      mutation_tool ''SecretValueMutationInput'' ''SecretMutationReceipt'' SECRET_CREATE_TOOL
        ''Create one exact shared secret and return only value-free identity, version, timestamp, or approval metadata.'' False,
      mutation_tool ''SecretValueMutationInput'' ''SecretMutationReceipt'' SECRET_UPDATE_TOOL
        ''Replace one exact shared secret value once and return only value-free identity, version, timestamp, or approval metadata.'' False,
      mutation_tool ''SecretDeleteInput'' ''SecretMutationReceipt'' SECRET_DELETE_TOOL
        ''Permanently delete one exact shared secret after explicit confirmation and return value-free affected-secret or approval metadata.'' True,
      mutation_tool ''SecretBatchValueMutationInput'' ''SecretBatchMutationReceipt'' SECRET_BATCH_CREATE_TOOL
        ''Create one to fifty uniquely named shared secrets under one exact scope and return only value-free affected-secret or approval metadata.'' False,
      mutation_tool ''SecretBatchValueMutationInput'' ''SecretBatchMutationReceipt'' SECRET_BATCH_UPDATE_TOOL
        ''Replace one to fifty uniquely named shared secret values under one exact scope, failing if any name is absent, and return only value-free metadata.'' False,
      mutation_tool ''SecretBatchDeleteInput'' ''SecretBatchMutationReceipt'' SECRET_BATCH_DELETE_TOOL
        ''Permanently delete one to fifty uniquely named shared secrets under one exact scope after explicit confirmation and return only value-free metadata.'' True]"

definition secret_import_tools :: "operation_definition list" where
  "secret_import_tools =
     [read_tool ''SecretImportsListInput'' ''Page<SecretImport>'' SECRET_IMPORTS_LIST_TOOL
        ''List a bounded page of value-free secret-import mappings under one exact destination scope.'' True,
      read_tool ''SecretImportGetInput'' ''SecretImport'' SECRET_IMPORTS_GET_TOOL
        ''Get one value-free secret-import mapping by exact opaque identifier.'' True,
      mutation_tool ''SecretImportCreateInput'' ''SecretImport'' SECRET_IMPORTS_CREATE_TOOL
        ''Create one non-replicating secret import between exact destination and source scopes in the same project.'' False,
      mutation_tool ''SecretImportUpdateInput'' ''SecretImport'' SECRET_IMPORTS_UPDATE_TOOL
        ''Replace one secret import's complete source coordinate or move it to one bounded position.'' False,
      mutation_tool ''SecretImportDeleteInput'' ''SecretImport'' SECRET_IMPORTS_DELETE_TOOL
        ''Permanently delete one exact secret-import mapping after explicit confirmation.'' True]"

definition audit_log_tools :: "operation_definition list" where
  "audit_log_tools =
     [observable_read_tool ''AuditLogsListInput'' ''Page<AuditLog>'' AUDIT_LOGS_LIST_TOOL
        ''List one bounded organization or project audit-log page without arbitrary actor or event metadata; requesting offset zero creates Infisical's view-audit-logs record.'']"

definition app_automation_tools :: "operation_definition list" where
  "app_automation_tools =
     [observable_read_tool ''AppConnectionsListInput'' ''Page<AppConnection>'' APP_CONNECTIONS_LIST_TOOL
        ''List one locally bounded page of value-free app connections; Infisical records this GET as an audit event, so it is sent exactly once and never retried.'',
      observable_read_tool ''GitHubAppConnectionTargetInput'' ''GitHubAppConnection'' GITHUB_APP_CONNECTION_GET_TOOL
        ''Get one exact value-free GitHub app connection; Infisical records this GET as an audit event, so it is sent exactly once and never retried.'',
      mutation_tool ''GitHubAppConnectionCreateInput'' ''GitHubAppConnection'' GITHUB_APP_CONNECTION_CREATE_TOOL
        ''Create one typed GitHub app connection; authorization codes and tokens are sent only to Infisical and never returned.'' False,
      mutation_tool ''GitHubAppConnectionUpdateInput'' ''GitHubAppConnection'' GITHUB_APP_CONNECTION_UPDATE_TOOL
        ''Update one exact GitHub app connection; credential replacement requires explicit confirmation and the stored immutable method, and the mutation is sent once.'' True,
      mutation_tool ''GitHubAppConnectionCredentialRotationInput'' ''GitHubAppConnection'' GITHUB_APP_CONNECTION_ROTATE_CREDENTIALS_TOOL
        ''Rotate the stored credential of one exact GitHub app connection after explicit confirmation; the bodyless action is sent once and returns value-free metadata.'' True,
      mutation_tool ''GitHubAppConnectionDeleteInput'' ''GitHubAppConnection'' GITHUB_APP_CONNECTION_DELETE_TOOL
        ''Permanently delete one exact GitHub app connection after explicit confirmation.'' True,
      observable_read_tool ''ProjectPageInput'' ''Page<SecretSync>'' SECRET_SYNCS_LIST_TOOL
        ''List one locally bounded project page of value-free secret-sync inventory; provider destination configuration and status messages never cross the MCP boundary.'',
      observable_read_tool ''GitHubSecretSyncTargetInput'' ''GitHubSecretSync'' GITHUB_SECRET_SYNC_GET_TOOL
        ''Get one exact typed GitHub secret sync after validating its project and joined environment; the audited provider GET is sent once.'',
      mutation_tool ''GitHubSecretSyncCreateInput'' ''GitHubSecretSync'' GITHUB_SECRET_SYNC_CREATE_TOOL
        ''Create one typed GitHub secret sync after explicit acknowledgement that its initial run overwrites destination keys.'' True,
      mutation_tool ''GitHubSecretSyncUpdateInput'' ''GitHubSecretSync'' GITHUB_SECRET_SYNC_UPDATE_TOOL
        ''Update one exact GitHub secret sync after an audited project-scope preflight and explicit overwrite acknowledgement.'' True,
      mutation_tool ''GitHubSecretSyncDeleteInput'' ''GitHubSecretSync'' GITHUB_SECRET_SYNC_DELETE_TOOL
        ''Delete one exact GitHub secret sync; removing destination secrets requires a separate explicit confirmation.'' True,
      mutation_tool ''GitHubSecretSyncConfirmedActionInput'' ''GitHubSecretSync'' GITHUB_SECRET_SYNC_RUN_TOOL
        ''Manually overwrite one GitHub sync destination from Infisical after an audited scope preflight and explicit confirmation.'' True,
      mutation_tool ''GitHubSecretSyncConfirmedActionInput'' ''GitHubSecretSync'' GITHUB_SECRET_SYNC_REMOVE_SECRETS_TOOL
        ''Remove previously synchronized secrets from one exact GitHub destination after an audited scope preflight and explicit confirmation.'' True,
      observable_read_tool ''ProjectPageInput'' ''Page<SecretRotation>'' SECRET_ROTATIONS_LIST_TOOL
        ''List one locally bounded project page of value-free secret-rotation inventory; provider parameters, mappings, generated credentials, and status messages never cross the MCP boundary.'']"

definition sql_secret_rotation_tools :: "operation_definition list" where
  "sql_secret_rotation_tools =
     [observable_read_tool ''SqlSecretRotationTargetInput'' ''SecretRotation'' SQL_SECRET_ROTATION_GET_TOOL
        ''Get one exact value-free SQL credential rotation after validating its project, provider, connection, and joined environment; the audited provider GET is sent once.'',
      observable_read_tool ''SqlSecretRotationNameTargetInput'' ''SecretRotation'' SQL_SECRET_ROTATION_GET_BY_NAME_TOOL
        ''Get one exact value-free SQL credential rotation by canonical project scope and name; the audited provider GET is sent once.'',
      mutation_tool ''SqlSecretRotationCreateInput'' ''SecretRotation'' SQL_SECRET_ROTATION_CREATE_TOOL
        ''Create one provider-tagged SQL credential rotation after complete validation and explicit confirmation that database principals and mapped secrets are created immediately.'' True,
      mutation_tool ''SqlSecretRotationUpdateInput'' ''SecretRotation'' SQL_SECRET_ROTATION_UPDATE_TOOL
        ''Update one exact SQL credential rotation after an audited scope preflight and confirmation of mapped-secret renames or an imminent scheduled rotation.'' True,
      mutation_tool ''SqlSecretRotationDeleteInput'' ''SecretRotation'' SQL_SECRET_ROTATION_DELETE_TOOL
        ''Delete one exact SQL credential rotation with independent confirmations for mapped-secret deletion and generated-credential revocation.'' True,
      observable_read_tool ''SqlGeneratedCredentialsGetInput'' ''SqlGeneratedCredentialsOutput'' SQL_SECRET_ROTATION_GENERATED_CREDENTIALS_GET_TOOL
        ''Reveal one exact SQL rotation's one or two live credential slots only after explicit confirmation and an audited ownership preflight.'',
      mutation_tool ''SqlSecretRotationMoveInput'' ''SecretRotation'' SQL_SECRET_ROTATION_MOVE_TOOL
        ''Move one exact SQL rotation and its mapped secrets after confirmation; destination overwrite requires a separate confirmation.'' True,
      mutation_tool ''SqlSecretRotationConfirmedActionInput'' ''SecretRotation'' SQL_SECRET_ROTATION_ROTATE_TOOL
        ''Rotate one exact SQL credential pair and mapped secrets after an audited scope preflight and explicit confirmation.'' True,
      mutation_tool ''SqlSecretRotationConfirmedActionInput'' ''SqlCredentialCheckOutput'' SQL_SECRET_ROTATION_CHECK_TOOL
        ''Check one exact rotation's active credentials against its SQL provider after an audited scope preflight and explicit confirmation.'' False]"

definition certificate_authority_tools :: "operation_definition list" where
  "certificate_authority_tools =
     [observable_read_tool ''CertificateAuthorityProjectInput'' ''CertificateAuthoritiesListOutput'' CERTIFICATE_AUTHORITIES_LIST_TOOL
        ''List bounded value-free metadata for every CA provider family in one Certificate Manager project; provider configuration is discarded before the MCP boundary.'',
      observable_read_tool ''CertificateAuthorityProjectInput'' ''InternalCertificateAuthoritiesListOutput'' INTERNAL_CERTIFICATE_AUTHORITIES_LIST_TOOL
        ''List bounded typed internal-CA metadata in one exact Certificate Manager project through a non-replayed audited GET.'',
      observable_read_tool ''InternalCertificateAuthorityTargetInput'' ''InternalCertificateAuthority'' INTERNAL_CERTIFICATE_AUTHORITIES_GET_TOOL
        ''Get one exact internal CA after proving its stated Certificate Manager project ownership; encrypted private material never crosses the MCP boundary.'',
      mutation_tool ''InternalCertificateAuthorityCreateInput'' ''InternalCertificateAuthority'' INTERNAL_CERTIFICATE_AUTHORITIES_CREATE_TOOL
        ''Create one typed internal CA and encrypted private key after project validation and explicit confirmation; optional root validity creates the root certificate in the same non-replayed mutation.'' False,
      mutation_tool ''InternalCertificateAuthorityUpdateInput'' ''InternalCertificateAuthority'' INTERNAL_CERTIFICATE_AUTHORITIES_UPDATE_TOOL
        ''Apply one non-empty name, lifecycle-state, or CRL-distribution change after an audited ownership preflight and explicit confirmation.'' True,
      mutation_tool ''InternalCertificateAuthorityDeleteInput'' ''InternalCertificateAuthority'' INTERNAL_CERTIFICATE_AUTHORITIES_DELETE_TOOL
        ''Permanently delete one exact internal CA and its key, certificates, and CRLs after an audited ownership preflight and explicit confirmation.'' True,
      observable_read_tool ''InternalCertificateAuthorityTargetInput'' ''CertificateAuthorityCsr'' INTERNAL_CA_CSR_GET_TOOL
        ''Get the bounded PKCS #10 CSR for one exact internal CA after proving Certificate Manager project ownership.'',
      observable_read_tool ''InternalCertificateAuthorityTargetInput'' ''InternalCaCertificatesListOutput'' INTERNAL_CA_CERTIFICATES_LIST_TOOL
        ''List the bounded PEM certificate history for one exact internal CA after an audited ownership preflight.'',
      observable_read_tool ''InternalCertificateAuthorityTargetInput'' ''CertificateAuthorityCertificate'' INTERNAL_CA_CERTIFICATE_GET_TOOL
        ''Get the active PEM certificate and chain for one exact internal CA after an audited ownership preflight.'',
      observable_read_tool ''InternalCaCertificateVersionInput'' ''CertificateAuthorityCertificate'' INTERNAL_CA_CERTIFICATE_VERSION_GET_TOOL
        ''Get one exact historical CA certificate version after proving its internal CA and Certificate Manager project scope.'',
      mutation_tool ''InternalCaCertificateGenerateInput'' ''CertificateAuthorityCertificate'' INTERNAL_CA_CERTIFICATE_GENERATE_TOOL
        ''Generate and install one root or intermediate CA certificate after target and optional parent scope preflights and explicit confirmation.'' True,
      mutation_tool ''InternalCaCertificateRenewInput'' ''CertificateAuthorityCertificate'' INTERNAL_CA_CERTIFICATE_RENEW_TOOL
        ''Rotate the active internal-CA certificate with a future validity boundary after scope preflight and explicit confirmation.'' True,
      mutation_tool ''InternalCaIntermediateSignInput'' ''CertificateAuthoritySignedIntermediate'' INTERNAL_CA_INTERMEDIATE_SIGN_TOOL
        ''Sign one bounded intermediate-CA CSR exactly once after signer scope preflight and explicit confirmation.'' False,
      mutation_tool ''InternalCaCertificateImportInput'' ''CertificateAuthorityImportReceipt'' INTERNAL_CA_CERTIFICATE_IMPORT_TOOL
        ''Install bounded CA certificate and chain PEM into one exact internal CA after scope preflight and explicit confirmation.'' True,
      observable_read_tool ''InternalCertificateAuthorityTargetInput'' ''InternalCaCrlsListOutput'' INTERNAL_CA_CRLS_LIST_TOOL
        ''List bounded PEM certificate revocation lists for one exact internal CA after an audited ownership preflight.'']"

definition certificate_tools :: "operation_definition list" where
  "certificate_tools =
     [observable_read_tool ''CertificatesListInput'' ''Page<Certificate>'' CERTIFICATES_LIST_TOOL
        ''Search one bounded page of project-scoped certificate metadata without returning certificate bodies, issuer chains, or private keys.'',
      observable_read_tool ''CertificateTargetInput'' ''Certificate'' CERTIFICATES_GET_TOOL
        ''Get one exact project-owned certificate as sanitized metadata, including lifecycle state and whether Infisical holds its private key.'',
      mutation_tool ''CertificateIssueInput'' ''CertificateIssueOutput'' CERTIFICATES_ISSUE_TOOL
        ''Request one certificate through a project-owned API-enrolled profile, returning either a pending request reference or validated immediate material with governed private-key delivery.'' False,
      mutation_tool ''CertificateRenewInput'' ''CertificateRenewOutput'' CERTIFICATES_RENEW_TOOL
        ''Renew an active API-enrolled managed-key certificate, returning validated replacement material through governed private-key delivery.'' False,
      mutation_tool ''CertificateRevokeInput'' ''CertificateRevocation'' CERTIFICATES_REVOKE_TOOL
        ''Revoke an active project-owned certificate with a selected RFC 5280 reason after confirmation.'' True,
      mutation_tool ''CertificateRenewalConfigurationUpdateInput'' ''CertificateRenewalConfiguration'' CERTIFICATES_RENEWAL_CONFIGURATION_UPDATE_TOOL
        ''Set or disable renewal for an eligible project-owned managed-key certificate.'' False,
      mutation_tool ''CertificateDeleteInput'' ''Certificate'' CERTIFICATES_DELETE_TOOL
        ''Remove a project-owned certificate record after confirmation.'' True,
      mutation_tool ''CertificateImportInput'' ''Certificate'' CERTIFICATES_IMPORT_TOOL
        ''Import one validated certificate and optional matching private material from governed uploads, then reconcile the created project inventory record.'' False,
      observable_read_tool ''CertificateTargetInput'' ''CertificatePublicMaterial'' CERTIFICATES_CERTIFICATE_GET_TOOL
        ''Retrieve a project-owned certificate body and issuer chain as public material after binding the response to inventory.'',
      observable_read_tool ''CertificateMaterialRevealInput'' ''CertificateBundleOutput'' CERTIFICATES_BUNDLE_REVEAL_TOOL
        ''Retrieve a project-owned certificate bundle after confirmation, with private-key material returned inline unless the HTTP file-transfer extension is configured.'',
      observable_read_tool ''CertificateMaterialRevealInput'' ''CertificatePrivateKeyOutput'' CERTIFICATES_PRIVATE_KEY_REVEAL_TOOL
        ''Retrieve a project-owned stored private key after confirmation and bind it cryptographically to the selected certificate, returning it inline unless the HTTP file-transfer extension is configured.'',
      observable_read_tool ''CertificateRequestsListInput'' ''Page<CertificateRequest>'' CERTIFICATE_REQUESTS_LIST_TOOL
        ''Search one bounded page of project-scoped certificate-request status metadata without returning certificate bodies, private keys, or upstream status messages.'',
      observable_read_tool ''CertificateRequestTargetInput'' ''CertificateRequest'' CERTIFICATE_REQUESTS_GET_TOOL
        ''Find one exact certificate request through project-scoped sanitized inventory without returning certificate or private-key material.'',
      observable_read_tool ''CertificateRequestRevealInput'' ''CertificateRequestMaterialOutput'' CERTIFICATE_REQUEST_RESULT_REVEAL_TOOL
        ''Retrieve one issued request's certificate and optional private key only after explicit confirmation and a project-scoped status preflight.'',
      mutation_tool ''CertificateRequestCancelInput'' ''CertificateRequestCancellation'' CERTIFICATE_REQUESTS_CANCEL_TOOL
        ''Cancel one pending or pending-validation certificate request after a project-scoped status preflight and explicit confirmation.'' True]"

definition certificate_policy_tools :: "operation_definition list" where
  "certificate_policy_tools =
     [observable_read_tool ''CertificatePoliciesListInput'' ''Page<CertificatePolicy>'' CERTIFICATE_POLICIES_LIST_TOOL
        ''List one bounded page of typed certificate-policy metadata in one Certificate Manager project.'',
      observable_read_tool ''CertificatePolicyTargetInput'' ''CertificatePolicy'' CERTIFICATE_POLICIES_GET_TOOL
        ''Get one exact certificate policy after proving its stated Certificate Manager project ownership.'',
      mutation_tool ''CertificatePolicyCreateInput'' ''CertificatePolicy'' CERTIFICATE_POLICIES_CREATE_TOOL
        ''Create one typed certificate policy after validating its rules, project scope, and explicit confirmation.'' False,
      mutation_tool ''CertificatePolicyUpdateInput'' ''CertificatePolicy'' CERTIFICATE_POLICIES_UPDATE_TOOL
        ''Update one exact project-owned certificate policy after validating a non-empty change and explicit confirmation.'' False,
      mutation_tool ''CertificatePolicyDeleteInput'' ''CertificatePolicy'' CERTIFICATE_POLICIES_DELETE_TOOL
        ''Delete one exact project-owned certificate policy after explicit confirmation and an ownership preflight.'' True]"

definition certificate_profile_tools :: "operation_definition list" where
  "certificate_profile_tools =
     [observable_read_tool ''CertificateProfilesListInput'' ''Page<CertificateProfile>'' CERTIFICATE_PROFILES_LIST_TOOL
        ''List one bounded page of sanitized certificate profiles with typed issuer and enrollment metadata; EST passphrases are discarded before the MCP boundary.'',
      observable_read_tool ''CertificateProfileTargetInput'' ''CertificateProfile'' CERTIFICATE_PROFILES_GET_TOOL
        ''Get one exact sanitized certificate profile after proving its stated Certificate Manager project ownership.'',
      observable_read_tool ''CertificateProfileBySlugInput'' ''CertificateProfile'' CERTIFICATE_PROFILES_GET_BY_SLUG_TOOL
        ''Get one exact sanitized certificate profile by project-local slug through a non-replayed audited GET.'',
      mutation_tool ''CertificateProfileCreateInput'' ''CertificateProfile'' CERTIFICATE_PROFILES_CREATE_TOOL
        ''Create one API, EST, ACME, or SCEP certificate profile after project, policy, and optional CA scope preflights and explicit confirmation.'' False,
      mutation_tool ''CertificateProfileUpdateInput'' ''CertificateProfile'' CERTIFICATE_PROFILES_UPDATE_TOOL
        ''Apply one non-empty metadata, defaults, or same-enrollment-family configuration change after an audited ownership preflight and explicit confirmation.'' True,
      mutation_tool ''CertificateProfileDeleteInput'' ''CertificateProfile'' CERTIFICATE_PROFILES_DELETE_TOOL
        ''Permanently delete one exact certificate profile after an audited ownership preflight and explicit confirmation.'' True,
      observable_read_tool ''CertificateProfileCertificatesListInput'' ''Page<CertificateProfileCertificate>'' CERTIFICATE_PROFILE_CERTIFICATES_LIST_TOOL
        ''List one bounded page of certificate metadata issued through an exact profile after an audited ownership preflight.'',
      observable_read_tool ''CertificateProfileSecretRevealInput'' ''CertificateProfileLatestBundleOutput'' CERTIFICATE_PROFILE_LATEST_BUNDLE_REVEAL_TOOL
        ''Reveal the latest active certificate, chain, and private key for one exact profile only after explicit confirmation, an audited ownership preflight, and current leaf/issuer validity checks.'',
      observable_read_tool ''CertificateProfileSecretRevealInput'' ''CertificateProfileEabSecretOutput'' CERTIFICATE_PROFILE_EAB_SECRET_REVEAL_TOOL
        ''Reveal the ACME External Account Binding secret for one exact ACME profile only after explicit confirmation and an audited ownership preflight.'']"

definition ssh_certificate_authority_tools :: "operation_definition list" where
  "ssh_certificate_authority_tools =
     [observable_read_tool ''SshProjectInput'' ''SshCertificateAuthoritiesListOutput'' SSH_CERTIFICATE_AUTHORITIES_LIST_TOOL
        ''List bounded value-free SSH certificate-authority metadata for one exact SSH Access project.'',
      observable_read_tool ''SshCertificateAuthorityTargetInput'' ''SshCertificateAuthority'' SSH_CERTIFICATE_AUTHORITIES_GET_TOOL
        ''Get one exact SSH certificate authority after proving its stated SSH Access project ownership; only public key material is returned.'',
      observable_read_tool ''SshCertificateAuthorityTargetInput'' ''SshCertificateAuthorityPublicKeyOutput'' SSH_CERTIFICATE_AUTHORITIES_PUBLIC_KEY_GET_TOOL
        ''Read the dedicated SSH CA public-key route and bind it to the authenticated authority record.'',
      mutation_tool ''SshCertificateAuthorityCreateInput'' ''SshCertificateAuthority'' SSH_CERTIFICATE_AUTHORITIES_CREATE_TOOL
        ''Create one internally generated or externally keyed SSH certificate authority in the exact requested project after explicit confirmation; imported private keys are consumed and never returned.'' False,
      mutation_tool ''SshCertificateAuthorityReplaceInput'' ''SshCertificateAuthority'' SSH_CERTIFICATE_AUTHORITIES_REPLACE_TOOL
        ''Replace every mutable SSH certificate-authority field after an exact ownership preflight and explicit confirmation.'' True,
      mutation_tool ''SshCertificateAuthorityDeleteInput'' ''SshCertificateAuthoritySummary'' SSH_CERTIFICATE_AUTHORITIES_DELETE_TOOL
        ''Permanently delete one exact SSH certificate authority after ownership preflight and explicit confirmation.'' True,
      observable_read_tool ''SshProjectInput'' ''SshCertificateTemplatesListOutput'' SSH_CERTIFICATE_TEMPLATES_LIST_TOOL
        ''List every bounded SSH certificate template in one exact SSH Access project.'',
      observable_read_tool ''SshCertificateAuthorityTargetInput'' ''SshCertificateTemplatesListOutput'' SSH_CERTIFICATE_AUTHORITY_TEMPLATES_LIST_TOOL
        ''List bounded templates attached to one exact SSH certificate authority after an ownership preflight.'',
      observable_read_tool ''SshCertificateTemplateTargetInput'' ''SshCertificateTemplate'' SSH_CERTIFICATE_TEMPLATES_GET_TOOL
        ''Get one exact SSH certificate template after proving its SSH CA and project ownership.'',
      mutation_tool ''SshCertificateTemplateCreateInput'' ''SshCertificateTemplate'' SSH_CERTIFICATE_TEMPLATES_CREATE_TOOL
        ''Create one closed SSH certificate issuance policy beneath an active exact CA after explicit confirmation.'' False,
      mutation_tool ''SshCertificateTemplateReplaceInput'' ''SshCertificateTemplate'' SSH_CERTIFICATE_TEMPLATES_REPLACE_TOOL
        ''Replace every mutable SSH certificate-template field as one complete validated policy after explicit confirmation.'' True,
      mutation_tool ''SshCertificateTemplateDeleteInput'' ''SshCertificateTemplate'' SSH_CERTIFICATE_TEMPLATES_DELETE_TOOL
        ''Permanently delete one exact SSH certificate template after CA ownership preflight and explicit confirmation.'' True,
      mutation_tool ''SshCertificateSignInput'' ''infisical_api::SignedSshCertificate'' SSH_CERTIFICATES_SIGN_TOOL
        ''Sign one bounded existing OpenSSH public key after exact CA ownership and template-policy preflights; the single mutation is never replayed and the returned certificate is cryptographically and semantically verified.'' False,
      mutation_tool ''SshCertificateIssueInput'' ''IssuedSshCertificateOutput'' SSH_CERTIFICATES_ISSUE_TOOL
        ''Generate one supported OpenSSH key pair and issue its certificate after exact policy preflights and explicit reveal confirmation; the private key is returned once only after pair and certificate verification.'' False]"

definition code_signer_tools :: "operation_definition list" where
  "code_signer_tools =
     [observable_read_tool ''CodeSignersListInput'' ''Page<CodeSigner>'' CODE_SIGNERS_LIST_TOOL
        ''List one bounded page of code signers after binding every result to the requested Certificate Manager project.'',
      observable_read_tool ''CodeSignerTargetInput'' ''CodeSigner'' CODE_SIGNERS_GET_TOOL
        ''Get one exact code signer after proving its stated Certificate Manager project ownership.'',
      mutation_tool ''CodeSignerCreateInput'' ''CodeSigner'' CODE_SIGNERS_CREATE_TOOL
        ''Create one signer from an active existing code-signing certificate or enabled internal CA after audited scope preflights and explicit confirmation.'' False,
      mutation_tool ''CodeSignerUpdateInput'' ''CodeSigner'' CODE_SIGNERS_UPDATE_TOOL
        ''Apply one non-empty signer metadata or renewal-window change after an audited ownership preflight and explicit confirmation.'' False,
      mutation_tool ''CodeSignerDeleteInput'' ''CodeSigner'' CODE_SIGNERS_DELETE_TOOL
        ''Permanently delete one exact signer and its governance state after an audited ownership preflight and explicit confirmation.'' True,
      mutation_tool ''CodeSignerStatusUpdateInput'' ''CodeSigner'' CODE_SIGNERS_STATUS_UPDATE_TOOL
        ''Enable or disable one exact signer after validating a real state transition and explicit confirmation.'' False,
      mutation_tool ''CodeSignerCertificateReissueInput'' ''CodeSigner'' CODE_SIGNERS_CERTIFICATE_REISSUE_TOOL
        ''Issue and attach a replacement signer certificate from an enabled internal CA after signer and CA scope preflights and explicit confirmation.'' False,
      observable_read_tool ''CodeSignerTargetInput'' ''CodeSignerCertificate'' CODE_SIGNERS_CERTIFICATE_EXPORT_TOOL
        ''Export one exact signer's validated public leaf certificate after an audited ownership preflight.'',
      observable_read_tool ''CodeSignerTargetInput'' ''CodeSignerPublicKey'' CODE_SIGNERS_PUBLIC_KEY_GET_TOOL
        ''Get one exact signer's bounded base64 DER SubjectPublicKeyInfo after an audited ownership preflight.'',
      mutation_tool ''CodeSignerSignInput'' ''CodeSignerSignature'' CODE_SIGNERS_SIGN_TOOL
        ''Sign at most 128 decoded bytes with one active signer after project, certificate, state, digest, and algorithm preflights and explicit confirmation; the operation is never replayed.'' False,
      observable_read_tool ''CodeSignerMembersListInput'' ''CodeSignerMembershipsOutput'' CODE_SIGNER_MEMBERS_LIST_TOOL
        ''List bounded direct user, machine-identity, or group memberships for one exact signer after an audited ownership preflight.'',
      mutation_tool ''CodeSignerMemberRoleMutationInput'' ''CodeSignerMembership'' CODE_SIGNER_MEMBERS_ADD_TOOL
        ''Add one exact direct signer member with a built-in role after project and signer preflights and explicit confirmation.'' False,
      mutation_tool ''CodeSignerMemberRoleMutationInput'' ''CodeSignerMembership'' CODE_SIGNER_MEMBER_ROLE_UPDATE_TOOL
        ''Replace one exact direct signer member's built-in role after confirming current membership and explicit confirmation.'' False,
      mutation_tool ''CodeSignerMemberRemovalInput'' ''CodeSignerMembershipMutationReceipt'' CODE_SIGNER_MEMBERS_REMOVE_TOOL
        ''Remove one exact direct signer membership after an audited ownership and membership preflight and explicit confirmation.'' True,
      observable_read_tool ''CodeSignerEffectiveMembersListInput'' ''CodeSignerEffectiveMembersOutput'' CODE_SIGNER_EFFECTIVE_MEMBERS_LIST_TOOL
        ''List bounded direct and group-derived user or machine-identity access for one exact signer.'',
      observable_read_tool ''CodeSignerTargetInput'' ''CodeSignerPermissions'' CODE_SIGNER_PERMISSIONS_GET_TOOL
        ''Get normalized effective signer permissions for the authenticated Infisical identity without exposing arbitrary CASL condition payloads.'',
      observable_read_tool ''CodeSignerTargetInput'' ''CodeSignerApprovalPolicy'' CODE_SIGNER_APPROVAL_POLICY_GET_TOOL
        ''Get one exact signer's bounded approval steps, approvers, and signing limits.'',
      mutation_tool ''CodeSignerApprovalPolicyReplaceInput'' ''CodeSignerApprovalPolicy'' CODE_SIGNER_APPROVAL_POLICY_REPLACE_TOOL
        ''Replace one exact signer's complete approval policy after verifying every approver is a non-auditor signer member and obtaining explicit confirmation.'' True,
      observable_read_tool ''CodeSignerApprovalRequestsListInput'' ''Page<CodeSignerApprovalRequest>'' CODE_SIGNER_APPROVAL_REQUESTS_LIST_TOOL
        ''List one bounded page of sanitized signing approval requests for one exact signer.'',
      mutation_tool ''CodeSignerApprovalRequestCreateInput'' ''CodeSignerApprovalRequest'' CODE_SIGNER_APPROVAL_REQUESTS_CREATE_TOOL
        ''Open one finite signing approval request after validating it against the current signer policy and explicit confirmation.'' False,
      mutation_tool ''CodeSignerPreApprovalInput'' ''CodeSignerPreApproval'' CODE_SIGNER_APPROVAL_REQUESTS_PRE_APPROVE_TOOL
        ''Create one finite active signing grant for an effective non-auditor signer member after explicit confirmation.'' False,
      mutation_tool ''CodeSignerApprovalRequestRevokeInput'' ''CodeSignerApprovalRequestRevocation'' CODE_SIGNER_APPROVAL_REQUESTS_REVOKE_TOOL
        ''Revoke one exact pending or active signer approval request and its active grants after explicit confirmation.'' True,
      observable_read_tool ''CodeSignerOperationsListInput'' ''Page<CodeSignerSigningOperation>'' CODE_SIGNER_OPERATIONS_LIST_TOOL
        ''List one bounded page of sanitized code-signing operation history without returning signed-data hashes, client metadata, or upstream error text.'']"

definition kms_tools :: "operation_definition list" where
  "kms_tools =
     [observable_read_tool ''KmsKeysListInput'' ''Page<KmsKey>'' KMS_KEYS_LIST_TOOL
        ''List one bounded project page of value-free KMS key metadata; Infisical audits the GET, so it is sent exactly once.'',
      observable_read_tool ''KmsKeyTargetInput'' ''KmsKey'' KMS_KEYS_GET_TOOL
        ''Get one exact value-free KMS key after validating its stated project; the audited GET is sent exactly once.'',
      observable_read_tool ''KmsKeyByNameInput'' ''KmsKey'' KMS_KEYS_GET_BY_NAME_TOOL
        ''Get one exact value-free KMS key by canonical project and name; the audited GET is sent exactly once.'',
      mutation_tool ''KmsKeyCreateInput'' ''KmsKey'' KMS_KEYS_CREATE_TOOL
        ''Create one typed KMS key after project validation and explicit confirmation; the mutation is sent exactly once.'' False,
      mutation_tool ''KmsKeyUpdateInput'' ''KmsKey'' KMS_KEYS_UPDATE_TOOL
        ''Apply one non-empty metadata or disabled-state change after an audited ownership preflight and explicit confirmation.'' True,
      mutation_tool ''KmsKeyDeleteInput'' ''KmsKey'' KMS_KEYS_DELETE_TOOL
        ''Permanently delete one exact KMS key after an audited ownership preflight and explicit confirmation.'' True,
      mutation_tool ''KmsEncryptInput'' ''KmsCiphertext'' KMS_ENCRYPT_TOOL
        ''Encrypt one bounded base64 plaintext with an active symmetric key after explicit confirmation; the operation is never replayed.'' False,
      mutation_tool ''KmsDecryptInput'' ''KmsDecryptedDataOutput'' KMS_DECRYPT_TOOL
        ''Decrypt one bounded base64 ciphertext with an active symmetric key and reveal plaintext only after explicit confirmation.'' False,
      observable_read_tool ''KmsKeyTargetInput'' ''KmsPublicKey'' KMS_PUBLIC_KEY_GET_TOOL
        ''Get the bounded public key of one active asymmetric KMS key after an audited ownership preflight.'',
      observable_read_tool ''KmsPrivateKeyRevealInput'' ''KmsPrivateKeyOutput'' KMS_PRIVATE_KEY_REVEAL_TOOL
        ''Reveal one active KMS private key only after explicit confirmation and an audited ownership preflight.'',
      mutation_tool ''KmsBulkImportInput'' ''KmsBulkImportResult'' KMS_KEYS_BULK_IMPORT_TOOL
        ''Import one to one hundred uniquely named typed private keys, capped at 512 KiB of aggregate decoded material, after project validation and explicit confirmation.'' False,
      mutation_tool ''KmsBulkPrivateKeyRevealInput'' ''KmsBulkPrivateKeysOutput'' KMS_PRIVATE_KEYS_BULK_REVEAL_TOOL
        ''Reveal one to one hundred exact active KMS private keys after independent ownership preflights and explicit confirmation.'' False,
      observable_read_tool ''KmsKeyTargetInput'' ''KmsSigningAlgorithms'' KMS_SIGNING_ALGORITHMS_LIST_TOOL
        ''List the exact supported signing algorithms for one active asymmetric KMS key through a non-replayed audited GET.'',
      mutation_tool ''KmsSignInput'' ''KmsSignature'' KMS_SIGN_TOOL
        ''Sign one bounded base64 message or digest with an active asymmetric KMS key after explicit confirmation; the operation is never replayed.'' False,
      mutation_tool ''KmsVerifyInput'' ''KmsVerification'' KMS_VERIFY_TOOL
        ''Verify one bounded base64 signature with an active asymmetric KMS key after explicit confirmation; the operation is never replayed.'' False]"

definition dynamic_secret_tools :: "operation_definition list" where
  "dynamic_secret_tools =
     [observable_read_tool ''DynamicSecretsListInput'' ''Page<DynamicSecret>'' DYNAMIC_SECRETS_LIST_TOOL
        ''List one locally bounded page of value-free dynamic-secret configurations; Infisical records this GET as an audit event, so it is sent exactly once and never retried.'',
      observable_read_tool ''DynamicSecretTargetInput'' ''DynamicSecret'' DYNAMIC_SECRETS_GET_TOOL
        ''Get one value-free dynamic-secret configuration by exact scoped name; Infisical records this GET as an audit event, so it is sent exactly once and never retried.'',
      mutation_tool ''DynamicSecretCreateInput'' ''DynamicSecret'' DYNAMIC_SECRETS_CREATE_TOOL
        ''Create one provider-tagged dynamic-secret configuration after complete local validation; the SQL provider connection is probed and the mutation is sent once.'' False,
      mutation_tool ''DynamicSecretUpdateInput'' ''DynamicSecret'' DYNAMIC_SECRETS_UPDATE_TOOL
        ''Rename one exact dynamic-secret configuration or replace its complete lifetime policy; Infisical also probes the stored provider connection, and the mutation is sent once.'' False,
      mutation_tool ''DynamicSecretDeleteInput'' ''DynamicSecret'' DYNAMIC_SECRETS_DELETE_TOOL
        ''Delete one exact dynamic-secret configuration once after explicit confirmation; ordinary deletion cleans up leases, while force removes Infisical tracking without provider cleanup.'' True,
      observable_read_tool ''DynamicSecretLeasesListInput'' ''Page<DynamicSecretLease>'' DYNAMIC_SECRET_LEASES_LIST_TOOL
        ''List one locally bounded page of value-free leases for an exact dynamic-secret configuration; Infisical records this GET as an audit event, so it is sent exactly once and never retried.'',
      observable_read_tool ''DynamicSecretLeaseTargetInput'' ''DynamicSecretLeaseDetails'' DYNAMIC_SECRET_LEASES_GET_TOOL
        ''Get value-free metadata for one exact lease and its owning configuration; Infisical records this GET as an audit event, so it is sent exactly once and never retried.'',
      mutation_tool ''DynamicSecretLeaseCreateInput'' ''DynamicSecretLeaseCreateOutput'' DYNAMIC_SECRET_LEASES_CREATE_TOOL
        ''Preflight one exact SQL configuration, create its provider principal and lease once, and return the typed password only in this response; an invalid owned result is revoked without touching an unrelated lease.'' True,
      mutation_tool ''DynamicSecretLeaseRenewInput'' ''DynamicSecretLease'' DYNAMIC_SECRET_LEASES_RENEW_TOOL
        ''Renew one exact dynamic-secret lease once for an explicit lifetime between 60 and 315360000 seconds.'' False,
      mutation_tool ''DynamicSecretLeaseRevokeInput'' ''DynamicSecretLease'' DYNAMIC_SECRET_LEASES_REVOKE_TOOL
        ''Revoke one exact dynamic-secret lease once after explicit confirmation; force is an independent provider-cleanup override.'' True]"

definition ssh_host_tools :: "operation_definition list" where
  "ssh_host_tools =
     [observable_read_tool ''SshProjectInput'' ''SshHostsListOutput'' SSH_HOSTS_LIST_TOOL
        ''List a bounded canonical SSH host inventory for one exact SSH Access project, including direct and inherited login-policy provenance.'',
      observable_read_tool ''SshHostTargetInput'' ''SshHost'' SSH_HOSTS_GET_TOOL
        ''Get one exact SSH host after proving its project ownership and canonicalizing its effective login policy.'',
      mutation_tool ''SshHostCreateInput'' ''SshHost'' SSH_HOSTS_CREATE_TOOL
        ''Register one complete SSH host policy beneath explicit active user and host CAs after confirmation; no implicit CA selection is permitted.'' False,
      mutation_tool ''SshHostReplaceInput'' ''SshHost'' SSH_HOSTS_REPLACE_TOOL
        ''Replace every mutable SSH host field and direct login mapping after an exact ownership preflight and explicit confirmation.'' True,
      mutation_tool ''SshHostDeleteInput'' ''SshHost'' SSH_HOSTS_DELETE_TOOL
        ''Permanently delete one exact SSH host after ownership preflight and explicit confirmation.'' True,
      observable_read_tool ''SshHostTargetInput'' ''SshHostLinkedCaPublicKey'' SSH_HOSTS_USER_CA_PUBLIC_KEY_GET_TOOL
        ''Read and verify the public key for the user CA linked to one exact SSH host.'',
      observable_read_tool ''SshHostTargetInput'' ''SshHostLinkedCaPublicKey'' SSH_HOSTS_HOST_CA_PUBLIC_KEY_GET_TOOL
        ''Read and verify the public key for the host CA linked to one exact SSH host.'',
      mutation_tool ''SshHostCertificateIssueInput'' ''infisical_api::SignedSshCertificate'' SSH_HOSTS_HOST_CERTIFICATE_ISSUE_TOOL
        ''Issue one host certificate under the exact host record; the single mutation is never replayed and signer, subject, hostname principal, key ID, type, authorization fields, serial, and TTL are verified.'' False,
      observable_read_tool ''SshProjectInput'' ''SshHostGroupsListOutput'' SSH_HOST_GROUPS_LIST_TOOL
        ''List a bounded canonical SSH host-group inventory and reflected host counts for one exact project.'',
      observable_read_tool ''SshHostGroupTargetInput'' ''SshHostGroup'' SSH_HOST_GROUPS_GET_TOOL
        ''Get one exact SSH host group after proving its project ownership.'',
      mutation_tool ''SshHostGroupCreateInput'' ''SshHostGroup'' SSH_HOST_GROUPS_CREATE_TOOL
        ''Create one complete bounded SSH host-group login policy after explicit confirmation.'' False,
      mutation_tool ''SshHostGroupReplaceInput'' ''SshHostGroup'' SSH_HOST_GROUPS_REPLACE_TOOL
        ''Replace every mutable SSH host-group field and login mapping after an exact ownership preflight and explicit confirmation.'' True,
      mutation_tool ''SshHostGroupDeleteInput'' ''SshHostGroup'' SSH_HOST_GROUPS_DELETE_TOOL
        ''Permanently delete one exact SSH host group after ownership preflight and explicit confirmation.'' True,
      observable_read_tool ''SshHostGroupHostsListInput'' ''SshHostGroupMembers'' SSH_HOST_GROUP_HOSTS_LIST_TOOL
        ''List a bounded, filter-consistent set of current members or non-members for one exact SSH host group.'',
      mutation_tool ''SshHostGroupMembershipMutationInput'' ''SshHostGroupMembershipReceipt'' SSH_HOST_GROUP_HOSTS_ADD_TOOL
        ''Add one exact host to one exact host group after project ownership preflight and explicit confirmation; return the reflected mutation receipt without a race-prone follow-up read.'' False,
      mutation_tool ''SshHostGroupMembershipMutationInput'' ''SshHostGroupMembershipReceipt'' SSH_HOST_GROUP_HOSTS_REMOVE_TOOL
        ''Remove one exact host from one exact host group after project ownership preflight and explicit confirmation; return the reflected mutation receipt without a race-prone follow-up read.'' True]"

definition build_operation_catalog :: "operation_definition list" where
  "build_operation_catalog =
     discovery_tools @ project_environment_tools @ folder_tag_tools @ identity_tools
     @ project_membership_tools @ role_tools @ group_tools @ identity_project_additional_privilege_tools
     @ universal_auth_tools @ token_auth_tools @ kubernetes_auth_tools @ secret_tools @ secret_import_tools
     @ audit_log_tools @ app_automation_tools @ sql_secret_rotation_tools @ certificate_authority_tools
     @ certificate_tools @ certificate_policy_tools @ certificate_profile_tools @ ssh_certificate_authority_tools
     @ code_signer_tools @ kms_tools @ dynamic_secret_tools @ ssh_host_tools"

section \<open>Names and tiers of the catalog\<close>

text \<open>The rows \<open>(name, tier)\<close> of each family, from which the facts about the catalog are computed.\<close>

definition op_row :: "operation_definition \<Rightarrow> string \<times> tool_tier" where
  "op_row d = (od_name d, od_tier d)"

lemma discovery_tools_rows:
  "map op_row discovery_tools =
     [(PROJECTS_LIST_TOOL, Read), (PROJECTS_GET_TOOL, Read)]"
  by (simp add: discovery_tools_def op_row_def tool_defs)

lemma project_environment_tools_rows:
  "map op_row project_environment_tools =
     [(PROJECTS_CREATE_TOOL, Write), (PROJECTS_UPDATE_TOOL, Write),
      (PROJECTS_DELETE_TOOL, Destroy), (ENVIRONMENTS_LIST_TOOL, Read),
      (ENVIRONMENTS_GET_TOOL, Read), (ENVIRONMENTS_CREATE_TOOL, Write),
      (ENVIRONMENTS_UPDATE_TOOL, Write), (ENVIRONMENTS_DELETE_TOOL, Destroy),
      (ENVIRONMENTS_RESTORE_TOOL, Write)]"
  by (simp add: project_environment_tools_def op_row_def tool_defs)

lemma folder_tag_tools_rows:
  "map op_row folder_tag_tools =
     [(FOLDERS_LIST_TOOL, Read), (FOLDERS_GET_TOOL, Read), (FOLDERS_CREATE_TOOL, Write),
      (FOLDERS_UPDATE_TOOL, Write), (FOLDERS_BATCH_UPDATE_TOOL, Write),
      (FOLDERS_DELETE_TOOL, Destroy), (TAGS_LIST_TOOL, Read), (TAGS_GET_TOOL, Read),
      (TAGS_CREATE_TOOL, Write), (TAGS_UPDATE_TOOL, Write), (TAGS_DELETE_TOOL, Destroy)]"
  by (simp add: folder_tag_tools_def op_row_def tool_defs)

lemma identity_tools_rows:
  "map op_row identity_tools =
     [(IDENTITIES_LIST_TOOL, Read), (IDENTITIES_GET_TOOL, Read),
      (IDENTITIES_CREATE_TOOL, Write), (IDENTITIES_UPDATE_TOOL, Write),
      (IDENTITIES_DELETE_TOOL, Destroy)]"
  by (simp add: identity_tools_def op_row_def tool_defs)

lemma project_membership_tools_rows:
  "map op_row project_membership_tools =
     [(PROJECT_USER_MEMBERSHIPS_LIST_TOOL, Read), (PROJECT_USER_MEMBERSHIPS_GET_TOOL, Read),
      (PROJECT_USER_MEMBERSHIPS_INVITE_TOOL, Write),
      (PROJECT_USER_MEMBERSHIPS_UPDATE_TOOL, Destroy),
      (PROJECT_USER_MEMBERSHIPS_DELETE_TOOL, Destroy),
      (PROJECT_IDENTITY_MEMBERSHIPS_LIST_TOOL, Read),
      (PROJECT_IDENTITY_MEMBERSHIPS_GET_TOOL, Read),
      (PROJECT_IDENTITY_MEMBERSHIPS_CREATE_TOOL, Write),
      (PROJECT_IDENTITY_MEMBERSHIPS_UPDATE_TOOL, Destroy),
      (PROJECT_IDENTITY_MEMBERSHIPS_DELETE_TOOL, Destroy)]"
  by (simp add: project_membership_tools_def op_row_def tool_defs)

lemma role_tools_rows:
  "map op_row role_tools =
     [(PROJECT_ROLES_LIST_TOOL, Read), (PROJECT_ROLES_GET_TOOL, Read),
      (ORGANIZATION_ROLES_LIST_TOOL, Read), (ORGANIZATION_ROLES_GET_TOOL, Read)]"
  by (simp add: role_tools_def op_row_def tool_defs)

lemma group_tools_rows:
  "map op_row group_tools =
     [(GROUPS_LIST_TOOL, Read), (GROUPS_GET_TOOL, Read), (GROUP_MEMBERS_LIST_TOOL, Read),
      (GROUP_PROJECTS_LIST_TOOL, Read), (PROJECT_GROUP_MEMBERSHIPS_LIST_TOOL, Read),
      (PROJECT_GROUP_MEMBERSHIPS_GET_TOOL, Read)]"
  by (simp add: group_tools_def op_row_def tool_defs)

lemma identity_project_additional_privilege_tools_rows:
  "map op_row identity_project_additional_privilege_tools =
     [(IDENTITY_PROJECT_ADDITIONAL_PRIVILEGES_LIST_TOOL, Read),
      (IDENTITY_PROJECT_ADDITIONAL_PRIVILEGES_GET_TOOL, Read),
      (IDENTITY_PROJECT_ADDITIONAL_PRIVILEGES_GET_BY_SLUG_TOOL, Read),
      (IDENTITY_PROJECT_ADDITIONAL_PRIVILEGES_CREATE_TOOL, Destroy),
      (IDENTITY_PROJECT_ADDITIONAL_PRIVILEGES_UPDATE_TOOL, Destroy),
      (IDENTITY_PROJECT_ADDITIONAL_PRIVILEGES_DELETE_TOOL, Destroy)]"
  by (simp add: identity_project_additional_privilege_tools_def op_row_def tool_defs)

lemma universal_auth_tools_rows:
  "map op_row universal_auth_tools =
     [(UNIVERSAL_AUTH_GET_TOOL, Read), (UNIVERSAL_AUTH_ATTACH_TOOL, Write),
      (UNIVERSAL_AUTH_UPDATE_TOOL, Write), (UNIVERSAL_AUTH_REMOVE_TOOL, Destroy),
      (UNIVERSAL_AUTH_CLIENT_SECRETS_LIST_TOOL, Read),
      (UNIVERSAL_AUTH_CLIENT_SECRETS_GET_TOOL, Read),
      (UNIVERSAL_AUTH_CLIENT_SECRETS_CREATE_TOOL, Write),
      (UNIVERSAL_AUTH_CLIENT_SECRETS_REVOKE_TOOL, Destroy),
      (UNIVERSAL_AUTH_LOCKOUTS_CLEAR_TOOL, Destroy)]"
  by (simp add: universal_auth_tools_def op_row_def tool_defs)

lemma token_auth_tools_rows:
  "map op_row token_auth_tools =
     [(TOKEN_AUTH_GET_TOOL, Read), (TOKEN_AUTH_ATTACH_TOOL, Write),
      (TOKEN_AUTH_UPDATE_TOOL, Write), (TOKEN_AUTH_REMOVE_TOOL, Destroy),
      (TOKEN_AUTH_TOKENS_LIST_TOOL, Read), (TOKEN_AUTH_TOKENS_GET_TOOL, Read),
      (TOKEN_AUTH_TOKENS_CREATE_TOOL, Write), (TOKEN_AUTH_TOKENS_UPDATE_TOOL, Write),
      (TOKEN_AUTH_TOKENS_REVOKE_TOOL, Destroy)]"
  by (simp add: token_auth_tools_def op_row_def tool_defs)

lemma kubernetes_auth_tools_rows:
  "map op_row kubernetes_auth_tools =
     [(KUBERNETES_AUTH_GET_TOOL, Read), (KUBERNETES_AUTH_ATTACH_TOOL, Write),
      (KUBERNETES_AUTH_UPDATE_TOOL, Write), (KUBERNETES_AUTH_REMOVE_TOOL, Destroy)]"
  by (simp add: kubernetes_auth_tools_def op_row_def tool_defs)

lemma secret_tools_rows:
  "map op_row secret_tools =
     [(SECRET_METADATA_LIST_TOOL, Read), (SECRET_REVEAL_TOOL, Read),
      (SECRET_CREATE_TOOL, Write), (SECRET_UPDATE_TOOL, Write), (SECRET_DELETE_TOOL, Destroy),
      (SECRET_BATCH_CREATE_TOOL, Write), (SECRET_BATCH_UPDATE_TOOL, Write),
      (SECRET_BATCH_DELETE_TOOL, Destroy)]"
  by (simp add: secret_tools_def op_row_def tool_defs)

lemma secret_import_tools_rows:
  "map op_row secret_import_tools =
     [(SECRET_IMPORTS_LIST_TOOL, Read), (SECRET_IMPORTS_GET_TOOL, Read),
      (SECRET_IMPORTS_CREATE_TOOL, Write), (SECRET_IMPORTS_UPDATE_TOOL, Write),
      (SECRET_IMPORTS_DELETE_TOOL, Destroy)]"
  by (simp add: secret_import_tools_def op_row_def tool_defs)

lemma audit_log_tools_rows:
  "map op_row audit_log_tools =
     [(AUDIT_LOGS_LIST_TOOL, Read_Audited)]"
  by (simp add: audit_log_tools_def op_row_def tool_defs)

lemma app_automation_tools_rows:
  "map op_row app_automation_tools =
     [(APP_CONNECTIONS_LIST_TOOL, Read_Audited), (GITHUB_APP_CONNECTION_GET_TOOL, Read_Audited),
      (GITHUB_APP_CONNECTION_CREATE_TOOL, Write), (GITHUB_APP_CONNECTION_UPDATE_TOOL, Destroy),
      (GITHUB_APP_CONNECTION_ROTATE_CREDENTIALS_TOOL, Destroy),
      (GITHUB_APP_CONNECTION_DELETE_TOOL, Destroy), (SECRET_SYNCS_LIST_TOOL, Read_Audited),
      (GITHUB_SECRET_SYNC_GET_TOOL, Read_Audited), (GITHUB_SECRET_SYNC_CREATE_TOOL, Destroy),
      (GITHUB_SECRET_SYNC_UPDATE_TOOL, Destroy), (GITHUB_SECRET_SYNC_DELETE_TOOL, Destroy),
      (GITHUB_SECRET_SYNC_RUN_TOOL, Destroy), (GITHUB_SECRET_SYNC_REMOVE_SECRETS_TOOL, Destroy),
      (SECRET_ROTATIONS_LIST_TOOL, Read_Audited)]"
  by (simp add: app_automation_tools_def op_row_def tool_defs)

lemma sql_secret_rotation_tools_rows:
  "map op_row sql_secret_rotation_tools =
     [(SQL_SECRET_ROTATION_GET_TOOL, Read_Audited),
      (SQL_SECRET_ROTATION_GET_BY_NAME_TOOL, Read_Audited),
      (SQL_SECRET_ROTATION_CREATE_TOOL, Destroy), (SQL_SECRET_ROTATION_UPDATE_TOOL, Destroy),
      (SQL_SECRET_ROTATION_DELETE_TOOL, Destroy),
      (SQL_SECRET_ROTATION_GENERATED_CREDENTIALS_GET_TOOL, Read_Audited),
      (SQL_SECRET_ROTATION_MOVE_TOOL, Destroy), (SQL_SECRET_ROTATION_ROTATE_TOOL, Destroy),
      (SQL_SECRET_ROTATION_CHECK_TOOL, Write)]"
  by (simp add: sql_secret_rotation_tools_def op_row_def tool_defs)

lemma certificate_authority_tools_rows:
  "map op_row certificate_authority_tools =
     [(CERTIFICATE_AUTHORITIES_LIST_TOOL, Read_Audited),
      (INTERNAL_CERTIFICATE_AUTHORITIES_LIST_TOOL, Read_Audited),
      (INTERNAL_CERTIFICATE_AUTHORITIES_GET_TOOL, Read_Audited),
      (INTERNAL_CERTIFICATE_AUTHORITIES_CREATE_TOOL, Write),
      (INTERNAL_CERTIFICATE_AUTHORITIES_UPDATE_TOOL, Destroy),
      (INTERNAL_CERTIFICATE_AUTHORITIES_DELETE_TOOL, Destroy),
      (INTERNAL_CA_CSR_GET_TOOL, Read_Audited),
      (INTERNAL_CA_CERTIFICATES_LIST_TOOL, Read_Audited),
      (INTERNAL_CA_CERTIFICATE_GET_TOOL, Read_Audited),
      (INTERNAL_CA_CERTIFICATE_VERSION_GET_TOOL, Read_Audited),
      (INTERNAL_CA_CERTIFICATE_GENERATE_TOOL, Destroy),
      (INTERNAL_CA_CERTIFICATE_RENEW_TOOL, Destroy),
      (INTERNAL_CA_INTERMEDIATE_SIGN_TOOL, Write),
      (INTERNAL_CA_CERTIFICATE_IMPORT_TOOL, Destroy), (INTERNAL_CA_CRLS_LIST_TOOL, Read_Audited)]"
  by (simp add: certificate_authority_tools_def op_row_def tool_defs)

lemma certificate_tools_rows:
  "map op_row certificate_tools =
     [(CERTIFICATES_LIST_TOOL, Read_Audited), (CERTIFICATES_GET_TOOL, Read_Audited),
      (CERTIFICATES_ISSUE_TOOL, Write), (CERTIFICATES_RENEW_TOOL, Write),
      (CERTIFICATES_REVOKE_TOOL, Destroy),
      (CERTIFICATES_RENEWAL_CONFIGURATION_UPDATE_TOOL, Write),
      (CERTIFICATES_DELETE_TOOL, Destroy), (CERTIFICATES_IMPORT_TOOL, Write),
      (CERTIFICATES_CERTIFICATE_GET_TOOL, Read_Audited),
      (CERTIFICATES_BUNDLE_REVEAL_TOOL, Read_Audited),
      (CERTIFICATES_PRIVATE_KEY_REVEAL_TOOL, Read_Audited),
      (CERTIFICATE_REQUESTS_LIST_TOOL, Read_Audited),
      (CERTIFICATE_REQUESTS_GET_TOOL, Read_Audited),
      (CERTIFICATE_REQUEST_RESULT_REVEAL_TOOL, Read_Audited),
      (CERTIFICATE_REQUESTS_CANCEL_TOOL, Destroy)]"
  by (simp add: certificate_tools_def op_row_def tool_defs)

lemma certificate_policy_tools_rows:
  "map op_row certificate_policy_tools =
     [(CERTIFICATE_POLICIES_LIST_TOOL, Read_Audited),
      (CERTIFICATE_POLICIES_GET_TOOL, Read_Audited), (CERTIFICATE_POLICIES_CREATE_TOOL, Write),
      (CERTIFICATE_POLICIES_UPDATE_TOOL, Write), (CERTIFICATE_POLICIES_DELETE_TOOL, Destroy)]"
  by (simp add: certificate_policy_tools_def op_row_def tool_defs)

lemma certificate_profile_tools_rows:
  "map op_row certificate_profile_tools =
     [(CERTIFICATE_PROFILES_LIST_TOOL, Read_Audited),
      (CERTIFICATE_PROFILES_GET_TOOL, Read_Audited),
      (CERTIFICATE_PROFILES_GET_BY_SLUG_TOOL, Read_Audited),
      (CERTIFICATE_PROFILES_CREATE_TOOL, Write), (CERTIFICATE_PROFILES_UPDATE_TOOL, Destroy),
      (CERTIFICATE_PROFILES_DELETE_TOOL, Destroy),
      (CERTIFICATE_PROFILE_CERTIFICATES_LIST_TOOL, Read_Audited),
      (CERTIFICATE_PROFILE_LATEST_BUNDLE_REVEAL_TOOL, Read_Audited),
      (CERTIFICATE_PROFILE_EAB_SECRET_REVEAL_TOOL, Read_Audited)]"
  by (simp add: certificate_profile_tools_def op_row_def tool_defs)

lemma ssh_certificate_authority_tools_rows:
  "map op_row ssh_certificate_authority_tools =
     [(SSH_CERTIFICATE_AUTHORITIES_LIST_TOOL, Read_Audited),
      (SSH_CERTIFICATE_AUTHORITIES_GET_TOOL, Read_Audited),
      (SSH_CERTIFICATE_AUTHORITIES_PUBLIC_KEY_GET_TOOL, Read_Audited),
      (SSH_CERTIFICATE_AUTHORITIES_CREATE_TOOL, Write),
      (SSH_CERTIFICATE_AUTHORITIES_REPLACE_TOOL, Destroy),
      (SSH_CERTIFICATE_AUTHORITIES_DELETE_TOOL, Destroy),
      (SSH_CERTIFICATE_TEMPLATES_LIST_TOOL, Read_Audited),
      (SSH_CERTIFICATE_AUTHORITY_TEMPLATES_LIST_TOOL, Read_Audited),
      (SSH_CERTIFICATE_TEMPLATES_GET_TOOL, Read_Audited),
      (SSH_CERTIFICATE_TEMPLATES_CREATE_TOOL, Write),
      (SSH_CERTIFICATE_TEMPLATES_REPLACE_TOOL, Destroy),
      (SSH_CERTIFICATE_TEMPLATES_DELETE_TOOL, Destroy), (SSH_CERTIFICATES_SIGN_TOOL, Write),
      (SSH_CERTIFICATES_ISSUE_TOOL, Write)]"
  by (simp add: ssh_certificate_authority_tools_def op_row_def tool_defs)

lemma code_signer_tools_rows:
  "map op_row code_signer_tools =
     [(CODE_SIGNERS_LIST_TOOL, Read_Audited), (CODE_SIGNERS_GET_TOOL, Read_Audited),
      (CODE_SIGNERS_CREATE_TOOL, Write), (CODE_SIGNERS_UPDATE_TOOL, Write),
      (CODE_SIGNERS_DELETE_TOOL, Destroy), (CODE_SIGNERS_STATUS_UPDATE_TOOL, Write),
      (CODE_SIGNERS_CERTIFICATE_REISSUE_TOOL, Write),
      (CODE_SIGNERS_CERTIFICATE_EXPORT_TOOL, Read_Audited),
      (CODE_SIGNERS_PUBLIC_KEY_GET_TOOL, Read_Audited), (CODE_SIGNERS_SIGN_TOOL, Write),
      (CODE_SIGNER_MEMBERS_LIST_TOOL, Read_Audited), (CODE_SIGNER_MEMBERS_ADD_TOOL, Write),
      (CODE_SIGNER_MEMBER_ROLE_UPDATE_TOOL, Write), (CODE_SIGNER_MEMBERS_REMOVE_TOOL, Destroy),
      (CODE_SIGNER_EFFECTIVE_MEMBERS_LIST_TOOL, Read_Audited),
      (CODE_SIGNER_PERMISSIONS_GET_TOOL, Read_Audited),
      (CODE_SIGNER_APPROVAL_POLICY_GET_TOOL, Read_Audited),
      (CODE_SIGNER_APPROVAL_POLICY_REPLACE_TOOL, Destroy),
      (CODE_SIGNER_APPROVAL_REQUESTS_LIST_TOOL, Read_Audited),
      (CODE_SIGNER_APPROVAL_REQUESTS_CREATE_TOOL, Write),
      (CODE_SIGNER_APPROVAL_REQUESTS_PRE_APPROVE_TOOL, Write),
      (CODE_SIGNER_APPROVAL_REQUESTS_REVOKE_TOOL, Destroy),
      (CODE_SIGNER_OPERATIONS_LIST_TOOL, Read_Audited)]"
  by (simp add: code_signer_tools_def op_row_def tool_defs)

lemma kms_tools_rows:
  "map op_row kms_tools =
     [(KMS_KEYS_LIST_TOOL, Read_Audited), (KMS_KEYS_GET_TOOL, Read_Audited),
      (KMS_KEYS_GET_BY_NAME_TOOL, Read_Audited), (KMS_KEYS_CREATE_TOOL, Write),
      (KMS_KEYS_UPDATE_TOOL, Destroy), (KMS_KEYS_DELETE_TOOL, Destroy),
      (KMS_ENCRYPT_TOOL, Write), (KMS_DECRYPT_TOOL, Write),
      (KMS_PUBLIC_KEY_GET_TOOL, Read_Audited), (KMS_PRIVATE_KEY_REVEAL_TOOL, Read_Audited),
      (KMS_KEYS_BULK_IMPORT_TOOL, Write), (KMS_PRIVATE_KEYS_BULK_REVEAL_TOOL, Write),
      (KMS_SIGNING_ALGORITHMS_LIST_TOOL, Read_Audited), (KMS_SIGN_TOOL, Write),
      (KMS_VERIFY_TOOL, Write)]"
  by (simp add: kms_tools_def op_row_def tool_defs)

lemma dynamic_secret_tools_rows:
  "map op_row dynamic_secret_tools =
     [(DYNAMIC_SECRETS_LIST_TOOL, Read_Audited), (DYNAMIC_SECRETS_GET_TOOL, Read_Audited),
      (DYNAMIC_SECRETS_CREATE_TOOL, Write), (DYNAMIC_SECRETS_UPDATE_TOOL, Write),
      (DYNAMIC_SECRETS_DELETE_TOOL, Destroy), (DYNAMIC_SECRET_LEASES_LIST_TOOL, Read_Audited),
      (DYNAMIC_SECRET_LEASES_GET_TOOL, Read_Audited),
      (DYNAMIC_SECRET_LEASES_CREATE_TOOL, Destroy), (DYNAMIC_SECRET_LEASES_RENEW_TOOL, Write),
      (DYNAMIC_SECRET_LEASES_REVOKE_TOOL, Destroy)]"
  by (simp add: dynamic_secret_tools_def op_row_def tool_defs)

lemma ssh_host_tools_rows:
  "map op_row ssh_host_tools =
     [(SSH_HOSTS_LIST_TOOL, Read_Audited), (SSH_HOSTS_GET_TOOL, Read_Audited),
      (SSH_HOSTS_CREATE_TOOL, Write), (SSH_HOSTS_REPLACE_TOOL, Destroy),
      (SSH_HOSTS_DELETE_TOOL, Destroy), (SSH_HOSTS_USER_CA_PUBLIC_KEY_GET_TOOL, Read_Audited),
      (SSH_HOSTS_HOST_CA_PUBLIC_KEY_GET_TOOL, Read_Audited),
      (SSH_HOSTS_HOST_CERTIFICATE_ISSUE_TOOL, Write), (SSH_HOST_GROUPS_LIST_TOOL, Read_Audited),
      (SSH_HOST_GROUPS_GET_TOOL, Read_Audited), (SSH_HOST_GROUPS_CREATE_TOOL, Write),
      (SSH_HOST_GROUPS_REPLACE_TOOL, Destroy), (SSH_HOST_GROUPS_DELETE_TOOL, Destroy),
      (SSH_HOST_GROUP_HOSTS_LIST_TOOL, Read_Audited), (SSH_HOST_GROUP_HOSTS_ADD_TOOL, Write),
      (SSH_HOST_GROUP_HOSTS_REMOVE_TOOL, Destroy)]"
  by (simp add: ssh_host_tools_def op_row_def tool_defs)

lemmas family_rows = discovery_tools_rows project_environment_tools_rows folder_tag_tools_rows
  identity_tools_rows project_membership_tools_rows role_tools_rows group_tools_rows
  identity_project_additional_privilege_tools_rows universal_auth_tools_rows
  token_auth_tools_rows kubernetes_auth_tools_rows secret_tools_rows secret_import_tools_rows
  audit_log_tools_rows app_automation_tools_rows sql_secret_rotation_tools_rows
  certificate_authority_tools_rows certificate_tools_rows certificate_policy_tools_rows
  certificate_profile_tools_rows ssh_certificate_authority_tools_rows code_signer_tools_rows
  kms_tools_rows dynamic_secret_tools_rows ssh_host_tools_rows

end
