(* ===== verification/Operation_Registry.thy ===== *)
theory Operation_Registry
  imports Operation_Catalog
begin

text \<open>
  \<open>OperationRegistry\<close> of \<open>crates/infisical-mcp/src/tools.rs\<close>: an index from names to positions,
  built once and asserting that no name is declared twice. \<open>None\<close> stands for the panic of that
  assertion; the registry of the real catalog is shown to build.
\<close>

section \<open>The index\<close>

record operation_registry =
  reg_operations :: "operation_definition list"
  reg_by_name :: "string \<rightharpoonup> nat"

fun index_operations ::
    "nat \<Rightarrow> operation_definition list \<Rightarrow> (string \<rightharpoonup> nat) \<Rightarrow> (string \<rightharpoonup> nat) option" where
  "index_operations i [] m = Some m"
| "index_operations i (d # ds) m =
     (if m (od_name d) \<noteq> None then None
      else index_operations (Suc i) ds (m(od_name d \<mapsto> i)))"

definition registry_new :: "operation_definition list \<Rightarrow> operation_registry option" where
  "registry_new ds =
     map_option (\<lambda>m. \<lparr>reg_operations = ds, reg_by_name = m\<rparr>) (index_operations 0 ds Map.empty)"

definition registry_get :: "operation_registry \<Rightarrow> string \<Rightarrow> operation_definition option" where
  "registry_get r name = map_option (\<lambda>i. reg_operations r ! i) (reg_by_name r name)"

definition the_registry :: "operation_registry option" where
  "the_registry = registry_new build_operation_catalog"

definition described_operations :: "operation_definition list" where
  "described_operations = (case the_registry of None \<Rightarrow> [] | Some r \<Rightarrow> reg_operations r)"

definition operation_definition :: "string \<Rightarrow> operation_definition option" where
  "operation_definition name = Option.bind the_registry (\<lambda>r. registry_get r name)"

definition tool_tier_of :: "string \<Rightarrow> tool_tier option" where
  "tool_tier_of name = map_option od_tier (operation_definition name)"

section \<open>Building the index\<close>

lemma index_operations_dup:
  "m n \<noteq> None \<Longrightarrow> n \<in> od_name ` set ds \<Longrightarrow> index_operations i ds m = None"
  by (induction ds arbitrary: i m) auto

lemma index_operations_distinct:
  "distinct (map od_name ds) \<Longrightarrow> (\<forall>d \<in> set ds. m (od_name d) = None) \<Longrightarrow>
     \<exists>m'. index_operations i ds m = Some m'
       \<and> (\<forall>k < length ds. m' (od_name (ds ! k)) = Some (i + k))
       \<and> (\<forall>n. n \<notin> od_name ` set ds \<longrightarrow> m' n = m n)"
proof (induction ds arbitrary: i m)
  case (Cons d ds)
  let ?m = "m(od_name d \<mapsto> i)"
  have "?m (od_name e) = None" if "e \<in> set ds" for e
  proof -
    have "od_name e \<noteq> od_name d" using Cons.prems(1) that by (auto simp: image_iff)
    then show ?thesis using Cons.prems(2) that by simp
  qed
  then have "\<forall>e \<in> set ds. ?m (od_name e) = None" by blast
  moreover have "distinct (map od_name ds)" using Cons.prems(1) by simp
  ultimately obtain m' where
    m': "index_operations (Suc i) ds ?m = Some m'"
      "\<forall>k < length ds. m' (od_name (ds ! k)) = Some (Suc i + k)"
      "\<forall>n. n \<notin> od_name ` set ds \<longrightarrow> m' n = ?m n" using Cons.IH by blast
  have "m' (od_name d) = Some i" using m'(3) Cons.prems(1) by auto
  with m' Cons.prems show ?case
    by (intro exI [of _ m']) (auto simp: nth_Cons split: nat.splits)
qed simp

lemma find_by_key:
  "distinct (map f xs) \<Longrightarrow> k < length xs \<Longrightarrow> find (\<lambda>x. f x = f (xs ! k)) xs = Some (xs ! k)"
proof (induction xs arbitrary: k)
  case (Cons x xs)
  show ?case
  proof (cases k)
    case (Suc j)
    with Cons.prems have "f x \<noteq> f (xs ! j)" by auto
    with Suc Cons show ?thesis by simp
  qed simp
qed simp

lemma registry_get_find:
  assumes "distinct (map od_name ds)"
  shows "\<exists>r. registry_new ds = Some r \<and> reg_operations r = ds
    \<and> (\<forall>n. registry_get r n = find (\<lambda>d. od_name d = n) ds)"
proof -
  obtain m where m: "index_operations 0 ds Map.empty = Some m"
      "\<forall>k < length ds. m (od_name (ds ! k)) = Some k"
      "\<forall>n. n \<notin> od_name ` set ds \<longrightarrow> m n = None"
    using index_operations_distinct [OF assms, of Map.empty 0] by auto
  have "map_option ((!) ds) (m n) = find (\<lambda>d. od_name d = n) ds" for n
  proof (cases "n \<in> od_name ` set ds")
    case True
    then obtain k where "k < length ds" "n = od_name (ds ! k)" by (auto simp: in_set_conv_nth)
    with m(2) find_by_key [OF assms] show ?thesis by simp
  next
    case False
    with m(3) show ?thesis by (auto simp: find_None_iff2)
  qed
  then show ?thesis using m(1) by (simp add: registry_new_def registry_get_def)
qed

section \<open>Names are declared once\<close>

text \<open>
  Two operations of one family differ by comparison, two of different families by the first segment
  of the name.
\<close>

definition name_head :: "string \<Rightarrow> string" where "name_head = takeWhile ((\<noteq>) CHR ''.'')"

definition heads :: "operation_definition list \<Rightarrow> string list" where
  "heads ds = remdups (map (name_head \<circ> fst) (map op_row ds))"

lemma od_name_row: "od_name = fst \<circ> op_row"
  by (auto simp: op_row_def)

lemma set_heads: "set (heads ds) = name_head ` od_name ` set ds"
  by (auto simp: heads_def op_row_def)

lemma distinct_families:
  "list_all (\<lambda>ds. distinct (map od_name ds)) dss \<Longrightarrow> distinct (concat (map heads dss)) \<Longrightarrow>
     distinct (map od_name (concat dss))"
proof (induction dss)
  case (Cons ds dss)
  have "name_head n \<in> set (concat (map heads dss))" if "n \<in> od_name ` set (concat dss)" for n
    using that by (auto simp: set_heads)
  moreover have "name_head n \<in> set (heads ds)" if "n \<in> od_name ` set ds" for n
    using that by (auto simp: set_heads)
  ultimately have "od_name ` set ds \<inter> od_name ` set (concat dss) = {}"
    using Cons.prems(2) by (simp only: list.map concat.simps distinct_append) blast
  with Cons show ?case by simp
qed simp

lemma discovery_tools_distinct: "distinct (map od_name (discovery_tools @ project_environment_tools))"
  unfolding od_name_row map_map [symmetric] map_append family_rows by simp

lemma discovery_tools_heads: "heads (discovery_tools @ project_environment_tools) = [''projects'', ''environments'']"
  unfolding heads_def map_append family_rows by (simp add: name_head_def)

lemma folder_tag_tools_distinct: "distinct (map od_name (folder_tag_tools))"
  unfolding od_name_row map_map [symmetric] map_append family_rows by simp

lemma folder_tag_tools_heads: "heads (folder_tag_tools) = [''folders'', ''tags'']"
  unfolding heads_def map_append family_rows by (simp add: name_head_def)

lemma identity_tools_distinct: "distinct (map od_name (identity_tools))"
  unfolding od_name_row map_map [symmetric] map_append family_rows by simp

lemma identity_tools_heads: "heads (identity_tools) = [''identities'']"
  unfolding heads_def map_append family_rows by (simp add: name_head_def)

lemma project_membership_tools_distinct: "distinct (map od_name (project_membership_tools))"
  unfolding od_name_row map_map [symmetric] map_append family_rows by simp

lemma project_membership_tools_heads: "heads (project_membership_tools) = [''projectUserMemberships'', ''projectIdentityMemberships'']"
  unfolding heads_def map_append family_rows by (simp add: name_head_def)

lemma role_tools_distinct: "distinct (map od_name (role_tools))"
  unfolding od_name_row map_map [symmetric] map_append family_rows by simp

lemma role_tools_heads: "heads (role_tools) = [''projectRoles'', ''organizationRoles'']"
  unfolding heads_def map_append family_rows by (simp add: name_head_def)

lemma group_tools_distinct: "distinct (map od_name (group_tools))"
  unfolding od_name_row map_map [symmetric] map_append family_rows by simp

lemma group_tools_heads: "heads (group_tools) = [''groups'', ''projectGroupMemberships'']"
  unfolding heads_def map_append family_rows by (simp add: name_head_def)

lemma identity_project_additional_privilege_tools_distinct: "distinct (map od_name (identity_project_additional_privilege_tools))"
  unfolding od_name_row map_map [symmetric] map_append family_rows by simp

lemma identity_project_additional_privilege_tools_heads: "heads (identity_project_additional_privilege_tools) = [''identityProjectAdditionalPrivileges'']"
  unfolding heads_def map_append family_rows by (simp add: name_head_def)

lemma universal_auth_tools_distinct: "distinct (map od_name (universal_auth_tools))"
  unfolding od_name_row map_map [symmetric] map_append family_rows by simp

lemma universal_auth_tools_heads: "heads (universal_auth_tools) = [''identityUniversalAuth'']"
  unfolding heads_def map_append family_rows by (simp add: name_head_def)

lemma token_auth_tools_distinct: "distinct (map od_name (token_auth_tools))"
  unfolding od_name_row map_map [symmetric] map_append family_rows by simp

lemma token_auth_tools_heads: "heads (token_auth_tools) = [''identityTokenAuth'']"
  unfolding heads_def map_append family_rows by (simp add: name_head_def)

lemma kubernetes_auth_tools_distinct: "distinct (map od_name (kubernetes_auth_tools))"
  unfolding od_name_row map_map [symmetric] map_append family_rows by simp

lemma kubernetes_auth_tools_heads: "heads (kubernetes_auth_tools) = [''identityKubernetesAuth'']"
  unfolding heads_def map_append family_rows by (simp add: name_head_def)

lemma secret_tools_distinct: "distinct (map od_name (secret_tools))"
  unfolding od_name_row map_map [symmetric] map_append family_rows by simp

lemma secret_tools_heads: "heads (secret_tools) = [''secrets'']"
  unfolding heads_def map_append family_rows by (simp add: name_head_def)

lemma secret_import_tools_distinct: "distinct (map od_name (secret_import_tools))"
  unfolding od_name_row map_map [symmetric] map_append family_rows by simp

lemma secret_import_tools_heads: "heads (secret_import_tools) = [''secretImports'']"
  unfolding heads_def map_append family_rows by (simp add: name_head_def)

lemma audit_log_tools_distinct: "distinct (map od_name (audit_log_tools))"
  unfolding od_name_row map_map [symmetric] map_append family_rows by simp

lemma audit_log_tools_heads: "heads (audit_log_tools) = [''auditLogs'']"
  unfolding heads_def map_append family_rows by (simp add: name_head_def)

lemma app_automation_tools_distinct: "distinct (map od_name (app_automation_tools @ sql_secret_rotation_tools))"
  unfolding od_name_row map_map [symmetric] map_append family_rows by simp

lemma app_automation_tools_heads: "heads (app_automation_tools @ sql_secret_rotation_tools) = [''appConnections'', ''secretSyncs'', ''secretRotations'']"
  unfolding heads_def map_append family_rows by (simp add: name_head_def)

lemma certificate_authority_tools_distinct: "distinct (map od_name (certificate_authority_tools))"
  unfolding od_name_row map_map [symmetric] map_append family_rows by simp

lemma certificate_authority_tools_heads: "heads (certificate_authority_tools) = [''certificateAuthorities'']"
  unfolding heads_def map_append family_rows by (simp add: name_head_def)

lemma certificate_tools_distinct: "distinct (map od_name (certificate_tools))"
  unfolding od_name_row map_map [symmetric] map_append family_rows by simp

lemma certificate_tools_heads: "heads (certificate_tools) = [''certificates'', ''certificateRequests'']"
  unfolding heads_def map_append family_rows by (simp add: name_head_def)

lemma certificate_policy_tools_distinct: "distinct (map od_name (certificate_policy_tools))"
  unfolding od_name_row map_map [symmetric] map_append family_rows by simp

lemma certificate_policy_tools_heads: "heads (certificate_policy_tools) = [''certificatePolicies'']"
  unfolding heads_def map_append family_rows by (simp add: name_head_def)

lemma certificate_profile_tools_distinct: "distinct (map od_name (certificate_profile_tools))"
  unfolding od_name_row map_map [symmetric] map_append family_rows by simp

lemma certificate_profile_tools_heads: "heads (certificate_profile_tools) = [''certificateProfiles'']"
  unfolding heads_def map_append family_rows by (simp add: name_head_def)

lemma ssh_certificate_authority_tools_distinct: "distinct (map od_name (ssh_certificate_authority_tools))"
  unfolding od_name_row map_map [symmetric] map_append family_rows by simp

lemma ssh_certificate_authority_tools_heads: "heads (ssh_certificate_authority_tools) = [''sshCertificateAuthorities'', ''sshCertificateTemplates'', ''sshCertificates'']"
  unfolding heads_def map_append family_rows by (simp add: name_head_def)

lemma code_signer_tools_distinct: "distinct (map od_name (code_signer_tools))"
  unfolding od_name_row map_map [symmetric] map_append family_rows by simp

lemma code_signer_tools_heads: "heads (code_signer_tools) = [''codeSigners'']"
  unfolding heads_def map_append family_rows by (simp add: name_head_def)

lemma kms_tools_distinct: "distinct (map od_name (kms_tools))"
  unfolding od_name_row map_map [symmetric] map_append family_rows by simp

lemma kms_tools_heads: "heads (kms_tools) = [''kms'']"
  unfolding heads_def map_append family_rows by (simp add: name_head_def)

lemma dynamic_secret_tools_distinct: "distinct (map od_name (dynamic_secret_tools))"
  unfolding od_name_row map_map [symmetric] map_append family_rows by simp

lemma dynamic_secret_tools_heads: "heads (dynamic_secret_tools) = [''dynamicSecrets'', ''dynamicSecretLeases'']"
  unfolding heads_def map_append family_rows by (simp add: name_head_def)

lemma ssh_host_tools_distinct: "distinct (map od_name (ssh_host_tools))"
  unfolding od_name_row map_map [symmetric] map_append family_rows by simp

lemma ssh_host_tools_heads: "heads (ssh_host_tools) = [''sshHosts'', ''sshHostGroups'']"
  unfolding heads_def map_append family_rows by (simp add: name_head_def)

lemmas family_distinct = discovery_tools_distinct folder_tag_tools_distinct identity_tools_distinct
  project_membership_tools_distinct role_tools_distinct group_tools_distinct
  identity_project_additional_privilege_tools_distinct universal_auth_tools_distinct
  token_auth_tools_distinct kubernetes_auth_tools_distinct secret_tools_distinct
  secret_import_tools_distinct audit_log_tools_distinct app_automation_tools_distinct
  certificate_authority_tools_distinct certificate_tools_distinct
  certificate_policy_tools_distinct certificate_profile_tools_distinct
  ssh_certificate_authority_tools_distinct code_signer_tools_distinct kms_tools_distinct
  dynamic_secret_tools_distinct ssh_host_tools_distinct

lemmas family_heads = discovery_tools_heads folder_tag_tools_heads identity_tools_heads
  project_membership_tools_heads role_tools_heads group_tools_heads
  identity_project_additional_privilege_tools_heads universal_auth_tools_heads
  token_auth_tools_heads kubernetes_auth_tools_heads secret_tools_heads
  secret_import_tools_heads audit_log_tools_heads app_automation_tools_heads
  certificate_authority_tools_heads certificate_tools_heads certificate_policy_tools_heads
  certificate_profile_tools_heads ssh_certificate_authority_tools_heads code_signer_tools_heads
  kms_tools_heads dynamic_secret_tools_heads ssh_host_tools_heads

definition family_blocks :: "operation_definition list list" where
  "family_blocks =
     [discovery_tools @ project_environment_tools, folder_tag_tools, identity_tools,
      project_membership_tools, role_tools, group_tools,
      identity_project_additional_privilege_tools, universal_auth_tools, token_auth_tools,
      kubernetes_auth_tools, secret_tools, secret_import_tools, audit_log_tools,
      app_automation_tools @ sql_secret_rotation_tools, certificate_authority_tools,
      certificate_tools, certificate_policy_tools, certificate_profile_tools,
      ssh_certificate_authority_tools, code_signer_tools, kms_tools, dynamic_secret_tools,
      ssh_host_tools]"

lemma catalog_blocks: "build_operation_catalog = concat family_blocks"
  by (simp add: build_operation_catalog_def family_blocks_def)

lemma catalog_distinct: "distinct (map od_name build_operation_catalog)"
  unfolding catalog_blocks
proof (rule distinct_families)
  show "list_all (\<lambda>ds. distinct (map od_name ds)) family_blocks"
    unfolding family_blocks_def by (simp add: family_distinct del: map_append)
  show "distinct (concat (map heads family_blocks))"
    unfolding family_blocks_def list.map concat.simps family_heads by simp
qed

end
