(* ===== verification/Operation_Catalog_Facts.thy ===== *)
theory Operation_Catalog_Facts
  imports Operation_Registry
begin

text \<open>
  The catalog against the policy table. Membership facts are collected per family and per arm, so
  that the comparisons below are rewriting by lookup; from them follow the facts that the profiles
  rest on: the table reviews exactly the operations that are served, and the metadata profile never
  reaches an operation that changes anything or discloses a credential.
\<close>

section \<open>Rows of the catalog\<close>

definition catalog_rows :: "(string \<times> tool_tier) set" where
  "catalog_rows = op_row ` set build_operation_catalog"

lemma catalog_rowsE:
  "(n, t) \<in> catalog_rows \<Longrightarrow> \<exists>d \<in> set build_operation_catalog. od_name d = n \<and> od_tier d = t"
  by (auto simp: catalog_rows_def op_row_def)

lemma discovery_tools_in: "set (map op_row discovery_tools) \<subseteq> catalog_rows"
  by (auto simp: catalog_rows_def build_operation_catalog_def)

lemma project_environment_tools_in: "set (map op_row project_environment_tools) \<subseteq> catalog_rows"
  by (auto simp: catalog_rows_def build_operation_catalog_def)

lemma folder_tag_tools_in: "set (map op_row folder_tag_tools) \<subseteq> catalog_rows"
  by (auto simp: catalog_rows_def build_operation_catalog_def)

lemma identity_tools_in: "set (map op_row identity_tools) \<subseteq> catalog_rows"
  by (auto simp: catalog_rows_def build_operation_catalog_def)

lemma project_membership_tools_in: "set (map op_row project_membership_tools) \<subseteq> catalog_rows"
  by (auto simp: catalog_rows_def build_operation_catalog_def)

lemma role_tools_in: "set (map op_row role_tools) \<subseteq> catalog_rows"
  by (auto simp: catalog_rows_def build_operation_catalog_def)

lemma group_tools_in: "set (map op_row group_tools) \<subseteq> catalog_rows"
  by (auto simp: catalog_rows_def build_operation_catalog_def)

lemma identity_project_additional_privilege_tools_in: "set (map op_row identity_project_additional_privilege_tools) \<subseteq> catalog_rows"
  by (auto simp: catalog_rows_def build_operation_catalog_def)

lemma universal_auth_tools_in: "set (map op_row universal_auth_tools) \<subseteq> catalog_rows"
  by (auto simp: catalog_rows_def build_operation_catalog_def)

lemma token_auth_tools_in: "set (map op_row token_auth_tools) \<subseteq> catalog_rows"
  by (auto simp: catalog_rows_def build_operation_catalog_def)

lemma kubernetes_auth_tools_in: "set (map op_row kubernetes_auth_tools) \<subseteq> catalog_rows"
  by (auto simp: catalog_rows_def build_operation_catalog_def)

lemma secret_tools_in: "set (map op_row secret_tools) \<subseteq> catalog_rows"
  by (auto simp: catalog_rows_def build_operation_catalog_def)

lemma secret_import_tools_in: "set (map op_row secret_import_tools) \<subseteq> catalog_rows"
  by (auto simp: catalog_rows_def build_operation_catalog_def)

lemma audit_log_tools_in: "set (map op_row audit_log_tools) \<subseteq> catalog_rows"
  by (auto simp: catalog_rows_def build_operation_catalog_def)

lemma app_automation_tools_in: "set (map op_row app_automation_tools) \<subseteq> catalog_rows"
  by (auto simp: catalog_rows_def build_operation_catalog_def)

lemma sql_secret_rotation_tools_in: "set (map op_row sql_secret_rotation_tools) \<subseteq> catalog_rows"
  by (auto simp: catalog_rows_def build_operation_catalog_def)

lemma certificate_authority_tools_in: "set (map op_row certificate_authority_tools) \<subseteq> catalog_rows"
  by (auto simp: catalog_rows_def build_operation_catalog_def)

lemma certificate_tools_in: "set (map op_row certificate_tools) \<subseteq> catalog_rows"
  by (auto simp: catalog_rows_def build_operation_catalog_def)

lemma certificate_policy_tools_in: "set (map op_row certificate_policy_tools) \<subseteq> catalog_rows"
  by (auto simp: catalog_rows_def build_operation_catalog_def)

lemma certificate_profile_tools_in: "set (map op_row certificate_profile_tools) \<subseteq> catalog_rows"
  by (auto simp: catalog_rows_def build_operation_catalog_def)

lemma ssh_certificate_authority_tools_in: "set (map op_row ssh_certificate_authority_tools) \<subseteq> catalog_rows"
  by (auto simp: catalog_rows_def build_operation_catalog_def)

lemma code_signer_tools_in: "set (map op_row code_signer_tools) \<subseteq> catalog_rows"
  by (auto simp: catalog_rows_def build_operation_catalog_def)

lemma kms_tools_in: "set (map op_row kms_tools) \<subseteq> catalog_rows"
  by (auto simp: catalog_rows_def build_operation_catalog_def)

lemma dynamic_secret_tools_in: "set (map op_row dynamic_secret_tools) \<subseteq> catalog_rows"
  by (auto simp: catalog_rows_def build_operation_catalog_def)

lemma ssh_host_tools_in: "set (map op_row ssh_host_tools) \<subseteq> catalog_rows"
  by (auto simp: catalog_rows_def build_operation_catalog_def)

lemmas in_catalog = discovery_tools_in [unfolded family_rows list.set insert_subset]
  project_environment_tools_in [unfolded family_rows list.set insert_subset]
  folder_tag_tools_in [unfolded family_rows list.set insert_subset]
  identity_tools_in [unfolded family_rows list.set insert_subset]
  project_membership_tools_in [unfolded family_rows list.set insert_subset]
  role_tools_in [unfolded family_rows list.set insert_subset]
  group_tools_in [unfolded family_rows list.set insert_subset]
  identity_project_additional_privilege_tools_in [unfolded family_rows list.set insert_subset]
  universal_auth_tools_in [unfolded family_rows list.set insert_subset]
  token_auth_tools_in [unfolded family_rows list.set insert_subset]
  kubernetes_auth_tools_in [unfolded family_rows list.set insert_subset]
  secret_tools_in [unfolded family_rows list.set insert_subset]
  secret_import_tools_in [unfolded family_rows list.set insert_subset]
  audit_log_tools_in [unfolded family_rows list.set insert_subset]
  app_automation_tools_in [unfolded family_rows list.set insert_subset]
  sql_secret_rotation_tools_in [unfolded family_rows list.set insert_subset]
  certificate_authority_tools_in [unfolded family_rows list.set insert_subset]
  certificate_tools_in [unfolded family_rows list.set insert_subset]
  certificate_policy_tools_in [unfolded family_rows list.set insert_subset]
  certificate_profile_tools_in [unfolded family_rows list.set insert_subset]
  ssh_certificate_authority_tools_in [unfolded family_rows list.set insert_subset]
  code_signer_tools_in [unfolded family_rows list.set insert_subset]
  kms_tools_in [unfolded family_rows list.set insert_subset]
  dynamic_secret_tools_in [unfolded family_rows list.set insert_subset]
  ssh_host_tools_in [unfolded family_rows list.set insert_subset]

section \<open>Names of the table\<close>

definition reviewed_names :: "string set" where
  "reviewed_names =
     set (administration_operations @ directory_reads @ pki_changes @ pki_reads
       @ pki_disclosures @ secret_disclosures @ secret_reads @ secret_changes
       @ shared_reads @ administration_disclosures)"

lemma pf_reviewed_names: "pf_reviewed (facts n) \<longleftrightarrow> n \<in> reviewed_names"
  by (auto simp: facts_def reviewed_arm_def unreviewed_def reviewed_names_def)

lemma administration_operations_reviewed: "set administration_operations \<subseteq> reviewed_names"
  by (auto simp: reviewed_names_def)

lemma directory_reads_reviewed: "set directory_reads \<subseteq> reviewed_names"
  by (auto simp: reviewed_names_def)

lemma pki_changes_reviewed: "set pki_changes \<subseteq> reviewed_names"
  by (auto simp: reviewed_names_def)

lemma pki_reads_reviewed: "set pki_reads \<subseteq> reviewed_names"
  by (auto simp: reviewed_names_def)

lemma pki_disclosures_reviewed: "set pki_disclosures \<subseteq> reviewed_names"
  by (auto simp: reviewed_names_def)

lemma secret_disclosures_reviewed: "set secret_disclosures \<subseteq> reviewed_names"
  by (auto simp: reviewed_names_def)

lemma secret_reads_reviewed: "set secret_reads \<subseteq> reviewed_names"
  by (auto simp: reviewed_names_def)

lemma secret_changes_reviewed: "set secret_changes \<subseteq> reviewed_names"
  by (auto simp: reviewed_names_def)

lemma shared_reads_reviewed: "set shared_reads \<subseteq> reviewed_names"
  by (auto simp: reviewed_names_def)

lemma administration_disclosures_reviewed: "set administration_disclosures \<subseteq> reviewed_names"
  by (auto simp: reviewed_names_def)

lemmas in_table = administration_operations_reviewed [unfolded administration_operations_def list.set insert_subset]
  directory_reads_reviewed [unfolded directory_reads_def list.set insert_subset]
  pki_changes_reviewed [unfolded pki_changes_def list.set insert_subset]
  pki_reads_reviewed [unfolded pki_reads_def list.set insert_subset]
  pki_disclosures_reviewed [unfolded pki_disclosures_def list.set insert_subset]
  secret_disclosures_reviewed [unfolded secret_disclosures_def list.set insert_subset]
  secret_reads_reviewed [unfolded secret_reads_def list.set insert_subset]
  secret_changes_reviewed [unfolded secret_changes_def list.set insert_subset]
  shared_reads_reviewed [unfolded shared_reads_def list.set insert_subset]
  administration_disclosures_reviewed [unfolded administration_disclosures_def list.set insert_subset]

section \<open>Every served operation is reviewed, and every reviewed one is served\<close>

definition row_reviewed :: "string \<times> tool_tier \<Rightarrow> bool" where
  "row_reviewed r \<longleftrightarrow> fst r \<in> reviewed_names"

lemma discovery_tools_row_reviewed: "list_all row_reviewed (map op_row discovery_tools)"
  unfolding family_rows by (simp add: row_reviewed_def in_table)

lemma project_environment_tools_row_reviewed: "list_all row_reviewed (map op_row project_environment_tools)"
  unfolding family_rows by (simp add: row_reviewed_def in_table)

lemma folder_tag_tools_row_reviewed: "list_all row_reviewed (map op_row folder_tag_tools)"
  unfolding family_rows by (simp add: row_reviewed_def in_table)

lemma identity_tools_row_reviewed: "list_all row_reviewed (map op_row identity_tools)"
  unfolding family_rows by (simp add: row_reviewed_def in_table)

lemma project_membership_tools_row_reviewed: "list_all row_reviewed (map op_row project_membership_tools)"
  unfolding family_rows by (simp add: row_reviewed_def in_table)

lemma role_tools_row_reviewed: "list_all row_reviewed (map op_row role_tools)"
  unfolding family_rows by (simp add: row_reviewed_def in_table)

lemma group_tools_row_reviewed: "list_all row_reviewed (map op_row group_tools)"
  unfolding family_rows by (simp add: row_reviewed_def in_table)

lemma identity_project_additional_privilege_tools_row_reviewed: "list_all row_reviewed (map op_row identity_project_additional_privilege_tools)"
  unfolding family_rows by (simp add: row_reviewed_def in_table)

lemma universal_auth_tools_row_reviewed: "list_all row_reviewed (map op_row universal_auth_tools)"
  unfolding family_rows by (simp add: row_reviewed_def in_table)

lemma token_auth_tools_row_reviewed: "list_all row_reviewed (map op_row token_auth_tools)"
  unfolding family_rows by (simp add: row_reviewed_def in_table)

lemma kubernetes_auth_tools_row_reviewed: "list_all row_reviewed (map op_row kubernetes_auth_tools)"
  unfolding family_rows by (simp add: row_reviewed_def in_table)

lemma secret_tools_row_reviewed: "list_all row_reviewed (map op_row secret_tools)"
  unfolding family_rows by (simp add: row_reviewed_def in_table)

lemma secret_import_tools_row_reviewed: "list_all row_reviewed (map op_row secret_import_tools)"
  unfolding family_rows by (simp add: row_reviewed_def in_table)

lemma audit_log_tools_row_reviewed: "list_all row_reviewed (map op_row audit_log_tools)"
  unfolding family_rows by (simp add: row_reviewed_def in_table)

lemma app_automation_tools_row_reviewed: "list_all row_reviewed (map op_row app_automation_tools)"
  unfolding family_rows by (simp add: row_reviewed_def in_table)

lemma sql_secret_rotation_tools_row_reviewed: "list_all row_reviewed (map op_row sql_secret_rotation_tools)"
  unfolding family_rows by (simp add: row_reviewed_def in_table)

lemma certificate_authority_tools_row_reviewed: "list_all row_reviewed (map op_row certificate_authority_tools)"
  unfolding family_rows by (simp add: row_reviewed_def in_table)

lemma certificate_tools_row_reviewed: "list_all row_reviewed (map op_row certificate_tools)"
  unfolding family_rows by (simp add: row_reviewed_def in_table)

lemma certificate_policy_tools_row_reviewed: "list_all row_reviewed (map op_row certificate_policy_tools)"
  unfolding family_rows by (simp add: row_reviewed_def in_table)

lemma certificate_profile_tools_row_reviewed: "list_all row_reviewed (map op_row certificate_profile_tools)"
  unfolding family_rows by (simp add: row_reviewed_def in_table)

lemma ssh_certificate_authority_tools_row_reviewed: "list_all row_reviewed (map op_row ssh_certificate_authority_tools)"
  unfolding family_rows by (simp add: row_reviewed_def in_table)

lemma code_signer_tools_row_reviewed: "list_all row_reviewed (map op_row code_signer_tools)"
  unfolding family_rows by (simp add: row_reviewed_def in_table)

lemma kms_tools_row_reviewed: "list_all row_reviewed (map op_row kms_tools)"
  unfolding family_rows by (simp add: row_reviewed_def in_table)

lemma dynamic_secret_tools_row_reviewed: "list_all row_reviewed (map op_row dynamic_secret_tools)"
  unfolding family_rows by (simp add: row_reviewed_def in_table)

lemma ssh_host_tools_row_reviewed: "list_all row_reviewed (map op_row ssh_host_tools)"
  unfolding family_rows by (simp add: row_reviewed_def in_table)

lemmas family_reviewed = discovery_tools_row_reviewed project_environment_tools_row_reviewed
  folder_tag_tools_row_reviewed identity_tools_row_reviewed
  project_membership_tools_row_reviewed role_tools_row_reviewed group_tools_row_reviewed
  identity_project_additional_privilege_tools_row_reviewed universal_auth_tools_row_reviewed
  token_auth_tools_row_reviewed kubernetes_auth_tools_row_reviewed secret_tools_row_reviewed
  secret_import_tools_row_reviewed audit_log_tools_row_reviewed
  app_automation_tools_row_reviewed sql_secret_rotation_tools_row_reviewed
  certificate_authority_tools_row_reviewed certificate_tools_row_reviewed
  certificate_policy_tools_row_reviewed certificate_profile_tools_row_reviewed
  ssh_certificate_authority_tools_row_reviewed code_signer_tools_row_reviewed
  kms_tools_row_reviewed dynamic_secret_tools_row_reviewed ssh_host_tools_row_reviewed

lemma catalog_reviewed: "d \<in> set build_operation_catalog \<Longrightarrow> pf_reviewed (facts (od_name d))"
proof -
  have "list_all row_reviewed (map op_row build_operation_catalog)"
    unfolding build_operation_catalog_def map_append list_all_append by (intro conjI family_reviewed)
  then show "d \<in> set build_operation_catalog \<Longrightarrow> pf_reviewed (facts (od_name d))"
    by (auto simp: list_all_iff row_reviewed_def op_row_def pf_reviewed_names)
qed

definition served_at :: "tool_tier list \<Rightarrow> string \<Rightarrow> bool" where
  "served_at tiers n \<longleftrightarrow> list_ex (\<lambda>t. (n, t) \<in> catalog_rows) tiers"

lemma served_at_mono: "served_at ts n \<Longrightarrow> set ts \<subseteq> set us \<Longrightarrow> served_at us n"
  by (auto simp: served_at_def list_ex_iff)

lemma administration_operations_served: "list_all (served_at [Write, Destroy]) administration_operations"
  unfolding administration_operations_def by (simp add: served_at_def in_catalog)

lemma directory_reads_served: "list_all (served_at [Read, Read_Audited]) directory_reads"
  unfolding directory_reads_def by (simp add: served_at_def in_catalog)

lemma pki_changes_served: "list_all (served_at [Write, Destroy]) pki_changes"
  unfolding pki_changes_def by (simp add: served_at_def in_catalog)

lemma pki_reads_served: "list_all (served_at [Read_Audited]) pki_reads"
  unfolding pki_reads_def by (simp add: served_at_def in_catalog)

lemma pki_disclosures_served: "list_all (served_at [Read_Audited, Write]) pki_disclosures"
  unfolding pki_disclosures_def by (simp add: served_at_def in_catalog)

lemma secret_disclosures_served: "list_all (served_at [Read, Read_Audited, Destroy]) secret_disclosures"
  unfolding secret_disclosures_def by (simp add: served_at_def in_catalog)

lemma secret_reads_served: "list_all (served_at [Read, Read_Audited]) secret_reads"
  unfolding secret_reads_def by (simp add: served_at_def in_catalog)

lemma secret_changes_served: "list_all (served_at [Write, Destroy]) secret_changes"
  unfolding secret_changes_def by (simp add: served_at_def in_catalog)

lemma shared_reads_served: "list_all (served_at [Read]) shared_reads"
  unfolding shared_reads_def by (simp add: served_at_def in_catalog)

lemma administration_disclosures_served: "list_all (served_at [Read_Audited, Write]) administration_disclosures"
  unfolding administration_disclosures_def by (simp add: served_at_def in_catalog)

lemmas table_served = administration_operations_served directory_reads_served pki_changes_served pki_reads_served
  pki_disclosures_served secret_disclosures_served secret_reads_served secret_changes_served
  shared_reads_served administration_disclosures_served

lemma reviewed_served: "n \<in> reviewed_names \<Longrightarrow> n \<in> od_name ` set build_operation_catalog"
proof -
  assume "n \<in> reviewed_names"
  then obtain ts where "served_at ts n"
    using table_served by (auto simp: reviewed_names_def list_all_iff)
  then show ?thesis
    by (auto simp: served_at_def list_ex_iff dest!: catalog_rowsE)
qed

lemma metadata_reads:
  assumes "pf_metadata (facts n)"
  shows "served_at [Read, Read_Audited] n"
proof -
  have "n \<in> set (directory_reads @ pki_reads @ secret_reads @ shared_reads)"
    by (rule metadata_names [OF assms])
  then have "\<exists>ts. served_at ts n \<and> set ts \<subseteq> {Read, Read_Audited}"
    using directory_reads_served pki_reads_served secret_reads_served shared_reads_served
    by (fastforce simp: list_all_iff)
  then show ?thesis using served_at_mono [of _ n "[Read, Read_Audited]"] by auto
qed

lemma catalog_policy: "d \<in> set build_operation_catalog \<Longrightarrow> od_policy d = facts (od_name d)"
proof -
  have "list_all (\<lambda>d. od_policy d = facts (od_name d)) build_operation_catalog"
    unfolding build_operation_catalog_def list_all_append
    by (intro conjI) (simp_all add: tool_defs discovery_tools_def project_environment_tools_def folder_tag_tools_def
      identity_tools_def project_membership_tools_def role_tools_def group_tools_def
      identity_project_additional_privilege_tools_def universal_auth_tools_def
      token_auth_tools_def kubernetes_auth_tools_def secret_tools_def secret_import_tools_def
      audit_log_tools_def app_automation_tools_def sql_secret_rotation_tools_def
      certificate_authority_tools_def certificate_tools_def certificate_policy_tools_def
      certificate_profile_tools_def ssh_certificate_authority_tools_def code_signer_tools_def
      kms_tools_def dynamic_secret_tools_def ssh_host_tools_def)
  then show "d \<in> set build_operation_catalog \<Longrightarrow> od_policy d = facts (od_name d)"
    by (simp add: list_all_iff)
qed

lemma catalog_row_unique:
  "d \<in> set build_operation_catalog \<Longrightarrow> (od_name d, t) \<in> catalog_rows \<Longrightarrow> od_tier d = t"
  using catalog_distinct
  by (auto simp: distinct_map inj_on_def dest!: catalog_rowsE)

section \<open>Looking operations up\<close>

lemma registry_builds:
  "\<exists>r. the_registry = Some r \<and> reg_operations r = build_operation_catalog
     \<and> (\<forall>n. registry_get r n = find (\<lambda>d. od_name d = n) build_operation_catalog)"
  unfolding the_registry_def using registry_get_find [OF catalog_distinct] by blast

lemma operation_definition_find:
  "operation_definition n = find (\<lambda>d. od_name d = n) build_operation_catalog"
proof -
  obtain r where "the_registry = Some r"
    "\<forall>n. registry_get r n = find (\<lambda>d. od_name d = n) build_operation_catalog"
    using registry_builds by blast
  then show ?thesis unfolding operation_definition_def by (metis bind.bind_lunit)
qed

lemma described_operations_catalog: "described_operations = build_operation_catalog"
proof -
  obtain r where "the_registry = Some r" "reg_operations r = build_operation_catalog"
    using registry_builds by blast
  then show ?thesis unfolding described_operations_def by (metis option.case(2))
qed

lemma operation_definition_Some:
  "operation_definition n = Some d \<longleftrightarrow> d \<in> set build_operation_catalog \<and> od_name d = n"
proof
  assume "operation_definition n = Some d"
  then show "d \<in> set build_operation_catalog \<and> od_name d = n"
    by (auto simp: operation_definition_find find_Some_iff)
next
  assume d: "d \<in> set build_operation_catalog \<and> od_name d = n"
  then obtain k where "k < length build_operation_catalog" "d = build_operation_catalog ! k"
    by (auto simp: in_set_conv_nth)
  with d find_by_key [OF catalog_distinct] show "operation_definition n = Some d"
    by (auto simp: operation_definition_find)
qed

lemma operation_definition_None:
  "operation_definition n = None \<longleftrightarrow> n \<notin> od_name ` set build_operation_catalog"
  by (auto simp: operation_definition_find find_None_iff)

text \<open>
  C27: The operation registry builds without the panic its duplicate check would cause, it holds the
  whole catalog, every declared operation is found under its own name, and the reviewed policy table
  covers exactly the served names: no served operation is unreviewed and no reviewed name is stale.
\<close>

theorem registry_matches_policy:
  "(\<exists>r. the_registry = Some r \<and> reg_operations r = build_operation_catalog)
     \<and> distinct (map od_name build_operation_catalog)
     \<and> (\<forall>n d. operation_definition n = Some d \<longleftrightarrow> d \<in> set build_operation_catalog \<and> od_name d = n)
     \<and> (\<forall>n. pf_reviewed (facts n) \<longleftrightarrow> operation_definition n \<noteq> None)"
proof (intro conjI allI)
  show "\<exists>r. the_registry = Some r \<and> reg_operations r = build_operation_catalog"
    using registry_builds by blast
  show "distinct (map od_name build_operation_catalog)" by (rule catalog_distinct)
  show "operation_definition n = Some d \<longleftrightarrow> d \<in> set build_operation_catalog \<and> od_name d = n" for n d
    by (rule operation_definition_Some)
  show "pf_reviewed (facts n) \<longleftrightarrow> operation_definition n \<noteq> None" for n
    unfolding operation_definition_None pf_reviewed_names
    using reviewed_served catalog_reviewed by (auto simp: pf_reviewed_names)
qed

text \<open>
  C28: Under the metadata profile every operation that is let through is a read, audited or not,
  that has been reviewed and never discloses a credential; and whatever the profile, a name that is
  not served is let through by the full profile only.
\<close>

theorem metadata_profile_reads_only:
  assumes "operation_definition n = Some d" and "allows Metadata (od_policy d)"
  shows "od_tier d \<in> {Read, Read_Audited} \<and> \<not> pf_credential_disclosure (od_policy d)
    \<and> pf_reviewed (od_policy d)
    \<and> (\<forall>p m. operation_definition m = None \<and> allows p (facts m) \<longrightarrow> p = Full)"
proof -
  have d: "d \<in> set build_operation_catalog" "od_name d = n"
    using assms(1) by (simp_all add: operation_definition_Some)
  then have pol: "od_policy d = facts n" by (simp add: catalog_policy)
  then have md: "pf_metadata (facts n)" using assms(2) by simp
  have "od_tier d \<in> {Read, Read_Audited}"
    using metadata_reads [OF md] catalog_row_unique [OF d(1)] d(2)
    by (auto simp: served_at_def)
  moreover have "p = Full" if "operation_definition m = None" "allows p (facts m)" for p m
    using that allowed_reviewed reviewed_served
    by (auto simp: operation_definition_None pf_reviewed_names)
  ultimately show ?thesis
    using metadata_no_disclosure [OF md] pol catalog_reviewed [OF d(1)] d(2) by auto
qed

lemma projects_get_defined:
  "operation_definition PROJECTS_GET_TOOL =
     Some (read_tool ''ProjectGetInput'' ''ProjectGetOutput'' PROJECTS_GET_TOOL
       ''Get concise metadata for one project by exact Infisical project ID.'' True)"
  unfolding operation_definition_find
  by (simp add: build_operation_catalog_def discovery_tools_def tool_defs)

lemma facts_projects_get: "allows Metadata (facts PROJECTS_GET_TOOL)"
  by code_simp

lemma metadata_profile_reads_only_witness:
  "\<exists>d. operation_definition PROJECTS_GET_TOOL = Some d \<and> od_tier d = Read
     \<and> \<not> pf_credential_disclosure (od_policy d)"
  using metadata_profile_reads_only [OF projects_get_defined] facts_projects_get projects_get_defined
  by (simp add: tool_defs)

end
