(* ===== verification/Discovery.thy ===== *)
theory Discovery
  imports Operation_Catalog_Facts Mcp_Types "HOL-Library.List_Lexorder" "HOL-Library.Char_ord"
begin

text \<open>
  Local search over the catalog: \<open>crates/infisical-mcp/src/discovery.rs\<close> and
  \<open>dispatch_operations_list_for_profile\<close> of \<open>tools.rs\<close>. The Unicode tables behind
  \<open>char::is_alphanumeric\<close> and \<open>str::to_lowercase\<close> and the derived schemas are parameters.
\<close>

section \<open>Query terms\<close>

record unicode =
  uc_alphanumeric :: "nat \<Rightarrow> bool"
  uc_lowercase :: "string \<Rightarrow> string"

definition reviewed_aliases :: "(string \<times> string) list" where
  "reviewed_aliases =
     [(''secretRotations.sql.rotate'', ''rotate database password credentials''),
      (''dynamicSecretLeases.create'', ''create temporary database credentials''),
      (''secrets.reveal'', ''read reveal secret value password''),
      (''sshCertificates.sign'', ''sign ssh certificate public key''),
      (''kms.encrypt'', ''encrypt data'')]"

definition char_count :: "string \<Rightarrow> nat" where "char_count s = length (str_chars s)"

definition query_terms :: "unicode \<Rightarrow> string \<Rightarrow> (string, string list) result" where
  "query_terms uc query =
     (if char_count query > 128 then Err ''query must contain at most 128 characters''
      else
        let terms = map (uc_lowercase uc) (filter (\<lambda>t. t \<noteq> [])
              (map encode_chars (split_by (\<lambda>c. \<not> uc_alphanumeric uc c) (str_chars query)))) in
        if terms = [] then Err ''query must contain a word; omit query to browse operations''
        else Ok terms)"

section \<open>Scores\<close>

definition aliases_of :: "string \<Rightarrow> string" where
  "aliases_of name =
     (case find (\<lambda>(operation, _). operation = name) reviewed_aliases of
        Some (_, aliases) \<Rightarrow> aliases | None \<Rightarrow> [])"

definition term_weight :: "unicode \<Rightarrow> string \<Rightarrow> string \<Rightarrow> string \<Rightarrow> nat option" where
  "term_weight uc name description t =
     (if str_contains t (uc_lowercase uc name) then Some 20
      else if str_contains t (aliases_of name) then Some 10
      else if str_contains t (uc_lowercase uc description) then Some 1
      else None)"

fun fold_weights :: "(string \<Rightarrow> nat option) \<Rightarrow> nat \<Rightarrow> string list \<Rightarrow> nat option" where
  "fold_weights w acc [] = Some acc"
| "fold_weights w acc (t # ts) =
     (case w t of None \<Rightarrow> None | Some n \<Rightarrow> fold_weights w (acc + n) ts)"

definition op_score :: "unicode \<Rightarrow> string list \<Rightarrow> string \<Rightarrow> string \<Rightarrow> nat option" where
  "op_score uc terms name description =
     (if terms = [] then Some 0 else fold_weights (term_weight uc name description) 0 terms)"

definition brief :: "string \<Rightarrow> string" where
  "brief description =
     (let sentence = (case split_once ''. '' description of None \<Rightarrow> description | Some (a, _) \<Rightarrow> a) in
      if char_count sentence \<le> 160 then sentence
      else encode_chars (take 159 (str_chars sentence) @ [8230]))"

lemma fold_weights_Some:
  "fold_weights w acc ts = Some s \<longleftrightarrow>
     (\<forall>t \<in> set ts. w t \<noteq> None) \<and> s = acc + sum_list (map (\<lambda>t. the (w t)) ts)"
  by (induction ts arbitrary: acc) (auto split: option.splits)

text \<open>The \<open>u32\<close> sum of the code never overflows: a query has at most 128 terms.\<close>

lemma term_weight_le: "term_weight uc n d t = Some k \<Longrightarrow> k \<le> 20"
  by (auto simp: term_weight_def split: if_splits)

lemma sum_weights_le:
  "\<forall>t \<in> set ts. w t \<noteq> None \<Longrightarrow> (\<And>t k. w t = Some k \<Longrightarrow> k \<le> 20) \<Longrightarrow>
     sum_list (map (\<lambda>t. the (w t)) ts) \<le> 20 * length ts"
  by (induction ts) (auto intro: add_mono)

lemma op_score_bound: "op_score uc ts n d = Some s \<Longrightarrow> s \<le> 20 * length ts"
  using sum_weights_le [of ts "term_weight uc n d"] term_weight_le
  by (cases "ts = []") (auto simp: op_score_def fold_weights_Some)

section \<open>Ranking\<close>

text \<open>The order of the results: higher scores first, then names in byte order.\<close>

datatype search_rank = Search_Rank (rank_score: nat) (rank_name: string)

instantiation search_rank :: linorder
begin

definition less_eq_search_rank :: "search_rank \<Rightarrow> search_rank \<Rightarrow> bool" where
  "less_eq_search_rank a b \<longleftrightarrow>
     rank_score b < rank_score a \<or> (rank_score a = rank_score b \<and> rank_name a \<le> rank_name b)"

definition less_search_rank :: "search_rank \<Rightarrow> search_rank \<Rightarrow> bool" where
  "less_search_rank a b \<longleftrightarrow> a \<le> b \<and> \<not> b \<le> (a :: search_rank)"

instance
proof
  fix x y z :: search_rank
  show "x < y \<longleftrightarrow> x \<le> y \<and> \<not> y \<le> x" by (rule less_search_rank_def)
  show "x \<le> x" by (simp add: less_eq_search_rank_def)
  show "x \<le> y \<Longrightarrow> y \<le> z \<Longrightarrow> x \<le> z" by (auto simp: less_eq_search_rank_def)
  show "x \<le> y \<Longrightarrow> y \<le> x \<Longrightarrow> x = y" by (cases x; cases y) (auto simp: less_eq_search_rank_def)
  show "x \<le> y \<or> y \<le> x" by (auto simp: less_eq_search_rank_def)
qed

end

section \<open>Listing\<close>

record operations_list_input =
  li_tier :: "tool_tier option"
  li_name_prefix :: "string option"
  li_query :: "string option"
  li_offset :: nat
  li_limit :: nat
  li_full_descriptions :: bool
  li_include_input_schema :: bool

record operation_summary =
  os_name :: string
  os_executor :: string
  os_tier :: string
  os_description :: string
  os_input_schema :: "json option"

record operations_list_output =
  lo_operations :: "operation_summary list"
  lo_total :: nat
  lo_matched :: nat
  lo_next_offset :: "nat option"

definition list_terms :: "unicode \<Rightarrow> operations_list_input \<Rightarrow> (mcp_error, string list) result" where
  "list_terms uc i =
     (case li_query i of
        None \<Rightarrow> Ok []
      | Some q \<Rightarrow> map_err (\<lambda>m. invalid_params m None) (query_terms uc q))"

definition list_filter :: "operation_profile \<Rightarrow> operations_list_input \<Rightarrow> operation_definition \<Rightarrow> bool" where
  "list_filter p i d \<longleftrightarrow>
     allows p (od_policy d)
     \<and> (case li_tier i of None \<Rightarrow> True | Some t \<Rightarrow> od_tier d = t)
     \<and> (case li_name_prefix i of None \<Rightarrow> True | Some pre \<Rightarrow> prefix pre (od_name d))"

definition scored :: "unicode \<Rightarrow> string list \<Rightarrow> operation_definition list
    \<Rightarrow> (operation_definition \<times> nat) list" where
  "scored uc terms ds =
     List.map_filter (\<lambda>d. map_option (\<lambda>s. (d, s)) (op_score uc terms (od_name d) (od_description d))) ds"

definition matching :: "unicode \<Rightarrow> operation_profile \<Rightarrow> operations_list_input \<Rightarrow> string list
    \<Rightarrow> operation_definition list" where
  "matching uc p i terms =
     map fst (sort_key (\<lambda>(d, s). Search_Rank s (od_name d))
       (scored uc terms (filter (list_filter p i) described_operations)))"

definition summary :: "(string \<Rightarrow> json) \<Rightarrow> operations_list_input \<Rightarrow> operation_definition
    \<Rightarrow> operation_summary" where
  "summary schema i d =
     \<lparr>os_name = od_name d, os_executor = tier_executor (od_tier d), os_tier = tier_slug (od_tier d),
      os_description = (if li_full_descriptions i then od_description d else brief (od_description d)),
      os_input_schema = (if li_include_input_schema i then Some (schema (od_input d)) else None)\<rparr>"

definition operations_list ::
    "unicode \<Rightarrow> (string \<Rightarrow> json) \<Rightarrow> operation_profile \<Rightarrow> operations_list_input
      \<Rightarrow> (mcp_error, operations_list_output) result" where
  "operations_list uc schema p i =
     (if (case li_name_prefix i of None \<Rightarrow> False | Some pre \<Rightarrow> char_count pre > 64)
      then Err (invalid_params ''namePrefix must contain at most 64 characters'' None)
      else if li_limit i = 0 \<or> li_offset i > 10000
      then Err (invalid_params ''limit must be positive; offset must not exceed 10000'' None)
      else
        and_then (list_terms uc i) (\<lambda>terms.
          let found = matching uc p i terms;
              page = take (li_limit i) (drop (li_offset i) found);
              end = li_offset i + length page in
          Ok \<lparr>lo_operations = map (summary schema i) page,
              lo_total = length (filter (\<lambda>d. allows p (od_policy d)) described_operations),
              lo_matched = length found,
              lo_next_offset = (if end < length found then Some end else None)\<rparr>))"

section \<open>What a listing contains\<close>

lemma catalog_length: "length build_operation_catalog = 234"
proof -
  have "length (map op_row build_operation_catalog) = 234"
    unfolding build_operation_catalog_def map_append family_rows by simp
  then show ?thesis by simp
qed

lemma map_fst_scored:
  "map fst (scored uc ts ds) =
     filter (\<lambda>d. op_score uc ts (od_name d) (od_description d) \<noteq> None) ds"
  by (induction ds) (auto simp: scored_def List.map_filter_def)

lemma set_map_fst_sort_key: "set (map fst (sort_key f xs)) = set (map fst xs)"
  by simp

lemma distinct_map_fst_sort_key:
  "distinct (map (g \<circ> fst) xs) \<Longrightarrow> distinct (map (g \<circ> fst) (sort_key f xs))"
  by (auto simp: distinct_map inj_on_def)

lemma set_matching:
  "set (matching uc p i ts) =
     {d \<in> set build_operation_catalog. list_filter p i d
        \<and> op_score uc ts (od_name d) (od_description d) \<noteq> None}"
  unfolding matching_def set_map_fst_sort_key map_fst_scored
  by (auto simp: described_operations_catalog)

lemma distinct_matching: "distinct (map od_name (matching uc p i ts))"
proof -
  let ?xs = "scored uc ts (filter (list_filter p i) described_operations)"
  have "map (od_name \<circ> fst) ?xs = map od_name (map fst ?xs)" by simp
  also have "distinct \<dots>"
    unfolding map_fst_scored described_operations_catalog
    using catalog_distinct by (simp add: distinct_map inj_on_def)
  finally show ?thesis
    unfolding matching_def map_map by (rule distinct_map_fst_sort_key)
qed

lemma length_matching: "length (matching uc p i ts) \<le> 234"
proof -
  have "length (matching uc p i ts) = length (map fst (scored uc ts (filter (list_filter p i) described_operations)))"
    by (simp add: matching_def)
  also have "\<dots> \<le> length described_operations"
    unfolding map_fst_scored by (meson le_trans length_filter_le)
  finally show ?thesis by (simp add: described_operations_catalog catalog_length)
qed

text \<open>Ranked: a result never scores below a later one, and equal scores are in name order.\<close>

lemma scored_score:
  "(d, s) \<in> set (scored uc ts ds) \<Longrightarrow> op_score uc ts (od_name d) (od_description d) = Some s"
  by (auto simp: scored_def List.map_filter_def)

definition rank_of :: "unicode \<Rightarrow> string list \<Rightarrow> operation_definition \<Rightarrow> search_rank" where
  "rank_of uc ts d = Search_Rank (the (op_score uc ts (od_name d) (od_description d))) (od_name d)"

lemma sorted_matching: "sorted (map (rank_of uc ts) (matching uc p i ts))"
proof -
  let ?xs = "scored uc ts (filter (list_filter p i) described_operations)"
  let ?key = "\<lambda>(d, s). Search_Rank s (od_name d)"
  have "map (rank_of uc ts) (matching uc p i ts) = map (rank_of uc ts \<circ> fst) (sort_key ?key ?xs)"
    by (simp add: matching_def)
  also have "\<dots> = map ?key (sort_key ?key ?xs)"
    by (rule map_cong) (auto simp: rank_of_def dest!: scored_score)
  also have "sorted \<dots>" by (rule sorted_sort_key)
  finally show ?thesis .
qed

section \<open>Following the pages\<close>

fun follow_pages ::
    "nat \<Rightarrow> (operations_list_input \<Rightarrow> (mcp_error, operations_list_output) result)
      \<Rightarrow> operations_list_input \<Rightarrow> operation_summary list option" where
  "follow_pages 0 f i = None"
| "follow_pages (Suc n) f i =
     (case f i of
        Inl _ \<Rightarrow> None
      | Inr out \<Rightarrow>
          (case lo_next_offset out of
             None \<Rightarrow> Some (lo_operations out)
           | Some k \<Rightarrow> map_option ((@) (lo_operations out)) (follow_pages n f (i\<lparr>li_offset := k\<rparr>))))"

lemma offset_irrelevant [simp]:
  "list_terms uc (i\<lparr>li_offset := k\<rparr>) = list_terms uc i"
  "matching uc p (i\<lparr>li_offset := k\<rparr>) ts = matching uc p i ts"
  "summary schema (i\<lparr>li_offset := k\<rparr>) = summary schema i"
proof -
  show "list_terms uc (i\<lparr>li_offset := k\<rparr>) = list_terms uc i" by (simp add: list_terms_def)
  have "list_filter p (i\<lparr>li_offset := k\<rparr>) = list_filter p i"
    by (rule ext) (simp add: list_filter_def)
  then show "matching uc p (i\<lparr>li_offset := k\<rparr>) ts = matching uc p i ts" by (simp add: matching_def)
  show "summary schema (i\<lparr>li_offset := k\<rparr>) = summary schema i"
    by (rule ext) (simp add: summary_def)
qed

lemma follow_pages_from:
  assumes "0 < li_limit i" and "\<forall>pre. li_name_prefix i = Some pre \<longrightarrow> char_count pre \<le> 64"
    and "list_terms uc i = Ok ts"
  shows "k \<le> length (matching uc p i ts) \<Longrightarrow> length (matching uc p i ts) - k < n \<Longrightarrow>
    follow_pages n (operations_list uc schema p) (i\<lparr>li_offset := k\<rparr>) =
      Some (map (summary schema i) (drop k (matching uc p i ts)))"
proof (induction n arbitrary: k)
  case (Suc n)
  let ?found = "matching uc p i ts"
  let ?page = "take (li_limit i) (drop k ?found)"
  have "k \<le> 10000" using Suc.prems(1) length_matching [of uc p i ts] by simp
  moreover have "\<not> (case li_name_prefix i of None \<Rightarrow> False | Some pre \<Rightarrow> char_count pre > 64)"
    using assms(2) by (auto split: option.splits)
  ultimately have out: "operations_list uc schema p (i\<lparr>li_offset := k\<rparr>) =
      Ok \<lparr>lo_operations = map (summary schema i) ?page,
          lo_total = length (filter (\<lambda>d. allows p (od_policy d)) described_operations),
          lo_matched = length ?found,
          lo_next_offset = (if k + length ?page < length ?found then Some (k + length ?page) else None)\<rparr>"
    using assms(1,3) by (simp add: operations_list_def Let_def)
  show ?case
  proof (cases "k + length ?page < length ?found")
    case True
    then have len: "length ?page = li_limit i" by auto
    then have "follow_pages n (operations_list uc schema p) (i\<lparr>li_offset := k + length ?page\<rparr>) =
        Some (map (summary schema i) (drop (k + length ?page) ?found))"
      using True Suc.prems assms(1) by (intro Suc.IH) auto
    moreover have "?page @ drop (k + length ?page) ?found = drop k ?found"
      using len by (metis append_take_drop_id drop_drop add.commute)
    ultimately show ?thesis
      using out True by (simp del: length_take length_drop add: map_append [symmetric])
  next
    case False
    then have "?page = drop k ?found" using Suc.prems(1) by auto
    with out False show ?thesis by simp
  qed
qed simp

text \<open>
  C37: Discovery is complete and honest under every profile: following the continuation offsets from
  the start, with any page size and any filters and query, lists each operation that passes them
  exactly once, best match first, and nothing else; every operation listed is one the registry
  serves and the profile allows, and every continuation offset is accepted.
\<close>

theorem discovery_complete:
  assumes "0 < li_limit i" and "\<forall>pre. li_name_prefix i = Some pre \<longrightarrow> char_count pre \<le> 64"
    and "list_terms uc i = Ok ts"
  shows "\<exists>ds. follow_pages 235 (operations_list uc schema p) (i\<lparr>li_offset := 0\<rparr>) =
        Some (map (summary schema i) ds)
    \<and> distinct (map od_name ds) \<and> sorted (map (rank_of uc ts) ds)
    \<and> (\<forall>d. d \<in> set ds \<longleftrightarrow> operation_definition (od_name d) = Some d \<and> list_filter p i d
         \<and> op_score uc ts (od_name d) (od_description d) \<noteq> None)
    \<and> (\<forall>d \<in> set ds. allows p (od_policy d))"
proof (intro exI conjI)
  let ?ds = "matching uc p i ts"
  show "follow_pages 235 (operations_list uc schema p) (i\<lparr>li_offset := 0\<rparr>) =
      Some (map (summary schema i) ?ds)"
    using follow_pages_from [OF assms, of 0 p 235 schema] length_matching [of uc p i ts] by simp
  show "distinct (map od_name ?ds)" by (rule distinct_matching)
  show "sorted (map (rank_of uc ts) ?ds)" by (rule sorted_matching)
  show "\<forall>d. d \<in> set ?ds \<longleftrightarrow> operation_definition (od_name d) = Some d \<and> list_filter p i d
         \<and> op_score uc ts (od_name d) (od_description d) \<noteq> None"
    by (auto simp: set_matching operation_definition_Some)
  show "\<forall>d \<in> set ?ds. allows p (od_policy d)"
    by (auto simp: set_matching list_filter_def)
qed

definition browse_all :: operations_list_input where
  "browse_all = \<lparr>li_tier = None, li_name_prefix = None, li_query = None, li_offset = 0, li_limit = 10,
     li_full_descriptions = False, li_include_input_schema = False\<rparr>"

definition ascii_unicode :: unicode where
  "ascii_unicode = \<lparr>uc_alphanumeric = (\<lambda>c. c < 128 \<and> is_ascii_alphanumeric (char_of c)),
     uc_lowercase = to_ascii_lowercase\<rparr>"

lemma discovery_complete_witness:
  "\<exists>ds. follow_pages 235 (operations_list ascii_unicode (\<lambda>_. Null) Metadata) browse_all =
        Some (map (summary (\<lambda>_. Null) browse_all) ds)
     \<and> distinct (map od_name ds)
     \<and> (\<forall>d. d \<in> set ds \<longleftrightarrow> operation_definition (od_name d) = Some d \<and> allows Metadata (od_policy d))"
proof -
  have "\<forall>pre. li_name_prefix browse_all = Some pre \<longrightarrow> char_count pre \<le> 64"
    and "list_terms ascii_unicode browse_all = Ok []" "0 < li_limit browse_all"
    and "browse_all\<lparr>li_offset := 0\<rparr> = browse_all"
    by (simp_all add: browse_all_def list_terms_def)
  moreover have "list_filter Metadata browse_all d \<longleftrightarrow> allows Metadata (od_policy d)" for d
    by (simp add: list_filter_def browse_all_def)
  moreover have "op_score ascii_unicode [] n d \<noteq> None" for n d by (simp add: op_score_def)
  ultimately show ?thesis
    using discovery_complete [of browse_all ascii_unicode "[]" "\<lambda>_. Null" Metadata]
    by simp blast
qed

end
