(* ===== verification/Resource_Error.thy ===== *)
theory Resource_Error
  imports Client_Types File_Plane Pagination
begin

text \<open>
  The errors a tool can meet and the text each displays: \<open>ResourceError\<close> of
  \<open>infisical-api/src/resources.rs\<close>, \<open>ClientError\<close> and its parts of \<open>client.rs\<close>, and
  \<open>FileError\<close> of \<open>infisical-mcp/src/files.rs\<close>. The 168 variants of \<open>ResourceError\<close> that carry no
  data are \<open>Unit_Variant\<close> with the variant's name; \<open>unit_variant_text\<close> lists them with their texts.
\<close>

section \<open>Client errors\<close>

fun transport_text :: "transport_error_kind \<Rightarrow> string" where
  "transport_text Timeout = ''request timed out''"
| "transport_text Connect = ''connection failed''"
| "transport_text Other_Transport = ''request failed''"

fun api_kind_text :: "api_error_kind \<Rightarrow> string" where
  "api_kind_text Invalid_Request = ''rejected the request''"
| "api_kind_text Authentication = ''rejected authentication''"
| "api_kind_text Permission_Denied = ''denied permission''"
| "api_kind_text Not_Found = ''did not find the resource''"
| "api_kind_text Conflict = ''reported a conflict''"
| "api_kind_text Rate_Limited = ''rate limited the request''"
| "api_kind_text Server = ''reported a server error''"

definition api_failure_text :: "api_failure \<Rightarrow> string" where
  "api_failure_text f =
     ''Infisical API '' @ api_kind_text (failure_kind f) @ '' (HTTP '' @ show_nat (failure_status f) @ '')''
     @ (case failure_request_id f of None \<Rightarrow> [] | Some r \<Rightarrow> ''; request ID '' @ r)
     @ (case failure_retry_after_seconds f of
          None \<Rightarrow> []
        | Some s \<Rightarrow> ''; Retry-After '' @ show_nat s
            @ '' seconds is pacing guidance, not permission to replay a mutation'')"

fun client_error_text :: "client_error \<Rightarrow> string" where
  "client_error_text Work_Budget_Exhausted =
     ''Infisical request concurrency budget was busy until the request deadline; this HTTP ''
     @ ''request was not sent''"
| "client_error_text (Transport k) = ''Infisical transport failed: '' @ transport_text k"
| "client_error_text (Response_Too_Large limit) =
     ''Infisical response exceeded the '' @ show_nat limit @ ''-byte limit''"
| "client_error_text Invalid_Response = ''Infisical returned an invalid response''"
| "client_error_text Invalid_Mutation_Response =
     ''Infisical returned an invalid mutation response; the operation may have succeeded, so ''
     @ ''reconcile its state before retrying''"
| "client_error_text Invalid_Endpoint = ''internal Infisical endpoint declaration is invalid''"
| "client_error_text Refresh_Interrupted = ''Infisical authentication refresh was interrupted''"
| "client_error_text (Authentication_Cooldown failure secs) =
     ''Infisical authentication is cooling down; retry after '' @ show_nat secs @ '' seconds: ''
     @ client_error_text failure"
| "client_error_text (Api f) = api_failure_text f"

fun pagination_error_text :: "pagination_error \<Rightarrow> string" where
  "pagination_error_text Invalid_Limit = ''page limit must be positive''"
| "pagination_error_text Offset_Limit = ''page offset exceeds the bounded traversal limit''"
| "pagination_error_text Oversized_Page =
     ''Infisical returned more records than the requested page limit''"

fun file_error_text :: "file_error \<Rightarrow> string" where
  "file_error_text Unknown_Reference = ''no staged secret envelope matches that reference''"
| "file_error_text Bad_Credential = ''the transfer credential is not valid for this download''"
| "file_error_text (Too_Many_Staged staged) =
     show_nat staged @ '' secret envelopes are already staged; download or let one expire first''"
| "file_error_text Byte_Capacity =
     ''file transfer byte capacity is reserved; finish a transfer or let a reference expire ''
     @ ''before trying again''"
| "file_error_text (Upload_Too_Large declared) =
     ''declared size '' @ show_nat (unat declared) @ '' is over the ''
     @ show_nat (unat max_upload_bytes) @ ''-byte upload ceiling''"
| "file_error_text Size_Mismatch = ''the upload did not carry its declared number of bytes''"
| "file_error_text Digest_Mismatch = ''the upload does not match its declared digest''"
| "file_error_text Unsupported_Digest = ''only base64url-encoded sha-256 digests are supported''"

section \<open>Resource errors\<close>

datatype resource_error =
    Client_Error client_error
  | Pagination_Error pagination_error
  | Kms_Bulk_Preflight_Failed nat nat resource_error
  | Kms_Bulk_Preflight_Timeout nat nat
  | Certificate_Issuance_Response_Unverified string
  | Unit_Variant string

definition general_variants :: "(string \<times> string) list" where
  "general_variants =
     [(''CollectionTooLarge'',
        ''Infisical collection cannot be represented by the bounded paginator''),
      (''CollectionCountMismatch'',
        ''Infisical collection total did not match the returned records''),
      (''InvalidProjectResponse'',
        ''Infisical returned a different project; verify the requested project and upstream ''
        @ ''service''),
      (''InvalidSecretResponse'',
        ''Infisical returned a different secret scope; verify the requested shared-secret ''
        @ ''coordinates and upstream service''),
      (''InvalidSecretTagFilter'',
        ''tagSlugs must contain at most sixteen distinct validated tag slugs''),
      (''InvalidSecretTagResponse'',
        ''Infisical returned a secret outside the requested tag filter''),
      (''DeletionNotConfirmed'',
        ''secret deletion requires explicit confirmation''),
      (''InvalidSecretBatchSize'',
        ''secret batches must contain between 1 and 50 entries''),
      (''DuplicateSecretName'',
        ''secret batches must not contain duplicate names''),
      (''SecretImportDeletionNotConfirmed'',
        ''secret import deletion requires explicit confirmation''),
      (''CyclicSecretImport'',
        ''a secret import source cannot equal its target scope''),
      (''ProjectDeletionNotConfirmed'',
        ''project deletion requires explicit confirmation''),
      (''EnvironmentDeletionNotConfirmed'',
        ''environment deletion requires explicit confirmation''),
      (''FolderDeletionNotConfirmed'',
        ''folder deletion requires explicit confirmation''),
      (''TagDeletionNotConfirmed'',
        ''tag deletion requires explicit confirmation''),
      (''IdentityDeletionNotConfirmed'',
        ''machine identity deletion requires explicit confirmation''),
      (''AdditionalPrivilegeDeletionNotConfirmed'',
        ''additional privilege deletion requires explicit confirmation''),
      (''ProjectMembershipDeletionNotConfirmed'',
        ''project membership deletion requires explicit confirmation''),
      (''ProjectMembershipRoleReplacementNotConfirmed'',
        ''complete project membership role replacement requires explicit confirmation''),
      (''UniversalAuthRemovalNotConfirmed'',
        ''Universal Auth removal requires explicit confirmation''),
      (''UniversalAuthClientSecretRevocationNotConfirmed'',
        ''Universal Auth client-secret revocation requires explicit confirmation''),
      (''TokenAuthRemovalNotConfirmed'',
        ''Token Auth removal requires explicit confirmation''),
      (''TokenAuthTokenRevocationNotConfirmed'',
        ''Token Auth access-token revocation requires explicit confirmation''),
      (''KubernetesAuthRemovalNotConfirmed'',
        ''Kubernetes Auth removal requires explicit confirmation''),
      (''TokenAuthPageOffsetLimit'',
        ''Token Auth token-list offset exceeds the pinned route limit''),
      (''InvalidTokenAuthTokenName'',
        ''Token Auth token name must contain 1 to 128 bytes without surrounding whitespace ''
        @ ''or control characters''),
      (''UniversalAuthLockoutClearNotConfirmed'',
        ''clearing Universal Auth lockouts requires explicit confirmation''),
      (''InvalidFolderBatchSize'',
        ''folder batches must contain between 1 and 50 entries''),
      (''DuplicateFolderId'',
        ''folder batches must not contain duplicate folder IDs''),
      (''MissingMutationResource'',
        ''Infisical mutation response omitted the affected resource''),
      (''InvalidRoleScope'',
        ''Infisical role response omitted or mismatched its owning scope''),
      (''MissingRolePermissions'',
        ''Infisical exact-role response omitted permission rules''),
      (''InvalidGroupMembershipScope'',
        ''Infisical project group membership omitted or mismatched its owning scope''),
      (''InvalidGroupResponse'',
        ''Infisical group response mismatched the requested identifier or member type''),
      (''InvalidGroupProjectAssignment'',
        ''Infisical group project response mismatched the requested assignment filter''),
      (''InvalidAdditionalPrivilegeScope'',
        ''Infisical additional privilege response mismatched its requested scope''),
      (''InvalidAdditionalPrivilegeLifetime'',
        ''Infisical additional privilege response contained an incoherent lifetime''),
      (''InvalidAdditionalPrivilegePermissions'',
        ''Infisical additional privilege response contained malformed permission rules''),
      (''InvalidAuditLogResponse'',
        ''Infisical audit-log response violated the requested bounded contract''),
      (''InvalidAppAutomationResponse'',
        ''Infisical app-connection, secret-sync, or secret-rotation response violated the ''
        @ ''bounded value-free contract''),
      (''AuditLogMetadataFilterRequiresProject'',
        ''audit environment, secret-path, and secret-key filters require a project ID''),
      (''AuditLogMetadataFilterRequiresSecretEvent'',
        ''audit metadata filters require at least one filterable secret event type''),
      (''InvalidDynamicSecretResponse'',
        ''Infisical dynamic-secret response violated the bounded value-free contract''),
      (''InvalidDynamicSecretLeaseResponse'',
        ''Infisical dynamic-secret lease response violated the bounded value-free contract''),
      (''DynamicSecretLeaseRevocationNotConfirmed'',
        ''dynamic-secret lease revocation requires explicit confirmation''),
      (''DynamicSecretDeletionNotConfirmed'',
        ''dynamic-secret configuration deletion requires explicit confirmation''),
      (''AppConnectionDeletionNotConfirmed'',
        ''GitHub app-connection deletion requires explicit confirmation''),
      (''AppConnectionCredentialReplacementNotConfirmed'',
        ''GitHub app-connection credential replacement requires explicit confirmation''),
      (''AppConnectionCredentialRotationNotConfirmed'',
        ''GitHub app-connection credential rotation requires explicit confirmation''),
      (''SecretSyncInitialOverwriteNotConfirmed'',
        ''GitHub secret-sync creation requires confirmation that destination secrets may be ''
        @ ''overwritten''),
      (''SecretSyncUpdateNotConfirmed'',
        ''GitHub secret-sync update requires explicit confirmation''),
      (''SecretSyncDeletionNotConfirmed'',
        ''GitHub secret-sync deletion requires explicit confirmation''),
      (''SecretSyncRemoteRemovalNotConfirmed'',
        ''removing GitHub destination secrets requires separate explicit confirmation''),
      (''SecretSyncRunNotConfirmed'',
        ''manually overwriting GitHub destination secrets requires explicit confirmation''),
      (''InvalidAppAutomationScope'',
        ''the requested GitHub app-automation resource does not belong to the supplied ''
        @ ''project or environment''),
      (''DynamicSecretRenameWouldBeNoop'',
        ''dynamic-secret rename must change the configuration name''),
      (''SqlSecretRotationCreateNotConfirmed'',
        ''creating external SQL credentials and mapped secrets requires explicit confirmation''),
      (''SqlSecretRotationUpdateNotConfirmed'',
        ''updating SQL rotation configuration requires explicit confirmation''),
      (''SqlSecretRotationDeleteNotConfirmed'',
        ''deleting a SQL secret rotation requires explicit confirmation''),
      (''SqlSecretRotationMoveNotConfirmed'',
        ''moving a SQL rotation and its mapped secrets requires explicit confirmation'')]"

definition automation_variants :: "(string \<times> string) list" where
  "automation_variants =
     [(''SqlSecretRotationOverwriteNotConfirmed'',
        ''overwriting destination secrets requires separate explicit confirmation''),
      (''SqlSecretRotationRevealNotConfirmed'',
        ''revealing generated SQL credentials requires explicit confirmation''),
      (''SqlSecretRotationRotateNotConfirmed'',
        ''rotating external SQL credentials requires explicit confirmation''),
      (''SqlSecretRotationCheckNotConfirmed'',
        ''checking credentials against the SQL provider requires explicit confirmation''),
      (''SqlSecretRotationProviderMismatch'',
        ''SQL secret-rotation target and change providers must match''),
      (''KmsKeyDeletionNotConfirmed'',
        ''KMS key deletion requires explicit confirmation''),
      (''KmsOperationNotConfirmed'',
        ''KMS cryptographic operations require explicit confirmation''),
      (''KmsSecretRevealNotConfirmed'',
        ''revealing KMS plaintext or private key material requires explicit confirmation''),
      (''InvalidKmsKeyScope'',
        ''the KMS key does not belong to the supplied project''),
      (''InvalidKmsKeyUsage'',
        ''the KMS key usage does not support the requested operation''),
      (''KmsKeyDisabled'',
        ''the KMS key is disabled''),
      (''InvalidKmsBulkRequest'',
        ''KMS bulk requests must contain 1 to 100 unique keys and at most 512 KiB of ''
        @ ''aggregate decoded key material''),
      (''InvalidKmsCryptographicInput'',
        ''KMS ciphertext or signature input violates the bounded base64 contract''),
      (''InvalidKmsResponse'',
        ''Infisical KMS response violated the bounded typed contract''),
      (''CertificateAuthorityCreateNotConfirmed'',
        ''internal certificate-authority creation requires explicit confirmation''),
      (''CertificateAuthorityUpdateNotConfirmed'',
        ''internal certificate-authority update requires explicit confirmation''),
      (''CertificateAuthorityDeleteNotConfirmed'',
        ''internal certificate-authority deletion requires explicit confirmation''),
      (''CertificateAuthorityCertificateMutationNotConfirmed'',
        ''internal certificate-authority certificate mutations require explicit confirmation''),
      (''InvalidCertificateAuthorityScope'',
        ''the certificate authority does not belong to the supplied project''),
      (''InvalidCertificateAuthorityCertificateState'',
        ''the certificate authority state or hierarchy does not support this certificate ''
        @ ''operation''),
      (''InvalidCertificateAuthorityProjectKind'',
        ''certificate-authority operations require a Certificate Manager project''),
      (''InvalidCertificateAuthorityResponse'',
        ''Infisical certificate-authority response violated the bounded typed contract''),
      (''CertificatePolicyCreateNotConfirmed'',
        ''certificate-policy creation requires explicit confirmation''),
      (''CertificatePolicyUpdateNotConfirmed'',
        ''certificate-policy update requires explicit confirmation''),
      (''CertificatePolicyDeleteNotConfirmed'',
        ''certificate-policy deletion requires explicit confirmation''),
      (''CertificatePolicyInUse'',
        ''certificate policy is in use; change dependent Certificate Manager configuration ''
        @ ''before retrying deletion''),
      (''InvalidCertificatePolicyScope'',
        ''the certificate policy does not belong to the supplied Certificate Manager project''),
      (''InvalidCertificatePolicyResponse'',
        ''Infisical certificate-policy response violated the bounded typed contract''),
      (''InvalidCertificateInventoryScope'',
        ''the certificate does not belong to the supplied Certificate Manager project''),
      (''InvalidCertificateInventoryResponse'',
        ''Infisical certificate inventory violated the bounded typed contract''),
      (''CertificateImportNotConfirmed'',
        ''certificate import requires explicit confirmation''),
      (''CertificateMaterialRevealNotConfirmed'',
        ''certificate private material reveal requires explicit confirmation''),
      (''CertificatePrivateKeyUnavailable'',
        ''the selected certificate has no stored private key''),
      (''InvalidCertificateMaterialResponse'',
        ''Infisical certificate material violated the bounded typed contract''),
      (''CertificateImportOutcomeUnknown'',
        ''certificate import may have been applied; search the project for the imported ''
        @ ''serial before retrying''),
      (''CertificateRenewalNotConfirmed'',
        ''certificate renewal requires explicit confirmation''),
      (''CertificateRevocationNotConfirmed'',
        ''certificate revocation requires explicit confirmation''),
      (''CertificateDeletionNotConfirmed'',
        ''certificate deletion requires explicit confirmation''),
      (''InvalidCertificateLifecycleState'',
        ''the certificate state does not support the requested lifecycle operation''),
      (''InvalidCertificateLifecycleResponse'',
        ''Infisical certificate lifecycle response violated the bounded typed contract''),
      (''CertificateRenewalOutcomeUnknown'',
        ''certificate renewal may have been applied; inspect the source certificate and ''
        @ ''recent certificate requests before retrying''),
      (''CertificateRevocationOutcomeUnknown'',
        ''certificate revocation may have been applied; retrieve the certificate state ''
        @ ''before retrying''),
      (''CertificateRenewalConfigurationOutcomeUnknown'',
        ''certificate renewal configuration may have changed; retrieve the certificate ''
        @ ''before retrying''),
      (''CertificateDeletionOutcomeUnknown'',
        ''certificate deletion may have been applied; retrieve the certificate before retrying''),
      (''InvalidCertificateRequestInventoryResponse'',
        ''Infisical certificate-request inventory violated the bounded typed contract''),
      (''InvalidCertificateRequestScope'',
        ''the certificate request was not found in the supplied Certificate Manager project''),
      (''InvalidCertificateRequestState'',
        ''the certificate request state does not support the requested operation''),
      (''CertificateRequestRevealNotConfirmed'',
        ''revealing certificate-request material requires explicit confirmation''),
      (''CertificateRequestCancelNotConfirmed'',
        ''cancelling a certificate request requires explicit confirmation''),
      (''InvalidCertificateRequestMaterialResponse'',
        ''Infisical certificate-request material violated the bounded typed contract'')]"

definition access_variants :: "(string \<times> string) list" where
  "access_variants =
     [(''InvalidCertificateRequestCancellationResponse'',
        ''Infisical certificate-request cancellation response violated the typed contract''),
      (''CertificateIssuanceNotConfirmed'',
        ''certificate issuance requires explicit confirmation''),
      (''InvalidCertificateIssuanceProfile'',
        ''certificate issuance requires a project-owned profile with API enrollment''),
      (''InvalidCertificateIssuanceResponse'',
        ''Infisical certificate issuance response violated the bounded typed contract''),
      (''CertificateIssuanceOutcomeUnknown'',
        ''certificate issuance may have been applied; search certificate requests for the ''
        @ ''profile before retrying''),
      (''CertificateProfileCreateNotConfirmed'',
        ''certificate-profile creation requires explicit confirmation''),
      (''CertificateProfileUpdateNotConfirmed'',
        ''certificate-profile update requires explicit confirmation''),
      (''CertificateProfileDeleteNotConfirmed'',
        ''certificate-profile deletion requires explicit confirmation''),
      (''CertificateProfileSecretRevealNotConfirmed'',
        ''revealing certificate-profile private keys or ACME secrets requires explicit ''
        @ ''confirmation''),
      (''InvalidCertificateProfileScope'',
        ''the certificate profile does not belong to the supplied Certificate Manager project''),
      (''InvalidCertificateProfileState'',
        ''the certificate profile state does not support the requested operation''),
      (''InvalidCertificateProfileResponse'',
        ''Infisical certificate-profile response violated the bounded typed contract''),
      (''CodeSignerCreateNotConfirmed'',
        ''code-signer creation requires explicit confirmation''),
      (''CodeSignerUpdateNotConfirmed'',
        ''code-signer update requires explicit confirmation''),
      (''CodeSignerDeleteNotConfirmed'',
        ''code-signer deletion requires explicit confirmation''),
      (''CodeSignerStatusUpdateNotConfirmed'',
        ''code-signer status updates require explicit confirmation''),
      (''CodeSignerCertificateMutationNotConfirmed'',
        ''code-signer certificate mutations require explicit confirmation''),
      (''CodeSigningNotConfirmed'',
        ''code-signing operations require explicit confirmation''),
      (''InvalidCodeSignerScope'',
        ''the code signer does not belong to the supplied Certificate Manager project''),
      (''InvalidCodeSignerState'',
        ''the code signer state does not support the requested operation''),
      (''InvalidCodeSignerCertificateState'',
        ''the code-signer certificate state does not support the requested operation''),
      (''MissingCodeSignerCertificatePrivateKey'',
        ''code-signer creation requires a certificate whose private key is stored in Infisical''),
      (''InvalidCodeSigningInput'',
        ''code-signing input violates the bounded data, digest, or algorithm contract''),
      (''InvalidCodeSignerResponse'',
        ''Infisical code-signer response violated the bounded typed contract''),
      (''CodeSignerGovernanceMutationNotConfirmed'',
        ''code-signer governance mutations require explicit confirmation''),
      (''InvalidCodeSignerGovernanceResponse'',
        ''Infisical code-signer governance response violated the bounded typed contract''),
      (''SshCertificateAuthorityCreateNotConfirmed'',
        ''SSH certificate-authority creation requires explicit confirmation''),
      (''SshCertificateAuthorityReplaceNotConfirmed'',
        ''SSH certificate-authority replacement requires explicit confirmation''),
      (''SshCertificateAuthorityDeleteNotConfirmed'',
        ''SSH certificate-authority deletion requires explicit confirmation''),
      (''SshCertificateTemplateCreateNotConfirmed'',
        ''SSH certificate-template creation requires explicit confirmation''),
      (''SshCertificateTemplateReplaceNotConfirmed'',
        ''SSH certificate-template replacement requires explicit confirmation''),
      (''SshCertificateTemplateDeleteNotConfirmed'',
        ''SSH certificate-template deletion requires explicit confirmation''),
      (''InvalidSshCertificateAuthorityScope'',
        ''the SSH certificate authority does not belong to the supplied project''),
      (''InvalidSshCertificateAuthorityState'',
        ''the SSH certificate authority state does not support this operation''),
      (''InvalidSshCertificateAuthorityResponse'',
        ''Infisical SSH certificate-authority response violated the bounded typed contract''),
      (''InvalidSshCertificateTemplateScope'',
        ''the SSH certificate template does not belong to the supplied authority or project''),
      (''InvalidSshCertificateTemplateResponse'',
        ''Infisical SSH certificate-template response violated the bounded typed contract''),
      (''SshCertificateSigningNotConfirmed'',
        ''SSH certificate signing requires explicit confirmation''),
      (''SshCertificateIssuanceNotConfirmed'',
        ''SSH certificate issuance and private-key reveal require explicit confirmation''),
      (''InvalidSshCertificateTemplateState'',
        ''the SSH certificate template state does not support signing or issuance''),
      (''SshCertificateTypeNotAllowed'',
        ''the SSH certificate type is disabled by the selected template''),
      (''SshCertificatePrincipalNotAllowed'',
        ''one or more SSH certificate principals are not allowed by the selected template''),
      (''SshCertificateTtlNotAllowed'',
        ''the requested SSH certificate TTL exceeds the selected template maximum''),
      (''SshCertificateCustomKeyIdNotAllowed'',
        ''the selected SSH certificate template does not allow a custom key ID''),
      (''InvalidSshCertificateResponse'',
        ''Infisical SSH certificate response violated the signed bounded contract''),
      (''SshHostCreateNotConfirmed'',
        ''SSH host creation requires explicit confirmation''),
      (''SshHostReplaceNotConfirmed'',
        ''SSH host replacement requires explicit confirmation''),
      (''SshHostDeleteNotConfirmed'',
        ''SSH host deletion requires explicit confirmation''),
      (''SshHostCertificateIssuanceNotConfirmed'',
        ''SSH host-certificate issuance requires explicit confirmation''),
      (''InvalidSshHostScope'',
        ''the SSH host does not belong to the supplied project''),
      (''InvalidSshHostResponse'',
        ''Infisical SSH host response violated the bounded typed contract''),
      (''SshHostGroupCreateNotConfirmed'',
        ''SSH host-group creation requires explicit confirmation''),
      (''SshHostGroupReplaceNotConfirmed'',
        ''SSH host-group replacement requires explicit confirmation''),
      (''SshHostGroupDeleteNotConfirmed'',
        ''SSH host-group deletion requires explicit confirmation''),
      (''SshHostGroupMembershipNotConfirmed'',
        ''SSH host-group membership changes require explicit confirmation''),
      (''InvalidSshHostGroupScope'',
        ''the SSH host group does not belong to the supplied project''),
      (''InvalidSshHostGroupResponse'',
        ''Infisical SSH host-group response violated the bounded typed contract''),
      (''InvalidSshHostGroupMembershipResponse'',
        ''Infisical SSH host-group membership response violated the bounded typed contract'')]"

definition unit_variant_text :: "(string \<times> string) list" where
  "unit_variant_text = general_variants @ automation_variants @ access_variants"

fun resource_error_text :: "resource_error \<Rightarrow> string" where
  "resource_error_text (Client_Error e) = client_error_text e"
| "resource_error_text (Pagination_Error e) = pagination_error_text e"
| "resource_error_text (Kms_Bulk_Preflight_Failed validated requested source) =
     ''KMS bulk preflight failed after validating '' @ show_nat validated @ '' of ''
     @ show_nat requested @ '' keys: '' @ resource_error_text source
     @ ''; other preflight reads may have created access events, but the bulk private-key request ''
     @ ''was not sent''"
| "resource_error_text (Kms_Bulk_Preflight_Timeout validated requested) =
     ''KMS bulk preflight deadline expired after validating '' @ show_nat validated @ '' of ''
     @ show_nat requested
     @ '' keys; other preflight reads may have created access events, but the bulk private-key ''
     @ ''request was not sent''"
| "resource_error_text (Certificate_Issuance_Response_Unverified request_id) =
     ''certificate issuance response for request '' @ request_id
     @ '' could not be verified; inspect that request before retrying''"
| "resource_error_text (Unit_Variant name) =
     (case map_of unit_variant_text name of Some t \<Rightarrow> t | None \<Rightarrow> [])"

text \<open>The arms of \<open>ExecutionError::from_resource\<close> that list variants without data.\<close>

definition local_refusals :: "string list" where
  "local_refusals =
     [''DeletionNotConfirmed'', ''SecretImportDeletionNotConfirmed'',
      ''ProjectDeletionNotConfirmed'', ''EnvironmentDeletionNotConfirmed'',
      ''FolderDeletionNotConfirmed'', ''TagDeletionNotConfirmed'',
      ''IdentityDeletionNotConfirmed'', ''AdditionalPrivilegeDeletionNotConfirmed'',
      ''ProjectMembershipDeletionNotConfirmed'',
      ''ProjectMembershipRoleReplacementNotConfirmed'', ''UniversalAuthRemovalNotConfirmed'',
      ''UniversalAuthClientSecretRevocationNotConfirmed'', ''TokenAuthRemovalNotConfirmed'',
      ''TokenAuthTokenRevocationNotConfirmed'', ''KubernetesAuthRemovalNotConfirmed'',
      ''UniversalAuthLockoutClearNotConfirmed'', ''DynamicSecretLeaseRevocationNotConfirmed'',
      ''DynamicSecretDeletionNotConfirmed'', ''AppConnectionDeletionNotConfirmed'',
      ''AppConnectionCredentialReplacementNotConfirmed'',
      ''AppConnectionCredentialRotationNotConfirmed'',
      ''SecretSyncInitialOverwriteNotConfirmed'', ''SecretSyncUpdateNotConfirmed'',
      ''SecretSyncDeletionNotConfirmed'', ''SecretSyncRemoteRemovalNotConfirmed'',
      ''SecretSyncRunNotConfirmed'', ''SqlSecretRotationCreateNotConfirmed'',
      ''SqlSecretRotationUpdateNotConfirmed'', ''SqlSecretRotationDeleteNotConfirmed'',
      ''SqlSecretRotationMoveNotConfirmed'', ''SqlSecretRotationOverwriteNotConfirmed'',
      ''SqlSecretRotationRevealNotConfirmed'', ''SqlSecretRotationRotateNotConfirmed'',
      ''SqlSecretRotationCheckNotConfirmed'', ''KmsKeyDeletionNotConfirmed'',
      ''KmsOperationNotConfirmed'', ''KmsSecretRevealNotConfirmed'',
      ''CertificateAuthorityCreateNotConfirmed'', ''CertificateAuthorityUpdateNotConfirmed'',
      ''CertificateAuthorityDeleteNotConfirmed'',
      ''CertificateAuthorityCertificateMutationNotConfirmed'',
      ''CertificatePolicyCreateNotConfirmed'', ''CertificatePolicyUpdateNotConfirmed'',
      ''CertificatePolicyDeleteNotConfirmed'', ''CertificateImportNotConfirmed'',
      ''CertificateMaterialRevealNotConfirmed'', ''CertificateRenewalNotConfirmed'',
      ''CertificateRevocationNotConfirmed'', ''CertificateDeletionNotConfirmed'',
      ''CertificateRequestRevealNotConfirmed'', ''CertificateRequestCancelNotConfirmed'',
      ''CertificateIssuanceNotConfirmed'', ''CertificateProfileCreateNotConfirmed'',
      ''CertificateProfileUpdateNotConfirmed'', ''CertificateProfileDeleteNotConfirmed'',
      ''CertificateProfileSecretRevealNotConfirmed'', ''CodeSignerCreateNotConfirmed'',
      ''CodeSignerUpdateNotConfirmed'', ''CodeSignerDeleteNotConfirmed'',
      ''CodeSignerStatusUpdateNotConfirmed'', ''CodeSignerCertificateMutationNotConfirmed'',
      ''CodeSigningNotConfirmed'', ''CodeSignerGovernanceMutationNotConfirmed'',
      ''SshCertificateAuthorityCreateNotConfirmed'',
      ''SshCertificateAuthorityReplaceNotConfirmed'',
      ''SshCertificateAuthorityDeleteNotConfirmed'',
      ''SshCertificateTemplateCreateNotConfirmed'',
      ''SshCertificateTemplateReplaceNotConfirmed'',
      ''SshCertificateTemplateDeleteNotConfirmed'', ''SshCertificateSigningNotConfirmed'',
      ''SshCertificateIssuanceNotConfirmed'', ''SshHostCreateNotConfirmed'',
      ''SshHostReplaceNotConfirmed'', ''SshHostDeleteNotConfirmed'',
      ''SshHostCertificateIssuanceNotConfirmed'', ''SshHostGroupCreateNotConfirmed'',
      ''SshHostGroupReplaceNotConfirmed'', ''SshHostGroupDeleteNotConfirmed'',
      ''SshHostGroupMembershipNotConfirmed'', ''InvalidSecretTagFilter'',
      ''InvalidSecretBatchSize'', ''DuplicateSecretName'', ''CyclicSecretImport'',
      ''TokenAuthPageOffsetLimit'', ''InvalidTokenAuthTokenName'', ''InvalidFolderBatchSize'',
      ''DuplicateFolderId'', ''AuditLogMetadataFilterRequiresProject'',
      ''AuditLogMetadataFilterRequiresSecretEvent'', ''DynamicSecretRenameWouldBeNoop'',
      ''SqlSecretRotationProviderMismatch'', ''InvalidKmsBulkRequest'',
      ''InvalidCodeSigningInput'']"

definition scope_refusals :: "string list" where
  "scope_refusals =
     [''InvalidAppAutomationScope'', ''InvalidKmsKeyScope'', ''InvalidKmsKeyUsage'',
      ''KmsKeyDisabled'', ''InvalidCertificateAuthorityScope'',
      ''InvalidCertificateAuthorityCertificateState'',
      ''InvalidCertificateAuthorityProjectKind'', ''CertificatePolicyInUse'',
      ''InvalidCertificatePolicyScope'', ''InvalidCertificateInventoryScope'',
      ''CertificatePrivateKeyUnavailable'', ''InvalidCertificateLifecycleState'',
      ''InvalidCertificateRequestScope'', ''InvalidCertificateRequestState'',
      ''InvalidCertificateIssuanceProfile'', ''InvalidCertificateProfileScope'',
      ''InvalidCertificateProfileState'', ''InvalidCodeSignerScope'',
      ''InvalidCodeSignerState'', ''InvalidCodeSignerCertificateState'',
      ''MissingCodeSignerCertificatePrivateKey'', ''InvalidSshCertificateAuthorityScope'',
      ''InvalidSshCertificateAuthorityState'', ''InvalidSshCertificateTemplateScope'',
      ''InvalidSshCertificateTemplateState'', ''SshCertificateTypeNotAllowed'',
      ''SshCertificatePrincipalNotAllowed'', ''SshCertificateTtlNotAllowed'',
      ''SshCertificateCustomKeyIdNotAllowed'', ''InvalidSshHostScope'',
      ''InvalidSshHostGroupScope'']"

definition unverified_responses :: "string list" where
  "unverified_responses =
     [''CollectionTooLarge'', ''CollectionCountMismatch'', ''InvalidProjectResponse'',
      ''InvalidSecretResponse'', ''InvalidSecretTagResponse'', ''MissingMutationResource'',
      ''InvalidRoleScope'', ''MissingRolePermissions'', ''InvalidGroupMembershipScope'',
      ''InvalidGroupResponse'', ''InvalidGroupProjectAssignment'',
      ''InvalidAdditionalPrivilegeScope'', ''InvalidAdditionalPrivilegeLifetime'',
      ''InvalidAdditionalPrivilegePermissions'', ''InvalidAuditLogResponse'',
      ''InvalidAppAutomationResponse'', ''InvalidDynamicSecretResponse'',
      ''InvalidDynamicSecretLeaseResponse'', ''InvalidKmsResponse'',
      ''InvalidCertificateAuthorityResponse'', ''InvalidCertificatePolicyResponse'',
      ''InvalidCertificateInventoryResponse'', ''InvalidCertificateMaterialResponse'',
      ''CertificateImportOutcomeUnknown'', ''InvalidCertificateLifecycleResponse'',
      ''CertificateRenewalOutcomeUnknown'', ''CertificateRevocationOutcomeUnknown'',
      ''CertificateRenewalConfigurationOutcomeUnknown'', ''CertificateDeletionOutcomeUnknown'',
      ''InvalidCertificateRequestInventoryResponse'',
      ''InvalidCertificateRequestMaterialResponse'',
      ''InvalidCertificateRequestCancellationResponse'', ''InvalidCertificateIssuanceResponse'',
      ''CertificateIssuanceOutcomeUnknown'', ''InvalidCertificateProfileResponse'',
      ''InvalidCodeSignerResponse'', ''InvalidCodeSignerGovernanceResponse'',
      ''InvalidSshCertificateAuthorityResponse'', ''InvalidSshCertificateTemplateResponse'',
      ''InvalidSshCertificateResponse'', ''InvalidSshHostResponse'',
      ''InvalidSshHostGroupResponse'', ''InvalidSshHostGroupMembershipResponse'']"

end
