(* ===== verification/Execution_Error.thy ===== *)
theory Execution_Error
  imports Resource_Error Mcp_Types
begin

text \<open>
  Recovery facts of a failed operation: \<open>infisical-mcp/src/execution_error.rs\<close>. The rendering of
  a structured result by the MCP framework is the parameter \<open>mk\<close>.
\<close>

section \<open>Types\<close>

datatype category =
    Validation_Failure | Authentication_Failure | Permission_Failure | Not_Found_Failure
  | Conflict_Failure | Capacity_Failure | Rate_Limited_Failure | Transport_Failure
  | Response_Validation_Failure | Internal_Failure | Upstream_Failure

fun category_slug :: "category \<Rightarrow> string" where
  "category_slug Validation_Failure = ''validation''"
| "category_slug Authentication_Failure = ''authentication''"
| "category_slug Permission_Failure = ''permissionDenied''"
| "category_slug Not_Found_Failure = ''notFound''"
| "category_slug Conflict_Failure = ''conflict''"
| "category_slug Capacity_Failure = ''capacity''"
| "category_slug Rate_Limited_Failure = ''rateLimited''"
| "category_slug Transport_Failure = ''transport''"
| "category_slug Response_Validation_Failure = ''responseValidation''"
| "category_slug Internal_Failure = ''internal''"
| "category_slug Upstream_Failure = ''upstream''"

datatype effect = Not_Started | Effect_Unknown

fun effect_slug :: "effect \<Rightarrow> string" where
  "effect_slug Not_Started = ''notStarted''"
| "effect_slug Effect_Unknown = ''unknown''"

datatype recovery = Correct_Request | Wait | Reconcile | Inspect_Configuration

fun recovery_slug :: "recovery \<Rightarrow> string" where
  "recovery_slug Correct_Request = ''correctRequest''"
| "recovery_slug Wait = ''wait''"
| "recovery_slug Reconcile = ''reconcile''"
| "recovery_slug Inspect_Configuration = ''inspectConfiguration''"

record execution_error =
  ee_operation :: "string option"
  ee_field_path :: "string option"
  ee_category :: category
  ee_effect :: effect
  ee_recovery :: recovery
  ee_correction :: string
  ee_request_id :: "string option"
  ee_retry_after :: "nat option"
  ee_preflight :: "bool option"

definition execution_error_new :: "category \<Rightarrow> effect \<Rightarrow> recovery \<Rightarrow> string \<Rightarrow> execution_error" where
  "execution_error_new c e r message =
     \<lparr>ee_operation = None, ee_field_path = None, ee_category = c, ee_effect = e, ee_recovery = r,
      ee_correction = message, ee_request_id = None, ee_retry_after = None, ee_preflight = None\<rparr>"

text \<open>The derived serialisation, in declaration order, with the skipped fields.\<close>

definition execution_error_json :: "execution_error \<Rightarrow> json" where
  "execution_error_json e =
     object_of
       (optional_field ''operation'' (map_option String (ee_operation e))
        @ optional_field ''fieldPath'' (map_option String (ee_field_path e))
        @ [(''category'', String (category_slug (ee_category e))),
           (''effect'', String (effect_slug (ee_effect e))),
           (''recovery'', String (recovery_slug (ee_recovery e))),
           (''correction'', String (ee_correction e))]
        @ optional_field ''requestId'' (map_option String (ee_request_id e))
        @ optional_field ''retryAfterSeconds''
            (map_option (\<lambda>s. Number (Unsigned s)) (ee_retry_after e))
        @ optional_field ''preflightObservationsPossible'' (map_option Bool (ee_preflight e)))"

definition into_result :: "(json \<Rightarrow> call_tool_result) \<Rightarrow> execution_error \<Rightarrow> call_tool_result" where
  "into_result mk e =
     (mk (object_of [(''error'', execution_error_json e)]))\<lparr>cr_is_error := Some True\<rparr>"

section \<open>Classifying failures\<close>

fun api_guidance :: "api_error_kind \<Rightarrow> category \<times> recovery" where
  "api_guidance Invalid_Request = (Validation_Failure, Correct_Request)"
| "api_guidance Authentication = (Authentication_Failure, Inspect_Configuration)"
| "api_guidance Permission_Denied = (Permission_Failure, Inspect_Configuration)"
| "api_guidance Not_Found = (Not_Found_Failure, Correct_Request)"
| "api_guidance Conflict = (Conflict_Failure, Reconcile)"
| "api_guidance Rate_Limited = (Rate_Limited_Failure, Wait)"
| "api_guidance Server = (Upstream_Failure, Reconcile)"

definition retry_seconds :: "nat option \<Rightarrow> nat option" where
  "retry_seconds delay = map_option (\<lambda>d. min (d div nanos_per_sec) 300) delay"

text \<open>The last step of \<open>from_client\<close>: pacing guidance of the error where none was set.\<close>

definition with_retry :: "client_error \<Rightarrow> execution_error \<Rightarrow> execution_error" where
  "with_retry error e =
     (if ee_retry_after e = None then e\<lparr>ee_retry_after := retry_seconds (retry_after error)\<rparr> else e)"

fun from_client :: "client_error \<Rightarrow> execution_error" where
  "from_client Work_Budget_Exhausted = with_retry Work_Budget_Exhausted
     (execution_error_new Capacity_Failure Effect_Unknown Reconcile
        (''This HTTP request was not sent. Reconcile any earlier operation steps before trying ''
         @ ''again.''))"
| "from_client (Transport k) = with_retry (Transport k)
     (execution_error_new Transport_Failure Effect_Unknown Reconcile
        (''The response was not received. Inspect the operation's state before deciding whether ''
         @ ''another request is safe.''))"
| "from_client (Response_Too_Large n) = with_retry (Response_Too_Large n)
     (execution_error_new Capacity_Failure Effect_Unknown Reconcile
        (''The upstream response exceeded its bound. Reconcile effects; narrow supported ''
         @ ''retrieval filters for a later read.''))"
| "from_client Invalid_Response = with_retry Invalid_Response
     (execution_error_new Response_Validation_Failure Effect_Unknown Reconcile
        (''The upstream response could not be verified. Reconcile the operation's state before ''
         @ ''another request.''))"
| "from_client Invalid_Mutation_Response = with_retry Invalid_Mutation_Response
     (execution_error_new Response_Validation_Failure Effect_Unknown Reconcile
        (''The upstream response could not be verified. Reconcile the operation's state before ''
         @ ''another request.''))"
| "from_client Invalid_Endpoint = with_retry Invalid_Endpoint
     (execution_error_new Internal_Failure Effect_Unknown Inspect_Configuration
        (''The server endpoint declaration is invalid; report this operation to the operator.''))"
| "from_client Refresh_Interrupted = with_retry Refresh_Interrupted
     (execution_error_new Authentication_Failure Effect_Unknown Reconcile
        (''Authentication refresh was interrupted. Reconcile earlier operation steps before ''
         @ ''trying again.''))"
| "from_client (Authentication_Cooldown failure secs) =
     with_retry (Authentication_Cooldown failure secs)
       ((from_client failure)\<lparr>ee_category := Authentication_Failure, ee_recovery := Wait,
          ee_retry_after := Some (min secs 300),
          ee_correction := ''Wait for the authentication cooldown, then reconcile any earlier ''
            @ ''operation steps. Do not automatically replay a mutation.''\<rparr>)"
| "from_client (Api f) = with_retry (Api f)
     (let (c, r) = api_guidance (failure_kind f) in
      (execution_error_new c Effect_Unknown r (client_error_text (Api f)))
        \<lparr>ee_request_id := failure_request_id f, ee_retry_after := retry_seconds (api_retry_after f)\<rparr>)"

text \<open>\<open>from_resource\<close>; \<open>None\<close> only for a name that is not a variant.\<close>

fun from_resource :: "resource_error \<Rightarrow> execution_error option" where
  "from_resource (Client_Error e) = Some (from_client e)"
| "from_resource (Pagination_Error e) =
     Some (execution_error_new Validation_Failure Effect_Unknown Correct_Request
       (resource_error_text (Pagination_Error e)))"
| "from_resource (Kms_Bulk_Preflight_Failed validated requested source) =
     map_option (\<lambda>result. result\<lparr>ee_effect := Not_Started, ee_preflight := Some True,
         ee_correction := resource_error_text (Kms_Bulk_Preflight_Failed validated requested source)\<rparr>)
       (from_resource source)"
| "from_resource (Kms_Bulk_Preflight_Timeout validated requested) =
     Some ((execution_error_new Capacity_Failure Not_Started Wait
       (resource_error_text (Kms_Bulk_Preflight_Timeout validated requested)))\<lparr>ee_preflight := Some True\<rparr>)"
| "from_resource (Certificate_Issuance_Response_Unverified r) =
     Some (execution_error_new Response_Validation_Failure Effect_Unknown Reconcile
       (resource_error_text (Certificate_Issuance_Response_Unverified r)))"
| "from_resource (Unit_Variant n) =
     (let text = resource_error_text (Unit_Variant n) in
      if n = ''InvalidKmsCryptographicInput''
      then Some ((execution_error_new Validation_Failure Not_Started Correct_Request text)
             \<lparr>ee_preflight := Some True\<rparr>)
      else if n \<in> set local_refusals
      then Some (execution_error_new Validation_Failure Not_Started Correct_Request text)
      else if n \<in> set scope_refusals
      then Some (execution_error_new Validation_Failure Effect_Unknown Correct_Request text)
      else if n \<in> set unverified_responses
      then Some (execution_error_new Response_Validation_Failure Effect_Unknown Reconcile text)
      else None)"

definition capacity_before_execution :: "file_error \<Rightarrow> mcp_error" where
  "capacity_before_execution error =
     internal_error (file_error_text error)
       (Some (object_of [(''capacityBeforeExecution'', Bool True)]))"

definition error_data :: "string \<Rightarrow> mcp_error \<Rightarrow> json option" where
  "error_data k error = Option.bind (me_data error) (json_get k)"

definition from_handler :: "mcp_error \<Rightarrow> execution_error" where
  "from_handler error =
     (if error_data ''capacityBeforeExecution'' error = Some (Bool True)
      then (execution_error_new Capacity_Failure Not_Started Wait (me_message error))
             \<lparr>ee_preflight := Some False\<rparr>
      else if me_code error = Invalid_Params
      then (execution_error_new Validation_Failure Not_Started Correct_Request (me_message error))
             \<lparr>ee_field_path := Some (case Option.bind (error_data ''argumentFieldPath'' error) as_str of
                  Some path \<Rightarrow> path | None \<Rightarrow> ''arguments''),
              ee_preflight := Some False\<rparr>
      else execution_error_new Internal_Failure Effect_Unknown Reconcile
             (''The operation result could not be completed. Reconcile its state and retain any ''
              @ ''returned delivery references.''))"

text \<open>\<open>value.get_mut("error")\<close> as an object with the operation's name inserted.\<close>

definition insert_operation :: "string \<Rightarrow> json \<Rightarrow> json option" where
  "insert_operation operation v =
     (case v of
        Object m \<Rightarrow>
          (case map_of m ''error'' of
             Some (Object e) \<Rightarrow>
               Some (Object (json_insert ''error''
                 (Object (json_insert ''operation'' (String operation) e)) m))
           | _ \<Rightarrow> None)
      | _ \<Rightarrow> None)"

definition name_error :: "(json \<Rightarrow> call_tool_result) \<Rightarrow> string \<Rightarrow> call_tool_result \<Rightarrow> call_tool_result" where
  "name_error mk operation result =
     (if cr_is_error result \<noteq> Some True then result
      else
        case Option.bind (cr_structured result) (insert_operation operation) of
          None \<Rightarrow> result
        | Some v \<Rightarrow> (mk v)\<lparr>cr_is_error := Some True\<rparr>)"

section \<open>What the caller may conclude\<close>

lemma with_retry_simps [simp]:
  "ee_effect (with_retry error e) = ee_effect e"
  "ee_recovery (with_retry error e) = ee_recovery e"
  "ee_category (with_retry error e) = ee_category e"
  by (simp_all add: with_retry_def)

lemma execution_error_new_simps [simp]:
  "ee_effect (execution_error_new c e r m) = e" "ee_recovery (execution_error_new c e r m) = r"
  "ee_category (execution_error_new c e r m) = c" "ee_retry_after (execution_error_new c e r m) = None"
  "ee_correction (execution_error_new c e r m) = m"
  by (simp_all add: execution_error_new_def)

lemma from_client_effect: "ee_effect (from_client e) = Effect_Unknown"
  by (induction e) (auto split: prod.splits)

lemma retry_seconds_bound: "pred_option (\<lambda>s. s \<le> 300) (retry_seconds d)"
  by (cases d) (simp_all add: retry_seconds_def)

lemma with_retry_bound:
  "pred_option (\<lambda>s. s \<le> 300) (ee_retry_after e) \<Longrightarrow>
     pred_option (\<lambda>s. s \<le> 300) (ee_retry_after (with_retry error e))"
  by (simp add: with_retry_def retry_seconds_bound)

lemma from_client_retry: "pred_option (\<lambda>s. s \<le> 300) (ee_retry_after (from_client e))"
  by (cases e) (auto intro!: with_retry_bound simp: retry_seconds_bound split: prod.splits)

lemma from_client_correctable:
  "ee_recovery (from_client e) = Correct_Request \<Longrightarrow>
     \<exists>f. e = Api f \<and> (failure_kind f = Invalid_Request \<or> failure_kind f = Not_Found)"
  by (cases e) (auto split: prod.splits elim!: api_guidance.elims)

lemma from_resource_retry:
  "from_resource e = Some x \<Longrightarrow> pred_option (\<lambda>s. s \<le> 300) (ee_retry_after x)"
  by (induction e arbitrary: x) (auto simp: from_client_retry Let_def split: if_splits)

lemma not_started_local:
  assumes "from_resource e = Some x" and "ee_effect x = Not_Started"
  shows "(\<exists>n. e = Unit_Variant n \<and> n \<in> set (''InvalidKmsCryptographicInput'' # local_refusals))
     \<or> (\<exists>v r. e = Kms_Bulk_Preflight_Timeout v r)
     \<or> (\<exists>v r s. e = Kms_Bulk_Preflight_Failed v r s)"
  using assms by (cases e) (auto simp: from_client_effect Let_def split: if_splits)

text \<open>
  C26: What a failed operation tells its caller is safe to act on: a failure of the upstream client
  never claims that the operation has not started, and invites a corrected request only when the
  API itself rejected it as invalid or not found; the operation is reported as not started only for
  a local refusal or the preflight of a bulk key export; pacing guidance never exceeds 300 seconds.
\<close>

theorem failures_reported_safely:
  assumes "from_resource e = Some x"
  shows "pred_option (\<lambda>s. s \<le> 300) (ee_retry_after x)
    \<and> (ee_effect x = Not_Started \<longrightarrow>
        (\<exists>n. e = Unit_Variant n \<and> n \<in> set (''InvalidKmsCryptographicInput'' # local_refusals))
        \<or> (\<exists>v r. e = Kms_Bulk_Preflight_Timeout v r) \<or> (\<exists>v r s. e = Kms_Bulk_Preflight_Failed v r s))
    \<and> (\<forall>c. e = Client_Error c \<longrightarrow> ee_effect x = Effect_Unknown
        \<and> (ee_recovery x = Correct_Request \<longrightarrow>
            (\<exists>f. c = Api f \<and> failure_kind f \<in> {Invalid_Request, Not_Found})))"
proof (intro conjI allI)
  show "pred_option (\<lambda>s. s \<le> 300) (ee_retry_after x)" using assms by (rule from_resource_retry)
  show "ee_effect x = Not_Started \<longrightarrow>
      (\<exists>n. e = Unit_Variant n \<and> n \<in> set (''InvalidKmsCryptographicInput'' # local_refusals))
      \<or> (\<exists>v r. e = Kms_Bulk_Preflight_Timeout v r) \<or> (\<exists>v r s. e = Kms_Bulk_Preflight_Failed v r s)"
    using not_started_local [OF assms] by blast
  show "e = Client_Error c \<longrightarrow> ee_effect x = Effect_Unknown
      \<and> (ee_recovery x = Correct_Request \<longrightarrow>
          (\<exists>f. c = Api f \<and> failure_kind f \<in> {Invalid_Request, Not_Found}))" for c
    using assms by (auto simp: from_client_effect dest: from_client_correctable)
qed

definition slow_down :: resource_error where
  "slow_down = Client_Error (Api \<lparr>failure_kind = Rate_Limited, failure_status = 429,
     failure_request_id = None, failure_retry_after_seconds = Some 100000\<rparr>)"

lemma failures_reported_safely_witness:
  "\<exists>x. from_resource slow_down = Some x \<and> ee_effect x = Effect_Unknown
     \<and> pred_option (\<lambda>s. s \<le> 300) (ee_retry_after x)"
proof -
  obtain c x where "slow_down = Client_Error c" and "from_resource slow_down = Some x"
    by (simp add: slow_down_def)
  then show ?thesis using failures_reported_safely [of slow_down x] by blast
qed

section \<open>Naming an error\<close>

lemma execution_error_json_named:
  assumes "ee_operation e = None"
  obtains m where "execution_error_json e = Object m"
    and "execution_error_json (e\<lparr>ee_operation := Some operation\<rparr>)
           = Object (json_insert ''operation'' (String operation) m)"
proof -
  define flds where "flds =
       optional_field ''fieldPath'' (map_option String (ee_field_path e))
        @ [(''category'', String (category_slug (ee_category e))),
           (''effect'', String (effect_slug (ee_effect e))),
           (''recovery'', String (recovery_slug (ee_recovery e))),
           (''correction'', String (ee_correction e))]
        @ optional_field ''requestId'' (map_option String (ee_request_id e))
        @ optional_field ''retryAfterSeconds''
            (map_option (\<lambda>s. Number (Unsigned s)) (ee_retry_after e))
        @ optional_field ''preflightObservationsPossible'' (map_option Bool (ee_preflight e))"
  have k: "''operation'' \<notin> fst ` set flds"
    unfolding flds_def by (auto simp: optional_field_def split: option.splits)
  have "execution_error_json e = object_of flds"
    using assms by (simp add: execution_error_json_def flds_def optional_field_def)
  moreover have "execution_error_json (e\<lparr>ee_operation := Some operation\<rparr>)
      = object_of ((''operation'', String operation) # flds)"
    by (simp add: execution_error_json_def flds_def optional_field_def)
  ultimately show ?thesis
    using that [of "fold (\<lambda>(k, v). json_insert k v) flds []"] object_of_cons [OF k]
    by (simp add: object_of_def)
qed

lemma insert_operation_error:
  assumes "ee_operation e = None"
  shows "insert_operation operation (object_of [(''error'', execution_error_json e)])
       = Some (object_of [(''error'', execution_error_json (e\<lparr>ee_operation := Some operation\<rparr>))])"
proof -
  obtain m where m: "execution_error_json e = Object m"
    "execution_error_json (e\<lparr>ee_operation := Some operation\<rparr>)
       = Object (json_insert ''operation'' (String operation) m)"
    using assms by (rule execution_error_json_named)
  show ?thesis unfolding m by (simp add: insert_operation_def object_of_def)
qed

text \<open>Naming the error of an operation is the same as reporting it with its name.\<close>

lemma name_error_into_result:
  assumes "structured_ok mk" and "ee_operation e = None"
  shows "name_error mk operation (into_result mk e)
           = into_result mk (e\<lparr>ee_operation := Some operation\<rparr>)"
  using assms by (simp add: name_error_def into_result_def insert_operation_error)

lemma name_error_ok: "cr_is_error r \<noteq> Some True \<Longrightarrow> name_error mk operation r = r"
  by (simp add: name_error_def)

lemma name_error_is_error [simp]: "cr_is_error (name_error mk operation r) = cr_is_error r"
  by (simp add: name_error_def split: option.splits)

lemma into_result_is_error [simp]: "cr_is_error (into_result mk e) = Some True"
  by (simp add: into_result_def)

lemma from_handler_operation [simp]: "ee_operation (from_handler e) = None"
  by (simp add: from_handler_def execution_error_new_def)

lemma from_handler_capacity:
  "from_handler (capacity_before_execution e) =
     (execution_error_new Capacity_Failure Not_Started Wait (file_error_text e))\<lparr>ee_preflight := Some False\<rparr>"
  by (simp add: from_handler_def capacity_before_execution_def error_data_def internal_error_def
      json_get_object_of)

end
