(* ===== verification/File_Receipt.thy ===== *)
theory File_Receipt
  imports Mcp_Types
begin

text \<open>
  Value-free identifiers kept outside a whole-result file: \<open>infisical-mcp/src/file_receipt.rs\<close>.
  The JSON pointer lookup of \<open>serde_json\<close> is the parameter \<open>pointer\<close>.
\<close>

datatype resource_kind =
  Client_Secret | Token | Dynamic_Lease | Certificate | Certificate_Request | Ssh_Certificate

record reconciliation_reference =
  rr_kind :: resource_kind
  rr_id :: string

definition receipt_selectors :: "string \<Rightarrow> (string \<times> resource_kind) list" where
  "receipt_selectors operation =
     (if operation = ''identityUniversalAuth.clientSecrets.create''
      then [(''/metadata/id'', Client_Secret)]
      else if operation = ''identityTokenAuth.tokens.create'' then [(''/metadata/id'', Token)]
      else if operation = ''dynamicSecretLeases.create'' then [(''/lease/id'', Dynamic_Lease)]
      else if operation \<in> {''certificates.issue'', ''certificates.renew'',
                          ''certificateRequests.result.reveal''}
      then [(''/certificateId'', Certificate), (''/requestId'', Certificate_Request)]
      else if operation = ''sshCertificates.issue'' then [(''/serialNumber'', Ssh_Certificate)]
      else [])"

definition is_receipt_byte :: "char \<Rightarrow> bool" where
  "is_receipt_byte b \<longleftrightarrow> is_ascii_alphanumeric b \<or> b \<in> {CHR ''-'', CHR ''_'', CHR '':''}"

definition receipt_id :: "json \<Rightarrow> string option" where
  "receipt_id v =
     (case v of String ident \<Rightarrow> Some ident | Number (Unsigned n) \<Rightarrow> Some (show_nat n) | _ \<Rightarrow> None)"

definition receipt_reference ::
    "(string \<Rightarrow> json \<Rightarrow> json option) \<Rightarrow> json \<Rightarrow> string \<times> resource_kind \<Rightarrow> reconciliation_reference option" where
  "receipt_reference pointer payload selector =
     (case selector of (path, kind) \<Rightarrow>
       Option.bind (pointer path payload) (\<lambda>v.
       Option.bind (receipt_id v) (\<lambda>ident.
         if ident = [] \<or> 128 < length ident \<or> \<not> list_all is_receipt_byte ident then None
         else Some \<lparr>rr_kind = kind, rr_id = ident\<rparr>)))"

definition references ::
    "(string \<Rightarrow> json \<Rightarrow> json option) \<Rightarrow> string \<Rightarrow> json \<Rightarrow> reconciliation_reference list" where
  "references pointer operation payload =
     List.map_filter (receipt_reference pointer payload) (receipt_selectors operation)"

definition value_free :: "reconciliation_reference \<Rightarrow> bool" where
  "value_free r \<longleftrightarrow> rr_id r \<noteq> [] \<and> length (rr_id r) \<le> 128 \<and> list_all is_receipt_byte (rr_id r)"

lemma receipt_reference_value_free:
  "receipt_reference pointer payload selector = Some r \<Longrightarrow> value_free r"
  by (auto simp: receipt_reference_def value_free_def bind_eq_Some_conv split: prod.splits if_splits)

lemma references_value_free: "list_all value_free (references pointer operation payload)"
  using receipt_reference_value_free
  by (fastforce simp: references_def List.map_filter_def list_all_iff)

lemma references_few: "length (references pointer operation payload) \<le> 2"
proof -
  have "length (references pointer operation payload) \<le> length (receipt_selectors operation)"
    unfolding references_def List.map_filter_def by simp
  also have "\<dots> \<le> 2" by (simp add: receipt_selectors_def)
  finally show ?thesis .
qed

fun kind_slug :: "resource_kind \<Rightarrow> string" where
  "kind_slug Client_Secret = ''clientSecret''"
| "kind_slug Token = ''token''"
| "kind_slug Dynamic_Lease = ''dynamicLease''"
| "kind_slug Certificate = ''certificate''"
| "kind_slug Certificate_Request = ''certificateRequest''"
| "kind_slug Ssh_Certificate = ''sshCertificate''"

definition reference_json :: "reconciliation_reference \<Rightarrow> json" where
  "reference_json r = object_of [(''kind'', String (kind_slug (rr_kind r))), (''id'', String (rr_id r))]"

end
