(* ===== verification/Result_Delivery.thy ===== *)
theory Result_Delivery
  imports Execution_Error File_Receipt File_Envelope File_Plane_Properties Operation_Registry "HOL-Library.Sublist"
begin

text \<open>
  How a result leaves the server: staged as a file on request, bounded otherwise
  (\<open>deliver_result_as_file\<close>, \<open>enforce_result_budget\<close> and their helpers in
  \<open>infisical-mcp/src/tools.rs\<close>). The JSON serialiser (chunks and text), the JSON pointer, the
  derived schemas and the random generator are parameters. A wiped text block is an empty one.
\<close>

section \<open>Local discovery\<close>

definition is_local_discovery :: "string \<Rightarrow> bool" where
  "is_local_discovery name \<longleftrightarrow>
     name \<in> {SERVER_INFO_TOOL, SERVER_CAPABILITIES_TOOL, TYPES_DESCRIBE_TOOL, OPERATIONS_LIST_TOOL,
             OPERATIONS_DESCRIBE_TOOL}"

section \<open>Whole results as files\<close>

definition file_reference_json :: "secret_file_reference \<Rightarrow> json" where
  "file_reference_json r =
     object_of [(''uri'', String (ref_uri r)), (''name'', String (ref_name r)),
                (''mimeType'', String (ref_mime_type r))]"

definition file_delivered_json ::
    "string \<Rightarrow> secret_file_reference \<Rightarrow> reconciliation_reference list \<Rightarrow> json" where
  "file_delivered_json operation file refs =
     object_of [(''operation'', String operation), (''resultFile'', file_reference_json file),
                (''reconciliation'', Array (map reference_json refs))]"

definition take_payload_wiping_text :: "call_tool_result \<Rightarrow> json option \<times> call_tool_result" where
  "take_payload_wiping_text result =
     (case cr_structured result of
        None \<Rightarrow> (None, result)
      | Some payload \<Rightarrow>
          (Some payload, result\<lparr>cr_structured := None, cr_text := map (\<lambda>_. []) (cr_text result)\<rparr>))"

text \<open>
  The slot is consumed by staging and dropped on every other path; \<open>None\<close> is a panic of \<open>stage\<close>.
\<close>

definition deliver_result_as_file ::
    "(json \<Rightarrow> call_tool_result) \<Rightarrow> (string \<Rightarrow> json \<Rightarrow> json option)
      \<Rightarrow> (string \<Rightarrow> json \<Rightarrow> string \<Rightarrow> string list option) \<Rightarrow> (nat \<Rightarrow> string)
      \<Rightarrow> nat \<Rightarrow> string \<Rightarrow> string \<Rightarrow> reservation \<Rightarrow> call_tool_result \<Rightarrow> plane
      \<Rightarrow> ((mcp_error, call_tool_result) result \<times> plane) option" where
  "deliver_result_as_file mk pointer to_writer fill now ident operation slot result pl =
     (if cr_is_error result = Some True then Some (Ok result, drop_slot slot pl)
      else
        case take_payload_wiping_text result of
          (None, result') \<Rightarrow> Some (Ok result', drop_slot slot pl)
        | (Some payload, _) \<Rightarrow>
            (let refs = references pointer operation payload in
             case secret_envelope to_writer fill operation payload of
               None \<Rightarrow> Some (Err (internal_error ''serialize the result envelope'' None), drop_slot slot pl)
             | Some envelope \<Rightarrow>
                 (case stage now ident slot operation envelope pl of
                    None \<Rightarrow> None
                  | Some (file, pl') \<Rightarrow> Some (Ok (mk (file_delivered_json operation file refs)), pl'))))"

section \<open>The result budget\<close>

definition max_tool_result_bytes :: nat where "max_tool_result_bytes = 256 * 1024"

fun byte_counter :: "nat \<Rightarrow> string list \<Rightarrow> nat option" where
  "byte_counter c [] = Some c"
| "byte_counter c (bytes # chunks) =
     (if 2 ^ 64 \<le> c + length bytes then None else byte_counter (c + length bytes) chunks)"

definition tool_result_bytes ::
    "(call_tool_result \<Rightarrow> string list option) \<Rightarrow> call_tool_result \<Rightarrow> nat option" where
  "tool_result_bytes serialize result = Option.bind (serialize result) (byte_counter 0)"

fun walk :: "json \<Rightarrow> json list" where
  "walk (Object m) =
     concat (map (\<lambda>(key, child).
       if key = ''secretFile'' \<and> is_object child then [child] else walk child) m)"
| "walk (Array items) = concat (map walk items)"
| "walk (String s) = []"
| "walk (Number n) = []"
| "walk (Bool b) = []"
| "walk Null = []"

definition surviving_secret_references :: "call_tool_result \<Rightarrow> json list" where
  "surviving_secret_references result =
     (case cr_structured result of None \<Rightarrow> [] | Some structured \<Rightarrow> walk structured)"

datatype oversized_result_advice =
  Request_Fewer_Records | No_Narrowing_Parameter | Effect_Already_Applied

fun guidance :: "oversized_result_advice \<Rightarrow> string" where
  "guidance Request_Fewer_Records = ''Retry with a smaller limit.''"
| "guidance No_Narrowing_Parameter =
     ''This tool has no parameter that reduces its result, so the value cannot be ''
     @ ''returned through this boundary.''"
| "guidance Effect_Already_Applied =
     ''The operation already completed upstream and must not be repeated; confirm its ''
     @ ''outcome with a read instead.''"

definition takes_limit :: "json \<Rightarrow> bool" where
  "takes_limit schema =
     (case json_get ''properties'' schema of
        Some (Object properties) \<Rightarrow> map_of properties ''limit'' \<noteq> None
      | _ \<Rightarrow> False)"

definition oversized_advice :: "(string \<Rightarrow> json) \<Rightarrow> string \<Rightarrow> oversized_result_advice" where
  "oversized_advice schema tool =
     (if tool = OPERATIONS_LIST_TOOL then Request_Fewer_Records
      else if is_local_discovery tool then No_Narrowing_Parameter
      else
        case operation_definition tool of
          None \<Rightarrow> Effect_Already_Applied
        | Some d \<Rightarrow>
            if od_tier d \<noteq> Read then Effect_Already_Applied
            else if takes_limit (schema (od_input d)) then Request_Fewer_Records
            else No_Narrowing_Parameter)"

definition offers_file_retry :: "(string \<Rightarrow> json) \<Rightarrow> bool \<Rightarrow> string \<Rightarrow> bool" where
  "offers_file_retry schema files_enabled tool \<longleftrightarrow>
     files_enabled \<and> oversized_advice schema tool \<noteq> Effect_Already_Applied
     \<and> \<not> is_local_discovery tool"

definition oversized_message ::
    "(string \<Rightarrow> json) \<Rightarrow> (json \<Rightarrow> string) \<Rightarrow> bool \<Rightarrow> string \<Rightarrow> nat \<Rightarrow> json list \<Rightarrow> string" where
  "oversized_message schema render files_enabled tool bytes refs =
     tool @ '' produced a '' @ show_nat bytes @ ''-byte result, over the ''
     @ show_nat max_tool_result_bytes @ ''-byte limit. '' @ guidance (oversized_advice schema tool)
     @ (if offers_file_retry schema files_enabled tool
        then '' Alternatively, retry through the operation's executor with resultDelivery ''
             @ [CHR 0x22] @ ''file'' @ [CHR 0x22]
             @ '' to receive the full result as an out-of-context reference.''
        else [])
     @ (if refs \<noteq> []
        then '' The staged secret reference from this call remains resolvable until it ''
             @ ''expires: '' @ render (Array refs)
        else [])"

definition oversized_outcome :: "string \<Rightarrow> effect \<times> recovery" where
  "oversized_outcome tool =
     (if is_local_discovery tool then (Not_Started, Correct_Request) else (Effect_Unknown, Reconcile))"

definition enforce_result_budget ::
    "(json \<Rightarrow> call_tool_result) \<Rightarrow> (string \<Rightarrow> json) \<Rightarrow> (json \<Rightarrow> string)
      \<Rightarrow> (call_tool_result \<Rightarrow> string list option) \<Rightarrow> string \<Rightarrow> bool \<Rightarrow> call_tool_result
      \<Rightarrow> call_tool_result" where
  "enforce_result_budget mk schema render serialize tool files_enabled result =
     (case tool_result_bytes serialize result of
        None \<Rightarrow>
          name_error mk tool (into_result mk
            (execution_error_new Internal_Failure Effect_Unknown Reconcile
               (''The completed result could not be serialized; reconcile the operation before ''
                @ ''retrying.'')))
      | Some bytes \<Rightarrow>
          if bytes \<le> max_tool_result_bytes then result
          else
            let message = oversized_message schema render files_enabled tool bytes
                  (surviving_secret_references result);
                (e, r) = oversized_outcome tool
            in name_error mk tool
                 (into_result mk (execution_error_new Capacity_Failure e r message)))"

section \<open>The references a result carries\<close>

text \<open>The references below a value, described without the traversal.\<close>

inductive carries :: "json \<Rightarrow> json \<Rightarrow> bool" where
  carries_here: "(''secretFile'', c) \<in> set m \<Longrightarrow> is_object c \<Longrightarrow> carries (Object m) c"
| carries_field: "(k, child) \<in> set m \<Longrightarrow> k \<noteq> ''secretFile'' \<or> \<not> is_object child \<Longrightarrow> carries child r
    \<Longrightarrow> carries (Object m) r"
| carries_item: "x \<in> set items \<Longrightarrow> carries x r \<Longrightarrow> carries (Array items) r"

inductive_simps carries_simps:
  "carries (Object m) r" "carries (Array items) r" "carries (String s) r" "carries (Number n) r"
  "carries (Bool b) r" "carries Null r"

lemma walk_carries: "r \<in> set (walk v) \<longleftrightarrow> carries v r"
proof (induction v rule: walk.induct)
  case (1 m)
  have "r \<in> set (if k = ''secretFile'' \<and> is_object child then [child] else walk child)
      \<longleftrightarrow> (k = ''secretFile'' \<and> is_object child \<and> r = child)
        \<or> ((k \<noteq> ''secretFile'' \<or> \<not> is_object child) \<and> carries child r)"
    if "(k, child) \<in> set m" for k child
    using 1 [OF that refl] by auto
  then have "(\<exists>k child. (k, child) \<in> set m
        \<and> r \<in> set (if k = ''secretFile'' \<and> is_object child then [child] else walk child))
      \<longleftrightarrow> (\<exists>k child. (k, child) \<in> set m \<and> ((k = ''secretFile'' \<and> is_object child \<and> r = child)
        \<or> ((k \<noteq> ''secretFile'' \<or> \<not> is_object child) \<and> carries child r)))"
    by blast
  also have "\<dots> \<longleftrightarrow> carries (Object m) r" unfolding carries_simps by blast
  finally show ?case by (simp add: Bex_def split_paired_Ex)
next
  case (2 items)
  then show ?case unfolding carries_simps by auto
qed (simp_all add: carries_simps)

section \<open>What reaches the caller\<close>

lemma byte_counter_Some: "byte_counter c chunks = Some n \<Longrightarrow> n = c + length (concat chunks)"
  by (induction chunks arbitrary: c) (fastforce split: if_splits)+

lemma read_advice:
  "oversized_advice schema tool \<noteq> Effect_Already_Applied \<Longrightarrow>
     is_local_discovery tool \<or> (\<exists>d. operation_definition tool = Some d \<and> od_tier d = Read)"
  by (auto simp: oversized_advice_def is_local_discovery_def split: option.splits if_splits)

lemma enforce_oversized:
  assumes "structured_ok mk" and "tool_result_bytes serialize result = Some n"
    and "max_tool_result_bytes < n"
  shows "enforce_result_budget mk schema render serialize tool files result
     = into_result mk ((execution_error_new Capacity_Failure (fst (oversized_outcome tool))
           (snd (oversized_outcome tool))
           (oversized_message schema render files tool n (surviving_secret_references result)))
         \<lparr>ee_operation := Some tool\<rparr>)"
  using assms
  by (simp add: enforce_result_budget_def Let_def split_beta name_error_into_result execution_error_new_def)

lemma enforce_unserializable:
  assumes "structured_ok mk" and "tool_result_bytes serialize result = None"
  shows "\<exists>message. enforce_result_budget mk schema render serialize tool files result
     = into_result mk ((execution_error_new Internal_Failure Effect_Unknown Reconcile message)
         \<lparr>ee_operation := Some tool\<rparr>)"
  using assms by (auto simp: enforce_result_budget_def name_error_into_result execution_error_new_def)

lemma named_effect:
  "out = into_result mk (e\<lparr>ee_operation := Some tool\<rparr>) \<Longrightarrow> ee_effect e = Effect_Unknown \<or> local \<Longrightarrow>
     \<exists>x. out = into_result mk x \<and> ee_operation x = Some tool \<and> (ee_effect x = Effect_Unknown \<or> local)"
  by (rule exI [where x = "e\<lparr>ee_operation := Some tool\<rparr>"]) simp

text \<open>
  C39: A result the caller sees fits the budget of 256 KiB unchanged, or is replaced by an error
  that names the operation and that claims nothing has started only for local discovery.
\<close>

theorem oversized_result_replaced:
  assumes "structured_ok mk"
    and "out = enforce_result_budget mk schema render serialize tool files result"
  shows "(\<exists>n. tool_result_bytes serialize result = Some n \<and> n \<le> 262144 \<and> out = result)
    \<or> (\<exists>x. out = into_result mk x \<and> ee_operation x = Some tool
        \<and> (ee_effect x = Effect_Unknown \<or> is_local_discovery tool))"
proof -
  consider (none) "tool_result_bytes serialize result = None"
    | (fits) n where "tool_result_bytes serialize result = Some n" "n \<le> max_tool_result_bytes"
    | (over) n where "tool_result_bytes serialize result = Some n" "max_tool_result_bytes < n"
    by (cases "tool_result_bytes serialize result") (use not_less in auto)
  then show ?thesis
  proof cases
    case none
    then obtain message where "out = into_result mk
        ((execution_error_new Internal_Failure Effect_Unknown Reconcile message)\<lparr>ee_operation := Some tool\<rparr>)"
      using enforce_unserializable [OF assms(1) none, of schema render tool files] assms(2) by blast
    then have "\<exists>x. out = into_result mk x \<and> ee_operation x = Some tool
        \<and> (ee_effect x = Effect_Unknown \<or> is_local_discovery tool)"
      by (rule named_effect) simp
    then show ?thesis by blast
  next
    case fits
    then show ?thesis
      using assms(2) by (simp add: enforce_result_budget_def max_tool_result_bytes_def)
  next
    case (over n)
    have "\<exists>x. out = into_result mk x \<and> ee_operation x = Some tool
        \<and> (ee_effect x = Effect_Unknown \<or> is_local_discovery tool)"
      unfolding assms(2) enforce_oversized [OF assms(1) over]
      by (rule named_effect [OF refl]) (simp add: oversized_outcome_def)
    then show ?thesis by blast
  qed
qed


text \<open>A rendering that keeps the payload and its text, for examples.\<close>

definition plain_result :: "json \<Rightarrow> call_tool_result" where
  "plain_result v = \<lparr>cr_structured = Some v, cr_text = [''payload''], cr_is_error = Some False\<rparr>"

lemma plain_result_ok: "structured_ok plain_result"
  by (simp add: structured_ok_def plain_result_def)

lemma oversized_result_replaced_witness:
  "\<exists>x. enforce_result_budget plain_result (\<lambda>_. Null) (\<lambda>_. []) (\<lambda>_. None) ''projects.list'' True
         (plain_result Null) = into_result plain_result x
     \<and> ee_operation x = Some ''projects.list'' \<and> ee_effect x = Effect_Unknown"
proof -
  have "\<not> is_local_discovery ''projects.list''" by (simp add: is_local_discovery_def)
  then show ?thesis
    using oversized_result_replaced [OF plain_result_ok refl, of "\<lambda>_. None" "plain_result Null"
        "\<lambda>_. Null" "\<lambda>_. []" "''projects.list''" True]
    by (simp add: tool_result_bytes_def)
qed

definition oversized_secret :: call_tool_result where
  "oversized_secret = plain_result (Object [(''secretFile'', Object []), (''text'', String ''long'')])"


section \<open>Whole results as files\<close>

text \<open>
  C25: A result delivered as a file leaves the context: what the caller receives is the operation's
  name, a reference to the staged file and at most two bounded identifiers of a fixed character
  set, whatever the payload is, while the staged file is exactly the padded envelope of the payload.
\<close>

theorem file_result_out_of_context:
  assumes "deliver_result_as_file mk pointer to_writer fill now ident operation slot result pl
      = Some (Ok out, pl')"
    and "cr_is_error result \<noteq> Some True" and "cr_structured result = Some payload"
  shows "\<exists>refs envelope entry.
      out = mk (file_delivered_json operation (file_reference ident (operation @ ''.json'')) refs)
      \<and> list_all value_free refs \<and> length refs \<le> 2
      \<and> secret_envelope to_writer fill operation payload = Some envelope
      \<and> map_of (pl_staged pl') ident = Some entry \<and> tb_bytes (ss_envelope entry) = envelope"
proof -
  let ?refs = "references pointer operation payload"
  from assms obtain envelope where env: "secret_envelope to_writer fill operation payload = Some envelope"
    and st: "stage now ident slot operation envelope pl
        = Some (file_reference ident (operation @ ''.json''), pl')"
    and out: "out = mk (file_delivered_json operation (file_reference ident (operation @ ''.json'')) ?refs)"
    by (auto simp: deliver_result_as_file_def take_payload_wiping_text_def Let_def stage_def
        split: option.splits prod.splits)
  from st obtain entry where "map_of (pl_staged pl') ident = Some entry" "tb_bytes (ss_envelope entry) = envelope"
    by (auto simp: stage_def Let_def update_conv split: option.splits)
  with env out references_value_free references_few show ?thesis by blast
qed

definition brief_writer :: "string \<Rightarrow> json \<Rightarrow> string \<Rightarrow> string list option" where
  "brief_writer operation data pad = Some [operation, pad]"

lemma file_result_out_of_context_witness:
  "\<exists>out pl' refs. deliver_result_as_file plain_result (\<lambda>_ _. None) brief_writer (\<lambda>k. replicate k CHR ''x'')
       0 ''s'' ''op'' max_envelope_bytes (plain_result (String ''secret'')) reserved_plane = Some (Ok out, pl')
     \<and> out = plain_result (file_delivered_json ''op'' (file_reference ''s'' ''op.json'') refs)"
proof -
  obtain env where env: "secret_envelope brief_writer (\<lambda>k. replicate k CHR ''x'') ''op'' (String ''secret'') = Some env"
    and len: "length env = 4096"
    by (simp add: secret_envelope_def brief_writer_def Let_def max_envelope_eq min_pad_chars_def
        div_ceil_def envelope_bucket_bytes_def random_hex_of_length_def)
  have "\<exists>p. stage 0 ''s'' max_envelope_bytes ''op'' env reserved_plane
      = Some (file_reference ''s'' ''op.json'', p)"
    by (simp add: stage_def len reservation_shrink_def max_envelope_bytes_def reserved_plane_def Let_def)
  then obtain out pl' where d: "deliver_result_as_file plain_result (\<lambda>_ _. None) brief_writer
       (\<lambda>k. replicate k CHR ''x'') 0 ''s'' ''op'' max_envelope_bytes (plain_result (String ''secret''))
       reserved_plane = Some (Ok out, pl')"
    by (auto simp: deliver_result_as_file_def take_payload_wiping_text_def plain_result_def env)
  show ?thesis
    using d file_result_out_of_context [OF d] by (auto simp: plain_result_def)
qed

end
