(* ===== verification/Local_Discovery.thy ===== *)
theory Local_Discovery
  imports Runtime Server_Capabilities Argument_Decoding Discovery Result_Delivery
begin

text \<open>
  The tools answered locally (\<open>dispatch_local\<close> and its helpers in \<open>infisical-mcp/src/tools.rs\<close>,
  \<open>collection_cost.rs\<close>): server facts, capabilities, type schemas, operation listing and description,
  and the exported operation policy. The derived schemas are the parameter \<open>schema\<close>, by type name.
\<close>

section \<open>Collection cost\<close>

datatype pagination_kind = Native_Upstream | Local_Slice | Bounded_Unpaged

definition local_slices :: "string list" where
  "local_slices =
     [''projects.list'', ''environments.list'', ''folders.list'', ''tags.list'',
      ''identities.list'', ''projectUserMemberships.list'', ''projectRoles.list'',
      ''organizationRoles.list'', ''groups.list'', ''projectGroupMemberships.list'',
      ''identityProjectAdditionalPrivileges.list'',
      ''identityUniversalAuth.clientSecrets.list'', ''secrets.metadata.list'',
      ''secretImports.list'', ''appConnections.list'', ''secretSyncs.list'',
      ''secretRotations.list'', ''dynamicSecrets.list'', ''dynamicSecretLeases.list'']"

definition native_pages :: "string list" where
  "native_pages =
     [''projectIdentityMemberships.list'', ''groups.members.list'', ''groups.projects.list'',
      ''identityTokenAuth.tokens.list'', ''auditLogs.list'', ''certificates.list'',
      ''certificateRequests.list'', ''certificatePolicies.list'', ''certificateProfiles.list'',
      ''certificateProfiles.certificates.list'', ''codeSigners.list'',
      ''codeSigners.approvalRequests.list'', ''codeSigners.operations.list'', ''kms.keys.list'']"

definition unpaged_collections :: "string list" where
  "unpaged_collections =
     [''certificateAuthorities.list'', ''certificateAuthorities.internal.list'',
      ''certificateAuthorities.internal.certificates.list'',
      ''certificateAuthorities.internal.crls.list'', ''sshCertificateAuthorities.list'',
      ''sshCertificateTemplates.list'', ''sshCertificateAuthorities.templates.list'',
      ''codeSigners.members.list'', ''codeSigners.effectiveMembers.list'',
      ''kms.keys.signingAlgorithms.list'', ''sshHosts.list'', ''sshHostGroups.list'',
      ''sshHostGroups.hosts.list'']"

definition pagination_of :: "string \<Rightarrow> pagination_kind option" where
  "pagination_of name =
     (if name \<in> set local_slices then Some Local_Slice
      else if name \<in> set native_pages then Some Native_Upstream
      else if name \<in> set unpaged_collections then Some Bounded_Unpaged
      else None)"

fun pagination_slug :: "pagination_kind \<Rightarrow> string" where
  "pagination_slug Native_Upstream = ''nativeUpstream''"
| "pagination_slug Local_Slice = ''localSlice''"
| "pagination_slug Bounded_Unpaged = ''boundedUnpaged''"

section \<open>Arguments\<close>

text \<open>The described types: their published names and the type whose schema is returned.\<close>

definition type_names :: "(string \<times> string) list" where
  "type_names =
     [(''executionError'', ''ExecutionError''), (''auditLog'', ''AuditLog''),
      (''appConnection'', ''AppConnection''),
      (''githubAppConnectionInput'', ''GitHubAppConnectionProviderInput''),
      (''secretSync'', ''SecretSync''),
      (''githubSecretSyncConfig'', ''GitHubSecretSyncConfigInput''),
      (''secretRotation'', ''SecretRotation''),
      (''sqlSecretRotationConfig'', ''SqlSecretRotationConfigInput''),
      (''project'', ''Project''), (''environment'', ''Environment''), (''folder'', ''Folder''),
      (''tag'', ''Tag''), (''machineIdentity'', ''MachineIdentity''),
      (''projectMemberUser'', ''ProjectMemberUser''),
      (''projectMemberIdentity'', ''ProjectMemberIdentity''),
      (''projectMembershipRole'', ''ProjectMembershipRole''),
      (''projectUserMembership'', ''ProjectUserMembership''),
      (''projectIdentityMembership'', ''ProjectIdentityMembership''),
      (''projectMembershipMutationReceipt'', ''ProjectMembershipMutationReceipt''),
      (''role'', ''Role''), (''roleSummary'', ''RoleSummary''), (''group'', ''Group''),
      (''groupMember'', ''GroupMember''), (''groupProject'', ''GroupProject''),
      (''projectGroupMembership'', ''ProjectGroupMembership''),
      (''identityProjectAdditionalPrivilege'', ''IdentityProjectAdditionalPrivilege''),
      (''identityProjectAdditionalPrivilegeSummary'', ''IdentityProjectAdditionalPrivilegeSummary''),
      (''universalAuthConfig'', ''UniversalAuthConfig''),
      (''universalAuthClientSecret'', ''UniversalAuthClientSecret''),
      (''tokenAuthConfig'', ''TokenAuthConfig''), (''tokenAuthToken'', ''TokenAuthToken''),
      (''kubernetesAuthConfig'', ''KubernetesAuthConfig''), (''kmsKey'', ''KmsKey''),
      (''secretMetadata'', ''SecretMetadata''), (''secretImport'', ''SecretImport''),
      (''dynamicSecret'', ''DynamicSecret''),
      (''dynamicSecretProviderInput'', ''DynamicSecretProviderInput''),
      (''dynamicSecretLease'', ''DynamicSecretLease''),
      (''dynamicSecretLeaseDetails'', ''DynamicSecretLeaseDetails''),
      (''sshHost'', ''SshHost''), (''sshHostGroup'', ''SshHostGroup''),
      (''sshHostGroupMembers'', ''SshHostGroupMembers''),
      (''sshHostGroupMembershipReceipt'', ''SshHostGroupMembershipReceipt''),
      (''sshHostLinkedCaPublicKey'', ''SshHostLinkedCaPublicKey''),
      (''sshLoginMapping'', ''SshLoginMapping''), (''pageRequest'', ''PageRequest'')]"

datatype list_field =
  Tier_Field | Name_Prefix_Field | Query_Field | Offset_Field | Limit_Field | Full_Field | Schema_Field

definition list_field :: "string \<Rightarrow> list_field option" where
  "list_field k =
     (if k = ''tier'' then Some Tier_Field else if k = ''namePrefix'' then Some Name_Prefix_Field
      else if k = ''query'' then Some Query_Field else if k = ''offset'' then Some Offset_Field
      else if k = ''limit'' then Some Limit_Field else if k = ''fullDescriptions'' then Some Full_Field
      else if k = ''includeInputSchema'' then Some Schema_Field else None)"

definition tier_variant :: "string \<Rightarrow> tool_tier option" where
  "tier_variant s =
     (if s = ''read'' then Some Read else if s = ''readAudited'' then Some Read_Audited
      else if s = ''write'' then Some Write else if s = ''destroy'' then Some Destroy else None)"

definition decode_list_input :: "(string \<times> json) list \<Rightarrow> operations_list_input option" where
  "decode_list_input m =
     Option.bind (decode_struct list_field [] m) (\<lambda>fs.
     Option.bind (default_field fs Tier_Field None (decode_option (decode_variant tier_variant))) (\<lambda>tier.
     Option.bind (default_field fs Name_Prefix_Field None (decode_option decode_string)) (\<lambda>name_prefix.
     Option.bind (default_field fs Query_Field None (decode_option decode_string)) (\<lambda>query.
     Option.bind (default_field fs Offset_Field 0 decode_usize) (\<lambda>offset.
     Option.bind (default_field fs Limit_Field 10 decode_usize) (\<lambda>limit.
     Option.bind (default_field fs Full_Field False decode_bool) (\<lambda>full.
     Option.bind (default_field fs Schema_Field False decode_bool) (\<lambda>with_schema.
       Some \<lparr>li_tier = tier, li_name_prefix = name_prefix, li_query = query, li_offset = offset,
             li_limit = limit, li_full_descriptions = full, li_include_input_schema = with_schema\<rparr>))))))))"

datatype describe_field = Described_Field | Output_Schema_Field

definition operation_aliases :: "string list" where
  "operation_aliases = [''operation_id'', ''operation'', ''name'', ''tool'']"

definition describe_field :: "string \<Rightarrow> describe_field option" where
  "describe_field k =
     (if k \<in> set operation_aliases then Some Described_Field
      else if k = ''includeOutputSchema'' then Some Output_Schema_Field else None)"

record describe_input =
  di_operation :: string
  di_include_output_schema :: bool

definition decode_describe_input :: "(string \<times> json) list \<Rightarrow> describe_input option" where
  "decode_describe_input m =
     Option.bind (decode_struct describe_field [] m) (\<lambda>fs.
     Option.bind (required_field fs Described_Field decode_string) (\<lambda>operation.
     Option.bind (default_field fs Output_Schema_Field True decode_bool) (\<lambda>with_output.
       Some \<lparr>di_operation = operation, di_include_output_schema = with_output\<rparr>)))"

definition decode_type_input :: "(string \<times> json) list \<Rightarrow> (string \<times> string) option" where
  "decode_type_input m =
     Option.bind (decode_struct (\<lambda>k. if k = ''typeName'' then Some () else None) [] m) (\<lambda>fs.
       required_field fs () (decode_variant (\<lambda>s. map_option (\<lambda>t. (s, t)) (map_of type_names s))))"

definition decode_empty_input :: "(string \<times> json) list \<Rightarrow> unit option" where
  "decode_empty_input m = (if m = [] then Some () else None)"

section \<open>Answers\<close>

definition unknown_operation :: mcp_error where
  "unknown_operation =
     invalid_params
       (''The requested operation is not one this server provides. Call operations.list to see ''
        @ ''the names this server serves; it accepts a name prefix such as {''
        @ [CHR 0x22] @ ''namePrefix'' @ [CHR 0x22] @ '': '' @ [CHR 0x22] @ ''secrets.'' @ [CHR 0x22]
        @ ''} to narrow the result.'') None"

definition unknown_operation_name :: "string \<Rightarrow> mcp_error" where
  "unknown_operation_name name =
     (if name \<in> {''secrets.get'', ''secrets.list''}
      then invalid_params
        (''secrets.get and secrets.list are not served; use secrets.reveal for one exact audited ''
         @ ''credential read, or secrets.metadata.list for value-free inventory'') None
      else unknown_operation)"

definition summary_json :: "operation_summary \<Rightarrow> json" where
  "summary_json s =
     object_of ([(''name'', String (os_name s)), (''executor'', String (os_executor s)),
         (''tier'', String (os_tier s)), (''description'', String (os_description s))]
       @ optional_field ''inputSchema'' (os_input_schema s))"

definition list_output_json :: "operations_list_output \<Rightarrow> json" where
  "list_output_json out =
     object_of ([(''operations'', Array (map summary_json (lo_operations out))),
         (''total'', unsigned_json (lo_total out)), (''matched'', unsigned_json (lo_matched out))]
       @ optional_field ''nextOffset'' (map_option unsigned_json (lo_next_offset out)))"

definition describe_output ::
    "(string \<Rightarrow> json) \<Rightarrow> bool \<Rightarrow> describe_input \<Rightarrow> operation_definition \<Rightarrow> json" where
  "describe_output schema files_enabled input d =
     object_of
       (optional_field ''pagination'' (map_option (String \<circ> pagination_slug) (pagination_of (di_operation input)))
        @ [(''name'', String (od_name d)), (''executor'', String (tier_executor (od_tier d))),
           (''tier'', String (tier_slug (od_tier d))), (''description'', String (od_description d)),
           (''availability'', object_of
             [(''implemented'', Bool True),
              (''enabledHere'', Bool (files_enabled \<or> od_name d \<noteq> CERTIFICATES_IMPORT_TOOL)),
              (''requiresFileTransfer'', Bool (od_name d = CERTIFICATES_IMPORT_TOOL)),
              (''upstreamAccess'', String ''notProbed'')]),
           (''inputSchema'', schema (od_input d))]
        @ optional_field ''outputSchema''
            (if di_include_output_schema input then Some (schema (od_output d)) else None))"

definition operations_describe ::
    "(string \<Rightarrow> json) \<Rightarrow> bool \<Rightarrow> operation_profile \<Rightarrow> describe_input \<Rightarrow> (mcp_error, json) result" where
  "operations_describe schema files_enabled profile input =
     (if char_count (di_operation input) < 3 \<or> 128 < char_count (di_operation input)
      then Err (invalid_params ''operation_id must contain between 3 and 128 characters'' None)
      else
        case operation_definition (di_operation input) of
          Some d \<Rightarrow>
            if allows profile (od_policy d) then Ok (describe_output schema files_enabled input d)
            else Err (unknown_operation_name (di_operation input))
        | None \<Rightarrow> Err (unknown_operation_name (di_operation input)))"

definition server_info_json :: "string \<Rightarrow> runtime_capabilities \<Rightarrow> json" where
  "server_info_json version runtime =
     object_of
       ([(''name'', String ''infisical''), (''version'', String version),
         (''protocolVersion'', String ''2025-11-25''),
         (''transport'', String (transport_slug (rc_transport runtime)))]
        @ optional_field ''httpProfile'' (map_option (String \<circ> runtime_profile_slug) (rc_http_profile runtime))
        @ [(''schemaRevision'', String schema_revision)])"

definition target_infisical_version :: string where "target_infisical_version = ''0.160.12''"

definition capabilities_json :: "json option \<Rightarrow> json" where
  "capabilities_json runtime =
     object_of
       ([(''schemaRevision'', String schema_revision), (''targetInfisicalVersion'', String target_infisical_version),
         (''capabilities'', Array (map capability_json capability_list))]
        @ optional_field ''runtime'' runtime)"

record local_facts =
  lf_unicode :: unicode
  lf_schema :: "string \<Rightarrow> json"
  lf_correction :: correction
  lf_seconds :: "nat \<Rightarrow> string"
  lf_version :: string

text \<open>The value each local tool answers with; \<open>structured\<close> renders it.\<close>

definition local_answer ::
    "local_facts \<Rightarrow> runtime_capabilities \<Rightarrow> bool \<Rightarrow> operation_profile \<Rightarrow> call_params
      \<Rightarrow> (mcp_error, json) result" where
  "local_answer F runtime files_enabled profile params =
     (let runtime = runtime\<lparr>rc_operation_profile := profile\<rparr>; name = cp_name params in
      if name = SERVER_INFO_TOOL then
        and_then (parse_arguments (lf_correction F) ''EmptyInput'' decode_empty_input
            ''server.info does not accept arguments'' params)
          (\<lambda>_. Ok (server_info_json (lf_version F) runtime))
      else if name = OPERATIONS_LIST_TOOL then
        and_then (parse_arguments (lf_correction F) ''OperationsListInput'' decode_list_input
            ''operations.list arguments do not match the declared schema'' params)
          (\<lambda>i. and_then (operations_list (lf_unicode F) (lf_schema F) profile i)
            (\<lambda>out. Ok (list_output_json out)))
      else if name = OPERATIONS_DESCRIBE_TOOL then
        and_then (parse_arguments (lf_correction F) ''OperationsDescribeInput'' decode_describe_input
            ''operations.describe arguments do not match the declared schema'' params)
          (\<lambda>i. operations_describe (lf_schema F) files_enabled profile i)
      else if name = SERVER_CAPABILITIES_TOOL then
        and_then (parse_arguments (lf_correction F) ''EmptyInput'' decode_empty_input
            ''server.capabilities does not accept arguments'' params)
          (\<lambda>_. Ok (capabilities_json
            (Some (runtime_capabilities_json (lf_seconds F) runtime))))
      else if name = TYPES_DESCRIBE_TOOL then
        and_then (parse_arguments (lf_correction F) ''TypeDescribeInput'' decode_type_input
            ''types.describe arguments do not match the declared schema'' params)
          (\<lambda>(s, t). Ok (object_of [(''typeName'', String s), (''schema'', lf_schema F t)]))
      else Err method_not_found)"

section \<open>The exported policy\<close>

definition schema_properties :: "json \<Rightarrow> (string \<times> json) list option" where
  "schema_properties s = Option.bind (json_get ''properties'' s) decode_map"

definition confirmation_fields :: "json \<Rightarrow> string list" where
  "confirmation_fields s =
     (case schema_properties s of
        None \<Rightarrow> []
      | Some m \<Rightarrow> filter (\<lambda>n. prefix ''confirm'' n \<or> prefix ''acknowledge'' n) (map fst m))"

definition scope_selectors :: "json \<Rightarrow> string list" where
  "scope_selectors s =
     map ((@) ''/'')
       (filter (\<lambda>n. case schema_properties s of None \<Rightarrow> False | Some m \<Rightarrow> map_of m n \<noteq> None)
         [''projectId'', ''organizationId'', ''environment'', ''secretPath'', ''identityId'', ''groupId''])"

definition policy_entry :: "(string \<Rightarrow> json) \<Rightarrow> operation_definition \<Rightarrow> json" where
  "policy_entry schema d =
     object_of
       [(''operation'', String (od_name d)), (''description'', String (od_description d)),
        (''executor'', String (tier_executor (od_tier d))), (''tier'', String (tier_slug (od_tier d))),
        (''gatewayRisk'', String ''high''), (''policyReviewed'', Bool (pf_reviewed (od_policy d))),
        (''effects'', object_of
          [(''auditedRead'', Bool (od_tier d = Read_Audited)),
           (''mutation'', Bool (od_tier d \<in> {Write, Destroy})),
           (''destructive'', Bool (od_tier d = Destroy))]),
        (''credentialDisclosure'', Bool (pf_credential_disclosure (od_policy d))),
        (''confirmationFields'', Array (map String (confirmation_fields (schema (od_input d))))),
        (''scopeSelectors'', Array (map String (scope_selectors (schema (od_input d))))),
        (''requiresFileTransfer'', Bool (od_name d = CERTIFICATES_IMPORT_TOOL)),
        (''profiles'', Array (map (String \<circ> profile_slug)
          (filter (\<lambda>p. allows p (od_policy d)) [Metadata, Secrets, Pki_Ssh, Full]))),
        (''inputSchema'', schema (od_input d)), (''outputSchema'', schema (od_output d))]"

definition operation_policy_payload :: "(string \<Rightarrow> json) \<Rightarrow> json" where
  "operation_policy_payload schema =
     object_of
       [(''schemaRevision'', String schema_revision), (''executionErrorSchema'', schema ''ExecutionError''),
        (''fileResultSchema'', schema ''FileDeliveredResult''),
        (''operations'', Array (map (policy_entry schema) described_operations))]"

end
