(* ===== verification/Operation_Dispatch.thy ===== *)
theory Operation_Dispatch
  imports Local_Discovery
begin

text \<open>
  Dispatch of a tool call (\<open>dispatch_with_profile\<close>, \<open>dispatch_tool\<close>, \<open>dispatch_executor\<close> and their
  helpers in \<open>infisical-mcp/src/tools.rs\<close>), threaded over the file plane and the rest of the world.
  The typed operations are the parameter \<open>de_handler\<close>; every run of it is recorded in \<open>sv_runs\<close>,
  a history kept only for the theorems. A call returns, or panics while staging a result; the
  recursion from an executor back into \<open>dispatch_tool\<close> is counted by fuel.
\<close>

section \<open>The published tools\<close>

fun executor_description :: "tool_tier \<Rightarrow> string" where
  "executor_description Read =
     ''Run a repeatable metadata read. Discover with operations.list or operations.describe. ''
     @ ''Example: {'' @ [CHR 0x22] @ ''operation_id'' @ [CHR 0x22] @ '': '' @ [CHR 0x22]
     @ ''projects.list'' @ [CHR 0x22] @ '', '' @ [CHR 0x22] @ ''arguments'' @ [CHR 0x22] @ '': {''
     @ [CHR 0x22] @ ''limit'' @ [CHR 0x22] @ '': 20}}. ''
     @ ''Names and tier are checked before upstream access. Safe to repeat after transport failure. ''
     @ ''Audited reads, including secrets.reveal, use infisical.readAudited.''"
| "executor_description Read_Audited =
     ''Run a read that Infisical records as an access event. ''
     @ ''Example: {'' @ [CHR 0x22] @ ''operation_id'' @ [CHR 0x22] @ '': '' @ [CHR 0x22]
     @ ''auditLogs.list'' @ [CHR 0x22] @ '', '' @ [CHR 0x22] @ ''arguments'' @ [CHR 0x22] @ '': {''
     @ [CHR 0x22] @ ''projectId'' @ [CHR 0x22] @ '': '' @ [CHR 0x22]
     @ ''3f2a1b4c-5d6e-7f80-9a1b-2c3d4e5f6071'' @ [CHR 0x22] @ '', '' @ [CHR 0x22] @ ''limit''
     @ [CHR 0x22] @ '': 20}}. ''
     @ ''Sent once and never replayed; repeating records another access. Discover with ''
     @ ''operations.list or operations.describe. Repeatable reads use infisical.read.''"
| "executor_description Write =
     ''Apply one non-destructive change. Example: {'' @ [CHR 0x22] @ ''operation_id'' @ [CHR 0x22]
     @ '': '' @ [CHR 0x22] @ ''secrets.create'' @ [CHR 0x22] @ '', '' @ [CHR 0x22] @ ''arguments''
     @ [CHR 0x22] @ '': {'' @ [CHR 0x22] @ ''target'' @ [CHR 0x22] @ '': {'' @ [CHR 0x22]
     @ ''projectId'' @ [CHR 0x22] @ '': '' @ [CHR 0x22] @ ''3f2a1b4c-5d6e-7f80-9a1b-2c3d4e5f6071''
     @ [CHR 0x22] @ '', '' @ [CHR 0x22] @ ''environment'' @ [CHR 0x22] @ '': '' @ [CHR 0x22]
     @ ''prod'' @ [CHR 0x22] @ '', '' @ [CHR 0x22] @ ''path'' @ [CHR 0x22] @ '': '' @ [CHR 0x22]
     @ ''/payments'' @ [CHR 0x22] @ '', '' @ [CHR 0x22] @ ''name'' @ [CHR 0x22] @ '': '' @ [CHR 0x22]
     @ ''STRIPE_API_KEY'' @ [CHR 0x22] @ ''}, '' @ [CHR 0x22] @ ''secretValue'' @ [CHR 0x22] @ '': ''
     @ [CHR 0x22] @ ''sk-live-example'' @ [CHR 0x22] @ ''}}. ''
     @ ''Sent once and never replayed; after failure, read current state before retrying. ''
     @ ''Consult operations.describe for confirmations. ''
     @ ''Deletions and revocations use infisical.destroy.''"
| "executor_description Destroy =
     ''Apply one destructive change. Most are irreversible; ''
     @ ''environments.delete is a soft delete that environments.restore undoes. Example: {''
     @ [CHR 0x22] @ ''operation_id'' @ [CHR 0x22] @ '': '' @ [CHR 0x22] @ ''secrets.delete'' @ [CHR 0x22]
     @ '', '' @ [CHR 0x22] @ ''arguments'' @ [CHR 0x22] @ '': {'' @ [CHR 0x22] @ ''target'' @ [CHR 0x22]
     @ '': {'' @ [CHR 0x22] @ ''projectId'' @ [CHR 0x22] @ '': '' @ [CHR 0x22]
     @ ''3f2a1b4c-5d6e-7f80-9a1b-2c3d4e5f6071'' @ [CHR 0x22] @ '', '' @ [CHR 0x22] @ ''environment''
     @ [CHR 0x22] @ '': '' @ [CHR 0x22] @ ''prod'' @ [CHR 0x22] @ '', '' @ [CHR 0x22] @ ''path''
     @ [CHR 0x22] @ '': '' @ [CHR 0x22] @ ''/payments'' @ [CHR 0x22] @ '', '' @ [CHR 0x22] @ ''name''
     @ [CHR 0x22] @ '': '' @ [CHR 0x22] @ ''STRIPE_API_KEY'' @ [CHR 0x22] @ ''}, '' @ [CHR 0x22]
     @ ''confirm'' @ [CHR 0x22] @ '': true}}. Confirmation is required except for ''
     @ ''dynamicSecretLeases.create; some writes require it too. Consult operations.describe. ''
     @ ''Sent once and never replayed; reconcile the effect before retrying after failure. ''
     @ ''Other changes use infisical.write.''"

fun executor_title :: "tool_tier \<Rightarrow> string" where
  "executor_title Read = ''Read, safe to repeat''"
| "executor_title Read_Audited = ''Read that Infisical records''"
| "executor_title Write = ''Change, sent once''"
| "executor_title Destroy = ''Destructive change, sent once''"

text \<open>A published executor: its name, title, description, hints and open-world flag.\<close>

record published_executor =
  px_name :: string
  px_title :: string
  px_description :: string
  px_hints :: "bool \<times> bool \<times> bool"
  px_open_world :: bool

definition executor_tools :: "published_executor list" where
  "executor_tools =
     map (\<lambda>tier. \<lparr>px_name = tier_executor tier, px_title = executor_title tier,
                   px_description = executor_description tier, px_hints = tier_hints tier,
                   px_open_world = True\<rparr>) all_tiers"

definition local_tools :: "operation_definition list" where
  "local_tools =
     [read_tool ''EmptyInput'' ''ServerInfoOutput'' SERVER_INFO_TOOL
        (''Report build, schema revision, MCP protocol, and active transport locally. ''
         @ ''Use server.capabilities for deployment limits and compiled support.'') False,
      read_tool ''EmptyInput'' ''ServerCapabilitiesOutput'' SERVER_CAPABILITIES_TOOL
        (''Report compiled capabilities, unavailable reasons, and this instance's delivery and ''
         @ ''limit settings. Answers locally; upstream permission and license entitlement are not probed.'') False,
      read_tool ''OperationsListInput'' ''OperationsListOutput'' OPERATIONS_LIST_TOOL
        (''Find operations by intent, tier, or prefix. Set includeInputSchema true for usable ''
         @ ''arguments in this reply; otherwise use operations.describe. Keep filters with nextOffset.'') False,
      read_tool ''OperationsDescribeInput'' ''OperationsDescribeOutput'' OPERATIONS_DESCRIBE_TOOL
        (''Get one operation's executor, availability, and schemas. Set includeOutputSchema ''
         @ ''false for input only. Pass values matching inputSchema as executor arguments.'') False,
      read_tool ''TypeDescribeInput'' ''TypeDescribeOutput'' TYPES_DESCRIBE_TOOL
        (''Get a resource's data model, such as a project, a secret's metadata, or a dynamic secret. ''
         @ ''Use operations.describe for a call's arguments and result.'') False]"

definition published_names :: "string list" where
  "published_names = map od_name local_tools @ map px_name executor_tools"

definition is_published_tool :: "string \<Rightarrow> bool" where
  "is_published_tool name \<longleftrightarrow> name \<in> set published_names"

section \<open>Executor requests\<close>

datatype delivery_mode = File_Delivery | Inline_Delivery

definition delivery_variant :: "string \<Rightarrow> delivery_mode option" where
  "delivery_variant s =
     (if s = ''file'' then Some File_Delivery
      else if s = ''inline'' then Some Inline_Delivery else None)"

record execute_input =
  ei_operation :: string
  ei_arguments :: "(string \<times> json) list"
  ei_delivery :: "delivery_mode option"

datatype execute_field = Operation_Field | Arguments_Field | Delivery_Field

definition execute_field :: "string \<Rightarrow> execute_field option" where
  "execute_field k =
     (if k \<in> set operation_aliases then Some Operation_Field
      else if k = ''arguments'' \<or> k = ''args'' then Some Arguments_Field
      else if k = ''resultDelivery'' then Some Delivery_Field else None)"

definition decode_execute_input :: "(string \<times> json) list \<Rightarrow> execute_input option" where
  "decode_execute_input m =
     Option.bind (decode_struct execute_field [] m) (\<lambda>fs.
     Option.bind (required_field fs Operation_Field decode_string) (\<lambda>operation.
     Option.bind (default_field fs Arguments_Field [] decode_map) (\<lambda>arguments.
     Option.bind (default_field fs Delivery_Field None (decode_option (decode_variant delivery_variant)))
       (\<lambda>delivery.
         Some \<lparr>ei_operation = operation, ei_arguments = arguments, ei_delivery = delivery\<rparr>))))"

section \<open>State\<close>

record 'w server =
  sv_files :: "plane option"
  sv_world :: 'w
  sv_runs :: "string list"

record 'w dispatch_env =
  de_local :: local_facts
  de_settings :: runtime_settings
  de_client :: client_settings
  de_structured :: "json \<Rightarrow> call_tool_result"
  de_render :: "json \<Rightarrow> string"
  de_serialize :: "call_tool_result \<Rightarrow> string list option"
  de_pointer :: "string \<Rightarrow> json \<Rightarrow> json option"
  de_writer :: "string \<Rightarrow> json \<Rightarrow> string \<Rightarrow> string list option"
  de_fill :: "nat \<Rightarrow> string"
  de_ident :: string
  de_reserve_at :: nat
  de_stage_at :: nat
  de_handler :: "string \<Rightarrow> (string \<times> json) list option \<Rightarrow> plane option \<times> 'w
    \<Rightarrow> (mcp_error, call_tool_result) result \<times> plane option \<times> 'w"

datatype 'a run = Returns 'a | Panicked | Out_Of_Fuel

fun run_bind :: "'a run \<Rightarrow> ('a \<Rightarrow> 'b run) \<Rightarrow> 'b run" where
  "run_bind (Returns a) f = f a"
| "run_bind Panicked f = Panicked"
| "run_bind Out_Of_Fuel f = Out_Of_Fuel"

type_synonym 'w outcome = "((mcp_error, call_tool_result) result \<times> 'w server) run"

definition run_handler :: "'w dispatch_env \<Rightarrow> call_params \<Rightarrow> 'w server \<Rightarrow> 'w outcome" where
  "run_handler E params s =
     (let (r, files, w) = de_handler E (cp_name params) (cp_arguments params) (sv_files s, sv_world s)
      in Returns (r, \<lparr>sv_files = files, sv_world = w, sv_runs = sv_runs s @ [cp_name params]\<rparr>))"

section \<open>Executors\<close>

definition reserve_result_delivery ::
    "nat \<Rightarrow> plane option \<Rightarrow> delivery_mode option
      \<Rightarrow> (mcp_error, reservation option) result \<times> plane option" where
  "reserve_result_delivery now files requested =
     (if requested = Some File_Delivery then
        case files of
          None \<Rightarrow>
            (Err (invalid_params
               (''resultDelivery '' @ [CHR 0x22] @ ''file'' @ [CHR 0x22]
                @ '' requires the transfer plane, which this deployment does not configure; choose ''
                @ ''a deployment with file transfer or explicitly request inline delivery'') None), None)
        | Some pl \<Rightarrow>
            (case reserve now pl of
               (Inl e, pl') \<Rightarrow> (Err (capacity_before_execution e), Some pl')
             | (Inr slot, pl') \<Rightarrow> (Ok (Some slot), Some pl'))
      else (Ok None, files))"

definition tier_mismatch :: "string \<Rightarrow> tool_tier \<Rightarrow> tool_tier \<Rightarrow> mcp_error" where
  "tier_mismatch operation declared tier =
     invalid_params
       (operation @ '' is a '' @ tier_slug declared @ '' operation and cannot be called through ''
        @ tier_executor tier @ ''. Resend this request to '' @ tier_executor declared
        @ '', unchanged apart from the tool name. The arguments are not repeated here because they ''
        @ ''may carry a secret value.'') None"

text \<open>The result of the handler as a tool result, staged when a slot was reserved for it.\<close>

definition settle_result ::
    "'w dispatch_env \<Rightarrow> string \<Rightarrow> reservation option
      \<Rightarrow> (mcp_error, call_tool_result) result \<times> 'w server \<Rightarrow> 'w outcome" where
  "settle_result E operation slot outcome =
     (case outcome of (r, s) \<Rightarrow>
       let mk = de_structured E;
           result = (case r of Inr v \<Rightarrow> v | Inl e \<Rightarrow> into_result mk (from_handler e)) in
       case slot of
         None \<Rightarrow> Returns (Ok (name_error mk operation result), s)
       | Some r' \<Rightarrow>
           (case sv_files s of
              None \<Rightarrow> Panicked
            | Some pl \<Rightarrow>
                (case deliver_result_as_file mk (de_pointer E) (de_writer E) (de_fill E)
                    (de_stage_at E) (de_ident E) operation r' result pl of
                   None \<Rightarrow> Panicked
                 | Some (delivered, pl') \<Rightarrow>
                     Returns (Ok (name_error mk operation
                         (case delivered of
                            Inr v \<Rightarrow> v | Inl e \<Rightarrow> into_result mk (from_handler e))),
                       s\<lparr>sv_files := Some pl'\<rparr>))))"

definition dispatch_executor ::
    "'w dispatch_env \<Rightarrow> (call_params \<Rightarrow> 'w server \<Rightarrow> 'w outcome) \<Rightarrow> tool_tier \<Rightarrow> call_params
      \<Rightarrow> 'w server \<Rightarrow> 'w outcome" where
  "dispatch_executor E dispatch tier params s =
     (case parse_arguments (lf_correction (de_local E)) ''ExecuteInput'' decode_execute_input
         ''executor arguments must be an operation name and that operation's arguments'' params of
        Inl e \<Rightarrow> Returns (Err e, s)
      | Inr request \<Rightarrow>
          (case tool_tier_of (ei_operation request) of
             None \<Rightarrow> Returns (Err (unknown_operation_name (ei_operation request)), s)
           | Some declared \<Rightarrow>
               if declared \<noteq> tier
               then Returns (Err (tier_mismatch (ei_operation request) declared tier), s)
               else
                 (case reserve_result_delivery (de_reserve_at E) (sv_files s) (ei_delivery request) of
                    (Inl e, files) \<Rightarrow>
                      Returns (Ok (name_error (de_structured E) (ei_operation request)
                          (into_result (de_structured E) (from_handler e))), s\<lparr>sv_files := files\<rparr>)
                  | (Inr slot, files) \<Rightarrow>
                      run_bind (dispatch \<lparr>cp_name = ei_operation request,
                            cp_arguments = Some (ei_arguments request)\<rparr> (s\<lparr>sv_files := files\<rparr>))
                        (settle_result E (ei_operation request) slot))))"

definition dispatch_local ::
    "'w dispatch_env \<Rightarrow> runtime_capabilities \<Rightarrow> bool \<Rightarrow> operation_profile \<Rightarrow> call_params
      \<Rightarrow> (mcp_error, call_tool_result) result" where
  "dispatch_local E runtime files_enabled profile params =
     and_then (local_answer (de_local E) runtime files_enabled profile params)
       (\<lambda>v. Ok (de_structured E v))"

fun dispatch_tool :: "nat \<Rightarrow> 'w dispatch_env \<Rightarrow> call_params \<Rightarrow> 'w server \<Rightarrow> 'w outcome" where
  "dispatch_tool 0 E params s = Out_Of_Fuel"
| "dispatch_tool (Suc n) E params s =
     (case executor_tier (cp_name params) of
        Some tier \<Rightarrow> dispatch_executor E (dispatch_tool n E) tier params s
      | None \<Rightarrow>
          if is_local_discovery (cp_name params)
          then Returns (dispatch_local E
                 (runtime_capabilities_of Embedded (de_client E) (sv_files s))
                 (sv_files s \<noteq> None) Full params, s)
          else run_handler E params s)"

section \<open>The published boundary\<close>

text \<open>The first of the accepted argument names that is present, when it holds a string.\<close>

fun first_present :: "string list \<Rightarrow> (string \<times> json) list \<Rightarrow> json option" where
  "first_present [] m = None"
| "first_present (k # ks) m = (case map_of m k of Some v \<Rightarrow> Some v | None \<Rightarrow> first_present ks m)"

definition requested_operation :: "call_params \<Rightarrow> operation_definition option" where
  "requested_operation params =
     Option.bind (cp_arguments params) (\<lambda>m.
     Option.bind (first_present operation_aliases m) (\<lambda>v.
     Option.bind (as_str v) (\<lambda>name.
       if is_local_discovery (cp_name params) then None else operation_definition name)))"

definition dispatch_with_profile ::
    "'w dispatch_env \<Rightarrow> operation_profile \<Rightarrow> call_params \<Rightarrow> 'w server \<Rightarrow> 'w outcome" where
  "dispatch_with_profile E profile params s =
     (if \<not> is_published_tool (cp_name params) then Returns (Err method_not_found, s)
      else
        let operation = requested_operation params in
        if (case operation of None \<Rightarrow> False | Some d \<Rightarrow> \<not> allows profile (od_policy d))
        then Returns (Err unknown_operation, s)
        else
          let name = (case operation of None \<Rightarrow> cp_name params | Some d \<Rightarrow> od_name d) in
          run_bind
            (if is_local_discovery (cp_name params)
             then Returns (dispatch_local E
                    (runtime_capabilities_of (de_settings E) (de_client E) (sv_files s))
                    (sv_files s \<noteq> None) profile params, s)
             else dispatch_tool 2 E params s)
            (\<lambda>(r, s'). Returns
               (case r of
                  Inl e \<Rightarrow> Err e
                | Inr result \<Rightarrow> Ok (enforce_result_budget (de_structured E) (lf_schema (de_local E))
                    (de_render E) (de_serialize E) name (sv_files s \<noteq> None) result), s')))"

end
