(* ===== verification/Operation_Dispatch_Facts.thy ===== *)
theory Operation_Dispatch_Facts
  imports Operation_Dispatch Client_Requests
begin

text \<open>
  What dispatch guarantees: the handler of an operation runs at most once per call, only through the
  executor of the operation's own tier and only when the profile allows it, and the recursion from
  an executor into dispatch ends at once.
\<close>

section \<open>Operations are not tools\<close>

lemma catalog_heads:
  "n \<in> od_name ` set build_operation_catalog \<Longrightarrow>
     name_head n \<notin> {''infisical'', ''server'', ''operations'', ''types''}"
proof -
  assume "n \<in> od_name ` set build_operation_catalog"
  then have "name_head n \<in> set (concat (map heads family_blocks))"
    by (auto simp: catalog_blocks set_heads)
  then show ?thesis
    unfolding family_blocks_def list.map concat.simps family_heads by auto
qed

lemma operation_not_tool:
  assumes "operation_definition n = Some d"
  shows "executor_tier n = None" and "\<not> is_local_discovery n"
proof -
  have h: "name_head n \<notin> {''infisical'', ''server'', ''operations'', ''types''}"
  proof (rule catalog_heads)
    show "n \<in> od_name ` set build_operation_catalog"
      using assms by (force simp only: operation_definition_Some)
  qed
  then show "executor_tier n = None"
    by (auto simp: executor_tier_def all_tiers_def name_head_def)
  show "\<not> is_local_discovery n"
    using h by (auto simp: is_local_discovery_def name_head_def)
qed

section \<open>One run\<close>

lemma run_handler_runs:
  "run_handler E params s = Returns (r, s') \<Longrightarrow> sv_runs s' = sv_runs s @ [cp_name params]"
  by (auto simp: run_handler_def split: prod.splits)

lemma run_handler_returns: "\<exists>x. run_handler E params s = Returns x"
  by (auto simp: run_handler_def split: prod.split)

lemma dispatch_operation:
  assumes "operation_definition (cp_name params) = Some d"
  shows "dispatch_tool (Suc n) E params s = run_handler E params s"
  using operation_not_tool [OF assms] by simp

lemma settle_result_runs:
  "settle_result E operation slot (r, s) = Returns (r', s') \<Longrightarrow> sv_runs s' = sv_runs s"
  by (auto simp: settle_result_def Let_def split: option.splits prod.splits)

lemma settle_result_fuel: "settle_result E operation slot x \<noteq> Out_Of_Fuel"
  by (auto simp: settle_result_def Let_def split: option.splits prod.splits)

lemma run_bind_Returned:
  "run_bind x f = Returns y \<longleftrightarrow> (\<exists>a. x = Returns a \<and> f a = Returns y)"
  by (cases x) auto

text \<open>Inside an executor, dispatch is the handler of the operation.\<close>

lemma dispatch_executor_handler:
  assumes "\<And>p s. operation_definition (cp_name p) \<noteq> None \<Longrightarrow> f p s = run_handler E p s"
  shows "dispatch_executor E f tier params s = dispatch_executor E (run_handler E) tier params s"
proof -
  have "f \<lparr>cp_name = n, cp_arguments = a\<rparr> s' = run_handler E \<lparr>cp_name = n, cp_arguments = a\<rparr> s'"
    if "tool_tier_of n = Some t" for n a s' t
    using that by (intro assms) (auto simp: tool_tier_of_def)
  then show ?thesis
    unfolding dispatch_executor_def by (simp cong: sum.case_cong option.case_cong if_cong prod.case_cong)
qed

lemma dispatch_executor_fuel:
  "dispatch_executor E (dispatch_tool (Suc n) E) tier params s
     = dispatch_executor E (run_handler E) tier params s"
  by (rule dispatch_executor_handler) (use dispatch_operation in blast)

lemma run_bind_handler: "\<exists>x. run_bind (run_handler E p s) f = f x"
  using run_handler_returns [of E p s] by (metis run_bind.simps(1))

lemma dispatch_executor_ends: "dispatch_executor E (run_handler E) tier params s \<noteq> Out_Of_Fuel"
proof -
  have "run_bind (run_handler E p s') (settle_result E op slot) \<noteq> Out_Of_Fuel" for p s' op slot
    using run_bind_handler [of E p s' "settle_result E op slot"] settle_result_fuel by metis
  then show ?thesis
    by (simp add: dispatch_executor_def split: sum.split option.split prod.split)
qed

text \<open>What an executor does: refuse, or run the one operation it was asked for at its tier.\<close>

lemma dispatch_executor_runs:
  assumes "dispatch_executor E (run_handler E) tier params s = Returns (r, s')"
  shows "sv_runs s' = sv_runs s
    \<or> (\<exists>m request d. cp_arguments params = Some m \<and> decode_execute_input m = Some request
        \<and> operation_definition (ei_operation request) = Some d \<and> od_tier d = tier
        \<and> sv_runs s' = sv_runs s @ [ei_operation request])"
proof (cases "decode_execute_input (case cp_arguments params of None \<Rightarrow> [] | Some m \<Rightarrow> m)")
  case None
  then show ?thesis
    using assms by (auto simp: dispatch_executor_def parse_arguments_def Let_def split: prod.splits)
next
  case (Some request)
  then obtain m where m: "cp_arguments params = Some m" "decode_execute_input m = Some request"
    by (cases "cp_arguments params") (auto simp: decode_execute_input_def required_field_def)
  have runs: "sv_runs s' = sv_runs s @ [n]"
    if "run_bind (run_handler E \<lparr>cp_name = n, cp_arguments = a\<rparr> (s\<lparr>sv_files := files\<rparr>))
          (settle_result E n slot) = Returns (r, s')" for n a files slot
    using that by (auto simp: run_bind_Returned dest!: run_handler_runs settle_result_runs)
  show ?thesis
    using assms Some m
    by (auto simp: dispatch_executor_def tool_tier_of_def parse_arguments_def dest!: runs
        split: sum.splits option.splits if_splits prod.splits)
qed

section \<open>The boundary\<close>

lemma first_present_unique:
  "k \<in> set ks \<Longrightarrow> map_of m k = Some v \<Longrightarrow> (\<And>k'. k' \<in> set ks \<Longrightarrow> k' \<noteq> k \<Longrightarrow> map_of m k' = None) \<Longrightarrow>
     first_present ks m = Some v"
proof (induction ks)
  case (Cons a ks)
  then show ?case by (cases "a = k") (auto split: option.splits)
qed simp

text \<open>The profile is checked on the operation the executor will run.\<close>

lemma decoded_operation_requested:
  assumes "decode_execute_input m = Some request"
  shows "first_present operation_aliases m = Some (String (ei_operation request))"
proof -
  from assms obtain fs v where fs: "decode_struct execute_field [] m = Some fs"
    and v: "map_of fs Operation_Field = Some v" "decode_string v = Some (ei_operation request)"
    by (auto simp: decode_execute_input_def required_field_def bind_eq_Some_conv)
  obtain k where k: "execute_field k = Some Operation_Field" "map_of m k = Some v"
    and only: "\<And>k'. execute_field k' = Some Operation_Field \<Longrightarrow> k' \<noteq> k \<Longrightarrow> map_of m k' = None"
    using decode_struct_missing [OF fs v(1)] by blast
  have named: "execute_field k' = Some Operation_Field \<longleftrightarrow> k' \<in> set operation_aliases" for k'
    by (simp add: execute_field_def)
  have "first_present operation_aliases m = Some v"
    using k only by (intro first_present_unique [of k]) (simp_all add: named)
  moreover have "v = String (ei_operation request)"
    using v(2) by (simp add: decode_string_def as_str_def split: json.splits)
  ultimately show ?thesis by simp
qed

lemma executor_not_local: "executor_tier n = Some tier \<Longrightarrow> \<not> is_local_discovery n"
  by (auto simp: executor_tier_def all_tiers_def is_local_discovery_def split: if_splits)

lemma published_cases: "is_published_tool n \<longleftrightarrow> is_local_discovery n \<or> executor_tier n \<noteq> None"
  by (auto simp: is_published_tool_def published_names_def local_tools_def executor_tools_def
      all_tiers_def executor_tier_def is_local_discovery_def read_tool_def tiered_tool_def)

lemma requested_by_executor:
  assumes "cp_arguments params = Some m" and "decode_execute_input m = Some request"
    and "executor_tier (cp_name params) = Some tier"
  shows "requested_operation params = operation_definition (ei_operation request)"
  using assms(1) decoded_operation_requested [OF assms(2)] executor_not_local [OF assms(3)]
  by (simp add: requested_operation_def)

lemma dispatch_tool_eq:
  "dispatch_tool (Suc (Suc n)) E params s =
     (case executor_tier (cp_name params) of
        Some tier \<Rightarrow> dispatch_executor E (run_handler E) tier params s
      | None \<Rightarrow>
          if is_local_discovery (cp_name params)
          then Returns (dispatch_local E
                 (runtime_capabilities_of Embedded (de_client E) (sv_files s))
                 (sv_files s \<noteq> None) Full params, s)
          else run_handler E params s)"
  unfolding dispatch_tool.simps(2) [of "Suc n"] dispatch_executor_fuel by (rule refl)

text \<open>
  C7: One call runs at most one operation, and never one it should not: whatever the arguments, the
  handler of an operation runs at most once, only when the call names that operation, through the
  executor of the tier the operation is declared at, and only when the configured profile allows it.
  Neither an operation name used as a tool nor an executor named as an operation reaches a handler.
\<close>

theorem dispatch_confined:
  assumes "dispatch_with_profile E profile params s = Returns (r, s')"
  shows "sv_runs s' = sv_runs s
    \<or> (\<exists>m d. cp_arguments params = Some m
        \<and> first_present operation_aliases m = Some (String (od_name d))
        \<and> operation_definition (od_name d) = Some d
        \<and> executor_tier (cp_name params) = Some (od_tier d) \<and> allows profile (od_policy d)
        \<and> sv_runs s' = sv_runs s @ [od_name d])"
proof (cases "sv_runs s' = sv_runs s")
  case False
  with assms have pub: "is_published_tool (cp_name params)"
    and allowed: "\<not> (case requested_operation params of None \<Rightarrow> False | Some d \<Rightarrow> \<not> allows profile (od_policy d))"
    and notlocal: "\<not> is_local_discovery (cp_name params)"
    by (auto simp: dispatch_with_profile_def Let_def split: if_splits)
  from pub notlocal obtain tier where tier: "executor_tier (cp_name params) = Some tier"
    by (auto simp: published_cases)
  obtain r' where "dispatch_tool 2 E params s = Returns (r', s')"
    using assms pub allowed notlocal
    by (auto simp: dispatch_with_profile_def Let_def run_bind_Returned split: if_splits prod.splits)
  then have "dispatch_executor E (run_handler E) tier params s = Returns (r', s')"
    using tier unfolding numeral_2_eq_2 dispatch_tool_eq by simp
  from dispatch_executor_runs [OF this] False obtain m request d where
    m: "cp_arguments params = Some m" "decode_execute_input m = Some request"
    and d: "operation_definition (ei_operation request) = Some d" "od_tier d = tier"
    and runs: "sv_runs s' = sv_runs s @ [ei_operation request]" by blast
  have name: "od_name d = ei_operation request" using d(1) operation_definition_Some by blast
  have "allows profile (od_policy d)"
    using allowed requested_by_executor [OF m tier] d(1) by simp
  with m d tier runs name decoded_operation_requested [OF m(2)] show ?thesis by force
qed simp

text \<open>
  C40: Dispatch ends: an executor hands its operation back to the dispatcher once and no further, so
  two units of fuel always suffice and more change nothing, whatever the call names.
\<close>

theorem dispatch_terminates:
  "dispatch_with_profile E profile params s \<noteq> Out_Of_Fuel
   \<and> dispatch_tool (n + 2) E params s = dispatch_tool 2 E params s"
proof
  have "dispatch_tool 2 E params s \<noteq> Out_Of_Fuel"
    using run_handler_returns [of E params s] dispatch_executor_ends
    unfolding numeral_2_eq_2 dispatch_tool_eq by (auto split: option.splits)
  then show "dispatch_with_profile E profile params s \<noteq> Out_Of_Fuel"
    by (cases "dispatch_tool 2 E params s")
      (auto simp: dispatch_with_profile_def Let_def simp del: dispatch_tool.simps split: prod.splits)
  show "dispatch_tool (n + 2) E params s = dispatch_tool 2 E params s"
    unfolding numeral_2_eq_2 add_Suc_right add_0_right dispatch_tool_eq by (rule refl)
qed

section \<open>Examples\<close>

definition quiet_facts :: local_facts where
  "quiet_facts = \<lparr>lf_unicode = ascii_unicode, lf_schema = (\<lambda>_. Null),
     lf_correction = (\<lambda>_ _ message. (message, ''/arguments'')), lf_seconds = (\<lambda>_. []),
     lf_version = ''0.2.2''\<rparr>"

definition quiet_env :: "unit dispatch_env" where
  "quiet_env = \<lparr>de_local = quiet_facts, de_settings = Embedded, de_client = demo_settings,
     de_structured = plain_result, de_render = (\<lambda>_. []), de_serialize = (\<lambda>_. Some []),
     de_pointer = (\<lambda>_ _. None), de_writer = brief_writer, de_fill = (\<lambda>k. replicate k CHR ''x''),
     de_ident = ''s'', de_reserve_at = 0, de_stage_at = 0,
     de_handler = (\<lambda>_ _ st. (Ok (plain_result Null), st))\<rparr>"

definition quiet_server :: "unit server" where
  "quiet_server = \<lparr>sv_files = None, sv_world = (), sv_runs = []\<rparr>"

definition get_project_call :: call_params where
  "get_project_call = \<lparr>cp_name = INFISICAL_READ_TOOL,
     cp_arguments = Some [(''operation'', String PROJECTS_GET_TOOL), (''args'', Object [])]\<rparr>"

lemma get_project_call_decodes:
  "decode_execute_input [(''operation'', String PROJECTS_GET_TOOL), (''args'', Object [])]
     = Some \<lparr>ei_operation = PROJECTS_GET_TOOL, ei_arguments = [], ei_delivery = None\<rparr>"
  by code_simp

lemma get_project_runs:
  "\<exists>r. dispatch_with_profile quiet_env Metadata get_project_call quiet_server
     = Returns (r, quiet_server\<lparr>sv_runs := [PROJECTS_GET_TOOL]\<rparr>)"
proof -
  have tier: "executor_tier INFISICAL_READ_TOOL = Some Read"
    by (simp add: executor_tier_def all_tiers_def)
  obtain d where d: "operation_definition PROJECTS_GET_TOOL = Some d" "od_tier d = Read"
    "allows Metadata (od_policy d)"
    using projects_get_defined facts_projects_get by (simp add: tool_defs)
  have req: "requested_operation get_project_call = Some d"
    using requested_by_executor [OF _ get_project_call_decodes, of get_project_call Read] tier d(1)
    by (simp add: get_project_call_def)
  have "dispatch_tool 2 quiet_env get_project_call quiet_server
      = Returns (Ok (plain_result Null), quiet_server\<lparr>sv_runs := [PROJECTS_GET_TOOL]\<rparr>)"
    unfolding numeral_2_eq_2 dispatch_tool_eq
    using tier d get_project_call_decodes
    by (simp add: get_project_call_def dispatch_executor_def parse_arguments_def tool_tier_of_def
        reserve_result_delivery_def run_handler_def quiet_env_def quiet_server_def settle_result_def
        name_error_def plain_result_def)
  moreover have "is_published_tool INFISICAL_READ_TOOL" "\<not> is_local_discovery INFISICAL_READ_TOOL"
    using tier executor_not_local by (auto simp: published_cases)
  ultimately show ?thesis
    using req d by (simp add: dispatch_with_profile_def Let_def get_project_call_def del: dispatch_tool.simps)
qed

lemma dispatch_confined_witness:
  "\<exists>d. operation_definition PROJECTS_GET_TOOL = Some d \<and> od_tier d = Read \<and> allows Metadata (od_policy d)"
proof -
  obtain r where r: "dispatch_with_profile quiet_env Metadata get_project_call quiet_server
     = Returns (r, quiet_server\<lparr>sv_runs := [PROJECTS_GET_TOOL]\<rparr>)"
    using get_project_runs by blast
  from dispatch_confined [OF r] show ?thesis
    by (auto simp: quiet_server_def get_project_call_def executor_tier_def all_tiers_def operation_definition_Some)
qed

text \<open>
  The value of one secret is read through the executor of plain reads: the executor of audited reads
  refuses it, although the description of the former sends the caller to the latter.
\<close>

lemma secret_reveal_defined: "(SECRET_REVEAL_TOOL, Read) \<in> catalog_rows"
  by (simp add: in_catalog)

lemma secret_reveal_tier: "tool_tier_of SECRET_REVEAL_TOOL = Some Read"
proof -
  obtain d where "d \<in> set build_operation_catalog" "od_name d = SECRET_REVEAL_TOOL" "od_tier d = Read"
    using catalog_rowsE [OF secret_reveal_defined] by blast
  then have "operation_definition SECRET_REVEAL_TOOL = Some d"
    by (simp add: operation_definition_Some)
  then show ?thesis using \<open>od_tier d = Read\<close> by (simp add: tool_tier_of_def)
qed

end
