(* ===== verification/Server_Config.thy ===== *)
theory Server_Config
  imports Operation_Policy Identity_Keys Client_Types File_Plane
begin

text \<open>
  The configuration of the server, \<open>crates/infisical-server/src/config.rs\<close>, and the parts
  \<open>build_router\<close> of \<open>server.rs\<close> makes from it. The process environment is a function from variable
  names; the URL and authority parsers, the origin serialisation and the success of the HTTP client
  builder are parameters, collected in a record.
\<close>

section \<open>The environment\<close>

datatype env_var = Not_Present | Not_Unicode | Present string

type_synonym environ = "string \<Rightarrow> env_var"

record url_library =
  lib_parse_url :: "string \<Rightarrow> (string, url) result"
  lib_parse_authority :: "string \<Rightarrow> (string, string) result"
  lib_origin :: "url \<Rightarrow> string"
  lib_client_builds :: bool

datatype settings_error =
    Missing string
  | Invalid_Setting string string
  | Bearer_Error bearer_config_error
  | Infisical_Error client_config_error

definition env_value :: "environ \<Rightarrow> string \<Rightarrow> string option" where
  "env_value e v = (case e v of Present s \<Rightarrow> Some s | _ \<Rightarrow> None)"

definition optional :: "environ \<Rightarrow> string \<Rightarrow> string option" where
  "optional e v =
     (case env_value e v of
        None \<Rightarrow> None
      | Some s \<Rightarrow> let t = str_trim s in if t = [] then None else Some t)"

definition required :: "environ \<Rightarrow> string \<Rightarrow> (settings_error, string) result" where
  "required e v = ok_or (Missing v) (optional e v)"

definition optional_exact :: "environ \<Rightarrow> string \<Rightarrow> (settings_error, string option) result" where
  "optional_exact e v =
     (case e v of
        Present s \<Rightarrow> Ok (Some s)
      | Not_Present \<Rightarrow> Ok None
      | Not_Unicode \<Rightarrow> Err (Invalid_Setting v ''expected true or false''))"

definition optional_secret :: "environ \<Rightarrow> string \<Rightarrow> string option" where
  "optional_secret e v =
     (case env_value e v of None \<Rightarrow> None | Some s \<Rightarrow> if s = [] then None else Some s)"

definition required_secret :: "environ \<Rightarrow> string \<Rightarrow> (settings_error, string) result" where
  "required_secret e v = ok_or (Missing v) (optional_secret e v)"

definition value_or :: "environ \<Rightarrow> string \<Rightarrow> string \<Rightarrow> string" where
  "value_or e v fallback = (case optional e v of None \<Rightarrow> fallback | Some s \<Rightarrow> s)"

definition parse_boolean :: "string \<Rightarrow> string option \<Rightarrow> bool \<Rightarrow> (settings_error, bool) result" where
  "parse_boolean variable val fallback =
     (case val of
        None \<Rightarrow> Ok fallback
      | Some s \<Rightarrow>
          if s = ''true'' then Ok True
          else if s = ''false'' then Ok False
          else Err (Invalid_Setting variable ''expected true or false''))"

fun parse_int_message :: "parse_int_error \<Rightarrow> string" where
  "parse_int_message Empty_Int = ''cannot parse integer from empty string''"
| "parse_int_message Invalid_Digit = ''invalid digit found in string''"
| "parse_int_message Pos_Overflow = ''number too large to fit in target type''"

text \<open>\<open>type_max\<close> is the largest value of the integer type the number is parsed into.\<close>

definition parse_number ::
    "environ \<Rightarrow> nat \<Rightarrow> string \<Rightarrow> nat \<Rightarrow> nat \<Rightarrow> nat \<Rightarrow> (settings_error, nat) result" where
  "parse_number e type_max variable fallback minimum maximum =
     and_then
       (case optional e variable of
          Some raw \<Rightarrow>
            map_err (\<lambda>error. Invalid_Setting variable (parse_int_message error)) (parse_uint type_max raw)
        | None \<Rightarrow> Ok fallback)
       (\<lambda>n. if n < minimum \<or> n > maximum
             then Err (Invalid_Setting variable ''value is outside the supported range'')
             else Ok n)"

definition u16_max :: nat where "u16_max = 65535"
definition u64_max :: nat where "u64_max = 18446744073709551615"

definition parse_url ::
    "url_library \<Rightarrow> string \<Rightarrow> string \<Rightarrow> (settings_error, url) result" where
  "parse_url L variable s =
     map_err (Invalid_Setting variable) (lib_parse_url L s)"

lemma parse_number_range:
  "parse_number e m v d lo hi = Ok n \<Longrightarrow> lo \<le> n \<and> n \<le> hi"
  by (auto simp: parse_number_def split: if_splits option.splits sum.splits)

lemma parse_number_default:
  "e v = Not_Present \<Longrightarrow> lo \<le> d \<Longrightarrow> d \<le> hi \<Longrightarrow> parse_number e m v d lo hi = Ok d"
  by (auto simp: parse_number_def optional_def env_value_def)

section \<open>Lists of hosts and origins\<close>

definition parse_csv :: "string \<Rightarrow> string list" where
  "parse_csv s = filter (\<lambda>item. item \<noteq> []) (map str_trim (split_by ((=) (CHR '','')) s))"

definition parse_allowed_hosts :: "url_library \<Rightarrow> string \<Rightarrow> (settings_error, string list) result" where
  "parse_allowed_hosts L s =
     and_then
       (traverse (\<lambda>host.
          and_then (map_err (Invalid_Setting ''INFISICAL_MCP_ALLOWED_HOSTS'') (lib_parse_authority L host))
            (\<lambda>authority. Ok (to_ascii_lowercase authority))) (parse_csv s))
       (\<lambda>hosts. if hosts = []
          then Err (Invalid_Setting ''INFISICAL_MCP_ALLOWED_HOSTS''
                 ''at least one exact host authority is required'')
          else Ok hosts)"

definition parse_allowed_origins :: "url_library \<Rightarrow> string \<Rightarrow> (settings_error, string list) result" where
  "parse_allowed_origins L s =
     traverse (\<lambda>origin.
       and_then (parse_url L ''INFISICAL_MCP_ALLOWED_ORIGINS'' origin) (\<lambda>u.
           if url_scheme u \<notin> {''http'', ''https''} \<or> url_username u \<noteq> [] \<or> url_password u \<noteq> None
              \<or> url_query u \<noteq> None \<or> url_fragment u \<noteq> None \<or> url_path u \<noteq> ''/''
           then Err (Invalid_Setting ''INFISICAL_MCP_ALLOWED_ORIGINS''
                  ''origins must contain only an http(s) scheme and authority'')
           else Ok (lib_origin L u))) (parse_csv s)"

section \<open>File transfers\<close>

record file_settings =
  fs_public_origin :: string
  fs_ttl :: nat
  fs_max_staged :: nat
  fs_max_staged_bytes :: nat

definition parse_file_public_origin :: "url_library \<Rightarrow> string \<Rightarrow> (settings_error, string) result" where
  "parse_file_public_origin L s =
     and_then (parse_url L ''INFISICAL_MCP_FILE_PUBLIC_URL'' s) (\<lambda>u.
       let invalid = (\<lambda>message. Err (Invalid_Setting ''INFISICAL_MCP_FILE_PUBLIC_URL'' message)) in
       if url_scheme u \<notin> {''http'', ''https''} then invalid ''scheme must be http or https''
       else if url_host u = None \<or> url_host u = Some (Host_Domain []) then invalid ''a host is required''
       else if url_username u \<noteq> [] \<or> url_password u \<noteq> None then invalid ''userinfo is not allowed''
       else if url_path u \<notin> {'''', ''/''} \<or> url_query u \<noteq> None \<or> url_fragment u \<noteq> None
       then invalid ''only a scheme and authority are allowed, with no path, query, or fragment''
       else Ok (lib_origin L u))"

definition file_settings_from_env ::
    "url_library \<Rightarrow> environ \<Rightarrow> (settings_error, file_settings option) result" where
  "file_settings_from_env L e =
     (case optional e ''INFISICAL_MCP_FILE_PUBLIC_URL'' of
        None \<Rightarrow> Ok None
      | Some raw \<Rightarrow>
          and_then (parse_file_public_origin L raw) (\<lambda>origin.
          and_then (parse_number e u64_max ''INFISICAL_MCP_FILE_TTL_SECONDS'' 120 10 3600) (\<lambda>ttl.
          and_then (parse_number e u64_max ''INFISICAL_MCP_FILE_MAX_STAGED'' 16 2 64) (\<lambda>staged.
          and_then (parse_number e u64_max ''INFISICAL_MCP_FILE_MAX_STAGED_BYTES''
              (512 * 1024 * 1024) (2 * unat max_envelope_bytes) (1024 * 1024 * 1024)) (\<lambda>bytes.
            Ok (Some \<lparr>fs_public_origin = origin, fs_ttl = from_secs ttl, fs_max_staged = staged,
                      fs_max_staged_bytes = bytes\<rparr>))))))"

section \<open>The upstream client and the operation profile\<close>

definition operation_profile_from_env :: "environ \<Rightarrow> (settings_error, operation_profile) result" where
  "operation_profile_from_env e =
     map_err (Invalid_Setting ''INFISICAL_MCP_OPERATION_PROFILE'')
       (parse_profile (value_or e ''INFISICAL_MCP_OPERATION_PROFILE'' ''full''))"

text \<open>\<open>InfisicalClient::new\<close>: a client is its accepted settings.\<close>

definition infisical_client_new ::
    "url_library \<Rightarrow> client_settings \<Rightarrow> (client_config_error, client_settings) result" where
  "infisical_client_new L s =
     and_then (validate_settings s) (\<lambda>_. if lib_client_builds L then Ok s else Err Http_Client)"

definition infisical_from_env ::
    "url_library \<Rightarrow> environ \<Rightarrow> (settings_error, client_settings) result" where
  "infisical_from_env L e =
     and_then (required e ''INFISICAL_API_URL'') (\<lambda>raw.
     and_then (parse_url L ''INFISICAL_API_URL'' raw) (\<lambda>u.
     and_then (required e ''INFISICAL_UNIVERSAL_AUTH_CLIENT_ID'') (\<lambda>ident.
     and_then (required_secret e ''INFISICAL_UNIVERSAL_AUTH_CLIENT_SECRET'') (\<lambda>secret.
     and_then (optional_exact e ''INFISICAL_API_ALLOW_PRIVATE_HTTP'') (\<lambda>exact.
     and_then (parse_boolean ''INFISICAL_API_ALLOW_PRIVATE_HTTP'' exact False) (\<lambda>allow.
     and_then (parse_number e u64_max ''INFISICAL_API_MAX_CONCURRENT_REQUESTS''
         default_max_concurrent_requests 1 256) (\<lambda>concurrent.
       map_err Infisical_Error (infisical_client_new L ((client_settings_new u ident secret)
              \<lparr>allow_private_http := allow,
               organization_slug := optional e ''INFISICAL_UNIVERSAL_AUTH_ORGANIZATION_SLUG'',
               max_concurrent_requests := concurrent\<rparr>)))))))))"

section \<open>Settings\<close>

datatype http_profile = Gateway | Standalone

record listener_settings =
  ls_host :: string
  ls_port :: nat

record settings =
  st_operation_profile :: operation_profile
  st_host :: string
  st_port :: nat
  st_log_level :: string
  st_allowed_hosts :: "string list"
  st_allowed_origins :: "string list"
  st_request_timeout :: nat
  st_max_concurrent_requests :: nat
  st_max_body_bytes :: nat
  st_bearers :: gateway_bearers
  st_identity :: "identity_settings option"
  st_infisical :: client_settings
  st_files :: "file_settings option"

definition listener_from_env :: "environ \<Rightarrow> (settings_error, listener_settings) result" where
  "listener_from_env e =
     and_then (parse_number e u16_max ''INFISICAL_MCP_PORT'' 8000 1 u16_max) (\<lambda>port.
       Ok \<lparr>ls_host = value_or e ''INFISICAL_MCP_HOST'' ''0.0.0.0'', ls_port = port\<rparr>)"

definition default_allowed_hosts :: "http_profile \<Rightarrow> nat \<Rightarrow> string" where
  "default_allowed_hosts profile port =
     (if profile = Standalone
      then ''localhost,127.0.0.1,[::1],localhost:'' @ show_nat port @ '',127.0.0.1:'' @ show_nat port
             @ '',[::1]:'' @ show_nat port
      else ''localhost,127.0.0.1'')"

definition identity_from_env ::
    "url_library \<Rightarrow> environ \<Rightarrow> http_profile \<Rightarrow> (settings_error, identity_settings option) result" where
  "identity_from_env L e profile =
     (if profile = Gateway then
        and_then (required e ''INFISICAL_MCP_IDENTITY_JWKS_URL'') (\<lambda>raw.
        and_then (parse_url L ''INFISICAL_MCP_IDENTITY_JWKS_URL'' raw) (\<lambda>u.
        and_then (required e ''INFISICAL_MCP_IDENTITY_ISSUER'') (\<lambda>issuer.
        and_then (optional_exact e ''INFISICAL_MCP_IDENTITY_ALLOW_PRIVATE_HTTP'') (\<lambda>exact.
        and_then (parse_boolean ''INFISICAL_MCP_IDENTITY_ALLOW_PRIVATE_HTTP'' exact False) (\<lambda>allow.
          Ok (Some \<lparr>id_jwks_url = u, id_issuer = issuer, id_allow_private_http = allow,
                    id_request_timeout = from_secs 3, id_cache_ttl = from_secs 300\<rparr>))))))
      else Ok None)"

definition bearers_from_env :: "environ \<Rightarrow> (settings_error, gateway_bearers) result" where
  "bearers_from_env e =
     and_then (required_secret e ''INFISICAL_MCP_BEARER_CURRENT'') (\<lambda>current.
       map_err Bearer_Error
         (gateway_bearers_new current (optional_secret e ''INFISICAL_MCP_BEARER_PREVIOUS'')))"

text \<open>\<open>from_env_with_profile\<close>; the fields of the result are computed in the order they are written.\<close>

definition settings_from_env ::
    "url_library \<Rightarrow> environ \<Rightarrow> http_profile \<Rightarrow> string option \<Rightarrow> nat option
      \<Rightarrow> (settings_error, settings) result" where
  "settings_from_env L e profile host port =
     and_then (listener_from_env e) (\<lambda>listener.
     let listen_host = (case host of Some h \<Rightarrow> h
           | None \<Rightarrow> if profile = Standalone then value_or e ''INFISICAL_MCP_HOST'' ''127.0.0.1''
                      else ls_host listener);
         listen_port = (case port of Some p \<Rightarrow> p | None \<Rightarrow> ls_port listener) in
     and_then (bearers_from_env e) (\<lambda>bearers.
     and_then (identity_from_env L e profile) (\<lambda>identity.
     and_then (infisical_from_env L e) (\<lambda>infisical.
     and_then (operation_profile_from_env e) (\<lambda>operation_profile.
     and_then (parse_allowed_hosts L (value_or e ''INFISICAL_MCP_ALLOWED_HOSTS''
         (default_allowed_hosts profile listen_port))) (\<lambda>hosts.
     and_then (parse_allowed_origins L
         (case env_value e ''INFISICAL_MCP_ALLOWED_ORIGINS'' of None \<Rightarrow> '''' | Some s \<Rightarrow> s)) (\<lambda>origins.
     and_then (parse_number e u64_max ''INFISICAL_MCP_REQUEST_TIMEOUT_SECONDS'' 30 1 120) (\<lambda>timeout.
     and_then (parse_number e u64_max ''INFISICAL_MCP_MAX_CONCURRENT_REQUESTS'' 32 1 1024) (\<lambda>concurrent.
     and_then (parse_number e u64_max ''INFISICAL_MCP_MAX_BODY_BYTES'' (1024 * 1024) 1024
         (16 * 1024 * 1024)) (\<lambda>body_bytes.
     and_then (file_settings_from_env L e) (\<lambda>files.
       Ok \<lparr>st_operation_profile = operation_profile, st_host = listen_host, st_port = listen_port,
           st_log_level = value_or e ''INFISICAL_MCP_LOG_LEVEL'' ''info'',
           st_allowed_hosts = hosts, st_allowed_origins = origins,
           st_request_timeout = from_secs timeout, st_max_concurrent_requests = concurrent,
           st_max_body_bytes = body_bytes, st_bearers = bearers, st_identity = identity,
           st_infisical = infisical, st_files = files\<rparr>)))))))))))"

record stdio_settings =
  sd_operation_profile :: operation_profile
  sd_infisical :: client_settings
  sd_log_level :: string
  sd_max_body_bytes :: nat

definition stdio_settings_from_env ::
    "url_library \<Rightarrow> environ \<Rightarrow> (settings_error, stdio_settings) result" where
  "stdio_settings_from_env L e =
     (if optional e ''INFISICAL_MCP_FILE_PUBLIC_URL'' \<noteq> None
      then Err (Invalid_Setting ''INFISICAL_MCP_FILE_PUBLIC_URL''
             ''file transfers require HTTP transport; unset this variable for stdio'')
      else
        and_then (infisical_from_env L e) (\<lambda>infisical.
        and_then (operation_profile_from_env e) (\<lambda>operation_profile.
        and_then (parse_number e u64_max ''INFISICAL_MCP_MAX_BODY_BYTES'' (1024 * 1024) 1024
            (16 * 1024 * 1024)) (\<lambda>body_bytes.
          Ok \<lparr>sd_operation_profile = operation_profile, sd_infisical = infisical,
              sd_log_level = value_or e ''INFISICAL_MCP_LOG_LEVEL'' ''info'',
              sd_max_body_bytes = body_bytes\<rparr>))))"

section \<open>What the router is built from\<close>

text \<open>\<open>build_router\<close>: the identity verifier (with its resolver), the ingress, the transfer plane.\<close>

record router_parts =
  rt_auth :: ingress_auth
  rt_resolution :: "resolution_policy option"
  rt_files :: "plane option"

definition file_plane_config :: "file_settings \<Rightarrow> file_config" where
  "file_plane_config f =
     \<lparr>fc_public_origin = fs_public_origin f, fc_ttl = fs_ttl f, fc_max_staged = fs_max_staged f,
      fc_max_staged_bytes = of_nat (fs_max_staged_bytes f)\<rparr>"

definition build_router :: "settings \<Rightarrow> (identity_error, router_parts) result" where
  "build_router s =
     and_then (case st_identity s of
         None \<Rightarrow> Ok None
       | Some i \<Rightarrow> and_then (identity_verifier_new i) (\<lambda>p. Ok (Some p))) (\<lambda>verifier.
       Ok \<lparr>rt_auth = \<lparr>ia_bearers = st_bearers s, ia_has_verifier = verifier \<noteq> None,
              ia_allowed_hosts = st_allowed_hosts s, ia_allowed_origins = st_allowed_origins s\<rparr>,
           rt_resolution = verifier,
           rt_files = map_option (plane_new \<circ> file_plane_config) (st_files s)\<rparr>)"

section \<open>Choosing what to run\<close>

text \<open>\<open>main\<close> of \<open>main.rs\<close> up to the choice of a mode; both errors exit with code 2.\<close>

datatype cli_transport = Streamable_Http | Stdio

record cli =
  cli_host :: "string option"
  cli_port :: "nat option"
  cli_transport :: cli_transport
  cli_http_profile :: "http_profile option"
  cli_healthcheck :: bool

datatype mode =
    Run_Stdio stdio_settings
  | Run_Healthcheck string nat
  | Run_Serve settings string nat

datatype start_error = Conflicting_Options | Configuration_Error settings_error

definition unwrap_or :: "'a \<Rightarrow> 'a option \<Rightarrow> 'a" where
  "unwrap_or d x = (case x of None \<Rightarrow> d | Some a \<Rightarrow> a)"

definition select_mode :: "url_library \<Rightarrow> environ \<Rightarrow> cli \<Rightarrow> (start_error, mode) result" where
  "select_mode L e c =
     (if cli_transport c = Stdio
         \<and> (cli_http_profile c \<noteq> None \<or> cli_host c \<noteq> None \<or> cli_port c \<noteq> None \<or> cli_healthcheck c)
      then Err Conflicting_Options
      else if cli_healthcheck c then
        and_then (map_err Configuration_Error (listener_from_env e)) (\<lambda>listener.
          Ok (Run_Healthcheck (unwrap_or (ls_host listener) (cli_host c))
                (unwrap_or (ls_port listener) (cli_port c))))
      else if cli_transport c = Stdio then
        and_then (map_err Configuration_Error (stdio_settings_from_env L e)) (\<lambda>s. Ok (Run_Stdio s))
      else
        and_then (map_err Configuration_Error
            (settings_from_env L e (unwrap_or Gateway (cli_http_profile c)) (cli_host c) (cli_port c)))
          (\<lambda>s. Ok (Run_Serve s (unwrap_or (st_host s) (cli_host c)) (unwrap_or (st_port s) (cli_port c)))))"

section \<open>What is accepted\<close>

lemma file_settings_bounds:
  "file_settings_from_env L e = Ok (Some f) \<Longrightarrow>
     from_secs 10 \<le> fs_ttl f \<and> fs_ttl f \<le> from_secs 3600
     \<and> 2 \<le> fs_max_staged f \<and> fs_max_staged f \<le> 64
     \<and> 2 * unat max_envelope_bytes \<le> fs_max_staged_bytes f
     \<and> fs_max_staged_bytes f \<le> 1024 * 1024 * 1024"
  by (auto simp: file_settings_from_env_def dest!: parse_number_range split: option.splits)

lemma infisical_from_env_valid:
  "infisical_from_env L e = Ok c \<Longrightarrow> \<exists>p. validate_settings c = Ok p"
  by (auto simp: infisical_from_env_def infisical_client_new_def split: if_splits)

lemma bearers_from_env_new:
  "bearers_from_env e = Ok b \<Longrightarrow>
     \<exists>current. gateway_bearers_new current (optional_secret e ''INFISICAL_MCP_BEARER_PREVIOUS'') = Ok b"
  by (auto simp: bearers_from_env_def)

lemma identity_from_env_Some:
  "identity_from_env L e profile = Ok i \<Longrightarrow>
     (i \<noteq> None \<longleftrightarrow> profile = Gateway)
     \<and> (\<forall>s. i = Some s \<longrightarrow> id_issuer s \<noteq> [] \<and> id_request_timeout s = from_secs 3
          \<and> id_cache_ttl s = from_secs 300)"
  by (cases profile)
    (auto simp: identity_from_env_def required_def optional_def Let_def split: option.splits if_splits)

lemma parse_allowed_hosts_nonempty: "parse_allowed_hosts L s = Ok hs \<Longrightarrow> hs \<noteq> []"
  by (auto simp: parse_allowed_hosts_def split: if_splits)

lemmas settings_parts = settings_from_env_def listener_from_env_def Let_def

lemma settings_identity:
  "settings_from_env L e profile host port = Ok s \<Longrightarrow>
     identity_from_env L e profile = Ok (st_identity s)"
  by (auto simp: settings_parts)

lemma settings_sources:
  "settings_from_env L e profile host port = Ok s \<Longrightarrow>
     bearers_from_env e = Ok (st_bearers s) \<and> infisical_from_env L e = Ok (st_infisical s)
     \<and> file_settings_from_env L e = Ok (st_files s) \<and> st_allowed_hosts s \<noteq> []"
  by (auto simp: settings_parts dest: parse_allowed_hosts_nonempty)

lemma settings_limits:
  "settings_from_env L e profile host port = Ok s \<Longrightarrow>
     from_secs 1 \<le> st_request_timeout s \<and> st_request_timeout s \<le> from_secs 120
     \<and> 1 \<le> st_max_concurrent_requests s \<and> st_max_concurrent_requests s \<le> 1024
     \<and> 1024 \<le> st_max_body_bytes s \<and> st_max_body_bytes s \<le> 16 * 1024 * 1024"
  by (auto simp: settings_parts dest!: parse_number_range)

lemma settings_port:
  "settings_from_env L e profile host None = Ok s \<Longrightarrow> 1 \<le> st_port s \<and> st_port s \<le> u16_max"
  by (auto simp: settings_parts dest!: parse_number_range)

text \<open>A server that is started without naming a profile always verifies gateway identities.\<close>

lemma serve_default_profile:
  "select_mode L e c = Ok (Run_Serve s h p) \<Longrightarrow> cli_http_profile c = None \<Longrightarrow> st_identity s \<noteq> None"
  using identity_from_env_Some [OF settings_identity]
  by (auto simp: select_mode_def unwrap_or_def split: if_splits)


text \<open>A standalone server on a private service name, with everything else at its defaults.\<close>

definition demo_url :: url where
  "demo_url = \<lparr>url_scheme = ''https'', url_username = [], url_password = None,
     url_host = Some (Host_Domain ''app.infisical.com''), url_port = None, url_path = ''/'',
     url_query = None, url_fragment = None\<rparr>"

definition demo_library :: url_library where
  "demo_library = \<lparr>lib_parse_url = (\<lambda>_. Ok demo_url), lib_parse_authority = Ok,
     lib_origin = (\<lambda>_. ''https://app.infisical.com''), lib_client_builds = True\<rparr>"

definition demo_environ :: environ where
  "demo_environ v =
     (if v = ''INFISICAL_API_URL'' then Present ''https://app.infisical.com''
      else if v = ''INFISICAL_UNIVERSAL_AUTH_CLIENT_ID'' then Present ''client''
      else if v = ''INFISICAL_UNIVERSAL_AUTH_CLIENT_SECRET'' then Present ''secret''
      else if v = ''INFISICAL_MCP_BEARER_CURRENT'' then Present ''0123456789abcdef0123456789abcdef''
      else if v = ''INFISICAL_MCP_FILE_PUBLIC_URL'' then Present ''http://infisical-mcp:8000''
      else Not_Present)"

definition demo_accepted :: "(settings_error, settings) result" where
  "demo_accepted = settings_from_env demo_library demo_environ Standalone None None"

lemma demo_absent:
  "demo_environ ''INFISICAL_MCP_PORT'' = Not_Present"
  "demo_environ ''INFISICAL_MCP_HOST'' = Not_Present"
  "demo_environ ''INFISICAL_MCP_REQUEST_TIMEOUT_SECONDS'' = Not_Present"
  "demo_environ ''INFISICAL_MCP_MAX_CONCURRENT_REQUESTS'' = Not_Present"
  "demo_environ ''INFISICAL_MCP_MAX_BODY_BYTES'' = Not_Present"
  "demo_environ ''INFISICAL_MCP_FILE_TTL_SECONDS'' = Not_Present"
  "demo_environ ''INFISICAL_MCP_FILE_MAX_STAGED'' = Not_Present"
  "demo_environ ''INFISICAL_MCP_FILE_MAX_STAGED_BYTES'' = Not_Present"
  "demo_environ ''INFISICAL_API_MAX_CONCURRENT_REQUESTS'' = Not_Present"
  "demo_environ ''INFISICAL_API_ALLOW_PRIVATE_HTTP'' = Not_Present"
  "demo_environ ''INFISICAL_MCP_ALLOWED_HOSTS'' = Not_Present"
  "demo_environ ''INFISICAL_MCP_ALLOWED_ORIGINS'' = Not_Present"
  "demo_environ ''INFISICAL_MCP_OPERATION_PROFILE'' = Not_Present"
  "demo_environ ''INFISICAL_MCP_LOG_LEVEL'' = Not_Present"
  "demo_environ ''INFISICAL_MCP_BEARER_PREVIOUS'' = Not_Present"
  "demo_environ ''INFISICAL_UNIVERSAL_AUTH_ORGANIZATION_SLUG'' = Not_Present"
  by (simp_all add: demo_environ_def)

lemma demo_optional:
  "optional demo_environ ''INFISICAL_API_URL'' = Some ''https://app.infisical.com''"
  "optional demo_environ ''INFISICAL_UNIVERSAL_AUTH_CLIENT_ID'' = Some ''client''"
  "optional_secret demo_environ ''INFISICAL_UNIVERSAL_AUTH_CLIENT_SECRET'' = Some ''secret''"
  "optional_secret demo_environ ''INFISICAL_MCP_BEARER_CURRENT'' = Some ''0123456789abcdef0123456789abcdef''"
  "optional demo_environ ''INFISICAL_MCP_FILE_PUBLIC_URL'' = Some ''http://infisical-mcp:8000''"
  by (simp_all add: optional_def optional_secret_def env_value_def demo_environ_def str_trim_ascii
    byte_def is_whitespace_def)

lemma demo_not_set:
  "demo_environ v = Not_Present \<Longrightarrow> optional demo_environ v = None"
  "demo_environ v = Not_Present \<Longrightarrow> optional_secret demo_environ v = None"
  "demo_environ v = Not_Present \<Longrightarrow> env_value demo_environ v = None"
  "demo_environ v = Not_Present \<Longrightarrow> optional_exact demo_environ v = Ok None"
  "demo_environ v = Not_Present \<Longrightarrow> value_or demo_environ v d = d"
  by (simp_all add: optional_def optional_secret_def env_value_def optional_exact_def value_or_def)

lemma demo_infisical:
  "infisical_from_env demo_library demo_environ =
     Ok ((client_settings_new demo_url ''client'' ''secret'')\<lparr>max_concurrent_requests := 32\<rparr>)"
proof -
  have "str_trim ''client'' = ''client''" "str_trim ''secret'' = ''secret''"
    by (simp_all add: str_trim_ascii byte_def is_whitespace_def)
  then have "validate_settings (client_settings_new demo_url ''client'' ''secret'') = Ok Resolve_System"
    by (simp add: validate_settings_def client_settings_new_def url_policy_def
      url_resolution_policy_def demo_url_def default_request_timeout_def maximum_request_timeout_def
      default_max_response_bytes_def maximum_response_bytes_def default_max_concurrent_requests_def
      maximum_concurrent_requests_def default_token_refresh_skew_def from_secs_def nanos_per_sec_def)
  then show ?thesis
    by (simp add: infisical_from_env_def required_def required_secret_def demo_optional demo_absent
      demo_not_set parse_url_def parse_boolean_def parse_number_default infisical_client_new_def
      demo_library_def client_settings_new_def default_max_concurrent_requests_def)
qed

lemma demo_files:
  "file_settings_from_env demo_library demo_environ =
     Ok (Some \<lparr>fs_public_origin = ''https://app.infisical.com'', fs_ttl = from_secs 120,
       fs_max_staged = 16, fs_max_staged_bytes = 536870912\<rparr>)"
  by (simp add: file_settings_from_env_def demo_optional parse_file_public_origin_def parse_url_def
    demo_library_def demo_url_def parse_number_default demo_absent max_envelope_bytes_def Let_def)

lemma demo_hosts:
  "parse_allowed_hosts demo_library (default_allowed_hosts Standalone 8000) =
     Ok [''localhost'', ''127.0.0.1'', ''[::1]'', ''localhost:8000'', ''127.0.0.1:8000'', ''[::1]:8000'']"
proof -
  have "show_nat 8000 = ''8000''" by (simp add: show_nat.simps char_of_def bit_0)
  then have "default_allowed_hosts Standalone 8000 =
      ''localhost,127.0.0.1,[::1],localhost:8000,127.0.0.1:8000,[::1]:8000''"
    by (simp add: default_allowed_hosts_def)
  moreover have "parse_allowed_hosts demo_library
      ''localhost,127.0.0.1,[::1],localhost:8000,127.0.0.1:8000,[::1]:8000'' =
     Ok [''localhost'', ''127.0.0.1'', ''[::1]'', ''localhost:8000'', ''127.0.0.1:8000'', ''[::1]:8000'']"
    by (simp add: parse_allowed_hosts_def parse_csv_def str_trim_ascii byte_def is_whitespace_def
      demo_library_def to_ascii_lowercase_def to_ascii_lowercase_byte_def is_ascii_uppercase_def)
  ultimately show ?thesis by simp
qed

lemma demo_bearers:
  "bearers_from_env demo_environ =
     Ok \<lparr>gb_current = ''0123456789abcdef0123456789abcdef'', gb_previous = None\<rparr>"
  by (simp add: bearers_from_env_def required_secret_def demo_optional demo_absent demo_not_set
    gateway_bearers_new_def validate_bearer_def minimum_bearer_bytes_def is_ascii_whitespace_def byte_def)

lemma demo_origins: "parse_allowed_origins demo_library [] = Ok []"
proof -
  have "parse_csv [] = []" by code_simp
  then show ?thesis by (simp add: parse_allowed_origins_def)
qed

lemma demo_settings_accepted:
  "\<exists>s. demo_accepted = Ok s \<and> st_port s = 8000"
  by (simp add: demo_accepted_def settings_parts parse_number_default demo_absent demo_not_set
    demo_bearers identity_from_env_def demo_infisical operation_profile_from_env_def
    parse_profile_def demo_hosts demo_origins demo_files u16_max_def)


section \<open>The configured transfer plane\<close>

lemma sweep_fresh: "sweep_locked now (plane_new c) = plane_new c"
  by (simp add: sweep_locked_def plane_new_def entry_reservations_def Let_def)

lemma reserve_empty:
  assumes "pl_staged pl = []" "pl_uploads pl = []" "pl_received pl = []"
    and "pl_reserved pl < fc_max_staged (pl_config pl)"
    and "unat (bb_used (pl_budget pl)) + unat max_envelope_bytes \<le> unat (bb_limit (pl_budget pl))"
  shows "reserve now pl =
    (Ok max_envelope_bytes, pl\<lparr>pl_budget := (pl_budget pl)\<lparr>bb_used := bb_used (pl_budget pl) + max_envelope_bytes\<rparr>,
       pl_reserved := pl_reserved pl + 1\<rparr>)"
proof -
  have sw: "sweep_locked now pl = pl"
    using assms(1-3) by (cases pl) (simp add: sweep_locked_def entry_reservations_def Let_def)
  have lt: "unat (bb_used (pl_budget pl)) + unat max_envelope_bytes < 2 ^ 64"
    using assms(5) by (rule le_less_trans) (rule order_less_le_trans [OF unsigned_less], simp)
  then have ca: "checked_add (bb_used (pl_budget pl)) max_envelope_bytes =
      Some (bb_used (pl_budget pl) + max_envelope_bytes)"
    by (simp add: checked_add_def)
  have "bb_used (pl_budget pl) + max_envelope_bytes \<le> bb_limit (pl_budget pl)"
    using checked_add_Some [OF ca] assms(5) by (simp add: word_le_nat_alt)
  with ca assms sw show ?thesis
    by (simp add: reserve_def Let_def outstanding_def budget_reserve_def)
qed

text \<open>
  One call may stage two entries, a revealed secret and the whole result around it, and every
  transfer configuration that start-up accepts has room for both: a fresh plane always grants two
  slots, each of a full envelope, however far apart in time they are asked for.
\<close>

theorem configured_plane_admits_two:
  assumes "file_settings_from_env L e = Ok (Some f)"
  shows "\<exists>pl pl'. reserve now (plane_new (file_plane_config f)) = (Ok max_envelope_bytes, pl)
    \<and> reserve later pl = (Ok max_envelope_bytes, pl') \<and> outstanding pl' = 2"
proof -
  note bounds = file_settings_bounds [OF assms]
  let ?p = "plane_new (file_plane_config f)"
  have m: "unat max_envelope_bytes = 134217728" by (simp add: max_envelope_bytes_def)
  have lim: "unat (of_nat (fs_max_staged_bytes f) :: usize) = fs_max_staged_bytes f"
    using bounds by (simp add: unat_of_nat take_bit_eq_mod)
  define pl where "pl = ?p\<lparr>pl_budget := (pl_budget ?p)\<lparr>bb_used := bb_used (pl_budget ?p) + max_envelope_bytes\<rparr>,
       pl_reserved := pl_reserved ?p + 1\<rparr>"
  have "reserve now ?p = (Ok max_envelope_bytes, pl)"
    unfolding pl_def using bounds m lim
    by (intro reserve_empty) (simp_all add: plane_new_def file_plane_config_def budget_new_def)
  moreover define pl' where "pl' = pl\<lparr>pl_budget := (pl_budget pl)\<lparr>bb_used := bb_used (pl_budget pl) + max_envelope_bytes\<rparr>,
       pl_reserved := pl_reserved pl + 1\<rparr>"
  have "reserve later pl = (Ok max_envelope_bytes, pl')"
    unfolding pl'_def using bounds m lim
    by (intro reserve_empty) (simp_all add: pl_def plane_new_def file_plane_config_def budget_new_def)
  moreover have "outstanding pl' = 2"
    by (simp add: pl'_def pl_def plane_new_def outstanding_def)
  ultimately show ?thesis by blast
qed

lemma configured_plane_admits_two_witness:
  "\<exists>f pl pl'. file_settings_from_env demo_library demo_environ = Ok (Some f)
     \<and> reserve 5 (plane_new (file_plane_config f)) = (Ok max_envelope_bytes, pl)
     \<and> reserve 9 pl = (Ok max_envelope_bytes, pl')"
proof -
  note f = demo_files
  with configured_plane_admits_two [OF f, of 5 9] show ?thesis by blast
qed

end
