(* ===== verification/Api_Wire.thy ===== *)
theory Api_Wire
  imports Client_Requests Resource_Error Argument_Decoding "HOL-Library.Monad_Syntax"
begin

text \<open>
  What the typed operations of \<open>infisical-api\<close> share: how a request struct is written and a response
  struct is read. The query string, the JSON text and the parser are parameters; the parser yields
  the entries of an object as they were written, so that the derived deserialisers can be modelled:
  unknown fields are ignored, a field given twice is refused, and a struct may also be written as
  an array of its fields in order.
\<close>

section \<open>Codecs\<close>

record api =
  ap_env :: client_env
  ap_query :: "(string \<times> string) list \<Rightarrow> string"
  ap_json :: "json \<Rightarrow> string"
  ap_parse :: "string \<Rightarrow> json option"

definition read_body :: "api \<Rightarrow> (json \<Rightarrow> 'a option) \<Rightarrow> string \<Rightarrow> 'a option" where
  "read_body ap decode text = Option.bind (ap_parse ap text) decode"

definition api_read ::
    "api \<Rightarrow> endpoint \<Rightarrow> (string \<times> string) list \<Rightarrow> (json \<Rightarrow> 'a option) \<Rightarrow> world
      \<Rightarrow> (resource_error, 'a) result \<times> world" where
  "api_read ap ep query decode w =
     apfst (map_err Client_Error) (execute_read (ap_env ap) ep (ap_query ap query) (read_body ap decode) w)"

text \<open>Reads that the upstream records: sent once, as a GET or with a JSON body.\<close>

definition api_observable_read ::
    "api \<Rightarrow> endpoint \<Rightarrow> (string \<times> string) list \<Rightarrow> (json \<Rightarrow> 'a option) \<Rightarrow> world
      \<Rightarrow> (resource_error, 'a) result \<times> world" where
  "api_observable_read ap ep query decode w =
     apfst (map_err Client_Error)
       (execute_observable_read (ap_env ap) ep (ap_query ap query) (read_body ap decode) w)"

text \<open>A mutation whose input is its JSON body, with the trait's defaults.\<close>

definition json_mutation :: "api \<Rightarrow> http_method \<Rightarrow> endpoint \<Rightarrow> json \<Rightarrow> (json \<Rightarrow> 'a option) \<Rightarrow> 'a mutation" where
  "json_mutation ap meth ep body decode =
     \<lparr>mu_method = meth, mu_endpoint = ep, mu_query = [], mu_body = ap_json ap body,
      mu_sends_json_body = True, mu_accepts_empty = False, mu_decode = read_body ap decode\<rparr>"

definition api_mutate ::
    "api \<Rightarrow> http_method \<Rightarrow> endpoint \<Rightarrow> json \<Rightarrow> (json \<Rightarrow> 'a option) \<Rightarrow> world
      \<Rightarrow> (resource_error, 'a) result \<times> world" where
  "api_mutate ap meth ep body decode w =
     apfst (map_err Client_Error) (execute_mutation (ap_env ap) (json_mutation ap meth ep body decode) w)"

text \<open>A call that follows another when it succeeds (\<open>?\<close> after \<open>await\<close>), and a check of what a call yields.\<close>

definition and_call ::
    "(world \<Rightarrow> ('e, 'a) result \<times> world) \<Rightarrow> ('a \<Rightarrow> world \<Rightarrow> ('e, 'b) result \<times> world) \<Rightarrow> world
      \<Rightarrow> ('e, 'b) result \<times> world" where
  "and_call f g w = (case f w of (Inl e, w) \<Rightarrow> (Err e, w) | (Inr x, w) \<Rightarrow> g x w)"

definition checked_call ::
    "(world \<Rightarrow> ('e, 'a) result \<times> world) \<Rightarrow> ('a \<Rightarrow> ('e, 'b) result) \<Rightarrow> world \<Rightarrow> ('e, 'b) result \<times> world" where
  "checked_call f check w = apfst (\<lambda>r. and_then r check) (f w)"

section \<open>Response structs\<close>

text \<open>
  A field must be present, or is an \<open>Option\<close> (absent in an object it is \<open>None\<close>), or has a default.
\<close>

datatype presence = Required_Field | Option_Field | Default_Field

definition wire_fields :: "(string \<times> presence) list \<Rightarrow> json \<Rightarrow> (string \<rightharpoonup> json) option" where
  "wire_fields spec j =
     (case j of
        Object m \<Rightarrow>
          (let known = filter (\<lambda>kv. fst kv \<in> fst ` set spec) m in
           if distinct (map fst known)
              \<and> list_all (\<lambda>(k, p). p = Required_Field \<longrightarrow> k \<in> fst ` set m) spec
           then Some (map_of known) else None)
      | Array xs \<Rightarrow>
          if length xs \<le> length spec \<and> list_all (\<lambda>(k, p). p = Default_Field) (drop (length xs) spec)
          then Some (map_of (zip (map fst spec) xs)) else None
      | _ \<Rightarrow> None)"

definition wire_field :: "(string \<rightharpoonup> json) \<Rightarrow> string \<Rightarrow> (json \<Rightarrow> 'a option) \<Rightarrow> 'a option" where
  "wire_field fs k decode = Option.bind (fs k) decode"

definition wire_option :: "(string \<rightharpoonup> json) \<Rightarrow> string \<Rightarrow> (json \<Rightarrow> 'a option) \<Rightarrow> 'a option option" where
  "wire_option fs k decode = (case fs k of None \<Rightarrow> Some None | Some v \<Rightarrow> decode_option decode v)"

definition wire_default :: "(string \<rightharpoonup> json) \<Rightarrow> string \<Rightarrow> 'a \<Rightarrow> (json \<Rightarrow> 'a option) \<Rightarrow> 'a option" where
  "wire_default fs k d decode = (case fs k of None \<Rightarrow> Some d | Some v \<Rightarrow> decode v)"

definition decode_u32 :: "json \<Rightarrow> nat option" where
  "decode_u32 j = (case j of Number (Unsigned n) \<Rightarrow> if n < 2 ^ 32 then Some n else None | _ \<Rightarrow> None)"

definition decode_u8 :: "json \<Rightarrow> nat option" where
  "decode_u8 j = (case j of Number (Unsigned n) \<Rightarrow> if n < 2 ^ 8 then Some n else None | _ \<Rightarrow> None)"

definition wire_list :: "(json \<Rightarrow> 'a option) \<Rightarrow> json \<Rightarrow> 'a list option" where
  "wire_list decode j = (case j of Array xs \<Rightarrow> those (map decode xs) | _ \<Rightarrow> None)"

lemma those_Some: "those xs = Some ys \<longleftrightarrow> xs = map Some ys"
  by (induction xs arbitrary: ys) (auto split: option.splits)

lemma wire_list_Some: "wire_list decode j = Some ys \<longleftrightarrow> (\<exists>xs. j = Array xs \<and> map decode xs = map Some ys)"
  by (auto simp: wire_list_def those_Some split: json.splits)

section \<open>Errors\<close>

abbreviation (input) resource :: "string \<Rightarrow> (resource_error, 'a) result" where
  "resource name \<equiv> Err (Unit_Variant name)"

section \<open>What goes on the wire\<close>

text \<open>
  \<open>only_reads\<close>: the log grew by logins and GETs of one path and query, \<open>only_mutation\<close>: by a login
  and at most one request.
\<close>

definition only_reads :: "api \<Rightarrow> endpoint \<Rightarrow> (string \<times> string) list \<Rightarrow> world \<Rightarrow> world \<Rightarrow> bool" where
  "only_reads ap ep query w w' \<longleftrightarrow>
     (\<exists>others. w_sent w' = w_sent w @ others \<and> length (data_requests others) \<le> 2
        \<and> (\<forall>q \<in> set (data_requests others). rq_method q = GET \<and> Inr (rq_path q) = endpoint_url ep
             \<and> rq_query q = ap_query ap query))"

definition only_mutation :: "api \<Rightarrow> http_method \<Rightarrow> endpoint \<Rightarrow> json \<Rightarrow> world \<Rightarrow> world \<Rightarrow> bool" where
  "only_mutation ap meth ep body w w' \<longleftrightarrow>
     (\<exists>others. w_sent w' = w_sent w @ others \<and> length (data_requests others) \<le> 1
        \<and> (\<forall>q \<in> set (data_requests others). rq_method q = meth \<and> Inr (rq_path q) = endpoint_url ep
             \<and> rq_query q = [] \<and> rq_body q = Some (ap_json ap body)))"

lemma api_read_log:
  assumes "world_ok w" and "api_read ap ep query decode w = (r, w')"
  shows "only_reads ap ep query w w'
    \<and> (\<forall>e. r = Inl e \<longrightarrow> (\<exists>c. e = Client_Error c))"
proof -
  obtain r1 where e: "execute_read (ap_env ap) ep (ap_query ap query) (read_body ap decode) w = (r1, w')"
    and r: "r = map_err Client_Error r1"
    using assms(2) by (cases "execute_read (ap_env ap) ep (ap_query ap query) (read_body ap decode) w")
      (auto simp: api_read_def)
  show ?thesis
    using read_log [OF assms(1) e] r unfolding only_reads_def
    by (cases r1) (auto simp: map_err_def)
qed

lemma api_observable_read_log:
  assumes "world_ok w" and "api_observable_read ap ep query decode w = (r, w')"
  shows "\<exists>others. w_sent w' = w_sent w @ others \<and> length (data_requests others) \<le> 1
        \<and> (\<forall>q \<in> set (data_requests others). rq_method q = GET \<and> Inr (rq_path q) = endpoint_url ep
             \<and> rq_query q = ap_query ap query)"
proof -
  obtain r1 where e: "execute_get_once (ap_env ap) ep (ap_query ap query) (read_body ap decode) w = (r1, w')"
    using assms(2)
    by (cases "execute_get_once (ap_env ap) ep (ap_query ap query) (read_body ap decode) w")
      (auto simp: api_observable_read_def execute_observable_read_def)
  from get_once_result [OF assms(1) e] obtain ls gs where
    s: "w_sent w' = w_sent w @ ls @ gs" and l: "ls = [] \<or> ls = [login_request (ap_env ap)]"
    and g: "gs = [] \<or> (\<exists>path i. endpoint_url ep = Inr path \<and> gs = [get_request path (ap_query ap query) i])"
    by auto
  have "length (data_requests (ls @ gs)) \<le> 1 \<and> (\<forall>q \<in> set (data_requests (ls @ gs)). rq_method q = GET
      \<and> Inr (rq_path q) = endpoint_url ep \<and> rq_query q = ap_query ap query)"
    using l g by (auto simp: data_requests_def login_request_def get_request_def)
  with s show ?thesis by blast
qed

lemma api_observable_read_once:
  assumes "world_ok w" and "api_observable_read ap ep query decode w = (r, w')"
  shows "only_reads ap ep query w w'"
  using api_observable_read_log [OF assms] unfolding only_reads_def by (meson le_trans one_le_numeral)

lemma api_mutate_log:
  assumes "world_ok w" and "api_mutate ap meth ep body decode w = (r, w')"
  shows "only_mutation ap meth ep body w w'
    \<and> (\<forall>e. r = Inl e \<longrightarrow> (\<exists>c. e = Client_Error c \<and> c \<noteq> Invalid_Response))"
proof -
  let ?m = "json_mutation ap meth ep body decode"
  obtain r1 where e: "execute_mutation (ap_env ap) ?m w = (r1, w')"
    and r: "r = map_err Client_Error r1"
    using assms(2) by (cases "execute_mutation (ap_env ap) ?m w") (auto simp: api_mutate_def)
  from mutation_log [OF assms(1) e] obtain ls sent where log: "w_sent w' = w_sent w @ ls @ sent"
      "ls = [] \<or> ls = [login_request (ap_env ap)]"
      "sent = [] \<or> (\<exists>path i. endpoint_url ep = Inr path \<and> sent = [mutation_request ?m path i])"
    and "r1 \<noteq> Inl Invalid_Response"
    by (auto simp: json_mutation_def)
  moreover from log have "only_mutation ap meth ep body w w'"
    unfolding only_mutation_def
    by (intro exI [of _ "ls @ sent"])
      (auto simp: login_request_def data_requests_def mutation_request_def json_mutation_def)
  ultimately show ?thesis using r by (cases r1) auto
qed

section \<open>Where a result comes from\<close>

text \<open>A value that decodes the complete body of a successful reply of the network.\<close>

definition answered :: "world \<Rightarrow> (string \<Rightarrow> 'a option) \<Rightarrow> 'a \<Rightarrow> bool" where
  "answered w decode a \<longleftrightarrow> (\<exists>n status hs chunks.
     ex_reply (w_network w n) = Response status hs chunks None \<and> is_success status
     \<and> decode (concat chunks) = Some a)"

lemma send_json_network: "w_network (snd (send_json env e d req w)) = w_network w"
  by (auto simp: send_json_def Let_def split: option.splits)

lemma send_json_answered:
  assumes "send_json env False d req w = (Inr a, w')"
  shows "answered w d a"
proof -
  let ?ex = "w_network w (w_attempts w)"
  have r: "read_response env False d ?ex = Inr a"
    using assms by (auto simp: send_json_def Let_def split: option.splits if_splits)
  obtain status hs chunks broken where ex: "ex_reply ?ex = Response status hs chunks broken"
    using r by (cases "ex_reply ?ex") (auto simp: read_response_def)
  have st: "is_success status" using r ex by (auto simp: read_response_def split: if_splits)
  obtain body where b: "read_chunks (max_response_bytes (env_settings env)) empty_buffer chunks broken = Ok body"
    and d: "d (buf_bytes body) = Some a"
    using r ex st by (auto simp: read_response_def)
  have "buffer_ok (max_response_bytes (env_settings env)) empty_buffer"
    by (simp add: empty_buffer_def buffer_ok_def)
  from read_chunks_ok [OF this b] have "buf_bytes body = concat chunks" "broken = None"
    by (simp_all add: empty_buffer_def)
  with ex st d show ?thesis unfolding answered_def
    by (intro exI [of _ "w_attempts w"] exI [of _ status] exI [of _ hs] exI [of _ chunks]) simp
qed

lemma login_network: "login env w = (r, w') \<Longrightarrow> w_network w' = w_network w"
proof -
  assume l: "login env w = (r, w')"
  obtain r1 w1 where s: "send_json env False (env_decode_login env) (login_request env) w = (r1, w1)" by force
  then show ?thesis
    using l send_json_network [of env False "env_decode_login env" "login_request env" w]
    by (cases r1) (auto simp: login_def Let_def login_path login_request_def)
qed

lemma access_token_network: "access_token env w = (r, w') \<Longrightarrow> w_network w' = w_network w"
proof -
  assume a: "access_token env w = (r, w')"
  let ?w = "w\<lparr>w_co := \<lparr>in_flight = Some (w_next w), co_failure = None\<rparr>, w_next := Suc (w_next w)\<rparr>"
  obtain o1 w1 where l: "login env ?w = (o1, w1)" by force
  have "w_network w1 = w_network w" using login_network [OF l] by simp
  then show ?thesis
    using a l by (auto simp: access_token_def Let_def split: option.splits sum.splits prod.splits)
qed

lemma answered_network: "w_network w' = w_network w \<Longrightarrow> answered w' d a \<longleftrightarrow> answered w d a"
  by (simp add: answered_def)

lemma get_once_network:
  assumes "execute_get_once env ep query d w = (r, w')"
  shows "w_network w' = w_network w \<and> (\<forall>a. r = Inr a \<longrightarrow> answered w d a)"
proof (cases "endpoint_url ep")
  case (Inl e)
  with assms show ?thesis by (auto simp: execute_get_once_def)
next
  case (Inr path)
  obtain ra w1 where a: "access_token env w = (ra, w1)" by force
  note an = access_token_network [OF a]
  show ?thesis
  proof (cases ra)
    case (Inl e)
    with assms Inr a an show ?thesis by (auto simp: execute_get_once_def)
  next
    case tok: (Inr t)
    let ?q = "\<lparr>rq_method = GET, rq_path = path, rq_query = query, rq_body = None, rq_bearer = Some (token_id t)\<rparr>"
    obtain r2 w2 where s: "send_json env False d ?q w1 = (r2, w2)" by force
    have "w_network w2 = w_network w"
      using send_json_network [of env False d ?q w1] s an by simp
    moreover have run: "r = r2" "w_network w' = w_network w2"
      using assms Inr a tok s by (auto simp: execute_get_once_def drop_rejected_def split: if_splits)
    moreover have "answered w d x" if "r = Inr x" for x
      using send_json_answered [of env d ?q w1 x w2] s that run(1) by (simp add: answered_network [OF an])
    ultimately show ?thesis by simp
  qed
qed

lemma read_answered:
  assumes "execute_read env ep query d w = (r, w')"
  shows "w_network w' = w_network w \<and> (\<forall>a. r = Inr a \<longrightarrow> answered w d a)"
proof -
  obtain r1 w1 where g: "execute_get_once env ep query d w = (r1, w1)" by force
  show ?thesis
  proof (cases "rejected r1")
    case True
    then have g2: "execute_get_once env ep query d w1 = (r, w')"
      using assms g by (simp add: execute_read_def)
    have n: "w_network w1 = w_network w" using get_once_network [OF g] by simp
    show ?thesis using get_once_network [OF g2] n by (simp add: answered_network [OF n])
  next
    case False
    with assms g show ?thesis using get_once_network [OF g] by (auto simp: execute_read_def)
  qed
qed

lemma api_read_answered:
  "api_read ap ep query decode w = (Inr a, w') \<Longrightarrow> answered w (read_body ap decode) a"
  using read_answered [of "ap_env ap" ep "ap_query ap query" "read_body ap decode" w]
  by (cases "execute_read (ap_env ap) ep (ap_query ap query) (read_body ap decode) w")
    (auto simp: api_read_def)

lemma api_observable_read_answered:
  "api_observable_read ap ep query decode w = (Inr a, w') \<Longrightarrow> answered w (read_body ap decode) a"
  using get_once_network [of "ap_env ap" ep "ap_query ap query" "read_body ap decode" w]
  by (cases "execute_get_once (ap_env ap) ep (ap_query ap query) (read_body ap decode) w")
    (auto simp: api_observable_read_def execute_observable_read_def)

lemma api_mutate_answered:
  assumes "api_mutate ap meth ep body decode w = (Inr a, w')"
  shows "answered w (read_body ap decode) a"
proof -
  let ?m = "json_mutation ap meth ep body decode"
  have e: "execute_mutation (ap_env ap) ?m w = (Inr a, w')"
    using assms by (cases "execute_mutation (ap_env ap) ?m w") (auto simp: api_mutate_def)
  then obtain path where p: "endpoint_url ep = Inr path"
    by (auto simp: execute_mutation_def json_mutation_def split: if_splits sum.splits)
  obtain ra w1 where t: "access_token (ap_env ap) w = (ra, w1)" by force
  from e p t obtain tok where tok: "ra = Inr tok"
    by (cases ra) (auto simp: execute_mutation_def json_mutation_def split: if_splits)
  let ?q = "\<lparr>rq_method = meth, rq_path = path, rq_query = [], rq_body = Some (ap_json ap body),
    rq_bearer = Some (token_id tok)\<rparr>"
  obtain r2 w2 where s: "send_json (ap_env ap) False (read_body ap decode) ?q w1 = (r2, w2)" by force
  with e p t tok have "r2 = Inr a"
    by (auto simp: execute_mutation_def json_mutation_def drop_rejected_def split: if_splits)
  with s show ?thesis
    using send_json_answered [of "ap_env ap" "read_body ap decode" ?q w1 a w2]
    by (simp add: answered_network [OF access_token_network [OF t]])
qed

section \<open>A settled client\<close>

text \<open>A client holding a token, whose server answers every request alike; used to evaluate examples.\<close>

definition settled_world :: "string \<Rightarrow> world" where
  "settled_world body = \<lparr>w_now = 0,
     w_token = Some \<lparr>token_id = 0, token_value = ''t'', refresh_after = 1\<rparr>,
     w_co = \<lparr>in_flight = None, co_failure = None\<rparr>, w_next = 1,
     w_network = (\<lambda>_. \<lparr>ex_slot_wait = Some 0, ex_reply = Response 200 [] [body] None,
       ex_elapsed = 0, ex_wall_clock = 0\<rparr>), w_attempts = 0, w_sent = []\<rparr>"

lemma settled_ok: "world_ok (settled_world body)"
  by (simp add: world_ok_def settled_world_def)

definition demo_api :: "json \<Rightarrow> api" where
  "demo_api j = \<lparr>ap_env = demo_env, ap_query = (\<lambda>_. ''q''), ap_json = (\<lambda>_. ''b''), ap_parse = (\<lambda>_. Some j)\<rparr>"

lemma settled_send:
  "send_json demo_env e d q (settled_world ''{}'') =
     (ok_or Invalid_Response (d ''{}''),
      (settled_world ''{}'')\<lparr>w_attempts := 1, w_sent := [q]\<rparr>)"
  by (simp add: settled_world_def send_json_def read_response_def demo_defs empty_buffer_def Let_def
      grow_response_buffer_def extend_from_slice_def from_secs_def nanos_per_sec_def)

lemma settled_read:
  assumes "endpoint_url ep = Inr path" and "decode j = Some a"
  shows "api_read (demo_api j) ep query decode (settled_world ''{}'') =
    (Inr a, (settled_world ''{}'')\<lparr>w_attempts := 1, w_sent := [get_request path ''q'' 0]\<rparr>)"
proof -
  have t: "access_token demo_env (settled_world ''{}'') = (Inr \<lparr>token_id = 0, token_value = ''t'', refresh_after = 1\<rparr>,
      settled_world ''{}'')"
    by (simp add: access_token_def settled_world_def fresh_token_def is_fresh_def)
  show ?thesis
    using assms
    by (simp add: api_read_def execute_read_def execute_get_once_def t settled_send demo_api_def
        drop_rejected_def rejected_def read_body_def get_request_def)
qed

lemma settled_observable_read:
  assumes "endpoint_url ep = Inr path" and "decode j = Some a"
  shows "api_observable_read (demo_api j) ep query decode (settled_world ''{}'') =
    (Inr a, (settled_world ''{}'')\<lparr>w_attempts := 1, w_sent := [get_request path ''q'' 0]\<rparr>)"
proof -
  have t: "access_token demo_env (settled_world ''{}'') = (Inr \<lparr>token_id = 0, token_value = ''t'', refresh_after = 1\<rparr>,
      settled_world ''{}'')"
    by (simp add: access_token_def settled_world_def fresh_token_def is_fresh_def)
  show ?thesis
    using assms
    by (simp add: api_observable_read_def execute_observable_read_def execute_get_once_def t settled_send
        demo_api_def drop_rejected_def rejected_def read_body_def get_request_def)
qed

lemma settled_mutate:
  assumes "endpoint_url ep = Inr path" and "decode j = Some a" and "meth \<in> {POST, PUT, PATCH, DELETE}"
  shows "api_mutate (demo_api j) meth ep body decode (settled_world ''{}'') =
    (Inr a, (settled_world ''{}'')\<lparr>w_attempts := 1, w_sent :=
       [\<lparr>rq_method = meth, rq_path = path, rq_query = [], rq_body = Some ''b'', rq_bearer = Some 0\<rparr>]\<rparr>)"
proof -
  have t: "access_token demo_env (settled_world ''{}'') = (Inr \<lparr>token_id = 0, token_value = ''t'', refresh_after = 1\<rparr>,
      settled_world ''{}'')"
    by (simp add: access_token_def settled_world_def fresh_token_def is_fresh_def)
  show ?thesis
    using assms
    by (simp add: api_mutate_def execute_mutation_def t settled_send demo_api_def json_mutation_def
        drop_rejected_def rejected_def read_body_def)
qed

end
