(* ===== verification/Secrets_Api.thy ===== *)
theory Secrets_Api
  imports Api_Wire Resource_Input
begin

text \<open>
  The secret operations of \<open>infisical-api/src/secrets.rs\<close>: value-free metadata, the exact reveal,
  and the single and batch mutations, over the typed requests of \<open>Api_Wire\<close>. Redacting wrappers are
  the text they hold. A query parameter is its name and text; \<open>false\<close>, \<open>true\<close> and \<open>shared\<close> are the
  only values of the one-variant flag enums.
\<close>

section \<open>Data\<close>

definition max_secret_batch_size :: nat where "max_secret_batch_size = 50"

record revealed_secret =
  rv_id :: string
  rv_name :: string
  rv_environment :: string
  rv_version :: nat
  rv_type :: string
  rv_path :: string
  rv_value :: string

record secret_value_mutation =
  sm_name :: string
  sm_value :: string

record secret_mutation_metadata =
  mm_id :: string
  mm_name :: string
  mm_environment :: string
  mm_version :: nat
  mm_type :: string
  mm_created_at :: string
  mm_updated_at :: string

record secret_approval =
  sa_id :: string
  sa_slug :: string
  sa_status :: string

datatype secret_mutation_receipt =
    Applied secret_mutation_metadata
  | Approval_Required secret_approval

datatype secret_batch_mutation_receipt =
    Batch_Applied "secret_mutation_metadata list"
  | Batch_Approval_Required secret_approval

record secret_metadata_entry =
  me_key :: string
  me_value :: string
  me_is_encrypted :: bool

record secret_metadata_tag =
  mt_id :: string
  mt_name :: string
  mt_slug :: string
  mt_color :: "string option"

record secret_metadata =
  sd_id :: string
  sd_name :: string
  sd_environment :: string
  sd_version :: nat
  sd_type :: string
  sd_path :: "string option"
  sd_value_hidden :: bool
  sd_metadata :: "secret_metadata_entry list"
  sd_tags :: "secret_metadata_tag list"

section \<open>Requests\<close>

definition disabled_flag :: string where "disabled_flag = ''false''"
definition enabled_flag :: string where "enabled_flag = ''true''"
definition shared_secret_type :: string where "shared_secret_type = ''shared''"

definition bool_text :: "bool \<Rightarrow> string" where "bool_text b = (if b then ''true'' else ''false'')"

definition list_secret_metadata_query :: "secret_scope \<Rightarrow> string list \<Rightarrow> (string \<times> string) list" where
  "list_secret_metadata_query scope tags =
     [(''projectId'', scope_project_id scope), (''environment'', scope_environment scope),
      (''secretPath'', scope_path scope), (''viewSecretValue'', disabled_flag),
      (''expandSecretReferences'', disabled_flag), (''recursive'', bool_text (scope_recursive scope)),
      (''includePersonalOverrides'', disabled_flag), (''includeImports'', disabled_flag)]
     @ (if tags \<noteq> [] then [(''tagSlugs'', join_with (CHR '','') tags)] else [])"

definition reveal_secret_query :: "secret_scope \<Rightarrow> (string \<times> string) list" where
  "reveal_secret_query scope =
     [(''projectId'', scope_project_id scope), (''environment'', scope_environment scope),
      (''secretPath'', scope_path scope), (''type'', shared_secret_type),
      (''viewSecretValue'', enabled_flag), (''expandSecretReferences'', disabled_flag),
      (''includeImports'', disabled_flag)]"

text \<open>The flattened scopes of the request bodies.\<close>

definition secret_mutation_scope :: "secret_scope \<Rightarrow> (string \<times> json) list" where
  "secret_mutation_scope scope =
     [(''projectId'', String (scope_project_id scope)), (''environment'', String (scope_environment scope)),
      (''secretPath'', String (scope_path scope)), (''type'', String shared_secret_type)]"

definition batch_secret_scope :: "secret_scope \<Rightarrow> (string \<times> json) list" where
  "batch_secret_scope scope =
     [(''projectId'', String (scope_project_id scope)), (''environment'', String (scope_environment scope)),
      (''secretPath'', String (scope_path scope))]"

definition secret_value_mutation_request :: "secret_scope \<Rightarrow> string \<Rightarrow> json" where
  "secret_value_mutation_request scope value =
     Object (secret_mutation_scope scope @ [(''secretValue'', String value)])"

definition delete_secret_request :: "secret_scope \<Rightarrow> json" where
  "delete_secret_request scope = Object (secret_mutation_scope scope)"

definition batch_secret_value_wire :: "secret_value_mutation \<Rightarrow> json" where
  "batch_secret_value_wire s =
     Object [(''secretKey'', String (sm_name s)), (''secretValue'', String (sm_value s))]"

definition fail_on_not_found :: string where "fail_on_not_found = ''failOnNotFound''"

definition batch_secret_value_mutation_request ::
    "secret_scope \<Rightarrow> string option \<Rightarrow> secret_value_mutation list \<Rightarrow> json" where
  "batch_secret_value_mutation_request scope mode secrets =
     Object (batch_secret_scope scope @ optional_field ''mode'' (map_option String mode)
       @ [(''secrets'', Array (map batch_secret_value_wire secrets))])"

definition batch_delete_secret_wire :: "string \<Rightarrow> json" where
  "batch_delete_secret_wire name =
     Object [(''secretKey'', String name), (''type'', String shared_secret_type)]"

definition batch_delete_secret_request :: "secret_scope \<Rightarrow> string list \<Rightarrow> json" where
  "batch_delete_secret_request scope names =
     Object (batch_secret_scope scope @ [(''secrets'', Array (map batch_delete_secret_wire names))])"

section \<open>Responses\<close>

record secret_wire =
  sw_id :: string
  sw_environment :: string
  sw_version :: nat
  sw_type :: string
  sw_key :: string
  sw_value :: string
  sw_value_hidden :: bool
  sw_path :: "string option"
  sw_metadata :: "secret_metadata_entry list"
  sw_tags :: "secret_metadata_tag list"

definition decode_metadata_entry :: "json \<Rightarrow> secret_metadata_entry option" where
  "decode_metadata_entry j =
     do { fs \<leftarrow> wire_fields [(''key'', Required_Field), (''value'', Required_Field),
                          (''isEncrypted'', Default_Field)] j;
          key \<leftarrow> wire_field fs ''key'' as_str;
          val \<leftarrow> wire_field fs ''value'' as_str;
          enc \<leftarrow> wire_default fs ''isEncrypted'' False decode_bool;
          Some \<lparr>me_key = key, me_value = val, me_is_encrypted = enc\<rparr> }"

definition decode_metadata_tag :: "json \<Rightarrow> secret_metadata_tag option" where
  "decode_metadata_tag j =
     do { fs \<leftarrow> wire_fields [(''id'', Required_Field), (''name'', Required_Field),
                          (''slug'', Required_Field), (''color'', Default_Field)] j;
          i \<leftarrow> wire_field fs ''id'' as_str;
          n \<leftarrow> wire_field fs ''name'' as_str;
          s \<leftarrow> wire_field fs ''slug'' as_str;
          c \<leftarrow> wire_option fs ''color'' as_str;
          Some \<lparr>mt_id = i, mt_name = n, mt_slug = s, mt_color = c\<rparr> }"

definition decode_secret_wire :: "json \<Rightarrow> secret_wire option" where
  "decode_secret_wire j =
     do { fs \<leftarrow> wire_fields [(''id'', Required_Field), (''environment'', Required_Field),
            (''version'', Required_Field), (''type'', Required_Field), (''secretKey'', Required_Field),
            (''secretValue'', Required_Field), (''secretValueHidden'', Required_Field),
            (''secretPath'', Default_Field), (''secretMetadata'', Default_Field), (''tags'', Default_Field)] j;
          i \<leftarrow> wire_field fs ''id'' as_str;
          env \<leftarrow> wire_field fs ''environment'' as_str;
          v \<leftarrow> wire_field fs ''version'' decode_usize;
          t \<leftarrow> wire_field fs ''type'' as_str;
          k \<leftarrow> wire_field fs ''secretKey'' as_str;
          val \<leftarrow> wire_field fs ''secretValue'' as_str;
          h \<leftarrow> wire_field fs ''secretValueHidden'' decode_bool;
          p \<leftarrow> wire_option fs ''secretPath'' as_str;
          md \<leftarrow> wire_default fs ''secretMetadata'' [] (wire_list decode_metadata_entry);
          tg \<leftarrow> wire_default fs ''tags'' [] (wire_list decode_metadata_tag);
          Some \<lparr>sw_id = i, sw_environment = env, sw_version = v, sw_type = t, sw_key = k, sw_value = val,
                sw_value_hidden = h, sw_path = p, sw_metadata = md, sw_tags = tg\<rparr> }"

definition decode_list_secret_metadata :: "json \<Rightarrow> secret_wire list option" where
  "decode_list_secret_metadata j =
     do { fs \<leftarrow> wire_fields [(''secrets'', Required_Field)] j;
          wire_field fs ''secrets'' (wire_list decode_secret_wire) }"

definition decode_revealed_secret :: "json \<Rightarrow> revealed_secret option" where
  "decode_revealed_secret j =
     do { fs \<leftarrow> wire_fields [(''id'', Required_Field), (''environment'', Required_Field),
            (''version'', Required_Field), (''type'', Required_Field), (''secretKey'', Required_Field),
            (''secretValue'', Required_Field), (''secretPath'', Required_Field)] j;
          i \<leftarrow> wire_field fs ''id'' as_str;
          env \<leftarrow> wire_field fs ''environment'' as_str;
          v \<leftarrow> wire_field fs ''version'' decode_usize;
          t \<leftarrow> wire_field fs ''type'' as_str;
          k \<leftarrow> wire_field fs ''secretKey'' as_str;
          val \<leftarrow> wire_field fs ''secretValue'' as_str;
          p \<leftarrow> wire_field fs ''secretPath'' as_str;
          Some \<lparr>rv_id = i, rv_name = k, rv_environment = env, rv_version = v, rv_type = t, rv_path = p,
                rv_value = val\<rparr> }"

definition decode_reveal_response :: "json \<Rightarrow> revealed_secret option" where
  "decode_reveal_response j =
     do { fs \<leftarrow> wire_fields [(''secret'', Required_Field)] j;
          wire_field fs ''secret'' decode_revealed_secret }"

record secret_mutation_wire =
  mw_id :: string
  mw_environment :: string
  mw_version :: nat
  mw_type :: string
  mw_key :: string
  mw_value :: string
  mw_created_at :: string
  mw_updated_at :: string

definition decode_secret_mutation_wire :: "json \<Rightarrow> secret_mutation_wire option" where
  "decode_secret_mutation_wire j =
     do { fs \<leftarrow> wire_fields [(''id'', Required_Field), (''environment'', Required_Field),
            (''version'', Required_Field), (''type'', Required_Field), (''secretKey'', Required_Field),
            (''secretValue'', Required_Field), (''createdAt'', Required_Field),
            (''updatedAt'', Required_Field)] j;
          i \<leftarrow> wire_field fs ''id'' as_str;
          env \<leftarrow> wire_field fs ''environment'' as_str;
          v \<leftarrow> wire_field fs ''version'' decode_usize;
          t \<leftarrow> wire_field fs ''type'' as_str;
          k \<leftarrow> wire_field fs ''secretKey'' as_str;
          val \<leftarrow> wire_field fs ''secretValue'' as_str;
          c \<leftarrow> wire_field fs ''createdAt'' as_str;
          u \<leftarrow> wire_field fs ''updatedAt'' as_str;
          Some \<lparr>mw_id = i, mw_environment = env, mw_version = v, mw_type = t, mw_key = k, mw_value = val,
                mw_created_at = c, mw_updated_at = u\<rparr> }"

definition decode_secret_approval :: "json \<Rightarrow> secret_approval option" where
  "decode_secret_approval j =
     do { fs \<leftarrow> wire_fields [(''id'', Required_Field), (''slug'', Required_Field), (''status'', Required_Field)] j;
          i \<leftarrow> wire_field fs ''id'' as_str;
          s \<leftarrow> wire_field fs ''slug'' as_str;
          st \<leftarrow> wire_field fs ''status'' as_str;
          Some \<lparr>sa_id = i, sa_slug = s, sa_status = st\<rparr> }"

definition mutation_metadata :: "secret_mutation_wire \<Rightarrow> secret_mutation_metadata" where
  "mutation_metadata s =
     \<lparr>mm_id = mw_id s, mm_name = mw_key s, mm_environment = mw_environment s, mm_version = mw_version s,
      mm_type = mw_type s, mm_created_at = mw_created_at s, mm_updated_at = mw_updated_at s\<rparr>"

text \<open>The untagged responses: the first variant that fits.\<close>

definition or_else :: "'a option \<Rightarrow> 'a option \<Rightarrow> 'a option" where
  "or_else x y = (case x of None \<Rightarrow> y | Some a \<Rightarrow> Some a)"

datatype secret_mutation_response =
  Wire_Applied secret_mutation_wire | Wire_Approval secret_approval

datatype secret_batch_mutation_response =
  Wire_Batch_Applied "secret_mutation_wire list" | Wire_Batch_Approval secret_approval

definition decode_approval_variant :: "json \<Rightarrow> secret_approval option" where
  "decode_approval_variant j =
     do { fs \<leftarrow> wire_fields [(''approval'', Required_Field)] j;
          wire_field fs ''approval'' decode_secret_approval }"

definition decode_secret_mutation_response :: "json \<Rightarrow> secret_mutation_response option" where
  "decode_secret_mutation_response j =
     or_else
       (do { fs \<leftarrow> wire_fields [(''secret'', Required_Field)] j;
             s \<leftarrow> wire_field fs ''secret'' decode_secret_mutation_wire;
             Some (Wire_Applied s) })
       (map_option Wire_Approval (decode_approval_variant j))"

definition decode_secret_batch_mutation_response :: "json \<Rightarrow> secret_batch_mutation_response option" where
  "decode_secret_batch_mutation_response j =
     or_else
       (do { fs \<leftarrow> wire_fields [(''secrets'', Required_Field)] j;
             s \<leftarrow> wire_field fs ''secrets'' (wire_list decode_secret_mutation_wire);
             Some (Wire_Batch_Applied s) })
       (map_option Wire_Batch_Approval (decode_approval_variant j))"

fun receipt_of :: "secret_mutation_response \<Rightarrow> secret_mutation_receipt" where
  "receipt_of (Wire_Applied s) = Applied (mutation_metadata s)"
| "receipt_of (Wire_Approval a) = Approval_Required a"

fun batch_receipt_of :: "secret_batch_mutation_response \<Rightarrow> secret_batch_mutation_receipt" where
  "batch_receipt_of (Wire_Batch_Applied ss) = Batch_Applied (map mutation_metadata ss)"
| "batch_receipt_of (Wire_Batch_Approval a) = Batch_Approval_Required a"

definition metadata_of_wire :: "secret_wire \<Rightarrow> secret_metadata" where
  "metadata_of_wire s =
     \<lparr>sd_id = sw_id s, sd_name = sw_key s, sd_environment = sw_environment s, sd_version = sw_version s,
      sd_type = sw_type s, sd_path = sw_path s, sd_value_hidden = sw_value_hidden s,
      sd_metadata = sw_metadata s, sd_tags = sw_tags s\<rparr>"

section \<open>Endpoints\<close>

definition secrets_endpoint :: endpoint where
  "secrets_endpoint = endpoint_from_static V4_Api ''secrets''"
definition secret_endpoint :: "string \<Rightarrow> endpoint" where
  "secret_endpoint name = endpoint_from_segments V4_Api [''secrets'', name]"
definition secrets_batch_endpoint :: endpoint where
  "secrets_batch_endpoint = endpoint_from_static V4_Api ''secrets/batch''"

section \<open>Operations\<close>

definition list_secret_metadata_filtered ::
    "api \<Rightarrow> secret_scope \<Rightarrow> page_request \<Rightarrow> string list \<Rightarrow> world
      \<Rightarrow> (resource_error, secret_metadata page) result \<times> world" where
  "list_secret_metadata_filtered ap scope page tags w =
     (if 16 < length tags then (resource ''InvalidSecretTagFilter'', w)
      else if card (set tags) \<noteq> length tags then (resource ''InvalidSecretTagFilter'', w)
      else
        case api_read ap secrets_endpoint (list_secret_metadata_query scope tags)
               decode_list_secret_metadata w of
          (Inl e, w) \<Rightarrow> (Inl e, w)
        | (Inr secrets, w) \<Rightarrow>
            (if set tags \<noteq> {}
                \<and> list_ex (\<lambda>s. \<not> list_ex (\<lambda>t. mt_slug t \<in> set tags) (sw_tags s)) secrets
             then resource ''InvalidSecretTagResponse''
             else map_err Pagination_Error (paginate page (map metadata_of_wire secrets)), w))"

definition list_secret_metadata ::
    "api \<Rightarrow> secret_scope \<Rightarrow> page_request \<Rightarrow> world
      \<Rightarrow> (resource_error, secret_metadata page) result \<times> world" where
  "list_secret_metadata ap scope page w = list_secret_metadata_filtered ap scope page [] w"

definition reveal_secret ::
    "api \<Rightarrow> secret_scope \<Rightarrow> string \<Rightarrow> world \<Rightarrow> (resource_error, revealed_secret) result \<times> world" where
  "reveal_secret ap scope name w =
     (case api_read ap (secret_endpoint name) (reveal_secret_query scope) decode_reveal_response w of
        (Inl e, w) \<Rightarrow> (Inl e, w)
      | (Inr secret, w) \<Rightarrow>
          (if rv_name secret \<noteq> name \<or> rv_environment secret \<noteq> scope_environment scope
              \<or> rv_path secret \<noteq> scope_path scope \<or> rv_type secret \<noteq> ''shared''
           then resource ''InvalidSecretResponse''
           else Ok secret, w))"

definition mutate_secret_value ::
    "http_method \<Rightarrow> api \<Rightarrow> secret_scope \<Rightarrow> string \<Rightarrow> string \<Rightarrow> world
      \<Rightarrow> (resource_error, secret_mutation_receipt) result \<times> world" where
  "mutate_secret_value meth ap scope name value w =
     apfst (map_sum id receipt_of)
       (api_mutate ap meth (secret_endpoint name) (secret_value_mutation_request scope value)
         decode_secret_mutation_response w)"

definition create_secret ::
    "api \<Rightarrow> secret_scope \<Rightarrow> string \<Rightarrow> string \<Rightarrow> world
      \<Rightarrow> (resource_error, secret_mutation_receipt) result \<times> world" where
  "create_secret = mutate_secret_value POST"

definition update_secret ::
    "api \<Rightarrow> secret_scope \<Rightarrow> string \<Rightarrow> string \<Rightarrow> world
      \<Rightarrow> (resource_error, secret_mutation_receipt) result \<times> world" where
  "update_secret = mutate_secret_value PATCH"

definition delete_secret ::
    "api \<Rightarrow> secret_scope \<Rightarrow> string \<Rightarrow> bool \<Rightarrow> world
      \<Rightarrow> (resource_error, secret_mutation_receipt) result \<times> world" where
  "delete_secret ap scope name confirm w =
     (if \<not> confirm then (resource ''DeletionNotConfirmed'', w)
      else
        apfst (map_sum id receipt_of)
          (api_mutate ap DELETE (secret_endpoint name) (delete_secret_request scope)
            decode_secret_mutation_response w))"

definition validate_secret_batch :: "string list \<Rightarrow> nat \<Rightarrow> (resource_error, unit) result" where
  "validate_secret_batch names n =
     (if n < 1 \<or> max_secret_batch_size < n then resource ''InvalidSecretBatchSize''
      else if \<not> distinct names then resource ''DuplicateSecretName''
      else Ok ())"

definition mutate_secret_batch ::
    "http_method \<Rightarrow> string option \<Rightarrow> api \<Rightarrow> secret_scope \<Rightarrow> secret_value_mutation list \<Rightarrow> world
      \<Rightarrow> (resource_error, secret_batch_mutation_receipt) result \<times> world" where
  "mutate_secret_batch meth mode ap scope secrets w =
     (case validate_secret_batch (map sm_name secrets) (length secrets) of
        Inl e \<Rightarrow> (Inl e, w)
      | Inr _ \<Rightarrow>
          apfst (map_sum id batch_receipt_of)
            (api_mutate ap meth secrets_batch_endpoint
              (batch_secret_value_mutation_request scope mode secrets)
              decode_secret_batch_mutation_response w))"

definition create_secrets_batch ::
    "api \<Rightarrow> secret_scope \<Rightarrow> secret_value_mutation list \<Rightarrow> world
      \<Rightarrow> (resource_error, secret_batch_mutation_receipt) result \<times> world" where
  "create_secrets_batch = mutate_secret_batch POST None"

definition update_secrets_batch ::
    "api \<Rightarrow> secret_scope \<Rightarrow> secret_value_mutation list \<Rightarrow> world
      \<Rightarrow> (resource_error, secret_batch_mutation_receipt) result \<times> world" where
  "update_secrets_batch = mutate_secret_batch PATCH (Some fail_on_not_found)"

definition delete_secrets_batch ::
    "api \<Rightarrow> secret_scope \<Rightarrow> string list \<Rightarrow> bool \<Rightarrow> world
      \<Rightarrow> (resource_error, secret_batch_mutation_receipt) result \<times> world" where
  "delete_secrets_batch ap scope names confirm w =
     (if \<not> confirm then (resource ''DeletionNotConfirmed'', w)
      else
        case validate_secret_batch names (length names) of
          Inl e \<Rightarrow> (Inl e, w)
        | Inr _ \<Rightarrow>
            apfst (map_sum id batch_receipt_of)
              (api_mutate ap DELETE secrets_batch_endpoint (batch_delete_secret_request scope names)
                decode_secret_batch_mutation_response w))"

section \<open>Endpoints and examples\<close>

lemma secret_endpoint_url:
  "name \<noteq> [] \<Longrightarrow> name \<noteq> ''.'' \<Longrightarrow> name \<noteq> ''..'' \<Longrightarrow>
     endpoint_url (secret_endpoint name) = Inr [''api'', ''v4'', ''secrets'', name]"
  by (simp add: secret_endpoint_def endpoint_from_segments_def endpoint_url_def endpoint_is_valid_def)

lemma secrets_endpoint_url: "endpoint_url secrets_endpoint = Inr [''api'', ''v4'', ''secrets'']"
  by code_simp

lemma secrets_batch_endpoint_url:
  "endpoint_url secrets_batch_endpoint = Inr [''api'', ''v4'', ''secrets'', ''batch'']"
  by code_simp

definition demo_scope :: secret_scope where
  "demo_scope = new_secret_scope ''p'' ''prod'' ''/app'' False"

definition demo_reveal :: json where
  "demo_reveal = Object [(''secret'', Object [(''id'', String ''1''), (''environment'', String ''prod''),
     (''version'', Number (Unsigned 3)), (''type'', String ''shared''), (''secretKey'', String ''KEY''),
     (''secretValue'', String ''v''), (''secretPath'', String ''/app'')])]"

definition demo_secret :: revealed_secret where
  "demo_secret = \<lparr>rv_id = ''1'', rv_name = ''KEY'', rv_environment = ''prod'', rv_version = 3,
     rv_type = ''shared'', rv_path = ''/app'', rv_value = ''v''\<rparr>"

lemma demo_reveal_decodes: "decode_reveal_response demo_reveal = Some demo_secret"
  by (simp add: decode_reveal_response_def decode_revealed_secret_def demo_reveal_def demo_secret_def
      wire_fields_def wire_field_def decode_usize_def)

section \<open>Revealing\<close>



section \<open>Listing\<close>

lemma list_query_value_free:
  "(''viewSecretValue'', ''false'') \<in> set (list_secret_metadata_query scope tags)
    \<and> (''viewSecretValue'', ''true'') \<notin> set (list_secret_metadata_query scope tags)"
  by (simp add: list_secret_metadata_query_def disabled_flag_def)

text \<open>
  C29: Listing secrets never asks for a value, and what it returns is the requested window of one
  complete reply. A tag filter of more than sixteen tags, or with a repeated one, is refused before
  anything is sent; otherwise every record returned under a filter carries one of its tags, and the
  metadata of a record does not depend on the value the server put in it.
\<close>

theorem metadata_listing_value_free:
  assumes "world_ok w" and "list_secret_metadata_filtered ap scope page tags w = (r, w')"
  shows "(if length tags \<le> 16 \<and> distinct tags
      then only_reads ap secrets_endpoint (list_secret_metadata_query scope tags) w w'
        \<and> (''viewSecretValue'', ''true'') \<notin> set (list_secret_metadata_query scope tags)
      else w' = w \<and> r = Err (Unit_Variant ''InvalidSecretTagFilter''))
    \<and> (\<forall>p. r = Ok p \<longrightarrow> (\<exists>secrets.
         answered w (read_body ap decode_list_secret_metadata) secrets
         \<and> page_items p = map metadata_of_wire
             (take (unat (request_limit page)) (drop (unat (req_offset page)) secrets))
         \<and> (tags \<noteq> [] \<longrightarrow> (\<forall>m \<in> set (page_items p). \<exists>t \<in> set (sd_tags m). mt_slug t \<in> set tags))
         \<and> (\<forall>v. map (\<lambda>s. metadata_of_wire (s\<lparr>sw_value := v\<rparr>)) secrets = map metadata_of_wire secrets)))"
proof (cases "length tags \<le> 16 \<and> distinct tags")
  case False
  then show ?thesis
    using assms(2) by (auto simp: list_secret_metadata_filtered_def distinct_card not_less
        dest: card_distinct split: if_splits)
next
  case True
  then have go: "\<not> 16 < length tags" "card (set tags) = length tags" by (auto simp: distinct_card)
  obtain r1 w1 where g: "api_read ap secrets_endpoint (list_secret_metadata_query scope tags)
      decode_list_secret_metadata w = (r1, w1)" by force
  have w': "w' = w1" using assms(2) g go by (auto simp: list_secret_metadata_filtered_def split: sum.splits)
  have log: "only_reads ap secrets_endpoint (list_secret_metadata_query scope tags) w w'"
    using api_read_log [OF assms(1) g] w' by simp
  moreover have "\<exists>secrets. answered w (read_body ap decode_list_secret_metadata) secrets
         \<and> page_items p = map metadata_of_wire
             (take (unat (request_limit page)) (drop (unat (req_offset page)) secrets))
         \<and> (tags \<noteq> [] \<longrightarrow> (\<forall>m \<in> set (page_items p). \<exists>t \<in> set (sd_tags m). mt_slug t \<in> set tags))
         \<and> (\<forall>v. map (\<lambda>s. metadata_of_wire (s\<lparr>sw_value := v\<rparr>)) secrets = map metadata_of_wire secrets)"
    if ok: "r = Ok p" for p
  proof -
    obtain secrets where s: "r1 = Inr secrets"
      using assms(2) g go ok by (cases r1) (auto simp: list_secret_metadata_filtered_def)
    then have pg: "paginate page (map metadata_of_wire secrets) = Ok p"
      and tg: "tags \<noteq> [] \<longrightarrow> (\<forall>s \<in> set secrets. \<exists>t \<in> set (sw_tags s). mt_slug t \<in> set tags)"
      using assms(2) g go ok s
      by (auto simp: list_secret_metadata_filtered_def list_ex_iff split: if_splits)
    have items: "page_items p = map metadata_of_wire
        (take (unat (request_limit page)) (drop (unat (req_offset page)) secrets))"
      using pg by (auto simp: paginate_def page_new_def Let_def take_map drop_map)
    moreover have "\<exists>t \<in> set (sd_tags m). mt_slug t \<in> set tags" if "tags \<noteq> []" "m \<in> set (page_items p)" for m
    proof -
      from that(2) items obtain x where "x \<in> set secrets" "m = metadata_of_wire x"
        by (auto dest!: in_set_takeD in_set_dropD)
      with tg that(1) show ?thesis by (auto simp: metadata_of_wire_def)
    qed
    ultimately show ?thesis
      using api_read_answered [OF g [unfolded s]] by (auto simp: metadata_of_wire_def)
  qed
  ultimately show ?thesis using True list_query_value_free by auto
qed

lemma metadata_listing_value_free_witness:
  "list_secret_metadata_filtered (demo_api Null) demo_scope first_request [''a'', ''a''] (settled_world ''{}'')
     = (Err (Unit_Variant ''InvalidSecretTagFilter''), settled_world ''{}'')"
  using metadata_listing_value_free [OF settled_ok, of "demo_api Null" demo_scope first_request "[''a'', ''a'']"]
  by (cases "list_secret_metadata_filtered (demo_api Null) demo_scope first_request [''a'', ''a''] (settled_world ''{}'')")
    auto

section \<open>Mutations\<close>

definition batch_ok :: "string list \<Rightarrow> bool" where
  "batch_ok names \<longleftrightarrow> names \<noteq> [] \<and> length names \<le> 50 \<and> distinct names"

lemma validate_secret_batch_Ok:
  "validate_secret_batch names (length names) = Ok () \<longleftrightarrow> batch_ok names"
  by (cases names) (auto simp: validate_secret_batch_def batch_ok_def max_secret_batch_size_def)

lemma validate_secret_batch_Err:
  "\<not> batch_ok names \<Longrightarrow> \<exists>e. validate_secret_batch names (length names) = Err e"
  by (cases "validate_secret_batch names (length names)") (auto simp flip: validate_secret_batch_Ok)

lemma mutate_log:
  "world_ok w \<Longrightarrow> apfst f (api_mutate ap meth ep body decode w) = (r, w') \<Longrightarrow>
     only_mutation ap meth ep body w w'"
  using api_mutate_log [of w ap meth ep body decode]
  by (cases "api_mutate ap meth ep body decode w") auto

lemma mutate_secret_batch_guarded:
  assumes "world_ok w"
  shows "case mutate_secret_batch meth mode ap scope secrets w of (r, w') \<Rightarrow>
      if batch_ok (map sm_name secrets)
      then only_mutation ap meth secrets_batch_endpoint (batch_secret_value_mutation_request scope mode secrets) w w'
      else w' = w \<and> isl r"
proof (cases "batch_ok (map sm_name secrets)")
  case True
  then have "validate_secret_batch (map sm_name secrets) (length secrets) = Ok ()"
    using validate_secret_batch_Ok [of "map sm_name secrets"] by simp
  then show ?thesis
    using True mutate_log [OF assms]
    by (auto simp: mutate_secret_batch_def split: prod.splits)
next
  case False
  then show ?thesis
    using validate_secret_batch_Err [OF False] by (auto simp: mutate_secret_batch_def)
qed



end
