(* ===== verification/Certificates.thy ===== *)
theory Certificates
  imports Rust_Prelude
begin

text \<open>
  PEM bundles and serial numbers: \<open>infisical-api/src/certificate.rs\<close>. PEM decoding, trust anchors
  and X.509 parsing are libraries: they are a parameter, as is URL parsing.
\<close>

section \<open>Libraries\<close>

text \<open>
  What the code reads of a parsed certificate; a failed extension lookup and a missing extension are
  both \<open>False\<close>, as every use treats them.
\<close>

record x509_certificate =
  xc_raw_serial :: string
  xc_basic_constraints_ca :: bool
  xc_key_cert_sign :: bool

record pki_library =
  pk_decode_pem :: "string \<Rightarrow> (string \<times> string) option"
  pk_trust_anchor :: "string \<Rightarrow> bool"
  pk_parse :: "string \<Rightarrow> (string \<times> x509_certificate) option"
  pk_url :: "string \<Rightarrow> bool"

section \<open>PEM text\<close>

definition normalize_pem :: "string \<Rightarrow> string option" where
  "normalize_pem value =
     (let normalized = (case strip_suffix [CHR 0x0D, CHR 0x0A] value of
                          Some v \<Rightarrow> v
                        | None \<Rightarrow> (case strip_suffix [CHR 0x0A] value of Some v \<Rightarrow> v | None \<Rightarrow> value))
      in if normalized \<noteq> [] \<and> str_trim normalized = normalized then Some normalized else None)"

definition pem_begin :: string where "pem_begin = ''-----BEGIN CERTIFICATE-----''"
definition pem_end :: string where "pem_end = ''-----END CERTIFICATE-----''"

text \<open>One line ending between two blocks.\<close>

definition strip_newline :: "string \<Rightarrow> string option" where
  "strip_newline s =
     (case strip_prefix [CHR 0x0D, CHR 0x0A] s of Some r \<Rightarrow> Some r | None \<Rightarrow> strip_prefix [CHR 0x0A] s)"

lemma strip_newline_shorter: "strip_newline s = Some r \<Longrightarrow> length r < length s"
  by (auto simp: strip_newline_def strip_prefix_Some split: option.splits)

lemma split_once_shorter: "split_once p s = Some (a, b) \<Longrightarrow> length b \<le> length s"
  using split_once_Some [of p s a b] by simp

text \<open>The first occurrence of the end marker closes a block.\<close>

function certificate_bundle_der :: "pki_library \<Rightarrow> string \<Rightarrow> string list option" where
  "certificate_bundle_der K value =
     (case strip_prefix pem_begin value of
        None \<Rightarrow> None
      | Some after_begin \<Rightarrow>
          (case split_once pem_end after_begin of
             None \<Rightarrow> None
           | Some (body, remaining) \<Rightarrow>
               (case pk_decode_pem K (pem_begin @ body @ pem_end) of
                  None \<Rightarrow> None
                | Some (label, der) \<Rightarrow>
                    if label \<noteq> ''CERTIFICATE'' then None
                    else if remaining = [] then Some [der]
                    else (case strip_newline remaining of
                            None \<Rightarrow> None
                          | Some rest \<Rightarrow> map_option (\<lambda>ders. der # ders) (certificate_bundle_der K rest)))))"
  by pat_completeness auto
termination
proof (relation "measure (length \<circ> snd)", goal_cases)
  case (2 K s ab a b c d)
  then show ?case
    by (auto simp: strip_prefix_Some dest!: strip_newline_shorter split_once_shorter)
qed simp

declare certificate_bundle_der.simps [simp del]

definition is_valid_ca_certificate_bundle :: "pki_library \<Rightarrow> string \<Rightarrow> bool" where
  "is_valid_ca_certificate_bundle K value \<longleftrightarrow>
     (case certificate_bundle_der K value of None \<Rightarrow> False | Some ders \<Rightarrow> list_all (pk_trust_anchor K) ders)"

definition is_valid_ca_signing_certificate_bundle :: "pki_library \<Rightarrow> string \<Rightarrow> bool" where
  "is_valid_ca_signing_certificate_bundle K value \<longleftrightarrow>
     (case certificate_bundle_der K value of
        None \<Rightarrow> False
      | Some ders \<Rightarrow>
          list_all (\<lambda>der. pk_trust_anchor K der
            \<and> (case pk_parse K der of
                 None \<Rightarrow> False
               | Some (remainder, c) \<Rightarrow>
                   remainder = [] \<and> xc_basic_constraints_ca c \<and> xc_key_cert_sign c)) ders)"

section \<open>Serial numbers\<close>

definition trim_zeros :: "string \<Rightarrow> string" where
  "trim_zeros s = (let t = dropWhile (\<lambda>c. c = CHR ''0'') s in if t = [] then ''0'' else t)"

definition certificate_serial_values_match :: "string \<Rightarrow> string \<Rightarrow> bool" where
  "certificate_serial_values_match left right = eq_ignore_ascii_case (trim_zeros left) (trim_zeros right)"

definition certificate_serial_matches :: "x509_certificate \<Rightarrow> string \<Rightarrow> bool" where
  "certificate_serial_matches c serial_number =
     certificate_serial_values_match (filter (\<lambda>b. b \<noteq> CHR '':'') (xc_raw_serial c)) serial_number"

end
