(* ===== verification/Api_Values.thy ===== *)
theory Api_Values
  imports Api_Wire
begin

text \<open>
  Two shapes of JSON that several API files read: a value kept as it is (\<open>serde_json::Value\<close>, whose
  objects are sorted maps that keep the last entry of a key), and an enum tagged by one of its
  fields. Further the \<open>u64\<close> of a total, and optional query fields.
\<close>

fun json_value :: "json \<Rightarrow> json"
  and json_values :: "json list \<Rightarrow> json list"
  and json_entries :: "(string \<times> json) list \<Rightarrow> (string \<times> json) list" where
  "json_value (Array xs) = Array (json_values xs)"
| "json_value (Object m) = object_of (json_entries m)"
| "json_value j = j"
| "json_values [] = []"
| "json_values (x # xs) = json_value x # json_values xs"
| "json_entries [] = []"
| "json_entries (e # m) = (case e of (k, v) \<Rightarrow> (k, json_value v) # json_entries m)"

text \<open>
  The tag of an internally tagged enum and what is left for its variant: the tag is taken out of an
  object, where a second one is refused, or is the first element of an array.
\<close>

definition tagged_by :: "string \<Rightarrow> json \<Rightarrow> (string \<times> json) option" where
  "tagged_by key j =
     (case j of
        Object m \<Rightarrow>
          (case filter (\<lambda>kv. fst kv = key) m of
             [(_, String t)] \<Rightarrow> Some (t, Object (filter (\<lambda>kv. fst kv \<noteq> key) m))
           | _ \<Rightarrow> None)
      | Array (String t # xs) \<Rightarrow> Some (t, Array xs)
      | _ \<Rightarrow> None)"

definition decode_u64 :: "json \<Rightarrow> nat option" where
  "decode_u64 j = (case j of Number (Unsigned n) \<Rightarrow> if n < 2 ^ 64 then Some n else None | _ \<Rightarrow> None)"

text \<open>A unit variant by its name, and its name.\<close>

definition variant_named :: "('a \<times> string) list \<Rightarrow> string \<Rightarrow> 'a option" where
  "variant_named names s = map_of (map (\<lambda>(v, n). (n, v)) names) s"
definition name_of_variant :: "('a \<times> string) list \<Rightarrow> 'a \<Rightarrow> string" where
  "name_of_variant names v = the (map_of names v)"

text \<open>\<open>i64::checked_sub\<close>.\<close>

definition checked_sub_i64 :: "int \<Rightarrow> int \<Rightarrow> int option" where
  "checked_sub_i64 a b = (let d = a - b in if - (2 ^ 63) \<le> d \<and> d < 2 ^ 63 then Some d else None)"

text \<open>
  Two things that are not code of the repository: the base64 crate, and how concurrent futures are
  scheduled - the order in which they complete, and whether a deadline has passed when a number of
  them has been taken.
\<close>

record base64_library =
  b64_decode :: "string \<Rightarrow> string option"
  b64_encode :: "string \<Rightarrow> string"

record preflight_schedule =
  sc_order :: "nat \<Rightarrow> nat list"
  sc_expired :: "nat \<Rightarrow> bool"

definition query_option :: "string \<Rightarrow> string option \<Rightarrow> (string \<times> string) list" where
  "query_option k v = (case v of None \<Rightarrow> [] | Some x \<Rightarrow> [(k, x)])"

text \<open>A field of a value kept is the last entry with its name.\<close>

lemma json_entries_map: "json_entries m = map (\<lambda>(k, v). (k, json_value v)) m"
  by (induction m) auto

lemma json_get_json_value:
  "json_get k (json_value (Object m)) = map_option json_value (map_of (rev m) k)"
proof -
  have "map_of (rev (json_entries m)) k = map_option json_value (map_of (rev m) k)"
    by (induction m) (auto simp: json_entries_map rev_map map_of_map [symmetric] map_add_def split: option.splits)
  then show ?thesis by (simp add: json_get_object_of)
qed

end
