(* ===== verification/Tool_Support.thy ===== *)
theory Tool_Support
  imports Result_Delivery Secrets_Api Certificates Api_Values
begin

text \<open>
  What the tool handlers of \<open>infisical-mcp/src/tools.rs\<close> share: argument structs, input errors,
  delivery of revealed material, and the shaping of upstream results. A handler threads the file
  plane and the client's world; the clock at its reservation, redemption and staging, the token it
  stages under, the certificate libraries, and the rendering of results are parameters.
\<close>

section \<open>Input errors\<close>

primrec resource_input_error_text :: "resource_input_error \<Rightarrow> string" where
  "resource_input_error_text Invalid_Project_Id =
     ''project ID must contain 1 to 128 ASCII letters, numbers, hyphens, or ''
     @ ''underscores''"
| "resource_input_error_text Invalid_Secret_Import_Id =
     ''secret import ID must contain 1 to 128 ASCII letters, numbers, ''
     @ ''hyphens, or underscores''"
| "resource_input_error_text Invalid_Secret_Import_Position =
     ''secret import position must be between 1 and 100000''"
| "resource_input_error_text Invalid_Environment_Id =
     ''environment ID must contain 1 to 128 ASCII letters, numbers, hyphens, ''
     @ ''or underscores''"
| "resource_input_error_text Invalid_Folder_Id =
     ''folder ID must contain 1 to 128 ASCII letters, numbers, hyphens, or ''
     @ ''underscores''"
| "resource_input_error_text Invalid_Tag_Id =
     ''tag ID must contain 1 to 128 ASCII letters, numbers, hyphens, or ''
     @ ''underscores''"
| "resource_input_error_text Invalid_Organization_Id =
     ''organization ID must contain 1 to 128 ASCII letters, numbers, ''
     @ ''hyphens, or underscores''"
| "resource_input_error_text Invalid_Identity_Id =
     ''machine identity ID must contain 1 to 128 ASCII letters, numbers, ''
     @ ''hyphens, or underscores''"
| "resource_input_error_text Invalid_Group_Id =
     ''group ID must contain 1 to 128 ASCII letters, numbers, hyphens, or ''
     @ ''underscores''"
| "resource_input_error_text Invalid_Additional_Privilege_Id =
     ''additional privilege ID must contain 1 to 128 ASCII letters, numbers, ''
     @ ''hyphens, or underscores''"
| "resource_input_error_text Invalid_Project_Membership_Id =
     ''project membership ID must contain 1 to 128 ASCII letters, numbers, ''
     @ ''hyphens, or underscores''"
| "resource_input_error_text Invalid_Universal_Auth_Client_Secret_Id =
     ''Universal Auth client-secret ID must contain 1 to 128 ASCII letters, ''
     @ ''numbers, hyphens, or underscores''"
| "resource_input_error_text Invalid_Token_Auth_Token_Id =
     ''Token Auth access-token ID must contain 1 to 128 ASCII letters, ''
     @ ''numbers, hyphens, or underscores''"
| "resource_input_error_text Invalid_Identity_Name =
     ''machine identity name must contain 1 to 128 bytes without surrounding ''
     @ ''whitespace or control characters''"
| "resource_input_error_text Invalid_Project_Name =
     ''project name must contain 1 to 64 bytes without surrounding ''
     @ ''whitespace or control characters''"
| "resource_input_error_text Invalid_Project_Description =
     ''project description must contain at most 1024 bytes without ''
     @ ''surrounding whitespace or control characters''"
| "resource_input_error_text Invalid_New_Project_Slug =
     ''project slug must contain 5 to 36 lowercase letters or numbers ''
     @ ''separated by single hyphens or underscores''"
| "resource_input_error_text Invalid_Project_Slug =
     ''project slug must contain 1 to 64 lowercase letters or numbers ''
     @ ''separated by single hyphens or underscores''"
| "resource_input_error_text Invalid_Environment_Name =
     ''environment name must contain 1 to 64 bytes without surrounding ''
     @ ''whitespace or control characters''"
| "resource_input_error_text Invalid_Folder_Name =
     ''folder name must contain 1 to 255 ASCII letters, numbers, hyphens, or ''
     @ ''underscores''"
| "resource_input_error_text Invalid_Folder_Description =
     ''folder description must contain at most 1024 bytes without ''
     @ ''surrounding whitespace or control characters''"
| "resource_input_error_text Invalid_Tag_Slug =
     ''tag slug must contain 1 to 64 lowercase letters or numbers separated ''
     @ ''by single hyphens''"
| "resource_input_error_text Invalid_Tag_Color =
     ''tag color must contain at most 32 bytes without surrounding ''
     @ ''whitespace or control characters''"
| "resource_input_error_text Invalid_Environment_Position =
     ''environment position must be between 1 and 100000''"
| "resource_input_error_text Invalid_Point_In_Time_Version_Limit =
     ''point-in-time version limit must be between 1 and 100''"
| "resource_input_error_text Invalid_Environment_Slug =
     ''environment slug must contain 1 to 64 lowercase letters or numbers ''
     @ ''separated by hyphens''"
| "resource_input_error_text Invalid_Secret_Path =
     ''secret path must be an absolute normalized path of at most 2048 bytes''"
| "resource_input_error_text Invalid_Secret_Name =
     ''secret name must contain 1 to 512 bytes without control characters, ''
     @ '''/', ':', surrounding whitespace, or dot segments''"

definition invalid_input :: "resource_input_error \<Rightarrow> mcp_error" where
  "invalid_input e = invalid_params (resource_input_error_text e) None"

definition page_request_of :: "nat \<Rightarrow> nat \<Rightarrow> (mcp_error, page_request) result" where
  "page_request_of offset limit =
     map_err (\<lambda>e. invalid_params (pagination_error_text e) None)
       (page_request_new (of_nat offset) (of_nat limit))"

definition default_page_limit :: nat where "default_page_limit = 50"

section \<open>Argument structs\<close>

text \<open>A derived struct that denies unknown fields; like any struct it may also be an array.\<close>

definition strict_fields :: "(string \<times> presence) list \<Rightarrow> json \<Rightarrow> (string \<rightharpoonup> json) option" where
  "strict_fields spec j =
     (case j of
        Object m \<Rightarrow> if fst ` set m \<subseteq> fst ` set spec then wire_fields spec j else None
      | _ \<Rightarrow> wire_fields spec j)"

record scope_page_input =
  sp_project_id :: string
  sp_environment :: string
  sp_path :: string
  sp_recursive :: bool
  sp_offset :: nat
  sp_limit :: nat

definition scope_page_parts :: "scope_page_input \<Rightarrow> (mcp_error, secret_scope \<times> page_request) result" where
  "scope_page_parts i =
     and_then (map_err invalid_input (new_project_id (sp_project_id i))) (\<lambda>project_id.
     and_then (map_err invalid_input (new_environment_slug (sp_environment i))) (\<lambda>environment.
     and_then (map_err invalid_input (new_secret_path (sp_path i))) (\<lambda>path.
     and_then (page_request_of (sp_offset i) (sp_limit i)) (\<lambda>page.
       Ok (new_secret_scope project_id environment path (sp_recursive i), page)))))"

section \<open>Handlers\<close>

type_synonym tool_state = "plane option \<times> world"

record tool_env =
  te_api :: api
  te_structured :: "json \<Rightarrow> call_tool_result"
  te_correction :: correction
  te_pki :: pki_library
  te_base64 :: base64_library
  te_preflights :: preflight_schedule
  te_writer :: "string \<Rightarrow> json \<Rightarrow> string \<Rightarrow> string list option"
  te_fill :: "nat \<Rightarrow> string"
  te_ident :: string
  te_reserve_at :: nat
  te_take_at :: nat
  te_stage_at :: nat

text \<open>The answer of a handler with the state it leaves, or \<open>None\<close> for a panic.\<close>

type_synonym tool_outcome = "((mcp_error, call_tool_result) result \<times> tool_state) option"

text \<open>
  \<open>from_resource\<close> covers every variant, so the error of an operation always has an execution error.
\<close>

definition upstream_failure :: "tool_env \<Rightarrow> resource_error \<Rightarrow> call_tool_result" where
  "upstream_failure E e = into_result (te_structured E) (the (from_resource e))"

definition tool_result ::
    "tool_env \<Rightarrow> ('a \<Rightarrow> json) \<Rightarrow> (resource_error, 'a) result \<Rightarrow> (mcp_error, call_tool_result) result" where
  "tool_result E to_json r =
     (case r of
        Inr output \<Rightarrow> Ok (te_structured E (to_json output))
      | Inl e \<Rightarrow> Ok (upstream_failure E e))"

definition collection_result ::
    "tool_env \<Rightarrow> ('a \<Rightarrow> json) \<Rightarrow> string \<Rightarrow> (resource_error, 'a) result
      \<Rightarrow> (mcp_error, call_tool_result) result" where
  "collection_result E to_json bound r =
     (case r of
        Inl (Client_Error (Response_Too_Large _)) \<Rightarrow>
          Ok (into_result (te_structured E)
            (execution_error_new Capacity_Failure Effect_Unknown Correct_Request
              (''The upstream collection exceeded the response-size bound. '' @ bound)))
      | _ \<Rightarrow> tool_result E to_json r)"

text \<open>An upstream call that leaves the plane alone.\<close>

definition upstream_call ::
    "tool_env \<Rightarrow> ((resource_error, 'a) result \<Rightarrow> (mcp_error, call_tool_result) result)
      \<Rightarrow> (api \<Rightarrow> world \<Rightarrow> (resource_error, 'a) result \<times> world) \<Rightarrow> tool_state \<Rightarrow> tool_outcome" where
  "upstream_call E finish call s =
     (case call (te_api E) (snd s) of (r, w) \<Rightarrow> Some (finish r, (fst s, w)))"

text \<open>A confirmation checked by the handler itself.\<close>

definition unless_confirmed :: "bool \<Rightarrow> string \<Rightarrow> (tool_state \<Rightarrow> tool_outcome) \<Rightarrow> tool_state \<Rightarrow> tool_outcome" where
  "unless_confirmed confirmed message body s =
     (if \<not> confirmed then Some (Err (invalid_params message None), s) else body s)"

section \<open>Delivery of revealed material\<close>

datatype secret_delivery_mode = Reference_Delivery | Inline_Value

definition secret_delivery_variant :: "string \<Rightarrow> secret_delivery_mode option" where
  "secret_delivery_variant s =
     (if s = ''reference'' then Some Reference_Delivery
      else if s = ''inlineValue'' then Some Inline_Value else None)"

datatype secret_disposition = Inline_Disposition | Reference_Disposition reservation

definition resolve_delivery ::
    "nat \<Rightarrow> plane option \<Rightarrow> secret_delivery_mode option
      \<Rightarrow> (mcp_error, secret_disposition) result \<times> plane option" where
  "resolve_delivery now files requested =
     (case files of
        Some pl \<Rightarrow>
          if requested = Some Inline_Value then (Ok Inline_Disposition, files)
          else
            (case reserve now pl of
               (Inl e, pl') \<Rightarrow> (Err (capacity_before_execution e), Some pl')
             | (Inr slot, pl') \<Rightarrow> (Ok (Reference_Disposition slot), Some pl'))
      | None \<Rightarrow>
          if requested = Some Reference_Delivery
          then (Err (invalid_params
                 (''delivery '' @ [CHR 0x22] @ ''reference'' @ [CHR 0x22]
                  @ '' requires the reveal transfer plane, which this deployment ''
                  @ ''does not configure; omit delivery to receive the value inline'') None), None)
          else (Ok Inline_Disposition, None))"

text \<open>A disposition that is not consumed gives its slot back.\<close>

definition drop_disposition :: "secret_disposition \<Rightarrow> plane option \<Rightarrow> plane option" where
  "drop_disposition d files =
     (case d of Inline_Disposition \<Rightarrow> files | Reference_Disposition slot \<Rightarrow> map_option (drop_slot slot) files)"

definition stage_disposition ::
    "tool_env \<Rightarrow> string \<Rightarrow> json \<Rightarrow> secret_disposition \<Rightarrow> plane option
      \<Rightarrow> ((mcp_error, secret_file_reference option) result \<times> plane option) option" where
  "stage_disposition E operation data d files =
     (case d of
        Inline_Disposition \<Rightarrow> Some (Ok None, files)
      | Reference_Disposition slot \<Rightarrow>
          (case files of
             None \<Rightarrow> None
           | Some pl \<Rightarrow>
               (case secret_envelope (te_writer E) (te_fill E) operation data of
                  None \<Rightarrow> Some (Err (internal_error ''serialize the secret envelope'' None),
                            Some (drop_slot slot pl))
                | Some envelope \<Rightarrow>
                    (case stage (te_stage_at E) (te_ident E) slot operation envelope pl of
                       None \<Rightarrow> None
                     | Some (file, pl') \<Rightarrow> Some (Ok (Some file), Some pl')))))"

text \<open>
  \<open>delivered_result\<close>: a success is built from the disposition, a failure drops it. The builder
  yields what may panic, an error, or the output.
\<close>

definition delivered_result ::
    "tool_env \<Rightarrow> secret_disposition \<Rightarrow> (resource_error, 'a) result
      \<Rightarrow> ('a \<Rightarrow> secret_disposition \<Rightarrow> plane option \<Rightarrow> ((mcp_error, json) result \<times> plane option) option)
      \<Rightarrow> tool_state \<Rightarrow> tool_outcome" where
  "delivered_result E d r build s =
     (case r of
        Inl e \<Rightarrow> Some (Ok (upstream_failure E e), (drop_disposition d (fst s), snd s))
      | Inr v \<Rightarrow>
          (case build v d (fst s) of
             None \<Rightarrow> None
           | Some (output, files) \<Rightarrow>
               Some (and_then output (\<lambda>j. Ok (te_structured E j)), (files, snd s))))"

text \<open>
  The outputs of revealing operations are made alike: the material is staged or not, and the output
  then carries the reference or the material.
\<close>

definition staged_output ::
    "tool_env \<Rightarrow> string \<Rightarrow> json \<Rightarrow> (secret_file_reference option \<Rightarrow> json) \<Rightarrow> secret_disposition \<Rightarrow> plane option
      \<Rightarrow> ((mcp_error, json) result \<times> plane option) option" where
  "staged_output E operation data output d files =
     map_option (\<lambda>(file, files). (and_then file (\<lambda>f. Ok (output f)), files))
       (stage_disposition E operation data d files)"

text \<open>
  The handlers of these operations: the disposition is resolved before the arguments are validated,
  and dropped with its slot when they are refused.
\<close>

definition with_delivery ::
    "tool_env \<Rightarrow> secret_delivery_mode option \<Rightarrow> (mcp_error, 'p) result
      \<Rightarrow> (api \<Rightarrow> 'p \<Rightarrow> world \<Rightarrow> (resource_error, 'a) result \<times> world)
      \<Rightarrow> ('a \<Rightarrow> secret_disposition \<Rightarrow> plane option \<Rightarrow> ((mcp_error, json) result \<times> plane option) option)
      \<Rightarrow> tool_state \<Rightarrow> tool_outcome" where
  "with_delivery E delivery parts call build s =
     (case resolve_delivery (te_reserve_at E) (fst s) delivery of
        (Inl e, files) \<Rightarrow> Some (Err e, (files, snd s))
      | (Inr d, files) \<Rightarrow>
          (case parts of
             Inl e \<Rightarrow> Some (Err e, (drop_disposition d files, snd s))
           | Inr x \<Rightarrow>
               (case call (te_api E) x (snd s) of
                  (r, w) \<Rightarrow> delivered_result E d r build (files, w))))"

section \<open>Uploaded values\<close>

definition from_utf8 :: "string \<Rightarrow> string option" where
  "from_utf8 bytes =
     (if list_all is_scalar_value (str_chars bytes) \<and> encode_chars (str_chars bytes) = bytes
      then Some bytes else None)"

lemma from_utf8_iff:
  "from_utf8 b = Some s \<longleftrightarrow> s = b \<and> (\<exists>cs. list_all is_scalar_value cs \<and> b = encode_chars cs)"
  by (auto simp: from_utf8_def str_chars_encode_chars intro: exI [of _ "str_chars b"])

text \<open>A bare URI, or an object whose \<open>uri\<close> is one; the last \<open>uri\<close> counts, other members are ignored.\<close>

definition decode_secret_file_input :: "json \<Rightarrow> string option" where
  "decode_secret_file_input j =
     (case j of
        String uri \<Rightarrow> Some uri
      | Object m \<Rightarrow>
          if list_all (\<lambda>(k, v). k = ''uri'' \<longrightarrow> as_str v \<noteq> None) m
          then Option.bind (map_of (rev m) ''uri'') as_str else None
      | _ \<Rightarrow> None)"

definition resolve_secret_value ::
    "nat \<Rightarrow> plane option \<Rightarrow> string option \<Rightarrow> string option
      \<Rightarrow> (mcp_error, string) result \<times> plane option" where
  "resolve_secret_value now files inline file =
     (case (inline, file) of
        (Some v, None) \<Rightarrow> (Ok v, files)
      | (None, Some reference) \<Rightarrow>
          (case files of
             None \<Rightarrow>
               (Err (invalid_params
                 (''secretValueFile requires the transfer plane, which this deployment does '' @
                  ''                     not configure; send secretValue instead'') None), None)
           | Some pl \<Rightarrow>
               (case take_received now reference pl of
                  (None, pl') \<Rightarrow>
                    (Err (invalid_params ''no uploaded secret value matches that reference'' None), Some pl')
                | (Some bytes, pl') \<Rightarrow>
                    (ok_or (invalid_params ''an uploaded secret value must be UTF-8 text'' None)
                       (from_utf8 bytes), Some pl')))
      | _ \<Rightarrow> (Err (invalid_params ''provide exactly one of secretValue and secretValueFile'' None), files))"

definition resolve_uploaded_secret ::
    "nat \<Rightarrow> plane option \<Rightarrow> string \<Rightarrow> string \<Rightarrow> (mcp_error, string) result \<times> plane option" where
  "resolve_uploaded_secret now files reference field =
     (case files of
        None \<Rightarrow>
          (Err (invalid_params
            (field @ '' requires the upload transfer plane configured by this deployment'') None), None)
      | Some pl \<Rightarrow>
          (case take_received now reference pl of
             (None, pl') \<Rightarrow> (Err (invalid_params (''no uploaded value matches '' @ field) None), Some pl')
           | (Some bytes, pl') \<Rightarrow>
               (ok_or (invalid_params (field @ '' must contain UTF-8 text'') None) (from_utf8 bytes),
                Some pl')))"

section \<open>Pages\<close>

definition unsigned :: "nat \<Rightarrow> json" where "unsigned n = Number (Unsigned n)"

definition option_json :: "('a \<Rightarrow> json) \<Rightarrow> 'a option \<Rightarrow> json" where
  "option_json f x = (case x of None \<Rightarrow> Null | Some v \<Rightarrow> f v)"

definition page_request_json :: "page_request \<Rightarrow> json" where
  "page_request_json r =
     object_of [(''offset'', unsigned (unat (req_offset r))), (''limit'', unsigned (unat (req_limit r)))]"

definition page_json :: "('a \<Rightarrow> json) \<Rightarrow> 'a page \<Rightarrow> json" where
  "page_json item p =
     object_of
       [(''items'', Array (map item (page_items p))),
        (''next'', option_json page_request_json (page_next p)),
        (''total'', option_json (\<lambda>n. unsigned (unat n)) (page_total p)),
        (''requestedLimit'', unsigned (unat (page_requested_limit p))),
        (''effectiveLimit'', unsigned (unat (page_effective_limit p))),
        (''returned'', unsigned (unat (page_returned p)))]"

end
