(* ===== verification/Secrets_Tools.thy ===== *)
theory Secrets_Tools
  imports Tool_Support
begin

text \<open>
  The secret tools of \<open>infisical-mcp/src/tools.rs\<close>: their argument structs, outputs and handlers
  (\<open>dispatch_secret_metadata_list\<close>, \<open>dispatch_secret_workflow\<close>), with the projection of
  \<open>projections.rs\<close>. Secret imports, where the second falls through to, are a parameter here.
\<close>

section \<open>Arguments\<close>

record secret_target_input =
  ti_project_id :: string
  ti_environment :: string
  ti_path :: string
  ti_name :: string

definition decode_secret_target :: "json \<Rightarrow> secret_target_input option" where
  "decode_secret_target j =
     do { fs \<leftarrow> strict_fields [(''projectId'', Required_Field), (''environment'', Required_Field),
                            (''path'', Required_Field), (''name'', Required_Field)] j;
          p \<leftarrow> wire_field fs ''projectId'' as_str;
          e \<leftarrow> wire_field fs ''environment'' as_str;
          path \<leftarrow> wire_field fs ''path'' as_str;
          n \<leftarrow> wire_field fs ''name'' as_str;
          Some \<lparr>ti_project_id = p, ti_environment = e, ti_path = path, ti_name = n\<rparr> }"

definition secret_target_parts :: "secret_target_input \<Rightarrow> (mcp_error, secret_scope \<times> string) result" where
  "secret_target_parts i =
     and_then (map_err invalid_input (new_project_id (ti_project_id i))) (\<lambda>project_id.
     and_then (map_err invalid_input (new_environment_slug (ti_environment i))) (\<lambda>environment.
     and_then (map_err invalid_input (new_secret_path (ti_path i))) (\<lambda>path.
     and_then (map_err invalid_input (new_secret_name (ti_name i))) (\<lambda>name.
       Ok (new_secret_scope project_id environment path False, name)))))"

record secret_target_only_input =
  to_target :: secret_target_input
  to_delivery :: "secret_delivery_mode option"

definition decode_secret_target_only :: "(string \<times> json) list \<Rightarrow> secret_target_only_input option" where
  "decode_secret_target_only m =
     do { fs \<leftarrow> strict_fields [(''target'', Required_Field), (''delivery'', Default_Field)] (Object m);
          t \<leftarrow> wire_field fs ''target'' decode_secret_target;
          d \<leftarrow> wire_option fs ''delivery'' (decode_variant secret_delivery_variant);
          Some \<lparr>to_target = t, to_delivery = d\<rparr> }"

record secret_value_mutation_input =
  vi_target :: secret_target_input
  vi_secret_value :: "string option"
  vi_secret_value_file :: "string option"

definition decode_secret_value_mutation :: "(string \<times> json) list \<Rightarrow> secret_value_mutation_input option" where
  "decode_secret_value_mutation m =
     do { fs \<leftarrow> strict_fields [(''target'', Required_Field), (''secretValue'', Default_Field),
                            (''secretValueFile'', Default_Field)] (Object m);
          t \<leftarrow> wire_field fs ''target'' decode_secret_target;
          v \<leftarrow> wire_option fs ''secretValue'' as_str;
          f \<leftarrow> wire_option fs ''secretValueFile'' decode_secret_file_input;
          Some \<lparr>vi_target = t, vi_secret_value = v, vi_secret_value_file = f\<rparr> }"

definition secret_value_mutation_parts ::
    "nat \<Rightarrow> plane option \<Rightarrow> secret_value_mutation_input
      \<Rightarrow> (mcp_error, secret_scope \<times> string \<times> string) result \<times> plane option" where
  "secret_value_mutation_parts now files i =
     (case secret_target_parts (vi_target i) of
        Inl e \<Rightarrow> (Inl e, files)
      | Inr (scope, name) \<Rightarrow>
          (case resolve_secret_value now files (vi_secret_value i) (vi_secret_value_file i) of
             (Inl e, files) \<Rightarrow> (Inl e, files)
           | (Inr v, files) \<Rightarrow> (Inr (scope, name, v), files)))"

record secret_delete_input =
  di_target :: secret_target_input
  di_confirm :: bool

definition decode_secret_delete :: "(string \<times> json) list \<Rightarrow> secret_delete_input option" where
  "decode_secret_delete m =
     do { fs \<leftarrow> strict_fields [(''target'', Required_Field), (''confirm'', Required_Field)] (Object m);
          t \<leftarrow> wire_field fs ''target'' decode_secret_target;
          c \<leftarrow> wire_field fs ''confirm'' decode_bool;
          Some \<lparr>di_target = t, di_confirm = c\<rparr> }"

definition secret_delete_parts :: "secret_delete_input \<Rightarrow> (mcp_error, secret_scope \<times> string) result" where
  "secret_delete_parts i =
     and_then (secret_target_parts (di_target i)) (\<lambda>target.
       if \<not> di_confirm i
       then Err (invalid_params ''confirm must be true to delete the exact secret target'' None)
       else Ok target)"

record exact_secret_scope_input =
  ei_project_id :: string
  ei_environment :: string
  ei_path :: string

definition decode_exact_secret_scope :: "json \<Rightarrow> exact_secret_scope_input option" where
  "decode_exact_secret_scope j =
     do { fs \<leftarrow> strict_fields [(''projectId'', Required_Field), (''environment'', Required_Field),
                            (''path'', Required_Field)] j;
          p \<leftarrow> wire_field fs ''projectId'' as_str;
          e \<leftarrow> wire_field fs ''environment'' as_str;
          path \<leftarrow> wire_field fs ''path'' as_str;
          Some \<lparr>ei_project_id = p, ei_environment = e, ei_path = path\<rparr> }"

definition exact_secret_scope :: "exact_secret_scope_input \<Rightarrow> (mcp_error, secret_scope) result" where
  "exact_secret_scope i =
     and_then (map_err invalid_input (new_project_id (ei_project_id i))) (\<lambda>project_id.
     and_then (map_err invalid_input (new_environment_slug (ei_environment i))) (\<lambda>environment.
     and_then (map_err invalid_input (new_secret_path (ei_path i))) (\<lambda>path.
       Ok (new_secret_scope project_id environment path False))))"

definition decode_secret_batch_value :: "json \<Rightarrow> secret_value_mutation option" where
  "decode_secret_batch_value j =
     do { fs \<leftarrow> strict_fields [(''name'', Required_Field), (''secretValue'', Required_Field)] j;
          n \<leftarrow> wire_field fs ''name'' as_str;
          v \<leftarrow> wire_field fs ''secretValue'' as_str;
          Some \<lparr>sm_name = n, sm_value = v\<rparr> }"

record secret_batch_value_mutation_input =
  bv_scope :: exact_secret_scope_input
  bv_secrets :: "secret_value_mutation list"

definition decode_secret_batch_value_mutation ::
    "(string \<times> json) list \<Rightarrow> secret_batch_value_mutation_input option" where
  "decode_secret_batch_value_mutation m =
     do { fs \<leftarrow> strict_fields [(''scope'', Required_Field), (''secrets'', Required_Field)] (Object m);
          s \<leftarrow> wire_field fs ''scope'' decode_exact_secret_scope;
          xs \<leftarrow> wire_field fs ''secrets'' (wire_list decode_secret_batch_value);
          Some \<lparr>bv_scope = s, bv_secrets = xs\<rparr> }"

definition batch_value_parts ::
    "secret_batch_value_mutation_input \<Rightarrow> (mcp_error, secret_scope \<times> secret_value_mutation list) result" where
  "batch_value_parts i =
     and_then (exact_secret_scope (bv_scope i)) (\<lambda>scope.
     and_then (traverse (\<lambda>s. and_then (map_err invalid_input (new_secret_name (sm_name s)))
         (\<lambda>name. Ok \<lparr>sm_name = name, sm_value = sm_value s\<rparr>)) (bv_secrets i)) (\<lambda>secrets.
       Ok (scope, secrets)))"

record secret_batch_delete_input =
  bd_scope :: exact_secret_scope_input
  bd_names :: "string list"
  bd_confirm :: bool

definition decode_secret_batch_delete :: "(string \<times> json) list \<Rightarrow> secret_batch_delete_input option" where
  "decode_secret_batch_delete m =
     do { fs \<leftarrow> strict_fields [(''scope'', Required_Field), (''names'', Required_Field),
                            (''confirm'', Required_Field)] (Object m);
          s \<leftarrow> wire_field fs ''scope'' decode_exact_secret_scope;
          ns \<leftarrow> wire_field fs ''names'' (wire_list as_str);
          c \<leftarrow> wire_field fs ''confirm'' decode_bool;
          Some \<lparr>bd_scope = s, bd_names = ns, bd_confirm = c\<rparr> }"

definition batch_delete_parts ::
    "secret_batch_delete_input \<Rightarrow> (mcp_error, secret_scope \<times> string list) result" where
  "batch_delete_parts i =
     (if \<not> bd_confirm i
      then Err (invalid_params ''confirm must be true to delete the exact secret batch'' None)
      else
        and_then (exact_secret_scope (bd_scope i)) (\<lambda>scope.
        and_then (traverse (\<lambda>n. map_err invalid_input (new_secret_name n)) (bd_names i)) (\<lambda>names.
          Ok (scope, names))))"

record secret_metadata_list_input =
  ml_scope :: scope_page_input
  ml_tag_slugs :: "string list"
  ml_include_metadata :: bool
  ml_include_tags :: bool

definition decode_secret_metadata_list :: "(string \<times> json) list \<Rightarrow> secret_metadata_list_input option" where
  "decode_secret_metadata_list m =
     do { fs \<leftarrow> strict_fields [(''projectId'', Required_Field), (''environment'', Required_Field),
            (''path'', Required_Field), (''recursive'', Default_Field), (''offset'', Default_Field),
            (''limit'', Default_Field), (''tagSlugs'', Default_Field), (''includeMetadata'', Default_Field),
            (''includeTags'', Default_Field)] (Object m);
          p \<leftarrow> wire_field fs ''projectId'' as_str;
          e \<leftarrow> wire_field fs ''environment'' as_str;
          path \<leftarrow> wire_field fs ''path'' as_str;
          r \<leftarrow> wire_default fs ''recursive'' False decode_bool;
          off \<leftarrow> wire_default fs ''offset'' 0 decode_u32;
          l \<leftarrow> wire_default fs ''limit'' default_page_limit decode_usize;
          ts \<leftarrow> wire_default fs ''tagSlugs'' [] (wire_list as_str);
          im \<leftarrow> wire_default fs ''includeMetadata'' False decode_bool;
          it \<leftarrow> wire_default fs ''includeTags'' False decode_bool;
          Some \<lparr>ml_scope = \<lparr>sp_project_id = p, sp_environment = e, sp_path = path, sp_recursive = r,
                   sp_offset = off, sp_limit = l\<rparr>,
                ml_tag_slugs = ts, ml_include_metadata = im, ml_include_tags = it\<rparr> }"

section \<open>Outputs\<close>

record secret_metadata_summary =
  su_id :: string
  su_name :: string
  su_environment :: string
  su_version :: nat
  su_type :: string
  su_path :: "string option"
  su_value_hidden :: bool
  su_metadata :: "secret_metadata_entry list option"
  su_tags :: "secret_metadata_tag list option"

definition project_secret :: "bool \<Rightarrow> bool \<Rightarrow> secret_metadata \<Rightarrow> secret_metadata_summary" where
  "project_secret metadata tags s =
     \<lparr>su_id = sd_id s, su_name = sd_name s, su_environment = sd_environment s, su_version = sd_version s,
      su_type = sd_type s, su_path = sd_path s, su_value_hidden = sd_value_hidden s,
      su_metadata = (if metadata then Some (sd_metadata s) else None),
      su_tags = (if tags then Some (sd_tags s) else None)\<rparr>"

definition project_secrets :: "bool \<Rightarrow> bool \<Rightarrow> secret_metadata page \<Rightarrow> secret_metadata_summary page" where
  "project_secrets metadata tags p =
     \<lparr>page_items = map (project_secret metadata tags) (page_items p), page_next = page_next p,
      page_total = page_total p, page_requested_limit = page_requested_limit p,
      page_effective_limit = page_effective_limit p, page_returned = page_returned p\<rparr>"

definition metadata_entry_json :: "secret_metadata_entry \<Rightarrow> json" where
  "metadata_entry_json e =
     object_of [(''key'', String (me_key e)), (''value'', String (me_value e)),
                (''isEncrypted'', Bool (me_is_encrypted e))]"

definition metadata_tag_json :: "secret_metadata_tag \<Rightarrow> json" where
  "metadata_tag_json t =
     object_of [(''id'', String (mt_id t)), (''name'', String (mt_name t)), (''slug'', String (mt_slug t)),
                (''color'', option_json String (mt_color t))]"

definition secret_summary_json :: "secret_metadata_summary \<Rightarrow> json" where
  "secret_summary_json s =
     object_of
       ([(''id'', String (su_id s)), (''name'', String (su_name s)),
         (''environment'', String (su_environment s)), (''version'', unsigned (su_version s)),
         (''type'', String (su_type s)), (''secretPath'', option_json String (su_path s)),
         (''valueHidden'', Bool (su_value_hidden s))]
        @ optional_field ''metadata'' (map_option (\<lambda>es. Array (map metadata_entry_json es)) (su_metadata s))
        @ optional_field ''tags'' (map_option (\<lambda>ts. Array (map metadata_tag_json ts)) (su_tags s)))"

definition mutation_metadata_json :: "secret_mutation_metadata \<Rightarrow> json" where
  "mutation_metadata_json s =
     object_of
       [(''id'', String (mm_id s)), (''name'', String (mm_name s)),
        (''environment'', String (mm_environment s)), (''version'', unsigned (mm_version s)),
        (''type'', String (mm_type s)), (''createdAt'', String (mm_created_at s)),
        (''updatedAt'', String (mm_updated_at s))]"

definition approval_json :: "secret_approval \<Rightarrow> json" where
  "approval_json a =
     object_of [(''id'', String (sa_id a)), (''slug'', String (sa_slug a)), (''status'', String (sa_status a))]"

fun receipt_json :: "secret_mutation_receipt \<Rightarrow> json" where
  "receipt_json (Applied s) = object_of [(''status'', String ''applied''), (''secret'', mutation_metadata_json s)]"
| "receipt_json (Approval_Required a) =
     object_of [(''status'', String ''approvalRequired''), (''approval'', approval_json a)]"

fun batch_receipt_json :: "secret_batch_mutation_receipt \<Rightarrow> json" where
  "batch_receipt_json (Batch_Applied ss) =
     object_of [(''status'', String ''applied''), (''secrets'', Array (map mutation_metadata_json ss))]"
| "batch_receipt_json (Batch_Approval_Required a) =
     object_of [(''status'', String ''approvalRequired''), (''approval'', approval_json a)]"

definition reveal_output_json ::
    "revealed_secret \<Rightarrow> string option \<Rightarrow> secret_file_reference option \<Rightarrow> json" where
  "reveal_output_json s val file =
     object_of
       ([(''id'', String (rv_id s)), (''name'', String (rv_name s)),
         (''environment'', String (rv_environment s)), (''version'', unsigned (rv_version s)),
         (''type'', String (rv_type s)), (''secretPath'', String (rv_path s))]
        @ optional_field ''secretValue'' (map_option String val)
        @ optional_field ''secretFile'' (map_option file_reference_json file))"

definition deliver_revealed ::
    "tool_env \<Rightarrow> revealed_secret \<Rightarrow> secret_disposition \<Rightarrow> plane option
      \<Rightarrow> ((mcp_error, json) result \<times> plane option) option" where
  "deliver_revealed E secret =
     staged_output E SECRET_REVEAL_TOOL (object_of [(''secretValue'', String (rv_value secret))])
       (\<lambda>f. reveal_output_json secret (if f = None then Some (rv_value secret) else None) f)"

section \<open>Handlers\<close>

definition with_input ::
    "tool_env \<Rightarrow> string \<Rightarrow> ((string \<times> json) list \<Rightarrow> 'a option) \<Rightarrow> string \<Rightarrow> call_params
      \<Rightarrow> ('a \<Rightarrow> tool_state \<Rightarrow> tool_outcome) \<Rightarrow> tool_state \<Rightarrow> tool_outcome" where
  "with_input E type decode message params body s =
     (case parse_arguments (te_correction E) type decode message params of
        Inl e \<Rightarrow> Some (Err e, s)
      | Inr i \<Rightarrow> body i s)"

definition with_parts ::
    "(mcp_error, 'a) result \<Rightarrow> ('a \<Rightarrow> tool_state \<Rightarrow> tool_outcome) \<Rightarrow> tool_state \<Rightarrow> tool_outcome" where
  "with_parts r body s = (case r of Inl e \<Rightarrow> Some (Err e, s) | Inr x \<Rightarrow> body x s)"

definition handle_metadata_list :: "tool_env \<Rightarrow> call_params \<Rightarrow> tool_state \<Rightarrow> tool_outcome" where
  "handle_metadata_list E params =
     with_input E ''SecretMetadataListInput'' decode_secret_metadata_list
       ''secrets.metadata.list arguments do not match the declared schema'' params (\<lambda>input.
         if 16 < length (ml_tag_slugs input)
         then (\<lambda>s. Some (Err (invalid_params ''tagSlugs must contain at most sixteen entries'' None), s))
         else
           with_parts (traverse (\<lambda>slug. map_err invalid_input (new_tag_slug slug)) (ml_tag_slugs input))
             (\<lambda>tags. with_parts (scope_page_parts (ml_scope input)) (\<lambda>(scope, page).
               upstream_call E
                 (\<lambda>r. collection_result E (page_json secret_summary_json)
                    (''Select a more specific path, set recursive to false, or use tagSlugs. A ''
                     @ ''smaller limit or projection does not reduce the upstream response.'')
                    (map_sum id (project_secrets (ml_include_metadata input) (ml_include_tags input)) r))
                 (\<lambda>ap. list_secret_metadata_filtered ap scope page tags))))"

definition handle_reveal :: "tool_env \<Rightarrow> call_params \<Rightarrow> tool_state \<Rightarrow> tool_outcome" where
  "handle_reveal E params =
     with_input E ''SecretTargetOnlyInput'' decode_secret_target_only
       ''secrets.reveal arguments do not match the declared schema'' params (\<lambda>input.
         with_delivery E (to_delivery input) (secret_target_parts (to_target input))
           (\<lambda>ap (scope, name). reveal_secret ap scope name) (deliver_revealed E))"

definition handle_value_mutation ::
    "tool_env \<Rightarrow> string \<Rightarrow> (api \<Rightarrow> secret_scope \<Rightarrow> string \<Rightarrow> string \<Rightarrow> world
        \<Rightarrow> (resource_error, secret_mutation_receipt) result \<times> world)
      \<Rightarrow> call_params \<Rightarrow> tool_state \<Rightarrow> tool_outcome" where
  "handle_value_mutation E message operation params =
     with_input E ''SecretValueMutationInput'' decode_secret_value_mutation message params (\<lambda>input s.
       case secret_value_mutation_parts (te_take_at E) (fst s) input of
         (Inl e, files) \<Rightarrow> Some (Err e, (files, snd s))
       | (Inr (scope, name, v), files) \<Rightarrow>
           upstream_call E (tool_result E receipt_json) (\<lambda>ap. operation ap scope name v) (files, snd s))"

definition handle_delete :: "tool_env \<Rightarrow> call_params \<Rightarrow> tool_state \<Rightarrow> tool_outcome" where
  "handle_delete E params =
     with_input E ''SecretDeleteInput'' decode_secret_delete
       ''secrets.delete arguments do not match the declared schema'' params (\<lambda>input.
         with_parts (secret_delete_parts input) (\<lambda>(scope, name).
           upstream_call E (tool_result E receipt_json) (\<lambda>ap. delete_secret ap scope name True)))"

definition handle_batch_value ::
    "tool_env \<Rightarrow> string \<Rightarrow> (api \<Rightarrow> secret_scope \<Rightarrow> secret_value_mutation list \<Rightarrow> world
        \<Rightarrow> (resource_error, secret_batch_mutation_receipt) result \<times> world)
      \<Rightarrow> call_params \<Rightarrow> tool_state \<Rightarrow> tool_outcome" where
  "handle_batch_value E message operation params =
     with_input E ''SecretBatchValueMutationInput'' decode_secret_batch_value_mutation message params (\<lambda>input.
       with_parts (batch_value_parts input) (\<lambda>(scope, secrets).
         upstream_call E (tool_result E batch_receipt_json) (\<lambda>ap. operation ap scope secrets)))"

definition handle_batch_delete :: "tool_env \<Rightarrow> call_params \<Rightarrow> tool_state \<Rightarrow> tool_outcome" where
  "handle_batch_delete E params =
     with_input E ''SecretBatchDeleteInput'' decode_secret_batch_delete
       ''secrets.batch.delete arguments do not match the declared schema'' params (\<lambda>input.
         with_parts (batch_delete_parts input) (\<lambda>(scope, names).
           upstream_call E (tool_result E batch_receipt_json) (\<lambda>ap. delete_secrets_batch ap scope names True)))"

definition dispatch_secret_workflow ::
    "tool_env \<Rightarrow> (call_params \<Rightarrow> tool_state \<Rightarrow> tool_outcome) \<Rightarrow> call_params \<Rightarrow> tool_state \<Rightarrow> tool_outcome" where
  "dispatch_secret_workflow E import_workflow params =
     (let name = cp_name params in
      if name = SECRET_REVEAL_TOOL then handle_reveal E params
      else if name = SECRET_CREATE_TOOL
      then handle_value_mutation E ''secrets.create arguments do not match the declared schema'' create_secret params
      else if name = SECRET_UPDATE_TOOL
      then handle_value_mutation E ''secrets.update arguments do not match the declared schema'' update_secret params
      else if name = SECRET_DELETE_TOOL then handle_delete E params
      else if name = SECRET_BATCH_CREATE_TOOL
      then handle_batch_value E ''secrets.batch.create arguments do not match the declared schema''
             create_secrets_batch params
      else if name = SECRET_BATCH_UPDATE_TOOL
      then handle_batch_value E ''secrets.batch.update arguments do not match the declared schema''
             update_secrets_batch params
      else if name = SECRET_BATCH_DELETE_TOOL then handle_batch_delete E params
      else import_workflow params)"

end
