(* ===== verification/Secrets_Tools_Facts.thy ===== *)
theory Secrets_Tools_Facts
  imports Secrets_Tools
begin

text \<open>
  What the secret tools promise: a value revealed by reference never enters the result, a reveal
  that fails gives back the place it held, and arguments that are refused leave the client alone.
\<close>

section \<open>Reserving and giving back\<close>

text \<open>The plane apart from its configuration and its budget.\<close>

definition same_contents :: "plane \<Rightarrow> plane \<Rightarrow> bool" where
  "same_contents p q \<longleftrightarrow> pl_staged p = pl_staged q \<and> pl_uploads p = pl_uploads q
     \<and> pl_received p = pl_received q \<and> pl_reserved p = pl_reserved q \<and> pl_config p = pl_config q"

lemma same_contents_refl [simp]: "same_contents p p"
  by (simp add: same_contents_def)

lemma resolve_delivery_cases:
  assumes "resolve_delivery now (Some pl) requested = (r, files)"
  obtains (inline) "requested = Some Inline_Value" "r = Ok Inline_Disposition" "files = Some pl"
  | (full) e pl' where "requested \<noteq> Some Inline_Value" "reserve now pl = (Err e, pl')"
      "r = Err (capacity_before_execution e)" "files = Some pl'"
  | (reserved) slot pl' where "requested \<noteq> Some Inline_Value" "reserve now pl = (Ok slot, pl')"
      "r = Ok (Reference_Disposition slot)" "files = Some pl'"
  using assms
  by (auto simp: resolve_delivery_def split: if_splits prod.splits sum.splits)

lemma reserve_contents:
  assumes "reserve now pl = (r, pl')"
  shows "case r of
      Inl e \<Rightarrow> pl' = sweep_locked now pl
    | Inr slot \<Rightarrow> same_contents (drop_slot slot pl') (sweep_locked now pl)"
  using assms
  by (auto simp: reserve_def Let_def same_contents_def drop_slot_def split: if_splits option.splits)

lemma reserve_accounted:
  assumes "accounted ext pl" and "reserve now pl = (r, pl')"
  shows "case r of Inl e \<Rightarrow> accounted ext pl' | Inr slot \<Rightarrow> accounted (add_mset slot ext) pl'"
proof -
  have a: "accounted ext (sweep_locked now pl)" using assms(1) by (rule accounted_sweep)
  show ?thesis
    using assms(2) a accounted_reserve [OF a, of max_envelope_bytes]
    by (auto simp: reserve_def Let_def split: if_splits option.splits)
qed

lemma drop_slot_accounted: "accounted (add_mset slot ext) pl \<Longrightarrow> accounted ext (drop_slot slot pl)"
proof -
  assume "accounted (add_mset slot ext) pl"
  from accounted_drop [OF this] show ?thesis
    by (simp add: drop_slot_def accounted_def plane_reservations_def)
qed

section \<open>Revealing\<close>

lemma with_delivery_cases:
  assumes "with_delivery E delivery parts call build s = Some (r, s')"
  obtains (delivery) e files where "resolve_delivery (te_reserve_at E) (fst s) delivery = (Err e, files)"
      "r = Err e" "s' = (files, snd s)"
  | (parts) d e files where "resolve_delivery (te_reserve_at E) (fst s) delivery = (Ok d, files)"
      "parts = Err e" "r = Err e" "s' = (drop_disposition d files, snd s)"
  | (called) d files x a w where "resolve_delivery (te_reserve_at E) (fst s) delivery = (Ok d, files)"
      "parts = Ok x" "call (te_api E) x (snd s) = (a, w)"
      "delivered_result E d a build (files, w) = Some (r, s')"
  using assms by (auto simp: with_delivery_def split: prod.splits sum.splits)

lemma handle_reveal_cases:
  assumes run: "handle_reveal E params s = Some (r, s')"
  obtains (arguments) e where "r = Err e" "s' = s"
  | (delivery) i where "decode_secret_target_only (case cp_arguments params of None \<Rightarrow> [] | Some m \<Rightarrow> m) = Some i"
      "with_delivery E (to_delivery i) (secret_target_parts (to_target i))
         (\<lambda>ap (scope, name). reveal_secret ap scope name) (deliver_revealed E) s = Some (r, s')"
  using run by (auto simp: handle_reveal_def with_input_def split: sum.splits)

lemma staged_output_reference:
  assumes "staged_output E operation data output (Reference_Disposition slot) (Some pl) = Some (o1, files)"
  shows "(\<exists>env file pl'. secret_envelope (te_writer E) (te_fill E) operation data = Some env
           \<and> stage (te_stage_at E) (te_ident E) slot operation env pl = Some (file, pl')
           \<and> files = Some pl' \<and> o1 = Ok (output (Some file)))
       \<or> o1 = Err (internal_error ''serialize the secret envelope'' None) \<and> files = Some (drop_slot slot pl)"
  using assms
  by (auto simp: staged_output_def stage_disposition_def split: option.splits)

text \<open>An output fails only when the envelope does, and then gives its slot back.\<close>

definition releases :: "('a \<Rightarrow> secret_disposition \<Rightarrow> plane option
    \<Rightarrow> ((mcp_error, json) result \<times> plane option) option) \<Rightarrow> bool" where
  "releases build \<longleftrightarrow> (\<forall>v d files e files'. build v d files = Some (Err e, files') \<longrightarrow>
     e = internal_error ''serialize the secret envelope'' None \<and> files' = drop_disposition d files)"

lemma releasesD:
  "releases build \<Longrightarrow> build v d files = Some (Err e, files') \<Longrightarrow>
     e = internal_error ''serialize the secret envelope'' None \<and> files' = drop_disposition d files"
  unfolding releases_def by blast

lemma staged_output_releases [simp]: "releases (\<lambda>v. staged_output E operation (data v) (output v))"
  by (auto simp: releases_def staged_output_def stage_disposition_def drop_disposition_def
      split: secret_disposition.splits option.splits)

lemma deliver_revealed_releases [simp]: "releases (deliver_revealed E)"
  unfolding deliver_revealed_def [abs_def] by simp

lemma reveal_output_no_value: "json_get ''secretValue'' (reveal_output_json s None file) = None"
  by (simp add: reveal_output_json_def json_get_object_of optional_field_def split: option.splits)

lemma stage_entry:
  assumes "stage now ident slot operation env pl = Some (file, pl')"
  shows "file = file_reference ident (operation @ ''.json'')
    \<and> (\<exists>e. map_of (pl_staged pl') ident = Some e \<and> tb_bytes (ss_envelope e) = env
        \<and> ss_name e = operation @ ''.json'' \<and> ss_staged_at e = now \<and> ss_download e = None)"
  using assms by (auto simp: stage_def Let_def update_conv' split: option.splits)

text \<open>What a delivery by reference leaves behind.\<close>

definition staged_under ::
    "tool_env \<Rightarrow> string \<Rightarrow> json \<Rightarrow> plane option \<Rightarrow> secret_file_reference \<Rightarrow> bool" where
  "staged_under E operation data files file \<longleftrightarrow>
     (\<exists>env pl e. file = file_reference (te_ident E) (operation @ ''.json'')
        \<and> secret_envelope (te_writer E) (te_fill E) operation data = Some env
        \<and> files = Some pl \<and> map_of (pl_staged pl) (te_ident E) = Some e
        \<and> tb_bytes (ss_envelope e) = env \<and> ss_download e = None)"

lemma delivered_by_reference:
  assumes "structured_ok (te_structured E)"
    and "with_delivery E delivery parts call (\<lambda>v. staged_output E operation (data v) (output v)) (Some pl, w)
           = Some (Ok res, (files, w'))"
    and "cr_is_error res \<noteq> Some True" and "delivery \<noteq> Some Inline_Value"
  obtains x v rf where "parts = Ok x" "call (te_api E) x w = (Ok v, w')"
    "cr_structured res = Some (output v (Some rf))" "staged_under E operation (data v) files rf"
  using assms(2)
proof (cases rule: with_delivery_cases)
  case (called d files1 x a w1)
  from called(1) assms(4) obtain slot pl1 where d: "d = Reference_Disposition slot" and f: "files1 = Some pl1"
    by (auto elim: resolve_delivery_cases)
  obtain v where a: "a = Ok v" using called(4) assms(1,3)
    by (cases a) (auto simp: delivered_result_def upstream_failure_def)
  from called(4) a d f obtain o1 where
    o: "staged_output E operation (data v) (output v) (Reference_Disposition slot) (Some pl1) = Some (o1, files)"
    and res: "Ok res = and_then o1 (\<lambda>j. Ok (te_structured E j))" and w: "w1 = w'"
    by (auto simp: delivered_result_def split: option.splits)
  from staged_output_reference [OF o] res obtain env rf pl' where
    env: "secret_envelope (te_writer E) (te_fill E) operation (data v) = Some env"
    and st: "stage (te_stage_at E) (te_ident E) slot operation env pl1 = Some (rf, pl')"
    and fl: "files = Some pl'" and o1: "o1 = Ok (output v (Some rf))"
    by auto
  show thesis
  proof (rule that [of x v rf])
    show "parts = Ok x" "call (te_api E) x w = (Ok v, w')" using called a w by simp_all
    show "cr_structured res = Some (output v (Some rf))" using res o1 assms(1) by simp
    show "staged_under E operation (data v) files rf"
      using env stage_entry [OF st] fl by (auto simp: staged_under_def)
  qed
qed auto

lemma failed_delivery_releases:
  assumes "structured_ok (te_structured E)" and "accounted ext pl" and b: "releases build"
    and "with_delivery E delivery parts call build (Some pl, w) = Some (r, (files, w'))"
    and "case r of Inl e \<Rightarrow> True | Inr res \<Rightarrow> cr_is_error res = Some True"
  shows "\<exists>pl'. files = Some pl' \<and> accounted ext pl'
    \<and> (same_contents pl' pl \<or> same_contents pl' (sweep_locked (te_reserve_at E) pl))"
proof -
  let ?now = "te_reserve_at E"
  have held: "\<exists>pl'. drop_disposition d fs = Some pl' \<and> accounted ext pl'
      \<and> (same_contents pl' pl \<or> same_contents pl' (sweep_locked ?now pl))"
    if "resolve_delivery ?now (Some pl) delivery = (Ok d, fs)" for d fs
    using that
  proof (cases rule: resolve_delivery_cases)
    case inline
    then show ?thesis using assms(2) by (simp add: drop_disposition_def)
  next
    case (reserved slot pl1)
    then show ?thesis
      using reserve_contents [of ?now pl "Ok slot" pl1] reserve_accounted [OF assms(2), of ?now "Ok slot" pl1]
        drop_slot_accounted [of slot ext pl1]
      by (simp add: drop_disposition_def)
  qed simp_all
  from assms(4) show ?thesis
  proof (cases rule: with_delivery_cases)
    case (delivery e fs)
    from delivery(1) have "resolve_delivery ?now (Some pl) delivery = (Err e, fs)" by simp
    then show ?thesis
    proof (cases rule: resolve_delivery_cases)
      case (full e' pl1)
      then show ?thesis
        using delivery reserve_contents [of ?now pl "Err e'" pl1] reserve_accounted [OF assms(2), of ?now "Err e'" pl1]
        by simp
    qed simp_all
  next
    case (parts d e fs)
    then show ?thesis using held [of d fs] by simp
  next
    case (called d fs x a w1)
    have h: "\<exists>pl'. drop_disposition d fs = Some pl' \<and> accounted ext pl'
      \<and> (same_contents pl' pl \<or> same_contents pl' (sweep_locked ?now pl))"
      using held [of d fs] called(1) by simp
    show ?thesis
    proof (cases a)
      case (Inl e)
      with called(4) h show ?thesis by (auto simp: delivered_result_def)
    next
      case (Inr v)
      with called(4) obtain o1 where o: "build v d fs = Some (o1, files)"
        and r: "r = and_then o1 (\<lambda>j. Ok (te_structured E j))"
        by (auto simp: delivered_result_def split: option.splits)
      obtain e where "o1 = Err e" using r assms(1,5) by (cases o1) auto
      with o releasesD [OF b] have "files = drop_disposition d fs" by blast
      with h show ?thesis by simp
    qed
  qed
qed

text \<open>
  C10: A secret revealed on a server with the transfer plane stays out of the result unless the
  caller asks for it inline. A successful \<open>secrets.reveal\<close> without \<open>inlineValue\<close> answers with the
  coordinates of exactly the secret requested and a reference, with no \<open>secretValue\<close> member; the
  envelope made of the value, and of nothing else, is what the plane now holds under that reference.
\<close>

theorem revealed_value_out_of_context:
  assumes "structured_ok (te_structured E)"
    and "handle_reveal E params (Some pl, w) = Some (Ok res, (files, w'))"
    and "cr_is_error res \<noteq> Some True"
    and "decode_secret_target_only (case cp_arguments params of None \<Rightarrow> [] | Some m \<Rightarrow> m) = Some i"
    and "to_delivery i \<noteq> Some Inline_Value"
  shows "\<exists>secret file env pl' e.
      answered w (read_body (te_api E) decode_reveal_response) secret
    \<and> rv_name secret = ti_name (to_target i) \<and> rv_path secret = ti_path (to_target i)
    \<and> rv_environment secret = ti_environment (to_target i)
    \<and> cr_structured res = Some (reveal_output_json secret None (Some file))
    \<and> json_get ''secretValue'' (reveal_output_json secret None (Some file)) = None
    \<and> file = file_reference (te_ident E) ''secrets.reveal.json''
    \<and> secret_envelope (te_writer E) (te_fill E) ''secrets.reveal''
        (object_of [(''secretValue'', String (rv_value secret))]) = Some env
    \<and> files = Some pl' \<and> map_of (pl_staged pl') (te_ident E) = Some e
    \<and> tb_bytes (ss_envelope e) = env \<and> ss_download e = None"
  using assms(2)
proof (cases rule: handle_reveal_cases)
  case (delivery i')
  from delivery(1) assms(4) have "i' = i" by simp
  with delivery(2) have run: "with_delivery E (to_delivery i) (secret_target_parts (to_target i))
      (\<lambda>ap (scope, name). reveal_secret ap scope name)
      (\<lambda>v. staged_output E SECRET_REVEAL_TOOL (object_of [(''secretValue'', String (rv_value v))])
         (\<lambda>f. reveal_output_json v (if f = None then Some (rv_value v) else None) f)) (Some pl, w)
      = Some (Ok res, (files, w'))"
    by (simp add: deliver_revealed_def [abs_def])
  obtain x v rf where
    x: "secret_target_parts (to_target i) = Ok x"
    and c: "(case x of (scope, name) \<Rightarrow> reveal_secret (te_api E) scope name) w = (Ok v, w')"
    and out: "cr_structured res = Some (reveal_output_json v None (Some rf))"
    and st: "staged_under E SECRET_REVEAL_TOOL (object_of [(''secretValue'', String (rv_value v))]) files rf"
    by (rule delivered_by_reference [OF assms(1) run assms(3,5)]) (rule that; simp)
  obtain scope name where sn: "x = (scope, name)" by (cases x)
  have rv: "answered w (read_body (te_api E) decode_reveal_response) v \<and> rv_name v = name
      \<and> rv_environment v = scope_environment scope \<and> rv_path v = scope_path scope"
    using c sn api_read_answered [of "te_api E" _ _ decode_reveal_response w]
    by (auto simp: reveal_secret_def split: prod.splits sum.splits if_splits)
  have parts: "name = ti_name (to_target i)" "scope_path scope = ti_path (to_target i)"
      "scope_environment scope = ti_environment (to_target i)"
    using x sn
    by (auto simp: secret_target_parts_def new_secret_scope_def secret_name.new_Ok_iff
        secret_path.new_Ok_iff environment_slug.new_Ok_iff)
  show ?thesis
    using rv parts st out reveal_output_no_value unfolding staged_under_def
    by (intro exI [of _ v] exI [of _ rf]) auto
qed simp

text \<open>
  A reveal that fails gives back what it held. Whatever goes wrong - arguments refused, no
  capacity, an invalid target, the upstream request or the envelope - no entry is added to the
  plane, no place stays reserved, and every byte of its budget is accounted for as before.
\<close>

theorem failed_reveal_keeps_capacity:
  assumes "structured_ok (te_structured E)" and "accounted ext pl"
    and "handle_reveal E params (Some pl, w) = Some (r, (files, w'))"
    and "case r of Inl e \<Rightarrow> True | Inr res \<Rightarrow> cr_is_error res = Some True"
  shows "\<exists>pl'. files = Some pl' \<and> accounted ext pl'
    \<and> (same_contents pl' pl \<or> same_contents pl' (sweep_locked (te_reserve_at E) pl))"
  using assms(3)
proof (cases rule: handle_reveal_cases)
  case (arguments e)
  then show ?thesis using assms(2) by simp
next
  case (delivery i)
  from failed_delivery_releases [OF assms(1,2) _ delivery(2) assms(4)] show ?thesis by simp
qed

section \<open>Refused arguments\<close>

text \<open>A handler that answers \<open>invalid params\<close> has not touched the client.\<close>

definition refuses_quietly :: "(tool_state \<Rightarrow> tool_outcome) \<Rightarrow> bool" where
  "refuses_quietly h \<longleftrightarrow> (\<forall>s e s'. h s = Some (Err e, s') \<and> me_code e = Invalid_Params \<longrightarrow> snd s' = snd s)"

lemma refuses_quietlyD:
  "refuses_quietly h \<Longrightarrow> h s = Some (Err e, s') \<Longrightarrow> me_code e = Invalid_Params \<Longrightarrow> snd s' = snd s"
  unfolding refuses_quietly_def by blast

named_theorems quiet

lemma quiet_error [quiet]: "refuses_quietly (\<lambda>s. Some (Err e, s))"
  by (simp add: refuses_quietly_def)

lemma quiet_input [quiet]: "(\<And>i. refuses_quietly (body i)) \<Longrightarrow> refuses_quietly (with_input E t d m p body)"
  by (auto simp: refuses_quietly_def with_input_def split: sum.splits)

lemma quiet_parts [quiet]: "(\<And>x. refuses_quietly (body x)) \<Longrightarrow> refuses_quietly (with_parts r body)"
  by (auto simp: refuses_quietly_def with_parts_def split: sum.splits)

lemma quiet_pair [quiet]: "(\<And>x y. refuses_quietly (body x y)) \<Longrightarrow> refuses_quietly (case p of (x, y) \<Rightarrow> body x y)"
  by (cases p) simp

lemma quiet_if [quiet]: "refuses_quietly f \<Longrightarrow> refuses_quietly g \<Longrightarrow> refuses_quietly (if c then f else g)"
  by simp

lemma quiet_tool_result [quiet]: "refuses_quietly (upstream_call E (tool_result E j) call)"
  by (auto simp: refuses_quietly_def upstream_call_def tool_result_def split: sum.splits prod.splits)

lemma collection_result_Ok: "\<exists>x. collection_result E j g r = Ok x"
  by (auto simp: collection_result_def tool_result_def split: sum.splits resource_error.splits client_error.splits)

lemma quiet_collection_result [quiet]: "refuses_quietly (upstream_call E (\<lambda>r. collection_result E j g (f r)) call)"
proof -
  have "collection_result E j g r \<noteq> Err e" for r e using collection_result_Ok [of E j g r] by auto
  then show ?thesis by (auto simp: refuses_quietly_def upstream_call_def split: prod.splits)
qed

lemma quiet_value_mutation [quiet]: "refuses_quietly (handle_value_mutation E m op params)"
proof -
  have "refuses_quietly (\<lambda>s. case secret_value_mutation_parts (te_take_at E) (fst s) input of
         (Inl e, files) \<Rightarrow> Some (Err e, (files, snd s))
       | (Inr (scope, name, v), files) \<Rightarrow>
           upstream_call E (tool_result E receipt_json) (\<lambda>ap. op ap scope name v) (files, snd s))" for input
    using refuses_quietlyD [OF quiet_tool_result [of E receipt_json]]
    by (fastforce simp: refuses_quietly_def split: prod.splits sum.splits)
  then show ?thesis unfolding handle_value_mutation_def by (rule quiet_input)
qed

lemma quiet_unless_confirmed [quiet]: "refuses_quietly body \<Longrightarrow> refuses_quietly (unless_confirmed c m body)"
  by (auto simp: refuses_quietly_def unless_confirmed_def)

lemma quiet_delivery:
  assumes "releases build"
  shows "refuses_quietly (with_delivery E delivery parts call build)"
  unfolding refuses_quietly_def
proof (intro allI impI, elim conjE)
  fix s e s'
  assume run: "with_delivery E delivery parts call build s = Some (Err e, s')" and code: "me_code e = Invalid_Params"
  from run show "snd s' = snd s"
  proof (cases rule: with_delivery_cases)
    case (called d fs x a w)
    then obtain v o1 fs' where o: "build v d fs = Some (o1, fs')" and "Err e = and_then o1 (\<lambda>j. Ok (te_structured E j))"
      by (cases a) (auto simp: delivered_result_def split: option.splits)
    then have "o1 = Err e" by (cases o1) auto
    with o releasesD [OF assms] have "e = internal_error ''serialize the secret envelope'' None" by blast
    with code show ?thesis by (simp add: internal_error_def)
  qed simp_all
qed

lemma quiet_staged [quiet]:
  "refuses_quietly (with_delivery E delivery parts call (\<lambda>v. staged_output E operation (data v) (output v)))"
  by (rule quiet_delivery) simp

lemma quiet_reveal [quiet]: "refuses_quietly (handle_reveal E params)"
  unfolding handle_reveal_def by (intro quiet quiet_delivery) simp

lemma quiet_metadata_list [quiet]: "refuses_quietly (handle_metadata_list E params)"
  unfolding handle_metadata_list_def by (intro quiet)

lemma quiet_delete [quiet]: "refuses_quietly (handle_delete E params)"
  unfolding handle_delete_def by (intro quiet)

lemma quiet_batch_value [quiet]: "refuses_quietly (handle_batch_value E m op params)"
  unfolding handle_batch_value_def by (intro quiet)

lemma quiet_batch_delete [quiet]: "refuses_quietly (handle_batch_delete E params)"
  unfolding handle_batch_delete_def by (intro quiet)

text \<open>
  Arguments that a secret tool refuses cost nothing upstream: whichever secret operation is
  called, an answer of \<open>invalid params\<close> (unknown or missing fields, bad coordinates, no confirmation,
  both or neither source of a value, delivery the deployment does not offer) means that neither a
  login nor a request was sent and the client's state is untouched.
\<close>

theorem refused_secret_arguments_send_nothing:
  assumes "refuses_quietly (import_workflow params)"
    and "(if cp_name params = SECRET_METADATA_LIST_TOOL then handle_metadata_list E params
          else dispatch_secret_workflow E import_workflow params) s = Some (Err e, s')"
    and "me_code e = Invalid_Params"
  shows "snd s' = snd s"
proof -
  have "refuses_quietly (if cp_name params = SECRET_METADATA_LIST_TOOL then handle_metadata_list E params
          else dispatch_secret_workflow E import_workflow params)"
    unfolding dispatch_secret_workflow_def Let_def by (intro quiet assms(1))
  from refuses_quietlyD [OF this assms(2,3)] show ?thesis .
qed

section \<open>Examples\<close>

definition demo_pki :: pki_library where
  "demo_pki = \<lparr>pk_decode_pem = (\<lambda>_. Some (''CERTIFICATE'', ''der'')), pk_trust_anchor = (\<lambda>_. True),
     pk_parse = (\<lambda>_. None), pk_url = (\<lambda>_. True)\<rparr>"

definition demo_base64 :: base64_library where
  "demo_base64 = \<lparr>b64_decode = Some, b64_encode = id\<rparr>"

definition demo_schedule :: preflight_schedule where
  "demo_schedule = \<lparr>sc_order = (\<lambda>n. rev [0..<n]), sc_expired = (\<lambda>_. False)\<rparr>"

definition demo_tool_env :: "json \<Rightarrow> tool_env" where
  "demo_tool_env j = \<lparr>te_api = demo_api j, te_structured = plain_result, te_correction = (\<lambda>_ _ m. (m, [])),
     te_pki = demo_pki, te_base64 = demo_base64, te_preflights = demo_schedule, te_writer = brief_writer, te_fill = (\<lambda>k. replicate k CHR ''x''), te_ident = ''s'',
     te_reserve_at = 0, te_take_at = 0, te_stage_at = 0\<rparr>"

definition demo_target :: "(string \<times> json) list" where
  "demo_target = [(''target'', Object [(''environment'', String ''prod''), (''name'', String ''KEY''),
     (''path'', String ''/app''), (''projectId'', String ''p'')])]"

definition demo_target_input :: secret_target_only_input where
  "demo_target_input = \<lparr>to_target = \<lparr>ti_project_id = ''p'', ti_environment = ''prod'', ti_path = ''/app'',
     ti_name = ''KEY''\<rparr>, to_delivery = None\<rparr>"

definition demo_call :: call_params where
  "demo_call = \<lparr>cp_name = SECRET_REVEAL_TOOL, cp_arguments = Some demo_target\<rparr>"

lemma demo_target_decodes: "decode_secret_target_only demo_target = Some demo_target_input"
  by (simp add: decode_secret_target_only_def decode_secret_target_def demo_target_def demo_target_input_def
      strict_fields_def wire_fields_def wire_field_def wire_option_def)

lemma demo_target_parts: "secret_target_parts (to_target demo_target_input) = Ok (demo_scope, ''KEY'')"
proof -
  have "new_project_id ''p'' = Ok ''p''" by code_simp
  moreover have "new_environment_slug ''prod'' = Ok ''prod''" by code_simp
  moreover have "new_secret_path ''/app'' = Ok ''/app''" by code_simp
  moreover have "new_secret_name ''KEY'' = Ok ''KEY''" by code_simp
  ultimately show ?thesis
    by (simp add: secret_target_parts_def demo_target_input_def demo_scope_def)
qed

lemma demo_reveal_run:
  "\<exists>w'. reveal_secret (demo_api demo_reveal) demo_scope ''KEY'' (settled_world ''{}'') = (Ok demo_secret, w')"
proof -
  have p: "endpoint_url (secret_endpoint ''KEY'') = Inr [''api'', ''v4'', ''secrets'', ''KEY'']"
    by (simp add: secret_endpoint_url)
  show ?thesis
    by (simp add: reveal_secret_def settled_read [where decode = decode_reveal_response, OF p demo_reveal_decodes])
      (simp add: demo_secret_def demo_scope_def new_secret_scope_def)
qed

lemma demo_reveal_runs:
  "\<exists>rf p w'. handle_reveal (demo_tool_env demo_reveal) demo_call
       (Some (plane_new small_config), settled_world ''{}'') =
     Some (Ok (plain_result (reveal_output_json demo_secret None (Some rf))), (Some p, w'))"
proof -
  let ?data = "object_of [(''secretValue'', String (rv_value demo_secret))]"
  obtain env where env: "secret_envelope brief_writer (\<lambda>k. replicate k CHR ''x'') SECRET_REVEAL_TOOL ?data = Some env"
    and len: "length env = 4096"
    by (simp add: secret_envelope_def brief_writer_def Let_def max_envelope_eq min_pad_chars_def
        div_ceil_def envelope_bucket_bytes_def random_hex_of_length_def)
  obtain p where st: "stage 0 ''s'' max_envelope_bytes SECRET_REVEAL_TOOL env reserved_plane
      = Some (file_reference ''s'' (SECRET_REVEAL_TOOL @ ''.json''), p)"
    by (simp add: stage_def len reservation_shrink_def max_envelope_bytes_def reserved_plane_def Let_def)
  obtain w' where rv: "reveal_secret (demo_api demo_reveal) demo_scope ''KEY'' (settled_world ''{}'')
      = (Ok demo_secret, w')"
    using demo_reveal_run by blast
  have "resolve_delivery 0 (Some (plane_new small_config)) None =
      (Ok (Reference_Disposition max_envelope_bytes), Some reserved_plane)"
    by (simp add: resolve_delivery_def reserve_first)
  then show ?thesis
    using demo_target_decodes demo_target_parts rv env st
    by (simp add: handle_reveal_def with_input_def with_delivery_def parse_arguments_def demo_call_def demo_target_input_def
        demo_tool_env_def delivered_result_def deliver_revealed_def staged_output_def stage_disposition_def) blast
qed

lemma revealed_value_out_of_context_witness:
  "\<exists>res files w' rf. handle_reveal (demo_tool_env demo_reveal) demo_call
       (Some (plane_new small_config), settled_world ''{}'') = Some (Ok res, (files, w'))
     \<and> cr_structured res = Some (reveal_output_json demo_secret None (Some rf))"
proof -
  obtain rf p w' where run: "handle_reveal (demo_tool_env demo_reveal) demo_call
       (Some (plane_new small_config), settled_world ''{}'') =
     Some (Ok (plain_result (reveal_output_json demo_secret None (Some rf))), (Some p, w'))"
    using demo_reveal_runs by blast
  have dec: "decode_secret_target_only (case cp_arguments demo_call of None \<Rightarrow> [] | Some m \<Rightarrow> m)
      = Some demo_target_input"
    by (simp add: demo_call_def demo_target_decodes)
  have "structured_ok (te_structured (demo_tool_env demo_reveal))" by (simp add: demo_tool_env_def plain_result_ok)
  from revealed_value_out_of_context [OF this run _ dec] run show ?thesis
    by (auto simp: plain_result_def demo_target_input_def)
qed

lemma failed_reveal_keeps_capacity_witness:
  "\<exists>pl'. handle_reveal (demo_tool_env Null) \<lparr>cp_name = SECRET_REVEAL_TOOL, cp_arguments = None\<rparr>
       (Some (plane_new small_config), settled_world ''{}'') =
     Some (Err (invalid_params ''secrets.reveal arguments do not match the declared schema''
         (Some (object_of [(''argumentFieldPath'', String [])]))), (Some pl', settled_world ''{}''))
     \<and> accounted {#} pl'"
proof -
  have acc: "accounted {#} (plane_new small_config)"
    by (simp add: accounted_def plane_new_def plane_reservations_def entry_reservations_def budget_new_def
        ledger.balanced_def)
  have "decode_secret_target_only [] = None"
    by (simp add: decode_secret_target_only_def strict_fields_def wire_fields_def)
  then have run: "handle_reveal (demo_tool_env Null) \<lparr>cp_name = SECRET_REVEAL_TOOL, cp_arguments = None\<rparr>
       (Some (plane_new small_config), settled_world ''{}'') =
     Some (Err (invalid_params ''secrets.reveal arguments do not match the declared schema''
         (Some (object_of [(''argumentFieldPath'', String [])]))), (Some (plane_new small_config), settled_world ''{}''))"
    by (simp add: handle_reveal_def with_input_def parse_arguments_def demo_tool_env_def)
  have ok: "structured_ok (te_structured (demo_tool_env Null))" by (simp add: demo_tool_env_def plain_result_ok)
  from failed_reveal_keeps_capacity [OF ok acc run] run show ?thesis by simp
qed

lemma refused_secret_arguments_send_nothing_witness:
  "\<exists>e s'. dispatch_secret_workflow (demo_tool_env Null) (\<lambda>_ s. Some (Err method_not_found, s))
       \<lparr>cp_name = SECRET_DELETE_TOOL, cp_arguments = None\<rparr> (None, settled_world ''{}'') = Some (Err e, s')
     \<and> snd s' = settled_world ''{}''"
proof -
  let ?p = "\<lparr>cp_name = SECRET_DELETE_TOOL, cp_arguments = None\<rparr>"
  have "decode_secret_delete [] = None"
    by (simp add: decode_secret_delete_def strict_fields_def wire_fields_def)
  then obtain e s' where run: "dispatch_secret_workflow (demo_tool_env Null) (\<lambda>_ s. Some (Err method_not_found, s))
       ?p (None, settled_world ''{}'') = Some (Err e, s')" and code: "me_code e = Invalid_Params"
    by (simp add: dispatch_secret_workflow_def handle_delete_def with_input_def parse_arguments_def
        demo_tool_env_def invalid_params_def)
  let ?i = "(\<lambda>_ s. Some (Err method_not_found, s)) :: call_params \<Rightarrow> tool_state \<Rightarrow> tool_outcome"
  have "refuses_quietly (?i ?p)" by (rule quiet_error)
  moreover have "(if cp_name ?p = SECRET_METADATA_LIST_TOOL then handle_metadata_list (demo_tool_env Null) ?p
      else dispatch_secret_workflow (demo_tool_env Null) ?i ?p) (None, settled_world ''{}'') = Some (Err e, s')"
    using run by simp
  ultimately have "snd s' = snd (None :: plane option, settled_world ''{}'')"
    using code by (rule refused_secret_arguments_send_nothing)
  with run show ?thesis by simp
qed

end
