(* ===== verification/Wire_Discipline.thy ===== *)
theory Wire_Discipline
  imports Secrets_Tools_Facts
begin

text \<open>
  What a handler may send. A discipline is a property of the data requests of one call; handlers are
  built from few shapes (argument decoding, validation, one upstream call), each of which keeps every
  discipline that allows silence, so a discipline of a handler follows from that of its API call.
\<close>

section \<open>Clients stay well formed\<close>

lemma mutation_keeps_ok:
  assumes ok: "world_ok w" and run: "execute_mutation env m w = (r, w')"
  shows "world_ok w'"
proof (cases "mu_method m \<in> {POST, PUT, PATCH, DELETE} \<and> (\<exists>path. endpoint_url (mu_endpoint m) = Inr path)")
  case False
  with run have "w' = w" by (cases "endpoint_url (mu_endpoint m)") (auto simp: execute_mutation_def split: if_splits)
  with ok show ?thesis by simp
next
  case True
  then obtain path where p: "endpoint_url (mu_endpoint m) = Inr path" by auto
  obtain ra w1 where a: "access_token env w = (ra, w1)" by force
  note ar = access_token_result [OF ok a]
  show ?thesis
  proof (cases ra)
    case (Inl e)
    with run True p a ar show ?thesis by (auto simp: execute_mutation_def)
  next
    case tok: (Inr t)
    obtain r2 w2 where s: "send_json env (mu_accepts_empty m) (mu_decode m)
        (mutation_request m path (token_id t)) w1 = (r2, w2)" by force
    note sr = send_json_result [OF s]
    have w': "w' = w2 \<or> w' = w2\<lparr>w_token := invalidate_if_current t (w_token w2)\<rparr>"
      using run True p a tok s
      by (auto simp: execute_mutation_def drop_rejected_def mutation_request_def split: if_splits)
    have w1: "world_ok w1" "w_token w1 = Some t" using ar tok by (auto simp: world_ok_def)
    then have "world_ok w2" using sr by (auto simp: world_ok_def intro: le_trans)
    with w' w1 sr show ?thesis by (auto simp: world_ok_def)
  qed
qed

lemma read_keeps_ok:
  assumes ok: "world_ok w" and run: "execute_read env ep query d w = (r, w')"
  shows "world_ok w'"
proof -
  obtain r1 w1 where g: "execute_get_once env ep query d w = (r1, w1)" by force
  then have ok1: "world_ok w1" using get_once_result [OF ok g] by simp
  show ?thesis
  proof (cases "rejected r1")
    case True
    then have "execute_get_once env ep query d w1 = (r, w')" using run g by (simp add: execute_read_def)
    from get_once_result [OF ok1 this] show ?thesis by simp
  next
    case False
    with run g ok1 show ?thesis by (simp add: execute_read_def)
  qed
qed

section \<open>Calls\<close>

definition stays :: "(request list \<Rightarrow> bool) \<Rightarrow> world \<Rightarrow> world \<Rightarrow> bool" where
  "stays P w w' \<longleftrightarrow> (\<exists>sent. w_sent w' = w_sent w @ sent \<and> P (data_requests sent))"

definition calls_within :: "(request list \<Rightarrow> bool) \<Rightarrow> (world \<Rightarrow> 'a \<times> world) \<Rightarrow> bool" where
  "calls_within P f \<longleftrightarrow> (\<forall>w r w'. world_ok w \<longrightarrow> f w = (r, w') \<longrightarrow> world_ok w' \<and> stays P w w')"

lemma calls_withinI:
  "(\<And>w. world_ok w \<Longrightarrow> world_ok (snd (f w)) \<and> stays P w (snd (f w))) \<Longrightarrow> calls_within P f"
  unfolding calls_within_def by (metis snd_conv)

lemma calls_withinD:
  "calls_within P f \<Longrightarrow> world_ok w \<Longrightarrow> f w = (r, w') \<Longrightarrow> world_ok w' \<and> stays P w w'"
  unfolding calls_within_def by blast

definition only_gets :: "request list \<Rightarrow> bool" where
  "only_gets qs \<longleftrightarrow> (\<forall>q \<in> set qs. rq_method q = GET)"

definition one_change :: "request list \<Rightarrow> bool" where
  "one_change qs \<longleftrightarrow> length (filter (\<lambda>q. rq_method q \<noteq> GET) qs) \<le> 1"

lemma discipline_nil [simp]: "only_gets []" "one_change []"
  by (simp_all add: only_gets_def one_change_def)

lemma discipline_append:
  "only_gets qs \<Longrightarrow> only_gets rs \<Longrightarrow> only_gets (qs @ rs)"
  "only_gets qs \<Longrightarrow> one_change rs \<Longrightarrow> one_change (qs @ rs)"
  by (auto simp: only_gets_def one_change_def)

lemma only_gets_one_change: "only_gets qs \<Longrightarrow> one_change qs"
  by (simp add: only_gets_def one_change_def)

lemma stays_refl [simp]: "stays only_gets w w" "stays one_change w w"
  unfolding stays_def by (intro exI [of _ "[]"], simp)+

lemma stays_trans:
  assumes "stays only_gets w v" "stays P v u" and "P = only_gets \<or> P = one_change"
  shows "stays P w u"
proof -
  from assms(1) obtain s where s: "w_sent v = w_sent w @ s" "only_gets (data_requests s)"
    by (auto simp: stays_def)
  from assms(2) obtain t where t: "w_sent u = w_sent v @ t" "P (data_requests t)" by (auto simp: stays_def)
  have "P (data_requests (s @ t))" using s t assms(3) discipline_append by auto
  with s t show ?thesis unfolding stays_def by (intro exI [of _ "s @ t"]) simp
qed

named_theorems wire \<open>what the calls of the API send\<close>

lemma api_read_stays [wire]:
  assumes "world_ok w" and "api_read ap ep query d w = (r, w')"
  shows "world_ok w' \<and> stays only_gets w w'"
proof -
  have "stays only_gets w w'"
    using api_read_log [OF assms] by (auto simp: only_reads_def stays_def only_gets_def)
  moreover have "world_ok w'"
    using read_keeps_ok [OF assms(1), of "ap_env ap" ep "ap_query ap query" "read_body ap d"] assms(2)
    by (cases "execute_read (ap_env ap) ep (ap_query ap query) (read_body ap d) w") (auto simp: api_read_def)
  ultimately show ?thesis by simp
qed

lemma api_observable_read_stays [wire]:
  assumes "world_ok w" and "api_observable_read ap ep query d w = (r, w')"
  shows "world_ok w' \<and> stays only_gets w w'"
proof -
  have "stays only_gets w w'"
    using api_observable_read_log [OF assms] by (auto simp: stays_def only_gets_def)
  moreover have "world_ok w'"
    using get_once_result [OF assms(1), of "ap_env ap" ep "ap_query ap query" "read_body ap d"] assms(2)
    by (cases "execute_get_once (ap_env ap) ep (ap_query ap query) (read_body ap d) w")
      (auto simp: api_observable_read_def execute_observable_read_def)
  ultimately show ?thesis by simp
qed

lemma at_most_one_change: "length qs \<le> 1 \<Longrightarrow> one_change qs"
  unfolding one_change_def by (rule le_trans [OF length_filter_le])

lemma api_mutate_stays [wire]:
  assumes "world_ok w" and "api_mutate ap meth ep body d w = (r, w')"
  shows "world_ok w' \<and> stays one_change w w'"
proof -
  have "stays one_change w w'"
    using api_mutate_log [OF assms] at_most_one_change by (auto simp: only_mutation_def stays_def)
  moreover have "world_ok w'"
    using mutation_keeps_ok [OF assms(1), of "ap_env ap" "json_mutation ap meth ep body d"] assms(2)
    by (cases "execute_mutation (ap_env ap) (json_mutation ap meth ep body d) w") (auto simp: api_mutate_def)
  ultimately show ?thesis by simp
qed

lemma reading: "calls_within only_gets (api_read ap ep query d)"
  unfolding calls_within_def using api_read_stays by blast

lemma mutating: "calls_within one_change (api_mutate ap meth ep body d)"
  unfolding calls_within_def using api_mutate_stays by blast

text \<open>Calls made of calls: checked, one after another, or none at all.\<close>

lemma within_checked: "calls_within P f \<Longrightarrow> calls_within P (checked_call f check)"
  using calls_withinD [of P f _ "fst (f w)" "snd (f w)" for w]
  by (intro calls_withinI) (simp add: checked_call_def apfst_def map_prod_def split_beta)

lemma within_and_call:
  assumes f: "calls_within only_gets f" and g: "\<And>x. calls_within P (g x)"
    and P: "P = only_gets \<or> P = one_change"
  shows "calls_within P (and_call f g)"
proof (rule calls_withinI)
  fix w assume w: "world_ok w"
  obtain r w1 where r: "f w = (r, w1)" by force
  note s = calls_withinD [OF f w r]
  show "world_ok (snd (and_call f g w)) \<and> stays P w (snd (and_call f g w))"
  proof (cases r)
    case (Inl e)
    with s P show ?thesis by (auto simp: and_call_def r stays_def dest: only_gets_one_change)
  next
    case (Inr x)
    obtain r2 w2 where r2: "g x w1 = (r2, w2)" by force
    from calls_withinD [OF g, of w1 x r2 w2] r2 s P Inr show ?thesis
      by (simp add: and_call_def r) (blast intro: stays_trans)
  qed
qed

lemma within_none: "calls_within only_gets (\<lambda>w. (r, w))" "calls_within one_change (\<lambda>w. (r, w))"
  by (rule calls_withinI; simp)+

lemma within_if: "(b \<Longrightarrow> calls_within P f) \<Longrightarrow> (\<not> b \<Longrightarrow> calls_within P g) \<Longrightarrow> calls_within P (\<lambda>w. if b then f w else g w)"
  by (cases b) simp_all

lemma within_if': "(b \<Longrightarrow> calls_within P f) \<Longrightarrow> (\<not> b \<Longrightarrow> calls_within P g) \<Longrightarrow> calls_within P (if b then f else g)"
  by (cases b) simp_all

lemmas call_rules = within_checked within_and_call [OF _ _ disjI1 [OF refl]] within_and_call [OF _ _ disjI2 [OF refl]]
  within_none within_if within_if' reading mutating

lemma wire_snd:
  "world_ok w \<Longrightarrow> world_ok (snd (api_read ap ep query d w)) \<and> stays only_gets w (snd (api_read ap ep query d w))"
  "world_ok w \<Longrightarrow> world_ok (snd (api_mutate ap meth ep body e w))
     \<and> stays one_change w (snd (api_mutate ap meth ep body e w))"
  using calls_withinD [OF reading] calls_withinD [OF mutating] by (metis prod.collapse)+

section \<open>Handlers\<close>

definition handler_within :: "(request list \<Rightarrow> bool) \<Rightarrow> (tool_state \<Rightarrow> tool_outcome) \<Rightarrow> bool" where
  "handler_within P h \<longleftrightarrow>
     (\<forall>s r s'. world_ok (snd s) \<longrightarrow> h s = Some (r, s') \<longrightarrow> stays P (snd s) (snd s'))"

lemma handler_withinI:
  "(\<And>s r s'. world_ok (snd s) \<Longrightarrow> h s = Some (r, s') \<Longrightarrow> stays P (snd s) (snd s')) \<Longrightarrow> handler_within P h"
  unfolding handler_within_def by blast

lemma handler_withinD:
  "handler_within P h \<Longrightarrow> world_ok (snd s) \<Longrightarrow> h s = Some (r, s') \<Longrightarrow> stays P (snd s) (snd s')"
  unfolding handler_within_def by blast

named_theorems discipline \<open>shapes of handlers that keep a discipline\<close>

locale wire_discipline =
  fixes allowed :: "request list \<Rightarrow> bool"
  assumes silence: "allowed []"
begin

lemma quiet_stays: "stays allowed w w"
  unfolding stays_def by (intro exI [of _ "[]"]) (simp add: silence)

lemma error [discipline]: "handler_within allowed (\<lambda>s. Some (Err e, s))"
  by (rule handler_withinI) (auto simp: quiet_stays)

lemma input [discipline]:
  "(\<And>i. handler_within allowed (body i)) \<Longrightarrow> handler_within allowed (with_input E t d m p body)"
  by (rule handler_withinI) (auto simp: with_input_def quiet_stays dest: handler_withinD [rotated 2] split: sum.splits)

lemma parts [discipline]:
  "(\<And>x. handler_within allowed (body x)) \<Longrightarrow> handler_within allowed (with_parts r body)"
  by (rule handler_withinI) (auto simp: with_parts_def quiet_stays dest: handler_withinD [rotated 2] split: sum.splits)

lemma pair [discipline]:
  "(\<And>x y. handler_within allowed (body x y)) \<Longrightarrow> handler_within allowed (case p of (x, y) \<Rightarrow> body x y)"
  by (cases p) simp

lemma choice [discipline]:
  "handler_within allowed f \<Longrightarrow> handler_within allowed g \<Longrightarrow> handler_within allowed (if c then f else g)"
  by simp

lemma upstream [discipline]:
  assumes "\<And>ap. calls_within allowed (call ap)"
  shows "handler_within allowed (upstream_call E finish call)"
proof (rule handler_withinI)
  fix s r s' assume ok: "world_ok (snd s)" and run: "upstream_call E finish call s = Some (r, s')"
  obtain x w where c: "call (te_api E) (snd s) = (x, w)" by force
  with run have "snd s' = w" by (auto simp: upstream_call_def)
  with calls_withinD [OF assms ok c] show "stays allowed (snd s) (snd s')" by simp
qed

lemma delivered:
  "stays allowed w (snd s) \<Longrightarrow> delivered_result E d r build s = Some (x, s') \<Longrightarrow> stays allowed w (snd s')"
  by (auto simp: delivered_result_def split: sum.splits option.splits)

lemma confirmed [discipline]:
  "handler_within allowed body \<Longrightarrow> handler_within allowed (unless_confirmed c m body)"
  by (rule handler_withinI) (auto simp: unless_confirmed_def quiet_stays dest: handler_withinD split: if_splits)

lemma delivery [discipline]:
  assumes "\<And>ap x. calls_within allowed (call ap x)"
  shows "handler_within allowed (with_delivery E delivery p call build)"
proof (rule handler_withinI)
  fix s r s' assume ok: "world_ok (snd s)" and run: "with_delivery E delivery p call build s = Some (r, s')"
  from run show "stays allowed (snd s) (snd s')"
  proof (cases rule: with_delivery_cases)
    case (called d files x a w)
    have "stays allowed (snd s) w" using calls_withinD [OF assms ok called(3)] by simp
    with called(4) show ?thesis using delivered [of "snd s" "(files, w)"] by simp
  qed (simp_all add: quiet_stays)
qed

end

interpretation gets: wire_discipline only_gets
  by unfold_locales simp

interpretation changes: wire_discipline one_change
  by unfold_locales simp

section \<open>Secrets\<close>

lemma list_secret_metadata_filtered_reads [discipline]:
  "calls_within only_gets (list_secret_metadata_filtered ap scope page tags)"
  by (rule calls_withinI) (auto simp: list_secret_metadata_filtered_def wire_snd dest: wire split: prod.splits sum.splits if_splits)

lemma reveal_secret_reads: "calls_within only_gets (reveal_secret ap scope name)"
  by (rule calls_withinI) (auto simp: reveal_secret_def wire_snd dest: wire split: prod.splits sum.splits if_splits)

lemma value_mutation_changes [discipline]:
  "calls_within one_change (create_secret ap scope name v)"
  "calls_within one_change (update_secret ap scope name v)"
  by (rule calls_withinI; auto simp: create_secret_def update_secret_def mutate_secret_value_def
      wire_snd dest: wire split: prod.splits sum.splits if_splits)+

lemma delete_secret_changes [discipline]: "calls_within one_change (delete_secret ap scope name c)"
  by (rule calls_withinI) (auto simp: delete_secret_def wire_snd dest: wire split: prod.splits sum.splits if_splits)

lemma batch_changes [discipline]:
  "calls_within one_change (create_secrets_batch ap scope ss)"
  "calls_within one_change (update_secrets_batch ap scope ss)"
  "calls_within one_change (delete_secrets_batch ap scope ns c)"
  by (rule calls_withinI; auto simp: create_secrets_batch_def update_secrets_batch_def mutate_secret_batch_def
      delete_secrets_batch_def wire_snd dest: wire split: prod.splits sum.splits if_splits)+

lemma metadata_list_reads [discipline]: "handler_within only_gets (handle_metadata_list E params)"
  unfolding handle_metadata_list_def by (intro discipline)

lemma reveal_reads [discipline]: "handler_within only_gets (handle_reveal E params)"
  unfolding handle_reveal_def
  by (intro gets.input gets.delivery) (auto intro: reveal_secret_reads)

lemma value_mutation_handler:
  assumes "\<And>ap scope name v. calls_within one_change (op ap scope name v)"
  shows "handler_within one_change (handle_value_mutation E m op params)"
  unfolding handle_value_mutation_def
proof (rule changes.input, rule handler_withinI)
  fix i s r s' assume ok: "world_ok (snd s)"
    and run: "(case secret_value_mutation_parts (te_take_at E) (fst s) i of
       (Inl e, files) \<Rightarrow> Some (Err e, (files, snd s))
     | (Inr (scope, name, v), files) \<Rightarrow>
         upstream_call E (tool_result E receipt_json) (\<lambda>ap. op ap scope name v) (files, snd s)) = Some (r, s')"
  have up: "handler_within one_change (upstream_call E (tool_result E receipt_json) (\<lambda>ap. op ap scope name v))"
    for scope name v by (rule changes.upstream) (rule assms)
  obtain p files where p: "secret_value_mutation_parts (te_take_at E) (fst s) i = (p, files)" by force
  show "stays one_change (snd s) (snd s')"
  proof (cases p)
    case (Inl e)
    with run p show ?thesis by auto
  next
    case (Inr parts)
    obtain scope name v where "parts = (scope, name, v)" by (cases parts)
    with Inr run p have "upstream_call E (tool_result E receipt_json) (\<lambda>ap. op ap scope name v) (files, snd s)
        = Some (r, s')" by simp
    from handler_withinD [OF up _ this] ok show ?thesis by simp
  qed
qed

lemma secret_handlers_change [discipline]:
  "handler_within one_change (handle_value_mutation E m create_secret params)"
  "handler_within one_change (handle_value_mutation E m update_secret params)"
  "handler_within one_change (handle_delete E params)"
  "handler_within one_change (handle_batch_value E m create_secrets_batch params)"
  "handler_within one_change (handle_batch_value E m update_secrets_batch params)"
  "handler_within one_change (handle_batch_delete E params)"
  unfolding handle_delete_def handle_batch_value_def handle_batch_delete_def
  by (intro discipline value_mutation_handler)+

end
