(* ===== verification/Secret_Imports_Api.thy ===== *)
theory Secret_Imports_Api
  imports Api_Wire Resource_Input
begin

text \<open>
  The secret imports of \<open>infisical-api/src/secret_imports.rs\<close>: value-free links from a source
  scope to a destination scope, with direct cycles refused before anything is sent.
\<close>

section \<open>Data\<close>

record secret_import_environment =
  ie_id :: string
  ie_name :: string
  ie_slug :: string

record secret_import_target =
  it_project_id :: string
  it_environment :: string
  it_path :: string

record secret_import_source =
  is_environment :: secret_import_environment
  is_path :: string

record secret_import =
  si_id :: string
  si_target :: secret_import_target
  si_source :: secret_import_source
  si_position :: nat
  si_folder_id :: string
  si_version :: "nat option"
  si_is_replication :: bool
  si_is_replication_success :: "bool option"
  si_last_replicated :: "string option"
  si_is_reserved :: bool
  si_created_at :: string
  si_updated_at :: string

datatype secret_import_change =
    Import_Source string string
  | Import_Position u32

section \<open>Requests\<close>

definition secret_import_scope_wire :: "secret_scope \<Rightarrow> (string \<times> json) list" where
  "secret_import_scope_wire scope =
     [(''projectId'', String (scope_project_id scope)), (''environment'', String (scope_environment scope)),
      (''path'', String (scope_path scope))]"

definition secret_import_target_of :: "secret_scope \<Rightarrow> secret_import_target" where
  "secret_import_target_of scope =
     \<lparr>it_project_id = scope_project_id scope, it_environment = scope_environment scope,
      it_path = scope_path scope\<rparr>"

definition list_secret_imports_query :: "secret_scope \<Rightarrow> (string \<times> string) list" where
  "list_secret_imports_query scope =
     [(''projectId'', scope_project_id scope), (''environment'', scope_environment scope),
      (''path'', scope_path scope)]"

definition secret_import_source_wire :: "string \<Rightarrow> string \<Rightarrow> json" where
  "secret_import_source_wire environment path =
     Object [(''environment'', String environment), (''path'', String path)]"

definition create_secret_import_request :: "secret_scope \<Rightarrow> string \<Rightarrow> string \<Rightarrow> json" where
  "create_secret_import_request scope environment path =
     Object (secret_import_scope_wire scope
       @ [(''import'', secret_import_source_wire environment path), (''isReplication'', Bool False)])"

fun update_secret_import_wire :: "secret_import_change \<Rightarrow> json" where
  "update_secret_import_wire (Import_Source environment path) =
     Object [(''environment'', String environment), (''path'', String path)]"
| "update_secret_import_wire (Import_Position position) =
     Object [(''position'', Number (Unsigned (unat position)))]"

definition update_secret_import_request :: "secret_scope \<Rightarrow> secret_import_change \<Rightarrow> json" where
  "update_secret_import_request scope change =
     Object (secret_import_scope_wire scope @ [(''import'', update_secret_import_wire change)])"

definition delete_secret_import_request :: "secret_scope \<Rightarrow> json" where
  "delete_secret_import_request scope = Object (secret_import_scope_wire scope)"

section \<open>Responses\<close>

definition decode_import_environment :: "json \<Rightarrow> secret_import_environment option" where
  "decode_import_environment j =
     do { fs \<leftarrow> wire_fields [(''id'', Required_Field), (''name'', Required_Field), (''slug'', Required_Field)] j;
          i \<leftarrow> wire_field fs ''id'' as_str;
          n \<leftarrow> wire_field fs ''name'' as_str;
          s \<leftarrow> wire_field fs ''slug'' as_str;
          Some \<lparr>ie_id = i, ie_name = n, ie_slug = s\<rparr> }"

text \<open>\<open>SecretImportWire\<close> turned into a resource of a given target.\<close>

definition secret_import_fields :: "(string \<times> presence) list" where
  "secret_import_fields =
     [(''id'', Required_Field), (''version'', Default_Field), (''importPath'', Required_Field),
      (''importEnv'', Required_Field), (''position'', Required_Field), (''createdAt'', Required_Field),
      (''updatedAt'', Required_Field), (''folderId'', Required_Field), (''isReplication'', Default_Field),
      (''isReplicationSuccess'', Default_Field), (''lastReplicated'', Default_Field),
      (''isReserved'', Default_Field)]"

definition decode_secret_import :: "json \<Rightarrow> (secret_import_target \<Rightarrow> secret_import) option" where
  "decode_secret_import j =
     do { fs \<leftarrow> wire_fields secret_import_fields j;
          i \<leftarrow> wire_field fs ''id'' as_str;
          v \<leftarrow> wire_option fs ''version'' decode_usize;
          p \<leftarrow> wire_field fs ''importPath'' as_str;
          e \<leftarrow> wire_field fs ''importEnv'' decode_import_environment;
          pos \<leftarrow> wire_field fs ''position'' decode_usize;
          c \<leftarrow> wire_field fs ''createdAt'' as_str;
          u \<leftarrow> wire_field fs ''updatedAt'' as_str;
          f \<leftarrow> wire_field fs ''folderId'' as_str;
          r \<leftarrow> wire_option fs ''isReplication'' decode_bool;
          rs \<leftarrow> wire_option fs ''isReplicationSuccess'' decode_bool;
          l \<leftarrow> wire_option fs ''lastReplicated'' as_str;
          res \<leftarrow> wire_option fs ''isReserved'' decode_bool;
          Some (\<lambda>target. \<lparr>si_id = i, si_target = target, si_source = \<lparr>is_environment = e, is_path = p\<rparr>,
             si_position = pos, si_folder_id = f, si_version = v,
             si_is_replication = (case r of None \<Rightarrow> False | Some b \<Rightarrow> b), si_is_replication_success = rs,
             si_last_replicated = l, si_is_reserved = (case res of None \<Rightarrow> False | Some b \<Rightarrow> b),
             si_created_at = c, si_updated_at = u\<rparr>) }"

text \<open>A struct with a flattened one: an object, whose other entries go to the flattened struct.\<close>

definition decode_scoped_secret_import :: "json \<Rightarrow> secret_import option" where
  "decode_scoped_secret_import j =
     (case j of
        Object m \<Rightarrow>
          do { fs \<leftarrow> wire_fields [(''projectId'', Required_Field), (''environment'', Required_Field),
                               (''secretPath'', Required_Field)] j;
               p \<leftarrow> wire_field fs ''projectId'' as_str;
               e \<leftarrow> wire_field fs ''environment'' decode_import_environment;
               path \<leftarrow> wire_field fs ''secretPath'' as_str;
               mk \<leftarrow> decode_secret_import
                 (Object (filter (\<lambda>kv. fst kv \<notin> {''projectId'', ''environment'', ''secretPath''}) m));
               Some (mk \<lparr>it_project_id = p, it_environment = ie_slug e, it_path = path\<rparr>) }
      | _ \<Rightarrow> None)"

definition decode_list_secret_imports :: "json \<Rightarrow> (secret_import_target \<Rightarrow> secret_import) list option" where
  "decode_list_secret_imports j =
     do { fs \<leftarrow> wire_fields [(''secretImports'', Required_Field)] j;
          wire_field fs ''secretImports'' (wire_list decode_secret_import) }"

definition decode_secret_import_mutation :: "json \<Rightarrow> (secret_import_target \<Rightarrow> secret_import) option" where
  "decode_secret_import_mutation j =
     do { fs \<leftarrow> wire_fields [(''secretImport'', Required_Field)] j;
          wire_field fs ''secretImport'' decode_secret_import }"

definition decode_get_secret_import :: "json \<Rightarrow> secret_import option" where
  "decode_get_secret_import j =
     do { fs \<leftarrow> wire_fields [(''secretImport'', Required_Field)] j;
          wire_field fs ''secretImport'' decode_scoped_secret_import }"

section \<open>Operations\<close>

definition secret_imports_endpoint :: endpoint where
  "secret_imports_endpoint = endpoint_from_static V2 ''secret-imports''"
definition secret_import_endpoint :: "string \<Rightarrow> endpoint" where
  "secret_import_endpoint ident = endpoint_from_segments V2 [''secret-imports'', ident]"

definition source_matches_target :: "secret_scope \<Rightarrow> string \<Rightarrow> string \<Rightarrow> bool" where
  "source_matches_target scope environment path \<longleftrightarrow>
     scope_environment scope = environment \<and> scope_path scope = path"

definition list_secret_imports ::
    "api \<Rightarrow> secret_scope \<Rightarrow> page_request \<Rightarrow> world \<Rightarrow> (resource_error, secret_import page) result \<times> world" where
  "list_secret_imports ap scope page w =
     (case api_read ap secret_imports_endpoint (list_secret_imports_query scope) decode_list_secret_imports w of
        (Inl e, w) \<Rightarrow> (Inl e, w)
      | (Inr found, w) \<Rightarrow>
          (map_err Pagination_Error
             (paginate page (map (\<lambda>mk. mk (secret_import_target_of scope)) found)), w))"

definition get_secret_import :: "api \<Rightarrow> string \<Rightarrow> world \<Rightarrow> (resource_error, secret_import) result \<times> world" where
  "get_secret_import ap ident w =
     api_read ap (secret_import_endpoint ident) [] decode_get_secret_import w"

definition create_secret_import ::
    "api \<Rightarrow> secret_scope \<Rightarrow> string \<Rightarrow> string \<Rightarrow> world \<Rightarrow> (resource_error, secret_import) result \<times> world" where
  "create_secret_import ap scope environment path w =
     (if source_matches_target scope environment path then (resource ''CyclicSecretImport'', w)
      else
        apfst (map_sum id (\<lambda>mk. mk (secret_import_target_of scope)))
          (api_mutate ap POST secret_imports_endpoint (create_secret_import_request scope environment path)
            decode_secret_import_mutation w))"

definition update_secret_import ::
    "api \<Rightarrow> secret_scope \<Rightarrow> string \<Rightarrow> secret_import_change \<Rightarrow> world
      \<Rightarrow> (resource_error, secret_import) result \<times> world" where
  "update_secret_import ap scope ident change w =
     (if (case change of
            Import_Source environment path \<Rightarrow> source_matches_target scope environment path
          | Import_Position _ \<Rightarrow> False)
      then (resource ''CyclicSecretImport'', w)
      else
        apfst (map_sum id (\<lambda>mk. mk (secret_import_target_of scope)))
          (api_mutate ap PATCH (secret_import_endpoint ident) (update_secret_import_request scope change)
            decode_secret_import_mutation w))"

definition delete_secret_import ::
    "api \<Rightarrow> secret_scope \<Rightarrow> string \<Rightarrow> bool \<Rightarrow> world \<Rightarrow> (resource_error, secret_import) result \<times> world" where
  "delete_secret_import ap scope ident confirm w =
     (if \<not> confirm then (resource ''SecretImportDeletionNotConfirmed'', w)
      else
        apfst (map_sum id (\<lambda>mk. mk (secret_import_target_of scope)))
          (api_mutate ap DELETE (secret_import_endpoint ident) (delete_secret_import_request scope)
            decode_secret_import_mutation w))"

end
