(* ===== verification/Folders_Api.thy ===== *)
theory Folders_Api
  imports Api_Wire Resource_Input
begin

text \<open>
  The folders of \<open>infisical-api/src/folders.rs\<close> and the tags of \<open>infisical-api/src/tags.rs\<close>:
  reads, single mutations, the bounded batch update, and confirmed deletions.
\<close>

section \<open>Folders\<close>

definition max_folder_batch_size :: nat where "max_folder_batch_size = 50"

record folder_environment =
  fe_env_id :: string
  fe_env_name :: string
  fe_env_slug :: string

record folder =
  fo_id :: string
  fo_name :: string
  fo_env_id :: string
  fo_parent_id :: "string option"
  fo_description :: "string option"
  fo_is_reserved :: "bool option"
  fo_relative_path :: "string option"
  fo_path :: "string option"
  fo_project_id :: "string option"
  fo_environment :: "folder_environment option"

record folder_parent =
  fp_project_id :: string
  fp_environment :: string
  fp_path :: string

record folder_creation =
  fw_parent :: folder_parent
  fw_name :: string
  fw_description :: "string option"

record folder_update =
  fu_parent :: folder_parent
  fu_folder_id :: string
  fu_name :: string
  fu_description :: "string option"

record folder_batch_update =
  fb_folder_id :: string
  fb_environment :: string
  fb_path :: string
  fb_name :: string
  fb_description :: "string option"

definition nullable :: "string option \<Rightarrow> json" where
  "nullable d = (case d of None \<Rightarrow> Null | Some s \<Rightarrow> String s)"

definition list_folders_query :: "secret_scope \<Rightarrow> (string \<times> string) list" where
  "list_folders_query scope =
     [(''projectId'', scope_project_id scope), (''environment'', scope_environment scope),
      (''path'', scope_path scope), (''recursive'', if scope_recursive scope then ''true'' else ''false'')]"

definition create_folder_request :: "folder_creation \<Rightarrow> json" where
  "create_folder_request c =
     Object [(''projectId'', String (fp_project_id (fw_parent c))),
             (''environment'', String (fp_environment (fw_parent c))), (''name'', String (fw_name c)),
             (''path'', String (fp_path (fw_parent c))), (''description'', nullable (fw_description c))]"

definition update_folder_request :: "folder_update \<Rightarrow> json" where
  "update_folder_request u =
     Object [(''projectId'', String (fp_project_id (fu_parent u))),
             (''environment'', String (fp_environment (fu_parent u))), (''name'', String (fu_name u)),
             (''path'', String (fp_path (fu_parent u))), (''description'', nullable (fu_description u))]"

definition batch_update_folder_wire :: "folder_batch_update \<Rightarrow> json" where
  "batch_update_folder_wire u =
     Object [(''id'', String (fb_folder_id u)), (''environment'', String (fb_environment u)),
             (''name'', String (fb_name u)), (''path'', String (fb_path u)),
             (''description'', nullable (fb_description u))]"

definition batch_update_folders_request :: "string \<Rightarrow> folder_batch_update list \<Rightarrow> json" where
  "batch_update_folders_request project_id updates =
     Object [(''projectId'', String project_id), (''folders'', Array (map batch_update_folder_wire updates))]"

definition delete_folder_request :: "folder_parent \<Rightarrow> bool \<Rightarrow> json" where
  "delete_folder_request parent force =
     Object [(''projectId'', String (fp_project_id parent)), (''environment'', String (fp_environment parent)),
             (''path'', String (fp_path parent)), (''forceDelete'', Bool force)]"

definition decode_folder_environment :: "json \<Rightarrow> folder_environment option" where
  "decode_folder_environment j =
     do { fs \<leftarrow> wire_fields [(''envId'', Required_Field), (''envName'', Required_Field),
                          (''envSlug'', Required_Field)] j;
          i \<leftarrow> wire_field fs ''envId'' as_str;
          n \<leftarrow> wire_field fs ''envName'' as_str;
          s \<leftarrow> wire_field fs ''envSlug'' as_str;
          Some \<lparr>fe_env_id = i, fe_env_name = n, fe_env_slug = s\<rparr> }"

definition decode_folder :: "json \<Rightarrow> folder option" where
  "decode_folder j =
     do { fs \<leftarrow> wire_fields [(''id'', Required_Field), (''name'', Required_Field), (''envId'', Required_Field),
            (''parentId'', Default_Field), (''description'', Default_Field), (''isReserved'', Default_Field),
            (''relativePath'', Default_Field), (''path'', Default_Field), (''projectId'', Default_Field),
            (''environment'', Default_Field)] j;
          i \<leftarrow> wire_field fs ''id'' as_str;
          n \<leftarrow> wire_field fs ''name'' as_str;
          e \<leftarrow> wire_field fs ''envId'' as_str;
          pa \<leftarrow> wire_option fs ''parentId'' as_str;
          d \<leftarrow> wire_option fs ''description'' as_str;
          r \<leftarrow> wire_option fs ''isReserved'' decode_bool;
          rp \<leftarrow> wire_option fs ''relativePath'' as_str;
          p \<leftarrow> wire_option fs ''path'' as_str;
          pr \<leftarrow> wire_option fs ''projectId'' as_str;
          env \<leftarrow> wire_option fs ''environment'' decode_folder_environment;
          Some \<lparr>fo_id = i, fo_name = n, fo_env_id = e, fo_parent_id = pa, fo_description = d,
                fo_is_reserved = r, fo_relative_path = rp, fo_path = p, fo_project_id = pr,
                fo_environment = env\<rparr> }"

definition decode_folder_response :: "json \<Rightarrow> folder option" where
  "decode_folder_response j =
     do { fs \<leftarrow> wire_fields [(''folder'', Required_Field)] j; wire_field fs ''folder'' decode_folder }"

definition decode_folders_response :: "json \<Rightarrow> folder list option" where
  "decode_folders_response j =
     do { fs \<leftarrow> wire_fields [(''folders'', Required_Field)] j; wire_field fs ''folders'' (wire_list decode_folder) }"

definition folders_endpoint :: endpoint where
  "folders_endpoint = endpoint_from_static V2 ''folders''"
definition folder_endpoint :: "string \<Rightarrow> endpoint" where
  "folder_endpoint ident = endpoint_from_segments V2 [''folders'', ident]"

definition list_folders ::
    "api \<Rightarrow> secret_scope \<Rightarrow> page_request \<Rightarrow> world \<Rightarrow> (resource_error, folder page) result \<times> world" where
  "list_folders ap scope page w =
     (case api_read ap folders_endpoint (list_folders_query scope) decode_folders_response w of
        (Inl e, w) \<Rightarrow> (Inl e, w)
      | (Inr found, w) \<Rightarrow> (map_err Pagination_Error (paginate page found), w))"

definition get_folder :: "api \<Rightarrow> string \<Rightarrow> world \<Rightarrow> (resource_error, folder) result \<times> world" where
  "get_folder ap ident w = api_read ap (folder_endpoint ident) [] decode_folder_response w"

definition create_folder :: "api \<Rightarrow> folder_creation \<Rightarrow> world \<Rightarrow> (resource_error, folder) result \<times> world" where
  "create_folder ap c w =
     api_mutate ap POST folders_endpoint (create_folder_request c) decode_folder_response w"

definition update_folder :: "api \<Rightarrow> folder_update \<Rightarrow> world \<Rightarrow> (resource_error, folder) result \<times> world" where
  "update_folder ap u w =
     api_mutate ap PATCH (folder_endpoint (fu_folder_id u)) (update_folder_request u) decode_folder_response w"

definition validate_folder_batch :: "folder_batch_update list \<Rightarrow> (resource_error, unit) result" where
  "validate_folder_batch updates =
     (if updates = [] \<or> max_folder_batch_size < length updates then resource ''InvalidFolderBatchSize''
      else if card (set (map fb_folder_id updates)) \<noteq> length updates then resource ''DuplicateFolderId''
      else Ok ())"

definition update_folders_batch ::
    "api \<Rightarrow> string \<Rightarrow> folder_batch_update list \<Rightarrow> world \<Rightarrow> (resource_error, folder list) result \<times> world" where
  "update_folders_batch ap project_id updates w =
     (case validate_folder_batch updates of
        Inl e \<Rightarrow> (Inl e, w)
      | Inr _ \<Rightarrow>
          api_mutate ap PATCH (folder_endpoint ''batch'') (batch_update_folders_request project_id updates)
            decode_folders_response w)"

definition delete_folder ::
    "api \<Rightarrow> folder_parent \<Rightarrow> string \<Rightarrow> bool \<Rightarrow> bool \<Rightarrow> world \<Rightarrow> (resource_error, folder) result \<times> world" where
  "delete_folder ap parent ident force confirm w =
     (if \<not> confirm then (resource ''FolderDeletionNotConfirmed'', w)
      else api_mutate ap DELETE (folder_endpoint ident) (delete_folder_request parent force)
             decode_folder_response w)"

section \<open>Tags\<close>

record tag =
  tg_id :: string
  tg_slug :: string
  tg_project_id :: string
  tg_color :: "string option"
  tg_name :: "string option"

datatype tag_selector = Tag_By_Id string | Tag_By_Slug string

record tag_values =
  tv_slug :: string
  tv_color :: string

text \<open>The bodies of a creation and an update hold the same fields.\<close>

definition tag_request :: "tag_values \<Rightarrow> json" where
  "tag_request v = Object [(''slug'', String (tv_slug v)), (''color'', String (tv_color v))]"

definition delete_tag_request :: json where "delete_tag_request = Object []"

definition decode_tag :: "json \<Rightarrow> tag option" where
  "decode_tag j =
     do { fs \<leftarrow> wire_fields [(''id'', Required_Field), (''slug'', Required_Field),
            (''projectId'', Required_Field), (''color'', Default_Field), (''name'', Default_Field)] j;
          i \<leftarrow> wire_field fs ''id'' as_str;
          s \<leftarrow> wire_field fs ''slug'' as_str;
          p \<leftarrow> wire_field fs ''projectId'' as_str;
          c \<leftarrow> wire_option fs ''color'' as_str;
          n \<leftarrow> wire_option fs ''name'' as_str;
          Some \<lparr>tg_id = i, tg_slug = s, tg_project_id = p, tg_color = c, tg_name = n\<rparr> }"

definition decode_tag_response :: "json \<Rightarrow> tag option" where
  "decode_tag_response j =
     do { fs \<leftarrow> wire_fields [(''tag'', Required_Field)] j; wire_field fs ''tag'' decode_tag }"

definition decode_list_tags :: "json \<Rightarrow> tag list option" where
  "decode_list_tags j =
     do { fs \<leftarrow> wire_fields [(''tags'', Required_Field)] j; wire_field fs ''tags'' (wire_list decode_tag) }"

definition tags_endpoint :: "string \<Rightarrow> endpoint" where
  "tags_endpoint project_id = endpoint_from_segments V1 [''projects'', project_id, ''tags'']"

definition tag_endpoint :: "string \<Rightarrow> string \<Rightarrow> endpoint" where
  "tag_endpoint project_id tag_id = endpoint_from_segments V1 [''projects'', project_id, ''tags'', tag_id]"

fun get_tag_endpoint :: "string \<Rightarrow> tag_selector \<Rightarrow> endpoint" where
  "get_tag_endpoint project_id (Tag_By_Id tag_id) = tag_endpoint project_id tag_id"
| "get_tag_endpoint project_id (Tag_By_Slug slug) =
     endpoint_from_segments V1 [''projects'', project_id, ''tags'', ''slug'', slug]"

definition list_tags ::
    "api \<Rightarrow> string \<Rightarrow> page_request \<Rightarrow> world \<Rightarrow> (resource_error, tag page) result \<times> world" where
  "list_tags ap project_id page w =
     (case api_read ap (tags_endpoint project_id) [] decode_list_tags w of
        (Inl e, w) \<Rightarrow> (Inl e, w)
      | (Inr found, w) \<Rightarrow> (map_err Pagination_Error (paginate page found), w))"

definition get_tag ::
    "api \<Rightarrow> string \<Rightarrow> tag_selector \<Rightarrow> world \<Rightarrow> (resource_error, tag) result \<times> world" where
  "get_tag ap project_id selector w =
     api_read ap (get_tag_endpoint project_id selector) [] decode_tag_response w"

definition create_tag ::
    "api \<Rightarrow> string \<Rightarrow> tag_values \<Rightarrow> world \<Rightarrow> (resource_error, tag) result \<times> world" where
  "create_tag ap project_id v w =
     api_mutate ap POST (tags_endpoint project_id) (tag_request v) decode_tag_response w"

definition update_tag ::
    "api \<Rightarrow> string \<Rightarrow> string \<Rightarrow> tag_values \<Rightarrow> world \<Rightarrow> (resource_error, tag) result \<times> world" where
  "update_tag ap project_id tag_id v w =
     api_mutate ap PATCH (tag_endpoint project_id tag_id) (tag_request v) decode_tag_response w"

definition delete_tag ::
    "api \<Rightarrow> string \<Rightarrow> string \<Rightarrow> bool \<Rightarrow> world \<Rightarrow> (resource_error, tag) result \<times> world" where
  "delete_tag ap project_id tag_id confirm w =
     (if \<not> confirm then (resource ''TagDeletionNotConfirmed'', w)
      else api_mutate ap DELETE (tag_endpoint project_id tag_id) delete_tag_request decode_tag_response w)"

end
