(* ===== verification/Secret_Tree_Tools.thy ===== *)
theory Secret_Tree_Tools
  imports Secrets_Tools_Facts Secret_Imports_Api Folders_Api
begin

text \<open>
  The tools of the secret tree in \<open>infisical-mcp/src/tools.rs\<close>: secret imports, folders and tags,
  with their argument structs, outputs and dispatch functions, and the whole tree's routing.
\<close>

section \<open>Shared arguments\<close>

text \<open>An internally tagged enum: its tag and the content left for the variant.\<close>

definition tagged_content :: "json \<Rightarrow> (string \<times> json) option" where
  "tagged_content j =
     (case j of
        Object m \<Rightarrow>
          Option.bind (Option.bind (map_of m ''kind'') as_str)
            (\<lambda>t. Some (t, Object (filter (\<lambda>kv. fst kv \<noteq> ''kind'') m)))
      | Array (String t # xs) \<Rightarrow> Some (t, Array xs)
      | _ \<Rightarrow> None)"

text \<open>Pages: \<open>offset\<close> and \<open>limit\<close> with their defaults.\<close>

definition decode_offset :: "(string \<rightharpoonup> json) \<Rightarrow> nat option" where
  "decode_offset fs = wire_default fs ''offset'' 0 decode_u32"
definition decode_limit :: "(string \<rightharpoonup> json) \<Rightarrow> nat option" where
  "decode_limit fs = wire_default fs ''limit'' default_page_limit decode_usize"

definition decode_scope_page :: "(string \<times> json) list \<Rightarrow> scope_page_input option" where
  "decode_scope_page m =
     do { fs \<leftarrow> strict_fields [(''projectId'', Required_Field), (''environment'', Required_Field),
            (''path'', Required_Field), (''recursive'', Default_Field), (''offset'', Default_Field),
            (''limit'', Default_Field)] (Object m);
          p \<leftarrow> wire_field fs ''projectId'' as_str;
          e \<leftarrow> wire_field fs ''environment'' as_str;
          path \<leftarrow> wire_field fs ''path'' as_str;
          r \<leftarrow> wire_default fs ''recursive'' False decode_bool;
          off \<leftarrow> decode_offset fs;
          l \<leftarrow> decode_limit fs;
          Some \<lparr>sp_project_id = p, sp_environment = e, sp_path = path, sp_recursive = r,
                sp_offset = off, sp_limit = l\<rparr> }"

record project_page_input =
  pp_project_id :: string
  pp_offset :: nat
  pp_limit :: nat

definition decode_project_page :: "(string \<times> json) list \<Rightarrow> project_page_input option" where
  "decode_project_page m =
     do { fs \<leftarrow> strict_fields [(''projectId'', Required_Field), (''offset'', Default_Field),
                            (''limit'', Default_Field)] (Object m);
          p \<leftarrow> wire_field fs ''projectId'' as_str;
          off \<leftarrow> decode_offset fs;
          l \<leftarrow> decode_limit fs;
          Some \<lparr>pp_project_id = p, pp_offset = off, pp_limit = l\<rparr> }"

definition project_page_parts :: "project_page_input \<Rightarrow> (mcp_error, string \<times> page_request) result" where
  "project_page_parts i =
     and_then (map_err invalid_input (new_project_id (pp_project_id i))) (\<lambda>project_id.
     and_then (page_request_of (pp_offset i) (pp_limit i)) (\<lambda>page. Ok (project_id, page)))"

section \<open>Secret imports\<close>

definition decode_import_source :: "json \<Rightarrow> (string \<times> string) option" where
  "decode_import_source j =
     do { fs \<leftarrow> strict_fields [(''environment'', Required_Field), (''path'', Required_Field)] j;
          e \<leftarrow> wire_field fs ''environment'' as_str;
          p \<leftarrow> wire_field fs ''path'' as_str;
          Some (e, p) }"

definition import_source_parts :: "string \<times> string \<Rightarrow> (mcp_error, string \<times> string) result" where
  "import_source_parts s =
     and_then (map_err invalid_input (new_environment_slug (fst s))) (\<lambda>environment.
     and_then (map_err invalid_input (new_secret_path (snd s))) (\<lambda>path. Ok (environment, path)))"

definition decode_imports_list ::
    "(string \<times> json) list \<Rightarrow> (exact_secret_scope_input \<times> nat \<times> nat) option" where
  "decode_imports_list m =
     do { fs \<leftarrow> strict_fields [(''target'', Required_Field), (''offset'', Default_Field),
                            (''limit'', Default_Field)] (Object m);
          t \<leftarrow> wire_field fs ''target'' decode_exact_secret_scope;
          off \<leftarrow> decode_offset fs;
          l \<leftarrow> decode_limit fs;
          Some (t, off, l) }"

definition decode_import_get :: "(string \<times> json) list \<Rightarrow> string option" where
  "decode_import_get m =
     do { fs \<leftarrow> strict_fields [(''secretImportId'', Required_Field)] (Object m);
          wire_field fs ''secretImportId'' as_str }"

definition decode_import_create ::
    "(string \<times> json) list \<Rightarrow> (exact_secret_scope_input \<times> string \<times> string) option" where
  "decode_import_create m =
     do { fs \<leftarrow> strict_fields [(''target'', Required_Field), (''source'', Required_Field)] (Object m);
          t \<leftarrow> wire_field fs ''target'' decode_exact_secret_scope;
          s \<leftarrow> wire_field fs ''source'' decode_import_source;
          Some (t, s) }"

definition import_create_parts ::
    "exact_secret_scope_input \<times> string \<times> string \<Rightarrow> (mcp_error, secret_scope \<times> string \<times> string) result" where
  "import_create_parts i =
     and_then (exact_secret_scope (fst i)) (\<lambda>target.
     and_then (import_source_parts (snd i)) (\<lambda>source. Ok (target, source)))"

datatype secret_import_change_input = Change_Source string string | Change_Position nat

definition decode_import_change :: "json \<Rightarrow> secret_import_change_input option" where
  "decode_import_change j =
     do { (t, rest) \<leftarrow> tagged_content j;
          if t = ''source''
          then do { fs \<leftarrow> strict_fields [(''environment'', Required_Field), (''path'', Required_Field)] rest;
                    e \<leftarrow> wire_field fs ''environment'' as_str;
                    p \<leftarrow> wire_field fs ''path'' as_str;
                    Some (Change_Source e p) }
          else if t = ''position''
          then do { fs \<leftarrow> strict_fields [(''position'', Required_Field)] rest;
                    n \<leftarrow> wire_field fs ''position'' decode_u32;
                    Some (Change_Position n) }
          else None }"

fun import_change :: "secret_import_change_input \<Rightarrow> (mcp_error, secret_import_change) result" where
  "import_change (Change_Source environment path) =
     and_then (map_err invalid_input (new_environment_slug environment)) (\<lambda>e.
     and_then (map_err invalid_input (new_secret_path path)) (\<lambda>p. Ok (Import_Source e p)))"
| "import_change (Change_Position n) =
     and_then (map_err invalid_input (new_secret_import_position (of_nat n))) (\<lambda>p. Ok (Import_Position p))"

definition decode_import_update ::
    "(string \<times> json) list \<Rightarrow> (exact_secret_scope_input \<times> string \<times> secret_import_change_input) option" where
  "decode_import_update m =
     do { fs \<leftarrow> strict_fields [(''target'', Required_Field), (''secretImportId'', Required_Field),
                            (''change'', Required_Field)] (Object m);
          t \<leftarrow> wire_field fs ''target'' decode_exact_secret_scope;
          i \<leftarrow> wire_field fs ''secretImportId'' as_str;
          c \<leftarrow> wire_field fs ''change'' decode_import_change;
          Some (t, i, c) }"

definition import_update_parts ::
    "exact_secret_scope_input \<times> string \<times> secret_import_change_input
      \<Rightarrow> (mcp_error, secret_scope \<times> string \<times> secret_import_change) result" where
  "import_update_parts i =
     (case i of (t, ident, c) \<Rightarrow>
        and_then (exact_secret_scope t) (\<lambda>target.
        and_then (map_err invalid_input (new_secret_import_id ident)) (\<lambda>ident.
        and_then (import_change c) (\<lambda>change. Ok (target, ident, change)))))"

definition decode_import_delete ::
    "(string \<times> json) list \<Rightarrow> (exact_secret_scope_input \<times> string \<times> bool) option" where
  "decode_import_delete m =
     do { fs \<leftarrow> strict_fields [(''target'', Required_Field), (''secretImportId'', Required_Field),
                            (''confirm'', Required_Field)] (Object m);
          t \<leftarrow> wire_field fs ''target'' decode_exact_secret_scope;
          i \<leftarrow> wire_field fs ''secretImportId'' as_str;
          c \<leftarrow> wire_field fs ''confirm'' decode_bool;
          Some (t, i, c) }"

definition import_delete_parts ::
    "exact_secret_scope_input \<times> string \<times> bool \<Rightarrow> (mcp_error, secret_scope \<times> string) result" where
  "import_delete_parts i =
     (case i of (t, ident, confirm) \<Rightarrow>
        and_then (exact_secret_scope t) (\<lambda>target.
        and_then (map_err invalid_input (new_secret_import_id ident)) (\<lambda>ident.
          if \<not> confirm then Err (invalid_params ''confirm must be true to delete the exact secret import'' None)
          else Ok (target, ident))))"

definition import_json :: "secret_import \<Rightarrow> json" where
  "import_json s =
     object_of
       [(''id'', String (si_id s)),
        (''target'', object_of [(''projectId'', String (it_project_id (si_target s))),
           (''environment'', String (it_environment (si_target s))), (''path'', String (it_path (si_target s)))]),
        (''source'', object_of
           [(''environment'', object_of [(''id'', String (ie_id (is_environment (si_source s)))),
               (''name'', String (ie_name (is_environment (si_source s)))),
               (''slug'', String (ie_slug (is_environment (si_source s))))]),
            (''path'', String (is_path (si_source s)))]),
        (''position'', unsigned (si_position s)), (''folderId'', String (si_folder_id s)),
        (''version'', option_json unsigned (si_version s)), (''isReplication'', Bool (si_is_replication s)),
        (''isReplicationSuccess'', option_json Bool (si_is_replication_success s)),
        (''lastReplicated'', option_json String (si_last_replicated s)),
        (''isReserved'', Bool (si_is_reserved s)), (''createdAt'', String (si_created_at s)),
        (''updatedAt'', String (si_updated_at s))]"

definition dispatch_secret_import_workflow :: "tool_env \<Rightarrow> call_params \<Rightarrow> tool_state \<Rightarrow> tool_outcome" where
  "dispatch_secret_import_workflow E params =
     (let name = cp_name params in
      if name = SECRET_IMPORTS_LIST_TOOL then
        with_input E ''SecretImportsListInput'' decode_imports_list
          ''secretImports.list arguments do not match the declared schema'' params (\<lambda>(t, off, l).
          with_parts (and_then (exact_secret_scope t) (\<lambda>target.
              and_then (page_request_of off l) (\<lambda>page. Ok (target, page)))) (\<lambda>(target, page).
            upstream_call E (tool_result E (page_json import_json)) (\<lambda>ap. list_secret_imports ap target page)))
      else if name = SECRET_IMPORTS_GET_TOOL then
        with_input E ''SecretImportGetInput'' decode_import_get
          ''secretImports.get arguments do not match the declared schema'' params (\<lambda>i.
          with_parts (map_err invalid_input (new_secret_import_id i)) (\<lambda>ident.
            upstream_call E (tool_result E import_json) (\<lambda>ap. get_secret_import ap ident)))
      else if name = SECRET_IMPORTS_CREATE_TOOL then
        with_input E ''SecretImportCreateInput'' decode_import_create
          ''secretImports.create arguments do not match the declared schema'' params (\<lambda>i.
          with_parts (import_create_parts i) (\<lambda>(target, environment, path).
            upstream_call E (tool_result E import_json) (\<lambda>ap. create_secret_import ap target environment path)))
      else if name = SECRET_IMPORTS_UPDATE_TOOL then
        with_input E ''SecretImportUpdateInput'' decode_import_update
          ''secretImports.update arguments do not match the declared schema'' params (\<lambda>i.
          with_parts (import_update_parts i) (\<lambda>(target, ident, change).
            upstream_call E (tool_result E import_json) (\<lambda>ap. update_secret_import ap target ident change)))
      else if name = SECRET_IMPORTS_DELETE_TOOL then
        with_input E ''SecretImportDeleteInput'' decode_import_delete
          ''secretImports.delete arguments do not match the declared schema'' params (\<lambda>i.
          with_parts (import_delete_parts i) (\<lambda>(target, ident).
            upstream_call E (tool_result E import_json) (\<lambda>ap. delete_secret_import ap target ident True)))
      else (\<lambda>s. Some (Err method_not_found, s)))"

section \<open>Folders\<close>

definition default_root_path :: string where "default_root_path = ''/''"

record folder_parent_input =
  pi_project_id :: string
  pi_environment :: string
  pi_path :: string

definition decode_folder_parent :: "json \<Rightarrow> folder_parent_input option" where
  "decode_folder_parent j =
     do { fs \<leftarrow> strict_fields [(''projectId'', Required_Field), (''environment'', Required_Field),
                            (''path'', Default_Field)] j;
          p \<leftarrow> wire_field fs ''projectId'' as_str;
          e \<leftarrow> wire_field fs ''environment'' as_str;
          path \<leftarrow> wire_default fs ''path'' default_root_path as_str;
          Some \<lparr>pi_project_id = p, pi_environment = e, pi_path = path\<rparr> }"

definition folder_parent_of :: "folder_parent_input \<Rightarrow> (mcp_error, folder_parent) result" where
  "folder_parent_of i =
     and_then (map_err invalid_input (new_project_id (pi_project_id i))) (\<lambda>p.
     and_then (map_err invalid_input (new_environment_slug (pi_environment i))) (\<lambda>e.
     and_then (map_err invalid_input (new_secret_path (pi_path i))) (\<lambda>path.
       Ok \<lparr>fp_project_id = p, fp_environment = e, fp_path = path\<rparr>)))"

definition decode_folder_target :: "json \<Rightarrow> (folder_parent_input \<times> string) option" where
  "decode_folder_target j =
     do { fs \<leftarrow> strict_fields [(''parent'', Required_Field), (''folderId'', Required_Field)] j;
          p \<leftarrow> wire_field fs ''parent'' decode_folder_parent;
          i \<leftarrow> wire_field fs ''folderId'' as_str;
          Some (p, i) }"

definition folder_target_parts ::
    "folder_parent_input \<times> string \<Rightarrow> (mcp_error, folder_parent \<times> string) result" where
  "folder_target_parts t =
     and_then (folder_parent_of (fst t)) (\<lambda>parent.
     and_then (map_err invalid_input (new_folder_id (snd t))) (\<lambda>ident. Ok (parent, ident)))"

definition optional_description :: "string option \<Rightarrow> (mcp_error, string option) result" where
  "optional_description d =
     (case d of
        None \<Rightarrow> Ok None
      | Some s \<Rightarrow> and_then (map_err invalid_input (new_folder_description s)) (\<lambda>v. Ok (Some v)))"

definition decode_folder_get :: "(string \<times> json) list \<Rightarrow> string option" where
  "decode_folder_get m =
     do { fs \<leftarrow> strict_fields [(''folderId'', Required_Field)] (Object m);
          wire_field fs ''folderId'' as_str }"

definition decode_folder_create ::
    "(string \<times> json) list \<Rightarrow> (folder_parent_input \<times> string \<times> string option) option" where
  "decode_folder_create m =
     do { fs \<leftarrow> strict_fields [(''parent'', Required_Field), (''name'', Required_Field),
                            (''description'', Option_Field)] (Object m);
          p \<leftarrow> wire_field fs ''parent'' decode_folder_parent;
          n \<leftarrow> wire_field fs ''name'' as_str;
          d \<leftarrow> wire_option fs ''description'' as_str;
          Some (p, n, d) }"

definition folder_creation_of ::
    "folder_parent_input \<times> string \<times> string option \<Rightarrow> (mcp_error, folder_creation) result" where
  "folder_creation_of i =
     (case i of (p, n, d) \<Rightarrow>
        and_then (folder_parent_of p) (\<lambda>parent.
        and_then (map_err invalid_input (new_folder_name n)) (\<lambda>name.
        and_then (optional_description d) (\<lambda>description.
          Ok \<lparr>fw_parent = parent, fw_name = name, fw_description = description\<rparr>))))"

text \<open>
  A description is a transparent wrapper of an \<open>Option\<close>, so the derived deserialiser takes its
  absence for \<open>None\<close>, although the published schema requires it.
\<close>

definition decode_folder_update ::
    "(string \<times> json) list \<Rightarrow> ((folder_parent_input \<times> string) \<times> string \<times> string option) option" where
  "decode_folder_update m =
     do { fs \<leftarrow> strict_fields [(''target'', Required_Field), (''name'', Required_Field),
                            (''description'', Option_Field)] (Object m);
          t \<leftarrow> wire_field fs ''target'' decode_folder_target;
          n \<leftarrow> wire_field fs ''name'' as_str;
          d \<leftarrow> wire_option fs ''description'' as_str;
          Some (t, n, d) }"

definition folder_update_of ::
    "(folder_parent_input \<times> string) \<times> string \<times> string option \<Rightarrow> (mcp_error, folder_update) result" where
  "folder_update_of i =
     (case i of (t, n, d) \<Rightarrow>
        and_then (folder_target_parts t) (\<lambda>(parent, ident).
        and_then (map_err invalid_input (new_folder_name n)) (\<lambda>name.
        and_then (optional_description d) (\<lambda>description.
          Ok \<lparr>fu_parent = parent, fu_folder_id = ident, fu_name = name, fu_description = description\<rparr>))))"

definition decode_folder_batch_entry :: "json \<Rightarrow> folder_batch_update option" where
  "decode_folder_batch_entry j =
     do { fs \<leftarrow> strict_fields [(''folderId'', Required_Field), (''environment'', Required_Field),
            (''path'', Default_Field), (''name'', Required_Field), (''description'', Option_Field)] j;
          i \<leftarrow> wire_field fs ''folderId'' as_str;
          e \<leftarrow> wire_field fs ''environment'' as_str;
          p \<leftarrow> wire_default fs ''path'' default_root_path as_str;
          n \<leftarrow> wire_field fs ''name'' as_str;
          d \<leftarrow> wire_option fs ''description'' as_str;
          Some \<lparr>fb_folder_id = i, fb_environment = e, fb_path = p, fb_name = n, fb_description = d\<rparr> }"

definition folder_batch_entry :: "folder_batch_update \<Rightarrow> (mcp_error, folder_batch_update) result" where
  "folder_batch_entry u =
     and_then (map_err invalid_input (new_folder_id (fb_folder_id u))) (\<lambda>i.
     and_then (map_err invalid_input (new_environment_slug (fb_environment u))) (\<lambda>e.
     and_then (map_err invalid_input (new_secret_path (fb_path u))) (\<lambda>p.
     and_then (map_err invalid_input (new_folder_name (fb_name u))) (\<lambda>n.
     and_then (optional_description (fb_description u)) (\<lambda>d.
       Ok \<lparr>fb_folder_id = i, fb_environment = e, fb_path = p, fb_name = n, fb_description = d\<rparr>)))))"

definition decode_folder_batch :: "(string \<times> json) list \<Rightarrow> (string \<times> folder_batch_update list) option" where
  "decode_folder_batch m =
     do { fs \<leftarrow> strict_fields [(''projectId'', Required_Field), (''folders'', Required_Field)] (Object m);
          p \<leftarrow> wire_field fs ''projectId'' as_str;
          us \<leftarrow> wire_field fs ''folders'' (wire_list decode_folder_batch_entry);
          Some (p, us) }"

definition folder_batch_parts ::
    "string \<times> folder_batch_update list \<Rightarrow> (mcp_error, string \<times> folder_batch_update list) result" where
  "folder_batch_parts i =
     and_then (map_err invalid_input (new_project_id (fst i))) (\<lambda>project_id.
       if snd i = [] \<or> max_folder_batch_size < length (snd i)
       then Err (invalid_params ''folders must contain between 1 and 50 entries'' None)
       else and_then (traverse folder_batch_entry (snd i)) (\<lambda>updates. Ok (project_id, updates)))"

definition decode_folder_delete ::
    "(string \<times> json) list \<Rightarrow> ((folder_parent_input \<times> string) \<times> bool \<times> bool) option" where
  "decode_folder_delete m =
     do { fs \<leftarrow> strict_fields [(''target'', Required_Field), (''forceDelete'', Default_Field),
                            (''confirm'', Required_Field)] (Object m);
          t \<leftarrow> wire_field fs ''target'' decode_folder_target;
          f \<leftarrow> wire_default fs ''forceDelete'' False decode_bool;
          c \<leftarrow> wire_field fs ''confirm'' decode_bool;
          Some (t, f, c) }"

definition folder_delete_parts ::
    "(folder_parent_input \<times> string) \<times> bool \<times> bool \<Rightarrow> (mcp_error, folder_parent \<times> string \<times> bool) result" where
  "folder_delete_parts i =
     (case i of (t, force, confirm) \<Rightarrow>
        and_then (folder_target_parts t) (\<lambda>(parent, ident).
          if \<not> confirm then Err (invalid_params ''confirm must be true to delete the exact folder'' None)
          else Ok (parent, ident, force)))"

definition folder_environment_json :: "folder_environment \<Rightarrow> json" where
  "folder_environment_json e =
     object_of [(''envId'', String (fe_env_id e)), (''envName'', String (fe_env_name e)),
                (''envSlug'', String (fe_env_slug e))]"

definition folder_json :: "folder \<Rightarrow> json" where
  "folder_json f =
     object_of
       [(''id'', String (fo_id f)), (''name'', String (fo_name f)), (''envId'', String (fo_env_id f)),
        (''parentId'', nullable (fo_parent_id f)), (''description'', nullable (fo_description f)),
        (''isReserved'', option_json Bool (fo_is_reserved f)),
        (''relativePath'', nullable (fo_relative_path f)), (''path'', nullable (fo_path f)),
        (''projectId'', nullable (fo_project_id f)),
        (''environment'', option_json folder_environment_json (fo_environment f))]"

definition folder_batch_json :: "folder list \<Rightarrow> json" where
  "folder_batch_json found = object_of [(''folders'', Array (map folder_json found))]"

definition dispatch_folder_workflow :: "tool_env \<Rightarrow> call_params \<Rightarrow> tool_state \<Rightarrow> tool_outcome" where
  "dispatch_folder_workflow E params =
     (let name = cp_name params in
      if name = FOLDERS_LIST_TOOL then
        with_input E ''SecretScopePageInput'' decode_scope_page
          ''folders.list arguments do not match the declared schema'' params (\<lambda>i.
          with_parts (scope_page_parts i) (\<lambda>(scope, page).
            upstream_call E
              (\<lambda>r. collection_result E (page_json folder_json)
                 (''Select a more specific path and set recursive to false. A smaller limit does ''
                  @ ''not reduce the upstream folder collection.'') r)
              (\<lambda>ap. list_folders ap scope page)))
      else if name = FOLDERS_GET_TOOL then
        with_input E ''FolderGetInput'' decode_folder_get
          ''folders.get arguments do not match the declared schema'' params (\<lambda>i.
          with_parts (map_err invalid_input (new_folder_id i)) (\<lambda>ident.
            upstream_call E (tool_result E folder_json) (\<lambda>ap. get_folder ap ident)))
      else if name = FOLDERS_CREATE_TOOL then
        with_input E ''FolderCreateInput'' decode_folder_create
          ''folders.create arguments do not match the declared schema'' params (\<lambda>i.
          with_parts (folder_creation_of i) (\<lambda>c.
            upstream_call E (tool_result E folder_json) (\<lambda>ap. create_folder ap c)))
      else if name = FOLDERS_UPDATE_TOOL then
        with_input E ''FolderUpdateInput'' decode_folder_update
          ''folders.update arguments do not match the declared schema'' params (\<lambda>i.
          with_parts (folder_update_of i) (\<lambda>u.
            upstream_call E (tool_result E folder_json) (\<lambda>ap. update_folder ap u)))
      else if name = FOLDERS_BATCH_UPDATE_TOOL then
        with_input E ''FolderBatchUpdateInput'' decode_folder_batch
          ''folders.batch.update arguments do not match the declared schema'' params (\<lambda>i.
          with_parts (folder_batch_parts i) (\<lambda>(project_id, updates).
            upstream_call E (tool_result E folder_batch_json) (\<lambda>ap. update_folders_batch ap project_id updates)))
      else if name = FOLDERS_DELETE_TOOL then
        with_input E ''FolderDeleteInput'' decode_folder_delete
          ''folders.delete arguments do not match the declared schema'' params (\<lambda>i.
          with_parts (folder_delete_parts i) (\<lambda>(parent, ident, force).
            upstream_call E (tool_result E folder_json) (\<lambda>ap. delete_folder ap parent ident force True)))
      else (\<lambda>s. Some (Err method_not_found, s)))"

section \<open>Tags\<close>

datatype tag_selector_input = Select_Id string | Select_Slug string

definition decode_tag_selector :: "json \<Rightarrow> tag_selector_input option" where
  "decode_tag_selector j =
     do { (t, rest) \<leftarrow> tagged_content j;
          if t = ''id''
          then do { fs \<leftarrow> strict_fields [(''tagId'', Required_Field)] rest;
                    i \<leftarrow> wire_field fs ''tagId'' as_str;
                    Some (Select_Id i) }
          else if t = ''slug''
          then do { fs \<leftarrow> strict_fields [(''slug'', Required_Field)] rest;
                    s \<leftarrow> wire_field fs ''slug'' as_str;
                    Some (Select_Slug s) }
          else None }"

fun tag_selector_of :: "tag_selector_input \<Rightarrow> (mcp_error, tag_selector) result" where
  "tag_selector_of (Select_Id i) =
     and_then (map_err invalid_input (new_tag_id i)) (\<lambda>i. Ok (Tag_By_Id i))"
| "tag_selector_of (Select_Slug s) =
     and_then (map_err invalid_input (new_tag_slug s)) (\<lambda>s. Ok (Tag_By_Slug s))"

definition decode_tag_get :: "(string \<times> json) list \<Rightarrow> (string \<times> tag_selector_input) option" where
  "decode_tag_get m =
     do { fs \<leftarrow> strict_fields [(''projectId'', Required_Field), (''selector'', Required_Field)] (Object m);
          p \<leftarrow> wire_field fs ''projectId'' as_str;
          s \<leftarrow> wire_field fs ''selector'' decode_tag_selector;
          Some (p, s) }"

definition decode_tag_target :: "json \<Rightarrow> (string \<times> string) option" where
  "decode_tag_target j =
     do { fs \<leftarrow> strict_fields [(''projectId'', Required_Field), (''tagId'', Required_Field)] j;
          p \<leftarrow> wire_field fs ''projectId'' as_str;
          i \<leftarrow> wire_field fs ''tagId'' as_str;
          Some (p, i) }"

definition tag_target_parts :: "string \<times> string \<Rightarrow> (mcp_error, string \<times> string) result" where
  "tag_target_parts t =
     and_then (map_err invalid_input (new_project_id (fst t))) (\<lambda>p.
     and_then (map_err invalid_input (new_tag_id (snd t))) (\<lambda>i. Ok (p, i)))"

definition tag_values_of :: "string \<Rightarrow> string \<Rightarrow> (mcp_error, tag_values) result" where
  "tag_values_of slug color =
     and_then (map_err invalid_input (new_tag_slug slug)) (\<lambda>s.
     and_then (map_err invalid_input (new_tag_color color)) (\<lambda>c. Ok \<lparr>tv_slug = s, tv_color = c\<rparr>))"

definition default_tag_color :: string where "default_tag_color = []"

definition decode_tag_create :: "(string \<times> json) list \<Rightarrow> (string \<times> string \<times> string) option" where
  "decode_tag_create m =
     do { fs \<leftarrow> strict_fields [(''projectId'', Required_Field), (''slug'', Required_Field),
                            (''color'', Default_Field)] (Object m);
          p \<leftarrow> wire_field fs ''projectId'' as_str;
          s \<leftarrow> wire_field fs ''slug'' as_str;
          c \<leftarrow> wire_default fs ''color'' default_tag_color as_str;
          Some (p, s, c) }"

definition tag_create_parts :: "string \<times> string \<times> string \<Rightarrow> (mcp_error, string \<times> tag_values) result" where
  "tag_create_parts i =
     (case i of (p, s, c) \<Rightarrow>
        and_then (map_err invalid_input (new_project_id p)) (\<lambda>p.
        and_then (tag_values_of s c) (\<lambda>v. Ok (p, v))))"

definition decode_tag_update ::
    "(string \<times> json) list \<Rightarrow> ((string \<times> string) \<times> string \<times> string) option" where
  "decode_tag_update m =
     do { fs \<leftarrow> strict_fields [(''target'', Required_Field), (''slug'', Required_Field),
                            (''color'', Required_Field)] (Object m);
          t \<leftarrow> wire_field fs ''target'' decode_tag_target;
          s \<leftarrow> wire_field fs ''slug'' as_str;
          c \<leftarrow> wire_field fs ''color'' as_str;
          Some (t, s, c) }"

definition tag_update_parts ::
    "(string \<times> string) \<times> string \<times> string \<Rightarrow> (mcp_error, string \<times> string \<times> tag_values) result" where
  "tag_update_parts i =
     (case i of (t, s, c) \<Rightarrow>
        and_then (tag_target_parts t) (\<lambda>(p, ident).
        and_then (tag_values_of s c) (\<lambda>v. Ok (p, ident, v))))"

definition decode_tag_delete :: "(string \<times> json) list \<Rightarrow> ((string \<times> string) \<times> bool) option" where
  "decode_tag_delete m =
     do { fs \<leftarrow> strict_fields [(''target'', Required_Field), (''confirm'', Required_Field)] (Object m);
          t \<leftarrow> wire_field fs ''target'' decode_tag_target;
          c \<leftarrow> wire_field fs ''confirm'' decode_bool;
          Some (t, c) }"

definition tag_delete_parts :: "(string \<times> string) \<times> bool \<Rightarrow> (mcp_error, string \<times> string) result" where
  "tag_delete_parts i =
     and_then (tag_target_parts (fst i)) (\<lambda>target.
       if \<not> snd i then Err (invalid_params ''confirm must be true to delete the exact tag'' None)
       else Ok target)"

definition tag_json :: "tag \<Rightarrow> json" where
  "tag_json t =
     object_of [(''id'', String (tg_id t)), (''slug'', String (tg_slug t)),
                (''projectId'', String (tg_project_id t)), (''color'', nullable (tg_color t)),
                (''name'', nullable (tg_name t))]"

definition dispatch_tag_workflow :: "tool_env \<Rightarrow> call_params \<Rightarrow> tool_state \<Rightarrow> tool_outcome" where
  "dispatch_tag_workflow E params =
     (let name = cp_name params in
      if name = TAGS_LIST_TOOL then
        with_input E ''ProjectPageInput'' decode_project_page
          ''tags.list arguments do not match the declared schema'' params (\<lambda>i.
          with_parts (project_page_parts i) (\<lambda>(project_id, page).
            upstream_call E (tool_result E (page_json tag_json)) (\<lambda>ap. list_tags ap project_id page)))
      else if name = TAGS_GET_TOOL then
        with_input E ''TagGetInput'' decode_tag_get
          ''tags.get arguments do not match the declared schema'' params (\<lambda>(p, s).
          with_parts (and_then (map_err invalid_input (new_project_id p)) (\<lambda>p.
              and_then (tag_selector_of s) (\<lambda>s. Ok (p, s)))) (\<lambda>(project_id, selector).
            upstream_call E (tool_result E tag_json) (\<lambda>ap. get_tag ap project_id selector)))
      else if name = TAGS_CREATE_TOOL then
        with_input E ''TagCreateInput'' decode_tag_create
          ''tags.create arguments do not match the declared schema'' params (\<lambda>i.
          with_parts (tag_create_parts i) (\<lambda>(project_id, v).
            upstream_call E (tool_result E tag_json) (\<lambda>ap. create_tag ap project_id v)))
      else if name = TAGS_UPDATE_TOOL then
        with_input E ''TagUpdateInput'' decode_tag_update
          ''tags.update arguments do not match the declared schema'' params (\<lambda>i.
          with_parts (tag_update_parts i) (\<lambda>(project_id, ident, v).
            upstream_call E (tool_result E tag_json) (\<lambda>ap. update_tag ap project_id ident v)))
      else if name = TAGS_DELETE_TOOL then
        with_input E ''TagDeleteInput'' decode_tag_delete
          ''tags.delete arguments do not match the declared schema'' params (\<lambda>i.
          with_parts (tag_delete_parts i) (\<lambda>(project_id, ident).
            upstream_call E (tool_result E tag_json) (\<lambda>ap. delete_tag ap project_id ident True)))
      else (\<lambda>s. Some (Err method_not_found, s)))"

end
