(* ===== verification/Projects_Api.thy ===== *)
theory Projects_Api
  imports Api_Wire Resource_Input
begin

text \<open>
  Projects and their environments: the reads of \<open>infisical-api/src/projects.rs\<close> and the
  administration of \<open>infisical-api/src/project_admin.rs\<close>.
\<close>

section \<open>Data\<close>

record project_environment =
  en_id :: string
  en_name :: string
  en_slug :: string

record project =
  pj_id :: string
  pj_name :: string
  pj_slug :: string
  pj_type :: string
  pj_org_id :: string
  pj_description :: "string option"
  pj_environments :: "project_environment list"

datatype project_kind =
    Secret_Manager | Cert_Manager | Kms_Kind | Ssh_Kind | Secret_Scanning | Pam_Kind | Ai_Kind

fun project_kind_name :: "project_kind \<Rightarrow> string" where
  "project_kind_name Secret_Manager = ''secret-manager''"
| "project_kind_name Cert_Manager = ''cert-manager''"
| "project_kind_name Kms_Kind = ''kms''"
| "project_kind_name Ssh_Kind = ''ssh''"
| "project_kind_name Secret_Scanning = ''secret-scanning''"
| "project_kind_name Pam_Kind = ''pam''"
| "project_kind_name Ai_Kind = ''ai''"

record project_creation =
  pc_name :: string
  pc_description :: "string option"
  pc_slug :: "string option"
  pc_kind :: project_kind
  pc_create_default_environments :: bool
  pc_delete_protection :: bool

datatype project_change =
    Project_Name_Change string
  | Project_Description_Change string
  | Project_Slug_Change string
  | Delete_Protection bool
  | Auto_Capitalization bool
  | Encrypted_Secret_Metadata bool
  | Secret_Sharing bool
  | Point_In_Time_Version_Limit u8

record environment_creation =
  ec_name :: string
  ec_slug :: string
  ec_position :: "u32 option"

datatype environment_change =
    Environment_Name_Change string
  | Environment_Slug_Change string
  | Environment_Position_Change u32

section \<open>Requests\<close>

definition list_projects_query :: "(string \<times> string) list" where
  "list_projects_query = [(''includeRoles'', ''false'')]"

definition create_project_request :: "project_creation \<Rightarrow> json" where
  "create_project_request c =
     Object ([(''projectName'', String (pc_name c))]
       @ optional_field ''projectDescription'' (map_option String (pc_description c))
       @ optional_field ''slug'' (map_option String (pc_slug c))
       @ [(''type'', String (project_kind_name (pc_kind c))),
          (''shouldCreateDefaultEnvs'', Bool (pc_create_default_environments c)),
          (''hasDeleteProtection'', Bool (pc_delete_protection c))])"

text \<open>Exactly one field of the wire struct is set, the others are skipped.\<close>

fun project_change_wire :: "project_change \<Rightarrow> json" where
  "project_change_wire (Project_Name_Change v) = Object [(''name'', String v)]"
| "project_change_wire (Project_Description_Change v) = Object [(''description'', String v)]"
| "project_change_wire (Project_Slug_Change v) = Object [(''slug'', String v)]"
| "project_change_wire (Delete_Protection v) = Object [(''hasDeleteProtection'', Bool v)]"
| "project_change_wire (Auto_Capitalization v) = Object [(''autoCapitalization'', Bool v)]"
| "project_change_wire (Encrypted_Secret_Metadata v) =
     Object [(''enforceEncryptedSecretManagerSecretMetadata'', Bool v)]"
| "project_change_wire (Secret_Sharing v) = Object [(''secretSharing'', Bool v)]"
| "project_change_wire (Point_In_Time_Version_Limit v) =
     Object [(''pitVersionLimit'', Number (Unsigned (unat v)))]"

definition create_environment_wire :: "environment_creation \<Rightarrow> json" where
  "create_environment_wire c =
     Object ([(''name'', String (ec_name c)), (''slug'', String (ec_slug c))]
       @ optional_field ''position'' (map_option (\<lambda>p. Number (Unsigned (unat p))) (ec_position c)))"

fun environment_change_wire :: "environment_change \<Rightarrow> json" where
  "environment_change_wire (Environment_Name_Change v) = Object [(''name'', String v)]"
| "environment_change_wire (Environment_Slug_Change v) = Object [(''slug'', String v)]"
| "environment_change_wire (Environment_Position_Change v) =
     Object [(''position'', Number (Unsigned (unat v)))]"

definition empty_body :: json where "empty_body = Object []"

section \<open>Responses\<close>

definition decode_environment :: "json \<Rightarrow> project_environment option" where
  "decode_environment j =
     do { fs \<leftarrow> wire_fields [(''id'', Required_Field), (''name'', Required_Field), (''slug'', Required_Field)] j;
          i \<leftarrow> wire_field fs ''id'' as_str;
          n \<leftarrow> wire_field fs ''name'' as_str;
          s \<leftarrow> wire_field fs ''slug'' as_str;
          Some \<lparr>en_id = i, en_name = n, en_slug = s\<rparr> }"

definition decode_project :: "json \<Rightarrow> project option" where
  "decode_project j =
     do { fs \<leftarrow> wire_fields [(''id'', Required_Field), (''name'', Required_Field), (''slug'', Required_Field),
            (''type'', Required_Field), (''orgId'', Required_Field), (''description'', Default_Field),
            (''environments'', Default_Field)] j;
          i \<leftarrow> wire_field fs ''id'' as_str;
          n \<leftarrow> wire_field fs ''name'' as_str;
          s \<leftarrow> wire_field fs ''slug'' as_str;
          t \<leftarrow> wire_field fs ''type'' as_str;
          org \<leftarrow> wire_field fs ''orgId'' as_str;
          d \<leftarrow> wire_option fs ''description'' as_str;
          es \<leftarrow> wire_default fs ''environments'' [] (wire_list decode_environment);
          Some \<lparr>pj_id = i, pj_name = n, pj_slug = s, pj_type = t, pj_org_id = org,
                pj_description = d, pj_environments = es\<rparr> }"

definition decode_list_projects :: "json \<Rightarrow> project list option" where
  "decode_list_projects j =
     do { fs \<leftarrow> wire_fields [(''projects'', Required_Field)] j;
          wire_field fs ''projects'' (wire_list decode_project) }"

definition decode_optional_project :: "json \<Rightarrow> project option option" where
  "decode_optional_project j =
     do { fs \<leftarrow> wire_fields [(''project'', Option_Field)] j; wire_option fs ''project'' decode_project }"

definition decode_project_response :: "json \<Rightarrow> project option" where
  "decode_project_response j =
     do { fs \<leftarrow> wire_fields [(''project'', Required_Field)] j; wire_field fs ''project'' decode_project }"

definition decode_environment_response :: "json \<Rightarrow> project_environment option" where
  "decode_environment_response j =
     do { fs \<leftarrow> wire_fields [(''environment'', Required_Field)] j;
          wire_field fs ''environment'' decode_environment }"

section \<open>Endpoints\<close>

definition projects_endpoint :: endpoint where
  "projects_endpoint = endpoint_from_static V1 ''projects''"
definition project_endpoint :: "string \<Rightarrow> endpoint" where
  "project_endpoint project_id = endpoint_from_segments V1 [''projects'', project_id]"
definition environments_endpoint :: "string \<Rightarrow> endpoint" where
  "environments_endpoint project_id = endpoint_from_segments V1 [''projects'', project_id, ''environments'']"
definition environment_endpoint :: "string \<Rightarrow> string \<Rightarrow> string option \<Rightarrow> endpoint" where
  "environment_endpoint project_id environment_id last_segment =
     endpoint_from_segments V1 ([''projects'', project_id, ''environments'', environment_id]
       @ (case last_segment of None \<Rightarrow> [] | Some s \<Rightarrow> [s]))"

section \<open>Operations\<close>

definition list_projects ::
    "api \<Rightarrow> page_request \<Rightarrow> world \<Rightarrow> (resource_error, project page) result \<times> world" where
  "list_projects ap page w =
     (case api_read ap projects_endpoint list_projects_query decode_list_projects w of
        (Inl e, w) \<Rightarrow> (Inl e, w)
      | (Inr found, w) \<Rightarrow> (map_err Pagination_Error (paginate page found), w))"

definition get_project ::
    "api \<Rightarrow> string \<Rightarrow> world \<Rightarrow> (resource_error, project option) result \<times> world" where
  "get_project ap project_id w =
     (case api_read ap (project_endpoint project_id) [] decode_optional_project w of
        (Inl e, w) \<Rightarrow> (Inl e, w)
      | (Inr found, w) \<Rightarrow>
          if (case found of None \<Rightarrow> False | Some p \<Rightarrow> pj_id p \<noteq> project_id)
          then (resource ''InvalidProjectResponse'', w)
          else (Inr found, w))"

definition list_environments ::
    "api \<Rightarrow> string \<Rightarrow> page_request \<Rightarrow> world
      \<Rightarrow> (resource_error, project_environment page option) result \<times> world" where
  "list_environments ap project_id page w =
     (case get_project ap project_id w of
        (Inl e, w) \<Rightarrow> (Inl e, w)
      | (Inr None, w) \<Rightarrow> (Inr None, w)
      | (Inr (Some p), w) \<Rightarrow>
          (map_sum Pagination_Error Some (paginate page (pj_environments p)), w))"

definition create_project ::
    "api \<Rightarrow> project_creation \<Rightarrow> world \<Rightarrow> (resource_error, project) result \<times> world" where
  "create_project ap c w =
     api_mutate ap POST projects_endpoint (create_project_request c) decode_project_response w"

definition update_project ::
    "api \<Rightarrow> string \<Rightarrow> project_change \<Rightarrow> world \<Rightarrow> (resource_error, project) result \<times> world" where
  "update_project ap project_id change w =
     api_mutate ap PATCH (project_endpoint project_id) (project_change_wire change) decode_project_response w"

definition delete_project ::
    "api \<Rightarrow> string \<Rightarrow> bool \<Rightarrow> world \<Rightarrow> (resource_error, project) result \<times> world" where
  "delete_project ap project_id confirm w =
     (if \<not> confirm then (resource ''ProjectDeletionNotConfirmed'', w)
      else
        apfst (\<lambda>r. and_then r (ok_or (Unit_Variant ''MissingMutationResource'')))
          (api_mutate ap DELETE (project_endpoint project_id) empty_body decode_optional_project w))"

definition get_environment ::
    "api \<Rightarrow> string \<Rightarrow> string \<Rightarrow> world \<Rightarrow> (resource_error, project_environment) result \<times> world" where
  "get_environment ap project_id environment_id w =
     api_read ap (environment_endpoint project_id environment_id None) [] decode_environment_response w"

definition create_environment ::
    "api \<Rightarrow> string \<Rightarrow> environment_creation \<Rightarrow> world
      \<Rightarrow> (resource_error, project_environment) result \<times> world" where
  "create_environment ap project_id c w =
     api_mutate ap POST (environments_endpoint project_id) (create_environment_wire c)
       decode_environment_response w"

definition update_environment ::
    "api \<Rightarrow> string \<Rightarrow> string \<Rightarrow> environment_change \<Rightarrow> world
      \<Rightarrow> (resource_error, project_environment) result \<times> world" where
  "update_environment ap project_id environment_id change w =
     api_mutate ap PATCH (environment_endpoint project_id environment_id None)
       (environment_change_wire change) decode_environment_response w"

definition delete_environment ::
    "api \<Rightarrow> string \<Rightarrow> string \<Rightarrow> bool \<Rightarrow> world
      \<Rightarrow> (resource_error, project_environment) result \<times> world" where
  "delete_environment ap project_id environment_id confirm w =
     (if \<not> confirm then (resource ''EnvironmentDeletionNotConfirmed'', w)
      else api_mutate ap DELETE (environment_endpoint project_id environment_id None) empty_body
             decode_environment_response w)"

definition restore_environment ::
    "api \<Rightarrow> string \<Rightarrow> string \<Rightarrow> world \<Rightarrow> (resource_error, project_environment) result \<times> world" where
  "restore_environment ap project_id environment_id w =
     api_mutate ap POST (environment_endpoint project_id environment_id (Some ''restore'')) empty_body
       decode_environment_response w"

end
