(* ===== verification/Ip_Text.thy ===== *)
theory Ip_Text
  imports Network
begin

text \<open>
  \<open>str::parse::<IpAddr>\<close> of the standard library: four decimal octets without leading zeros, or
  eight hexadecimal groups with at most one \<open>::\<close> and possibly a dotted tail. A reader takes the
  text still unread and yields a value with the rest; a reader that fails consumes nothing.
\<close>

definition digit_value :: "nat \<Rightarrow> char \<Rightarrow> nat option" where
  "digit_value radix c =
     (let b = byte c;
          d = (if 48 \<le> b \<and> b \<le> 57 then Some (b - 48)
               else if 97 \<le> b \<and> b \<le> 122 then Some (b - 87)
               else if 65 \<le> b \<and> b \<le> 90 then Some (b - 55) else None)
      in case d of None \<Rightarrow> None | Some n \<Rightarrow> if n < radix then Some n else None)"

definition read_number ::
    "nat \<Rightarrow> nat \<Rightarrow> bool \<Rightarrow> nat \<Rightarrow> string \<Rightarrow> (nat \<times> string) option" where
  "read_number radix max_digits allow_zero_prefix bound s =
     (let digits = takeWhile (\<lambda>c. digit_value radix c \<noteq> None) s;
          n = foldl (\<lambda>a c. a * radix + the (digit_value radix c)) 0 digits
      in if digits = [] \<or> max_digits < length digits
            \<or> (\<not> allow_zero_prefix \<and> hd digits = CHR ''0'' \<and> 1 < length digits) \<or> bound \<le> n
         then None else Some (n, drop (length digits) s))"

definition read_separator ::
    "char \<Rightarrow> nat \<Rightarrow> (string \<Rightarrow> ('a \<times> string) option) \<Rightarrow> string \<Rightarrow> ('a \<times> string) option" where
  "read_separator sep index inner s =
     (if index = 0 then inner s
      else case s of c # rest \<Rightarrow> if c = sep then inner rest else None | [] \<Rightarrow> None)"

definition read_octet :: "nat \<Rightarrow> string \<Rightarrow> (nat \<times> string) option" where
  "read_octet index = read_separator (CHR ''.'') index (read_number 10 3 False 256)"

definition read_ipv4 :: "string \<Rightarrow> (nat list \<times> string) option" where
  "read_ipv4 s =
     Option.bind (read_octet 0 s) (\<lambda>(a, s).
     Option.bind (read_octet 1 s) (\<lambda>(b, s).
     Option.bind (read_octet 2 s) (\<lambda>(c, s).
     Option.bind (read_octet 3 s) (\<lambda>(d, s). Some ([a, b, c, d], s)))))"

text \<open>
  \<open>read_groups\<close> from group \<open>i\<close> of \<open>i + left\<close>: the groups read, whether the last two were a dotted
  address, and the rest.
\<close>

fun read_groups :: "nat \<Rightarrow> nat \<Rightarrow> string \<Rightarrow> nat list \<times> bool \<times> string" where
  "read_groups i 0 s = ([], False, s)"
| "read_groups i (Suc left) s =
     (case (if 0 < left then read_separator (CHR '':'') i read_ipv4 s else None) of
        Some (v4, rest) \<Rightarrow> ([v4 ! 0 * 256 + v4 ! 1, v4 ! 2 * 256 + v4 ! 3], True, rest)
      | None \<Rightarrow>
          (case read_separator (CHR '':'') i (read_number 16 4 True 65536) s of
             None \<Rightarrow> ([], False, s)
           | Some (g, rest) \<Rightarrow>
               (case read_groups (Suc i) left rest of
                  (gs, dotted, rest) \<Rightarrow> (g # gs, dotted, rest))))"

definition read_ipv6 :: "string \<Rightarrow> (nat list \<times> string) option" where
  "read_ipv6 s =
     (case read_groups 0 8 s of
        (head, dotted, rest) \<Rightarrow>
          if length head = 8 then Some (head, rest)
          else if dotted then None
          else
            (case rest of
               a # b # rest \<Rightarrow>
                 if a = CHR '':'' \<and> b = CHR '':''
                 then (case read_groups 0 (8 - (length head + 1)) rest of
                         (tail, _, rest) \<Rightarrow>
                           Some (head @ replicate (8 - length head - length tail) 0 @ tail, rest))
                 else None
             | _ \<Rightarrow> None))"

definition ipv4_of :: "nat list \<Rightarrow> ipv4" where "ipv4_of ns = foldl (\<lambda>a n. a * 256 + word_of_nat n) 0 ns"
definition ipv6_of :: "nat list \<Rightarrow> ipv6" where "ipv6_of ns = foldl (\<lambda>a n. a * 65536 + word_of_nat n) 0 ns"

definition parse_ip :: "string \<Rightarrow> ip_addr option" where
  "parse_ip s =
     (case (case read_ipv4 s of
              Some (ns, rest) \<Rightarrow> Some (V4 (ipv4_of ns), rest)
            | None \<Rightarrow> map_option (map_prod (\<lambda>ns. V6 (ipv6_of ns)) id) (read_ipv6 s)) of
        Some (a, []) \<Rightarrow> Some a
      | _ \<Rightarrow> None)"

end
