(* ===== verification/Audit_Logs_Api.thy ===== *)
theory Audit_Logs_Api
  imports Api_Values Resource_Input Utc_Timestamp Ip_Text
begin

text \<open>
  Audit logs, \<open>infisical-api/src/audit_logs.rs\<close>: the bounded filters of a request, the query they
  become, and the check of every returned event against its shape and against the filters.
\<close>

section \<open>Filters\<close>

definition max_audit_event_types :: nat where "max_audit_event_types = 32"
definition max_audit_event_type_bytes :: nat where "max_audit_event_type_bytes = 128"
definition max_audit_text_bytes :: nat where "max_audit_text_bytes = 1024"
definition max_audit_time_range_millis :: int where
  "max_audit_time_range_millis = 90 * 24 * 60 * 60 * 1000"

datatype audit_log_input_error =
    Invalid_Event_Type | Invalid_Event_Type_Filter | Invalid_Timestamp | Invalid_Time_Range

fun audit_log_input_error_text :: "audit_log_input_error \<Rightarrow> string" where
  "audit_log_input_error_text Invalid_Event_Type =
     ''audit event types must contain 1 to 128 lowercase letters or numbers separated by single hyphens''"
| "audit_log_input_error_text Invalid_Event_Type_Filter =
     ''audit event filters must contain 1 to 32 unique event types''"
| "audit_log_input_error_text Invalid_Timestamp =
     ''audit timestamps must use canonical YYYY-MM-DDTHH:MM:SS[.sss]Z UTC form''"
| "audit_log_input_error_text Invalid_Time_Range =
     ''audit time ranges must be ordered and span no more than 90 days''"

definition is_event_type :: "string \<Rightarrow> bool" where
  "is_event_type value \<longleftrightarrow>
     value \<noteq> [] \<and> length value \<le> max_audit_event_type_bytes
     \<and> list_all (\<lambda>segment. segment \<noteq> []
           \<and> list_all (\<lambda>b. is_ascii_lowercase b \<or> is_ascii_digit b) segment)
         (split_by ((=) (CHR ''-'')) value)"

definition new_audit_event_type :: "string \<Rightarrow> (audit_log_input_error, string) result" where
  "new_audit_event_type value = (if \<not> is_event_type value then Err Invalid_Event_Type else Ok value)"

definition new_audit_timestamp :: "string \<Rightarrow> (audit_log_input_error, string) result" where
  "new_audit_timestamp value =
     (if utc_timestamp_millis value = None then Err Invalid_Timestamp else Ok value)"

datatype audit_actor_type =
    Platform_Actor | Kmip_Client_Actor | User_Actor | Service_Actor | Identity_Actor | Scim_Client_Actor
  | Acme_Profile_Actor | Acme_Account_Actor | Est_Account_Actor | Scep_Account_Actor
  | Unknown_User_Actor | Gateway_Actor | Relay_Actor

definition audit_actor_names :: "(audit_actor_type \<times> string) list" where
  "audit_actor_names =
     [(Platform_Actor, ''platform''), (Kmip_Client_Actor, ''kmipClient''), (User_Actor, ''user''),
      (Service_Actor, ''service''), (Identity_Actor, ''identity''), (Scim_Client_Actor, ''scimClient''),
      (Acme_Profile_Actor, ''acmeProfile''), (Acme_Account_Actor, ''acmeAccount''),
      (Est_Account_Actor, ''estAccount''), (Scep_Account_Actor, ''scepAccount''),
      (Unknown_User_Actor, ''unknownUser''), (Gateway_Actor, ''gateway''), (Relay_Actor, ''relay'')]"

datatype audit_agent_type =
    Web_Agent | Cli_Agent | Kubernetes_Operator_Agent | Terraform_Agent | Other_Agent
  | Python_Sdk_Agent | Node_Sdk_Agent

definition audit_agent_names :: "(audit_agent_type \<times> string) list" where
  "audit_agent_names =
     [(Web_Agent, ''web''), (Cli_Agent, ''cli''), (Kubernetes_Operator_Agent, ''k8-operator''),
      (Terraform_Agent, ''terraform''), (Other_Agent, ''other''),
      (Python_Sdk_Agent, ''InfisicalPythonSDK''), (Node_Sdk_Agent, ''InfisicalNodeSDK'')]"

record audit_log_request =
  ar_page :: page_request
  ar_project_id :: "string option"
  ar_environment :: "string option"
  ar_actor_type :: "audit_actor_type option"
  ar_user_agent_type :: "audit_agent_type option"
  ar_secret_path :: "string option"
  ar_secret_key :: "string option"
  ar_event_types :: "string list"
  ar_time_range :: "(string \<times> string) option"

definition audit_log_request_new :: "page_request \<Rightarrow> audit_log_request" where
  "audit_log_request_new page =
     \<lparr>ar_page = page, ar_project_id = None, ar_environment = None, ar_actor_type = None,
      ar_user_agent_type = None, ar_secret_path = None, ar_secret_key = None, ar_event_types = [],
      ar_time_range = None\<rparr>"

definition with_event_types ::
    "string list \<Rightarrow> audit_log_request \<Rightarrow> (audit_log_input_error, audit_log_request) result" where
  "with_event_types event_types r =
     (if event_types = [] \<or> max_audit_event_types < length event_types
         \<or> card (set event_types) \<noteq> length event_types
      then Err Invalid_Event_Type_Filter
      else Ok (r\<lparr>ar_event_types := event_types\<rparr>))"

definition with_time_range ::
    "string \<Rightarrow> string \<Rightarrow> audit_log_request \<Rightarrow> (audit_log_input_error, audit_log_request) result" where
  "with_time_range start stop r =
     (case (utc_timestamp_millis start, utc_timestamp_millis stop) of
        (Some start_millis, Some end_millis) \<Rightarrow>
          if \<not> (case checked_sub_i64 end_millis start_millis of
                  None \<Rightarrow> False
                | Some duration \<Rightarrow> 0 \<le> duration \<and> duration \<le> max_audit_time_range_millis)
          then Err Invalid_Time_Range
          else Ok (r\<lparr>ar_time_range := Some (start, stop)\<rparr>)
      | _ \<Rightarrow> Err Invalid_Timestamp)"

definition has_metadata_filters :: "audit_log_request \<Rightarrow> bool" where
  "has_metadata_filters r \<longleftrightarrow>
     ar_environment r \<noteq> None \<or> ar_secret_path r \<noteq> None \<or> ar_secret_key r \<noteq> None"

definition is_filterable_secret_event :: "string \<Rightarrow> bool" where
  "is_filterable_secret_event e \<longleftrightarrow>
     e \<in> {''get-secret'', ''delete-secrets'', ''create-secrets'', ''update-secrets'', ''create-secret'',
          ''update-secret'', ''delete-secret''}"

definition validate_audit_request :: "audit_log_request \<Rightarrow> (resource_error, unit) result" where
  "validate_audit_request r =
     (if \<not> has_metadata_filters r then Ok ()
      else if ar_project_id r = None then resource ''AuditLogMetadataFilterRequiresProject''
      else if ar_event_types r \<noteq> [] \<and> \<not> list_ex is_filterable_secret_event (ar_event_types r)
      then resource ''AuditLogMetadataFilterRequiresSecretEvent''
      else Ok ())"

definition query_field :: "string \<Rightarrow> string option \<Rightarrow> (string \<times> string) list" where
  "query_field k v = (case v of None \<Rightarrow> [] | Some x \<Rightarrow> [(k, x)])"

definition list_audit_logs_query :: "audit_log_request \<Rightarrow> (string \<times> string) list" where
  "list_audit_logs_query r =
     query_field ''projectId'' (ar_project_id r) @ query_field ''environment'' (ar_environment r)
     @ query_field ''actorType'' (map_option (name_of_variant audit_actor_names) (ar_actor_type r))
     @ query_field ''userAgentType'' (map_option (name_of_variant audit_agent_names) (ar_user_agent_type r))
     @ query_field ''secretPath'' (ar_secret_path r) @ query_field ''secretKey'' (ar_secret_key r)
     @ query_field ''eventType''
         (if ar_event_types r = [] then None else Some (join_with (CHR '','') (ar_event_types r)))
     @ query_field ''startDate'' (map_option fst (ar_time_range r))
     @ query_field ''endDate'' (map_option snd (ar_time_range r))
     @ [(''offset'', show_nat (unat (req_offset (ar_page r)))),
        (''limit'', show_nat (unat (request_limit (ar_page r))))]"

section \<open>Responses\<close>

record audit_log =
  al_id :: string
  al_actor_type :: audit_actor_type
  al_event_type :: string
  al_ip_address :: "string option"
  al_user_agent :: "string option"
  al_user_agent_type :: "audit_agent_type option"
  al_organization_id :: "string option"
  al_project_id :: "string option"
  al_project_name :: "string option"
  al_created_at :: string
  al_expires_at :: "string option"

record audit_filter_metadata =
  am_environment :: "string option"
  am_secret_path :: "string option"
  am_secret_key :: "string option"
  am_secrets :: "string option list"

datatype audit_event_metadata = Filterable audit_filter_metadata | Other_Metadata

record raw_audit_log =
  rl_id :: string
  rl_ip_address :: "string option"
  rl_user_agent :: "string option"
  rl_user_agent_type :: "audit_agent_type option"
  rl_expires_at :: "string option"
  rl_created_at :: string
  rl_updated_at :: string
  rl_org_id :: "string option"
  rl_project_id :: "string option"
  rl_project_name :: "string option"
  rl_event_type :: string
  rl_metadata :: audit_event_metadata
  rl_actor_type :: audit_actor_type

definition decode_audit_secret :: "json \<Rightarrow> string option option" where
  "decode_audit_secret j =
     do { fs \<leftarrow> wire_fields [(''secretKey'', Option_Field)] j; wire_option fs ''secretKey'' as_str }"

definition decode_filter_metadata :: "json \<Rightarrow> audit_filter_metadata option" where
  "decode_filter_metadata j =
     do { fs \<leftarrow> wire_fields [(''environment'', Option_Field), (''secretPath'', Option_Field),
            (''secretKey'', Option_Field), (''secrets'', Default_Field)] j;
          e \<leftarrow> wire_option fs ''environment'' as_str;
          p \<leftarrow> wire_option fs ''secretPath'' as_str;
          k \<leftarrow> wire_option fs ''secretKey'' as_str;
          ss \<leftarrow> wire_default fs ''secrets'' [] (wire_list decode_audit_secret);
          Some \<lparr>am_environment = e, am_secret_path = p, am_secret_key = k, am_secrets = ss\<rparr> }"

text \<open>Untagged: what is not filterable metadata is ignored, whatever it is.\<close>

definition decode_event_metadata :: "json \<Rightarrow> audit_event_metadata" where
  "decode_event_metadata j =
     (case decode_filter_metadata j of Some m \<Rightarrow> Filterable m | None \<Rightarrow> Other_Metadata)"

definition decode_audit_event :: "json \<Rightarrow> (string \<times> audit_event_metadata) option" where
  "decode_audit_event j =
     do { fs \<leftarrow> wire_fields [(''type'', Required_Field), (''metadata'', Required_Field)] j;
          t \<leftarrow> wire_field fs ''type'' as_str;
          m \<leftarrow> wire_field fs ''metadata'' (\<lambda>m. Some (decode_event_metadata m));
          Some (t, m) }"

definition decode_audit_actor :: "json \<Rightarrow> audit_actor_type option" where
  "decode_audit_actor j =
     do { fs \<leftarrow> wire_fields [(''type'', Required_Field), (''metadata'', Required_Field)] j;
          wire_field fs ''type'' (decode_variant (variant_named audit_actor_names)) }"

definition decode_raw_audit_log :: "json \<Rightarrow> raw_audit_log option" where
  "decode_raw_audit_log j =
     do { fs \<leftarrow> wire_fields [(''id'', Required_Field), (''ipAddress'', Option_Field),
            (''userAgent'', Option_Field), (''userAgentType'', Option_Field), (''expiresAt'', Option_Field),
            (''createdAt'', Required_Field), (''updatedAt'', Required_Field), (''orgId'', Option_Field),
            (''projectId'', Option_Field), (''projectName'', Option_Field), (''event'', Required_Field),
            (''actor'', Required_Field)] j;
          i \<leftarrow> wire_field fs ''id'' as_str;
          ip \<leftarrow> wire_option fs ''ipAddress'' as_str;
          ua \<leftarrow> wire_option fs ''userAgent'' as_str;
          uat \<leftarrow> wire_option fs ''userAgentType'' (decode_variant (variant_named audit_agent_names));
          ex \<leftarrow> wire_option fs ''expiresAt'' as_str;
          c \<leftarrow> wire_field fs ''createdAt'' as_str;
          u \<leftarrow> wire_field fs ''updatedAt'' as_str;
          org \<leftarrow> wire_option fs ''orgId'' as_str;
          p \<leftarrow> wire_option fs ''projectId'' as_str;
          pn \<leftarrow> wire_option fs ''projectName'' as_str;
          (t, m) \<leftarrow> wire_field fs ''event'' decode_audit_event;
          a \<leftarrow> wire_field fs ''actor'' decode_audit_actor;
          Some \<lparr>rl_id = i, rl_ip_address = ip, rl_user_agent = ua, rl_user_agent_type = uat,
                rl_expires_at = ex, rl_created_at = c, rl_updated_at = u, rl_org_id = org,
                rl_project_id = p, rl_project_name = pn, rl_event_type = t, rl_metadata = m,
                rl_actor_type = a\<rparr> }"

definition decode_list_audit_logs :: "json \<Rightarrow> raw_audit_log list option" where
  "decode_list_audit_logs j =
     do { fs \<leftarrow> wire_fields [(''auditLogs'', Required_Field)] j;
          wire_field fs ''auditLogs'' (wire_list decode_raw_audit_log) }"

section \<open>Validation of an event\<close>

definition some_and :: "'a option \<Rightarrow> ('a \<Rightarrow> bool) \<Rightarrow> bool" where
  "some_and x p \<longleftrightarrow> (case x of None \<Rightarrow> False | Some v \<Rightarrow> p v)"

definition matches_filters :: "audit_log_request \<Rightarrow> audit_event_metadata \<Rightarrow> bool" where
  "matches_filters r metadata \<longleftrightarrow>
     (if \<not> has_metadata_filters r then True
      else
        case metadata of
          Other_Metadata \<Rightarrow> False
        | Filterable m \<Rightarrow>
            if some_and (ar_environment r) (\<lambda>expected. am_environment m \<noteq> Some expected)
               \<or> some_and (ar_secret_path r) (\<lambda>expected. am_secret_path m \<noteq> Some expected)
            then False
            else
              (case ar_secret_key r of
                 None \<Rightarrow> True
               | Some expected \<Rightarrow>
                   am_secret_key m = Some expected \<or> Some expected \<in> set (am_secrets m)))"

definition audit_log_of :: "raw_audit_log \<Rightarrow> audit_log" where
  "audit_log_of l =
     \<lparr>al_id = rl_id l, al_actor_type = rl_actor_type l, al_event_type = rl_event_type l,
      al_ip_address = rl_ip_address l, al_user_agent = rl_user_agent l,
      al_user_agent_type = rl_user_agent_type l, al_organization_id = rl_org_id l,
      al_project_id = rl_project_id l, al_project_name = rl_project_name l,
      al_created_at = rl_created_at l, al_expires_at = rl_expires_at l\<rparr>"

definition into_validated :: "audit_log_request \<Rightarrow> raw_audit_log \<Rightarrow> (resource_error, audit_log) result" where
  "into_validated r l =
     and_then (ok_or (Unit_Variant ''InvalidAuditLogResponse'') (utc_timestamp_millis (rl_created_at l)))
       (\<lambda>created_millis.
       if rl_updated_at l \<noteq> rl_created_at l
          \<or> utc_timestamp_millis (rl_updated_at l) \<noteq> Some created_millis
          \<or> some_and (rl_expires_at l) (\<lambda>v. utc_timestamp_millis v = None)
          \<or> \<not> is_event_type (rl_event_type l)
          \<or> \<not> is_uuid (rl_id l)
          \<or> some_and (rl_ip_address l) (\<lambda>v. parse_ip v = None)
          \<or> some_and (rl_user_agent l) (\<lambda>v. \<not> is_bounded_text v max_audit_text_bytes)
          \<or> some_and (rl_org_id l) (\<lambda>v. \<not> is_uuid v)
          \<or> some_and (rl_project_id l) (\<lambda>v. isl (new_project_id v))
          \<or> some_and (rl_project_name l) (\<lambda>v. \<not> is_bounded_text v max_audit_text_bytes)
       then resource ''InvalidAuditLogResponse''
       else if some_and (ar_project_id r) (\<lambda>expected. rl_project_id l \<noteq> Some expected)
          \<or> some_and (ar_actor_type r) (\<lambda>expected. rl_actor_type l \<noteq> expected)
          \<or> some_and (ar_user_agent_type r) (\<lambda>expected. rl_user_agent_type l \<noteq> Some expected)
          \<or> (ar_event_types r \<noteq> [] \<and> rl_event_type l \<notin> set (ar_event_types r))
          \<or> \<not> matches_filters r (rl_metadata l)
       then resource ''InvalidAuditLogResponse''
       else
         case ar_time_range r of
           None \<Rightarrow> Ok (audit_log_of l)
         | Some (start, stop) \<Rightarrow>
             (case (utc_timestamp_millis start, utc_timestamp_millis stop) of
                (Some s, Some e) \<Rightarrow>
                  if \<not> (s \<le> created_millis \<and> created_millis \<le> e)
                  then resource ''InvalidAuditLogResponse'' else Ok (audit_log_of l)
              | _ \<Rightarrow> resource ''InvalidAuditLogResponse''))"

section \<open>The operation\<close>

definition audit_logs_endpoint :: endpoint where
  "audit_logs_endpoint = endpoint_from_static V1 ''organization/audit-logs''"

text \<open>The clamp to 1000 cannot panic: its bound is not zero.\<close>

definition list_audit_logs ::
    "api \<Rightarrow> audit_log_request \<Rightarrow> world \<Rightarrow> (resource_error, audit_log page) result \<times> world" where
  "list_audit_logs ap request w =
     (let r = request\<lparr>ar_page := the (clamped_to 1000 (ar_page request))\<rparr> in
      case validate_audit_request r of
        Inl e \<Rightarrow> (Inl e, w)
      | Inr _ \<Rightarrow>
          (case api_observable_read ap audit_logs_endpoint (list_audit_logs_query r) decode_list_audit_logs w of
             (Inl e, w) \<Rightarrow> (Inl e, w)
           | (Inr found, w) \<Rightarrow>
               (and_then (traverse (into_validated r) found) (\<lambda>logs.
                  map_err Pagination_Error (page_new (ar_page r) logs None)), w)))"

end
