(* ===== verification/Project_Tools.thy ===== *)
theory Project_Tools
  imports Secret_Tree_Tools Projects_Api Audit_Logs_Api
begin

text \<open>
  The tools for projects, environments and audit logs in \<open>infisical-mcp/src/tools.rs\<close>, with the
  project projection of \<open>projections.rs\<close>: arguments, outputs and dispatch functions.
\<close>

section \<open>Projects\<close>

record projects_list_input =
  pl_include_details :: bool
  pl_offset :: nat
  pl_limit :: nat

definition decode_projects_list :: "(string \<times> json) list \<Rightarrow> projects_list_input option" where
  "decode_projects_list m =
     do { fs \<leftarrow> strict_fields [(''includeDetails'', Default_Field), (''offset'', Default_Field),
                            (''limit'', Default_Field)] (Object m);
          d \<leftarrow> wire_default fs ''includeDetails'' False decode_bool;
          off \<leftarrow> decode_offset fs;
          l \<leftarrow> decode_limit fs;
          Some \<lparr>pl_include_details = d, pl_offset = off, pl_limit = l\<rparr> }"

definition decode_project_get :: "(string \<times> json) list \<Rightarrow> string option" where
  "decode_project_get m =
     do { fs \<leftarrow> strict_fields [(''projectId'', Required_Field)] (Object m);
          wire_field fs ''projectId'' as_str }"

definition project_kinds :: "(project_kind \<times> string) list" where
  "project_kinds = map (\<lambda>k. (k, project_kind_name k))
     [Secret_Manager, Cert_Manager, Kms_Kind, Ssh_Kind, Secret_Scanning, Pam_Kind, Ai_Kind]"

definition default_true :: bool where "default_true = True"
definition default_project_kind :: project_kind where "default_project_kind = Secret_Manager"

text \<open>The fields of the input are those of a creation, before validation.\<close>

definition decode_project_create :: "(string \<times> json) list \<Rightarrow> project_creation option" where
  "decode_project_create m =
     do { fs \<leftarrow> strict_fields [(''name'', Required_Field), (''description'', Option_Field),
            (''slug'', Option_Field), (''kind'', Default_Field), (''createDefaultEnvironments'', Default_Field),
            (''deleteProtection'', Default_Field)] (Object m);
          n \<leftarrow> wire_field fs ''name'' as_str;
          d \<leftarrow> wire_option fs ''description'' as_str;
          s \<leftarrow> wire_option fs ''slug'' as_str;
          k \<leftarrow> wire_default fs ''kind'' default_project_kind (decode_variant (variant_named project_kinds));
          c \<leftarrow> wire_default fs ''createDefaultEnvironments'' default_true decode_bool;
          p \<leftarrow> wire_default fs ''deleteProtection'' default_true decode_bool;
          Some \<lparr>pc_name = n, pc_description = d, pc_slug = s, pc_kind = k,
                pc_create_default_environments = c, pc_delete_protection = p\<rparr> }"

definition optional_input ::
    "('a \<Rightarrow> (resource_input_error, 'b) result) \<Rightarrow> 'a option \<Rightarrow> (mcp_error, 'b option) result" where
  "optional_input new x =
     (case x of
        None \<Rightarrow> Ok None
      | Some v \<Rightarrow> and_then (map_err invalid_input (new v)) (\<lambda>u. Ok (Some u)))"

definition project_creation_of :: "project_creation \<Rightarrow> (mcp_error, project_creation) result" where
  "project_creation_of i =
     and_then (map_err invalid_input (new_project_name (pc_name i))) (\<lambda>n.
     and_then (optional_input new_project_description (pc_description i)) (\<lambda>d.
     and_then (optional_input new_new_project_slug (pc_slug i)) (\<lambda>s.
       Ok (i\<lparr>pc_name := n, pc_description := d, pc_slug := s\<rparr>))))"

text \<open>The variants carry what the change carries, before validation.\<close>

definition decode_project_change :: "json \<Rightarrow> project_change option" where
  "decode_project_change j =
     do { (t, rest) \<leftarrow> tagged_content j;
          let text_field = (\<lambda>k. do { fs \<leftarrow> strict_fields [(k, Required_Field)] rest; wire_field fs k as_str });
          let flag = do { fs \<leftarrow> strict_fields [(''enabled'', Required_Field)] rest;
                          wire_field fs ''enabled'' decode_bool };
          if t = ''name'' then map_option Project_Name_Change (text_field ''name'')
          else if t = ''description'' then map_option Project_Description_Change (text_field ''description'')
          else if t = ''slug'' then map_option Project_Slug_Change (text_field ''slug'')
          else if t = ''deleteProtection'' then map_option Delete_Protection flag
          else if t = ''autoCapitalization'' then map_option Auto_Capitalization flag
          else if t = ''encryptedSecretMetadata'' then map_option Encrypted_Secret_Metadata flag
          else if t = ''secretSharing'' then map_option Secret_Sharing flag
          else if t = ''pointInTimeVersionLimit''
          then do { fs \<leftarrow> strict_fields [(''limit'', Required_Field)] rest;
                    n \<leftarrow> wire_field fs ''limit'' decode_u8;
                    Some (Point_In_Time_Version_Limit (of_nat n)) }
          else None }"

fun project_change_of :: "project_change \<Rightarrow> (mcp_error, project_change) result" where
  "project_change_of (Project_Name_Change v) =
     and_then (map_err invalid_input (new_project_name v)) (\<lambda>v. Ok (Project_Name_Change v))"
| "project_change_of (Project_Description_Change v) =
     and_then (map_err invalid_input (new_project_description v)) (\<lambda>v. Ok (Project_Description_Change v))"
| "project_change_of (Project_Slug_Change v) =
     and_then (map_err invalid_input (new_project_slug v)) (\<lambda>v. Ok (Project_Slug_Change v))"
| "project_change_of (Point_In_Time_Version_Limit v) =
     and_then (map_err invalid_input (new_point_in_time_version_limit v))
       (\<lambda>v. Ok (Point_In_Time_Version_Limit v))"
| "project_change_of change = Ok change"

definition decode_project_update :: "(string \<times> json) list \<Rightarrow> (string \<times> project_change) option" where
  "decode_project_update m =
     do { fs \<leftarrow> strict_fields [(''projectId'', Required_Field), (''change'', Required_Field)] (Object m);
          p \<leftarrow> wire_field fs ''projectId'' as_str;
          c \<leftarrow> wire_field fs ''change'' decode_project_change;
          Some (p, c) }"

definition project_update_parts :: "string \<times> project_change \<Rightarrow> (mcp_error, string \<times> project_change) result" where
  "project_update_parts i =
     and_then (map_err invalid_input (new_project_id (fst i))) (\<lambda>p.
     and_then (project_change_of (snd i)) (\<lambda>c. Ok (p, c)))"

definition decode_project_delete :: "(string \<times> json) list \<Rightarrow> (string \<times> bool) option" where
  "decode_project_delete m =
     do { fs \<leftarrow> strict_fields [(''projectId'', Required_Field), (''confirm'', Required_Field)] (Object m);
          p \<leftarrow> wire_field fs ''projectId'' as_str;
          c \<leftarrow> wire_field fs ''confirm'' decode_bool;
          Some (p, c) }"

definition confirmed_project_id :: "string \<times> bool \<Rightarrow> (mcp_error, string) result" where
  "confirmed_project_id i =
     and_then (map_err invalid_input (new_project_id (fst i))) (\<lambda>p.
       if \<not> snd i then Err (invalid_params ''confirm must be true to delete the exact project'' None)
       else Ok p)"

definition environment_json :: "project_environment \<Rightarrow> json" where
  "environment_json e =
     object_of [(''id'', String (en_id e)), (''name'', String (en_name e)), (''slug'', String (en_slug e))]"

definition project_json :: "project \<Rightarrow> json" where
  "project_json p =
     object_of
       [(''id'', String (pj_id p)), (''name'', String (pj_name p)), (''slug'', String (pj_slug p)),
        (''type'', String (pj_type p)), (''orgId'', String (pj_org_id p)),
        (''description'', option_json String (pj_description p)),
        (''environments'', Array (map environment_json (pj_environments p)))]"

record project_summary =
  ps_id :: string
  ps_name :: string
  ps_slug :: string
  ps_type :: string
  ps_org_id :: string
  ps_description :: "string option"
  ps_environments :: "project_environment list option"

definition project_summary_json :: "project_summary \<Rightarrow> json" where
  "project_summary_json s =
     object_of
       ([(''id'', String (ps_id s)), (''name'', String (ps_name s)), (''slug'', String (ps_slug s)),
         (''type'', String (ps_type s)), (''orgId'', String (ps_org_id s))]
        @ optional_field ''description'' (map_option String (ps_description s))
        @ optional_field ''environments'' (map_option (\<lambda>es. Array (map environment_json es)) (ps_environments s)))"

text \<open>\<open>projections::projects\<close>.\<close>

definition summarize_project :: "bool \<Rightarrow> project \<Rightarrow> project_summary" where
  "summarize_project details p =
     \<lparr>ps_id = pj_id p, ps_name = pj_name p, ps_slug = pj_slug p, ps_type = pj_type p,
      ps_org_id = pj_org_id p, ps_description = (if details then pj_description p else None),
      ps_environments = (if details then Some (pj_environments p) else None)\<rparr>"

definition project_projects :: "project page \<Rightarrow> bool \<Rightarrow> project_summary page" where
  "project_projects p details =
     \<lparr>page_items = map (summarize_project details) (page_items p), page_next = page_next p,
      page_total = page_total p, page_requested_limit = page_requested_limit p,
      page_effective_limit = page_effective_limit p, page_returned = page_returned p\<rparr>"

definition project_get_json :: "project option \<Rightarrow> json" where
  "project_get_json p = object_of [(''project'', option_json project_json p)]"

definition dispatch_project_workflow :: "tool_env \<Rightarrow> call_params \<Rightarrow> tool_state \<Rightarrow> tool_outcome" where
  "dispatch_project_workflow E params =
     (let name = cp_name params in
      if name = PROJECTS_LIST_TOOL then
        with_input E ''ProjectsListInput'' decode_projects_list
          ''projects.list arguments do not match the declared schema'' params (\<lambda>i.
          with_parts (page_request_of (pl_offset i) (pl_limit i)) (\<lambda>page.
            upstream_call E
              (\<lambda>r. collection_result E (page_json project_summary_json)
                 (''Use projects.get with a known projectId. A smaller limit or projection does not ''
                  @ ''reduce the upstream project inventory.'')
                 (map_sum id (\<lambda>p. project_projects p (pl_include_details i)) r))
              (\<lambda>ap. list_projects ap page)))
      else if name = PROJECTS_GET_TOOL then
        with_input E ''ProjectGetInput'' decode_project_get
          ''projects.get arguments do not match the declared schema'' params (\<lambda>i.
          with_parts (map_err invalid_input (new_project_id i)) (\<lambda>project_id.
            upstream_call E (tool_result E project_get_json) (\<lambda>ap. get_project ap project_id)))
      else if name = PROJECTS_CREATE_TOOL then
        with_input E ''ProjectCreateInput'' decode_project_create
          ''projects.create arguments do not match the declared schema'' params (\<lambda>i.
          with_parts (project_creation_of i) (\<lambda>c.
            upstream_call E (tool_result E project_json) (\<lambda>ap. create_project ap c)))
      else if name = PROJECTS_UPDATE_TOOL then
        with_input E ''ProjectUpdateInput'' decode_project_update
          ''projects.update arguments do not match the declared schema'' params (\<lambda>i.
          with_parts (project_update_parts i) (\<lambda>(project_id, change).
            upstream_call E (tool_result E project_json) (\<lambda>ap. update_project ap project_id change)))
      else if name = PROJECTS_DELETE_TOOL then
        with_input E ''ProjectDeleteInput'' decode_project_delete
          ''projects.delete arguments do not match the declared schema'' params (\<lambda>i.
          with_parts (confirmed_project_id i) (\<lambda>project_id.
            upstream_call E (tool_result E project_json) (\<lambda>ap. delete_project ap project_id True)))
      else (\<lambda>s. Some (Err method_not_found, s)))"

section \<open>Environments\<close>

definition decode_environment_target :: "json \<Rightarrow> (string \<times> string) option" where
  "decode_environment_target j =
     do { fs \<leftarrow> strict_fields [(''projectId'', Required_Field), (''environmentId'', Required_Field)] j;
          p \<leftarrow> wire_field fs ''projectId'' as_str;
          e \<leftarrow> wire_field fs ''environmentId'' as_str;
          Some (p, e) }"

definition environment_target_parts :: "string \<times> string \<Rightarrow> (mcp_error, string \<times> string) result" where
  "environment_target_parts t =
     and_then (map_err invalid_input (new_project_id (fst t))) (\<lambda>p.
     and_then (map_err invalid_input (new_environment_id (snd t))) (\<lambda>e. Ok (p, e)))"

definition decode_environment_create ::
    "(string \<times> json) list \<Rightarrow> (string \<times> string \<times> string \<times> nat option) option" where
  "decode_environment_create m =
     do { fs \<leftarrow> strict_fields [(''projectId'', Required_Field), (''name'', Required_Field),
            (''slug'', Required_Field), (''position'', Option_Field)] (Object m);
          p \<leftarrow> wire_field fs ''projectId'' as_str;
          n \<leftarrow> wire_field fs ''name'' as_str;
          s \<leftarrow> wire_field fs ''slug'' as_str;
          pos \<leftarrow> wire_option fs ''position'' decode_u32;
          Some (p, n, s, pos) }"

definition environment_create_parts ::
    "string \<times> string \<times> string \<times> nat option \<Rightarrow> (mcp_error, string \<times> environment_creation) result" where
  "environment_create_parts i =
     (case i of (p, n, s, pos) \<Rightarrow>
        and_then (map_err invalid_input (new_project_id p)) (\<lambda>p.
        and_then (map_err invalid_input (new_environment_name n)) (\<lambda>n.
        and_then (map_err invalid_input (new_environment_slug s)) (\<lambda>s.
        and_then (optional_input (\<lambda>n. new_environment_position (of_nat n)) pos) (\<lambda>pos.
          Ok (p, \<lparr>ec_name = n, ec_slug = s, ec_position = pos\<rparr>))))))"

definition decode_environment_change :: "json \<Rightarrow> environment_change option" where
  "decode_environment_change j =
     do { (t, rest) \<leftarrow> tagged_content j;
          if t = ''name''
          then do { fs \<leftarrow> strict_fields [(''name'', Required_Field)] rest;
                    v \<leftarrow> wire_field fs ''name'' as_str; Some (Environment_Name_Change v) }
          else if t = ''slug''
          then do { fs \<leftarrow> strict_fields [(''slug'', Required_Field)] rest;
                    v \<leftarrow> wire_field fs ''slug'' as_str; Some (Environment_Slug_Change v) }
          else if t = ''position''
          then do { fs \<leftarrow> strict_fields [(''position'', Required_Field)] rest;
                    n \<leftarrow> wire_field fs ''position'' decode_u32;
                    Some (Environment_Position_Change (of_nat n)) }
          else None }"

fun environment_change_of :: "environment_change \<Rightarrow> (mcp_error, environment_change) result" where
  "environment_change_of (Environment_Name_Change v) =
     and_then (map_err invalid_input (new_environment_name v)) (\<lambda>v. Ok (Environment_Name_Change v))"
| "environment_change_of (Environment_Slug_Change v) =
     and_then (map_err invalid_input (new_environment_slug v)) (\<lambda>v. Ok (Environment_Slug_Change v))"
| "environment_change_of (Environment_Position_Change v) =
     and_then (map_err invalid_input (new_environment_position v)) (\<lambda>v. Ok (Environment_Position_Change v))"

definition decode_environment_update ::
    "(string \<times> json) list \<Rightarrow> ((string \<times> string) \<times> environment_change) option" where
  "decode_environment_update m =
     do { fs \<leftarrow> strict_fields [(''target'', Required_Field), (''change'', Required_Field)] (Object m);
          t \<leftarrow> wire_field fs ''target'' decode_environment_target;
          c \<leftarrow> wire_field fs ''change'' decode_environment_change;
          Some (t, c) }"

definition environment_update_parts ::
    "(string \<times> string) \<times> environment_change \<Rightarrow> (mcp_error, string \<times> string \<times> environment_change) result" where
  "environment_update_parts i =
     and_then (environment_target_parts (fst i)) (\<lambda>(p, e).
     and_then (environment_change_of (snd i)) (\<lambda>c. Ok (p, e, c)))"

definition decode_environment_delete :: "(string \<times> json) list \<Rightarrow> ((string \<times> string) \<times> bool) option" where
  "decode_environment_delete m =
     do { fs \<leftarrow> strict_fields [(''target'', Required_Field), (''confirm'', Required_Field)] (Object m);
          t \<leftarrow> wire_field fs ''target'' decode_environment_target;
          c \<leftarrow> wire_field fs ''confirm'' decode_bool;
          Some (t, c) }"

definition environment_delete_parts :: "(string \<times> string) \<times> bool \<Rightarrow> (mcp_error, string \<times> string) result" where
  "environment_delete_parts i =
     and_then (environment_target_parts (fst i)) (\<lambda>target.
       if \<not> snd i then Err (invalid_params ''confirm must be true to soft-delete the exact environment'' None)
       else Ok target)"

definition environments_list_json :: "string \<Rightarrow> project_environment page option \<Rightarrow> json" where
  "environments_list_json project_id found =
     object_of [(''projectId'', String project_id),
                (''environments'', option_json (page_json environment_json) found)]"

definition dispatch_environment_workflow :: "tool_env \<Rightarrow> call_params \<Rightarrow> tool_state \<Rightarrow> tool_outcome" where
  "dispatch_environment_workflow E params =
     (let name = cp_name params in
      if name = ENVIRONMENTS_LIST_TOOL then
        with_input E ''ProjectPageInput'' decode_project_page
          ''environments.list arguments do not match the declared schema'' params (\<lambda>i.
          with_parts (project_page_parts i) (\<lambda>(project_id, page).
            upstream_call E (tool_result E (environments_list_json project_id))
              (\<lambda>ap. list_environments ap project_id page)))
      else if name = ENVIRONMENTS_GET_TOOL then
        with_input E ''EnvironmentTargetInput'' (\<lambda>m. decode_environment_target (Object m))
          ''environments.get arguments do not match the declared schema'' params (\<lambda>i.
          with_parts (environment_target_parts i) (\<lambda>(project_id, ident).
            upstream_call E (tool_result E environment_json) (\<lambda>ap. get_environment ap project_id ident)))
      else if name = ENVIRONMENTS_CREATE_TOOL then
        with_input E ''EnvironmentCreateInput'' decode_environment_create
          ''environments.create arguments do not match the declared schema'' params (\<lambda>i.
          with_parts (environment_create_parts i) (\<lambda>(project_id, c).
            upstream_call E (tool_result E environment_json) (\<lambda>ap. create_environment ap project_id c)))
      else if name = ENVIRONMENTS_UPDATE_TOOL then
        with_input E ''EnvironmentUpdateInput'' decode_environment_update
          ''environments.update arguments do not match the declared schema'' params (\<lambda>i.
          with_parts (environment_update_parts i) (\<lambda>(project_id, ident, c).
            upstream_call E (tool_result E environment_json) (\<lambda>ap. update_environment ap project_id ident c)))
      else if name = ENVIRONMENTS_DELETE_TOOL then
        with_input E ''EnvironmentDeleteInput'' decode_environment_delete
          ''environments.delete arguments do not match the declared schema'' params (\<lambda>i.
          with_parts (environment_delete_parts i) (\<lambda>(project_id, ident).
            upstream_call E (tool_result E environment_json) (\<lambda>ap. delete_environment ap project_id ident True)))
      else if name = ENVIRONMENTS_RESTORE_TOOL then
        with_input E ''EnvironmentTargetInput'' (\<lambda>m. decode_environment_target (Object m))
          ''environments.restore arguments do not match the declared schema'' params (\<lambda>i.
          with_parts (environment_target_parts i) (\<lambda>(project_id, ident).
            upstream_call E (tool_result E environment_json) (\<lambda>ap. restore_environment ap project_id ident)))
      else (\<lambda>s. Some (Err method_not_found, s)))"

section \<open>Audit logs\<close>

record audit_logs_input =
  ai_project_id :: "string option"
  ai_environment :: "string option"
  ai_actor_type :: "audit_actor_type option"
  ai_user_agent_type :: "audit_agent_type option"
  ai_secret_path :: "string option"
  ai_secret_key :: "string option"
  ai_event_types :: "string list option"
  ai_time_range :: "(string \<times> string) option"
  ai_offset :: nat
  ai_limit :: nat

definition decode_time_range :: "json \<Rightarrow> (string \<times> string) option" where
  "decode_time_range j =
     do { fs \<leftarrow> strict_fields [(''start'', Required_Field), (''end'', Required_Field)] j;
          s \<leftarrow> wire_field fs ''start'' as_str;
          e \<leftarrow> wire_field fs ''end'' as_str;
          Some (s, e) }"

definition decode_audit_logs_input :: "(string \<times> json) list \<Rightarrow> audit_logs_input option" where
  "decode_audit_logs_input m =
     do { fs \<leftarrow> strict_fields [(''projectId'', Option_Field), (''environment'', Option_Field),
            (''actorType'', Option_Field), (''userAgentType'', Option_Field), (''secretPath'', Option_Field),
            (''secretKey'', Option_Field), (''eventTypes'', Option_Field), (''timeRange'', Option_Field),
            (''offset'', Default_Field), (''limit'', Default_Field)] (Object m);
          p \<leftarrow> wire_option fs ''projectId'' as_str;
          e \<leftarrow> wire_option fs ''environment'' as_str;
          a \<leftarrow> wire_option fs ''actorType'' (decode_variant (variant_named audit_actor_names));
          ua \<leftarrow> wire_option fs ''userAgentType'' (decode_variant (variant_named audit_agent_names));
          sp \<leftarrow> wire_option fs ''secretPath'' as_str;
          sk \<leftarrow> wire_option fs ''secretKey'' as_str;
          ev \<leftarrow> wire_option fs ''eventTypes'' (wire_list as_str);
          tr \<leftarrow> wire_option fs ''timeRange'' decode_time_range;
          off \<leftarrow> decode_offset fs;
          l \<leftarrow> decode_limit fs;
          Some \<lparr>ai_project_id = p, ai_environment = e, ai_actor_type = a, ai_user_agent_type = ua,
                ai_secret_path = sp, ai_secret_key = sk, ai_event_types = ev, ai_time_range = tr,
                ai_offset = off, ai_limit = l\<rparr> }"

definition invalid_audit_input :: "audit_log_input_error \<Rightarrow> mcp_error" where
  "invalid_audit_input e = invalid_params (audit_log_input_error_text e) None"

definition audit_request_of :: "audit_logs_input \<Rightarrow> (mcp_error, audit_log_request) result" where
  "audit_request_of i =
     and_then (page_request_of (ai_offset i) (ai_limit i)) (\<lambda>page.
     and_then (optional_input new_project_id (ai_project_id i)) (\<lambda>p.
     and_then (optional_input new_environment_slug (ai_environment i)) (\<lambda>e.
     and_then (optional_input new_secret_path (ai_secret_path i)) (\<lambda>sp.
     and_then (optional_input new_secret_name (ai_secret_key i)) (\<lambda>sk.
       let r = (audit_log_request_new page)\<lparr>ar_project_id := p, ar_environment := e,
                 ar_actor_type := ai_actor_type i, ar_user_agent_type := ai_user_agent_type i,
                 ar_secret_path := sp, ar_secret_key := sk\<rparr> in
       and_then
         (case ai_event_types i of
            None \<Rightarrow> Ok r
          | Some ts \<Rightarrow>
              and_then (map_err invalid_audit_input (traverse new_audit_event_type ts)) (\<lambda>ts.
                map_err invalid_audit_input (with_event_types ts r))) (\<lambda>r.
         case ai_time_range i of
           None \<Rightarrow> Ok r
         | Some (start, stop) \<Rightarrow>
             and_then (map_err invalid_audit_input (new_audit_timestamp start)) (\<lambda>start.
             and_then (map_err invalid_audit_input (new_audit_timestamp stop)) (\<lambda>stop.
               map_err invalid_audit_input (with_time_range start stop r)))))))))"

definition audit_log_json :: "audit_log \<Rightarrow> json" where
  "audit_log_json l =
     object_of
       [(''id'', String (al_id l)),
        (''actorType'', String (name_of_variant audit_actor_names (al_actor_type l))),
        (''eventType'', String (al_event_type l)), (''ipAddress'', option_json String (al_ip_address l)),
        (''userAgent'', option_json String (al_user_agent l)),
        (''userAgentType'',
           option_json (\<lambda>a. String (name_of_variant audit_agent_names a)) (al_user_agent_type l)),
        (''organizationId'', option_json String (al_organization_id l)),
        (''projectId'', option_json String (al_project_id l)),
        (''projectName'', option_json String (al_project_name l)),
        (''createdAt'', String (al_created_at l)), (''expiresAt'', option_json String (al_expires_at l))]"

definition dispatch_audit_log_workflow :: "tool_env \<Rightarrow> call_params \<Rightarrow> tool_state \<Rightarrow> tool_outcome" where
  "dispatch_audit_log_workflow E params =
     with_input E ''AuditLogsListInput'' decode_audit_logs_input
       ''auditLogs.list arguments do not match the declared schema'' params (\<lambda>i.
       with_parts (audit_request_of i) (\<lambda>request.
         upstream_call E (tool_result E (page_json audit_log_json)) (\<lambda>ap. list_audit_logs ap request)))"

end
