(* ===== verification/Roles_Api.thy ===== *)
theory Roles_Api
  imports Api_Values Resource_Input
begin

text \<open>
  Organization and project roles: the reads of \<open>infisical-api/src/roles.rs\<close>.
\<close>

section \<open>Data\<close>

definition max_role_slug_bytes :: nat where "max_role_slug_bytes = 128"

datatype role_scope = Organization_Scope | Project_Scope

record role_permission =
  rp_subject :: "string option"
  rp_action :: "string list"
  rp_conditions :: "json option"
  rp_inverted :: bool

record role_summary =
  rl_name :: string
  rl_slug :: string
  rl_description :: "string option"
  rl_scope :: role_scope
  rl_scope_id :: string
  rl_built_in :: bool

record role =
  ro_summary :: role_summary
  ro_permissions :: "role_permission list"

datatype role_input_error = Invalid_Slug

fun role_input_error_text :: "role_input_error \<Rightarrow> string" where
  "role_input_error_text Invalid_Slug =
     ''role slug must contain 1 to 128 lowercase ASCII letters or numbers separated by single ''
     @ ''hyphens or underscores''"

text \<open>\<open>windows(2).any\<close> over the two separators.\<close>

definition is_separator :: "char \<Rightarrow> bool" where
  "is_separator c \<longleftrightarrow> c = CHR ''-'' \<or> c = CHR ''_''"

definition adjacent_separators :: "string \<Rightarrow> bool" where
  "adjacent_separators value \<longleftrightarrow> list_ex (\<lambda>(a, b). is_separator a \<and> is_separator b) (zip value (tl value))"

definition new_role_slug :: "string \<Rightarrow> (role_input_error, string) result" where
  "new_role_slug value =
     (if value = [] \<or> max_role_slug_bytes < length value \<or> str_trim value \<noteq> value
         \<or> \<not> is_ascii_alphanumeric (hd value) \<or> \<not> is_ascii_alphanumeric (last value)
         \<or> adjacent_separators value
         \<or> \<not> list_all (\<lambda>b. is_ascii_lowercase b \<or> is_ascii_digit b \<or> is_separator b) value
      then Err Invalid_Slug else Ok value)"

section \<open>Responses\<close>

record upstream_role =
  ur_name :: string
  ur_slug :: string
  ur_description :: "string option"
  ur_project_id :: "string option"
  ur_org_id :: "string option"
  ur_permissions :: "role_permission list option"

definition decode_role_permission :: "json \<Rightarrow> role_permission option" where
  "decode_role_permission j =
     do { fs \<leftarrow> wire_fields [(''subject'', Option_Field), (''action'', Required_Field),
            (''conditions'', Option_Field), (''inverted'', Default_Field)] j;
          s \<leftarrow> wire_option fs ''subject'' as_str;
          a \<leftarrow> wire_field fs ''action'' (wire_list as_str);
          c \<leftarrow> wire_option fs ''conditions'' (\<lambda>v. Some (json_value v));
          i \<leftarrow> wire_default fs ''inverted'' False decode_bool;
          Some \<lparr>rp_subject = s, rp_action = a, rp_conditions = c, rp_inverted = i\<rparr> }"

definition role_permission_fields :: "role_permission \<Rightarrow> (string \<times> json) list" where
  "role_permission_fields p =
     optional_field ''subject'' (map_option String (rp_subject p))
     @ [(''action'', Array (map String (rp_action p)))]
     @ optional_field ''conditions'' (rp_conditions p)
     @ [(''inverted'', Bool (rp_inverted p))]"

definition decode_upstream_role :: "json \<Rightarrow> upstream_role option" where
  "decode_upstream_role j =
     do { fs \<leftarrow> wire_fields [(''name'', Required_Field), (''slug'', Required_Field),
            (''description'', Default_Field), (''projectId'', Default_Field), (''orgId'', Default_Field),
            (''permissions'', Default_Field)] j;
          n \<leftarrow> wire_field fs ''name'' as_str;
          s \<leftarrow> wire_field fs ''slug'' as_str;
          d \<leftarrow> wire_option fs ''description'' as_str;
          p \<leftarrow> wire_option fs ''projectId'' as_str;
          org \<leftarrow> wire_option fs ''orgId'' as_str;
          ps \<leftarrow> wire_option fs ''permissions'' (wire_list decode_role_permission);
          Some \<lparr>ur_name = n, ur_slug = s, ur_description = d, ur_project_id = p, ur_org_id = org,
                ur_permissions = ps\<rparr> }"

definition decode_roles_response :: "json \<Rightarrow> upstream_role list option" where
  "decode_roles_response j =
     do { fs \<leftarrow> wire_fields [(''roles'', Required_Field)] j;
          wire_field fs ''roles'' (wire_list decode_upstream_role) }"

definition decode_role_response :: "json \<Rightarrow> upstream_role option" where
  "decode_role_response j =
     do { fs \<leftarrow> wire_fields [(''role'', Required_Field)] j;
          wire_field fs ''role'' decode_upstream_role }"

definition is_builtin_project_role :: "string \<Rightarrow> bool" where
  "is_builtin_project_role slug \<longleftrightarrow>
     slug \<in> {''admin'', ''member'', ''viewer'', ''no-access'', ''ssh-host-bootstrapper'',
             ''cryptographic-operator''}"

definition is_builtin_organization_role :: "string \<Rightarrow> bool" where
  "is_builtin_organization_role slug \<longleftrightarrow> slug \<in> {''admin'', ''member'', ''no-access''}"

definition into_project_summary :: "string \<Rightarrow> upstream_role \<Rightarrow> (resource_error, role_summary) result" where
  "into_project_summary expected r =
     (case ur_project_id r of
        None \<Rightarrow> resource ''InvalidRoleScope''
      | Some project_id \<Rightarrow>
          if project_id \<noteq> expected then resource ''InvalidRoleScope''
          else Ok \<lparr>rl_name = ur_name r, rl_slug = ur_slug r, rl_description = ur_description r,
                   rl_scope = Project_Scope, rl_scope_id = project_id,
                   rl_built_in = is_builtin_project_role (ur_slug r)\<rparr>)"

definition into_project :: "string \<Rightarrow> upstream_role \<Rightarrow> (resource_error, role) result" where
  "into_project expected r =
     (case ur_permissions r of
        None \<Rightarrow> resource ''MissingRolePermissions''
      | Some ps \<Rightarrow>
          and_then (into_project_summary expected (r\<lparr>ur_permissions := None\<rparr>)) (\<lambda>s.
            Ok \<lparr>ro_summary = s, ro_permissions = ps\<rparr>))"

definition into_organization_summary :: "upstream_role \<Rightarrow> (resource_error, role_summary) result" where
  "into_organization_summary r =
     (case ur_org_id r of
        None \<Rightarrow> resource ''InvalidRoleScope''
      | Some org_id \<Rightarrow>
          Ok \<lparr>rl_name = ur_name r, rl_slug = ur_slug r, rl_description = ur_description r,
              rl_scope = Organization_Scope, rl_scope_id = org_id,
              rl_built_in = is_builtin_organization_role (ur_slug r)\<rparr>)"

definition into_organization :: "upstream_role \<Rightarrow> (resource_error, role) result" where
  "into_organization r =
     (case ur_permissions r of
        None \<Rightarrow> resource ''MissingRolePermissions''
      | Some ps \<Rightarrow>
          and_then (into_organization_summary (r\<lparr>ur_permissions := None\<rparr>)) (\<lambda>s.
            Ok \<lparr>ro_summary = s, ro_permissions = ps\<rparr>))"

section \<open>Operations\<close>

definition project_roles_endpoint :: "string \<Rightarrow> endpoint" where
  "project_roles_endpoint project_id = endpoint_from_segments V1 [''projects'', project_id, ''roles'']"
definition project_role_endpoint :: "string \<Rightarrow> string \<Rightarrow> endpoint" where
  "project_role_endpoint project_id slug =
     endpoint_from_segments V1 [''projects'', project_id, ''roles'', ''slug'', slug]"
definition organization_roles_endpoint :: endpoint where
  "organization_roles_endpoint = endpoint_from_static V1 ''organization/roles''"
definition organization_role_endpoint :: "string \<Rightarrow> endpoint" where
  "organization_role_endpoint slug = endpoint_from_segments V1 [''organization'', ''roles'', ''slug'', slug]"

definition list_project_roles ::
    "api \<Rightarrow> string \<Rightarrow> page_request \<Rightarrow> world \<Rightarrow> (resource_error, role_summary page) result \<times> world" where
  "list_project_roles ap project_id page w =
     apfst (\<lambda>r. and_then (and_then r (traverse (into_project_summary project_id)))
                  (\<lambda>roles. map_err Pagination_Error (paginate page roles)))
       (api_read ap (project_roles_endpoint project_id) [] decode_roles_response w)"

definition get_project_role ::
    "api \<Rightarrow> string \<Rightarrow> string \<Rightarrow> world \<Rightarrow> (resource_error, role) result \<times> world" where
  "get_project_role ap project_id slug w =
     apfst (\<lambda>r. and_then r (into_project project_id))
       (api_read ap (project_role_endpoint project_id slug) [] decode_role_response w)"

definition list_organization_roles ::
    "api \<Rightarrow> page_request \<Rightarrow> world \<Rightarrow> (resource_error, role_summary page) result \<times> world" where
  "list_organization_roles ap page w =
     apfst (\<lambda>r. and_then (and_then r (traverse into_organization_summary))
                  (\<lambda>roles. map_err Pagination_Error (paginate page roles)))
       (api_read ap organization_roles_endpoint [] decode_roles_response w)"

definition get_organization_role ::
    "api \<Rightarrow> string \<Rightarrow> world \<Rightarrow> (resource_error, role) result \<times> world" where
  "get_organization_role ap slug w =
     apfst (\<lambda>r. and_then r into_organization)
       (api_read ap (organization_role_endpoint slug) [] decode_role_response w)"

end
