(* ===== verification/Memberships_Api.thy ===== *)
theory Memberships_Api
  imports Api_Values Resource_Input
begin

text \<open>
  Project memberships of users and machine identities: \<open>infisical-api/src/project_memberships.rs\<close>.
\<close>

section \<open>Validated input\<close>

definition max_project_membership_batch_size :: nat where "max_project_membership_batch_size = 50"
definition max_project_membership_roles :: nat where "max_project_membership_roles = 10"
definition max_member_handle_bytes :: nat where "max_member_handle_bytes = 254"
definition max_project_role_slug_bytes :: nat where "max_project_role_slug_bytes = 128"

datatype membership_input_error =
    Invalid_Principal_Count | Invalid_Email | Invalid_Username | Duplicate_Principal
  | Invalid_Role_Count | Invalid_Role_Slug | Duplicate_Role

fun membership_input_error_text :: "membership_input_error \<Rightarrow> string" where
  "membership_input_error_text Invalid_Principal_Count =
     ''project membership batches must contain between 1 and 50 users''"
| "membership_input_error_text Invalid_Email =
     ''project member email addresses must be lowercase, bounded, and syntactically valid''"
| "membership_input_error_text Invalid_Username =
     ''project member usernames must be lowercase and contain at most 254 safe ASCII bytes''"
| "membership_input_error_text Duplicate_Principal =
     ''project membership batches must not contain duplicate users''"
| "membership_input_error_text Invalid_Role_Count =
     ''project memberships must contain between 1 and 10 long-lived roles''"
| "membership_input_error_text Invalid_Role_Slug =
     ''project role slugs must contain 1 to 128 lowercase letters, numbers, hyphens, or underscores''"
| "membership_input_error_text Duplicate_Role =
     ''project memberships must not contain duplicate role slugs''"

definition new_project_role_slug :: "string \<Rightarrow> (membership_input_error, string) result" where
  "new_project_role_slug value =
     (if value = [] \<or> max_project_role_slug_bytes < length value \<or> str_trim value \<noteq> value
         \<or> \<not> list_all (\<lambda>b. is_ascii_lowercase b \<or> is_ascii_digit b \<or> b = CHR ''-'' \<or> b = CHR ''_'') value
      then Err Invalid_Role_Slug else Ok value)"

text \<open>A hash set of the items is as large as the list when no item occurs twice.\<close>

definition new_membership_roles :: "string list \<Rightarrow> (membership_input_error, string list) result" where
  "new_membership_roles roles =
     (if roles = [] \<or> max_project_membership_roles < length roles then Err Invalid_Role_Count
      else if \<not> distinct roles then Err Duplicate_Role
      else Ok roles)"

definition is_valid_username :: "string \<Rightarrow> bool" where
  "is_valid_username value \<longleftrightarrow>
     value \<noteq> [] \<and> length value \<le> max_member_handle_bytes \<and> str_trim value = value
     \<and> list_all (\<lambda>b. is_ascii_lowercase b \<or> is_ascii_digit b \<or> b \<in> set ''@._+-'') value"

definition is_valid_label :: "string \<Rightarrow> bool" where
  "is_valid_label l \<longleftrightarrow>
     l \<noteq> [] \<and> length l \<le> 63 \<and> is_ascii_alphanumeric (hd l) \<and> is_ascii_alphanumeric (last l)
     \<and> list_all (\<lambda>b. is_ascii_alphanumeric b \<or> b = CHR ''-'') l"

definition is_valid_email :: "string \<Rightarrow> bool" where
  "is_valid_email value \<longleftrightarrow>
     is_valid_username value
     \<and> (case split_by ((=) (CHR ''@'')) value of
          [local_part, domain] \<Rightarrow>
            local_part \<noteq> [] \<and> length local_part \<le> 64
            \<and> hd local_part \<noteq> CHR ''.'' \<and> last local_part \<noteq> CHR ''.''
            \<and> \<not> str_contains ''..'' local_part
            \<and> domain \<noteq> [] \<and> CHR ''.'' \<in> set domain
            \<and> list_all is_valid_label (split_by ((=) (CHR ''.'')) domain)
        | _ \<Rightarrow> False)"

record user_invitation =
  iv_emails :: "string list"
  iv_usernames :: "string list"
  iv_roles :: "string list"

text \<open>The lengths of two vectors in memory cannot overflow \<open>checked_add\<close>.\<close>

definition new_user_invitation ::
    "string list \<Rightarrow> string list \<Rightarrow> string list \<Rightarrow> (membership_input_error, user_invitation) result" where
  "new_user_invitation emails usernames roles =
     (let principals = length emails + length usernames in
      if principals = 0 \<or> max_project_membership_batch_size < principals then Err Invalid_Principal_Count
      else if list_ex (\<lambda>e. \<not> is_valid_email e) emails then Err Invalid_Email
      else if list_ex (\<lambda>u. \<not> is_valid_username u) usernames then Err Invalid_Username
      else if \<not> distinct (emails @ usernames) then Err Duplicate_Principal
      else Ok \<lparr>iv_emails = emails, iv_usernames = usernames, iv_roles = roles\<rparr>)"

section \<open>Data\<close>

record member_user =
  usr_id :: string
  usr_username :: string
  usr_email :: "string option"
  usr_first_name :: "string option"
  usr_last_name :: "string option"
  usr_auth_methods :: "string list option"
  usr_is_email_verified :: "bool option"

record membership_role =
  mr_id :: string
  mr_role :: string
  mr_custom_role_id :: "string option"
  mr_custom_role_name :: "string option"
  mr_custom_role_slug :: "string option"
  mr_is_temporary :: bool
  mr_temporary_mode :: "string option"
  mr_temporary_range :: "string option"
  mr_access_start :: "string option"
  mr_access_end :: "string option"
  mr_project_membership_id :: "string option"

record user_membership =
  um_id :: string
  um_project_id :: string
  um_user_id :: string
  um_created_at :: string
  um_user :: member_user
  um_roles :: "membership_role list"

record member_identity =
  mi_id :: string
  mi_name :: string
  mi_org_id :: string
  mi_project_id :: "string option"
  mi_auth_methods :: "string list"

record identity_membership =
  im_id :: string
  im_project_id :: string
  im_identity_id :: string
  im_created_at :: string
  im_updated_at :: string
  im_roles :: "membership_role list"
  im_identity :: member_identity

record membership_receipt =
  mrc_membership_id :: string
  mrc_project_id :: string
  mrc_principal_id :: string

section \<open>Requests\<close>

definition role_request :: "string \<Rightarrow> json" where
  "role_request slug = Object [(''role'', String slug), (''isTemporary'', Bool False)]"

definition role_requests :: "string list \<Rightarrow> json" where
  "role_requests roles = Array (map role_request roles)"

definition invite_users_request :: "user_invitation \<Rightarrow> json" where
  "invite_users_request i =
     Object [(''emails'', Array (map String (iv_emails i))), (''usernames'', Array (map String (iv_usernames i))),
             (''roleSlugs'', Array (map String (iv_roles i)))]"

definition membership_roles_request :: "string list \<Rightarrow> json" where
  "membership_roles_request roles = Object [(''roles'', role_requests roles)]"

definition no_members :: json where "no_members = Object []"

definition identity_memberships_query :: "page_request \<Rightarrow> (string \<times> string) list" where
  "identity_memberships_query page =
     [(''offset'', show_nat (unat (req_offset page))), (''limit'', show_nat (unat (request_limit page)))]"

section \<open>Responses\<close>

definition decode_member_user :: "json \<Rightarrow> member_user option" where
  "decode_member_user j =
     do { fs \<leftarrow> wire_fields [(''id'', Required_Field), (''username'', Required_Field), (''email'', Option_Field),
            (''firstName'', Option_Field), (''lastName'', Option_Field), (''authMethods'', Default_Field),
            (''isEmailVerified'', Option_Field)] j;
          i \<leftarrow> wire_field fs ''id'' as_str;
          u \<leftarrow> wire_field fs ''username'' as_str;
          e \<leftarrow> wire_option fs ''email'' as_str;
          fn \<leftarrow> wire_option fs ''firstName'' as_str;
          ln \<leftarrow> wire_option fs ''lastName'' as_str;
          am \<leftarrow> wire_option fs ''authMethods'' (wire_list as_str);
          v \<leftarrow> wire_option fs ''isEmailVerified'' decode_bool;
          Some \<lparr>usr_id = i, usr_username = u, usr_email = e, usr_first_name = fn, usr_last_name = ln,
                usr_auth_methods = am, usr_is_email_verified = v\<rparr> }"

definition decode_membership_role :: "json \<Rightarrow> membership_role option" where
  "decode_membership_role j =
     do { fs \<leftarrow> wire_fields [(''id'', Required_Field), (''role'', Required_Field),
            (''customRoleId'', Default_Field), (''customRoleName'', Default_Field),
            (''customRoleSlug'', Default_Field), (''isTemporary'', Default_Field),
            (''temporaryMode'', Default_Field), (''temporaryRange'', Default_Field),
            (''temporaryAccessStartTime'', Default_Field), (''temporaryAccessEndTime'', Default_Field),
            (''projectMembershipId'', Default_Field)] j;
          i \<leftarrow> wire_field fs ''id'' as_str;
          r \<leftarrow> wire_field fs ''role'' as_str;
          ci \<leftarrow> wire_option fs ''customRoleId'' as_str;
          cn \<leftarrow> wire_option fs ''customRoleName'' as_str;
          cs \<leftarrow> wire_option fs ''customRoleSlug'' as_str;
          t \<leftarrow> wire_default fs ''isTemporary'' False decode_bool;
          tm \<leftarrow> wire_option fs ''temporaryMode'' as_str;
          tr \<leftarrow> wire_option fs ''temporaryRange'' as_str;
          ts \<leftarrow> wire_option fs ''temporaryAccessStartTime'' as_str;
          te \<leftarrow> wire_option fs ''temporaryAccessEndTime'' as_str;
          pm \<leftarrow> wire_option fs ''projectMembershipId'' as_str;
          Some \<lparr>mr_id = i, mr_role = r, mr_custom_role_id = ci, mr_custom_role_name = cn,
                mr_custom_role_slug = cs, mr_is_temporary = t, mr_temporary_mode = tm,
                mr_temporary_range = tr, mr_access_start = ts, mr_access_end = te,
                mr_project_membership_id = pm\<rparr> }"

text \<open>\<open>UserMembershipWire\<close> has the fields of the membership it is turned into.\<close>

definition decode_user_membership :: "json \<Rightarrow> user_membership option" where
  "decode_user_membership j =
     do { fs \<leftarrow> wire_fields [(''id'', Required_Field), (''createdAt'', Required_Field),
            (''userId'', Required_Field), (''projectId'', Required_Field), (''user'', Required_Field),
            (''roles'', Required_Field)] j;
          i \<leftarrow> wire_field fs ''id'' as_str;
          c \<leftarrow> wire_field fs ''createdAt'' as_str;
          uid \<leftarrow> wire_field fs ''userId'' as_str;
          p \<leftarrow> wire_field fs ''projectId'' as_str;
          u \<leftarrow> wire_field fs ''user'' decode_member_user;
          rs \<leftarrow> wire_field fs ''roles'' (wire_list decode_membership_role);
          Some \<lparr>um_id = i, um_project_id = p, um_user_id = uid, um_created_at = c, um_user = u,
                um_roles = rs\<rparr> }"

definition decode_user_memberships :: "json \<Rightarrow> user_membership list option" where
  "decode_user_memberships j =
     do { fs \<leftarrow> wire_fields [(''memberships'', Required_Field)] j;
          wire_field fs ''memberships'' (wire_list decode_user_membership) }"

definition decode_user_membership_response :: "json \<Rightarrow> user_membership option" where
  "decode_user_membership_response j =
     do { fs \<leftarrow> wire_fields [(''membership'', Required_Field)] j;
          wire_field fs ''membership'' decode_user_membership }"

definition decode_membership_receipt :: "string \<Rightarrow> json \<Rightarrow> membership_receipt option" where
  "decode_membership_receipt who j =
     do { fs \<leftarrow> wire_fields [(''id'', Required_Field), (''projectId'', Required_Field),
            (who, Required_Field)] j;
          i \<leftarrow> wire_field fs ''id'' as_str;
          p \<leftarrow> wire_field fs ''projectId'' as_str;
          u \<leftarrow> wire_field fs who as_str;
          Some \<lparr>mrc_membership_id = i, mrc_project_id = p, mrc_principal_id = u\<rparr> }"

definition decode_user_receipt :: "json \<Rightarrow> membership_receipt option" where
  "decode_user_receipt = decode_membership_receipt ''userId''"
definition decode_identity_receipt :: "json \<Rightarrow> membership_receipt option" where
  "decode_identity_receipt = decode_membership_receipt ''identityId''"

definition decode_membership_receipts :: "json \<Rightarrow> membership_receipt list option" where
  "decode_membership_receipts j =
     do { fs \<leftarrow> wire_fields [(''memberships'', Required_Field)] j;
          wire_field fs ''memberships'' (wire_list decode_user_receipt) }"

definition decode_user_receipt_response :: "json \<Rightarrow> membership_receipt option" where
  "decode_user_receipt_response j =
     do { fs \<leftarrow> wire_fields [(''membership'', Required_Field)] j;
          wire_field fs ''membership'' decode_user_receipt }"

definition decode_identity_receipt_response :: "json \<Rightarrow> membership_receipt option" where
  "decode_identity_receipt_response j =
     do { fs \<leftarrow> wire_fields [(''identityMembership'', Required_Field)] j;
          wire_field fs ''identityMembership'' decode_identity_receipt }"

definition decode_membership_role_set :: "json \<Rightarrow> membership_role list option" where
  "decode_membership_role_set j =
     do { fs \<leftarrow> wire_fields [(''roles'', Required_Field)] j;
          wire_field fs ''roles'' (wire_list decode_membership_role) }"

definition decode_member_identity :: "json \<Rightarrow> member_identity option" where
  "decode_member_identity j =
     do { fs \<leftarrow> wire_fields [(''id'', Required_Field), (''name'', Required_Field), (''orgId'', Required_Field),
            (''projectId'', Default_Field), (''authMethods'', Default_Field)] j;
          i \<leftarrow> wire_field fs ''id'' as_str;
          n \<leftarrow> wire_field fs ''name'' as_str;
          org \<leftarrow> wire_field fs ''orgId'' as_str;
          p \<leftarrow> wire_option fs ''projectId'' as_str;
          am \<leftarrow> wire_default fs ''authMethods'' [] (wire_list as_str);
          Some \<lparr>mi_id = i, mi_name = n, mi_org_id = org, mi_project_id = p, mi_auth_methods = am\<rparr> }"

record identity_membership_wire =
  iw_id :: string
  iw_created_at :: string
  iw_updated_at :: string
  iw_identity_id :: "string option"
  iw_roles :: "membership_role list"
  iw_identity :: member_identity

definition decode_identity_membership :: "json \<Rightarrow> identity_membership_wire option" where
  "decode_identity_membership j =
     do { fs \<leftarrow> wire_fields [(''id'', Required_Field), (''createdAt'', Required_Field),
            (''updatedAt'', Required_Field), (''identityId'', Default_Field), (''roles'', Required_Field),
            (''identity'', Required_Field)] j;
          i \<leftarrow> wire_field fs ''id'' as_str;
          c \<leftarrow> wire_field fs ''createdAt'' as_str;
          u \<leftarrow> wire_field fs ''updatedAt'' as_str;
          ii \<leftarrow> wire_option fs ''identityId'' as_str;
          rs \<leftarrow> wire_field fs ''roles'' (wire_list decode_membership_role);
          m \<leftarrow> wire_field fs ''identity'' decode_member_identity;
          Some \<lparr>iw_id = i, iw_created_at = c, iw_updated_at = u, iw_identity_id = ii, iw_roles = rs,
                iw_identity = m\<rparr> }"

definition into_identity_membership :: "string \<Rightarrow> identity_membership_wire \<Rightarrow> identity_membership" where
  "into_identity_membership project_id m =
     \<lparr>im_id = iw_id m, im_project_id = project_id,
      im_identity_id = (case iw_identity_id m of Some i \<Rightarrow> i | None \<Rightarrow> mi_id (iw_identity m)),
      im_created_at = iw_created_at m, im_updated_at = iw_updated_at m, im_roles = iw_roles m,
      im_identity = iw_identity m\<rparr>"

definition decode_identity_memberships :: "json \<Rightarrow> (identity_membership_wire list \<times> nat) option" where
  "decode_identity_memberships j =
     do { fs \<leftarrow> wire_fields [(''identityMemberships'', Required_Field), (''totalCount'', Required_Field)] j;
          ms \<leftarrow> wire_field fs ''identityMemberships'' (wire_list decode_identity_membership);
          n \<leftarrow> wire_field fs ''totalCount'' decode_u64;
          Some (ms, n) }"

definition decode_identity_membership_response :: "json \<Rightarrow> identity_membership_wire option" where
  "decode_identity_membership_response j =
     do { fs \<leftarrow> wire_fields [(''identityMembership'', Required_Field)] j;
          wire_field fs ''identityMembership'' decode_identity_membership }"

section \<open>Endpoints\<close>

definition memberships_endpoint :: "string \<Rightarrow> endpoint" where
  "memberships_endpoint project_id = endpoint_from_segments V1 [''projects'', project_id, ''memberships'']"
definition membership_endpoint :: "string \<Rightarrow> string \<Rightarrow> endpoint" where
  "membership_endpoint project_id membership_id =
     endpoint_from_segments V1 [''projects'', project_id, ''memberships'', membership_id]"
definition identity_memberships_endpoint :: "string \<Rightarrow> endpoint" where
  "identity_memberships_endpoint project_id =
     endpoint_from_segments V1 [''projects'', project_id, ''memberships'', ''identities'']"
definition identity_membership_endpoint :: "string \<Rightarrow> string \<Rightarrow> endpoint" where
  "identity_membership_endpoint project_id identity_id =
     endpoint_from_segments V1 [''projects'', project_id, ''memberships'', ''identities'', identity_id]"

section \<open>Operations\<close>

definition list_project_user_memberships ::
    "api \<Rightarrow> string \<Rightarrow> page_request \<Rightarrow> world \<Rightarrow> (resource_error, user_membership page) result \<times> world" where
  "list_project_user_memberships ap project_id page w =
     apfst (\<lambda>r. and_then r (\<lambda>found. map_err Pagination_Error (paginate page found)))
       (api_read ap (memberships_endpoint project_id) [] decode_user_memberships w)"

definition get_project_user_membership ::
    "api \<Rightarrow> string \<Rightarrow> string \<Rightarrow> world \<Rightarrow> (resource_error, user_membership) result \<times> world" where
  "get_project_user_membership ap project_id membership_id w =
     api_read ap (membership_endpoint project_id membership_id) [] decode_user_membership_response w"

definition invite_project_users ::
    "api \<Rightarrow> string \<Rightarrow> user_invitation \<Rightarrow> world \<Rightarrow> (resource_error, membership_receipt list) result \<times> world" where
  "invite_project_users ap project_id i w =
     api_mutate ap POST (memberships_endpoint project_id) (invite_users_request i) decode_membership_receipts w"

definition update_project_user_membership ::
    "api \<Rightarrow> string \<Rightarrow> string \<Rightarrow> string list \<Rightarrow> bool \<Rightarrow> world
      \<Rightarrow> (resource_error, membership_role list) result \<times> world" where
  "update_project_user_membership ap project_id membership_id roles confirm_replace_all_roles w =
     (if \<not> confirm_replace_all_roles then (resource ''ProjectMembershipRoleReplacementNotConfirmed'', w)
      else api_mutate ap PATCH (membership_endpoint project_id membership_id) (membership_roles_request roles)
             decode_membership_role_set w)"

definition delete_project_user_membership ::
    "api \<Rightarrow> string \<Rightarrow> string \<Rightarrow> bool \<Rightarrow> world \<Rightarrow> (resource_error, membership_receipt) result \<times> world" where
  "delete_project_user_membership ap project_id membership_id confirm w =
     (if \<not> confirm then (resource ''ProjectMembershipDeletionNotConfirmed'', w)
      else api_mutate ap DELETE (membership_endpoint project_id membership_id) no_members
             decode_user_receipt_response w)"

definition list_project_identity_memberships ::
    "api \<Rightarrow> string \<Rightarrow> page_request \<Rightarrow> world
      \<Rightarrow> (resource_error, identity_membership page) result \<times> world" where
  "list_project_identity_memberships ap project_id page w =
     (let page = the (clamped_to 1000 page) in
      apfst (\<lambda>r. and_then r (\<lambda>(found, reported).
                 map_err Pagination_Error
                   (page_new page (map (into_identity_membership project_id) found) (Some (of_nat reported)))))
        (api_read ap (identity_memberships_endpoint project_id) (identity_memberships_query page)
           decode_identity_memberships w))"

definition get_project_identity_membership ::
    "api \<Rightarrow> string \<Rightarrow> string \<Rightarrow> world \<Rightarrow> (resource_error, identity_membership) result \<times> world" where
  "get_project_identity_membership ap project_id identity_id w =
     apfst (map_sum id (into_identity_membership project_id))
       (api_read ap (identity_membership_endpoint project_id identity_id) []
          decode_identity_membership_response w)"

definition mutate_project_identity_membership ::
    "http_method \<Rightarrow> api \<Rightarrow> string \<Rightarrow> string \<Rightarrow> string list \<Rightarrow> world
      \<Rightarrow> (resource_error, membership_receipt) result \<times> world" where
  "mutate_project_identity_membership meth ap project_id identity_id roles w =
     api_mutate ap meth (identity_membership_endpoint project_id identity_id) (membership_roles_request roles)
       decode_identity_receipt_response w"

definition create_project_identity_membership ::
    "api \<Rightarrow> string \<Rightarrow> string \<Rightarrow> string list \<Rightarrow> world \<Rightarrow> (resource_error, membership_receipt) result \<times> world" where
  "create_project_identity_membership = mutate_project_identity_membership POST"

definition update_project_identity_membership ::
    "api \<Rightarrow> string \<Rightarrow> string \<Rightarrow> string list \<Rightarrow> bool \<Rightarrow> world
      \<Rightarrow> (resource_error, membership_receipt) result \<times> world" where
  "update_project_identity_membership ap project_id identity_id roles confirm_replace_all_roles w =
     (if \<not> confirm_replace_all_roles then (resource ''ProjectMembershipRoleReplacementNotConfirmed'', w)
      else mutate_project_identity_membership PATCH ap project_id identity_id roles w)"

definition delete_project_identity_membership ::
    "api \<Rightarrow> string \<Rightarrow> string \<Rightarrow> bool \<Rightarrow> world \<Rightarrow> (resource_error, membership_receipt) result \<times> world" where
  "delete_project_identity_membership ap project_id identity_id confirm w =
     (if \<not> confirm then (resource ''ProjectMembershipDeletionNotConfirmed'', w)
      else api_mutate ap DELETE (identity_membership_endpoint project_id identity_id) no_members
             decode_identity_receipt_response w)"

end
