(* ===== verification/Groups_Api.thy ===== *)
theory Groups_Api
  imports Memberships_Api
begin

text \<open>
  Organization groups, their members and projects: the reads of \<open>infisical-api/src/groups.rs\<close>.
\<close>

section \<open>Data\<close>

record org_group =
  gr_id :: string
  gr_org_id :: string
  gr_name :: string
  gr_slug :: string
  gr_role :: string
  gr_role_id :: "string option"
  gr_custom_role_slug :: "string option"
  gr_created_at :: string
  gr_updated_at :: string

record group_user =
  gu_id :: string
  gu_first_name :: "string option"
  gu_last_name :: "string option"
  gu_email :: "string option"
  gu_username :: string

record group_identity =
  gi_id :: string
  gi_name :: string

datatype group_member =
    User_Member string "string option" group_user
  | Machine_Identity_Member string "string option" group_identity

datatype member_type_filter = All_Members | Users_Only | Machine_Identities_Only

fun upstream_member_type :: "member_type_filter \<Rightarrow> string option" where
  "upstream_member_type All_Members = None"
| "upstream_member_type Users_Only = Some ''users''"
| "upstream_member_type Machine_Identities_Only = Some ''machineIdentities''"

fun accepts_member :: "member_type_filter \<Rightarrow> group_member \<Rightarrow> bool" where
  "accepts_member All_Members m = True"
| "accepts_member Users_Only m = (case m of User_Member _ _ _ \<Rightarrow> True | _ \<Rightarrow> False)"
| "accepts_member Machine_Identities_Only m = (case m of Machine_Identity_Member _ _ _ \<Rightarrow> True | _ \<Rightarrow> False)"

record group_project =
  gp_id :: string
  gp_name :: string
  gp_slug :: string
  gp_description :: "string option"
  gp_project_type :: string
  gp_joined_group_at :: "string option"

datatype group_project_filter = All_Projects | Assigned_Projects | Unassigned_Projects

fun upstream_project_filter :: "group_project_filter \<Rightarrow> string option" where
  "upstream_project_filter All_Projects = None"
| "upstream_project_filter Assigned_Projects = Some ''assignedProjects''"
| "upstream_project_filter Unassigned_Projects = Some ''unassignedProjects''"

fun accepts_project :: "group_project_filter \<Rightarrow> group_project \<Rightarrow> bool" where
  "accepts_project All_Projects p = True"
| "accepts_project Assigned_Projects p = (gp_joined_group_at p \<noteq> None)"
| "accepts_project Unassigned_Projects p = (gp_joined_group_at p = None)"

record group_reference =
  gf_id :: string
  gf_name :: string
  gf_slug :: string
  gf_org_id :: "string option"

record group_membership =
  gm_id :: string
  gm_group_id :: string
  gm_project_id :: string
  gm_group :: group_reference
  gm_roles :: "membership_role list"
  gm_created_at :: string
  gm_updated_at :: string

section \<open>Responses\<close>

definition decode_group :: "json \<Rightarrow> org_group option" where
  "decode_group j =
     do { fs \<leftarrow> wire_fields [(''id'', Required_Field), (''orgId'', Required_Field), (''name'', Required_Field),
            (''slug'', Required_Field), (''role'', Required_Field), (''roleId'', Default_Field),
            (''customRoleSlug'', Default_Field), (''createdAt'', Required_Field),
            (''updatedAt'', Required_Field)] j;
          i \<leftarrow> wire_field fs ''id'' as_str;
          org \<leftarrow> wire_field fs ''orgId'' as_str;
          n \<leftarrow> wire_field fs ''name'' as_str;
          s \<leftarrow> wire_field fs ''slug'' as_str;
          r \<leftarrow> wire_field fs ''role'' as_str;
          ri \<leftarrow> wire_option fs ''roleId'' as_str;
          cs \<leftarrow> wire_option fs ''customRoleSlug'' as_str;
          c \<leftarrow> wire_field fs ''createdAt'' as_str;
          u \<leftarrow> wire_field fs ''updatedAt'' as_str;
          Some \<lparr>gr_id = i, gr_org_id = org, gr_name = n, gr_slug = s, gr_role = r, gr_role_id = ri,
                gr_custom_role_slug = cs, gr_created_at = c, gr_updated_at = u\<rparr> }"

definition decode_groups :: "json \<Rightarrow> org_group list option" where
  "decode_groups = wire_list decode_group"

definition decode_group_user :: "json \<Rightarrow> group_user option" where
  "decode_group_user j =
     do { fs \<leftarrow> wire_fields [(''id'', Required_Field), (''firstName'', Default_Field),
            (''lastName'', Default_Field), (''email'', Default_Field), (''username'', Required_Field)] j;
          i \<leftarrow> wire_field fs ''id'' as_str;
          fn \<leftarrow> wire_option fs ''firstName'' as_str;
          ln \<leftarrow> wire_option fs ''lastName'' as_str;
          e \<leftarrow> wire_option fs ''email'' as_str;
          u \<leftarrow> wire_field fs ''username'' as_str;
          Some \<lparr>gu_id = i, gu_first_name = fn, gu_last_name = ln, gu_email = e, gu_username = u\<rparr> }"

definition decode_group_identity :: "json \<Rightarrow> group_identity option" where
  "decode_group_identity j =
     do { fs \<leftarrow> wire_fields [(''id'', Required_Field), (''name'', Required_Field)] j;
          i \<leftarrow> wire_field fs ''id'' as_str;
          n \<leftarrow> wire_field fs ''name'' as_str;
          Some \<lparr>gi_id = i, gi_name = n\<rparr> }"

definition decode_group_member :: "json \<Rightarrow> group_member option" where
  "decode_group_member j =
     do { (t, rest) \<leftarrow> tagged_by ''type'' j;
          if t = ''user''
          then do { fs \<leftarrow> wire_fields [(''id'', Required_Field), (''joinedGroupAt'', Default_Field),
                      (''user'', Required_Field)] rest;
                    i \<leftarrow> wire_field fs ''id'' as_str;
                    a \<leftarrow> wire_option fs ''joinedGroupAt'' as_str;
                    u \<leftarrow> wire_field fs ''user'' decode_group_user;
                    Some (User_Member i a u) }
          else if t = ''machineIdentity''
          then do { fs \<leftarrow> wire_fields [(''id'', Required_Field), (''joinedGroupAt'', Default_Field),
                      (''machineIdentity'', Required_Field)] rest;
                    i \<leftarrow> wire_field fs ''id'' as_str;
                    a \<leftarrow> wire_option fs ''joinedGroupAt'' as_str;
                    m \<leftarrow> wire_field fs ''machineIdentity'' decode_group_identity;
                    Some (Machine_Identity_Member i a m) }
          else None }"

definition decode_group_members :: "json \<Rightarrow> (group_member list \<times> nat) option" where
  "decode_group_members j =
     do { fs \<leftarrow> wire_fields [(''members'', Required_Field), (''totalCount'', Required_Field)] j;
          ms \<leftarrow> wire_field fs ''members'' (wire_list decode_group_member);
          n \<leftarrow> wire_field fs ''totalCount'' decode_u64;
          Some (ms, n) }"

definition decode_group_project :: "json \<Rightarrow> group_project option" where
  "decode_group_project j =
     do { fs \<leftarrow> wire_fields [(''id'', Required_Field), (''name'', Required_Field), (''slug'', Required_Field),
            (''description'', Default_Field), (''type'', Required_Field), (''joinedGroupAt'', Default_Field)] j;
          i \<leftarrow> wire_field fs ''id'' as_str;
          n \<leftarrow> wire_field fs ''name'' as_str;
          s \<leftarrow> wire_field fs ''slug'' as_str;
          d \<leftarrow> wire_option fs ''description'' as_str;
          t \<leftarrow> wire_field fs ''type'' as_str;
          a \<leftarrow> wire_option fs ''joinedGroupAt'' as_str;
          Some \<lparr>gp_id = i, gp_name = n, gp_slug = s, gp_description = d, gp_project_type = t,
                gp_joined_group_at = a\<rparr> }"

definition decode_group_projects :: "json \<Rightarrow> (group_project list \<times> nat) option" where
  "decode_group_projects j =
     do { fs \<leftarrow> wire_fields [(''projects'', Required_Field), (''totalCount'', Required_Field)] j;
          ps \<leftarrow> wire_field fs ''projects'' (wire_list decode_group_project);
          n \<leftarrow> wire_field fs ''totalCount'' decode_u64;
          Some (ps, n) }"

definition decode_group_reference :: "json \<Rightarrow> group_reference option" where
  "decode_group_reference j =
     do { fs \<leftarrow> wire_fields [(''id'', Required_Field), (''name'', Required_Field), (''slug'', Required_Field),
            (''orgId'', Default_Field)] j;
          i \<leftarrow> wire_field fs ''id'' as_str;
          n \<leftarrow> wire_field fs ''name'' as_str;
          s \<leftarrow> wire_field fs ''slug'' as_str;
          org \<leftarrow> wire_option fs ''orgId'' as_str;
          Some \<lparr>gf_id = i, gf_name = n, gf_slug = s, gf_org_id = org\<rparr> }"

definition decode_group_membership :: "json \<Rightarrow> group_membership option" where
  "decode_group_membership j =
     do { fs \<leftarrow> wire_fields [(''id'', Required_Field), (''groupId'', Required_Field),
            (''projectId'', Required_Field), (''group'', Required_Field), (''roles'', Required_Field),
            (''createdAt'', Required_Field), (''updatedAt'', Required_Field)] j;
          i \<leftarrow> wire_field fs ''id'' as_str;
          g \<leftarrow> wire_field fs ''groupId'' as_str;
          p \<leftarrow> wire_field fs ''projectId'' as_str;
          r \<leftarrow> wire_field fs ''group'' decode_group_reference;
          rs \<leftarrow> wire_field fs ''roles'' (wire_list decode_membership_role);
          c \<leftarrow> wire_field fs ''createdAt'' as_str;
          u \<leftarrow> wire_field fs ''updatedAt'' as_str;
          Some \<lparr>gm_id = i, gm_group_id = g, gm_project_id = p, gm_group = r, gm_roles = rs,
                gm_created_at = c, gm_updated_at = u\<rparr> }"

definition decode_group_memberships :: "json \<Rightarrow> group_membership list option" where
  "decode_group_memberships j =
     do { fs \<leftarrow> wire_fields [(''groupMemberships'', Required_Field)] j;
          wire_field fs ''groupMemberships'' (wire_list decode_group_membership) }"

definition decode_group_membership_response :: "json \<Rightarrow> group_membership option" where
  "decode_group_membership_response j =
     do { fs \<leftarrow> wire_fields [(''groupMembership'', Required_Field)] j;
          wire_field fs ''groupMembership'' decode_group_membership }"

section \<open>Requests\<close>

definition group_members_query :: "page_request \<Rightarrow> member_type_filter \<Rightarrow> (string \<times> string) list" where
  "group_members_query page t =
     [(''offset'', show_nat (unat (req_offset page))), (''limit'', show_nat (unat (request_limit page)))]
     @ query_option ''memberTypeFilter'' (upstream_member_type t)"

definition group_projects_query :: "page_request \<Rightarrow> group_project_filter \<Rightarrow> (string \<times> string) list" where
  "group_projects_query page f =
     [(''offset'', show_nat (unat (req_offset page))), (''limit'', show_nat (unat (request_limit page)))]
     @ query_option ''filter'' (upstream_project_filter f)
     @ [(''orderBy'', ''name''), (''orderDirection'', ''asc'')]"

definition groups_endpoint :: endpoint where
  "groups_endpoint = endpoint_from_static V1 ''groups''"
definition group_endpoint :: "string \<Rightarrow> endpoint" where
  "group_endpoint group_id = endpoint_from_segments V1 [''groups'', group_id]"
definition group_members_endpoint :: "string \<Rightarrow> endpoint" where
  "group_members_endpoint group_id = endpoint_from_segments V1 [''groups'', group_id, ''members'']"
definition group_projects_endpoint :: "string \<Rightarrow> endpoint" where
  "group_projects_endpoint group_id = endpoint_from_segments V1 [''groups'', group_id, ''projects'']"
definition group_memberships_endpoint :: "string \<Rightarrow> endpoint" where
  "group_memberships_endpoint project_id =
     endpoint_from_segments V1 [''projects'', project_id, ''memberships'', ''groups'']"
definition group_membership_endpoint :: "string \<Rightarrow> string \<Rightarrow> endpoint" where
  "group_membership_endpoint project_id group_id =
     endpoint_from_segments V1 [''projects'', project_id, ''memberships'', ''groups'', group_id]"

section \<open>Operations\<close>

definition validate_membership_scope ::
    "string \<Rightarrow> string option \<Rightarrow> group_membership \<Rightarrow> (resource_error, unit) result" where
  "validate_membership_scope project_id group_id m =
     (if gm_project_id m \<noteq> project_id \<or> gm_group_id m \<noteq> gf_id (gm_group m)
         \<or> (case group_id of None \<Rightarrow> False | Some g \<Rightarrow> gm_group_id m \<noteq> g)
      then resource ''InvalidGroupMembershipScope'' else Ok ())"

definition list_groups ::
    "api \<Rightarrow> page_request \<Rightarrow> world \<Rightarrow> (resource_error, org_group page) result \<times> world" where
  "list_groups ap page w =
     apfst (\<lambda>r. and_then r (\<lambda>found. map_err Pagination_Error (paginate page found)))
       (api_read ap groups_endpoint [] decode_groups w)"

definition get_group :: "api \<Rightarrow> string \<Rightarrow> world \<Rightarrow> (resource_error, org_group) result \<times> world" where
  "get_group ap group_id w =
     apfst (\<lambda>r. and_then r (\<lambda>g. if gr_id g \<noteq> group_id then resource ''InvalidGroupResponse'' else Ok g))
       (api_read ap (group_endpoint group_id) [] decode_group w)"

fun mismatched_member :: "group_member \<Rightarrow> bool" where
  "mismatched_member (User_Member i _ u) = (i \<noteq> gu_id u)"
| "mismatched_member (Machine_Identity_Member i _ m) = (i \<noteq> gi_id m)"

definition list_group_members ::
    "api \<Rightarrow> string \<Rightarrow> member_type_filter \<Rightarrow> page_request \<Rightarrow> world
      \<Rightarrow> (resource_error, group_member page) result \<times> world" where
  "list_group_members ap group_id t page w =
     (let page = the (clamped_to 100 page) in
      apfst (\<lambda>r. and_then r (\<lambda>(members, reported).
                 if list_ex (\<lambda>m. \<not> accepts_member t m \<or> mismatched_member m) members
                 then resource ''InvalidGroupResponse''
                 else map_err Pagination_Error (page_new page members (Some (of_nat reported)))))
        (api_read ap (group_members_endpoint group_id) (group_members_query page t) decode_group_members w))"

definition list_group_projects ::
    "api \<Rightarrow> string \<Rightarrow> group_project_filter \<Rightarrow> page_request \<Rightarrow> world
      \<Rightarrow> (resource_error, group_project page) result \<times> world" where
  "list_group_projects ap group_id f page w =
     (let page = the (clamped_to 100 page) in
      apfst (\<lambda>r. and_then r (\<lambda>(projects, reported).
                 if list_ex (\<lambda>p. \<not> accepts_project f p) projects
                 then resource ''InvalidGroupProjectAssignment''
                 else map_err Pagination_Error (page_new page projects (Some (of_nat reported)))))
        (api_read ap (group_projects_endpoint group_id) (group_projects_query page f) decode_group_projects w))"

definition list_project_group_memberships ::
    "api \<Rightarrow> string \<Rightarrow> page_request \<Rightarrow> world \<Rightarrow> (resource_error, group_membership page) result \<times> world" where
  "list_project_group_memberships ap project_id page w =
     apfst (\<lambda>r. and_then r (\<lambda>found.
               and_then (traverse (validate_membership_scope project_id None) found) (\<lambda>_.
                 map_err Pagination_Error (paginate page found))))
       (api_read ap (group_memberships_endpoint project_id) [] decode_group_memberships w)"

definition get_project_group_membership ::
    "api \<Rightarrow> string \<Rightarrow> string \<Rightarrow> world \<Rightarrow> (resource_error, group_membership) result \<times> world" where
  "get_project_group_membership ap project_id group_id w =
     apfst (\<lambda>r. and_then r (\<lambda>m.
               and_then (validate_membership_scope project_id (Some group_id) m) (\<lambda>_. Ok m)))
       (api_read ap (group_membership_endpoint project_id group_id) [] decode_group_membership_response w)"

end
