(* ===== verification/Identities_Api.thy ===== *)
theory Identities_Api
  imports Api_Values Resource_Input
begin

text \<open>
  Machine identities: \<open>infisical-api/src/identities.rs\<close>.
\<close>

section \<open>Data\<close>

datatype organization_role = Admin_Role | Member_Role | No_Access_Role

definition organization_roles :: "(organization_role \<times> string) list" where
  "organization_roles = [(Admin_Role, ''admin''), (Member_Role, ''member''), (No_Access_Role, ''no-access'')]"

fun organization_role_name :: "organization_role \<Rightarrow> string" where
  "organization_role_name Admin_Role = ''admin''"
| "organization_role_name Member_Role = ''member''"
| "organization_role_name No_Access_Role = ''no-access''"

record machine_identity =
  mc_id :: string
  mc_name :: string
  mc_organization_id :: string
  mc_project_id :: "string option"
  mc_has_delete_protection :: bool
  mc_auth_methods :: "string list"
  mc_membership_id :: "string option"
  mc_role :: "string option"
  mc_role_id :: "string option"

record identity_creation =
  ic_name :: string
  ic_organization_id :: string
  ic_role :: organization_role
  ic_has_delete_protection :: bool

datatype identity_change =
    Identity_Name_Change string
  | Identity_Role_Change organization_role
  | Identity_Protection_Change bool

section \<open>Responses\<close>

record direct_identity =
  di_id :: string
  di_name :: string
  di_org_id :: "string option"
  di_project_id :: "string option"
  di_has_delete_protection :: bool
  di_auth_methods :: "string list"

record org_identity_membership =
  oi_id :: string
  oi_role :: string
  oi_role_id :: "string option"
  oi_org_id :: string
  oi_identity :: direct_identity

definition decode_direct_identity :: "json \<Rightarrow> direct_identity option" where
  "decode_direct_identity j =
     do { fs \<leftarrow> wire_fields [(''id'', Required_Field), (''name'', Required_Field), (''orgId'', Default_Field),
            (''projectId'', Default_Field), (''hasDeleteProtection'', Required_Field),
            (''authMethods'', Default_Field)] j;
          i \<leftarrow> wire_field fs ''id'' as_str;
          n \<leftarrow> wire_field fs ''name'' as_str;
          org \<leftarrow> wire_option fs ''orgId'' as_str;
          p \<leftarrow> wire_option fs ''projectId'' as_str;
          d \<leftarrow> wire_field fs ''hasDeleteProtection'' decode_bool;
          am \<leftarrow> wire_default fs ''authMethods'' [] (wire_list as_str);
          Some \<lparr>di_id = i, di_name = n, di_org_id = org, di_project_id = p, di_has_delete_protection = d,
                di_auth_methods = am\<rparr> }"

definition decode_org_identity_membership :: "json \<Rightarrow> org_identity_membership option" where
  "decode_org_identity_membership j =
     do { fs \<leftarrow> wire_fields [(''id'', Required_Field), (''role'', Required_Field), (''roleId'', Default_Field),
            (''orgId'', Required_Field), (''identity'', Required_Field)] j;
          i \<leftarrow> wire_field fs ''id'' as_str;
          r \<leftarrow> wire_field fs ''role'' as_str;
          ri \<leftarrow> wire_option fs ''roleId'' as_str;
          org \<leftarrow> wire_field fs ''orgId'' as_str;
          d \<leftarrow> wire_field fs ''identity'' decode_direct_identity;
          Some \<lparr>oi_id = i, oi_role = r, oi_role_id = ri, oi_org_id = org, oi_identity = d\<rparr> }"

definition identity_of_direct :: "direct_identity \<Rightarrow> (resource_error, machine_identity) result" where
  "identity_of_direct d =
     (case di_org_id d of
        None \<Rightarrow> resource ''MissingMutationResource''
      | Some org \<Rightarrow>
          Ok \<lparr>mc_id = di_id d, mc_name = di_name d, mc_organization_id = org, mc_project_id = di_project_id d,
              mc_has_delete_protection = di_has_delete_protection d, mc_auth_methods = di_auth_methods d,
              mc_membership_id = None, mc_role = None, mc_role_id = None\<rparr>)"

definition identity_of_membership :: "org_identity_membership \<Rightarrow> machine_identity" where
  "identity_of_membership m =
     (let d = oi_identity m in
      \<lparr>mc_id = di_id d, mc_name = di_name d, mc_organization_id = oi_org_id m,
       mc_project_id = di_project_id d, mc_has_delete_protection = di_has_delete_protection d,
       mc_auth_methods = di_auth_methods d, mc_membership_id = Some (oi_id m),
       mc_role = Some (oi_role m), mc_role_id = oi_role_id m\<rparr>)"

definition decode_list_identities :: "json \<Rightarrow> (org_identity_membership list \<times> nat) option" where
  "decode_list_identities j =
     do { fs \<leftarrow> wire_fields [(''identities'', Required_Field), (''totalCount'', Required_Field)] j;
          ms \<leftarrow> wire_field fs ''identities'' (wire_list decode_org_identity_membership);
          n \<leftarrow> wire_field fs ''totalCount'' decode_u64;
          Some (ms, n) }"

definition decode_org_membership_response :: "json \<Rightarrow> org_identity_membership option" where
  "decode_org_membership_response j =
     do { fs \<leftarrow> wire_fields [(''identity'', Required_Field)] j;
          wire_field fs ''identity'' decode_org_identity_membership }"

definition decode_direct_identity_response :: "json \<Rightarrow> direct_identity option" where
  "decode_direct_identity_response j =
     do { fs \<leftarrow> wire_fields [(''identity'', Required_Field)] j;
          wire_field fs ''identity'' decode_direct_identity }"

section \<open>Requests\<close>

definition list_identities_query :: "string \<Rightarrow> (string \<times> string) list" where
  "list_identities_query organization_id = [(''orgId'', organization_id)]"

definition create_identity_request :: "identity_creation \<Rightarrow> json" where
  "create_identity_request c =
     Object [(''name'', String (ic_name c)), (''organizationId'', String (ic_organization_id c)),
             (''role'', String (organization_role_name (ic_role c))),
             (''hasDeleteProtection'', Bool (ic_has_delete_protection c))]"

text \<open>The one field that is set; the others are skipped.\<close>

fun update_identity_request :: "identity_change \<Rightarrow> json" where
  "update_identity_request (Identity_Name_Change v) = Object [(''name'', String v)]"
| "update_identity_request (Identity_Role_Change r) = Object [(''role'', String (organization_role_name r))]"
| "update_identity_request (Identity_Protection_Change b) = Object [(''hasDeleteProtection'', Bool b)]"

definition delete_identity_request :: json where "delete_identity_request = Object []"

definition identities_endpoint :: endpoint where
  "identities_endpoint = endpoint_from_static V1 ''identities''"
definition identity_endpoint :: "string \<Rightarrow> endpoint" where
  "identity_endpoint identity_id = endpoint_from_segments V1 [''identities'', identity_id]"

section \<open>Operations\<close>

text \<open>On a 64-bit target \<open>u64::try_from(usize)\<close> cannot fail.\<close>

definition list_identities ::
    "api \<Rightarrow> string \<Rightarrow> page_request \<Rightarrow> world \<Rightarrow> (resource_error, machine_identity page) result \<times> world" where
  "list_identities ap organization_id page w =
     apfst (\<lambda>r. and_then r (\<lambda>(found, reported).
               let identities = map identity_of_membership found in
               if length identities \<noteq> reported then resource ''CollectionCountMismatch''
               else map_err Pagination_Error (paginate page identities)))
       (api_read ap identities_endpoint (list_identities_query organization_id) decode_list_identities w)"

definition get_identity :: "api \<Rightarrow> string \<Rightarrow> world \<Rightarrow> (resource_error, machine_identity) result \<times> world" where
  "get_identity ap identity_id w =
     apfst (map_sum id identity_of_membership)
       (api_read ap (identity_endpoint identity_id) [] decode_org_membership_response w)"

definition create_identity ::
    "api \<Rightarrow> identity_creation \<Rightarrow> world \<Rightarrow> (resource_error, machine_identity) result \<times> world" where
  "create_identity ap c w =
     apfst (\<lambda>r. and_then r identity_of_direct)
       (api_mutate ap POST identities_endpoint (create_identity_request c) decode_direct_identity_response w)"

definition update_identity ::
    "api \<Rightarrow> string \<Rightarrow> identity_change \<Rightarrow> world \<Rightarrow> (resource_error, machine_identity) result \<times> world" where
  "update_identity ap identity_id change w =
     apfst (\<lambda>r. and_then r identity_of_direct)
       (api_mutate ap PATCH (identity_endpoint identity_id) (update_identity_request change)
          decode_direct_identity_response w)"

definition delete_identity ::
    "api \<Rightarrow> string \<Rightarrow> bool \<Rightarrow> world \<Rightarrow> (resource_error, machine_identity) result \<times> world" where
  "delete_identity ap identity_id confirm w =
     (if \<not> confirm then (resource ''IdentityDeletionNotConfirmed'', w)
      else apfst (\<lambda>r. and_then r identity_of_direct)
             (api_mutate ap DELETE (identity_endpoint identity_id) delete_identity_request
                decode_direct_identity_response w))"

end
