(* ===== verification/Access_Tools.thy ===== *)
theory Access_Tools
  imports Project_Tools Roles_Api Groups_Api Identities_Api
begin

text \<open>
  The tools for roles, groups, project memberships and machine identities in
  \<open>infisical-mcp/src/tools.rs\<close>: arguments, outputs and dispatch functions.
\<close>

section \<open>Roles\<close>

definition invalid_role_input :: "role_input_error \<Rightarrow> mcp_error" where
  "invalid_role_input e = invalid_params (role_input_error_text e) None"

definition decode_project_role_target :: "(string \<times> json) list \<Rightarrow> (string \<times> string) option" where
  "decode_project_role_target m =
     do { fs \<leftarrow> strict_fields [(''projectId'', Required_Field), (''roleSlug'', Required_Field)] (Object m);
          p \<leftarrow> wire_field fs ''projectId'' as_str;
          s \<leftarrow> wire_field fs ''roleSlug'' as_str;
          Some (p, s) }"

definition project_role_target_parts :: "string \<times> string \<Rightarrow> (mcp_error, string \<times> string) result" where
  "project_role_target_parts i =
     and_then (map_err invalid_input (new_project_id (fst i))) (\<lambda>p.
     and_then (map_err invalid_role_input (new_role_slug (snd i))) (\<lambda>s. Ok (p, s)))"

text \<open>The page inputs of organization roles and groups: an offset and a limit.\<close>

definition decode_page_input :: "(string \<times> json) list \<Rightarrow> (nat \<times> nat) option" where
  "decode_page_input m =
     do { fs \<leftarrow> strict_fields [(''offset'', Default_Field), (''limit'', Default_Field)] (Object m);
          off \<leftarrow> decode_offset fs;
          l \<leftarrow> decode_limit fs;
          Some (off, l) }"

definition page_input_request :: "nat \<times> nat \<Rightarrow> (mcp_error, page_request) result" where
  "page_input_request i = page_request_of (fst i) (snd i)"

definition decode_organization_role_target :: "(string \<times> json) list \<Rightarrow> string option" where
  "decode_organization_role_target m =
     do { fs \<leftarrow> strict_fields [(''roleSlug'', Required_Field)] (Object m); wire_field fs ''roleSlug'' as_str }"

definition role_permission_json :: "role_permission \<Rightarrow> json" where
  "role_permission_json p = object_of (role_permission_fields p)"

fun role_scope_name :: "role_scope \<Rightarrow> string" where
  "role_scope_name Organization_Scope = ''organization''"
| "role_scope_name Project_Scope = ''project''"

definition role_summary_fields :: "role_summary \<Rightarrow> (string \<times> json) list" where
  "role_summary_fields r =
     [(''name'', String (rl_name r)), (''slug'', String (rl_slug r))]
     @ optional_field ''description'' (map_option String (rl_description r))
     @ [(''scope'', String (role_scope_name (rl_scope r))), (''scopeId'', String (rl_scope_id r)),
        (''builtIn'', Bool (rl_built_in r))]"

definition role_summary_json :: "role_summary \<Rightarrow> json" where
  "role_summary_json r = object_of (role_summary_fields r)"

definition role_json :: "role \<Rightarrow> json" where
  "role_json r =
     object_of (role_summary_fields (ro_summary r)
       @ [(''permissions'', Array (map role_permission_json (ro_permissions r)))])"

definition dispatch_role_workflow :: "tool_env \<Rightarrow> call_params \<Rightarrow> tool_state \<Rightarrow> tool_outcome" where
  "dispatch_role_workflow E params =
     (let name = cp_name params in
      if name = PROJECT_ROLES_LIST_TOOL then
        with_input E ''ProjectPageInput'' decode_project_page
          ''projectRoles.list arguments do not match the declared schema'' params (\<lambda>i.
          with_parts (project_page_parts i) (\<lambda>(project_id, page).
            upstream_call E (tool_result E (page_json role_summary_json))
              (\<lambda>ap. list_project_roles ap project_id page)))
      else if name = PROJECT_ROLES_GET_TOOL then
        with_input E ''ProjectRoleTargetInput'' decode_project_role_target
          ''projectRoles.get arguments do not match the declared schema'' params (\<lambda>i.
          with_parts (project_role_target_parts i) (\<lambda>(project_id, slug).
            upstream_call E (tool_result E role_json) (\<lambda>ap. get_project_role ap project_id slug)))
      else if name = ORGANIZATION_ROLES_LIST_TOOL then
        with_input E ''OrganizationRolesListInput'' decode_page_input
          ''organizationRoles.list arguments do not match the declared schema'' params (\<lambda>i.
          with_parts (page_input_request i) (\<lambda>page.
            upstream_call E (tool_result E (page_json role_summary_json))
              (\<lambda>ap. list_organization_roles ap page)))
      else if name = ORGANIZATION_ROLES_GET_TOOL then
        with_input E ''OrganizationRoleTargetInput'' decode_organization_role_target
          ''organizationRoles.get arguments do not match the declared schema'' params (\<lambda>i.
          with_parts (map_err invalid_role_input (new_role_slug i)) (\<lambda>slug.
            upstream_call E (tool_result E role_json) (\<lambda>ap. get_organization_role ap slug)))
      else (\<lambda>s. Some (Err method_not_found, s)))"

section \<open>Groups\<close>

definition decode_group_target :: "(string \<times> json) list \<Rightarrow> string option" where
  "decode_group_target m =
     do { fs \<leftarrow> strict_fields [(''groupId'', Required_Field)] (Object m); wire_field fs ''groupId'' as_str }"

definition group_target_id :: "string \<Rightarrow> (mcp_error, string) result" where
  "group_target_id i = map_err invalid_input (new_group_id i)"

definition member_type_filters :: "(member_type_filter \<times> string) list" where
  "member_type_filters =
     [(All_Members, ''all''), (Users_Only, ''users''), (Machine_Identities_Only, ''machineIdentities'')]"
definition group_project_filters :: "(group_project_filter \<times> string) list" where
  "group_project_filters =
     [(All_Projects, ''all''), (Assigned_Projects, ''assigned''), (Unassigned_Projects, ''unassigned'')]"

definition default_group_member_type :: member_type_filter where "default_group_member_type = All_Members"
definition default_group_project_filter :: group_project_filter where
  "default_group_project_filter = All_Projects"

definition decode_group_members_list ::
    "(string \<times> json) list \<Rightarrow> (string \<times> member_type_filter \<times> nat \<times> nat) option" where
  "decode_group_members_list m =
     do { fs \<leftarrow> strict_fields [(''groupId'', Required_Field), (''memberType'', Default_Field),
            (''offset'', Default_Field), (''limit'', Default_Field)] (Object m);
          g \<leftarrow> wire_field fs ''groupId'' as_str;
          t \<leftarrow> wire_default fs ''memberType'' default_group_member_type
                 (decode_variant (variant_named member_type_filters));
          off \<leftarrow> decode_offset fs;
          l \<leftarrow> decode_limit fs;
          Some (g, t, off, l) }"

definition decode_group_projects_list ::
    "(string \<times> json) list \<Rightarrow> (string \<times> group_project_filter \<times> nat \<times> nat) option" where
  "decode_group_projects_list m =
     do { fs \<leftarrow> strict_fields [(''groupId'', Required_Field), (''assignment'', Default_Field),
            (''offset'', Default_Field), (''limit'', Default_Field)] (Object m);
          g \<leftarrow> wire_field fs ''groupId'' as_str;
          f \<leftarrow> wire_default fs ''assignment'' default_group_project_filter
                 (decode_variant (variant_named group_project_filters));
          off \<leftarrow> decode_offset fs;
          l \<leftarrow> decode_limit fs;
          Some (g, f, off, l) }"

text \<open>\<open>into_parts\<close> of the two listings, which differ in their filter.\<close>

definition group_listing_parts ::
    "string \<times> 'f \<times> nat \<times> nat \<Rightarrow> (mcp_error, string \<times> 'f \<times> page_request) result" where
  "group_listing_parts i =
     (case i of (g, f, off, l) \<Rightarrow>
        and_then (map_err invalid_input (new_group_id g)) (\<lambda>g.
        and_then (page_request_of off l) (\<lambda>page. Ok (g, f, page))))"

definition decode_group_membership_target :: "(string \<times> json) list \<Rightarrow> (string \<times> string) option" where
  "decode_group_membership_target m =
     do { fs \<leftarrow> strict_fields [(''projectId'', Required_Field), (''groupId'', Required_Field)] (Object m);
          p \<leftarrow> wire_field fs ''projectId'' as_str;
          g \<leftarrow> wire_field fs ''groupId'' as_str;
          Some (p, g) }"

definition group_membership_target_parts :: "string \<times> string \<Rightarrow> (mcp_error, string \<times> string) result" where
  "group_membership_target_parts i =
     and_then (map_err invalid_input (new_project_id (fst i))) (\<lambda>p.
     and_then (map_err invalid_input (new_group_id (snd i))) (\<lambda>g. Ok (p, g)))"

definition group_json :: "org_group \<Rightarrow> json" where
  "group_json g =
     object_of
       ([(''id'', String (gr_id g)), (''orgId'', String (gr_org_id g)), (''name'', String (gr_name g)),
         (''slug'', String (gr_slug g)), (''role'', String (gr_role g))]
        @ optional_field ''roleId'' (map_option String (gr_role_id g))
        @ optional_field ''customRoleSlug'' (map_option String (gr_custom_role_slug g))
        @ [(''createdAt'', String (gr_created_at g)), (''updatedAt'', String (gr_updated_at g))])"

definition group_user_json :: "group_user \<Rightarrow> json" where
  "group_user_json u =
     object_of
       ([(''id'', String (gu_id u))]
        @ optional_field ''firstName'' (map_option String (gu_first_name u))
        @ optional_field ''lastName'' (map_option String (gu_last_name u))
        @ optional_field ''email'' (map_option String (gu_email u))
        @ [(''username'', String (gu_username u))])"

definition group_identity_json :: "group_identity \<Rightarrow> json" where
  "group_identity_json i = object_of [(''id'', String (gi_id i)), (''name'', String (gi_name i))]"

fun group_member_json :: "group_member \<Rightarrow> json" where
  "group_member_json (User_Member i joined u) =
     object_of
       ([(''type'', String ''user''), (''id'', String i)]
        @ optional_field ''joinedGroupAt'' (map_option String joined)
        @ [(''user'', group_user_json u)])"
| "group_member_json (Machine_Identity_Member i joined m) =
     object_of
       ([(''type'', String ''machineIdentity''), (''id'', String i)]
        @ optional_field ''joinedGroupAt'' (map_option String joined)
        @ [(''machineIdentity'', group_identity_json m)])"

definition group_project_json :: "group_project \<Rightarrow> json" where
  "group_project_json p =
     object_of
       ([(''id'', String (gp_id p)), (''name'', String (gp_name p)), (''slug'', String (gp_slug p))]
        @ optional_field ''description'' (map_option String (gp_description p))
        @ [(''type'', String (gp_project_type p)),
           (''joinedGroupAt'', option_json String (gp_joined_group_at p))])"

definition group_reference_json :: "group_reference \<Rightarrow> json" where
  "group_reference_json g =
     object_of
       ([(''id'', String (gf_id g)), (''name'', String (gf_name g)), (''slug'', String (gf_slug g))]
        @ optional_field ''orgId'' (map_option String (gf_org_id g)))"

definition membership_role_json :: "membership_role \<Rightarrow> json" where
  "membership_role_json r =
     object_of
       ([(''id'', String (mr_id r)), (''role'', String (mr_role r))]
        @ optional_field ''customRoleId'' (map_option String (mr_custom_role_id r))
        @ optional_field ''customRoleName'' (map_option String (mr_custom_role_name r))
        @ optional_field ''customRoleSlug'' (map_option String (mr_custom_role_slug r))
        @ [(''isTemporary'', Bool (mr_is_temporary r))]
        @ optional_field ''temporaryMode'' (map_option String (mr_temporary_mode r))
        @ optional_field ''temporaryRange'' (map_option String (mr_temporary_range r))
        @ optional_field ''temporaryAccessStartTime'' (map_option String (mr_access_start r))
        @ optional_field ''temporaryAccessEndTime'' (map_option String (mr_access_end r))
        @ optional_field ''projectMembershipId'' (map_option String (mr_project_membership_id r)))"

definition group_membership_json :: "group_membership \<Rightarrow> json" where
  "group_membership_json m =
     object_of
       [(''id'', String (gm_id m)), (''groupId'', String (gm_group_id m)),
        (''projectId'', String (gm_project_id m)), (''group'', group_reference_json (gm_group m)),
        (''roles'', Array (map membership_role_json (gm_roles m))),
        (''createdAt'', String (gm_created_at m)), (''updatedAt'', String (gm_updated_at m))]"

definition dispatch_group_workflow :: "tool_env \<Rightarrow> call_params \<Rightarrow> tool_state \<Rightarrow> tool_outcome" where
  "dispatch_group_workflow E params =
     (let name = cp_name params in
      if name = GROUPS_LIST_TOOL then
        with_input E ''GroupsListInput'' decode_page_input
          ''groups.list arguments do not match the declared schema'' params (\<lambda>i.
          with_parts (page_input_request i) (\<lambda>page.
            upstream_call E (tool_result E (page_json group_json)) (\<lambda>ap. list_groups ap page)))
      else if name = GROUPS_GET_TOOL then
        with_input E ''GroupTargetInput'' decode_group_target
          ''groups.get arguments do not match the declared schema'' params (\<lambda>i.
          with_parts (group_target_id i) (\<lambda>group_id.
            upstream_call E (tool_result E group_json) (\<lambda>ap. get_group ap group_id)))
      else if name = GROUP_MEMBERS_LIST_TOOL then
        with_input E ''GroupMembersListInput'' decode_group_members_list
          ''groups.members.list arguments do not match the declared schema'' params (\<lambda>i.
          with_parts (group_listing_parts i) (\<lambda>(group_id, t, page).
            upstream_call E (tool_result E (page_json group_member_json))
              (\<lambda>ap. list_group_members ap group_id t page)))
      else if name = GROUP_PROJECTS_LIST_TOOL then
        with_input E ''GroupProjectsListInput'' decode_group_projects_list
          ''groups.projects.list arguments do not match the declared schema'' params (\<lambda>i.
          with_parts (group_listing_parts i) (\<lambda>(group_id, f, page).
            upstream_call E (tool_result E (page_json group_project_json))
              (\<lambda>ap. list_group_projects ap group_id f page)))
      else if name = PROJECT_GROUP_MEMBERSHIPS_LIST_TOOL then
        with_input E ''ProjectPageInput'' decode_project_page
          ''projectGroupMemberships.list arguments do not match the declared schema'' params (\<lambda>i.
          with_parts (project_page_parts i) (\<lambda>(project_id, page).
            upstream_call E (tool_result E (page_json group_membership_json))
              (\<lambda>ap. list_project_group_memberships ap project_id page)))
      else if name = PROJECT_GROUP_MEMBERSHIPS_GET_TOOL then
        with_input E ''ProjectGroupMembershipTargetInput'' decode_group_membership_target
          ''projectGroupMemberships.get arguments do not match the declared schema'' params (\<lambda>i.
          with_parts (group_membership_target_parts i) (\<lambda>(project_id, group_id).
            upstream_call E (tool_result E group_membership_json)
              (\<lambda>ap. get_project_group_membership ap project_id group_id)))
      else (\<lambda>s. Some (Err method_not_found, s)))"

section \<open>Project memberships\<close>

definition invalid_membership_input :: "membership_input_error \<Rightarrow> mcp_error" where
  "invalid_membership_input e = invalid_params (membership_input_error_text e) None"

definition decode_membership_page :: "(string \<times> json) list \<Rightarrow> project_page_input option" where
  "decode_membership_page m =
     do { fs \<leftarrow> strict_fields [(''projectId'', Required_Field), (''offset'', Default_Field),
            (''limit'', Default_Field)] (Object m);
          p \<leftarrow> wire_field fs ''projectId'' as_str;
          off \<leftarrow> decode_offset fs;
          l \<leftarrow> decode_limit fs;
          Some \<lparr>pp_project_id = p, pp_offset = off, pp_limit = l\<rparr> }"

definition membership_page_parts :: "project_page_input \<Rightarrow> (mcp_error, string \<times> page_request) result" where
  "membership_page_parts i =
     and_then (map_err invalid_input (new_project_id (pp_project_id i))) (\<lambda>project_id.
     and_then (page_request_of (pp_offset i) (pp_limit i)) (\<lambda>page. Ok (project_id, page)))"

definition decode_user_membership_target :: "(string \<times> json) list \<Rightarrow> (string \<times> string) option" where
  "decode_user_membership_target m =
     do { fs \<leftarrow> strict_fields [(''projectId'', Required_Field), (''membershipId'', Required_Field)] (Object m);
          p \<leftarrow> wire_field fs ''projectId'' as_str;
          i \<leftarrow> wire_field fs ''membershipId'' as_str;
          Some (p, i) }"

definition user_membership_target_parts :: "string \<times> string \<Rightarrow> (mcp_error, string \<times> string) result" where
  "user_membership_target_parts i =
     and_then (map_err invalid_input (new_project_id (fst i))) (\<lambda>p.
     and_then (map_err invalid_input (new_project_membership_id (snd i))) (\<lambda>m. Ok (p, m)))"

definition project_membership_roles :: "string list \<Rightarrow> (mcp_error, string list) result" where
  "project_membership_roles roles =
     and_then (map_err invalid_membership_input (traverse new_project_role_slug roles)) (\<lambda>slugs.
       map_err invalid_membership_input (new_membership_roles slugs))"

record user_invite_input =
  ui_project_id :: string
  ui_emails :: "string list"
  ui_usernames :: "string list"
  ui_roles :: "string list"

definition decode_user_invite :: "(string \<times> json) list \<Rightarrow> user_invite_input option" where
  "decode_user_invite m =
     do { fs \<leftarrow> strict_fields [(''projectId'', Required_Field), (''emails'', Default_Field),
            (''usernames'', Default_Field), (''roles'', Required_Field)] (Object m);
          p \<leftarrow> wire_field fs ''projectId'' as_str;
          es \<leftarrow> wire_default fs ''emails'' [] (wire_list as_str);
          us \<leftarrow> wire_default fs ''usernames'' [] (wire_list as_str);
          rs \<leftarrow> wire_field fs ''roles'' (wire_list as_str);
          Some \<lparr>ui_project_id = p, ui_emails = es, ui_usernames = us, ui_roles = rs\<rparr> }"

definition user_invite_parts :: "user_invite_input \<Rightarrow> (mcp_error, string \<times> user_invitation) result" where
  "user_invite_parts i =
     and_then (map_err invalid_input (new_project_id (ui_project_id i))) (\<lambda>p.
     and_then (project_membership_roles (ui_roles i)) (\<lambda>roles.
     and_then (map_err invalid_membership_input (new_user_invitation (ui_emails i) (ui_usernames i) roles))
       (\<lambda>invitation. Ok (p, invitation))))"

record user_membership_update_input =
  uu_project_id :: string
  uu_membership_id :: string
  uu_roles :: "string list"
  uu_confirm :: bool

definition decode_user_membership_update :: "(string \<times> json) list \<Rightarrow> user_membership_update_input option" where
  "decode_user_membership_update m =
     do { fs \<leftarrow> strict_fields [(''projectId'', Required_Field), (''membershipId'', Required_Field),
            (''roles'', Required_Field), (''confirmReplaceAllRoles'', Required_Field)] (Object m);
          p \<leftarrow> wire_field fs ''projectId'' as_str;
          i \<leftarrow> wire_field fs ''membershipId'' as_str;
          rs \<leftarrow> wire_field fs ''roles'' (wire_list as_str);
          c \<leftarrow> wire_field fs ''confirmReplaceAllRoles'' decode_bool;
          Some \<lparr>uu_project_id = p, uu_membership_id = i, uu_roles = rs, uu_confirm = c\<rparr> }"

definition user_membership_update_parts ::
    "user_membership_update_input \<Rightarrow> (mcp_error, string \<times> string \<times> string list \<times> bool) result" where
  "user_membership_update_parts i =
     and_then (map_err invalid_input (new_project_id (uu_project_id i))) (\<lambda>p.
     and_then (map_err invalid_input (new_project_membership_id (uu_membership_id i))) (\<lambda>m.
     and_then (project_membership_roles (uu_roles i)) (\<lambda>roles. Ok (p, m, roles, uu_confirm i))))"

text \<open>The check the handler makes after \<open>into_parts\<close>, for users and identities.\<close>

definition replacement_confirmed :: "bool \<Rightarrow> 'a \<Rightarrow> (mcp_error, 'a) result" where
  "replacement_confirmed confirmed x =
     (if \<not> confirmed
      then Err (invalid_params
             ''confirmReplaceAllRoles must be true because omitted temporary roles are removed'' None)
      else Ok x)"

definition decode_user_membership_delete :: "(string \<times> json) list \<Rightarrow> ((string \<times> string) \<times> bool) option" where
  "decode_user_membership_delete m =
     do { fs \<leftarrow> strict_fields [(''projectId'', Required_Field), (''membershipId'', Required_Field),
            (''confirm'', Required_Field)] (Object m);
          p \<leftarrow> wire_field fs ''projectId'' as_str;
          i \<leftarrow> wire_field fs ''membershipId'' as_str;
          c \<leftarrow> wire_field fs ''confirm'' decode_bool;
          Some ((p, i), c) }"

definition membership_receipt_json :: "membership_receipt \<Rightarrow> json" where
  "membership_receipt_json r =
     object_of [(''membershipId'', String (mrc_membership_id r)), (''projectId'', String (mrc_project_id r)),
                (''principalId'', String (mrc_principal_id r))]"

definition receipt_batch_json :: "membership_receipt list \<Rightarrow> json" where
  "receipt_batch_json rs = object_of [(''memberships'', Array (map membership_receipt_json rs))]"

definition role_set_json :: "membership_role list \<Rightarrow> json" where
  "role_set_json rs = object_of [(''roles'', Array (map membership_role_json rs))]"

definition member_user_json :: "member_user \<Rightarrow> json" where
  "member_user_json u =
     object_of
       ([(''id'', String (usr_id u)), (''username'', String (usr_username u))]
        @ optional_field ''email'' (map_option String (usr_email u))
        @ optional_field ''firstName'' (map_option String (usr_first_name u))
        @ optional_field ''lastName'' (map_option String (usr_last_name u))
        @ optional_field ''authMethods'' (map_option (\<lambda>ms. Array (map String ms)) (usr_auth_methods u))
        @ optional_field ''isEmailVerified'' (map_option Bool (usr_is_email_verified u)))"

definition user_membership_json :: "user_membership \<Rightarrow> json" where
  "user_membership_json m =
     object_of
       [(''id'', String (um_id m)), (''projectId'', String (um_project_id m)),
        (''userId'', String (um_user_id m)), (''createdAt'', String (um_created_at m)),
        (''user'', member_user_json (um_user m)), (''roles'', Array (map membership_role_json (um_roles m)))]"

definition dispatch_project_user_membership_workflow ::
    "tool_env \<Rightarrow> call_params \<Rightarrow> tool_state \<Rightarrow> tool_outcome" where
  "dispatch_project_user_membership_workflow E params =
     (let name = cp_name params in
      if name = PROJECT_USER_MEMBERSHIPS_LIST_TOOL then
        with_input E ''ProjectMembershipPageInput'' decode_membership_page
          ''projectUserMemberships.list arguments do not match the declared schema'' params (\<lambda>i.
          with_parts (membership_page_parts i) (\<lambda>(project_id, page).
            upstream_call E (tool_result E (page_json user_membership_json))
              (\<lambda>ap. list_project_user_memberships ap project_id page)))
      else if name = PROJECT_USER_MEMBERSHIPS_GET_TOOL then
        with_input E ''ProjectUserMembershipTargetInput'' decode_user_membership_target
          ''projectUserMemberships.get arguments do not match the declared schema'' params (\<lambda>i.
          with_parts (user_membership_target_parts i) (\<lambda>(project_id, membership_id).
            upstream_call E (tool_result E user_membership_json)
              (\<lambda>ap. get_project_user_membership ap project_id membership_id)))
      else if name = PROJECT_USER_MEMBERSHIPS_INVITE_TOOL then
        with_input E ''ProjectUserMembershipInviteInput'' decode_user_invite
          ''projectUserMemberships.invite arguments do not match the declared schema'' params (\<lambda>i.
          with_parts (user_invite_parts i) (\<lambda>(project_id, invitation).
            upstream_call E (tool_result E receipt_batch_json)
              (\<lambda>ap. invite_project_users ap project_id invitation)))
      else if name = PROJECT_USER_MEMBERSHIPS_UPDATE_TOOL then
        with_input E ''ProjectUserMembershipUpdateInput'' decode_user_membership_update
          ''projectUserMemberships.update arguments do not match the declared schema'' params (\<lambda>i.
          with_parts (user_membership_update_parts i) (\<lambda>(project_id, membership_id, roles, confirmed).
            with_parts (replacement_confirmed confirmed roles) (\<lambda>roles.
              upstream_call E (tool_result E role_set_json)
                (\<lambda>ap. update_project_user_membership ap project_id membership_id roles True))))
      else if name = PROJECT_USER_MEMBERSHIPS_DELETE_TOOL then
        with_input E ''ProjectUserMembershipDeleteInput'' decode_user_membership_delete
          ''projectUserMemberships.delete arguments do not match the declared schema'' params (\<lambda>i.
          with_parts (user_membership_target_parts (fst i)) (\<lambda>(project_id, membership_id).
            if \<not> snd i
            then (\<lambda>s. Some (Err (invalid_params
                   ''confirm must be true to remove the exact human-user project membership'' None), s))
            else upstream_call E (tool_result E membership_receipt_json)
                   (\<lambda>ap. delete_project_user_membership ap project_id membership_id True)))
      else (\<lambda>s. Some (Err method_not_found, s)))"

definition decode_identity_membership_target :: "(string \<times> json) list \<Rightarrow> (string \<times> string) option" where
  "decode_identity_membership_target m =
     do { fs \<leftarrow> strict_fields [(''projectId'', Required_Field), (''identityId'', Required_Field)] (Object m);
          p \<leftarrow> wire_field fs ''projectId'' as_str;
          i \<leftarrow> wire_field fs ''identityId'' as_str;
          Some (p, i) }"

definition identity_membership_target_parts :: "string \<times> string \<Rightarrow> (mcp_error, string \<times> string) result" where
  "identity_membership_target_parts i =
     and_then (map_err invalid_input (new_project_id (fst i))) (\<lambda>p.
     and_then (map_err invalid_input (new_identity_id (snd i))) (\<lambda>m. Ok (p, m)))"

definition identity_role_fields :: "(string \<times> presence) list" where
  "identity_role_fields =
     [(''projectId'', Required_Field), (''identityId'', Required_Field), (''roles'', Required_Field)]"

definition identity_role_values :: "(string \<rightharpoonup> json) \<Rightarrow> (string \<times> string \<times> string list) option" where
  "identity_role_values fs =
     do { p \<leftarrow> wire_field fs ''projectId'' as_str;
          i \<leftarrow> wire_field fs ''identityId'' as_str;
          rs \<leftarrow> wire_field fs ''roles'' (wire_list as_str);
          Some (p, i, rs) }"

definition decode_identity_membership_role ::
    "(string \<times> json) list \<Rightarrow> (string \<times> string \<times> string list) option" where
  "decode_identity_membership_role m =
     do { fs \<leftarrow> strict_fields identity_role_fields (Object m); identity_role_values fs }"

definition identity_membership_role_parts ::
    "string \<times> string \<times> string list \<Rightarrow> (mcp_error, string \<times> string \<times> string list) result" where
  "identity_membership_role_parts i =
     (case i of (p, ident, roles) \<Rightarrow>
        and_then (map_err invalid_input (new_project_id p)) (\<lambda>p.
        and_then (map_err invalid_input (new_identity_id ident)) (\<lambda>ident.
        and_then (project_membership_roles roles) (\<lambda>roles. Ok (p, ident, roles)))))"

text \<open>
  The flattened target takes its own fields out of the object; what neither struct knows is refused.
\<close>

definition decode_identity_membership_update ::
    "(string \<times> json) list \<Rightarrow> ((string \<times> string \<times> string list) \<times> bool) option" where
  "decode_identity_membership_update m =
     do { fs \<leftarrow> strict_fields (identity_role_fields @ [(''confirmReplaceAllRoles'', Required_Field)]) (Object m);
          t \<leftarrow> identity_role_values fs;
          c \<leftarrow> wire_field fs ''confirmReplaceAllRoles'' decode_bool;
          Some (t, c) }"

definition decode_identity_membership_delete :: "(string \<times> json) list \<Rightarrow> ((string \<times> string) \<times> bool) option" where
  "decode_identity_membership_delete m =
     do { fs \<leftarrow> strict_fields [(''projectId'', Required_Field), (''identityId'', Required_Field),
            (''confirm'', Required_Field)] (Object m);
          p \<leftarrow> wire_field fs ''projectId'' as_str;
          i \<leftarrow> wire_field fs ''identityId'' as_str;
          c \<leftarrow> wire_field fs ''confirm'' decode_bool;
          Some ((p, i), c) }"

definition member_identity_json :: "member_identity \<Rightarrow> json" where
  "member_identity_json i =
     object_of
       ([(''id'', String (mi_id i)), (''name'', String (mi_name i)), (''orgId'', String (mi_org_id i))]
        @ optional_field ''projectId'' (map_option String (mi_project_id i))
        @ [(''authMethods'', Array (map String (mi_auth_methods i)))])"

definition identity_membership_json :: "identity_membership \<Rightarrow> json" where
  "identity_membership_json m =
     object_of
       [(''id'', String (im_id m)), (''projectId'', String (im_project_id m)),
        (''identityId'', String (im_identity_id m)), (''createdAt'', String (im_created_at m)),
        (''updatedAt'', String (im_updated_at m)), (''roles'', Array (map membership_role_json (im_roles m))),
        (''identity'', member_identity_json (im_identity m))]"

definition dispatch_project_identity_membership_workflow ::
    "tool_env \<Rightarrow> call_params \<Rightarrow> tool_state \<Rightarrow> tool_outcome" where
  "dispatch_project_identity_membership_workflow E params =
     (let name = cp_name params in
      if name = PROJECT_IDENTITY_MEMBERSHIPS_LIST_TOOL then
        with_input E ''ProjectMembershipPageInput'' decode_membership_page
          ''projectIdentityMemberships.list arguments do not match the declared schema'' params (\<lambda>i.
          with_parts (membership_page_parts i) (\<lambda>(project_id, page).
            upstream_call E (tool_result E (page_json identity_membership_json))
              (\<lambda>ap. list_project_identity_memberships ap project_id page)))
      else if name = PROJECT_IDENTITY_MEMBERSHIPS_GET_TOOL then
        with_input E ''ProjectIdentityMembershipTargetInput'' decode_identity_membership_target
          ''projectIdentityMemberships.get arguments do not match the declared schema'' params (\<lambda>i.
          with_parts (identity_membership_target_parts i) (\<lambda>(project_id, identity_id).
            upstream_call E (tool_result E identity_membership_json)
              (\<lambda>ap. get_project_identity_membership ap project_id identity_id)))
      else if name = PROJECT_IDENTITY_MEMBERSHIPS_CREATE_TOOL then
        with_input E ''ProjectIdentityMembershipRoleInput'' decode_identity_membership_role
          ''projectIdentityMemberships.create arguments do not match the declared schema'' params (\<lambda>i.
          with_parts (identity_membership_role_parts i) (\<lambda>(project_id, identity_id, roles).
            upstream_call E (tool_result E membership_receipt_json)
              (\<lambda>ap. create_project_identity_membership ap project_id identity_id roles)))
      else if name = PROJECT_IDENTITY_MEMBERSHIPS_UPDATE_TOOL then
        with_input E ''ProjectIdentityMembershipUpdateInput'' decode_identity_membership_update
          ''projectIdentityMemberships.update arguments do not match the declared schema'' params (\<lambda>i.
          with_parts (identity_membership_role_parts (fst i)) (\<lambda>(project_id, identity_id, roles).
            with_parts (replacement_confirmed (snd i) roles) (\<lambda>roles.
              upstream_call E (tool_result E membership_receipt_json)
                (\<lambda>ap. update_project_identity_membership ap project_id identity_id roles True))))
      else if name = PROJECT_IDENTITY_MEMBERSHIPS_DELETE_TOOL then
        with_input E ''ProjectIdentityMembershipDeleteInput'' decode_identity_membership_delete
          ''projectIdentityMemberships.delete arguments do not match the declared schema'' params (\<lambda>i.
          with_parts (identity_membership_target_parts (fst i)) (\<lambda>(project_id, identity_id).
            if \<not> snd i
            then (\<lambda>s. Some (Err (invalid_params
                   ''confirm must be true to remove the exact machine-identity project membership'' None), s))
            else upstream_call E (tool_result E membership_receipt_json)
                   (\<lambda>ap. delete_project_identity_membership ap project_id identity_id True)))
      else (\<lambda>s. Some (Err method_not_found, s)))"

section \<open>Machine identities\<close>

definition decode_identity_page :: "(string \<times> json) list \<Rightarrow> (string \<times> nat \<times> nat) option" where
  "decode_identity_page m =
     do { fs \<leftarrow> strict_fields [(''organizationId'', Required_Field), (''offset'', Default_Field),
            (''limit'', Default_Field)] (Object m);
          org \<leftarrow> wire_field fs ''organizationId'' as_str;
          off \<leftarrow> decode_offset fs;
          l \<leftarrow> decode_limit fs;
          Some (org, off, l) }"

definition identity_page_parts :: "string \<times> nat \<times> nat \<Rightarrow> (mcp_error, string \<times> page_request) result" where
  "identity_page_parts i =
     (case i of (org, off, l) \<Rightarrow>
        and_then (map_err invalid_input (new_organization_id org)) (\<lambda>org.
        and_then (page_request_of off l) (\<lambda>page. Ok (org, page))))"

definition decode_identity_target :: "(string \<times> json) list \<Rightarrow> string option" where
  "decode_identity_target m =
     do { fs \<leftarrow> strict_fields [(''identityId'', Required_Field)] (Object m); wire_field fs ''identityId'' as_str }"

definition default_organization_role :: organization_role where "default_organization_role = No_Access_Role"
definition default_delete_protection :: bool where "default_delete_protection = True"

text \<open>The fields of the input are those of a creation, before validation.\<close>

definition decode_identity_create :: "(string \<times> json) list \<Rightarrow> identity_creation option" where
  "decode_identity_create m =
     do { fs \<leftarrow> strict_fields [(''name'', Required_Field), (''organizationId'', Required_Field),
            (''role'', Default_Field), (''deleteProtection'', Default_Field)] (Object m);
          n \<leftarrow> wire_field fs ''name'' as_str;
          org \<leftarrow> wire_field fs ''organizationId'' as_str;
          r \<leftarrow> wire_default fs ''role'' default_organization_role
                 (decode_variant (variant_named organization_roles));
          d \<leftarrow> wire_default fs ''deleteProtection'' default_delete_protection decode_bool;
          Some \<lparr>ic_name = n, ic_organization_id = org, ic_role = r, ic_has_delete_protection = d\<rparr> }"

definition identity_creation_of :: "identity_creation \<Rightarrow> (mcp_error, identity_creation) result" where
  "identity_creation_of i =
     and_then (map_err invalid_input (new_identity_name (ic_name i))) (\<lambda>n.
     and_then (map_err invalid_input (new_organization_id (ic_organization_id i))) (\<lambda>org.
       Ok (i\<lparr>ic_name := n, ic_organization_id := org\<rparr>)))"

definition decode_identity_change :: "json \<Rightarrow> identity_change option" where
  "decode_identity_change j =
     do { (t, rest) \<leftarrow> tagged_content j;
          if t = ''name''
          then do { fs \<leftarrow> strict_fields [(''name'', Required_Field)] rest;
                    v \<leftarrow> wire_field fs ''name'' as_str; Some (Identity_Name_Change v) }
          else if t = ''role''
          then do { fs \<leftarrow> strict_fields [(''role'', Required_Field)] rest;
                    r \<leftarrow> wire_field fs ''role'' (decode_variant (variant_named organization_roles));
                    Some (Identity_Role_Change r) }
          else if t = ''deleteProtection''
          then do { fs \<leftarrow> strict_fields [(''enabled'', Required_Field)] rest;
                    b \<leftarrow> wire_field fs ''enabled'' decode_bool; Some (Identity_Protection_Change b) }
          else None }"

fun identity_change_of :: "identity_change \<Rightarrow> (mcp_error, identity_change) result" where
  "identity_change_of (Identity_Name_Change v) =
     and_then (map_err invalid_input (new_identity_name v)) (\<lambda>v. Ok (Identity_Name_Change v))"
| "identity_change_of change = Ok change"

definition decode_identity_update :: "(string \<times> json) list \<Rightarrow> (string \<times> identity_change) option" where
  "decode_identity_update m =
     do { fs \<leftarrow> strict_fields [(''identityId'', Required_Field), (''change'', Required_Field)] (Object m);
          i \<leftarrow> wire_field fs ''identityId'' as_str;
          c \<leftarrow> wire_field fs ''change'' decode_identity_change;
          Some (i, c) }"

definition decode_identity_delete :: "(string \<times> json) list \<Rightarrow> (string \<times> bool) option" where
  "decode_identity_delete m =
     do { fs \<leftarrow> strict_fields [(''identityId'', Required_Field), (''confirm'', Required_Field)] (Object m);
          i \<leftarrow> wire_field fs ''identityId'' as_str;
          c \<leftarrow> wire_field fs ''confirm'' decode_bool;
          Some (i, c) }"

definition machine_identity_json :: "machine_identity \<Rightarrow> json" where
  "machine_identity_json i =
     object_of
       ([(''id'', String (mc_id i)), (''name'', String (mc_name i)),
         (''organizationId'', String (mc_organization_id i))]
        @ optional_field ''projectId'' (map_option String (mc_project_id i))
        @ [(''hasDeleteProtection'', Bool (mc_has_delete_protection i)),
           (''authMethods'', Array (map String (mc_auth_methods i)))]
        @ optional_field ''organizationMembershipId'' (map_option String (mc_membership_id i))
        @ optional_field ''organizationRole'' (map_option String (mc_role i))
        @ optional_field ''organizationRoleId'' (map_option String (mc_role_id i)))"

definition dispatch_identity_workflow :: "tool_env \<Rightarrow> call_params \<Rightarrow> tool_state \<Rightarrow> tool_outcome" where
  "dispatch_identity_workflow E params =
     (let name = cp_name params in
      if name = IDENTITIES_LIST_TOOL then
        with_input E ''IdentityPageInput'' decode_identity_page
          ''identities.list arguments do not match the declared schema'' params (\<lambda>i.
          with_parts (identity_page_parts i) (\<lambda>(organization_id, page).
            upstream_call E (tool_result E (page_json machine_identity_json))
              (\<lambda>ap. list_identities ap organization_id page)))
      else if name = IDENTITIES_GET_TOOL then
        with_input E ''IdentityTargetInput'' decode_identity_target
          ''identities.get arguments do not match the declared schema'' params (\<lambda>i.
          with_parts (map_err invalid_input (new_identity_id i)) (\<lambda>identity_id.
            upstream_call E (tool_result E machine_identity_json) (\<lambda>ap. get_identity ap identity_id)))
      else if name = IDENTITIES_CREATE_TOOL then
        with_input E ''IdentityCreateInput'' decode_identity_create
          ''identities.create arguments do not match the declared schema'' params (\<lambda>i.
          with_parts (identity_creation_of i) (\<lambda>c.
            upstream_call E (tool_result E machine_identity_json) (\<lambda>ap. create_identity ap c)))
      else if name = IDENTITIES_UPDATE_TOOL then
        with_input E ''IdentityUpdateInput'' decode_identity_update
          ''identities.update arguments do not match the declared schema'' params (\<lambda>i.
          with_parts (map_err invalid_input (new_identity_id (fst i))) (\<lambda>identity_id.
          with_parts (identity_change_of (snd i)) (\<lambda>change.
            upstream_call E (tool_result E machine_identity_json)
              (\<lambda>ap. update_identity ap identity_id change))))
      else if name = IDENTITIES_DELETE_TOOL then
        with_input E ''IdentityDeleteInput'' decode_identity_delete
          ''identities.delete arguments do not match the declared schema'' params (\<lambda>i.
          with_parts (map_err invalid_input (new_identity_id (fst i))) (\<lambda>identity_id.
            if \<not> snd i
            then (\<lambda>s. Some (Err (invalid_params
                   ''confirm must be true to delete the exact machine identity'' None), s))
            else upstream_call E (tool_result E machine_identity_json)
                   (\<lambda>ap. delete_identity ap identity_id True)))
      else (\<lambda>s. Some (Err method_not_found, s)))"

end
