(* ===== verification/Universal_Auth_Api.thy ===== *)
theory Universal_Auth_Api
  imports Api_Values Resource_Input Pagination
begin

text \<open>
  Universal Auth of machine identities: \<open>infisical-api/src/identity_universal_auth.rs\<close>.
\<close>

section \<open>Settings\<close>

definition max_auth_lifetime_seconds :: nat where "max_auth_lifetime_seconds = 315360000"
definition max_client_secret_description_bytes :: nat where "max_client_secret_description_bytes = 1024"

datatype universal_auth_input_error =
    Invalid_Universal_Lifetime
  | Universal_Lifetime_Order
  | Invalid_Lockout_Threshold
  | Invalid_Lockout_Duration
  | Invalid_Lockout_Counter_Reset
  | Invalid_Client_Secret_Description

fun universal_auth_input_error_text :: "universal_auth_input_error \<Rightarrow> string" where
  "universal_auth_input_error_text Invalid_Universal_Lifetime =
     ''token lifetimes and periods must not exceed 315360000 seconds''"
| "universal_auth_input_error_text Universal_Lifetime_Order =
     ''access token TTL must not exceed access token maximum TTL''"
| "universal_auth_input_error_text Invalid_Lockout_Threshold =
     ''lockout threshold must be between 1 and 30''"
| "universal_auth_input_error_text Invalid_Lockout_Duration =
     ''lockout duration must be between 30 and 86400 seconds''"
| "universal_auth_input_error_text Invalid_Lockout_Counter_Reset =
     ''lockout counter reset must be between 5 and 3600 seconds''"
| "universal_auth_input_error_text Invalid_Client_Secret_Description =
     ''client-secret description must contain at most 1024 bytes without ''
     @ ''surrounding whitespace or control characters''"

record lockout_policy =
  lo_enabled :: bool
  lo_threshold :: nat
  lo_duration_seconds :: nat
  lo_counter_reset_seconds :: nat

definition new_lockout_policy ::
    "bool \<Rightarrow> nat \<Rightarrow> nat \<Rightarrow> nat \<Rightarrow> (universal_auth_input_error, lockout_policy) result" where
  "new_lockout_policy enabled threshold duration reset =
     (if \<not> (1 \<le> threshold \<and> threshold \<le> 30) then Err Invalid_Lockout_Threshold
      else if \<not> (30 \<le> duration \<and> duration \<le> 86400) then Err Invalid_Lockout_Duration
      else if \<not> (5 \<le> reset \<and> reset \<le> 3600) then Err Invalid_Lockout_Counter_Reset
      else Ok \<lparr>lo_enabled = enabled, lo_threshold = threshold, lo_duration_seconds = duration,
               lo_counter_reset_seconds = reset\<rparr>)"

definition validate_universal_lifetime ::
    "nat \<Rightarrow> nat \<Rightarrow> nat \<Rightarrow> (universal_auth_input_error, unit) result" where
  "validate_universal_lifetime ttl max_ttl period =
     (if list_ex (\<lambda>v. max_auth_lifetime_seconds < v) [ttl, max_ttl, period]
      then Err Invalid_Universal_Lifetime
      else if max_ttl < ttl then Err Universal_Lifetime_Order
      else Ok ())"

record universal_auth_settings =
  us_ttl :: nat
  us_max_ttl :: nat
  us_num_uses_limit :: nat
  us_period :: nat
  us_lockout :: lockout_policy

definition new_universal_auth_settings ::
    "nat \<Rightarrow> nat \<Rightarrow> nat \<Rightarrow> nat \<Rightarrow> bool \<Rightarrow> nat \<Rightarrow> nat \<Rightarrow> nat
      \<Rightarrow> (universal_auth_input_error, universal_auth_settings) result" where
  "new_universal_auth_settings ttl max_ttl limit period enabled threshold duration reset =
     and_then (validate_universal_lifetime ttl max_ttl period) (\<lambda>_.
     and_then (new_lockout_policy enabled threshold duration reset) (\<lambda>policy.
       Ok \<lparr>us_ttl = ttl, us_max_ttl = max_ttl, us_num_uses_limit = limit, us_period = period,
           us_lockout = policy\<rparr>))"

datatype universal_auth_change =
    Universal_Token_Lifetime nat nat nat
  | Universal_Use_Limit nat
  | Universal_Lockout lockout_policy

definition universal_token_lifetime ::
    "nat \<Rightarrow> nat \<Rightarrow> nat \<Rightarrow> (universal_auth_input_error, universal_auth_change) result" where
  "universal_token_lifetime ttl max_ttl period =
     and_then (validate_universal_lifetime ttl max_ttl period)
       (\<lambda>_. Ok (Universal_Token_Lifetime ttl max_ttl period))"

record client_secret_creation =
  cn_description :: string
  cn_num_uses_limit :: nat
  cn_ttl :: nat

definition new_client_secret_creation ::
    "string \<Rightarrow> nat \<Rightarrow> nat \<Rightarrow> (universal_auth_input_error, client_secret_creation) result" where
  "new_client_secret_creation description limit ttl =
     (if max_client_secret_description_bytes < length description \<or> str_trim description \<noteq> description
         \<or> has_control description
      then Err Invalid_Client_Secret_Description
      else if max_auth_lifetime_seconds < ttl then Err Invalid_Universal_Lifetime
      else Ok \<lparr>cn_description = description, cn_num_uses_limit = limit, cn_ttl = ttl\<rparr>)"

section \<open>Responses\<close>

record trusted_ip =
  ti_ip_address :: string
  ti_address_type :: string
  ti_prefix :: nat

definition decode_trusted_ip :: "json \<Rightarrow> trusted_ip option" where
  "decode_trusted_ip j =
     do { fs \<leftarrow> wire_fields [(''ipAddress'', Required_Field), (''type'', Required_Field),
            (''prefix'', Required_Field)] j;
          a \<leftarrow> wire_field fs ''ipAddress'' as_str;
          t \<leftarrow> wire_field fs ''type'' as_str;
          p \<leftarrow> wire_field fs ''prefix'' decode_u8;
          Some \<lparr>ti_ip_address = a, ti_address_type = t, ti_prefix = p\<rparr> }"

record universal_auth_config =
  uc_id :: string
  uc_client_id :: string
  uc_identity_id :: string
  uc_ttl :: nat
  uc_max_ttl :: nat
  uc_num_uses_limit :: nat
  uc_period :: nat
  uc_lockout_enabled :: bool
  uc_lockout_threshold :: nat
  uc_lockout_duration :: nat
  uc_lockout_counter_reset :: nat
  uc_client_secret_trusted_ips :: "trusted_ip list"
  uc_access_token_trusted_ips :: "trusted_ip list"

definition decode_universal_auth_config :: "json \<Rightarrow> universal_auth_config option" where
  "decode_universal_auth_config j =
     do { fs \<leftarrow> wire_fields [(''id'', Required_Field), (''clientId'', Required_Field),
            (''identityId'', Required_Field), (''accessTokenTTL'', Required_Field),
            (''accessTokenMaxTTL'', Required_Field), (''accessTokenNumUsesLimit'', Required_Field),
            (''accessTokenPeriod'', Required_Field), (''lockoutEnabled'', Required_Field),
            (''lockoutThreshold'', Required_Field), (''lockoutDurationSeconds'', Required_Field),
            (''lockoutCounterResetSeconds'', Required_Field), (''clientSecretTrustedIps'', Required_Field),
            (''accessTokenTrustedIps'', Required_Field)] j;
          i \<leftarrow> wire_field fs ''id'' as_str;
          cl \<leftarrow> wire_field fs ''clientId'' as_str;
          ident \<leftarrow> wire_field fs ''identityId'' as_str;
          ttl \<leftarrow> wire_field fs ''accessTokenTTL'' decode_u32;
          max_ttl \<leftarrow> wire_field fs ''accessTokenMaxTTL'' decode_u32;
          limit \<leftarrow> wire_field fs ''accessTokenNumUsesLimit'' decode_u32;
          period \<leftarrow> wire_field fs ''accessTokenPeriod'' decode_u32;
          le \<leftarrow> wire_field fs ''lockoutEnabled'' decode_bool;
          lt \<leftarrow> wire_field fs ''lockoutThreshold'' decode_u8;
          ld \<leftarrow> wire_field fs ''lockoutDurationSeconds'' decode_u32;
          lr \<leftarrow> wire_field fs ''lockoutCounterResetSeconds'' decode_u32;
          ci \<leftarrow> wire_field fs ''clientSecretTrustedIps'' (wire_list decode_trusted_ip);
          ai \<leftarrow> wire_field fs ''accessTokenTrustedIps'' (wire_list decode_trusted_ip);
          Some \<lparr>uc_id = i, uc_client_id = cl, uc_identity_id = ident, uc_ttl = ttl, uc_max_ttl = max_ttl,
                uc_num_uses_limit = limit, uc_period = period, uc_lockout_enabled = le,
                uc_lockout_threshold = lt, uc_lockout_duration = ld, uc_lockout_counter_reset = lr,
                uc_client_secret_trusted_ips = ci, uc_access_token_trusted_ips = ai\<rparr> }"

record client_secret_metadata =
  cm_id :: string
  cm_description :: string
  cm_prefix :: string
  cm_num_uses :: nat
  cm_num_uses_limit :: nat
  cm_ttl :: nat
  cm_is_revoked :: bool
  cm_identity_ua_id :: string
  cm_created_at :: string
  cm_updated_at :: string

definition decode_client_secret :: "json \<Rightarrow> client_secret_metadata option" where
  "decode_client_secret j =
     do { fs \<leftarrow> wire_fields [(''id'', Required_Field), (''description'', Required_Field),
            (''clientSecretPrefix'', Required_Field), (''clientSecretNumUses'', Required_Field),
            (''clientSecretNumUsesLimit'', Required_Field), (''clientSecretTTL'', Required_Field),
            (''isClientSecretRevoked'', Required_Field), (''identityUAId'', Required_Field),
            (''createdAt'', Required_Field), (''updatedAt'', Required_Field)] j;
          i \<leftarrow> wire_field fs ''id'' as_str;
          d \<leftarrow> wire_field fs ''description'' as_str;
          p \<leftarrow> wire_field fs ''clientSecretPrefix'' as_str;
          n \<leftarrow> wire_field fs ''clientSecretNumUses'' decode_u32;
          l \<leftarrow> wire_field fs ''clientSecretNumUsesLimit'' decode_u32;
          ttl \<leftarrow> wire_field fs ''clientSecretTTL'' decode_u32;
          r \<leftarrow> wire_field fs ''isClientSecretRevoked'' decode_bool;
          ua \<leftarrow> wire_field fs ''identityUAId'' as_str;
          ca \<leftarrow> wire_field fs ''createdAt'' as_str;
          up \<leftarrow> wire_field fs ''updatedAt'' as_str;
          Some \<lparr>cm_id = i, cm_description = d, cm_prefix = p, cm_num_uses = n, cm_num_uses_limit = l,
                cm_ttl = ttl, cm_is_revoked = r, cm_identity_ua_id = ua, cm_created_at = ca,
                cm_updated_at = up\<rparr> }"

record created_client_secret =
  cc_client_secret :: string
  cc_metadata :: client_secret_metadata

definition decode_universal_auth_response :: "json \<Rightarrow> universal_auth_config option" where
  "decode_universal_auth_response j =
     do { fs \<leftarrow> wire_fields [(''identityUniversalAuth'', Required_Field)] j;
          wire_field fs ''identityUniversalAuth'' decode_universal_auth_config }"

definition decode_client_secret_response :: "json \<Rightarrow> client_secret_metadata option" where
  "decode_client_secret_response j =
     do { fs \<leftarrow> wire_fields [(''clientSecretData'', Required_Field)] j;
          wire_field fs ''clientSecretData'' decode_client_secret }"

definition decode_client_secrets_response :: "json \<Rightarrow> client_secret_metadata list option" where
  "decode_client_secrets_response j =
     do { fs \<leftarrow> wire_fields [(''clientSecretData'', Required_Field)] j;
          wire_field fs ''clientSecretData'' (wire_list decode_client_secret) }"

definition decode_created_client_secret :: "json \<Rightarrow> created_client_secret option" where
  "decode_created_client_secret j =
     do { fs \<leftarrow> wire_fields [(''clientSecret'', Required_Field), (''clientSecretData'', Required_Field)] j;
          s \<leftarrow> wire_field fs ''clientSecret'' as_str;
          m \<leftarrow> wire_field fs ''clientSecretData'' decode_client_secret;
          Some \<lparr>cc_client_secret = s, cc_metadata = m\<rparr> }"

text \<open>The number of lockout records removed.\<close>

definition decode_lockout_clear :: "json \<Rightarrow> nat option" where
  "decode_lockout_clear j =
     do { fs \<leftarrow> wire_fields [(''deleted'', Required_Field)] j; wire_field fs ''deleted'' decode_u64 }"

section \<open>Requests\<close>

text \<open>Every field of a path query is skipped.\<close>

definition identity_path_request :: json where "identity_path_request = Object []"
definition client_secret_path_request :: json where "client_secret_path_request = Object []"

definition attach_universal_auth_request :: "universal_auth_settings \<Rightarrow> json" where
  "attach_universal_auth_request s =
     Object [(''accessTokenTTL'', Number (Unsigned (us_ttl s))),
             (''accessTokenMaxTTL'', Number (Unsigned (us_max_ttl s))),
             (''accessTokenNumUsesLimit'', Number (Unsigned (us_num_uses_limit s))),
             (''accessTokenPeriod'', Number (Unsigned (us_period s))),
             (''lockoutEnabled'', Bool (lo_enabled (us_lockout s))),
             (''lockoutThreshold'', Number (Unsigned (lo_threshold (us_lockout s)))),
             (''lockoutDurationSeconds'', Number (Unsigned (lo_duration_seconds (us_lockout s)))),
             (''lockoutCounterResetSeconds'', Number (Unsigned (lo_counter_reset_seconds (us_lockout s))))]"

fun update_universal_auth_request :: "universal_auth_change \<Rightarrow> json" where
  "update_universal_auth_request (Universal_Token_Lifetime ttl max_ttl period) =
     Object [(''accessTokenTTL'', Number (Unsigned ttl)), (''accessTokenMaxTTL'', Number (Unsigned max_ttl)),
             (''accessTokenPeriod'', Number (Unsigned period))]"
| "update_universal_auth_request (Universal_Use_Limit limit) =
     Object [(''accessTokenNumUsesLimit'', Number (Unsigned limit))]"
| "update_universal_auth_request (Universal_Lockout policy) =
     Object [(''lockoutEnabled'', Bool (lo_enabled policy)),
             (''lockoutThreshold'', Number (Unsigned (lo_threshold policy))),
             (''lockoutDurationSeconds'', Number (Unsigned (lo_duration_seconds policy))),
             (''lockoutCounterResetSeconds'', Number (Unsigned (lo_counter_reset_seconds policy)))]"

definition create_client_secret_request :: "client_secret_creation \<Rightarrow> json" where
  "create_client_secret_request c =
     Object [(''description'', String (cn_description c)),
             (''numUsesLimit'', Number (Unsigned (cn_num_uses_limit c))), (''ttl'', Number (Unsigned (cn_ttl c)))]"

definition universal_auth_endpoint :: "string \<Rightarrow> endpoint" where
  "universal_auth_endpoint identity_id =
     endpoint_from_segments V1 [''auth'', ''universal-auth'', ''identities'', identity_id]"
definition client_secrets_endpoint :: "string \<Rightarrow> endpoint" where
  "client_secrets_endpoint identity_id =
     endpoint_from_segments V1 [''auth'', ''universal-auth'', ''identities'', identity_id, ''client-secrets'']"
definition client_secret_endpoint :: "string \<Rightarrow> string \<Rightarrow> endpoint" where
  "client_secret_endpoint identity_id client_secret_id =
     endpoint_from_segments V1
       [''auth'', ''universal-auth'', ''identities'', identity_id, ''client-secrets'', client_secret_id]"
definition client_secret_revoke_endpoint :: "string \<Rightarrow> string \<Rightarrow> endpoint" where
  "client_secret_revoke_endpoint identity_id client_secret_id =
     endpoint_from_segments V1
       [''auth'', ''universal-auth'', ''identities'', identity_id, ''client-secrets'', client_secret_id, ''revoke'']"
definition clear_lockouts_endpoint :: "string \<Rightarrow> endpoint" where
  "clear_lockouts_endpoint identity_id =
     endpoint_from_segments V1 [''auth'', ''universal-auth'', ''identities'', identity_id, ''clear-lockouts'']"

section \<open>Operations\<close>

definition get_universal_auth ::
    "api \<Rightarrow> string \<Rightarrow> world \<Rightarrow> (resource_error, universal_auth_config) result \<times> world" where
  "get_universal_auth ap identity_id w =
     api_read ap (universal_auth_endpoint identity_id) [] decode_universal_auth_response w"

definition attach_universal_auth ::
    "api \<Rightarrow> string \<Rightarrow> universal_auth_settings \<Rightarrow> world
      \<Rightarrow> (resource_error, universal_auth_config) result \<times> world" where
  "attach_universal_auth ap identity_id settings w =
     api_mutate ap POST (universal_auth_endpoint identity_id) (attach_universal_auth_request settings)
       decode_universal_auth_response w"

definition update_universal_auth ::
    "api \<Rightarrow> string \<Rightarrow> universal_auth_change \<Rightarrow> world
      \<Rightarrow> (resource_error, universal_auth_config) result \<times> world" where
  "update_universal_auth ap identity_id change w =
     api_mutate ap PATCH (universal_auth_endpoint identity_id) (update_universal_auth_request change)
       decode_universal_auth_response w"

definition remove_universal_auth ::
    "api \<Rightarrow> string \<Rightarrow> bool \<Rightarrow> world \<Rightarrow> (resource_error, universal_auth_config) result \<times> world" where
  "remove_universal_auth ap identity_id confirm w =
     (if \<not> confirm then (resource ''UniversalAuthRemovalNotConfirmed'', w)
      else api_mutate ap DELETE (universal_auth_endpoint identity_id) identity_path_request
             decode_universal_auth_response w)"

definition list_universal_auth_client_secrets ::
    "api \<Rightarrow> string \<Rightarrow> page_request \<Rightarrow> world
      \<Rightarrow> (resource_error, client_secret_metadata page) result \<times> world" where
  "list_universal_auth_client_secrets ap identity_id page w =
     apfst (\<lambda>r. and_then r (\<lambda>secrets. map_err Pagination_Error (paginate page secrets)))
       (api_read ap (client_secrets_endpoint identity_id) [] decode_client_secrets_response w)"

definition get_universal_auth_client_secret ::
    "api \<Rightarrow> string \<Rightarrow> string \<Rightarrow> world \<Rightarrow> (resource_error, client_secret_metadata) result \<times> world" where
  "get_universal_auth_client_secret ap identity_id client_secret_id w =
     api_read ap (client_secret_endpoint identity_id client_secret_id) [] decode_client_secret_response w"

definition create_universal_auth_client_secret ::
    "api \<Rightarrow> string \<Rightarrow> client_secret_creation \<Rightarrow> world
      \<Rightarrow> (resource_error, created_client_secret) result \<times> world" where
  "create_universal_auth_client_secret ap identity_id creation w =
     api_mutate ap POST (client_secrets_endpoint identity_id) (create_client_secret_request creation)
       decode_created_client_secret w"

definition revoke_universal_auth_client_secret ::
    "api \<Rightarrow> string \<Rightarrow> string \<Rightarrow> bool \<Rightarrow> world
      \<Rightarrow> (resource_error, client_secret_metadata) result \<times> world" where
  "revoke_universal_auth_client_secret ap identity_id client_secret_id confirm w =
     (if \<not> confirm then (resource ''UniversalAuthClientSecretRevocationNotConfirmed'', w)
      else api_mutate ap POST (client_secret_revoke_endpoint identity_id client_secret_id)
             client_secret_path_request decode_client_secret_response w)"

definition clear_universal_auth_lockouts ::
    "api \<Rightarrow> string \<Rightarrow> bool \<Rightarrow> world \<Rightarrow> (resource_error, nat) result \<times> world" where
  "clear_universal_auth_lockouts ap identity_id confirm w =
     (if \<not> confirm then (resource ''UniversalAuthLockoutClearNotConfirmed'', w)
      else api_mutate ap POST (clear_lockouts_endpoint identity_id) identity_path_request
             decode_lockout_clear w)"

end
