(* ===== verification/Token_Auth_Api.thy ===== *)
theory Token_Auth_Api
  imports Universal_Auth_Api
begin

text \<open>
  Token Auth of machine identities: \<open>infisical-api/src/identity_token_auth.rs\<close>.
\<close>

section \<open>Settings\<close>

definition max_token_auth_list_offset :: u32 where "max_token_auth_list_offset = 100"
definition max_token_auth_lifetime_seconds :: nat where "max_token_auth_lifetime_seconds = 315360000"
definition max_token_auth_token_name_bytes :: nat where "max_token_auth_token_name_bytes = 128"

datatype token_auth_input_error =
    Invalid_Token_Lifetime
  | Token_Lifetime_Order
  | Invalid_Token_Name
  | Invalid_Organization_Slug

fun token_auth_input_error_text :: "token_auth_input_error \<Rightarrow> string" where
  "token_auth_input_error_text Invalid_Token_Lifetime =
     ''token lifetimes must not exceed 315360000 seconds''"
| "token_auth_input_error_text Token_Lifetime_Order =
     ''access token TTL must not exceed a non-zero access token maximum TTL''"
| "token_auth_input_error_text Invalid_Token_Name =
     ''token name must contain 1 to 128 bytes without surrounding whitespace or control characters''"
| "token_auth_input_error_text Invalid_Organization_Slug =
     ''organization slug must contain 1 to 64 lowercase words separated by single hyphens''"

definition validate_token_lifetime :: "nat \<Rightarrow> nat \<Rightarrow> (token_auth_input_error, unit) result" where
  "validate_token_lifetime ttl max_ttl =
     (if max_token_auth_lifetime_seconds < ttl \<or> max_token_auth_lifetime_seconds < max_ttl
      then Err Invalid_Token_Lifetime
      else if 0 < max_ttl \<and> max_ttl < ttl then Err Token_Lifetime_Order
      else Ok ())"

record token_auth_settings =
  ts_ttl :: nat
  ts_max_ttl :: nat
  ts_num_uses_limit :: nat

definition new_token_auth_settings ::
    "nat \<Rightarrow> nat \<Rightarrow> nat \<Rightarrow> (token_auth_input_error, token_auth_settings) result" where
  "new_token_auth_settings ttl max_ttl limit =
     and_then (validate_token_lifetime ttl max_ttl)
       (\<lambda>_. Ok \<lparr>ts_ttl = ttl, ts_max_ttl = max_ttl, ts_num_uses_limit = limit\<rparr>)"

datatype token_auth_change = Token_Lifetime_Change nat nat | Token_Use_Limit nat

definition token_lifetime_change :: "nat \<Rightarrow> nat \<Rightarrow> (token_auth_input_error, token_auth_change) result" where
  "token_lifetime_change ttl max_ttl =
     and_then (validate_token_lifetime ttl max_ttl) (\<lambda>_. Ok (Token_Lifetime_Change ttl max_ttl))"

definition is_valid_token_name :: "string \<Rightarrow> bool" where
  "is_valid_token_name value \<longleftrightarrow>
     value \<noteq> [] \<and> length value \<le> max_token_auth_token_name_bytes
     \<and> str_trim value = value \<and> \<not> has_control value"

definition is_valid_organization_slug :: "string \<Rightarrow> bool" where
  "is_valid_organization_slug value \<longleftrightarrow>
     value \<noteq> [] \<and> length value \<le> 64
     \<and> list_all (\<lambda>segment. segment \<noteq> [] \<and> list_all (\<lambda>c. is_ascii_lowercase c \<or> is_ascii_digit c) segment)
         (split_by ((=) (CHR ''-'')) value)"

record token_creation =
  tc_name :: "string option"
  tc_organization_slug :: "string option"

definition new_token_creation ::
    "string option \<Rightarrow> string option \<Rightarrow> (token_auth_input_error, token_creation) result" where
  "new_token_creation name slug =
     (if (case name of None \<Rightarrow> False | Some n \<Rightarrow> \<not> is_valid_token_name n) then Err Invalid_Token_Name
      else if (case slug of None \<Rightarrow> False | Some s \<Rightarrow> \<not> is_valid_organization_slug s)
      then Err Invalid_Organization_Slug
      else Ok \<lparr>tc_name = name, tc_organization_slug = slug\<rparr>)"

section \<open>Responses\<close>

record token_auth_config =
  tg_id :: string
  tg_identity_id :: string
  tg_ttl :: nat
  tg_max_ttl :: nat
  tg_num_uses_limit :: nat
  tg_period :: nat
  tg_trusted_ips :: "trusted_ip list"
  tg_created_at :: string
  tg_updated_at :: string

definition decode_token_auth_config :: "json \<Rightarrow> token_auth_config option" where
  "decode_token_auth_config j =
     do { fs \<leftarrow> wire_fields [(''id'', Required_Field), (''identityId'', Required_Field),
            (''accessTokenTTL'', Required_Field), (''accessTokenMaxTTL'', Required_Field),
            (''accessTokenNumUsesLimit'', Required_Field), (''accessTokenPeriod'', Required_Field),
            (''accessTokenTrustedIps'', Required_Field), (''createdAt'', Required_Field),
            (''updatedAt'', Required_Field)] j;
          i \<leftarrow> wire_field fs ''id'' as_str;
          ident \<leftarrow> wire_field fs ''identityId'' as_str;
          ttl \<leftarrow> wire_field fs ''accessTokenTTL'' decode_u32;
          max_ttl \<leftarrow> wire_field fs ''accessTokenMaxTTL'' decode_u32;
          limit \<leftarrow> wire_field fs ''accessTokenNumUsesLimit'' decode_u32;
          period \<leftarrow> wire_field fs ''accessTokenPeriod'' decode_u32;
          ips \<leftarrow> wire_field fs ''accessTokenTrustedIps'' (wire_list decode_trusted_ip);
          ca \<leftarrow> wire_field fs ''createdAt'' as_str;
          up \<leftarrow> wire_field fs ''updatedAt'' as_str;
          Some \<lparr>tg_id = i, tg_identity_id = ident, tg_ttl = ttl, tg_max_ttl = max_ttl,
                tg_num_uses_limit = limit, tg_period = period, tg_trusted_ips = ips, tg_created_at = ca,
                tg_updated_at = up\<rparr> }"

record token_metadata =
  tm_id :: string
  tm_identity_id :: string
  tm_name :: "string option"
  tm_auth_method :: string
  tm_ttl :: nat
  tm_max_ttl :: nat
  tm_num_uses :: nat
  tm_num_uses_limit :: nat
  tm_last_used_at :: "string option"
  tm_last_renewed_at :: "string option"
  tm_is_revoked :: bool
  tm_period :: nat
  tm_sub_organization_id :: "string option"
  tm_created_at :: string
  tm_updated_at :: string

definition decode_token_metadata :: "json \<Rightarrow> token_metadata option" where
  "decode_token_metadata j =
     do { fs \<leftarrow> wire_fields [(''id'', Required_Field), (''identityId'', Required_Field),
            (''name'', Option_Field), (''authMethod'', Required_Field), (''accessTokenTTL'', Required_Field),
            (''accessTokenMaxTTL'', Required_Field), (''accessTokenNumUses'', Required_Field),
            (''accessTokenNumUsesLimit'', Required_Field), (''accessTokenLastUsedAt'', Option_Field),
            (''accessTokenLastRenewedAt'', Option_Field), (''isAccessTokenRevoked'', Required_Field),
            (''accessTokenPeriod'', Required_Field), (''subOrganizationId'', Option_Field),
            (''createdAt'', Required_Field), (''updatedAt'', Required_Field)] j;
          i \<leftarrow> wire_field fs ''id'' as_str;
          ident \<leftarrow> wire_field fs ''identityId'' as_str;
          n \<leftarrow> wire_option fs ''name'' as_str;
          am \<leftarrow> wire_field fs ''authMethod'' as_str;
          ttl \<leftarrow> wire_field fs ''accessTokenTTL'' decode_u32;
          max_ttl \<leftarrow> wire_field fs ''accessTokenMaxTTL'' decode_u32;
          uses \<leftarrow> wire_field fs ''accessTokenNumUses'' decode_u32;
          limit \<leftarrow> wire_field fs ''accessTokenNumUsesLimit'' decode_u32;
          used \<leftarrow> wire_option fs ''accessTokenLastUsedAt'' as_str;
          renewed \<leftarrow> wire_option fs ''accessTokenLastRenewedAt'' as_str;
          r \<leftarrow> wire_field fs ''isAccessTokenRevoked'' decode_bool;
          period \<leftarrow> wire_field fs ''accessTokenPeriod'' decode_u32;
          sub \<leftarrow> wire_option fs ''subOrganizationId'' as_str;
          ca \<leftarrow> wire_field fs ''createdAt'' as_str;
          up \<leftarrow> wire_field fs ''updatedAt'' as_str;
          Some \<lparr>tm_id = i, tm_identity_id = ident, tm_name = n, tm_auth_method = am, tm_ttl = ttl,
                tm_max_ttl = max_ttl, tm_num_uses = uses, tm_num_uses_limit = limit,
                tm_last_used_at = used, tm_last_renewed_at = renewed, tm_is_revoked = r,
                tm_period = period, tm_sub_organization_id = sub, tm_created_at = ca,
                tm_updated_at = up\<rparr> }"

record created_token =
  ct_access_token :: string
  ct_expires_in :: nat
  ct_max_ttl :: nat
  ct_metadata :: token_metadata

definition decode_token_auth_response :: "json \<Rightarrow> token_auth_config option" where
  "decode_token_auth_response j =
     do { fs \<leftarrow> wire_fields [(''identityTokenAuth'', Required_Field)] j;
          wire_field fs ''identityTokenAuth'' decode_token_auth_config }"

definition decode_tokens_response :: "json \<Rightarrow> token_metadata list option" where
  "decode_tokens_response j =
     do { fs \<leftarrow> wire_fields [(''tokens'', Required_Field)] j;
          wire_field fs ''tokens'' (wire_list decode_token_metadata) }"

definition decode_token_response :: "json \<Rightarrow> token_metadata option" where
  "decode_token_response j =
     do { fs \<leftarrow> wire_fields [(''token'', Required_Field)] j; wire_field fs ''token'' decode_token_metadata }"

definition decode_created_token :: "json \<Rightarrow> created_token option" where
  "decode_created_token j =
     do { fs \<leftarrow> wire_fields [(''accessToken'', Required_Field), (''expiresIn'', Required_Field),
            (''accessTokenMaxTTL'', Required_Field), (''tokenData'', Required_Field)] j;
          t \<leftarrow> wire_field fs ''accessToken'' as_str;
          e \<leftarrow> wire_field fs ''expiresIn'' decode_u32;
          max_ttl \<leftarrow> wire_field fs ''accessTokenMaxTTL'' decode_u32;
          m \<leftarrow> wire_field fs ''tokenData'' decode_token_metadata;
          Some \<lparr>ct_access_token = t, ct_expires_in = e, ct_max_ttl = max_ttl, ct_metadata = m\<rparr> }"

text \<open>The message of a revocation.\<close>

definition decode_token_revocation :: "json \<Rightarrow> string option" where
  "decode_token_revocation j =
     do { fs \<leftarrow> wire_fields [(''message'', Required_Field)] j; wire_field fs ''message'' as_str }"

section \<open>Requests\<close>

definition attach_token_auth_request :: "token_auth_settings \<Rightarrow> json" where
  "attach_token_auth_request s =
     Object [(''accessTokenTTL'', Number (Unsigned (ts_ttl s))),
             (''accessTokenMaxTTL'', Number (Unsigned (ts_max_ttl s))),
             (''accessTokenNumUsesLimit'', Number (Unsigned (ts_num_uses_limit s)))]"

fun update_token_auth_request :: "token_auth_change \<Rightarrow> json" where
  "update_token_auth_request (Token_Lifetime_Change ttl max_ttl) =
     Object [(''accessTokenTTL'', Number (Unsigned ttl)), (''accessTokenMaxTTL'', Number (Unsigned max_ttl))]"
| "update_token_auth_request (Token_Use_Limit limit) =
     Object [(''accessTokenNumUsesLimit'', Number (Unsigned limit))]"

definition list_tokens_query :: "page_request \<Rightarrow> (string \<times> string) list" where
  "list_tokens_query page =
     [(''offset'', show_nat (unat (req_offset page))), (''limit'', show_nat (unat (request_limit page)))]"

definition create_token_request :: "token_creation \<Rightarrow> json" where
  "create_token_request c =
     Object (optional_field ''name'' (map_option String (tc_name c))
       @ optional_field ''organizationSlug'' (map_option String (tc_organization_slug c)))"

definition update_token_request :: "string \<Rightarrow> json" where
  "update_token_request name = Object [(''name'', String name)]"

text \<open>Every field of the path queries is skipped.\<close>

definition token_path_request :: json where "token_path_request = Object []"
definition token_identity_request :: json where "token_identity_request = Object []"

definition token_auth_endpoint :: "string \<Rightarrow> endpoint" where
  "token_auth_endpoint identity_id =
     endpoint_from_segments V1 [''auth'', ''token-auth'', ''identities'', identity_id]"
definition tokens_endpoint :: "string \<Rightarrow> endpoint" where
  "tokens_endpoint identity_id =
     endpoint_from_segments V1 [''auth'', ''token-auth'', ''identities'', identity_id, ''tokens'']"
definition token_endpoint :: "string \<Rightarrow> endpoint" where
  "token_endpoint ident = endpoint_from_segments V1 [''auth'', ''token-auth'', ''tokens'', ident]"
definition token_revoke_endpoint :: "string \<Rightarrow> endpoint" where
  "token_revoke_endpoint ident =
     endpoint_from_segments V1 [''auth'', ''token-auth'', ''tokens'', ident, ''revoke'']"

section \<open>Operations\<close>

definition get_token_auth ::
    "api \<Rightarrow> string \<Rightarrow> world \<Rightarrow> (resource_error, token_auth_config) result \<times> world" where
  "get_token_auth ap identity_id w =
     api_read ap (token_auth_endpoint identity_id) [] decode_token_auth_response w"

definition attach_token_auth ::
    "api \<Rightarrow> string \<Rightarrow> token_auth_settings \<Rightarrow> world \<Rightarrow> (resource_error, token_auth_config) result \<times> world" where
  "attach_token_auth ap identity_id settings w =
     api_mutate ap POST (token_auth_endpoint identity_id) (attach_token_auth_request settings)
       decode_token_auth_response w"

definition update_token_auth ::
    "api \<Rightarrow> string \<Rightarrow> token_auth_change \<Rightarrow> world \<Rightarrow> (resource_error, token_auth_config) result \<times> world" where
  "update_token_auth ap identity_id change w =
     api_mutate ap PATCH (token_auth_endpoint identity_id) (update_token_auth_request change)
       decode_token_auth_response w"

definition remove_token_auth ::
    "api \<Rightarrow> string \<Rightarrow> bool \<Rightarrow> world \<Rightarrow> (resource_error, token_auth_config) result \<times> world" where
  "remove_token_auth ap identity_id confirm w =
     (if \<not> confirm then (resource ''TokenAuthRemovalNotConfirmed'', w)
      else api_mutate ap DELETE (token_auth_endpoint identity_id) token_identity_request
             decode_token_auth_response w)"

text \<open>\<open>clamped_to(100)\<close> cannot panic.\<close>

definition list_token_auth_tokens ::
    "api \<Rightarrow> string \<Rightarrow> page_request \<Rightarrow> world \<Rightarrow> (resource_error, token_metadata page) result \<times> world" where
  "list_token_auth_tokens ap identity_id requested w =
     (let page = the (clamped_to 100 requested) in
      if max_token_auth_list_offset < req_offset page then (resource ''TokenAuthPageOffsetLimit'', w)
      else
        apfst (\<lambda>r. and_then r (\<lambda>tokens.
                 and_then (map_err Pagination_Error (page_new page tokens None)) (\<lambda>result.
                   if (case page_next result of None \<Rightarrow> False
                       | Some next \<Rightarrow> max_token_auth_list_offset < req_offset next)
                   then resource ''CollectionTooLarge'' else Ok result)))
          (api_read ap (tokens_endpoint identity_id) (list_tokens_query page) decode_tokens_response w))"

definition get_token_auth_token ::
    "api \<Rightarrow> string \<Rightarrow> world \<Rightarrow> (resource_error, token_metadata) result \<times> world" where
  "get_token_auth_token ap ident w =
     api_read ap (token_endpoint ident) [] decode_token_response w"

definition create_token_auth_token ::
    "api \<Rightarrow> string \<Rightarrow> token_creation \<Rightarrow> world \<Rightarrow> (resource_error, created_token) result \<times> world" where
  "create_token_auth_token ap identity_id creation w =
     api_mutate ap POST (tokens_endpoint identity_id) (create_token_request creation)
       decode_created_token w"

definition update_token_auth_token ::
    "api \<Rightarrow> string \<Rightarrow> string \<Rightarrow> world \<Rightarrow> (resource_error, token_metadata) result \<times> world" where
  "update_token_auth_token ap ident name w =
     (if \<not> is_valid_token_name name then (resource ''InvalidTokenAuthTokenName'', w)
      else api_mutate ap PATCH (token_endpoint ident) (update_token_request name) decode_token_response w)"

definition revoke_token_auth_token ::
    "api \<Rightarrow> string \<Rightarrow> bool \<Rightarrow> world \<Rightarrow> (resource_error, string) result \<times> world" where
  "revoke_token_auth_token ap ident confirm w =
     (if \<not> confirm then (resource ''TokenAuthTokenRevocationNotConfirmed'', w)
      else api_mutate ap POST (token_revoke_endpoint ident) token_path_request decode_token_revocation w)"

end
