(* ===== verification/Kubernetes_Auth_Api.thy ===== *)
theory Kubernetes_Auth_Api
  imports Universal_Auth_Api Certificates
begin

text \<open>
  Kubernetes Auth of machine identities: \<open>infisical-api/src/identity_kubernetes_auth.rs\<close>.
\<close>

section \<open>Settings\<close>

definition max_kubernetes_auth_lifetime_seconds :: nat where
  "max_kubernetes_auth_lifetime_seconds = 315360000"
definition max_kubernetes_auth_host_bytes :: nat where "max_kubernetes_auth_host_bytes = 2048"
definition max_kubernetes_auth_ca_cert_bytes :: nat where "max_kubernetes_auth_ca_cert_bytes = 131072"
definition max_kubernetes_auth_reviewer_jwt_bytes :: nat where
  "max_kubernetes_auth_reviewer_jwt_bytes = 16384"
definition max_kubernetes_auth_policy_patterns :: nat where "max_kubernetes_auth_policy_patterns = 100"
definition max_kubernetes_auth_policy_pattern_bytes :: nat where
  "max_kubernetes_auth_policy_pattern_bytes = 253"
definition max_kubernetes_auth_audience_bytes :: nat where "max_kubernetes_auth_audience_bytes = 2048"

datatype kubernetes_auth_input_error =
    Invalid_Kubernetes_Lifetime
  | Kubernetes_Lifetime_Order
  | Invalid_Kubernetes_Host
  | Invalid_Ca_Certificate
  | Invalid_Reviewer_Jwt
  | Invalid_Workload_Policy
  | Invalid_Audience

fun kubernetes_auth_input_error_text :: "kubernetes_auth_input_error \<Rightarrow> string" where
  "kubernetes_auth_input_error_text Invalid_Kubernetes_Lifetime =
     ''access-token lifetimes must not exceed 315360000 seconds''"
| "kubernetes_auth_input_error_text Kubernetes_Lifetime_Order =
     ''access token TTL must not exceed access token maximum TTL''"
| "kubernetes_auth_input_error_text Invalid_Kubernetes_Host =
     ''Kubernetes host must be a 1 to 2048 byte HTTPS URL containing only letters, numbers, ''
     @ ''colons, periods, hyphens, and forward slashes''"
| "kubernetes_auth_input_error_text Invalid_Ca_Certificate =
     ''CA certificate must be a bounded PEM certificate bundle and is required exactly when ''
     @ ''TLS verification is enabled''"
| "kubernetes_auth_input_error_text Invalid_Reviewer_Jwt =
     ''token-reviewer JWT must contain 1 to 16384 non-control bytes without padding''"
| "kubernetes_auth_input_error_text Invalid_Workload_Policy =
     ''namespace and service-account policies require 1 to 100 unique, comma-free patterns of ''
     @ ''at most 253 bytes''"
| "kubernetes_auth_input_error_text Invalid_Audience =
     ''allowed audience must contain 1 to 2048 bytes without padding or control characters''"

definition validate_kubernetes_lifetime :: "nat \<Rightarrow> nat \<Rightarrow> (kubernetes_auth_input_error, unit) result" where
  "validate_kubernetes_lifetime ttl max_ttl =
     (if max_kubernetes_auth_lifetime_seconds < ttl \<or> max_kubernetes_auth_lifetime_seconds < max_ttl
      then Err Invalid_Kubernetes_Lifetime
      else if max_ttl < ttl then Err Kubernetes_Lifetime_Order
      else Ok ())"

definition validate_host :: "pki_library \<Rightarrow> string \<Rightarrow> (kubernetes_auth_input_error, string) result" where
  "validate_host K value =
     (if value = [] \<or> max_kubernetes_auth_host_bytes < length value \<or> str_trim value \<noteq> value
         \<or> (case strip_prefix ''https://'' value of
              None \<Rightarrow> True
            | Some authority \<Rightarrow> authority = [] \<or> prefix ''/'' authority)
         \<or> \<not> list_all (\<lambda>b. is_ascii_alphanumeric b \<or> b \<in> set '':./-'') value
         \<or> \<not> pk_url K value
      then Err Invalid_Kubernetes_Host else Ok value)"

definition validate_ca_certificate ::
    "pki_library \<Rightarrow> string option \<Rightarrow> bool \<Rightarrow> (kubernetes_auth_input_error, string option) result" where
  "validate_ca_certificate K value verify =
     (if (case value of None \<Rightarrow> False | Some c \<Rightarrow> max_kubernetes_auth_ca_cert_bytes < length c)
      then Err Invalid_Ca_Certificate
      else
        (case (map_option str_trim value, verify) of
           (None, False) \<Rightarrow> Ok None
         | (Some c, True) \<Rightarrow>
             if c \<noteq> [] \<and> CHR 0x00 \<notin> set c \<and> is_valid_ca_certificate_bundle K c then Ok (Some c)
             else Err Invalid_Ca_Certificate
         | _ \<Rightarrow> Err Invalid_Ca_Certificate))"

definition validate_reviewer_jwt :: "string option \<Rightarrow> (kubernetes_auth_input_error, unit) result" where
  "validate_reviewer_jwt value =
     (if (case value of
            None \<Rightarrow> False
          | Some v \<Rightarrow> v = [] \<or> max_kubernetes_auth_reviewer_jwt_bytes < length v \<or> str_trim v \<noteq> v
                     \<or> has_control v)
      then Err Invalid_Reviewer_Jwt else Ok ())"

definition is_pattern_byte :: "char \<Rightarrow> bool" where
  "is_pattern_byte b \<longleftrightarrow> is_ascii_lowercase b \<or> is_ascii_digit b \<or> b \<in> set ''-.*?''"

text \<open>The loop refuses a bad pattern and a repeated one alike.\<close>

definition validate_patterns :: "string list \<Rightarrow> (kubernetes_auth_input_error, string) result" where
  "validate_patterns values =
     (if values = [] \<or> max_kubernetes_auth_policy_patterns < length values then Err Invalid_Workload_Policy
      else if list_ex (\<lambda>v. v = [] \<or> max_kubernetes_auth_policy_pattern_bytes < length v \<or> str_trim v \<noteq> v
                 \<or> \<not> list_all is_pattern_byte v) values
              \<or> \<not> distinct values
      then Err Invalid_Workload_Policy
      else Ok (join_with (CHR '','') values))"

definition validate_audience :: "string \<Rightarrow> (kubernetes_auth_input_error, string) result" where
  "validate_audience value =
     (if value = [] \<or> max_kubernetes_auth_audience_bytes < length value \<or> str_trim value \<noteq> value
         \<or> has_control value
      then Err Invalid_Audience else Ok value)"

record kubernetes_auth_settings =
  ks_host :: string
  ks_ca_cert :: "string option"
  ks_verify_tls :: bool
  ks_reviewer_jwt :: "string option"
  ks_allowed_namespaces :: string
  ks_allowed_names :: string
  ks_allowed_audience :: string
  ks_ttl :: nat
  ks_max_ttl :: nat
  ks_num_uses_limit :: nat

definition new_kubernetes_auth_settings ::
    "pki_library \<Rightarrow> string \<Rightarrow> string option \<Rightarrow> bool \<Rightarrow> string option \<Rightarrow> string list \<Rightarrow> string list \<Rightarrow> string
      \<Rightarrow> nat \<Rightarrow> nat \<Rightarrow> nat \<Rightarrow> (kubernetes_auth_input_error, kubernetes_auth_settings) result" where
  "new_kubernetes_auth_settings K host ca verify jwt namespaces names audience ttl max_ttl limit =
     and_then (validate_host K host) (\<lambda>host.
     and_then (validate_ca_certificate K ca verify) (\<lambda>ca.
     and_then (validate_reviewer_jwt jwt) (\<lambda>_.
     and_then (validate_patterns namespaces) (\<lambda>namespaces.
     and_then (validate_patterns names) (\<lambda>names.
     and_then (validate_audience audience) (\<lambda>audience.
     and_then (validate_kubernetes_lifetime ttl max_ttl) (\<lambda>_.
       Ok \<lparr>ks_host = host, ks_ca_cert = ca, ks_verify_tls = verify, ks_reviewer_jwt = jwt,
           ks_allowed_namespaces = namespaces, ks_allowed_names = names, ks_allowed_audience = audience,
           ks_ttl = ttl, ks_max_ttl = max_ttl, ks_num_uses_limit = limit\<rparr>)))))))"

datatype reviewer_jwt_change = Preserve_Jwt | Replace_Jwt string | Clear_Jwt

datatype kubernetes_auth_change =
    Kubernetes_Token_Lifetime nat nat
  | Kubernetes_Use_Limit nat
  | Kubernetes_Workload_Policy string string string
  | Kubernetes_Direct_Reviewer string "string option" bool reviewer_jwt_change

definition kubernetes_token_lifetime ::
    "nat \<Rightarrow> nat \<Rightarrow> (kubernetes_auth_input_error, kubernetes_auth_change) result" where
  "kubernetes_token_lifetime ttl max_ttl =
     and_then (validate_kubernetes_lifetime ttl max_ttl) (\<lambda>_. Ok (Kubernetes_Token_Lifetime ttl max_ttl))"

definition kubernetes_workload_policy ::
    "string list \<Rightarrow> string list \<Rightarrow> string \<Rightarrow> (kubernetes_auth_input_error, kubernetes_auth_change) result" where
  "kubernetes_workload_policy namespaces names audience =
     and_then (validate_patterns namespaces) (\<lambda>namespaces.
     and_then (validate_patterns names) (\<lambda>names.
     and_then (validate_audience audience) (\<lambda>audience.
       Ok (Kubernetes_Workload_Policy namespaces names audience))))"

definition kubernetes_direct_reviewer ::
    "pki_library \<Rightarrow> string \<Rightarrow> string option \<Rightarrow> bool \<Rightarrow> reviewer_jwt_change
      \<Rightarrow> (kubernetes_auth_input_error, kubernetes_auth_change) result" where
  "kubernetes_direct_reviewer K host ca verify jwt =
     and_then (validate_host K host) (\<lambda>host.
     and_then (validate_ca_certificate K ca verify) (\<lambda>ca.
     and_then (case jwt of Replace_Jwt v \<Rightarrow> validate_reviewer_jwt (Some v) | _ \<Rightarrow> Ok ()) (\<lambda>_.
       Ok (Kubernetes_Direct_Reviewer host ca verify jwt))))"

section \<open>Responses\<close>

datatype token_review_mode = Api_Review | Gateway_Review

definition token_review_modes :: "(token_review_mode \<times> string) list" where
  "token_review_modes = [(Api_Review, ''api''), (Gateway_Review, ''gateway'')]"

fun token_review_mode_name :: "token_review_mode \<Rightarrow> string" where
  "token_review_mode_name Api_Review = ''api''"
| "token_review_mode_name Gateway_Review = ''gateway''"

record raw_kubernetes_auth_config =
  rk_id :: string
  rk_identity_id :: string
  rk_ttl :: nat
  rk_max_ttl :: nat
  rk_num_uses_limit :: nat
  rk_trusted_ips :: "trusted_ip list"
  rk_review_mode :: token_review_mode
  rk_host :: "string option"
  rk_allowed_namespaces :: string
  rk_allowed_names :: string
  rk_allowed_audience :: string
  rk_ca_cert :: string
  rk_reviewer_jwt :: "string option"
  rk_verify_tls :: bool
  rk_gateway_id :: "string option"
  rk_gateway_pool_id :: "string option"
  rk_created_at :: string
  rk_updated_at :: string

definition decode_raw_kubernetes_auth_config :: "json \<Rightarrow> raw_kubernetes_auth_config option" where
  "decode_raw_kubernetes_auth_config j =
     do { fs \<leftarrow> wire_fields [(''id'', Required_Field), (''identityId'', Required_Field),
            (''accessTokenTTL'', Required_Field), (''accessTokenMaxTTL'', Required_Field),
            (''accessTokenNumUsesLimit'', Required_Field), (''accessTokenTrustedIps'', Required_Field),
            (''tokenReviewMode'', Required_Field), (''kubernetesHost'', Option_Field),
            (''allowedNamespaces'', Required_Field), (''allowedNames'', Required_Field),
            (''allowedAudience'', Required_Field), (''caCert'', Default_Field),
            (''tokenReviewerJwt'', Default_Field), (''verifyTlsCertificate'', Required_Field),
            (''gatewayId'', Option_Field), (''gatewayPoolId'', Option_Field),
            (''createdAt'', Required_Field), (''updatedAt'', Required_Field)] j;
          i \<leftarrow> wire_field fs ''id'' as_str;
          ident \<leftarrow> wire_field fs ''identityId'' as_str;
          ttl \<leftarrow> wire_field fs ''accessTokenTTL'' decode_u32;
          max_ttl \<leftarrow> wire_field fs ''accessTokenMaxTTL'' decode_u32;
          limit \<leftarrow> wire_field fs ''accessTokenNumUsesLimit'' decode_u32;
          ips \<leftarrow> wire_field fs ''accessTokenTrustedIps'' (wire_list decode_trusted_ip);
          mode \<leftarrow> wire_field fs ''tokenReviewMode'' (decode_variant (variant_named token_review_modes));
          host \<leftarrow> wire_option fs ''kubernetesHost'' as_str;
          ns \<leftarrow> wire_field fs ''allowedNamespaces'' as_str;
          nm \<leftarrow> wire_field fs ''allowedNames'' as_str;
          au \<leftarrow> wire_field fs ''allowedAudience'' as_str;
          ca \<leftarrow> wire_default fs ''caCert'' [] as_str;
          jwt \<leftarrow> wire_option fs ''tokenReviewerJwt'' as_str;
          tls \<leftarrow> wire_field fs ''verifyTlsCertificate'' decode_bool;
          gw \<leftarrow> wire_option fs ''gatewayId'' as_str;
          gp \<leftarrow> wire_option fs ''gatewayPoolId'' as_str;
          created \<leftarrow> wire_field fs ''createdAt'' as_str;
          updated \<leftarrow> wire_field fs ''updatedAt'' as_str;
          Some \<lparr>rk_id = i, rk_identity_id = ident, rk_ttl = ttl, rk_max_ttl = max_ttl,
                rk_num_uses_limit = limit, rk_trusted_ips = ips, rk_review_mode = mode, rk_host = host,
                rk_allowed_namespaces = ns, rk_allowed_names = nm, rk_allowed_audience = au,
                rk_ca_cert = ca, rk_reviewer_jwt = jwt, rk_verify_tls = tls, rk_gateway_id = gw,
                rk_gateway_pool_id = gp, rk_created_at = created, rk_updated_at = updated\<rparr> }"

record kubernetes_auth_config =
  kc_id :: string
  kc_identity_id :: string
  kc_ttl :: nat
  kc_max_ttl :: nat
  kc_num_uses_limit :: nat
  kc_trusted_ips :: "trusted_ip list"
  kc_review_mode :: token_review_mode
  kc_host :: "string option"
  kc_allowed_namespaces :: "string list"
  kc_allowed_names :: "string list"
  kc_allowed_audience :: "string option"
  kc_ca_configured :: bool
  kc_reviewer_jwt_configured :: bool
  kc_verify_tls :: bool
  kc_gateway_id :: "string option"
  kc_gateway_pool_id :: "string option"
  kc_created_at :: string
  kc_updated_at :: string

definition split_patterns :: "string \<Rightarrow> string list" where
  "split_patterns value = filter (\<lambda>item. item \<noteq> []) (map str_trim (split_by ((=) (CHR '','')) value))"

definition non_empty :: "string \<Rightarrow> string option" where
  "non_empty value = (if value \<noteq> [] then Some value else None)"

definition kubernetes_config_of :: "raw_kubernetes_auth_config \<Rightarrow> kubernetes_auth_config" where
  "kubernetes_config_of r =
     \<lparr>kc_id = rk_id r, kc_identity_id = rk_identity_id r, kc_ttl = rk_ttl r, kc_max_ttl = rk_max_ttl r,
      kc_num_uses_limit = rk_num_uses_limit r, kc_trusted_ips = rk_trusted_ips r,
      kc_review_mode = rk_review_mode r, kc_host = rk_host r,
      kc_allowed_namespaces = split_patterns (rk_allowed_namespaces r),
      kc_allowed_names = split_patterns (rk_allowed_names r),
      kc_allowed_audience = non_empty (rk_allowed_audience r),
      kc_ca_configured = (rk_ca_cert r \<noteq> []),
      kc_reviewer_jwt_configured = (case rk_reviewer_jwt r of None \<Rightarrow> False | Some v \<Rightarrow> v \<noteq> []),
      kc_verify_tls = rk_verify_tls r, kc_gateway_id = rk_gateway_id r,
      kc_gateway_pool_id = rk_gateway_pool_id r, kc_created_at = rk_created_at r,
      kc_updated_at = rk_updated_at r\<rparr>"

definition decode_kubernetes_auth_response :: "json \<Rightarrow> raw_kubernetes_auth_config option" where
  "decode_kubernetes_auth_response j =
     do { fs \<leftarrow> wire_fields [(''identityKubernetesAuth'', Required_Field)] j;
          wire_field fs ''identityKubernetesAuth'' decode_raw_kubernetes_auth_config }"

section \<open>Requests\<close>

definition attach_kubernetes_auth_request :: "kubernetes_auth_settings \<Rightarrow> json" where
  "attach_kubernetes_auth_request s =
     Object
       ([(''kubernetesHost'', String (ks_host s))]
        @ optional_field ''caCert'' (map_option String (ks_ca_cert s))
        @ [(''verifyTlsCertificate'', Bool (ks_verify_tls s))]
        @ optional_field ''tokenReviewerJwt'' (map_option String (ks_reviewer_jwt s))
        @ [(''tokenReviewMode'', String (token_review_mode_name Api_Review)),
           (''allowedNamespaces'', String (ks_allowed_namespaces s)),
           (''allowedNames'', String (ks_allowed_names s)),
           (''allowedAudience'', String (ks_allowed_audience s)),
           (''accessTokenTTL'', Number (Unsigned (ks_ttl s))),
           (''accessTokenMaxTTL'', Number (Unsigned (ks_max_ttl s))),
           (''accessTokenNumUsesLimit'', Number (Unsigned (ks_num_uses_limit s)))])"

text \<open>The fields a change sets, in the order of the struct; the others are skipped.\<close>

fun update_kubernetes_auth_request :: "kubernetes_auth_change \<Rightarrow> json" where
  "update_kubernetes_auth_request (Kubernetes_Token_Lifetime ttl max_ttl) =
     Object [(''accessTokenTTL'', Number (Unsigned ttl)), (''accessTokenMaxTTL'', Number (Unsigned max_ttl))]"
| "update_kubernetes_auth_request (Kubernetes_Use_Limit limit) =
     Object [(''accessTokenNumUsesLimit'', Number (Unsigned limit))]"
| "update_kubernetes_auth_request (Kubernetes_Workload_Policy namespaces names audience) =
     Object [(''allowedNamespaces'', String namespaces), (''allowedNames'', String names),
             (''allowedAudience'', String audience)]"
| "update_kubernetes_auth_request (Kubernetes_Direct_Reviewer host ca verify jwt) =
     Object
       ([(''kubernetesHost'', String host),
         (''caCert'', case ca of Some c \<Rightarrow> String c | None \<Rightarrow> Null),
         (''verifyTlsCertificate'', Bool verify)]
        @ (case jwt of
             Preserve_Jwt \<Rightarrow> []
           | Replace_Jwt v \<Rightarrow> [(''tokenReviewerJwt'', String v)]
           | Clear_Jwt \<Rightarrow> [(''tokenReviewerJwt'', Null)])
        @ [(''tokenReviewMode'', String (token_review_mode_name Api_Review)),
           (''gatewayId'', Null), (''gatewayPoolId'', Null)])"

definition kubernetes_identity_request :: json where "kubernetes_identity_request = Object []"

definition kubernetes_auth_endpoint :: "string \<Rightarrow> endpoint" where
  "kubernetes_auth_endpoint identity_id =
     endpoint_from_segments V1 [''auth'', ''kubernetes-auth'', ''identities'', identity_id]"

section \<open>Operations\<close>

definition get_kubernetes_auth ::
    "api \<Rightarrow> string \<Rightarrow> world \<Rightarrow> (resource_error, kubernetes_auth_config) result \<times> world" where
  "get_kubernetes_auth ap identity_id w =
     apfst (map_sum id kubernetes_config_of)
       (api_read ap (kubernetes_auth_endpoint identity_id) [] decode_kubernetes_auth_response w)"

definition attach_kubernetes_auth ::
    "api \<Rightarrow> string \<Rightarrow> kubernetes_auth_settings \<Rightarrow> world
      \<Rightarrow> (resource_error, kubernetes_auth_config) result \<times> world" where
  "attach_kubernetes_auth ap identity_id settings w =
     apfst (map_sum id kubernetes_config_of)
       (api_mutate ap POST (kubernetes_auth_endpoint identity_id) (attach_kubernetes_auth_request settings)
          decode_kubernetes_auth_response w)"

definition update_kubernetes_auth ::
    "api \<Rightarrow> string \<Rightarrow> kubernetes_auth_change \<Rightarrow> world
      \<Rightarrow> (resource_error, kubernetes_auth_config) result \<times> world" where
  "update_kubernetes_auth ap identity_id change w =
     apfst (map_sum id kubernetes_config_of)
       (api_mutate ap PATCH (kubernetes_auth_endpoint identity_id) (update_kubernetes_auth_request change)
          decode_kubernetes_auth_response w)"

definition remove_kubernetes_auth ::
    "api \<Rightarrow> string \<Rightarrow> bool \<Rightarrow> world \<Rightarrow> (resource_error, kubernetes_auth_config) result \<times> world" where
  "remove_kubernetes_auth ap identity_id confirm w =
     (if \<not> confirm then (resource ''KubernetesAuthRemovalNotConfirmed'', w)
      else apfst (map_sum id kubernetes_config_of)
             (api_mutate ap DELETE (kubernetes_auth_endpoint identity_id) kubernetes_identity_request
                decode_kubernetes_auth_response w))"

end
