(* ===== verification/Identity_Auth_Tools.thy ===== *)
theory Identity_Auth_Tools
  imports Access_Tools Token_Auth_Api Kubernetes_Auth_Api
begin

text \<open>
  The tools for the authentication methods of machine identities in \<open>infisical-mcp/src/tools.rs\<close>:
  Universal Auth with its client secrets, Token Auth with its tokens, Kubernetes Auth.
\<close>

definition identity_of_input :: "string \<Rightarrow> (mcp_error, string) result" where
  "identity_of_input i = map_err invalid_input (new_identity_id i)"

text \<open>
  The unit variant of an internally tagged enum: what is left of an object is ignored, of an array
  nothing may be left.
\<close>

definition unit_content :: "json \<Rightarrow> bool" where
  "unit_content rest \<longleftrightarrow> (case rest of Object _ \<Rightarrow> True | Array xs \<Rightarrow> xs = [] | _ \<Rightarrow> False)"

section \<open>Universal Auth\<close>

definition invalid_universal_auth :: "universal_auth_input_error \<Rightarrow> mcp_error" where
  "invalid_universal_auth e = invalid_params (universal_auth_input_error_text e) None"

definition default_access_token_ttl :: nat where "default_access_token_ttl = 2592000"
definition default_lockout_threshold :: nat where "default_lockout_threshold = 3"
definition default_lockout_duration :: nat where "default_lockout_duration = 300"
definition default_lockout_counter_reset :: nat where "default_lockout_counter_reset = 30"

record universal_attach_input =
  ai_identity_id :: string
  ai_ttl :: nat
  ai_max_ttl :: nat
  ai_num_uses_limit :: nat
  ai_period :: nat
  ai_lockout_enabled :: bool
  ai_lockout_threshold :: nat
  ai_lockout_duration :: nat
  ai_lockout_counter_reset :: nat

definition decode_universal_attach :: "(string \<times> json) list \<Rightarrow> universal_attach_input option" where
  "decode_universal_attach m =
     do { fs \<leftarrow> strict_fields [(''identityId'', Required_Field), (''accessTokenTTL'', Default_Field),
            (''accessTokenMaxTTL'', Default_Field), (''accessTokenNumUsesLimit'', Default_Field),
            (''accessTokenPeriod'', Default_Field), (''lockoutEnabled'', Default_Field),
            (''lockoutThreshold'', Default_Field), (''lockoutDurationSeconds'', Default_Field),
            (''lockoutCounterResetSeconds'', Default_Field)] (Object m);
          i \<leftarrow> wire_field fs ''identityId'' as_str;
          ttl \<leftarrow> wire_default fs ''accessTokenTTL'' default_access_token_ttl decode_u32;
          max_ttl \<leftarrow> wire_default fs ''accessTokenMaxTTL'' default_access_token_ttl decode_u32;
          limit \<leftarrow> wire_default fs ''accessTokenNumUsesLimit'' 0 decode_u32;
          period \<leftarrow> wire_default fs ''accessTokenPeriod'' 0 decode_u32;
          le \<leftarrow> wire_default fs ''lockoutEnabled'' True decode_bool;
          lt \<leftarrow> wire_default fs ''lockoutThreshold'' default_lockout_threshold decode_u8;
          ld \<leftarrow> wire_default fs ''lockoutDurationSeconds'' default_lockout_duration decode_u32;
          lr \<leftarrow> wire_default fs ''lockoutCounterResetSeconds'' default_lockout_counter_reset decode_u32;
          Some \<lparr>ai_identity_id = i, ai_ttl = ttl, ai_max_ttl = max_ttl, ai_num_uses_limit = limit,
                ai_period = period, ai_lockout_enabled = le, ai_lockout_threshold = lt,
                ai_lockout_duration = ld, ai_lockout_counter_reset = lr\<rparr> }"

definition universal_attach_parts ::
    "universal_attach_input \<Rightarrow> (mcp_error, string \<times> universal_auth_settings) result" where
  "universal_attach_parts i =
     and_then (identity_of_input (ai_identity_id i)) (\<lambda>identity_id.
     and_then (map_err invalid_universal_auth
         (new_universal_auth_settings (ai_ttl i) (ai_max_ttl i) (ai_num_uses_limit i) (ai_period i)
            (ai_lockout_enabled i) (ai_lockout_threshold i) (ai_lockout_duration i)
            (ai_lockout_counter_reset i))) (\<lambda>settings.
       Ok (identity_id, settings)))"

text \<open>The change as it arrives carries what the change carries, before validation.\<close>

definition decode_universal_change :: "json \<Rightarrow> universal_auth_change option" where
  "decode_universal_change j =
     do { (t, rest) \<leftarrow> tagged_content j;
          if t = ''tokenLifetime''
          then do { fs \<leftarrow> strict_fields [(''accessTokenTTL'', Required_Field),
                      (''accessTokenMaxTTL'', Required_Field), (''accessTokenPeriod'', Required_Field)] rest;
                    ttl \<leftarrow> wire_field fs ''accessTokenTTL'' decode_u32;
                    max_ttl \<leftarrow> wire_field fs ''accessTokenMaxTTL'' decode_u32;
                    period \<leftarrow> wire_field fs ''accessTokenPeriod'' decode_u32;
                    Some (Universal_Token_Lifetime ttl max_ttl period) }
          else if t = ''accessTokenUseLimit''
          then do { fs \<leftarrow> strict_fields [(''limit'', Required_Field)] rest;
                    n \<leftarrow> wire_field fs ''limit'' decode_u32; Some (Universal_Use_Limit n) }
          else if t = ''lockoutPolicy''
          then do { fs \<leftarrow> strict_fields [(''enabled'', Required_Field), (''threshold'', Required_Field),
                      (''durationSeconds'', Required_Field), (''counterResetSeconds'', Required_Field)] rest;
                    e \<leftarrow> wire_field fs ''enabled'' decode_bool;
                    lt \<leftarrow> wire_field fs ''threshold'' decode_u8;
                    ld \<leftarrow> wire_field fs ''durationSeconds'' decode_u32;
                    lr \<leftarrow> wire_field fs ''counterResetSeconds'' decode_u32;
                    Some (Universal_Lockout \<lparr>lo_enabled = e, lo_threshold = lt, lo_duration_seconds = ld,
                      lo_counter_reset_seconds = lr\<rparr>) }
          else None }"

fun universal_change_of :: "universal_auth_change \<Rightarrow> (mcp_error, universal_auth_change) result" where
  "universal_change_of (Universal_Token_Lifetime ttl max_ttl period) =
     map_err invalid_universal_auth (universal_token_lifetime ttl max_ttl period)"
| "universal_change_of (Universal_Use_Limit limit) = Ok (Universal_Use_Limit limit)"
| "universal_change_of (Universal_Lockout p) =
     and_then (map_err invalid_universal_auth
         (new_lockout_policy (lo_enabled p) (lo_threshold p) (lo_duration_seconds p) (lo_counter_reset_seconds p)))
       (\<lambda>policy. Ok (Universal_Lockout policy))"

definition decode_universal_update :: "(string \<times> json) list \<Rightarrow> (string \<times> universal_auth_change) option" where
  "decode_universal_update m =
     do { fs \<leftarrow> strict_fields [(''identityId'', Required_Field), (''change'', Required_Field)] (Object m);
          i \<leftarrow> wire_field fs ''identityId'' as_str;
          c \<leftarrow> wire_field fs ''change'' decode_universal_change;
          Some (i, c) }"

text \<open>The removals of the three methods and the clearing of lockouts have the same fields.\<close>

definition decode_identity_confirm :: "(string \<times> json) list \<Rightarrow> (string \<times> bool) option" where
  "decode_identity_confirm m =
     do { fs \<leftarrow> strict_fields [(''identityId'', Required_Field), (''confirm'', Required_Field)] (Object m);
          i \<leftarrow> wire_field fs ''identityId'' as_str;
          c \<leftarrow> wire_field fs ''confirm'' decode_bool;
          Some (i, c) }"

definition decode_client_secrets_list :: "(string \<times> json) list \<Rightarrow> (string \<times> nat \<times> nat) option" where
  "decode_client_secrets_list m =
     do { fs \<leftarrow> strict_fields [(''identityId'', Required_Field), (''offset'', Default_Field),
            (''limit'', Default_Field)] (Object m);
          i \<leftarrow> wire_field fs ''identityId'' as_str;
          off \<leftarrow> decode_offset fs;
          l \<leftarrow> decode_limit fs;
          Some (i, off, l) }"

definition client_secrets_list_parts ::
    "string \<times> nat \<times> nat \<Rightarrow> (mcp_error, string \<times> page_request) result" where
  "client_secrets_list_parts i =
     (case i of (ident, off, l) \<Rightarrow>
        and_then (identity_of_input ident) (\<lambda>ident.
        and_then (page_request_of off l) (\<lambda>page. Ok (ident, page))))"

definition decode_client_secret_target :: "(string \<times> json) list \<Rightarrow> (string \<times> string) option" where
  "decode_client_secret_target m =
     do { fs \<leftarrow> strict_fields [(''identityId'', Required_Field), (''clientSecretId'', Required_Field)] (Object m);
          i \<leftarrow> wire_field fs ''identityId'' as_str;
          c \<leftarrow> wire_field fs ''clientSecretId'' as_str;
          Some (i, c) }"

definition client_secret_target_parts :: "string \<times> string \<Rightarrow> (mcp_error, string \<times> string) result" where
  "client_secret_target_parts i =
     and_then (identity_of_input (fst i)) (\<lambda>ident.
     and_then (map_err invalid_input (new_universal_auth_client_secret_id (snd i))) (\<lambda>c. Ok (ident, c)))"

record client_secret_create_input =
  cx_identity_id :: string
  cx_description :: string
  cx_num_uses_limit :: nat
  cx_ttl :: nat
  cx_delivery :: "secret_delivery_mode option"

definition decode_client_secret_create :: "(string \<times> json) list \<Rightarrow> client_secret_create_input option" where
  "decode_client_secret_create m =
     do { fs \<leftarrow> strict_fields [(''identityId'', Required_Field), (''description'', Default_Field),
            (''numUsesLimit'', Required_Field), (''ttl'', Required_Field), (''delivery'', Default_Field)] (Object m);
          i \<leftarrow> wire_field fs ''identityId'' as_str;
          d \<leftarrow> wire_default fs ''description'' [] as_str;
          n \<leftarrow> wire_field fs ''numUsesLimit'' decode_u32;
          ttl \<leftarrow> wire_field fs ''ttl'' decode_u32;
          mode \<leftarrow> wire_option fs ''delivery'' (decode_variant secret_delivery_variant);
          Some \<lparr>cx_identity_id = i, cx_description = d, cx_num_uses_limit = n, cx_ttl = ttl,
                cx_delivery = mode\<rparr> }"

definition client_secret_create_parts ::
    "client_secret_create_input \<Rightarrow> (mcp_error, string \<times> client_secret_creation) result" where
  "client_secret_create_parts i =
     and_then (identity_of_input (cx_identity_id i)) (\<lambda>ident.
     and_then (map_err invalid_universal_auth
         (new_client_secret_creation (cx_description i) (cx_num_uses_limit i) (cx_ttl i))) (\<lambda>c.
       Ok (ident, c)))"

definition decode_client_secret_revoke :: "(string \<times> json) list \<Rightarrow> ((string \<times> string) \<times> bool) option" where
  "decode_client_secret_revoke m =
     do { fs \<leftarrow> strict_fields [(''identityId'', Required_Field), (''clientSecretId'', Required_Field),
            (''confirm'', Required_Field)] (Object m);
          i \<leftarrow> wire_field fs ''identityId'' as_str;
          s \<leftarrow> wire_field fs ''clientSecretId'' as_str;
          c \<leftarrow> wire_field fs ''confirm'' decode_bool;
          Some ((i, s), c) }"

definition trusted_ip_json :: "trusted_ip \<Rightarrow> json" where
  "trusted_ip_json t =
     object_of [(''ipAddress'', String (ti_ip_address t)), (''type'', String (ti_address_type t)),
                (''prefix'', unsigned (ti_prefix t))]"

definition universal_auth_config_json :: "universal_auth_config \<Rightarrow> json" where
  "universal_auth_config_json c =
     object_of
       [(''id'', String (uc_id c)), (''clientId'', String (uc_client_id c)),
        (''identityId'', String (uc_identity_id c)), (''accessTokenTTL'', unsigned (uc_ttl c)),
        (''accessTokenMaxTTL'', unsigned (uc_max_ttl c)),
        (''accessTokenNumUsesLimit'', unsigned (uc_num_uses_limit c)),
        (''accessTokenPeriod'', unsigned (uc_period c)), (''lockoutEnabled'', Bool (uc_lockout_enabled c)),
        (''lockoutThreshold'', unsigned (uc_lockout_threshold c)),
        (''lockoutDurationSeconds'', unsigned (uc_lockout_duration c)),
        (''lockoutCounterResetSeconds'', unsigned (uc_lockout_counter_reset c)),
        (''clientSecretTrustedIps'', Array (map trusted_ip_json (uc_client_secret_trusted_ips c))),
        (''accessTokenTrustedIps'', Array (map trusted_ip_json (uc_access_token_trusted_ips c)))]"

definition client_secret_json :: "client_secret_metadata \<Rightarrow> json" where
  "client_secret_json c =
     object_of
       [(''id'', String (cm_id c)), (''description'', String (cm_description c)),
        (''clientSecretPrefix'', String (cm_prefix c)), (''clientSecretNumUses'', unsigned (cm_num_uses c)),
        (''clientSecretNumUsesLimit'', unsigned (cm_num_uses_limit c)),
        (''clientSecretTTL'', unsigned (cm_ttl c)), (''isClientSecretRevoked'', Bool (cm_is_revoked c)),
        (''identityUAId'', String (cm_identity_ua_id c)), (''createdAt'', String (cm_created_at c)),
        (''updatedAt'', String (cm_updated_at c))]"

definition lockout_clear_json :: "nat \<Rightarrow> json" where
  "lockout_clear_json n = object_of [(''deleted'', unsigned n)]"

text \<open>The credential is in the output only when it was not staged.\<close>

definition client_secret_output ::
    "created_client_secret \<Rightarrow> secret_file_reference option \<Rightarrow> json" where
  "client_secret_output c rf =
     object_of
       (optional_field ''clientSecret'' (if rf = None then Some (String (cc_client_secret c)) else None)
        @ optional_field ''secretFile'' (map_option file_reference_json rf)
        @ [(''metadata'', client_secret_json (cc_metadata c))])"

definition deliver_client_secret ::
    "tool_env \<Rightarrow> created_client_secret \<Rightarrow> secret_disposition \<Rightarrow> plane option
      \<Rightarrow> ((mcp_error, json) result \<times> plane option) option" where
  "deliver_client_secret E c =
     staged_output E UNIVERSAL_AUTH_CLIENT_SECRETS_CREATE_TOOL
       (object_of [(''clientSecret'', String (cc_client_secret c))]) (client_secret_output c)"

definition dispatch_universal_auth_client_secret_workflow ::
    "tool_env \<Rightarrow> call_params \<Rightarrow> tool_state \<Rightarrow> tool_outcome" where
  "dispatch_universal_auth_client_secret_workflow E params =
     (let name = cp_name params in
      if name = UNIVERSAL_AUTH_CLIENT_SECRETS_LIST_TOOL then
        with_input E ''UniversalAuthClientSecretsListInput'' decode_client_secrets_list
          ''identityUniversalAuth.clientSecrets.list arguments do not match the declared schema'' params (\<lambda>i.
          with_parts (client_secrets_list_parts i) (\<lambda>(identity_id, page).
            upstream_call E (tool_result E (page_json client_secret_json))
              (\<lambda>ap. list_universal_auth_client_secrets ap identity_id page)))
      else if name = UNIVERSAL_AUTH_CLIENT_SECRETS_GET_TOOL then
        with_input E ''UniversalAuthClientSecretTargetInput'' decode_client_secret_target
          ''identityUniversalAuth.clientSecrets.get arguments do not match the declared schema'' params (\<lambda>i.
          with_parts (client_secret_target_parts i) (\<lambda>(identity_id, client_secret_id).
            upstream_call E (tool_result E client_secret_json)
              (\<lambda>ap. get_universal_auth_client_secret ap identity_id client_secret_id)))
      else if name = UNIVERSAL_AUTH_CLIENT_SECRETS_CREATE_TOOL then
        with_input E ''UniversalAuthClientSecretCreateInput'' decode_client_secret_create
          ''identityUniversalAuth.clientSecrets.create arguments do not match the declared schema'' params (\<lambda>i.
          with_delivery E (cx_delivery i) (client_secret_create_parts i)
            (\<lambda>ap (identity_id, creation). create_universal_auth_client_secret ap identity_id creation)
            (deliver_client_secret E))
      else if name = UNIVERSAL_AUTH_CLIENT_SECRETS_REVOKE_TOOL then
        with_input E ''UniversalAuthClientSecretRevokeInput'' decode_client_secret_revoke
          ''identityUniversalAuth.clientSecrets.revoke arguments do not match the declared schema'' params (\<lambda>i.
          with_parts (client_secret_target_parts (fst i)) (\<lambda>(identity_id, client_secret_id).
            unless_confirmed (snd i) ''confirm must be true to revoke the exact Universal Auth client secret''
              (upstream_call E (tool_result E client_secret_json)
                (\<lambda>ap. revoke_universal_auth_client_secret ap identity_id client_secret_id True))))
      else (\<lambda>s. Some (Err method_not_found, s)))"

definition dispatch_universal_auth_workflow :: "tool_env \<Rightarrow> call_params \<Rightarrow> tool_state \<Rightarrow> tool_outcome" where
  "dispatch_universal_auth_workflow E params =
     (let name = cp_name params in
      if name = UNIVERSAL_AUTH_GET_TOOL then
        with_input E ''IdentityTargetInput'' decode_identity_target
          ''identityUniversalAuth.get arguments do not match the declared schema'' params (\<lambda>i.
          with_parts (identity_of_input i) (\<lambda>identity_id.
            upstream_call E (tool_result E universal_auth_config_json)
              (\<lambda>ap. get_universal_auth ap identity_id)))
      else if name = UNIVERSAL_AUTH_ATTACH_TOOL then
        with_input E ''UniversalAuthAttachInput'' decode_universal_attach
          ''identityUniversalAuth.attach arguments do not match the declared schema'' params (\<lambda>i.
          with_parts (universal_attach_parts i) (\<lambda>(identity_id, settings).
            upstream_call E (tool_result E universal_auth_config_json)
              (\<lambda>ap. attach_universal_auth ap identity_id settings)))
      else if name = UNIVERSAL_AUTH_UPDATE_TOOL then
        with_input E ''UniversalAuthUpdateInput'' decode_universal_update
          ''identityUniversalAuth.update arguments do not match the declared schema'' params (\<lambda>i.
          with_parts (identity_of_input (fst i)) (\<lambda>identity_id.
          with_parts (universal_change_of (snd i)) (\<lambda>change.
            upstream_call E (tool_result E universal_auth_config_json)
              (\<lambda>ap. update_universal_auth ap identity_id change))))
      else if name = UNIVERSAL_AUTH_REMOVE_TOOL then
        with_input E ''UniversalAuthRemoveInput'' decode_identity_confirm
          ''identityUniversalAuth.remove arguments do not match the declared schema'' params (\<lambda>i.
          with_parts (identity_of_input (fst i)) (\<lambda>identity_id.
            unless_confirmed (snd i)
              ''confirm must be true to remove Universal Auth and revoke its credentials''
              (upstream_call E (tool_result E universal_auth_config_json)
                (\<lambda>ap. remove_universal_auth ap identity_id True))))
      else if name = UNIVERSAL_AUTH_LOCKOUTS_CLEAR_TOOL then
        with_input E ''UniversalAuthLockoutsClearInput'' decode_identity_confirm
          ''identityUniversalAuth.lockouts.clear arguments do not match the declared schema'' params (\<lambda>i.
          with_parts (identity_of_input (fst i)) (\<lambda>identity_id.
            unless_confirmed (snd i) ''confirm must be true to clear Universal Auth lockouts''
              (upstream_call E (tool_result E lockout_clear_json)
                (\<lambda>ap. clear_universal_auth_lockouts ap identity_id True))))
      else dispatch_universal_auth_client_secret_workflow E params)"

section \<open>Token Auth\<close>

definition invalid_token_auth :: "token_auth_input_error \<Rightarrow> mcp_error" where
  "invalid_token_auth e = invalid_params (token_auth_input_error_text e) None"

definition decode_token_attach :: "(string \<times> json) list \<Rightarrow> (string \<times> nat \<times> nat \<times> nat) option" where
  "decode_token_attach m =
     do { fs \<leftarrow> strict_fields [(''identityId'', Required_Field), (''accessTokenTTL'', Required_Field),
            (''accessTokenMaxTTL'', Required_Field), (''accessTokenNumUsesLimit'', Required_Field)] (Object m);
          i \<leftarrow> wire_field fs ''identityId'' as_str;
          ttl \<leftarrow> wire_field fs ''accessTokenTTL'' decode_u32;
          max_ttl \<leftarrow> wire_field fs ''accessTokenMaxTTL'' decode_u32;
          limit \<leftarrow> wire_field fs ''accessTokenNumUsesLimit'' decode_u32;
          Some (i, ttl, max_ttl, limit) }"

definition token_attach_parts ::
    "string \<times> nat \<times> nat \<times> nat \<Rightarrow> (mcp_error, string \<times> token_auth_settings) result" where
  "token_attach_parts i =
     (case i of (ident, ttl, max_ttl, limit) \<Rightarrow>
        and_then (identity_of_input ident) (\<lambda>ident.
        and_then (map_err invalid_token_auth (new_token_auth_settings ttl max_ttl limit)) (\<lambda>settings.
          Ok (ident, settings))))"

definition decode_token_change :: "json \<Rightarrow> token_auth_change option" where
  "decode_token_change j =
     do { (t, rest) \<leftarrow> tagged_content j;
          if t = ''tokenLifetime''
          then do { fs \<leftarrow> strict_fields [(''accessTokenTTL'', Required_Field),
                      (''accessTokenMaxTTL'', Required_Field)] rest;
                    ttl \<leftarrow> wire_field fs ''accessTokenTTL'' decode_u32;
                    max_ttl \<leftarrow> wire_field fs ''accessTokenMaxTTL'' decode_u32;
                    Some (Token_Lifetime_Change ttl max_ttl) }
          else if t = ''accessTokenUseLimit''
          then do { fs \<leftarrow> strict_fields [(''limit'', Required_Field)] rest;
                    n \<leftarrow> wire_field fs ''limit'' decode_u32; Some (Token_Use_Limit n) }
          else None }"

fun token_change_of :: "token_auth_change \<Rightarrow> (mcp_error, token_auth_change) result" where
  "token_change_of (Token_Lifetime_Change ttl max_ttl) =
     map_err invalid_token_auth (token_lifetime_change ttl max_ttl)"
| "token_change_of (Token_Use_Limit limit) = Ok (Token_Use_Limit limit)"

definition decode_token_auth_update :: "(string \<times> json) list \<Rightarrow> (string \<times> token_auth_change) option" where
  "decode_token_auth_update m =
     do { fs \<leftarrow> strict_fields [(''identityId'', Required_Field), (''change'', Required_Field)] (Object m);
          i \<leftarrow> wire_field fs ''identityId'' as_str;
          c \<leftarrow> wire_field fs ''change'' decode_token_change;
          Some (i, c) }"

text \<open>The fields of \<open>TokenAuthTokensListInput\<close> are those of the client-secret listing.\<close>

definition tokens_list_parts :: "string \<times> nat \<times> nat \<Rightarrow> (mcp_error, string \<times> page_request) result" where
  "tokens_list_parts i =
     (case i of (ident, off, l) \<Rightarrow>
        if 100 < off
        then Err (invalid_params ''offset must not exceed 100 for the pinned Token Auth route'' None)
        else
          and_then (identity_of_input ident) (\<lambda>ident.
          and_then (page_request_of off l) (\<lambda>page. Ok (ident, page))))"

definition decode_token_target :: "(string \<times> json) list \<Rightarrow> string option" where
  "decode_token_target m =
     do { fs \<leftarrow> strict_fields [(''tokenId'', Required_Field)] (Object m); wire_field fs ''tokenId'' as_str }"

record token_create_input =
  tx_identity_id :: string
  tx_name :: "string option"
  tx_organization_slug :: "string option"
  tx_delivery :: "secret_delivery_mode option"

definition decode_token_create :: "(string \<times> json) list \<Rightarrow> token_create_input option" where
  "decode_token_create m =
     do { fs \<leftarrow> strict_fields [(''identityId'', Required_Field), (''name'', Option_Field),
            (''organizationSlug'', Option_Field), (''delivery'', Default_Field)] (Object m);
          i \<leftarrow> wire_field fs ''identityId'' as_str;
          n \<leftarrow> wire_option fs ''name'' as_str;
          slug \<leftarrow> wire_option fs ''organizationSlug'' as_str;
          mode \<leftarrow> wire_option fs ''delivery'' (decode_variant secret_delivery_variant);
          Some \<lparr>tx_identity_id = i, tx_name = n, tx_organization_slug = slug, tx_delivery = mode\<rparr> }"

definition token_create_parts :: "token_create_input \<Rightarrow> (mcp_error, string \<times> token_creation) result" where
  "token_create_parts i =
     and_then (identity_of_input (tx_identity_id i)) (\<lambda>ident.
     and_then (map_err invalid_token_auth (new_token_creation (tx_name i) (tx_organization_slug i))) (\<lambda>c.
       Ok (ident, c)))"

definition decode_token_update :: "(string \<times> json) list \<Rightarrow> (string \<times> string) option" where
  "decode_token_update m =
     do { fs \<leftarrow> strict_fields [(''tokenId'', Required_Field), (''name'', Required_Field)] (Object m);
          i \<leftarrow> wire_field fs ''tokenId'' as_str;
          n \<leftarrow> wire_field fs ''name'' as_str;
          Some (i, n) }"

definition decode_token_revoke :: "(string \<times> json) list \<Rightarrow> (string \<times> bool) option" where
  "decode_token_revoke m =
     do { fs \<leftarrow> strict_fields [(''tokenId'', Required_Field), (''confirm'', Required_Field)] (Object m);
          i \<leftarrow> wire_field fs ''tokenId'' as_str;
          c \<leftarrow> wire_field fs ''confirm'' decode_bool;
          Some (i, c) }"

definition token_of_input :: "string \<Rightarrow> (mcp_error, string) result" where
  "token_of_input i = map_err invalid_input (new_token_auth_token_id i)"

definition token_auth_config_json :: "token_auth_config \<Rightarrow> json" where
  "token_auth_config_json c =
     object_of
       [(''id'', String (tg_id c)), (''identityId'', String (tg_identity_id c)),
        (''accessTokenTTL'', unsigned (tg_ttl c)), (''accessTokenMaxTTL'', unsigned (tg_max_ttl c)),
        (''accessTokenNumUsesLimit'', unsigned (tg_num_uses_limit c)),
        (''accessTokenPeriod'', unsigned (tg_period c)),
        (''accessTokenTrustedIps'', Array (map trusted_ip_json (tg_trusted_ips c))),
        (''createdAt'', String (tg_created_at c)), (''updatedAt'', String (tg_updated_at c))]"

definition token_metadata_json :: "token_metadata \<Rightarrow> json" where
  "token_metadata_json t =
     object_of
       [(''id'', String (tm_id t)), (''identityId'', String (tm_identity_id t)),
        (''name'', option_json String (tm_name t)), (''authMethod'', String (tm_auth_method t)),
        (''accessTokenTTL'', unsigned (tm_ttl t)), (''accessTokenMaxTTL'', unsigned (tm_max_ttl t)),
        (''accessTokenNumUses'', unsigned (tm_num_uses t)),
        (''accessTokenNumUsesLimit'', unsigned (tm_num_uses_limit t)),
        (''accessTokenLastUsedAt'', option_json String (tm_last_used_at t)),
        (''accessTokenLastRenewedAt'', option_json String (tm_last_renewed_at t)),
        (''isAccessTokenRevoked'', Bool (tm_is_revoked t)), (''accessTokenPeriod'', unsigned (tm_period t)),
        (''subOrganizationId'', option_json String (tm_sub_organization_id t)),
        (''createdAt'', String (tm_created_at t)), (''updatedAt'', String (tm_updated_at t))]"

definition token_output :: "created_token \<Rightarrow> secret_file_reference option \<Rightarrow> json" where
  "token_output c rf =
     object_of
       (optional_field ''accessToken'' (if rf = None then Some (String (ct_access_token c)) else None)
        @ optional_field ''secretFile'' (map_option file_reference_json rf)
        @ [(''expiresIn'', unsigned (ct_expires_in c)), (''accessTokenMaxTTL'', unsigned (ct_max_ttl c)),
           (''metadata'', token_metadata_json (ct_metadata c))])"

definition deliver_token ::
    "tool_env \<Rightarrow> created_token \<Rightarrow> secret_disposition \<Rightarrow> plane option
      \<Rightarrow> ((mcp_error, json) result \<times> plane option) option" where
  "deliver_token E c =
     staged_output E TOKEN_AUTH_TOKENS_CREATE_TOOL
       (object_of [(''accessToken'', String (ct_access_token c))]) (token_output c)"

definition token_revocation_json :: "string \<Rightarrow> json" where
  "token_revocation_json message = object_of [(''message'', String message)]"

definition dispatch_token_auth_workflow :: "tool_env \<Rightarrow> call_params \<Rightarrow> tool_state \<Rightarrow> tool_outcome" where
  "dispatch_token_auth_workflow E params =
     (let name = cp_name params in
      if name = TOKEN_AUTH_GET_TOOL then
        with_input E ''IdentityTargetInput'' decode_identity_target
          ''identityTokenAuth.get arguments do not match the declared schema'' params (\<lambda>i.
          with_parts (identity_of_input i) (\<lambda>identity_id.
            upstream_call E (tool_result E token_auth_config_json) (\<lambda>ap. get_token_auth ap identity_id)))
      else if name = TOKEN_AUTH_ATTACH_TOOL then
        with_input E ''TokenAuthAttachInput'' decode_token_attach
          ''identityTokenAuth.attach arguments do not match the declared schema'' params (\<lambda>i.
          with_parts (token_attach_parts i) (\<lambda>(identity_id, settings).
            upstream_call E (tool_result E token_auth_config_json)
              (\<lambda>ap. attach_token_auth ap identity_id settings)))
      else if name = TOKEN_AUTH_UPDATE_TOOL then
        with_input E ''TokenAuthUpdateInput'' decode_token_auth_update
          ''identityTokenAuth.update arguments do not match the declared schema'' params (\<lambda>i.
          with_parts (identity_of_input (fst i)) (\<lambda>identity_id.
          with_parts (token_change_of (snd i)) (\<lambda>change.
            upstream_call E (tool_result E token_auth_config_json)
              (\<lambda>ap. update_token_auth ap identity_id change))))
      else if name = TOKEN_AUTH_REMOVE_TOOL then
        with_input E ''TokenAuthRemoveInput'' decode_identity_confirm
          ''identityTokenAuth.remove arguments do not match the declared schema'' params (\<lambda>i.
          with_parts (identity_of_input (fst i)) (\<lambda>identity_id.
            unless_confirmed (snd i)
              ''confirm must be true to remove Token Auth and revoke all of its credentials''
              (upstream_call E (tool_result E token_auth_config_json)
                (\<lambda>ap. remove_token_auth ap identity_id True))))
      else if name = TOKEN_AUTH_TOKENS_LIST_TOOL then
        with_input E ''TokenAuthTokensListInput'' decode_client_secrets_list
          ''identityTokenAuth.tokens.list arguments do not match the declared schema'' params (\<lambda>i.
          with_parts (tokens_list_parts i) (\<lambda>(identity_id, page).
            upstream_call E (tool_result E (page_json token_metadata_json))
              (\<lambda>ap. list_token_auth_tokens ap identity_id page)))
      else if name = TOKEN_AUTH_TOKENS_GET_TOOL then
        with_input E ''TokenAuthTokenTargetInput'' decode_token_target
          ''identityTokenAuth.tokens.get arguments do not match the declared schema'' params (\<lambda>i.
          with_parts (token_of_input i) (\<lambda>token.
            upstream_call E (tool_result E token_metadata_json) (\<lambda>ap. get_token_auth_token ap token)))
      else if name = TOKEN_AUTH_TOKENS_CREATE_TOOL then
        with_input E ''TokenAuthTokenCreateInput'' decode_token_create
          ''identityTokenAuth.tokens.create arguments do not match the declared schema'' params (\<lambda>i.
          with_delivery E (tx_delivery i) (token_create_parts i)
            (\<lambda>ap (identity_id, creation). create_token_auth_token ap identity_id creation)
            (deliver_token E))
      else if name = TOKEN_AUTH_TOKENS_UPDATE_TOOL then
        with_input E ''TokenAuthTokenUpdateInput'' decode_token_update
          ''identityTokenAuth.tokens.update arguments do not match the declared schema'' params (\<lambda>i.
          with_parts (token_of_input (fst i)) (\<lambda>token.
            upstream_call E (tool_result E token_metadata_json)
              (\<lambda>ap. update_token_auth_token ap token (snd i))))
      else if name = TOKEN_AUTH_TOKENS_REVOKE_TOOL then
        with_input E ''TokenAuthTokenRevokeInput'' decode_token_revoke
          ''identityTokenAuth.tokens.revoke arguments do not match the declared schema'' params (\<lambda>i.
          with_parts (token_of_input (fst i)) (\<lambda>token.
            unless_confirmed (snd i) ''confirm must be true to revoke the exact Token Auth credential''
              (upstream_call E (tool_result E token_revocation_json)
                (\<lambda>ap. revoke_token_auth_token ap token True))))
      else (\<lambda>s. Some (Err method_not_found, s)))"

section \<open>Kubernetes Auth\<close>

definition invalid_kubernetes_auth :: "kubernetes_auth_input_error \<Rightarrow> mcp_error" where
  "invalid_kubernetes_auth e = invalid_params (kubernetes_auth_input_error_text e) None"

record kubernetes_attach_input =
  kx_identity_id :: string
  kx_host :: string
  kx_ca_cert :: "string option"
  kx_verify_tls :: bool
  kx_reviewer_jwt :: "string option"
  kx_allowed_namespaces :: "string list"
  kx_allowed_names :: "string list"
  kx_allowed_audience :: string
  kx_ttl :: nat
  kx_max_ttl :: nat
  kx_num_uses_limit :: nat

definition decode_kubernetes_attach :: "(string \<times> json) list \<Rightarrow> kubernetes_attach_input option" where
  "decode_kubernetes_attach m =
     do { fs \<leftarrow> strict_fields [(''identityId'', Required_Field), (''kubernetesHost'', Required_Field),
            (''caCert'', Option_Field), (''verifyTlsCertificate'', Required_Field),
            (''tokenReviewerJwt'', Default_Field), (''allowedNamespaces'', Required_Field),
            (''allowedNames'', Required_Field), (''allowedAudience'', Required_Field),
            (''accessTokenTTL'', Required_Field), (''accessTokenMaxTTL'', Required_Field),
            (''accessTokenNumUsesLimit'', Required_Field)] (Object m);
          i \<leftarrow> wire_field fs ''identityId'' as_str;
          h \<leftarrow> wire_field fs ''kubernetesHost'' as_str;
          ca \<leftarrow> wire_option fs ''caCert'' as_str;
          v \<leftarrow> wire_field fs ''verifyTlsCertificate'' decode_bool;
          jwt \<leftarrow> wire_option fs ''tokenReviewerJwt'' as_str;
          ns \<leftarrow> wire_field fs ''allowedNamespaces'' (wire_list as_str);
          nm \<leftarrow> wire_field fs ''allowedNames'' (wire_list as_str);
          au \<leftarrow> wire_field fs ''allowedAudience'' as_str;
          ttl \<leftarrow> wire_field fs ''accessTokenTTL'' decode_u32;
          max_ttl \<leftarrow> wire_field fs ''accessTokenMaxTTL'' decode_u32;
          limit \<leftarrow> wire_field fs ''accessTokenNumUsesLimit'' decode_u32;
          Some \<lparr>kx_identity_id = i, kx_host = h, kx_ca_cert = ca, kx_verify_tls = v, kx_reviewer_jwt = jwt,
                kx_allowed_namespaces = ns, kx_allowed_names = nm, kx_allowed_audience = au, kx_ttl = ttl,
                kx_max_ttl = max_ttl, kx_num_uses_limit = limit\<rparr> }"

definition kubernetes_attach_parts ::
    "pki_library \<Rightarrow> kubernetes_attach_input \<Rightarrow> (mcp_error, string \<times> kubernetes_auth_settings) result" where
  "kubernetes_attach_parts K i =
     and_then (identity_of_input (kx_identity_id i)) (\<lambda>ident.
     and_then (map_err invalid_kubernetes_auth
         (new_kubernetes_auth_settings K (kx_host i) (kx_ca_cert i) (kx_verify_tls i) (kx_reviewer_jwt i)
            (kx_allowed_namespaces i) (kx_allowed_names i) (kx_allowed_audience i) (kx_ttl i) (kx_max_ttl i)
            (kx_num_uses_limit i))) (\<lambda>settings.
       Ok (ident, settings)))"

definition decode_reviewer_jwt_change :: "json \<Rightarrow> reviewer_jwt_change option" where
  "decode_reviewer_jwt_change j =
     do { (t, rest) \<leftarrow> tagged_content j;
          if t = ''preserve'' \<and> unit_content rest then Some Preserve_Jwt
          else if t = ''replace''
          then do { fs \<leftarrow> strict_fields [(''value'', Required_Field)] rest;
                    v \<leftarrow> wire_field fs ''value'' as_str; Some (Replace_Jwt v) }
          else if t = ''clear'' \<and> unit_content rest then Some Clear_Jwt
          else None }"

text \<open>A change as it arrives: the policy still lists its patterns.\<close>

datatype kubernetes_change_input =
    Kubernetes_Lifetime_Input nat nat
  | Kubernetes_Limit_Input nat
  | Kubernetes_Policy_Input "string list" "string list" string
  | Kubernetes_Reviewer_Input string "string option" bool reviewer_jwt_change

definition decode_kubernetes_change :: "json \<Rightarrow> kubernetes_change_input option" where
  "decode_kubernetes_change j =
     do { (t, rest) \<leftarrow> tagged_content j;
          if t = ''tokenLifetime''
          then do { fs \<leftarrow> strict_fields [(''accessTokenTTL'', Required_Field),
                      (''accessTokenMaxTTL'', Required_Field)] rest;
                    ttl \<leftarrow> wire_field fs ''accessTokenTTL'' decode_u32;
                    max_ttl \<leftarrow> wire_field fs ''accessTokenMaxTTL'' decode_u32;
                    Some (Kubernetes_Lifetime_Input ttl max_ttl) }
          else if t = ''accessTokenUseLimit''
          then do { fs \<leftarrow> strict_fields [(''limit'', Required_Field)] rest;
                    n \<leftarrow> wire_field fs ''limit'' decode_u32; Some (Kubernetes_Limit_Input n) }
          else if t = ''workloadPolicy''
          then do { fs \<leftarrow> strict_fields [(''allowedNamespaces'', Required_Field),
                      (''allowedNames'', Required_Field), (''allowedAudience'', Required_Field)] rest;
                    ns \<leftarrow> wire_field fs ''allowedNamespaces'' (wire_list as_str);
                    nm \<leftarrow> wire_field fs ''allowedNames'' (wire_list as_str);
                    au \<leftarrow> wire_field fs ''allowedAudience'' as_str;
                    Some (Kubernetes_Policy_Input ns nm au) }
          else if t = ''directReviewer''
          then do { fs \<leftarrow> strict_fields [(''kubernetesHost'', Required_Field), (''caCert'', Option_Field),
                      (''verifyTlsCertificate'', Required_Field), (''tokenReviewerJwt'', Required_Field)] rest;
                    h \<leftarrow> wire_field fs ''kubernetesHost'' as_str;
                    ca \<leftarrow> wire_option fs ''caCert'' as_str;
                    v \<leftarrow> wire_field fs ''verifyTlsCertificate'' decode_bool;
                    jwt \<leftarrow> wire_field fs ''tokenReviewerJwt'' decode_reviewer_jwt_change;
                    Some (Kubernetes_Reviewer_Input h ca v jwt) }
          else None }"

fun kubernetes_change_of ::
    "pki_library \<Rightarrow> kubernetes_change_input \<Rightarrow> (mcp_error, kubernetes_auth_change) result" where
  "kubernetes_change_of K (Kubernetes_Lifetime_Input ttl max_ttl) =
     map_err invalid_kubernetes_auth (kubernetes_token_lifetime ttl max_ttl)"
| "kubernetes_change_of K (Kubernetes_Limit_Input limit) = Ok (Kubernetes_Use_Limit limit)"
| "kubernetes_change_of K (Kubernetes_Policy_Input namespaces names audience) =
     map_err invalid_kubernetes_auth (kubernetes_workload_policy namespaces names audience)"
| "kubernetes_change_of K (Kubernetes_Reviewer_Input host ca verify jwt) =
     map_err invalid_kubernetes_auth (kubernetes_direct_reviewer K host ca verify jwt)"

definition decode_kubernetes_update ::
    "(string \<times> json) list \<Rightarrow> (string \<times> kubernetes_change_input) option" where
  "decode_kubernetes_update m =
     do { fs \<leftarrow> strict_fields [(''identityId'', Required_Field), (''change'', Required_Field)] (Object m);
          i \<leftarrow> wire_field fs ''identityId'' as_str;
          c \<leftarrow> wire_field fs ''change'' decode_kubernetes_change;
          Some (i, c) }"

definition kubernetes_auth_config_json :: "kubernetes_auth_config \<Rightarrow> json" where
  "kubernetes_auth_config_json c =
     object_of
       [(''id'', String (kc_id c)), (''identityId'', String (kc_identity_id c)),
        (''accessTokenTTL'', unsigned (kc_ttl c)), (''accessTokenMaxTTL'', unsigned (kc_max_ttl c)),
        (''accessTokenNumUsesLimit'', unsigned (kc_num_uses_limit c)),
        (''accessTokenTrustedIps'', Array (map trusted_ip_json (kc_trusted_ips c))),
        (''tokenReviewMode'', String (token_review_mode_name (kc_review_mode c))),
        (''kubernetesHost'', option_json String (kc_host c)),
        (''allowedNamespaces'', Array (map String (kc_allowed_namespaces c))),
        (''allowedNames'', Array (map String (kc_allowed_names c))),
        (''allowedAudience'', option_json String (kc_allowed_audience c)),
        (''caCertificateConfigured'', Bool (kc_ca_configured c)),
        (''tokenReviewerJwtConfigured'', Bool (kc_reviewer_jwt_configured c)),
        (''verifyTlsCertificate'', Bool (kc_verify_tls c)),
        (''gatewayId'', option_json String (kc_gateway_id c)),
        (''gatewayPoolId'', option_json String (kc_gateway_pool_id c)),
        (''createdAt'', String (kc_created_at c)), (''updatedAt'', String (kc_updated_at c))]"

definition dispatch_kubernetes_auth_workflow :: "tool_env \<Rightarrow> call_params \<Rightarrow> tool_state \<Rightarrow> tool_outcome" where
  "dispatch_kubernetes_auth_workflow E params =
     (let name = cp_name params in
      if name = KUBERNETES_AUTH_GET_TOOL then
        with_input E ''IdentityTargetInput'' decode_identity_target
          ''identityKubernetesAuth.get arguments do not match the declared schema'' params (\<lambda>i.
          with_parts (identity_of_input i) (\<lambda>identity_id.
            upstream_call E (tool_result E kubernetes_auth_config_json)
              (\<lambda>ap. get_kubernetes_auth ap identity_id)))
      else if name = KUBERNETES_AUTH_ATTACH_TOOL then
        with_input E ''KubernetesAuthAttachInput'' decode_kubernetes_attach
          ''identityKubernetesAuth.attach arguments do not match the declared schema'' params (\<lambda>i.
          with_parts (kubernetes_attach_parts (te_pki E) i) (\<lambda>(identity_id, settings).
            upstream_call E (tool_result E kubernetes_auth_config_json)
              (\<lambda>ap. attach_kubernetes_auth ap identity_id settings)))
      else if name = KUBERNETES_AUTH_UPDATE_TOOL then
        with_input E ''KubernetesAuthUpdateInput'' decode_kubernetes_update
          ''identityKubernetesAuth.update arguments do not match the declared schema'' params (\<lambda>i.
          with_parts (identity_of_input (fst i)) (\<lambda>identity_id.
          with_parts (kubernetes_change_of (te_pki E) (snd i)) (\<lambda>change.
            upstream_call E (tool_result E kubernetes_auth_config_json)
              (\<lambda>ap. update_kubernetes_auth ap identity_id change))))
      else if name = KUBERNETES_AUTH_REMOVE_TOOL then
        with_input E ''KubernetesAuthRemoveInput'' decode_identity_confirm
          ''identityKubernetesAuth.remove arguments do not match the declared schema'' params (\<lambda>i.
          with_parts (identity_of_input (fst i)) (\<lambda>identity_id.
            unless_confirmed (snd i)
              ''confirm must be true to remove Kubernetes Auth and revoke its derived tokens''
              (upstream_call E (tool_result E kubernetes_auth_config_json)
                (\<lambda>ap. remove_kubernetes_auth ap identity_id True))))
      else (\<lambda>s. Some (Err method_not_found, s)))"

text \<open>The three methods, by the names that belong to each.\<close>

definition dispatch_identity_auth_workflow :: "tool_env \<Rightarrow> call_params \<Rightarrow> tool_state \<Rightarrow> tool_outcome" where
  "dispatch_identity_auth_workflow E params =
     (if cp_name params \<in> {KUBERNETES_AUTH_GET_TOOL, KUBERNETES_AUTH_ATTACH_TOOL, KUBERNETES_AUTH_UPDATE_TOOL,
            KUBERNETES_AUTH_REMOVE_TOOL}
      then dispatch_kubernetes_auth_workflow E params
      else if cp_name params \<in> {TOKEN_AUTH_GET_TOOL, TOKEN_AUTH_ATTACH_TOOL, TOKEN_AUTH_UPDATE_TOOL,
            TOKEN_AUTH_REMOVE_TOOL, TOKEN_AUTH_TOKENS_LIST_TOOL, TOKEN_AUTH_TOKENS_GET_TOOL,
            TOKEN_AUTH_TOKENS_CREATE_TOOL, TOKEN_AUTH_TOKENS_UPDATE_TOOL, TOKEN_AUTH_TOKENS_REVOKE_TOOL}
      then dispatch_token_auth_workflow E params
      else dispatch_universal_auth_workflow E params)"

end
