(* ===== verification/Additional_Privileges_Api.thy ===== *)
theory Additional_Privileges_Api
  imports Roles_Api Api_Values Utc_Timestamp
begin

text \<open>
  \<open>infisical-api/src/identity_project_additional_privileges.rs\<close>: permission rules given to one machine
  identity in one project, for good or for a window of time. The upstream answers without the scope it
  was asked for, so every answer is bound to that scope and checked against what was requested.
\<close>

section \<open>Inputs\<close>

definition max_additional_privilege_slug_bytes :: nat where "max_additional_privilege_slug_bytes = 60"
definition max_permission_text_bytes :: nat where "max_permission_text_bytes = 128"
definition max_additional_privilege_permissions :: nat where "max_additional_privilege_permissions = 256"
definition max_additional_privilege_actions :: nat where "max_additional_privilege_actions = 64"
definition max_additional_privilege_condition_bytes :: nat where
  "max_additional_privilege_condition_bytes = 65536"
definition max_additional_privilege_duration_seconds :: nat where
  "max_additional_privilege_duration_seconds = 315360000"

datatype additional_privilege_input_error =
  Invalid_Privilege_Slug | Invalid_Privilege_Duration | Invalid_Privilege_Start_Time
  | Too_Many_Permissions | Invalid_Permission_Subject | Invalid_Permission_Actions
  | Inverted_Permissions_Not_Confirmed | Permission_Replacement_Not_Confirmed | Condition_Too_Large

primrec additional_privilege_input_error_text :: "additional_privilege_input_error \<Rightarrow> string" where
  "additional_privilege_input_error_text Invalid_Privilege_Slug =
     ''additional privilege slug must contain 1 to 60 lowercase letters or numbers separated by single hyphens''"
| "additional_privilege_input_error_text Invalid_Privilege_Duration =
     ''temporary privilege duration must be between 1 and 315360000 seconds''"
| "additional_privilege_input_error_text Invalid_Privilege_Start_Time =
     ''temporary privilege start time must use canonical YYYY-MM-DDTHH:MM:SSZ UTC form''"
| "additional_privilege_input_error_text Too_Many_Permissions =
     ''additional privileges may contain at most 256 permission rules''"
| "additional_privilege_input_error_text Invalid_Permission_Subject =
     ''each additional privilege permission must contain one bounded subject''"
| "additional_privilege_input_error_text Invalid_Permission_Actions =
     ''each additional privilege permission must contain 1 to 64 bounded actions''"
| "additional_privilege_input_error_text Inverted_Permissions_Not_Confirmed =
     ''creating inverted permissions requires explicit deny acknowledgement''"
| "additional_privilege_input_error_text Permission_Replacement_Not_Confirmed =
     ''replacing additional privilege permissions requires explicit acknowledgement''"
| "additional_privilege_input_error_text Condition_Too_Large =
     ''each additional privilege condition must serialize to at most 65536 bytes''"

definition new_privilege_slug :: "string \<Rightarrow> (additional_privilege_input_error, string) result" where
  "new_privilege_slug value =
     (if value = [] \<or> max_additional_privilege_slug_bytes < length value
         \<or> list_ex (\<lambda>segment. segment = []
               \<or> \<not> list_all (\<lambda>b. is_ascii_lowercase b \<or> is_ascii_digit b) segment)
             (split_by ((=) (CHR ''-'')) value)
      then Err Invalid_Privilege_Slug else Ok value)"

definition is_canonical_utc_timestamp :: "string \<Rightarrow> bool" where
  "is_canonical_utc_timestamp value \<longleftrightarrow> length value = 20 \<and> utc_timestamp_millis value \<noteq> None"

definition new_privilege_start_time :: "string \<Rightarrow> (additional_privilege_input_error, string) result" where
  "new_privilege_start_time value =
     (if \<not> is_canonical_utc_timestamp value then Err Invalid_Privilege_Start_Time else Ok value)"

datatype privilege_lifetime = Permanent_Privilege | Temporary_Privilege nat string

definition temporary_lifetime :: "nat \<Rightarrow> string \<Rightarrow> (additional_privilege_input_error, privilege_lifetime) result" where
  "temporary_lifetime duration_seconds start_time =
     (if \<not> (1 \<le> duration_seconds \<and> duration_seconds \<le> max_additional_privilege_duration_seconds)
      then Err Invalid_Privilege_Duration
      else Ok (Temporary_Privilege duration_seconds start_time))"

text \<open>\<open>json\<close> writes a value as \<open>serde_json::to_vec\<close> does, which for a \<open>Value\<close> cannot fail.\<close>

definition bounded_text :: "string \<Rightarrow> bool" where
  "bounded_text s \<longleftrightarrow> s \<noteq> [] \<and> length s \<le> max_permission_text_bytes \<and> str_trim s = s \<and> \<not> has_control s"

fun validate_permissions_from ::
    "(json \<Rightarrow> string) \<Rightarrow> role_permission list \<Rightarrow> (additional_privilege_input_error, unit) result" where
  "validate_permissions_from json [] = Ok ()"
| "validate_permissions_from json (p # ps) =
     (if \<not> (case rp_subject p of None \<Rightarrow> False | Some subject \<Rightarrow> bounded_text subject)
      then Err Invalid_Permission_Subject
      else if rp_action p = [] \<or> max_additional_privilege_actions < length (rp_action p)
              \<or> list_ex (\<lambda>action. \<not> bounded_text action) (rp_action p)
      then Err Invalid_Permission_Actions
      else if (case rp_conditions p of None \<Rightarrow> False
               | Some c \<Rightarrow> max_additional_privilege_condition_bytes < length (json c))
      then Err Condition_Too_Large
      else validate_permissions_from json ps)"

definition validate_permissions ::
    "(json \<Rightarrow> string) \<Rightarrow> role_permission list \<Rightarrow> (additional_privilege_input_error, unit) result" where
  "validate_permissions json permissions =
     (if max_additional_privilege_permissions < length permissions then Err Too_Many_Permissions
      else validate_permissions_from json permissions)"

record privilege_creation =
  pc_slug :: "string option"
  pc_permissions :: "role_permission list"
  pc_lifetime :: privilege_lifetime

definition new_privilege_creation ::
    "(json \<Rightarrow> string) \<Rightarrow> string option \<Rightarrow> role_permission list \<Rightarrow> bool \<Rightarrow> privilege_lifetime
      \<Rightarrow> (additional_privilege_input_error, privilege_creation) result" where
  "new_privilege_creation json slug permissions confirm_deny_permissions lifetime =
     and_then (validate_permissions json permissions) (\<lambda>_.
       if list_ex rp_inverted permissions \<and> \<not> confirm_deny_permissions
       then Err Inverted_Permissions_Not_Confirmed
       else Ok \<lparr>pc_slug = slug, pc_permissions = permissions, pc_lifetime = lifetime\<rparr>)"

record privilege_change =
  pg_slug :: string
  pg_permissions :: "role_permission list option"
  pg_lifetime :: privilege_lifetime

definition new_privilege_change ::
    "(json \<Rightarrow> string) \<Rightarrow> string \<Rightarrow> role_permission list option \<Rightarrow> bool \<Rightarrow> privilege_lifetime
      \<Rightarrow> (additional_privilege_input_error, privilege_change) result" where
  "new_privilege_change json slug permissions confirm_replace_permissions lifetime =
     (if permissions \<noteq> None \<and> \<not> confirm_replace_permissions then Err Permission_Replacement_Not_Confirmed
      else and_then (case permissions of None \<Rightarrow> Ok () | Some ps \<Rightarrow> validate_permissions json ps) (\<lambda>_.
        Ok \<lparr>pg_slug = slug, pg_permissions = permissions, pg_lifetime = lifetime\<rparr>))"

section \<open>Durations\<close>

definition checked_u128 :: "nat \<Rightarrow> nat option" where
  "checked_u128 n = (if n < 2 ^ 128 then Some n else None)"

definition parse_u128 :: "string \<Rightarrow> nat option" where
  "parse_u128 s = (case parse_uint (2 ^ 128 - 1) s of Inl _ \<Rightarrow> None | Inr n \<Rightarrow> Some n)"

definition is_numeric_byte :: "char \<Rightarrow> bool" where
  "is_numeric_byte b \<longleftrightarrow> is_ascii_digit b \<or> b = CHR ''.''"

text \<open>The whole part, the fraction and its scale; a second point is refused.\<close>

definition decimal_parts :: "string \<Rightarrow> (nat \<times> nat \<times> nat) option" where
  "decimal_parts numeric =
     (case split_once ''.'' numeric of
        Some (whole, fraction) \<Rightarrow>
          if CHR ''.'' \<in> set fraction then None
          else do { scale \<leftarrow> checked_u128 (10 ^ length fraction);
                    n \<leftarrow> parse_u128 whole;
                    f \<leftarrow> parse_u128 fraction;
                    Some (n, f, scale) }
      | None \<Rightarrow> do { n \<leftarrow> parse_u128 numeric; Some (n, 0, 1) })"

definition unit_millis :: "string \<Rightarrow> nat option" where
  "unit_millis u =
     (if u \<in> {'''', ''ms'', ''msec'', ''msecs'', ''millisecond'', ''milliseconds''} then Some 1
      else if u \<in> {''s'', ''sec'', ''secs'', ''second'', ''seconds''} then Some 1000
      else if u \<in> {''m'', ''min'', ''mins'', ''minute'', ''minutes''} then Some 60000
      else if u \<in> {''h'', ''hr'', ''hrs'', ''hour'', ''hours''} then Some 3600000
      else if u \<in> {''d'', ''day'', ''days''} then Some 86400000
      else if u \<in> {''w'', ''week'', ''weeks''} then Some 604800000
      else if u \<in> {''y'', ''yr'', ''yrs'', ''year'', ''years''} then Some 31557600000
      else None)"

text \<open>\<open>str::trim_start\<close>.\<close>

definition str_trim_start :: "string \<Rightarrow> string" where
  "str_trim_start s = encode_chars (dropWhile is_whitespace (str_chars s))"

definition duration_millis :: "string \<Rightarrow> nat option" where
  "duration_millis value =
     (if 64 < length value then None
      else do {
        (n, f, scale) \<leftarrow> decimal_parts (takeWhile is_numeric_byte value);
        u \<leftarrow> unit_millis (to_ascii_lowercase (str_trim_start (dropWhile is_numeric_byte value)));
        scaled_whole \<leftarrow> checked_u128 (n * scale);
        numerator \<leftarrow> checked_u128 (scaled_whole + f);
        scaled_millis \<leftarrow> checked_u128 (numerator * u);
        if scaled_millis mod scale \<noteq> 0 then None
        else (let millis = scaled_millis div scale in
              if millis < 2 ^ 64 \<and> 0 < millis \<and> millis \<le> max_additional_privilege_duration_seconds * 1000
              then Some millis else None) })"

section \<open>Requests\<close>

fun lifetime_request :: "privilege_lifetime \<Rightarrow> json" where
  "lifetime_request Permanent_Privilege = Object [(''isTemporary'', Bool False)]"
| "lifetime_request (Temporary_Privilege duration_seconds start_time) =
     Object [(''isTemporary'', Bool True), (''temporaryMode'', String ''relative''),
             (''temporaryRange'', String (show_nat duration_seconds @ ''s'')),
             (''temporaryAccessStartTime'', String start_time)]"

definition permissions_request :: "role_permission list \<Rightarrow> json" where
  "permissions_request ps = Array (map (\<lambda>p. Object (role_permission_fields p)) ps)"

definition list_privileges_query :: "string \<Rightarrow> string \<Rightarrow> (string \<times> string) list" where
  "list_privileges_query identity_id project_id = [(''identityId'', identity_id), (''projectId'', project_id)]"

definition privilege_by_slug_query :: "string \<Rightarrow> string \<Rightarrow> (string \<times> string) list" where
  "privilege_by_slug_query identity_id project_slug =
     [(''identityId'', identity_id), (''projectSlug'', project_slug)]"

definition create_privilege_request :: "string \<Rightarrow> string \<Rightarrow> privilege_creation \<Rightarrow> json" where
  "create_privilege_request identity_id project_id c =
     Object ([(''identityId'', String identity_id), (''projectId'', String project_id)]
       @ optional_field ''slug'' (map_option String (pc_slug c))
       @ [(''permissions'', permissions_request (pc_permissions c)),
          (''type'', lifetime_request (pc_lifetime c))])"

definition update_privilege_request :: "privilege_change \<Rightarrow> json" where
  "update_privilege_request c =
     Object ([(''slug'', String (pg_slug c))]
       @ optional_field ''permissions'' (map_option permissions_request (pg_permissions c))
       @ [(''type'', lifetime_request (pg_lifetime c))])"

definition delete_privilege_request :: json where "delete_privilege_request = Object []"

section \<open>Answers\<close>

record privilege_summary =
  pv_id :: string
  pv_slug :: string
  pv_identity_id :: string
  pv_project_id :: string
  pv_is_temporary :: bool
  pv_mode :: "string option"
  pv_range :: "string option"
  pv_access_start :: "string option"
  pv_access_end :: "string option"
  pv_created_at :: string
  pv_updated_at :: string

record additional_privilege =
  ap_summary :: privilege_summary
  ap_permissions :: "role_permission list"

text \<open>As it arrives: without the scope, or with it.\<close>

record privilege_summary_wire =
  pw_id :: string
  pw_slug :: string
  pw_identity_id :: "string option"
  pw_project_id :: "string option"
  pw_is_temporary :: bool
  pw_mode :: "string option"
  pw_range :: "string option"
  pw_access_start :: "string option"
  pw_access_end :: "string option"
  pw_created_at :: string
  pw_updated_at :: string

definition decode_privilege_summary_wire :: "json \<Rightarrow> privilege_summary_wire option" where
  "decode_privilege_summary_wire j =
     do { fs \<leftarrow> wire_fields [(''id'', Required_Field), (''slug'', Required_Field),
            (''identityId'', Default_Field), (''projectId'', Default_Field), (''isTemporary'', Required_Field),
            (''temporaryMode'', Default_Field), (''temporaryRange'', Default_Field),
            (''temporaryAccessStartTime'', Default_Field), (''temporaryAccessEndTime'', Default_Field),
            (''createdAt'', Required_Field), (''updatedAt'', Required_Field)] j;
          i \<leftarrow> wire_field fs ''id'' as_str;
          s \<leftarrow> wire_field fs ''slug'' as_str;
          ident \<leftarrow> wire_option fs ''identityId'' as_str;
          project \<leftarrow> wire_option fs ''projectId'' as_str;
          t \<leftarrow> wire_field fs ''isTemporary'' decode_bool;
          mode \<leftarrow> wire_option fs ''temporaryMode'' as_str;
          range \<leftarrow> wire_option fs ''temporaryRange'' as_str;
          start \<leftarrow> wire_option fs ''temporaryAccessStartTime'' as_str;
          stop \<leftarrow> wire_option fs ''temporaryAccessEndTime'' as_str;
          c \<leftarrow> wire_field fs ''createdAt'' as_str;
          u \<leftarrow> wire_field fs ''updatedAt'' as_str;
          Some \<lparr>pw_id = i, pw_slug = s, pw_identity_id = ident, pw_project_id = project,
                pw_is_temporary = t, pw_mode = mode, pw_range = range, pw_access_start = start,
                pw_access_end = stop, pw_created_at = c, pw_updated_at = u\<rparr> }"

definition bind_summary_scope ::
    "string \<Rightarrow> string \<Rightarrow> privilege_summary_wire \<Rightarrow> (resource_error, privilege_summary) result" where
  "bind_summary_scope project_id identity_id v =
     (if (case pw_project_id v of None \<Rightarrow> False | Some actual \<Rightarrow> actual \<noteq> project_id)
         \<or> (case pw_identity_id v of None \<Rightarrow> False | Some actual \<Rightarrow> actual \<noteq> identity_id)
      then resource ''InvalidAdditionalPrivilegeScope''
      else Ok \<lparr>pv_id = pw_id v, pv_slug = pw_slug v, pv_identity_id = identity_id,
              pv_project_id = project_id, pv_is_temporary = pw_is_temporary v, pv_mode = pw_mode v,
              pv_range = pw_range v, pv_access_start = pw_access_start v, pv_access_end = pw_access_end v,
              pv_created_at = pw_created_at v, pv_updated_at = pw_updated_at v\<rparr>)"

text \<open>The summary is flattened: the privilege is an object, whose other entries are the summary's.\<close>

definition decode_privilege_wire :: "json \<Rightarrow> (privilege_summary_wire \<times> role_permission list) option" where
  "decode_privilege_wire j =
     (case j of
        Object m \<Rightarrow>
          do { fs \<leftarrow> wire_fields [(''permissions'', Required_Field)] j;
               s \<leftarrow> decode_privilege_summary_wire (Object (filter (\<lambda>kv. fst kv \<noteq> ''permissions'') m));
               ps \<leftarrow> wire_field fs ''permissions'' (wire_list decode_role_permission);
               Some (s, ps) }
      | _ \<Rightarrow> None)"

definition bind_privilege_scope ::
    "string \<Rightarrow> string \<Rightarrow> privilege_summary_wire \<times> role_permission list
      \<Rightarrow> (resource_error, additional_privilege) result" where
  "bind_privilege_scope project_id identity_id v =
     and_then (bind_summary_scope project_id identity_id (fst v)) (\<lambda>s.
       Ok \<lparr>ap_summary = s, ap_permissions = snd v\<rparr>)"

definition decode_privileges_response :: "json \<Rightarrow> privilege_summary_wire list option" where
  "decode_privileges_response j =
     do { fs \<leftarrow> wire_fields [(''privileges'', Required_Field)] j;
          wire_field fs ''privileges'' (wire_list decode_privilege_summary_wire) }"

definition decode_privilege_response :: "json \<Rightarrow> (privilege_summary_wire \<times> role_permission list) option" where
  "decode_privilege_response j =
     do { fs \<leftarrow> wire_fields [(''privilege'', Required_Field)] j;
          wire_field fs ''privilege'' decode_privilege_wire }"

section \<open>Checking an answer\<close>

record temporary_schedule =
  ts_duration_millis :: nat
  ts_start_millis :: int

definition validate_summary ::
    "privilege_summary \<Rightarrow> string \<Rightarrow> string \<Rightarrow> string option \<Rightarrow> string option
      \<Rightarrow> (resource_error, temporary_schedule option) result" where
  "validate_summary s project_id identity_id privilege_id slug =
     (if pv_project_id s \<noteq> project_id \<or> pv_identity_id s \<noteq> identity_id
         \<or> (case privilege_id of None \<Rightarrow> False | Some expected \<Rightarrow> pv_id s \<noteq> expected)
         \<or> (case slug of None \<Rightarrow> False | Some expected \<Rightarrow> pv_slug s \<noteq> expected)
      then resource ''InvalidAdditionalPrivilegeScope''
      else if \<not> pv_is_temporary s then
        (if pv_mode s = None \<and> pv_range s = None \<and> pv_access_start s = None \<and> pv_access_end s = None
         then Ok None else resource ''InvalidAdditionalPrivilegeLifetime'')
      else if pv_mode s \<noteq> Some ''relative'' then resource ''InvalidAdditionalPrivilegeLifetime''
      else
        and_then (ok_or (Unit_Variant ''InvalidAdditionalPrivilegeLifetime'')
            (Option.bind (pv_range s) duration_millis)) (\<lambda>duration.
        and_then (ok_or (Unit_Variant ''InvalidAdditionalPrivilegeLifetime'')
            (Option.bind (pv_access_start s) utc_timestamp_millis)) (\<lambda>start.
        and_then (ok_or (Unit_Variant ''InvalidAdditionalPrivilegeLifetime'')
            (Option.bind (pv_access_end s) utc_timestamp_millis)) (\<lambda>stop.
          if 2 ^ 63 \<le> duration then resource ''InvalidAdditionalPrivilegeLifetime''
          else if checked_sub_i64 stop start \<noteq> Some (int duration)
          then resource ''InvalidAdditionalPrivilegeLifetime''
          else Ok (Some \<lparr>ts_duration_millis = duration, ts_start_millis = start\<rparr>)))))"

definition lifetime_matches :: "privilege_lifetime \<Rightarrow> temporary_schedule option \<Rightarrow> bool" where
  "lifetime_matches expected schedule \<longleftrightarrow>
     (case (expected, schedule) of
        (Permanent_Privilege, None) \<Rightarrow> True
      | (Temporary_Privilege duration_seconds start_time, Some actual) \<Rightarrow>
          ts_duration_millis actual = duration_seconds * 1000
          \<and> utc_timestamp_millis start_time = Some (ts_start_millis actual)
      | _ \<Rightarrow> False)"

definition validate_exact ::
    "(json \<Rightarrow> string) \<Rightarrow> string \<Rightarrow> string \<Rightarrow> string option \<Rightarrow> string option \<Rightarrow> role_permission list option
      \<Rightarrow> privilege_lifetime option \<Rightarrow> additional_privilege \<Rightarrow> (resource_error, additional_privilege) result" where
  "validate_exact json project_id identity_id privilege_id slug permissions lifetime v =
     and_then (validate_summary (ap_summary v) project_id identity_id privilege_id slug) (\<lambda>schedule.
     and_then (map_err (\<lambda>_. Unit_Variant ''InvalidAdditionalPrivilegePermissions'')
         (validate_permissions json (ap_permissions v))) (\<lambda>_.
       if (case permissions of None \<Rightarrow> False | Some expected \<Rightarrow> ap_permissions v \<noteq> expected)
       then resource ''InvalidAdditionalPrivilegePermissions''
       else if (case lifetime of None \<Rightarrow> False | Some expected \<Rightarrow> \<not> lifetime_matches expected schedule)
       then resource ''InvalidAdditionalPrivilegeLifetime''
       else Ok v))"

section \<open>Operations\<close>

definition privileges_endpoint :: endpoint where
  "privileges_endpoint = endpoint_from_static V2 ''identity-project-additional-privilege''"
definition privilege_endpoint :: "string \<Rightarrow> endpoint" where
  "privilege_endpoint privilege_id =
     endpoint_from_segments V2 [''identity-project-additional-privilege'', privilege_id]"
definition privilege_by_slug_endpoint :: "string \<Rightarrow> endpoint" where
  "privilege_by_slug_endpoint slug =
     endpoint_from_segments V2 [''identity-project-additional-privilege'', ''slug'', slug]"

definition scoped_summary ::
    "string \<Rightarrow> string \<Rightarrow> privilege_summary_wire \<Rightarrow> (resource_error, privilege_summary) result" where
  "scoped_summary project_id identity_id v =
     and_then (bind_summary_scope project_id identity_id v) (\<lambda>s.
     and_then (validate_summary s project_id identity_id None None) (\<lambda>_. Ok s))"

definition scoped_privileges ::
    "api \<Rightarrow> string \<Rightarrow> string \<Rightarrow> world \<Rightarrow> (resource_error, privilege_summary list) result \<times> world" where
  "scoped_privileges ap project_id identity_id =
     checked_call
       (api_read ap privileges_endpoint (list_privileges_query identity_id project_id) decode_privileges_response)
       (traverse (scoped_summary project_id identity_id))"

text \<open>The first privilege of the scope that is the one meant.\<close>

definition preflight_privilege ::
    "api \<Rightarrow> string \<Rightarrow> string \<Rightarrow> (privilege_summary \<Rightarrow> bool) \<Rightarrow> world
      \<Rightarrow> (resource_error, privilege_summary) result \<times> world" where
  "preflight_privilege ap project_id identity_id meant =
     checked_call (scoped_privileges ap project_id identity_id)
       (\<lambda>ps. ok_or (Unit_Variant ''InvalidAdditionalPrivilegeScope'') (find meant ps))"

definition list_additional_privileges ::
    "api \<Rightarrow> string \<Rightarrow> string \<Rightarrow> page_request \<Rightarrow> world
      \<Rightarrow> (resource_error, privilege_summary page) result \<times> world" where
  "list_additional_privileges ap project_id identity_id page =
     checked_call (scoped_privileges ap project_id identity_id)
       (\<lambda>ps. map_err Pagination_Error (paginate page ps))"

definition bound_and_checked ::
    "api \<Rightarrow> string \<Rightarrow> string \<Rightarrow> string option \<Rightarrow> string option \<Rightarrow> role_permission list option
      \<Rightarrow> privilege_lifetime option \<Rightarrow> privilege_summary_wire \<times> role_permission list
      \<Rightarrow> (resource_error, additional_privilege) result" where
  "bound_and_checked ap project_id identity_id privilege_id slug permissions lifetime v =
     and_then (bind_privilege_scope project_id identity_id v)
       (validate_exact (ap_json ap) project_id identity_id privilege_id slug permissions lifetime)"

definition get_additional_privilege ::
    "api \<Rightarrow> string \<Rightarrow> string \<Rightarrow> string \<Rightarrow> world \<Rightarrow> (resource_error, additional_privilege) result \<times> world" where
  "get_additional_privilege ap project_id identity_id privilege_id =
     and_call (preflight_privilege ap project_id identity_id (\<lambda>p. pv_id p = privilege_id)) (\<lambda>_.
       checked_call (api_read ap (privilege_endpoint privilege_id) [] decode_privilege_response)
         (bound_and_checked ap project_id identity_id (Some privilege_id) None None None))"

definition get_additional_privilege_by_slug ::
    "api \<Rightarrow> string \<Rightarrow> string \<Rightarrow> string \<Rightarrow> string \<Rightarrow> world
      \<Rightarrow> (resource_error, additional_privilege) result \<times> world" where
  "get_additional_privilege_by_slug ap project_id project_slug identity_id privilege_slug =
     and_call (preflight_privilege ap project_id identity_id (\<lambda>p. pv_slug p = privilege_slug)) (\<lambda>preflight.
       checked_call
         (api_read ap (privilege_by_slug_endpoint privilege_slug)
            (privilege_by_slug_query identity_id project_slug) decode_privilege_response)
         (\<lambda>v. and_then (bind_privilege_scope project_id identity_id v) (\<lambda>v.
            if pv_id (ap_summary v) \<noteq> pv_id preflight then resource ''InvalidAdditionalPrivilegeScope''
            else validate_exact (ap_json ap) project_id identity_id None (Some privilege_slug) None None v)))"

definition create_additional_privilege ::
    "api \<Rightarrow> string \<Rightarrow> string \<Rightarrow> privilege_creation \<Rightarrow> world
      \<Rightarrow> (resource_error, additional_privilege) result \<times> world" where
  "create_additional_privilege ap project_id identity_id c =
     checked_call
       (api_mutate ap POST privileges_endpoint (create_privilege_request identity_id project_id c)
          decode_privilege_response)
       (bound_and_checked ap project_id identity_id None (pc_slug c) (Some (pc_permissions c))
          (Some (pc_lifetime c)))"

definition update_additional_privilege ::
    "api \<Rightarrow> string \<Rightarrow> string \<Rightarrow> string \<Rightarrow> privilege_change \<Rightarrow> world
      \<Rightarrow> (resource_error, additional_privilege) result \<times> world" where
  "update_additional_privilege ap project_id identity_id privilege_id c =
     and_call (preflight_privilege ap project_id identity_id (\<lambda>p. pv_id p = privilege_id)) (\<lambda>_.
       checked_call
         (api_mutate ap PATCH (privilege_endpoint privilege_id) (update_privilege_request c)
            decode_privilege_response)
         (bound_and_checked ap project_id identity_id (Some privilege_id) (Some (pg_slug c))
            (pg_permissions c) (Some (pg_lifetime c))))"

definition delete_additional_privilege ::
    "api \<Rightarrow> string \<Rightarrow> string \<Rightarrow> string \<Rightarrow> bool \<Rightarrow> world
      \<Rightarrow> (resource_error, additional_privilege) result \<times> world" where
  "delete_additional_privilege ap project_id identity_id privilege_id confirm =
     (if \<not> confirm then (\<lambda>w. (resource ''AdditionalPrivilegeDeletionNotConfirmed'', w))
      else and_call (preflight_privilege ap project_id identity_id (\<lambda>p. pv_id p = privilege_id)) (\<lambda>_.
        checked_call
          (api_mutate ap DELETE (privilege_endpoint privilege_id) delete_privilege_request
             decode_privilege_response)
          (bound_and_checked ap project_id identity_id (Some privilege_id) None None None)))"

end
