(* ===== verification/Additional_Privilege_Tools.thy ===== *)
theory Additional_Privilege_Tools
  imports Identity_Auth_Tools Additional_Privileges_Api
begin

text \<open>
  The tools for the additional privileges of machine identities in \<open>infisical-mcp/src/tools.rs\<close>:
  arguments, outputs and dispatch. The JSON text whose length bounds a condition is the client's.
\<close>

section \<open>Arguments\<close>

definition invalid_privilege :: "additional_privilege_input_error \<Rightarrow> mcp_error" where
  "invalid_privilege e = invalid_params (additional_privilege_input_error_text e) None"

record privileges_list_input =
  pi_project_id :: string
  pi_identity_id :: string
  pi_offset :: nat
  pi_limit :: nat

definition decode_privileges_list :: "(string \<times> json) list \<Rightarrow> privileges_list_input option" where
  "decode_privileges_list m =
     do { fs \<leftarrow> strict_fields [(''projectId'', Required_Field), (''identityId'', Required_Field),
            (''offset'', Default_Field), (''limit'', Default_Field)] (Object m);
          p \<leftarrow> wire_field fs ''projectId'' as_str;
          i \<leftarrow> wire_field fs ''identityId'' as_str;
          off \<leftarrow> decode_offset fs;
          l \<leftarrow> decode_limit fs;
          Some \<lparr>pi_project_id = p, pi_identity_id = i, pi_offset = off, pi_limit = l\<rparr> }"

definition privileges_list_parts ::
    "privileges_list_input \<Rightarrow> (mcp_error, string \<times> string \<times> page_request) result" where
  "privileges_list_parts i =
     and_then (map_err invalid_input (new_project_id (pi_project_id i))) (\<lambda>p.
     and_then (map_err invalid_input (new_identity_id (pi_identity_id i))) (\<lambda>ident.
     and_then (page_request_of (pi_offset i) (pi_limit i)) (\<lambda>page. Ok (p, ident, page))))"

definition decode_privilege_target :: "(string \<times> json) list \<Rightarrow> (string \<times> string \<times> string) option" where
  "decode_privilege_target m =
     do { fs \<leftarrow> strict_fields [(''projectId'', Required_Field), (''identityId'', Required_Field),
            (''privilegeId'', Required_Field)] (Object m);
          p \<leftarrow> wire_field fs ''projectId'' as_str;
          i \<leftarrow> wire_field fs ''identityId'' as_str;
          v \<leftarrow> wire_field fs ''privilegeId'' as_str;
          Some (p, i, v) }"

definition privilege_target_parts ::
    "string \<times> string \<times> string \<Rightarrow> (mcp_error, string \<times> string \<times> string) result" where
  "privilege_target_parts t =
     (case t of (p, i, v) \<Rightarrow>
        and_then (map_err invalid_input (new_project_id p)) (\<lambda>p.
        and_then (map_err invalid_input (new_identity_id i)) (\<lambda>i.
        and_then (map_err invalid_input (new_additional_privilege_id v)) (\<lambda>v. Ok (p, i, v)))))"

record privilege_by_slug_input =
  ps_project_id :: string
  ps_project_slug :: string
  ps_identity_id :: string
  ps_privilege_slug :: string

definition decode_privilege_by_slug :: "(string \<times> json) list \<Rightarrow> privilege_by_slug_input option" where
  "decode_privilege_by_slug m =
     do { fs \<leftarrow> strict_fields [(''projectId'', Required_Field), (''projectSlug'', Required_Field),
            (''identityId'', Required_Field), (''privilegeSlug'', Required_Field)] (Object m);
          p \<leftarrow> wire_field fs ''projectId'' as_str;
          ps \<leftarrow> wire_field fs ''projectSlug'' as_str;
          i \<leftarrow> wire_field fs ''identityId'' as_str;
          v \<leftarrow> wire_field fs ''privilegeSlug'' as_str;
          Some \<lparr>ps_project_id = p, ps_project_slug = ps, ps_identity_id = i, ps_privilege_slug = v\<rparr> }"

definition privilege_by_slug_parts ::
    "privilege_by_slug_input \<Rightarrow> (mcp_error, string \<times> string \<times> string \<times> string) result" where
  "privilege_by_slug_parts i =
     and_then (map_err invalid_input (new_project_id (ps_project_id i))) (\<lambda>p.
     and_then (map_err invalid_input (new_project_slug (ps_project_slug i))) (\<lambda>ps.
     and_then (map_err invalid_input (new_identity_id (ps_identity_id i))) (\<lambda>ident.
     and_then (map_err invalid_privilege (new_privilege_slug (ps_privilege_slug i))) (\<lambda>v.
       Ok (p, ps, ident, v)))))"

text \<open>A permission rule; unknown fields are refused, the subject is not optional.\<close>

definition decode_permission_input :: "json \<Rightarrow> role_permission option" where
  "decode_permission_input j =
     do { fs \<leftarrow> strict_fields [(''subject'', Required_Field), (''action'', Required_Field),
            (''conditions'', Default_Field), (''inverted'', Default_Field)] j;
          s \<leftarrow> wire_field fs ''subject'' as_str;
          a \<leftarrow> wire_field fs ''action'' (wire_list as_str);
          c \<leftarrow> wire_option fs ''conditions'' (\<lambda>v. Some (json_value v));
          i \<leftarrow> wire_default fs ''inverted'' False decode_bool;
          Some \<lparr>rp_subject = Some s, rp_action = a, rp_conditions = c, rp_inverted = i\<rparr> }"

datatype lifetime_input = Permanent_Input | Temporary_Input nat string

definition decode_lifetime_input :: "json \<Rightarrow> lifetime_input option" where
  "decode_lifetime_input j =
     do { (t, rest) \<leftarrow> tagged_content j;
          if t = ''permanent'' then (if unit_content rest then Some Permanent_Input else None)
          else if t = ''temporary''
          then do { fs \<leftarrow> strict_fields [(''durationSeconds'', Required_Field), (''startTime'', Required_Field)] rest;
                    d \<leftarrow> wire_field fs ''durationSeconds'' decode_u32;
                    s \<leftarrow> wire_field fs ''startTime'' as_str;
                    Some (Temporary_Input d s) }
          else None }"

primrec lifetime_of_input :: "lifetime_input \<Rightarrow> (mcp_error, privilege_lifetime) result" where
  "lifetime_of_input Permanent_Input = Ok Permanent_Privilege"
| "lifetime_of_input (Temporary_Input duration_seconds start_time) =
     and_then (map_err invalid_privilege (new_privilege_start_time start_time)) (\<lambda>start.
       map_err invalid_privilege (temporary_lifetime duration_seconds start))"

record privilege_create_input =
  pe_project_id :: string
  pe_identity_id :: string
  pe_slug :: "string option"
  pe_permissions :: "role_permission list"
  pe_confirm_deny :: bool
  pe_lifetime :: lifetime_input

definition decode_privilege_create :: "(string \<times> json) list \<Rightarrow> privilege_create_input option" where
  "decode_privilege_create m =
     do { fs \<leftarrow> strict_fields [(''projectId'', Required_Field), (''identityId'', Required_Field),
            (''slug'', Option_Field), (''permissions'', Required_Field),
            (''confirmDenyPermissions'', Default_Field), (''lifetime'', Required_Field)] (Object m);
          p \<leftarrow> wire_field fs ''projectId'' as_str;
          i \<leftarrow> wire_field fs ''identityId'' as_str;
          s \<leftarrow> wire_option fs ''slug'' as_str;
          ps \<leftarrow> wire_field fs ''permissions'' (wire_list decode_permission_input);
          c \<leftarrow> wire_default fs ''confirmDenyPermissions'' False decode_bool;
          l \<leftarrow> wire_field fs ''lifetime'' decode_lifetime_input;
          Some \<lparr>pe_project_id = p, pe_identity_id = i, pe_slug = s, pe_permissions = ps,
                pe_confirm_deny = c, pe_lifetime = l\<rparr> }"

definition privilege_create_parts ::
    "(json \<Rightarrow> string) \<Rightarrow> privilege_create_input
      \<Rightarrow> (mcp_error, string \<times> string \<times> privilege_creation) result" where
  "privilege_create_parts json i =
     and_then (case pe_slug i of None \<Rightarrow> Ok None
         | Some s \<Rightarrow> map_sum id Some (map_err invalid_privilege (new_privilege_slug s))) (\<lambda>slug.
     and_then (map_err invalid_input (new_project_id (pe_project_id i))) (\<lambda>p.
     and_then (map_err invalid_input (new_identity_id (pe_identity_id i))) (\<lambda>ident.
     and_then (lifetime_of_input (pe_lifetime i)) (\<lambda>lifetime.
     and_then (map_err invalid_privilege
         (new_privilege_creation json slug (pe_permissions i) (pe_confirm_deny i) lifetime)) (\<lambda>c.
       Ok (p, ident, c))))))"

record privilege_update_input =
  pu_project_id :: string
  pu_identity_id :: string
  pu_privilege_id :: string
  pu_slug :: string
  pu_permissions :: "role_permission list option"
  pu_confirm_replace :: bool
  pu_lifetime :: lifetime_input

definition decode_privilege_update :: "(string \<times> json) list \<Rightarrow> privilege_update_input option" where
  "decode_privilege_update m =
     do { fs \<leftarrow> strict_fields [(''projectId'', Required_Field), (''identityId'', Required_Field),
            (''privilegeId'', Required_Field), (''slug'', Required_Field), (''permissions'', Option_Field),
            (''confirmReplacePermissions'', Default_Field), (''lifetime'', Required_Field)] (Object m);
          p \<leftarrow> wire_field fs ''projectId'' as_str;
          i \<leftarrow> wire_field fs ''identityId'' as_str;
          v \<leftarrow> wire_field fs ''privilegeId'' as_str;
          s \<leftarrow> wire_field fs ''slug'' as_str;
          ps \<leftarrow> wire_option fs ''permissions'' (wire_list decode_permission_input);
          c \<leftarrow> wire_default fs ''confirmReplacePermissions'' False decode_bool;
          l \<leftarrow> wire_field fs ''lifetime'' decode_lifetime_input;
          Some \<lparr>pu_project_id = p, pu_identity_id = i, pu_privilege_id = v, pu_slug = s,
                pu_permissions = ps, pu_confirm_replace = c, pu_lifetime = l\<rparr> }"

definition privilege_update_parts ::
    "(json \<Rightarrow> string) \<Rightarrow> privilege_update_input
      \<Rightarrow> (mcp_error, string \<times> string \<times> string \<times> privilege_change) result" where
  "privilege_update_parts json i =
     and_then (map_err invalid_input (new_project_id (pu_project_id i))) (\<lambda>p.
     and_then (map_err invalid_input (new_identity_id (pu_identity_id i))) (\<lambda>ident.
     and_then (map_err invalid_input (new_additional_privilege_id (pu_privilege_id i))) (\<lambda>v.
     and_then (map_err invalid_privilege (new_privilege_slug (pu_slug i))) (\<lambda>slug.
     and_then (lifetime_of_input (pu_lifetime i)) (\<lambda>lifetime.
     and_then (map_err invalid_privilege
         (new_privilege_change json slug (pu_permissions i) (pu_confirm_replace i) lifetime)) (\<lambda>c.
       Ok (p, ident, v, c)))))))"

definition decode_privilege_delete :: "(string \<times> json) list \<Rightarrow> ((string \<times> string \<times> string) \<times> bool) option" where
  "decode_privilege_delete m =
     do { fs \<leftarrow> strict_fields [(''projectId'', Required_Field), (''identityId'', Required_Field),
            (''privilegeId'', Required_Field), (''confirmDelete'', Required_Field)] (Object m);
          p \<leftarrow> wire_field fs ''projectId'' as_str;
          i \<leftarrow> wire_field fs ''identityId'' as_str;
          v \<leftarrow> wire_field fs ''privilegeId'' as_str;
          c \<leftarrow> wire_field fs ''confirmDelete'' decode_bool;
          Some ((p, i, v), c) }"

definition privilege_delete_parts ::
    "(string \<times> string \<times> string) \<times> bool \<Rightarrow> (mcp_error, string \<times> string \<times> string) result" where
  "privilege_delete_parts i =
     (if \<not> snd i
      then Err (invalid_params ''confirmDelete must be true to delete an additional privilege'' None)
      else privilege_target_parts (fst i))"

section \<open>Outputs\<close>

definition privilege_summary_fields :: "privilege_summary \<Rightarrow> (string \<times> json) list" where
  "privilege_summary_fields s =
     [(''id'', String (pv_id s)), (''slug'', String (pv_slug s)), (''identityId'', String (pv_identity_id s)),
      (''projectId'', String (pv_project_id s)), (''isTemporary'', Bool (pv_is_temporary s)),
      (''temporaryMode'', option_json String (pv_mode s)), (''temporaryRange'', option_json String (pv_range s)),
      (''temporaryAccessStartTime'', option_json String (pv_access_start s)),
      (''temporaryAccessEndTime'', option_json String (pv_access_end s)),
      (''createdAt'', String (pv_created_at s)), (''updatedAt'', String (pv_updated_at s))]"

definition privilege_summary_json :: "privilege_summary \<Rightarrow> json" where
  "privilege_summary_json s = object_of (privilege_summary_fields s)"

definition additional_privilege_json :: "additional_privilege \<Rightarrow> json" where
  "additional_privilege_json v =
     object_of (privilege_summary_fields (ap_summary v)
       @ [(''permissions'', Array (map role_permission_json (ap_permissions v)))])"

section \<open>Dispatch\<close>

definition dispatch_additional_privilege_read :: "tool_env \<Rightarrow> call_params \<Rightarrow> tool_state \<Rightarrow> tool_outcome" where
  "dispatch_additional_privilege_read E params =
     (let name = cp_name params in
      if name = IDENTITY_PROJECT_ADDITIONAL_PRIVILEGES_LIST_TOOL then
        with_input E ''IdentityProjectAdditionalPrivilegesListInput'' decode_privileges_list
          ''identityProjectAdditionalPrivileges.list arguments do not match the declared schema'' params (\<lambda>i.
          with_parts (privileges_list_parts i) (\<lambda>(project_id, identity_id, page).
            upstream_call E (tool_result E (page_json privilege_summary_json))
              (\<lambda>ap. list_additional_privileges ap project_id identity_id page)))
      else if name = IDENTITY_PROJECT_ADDITIONAL_PRIVILEGES_GET_TOOL then
        with_input E ''IdentityProjectAdditionalPrivilegeTargetInput'' decode_privilege_target
          ''identityProjectAdditionalPrivileges.get arguments do not match the declared schema'' params (\<lambda>i.
          with_parts (privilege_target_parts i) (\<lambda>(project_id, identity_id, privilege_id).
            upstream_call E (tool_result E additional_privilege_json)
              (\<lambda>ap. get_additional_privilege ap project_id identity_id privilege_id)))
      else if name = IDENTITY_PROJECT_ADDITIONAL_PRIVILEGES_GET_BY_SLUG_TOOL then
        with_input E ''IdentityProjectAdditionalPrivilegeBySlugInput'' decode_privilege_by_slug
          ''identityProjectAdditionalPrivileges.getBySlug arguments do not match the declared schema'' params (\<lambda>i.
          with_parts (privilege_by_slug_parts i) (\<lambda>(project_id, project_slug, identity_id, slug).
            upstream_call E (tool_result E additional_privilege_json)
              (\<lambda>ap. get_additional_privilege_by_slug ap project_id project_slug identity_id slug)))
      else (\<lambda>s. Some (Err method_not_found, s)))"

definition dispatch_additional_privilege_mutation :: "tool_env \<Rightarrow> call_params \<Rightarrow> tool_state \<Rightarrow> tool_outcome" where
  "dispatch_additional_privilege_mutation E params =
     (let name = cp_name params in
      if name = IDENTITY_PROJECT_ADDITIONAL_PRIVILEGES_CREATE_TOOL then
        with_input E ''IdentityProjectAdditionalPrivilegeCreateInput'' decode_privilege_create
          ''identityProjectAdditionalPrivileges.create arguments do not match the declared schema'' params (\<lambda>i.
          with_parts (privilege_create_parts (ap_json (te_api E)) i) (\<lambda>(project_id, identity_id, c).
            upstream_call E (tool_result E additional_privilege_json)
              (\<lambda>ap. create_additional_privilege ap project_id identity_id c)))
      else if name = IDENTITY_PROJECT_ADDITIONAL_PRIVILEGES_UPDATE_TOOL then
        with_input E ''IdentityProjectAdditionalPrivilegeUpdateInput'' decode_privilege_update
          ''identityProjectAdditionalPrivileges.update arguments do not match the declared schema'' params (\<lambda>i.
          with_parts (privilege_update_parts (ap_json (te_api E)) i) (\<lambda>(project_id, identity_id, privilege_id, c).
            upstream_call E (tool_result E additional_privilege_json)
              (\<lambda>ap. update_additional_privilege ap project_id identity_id privilege_id c)))
      else if name = IDENTITY_PROJECT_ADDITIONAL_PRIVILEGES_DELETE_TOOL then
        with_input E ''IdentityProjectAdditionalPrivilegeDeleteInput'' decode_privilege_delete
          ''identityProjectAdditionalPrivileges.delete arguments do not match the declared schema'' params (\<lambda>i.
          with_parts (privilege_delete_parts i) (\<lambda>(project_id, identity_id, privilege_id).
            upstream_call E (tool_result E additional_privilege_json)
              (\<lambda>ap. delete_additional_privilege ap project_id identity_id privilege_id True)))
      else (\<lambda>s. Some (Err method_not_found, s)))"

definition dispatch_additional_privilege_workflow :: "tool_env \<Rightarrow> call_params \<Rightarrow> tool_state \<Rightarrow> tool_outcome" where
  "dispatch_additional_privilege_workflow E params =
     (if cp_name params \<in> {IDENTITY_PROJECT_ADDITIONAL_PRIVILEGES_LIST_TOOL,
           IDENTITY_PROJECT_ADDITIONAL_PRIVILEGES_GET_TOOL,
           IDENTITY_PROJECT_ADDITIONAL_PRIVILEGES_GET_BY_SLUG_TOOL}
      then dispatch_additional_privilege_read E params
      else dispatch_additional_privilege_mutation E params)"

end
