(* ===== verification/Kms_Api.thy ===== *)
theory Kms_Api
  imports Projects_Api Api_Values
begin

text \<open>
  \<open>infisical-api/src/kms.rs\<close>: keys of the key management service, their material, and the operations
  done with them. The base64 library is a parameter, as is the order in which concurrent preflights end.
\<close>

section \<open>Inputs\<close>

definition max_kms_payload_bytes :: nat where "max_kms_payload_bytes = 524288"
definition max_kms_ciphertext_bytes :: nat where "max_kms_ciphertext_bytes = max_kms_payload_bytes + 1024"
definition max_kms_signature_bytes :: nat where "max_kms_signature_bytes = 8192"
definition max_kms_key_material_bytes :: nat where "max_kms_key_material_bytes = 65536"
definition max_kms_private_key_bytes :: nat where "max_kms_private_key_bytes = 262144"
definition max_kms_public_key_bytes :: nat where "max_kms_public_key_bytes = 131072"
definition max_kms_key_name_bytes :: nat where "max_kms_key_name_bytes = 32"
definition max_kms_description_bytes :: nat where "max_kms_description_bytes = 500"
definition max_kms_search_bytes :: nat where "max_kms_search_bytes = 256"
definition max_kms_bulk_keys :: nat where "max_kms_bulk_keys = 100"
definition kms_import_rejection_message :: string where
  "kms_import_rejection_message = ''Infisical rejected this key import''"

datatype kms_input_error =
  Invalid_Kms_Key_Id | Invalid_Kms_Key_Name | Invalid_Kms_Description | Algorithm_Usage_Mismatch
  | Key_Material_Algorithm_Mismatch | Empty_Kms_Change | Invalid_Base64 | Payload_Too_Large
  | Signing_Algorithm_Mismatch | Invalid_Kms_Digest | Empty_Key_Material | Invalid_Bulk_Size
  | Duplicate_Bulk_Key | Invalid_Kms_Search

primrec kms_input_error_text :: "kms_input_error \<Rightarrow> string" where
  "kms_input_error_text Invalid_Kms_Key_Id = ''KMS key ID must be a UUID''"
| "kms_input_error_text Invalid_Kms_Key_Name =
     ''KMS key name must contain 1 to 32 lowercase letters or numbers separated by single hyphens''"
| "kms_input_error_text Invalid_Kms_Description =
     ''KMS key description must contain at most 500 bytes without surrounding whitespace or control characters''"
| "kms_input_error_text Algorithm_Usage_Mismatch = ''KMS key usage and algorithm do not match''"
| "kms_input_error_text Key_Material_Algorithm_Mismatch =
     ''KMS key material was validated for a different algorithm''"
| "kms_input_error_text Empty_Kms_Change = ''KMS key update must change at least one field''"
| "kms_input_error_text Invalid_Base64 = ''KMS data must use canonical padded base64''"
| "kms_input_error_text Payload_Too_Large = ''KMS data exceeds the local authenticated-ingress bound''"
| "kms_input_error_text Signing_Algorithm_Mismatch =
     ''KMS signing algorithm is incompatible with the selected key algorithm''"
| "kms_input_error_text Invalid_Kms_Digest =
     ''KMS digest mode or decoded digest length is incompatible with the signing algorithm''"
| "kms_input_error_text Empty_Key_Material = ''KMS key material must not be empty''"
| "kms_input_error_text Invalid_Bulk_Size = ''KMS bulk requests must contain between 1 and 100 keys''"
| "kms_input_error_text Duplicate_Bulk_Key = ''KMS bulk requests must not contain duplicate key IDs or names''"
| "kms_input_error_text Invalid_Kms_Search =
     ''KMS search text must contain at most 256 bytes without control characters''"

definition new_kms_key_id :: "string \<Rightarrow> (kms_input_error, string) result" where
  "new_kms_key_id value = (if \<not> is_uuid value then Err Invalid_Kms_Key_Id else Ok value)"

definition new_kms_key_name :: "string \<Rightarrow> (kms_input_error, string) result" where
  "new_kms_key_name value =
     (if max_kms_key_name_bytes < length value \<or> value = []
         \<or> \<not> list_all (\<lambda>segment. segment \<noteq> [] \<and> list_all (\<lambda>b. is_ascii_lowercase b \<or> is_ascii_digit b) segment)
               (split_by ((=) (CHR ''-'')) value)
      then Err Invalid_Kms_Key_Name else Ok value)"

interpretation kms_key_id: validated_newtype new_kms_key_id is_uuid Invalid_Kms_Key_Id
  by unfold_locales (simp add: new_kms_key_id_def)

datatype kms_key_usage = Encrypt_Decrypt | Sign_Verify

definition kms_key_usages :: "(kms_key_usage \<times> string) list" where
  "kms_key_usages = [(Encrypt_Decrypt, ''encrypt-decrypt''), (Sign_Verify, ''sign-verify'')]"

datatype kms_key_algorithm =
  Aes_256_Gcm | Aes_128_Gcm | Rsa_4096 | Ecc_Nist_P256 | Ecc_Nist_P384 | Ecc_Nist_P521
  | Ml_Dsa_44 | Ml_Dsa_65 | Ml_Dsa_87

definition kms_key_algorithms :: "(kms_key_algorithm \<times> string) list" where
  "kms_key_algorithms =
     [(Aes_256_Gcm, ''aes-256-gcm''), (Aes_128_Gcm, ''aes-128-gcm''), (Rsa_4096, ''RSA_4096''),
      (Ecc_Nist_P256, ''ECC_NIST_P256''), (Ecc_Nist_P384, ''ECC_NIST_P384''),
      (Ecc_Nist_P521, ''ECC_NIST_P521''), (Ml_Dsa_44, ''ML_DSA_44''), (Ml_Dsa_65, ''ML_DSA_65''),
      (Ml_Dsa_87, ''ML_DSA_87'')]"

fun algorithm_usage :: "kms_key_algorithm \<Rightarrow> kms_key_usage" where
  "algorithm_usage Aes_256_Gcm = Encrypt_Decrypt"
| "algorithm_usage Aes_128_Gcm = Encrypt_Decrypt"
| "algorithm_usage _ = Sign_Verify"

datatype kms_signing_algorithm =
  Rsa_Pss_Sha_512 | Rsa_Pss_Sha_384 | Rsa_Pss_Sha_256 | Rsa_Pkcs1_Sha_512 | Rsa_Pkcs1_Sha_384
  | Rsa_Pkcs1_Sha_256 | Ecdsa_Sha_512 | Ecdsa_Sha_384 | Ecdsa_Sha_256
  | Sign_Ml_Dsa_44 | Sign_Ml_Dsa_65 | Sign_Ml_Dsa_87

definition kms_signing_names :: "(kms_signing_algorithm \<times> string) list" where
  "kms_signing_names =
     [(Rsa_Pss_Sha_512, ''RSASSA_PSS_SHA_512''), (Rsa_Pss_Sha_384, ''RSASSA_PSS_SHA_384''),
      (Rsa_Pss_Sha_256, ''RSASSA_PSS_SHA_256''), (Rsa_Pkcs1_Sha_512, ''RSASSA_PKCS1_V1_5_SHA_512''),
      (Rsa_Pkcs1_Sha_384, ''RSASSA_PKCS1_V1_5_SHA_384''), (Rsa_Pkcs1_Sha_256, ''RSASSA_PKCS1_V1_5_SHA_256''),
      (Ecdsa_Sha_512, ''ECDSA_SHA_512''), (Ecdsa_Sha_384, ''ECDSA_SHA_384''), (Ecdsa_Sha_256, ''ECDSA_SHA_256''),
      (Sign_Ml_Dsa_44, ''ML_DSA_44''), (Sign_Ml_Dsa_65, ''ML_DSA_65''), (Sign_Ml_Dsa_87, ''ML_DSA_87'')]"

fun signing_algorithms :: "kms_key_algorithm \<Rightarrow> kms_signing_algorithm list" where
  "signing_algorithms Rsa_4096 =
     [Rsa_Pss_Sha_512, Rsa_Pss_Sha_384, Rsa_Pss_Sha_256, Rsa_Pkcs1_Sha_512, Rsa_Pkcs1_Sha_384, Rsa_Pkcs1_Sha_256]"
| "signing_algorithms Ecc_Nist_P256 = [Ecdsa_Sha_512, Ecdsa_Sha_384, Ecdsa_Sha_256]"
| "signing_algorithms Ecc_Nist_P384 = [Ecdsa_Sha_512, Ecdsa_Sha_384, Ecdsa_Sha_256]"
| "signing_algorithms Ecc_Nist_P521 = [Ecdsa_Sha_512, Ecdsa_Sha_384, Ecdsa_Sha_256]"
| "signing_algorithms Ml_Dsa_44 = [Sign_Ml_Dsa_44]"
| "signing_algorithms Ml_Dsa_65 = [Sign_Ml_Dsa_65]"
| "signing_algorithms Ml_Dsa_87 = [Sign_Ml_Dsa_87]"
| "signing_algorithms Aes_256_Gcm = []"
| "signing_algorithms Aes_128_Gcm = []"

definition supports_key :: "kms_signing_algorithm \<Rightarrow> kms_key_algorithm \<Rightarrow> bool" where
  "supports_key a k \<longleftrightarrow>
     (case k of
        Rsa_4096 \<Rightarrow> a \<in> {Rsa_Pss_Sha_512, Rsa_Pss_Sha_384, Rsa_Pss_Sha_256,
                        Rsa_Pkcs1_Sha_512, Rsa_Pkcs1_Sha_384, Rsa_Pkcs1_Sha_256}
      | Ecc_Nist_P256 \<Rightarrow> a \<in> {Ecdsa_Sha_512, Ecdsa_Sha_384, Ecdsa_Sha_256}
      | Ecc_Nist_P384 \<Rightarrow> a \<in> {Ecdsa_Sha_512, Ecdsa_Sha_384, Ecdsa_Sha_256}
      | Ecc_Nist_P521 \<Rightarrow> a \<in> {Ecdsa_Sha_512, Ecdsa_Sha_384, Ecdsa_Sha_256}
      | Ml_Dsa_44 \<Rightarrow> a = Sign_Ml_Dsa_44
      | Ml_Dsa_65 \<Rightarrow> a = Sign_Ml_Dsa_65
      | Ml_Dsa_87 \<Rightarrow> a = Sign_Ml_Dsa_87
      | _ \<Rightarrow> False)"

definition validate_signing_key ::
    "kms_signing_algorithm \<Rightarrow> kms_key_algorithm \<Rightarrow> (kms_input_error, unit) result" where
  "validate_signing_key a k = (if \<not> supports_key a k then Err Signing_Algorithm_Mismatch else Ok ())"

fun digest_bytes :: "kms_signing_algorithm \<Rightarrow> nat option" where
  "digest_bytes Rsa_Pkcs1_Sha_512 = Some 64"
| "digest_bytes Ecdsa_Sha_512 = Some 64"
| "digest_bytes Rsa_Pkcs1_Sha_384 = Some 48"
| "digest_bytes Ecdsa_Sha_384 = Some 48"
| "digest_bytes Rsa_Pkcs1_Sha_256 = Some 32"
| "digest_bytes Ecdsa_Sha_256 = Some 32"
| "digest_bytes _ = None"

definition validate_digest :: "kms_signing_algorithm \<Rightarrow> nat \<Rightarrow> bool \<Rightarrow> (kms_input_error, unit) result" where
  "validate_digest a data_bytes is_digest =
     (if \<not> is_digest then Ok ()
      else if digest_bytes a \<noteq> Some data_bytes then Err Invalid_Kms_Digest else Ok ())"

definition trimmed_text :: "string \<Rightarrow> nat \<Rightarrow> bool" where
  "trimmed_text value max_bytes \<longleftrightarrow>
     str_trim value = value \<and> length value \<le> max_bytes \<and> \<not> has_control value"

definition validate_description :: "string option \<Rightarrow> (kms_input_error, unit) result" where
  "validate_description value =
     (if (case value of None \<Rightarrow> False | Some v \<Rightarrow> \<not> trimmed_text v max_kms_description_bytes)
      then Err Invalid_Kms_Description else Ok ())"

text \<open>The number of bytes behind canonical padded base64.\<close>

definition validate_base64 ::
    "base64_library \<Rightarrow> string \<Rightarrow> nat \<Rightarrow> bool \<Rightarrow> (kms_input_error, nat) result" where
  "validate_base64 B value max_decoded_bytes allow_empty =
     (if \<not> allow_empty \<and> value = [] then Err Empty_Key_Material
      else if (max_decoded_bytes + 2) div 3 * 4 < length value then Err Payload_Too_Large
      else case b64_decode B value of
             None \<Rightarrow> Err Invalid_Base64
           | Some decoded \<Rightarrow>
               if max_decoded_bytes < length decoded then Err Payload_Too_Large
               else if b64_encode B decoded \<noteq> value then Err Invalid_Base64
               else Ok (length decoded))"

record kms_data =
  kd_value :: string
  kd_bytes :: nat

definition new_kms_data :: "base64_library \<Rightarrow> string \<Rightarrow> (kms_input_error, kms_data) result" where
  "new_kms_data B value =
     and_then (validate_base64 B value max_kms_payload_bytes True) (\<lambda>n. Ok \<lparr>kd_value = value, kd_bytes = n\<rparr>)"

record kms_key_material =
  km_value :: string
  km_bytes :: nat
  km_algorithm :: kms_key_algorithm

definition new_kms_key_material ::
    "base64_library \<Rightarrow> string \<Rightarrow> kms_key_algorithm \<Rightarrow> (kms_input_error, kms_key_material) result" where
  "new_kms_key_material B value algorithm =
     and_then (validate_base64 B value max_kms_key_material_bytes False) (\<lambda>decoded.
       if \<not> (case algorithm of Aes_256_Gcm \<Rightarrow> decoded = 32 | Aes_128_Gcm \<Rightarrow> decoded = 16 | _ \<Rightarrow> 0 < decoded)
       then Err Empty_Key_Material
       else Ok \<lparr>km_value = value, km_bytes = decoded, km_algorithm = algorithm\<rparr>)"

record kms_key_creation =
  kn_name :: string
  kn_description :: "string option"
  kn_usage :: kms_key_usage
  kn_algorithm :: kms_key_algorithm

definition new_kms_key_creation ::
    "string \<Rightarrow> string option \<Rightarrow> kms_key_usage \<Rightarrow> kms_key_algorithm \<Rightarrow> (kms_input_error, kms_key_creation) result" where
  "new_kms_key_creation name description usage algorithm =
     and_then (validate_description description) (\<lambda>_.
       if algorithm_usage algorithm \<noteq> usage then Err Algorithm_Usage_Mismatch
       else Ok \<lparr>kn_name = name, kn_description = description, kn_usage = usage, kn_algorithm = algorithm\<rparr>)"

record kms_key_change =
  kg_name :: "string option"
  kg_description :: "string option"
  kg_disabled :: "bool option"

definition new_kms_key_change ::
    "string option \<Rightarrow> string option \<Rightarrow> bool option \<Rightarrow> (kms_input_error, kms_key_change) result" where
  "new_kms_key_change name description disabled =
     and_then (validate_description description) (\<lambda>_.
       if name = None \<and> description = None \<and> disabled = None then Err Empty_Kms_Change
       else Ok \<lparr>kg_name = name, kg_description = description, kg_disabled = disabled\<rparr>)"

record kms_list_request =
  kl_project_id :: string
  kl_page :: page_request
  kl_descending :: bool
  kl_search :: "string option"

definition new_kms_list_request ::
    "string \<Rightarrow> page_request \<Rightarrow> bool \<Rightarrow> string option \<Rightarrow> (kms_input_error, kms_list_request) result" where
  "new_kms_list_request project_id page descending search =
     (if (case search of None \<Rightarrow> False | Some v \<Rightarrow> \<not> trimmed_text v max_kms_search_bytes)
      then Err Invalid_Kms_Search
      else Ok \<lparr>kl_project_id = project_id, kl_page = page, kl_descending = descending, kl_search = search\<rparr>)"

record kms_import_entry =
  ke_name :: string
  ke_usage :: kms_key_usage
  ke_algorithm :: kms_key_algorithm
  ke_material :: kms_key_material

definition new_kms_import_entry ::
    "string \<Rightarrow> kms_key_usage \<Rightarrow> kms_key_algorithm \<Rightarrow> kms_key_material \<Rightarrow> (kms_input_error, kms_import_entry) result" where
  "new_kms_import_entry name usage algorithm material =
     (if algorithm_usage algorithm \<noteq> usage then Err Algorithm_Usage_Mismatch
      else if algorithm \<noteq> km_algorithm material then Err Key_Material_Algorithm_Mismatch
      else Ok \<lparr>ke_name = name, ke_usage = usage, ke_algorithm = algorithm, ke_material = material\<rparr>)"

text \<open>At most 100 entries of at most 64 KiB cannot overflow the checked sum of their sizes.\<close>

definition validate_bulk_import_entries :: "kms_import_entry list \<Rightarrow> (kms_input_error, unit) result" where
  "validate_bulk_import_entries entries =
     (if entries = [] \<or> max_kms_bulk_keys < length entries then Err Invalid_Bulk_Size
      else if \<not> distinct (map ke_name entries) then Err Duplicate_Bulk_Key
      else (let material_bytes = sum_list (map (\<lambda>e. km_bytes (ke_material e)) entries) in
            if 2 ^ 64 \<le> material_bytes \<or> max_kms_payload_bytes < material_bytes
            then Err Payload_Too_Large else Ok ()))"

definition validate_bulk_key_ids :: "string list \<Rightarrow> (kms_input_error, unit) result" where
  "validate_bulk_key_ids key_ids =
     (if key_ids = [] \<or> max_kms_bulk_keys < length key_ids then Err Invalid_Bulk_Size
      else if \<not> distinct key_ids then Err Duplicate_Bulk_Key
      else Ok ())"

section \<open>Values\<close>

record kms_key =
  kk_id :: string
  kk_name :: string
  kk_description :: "string option"
  kk_disabled :: bool
  kk_project_id :: string
  kk_usage :: kms_key_usage
  kk_algorithm :: kms_key_algorithm
  kk_version :: nat
  kk_created_at :: string
  kk_updated_at :: string

record kms_ciphertext =
  kc_key_id :: string
  kc_ciphertext :: string

record kms_decrypted =
  kx_key_id :: string
  kx_plaintext :: string

record kms_private_key =
  kp_key_id :: string
  kp_private_key :: string

record kms_public_key =
  kq_key_id :: string
  kq_public_key :: string

record kms_import_result =
  kr_project_id :: string
  kr_imported :: "(string \<times> string) list"
  kr_errors :: "(string \<times> string) list"

record kms_bulk_private_key =
  kb_key_id :: string
  kb_name :: string
  kb_usage :: kms_key_usage
  kb_algorithm :: kms_key_algorithm
  kb_private_key :: string
  kb_public_key :: "string option"

record kms_signature =
  ks_key_id :: string
  ks_algorithm :: kms_signing_algorithm
  ks_signature :: string

record kms_verification =
  kv_key_id :: string
  kv_algorithm :: kms_signing_algorithm
  kv_valid :: bool

section \<open>Answers\<close>

record kms_key_wire =
  kw_id :: string
  kw_name :: string
  kw_description :: "string option"
  kw_disabled :: bool
  kw_project_id :: "string option"
  kw_usage :: kms_key_usage
  kw_algorithm :: kms_key_algorithm
  kw_version :: nat
  kw_created_at :: string
  kw_updated_at :: string

definition decode_kms_usage :: "json \<Rightarrow> kms_key_usage option" where
  "decode_kms_usage = decode_variant (variant_named kms_key_usages)"
definition decode_kms_algorithm :: "json \<Rightarrow> kms_key_algorithm option" where
  "decode_kms_algorithm = decode_variant (variant_named kms_key_algorithms)"
definition decode_kms_signing :: "json \<Rightarrow> kms_signing_algorithm option" where
  "decode_kms_signing = decode_variant (variant_named kms_signing_names)"

definition decode_kms_key_wire :: "json \<Rightarrow> kms_key_wire option" where
  "decode_kms_key_wire j =
     do { fs \<leftarrow> wire_fields [(''id'', Required_Field), (''name'', Required_Field),
            (''description'', Default_Field), (''isDisabled'', Required_Field), (''projectId'', Option_Field),
            (''keyUsage'', Required_Field), (''encryptionAlgorithm'', Required_Field),
            (''version'', Required_Field), (''createdAt'', Required_Field), (''updatedAt'', Required_Field)] j;
          i \<leftarrow> wire_field fs ''id'' as_str;
          n \<leftarrow> wire_field fs ''name'' as_str;
          d \<leftarrow> wire_option fs ''description'' as_str;
          dis \<leftarrow> wire_field fs ''isDisabled'' decode_bool;
          p \<leftarrow> wire_option fs ''projectId'' as_str;
          ku \<leftarrow> wire_field fs ''keyUsage'' decode_kms_usage;
          a \<leftarrow> wire_field fs ''encryptionAlgorithm'' decode_kms_algorithm;
          v \<leftarrow> wire_field fs ''version'' decode_u64;
          c \<leftarrow> wire_field fs ''createdAt'' as_str;
          u \<leftarrow> wire_field fs ''updatedAt'' as_str;
          Some \<lparr>kw_id = i, kw_name = n, kw_description = d, kw_disabled = dis, kw_project_id = p,
                kw_usage = ku, kw_algorithm = a, kw_version = v, kw_created_at = c, kw_updated_at = u\<rparr> }"

definition decode_kms_keys_response :: "json \<Rightarrow> (kms_key_wire list \<times> nat) option" where
  "decode_kms_keys_response j =
     do { fs \<leftarrow> wire_fields [(''keys'', Required_Field), (''totalCount'', Required_Field)] j;
          ks \<leftarrow> wire_field fs ''keys'' (wire_list decode_kms_key_wire);
          n \<leftarrow> wire_field fs ''totalCount'' decode_u64;
          Some (ks, n) }"

text \<open>The responses with one field: a key, or one text.\<close>

definition decode_single :: "string \<Rightarrow> (json \<Rightarrow> 'a option) \<Rightarrow> json \<Rightarrow> 'a option" where
  "decode_single k decode j =
     do { fs \<leftarrow> wire_fields [(k, Required_Field)] j; wire_field fs k decode }"

definition decode_kms_key_response :: "json \<Rightarrow> kms_key_wire option" where
  "decode_kms_key_response = decode_single ''key'' decode_kms_key_wire"
definition decode_encrypt_response :: "json \<Rightarrow> string option" where
  "decode_encrypt_response = decode_single ''ciphertext'' as_str"
definition decode_decrypt_response :: "json \<Rightarrow> string option" where
  "decode_decrypt_response = decode_single ''plaintext'' as_str"
definition decode_public_key_response :: "json \<Rightarrow> string option" where
  "decode_public_key_response = decode_single ''publicKey'' as_str"
definition decode_private_key_response :: "json \<Rightarrow> string option" where
  "decode_private_key_response = decode_single ''privateKey'' as_str"
definition decode_signing_algorithms_response :: "json \<Rightarrow> kms_signing_algorithm list option" where
  "decode_signing_algorithms_response = decode_single ''signingAlgorithms'' (wire_list decode_kms_signing)"

text \<open>An imported key is an identifier with a name, a rejected one a name with a message.\<close>

definition decode_text_pair :: "string \<Rightarrow> string \<Rightarrow> json \<Rightarrow> (string \<times> string) option" where
  "decode_text_pair a b j =
     do { fs \<leftarrow> wire_fields [(a, Required_Field), (b, Required_Field)] j;
          x \<leftarrow> wire_field fs a as_str;
          y \<leftarrow> wire_field fs b as_str;
          Some (x, y) }"

definition decode_bulk_import_response :: "json \<Rightarrow> ((string \<times> string) list \<times> (string \<times> string) list) option" where
  "decode_bulk_import_response j =
     do { fs \<leftarrow> wire_fields [(''keys'', Required_Field), (''errors'', Required_Field)] j;
          ks \<leftarrow> wire_field fs ''keys'' (wire_list (decode_text_pair ''id'' ''name''));
          es \<leftarrow> wire_field fs ''errors'' (wire_list (decode_text_pair ''name'' ''message''));
          Some (ks, es) }"

definition decode_bulk_private_key :: "json \<Rightarrow> kms_bulk_private_key option" where
  "decode_bulk_private_key j =
     do { fs \<leftarrow> wire_fields [(''keyId'', Required_Field), (''name'', Required_Field),
            (''keyUsage'', Required_Field), (''algorithm'', Required_Field), (''privateKey'', Required_Field),
            (''publicKey'', Default_Field)] j;
          i \<leftarrow> wire_field fs ''keyId'' as_str;
          n \<leftarrow> wire_field fs ''name'' as_str;
          ku \<leftarrow> wire_field fs ''keyUsage'' decode_kms_usage;
          a \<leftarrow> wire_field fs ''algorithm'' decode_kms_algorithm;
          v \<leftarrow> wire_field fs ''privateKey'' as_str;
          pub \<leftarrow> wire_option fs ''publicKey'' as_str;
          Some \<lparr>kb_key_id = i, kb_name = n, kb_usage = ku, kb_algorithm = a, kb_private_key = v,
                kb_public_key = pub\<rparr> }"

definition decode_bulk_private_keys_response :: "json \<Rightarrow> kms_bulk_private_key list option" where
  "decode_bulk_private_keys_response = decode_single ''keys'' (wire_list decode_bulk_private_key)"

definition decode_sign_response :: "json \<Rightarrow> kms_signature option" where
  "decode_sign_response j =
     do { fs \<leftarrow> wire_fields [(''signature'', Required_Field), (''keyId'', Required_Field),
            (''signingAlgorithm'', Required_Field)] j;
          s \<leftarrow> wire_field fs ''signature'' as_str;
          i \<leftarrow> wire_field fs ''keyId'' as_str;
          a \<leftarrow> wire_field fs ''signingAlgorithm'' decode_kms_signing;
          Some \<lparr>ks_key_id = i, ks_algorithm = a, ks_signature = s\<rparr> }"

definition decode_verify_response :: "json \<Rightarrow> kms_verification option" where
  "decode_verify_response j =
     do { fs \<leftarrow> wire_fields [(''signatureValid'', Required_Field), (''keyId'', Required_Field),
            (''signingAlgorithm'', Required_Field)] j;
          b \<leftarrow> wire_field fs ''signatureValid'' decode_bool;
          i \<leftarrow> wire_field fs ''keyId'' as_str;
          a \<leftarrow> wire_field fs ''signingAlgorithm'' decode_kms_signing;
          Some \<lparr>kv_key_id = i, kv_algorithm = a, kv_valid = b\<rparr> }"

end
