(* ===== verification/Kms_Operations.thy ===== *)
theory Kms_Operations
  imports Kms_Api
begin

text \<open>
  The operations of \<open>infisical-api/src/kms.rs\<close>: requests, checks of the answers, preflights. Every
  use of a key first reads the key and checks its project, usage and state; concurrent preflights run
  one after another here, in an order of completion that is a parameter, with a deadline that may pass
  at any completion.
\<close>

section \<open>Requests\<close>

definition kms_usage_json :: "kms_key_usage \<Rightarrow> json" where
  "kms_usage_json u = String (name_of_variant kms_key_usages u)"
definition kms_algorithm_json :: "kms_key_algorithm \<Rightarrow> json" where
  "kms_algorithm_json a = String (name_of_variant kms_key_algorithms a)"
definition kms_signing_json :: "kms_signing_algorithm \<Rightarrow> json" where
  "kms_signing_json a = String (name_of_variant kms_signing_names a)"

definition list_kms_keys_query :: "kms_list_request \<Rightarrow> (string \<times> string) list" where
  "list_kms_keys_query r =
     [(''projectId'', kl_project_id r), (''offset'', show_nat (unat (req_offset (kl_page r)))),
      (''limit'', show_nat (unat (request_limit (kl_page r)))), (''orderBy'', ''name''),
      (''orderDirection'', if kl_descending r then ''desc'' else ''asc'')]
     @ query_option ''search'' (kl_search r)"

definition kms_key_by_name_query :: "string \<Rightarrow> (string \<times> string) list" where
  "kms_key_by_name_query project_id = [(''projectId'', project_id)]"

definition create_kms_key_request :: "string \<Rightarrow> kms_key_creation \<Rightarrow> json" where
  "create_kms_key_request project_id c =
     Object ([(''projectId'', String project_id), (''name'', String (kn_name c))]
       @ optional_field ''description'' (map_option String (kn_description c))
       @ [(''keyUsage'', kms_usage_json (kn_usage c)),
          (''encryptionAlgorithm'', kms_algorithm_json (kn_algorithm c))])"

definition update_kms_key_request :: "kms_key_change \<Rightarrow> json" where
  "update_kms_key_request c =
     Object (optional_field ''name'' (map_option String (kg_name c))
       @ optional_field ''description'' (map_option String (kg_description c))
       @ optional_field ''isDisabled'' (map_option Bool (kg_disabled c)))"

definition kms_key_path_request :: json where "kms_key_path_request = Object []"

definition encrypt_request :: "kms_data \<Rightarrow> json" where
  "encrypt_request d = Object [(''plaintext'', String (kd_value d))]"
definition decrypt_request :: "string \<Rightarrow> json" where
  "decrypt_request ciphertext = Object [(''ciphertext'', String ciphertext)]"

definition bulk_import_request :: "string \<Rightarrow> kms_import_entry list \<Rightarrow> json" where
  "bulk_import_request project_id entries =
     Object [(''projectId'', String project_id),
             (''keys'', Array (map (\<lambda>e. Object
                [(''name'', String (ke_name e)), (''keyUsage'', kms_usage_json (ke_usage e)),
                 (''encryptionAlgorithm'', kms_algorithm_json (ke_algorithm e)),
                 (''keyMaterial'', String (km_value (ke_material e)))]) entries))]"

definition bulk_private_key_request :: "string list \<Rightarrow> json" where
  "bulk_private_key_request key_ids = Object [(''keyIds'', Array (map String key_ids))]"

definition sign_request_fields :: "kms_signing_algorithm \<Rightarrow> bool \<Rightarrow> kms_data \<Rightarrow> (string \<times> json) list" where
  "sign_request_fields a is_digest d =
     [(''signingAlgorithm'', kms_signing_json a), (''isDigest'', Bool is_digest),
      (''data'', String (kd_value d))]"
definition sign_request :: "kms_signing_algorithm \<Rightarrow> bool \<Rightarrow> kms_data \<Rightarrow> json" where
  "sign_request a is_digest d = Object (sign_request_fields a is_digest d)"
definition verify_request :: "kms_signing_algorithm \<Rightarrow> bool \<Rightarrow> kms_data \<Rightarrow> string \<Rightarrow> json" where
  "verify_request a is_digest d signature =
     Object (sign_request_fields a is_digest d @ [(''signature'', String signature)])"

definition kms_endpoint :: "string list \<Rightarrow> endpoint" where
  "kms_endpoint segments = endpoint_from_segments V1 ([''kms'', ''keys''] @ segments)"
definition kms_keys_endpoint :: endpoint where "kms_keys_endpoint = endpoint_from_static V1 ''kms/keys''"

section \<open>Checked keys\<close>

definition kms_invalid :: resource_error where "kms_invalid = Unit_Variant ''InvalidKmsResponse''"

definition kms_key_from_wire ::
    "string \<Rightarrow> string option \<Rightarrow> string option \<Rightarrow> kms_key_wire \<Rightarrow> (resource_error, kms_key) result" where
  "kms_key_from_wire project_id expected_id expected_name v =
     and_then (map_err (\<lambda>_. kms_invalid) (new_kms_key_id (kw_id v))) (\<lambda>i.
     and_then (map_err (\<lambda>_. kms_invalid) (new_kms_key_name (kw_name v))) (\<lambda>n.
     and_then (map_err (\<lambda>_. kms_invalid) (validate_description (kw_description v))) (\<lambda>_.
       if kw_project_id v \<noteq> Some project_id
          \<or> algorithm_usage (kw_algorithm v) \<noteq> kw_usage v
          \<or> (case expected_id of None \<Rightarrow> False | Some e \<Rightarrow> e \<noteq> i)
          \<or> (case expected_name of None \<Rightarrow> False | Some e \<Rightarrow> e \<noteq> n)
          \<or> kw_version v = 0
          \<or> \<not> is_bounded_text (kw_created_at v) 128
          \<or> \<not> is_bounded_text (kw_updated_at v) 128
       then Err kms_invalid
       else Ok \<lparr>kk_id = i, kk_name = n, kk_description = kw_description v, kk_disabled = kw_disabled v,
               kk_project_id = project_id, kk_usage = kw_usage v, kk_algorithm = kw_algorithm v,
               kk_version = kw_version v, kk_created_at = kw_created_at v, kk_updated_at = kw_updated_at v\<rparr>)))"

definition created_kms_key_from_wire ::
    "string \<Rightarrow> kms_key_creation \<Rightarrow> kms_key_wire \<Rightarrow> (resource_error, kms_key) result" where
  "created_kms_key_from_wire project_id c v =
     and_then (kms_key_from_wire project_id None (Some (kn_name c)) v) (\<lambda>key.
       if kk_description key \<noteq> kn_description c \<or> kk_algorithm key \<noteq> kn_algorithm c then Err kms_invalid
       else Ok key)"

definition updated_kms_key_from_wire ::
    "string \<Rightarrow> string \<Rightarrow> kms_key_change \<Rightarrow> kms_key_wire \<Rightarrow> (resource_error, kms_key) result" where
  "updated_kms_key_from_wire project_id key_id c v =
     and_then (kms_key_from_wire project_id (Some key_id) (kg_name c) v) (\<lambda>key.
       if (case kg_description c of None \<Rightarrow> False | Some d \<Rightarrow> kk_description key \<noteq> Some d)
          \<or> (case kg_disabled c of None \<Rightarrow> False | Some b \<Rightarrow> kk_disabled key \<noteq> b)
       then Err kms_invalid else Ok key)"

section \<open>Reading keys\<close>

definition ensure_kms_project :: "api \<Rightarrow> string \<Rightarrow> world \<Rightarrow> (resource_error, unit) result \<times> world" where
  "ensure_kms_project ap project_id =
     checked_call (get_project ap project_id)
       (\<lambda>project. if map_option pj_id project \<noteq> Some project_id then resource ''InvalidKmsKeyScope'' else Ok ())"

definition get_kms_key :: "api \<Rightarrow> string \<Rightarrow> string \<Rightarrow> world \<Rightarrow> (resource_error, kms_key) result \<times> world" where
  "get_kms_key ap project_id key_id =
     checked_call (api_observable_read ap (kms_endpoint [key_id]) [] decode_kms_key_response)
       (kms_key_from_wire project_id (Some key_id) None)"

definition get_kms_key_by_name :: "api \<Rightarrow> string \<Rightarrow> string \<Rightarrow> world \<Rightarrow> (resource_error, kms_key) result \<times> world" where
  "get_kms_key_by_name ap project_id key_name =
     checked_call
       (api_observable_read ap (kms_endpoint [''key-name'', key_name]) (kms_key_by_name_query project_id)
          decode_kms_key_response)
       (kms_key_from_wire project_id None (Some key_name))"

definition preflight_kms_key ::
    "api \<Rightarrow> string \<Rightarrow> string \<Rightarrow> kms_key_usage option \<Rightarrow> world \<Rightarrow> (resource_error, kms_key) result \<times> world" where
  "preflight_kms_key ap project_id key_id usage =
     checked_call (get_kms_key ap project_id key_id)
       (\<lambda>key. if (case usage of None \<Rightarrow> False | Some u \<Rightarrow> kk_usage key \<noteq> u)
              then resource ''InvalidKmsKeyUsage'' else Ok key)"

definition preflight_active_kms_key ::
    "api \<Rightarrow> string \<Rightarrow> string \<Rightarrow> kms_key_usage option \<Rightarrow> world \<Rightarrow> (resource_error, kms_key) result \<times> world" where
  "preflight_active_kms_key ap project_id key_id usage =
     checked_call (preflight_kms_key ap project_id key_id usage)
       (\<lambda>key. if kk_disabled key then resource ''KmsKeyDisabled'' else Ok key)"

text \<open>A page must reach exactly to the total where it is not full; \<open>clamped_to(100)\<close> cannot panic.\<close>

definition kms_page_fits :: "page_request \<Rightarrow> nat \<Rightarrow> nat \<Rightarrow> bool" where
  "kms_page_fits page returned reported \<longleftrightarrow>
     unat (req_offset page) + returned < 2 ^ 64 \<and> returned \<le> unat (request_limit page)
     \<and> (if returned = 0 then reported \<le> unat (req_offset page)
        else if returned < unat (request_limit page) then unat (req_offset page) + returned = reported
        else unat (req_offset page) + returned \<le> reported)"

definition list_kms_keys ::
    "api \<Rightarrow> kms_list_request \<Rightarrow> world \<Rightarrow> (resource_error, kms_key page) result \<times> world" where
  "list_kms_keys ap request =
     (let page = the (clamped_to 100 (kl_page request)) in
      checked_call
        (api_observable_read ap kms_keys_endpoint (list_kms_keys_query (request\<lparr>kl_page := page\<rparr>))
           decode_kms_keys_response)
        (\<lambda>(found, reported).
           if \<not> kms_page_fits page (length found) reported then Err kms_invalid
           else and_then (traverse (kms_key_from_wire (kl_project_id request) None None) found) (\<lambda>keys.
             map_err Pagination_Error (page_new page keys (Some (of_nat reported))))))"

section \<open>Managing keys\<close>

definition create_kms_key ::
    "api \<Rightarrow> string \<Rightarrow> kms_key_creation \<Rightarrow> bool \<Rightarrow> world \<Rightarrow> (resource_error, kms_key) result \<times> world" where
  "create_kms_key ap project_id c confirm =
     (if \<not> confirm then (\<lambda>w. (resource ''KmsOperationNotConfirmed'', w))
      else and_call (ensure_kms_project ap project_id) (\<lambda>_.
        checked_call
          (api_mutate ap POST (kms_endpoint []) (create_kms_key_request project_id c) decode_kms_key_response)
          (created_kms_key_from_wire project_id c)))"

definition update_kms_key ::
    "api \<Rightarrow> string \<Rightarrow> string \<Rightarrow> kms_key_change \<Rightarrow> bool \<Rightarrow> world \<Rightarrow> (resource_error, kms_key) result \<times> world" where
  "update_kms_key ap project_id key_id c confirm =
     (if \<not> confirm then (\<lambda>w. (resource ''KmsOperationNotConfirmed'', w))
      else and_call (preflight_kms_key ap project_id key_id None) (\<lambda>_.
        checked_call
          (api_mutate ap PATCH (kms_endpoint [key_id]) (update_kms_key_request c) decode_kms_key_response)
          (updated_kms_key_from_wire project_id key_id c)))"

definition delete_kms_key ::
    "api \<Rightarrow> string \<Rightarrow> string \<Rightarrow> bool \<Rightarrow> world \<Rightarrow> (resource_error, kms_key) result \<times> world" where
  "delete_kms_key ap project_id key_id confirm =
     (if \<not> confirm then (\<lambda>w. (resource ''KmsKeyDeletionNotConfirmed'', w))
      else and_call (preflight_kms_key ap project_id key_id None) (\<lambda>_.
        checked_call
          (api_mutate ap DELETE (kms_endpoint [key_id]) kms_key_path_request decode_kms_key_response)
          (kms_key_from_wire project_id (Some key_id) None)))"

section \<open>Using keys\<close>

definition checked_base64 ::
    "base64_library \<Rightarrow> nat \<Rightarrow> bool \<Rightarrow> resource_error \<Rightarrow> string \<Rightarrow> (resource_error, unit) result" where
  "checked_base64 B max_bytes allow_empty e value =
     and_then (map_err (\<lambda>_. e) (validate_base64 B value max_bytes allow_empty)) (\<lambda>_. Ok ())"

definition crypto_input :: "(kms_input_error, 'a) result \<Rightarrow> (resource_error, 'a) result" where
  "crypto_input r = map_err (\<lambda>_. Unit_Variant ''InvalidKmsCryptographicInput'') r"

text \<open>A step that does not wait: its error ends the operation.\<close>

definition pure_call :: "('e, 'a) result \<Rightarrow> world \<Rightarrow> ('e, 'a) result \<times> world" where
  "pure_call r w = (r, w)"

definition kms_encrypt ::
    "api \<Rightarrow> base64_library \<Rightarrow> string \<Rightarrow> string \<Rightarrow> kms_data \<Rightarrow> bool \<Rightarrow> world
      \<Rightarrow> (resource_error, kms_ciphertext) result \<times> world" where
  "kms_encrypt ap B project_id key_id d confirm =
     (if \<not> confirm then (\<lambda>w. (resource ''KmsOperationNotConfirmed'', w))
      else and_call (preflight_active_kms_key ap project_id key_id (Some Encrypt_Decrypt)) (\<lambda>_.
        checked_call (api_mutate ap POST (kms_endpoint [key_id, ''encrypt'']) (encrypt_request d) decode_encrypt_response)
          (\<lambda>c. and_then (checked_base64 B max_kms_ciphertext_bytes False kms_invalid c) (\<lambda>_.
             Ok \<lparr>kc_key_id = key_id, kc_ciphertext = c\<rparr>))))"

definition kms_decrypt ::
    "api \<Rightarrow> base64_library \<Rightarrow> string \<Rightarrow> string \<Rightarrow> string \<Rightarrow> bool \<Rightarrow> world
      \<Rightarrow> (resource_error, kms_decrypted) result \<times> world" where
  "kms_decrypt ap B project_id key_id ciphertext confirm_reveal =
     (if \<not> confirm_reveal then (\<lambda>w. (resource ''KmsSecretRevealNotConfirmed'', w))
      else
        and_call (pure_call (crypto_input (validate_base64 B ciphertext max_kms_ciphertext_bytes False))) (\<lambda>_.
        and_call (preflight_active_kms_key ap project_id key_id (Some Encrypt_Decrypt)) (\<lambda>_.
          checked_call
            (api_mutate ap POST (kms_endpoint [key_id, ''decrypt'']) (decrypt_request ciphertext) decode_decrypt_response)
            (\<lambda>p. and_then (checked_base64 B max_kms_payload_bytes True kms_invalid p) (\<lambda>_.
               Ok \<lparr>kx_key_id = key_id, kx_plaintext = p\<rparr>)))))"

definition get_kms_public_key ::
    "api \<Rightarrow> base64_library \<Rightarrow> string \<Rightarrow> string \<Rightarrow> world \<Rightarrow> (resource_error, kms_public_key) result \<times> world" where
  "get_kms_public_key ap B project_id key_id =
     and_call (preflight_active_kms_key ap project_id key_id (Some Sign_Verify)) (\<lambda>_.
       checked_call
         (api_observable_read ap (kms_endpoint [key_id, ''public-key'']) [] decode_public_key_response)
         (\<lambda>p. and_then (checked_base64 B max_kms_public_key_bytes False kms_invalid p) (\<lambda>_.
            Ok \<lparr>kq_key_id = key_id, kq_public_key = p\<rparr>)))"

definition reveal_kms_private_key ::
    "api \<Rightarrow> base64_library \<Rightarrow> string \<Rightarrow> string \<Rightarrow> bool \<Rightarrow> world
      \<Rightarrow> (resource_error, kms_private_key) result \<times> world" where
  "reveal_kms_private_key ap B project_id key_id confirm_reveal =
     (if \<not> confirm_reveal then (\<lambda>w. (resource ''KmsSecretRevealNotConfirmed'', w))
      else and_call (preflight_active_kms_key ap project_id key_id None) (\<lambda>_.
        checked_call
          (api_observable_read ap (kms_endpoint [key_id, ''private-key'']) [] decode_private_key_response)
          (\<lambda>p. and_then (checked_base64 B max_kms_private_key_bytes False kms_invalid p) (\<lambda>_.
             Ok \<lparr>kp_key_id = key_id, kp_private_key = p\<rparr>))))"

definition list_kms_signing_algorithms ::
    "api \<Rightarrow> string \<Rightarrow> string \<Rightarrow> world \<Rightarrow> (resource_error, string \<times> kms_signing_algorithm list) result \<times> world" where
  "list_kms_signing_algorithms ap project_id key_id =
     and_call (preflight_active_kms_key ap project_id key_id (Some Sign_Verify)) (\<lambda>key.
       checked_call
         (api_observable_read ap (kms_endpoint [key_id, ''signing-algorithms'']) [] decode_signing_algorithms_response)
         (\<lambda>found.
            let expected = signing_algorithms (kk_algorithm key) in
            if expected = [] \<or> length found \<noteq> length expected then Err kms_invalid
            else if set found \<noteq> set expected then Err kms_invalid
            else Ok (key_id, found)))"

definition kms_sign ::
    "api \<Rightarrow> base64_library \<Rightarrow> string \<Rightarrow> string \<Rightarrow> kms_data \<Rightarrow> kms_signing_algorithm \<Rightarrow> bool \<Rightarrow> bool \<Rightarrow> world
      \<Rightarrow> (resource_error, kms_signature) result \<times> world" where
  "kms_sign ap B project_id key_id d a is_digest confirm =
     (if \<not> confirm then (\<lambda>w. (resource ''KmsOperationNotConfirmed'', w))
      else
        and_call (pure_call (crypto_input (validate_digest a (kd_bytes d) is_digest))) (\<lambda>_.
        and_call (preflight_active_kms_key ap project_id key_id (Some Sign_Verify)) (\<lambda>key.
        and_call (pure_call (crypto_input (validate_signing_key a (kk_algorithm key)))) (\<lambda>_.
          checked_call
            (api_mutate ap POST (kms_endpoint [key_id, ''sign'']) (sign_request a is_digest d) decode_sign_response)
            (\<lambda>r. if ks_key_id r \<noteq> key_id \<or> ks_algorithm r \<noteq> a then Err kms_invalid
                 else and_then (checked_base64 B max_kms_signature_bytes False kms_invalid (ks_signature r))
                        (\<lambda>_. Ok r))))))"

definition kms_verify ::
    "api \<Rightarrow> base64_library \<Rightarrow> string \<Rightarrow> string \<Rightarrow> kms_data \<Rightarrow> string \<Rightarrow> kms_signing_algorithm \<Rightarrow> bool \<Rightarrow> bool
      \<Rightarrow> world \<Rightarrow> (resource_error, kms_verification) result \<times> world" where
  "kms_verify ap B project_id key_id d signature a is_digest confirm =
     (if \<not> confirm then (\<lambda>w. (resource ''KmsOperationNotConfirmed'', w))
      else
        and_call (pure_call (crypto_input (validate_base64 B signature max_kms_signature_bytes False))) (\<lambda>_.
        and_call (pure_call (crypto_input (validate_digest a (kd_bytes d) is_digest))) (\<lambda>_.
        and_call (preflight_active_kms_key ap project_id key_id (Some Sign_Verify)) (\<lambda>key.
        and_call (pure_call (crypto_input (validate_signing_key a (kk_algorithm key)))) (\<lambda>_.
          checked_call
            (api_mutate ap POST (kms_endpoint [key_id, ''verify'']) (verify_request a is_digest d signature)
               decode_verify_response)
            (\<lambda>r. if kv_key_id r \<noteq> key_id \<or> kv_algorithm r \<noteq> a then Err kms_invalid else Ok r))))))"

section \<open>Many keys at once\<close>

text \<open>
  The names an answer gives: each must be one of those expected, and none of those already returned.
\<close>

fun returned_names ::
    "string list \<Rightarrow> string list \<Rightarrow> (string \<times> 'a) list \<Rightarrow> (string \<Rightarrow> 'a \<Rightarrow> (resource_error, 'b) result)
      \<Rightarrow> (resource_error, 'b list \<times> string list) result" where
  "returned_names expected seen [] f = Ok ([], seen)"
| "returned_names expected seen ((n, x) # rest) f =
     and_then (f n x) (\<lambda>y.
       if n \<notin> set expected \<or> n \<in> set seen then Err kms_invalid
       else and_then (returned_names expected (n # seen) rest f) (\<lambda>(ys, seen). Ok (y # ys, seen)))"

text \<open>The upstream's message is dropped.\<close>

definition imported_key :: "string \<Rightarrow> string \<Rightarrow> (resource_error, string \<times> string) result" where
  "imported_key name ident =
     and_then (map_err (\<lambda>_. kms_invalid) (new_kms_key_id ident)) (\<lambda>i.
     and_then (map_err (\<lambda>_. kms_invalid) (new_kms_key_name name)) (\<lambda>n. Ok (i, n)))"

definition import_error :: "string \<Rightarrow> string \<Rightarrow> (resource_error, string \<times> string) result" where
  "import_error name message =
     and_then (map_err (\<lambda>_. kms_invalid) (new_kms_key_name name)) (\<lambda>n. Ok (n, kms_import_rejection_message))"

definition import_result ::
    "string \<Rightarrow> string list \<Rightarrow> (string \<times> string) list \<times> (string \<times> string) list
      \<Rightarrow> (resource_error, kms_import_result) result" where
  "import_result project_id expected response =
     (case response of (ks, es) \<Rightarrow>
        if length ks + length es \<noteq> length expected then Err kms_invalid
        else and_then (returned_names expected [] (map (\<lambda>(i, n). (n, i)) ks) imported_key) (\<lambda>(imported, seen).
             and_then (returned_names expected seen es import_error) (\<lambda>(errors, _).
               Ok \<lparr>kr_project_id = project_id, kr_imported = imported, kr_errors = errors\<rparr>)))"

definition bulk_import_kms_keys ::
    "api \<Rightarrow> string \<Rightarrow> kms_import_entry list \<Rightarrow> bool \<Rightarrow> world \<Rightarrow> (resource_error, kms_import_result) result \<times> world" where
  "bulk_import_kms_keys ap project_id entries confirm =
     (if \<not> confirm then (\<lambda>w. (resource ''KmsOperationNotConfirmed'', w))
      else
        and_call (pure_call (map_err (\<lambda>_. Unit_Variant ''InvalidKmsBulkRequest'') (validate_bulk_import_entries entries))) (\<lambda>_.
        and_call (ensure_kms_project ap project_id) (\<lambda>_.
          checked_call
            (api_mutate ap POST (kms_endpoint [''bulk-import'']) (bulk_import_request project_id entries)
               decode_bulk_import_response)
            (import_result project_id (map ke_name entries)))))"

fun take_preflights ::
    "api \<Rightarrow> (nat \<Rightarrow> bool) \<Rightarrow> string \<Rightarrow> nat \<Rightarrow> string list \<Rightarrow> (string \<times> kms_key) list \<Rightarrow> world
      \<Rightarrow> (resource_error, (string \<times> kms_key) list) result \<times> world" where
  "take_preflights ap expired project_id requested [] observed w =
     (if expired (length observed) then (Err (Kms_Bulk_Preflight_Timeout (length observed) requested), w)
      else (Ok observed, w))"
| "take_preflights ap expired project_id requested (key_id # rest) observed w =
     (case preflight_active_kms_key ap project_id key_id None w of
        (r, w) \<Rightarrow>
          if expired (length observed) then (Err (Kms_Bulk_Preflight_Timeout (length observed) requested), w)
          else (case r of
                  Inl e \<Rightarrow> (Err (Kms_Bulk_Preflight_Failed (length observed) requested e), w)
                | Inr key \<Rightarrow>
                    take_preflights ap expired project_id requested rest (AList.update (kk_id key) key observed) w))"

definition preflight_bulk_kms_keys ::
    "api \<Rightarrow> preflight_schedule \<Rightarrow> string \<Rightarrow> string list \<Rightarrow> world
      \<Rightarrow> (resource_error, (string \<times> kms_key) list) result \<times> world" where
  "preflight_bulk_kms_keys ap S project_id key_ids =
     take_preflights ap (sc_expired S) project_id (length key_ids)
       (map ((!) key_ids) (sc_order S (length key_ids))) []"

text \<open>A returned key: one that was asked for, not yet seen, and as its preflight found it.\<close>

fun revealed_keys ::
    "base64_library \<Rightarrow> string list \<Rightarrow> (string \<times> kms_key) list \<Rightarrow> string list \<Rightarrow> kms_bulk_private_key list
      \<Rightarrow> (resource_error, (nat \<times> kms_bulk_private_key) list) result" where
  "revealed_keys B key_ids observed seen [] = Ok []"
| "revealed_keys B key_ids observed seen (key # rest) =
     and_then (map_err (\<lambda>_. kms_invalid) (new_kms_key_id (kb_key_id key))) (\<lambda>key_id.
     and_then (map_err (\<lambda>_. kms_invalid) (new_kms_key_name (kb_name key))) (\<lambda>name.
     and_then (ok_or kms_invalid (map_of observed key_id)) (\<lambda>preflight.
     and_then (ok_or kms_invalid (map_of (zip key_ids [0..<length key_ids]) key_id)) (\<lambda>index.
       if key_id \<in> set seen
          \<or> algorithm_usage (kb_algorithm key) \<noteq> kb_usage key
          \<or> name \<noteq> kk_name preflight
          \<or> kb_usage key \<noteq> kk_usage preflight
          \<or> kb_algorithm key \<noteq> kk_algorithm preflight
       then Err kms_invalid
       else and_then (checked_base64 B max_kms_private_key_bytes False kms_invalid (kb_private_key key)) (\<lambda>_.
            and_then (case kb_public_key key of None \<Rightarrow> Ok ()
                | Some p \<Rightarrow> checked_base64 B max_kms_public_key_bytes False kms_invalid p) (\<lambda>_.
            and_then (revealed_keys B key_ids observed (key_id # seen) rest) (\<lambda>ks.
              Ok ((index, key) # ks))))))))"

definition bulk_reveal_kms_private_keys ::
    "api \<Rightarrow> base64_library \<Rightarrow> preflight_schedule \<Rightarrow> string \<Rightarrow> string list \<Rightarrow> bool \<Rightarrow> world
      \<Rightarrow> (resource_error, kms_bulk_private_key list) result \<times> world" where
  "bulk_reveal_kms_private_keys ap B S project_id key_ids confirm_reveal =
     (if \<not> confirm_reveal then (\<lambda>w. (resource ''KmsSecretRevealNotConfirmed'', w))
      else
        and_call (pure_call (map_err (\<lambda>_. Unit_Variant ''InvalidKmsBulkRequest'') (validate_bulk_key_ids key_ids))) (\<lambda>_.
        and_call (preflight_bulk_kms_keys ap S project_id key_ids) (\<lambda>observed.
          checked_call
            (api_mutate ap POST (kms_endpoint [''bulk-export-private-keys'']) (bulk_private_key_request key_ids)
               decode_bulk_private_keys_response)
            (\<lambda>found.
               if length found \<noteq> length key_ids then Err kms_invalid
               else and_then (revealed_keys B key_ids observed [] found) (\<lambda>validated.
                 Ok (map snd (sort_key fst validated)))))))"

end
