(* ===== verification/Kms_Tools.thy ===== *)
theory Kms_Tools
  imports Additional_Privilege_Tools Kms_Operations
begin

text \<open>
  \<open>infisical-mcp/src/kms.rs\<close>: arguments, outputs, delivery of revealed material and dispatch of the
  tools of the key management service.
\<close>

section \<open>Arguments\<close>

definition invalid_kms :: "kms_input_error \<Rightarrow> mcp_error" where
  "invalid_kms e = invalid_params (kms_input_error_text e) None"

definition decode_kms_target :: "json \<Rightarrow> (string \<times> string) option" where
  "decode_kms_target j =
     do { fs \<leftarrow> strict_fields [(''projectId'', Required_Field), (''keyId'', Required_Field)] j;
          p \<leftarrow> wire_field fs ''projectId'' as_str;
          k \<leftarrow> wire_field fs ''keyId'' as_str;
          Some (p, k) }"

definition kms_target_parts :: "string \<times> string \<Rightarrow> (mcp_error, string \<times> string) result" where
  "kms_target_parts i =
     and_then (map_err invalid_input (new_project_id (fst i))) (\<lambda>p.
     and_then (map_err invalid_kms (new_kms_key_id (snd i))) (\<lambda>k. Ok (p, k)))"

record kms_keys_list_input =
  kli_project_id :: string
  kli_offset :: nat
  kli_limit :: nat
  kli_descending :: bool
  kli_search :: "string option"

definition decode_kms_keys_list :: "(string \<times> json) list \<Rightarrow> kms_keys_list_input option" where
  "decode_kms_keys_list m =
     do { fs \<leftarrow> strict_fields [(''projectId'', Required_Field), (''offset'', Default_Field),
            (''limit'', Default_Field), (''descending'', Default_Field), (''search'', Option_Field)] (Object m);
          p \<leftarrow> wire_field fs ''projectId'' as_str;
          off \<leftarrow> decode_offset fs;
          l \<leftarrow> decode_limit fs;
          d \<leftarrow> wire_default fs ''descending'' False decode_bool;
          s \<leftarrow> wire_option fs ''search'' as_str;
          Some \<lparr>kli_project_id = p, kli_offset = off, kli_limit = l, kli_descending = d, kli_search = s\<rparr> }"

definition kms_list_request_of :: "kms_keys_list_input \<Rightarrow> (mcp_error, kms_list_request) result" where
  "kms_list_request_of i =
     and_then (map_err invalid_input (new_project_id (kli_project_id i))) (\<lambda>p.
     and_then (page_request_of (kli_offset i) (kli_limit i)) (\<lambda>page.
       map_err invalid_kms (new_kms_list_request p page (kli_descending i) (kli_search i))))"

definition decode_kms_by_name :: "(string \<times> json) list \<Rightarrow> (string \<times> string) option" where
  "decode_kms_by_name m =
     do { fs \<leftarrow> strict_fields [(''projectId'', Required_Field), (''keyName'', Required_Field)] (Object m);
          p \<leftarrow> wire_field fs ''projectId'' as_str;
          n \<leftarrow> wire_field fs ''keyName'' as_str;
          Some (p, n) }"

definition kms_by_name_parts :: "string \<times> string \<Rightarrow> (mcp_error, string \<times> string) result" where
  "kms_by_name_parts i =
     and_then (map_err invalid_input (new_project_id (fst i))) (\<lambda>p.
     and_then (map_err invalid_kms (new_kms_key_name (snd i))) (\<lambda>n. Ok (p, n)))"

record kms_create_input =
  kci_project_id :: string
  kci_name :: string
  kci_description :: "string option"
  kci_usage :: kms_key_usage
  kci_algorithm :: kms_key_algorithm
  kci_confirm :: bool

definition decode_kms_create :: "(string \<times> json) list \<Rightarrow> kms_create_input option" where
  "decode_kms_create m =
     do { fs \<leftarrow> strict_fields [(''projectId'', Required_Field), (''name'', Required_Field),
            (''description'', Option_Field), (''keyUsage'', Required_Field), (''algorithm'', Required_Field),
            (''confirm'', Required_Field)] (Object m);
          p \<leftarrow> wire_field fs ''projectId'' as_str;
          n \<leftarrow> wire_field fs ''name'' as_str;
          d \<leftarrow> wire_option fs ''description'' as_str;
          u \<leftarrow> wire_field fs ''keyUsage'' decode_kms_usage;
          a \<leftarrow> wire_field fs ''algorithm'' decode_kms_algorithm;
          c \<leftarrow> wire_field fs ''confirm'' decode_bool;
          Some \<lparr>kci_project_id = p, kci_name = n, kci_description = d, kci_usage = u, kci_algorithm = a,
                kci_confirm = c\<rparr> }"

definition kms_create_parts :: "kms_create_input \<Rightarrow> (mcp_error, string \<times> kms_key_creation \<times> bool) result" where
  "kms_create_parts i =
     and_then (map_err invalid_input (new_project_id (kci_project_id i))) (\<lambda>p.
     and_then (map_err invalid_kms (new_kms_key_name (kci_name i))) (\<lambda>n.
     and_then (map_err invalid_kms
         (new_kms_key_creation n (kci_description i) (kci_usage i) (kci_algorithm i))) (\<lambda>c.
       Ok (p, c, kci_confirm i))))"

record kms_update_input =
  kui_target :: "string \<times> string"
  kui_name :: "string option"
  kui_description :: "string option"
  kui_disabled :: "bool option"
  kui_confirm :: bool

definition decode_kms_update :: "(string \<times> json) list \<Rightarrow> kms_update_input option" where
  "decode_kms_update m =
     do { fs \<leftarrow> strict_fields [(''target'', Required_Field), (''name'', Option_Field),
            (''description'', Option_Field), (''disabled'', Option_Field), (''confirm'', Required_Field)] (Object m);
          t \<leftarrow> wire_field fs ''target'' decode_kms_target;
          n \<leftarrow> wire_option fs ''name'' as_str;
          d \<leftarrow> wire_option fs ''description'' as_str;
          b \<leftarrow> wire_option fs ''disabled'' decode_bool;
          c \<leftarrow> wire_field fs ''confirm'' decode_bool;
          Some \<lparr>kui_target = t, kui_name = n, kui_description = d, kui_disabled = b, kui_confirm = c\<rparr> }"

definition kms_update_parts ::
    "kms_update_input \<Rightarrow> (mcp_error, string \<times> string \<times> kms_key_change \<times> bool) result" where
  "kms_update_parts i =
     and_then (kms_target_parts (kui_target i)) (\<lambda>(p, k).
     and_then (case kui_name i of None \<Rightarrow> Ok None
         | Some n \<Rightarrow> map_sum id Some (map_err invalid_kms (new_kms_key_name n))) (\<lambda>n.
     and_then (map_err invalid_kms (new_kms_key_change n (kui_description i) (kui_disabled i))) (\<lambda>c.
       Ok (p, k, c, kui_confirm i))))"

definition decode_kms_delete :: "(string \<times> json) list \<Rightarrow> ((string \<times> string) \<times> bool) option" where
  "decode_kms_delete m =
     do { fs \<leftarrow> strict_fields [(''target'', Required_Field), (''confirm'', Required_Field)] (Object m);
          t \<leftarrow> wire_field fs ''target'' decode_kms_target;
          c \<leftarrow> wire_field fs ''confirm'' decode_bool;
          Some (t, c) }"

record kms_encrypt_input =
  kei_target :: "string \<times> string"
  kei_data :: string
  kei_confirm :: bool

definition decode_kms_encrypt :: "(string \<times> json) list \<Rightarrow> kms_encrypt_input option" where
  "decode_kms_encrypt m =
     do { fs \<leftarrow> strict_fields [(''target'', Required_Field), (''data'', Required_Field),
            (''confirm'', Required_Field)] (Object m);
          t \<leftarrow> wire_field fs ''target'' decode_kms_target;
          d \<leftarrow> wire_field fs ''data'' as_str;
          c \<leftarrow> wire_field fs ''confirm'' decode_bool;
          Some \<lparr>kei_target = t, kei_data = d, kei_confirm = c\<rparr> }"

text \<open>The target and the data of the cryptographic operations, validated in this order.\<close>

definition kms_data_parts ::
    "base64_library \<Rightarrow> string \<times> string \<Rightarrow> string \<Rightarrow> (mcp_error, string \<times> string \<times> kms_data) result" where
  "kms_data_parts B target value =
     and_then (kms_target_parts target) (\<lambda>(p, k).
     and_then (map_err invalid_kms (new_kms_data B value)) (\<lambda>d. Ok (p, k, d)))"

record kms_decrypt_input =
  kdi_target :: "string \<times> string"
  kdi_ciphertext :: string
  kdi_confirm_reveal :: bool
  kdi_delivery :: "secret_delivery_mode option"

definition decode_kms_decrypt :: "(string \<times> json) list \<Rightarrow> kms_decrypt_input option" where
  "decode_kms_decrypt m =
     do { fs \<leftarrow> strict_fields [(''target'', Required_Field), (''ciphertext'', Required_Field),
            (''confirmReveal'', Required_Field), (''delivery'', Default_Field)] (Object m);
          t \<leftarrow> wire_field fs ''target'' decode_kms_target;
          x \<leftarrow> wire_field fs ''ciphertext'' as_str;
          c \<leftarrow> wire_field fs ''confirmReveal'' decode_bool;
          mode \<leftarrow> wire_option fs ''delivery'' (decode_variant secret_delivery_variant);
          Some \<lparr>kdi_target = t, kdi_ciphertext = x, kdi_confirm_reveal = c, kdi_delivery = mode\<rparr> }"

record kms_reveal_input =
  kri_target :: "string \<times> string"
  kri_confirm_reveal :: bool
  kri_delivery :: "secret_delivery_mode option"

definition decode_kms_reveal :: "(string \<times> json) list \<Rightarrow> kms_reveal_input option" where
  "decode_kms_reveal m =
     do { fs \<leftarrow> strict_fields [(''target'', Required_Field), (''confirmReveal'', Required_Field),
            (''delivery'', Default_Field)] (Object m);
          t \<leftarrow> wire_field fs ''target'' decode_kms_target;
          c \<leftarrow> wire_field fs ''confirmReveal'' decode_bool;
          mode \<leftarrow> wire_option fs ''delivery'' (decode_variant secret_delivery_variant);
          Some \<lparr>kri_target = t, kri_confirm_reveal = c, kri_delivery = mode\<rparr> }"

record kms_import_entry_input =
  kii_name :: string
  kii_usage :: kms_key_usage
  kii_algorithm :: kms_key_algorithm
  kii_material :: string

definition decode_kms_import_entry :: "json \<Rightarrow> kms_import_entry_input option" where
  "decode_kms_import_entry j =
     do { fs \<leftarrow> strict_fields [(''name'', Required_Field), (''keyUsage'', Required_Field),
            (''algorithm'', Required_Field), (''keyMaterial'', Required_Field)] j;
          n \<leftarrow> wire_field fs ''name'' as_str;
          u \<leftarrow> wire_field fs ''keyUsage'' decode_kms_usage;
          a \<leftarrow> wire_field fs ''algorithm'' decode_kms_algorithm;
          v \<leftarrow> wire_field fs ''keyMaterial'' as_str;
          Some \<lparr>kii_name = n, kii_usage = u, kii_algorithm = a, kii_material = v\<rparr> }"

definition kms_import_entry_of ::
    "base64_library \<Rightarrow> kms_import_entry_input \<Rightarrow> (mcp_error, kms_import_entry) result" where
  "kms_import_entry_of B i =
     and_then (map_err invalid_kms (new_kms_key_material B (kii_material i) (kii_algorithm i))) (\<lambda>v.
     and_then (map_err invalid_kms (new_kms_key_name (kii_name i))) (\<lambda>n.
       map_err invalid_kms (new_kms_import_entry n (kii_usage i) (kii_algorithm i) v)))"

definition decode_kms_bulk_import ::
    "(string \<times> json) list \<Rightarrow> (string \<times> kms_import_entry_input list \<times> bool) option" where
  "decode_kms_bulk_import m =
     do { fs \<leftarrow> strict_fields [(''projectId'', Required_Field), (''keys'', Required_Field),
            (''confirm'', Required_Field)] (Object m);
          p \<leftarrow> wire_field fs ''projectId'' as_str;
          ks \<leftarrow> wire_field fs ''keys'' (wire_list decode_kms_import_entry);
          c \<leftarrow> wire_field fs ''confirm'' decode_bool;
          Some (p, ks, c) }"

definition kms_bulk_import_parts ::
    "base64_library \<Rightarrow> string \<times> kms_import_entry_input list \<times> bool
      \<Rightarrow> (mcp_error, string \<times> kms_import_entry list \<times> bool) result" where
  "kms_bulk_import_parts B i =
     (case i of (p, ks, c) \<Rightarrow>
        if ks = [] \<or> max_kms_bulk_keys < length ks
        then Err (invalid_params ''keys must contain between 1 and 100 entries'' None)
        else
          and_then (map_err invalid_input (new_project_id p)) (\<lambda>p.
          and_then (traverse (kms_import_entry_of B) ks) (\<lambda>entries. Ok (p, entries, c))))"

record kms_bulk_reveal_input =
  kbi_project_id :: string
  kbi_key_ids :: "string list"
  kbi_confirm_reveal :: bool
  kbi_delivery :: "secret_delivery_mode option"

definition decode_kms_bulk_reveal :: "(string \<times> json) list \<Rightarrow> kms_bulk_reveal_input option" where
  "decode_kms_bulk_reveal m =
     do { fs \<leftarrow> strict_fields [(''projectId'', Required_Field), (''keyIds'', Required_Field),
            (''confirmReveal'', Required_Field), (''delivery'', Default_Field)] (Object m);
          p \<leftarrow> wire_field fs ''projectId'' as_str;
          ks \<leftarrow> wire_field fs ''keyIds'' (wire_list as_str);
          c \<leftarrow> wire_field fs ''confirmReveal'' decode_bool;
          mode \<leftarrow> wire_option fs ''delivery'' (decode_variant secret_delivery_variant);
          Some \<lparr>kbi_project_id = p, kbi_key_ids = ks, kbi_confirm_reveal = c, kbi_delivery = mode\<rparr> }"

definition kms_bulk_reveal_parts ::
    "kms_bulk_reveal_input \<Rightarrow> (mcp_error, string \<times> string list \<times> bool) result" where
  "kms_bulk_reveal_parts i =
     (if kbi_key_ids i = [] \<or> max_kms_bulk_keys < length (kbi_key_ids i)
      then Err (invalid_params ''keyIds must contain between 1 and 100 entries'' None)
      else
        and_then (map_err invalid_input (new_project_id (kbi_project_id i))) (\<lambda>p.
        and_then (map_err invalid_kms (traverse new_kms_key_id (kbi_key_ids i))) (\<lambda>ks.
          Ok (p, ks, kbi_confirm_reveal i))))"

record kms_sign_input =
  ksi_target :: "string \<times> string"
  ksi_data :: string
  ksi_algorithm :: kms_signing_algorithm
  ksi_is_digest :: bool
  ksi_confirm :: bool

definition decode_kms_sign :: "(string \<times> json) list \<Rightarrow> kms_sign_input option" where
  "decode_kms_sign m =
     do { fs \<leftarrow> strict_fields [(''target'', Required_Field), (''data'', Required_Field),
            (''signingAlgorithm'', Required_Field), (''isDigest'', Default_Field),
            (''confirm'', Required_Field)] (Object m);
          t \<leftarrow> wire_field fs ''target'' decode_kms_target;
          d \<leftarrow> wire_field fs ''data'' as_str;
          a \<leftarrow> wire_field fs ''signingAlgorithm'' decode_kms_signing;
          g \<leftarrow> wire_default fs ''isDigest'' False decode_bool;
          c \<leftarrow> wire_field fs ''confirm'' decode_bool;
          Some \<lparr>ksi_target = t, ksi_data = d, ksi_algorithm = a, ksi_is_digest = g, ksi_confirm = c\<rparr> }"

definition decode_kms_verify :: "(string \<times> json) list \<Rightarrow> (kms_sign_input \<times> string) option" where
  "decode_kms_verify m =
     do { fs \<leftarrow> strict_fields [(''target'', Required_Field), (''data'', Required_Field),
            (''signature'', Required_Field), (''signingAlgorithm'', Required_Field),
            (''isDigest'', Default_Field), (''confirm'', Required_Field)] (Object m);
          t \<leftarrow> wire_field fs ''target'' decode_kms_target;
          d \<leftarrow> wire_field fs ''data'' as_str;
          s \<leftarrow> wire_field fs ''signature'' as_str;
          a \<leftarrow> wire_field fs ''signingAlgorithm'' decode_kms_signing;
          g \<leftarrow> wire_default fs ''isDigest'' False decode_bool;
          c \<leftarrow> wire_field fs ''confirm'' decode_bool;
          Some (\<lparr>ksi_target = t, ksi_data = d, ksi_algorithm = a, ksi_is_digest = g, ksi_confirm = c\<rparr>, s) }"

section \<open>Outputs\<close>

definition kms_key_json :: "kms_key \<Rightarrow> json" where
  "kms_key_json k =
     object_of
       ([(''id'', String (kk_id k)), (''name'', String (kk_name k))]
        @ optional_field ''description'' (map_option String (kk_description k))
        @ [(''disabled'', Bool (kk_disabled k)), (''projectId'', String (kk_project_id k)),
           (''keyUsage'', kms_usage_json (kk_usage k)), (''algorithm'', kms_algorithm_json (kk_algorithm k)),
           (''version'', unsigned (kk_version k)), (''createdAt'', String (kk_created_at k)),
           (''updatedAt'', String (kk_updated_at k))])"

definition kms_ciphertext_json :: "kms_ciphertext \<Rightarrow> json" where
  "kms_ciphertext_json c = object_of [(''keyId'', String (kc_key_id c)), (''ciphertext'', String (kc_ciphertext c))]"

definition kms_public_key_json :: "kms_public_key \<Rightarrow> json" where
  "kms_public_key_json k = object_of [(''keyId'', String (kq_key_id k)), (''publicKey'', String (kq_public_key k))]"

definition kms_signing_algorithms_json :: "string \<times> kms_signing_algorithm list \<Rightarrow> json" where
  "kms_signing_algorithms_json r =
     object_of [(''keyId'', String (fst r)), (''signingAlgorithms'', Array (map kms_signing_json (snd r)))]"

definition kms_signature_json :: "kms_signature \<Rightarrow> json" where
  "kms_signature_json s =
     object_of [(''keyId'', String (ks_key_id s)), (''signingAlgorithm'', kms_signing_json (ks_algorithm s)),
                (''signature'', String (ks_signature s))]"

definition kms_verification_json :: "kms_verification \<Rightarrow> json" where
  "kms_verification_json v =
     object_of [(''keyId'', String (kv_key_id v)), (''signingAlgorithm'', kms_signing_json (kv_algorithm v)),
                (''signatureValid'', Bool (kv_valid v))]"

definition kms_import_result_json :: "kms_import_result \<Rightarrow> json" where
  "kms_import_result_json r =
     object_of
       [(''projectId'', String (kr_project_id r)),
        (''imported'', Array (map (\<lambda>(i, n). object_of [(''id'', String i), (''name'', String n)]) (kr_imported r))),
        (''errors'', Array (map (\<lambda>(n, m). object_of [(''name'', String n), (''message'', String m)]) (kr_errors r)))]"

text \<open>Revealed material: in the output when no reference was staged, otherwise the reference.\<close>

definition kms_material_output :: "string \<Rightarrow> string \<Rightarrow> string \<Rightarrow> secret_file_reference option \<Rightarrow> json" where
  "kms_material_output key key_id value rf =
     object_of
       ([(''keyId'', String key_id)]
        @ optional_field key (if rf = None then Some (String value) else None)
        @ optional_field ''secretFile'' (map_option file_reference_json rf))"

definition deliver_kms_plaintext ::
    "tool_env \<Rightarrow> kms_decrypted \<Rightarrow> secret_disposition \<Rightarrow> plane option
      \<Rightarrow> ((mcp_error, json) result \<times> plane option) option" where
  "deliver_kms_plaintext E v =
     staged_output E KMS_DECRYPT_TOOL (object_of [(''plaintext'', String (kx_plaintext v))])
       (kms_material_output ''plaintext'' (kx_key_id v) (kx_plaintext v))"

definition deliver_kms_private_key ::
    "tool_env \<Rightarrow> kms_private_key \<Rightarrow> secret_disposition \<Rightarrow> plane option
      \<Rightarrow> ((mcp_error, json) result \<times> plane option) option" where
  "deliver_kms_private_key E v =
     staged_output E KMS_PRIVATE_KEY_REVEAL_TOOL (object_of [(''privateKey'', String (kp_private_key v))])
       (kms_material_output ''privateKey'' (kp_key_id v) (kp_private_key v))"

definition kms_bulk_key_output :: "secret_file_reference option \<Rightarrow> kms_bulk_private_key \<Rightarrow> json" where
  "kms_bulk_key_output rf k =
     object_of
       ([(''keyId'', String (kb_key_id k)), (''name'', String (kb_name k)),
         (''keyUsage'', kms_usage_json (kb_usage k)), (''algorithm'', kms_algorithm_json (kb_algorithm k))]
        @ optional_field ''privateKey'' (if rf = None then Some (String (kb_private_key k)) else None)
        @ [(''publicKey'', option_json String (kb_public_key k))])"

definition kms_bulk_output :: "string \<Rightarrow> kms_bulk_private_key list \<Rightarrow> secret_file_reference option \<Rightarrow> json" where
  "kms_bulk_output project_id ks rf =
     object_of
       ([(''projectId'', String project_id), (''keys'', Array (map (kms_bulk_key_output rf) ks))]
        @ optional_field ''secretFile'' (map_option file_reference_json rf))"

definition kms_bulk_material :: "kms_bulk_private_key list \<Rightarrow> json" where
  "kms_bulk_material ks =
     object_of [(''keys'', Array (map (\<lambda>k. object_of
        [(''keyId'', String (kb_key_id k)), (''name'', String (kb_name k)),
         (''privateKey'', String (kb_private_key k))]) ks))]"

text \<open>The project of the output is the one validated with the arguments.\<close>

definition deliver_kms_bulk ::
    "tool_env \<Rightarrow> string \<times> kms_bulk_private_key list \<Rightarrow> secret_disposition \<Rightarrow> plane option
      \<Rightarrow> ((mcp_error, json) result \<times> plane option) option" where
  "deliver_kms_bulk E v =
     staged_output E KMS_PRIVATE_KEYS_BULK_REVEAL_TOOL (kms_bulk_material (snd v)) (kms_bulk_output (fst v) (snd v))"

section \<open>Dispatch\<close>

definition dispatch_kms_management_workflow :: "tool_env \<Rightarrow> call_params \<Rightarrow> tool_state \<Rightarrow> tool_outcome" where
  "dispatch_kms_management_workflow E params =
     (let name = cp_name params in
      if name = KMS_KEYS_LIST_TOOL then
        with_input E ''KmsKeysListInput'' decode_kms_keys_list
          ''kms.keys.list arguments do not match the declared schema'' params (\<lambda>i.
          with_parts (kms_list_request_of i) (\<lambda>request.
            upstream_call E (tool_result E (page_json kms_key_json)) (\<lambda>ap. list_kms_keys ap request)))
      else if name = KMS_KEYS_GET_TOOL then
        with_input E ''KmsKeyTargetInput'' (\<lambda>m. decode_kms_target (Object m))
          ''kms.keys.get arguments do not match the declared schema'' params (\<lambda>i.
          with_parts (kms_target_parts i) (\<lambda>(project_id, key_id).
            upstream_call E (tool_result E kms_key_json) (\<lambda>ap. get_kms_key ap project_id key_id)))
      else if name = KMS_KEYS_GET_BY_NAME_TOOL then
        with_input E ''KmsKeyByNameInput'' decode_kms_by_name
          ''kms.keys.getByName arguments do not match the declared schema'' params (\<lambda>i.
          with_parts (kms_by_name_parts i) (\<lambda>(project_id, key_name).
            upstream_call E (tool_result E kms_key_json) (\<lambda>ap. get_kms_key_by_name ap project_id key_name)))
      else if name = KMS_KEYS_CREATE_TOOL then
        with_input E ''KmsKeyCreateInput'' decode_kms_create
          ''kms.keys.create arguments do not match the declared schema'' params (\<lambda>i.
          with_parts (kms_create_parts i) (\<lambda>(project_id, c, confirm).
            upstream_call E (tool_result E kms_key_json) (\<lambda>ap. create_kms_key ap project_id c confirm)))
      else if name = KMS_KEYS_UPDATE_TOOL then
        with_input E ''KmsKeyUpdateInput'' decode_kms_update
          ''kms.keys.update arguments do not match the declared schema'' params (\<lambda>i.
          with_parts (kms_update_parts i) (\<lambda>(project_id, key_id, c, confirm).
            upstream_call E (tool_result E kms_key_json) (\<lambda>ap. update_kms_key ap project_id key_id c confirm)))
      else if name = KMS_KEYS_DELETE_TOOL then
        with_input E ''KmsKeyDeleteInput'' decode_kms_delete
          ''kms.keys.delete arguments do not match the declared schema'' params (\<lambda>i.
          with_parts (kms_target_parts (fst i)) (\<lambda>(project_id, key_id).
            upstream_call E (tool_result E kms_key_json) (\<lambda>ap. delete_kms_key ap project_id key_id (snd i))))
      else (\<lambda>s. Some (Err method_not_found, s)))"

definition dispatch_kms_material_workflow :: "tool_env \<Rightarrow> call_params \<Rightarrow> tool_state \<Rightarrow> tool_outcome" where
  "dispatch_kms_material_workflow E params =
     (let name = cp_name params; B = te_base64 E in
      if name = KMS_PUBLIC_KEY_GET_TOOL then
        with_input E ''KmsKeyTargetInput'' (\<lambda>m. decode_kms_target (Object m))
          ''kms.keys.publicKey.get arguments do not match the declared schema'' params (\<lambda>i.
          with_parts (kms_target_parts i) (\<lambda>(project_id, key_id).
            upstream_call E (tool_result E kms_public_key_json) (\<lambda>ap. get_kms_public_key ap B project_id key_id)))
      else if name = KMS_PRIVATE_KEY_REVEAL_TOOL then
        with_input E ''KmsPrivateKeyRevealInput'' decode_kms_reveal
          ''kms.keys.privateKey.reveal arguments do not match the declared schema'' params (\<lambda>i.
          with_delivery E (kri_delivery i) (kms_target_parts (kri_target i))
            (\<lambda>ap (project_id, key_id). reveal_kms_private_key ap B project_id key_id (kri_confirm_reveal i))
            (deliver_kms_private_key E))
      else if name = KMS_KEYS_BULK_IMPORT_TOOL then
        with_input E ''KmsBulkImportInput'' decode_kms_bulk_import
          ''kms.keys.bulkImport arguments do not match the declared schema'' params (\<lambda>i.
          with_parts (kms_bulk_import_parts B i) (\<lambda>(project_id, keys, confirm).
            upstream_call E (tool_result E kms_import_result_json)
              (\<lambda>ap. bulk_import_kms_keys ap project_id keys confirm)))
      else if name = KMS_PRIVATE_KEYS_BULK_REVEAL_TOOL then
        with_input E ''KmsBulkPrivateKeyRevealInput'' decode_kms_bulk_reveal
          ''kms.keys.privateKeys.bulkReveal arguments do not match the declared schema'' params (\<lambda>i.
          with_delivery E (kbi_delivery i) (kms_bulk_reveal_parts i)
            (\<lambda>ap (project_id, key_ids, confirm_reveal).
               checked_call
                 (bulk_reveal_kms_private_keys ap B (te_preflights E) project_id key_ids confirm_reveal)
                 (\<lambda>keys. Ok (project_id, keys)))
            (deliver_kms_bulk E))
      else if name = KMS_SIGNING_ALGORITHMS_LIST_TOOL then
        with_input E ''KmsKeyTargetInput'' (\<lambda>m. decode_kms_target (Object m))
          ''kms.keys.signingAlgorithms.list arguments do not match the declared schema'' params (\<lambda>i.
          with_parts (kms_target_parts i) (\<lambda>(project_id, key_id).
            upstream_call E (tool_result E kms_signing_algorithms_json)
              (\<lambda>ap. list_kms_signing_algorithms ap project_id key_id)))
      else (\<lambda>s. Some (Err method_not_found, s)))"

definition dispatch_kms_cryptographic_workflow :: "tool_env \<Rightarrow> call_params \<Rightarrow> tool_state \<Rightarrow> tool_outcome" where
  "dispatch_kms_cryptographic_workflow E params =
     (let name = cp_name params; B = te_base64 E in
      if name = KMS_ENCRYPT_TOOL then
        with_input E ''KmsEncryptInput'' decode_kms_encrypt
          ''kms.encrypt arguments do not match the declared schema'' params (\<lambda>i.
          with_parts (kms_data_parts B (kei_target i) (kei_data i)) (\<lambda>(project_id, key_id, d).
            upstream_call E (tool_result E kms_ciphertext_json)
              (\<lambda>ap. kms_encrypt ap B project_id key_id d (kei_confirm i))))
      else if name = KMS_DECRYPT_TOOL then
        with_input E ''KmsDecryptInput'' decode_kms_decrypt
          ''kms.decrypt arguments do not match the declared schema'' params (\<lambda>i.
          with_delivery E (kdi_delivery i) (kms_target_parts (kdi_target i))
            (\<lambda>ap (project_id, key_id).
               kms_decrypt ap B project_id key_id (kdi_ciphertext i) (kdi_confirm_reveal i))
            (deliver_kms_plaintext E))
      else if name = KMS_SIGN_TOOL then
        with_input E ''KmsSignInput'' decode_kms_sign
          ''kms.sign arguments do not match the declared schema'' params (\<lambda>i.
          with_parts (kms_data_parts B (ksi_target i) (ksi_data i)) (\<lambda>(project_id, key_id, d).
            upstream_call E (tool_result E kms_signature_json)
              (\<lambda>ap. kms_sign ap B project_id key_id d (ksi_algorithm i) (ksi_is_digest i) (ksi_confirm i))))
      else if name = KMS_VERIFY_TOOL then
        with_input E ''KmsVerifyInput'' decode_kms_verify
          ''kms.verify arguments do not match the declared schema'' params (\<lambda>(i, signature).
          with_parts (kms_data_parts B (ksi_target i) (ksi_data i)) (\<lambda>(project_id, key_id, d).
            upstream_call E (tool_result E kms_verification_json)
              (\<lambda>ap. kms_verify ap B project_id key_id d signature (ksi_algorithm i) (ksi_is_digest i)
                 (ksi_confirm i))))
      else (\<lambda>s. Some (Err method_not_found, s)))"

definition dispatch_kms_workflow :: "tool_env \<Rightarrow> call_params \<Rightarrow> tool_state \<Rightarrow> tool_outcome" where
  "dispatch_kms_workflow E params =
     (if cp_name params \<in> {KMS_KEYS_LIST_TOOL, KMS_KEYS_GET_TOOL, KMS_KEYS_GET_BY_NAME_TOOL,
           KMS_KEYS_CREATE_TOOL, KMS_KEYS_UPDATE_TOOL, KMS_KEYS_DELETE_TOOL}
      then dispatch_kms_management_workflow E params
      else if cp_name params \<in> {KMS_PUBLIC_KEY_GET_TOOL, KMS_PRIVATE_KEY_REVEAL_TOOL,
           KMS_KEYS_BULK_IMPORT_TOOL, KMS_PRIVATE_KEYS_BULK_REVEAL_TOOL, KMS_SIGNING_ALGORITHMS_LIST_TOOL}
      then dispatch_kms_material_workflow E params
      else dispatch_kms_cryptographic_workflow E params)"

end
