(* ===== verification/Workflow_Wire.thy ===== *)
theory Workflow_Wire
  imports Wire_Discipline Kms_Tools
begin

text \<open>
  What the operations of the API send, and what the workflows built on them send: reads nothing but
  GET requests, changes at most one other request, and deletions nothing without a confirmation.
\<close>

section \<open>What the API calls send\<close>

lemma calls_mono: "calls_within only_gets f \<Longrightarrow> calls_within one_change f"
  unfolding calls_within_def stays_def using only_gets_one_change by blast

lemma handler_mono: "handler_within only_gets h \<Longrightarrow> handler_within one_change h"
  unfolding handler_within_def stays_def using only_gets_one_change by blast

lemma calls_pair [discipline]:
  "(\<And>x y. calls_within P (f x y)) \<Longrightarrow> calls_within P (case p of (x, y) \<Rightarrow> f x y)"
  by (cases p) simp

lemma import_reads:
  "calls_within only_gets (list_secret_imports ap scope page)"
  "calls_within only_gets (get_secret_import ap ident)"
  by (rule calls_withinI; auto simp: list_secret_imports_def get_secret_import_def wire_snd dest: wire
      split: prod.splits sum.splits)+

lemma import_changes:
  "calls_within one_change (create_secret_import ap scope e p)"
  "calls_within one_change (update_secret_import ap scope ident c)"
  "calls_within one_change (delete_secret_import ap scope ident b)"
  by (rule calls_withinI; simp add: create_secret_import_def update_secret_import_def
      delete_secret_import_def wire_snd split: secret_import_change.split)+

lemma folder_reads:
  "calls_within only_gets (list_folders ap scope page)"
  "calls_within only_gets (get_folder ap ident)"
  by (rule calls_withinI; auto simp: list_folders_def get_folder_def wire_snd dest: wire
      split: prod.splits sum.splits)+

lemma folder_changes:
  "calls_within one_change (create_folder ap c)"
  "calls_within one_change (update_folder ap u)"
  "calls_within one_change (update_folders_batch ap p us)"
  "calls_within one_change (delete_folder ap parent ident force b)"
  by (rule calls_withinI; simp add: create_folder_def update_folder_def update_folders_batch_def
      delete_folder_def wire_snd split: sum.split)+

lemma tag_reads:
  "calls_within only_gets (list_tags ap p page)"
  "calls_within only_gets (get_tag ap p selector)"
  by (rule calls_withinI; auto simp: list_tags_def get_tag_def wire_snd dest: wire
      split: prod.splits sum.splits)+

lemma tag_changes:
  "calls_within one_change (create_tag ap p v)"
  "calls_within one_change (update_tag ap p ident v)"
  "calls_within one_change (delete_tag ap p ident b)"
  by (rule calls_withinI; simp add: create_tag_def update_tag_def delete_tag_def wire_snd)+

lemma project_reads:
  "calls_within only_gets (list_projects ap page)"
  "calls_within only_gets (get_project ap p)"
  "calls_within only_gets (get_environment ap p e)"
  by (rule calls_withinI; auto simp: list_projects_def get_project_def get_environment_def wire_snd
      dest: wire split: prod.splits sum.splits)+

lemma list_environments_reads: "calls_within only_gets (list_environments ap p page)"
  using calls_withinD [OF project_reads(2)]
  by (intro calls_withinI) (fastforce simp: list_environments_def split: prod.splits sum.splits option.splits)

lemma project_changes:
  "calls_within one_change (create_project ap c)"
  "calls_within one_change (update_project ap p change)"
  "calls_within one_change (delete_project ap p b)"
  "calls_within one_change (create_environment ap p ec)"
  "calls_within one_change (update_environment ap p e chg)"
  "calls_within one_change (delete_environment ap p e b)"
  "calls_within one_change (restore_environment ap p e)"
  by (rule calls_withinI; simp add: create_project_def update_project_def delete_project_def
      create_environment_def update_environment_def delete_environment_def restore_environment_def wire_snd)+

lemma role_reads:
  "calls_within only_gets (list_project_roles ap p page)"
  "calls_within only_gets (get_project_role ap p slug)"
  "calls_within only_gets (list_organization_roles ap page)"
  "calls_within only_gets (get_organization_role ap slug)"
  by (rule calls_withinI; simp add: list_project_roles_def get_project_role_def list_organization_roles_def
      get_organization_role_def wire_snd)+

lemma group_reads:
  "calls_within only_gets (list_groups ap page)"
  "calls_within only_gets (get_group ap g)"
  "calls_within only_gets (list_group_members ap g t page)"
  "calls_within only_gets (list_group_projects ap g f page)"
  "calls_within only_gets (list_project_group_memberships ap p page)"
  "calls_within only_gets (get_project_group_membership ap p g)"
  by (rule calls_withinI; simp add: list_groups_def get_group_def list_group_members_def
      list_group_projects_def list_project_group_memberships_def get_project_group_membership_def
      Let_def wire_snd)+

lemma membership_reads:
  "calls_within only_gets (list_project_user_memberships ap p page)"
  "calls_within only_gets (get_project_user_membership ap p m)"
  "calls_within only_gets (list_project_identity_memberships ap p page)"
  "calls_within only_gets (get_project_identity_membership ap p i)"
  by (rule calls_withinI; simp add: list_project_user_memberships_def get_project_user_membership_def
      list_project_identity_memberships_def get_project_identity_membership_def Let_def wire_snd)+

lemma membership_changes:
  "calls_within one_change (invite_project_users ap p invitation)"
  "calls_within one_change (update_project_user_membership ap p m roles c)"
  "calls_within one_change (delete_project_user_membership ap p m c)"
  "calls_within one_change (create_project_identity_membership ap p i roles)"
  "calls_within one_change (update_project_identity_membership ap p i roles c)"
  "calls_within one_change (delete_project_identity_membership ap p i c)"
  by (rule calls_withinI; simp add: invite_project_users_def update_project_user_membership_def
      delete_project_user_membership_def create_project_identity_membership_def
      update_project_identity_membership_def delete_project_identity_membership_def
      mutate_project_identity_membership_def wire_snd)+

lemma identity_reads:
  "calls_within only_gets (list_identities ap org page)"
  "calls_within only_gets (get_identity ap i)"
  by (rule calls_withinI; simp add: list_identities_def get_identity_def wire_snd)+

lemma identity_changes:
  "calls_within one_change (create_identity ap c)"
  "calls_within one_change (update_identity ap i chg)"
  "calls_within one_change (delete_identity ap i b)"
  by (rule calls_withinI; simp add: create_identity_def update_identity_def delete_identity_def wire_snd)+

lemma identity_auth_reads:
  "calls_within only_gets (get_universal_auth ap i)"
  "calls_within only_gets (list_universal_auth_client_secrets ap i page)"
  "calls_within only_gets (get_universal_auth_client_secret ap i c)"
  "calls_within only_gets (get_token_auth ap i)"
  "calls_within only_gets (list_token_auth_tokens ap i page)"
  "calls_within only_gets (get_token_auth_token ap t)"
  "calls_within only_gets (get_kubernetes_auth ap i)"
  by (rule calls_withinI; simp add: get_universal_auth_def list_universal_auth_client_secrets_def
      get_universal_auth_client_secret_def get_token_auth_def list_token_auth_tokens_def
      get_token_auth_token_def get_kubernetes_auth_def Let_def wire_snd)+

lemma preflight_reads:
  "calls_within only_gets (scoped_privileges ap p i)"
  "calls_within only_gets (preflight_privilege ap p i meant)"
  by (simp_all add: scoped_privileges_def preflight_privilege_def) (intro call_rules)+

lemma privilege_reads:
  "calls_within only_gets (list_additional_privileges ap p i page)"
  "calls_within only_gets (get_additional_privilege ap p i v)"
  "calls_within only_gets (get_additional_privilege_by_slug ap p ps i slug)"
  unfolding list_additional_privileges_def get_additional_privilege_def get_additional_privilege_by_slug_def
  by (intro call_rules preflight_reads)+

lemma privilege_changes:
  "calls_within one_change (create_additional_privilege ap p i cr)"
  "calls_within one_change (update_additional_privilege ap p i v cg)"
  "calls_within one_change (delete_additional_privilege ap p i v b)"
  unfolding create_additional_privilege_def update_additional_privilege_def delete_additional_privilege_def
  by (intro call_rules preflight_reads)+

lemma observing: "calls_within only_gets (api_observable_read ap ep query d)"
  unfolding calls_within_def using api_observable_read_stays by blast

lemma pure_calls: "calls_within only_gets (pure_call r)" "calls_within one_change (pure_call r)"
  unfolding pure_call_def [abs_def] by (rule within_none)+

lemma kms_preflights:
  "calls_within only_gets (ensure_kms_project ap p)"
  "calls_within only_gets (get_kms_key ap p k)"
  "calls_within only_gets (preflight_kms_key ap p k u)"
  "calls_within only_gets (preflight_active_kms_key ap p k u)"
  unfolding ensure_kms_project_def get_kms_key_def preflight_kms_key_def preflight_active_kms_key_def
  by (intro call_rules observing project_reads)+

lemma take_preflights_reads: "calls_within only_gets (take_preflights ap expired p n ks observed)"
proof (induction ks arbitrary: observed)
  case Nil
  show ?case by (rule calls_withinI) simp
next
  case (Cons k ks)
  show ?case
  proof (rule calls_withinI)
    fix w assume w: "world_ok w"
    obtain r w1 where r: "preflight_active_kms_key ap p k None w = (r, w1)" by force
    note s = calls_withinD [OF kms_preflights(4) w r]
    show "world_ok (snd (take_preflights ap expired p n (k # ks) observed w))
        \<and> stays only_gets w (snd (take_preflights ap expired p n (k # ks) observed w))"
    proof (cases "expired (length observed)")
      case True
      with r s show ?thesis by simp
    next
      case False
      show ?thesis
      proof (cases r)
        case (Inl e)
        with False r s show ?thesis by simp
      next
        case (Inr key)
        let ?o = "AList.update (kk_id key) key observed"
        obtain r2 w2 where r2: "take_preflights ap expired p n ks ?o w1 = (r2, w2)" by force
        from calls_withinD [OF Cons.IH _ r2] s have "world_ok w2 \<and> stays only_gets w1 w2" by blast
        with False Inr r r2 s show ?thesis by (auto intro: stays_trans)
      qed
    qed
  qed
qed

lemma kms_reads:
  "calls_within only_gets (list_kms_keys ap request)"
  "calls_within only_gets (get_kms_key_by_name ap p n)"
  "calls_within only_gets (get_kms_public_key ap B p k)"
  "calls_within only_gets (reveal_kms_private_key ap B p k b)"
  "calls_within only_gets (list_kms_signing_algorithms ap p k)"
  unfolding list_kms_keys_def Let_def get_kms_key_by_name_def get_kms_public_key_def
    reveal_kms_private_key_def list_kms_signing_algorithms_def
  by (intro call_rules observing kms_preflights)+

lemma kms_changes:
  "calls_within one_change (create_kms_key ap p cn b)"
  "calls_within one_change (update_kms_key ap p k cg b)"
  "calls_within one_change (delete_kms_key ap p k b)"
  "calls_within one_change (kms_encrypt ap B p k d b)"
  "calls_within one_change (kms_decrypt ap B p k x b)"
  "calls_within one_change (kms_sign ap B p k d a g b)"
  "calls_within one_change (kms_verify ap B p k d x a g b)"
  "calls_within one_change (bulk_import_kms_keys ap p es b)"
  "calls_within one_change (bulk_reveal_kms_private_keys ap B S p ks b)"
  unfolding create_kms_key_def update_kms_key_def delete_kms_key_def kms_encrypt_def kms_decrypt_def
    kms_sign_def kms_verify_def bulk_import_kms_keys_def bulk_reveal_kms_private_keys_def
    preflight_bulk_kms_keys_def
  by (intro call_rules kms_preflights take_preflights_reads pure_calls)+

lemma identity_auth_changes:
  "calls_within one_change (attach_universal_auth ap i us)"
  "calls_within one_change (update_universal_auth ap i uc)"
  "calls_within one_change (remove_universal_auth ap i b)"
  "calls_within one_change (create_universal_auth_client_secret ap i cn)"
  "calls_within one_change (revoke_universal_auth_client_secret ap i c b)"
  "calls_within one_change (clear_universal_auth_lockouts ap i b)"
  "calls_within one_change (attach_token_auth ap i ts)"
  "calls_within one_change (update_token_auth ap i tc)"
  "calls_within one_change (remove_token_auth ap i b)"
  "calls_within one_change (create_token_auth_token ap i tn)"
  "calls_within one_change (update_token_auth_token ap t n)"
  "calls_within one_change (revoke_token_auth_token ap t b)"
  "calls_within one_change (attach_kubernetes_auth ap i ks)"
  "calls_within one_change (update_kubernetes_auth ap i kc)"
  "calls_within one_change (remove_kubernetes_auth ap i b)"
  by (rule calls_withinI; simp add: attach_universal_auth_def update_universal_auth_def
      remove_universal_auth_def create_universal_auth_client_secret_def revoke_universal_auth_client_secret_def
      clear_universal_auth_lockouts_def attach_token_auth_def update_token_auth_def remove_token_auth_def
      create_token_auth_token_def update_token_auth_token_def revoke_token_auth_token_def
      attach_kubernetes_auth_def update_kubernetes_auth_def remove_kubernetes_auth_def wire_snd)+

lemma audit_reads: "calls_within only_gets (list_audit_logs ap request)"
  by (rule calls_withinI) (auto simp: list_audit_logs_def Let_def wire_snd dest: wire
      split: prod.splits sum.splits)

lemmas tree_reads = import_reads folder_reads tag_reads project_reads list_environments_reads audit_reads
  role_reads group_reads membership_reads identity_reads identity_auth_reads privilege_reads kms_reads kms_preflights(2)
lemmas tree_calls [discipline] = tree_reads tree_reads [THEN calls_mono] import_changes folder_changes
  tag_changes project_changes membership_changes identity_changes identity_auth_changes privilege_changes kms_changes
  kms_changes(9) [THEN within_checked]
  list_secret_metadata_filtered_reads [THEN calls_mono]

lemmas mixed_handlers [discipline] = reveal_reads [THEN handler_mono] metadata_list_reads [THEN handler_mono]

section \<open>What the workflows send\<close>

lemmas workflow_defs = dispatch_project_workflow_def dispatch_environment_workflow_def
  dispatch_folder_workflow_def dispatch_tag_workflow_def dispatch_secret_import_workflow_def
  dispatch_secret_workflow_def dispatch_role_workflow_def dispatch_group_workflow_def
  dispatch_project_user_membership_workflow_def dispatch_project_identity_membership_workflow_def
  dispatch_identity_workflow_def dispatch_universal_auth_workflow_def
  dispatch_universal_auth_client_secret_workflow_def dispatch_token_auth_workflow_def
  dispatch_kubernetes_auth_workflow_def dispatch_additional_privilege_read_def
  dispatch_additional_privilege_mutation_def dispatch_kms_management_workflow_def
  dispatch_kms_material_workflow_def dispatch_kms_cryptographic_workflow_def Let_def

lemma workflows_change:
  "handler_within one_change (dispatch_audit_log_workflow E params)"
  "handler_within one_change (dispatch_project_workflow E params)"
  "handler_within one_change (dispatch_environment_workflow E params)"
  "handler_within one_change (dispatch_folder_workflow E params)"
  "handler_within one_change (dispatch_tag_workflow E params)"
  "handler_within one_change (dispatch_secret_import_workflow E params)"
  "handler_within one_change (dispatch_secret_workflow E (dispatch_secret_import_workflow E) params)"
  "handler_within one_change (dispatch_role_workflow E params)"
  "handler_within one_change (dispatch_group_workflow E params)"
  "handler_within one_change (dispatch_project_user_membership_workflow E params)"
  "handler_within one_change (dispatch_project_identity_membership_workflow E params)"
  "handler_within one_change (dispatch_identity_workflow E params)"
  "handler_within one_change (dispatch_universal_auth_workflow E params)"
  "handler_within one_change (dispatch_token_auth_workflow E params)"
  "handler_within one_change (dispatch_kubernetes_auth_workflow E params)"
  "handler_within one_change (dispatch_additional_privilege_workflow E params)"
  "handler_within one_change (dispatch_kms_workflow E params)"
  unfolding dispatch_kms_workflow_def dispatch_additional_privilege_workflow_def dispatch_audit_log_workflow_def workflow_defs by (intro discipline)+

lemma project_workflow_reads:
  "cp_name params \<in> {PROJECTS_LIST_TOOL, PROJECTS_GET_TOOL} \<Longrightarrow>
     handler_within only_gets (dispatch_project_workflow E params)"
  by (elim insertE emptyE; simp add: workflow_defs; intro discipline)

lemma environment_workflow_reads:
  "cp_name params \<in> {ENVIRONMENTS_LIST_TOOL, ENVIRONMENTS_GET_TOOL} \<Longrightarrow>
     handler_within only_gets (dispatch_environment_workflow E params)"
  by (elim insertE emptyE; simp add: workflow_defs; intro discipline)

lemma folder_workflow_reads:
  "cp_name params \<in> {FOLDERS_LIST_TOOL, FOLDERS_GET_TOOL} \<Longrightarrow>
     handler_within only_gets (dispatch_folder_workflow E params)"
  by (elim insertE emptyE; simp add: workflow_defs; intro discipline)

lemma tag_workflow_reads:
  "cp_name params \<in> {TAGS_LIST_TOOL, TAGS_GET_TOOL} \<Longrightarrow>
     handler_within only_gets (dispatch_tag_workflow E params)"
  by (elim insertE emptyE; simp add: workflow_defs; intro discipline)

lemma secret_workflow_reads:
  "cp_name params \<in> {SECRET_REVEAL_TOOL, SECRET_IMPORTS_LIST_TOOL, SECRET_IMPORTS_GET_TOOL} \<Longrightarrow>
     handler_within only_gets (dispatch_secret_workflow E (dispatch_secret_import_workflow E) params)"
  by (elim insertE emptyE; simp add: workflow_defs; intro discipline)

lemma directory_workflow_reads:
  "handler_within only_gets (dispatch_role_workflow E params)"
  "handler_within only_gets (dispatch_group_workflow E params)"
  unfolding workflow_defs by (intro discipline)+

lemma user_membership_workflow_reads:
  "cp_name params \<in> {PROJECT_USER_MEMBERSHIPS_LIST_TOOL, PROJECT_USER_MEMBERSHIPS_GET_TOOL} \<Longrightarrow>
     handler_within only_gets (dispatch_project_user_membership_workflow E params)"
  by (elim insertE emptyE; simp add: workflow_defs; intro discipline)

lemma identity_membership_workflow_reads:
  "cp_name params \<in> {PROJECT_IDENTITY_MEMBERSHIPS_LIST_TOOL, PROJECT_IDENTITY_MEMBERSHIPS_GET_TOOL} \<Longrightarrow>
     handler_within only_gets (dispatch_project_identity_membership_workflow E params)"
  by (elim insertE emptyE; simp add: workflow_defs; intro discipline)

lemma identity_workflow_reads:
  "cp_name params \<in> {IDENTITIES_LIST_TOOL, IDENTITIES_GET_TOOL} \<Longrightarrow>
     handler_within only_gets (dispatch_identity_workflow E params)"
  by (elim insertE emptyE; simp add: workflow_defs; intro discipline)

lemma identity_auth_workflow_changes: "handler_within one_change (dispatch_identity_auth_workflow E params)"
  unfolding dispatch_identity_auth_workflow_def by (intro discipline workflows_change)

lemma universal_auth_workflow_reads:
  "cp_name params \<in> {UNIVERSAL_AUTH_GET_TOOL, UNIVERSAL_AUTH_CLIENT_SECRETS_LIST_TOOL,
       UNIVERSAL_AUTH_CLIENT_SECRETS_GET_TOOL} \<Longrightarrow>
     handler_within only_gets (dispatch_identity_auth_workflow E params)"
  by (elim insertE emptyE; simp add: dispatch_identity_auth_workflow_def workflow_defs; intro discipline)

lemma token_auth_workflow_reads:
  "cp_name params \<in> {TOKEN_AUTH_GET_TOOL, TOKEN_AUTH_TOKENS_LIST_TOOL, TOKEN_AUTH_TOKENS_GET_TOOL} \<Longrightarrow>
     handler_within only_gets (dispatch_identity_auth_workflow E params)"
  by (elim insertE emptyE; simp add: dispatch_identity_auth_workflow_def workflow_defs; intro discipline)

lemma kubernetes_auth_workflow_reads:
  "cp_name params = KUBERNETES_AUTH_GET_TOOL \<Longrightarrow>
     handler_within only_gets (dispatch_identity_auth_workflow E params)"
  by (simp add: dispatch_identity_auth_workflow_def workflow_defs) (intro discipline)

lemma privilege_workflow_reads:
  "cp_name params \<in> {IDENTITY_PROJECT_ADDITIONAL_PRIVILEGES_LIST_TOOL,
       IDENTITY_PROJECT_ADDITIONAL_PRIVILEGES_GET_TOOL, IDENTITY_PROJECT_ADDITIONAL_PRIVILEGES_GET_BY_SLUG_TOOL} \<Longrightarrow>
     handler_within only_gets (dispatch_additional_privilege_workflow E params)"
  by (elim insertE emptyE; simp add: dispatch_additional_privilege_workflow_def workflow_defs; intro discipline)

lemma kms_workflow_reads:
  "cp_name params \<in> {KMS_KEYS_LIST_TOOL, KMS_KEYS_GET_TOOL, KMS_KEYS_GET_BY_NAME_TOOL,
       KMS_PUBLIC_KEY_GET_TOOL, KMS_PRIVATE_KEY_REVEAL_TOOL, KMS_SIGNING_ALGORITHMS_LIST_TOOL} \<Longrightarrow>
     handler_within only_gets (dispatch_kms_workflow E params)"
  by (elim insertE emptyE; simp add: dispatch_kms_workflow_def workflow_defs; intro discipline)

lemma audit_workflow_reads: "handler_within only_gets (dispatch_audit_log_workflow E params)"
  unfolding dispatch_audit_log_workflow_def by (intro discipline)

section \<open>Refused arguments\<close>

lemma quiet_credentials:
  "refuses_quietly (with_delivery E delivery parts call (deliver_client_secret E))"
  "refuses_quietly (with_delivery E delivery parts create (deliver_token E))"
  "refuses_quietly (with_delivery E delivery parts reveal (deliver_kms_private_key E))"
  "refuses_quietly (with_delivery E delivery parts decrypt (deliver_kms_plaintext E))"
  "refuses_quietly (with_delivery E delivery parts bulk (deliver_kms_bulk E))"
  unfolding deliver_kms_private_key_def [abs_def] deliver_kms_plaintext_def [abs_def] deliver_kms_bulk_def [abs_def]
    deliver_client_secret_def [abs_def] deliver_token_def [abs_def] by (rule quiet_staged)+

lemma workflows_quiet:
  "refuses_quietly (dispatch_audit_log_workflow E params)"
  "refuses_quietly (dispatch_project_workflow E params)"
  "refuses_quietly (dispatch_environment_workflow E params)"
  "refuses_quietly (dispatch_folder_workflow E params)"
  "refuses_quietly (dispatch_tag_workflow E params)"
  "refuses_quietly (dispatch_secret_workflow E (dispatch_secret_import_workflow E) params)"
  "refuses_quietly (dispatch_role_workflow E params)"
  "refuses_quietly (dispatch_group_workflow E params)"
  "refuses_quietly (dispatch_project_user_membership_workflow E params)"
  "refuses_quietly (dispatch_project_identity_membership_workflow E params)"
  "refuses_quietly (dispatch_identity_workflow E params)"
  "refuses_quietly (dispatch_universal_auth_workflow E params)"
  "refuses_quietly (dispatch_token_auth_workflow E params)"
  "refuses_quietly (dispatch_kubernetes_auth_workflow E params)"
  "refuses_quietly (dispatch_additional_privilege_workflow E params)"
  "refuses_quietly (dispatch_kms_workflow E params)"
  unfolding dispatch_kms_workflow_def dispatch_additional_privilege_workflow_def dispatch_audit_log_workflow_def workflow_defs by (intro quiet quiet_credentials)+

lemma identity_auth_workflow_quiet: "refuses_quietly (dispatch_identity_auth_workflow E params)"
  unfolding dispatch_identity_auth_workflow_def by (intro quiet workflows_quiet)

end
