(* ===== verification/Confirmed_Destruction.thy ===== *)
theory Confirmed_Destruction
  imports Workflow_Wire
begin

text \<open>
  Destructive operations and their confirmation: a call whose arguments confirm nothing leaves the
  client untouched. The confirmation fields are those that \<open>operations.describe\<close> names.
\<close>

section \<open>Confirmations in the arguments\<close>

definition call_arguments :: "call_params \<Rightarrow> (string \<times> json) list" where
  "call_arguments params = (case cp_arguments params of None \<Rightarrow> [] | Some m \<Rightarrow> m)"

text \<open>The names \<open>confirmation_fields\<close> selects.\<close>

definition is_confirmation :: "string \<Rightarrow> bool" where
  "is_confirmation k \<longleftrightarrow> prefix ''confirm'' k \<or> prefix ''acknowledge'' k"

definition confirmation_given :: "call_params \<Rightarrow> bool" where
  "confirmation_given params \<longleftrightarrow>
     list_ex (\<lambda>(k, v). is_confirmation k \<and> v = Bool True) (call_arguments params)"

lemma map_of_filter_keys: "map_of (filter (\<lambda>kv. fst kv \<in> S) m) k = (if k \<in> S then map_of m k else None)"
  by (induction m) auto

lemma strict_field_from:
  "strict_fields spec (Object m) = Some fs \<Longrightarrow> fs k = Some v \<Longrightarrow> map_of m k = Some v"
  by (auto simp: strict_fields_def wire_fields_def Let_def map_of_filter_keys split: if_splits)

lemma unconfirmed_field:
  assumes "\<not> confirmation_given params" and "is_confirmation k"
    and "strict_fields spec (Object (call_arguments params)) = Some fs"
    and "wire_field fs k decode_bool = Some b"
  shows "\<not> b"
proof
  assume b
  with assms(4) have "fs k = Some (Bool True)"
    by (cases "fs k") (auto simp: wire_field_def decode_bool_def split: json.split_asm)
  from map_of_SomeD [OF strict_field_from [OF assms(3) this]] assms(1,2) show False
    by (auto simp: confirmation_given_def list_ex_iff)
qed

lemma confirm_fields [simp]:
  "is_confirmation ''confirm''" "is_confirmation ''confirmReplaceAllRoles''" "is_confirmation ''confirmDelete''"
  by (simp_all add: is_confirmation_def)

text \<open>
  Destructive operations whose handler asks for a confirmation only for some arguments: creating an
  additional privilege when a rule denies, updating one when its rules are replaced.
\<close>

definition conditionally_confirmed :: "string list" where
  "conditionally_confirmed =
     [IDENTITY_PROJECT_ADDITIONAL_PRIVILEGES_CREATE_TOOL, IDENTITY_PROJECT_ADDITIONAL_PRIVILEGES_UPDATE_TOOL]"

section \<open>Handlers that leave the client alone\<close>

definition untouched :: "(tool_state \<Rightarrow> tool_outcome) \<Rightarrow> bool" where
  "untouched h \<longleftrightarrow> (\<forall>s r s'. h s = Some (r, s') \<longrightarrow> snd s' = snd s)"

lemma untouchedD: "untouched h \<Longrightarrow> h s = Some (r, s') \<Longrightarrow> snd s' = snd s"
  unfolding untouched_def by blast

lemma untouched_error [simp]: "untouched (\<lambda>s. Some (Err e, s))"
  by (simp add: untouched_def)

lemma untouched_parts:
  "(\<And>x. r = Ok x \<Longrightarrow> untouched (body x)) \<Longrightarrow> untouched (with_parts r body)"
  by (cases r) (auto simp: with_parts_def untouched_def)

lemma untouched_input:
  "(\<And>i. d (call_arguments params) = Some i \<Longrightarrow> untouched (body i)) \<Longrightarrow>
     untouched (with_input E t d m params body)"
  unfolding untouched_def with_input_def call_arguments_def by (fastforce split: sum.split_asm)

lemma untouched_unless: "\<not> c \<Longrightarrow> untouched (unless_confirmed c m body)"
  by (simp add: untouched_def unless_confirmed_def)

text \<open>Validation that ends in a confirmation check yields nothing without it.\<close>

lemma unconfirmed_refused:
  assumes "\<And>i x. d (call_arguments params) = Some i \<Longrightarrow> parts i \<noteq> Ok x"
  shows "untouched (with_input E t d m params (\<lambda>i. with_parts (parts i) (body i)))"
  using assms by (intro untouched_input untouched_parts) blast

text \<open>A call that the API refuses for want of a confirmation.\<close>

lemma untouched_upstream: "(\<And>ap w. snd (call ap w) = w) \<Longrightarrow> untouched (upstream_call E finish call)"
  unfolding untouched_def upstream_call_def by (auto split: prod.splits) (metis snd_conv)+

section \<open>The destructive operations\<close>

lemmas confirmation = unconfirmed_field [OF _ confirm_fields(1)] unconfirmed_field [OF _ confirm_fields(2)]
  unconfirmed_field [OF _ confirm_fields(3)]

lemma project_delete_refused:
  "\<not> confirmation_given params \<Longrightarrow> decode_project_delete (call_arguments params) = Some i \<Longrightarrow>
     confirmed_project_id i \<noteq> Ok x"
  by (auto simp: decode_project_delete_def confirmed_project_id_def  bind_eq_Some_conv
      dest: confirmation)

lemma environment_delete_refused:
  "\<not> confirmation_given params \<Longrightarrow> decode_environment_delete (call_arguments params) = Some i \<Longrightarrow>
     environment_delete_parts i \<noteq> Ok x"
  by (auto simp: decode_environment_delete_def environment_delete_parts_def  bind_eq_Some_conv
      dest: confirmation)

lemma folder_delete_refused:
  "\<not> confirmation_given params \<Longrightarrow> decode_folder_delete (call_arguments params) = Some i \<Longrightarrow>
     folder_delete_parts i \<noteq> Ok x"
  by (auto simp: decode_folder_delete_def folder_delete_parts_def  bind_eq_Some_conv
      dest: confirmation)

lemma tag_delete_refused:
  "\<not> confirmation_given params \<Longrightarrow> decode_tag_delete (call_arguments params) = Some i \<Longrightarrow>
     tag_delete_parts i \<noteq> Ok x"
  by (auto simp: decode_tag_delete_def tag_delete_parts_def  bind_eq_Some_conv
      dest: confirmation)

lemma import_delete_refused:
  "\<not> confirmation_given params \<Longrightarrow> decode_import_delete (call_arguments params) = Some i \<Longrightarrow>
     import_delete_parts i \<noteq> Ok x"
  by (auto simp: decode_import_delete_def import_delete_parts_def  bind_eq_Some_conv
      dest: confirmation)

lemma secret_delete_refused:
  "\<not> confirmation_given params \<Longrightarrow> decode_secret_delete (call_arguments params) = Some i \<Longrightarrow>
     secret_delete_parts i \<noteq> Ok x"
  by (auto simp: decode_secret_delete_def secret_delete_parts_def  bind_eq_Some_conv
      dest: confirmation)

lemma batch_delete_refused:
  "\<not> confirmation_given params \<Longrightarrow> decode_secret_batch_delete (call_arguments params) = Some i \<Longrightarrow>
     batch_delete_parts i \<noteq> Ok x"
  by (auto simp: decode_secret_batch_delete_def batch_delete_parts_def  bind_eq_Some_conv
      dest: confirmation)

lemma user_membership_update_unconfirmed:
  "\<not> confirmation_given params \<Longrightarrow> decode_user_membership_update (call_arguments params) = Some i \<Longrightarrow>
     \<not> uu_confirm i"
  by (auto simp: decode_user_membership_update_def bind_eq_Some_conv dest: confirmation)

lemma membership_deletes_unconfirmed:
  "\<not> confirmation_given params \<Longrightarrow> decode_user_membership_delete (call_arguments params) = Some i \<Longrightarrow> \<not> snd i"
  "\<not> confirmation_given params \<Longrightarrow> decode_identity_membership_update (call_arguments params) = Some t \<Longrightarrow> \<not> snd t"
  "\<not> confirmation_given params \<Longrightarrow> decode_identity_membership_delete (call_arguments params) = Some i \<Longrightarrow> \<not> snd i"
  "\<not> confirmation_given params \<Longrightarrow> decode_identity_delete (call_arguments params) = Some d \<Longrightarrow> \<not> snd d"
  by (auto simp: decode_user_membership_delete_def decode_identity_membership_update_def
      decode_identity_membership_delete_def decode_identity_delete_def bind_eq_Some_conv dest: confirmation)

lemmas refusals = project_delete_refused environment_delete_refused folder_delete_refused
  tag_delete_refused import_delete_refused secret_delete_refused batch_delete_refused

section \<open>Unconfirmed workflows\<close>

lemma tree_deletions_untouched:
  assumes "\<not> confirmation_given params"
  shows "cp_name params = PROJECTS_DELETE_TOOL \<Longrightarrow> untouched (dispatch_project_workflow E params)"
    and "cp_name params = ENVIRONMENTS_DELETE_TOOL \<Longrightarrow> untouched (dispatch_environment_workflow E params)"
    and "cp_name params = FOLDERS_DELETE_TOOL \<Longrightarrow> untouched (dispatch_folder_workflow E params)"
    and "cp_name params = TAGS_DELETE_TOOL \<Longrightarrow> untouched (dispatch_tag_workflow E params)"
  by (simp_all add: workflow_defs)
    (rule unconfirmed_refused, rule refusals, rule assms, assumption)+

lemma secret_deletions_untouched:
  assumes "\<not> confirmation_given params"
    and "cp_name params \<in> {SECRET_IMPORTS_DELETE_TOOL, SECRET_DELETE_TOOL, SECRET_BATCH_DELETE_TOOL}"
  shows "untouched (dispatch_secret_workflow E (dispatch_secret_import_workflow E) params)"
  using assms(2)
  by (elim insertE emptyE; simp add: workflow_defs handle_delete_def handle_batch_delete_def)
    (rule unconfirmed_refused, rule refusals, rule assms, assumption)+

lemma user_membership_destruction_untouched:
  assumes "\<not> confirmation_given params"
    and "cp_name params \<in> {PROJECT_USER_MEMBERSHIPS_UPDATE_TOOL, PROJECT_USER_MEMBERSHIPS_DELETE_TOOL}"
  shows "untouched (dispatch_project_user_membership_workflow E params)"
  using assms(2)
proof (elim insertE emptyE)
  assume n: "cp_name params = PROJECT_USER_MEMBERSHIPS_UPDATE_TOOL"
  show ?thesis
    by (simp add: workflow_defs n)
      (auto intro!: untouched_input untouched_parts simp: user_membership_update_parts_def 
        replacement_confirmed_def dest: user_membership_update_unconfirmed [OF assms(1)])
next
  assume n: "cp_name params = PROJECT_USER_MEMBERSHIPS_DELETE_TOOL"
  show ?thesis
    by (simp add: workflow_defs n)
      (auto intro!: untouched_input untouched_parts dest: membership_deletes_unconfirmed [OF assms(1)])
qed

lemma identity_membership_destruction_untouched:
  assumes "\<not> confirmation_given params"
    and "cp_name params \<in> {PROJECT_IDENTITY_MEMBERSHIPS_UPDATE_TOOL, PROJECT_IDENTITY_MEMBERSHIPS_DELETE_TOOL}"
  shows "untouched (dispatch_project_identity_membership_workflow E params)"
  using assms(2)
  by (elim insertE emptyE; simp add: workflow_defs)
    (auto intro!: untouched_input untouched_parts simp: replacement_confirmed_def
      dest: membership_deletes_unconfirmed [OF assms(1)])

lemma identity_destruction_untouched:
  "\<not> confirmation_given params \<Longrightarrow> cp_name params = IDENTITIES_DELETE_TOOL \<Longrightarrow>
     untouched (dispatch_identity_workflow E params)"
  by (simp add: workflow_defs)
    (auto intro!: untouched_input untouched_parts dest: membership_deletes_unconfirmed)

lemma privilege_delete_refused:
  "\<not> confirmation_given params \<Longrightarrow> decode_privilege_delete (call_arguments params) = Some i \<Longrightarrow>
     privilege_delete_parts i \<noteq> Ok x"
  by (auto simp: decode_privilege_delete_def privilege_delete_parts_def bind_eq_Some_conv
      dest: confirmation)

lemma privilege_destruction_untouched:
  "\<not> confirmation_given params \<Longrightarrow> cp_name params = IDENTITY_PROJECT_ADDITIONAL_PRIVILEGES_DELETE_TOOL \<Longrightarrow>
     untouched (dispatch_additional_privilege_workflow E params)"
  by (simp add: dispatch_additional_privilege_workflow_def workflow_defs)
    (rule unconfirmed_refused, rule privilege_delete_refused)

lemma kms_unconfirmed:
  "\<not> confirmation_given params \<Longrightarrow> decode_kms_update (call_arguments params) = Some i \<Longrightarrow> \<not> kui_confirm i"
  "\<not> confirmation_given params \<Longrightarrow> decode_kms_delete (call_arguments params) = Some d \<Longrightarrow> \<not> snd d"
  by (auto simp: decode_kms_update_def decode_kms_delete_def bind_eq_Some_conv dest: confirmation)

lemma kms_update_confirm: "kms_update_parts i = Ok (p, k, c, b) \<Longrightarrow> b = kui_confirm i"
  by (auto simp: kms_update_parts_def split: prod.splits)

lemma kms_destruction_untouched:
  assumes "\<not> confirmation_given params" and "cp_name params \<in> {KMS_KEYS_UPDATE_TOOL, KMS_KEYS_DELETE_TOOL}"
  shows "untouched (dispatch_kms_workflow E params)"
  using assms(2)
  by (elim insertE emptyE; simp add: dispatch_kms_workflow_def workflow_defs)
    (auto intro!: untouched_input untouched_parts untouched_upstream
      simp: update_kms_key_def delete_kms_key_def dest!: kms_unconfirmed [OF assms(1)] kms_update_confirm)

lemma identity_auth_unconfirmed:
  "\<not> confirmation_given params \<Longrightarrow> decode_identity_confirm (call_arguments params) = Some i \<Longrightarrow> \<not> snd i"
  "\<not> confirmation_given params \<Longrightarrow> decode_client_secret_revoke (call_arguments params) = Some r \<Longrightarrow> \<not> snd r"
  "\<not> confirmation_given params \<Longrightarrow> decode_token_revoke (call_arguments params) = Some i \<Longrightarrow> \<not> snd i"
  by (auto simp: decode_identity_confirm_def decode_client_secret_revoke_def decode_token_revoke_def
      bind_eq_Some_conv dest: confirmation)

lemma identity_auth_destruction_untouched:
  assumes "\<not> confirmation_given params"
    and "cp_name params \<in> {UNIVERSAL_AUTH_REMOVE_TOOL, UNIVERSAL_AUTH_LOCKOUTS_CLEAR_TOOL,
       UNIVERSAL_AUTH_CLIENT_SECRETS_REVOKE_TOOL, TOKEN_AUTH_REMOVE_TOOL, TOKEN_AUTH_TOKENS_REVOKE_TOOL,
       KUBERNETES_AUTH_REMOVE_TOOL}"
  shows "untouched (dispatch_identity_auth_workflow E params)"
  using assms(2)
  by (elim insertE emptyE; simp add: dispatch_identity_auth_workflow_def workflow_defs)
    (auto intro!: untouched_input untouched_parts untouched_unless dest: identity_auth_unconfirmed [OF assms(1)])

end
