(* ===== verification/Operation_Routing.thy ===== *)
theory Operation_Routing
  imports Operation_Catalog_Facts Discovery
begin

text \<open>
  How an operation's name reaches its handler: the family predicates of \<open>tools.rs\<close> and \<open>kms.rs\<close>,
  the nested dispatch functions, the arms of the functions at the leaves, and the proof that exactly
  the operations of the catalog have an arm they are routed to.
\<close>

section \<open>Families\<close>

definition is_ssh_tool :: "string \<Rightarrow> bool" where
  "is_ssh_tool name \<longleftrightarrow> name \<in> set
     [SSH_CERTIFICATE_AUTHORITIES_LIST_TOOL, SSH_CERTIFICATE_AUTHORITIES_GET_TOOL,
      SSH_CERTIFICATE_AUTHORITIES_PUBLIC_KEY_GET_TOOL, SSH_CERTIFICATE_AUTHORITIES_CREATE_TOOL,
      SSH_CERTIFICATE_AUTHORITIES_REPLACE_TOOL, SSH_CERTIFICATE_AUTHORITIES_DELETE_TOOL,
      SSH_CERTIFICATE_TEMPLATES_LIST_TOOL, SSH_CERTIFICATE_AUTHORITY_TEMPLATES_LIST_TOOL,
      SSH_CERTIFICATE_TEMPLATES_GET_TOOL, SSH_CERTIFICATE_TEMPLATES_CREATE_TOOL,
      SSH_CERTIFICATE_TEMPLATES_REPLACE_TOOL, SSH_CERTIFICATE_TEMPLATES_DELETE_TOOL,
      SSH_CERTIFICATES_SIGN_TOOL, SSH_CERTIFICATES_ISSUE_TOOL, SSH_HOSTS_LIST_TOOL,
      SSH_HOSTS_GET_TOOL, SSH_HOSTS_CREATE_TOOL, SSH_HOSTS_REPLACE_TOOL, SSH_HOSTS_DELETE_TOOL,
      SSH_HOSTS_USER_CA_PUBLIC_KEY_GET_TOOL, SSH_HOSTS_HOST_CA_PUBLIC_KEY_GET_TOOL,
      SSH_HOSTS_HOST_CERTIFICATE_ISSUE_TOOL, SSH_HOST_GROUPS_LIST_TOOL, SSH_HOST_GROUPS_GET_TOOL,
      SSH_HOST_GROUPS_CREATE_TOOL, SSH_HOST_GROUPS_REPLACE_TOOL, SSH_HOST_GROUPS_DELETE_TOOL,
      SSH_HOST_GROUP_HOSTS_LIST_TOOL, SSH_HOST_GROUP_HOSTS_ADD_TOOL,
      SSH_HOST_GROUP_HOSTS_REMOVE_TOOL]"

definition is_code_signer_tool :: "string \<Rightarrow> bool" where
  "is_code_signer_tool name \<longleftrightarrow> name \<in> set
     [CODE_SIGNERS_LIST_TOOL, CODE_SIGNERS_GET_TOOL, CODE_SIGNERS_CREATE_TOOL,
      CODE_SIGNERS_UPDATE_TOOL, CODE_SIGNERS_DELETE_TOOL, CODE_SIGNERS_STATUS_UPDATE_TOOL,
      CODE_SIGNERS_CERTIFICATE_REISSUE_TOOL, CODE_SIGNERS_CERTIFICATE_EXPORT_TOOL,
      CODE_SIGNERS_PUBLIC_KEY_GET_TOOL, CODE_SIGNERS_SIGN_TOOL, CODE_SIGNER_MEMBERS_LIST_TOOL,
      CODE_SIGNER_MEMBERS_ADD_TOOL, CODE_SIGNER_MEMBER_ROLE_UPDATE_TOOL,
      CODE_SIGNER_MEMBERS_REMOVE_TOOL, CODE_SIGNER_EFFECTIVE_MEMBERS_LIST_TOOL,
      CODE_SIGNER_PERMISSIONS_GET_TOOL, CODE_SIGNER_APPROVAL_POLICY_GET_TOOL,
      CODE_SIGNER_APPROVAL_POLICY_REPLACE_TOOL, CODE_SIGNER_APPROVAL_REQUESTS_LIST_TOOL,
      CODE_SIGNER_APPROVAL_REQUESTS_CREATE_TOOL, CODE_SIGNER_APPROVAL_REQUESTS_PRE_APPROVE_TOOL,
      CODE_SIGNER_APPROVAL_REQUESTS_REVOKE_TOOL, CODE_SIGNER_OPERATIONS_LIST_TOOL]"

definition is_certificate_tool :: "string \<Rightarrow> bool" where
  "is_certificate_tool name \<longleftrightarrow> name \<in> set
     [CERTIFICATES_LIST_TOOL, CERTIFICATES_GET_TOOL, CERTIFICATES_IMPORT_TOOL,
      CERTIFICATES_CERTIFICATE_GET_TOOL, CERTIFICATES_BUNDLE_REVEAL_TOOL,
      CERTIFICATES_PRIVATE_KEY_REVEAL_TOOL, CERTIFICATES_RENEW_TOOL, CERTIFICATES_REVOKE_TOOL,
      CERTIFICATES_RENEWAL_CONFIGURATION_UPDATE_TOOL, CERTIFICATES_DELETE_TOOL,
      CERTIFICATE_REQUESTS_LIST_TOOL, CERTIFICATE_REQUESTS_GET_TOOL,
      CERTIFICATE_REQUEST_RESULT_REVEAL_TOOL, CERTIFICATE_REQUESTS_CANCEL_TOOL,
      CERTIFICATES_ISSUE_TOOL]"

definition is_certificate_lifecycle_tool :: "string \<Rightarrow> bool" where
  "is_certificate_lifecycle_tool name \<longleftrightarrow> name \<in> set
     [CERTIFICATES_RENEW_TOOL, CERTIFICATES_REVOKE_TOOL,
      CERTIFICATES_RENEWAL_CONFIGURATION_UPDATE_TOOL, CERTIFICATES_DELETE_TOOL]"

definition is_certificate_material_tool :: "string \<Rightarrow> bool" where
  "is_certificate_material_tool name \<longleftrightarrow> name \<in> set
     [CERTIFICATES_IMPORT_TOOL, CERTIFICATES_CERTIFICATE_GET_TOOL, CERTIFICATES_BUNDLE_REVEAL_TOOL,
      CERTIFICATES_PRIVATE_KEY_REVEAL_TOOL]"

definition is_certificate_policy_tool :: "string \<Rightarrow> bool" where
  "is_certificate_policy_tool name \<longleftrightarrow> name \<in> set
     [CERTIFICATE_POLICIES_LIST_TOOL, CERTIFICATE_POLICIES_GET_TOOL,
      CERTIFICATE_POLICIES_CREATE_TOOL, CERTIFICATE_POLICIES_UPDATE_TOOL,
      CERTIFICATE_POLICIES_DELETE_TOOL]"

definition is_certificate_profile_tool :: "string \<Rightarrow> bool" where
  "is_certificate_profile_tool name \<longleftrightarrow> name \<in> set
     [CERTIFICATE_PROFILES_LIST_TOOL, CERTIFICATE_PROFILES_GET_TOOL,
      CERTIFICATE_PROFILES_GET_BY_SLUG_TOOL, CERTIFICATE_PROFILES_CREATE_TOOL,
      CERTIFICATE_PROFILES_UPDATE_TOOL, CERTIFICATE_PROFILES_DELETE_TOOL,
      CERTIFICATE_PROFILE_CERTIFICATES_LIST_TOOL, CERTIFICATE_PROFILE_LATEST_BUNDLE_REVEAL_TOOL,
      CERTIFICATE_PROFILE_EAB_SECRET_REVEAL_TOOL]"

definition is_certificate_authority_tool :: "string \<Rightarrow> bool" where
  "is_certificate_authority_tool name \<longleftrightarrow> name \<in> set
     [CERTIFICATE_AUTHORITIES_LIST_TOOL, INTERNAL_CERTIFICATE_AUTHORITIES_LIST_TOOL,
      INTERNAL_CERTIFICATE_AUTHORITIES_GET_TOOL, INTERNAL_CERTIFICATE_AUTHORITIES_CREATE_TOOL,
      INTERNAL_CERTIFICATE_AUTHORITIES_UPDATE_TOOL, INTERNAL_CERTIFICATE_AUTHORITIES_DELETE_TOOL,
      INTERNAL_CA_CSR_GET_TOOL, INTERNAL_CA_CERTIFICATES_LIST_TOOL,
      INTERNAL_CA_CERTIFICATE_GET_TOOL, INTERNAL_CA_CERTIFICATE_VERSION_GET_TOOL,
      INTERNAL_CA_CERTIFICATE_GENERATE_TOOL, INTERNAL_CA_CERTIFICATE_RENEW_TOOL,
      INTERNAL_CA_INTERMEDIATE_SIGN_TOOL, INTERNAL_CA_CERTIFICATE_IMPORT_TOOL,
      INTERNAL_CA_CRLS_LIST_TOOL]"

definition is_internal_ca_certificate_tool :: "string \<Rightarrow> bool" where
  "is_internal_ca_certificate_tool name \<longleftrightarrow> name \<in> set
     [INTERNAL_CA_CSR_GET_TOOL, INTERNAL_CA_CERTIFICATES_LIST_TOOL,
      INTERNAL_CA_CERTIFICATE_GET_TOOL, INTERNAL_CA_CERTIFICATE_VERSION_GET_TOOL,
      INTERNAL_CA_CERTIFICATE_GENERATE_TOOL, INTERNAL_CA_CERTIFICATE_RENEW_TOOL,
      INTERNAL_CA_INTERMEDIATE_SIGN_TOOL, INTERNAL_CA_CERTIFICATE_IMPORT_TOOL,
      INTERNAL_CA_CRLS_LIST_TOOL]"

definition is_kms_tool :: "string \<Rightarrow> bool" where
  "is_kms_tool name \<longleftrightarrow> name \<in> set
     [KMS_KEYS_LIST_TOOL, KMS_KEYS_GET_TOOL, KMS_KEYS_GET_BY_NAME_TOOL, KMS_KEYS_CREATE_TOOL,
      KMS_KEYS_UPDATE_TOOL, KMS_KEYS_DELETE_TOOL, KMS_ENCRYPT_TOOL, KMS_DECRYPT_TOOL,
      KMS_PUBLIC_KEY_GET_TOOL, KMS_PRIVATE_KEY_REVEAL_TOOL, KMS_KEYS_BULK_IMPORT_TOOL,
      KMS_PRIVATE_KEYS_BULK_REVEAL_TOOL, KMS_SIGNING_ALGORITHMS_LIST_TOOL, KMS_SIGN_TOOL,
      KMS_VERIFY_TOOL]"

definition is_identity_auth_tool :: "string \<Rightarrow> bool" where
  "is_identity_auth_tool name \<longleftrightarrow> name \<in> set
     [UNIVERSAL_AUTH_GET_TOOL, UNIVERSAL_AUTH_ATTACH_TOOL, UNIVERSAL_AUTH_UPDATE_TOOL,
      UNIVERSAL_AUTH_REMOVE_TOOL, UNIVERSAL_AUTH_CLIENT_SECRETS_LIST_TOOL,
      UNIVERSAL_AUTH_CLIENT_SECRETS_GET_TOOL, UNIVERSAL_AUTH_CLIENT_SECRETS_CREATE_TOOL,
      UNIVERSAL_AUTH_CLIENT_SECRETS_REVOKE_TOOL, UNIVERSAL_AUTH_LOCKOUTS_CLEAR_TOOL,
      TOKEN_AUTH_GET_TOOL, TOKEN_AUTH_ATTACH_TOOL, TOKEN_AUTH_UPDATE_TOOL, TOKEN_AUTH_REMOVE_TOOL,
      TOKEN_AUTH_TOKENS_LIST_TOOL, TOKEN_AUTH_TOKENS_GET_TOOL, TOKEN_AUTH_TOKENS_CREATE_TOOL,
      TOKEN_AUTH_TOKENS_UPDATE_TOOL, TOKEN_AUTH_TOKENS_REVOKE_TOOL, KUBERNETES_AUTH_GET_TOOL,
      KUBERNETES_AUTH_ATTACH_TOOL, KUBERNETES_AUTH_UPDATE_TOOL, KUBERNETES_AUTH_REMOVE_TOOL]"

definition is_app_automation_tool :: "string \<Rightarrow> bool" where
  "is_app_automation_tool name \<longleftrightarrow> name \<in> set
     [APP_CONNECTIONS_LIST_TOOL, GITHUB_APP_CONNECTION_GET_TOOL, GITHUB_APP_CONNECTION_CREATE_TOOL,
      GITHUB_APP_CONNECTION_UPDATE_TOOL, GITHUB_APP_CONNECTION_ROTATE_CREDENTIALS_TOOL,
      GITHUB_APP_CONNECTION_DELETE_TOOL, SECRET_SYNCS_LIST_TOOL, GITHUB_SECRET_SYNC_GET_TOOL,
      GITHUB_SECRET_SYNC_CREATE_TOOL, GITHUB_SECRET_SYNC_UPDATE_TOOL,
      GITHUB_SECRET_SYNC_DELETE_TOOL, GITHUB_SECRET_SYNC_RUN_TOOL,
      GITHUB_SECRET_SYNC_REMOVE_SECRETS_TOOL, SECRET_ROTATIONS_LIST_TOOL,
      SQL_SECRET_ROTATION_GET_TOOL, SQL_SECRET_ROTATION_GET_BY_NAME_TOOL,
      SQL_SECRET_ROTATION_CREATE_TOOL, SQL_SECRET_ROTATION_UPDATE_TOOL,
      SQL_SECRET_ROTATION_DELETE_TOOL, SQL_SECRET_ROTATION_GENERATED_CREDENTIALS_GET_TOOL,
      SQL_SECRET_ROTATION_MOVE_TOOL, SQL_SECRET_ROTATION_ROTATE_TOOL, SQL_SECRET_ROTATION_CHECK_TOOL]"

definition is_dynamic_secret_tool :: "string \<Rightarrow> bool" where
  "is_dynamic_secret_tool name \<longleftrightarrow> name \<in> set
     [DYNAMIC_SECRETS_LIST_TOOL, DYNAMIC_SECRETS_GET_TOOL, DYNAMIC_SECRETS_CREATE_TOOL,
      DYNAMIC_SECRETS_UPDATE_TOOL, DYNAMIC_SECRETS_DELETE_TOOL, DYNAMIC_SECRET_LEASES_LIST_TOOL,
      DYNAMIC_SECRET_LEASES_GET_TOOL, DYNAMIC_SECRET_LEASES_CREATE_TOOL,
      DYNAMIC_SECRET_LEASES_RENEW_TOOL, DYNAMIC_SECRET_LEASES_REVOKE_TOOL]"

definition is_identity_admin_tool :: "string \<Rightarrow> bool" where
  "is_identity_admin_tool name \<longleftrightarrow> name \<in> set
     [IDENTITIES_LIST_TOOL, IDENTITIES_GET_TOOL, IDENTITIES_CREATE_TOOL, IDENTITIES_UPDATE_TOOL,
      IDENTITIES_DELETE_TOOL]"

definition is_project_membership_tool :: "string \<Rightarrow> bool" where
  "is_project_membership_tool name \<longleftrightarrow> name \<in> set
     [PROJECT_USER_MEMBERSHIPS_LIST_TOOL, PROJECT_USER_MEMBERSHIPS_GET_TOOL,
      PROJECT_USER_MEMBERSHIPS_INVITE_TOOL, PROJECT_USER_MEMBERSHIPS_UPDATE_TOOL,
      PROJECT_USER_MEMBERSHIPS_DELETE_TOOL, PROJECT_IDENTITY_MEMBERSHIPS_LIST_TOOL,
      PROJECT_IDENTITY_MEMBERSHIPS_GET_TOOL, PROJECT_IDENTITY_MEMBERSHIPS_CREATE_TOOL,
      PROJECT_IDENTITY_MEMBERSHIPS_UPDATE_TOOL, PROJECT_IDENTITY_MEMBERSHIPS_DELETE_TOOL]"

definition is_role_tool :: "string \<Rightarrow> bool" where
  "is_role_tool name \<longleftrightarrow> name \<in> set
     [PROJECT_ROLES_LIST_TOOL, PROJECT_ROLES_GET_TOOL, ORGANIZATION_ROLES_LIST_TOOL,
      ORGANIZATION_ROLES_GET_TOOL]"

definition is_group_tool :: "string \<Rightarrow> bool" where
  "is_group_tool name \<longleftrightarrow> name \<in> set
     [GROUPS_LIST_TOOL, GROUPS_GET_TOOL, GROUP_MEMBERS_LIST_TOOL, GROUP_PROJECTS_LIST_TOOL,
      PROJECT_GROUP_MEMBERSHIPS_LIST_TOOL, PROJECT_GROUP_MEMBERSHIPS_GET_TOOL]"

definition is_identity_project_additional_privilege_tool :: "string \<Rightarrow> bool" where
  "is_identity_project_additional_privilege_tool name \<longleftrightarrow> name \<in> set
     [IDENTITY_PROJECT_ADDITIONAL_PRIVILEGES_LIST_TOOL,
      IDENTITY_PROJECT_ADDITIONAL_PRIVILEGES_GET_TOOL,
      IDENTITY_PROJECT_ADDITIONAL_PRIVILEGES_GET_BY_SLUG_TOOL,
      IDENTITY_PROJECT_ADDITIONAL_PRIVILEGES_CREATE_TOOL,
      IDENTITY_PROJECT_ADDITIONAL_PRIVILEGES_UPDATE_TOOL,
      IDENTITY_PROJECT_ADDITIONAL_PRIVILEGES_DELETE_TOOL]"


section \<open>Dispatch functions\<close>

text \<open>The dispatch functions that hold arms, and the names their arms match.\<close>

datatype workflow =
    Ssh_Workflow
  | Code_Signer_Read
  | Code_Signer_Mutation
  | Code_Signer_Governance_Read
  | Code_Signer_Governance_Mutation
  | Internal_Ca_Certificate_Read
  | Internal_Ca_Certificate_Mutation
  | Certificate_Authority_Workflow
  | Certificate_Lifecycle_Workflow
  | Certificate_Material_Workflow
  | Certificate_Workflow
  | Certificate_Policy_Workflow
  | Certificate_Profile_Read
  | Certificate_Profile_Mutation
  | Kms_Management
  | Kms_Material
  | Kms_Cryptographic
  | App_Automation_Workflow
  | Github_App_Connection
  | Github_Secret_Sync
  | Sql_Secret_Rotation
  | Sql_Secret_Rotation_Sensitive
  | Project_Workflow
  | Environment_Workflow
  | Folder_Workflow
  | Tag_Workflow
  | Identity_Workflow
  | Project_User_Membership
  | Project_Identity_Membership
  | Role_Workflow
  | Group_Workflow
  | Additional_Privilege_Read
  | Additional_Privilege_Mutation
  | Kubernetes_Auth
  | Token_Auth
  | Universal_Auth
  | Universal_Auth_Client_Secret
  | Dynamic_Secret_Workflow
  | Sql_Dynamic_Secret
  | Secret_Workflow
  | Secret_Import_Workflow
  | Audit_Log_Workflow
  | Secret_Metadata_List

primrec arms :: "workflow \<Rightarrow> string list" where
  "arms Ssh_Workflow =
     [SSH_CERTIFICATE_AUTHORITIES_LIST_TOOL, SSH_CERTIFICATE_AUTHORITIES_GET_TOOL,
      SSH_CERTIFICATE_AUTHORITIES_PUBLIC_KEY_GET_TOOL, SSH_CERTIFICATE_AUTHORITIES_CREATE_TOOL,
      SSH_CERTIFICATE_AUTHORITIES_REPLACE_TOOL, SSH_CERTIFICATE_AUTHORITIES_DELETE_TOOL,
      SSH_CERTIFICATE_TEMPLATES_LIST_TOOL, SSH_CERTIFICATE_AUTHORITY_TEMPLATES_LIST_TOOL,
      SSH_CERTIFICATE_TEMPLATES_GET_TOOL, SSH_CERTIFICATE_TEMPLATES_CREATE_TOOL,
      SSH_CERTIFICATE_TEMPLATES_REPLACE_TOOL, SSH_CERTIFICATE_TEMPLATES_DELETE_TOOL,
      SSH_CERTIFICATES_SIGN_TOOL, SSH_CERTIFICATES_ISSUE_TOOL, SSH_HOSTS_LIST_TOOL,
      SSH_HOSTS_GET_TOOL, SSH_HOSTS_CREATE_TOOL, SSH_HOSTS_REPLACE_TOOL, SSH_HOSTS_DELETE_TOOL,
      SSH_HOSTS_USER_CA_PUBLIC_KEY_GET_TOOL, SSH_HOSTS_HOST_CA_PUBLIC_KEY_GET_TOOL,
      SSH_HOSTS_HOST_CERTIFICATE_ISSUE_TOOL, SSH_HOST_GROUPS_LIST_TOOL, SSH_HOST_GROUPS_GET_TOOL,
      SSH_HOST_GROUPS_CREATE_TOOL, SSH_HOST_GROUPS_REPLACE_TOOL, SSH_HOST_GROUPS_DELETE_TOOL,
      SSH_HOST_GROUP_HOSTS_LIST_TOOL, SSH_HOST_GROUP_HOSTS_ADD_TOOL,
      SSH_HOST_GROUP_HOSTS_REMOVE_TOOL]"
| "arms Code_Signer_Read =
     [CODE_SIGNERS_LIST_TOOL, CODE_SIGNERS_GET_TOOL, CODE_SIGNERS_CERTIFICATE_EXPORT_TOOL,
      CODE_SIGNERS_PUBLIC_KEY_GET_TOOL]"
| "arms Code_Signer_Mutation =
     [CODE_SIGNERS_CREATE_TOOL, CODE_SIGNERS_UPDATE_TOOL, CODE_SIGNERS_DELETE_TOOL,
      CODE_SIGNERS_STATUS_UPDATE_TOOL, CODE_SIGNERS_CERTIFICATE_REISSUE_TOOL, CODE_SIGNERS_SIGN_TOOL]"
| "arms Code_Signer_Governance_Read =
     [CODE_SIGNER_MEMBERS_LIST_TOOL, CODE_SIGNER_EFFECTIVE_MEMBERS_LIST_TOOL,
      CODE_SIGNER_PERMISSIONS_GET_TOOL, CODE_SIGNER_APPROVAL_POLICY_GET_TOOL,
      CODE_SIGNER_APPROVAL_REQUESTS_LIST_TOOL, CODE_SIGNER_OPERATIONS_LIST_TOOL]"
| "arms Code_Signer_Governance_Mutation =
     [CODE_SIGNER_MEMBERS_ADD_TOOL, CODE_SIGNER_MEMBER_ROLE_UPDATE_TOOL,
      CODE_SIGNER_MEMBERS_REMOVE_TOOL, CODE_SIGNER_APPROVAL_POLICY_REPLACE_TOOL,
      CODE_SIGNER_APPROVAL_REQUESTS_CREATE_TOOL, CODE_SIGNER_APPROVAL_REQUESTS_PRE_APPROVE_TOOL,
      CODE_SIGNER_APPROVAL_REQUESTS_REVOKE_TOOL]"
| "arms Internal_Ca_Certificate_Read =
     [INTERNAL_CA_CSR_GET_TOOL, INTERNAL_CA_CERTIFICATES_LIST_TOOL,
      INTERNAL_CA_CERTIFICATE_GET_TOOL, INTERNAL_CA_CERTIFICATE_VERSION_GET_TOOL,
      INTERNAL_CA_CRLS_LIST_TOOL]"
| "arms Internal_Ca_Certificate_Mutation =
     [INTERNAL_CA_CERTIFICATE_GENERATE_TOOL, INTERNAL_CA_CERTIFICATE_RENEW_TOOL,
      INTERNAL_CA_INTERMEDIATE_SIGN_TOOL, INTERNAL_CA_CERTIFICATE_IMPORT_TOOL]"
| "arms Certificate_Authority_Workflow =
     [CERTIFICATE_AUTHORITIES_LIST_TOOL, INTERNAL_CERTIFICATE_AUTHORITIES_LIST_TOOL,
      INTERNAL_CERTIFICATE_AUTHORITIES_GET_TOOL, INTERNAL_CERTIFICATE_AUTHORITIES_CREATE_TOOL,
      INTERNAL_CERTIFICATE_AUTHORITIES_UPDATE_TOOL, INTERNAL_CERTIFICATE_AUTHORITIES_DELETE_TOOL]"
| "arms Certificate_Lifecycle_Workflow =
     [CERTIFICATES_RENEW_TOOL, CERTIFICATES_REVOKE_TOOL,
      CERTIFICATES_RENEWAL_CONFIGURATION_UPDATE_TOOL, CERTIFICATES_DELETE_TOOL]"
| "arms Certificate_Material_Workflow =
     [CERTIFICATES_IMPORT_TOOL, CERTIFICATES_CERTIFICATE_GET_TOOL, CERTIFICATES_BUNDLE_REVEAL_TOOL,
      CERTIFICATES_PRIVATE_KEY_REVEAL_TOOL]"
| "arms Certificate_Workflow =
     [CERTIFICATES_LIST_TOOL, CERTIFICATES_GET_TOOL, CERTIFICATE_REQUESTS_LIST_TOOL,
      CERTIFICATE_REQUESTS_GET_TOOL, CERTIFICATE_REQUEST_RESULT_REVEAL_TOOL,
      CERTIFICATE_REQUESTS_CANCEL_TOOL, CERTIFICATES_ISSUE_TOOL]"
| "arms Certificate_Policy_Workflow =
     [CERTIFICATE_POLICIES_LIST_TOOL, CERTIFICATE_POLICIES_GET_TOOL,
      CERTIFICATE_POLICIES_CREATE_TOOL, CERTIFICATE_POLICIES_UPDATE_TOOL,
      CERTIFICATE_POLICIES_DELETE_TOOL]"
| "arms Certificate_Profile_Read =
     [CERTIFICATE_PROFILES_LIST_TOOL, CERTIFICATE_PROFILES_GET_TOOL,
      CERTIFICATE_PROFILES_GET_BY_SLUG_TOOL, CERTIFICATE_PROFILE_CERTIFICATES_LIST_TOOL,
      CERTIFICATE_PROFILE_LATEST_BUNDLE_REVEAL_TOOL, CERTIFICATE_PROFILE_EAB_SECRET_REVEAL_TOOL]"
| "arms Certificate_Profile_Mutation =
     [CERTIFICATE_PROFILES_CREATE_TOOL, CERTIFICATE_PROFILES_UPDATE_TOOL,
      CERTIFICATE_PROFILES_DELETE_TOOL]"
| "arms Kms_Management =
     [KMS_KEYS_LIST_TOOL, KMS_KEYS_GET_TOOL, KMS_KEYS_GET_BY_NAME_TOOL, KMS_KEYS_CREATE_TOOL,
      KMS_KEYS_UPDATE_TOOL, KMS_KEYS_DELETE_TOOL]"
| "arms Kms_Material =
     [KMS_PUBLIC_KEY_GET_TOOL, KMS_PRIVATE_KEY_REVEAL_TOOL, KMS_KEYS_BULK_IMPORT_TOOL,
      KMS_PRIVATE_KEYS_BULK_REVEAL_TOOL, KMS_SIGNING_ALGORITHMS_LIST_TOOL]"
| "arms Kms_Cryptographic =
     [KMS_ENCRYPT_TOOL, KMS_DECRYPT_TOOL, KMS_SIGN_TOOL, KMS_VERIFY_TOOL]"
| "arms App_Automation_Workflow =
     [APP_CONNECTIONS_LIST_TOOL, SECRET_SYNCS_LIST_TOOL, SECRET_ROTATIONS_LIST_TOOL]"
| "arms Github_App_Connection =
     [GITHUB_APP_CONNECTION_GET_TOOL, GITHUB_APP_CONNECTION_CREATE_TOOL,
      GITHUB_APP_CONNECTION_UPDATE_TOOL, GITHUB_APP_CONNECTION_ROTATE_CREDENTIALS_TOOL,
      GITHUB_APP_CONNECTION_DELETE_TOOL]"
| "arms Github_Secret_Sync =
     [GITHUB_SECRET_SYNC_GET_TOOL, GITHUB_SECRET_SYNC_CREATE_TOOL, GITHUB_SECRET_SYNC_UPDATE_TOOL,
      GITHUB_SECRET_SYNC_DELETE_TOOL, GITHUB_SECRET_SYNC_RUN_TOOL,
      GITHUB_SECRET_SYNC_REMOVE_SECRETS_TOOL]"
| "arms Sql_Secret_Rotation =
     [SQL_SECRET_ROTATION_GET_TOOL, SQL_SECRET_ROTATION_GET_BY_NAME_TOOL,
      SQL_SECRET_ROTATION_CREATE_TOOL, SQL_SECRET_ROTATION_UPDATE_TOOL]"
| "arms Sql_Secret_Rotation_Sensitive =
     [SQL_SECRET_ROTATION_DELETE_TOOL, SQL_SECRET_ROTATION_GENERATED_CREDENTIALS_GET_TOOL,
      SQL_SECRET_ROTATION_MOVE_TOOL, SQL_SECRET_ROTATION_ROTATE_TOOL, SQL_SECRET_ROTATION_CHECK_TOOL]"
| "arms Project_Workflow =
     [PROJECTS_LIST_TOOL, PROJECTS_GET_TOOL, PROJECTS_CREATE_TOOL, PROJECTS_UPDATE_TOOL,
      PROJECTS_DELETE_TOOL]"
| "arms Environment_Workflow =
     [ENVIRONMENTS_LIST_TOOL, ENVIRONMENTS_GET_TOOL, ENVIRONMENTS_CREATE_TOOL,
      ENVIRONMENTS_UPDATE_TOOL, ENVIRONMENTS_DELETE_TOOL, ENVIRONMENTS_RESTORE_TOOL]"
| "arms Folder_Workflow =
     [FOLDERS_LIST_TOOL, FOLDERS_GET_TOOL, FOLDERS_CREATE_TOOL, FOLDERS_UPDATE_TOOL,
      FOLDERS_BATCH_UPDATE_TOOL, FOLDERS_DELETE_TOOL]"
| "arms Tag_Workflow =
     [TAGS_LIST_TOOL, TAGS_GET_TOOL, TAGS_CREATE_TOOL, TAGS_UPDATE_TOOL, TAGS_DELETE_TOOL]"
| "arms Identity_Workflow =
     [IDENTITIES_LIST_TOOL, IDENTITIES_GET_TOOL, IDENTITIES_CREATE_TOOL, IDENTITIES_UPDATE_TOOL,
      IDENTITIES_DELETE_TOOL]"
| "arms Project_User_Membership =
     [PROJECT_USER_MEMBERSHIPS_LIST_TOOL, PROJECT_USER_MEMBERSHIPS_GET_TOOL,
      PROJECT_USER_MEMBERSHIPS_INVITE_TOOL, PROJECT_USER_MEMBERSHIPS_UPDATE_TOOL,
      PROJECT_USER_MEMBERSHIPS_DELETE_TOOL]"
| "arms Project_Identity_Membership =
     [PROJECT_IDENTITY_MEMBERSHIPS_LIST_TOOL, PROJECT_IDENTITY_MEMBERSHIPS_GET_TOOL,
      PROJECT_IDENTITY_MEMBERSHIPS_CREATE_TOOL, PROJECT_IDENTITY_MEMBERSHIPS_UPDATE_TOOL,
      PROJECT_IDENTITY_MEMBERSHIPS_DELETE_TOOL]"
| "arms Role_Workflow =
     [PROJECT_ROLES_LIST_TOOL, PROJECT_ROLES_GET_TOOL, ORGANIZATION_ROLES_LIST_TOOL,
      ORGANIZATION_ROLES_GET_TOOL]"
| "arms Group_Workflow =
     [GROUPS_LIST_TOOL, GROUPS_GET_TOOL, GROUP_MEMBERS_LIST_TOOL, GROUP_PROJECTS_LIST_TOOL,
      PROJECT_GROUP_MEMBERSHIPS_LIST_TOOL, PROJECT_GROUP_MEMBERSHIPS_GET_TOOL]"
| "arms Additional_Privilege_Read =
     [IDENTITY_PROJECT_ADDITIONAL_PRIVILEGES_LIST_TOOL,
      IDENTITY_PROJECT_ADDITIONAL_PRIVILEGES_GET_TOOL,
      IDENTITY_PROJECT_ADDITIONAL_PRIVILEGES_GET_BY_SLUG_TOOL]"
| "arms Additional_Privilege_Mutation =
     [IDENTITY_PROJECT_ADDITIONAL_PRIVILEGES_CREATE_TOOL,
      IDENTITY_PROJECT_ADDITIONAL_PRIVILEGES_UPDATE_TOOL,
      IDENTITY_PROJECT_ADDITIONAL_PRIVILEGES_DELETE_TOOL]"
| "arms Kubernetes_Auth =
     [KUBERNETES_AUTH_GET_TOOL, KUBERNETES_AUTH_ATTACH_TOOL, KUBERNETES_AUTH_UPDATE_TOOL,
      KUBERNETES_AUTH_REMOVE_TOOL]"
| "arms Token_Auth =
     [TOKEN_AUTH_GET_TOOL, TOKEN_AUTH_ATTACH_TOOL, TOKEN_AUTH_UPDATE_TOOL, TOKEN_AUTH_REMOVE_TOOL,
      TOKEN_AUTH_TOKENS_LIST_TOOL, TOKEN_AUTH_TOKENS_GET_TOOL, TOKEN_AUTH_TOKENS_CREATE_TOOL,
      TOKEN_AUTH_TOKENS_UPDATE_TOOL, TOKEN_AUTH_TOKENS_REVOKE_TOOL]"
| "arms Universal_Auth =
     [UNIVERSAL_AUTH_GET_TOOL, UNIVERSAL_AUTH_ATTACH_TOOL, UNIVERSAL_AUTH_UPDATE_TOOL,
      UNIVERSAL_AUTH_REMOVE_TOOL, UNIVERSAL_AUTH_LOCKOUTS_CLEAR_TOOL]"
| "arms Universal_Auth_Client_Secret =
     [UNIVERSAL_AUTH_CLIENT_SECRETS_LIST_TOOL, UNIVERSAL_AUTH_CLIENT_SECRETS_GET_TOOL,
      UNIVERSAL_AUTH_CLIENT_SECRETS_CREATE_TOOL, UNIVERSAL_AUTH_CLIENT_SECRETS_REVOKE_TOOL]"
| "arms Dynamic_Secret_Workflow =
     [DYNAMIC_SECRETS_LIST_TOOL, DYNAMIC_SECRETS_GET_TOOL, DYNAMIC_SECRETS_UPDATE_TOOL,
      DYNAMIC_SECRETS_DELETE_TOOL, DYNAMIC_SECRET_LEASES_LIST_TOOL, DYNAMIC_SECRET_LEASES_GET_TOOL,
      DYNAMIC_SECRET_LEASES_RENEW_TOOL, DYNAMIC_SECRET_LEASES_REVOKE_TOOL]"
| "arms Sql_Dynamic_Secret =
     [DYNAMIC_SECRETS_CREATE_TOOL, DYNAMIC_SECRET_LEASES_CREATE_TOOL]"
| "arms Secret_Workflow =
     [SECRET_REVEAL_TOOL, SECRET_CREATE_TOOL, SECRET_UPDATE_TOOL, SECRET_DELETE_TOOL,
      SECRET_BATCH_CREATE_TOOL, SECRET_BATCH_UPDATE_TOOL, SECRET_BATCH_DELETE_TOOL]"
| "arms Secret_Import_Workflow =
     [SECRET_IMPORTS_LIST_TOOL, SECRET_IMPORTS_GET_TOOL, SECRET_IMPORTS_CREATE_TOOL,
      SECRET_IMPORTS_UPDATE_TOOL, SECRET_IMPORTS_DELETE_TOOL]"
| "arms Audit_Log_Workflow = [AUDIT_LOGS_LIST_TOOL]"
| "arms Secret_Metadata_List = [SECRET_METADATA_LIST_TOOL]"

section \<open>Routing\<close>

text \<open>Where a name goes inside a family; \<open>None\<close> is \<open>method_not_found\<close>.\<close>

definition route_code_signer :: "string \<Rightarrow> workflow option" where
  "route_code_signer name =
     (if name \<in> {CODE_SIGNERS_LIST_TOOL, CODE_SIGNERS_GET_TOOL, CODE_SIGNERS_CERTIFICATE_EXPORT_TOOL,
          CODE_SIGNERS_PUBLIC_KEY_GET_TOOL}
      then Some Code_Signer_Read
      else if name \<in> {CODE_SIGNERS_CREATE_TOOL, CODE_SIGNERS_UPDATE_TOOL, CODE_SIGNERS_DELETE_TOOL,
          CODE_SIGNERS_STATUS_UPDATE_TOOL, CODE_SIGNERS_CERTIFICATE_REISSUE_TOOL, CODE_SIGNERS_SIGN_TOOL}
      then Some Code_Signer_Mutation
      else if name \<in> {CODE_SIGNER_MEMBERS_LIST_TOOL, CODE_SIGNER_EFFECTIVE_MEMBERS_LIST_TOOL,
          CODE_SIGNER_PERMISSIONS_GET_TOOL, CODE_SIGNER_APPROVAL_POLICY_GET_TOOL,
          CODE_SIGNER_APPROVAL_REQUESTS_LIST_TOOL, CODE_SIGNER_OPERATIONS_LIST_TOOL}
      then Some Code_Signer_Governance_Read
      else if name \<in> {CODE_SIGNER_MEMBERS_ADD_TOOL, CODE_SIGNER_MEMBER_ROLE_UPDATE_TOOL,
          CODE_SIGNER_MEMBERS_REMOVE_TOOL, CODE_SIGNER_APPROVAL_POLICY_REPLACE_TOOL,
          CODE_SIGNER_APPROVAL_REQUESTS_CREATE_TOOL, CODE_SIGNER_APPROVAL_REQUESTS_PRE_APPROVE_TOOL,
          CODE_SIGNER_APPROVAL_REQUESTS_REVOKE_TOOL}
      then Some Code_Signer_Governance_Mutation
      else None)"

definition route_certificate_authority :: "string \<Rightarrow> workflow" where
  "route_certificate_authority name =
     (if is_internal_ca_certificate_tool name
      then (if name \<in> {INTERNAL_CA_CERTIFICATE_GENERATE_TOOL, INTERNAL_CA_CERTIFICATE_RENEW_TOOL,
                INTERNAL_CA_INTERMEDIATE_SIGN_TOOL, INTERNAL_CA_CERTIFICATE_IMPORT_TOOL}
            then Internal_Ca_Certificate_Mutation else Internal_Ca_Certificate_Read)
      else Certificate_Authority_Workflow)"

definition route_certificate :: "string \<Rightarrow> workflow" where
  "route_certificate name =
     (if is_certificate_lifecycle_tool name then Certificate_Lifecycle_Workflow
      else if is_certificate_material_tool name then Certificate_Material_Workflow
      else Certificate_Workflow)"

definition route_certificate_profile :: "string \<Rightarrow> workflow option" where
  "route_certificate_profile name =
     (if name \<in> {CERTIFICATE_PROFILES_CREATE_TOOL, CERTIFICATE_PROFILES_UPDATE_TOOL,
          CERTIFICATE_PROFILES_DELETE_TOOL}
      then Some Certificate_Profile_Mutation
      else if name \<in> {CERTIFICATE_PROFILES_LIST_TOOL, CERTIFICATE_PROFILES_GET_TOOL,
          CERTIFICATE_PROFILES_GET_BY_SLUG_TOOL, CERTIFICATE_PROFILE_CERTIFICATES_LIST_TOOL,
          CERTIFICATE_PROFILE_LATEST_BUNDLE_REVEAL_TOOL, CERTIFICATE_PROFILE_EAB_SECRET_REVEAL_TOOL}
      then Some Certificate_Profile_Read
      else None)"

definition route_kms :: "string \<Rightarrow> workflow" where
  "route_kms name =
     (if name \<in> {KMS_KEYS_LIST_TOOL, KMS_KEYS_GET_TOOL, KMS_KEYS_GET_BY_NAME_TOOL, KMS_KEYS_CREATE_TOOL,
          KMS_KEYS_UPDATE_TOOL, KMS_KEYS_DELETE_TOOL}
      then Kms_Management
      else if name \<in> {KMS_PUBLIC_KEY_GET_TOOL, KMS_PRIVATE_KEY_REVEAL_TOOL, KMS_KEYS_BULK_IMPORT_TOOL,
          KMS_PRIVATE_KEYS_BULK_REVEAL_TOOL, KMS_SIGNING_ALGORITHMS_LIST_TOOL}
      then Kms_Material
      else Kms_Cryptographic)"

definition route_sql_secret_rotation :: "string \<Rightarrow> workflow" where
  "route_sql_secret_rotation name =
     (if name \<in> {SQL_SECRET_ROTATION_DELETE_TOOL, SQL_SECRET_ROTATION_GENERATED_CREDENTIALS_GET_TOOL,
          SQL_SECRET_ROTATION_MOVE_TOOL, SQL_SECRET_ROTATION_ROTATE_TOOL, SQL_SECRET_ROTATION_CHECK_TOOL}
      then Sql_Secret_Rotation_Sensitive else Sql_Secret_Rotation)"

definition route_app_automation :: "string \<Rightarrow> workflow" where
  "route_app_automation name =
     (if name \<in> {GITHUB_APP_CONNECTION_GET_TOOL, GITHUB_APP_CONNECTION_CREATE_TOOL,
          GITHUB_APP_CONNECTION_UPDATE_TOOL, GITHUB_APP_CONNECTION_ROTATE_CREDENTIALS_TOOL,
          GITHUB_APP_CONNECTION_DELETE_TOOL}
      then Github_App_Connection
      else if name \<in> {GITHUB_SECRET_SYNC_GET_TOOL, GITHUB_SECRET_SYNC_CREATE_TOOL,
          GITHUB_SECRET_SYNC_UPDATE_TOOL, GITHUB_SECRET_SYNC_DELETE_TOOL, GITHUB_SECRET_SYNC_RUN_TOOL,
          GITHUB_SECRET_SYNC_REMOVE_SECRETS_TOOL}
      then Github_Secret_Sync
      else if name \<in> {SQL_SECRET_ROTATION_GET_TOOL, SQL_SECRET_ROTATION_GET_BY_NAME_TOOL,
          SQL_SECRET_ROTATION_CREATE_TOOL, SQL_SECRET_ROTATION_UPDATE_TOOL, SQL_SECRET_ROTATION_DELETE_TOOL,
          SQL_SECRET_ROTATION_GENERATED_CREDENTIALS_GET_TOOL, SQL_SECRET_ROTATION_MOVE_TOOL,
          SQL_SECRET_ROTATION_ROTATE_TOOL, SQL_SECRET_ROTATION_CHECK_TOOL}
      then route_sql_secret_rotation name
      else App_Automation_Workflow)"

definition route_project_membership :: "string \<Rightarrow> workflow" where
  "route_project_membership name =
     (if name \<in> {PROJECT_USER_MEMBERSHIPS_LIST_TOOL, PROJECT_USER_MEMBERSHIPS_GET_TOOL,
          PROJECT_USER_MEMBERSHIPS_INVITE_TOOL, PROJECT_USER_MEMBERSHIPS_UPDATE_TOOL,
          PROJECT_USER_MEMBERSHIPS_DELETE_TOOL}
      then Project_User_Membership else Project_Identity_Membership)"

definition route_additional_privilege :: "string \<Rightarrow> workflow" where
  "route_additional_privilege name =
     (if name \<in> {IDENTITY_PROJECT_ADDITIONAL_PRIVILEGES_LIST_TOOL,
          IDENTITY_PROJECT_ADDITIONAL_PRIVILEGES_GET_TOOL,
          IDENTITY_PROJECT_ADDITIONAL_PRIVILEGES_GET_BY_SLUG_TOOL}
      then Additional_Privilege_Read else Additional_Privilege_Mutation)"

definition is_access_control_tool :: "string \<Rightarrow> bool" where
  "is_access_control_tool name \<longleftrightarrow>
     is_role_tool name \<or> is_group_tool name \<or> is_identity_project_additional_privilege_tool name"

definition route_access_control :: "string \<Rightarrow> workflow" where
  "route_access_control name =
     (if is_role_tool name then Role_Workflow
      else if is_group_tool name then Group_Workflow
      else route_additional_privilege name)"

definition route_universal_auth :: "string \<Rightarrow> workflow" where
  "route_universal_auth name =
     (if name \<in> {UNIVERSAL_AUTH_GET_TOOL, UNIVERSAL_AUTH_ATTACH_TOOL, UNIVERSAL_AUTH_UPDATE_TOOL,
          UNIVERSAL_AUTH_REMOVE_TOOL, UNIVERSAL_AUTH_LOCKOUTS_CLEAR_TOOL}
      then Universal_Auth else Universal_Auth_Client_Secret)"

definition route_identity_auth :: "string \<Rightarrow> workflow" where
  "route_identity_auth name =
     (if name \<in> {KUBERNETES_AUTH_GET_TOOL, KUBERNETES_AUTH_ATTACH_TOOL, KUBERNETES_AUTH_UPDATE_TOOL,
          KUBERNETES_AUTH_REMOVE_TOOL}
      then Kubernetes_Auth
      else if name \<in> {TOKEN_AUTH_GET_TOOL, TOKEN_AUTH_ATTACH_TOOL, TOKEN_AUTH_UPDATE_TOOL,
          TOKEN_AUTH_REMOVE_TOOL, TOKEN_AUTH_TOKENS_LIST_TOOL, TOKEN_AUTH_TOKENS_GET_TOOL,
          TOKEN_AUTH_TOKENS_CREATE_TOOL, TOKEN_AUTH_TOKENS_UPDATE_TOOL, TOKEN_AUTH_TOKENS_REVOKE_TOOL}
      then Token_Auth
      else route_universal_auth name)"

definition route_dynamic_secret :: "string \<Rightarrow> workflow" where
  "route_dynamic_secret name =
     (if name \<in> {DYNAMIC_SECRETS_CREATE_TOOL, DYNAMIC_SECRET_LEASES_CREATE_TOOL}
      then Sql_Dynamic_Secret else Dynamic_Secret_Workflow)"

definition route_secret :: "string \<Rightarrow> workflow" where
  "route_secret name =
     (if name \<in> {SECRET_REVEAL_TOOL, SECRET_CREATE_TOOL, SECRET_UPDATE_TOOL, SECRET_DELETE_TOOL,
          SECRET_BATCH_CREATE_TOOL, SECRET_BATCH_UPDATE_TOOL, SECRET_BATCH_DELETE_TOOL}
      then Secret_Workflow else Secret_Import_Workflow)"

text \<open>\<open>dispatch_upstream\<close>: the tests in their order, the first that holds decides.\<close>

definition route_upstream :: "string \<Rightarrow> workflow option" where
  "route_upstream name =
     (if is_ssh_tool name then Some Ssh_Workflow
      else if is_code_signer_tool name then route_code_signer name
      else if is_certificate_authority_tool name then Some (route_certificate_authority name)
      else if is_certificate_tool name then Some (route_certificate name)
      else if is_certificate_policy_tool name then Some Certificate_Policy_Workflow
      else if is_certificate_profile_tool name then route_certificate_profile name
      else if is_kms_tool name then Some (route_kms name)
      else if is_app_automation_tool name then Some (route_app_automation name)
      else if name = AUDIT_LOGS_LIST_TOOL then Some Audit_Log_Workflow
      else if name \<in> {PROJECTS_LIST_TOOL, PROJECTS_GET_TOOL, PROJECTS_CREATE_TOOL, PROJECTS_UPDATE_TOOL,
          PROJECTS_DELETE_TOOL}
      then Some Project_Workflow
      else if name \<in> {ENVIRONMENTS_LIST_TOOL, ENVIRONMENTS_GET_TOOL, ENVIRONMENTS_CREATE_TOOL,
          ENVIRONMENTS_UPDATE_TOOL, ENVIRONMENTS_DELETE_TOOL, ENVIRONMENTS_RESTORE_TOOL}
      then Some Environment_Workflow
      else if name \<in> {FOLDERS_LIST_TOOL, FOLDERS_GET_TOOL, FOLDERS_CREATE_TOOL, FOLDERS_UPDATE_TOOL,
          FOLDERS_BATCH_UPDATE_TOOL, FOLDERS_DELETE_TOOL}
      then Some Folder_Workflow
      else if name \<in> {TAGS_LIST_TOOL, TAGS_GET_TOOL, TAGS_CREATE_TOOL, TAGS_UPDATE_TOOL, TAGS_DELETE_TOOL}
      then Some Tag_Workflow
      else if is_identity_admin_tool name then Some Identity_Workflow
      else if is_project_membership_tool name then Some (route_project_membership name)
      else if is_access_control_tool name then Some (route_access_control name)
      else if is_identity_auth_tool name then Some (route_identity_auth name)
      else if name = SECRET_METADATA_LIST_TOOL then Some Secret_Metadata_List
      else Some (route_secret name))"

text \<open>The end of \<open>dispatch_tool\<close>, for names that are neither executors nor local tools.\<close>

definition route_operation :: "string \<Rightarrow> workflow option" where
  "route_operation name =
     (if is_dynamic_secret_tool name then Some (route_dynamic_secret name) else route_upstream name)"

text \<open>A name is handled when the workflow it is routed to has an arm for it.\<close>

definition handled :: "string \<Rightarrow> bool" where
  "handled name \<longleftrightarrow> (case route_operation name of None \<Rightarrow> False | Some g \<Rightarrow> name \<in> set (arms g))"

section \<open>Every operation is handled\<close>

text \<open>Family by family, by evaluation of the routing on the names.\<close>

lemma discovery_tools_handled: "list_all (\<lambda>r. handled (fst r)) (map op_row discovery_tools)"
  unfolding discovery_tools_rows by code_simp

lemma project_environment_tools_handled: "list_all (\<lambda>r. handled (fst r)) (map op_row project_environment_tools)"
  unfolding project_environment_tools_rows by code_simp

lemma folder_tag_tools_handled: "list_all (\<lambda>r. handled (fst r)) (map op_row folder_tag_tools)"
  unfolding folder_tag_tools_rows by code_simp

lemma identity_tools_handled: "list_all (\<lambda>r. handled (fst r)) (map op_row identity_tools)"
  unfolding identity_tools_rows by code_simp

lemma project_membership_tools_handled: "list_all (\<lambda>r. handled (fst r)) (map op_row project_membership_tools)"
  unfolding project_membership_tools_rows by code_simp

lemma role_tools_handled: "list_all (\<lambda>r. handled (fst r)) (map op_row role_tools)"
  unfolding role_tools_rows by code_simp

lemma group_tools_handled: "list_all (\<lambda>r. handled (fst r)) (map op_row group_tools)"
  unfolding group_tools_rows by code_simp

lemma identity_project_additional_privilege_tools_handled: "list_all (\<lambda>r. handled (fst r)) (map op_row identity_project_additional_privilege_tools)"
  unfolding identity_project_additional_privilege_tools_rows by code_simp

lemma universal_auth_tools_handled: "list_all (\<lambda>r. handled (fst r)) (map op_row universal_auth_tools)"
  unfolding universal_auth_tools_rows by code_simp

lemma token_auth_tools_handled: "list_all (\<lambda>r. handled (fst r)) (map op_row token_auth_tools)"
  unfolding token_auth_tools_rows by code_simp

lemma kubernetes_auth_tools_handled: "list_all (\<lambda>r. handled (fst r)) (map op_row kubernetes_auth_tools)"
  unfolding kubernetes_auth_tools_rows by code_simp

lemma secret_tools_handled: "list_all (\<lambda>r. handled (fst r)) (map op_row secret_tools)"
  unfolding secret_tools_rows by code_simp

lemma secret_import_tools_handled: "list_all (\<lambda>r. handled (fst r)) (map op_row secret_import_tools)"
  unfolding secret_import_tools_rows by code_simp

lemma audit_log_tools_handled: "list_all (\<lambda>r. handled (fst r)) (map op_row audit_log_tools)"
  unfolding audit_log_tools_rows by code_simp

lemma app_automation_tools_handled: "list_all (\<lambda>r. handled (fst r)) (map op_row app_automation_tools)"
  unfolding app_automation_tools_rows by code_simp

lemma sql_secret_rotation_tools_handled: "list_all (\<lambda>r. handled (fst r)) (map op_row sql_secret_rotation_tools)"
  unfolding sql_secret_rotation_tools_rows by code_simp

lemma certificate_authority_tools_handled: "list_all (\<lambda>r. handled (fst r)) (map op_row certificate_authority_tools)"
  unfolding certificate_authority_tools_rows by code_simp

lemma certificate_tools_handled: "list_all (\<lambda>r. handled (fst r)) (map op_row certificate_tools)"
  unfolding certificate_tools_rows by code_simp

lemma certificate_policy_tools_handled: "list_all (\<lambda>r. handled (fst r)) (map op_row certificate_policy_tools)"
  unfolding certificate_policy_tools_rows by code_simp

lemma certificate_profile_tools_handled: "list_all (\<lambda>r. handled (fst r)) (map op_row certificate_profile_tools)"
  unfolding certificate_profile_tools_rows by code_simp

lemma ssh_certificate_authority_tools_handled: "list_all (\<lambda>r. handled (fst r)) (map op_row ssh_certificate_authority_tools)"
  unfolding ssh_certificate_authority_tools_rows by code_simp

lemma code_signer_tools_handled: "list_all (\<lambda>r. handled (fst r)) (map op_row code_signer_tools)"
  unfolding code_signer_tools_rows by code_simp

lemma kms_tools_handled: "list_all (\<lambda>r. handled (fst r)) (map op_row kms_tools)"
  unfolding kms_tools_rows by code_simp

lemma dynamic_secret_tools_handled: "list_all (\<lambda>r. handled (fst r)) (map op_row dynamic_secret_tools)"
  unfolding dynamic_secret_tools_rows by code_simp

lemma ssh_host_tools_handled: "list_all (\<lambda>r. handled (fst r)) (map op_row ssh_host_tools)"
  unfolding ssh_host_tools_rows by code_simp

lemmas family_handled = discovery_tools_handled project_environment_tools_handled
  folder_tag_tools_handled identity_tools_handled project_membership_tools_handled
  role_tools_handled group_tools_handled identity_project_additional_privilege_tools_handled
  universal_auth_tools_handled token_auth_tools_handled kubernetes_auth_tools_handled
  secret_tools_handled secret_import_tools_handled audit_log_tools_handled
  app_automation_tools_handled sql_secret_rotation_tools_handled
  certificate_authority_tools_handled certificate_tools_handled certificate_policy_tools_handled
  certificate_profile_tools_handled ssh_certificate_authority_tools_handled
  code_signer_tools_handled kms_tools_handled dynamic_secret_tools_handled
  ssh_host_tools_handled

lemma catalog_handled: "n \<in> set (map od_name build_operation_catalog) \<Longrightarrow> handled n"
proof -
  have "list_all (\<lambda>r. handled (fst r)) (map op_row build_operation_catalog)"
    unfolding build_operation_catalog_def map_append list_all_append by (intro conjI family_handled)
  moreover assume "n \<in> set (map od_name build_operation_catalog)"
  ultimately show "handled n" by (auto simp: list_all_iff op_row_def)
qed

definition workflows :: "workflow list" where
  "workflows =
     [Ssh_Workflow, Code_Signer_Read, Code_Signer_Mutation, Code_Signer_Governance_Read,
      Code_Signer_Governance_Mutation, Internal_Ca_Certificate_Read,
      Internal_Ca_Certificate_Mutation, Certificate_Authority_Workflow,
      Certificate_Lifecycle_Workflow, Certificate_Material_Workflow, Certificate_Workflow,
      Certificate_Policy_Workflow, Certificate_Profile_Read, Certificate_Profile_Mutation,
      Kms_Management, Kms_Material, Kms_Cryptographic, App_Automation_Workflow,
      Github_App_Connection, Github_Secret_Sync, Sql_Secret_Rotation,
      Sql_Secret_Rotation_Sensitive, Project_Workflow, Environment_Workflow, Folder_Workflow,
      Tag_Workflow, Identity_Workflow, Project_User_Membership, Project_Identity_Membership,
      Role_Workflow, Group_Workflow, Additional_Privilege_Read, Additional_Privilege_Mutation,
      Kubernetes_Auth, Token_Auth, Universal_Auth, Universal_Auth_Client_Secret,
      Dynamic_Secret_Workflow, Sql_Dynamic_Secret, Secret_Workflow, Secret_Import_Workflow,
      Audit_Log_Workflow, Secret_Metadata_List]"

lemma in_workflows: "g \<in> set workflows"
  by (cases g) (simp_all add: workflows_def)

lemma arms_length: "length (concat (map arms workflows)) = 234"
  by (simp add: workflows_def)

text \<open>
  C18: Exactly the operations of the catalog are handled. Following the family predicates and the
  nested dispatch functions in their order, the name of every catalog operation arrives at a dispatch
  function with an arm for it, so no published operation is answered \<open>method not found\<close>; and no other
  name has an arm, so nothing outside the reviewed catalog can be executed.
\<close>

theorem operations_routed:
  "handled name \<longleftrightarrow> name \<in> od_name ` set build_operation_catalog"
proof -
  let ?names = "od_name ` set build_operation_catalog"
  let ?arms = "set (concat (map arms workflows))"
  have sub: "?names \<subseteq> {n. handled n}" using catalog_handled by auto
  have arm: "{n. handled n} \<subseteq> ?arms"
    using in_workflows by (auto simp: handled_def split: option.splits)
  have "card ?arms \<le> 234" using card_length [of "concat (map arms workflows)"] by (simp only: arms_length)
  moreover have "card ?names = 234"
    using distinct_card [OF catalog_distinct] by (simp add: catalog_length)
  ultimately have "?names = ?arms" using sub arm by (intro card_seteq) auto
  with sub arm show ?thesis by auto
qed

end
