(* ===== verification/Declared_Tiers.thy ===== *)
theory Declared_Tiers
  imports Operation_Routing
begin

text \<open>
  The tiers the catalog declares, by workflow: which operations of a workflow are reads and which
  destroy something.
\<close>

definition read_tier :: "tool_tier \<Rightarrow> bool" where
  "read_tier t \<longleftrightarrow> t = Read \<or> t = Read_Audited"

lemma catalog_tier_unique: "(n, t) \<in> catalog_rows \<Longrightarrow> (n, t') \<in> catalog_rows \<longleftrightarrow> t' = t"
proof -
  have "inj_on od_name (set build_operation_catalog)" using catalog_distinct by (simp add: distinct_map)
  then show "(n, t) \<in> catalog_rows \<Longrightarrow> (n, t') \<in> catalog_rows \<longleftrightarrow> t' = t"
    by (auto simp: catalog_rows_def op_row_def inj_on_def)
qed

lemma family_tiers:
  "set (map op_row ds) \<subseteq> catalog_rows \<Longrightarrow>
     list_all (\<lambda>r. \<forall>t. (fst r, t) \<in> catalog_rows \<longleftrightarrow> t = snd r) (map op_row ds)"
  unfolding list_all_iff using catalog_tier_unique [of "fst r" "snd r" for r] by (metis prod.collapse subsetD)

lemmas tree_tiers =
  family_tiers [OF discovery_tools_in, unfolded discovery_tools_rows list.pred_inject fst_conv snd_conv]
  family_tiers [OF project_environment_tools_in, unfolded project_environment_tools_rows list.pred_inject fst_conv snd_conv]
  family_tiers [OF folder_tag_tools_in, unfolded folder_tag_tools_rows list.pred_inject fst_conv snd_conv]
  family_tiers [OF secret_tools_in, unfolded secret_tools_rows list.pred_inject fst_conv snd_conv]
  family_tiers [OF secret_import_tools_in, unfolded secret_import_tools_rows list.pred_inject fst_conv snd_conv]
  family_tiers [OF audit_log_tools_in, unfolded audit_log_tools_rows list.pred_inject fst_conv snd_conv]
  family_tiers [OF identity_tools_in, unfolded identity_tools_rows list.pred_inject fst_conv snd_conv]
  family_tiers [OF project_membership_tools_in, unfolded project_membership_tools_rows list.pred_inject fst_conv snd_conv]
  family_tiers [OF role_tools_in, unfolded role_tools_rows list.pred_inject fst_conv snd_conv]
  family_tiers [OF group_tools_in, unfolded group_tools_rows list.pred_inject fst_conv snd_conv]
  family_tiers [OF universal_auth_tools_in, unfolded universal_auth_tools_rows list.pred_inject fst_conv snd_conv]
  family_tiers [OF token_auth_tools_in, unfolded token_auth_tools_rows list.pred_inject fst_conv snd_conv]
  family_tiers [OF kubernetes_auth_tools_in, unfolded kubernetes_auth_tools_rows list.pred_inject fst_conv snd_conv]
  family_tiers [OF identity_project_additional_privilege_tools_in,
    unfolded identity_project_additional_privilege_tools_rows list.pred_inject fst_conv snd_conv]
  family_tiers [OF kms_tools_in, unfolded kms_tools_rows list.pred_inject fst_conv snd_conv]

lemma project_read_names:
  "n \<in> set (arms Project_Workflow) \<Longrightarrow> (n, t) \<in> catalog_rows \<Longrightarrow> read_tier t \<Longrightarrow>
     n = PROJECTS_LIST_TOOL \<or> n = PROJECTS_GET_TOOL"
  unfolding arms.simps list.set insert_iff empty_iff
  by (elim disjE; simp add: tree_tiers read_tier_def)

lemma environment_read_names:
  "n \<in> set (arms Environment_Workflow) \<Longrightarrow> (n, t) \<in> catalog_rows \<Longrightarrow> read_tier t \<Longrightarrow>
     n = ENVIRONMENTS_LIST_TOOL \<or> n = ENVIRONMENTS_GET_TOOL"
  unfolding arms.simps list.set insert_iff empty_iff
  by (elim disjE; simp add: tree_tiers read_tier_def)

lemma folder_read_names:
  "n \<in> set (arms Folder_Workflow) \<Longrightarrow> (n, t) \<in> catalog_rows \<Longrightarrow> read_tier t \<Longrightarrow>
     n = FOLDERS_LIST_TOOL \<or> n = FOLDERS_GET_TOOL"
  unfolding arms.simps list.set insert_iff empty_iff
  by (elim disjE; simp add: tree_tiers read_tier_def)

lemma tag_read_names:
  "n \<in> set (arms Tag_Workflow) \<Longrightarrow> (n, t) \<in> catalog_rows \<Longrightarrow> read_tier t \<Longrightarrow>
     n = TAGS_LIST_TOOL \<or> n = TAGS_GET_TOOL"
  unfolding arms.simps list.set insert_iff empty_iff
  by (elim disjE; simp add: tree_tiers read_tier_def)

lemma secret_read_names:
  "n \<in> set (arms Secret_Workflow) \<Longrightarrow> (n, t) \<in> catalog_rows \<Longrightarrow> read_tier t \<Longrightarrow>
     n = SECRET_REVEAL_TOOL"
  unfolding arms.simps list.set insert_iff empty_iff
  by (elim disjE; simp add: tree_tiers read_tier_def)

lemma import_read_names:
  "n \<in> set (arms Secret_Import_Workflow) \<Longrightarrow> (n, t) \<in> catalog_rows \<Longrightarrow> read_tier t \<Longrightarrow>
     n = SECRET_IMPORTS_LIST_TOOL \<or> n = SECRET_IMPORTS_GET_TOOL"
  unfolding arms.simps list.set insert_iff empty_iff
  by (elim disjE; simp add: tree_tiers read_tier_def)

lemma identity_read_names:
  "n \<in> set (arms Identity_Workflow) \<Longrightarrow> (n, t) \<in> catalog_rows \<Longrightarrow> read_tier t \<Longrightarrow>
     n = IDENTITIES_LIST_TOOL \<or> n = IDENTITIES_GET_TOOL"
  unfolding arms.simps list.set insert_iff empty_iff
  by (elim disjE; simp add: tree_tiers read_tier_def)

lemma user_membership_read_names:
  "n \<in> set (arms Project_User_Membership) \<Longrightarrow> (n, t) \<in> catalog_rows \<Longrightarrow> read_tier t \<Longrightarrow>
     n = PROJECT_USER_MEMBERSHIPS_LIST_TOOL \<or> n = PROJECT_USER_MEMBERSHIPS_GET_TOOL"
  unfolding arms.simps list.set insert_iff empty_iff
  by (elim disjE; simp add: tree_tiers read_tier_def)

lemma identity_membership_read_names:
  "n \<in> set (arms Project_Identity_Membership) \<Longrightarrow> (n, t) \<in> catalog_rows \<Longrightarrow> read_tier t \<Longrightarrow>
     n = PROJECT_IDENTITY_MEMBERSHIPS_LIST_TOOL \<or> n = PROJECT_IDENTITY_MEMBERSHIPS_GET_TOOL"
  unfolding arms.simps list.set insert_iff empty_iff
  by (elim disjE; simp add: tree_tiers read_tier_def)

lemma universal_auth_read_names:
  "n \<in> set (arms Universal_Auth) \<Longrightarrow> (n, t) \<in> catalog_rows \<Longrightarrow> read_tier t \<Longrightarrow>
     n = UNIVERSAL_AUTH_GET_TOOL"
  unfolding arms.simps list.set insert_iff empty_iff
  by (elim disjE; simp add: tree_tiers read_tier_def)

lemma client_secret_read_names:
  "n \<in> set (arms Universal_Auth_Client_Secret) \<Longrightarrow> (n, t) \<in> catalog_rows \<Longrightarrow> read_tier t \<Longrightarrow>
     n = UNIVERSAL_AUTH_CLIENT_SECRETS_LIST_TOOL \<or>
     n = UNIVERSAL_AUTH_CLIENT_SECRETS_GET_TOOL"
  unfolding arms.simps list.set insert_iff empty_iff
  by (elim disjE; simp add: tree_tiers read_tier_def)

lemma token_auth_read_names:
  "n \<in> set (arms Token_Auth) \<Longrightarrow> (n, t) \<in> catalog_rows \<Longrightarrow> read_tier t \<Longrightarrow>
     n = TOKEN_AUTH_GET_TOOL \<or>
     n = TOKEN_AUTH_TOKENS_LIST_TOOL \<or>
     n = TOKEN_AUTH_TOKENS_GET_TOOL"
  unfolding arms.simps list.set insert_iff empty_iff
  by (elim disjE; simp add: tree_tiers read_tier_def)

lemma kubernetes_auth_read_names:
  "n \<in> set (arms Kubernetes_Auth) \<Longrightarrow> (n, t) \<in> catalog_rows \<Longrightarrow> read_tier t \<Longrightarrow>
     n = KUBERNETES_AUTH_GET_TOOL"
  unfolding arms.simps list.set insert_iff empty_iff
  by (elim disjE; simp add: tree_tiers read_tier_def)

lemma privilege_read_names:
  "n \<in> set (arms Additional_Privilege_Mutation) \<Longrightarrow> (n, t) \<in> catalog_rows \<Longrightarrow> \<not> read_tier t"
  unfolding arms.simps list.set insert_iff empty_iff
  by (elim disjE; simp add: tree_tiers read_tier_def)

lemma kms_read_names:
  "n \<in> set (arms Kms_Management) \<Longrightarrow> (n, t) \<in> catalog_rows \<Longrightarrow> read_tier t \<Longrightarrow>
     n = KMS_KEYS_LIST_TOOL \<or> n = KMS_KEYS_GET_TOOL \<or> n = KMS_KEYS_GET_BY_NAME_TOOL"
  "n \<in> set (arms Kms_Material) \<Longrightarrow> (n, t) \<in> catalog_rows \<Longrightarrow> read_tier t \<Longrightarrow>
     n = KMS_PUBLIC_KEY_GET_TOOL \<or> n = KMS_PRIVATE_KEY_REVEAL_TOOL \<or> n = KMS_SIGNING_ALGORITHMS_LIST_TOOL"
  "n \<in> set (arms Kms_Cryptographic) \<Longrightarrow> (n, t) \<in> catalog_rows \<Longrightarrow> \<not> read_tier t"
  unfolding arms.simps list.set insert_iff empty_iff
  by (elim disjE; simp add: tree_tiers read_tier_def)+

text \<open>The destructive operations of each workflow; the other workflows have none.\<close>

lemma project_destroy_names:
  "n \<in> set (arms Project_Workflow) \<Longrightarrow> (n, Destroy) \<in> catalog_rows \<Longrightarrow>
     n = PROJECTS_DELETE_TOOL"
  unfolding arms.simps list.set insert_iff empty_iff
  by (elim disjE; simp add: tree_tiers)

lemma environment_destroy_names:
  "n \<in> set (arms Environment_Workflow) \<Longrightarrow> (n, Destroy) \<in> catalog_rows \<Longrightarrow>
     n = ENVIRONMENTS_DELETE_TOOL"
  unfolding arms.simps list.set insert_iff empty_iff
  by (elim disjE; simp add: tree_tiers)

lemma folder_destroy_names:
  "n \<in> set (arms Folder_Workflow) \<Longrightarrow> (n, Destroy) \<in> catalog_rows \<Longrightarrow>
     n = FOLDERS_DELETE_TOOL"
  unfolding arms.simps list.set insert_iff empty_iff
  by (elim disjE; simp add: tree_tiers)

lemma tag_destroy_names:
  "n \<in> set (arms Tag_Workflow) \<Longrightarrow> (n, Destroy) \<in> catalog_rows \<Longrightarrow>
     n = TAGS_DELETE_TOOL"
  unfolding arms.simps list.set insert_iff empty_iff
  by (elim disjE; simp add: tree_tiers)

lemma secret_destroy_names:
  "n \<in> set (arms Secret_Workflow) \<Longrightarrow> (n, Destroy) \<in> catalog_rows \<Longrightarrow>
     n = SECRET_DELETE_TOOL \<or> n = SECRET_BATCH_DELETE_TOOL"
  unfolding arms.simps list.set insert_iff empty_iff
  by (elim disjE; simp add: tree_tiers)

lemma import_destroy_names:
  "n \<in> set (arms Secret_Import_Workflow) \<Longrightarrow> (n, Destroy) \<in> catalog_rows \<Longrightarrow>
     n = SECRET_IMPORTS_DELETE_TOOL"
  unfolding arms.simps list.set insert_iff empty_iff
  by (elim disjE; simp add: tree_tiers)

lemma identity_destroy_names:
  "n \<in> set (arms Identity_Workflow) \<Longrightarrow> (n, Destroy) \<in> catalog_rows \<Longrightarrow>
     n = IDENTITIES_DELETE_TOOL"
  unfolding arms.simps list.set insert_iff empty_iff
  by (elim disjE; simp add: tree_tiers)

lemma user_membership_destroy_names:
  "n \<in> set (arms Project_User_Membership) \<Longrightarrow> (n, Destroy) \<in> catalog_rows \<Longrightarrow>
     n = PROJECT_USER_MEMBERSHIPS_UPDATE_TOOL \<or> n = PROJECT_USER_MEMBERSHIPS_DELETE_TOOL"
  unfolding arms.simps list.set insert_iff empty_iff
  by (elim disjE; simp add: tree_tiers)

lemma identity_membership_destroy_names:
  "n \<in> set (arms Project_Identity_Membership) \<Longrightarrow> (n, Destroy) \<in> catalog_rows \<Longrightarrow>
     n = PROJECT_IDENTITY_MEMBERSHIPS_UPDATE_TOOL \<or>
     n = PROJECT_IDENTITY_MEMBERSHIPS_DELETE_TOOL"
  unfolding arms.simps list.set insert_iff empty_iff
  by (elim disjE; simp add: tree_tiers)

lemma universal_auth_destroy_names:
  "n \<in> set (arms Universal_Auth) \<Longrightarrow> (n, Destroy) \<in> catalog_rows \<Longrightarrow>
     n = UNIVERSAL_AUTH_REMOVE_TOOL \<or>
     n = UNIVERSAL_AUTH_LOCKOUTS_CLEAR_TOOL"
  unfolding arms.simps list.set insert_iff empty_iff
  by (elim disjE; simp add: tree_tiers)

lemma client_secret_destroy_names:
  "n \<in> set (arms Universal_Auth_Client_Secret) \<Longrightarrow> (n, Destroy) \<in> catalog_rows \<Longrightarrow>
     n = UNIVERSAL_AUTH_CLIENT_SECRETS_REVOKE_TOOL"
  unfolding arms.simps list.set insert_iff empty_iff
  by (elim disjE; simp add: tree_tiers)

lemma token_auth_destroy_names:
  "n \<in> set (arms Token_Auth) \<Longrightarrow> (n, Destroy) \<in> catalog_rows \<Longrightarrow>
     n = TOKEN_AUTH_REMOVE_TOOL \<or>
     n = TOKEN_AUTH_TOKENS_REVOKE_TOOL"
  unfolding arms.simps list.set insert_iff empty_iff
  by (elim disjE; simp add: tree_tiers)

lemma kubernetes_auth_destroy_names:
  "n \<in> set (arms Kubernetes_Auth) \<Longrightarrow> (n, Destroy) \<in> catalog_rows \<Longrightarrow>
     n = KUBERNETES_AUTH_REMOVE_TOOL"
  unfolding arms.simps list.set insert_iff empty_iff
  by (elim disjE; simp add: tree_tiers)

lemma privilege_destroy_names:
  "n \<in> set (arms Additional_Privilege_Mutation) \<Longrightarrow> (n, Destroy) \<in> catalog_rows \<Longrightarrow>
     n = IDENTITY_PROJECT_ADDITIONAL_PRIVILEGES_CREATE_TOOL \<or>
     n = IDENTITY_PROJECT_ADDITIONAL_PRIVILEGES_UPDATE_TOOL \<or>
     n = IDENTITY_PROJECT_ADDITIONAL_PRIVILEGES_DELETE_TOOL"
  unfolding arms.simps list.set insert_iff empty_iff
  by (elim disjE; simp add: tree_tiers)

lemma kms_destroy_names:
  "n \<in> set (arms Kms_Management) \<Longrightarrow> (n, Destroy) \<in> catalog_rows \<Longrightarrow>
     n = KMS_KEYS_UPDATE_TOOL \<or> n = KMS_KEYS_DELETE_TOOL"
  unfolding arms.simps list.set insert_iff empty_iff
  by (elim disjE; simp add: tree_tiers)

lemma nothing_destroyed:
  "g \<in> {Kms_Material, Kms_Cryptographic, Additional_Privilege_Read, Audit_Log_Workflow, Secret_Metadata_List, Role_Workflow, Group_Workflow} \<Longrightarrow>
     n \<in> set (arms g) \<Longrightarrow> (n, Destroy) \<notin> catalog_rows"
  by (elim insertE emptyE; simp only: arms.simps list.set insert_iff empty_iff; elim disjE; simp add: tree_tiers)

end
