(* ===== verification/Upstream_Dispatch.thy ===== *)
theory Upstream_Dispatch
  imports Confirmed_Destruction Declared_Tiers
begin

text \<open>
  The end of \<open>dispatch_tool\<close> and \<open>dispatch_upstream\<close>: an operation's name is routed to its workflow
  and run there. Workflows that are not modelled are a parameter. The tier an operation declares in
  the catalog is compared with the requests its handler sends.
\<close>

section \<open>Running a workflow\<close>

type_synonym other_workflows = "workflow \<Rightarrow> call_params \<Rightarrow> tool_state \<Rightarrow> tool_outcome"

fun run_workflow :: "tool_env \<Rightarrow> other_workflows \<Rightarrow> workflow \<Rightarrow> call_params \<Rightarrow> tool_state \<Rightarrow> tool_outcome" where
  "run_workflow E others Audit_Log_Workflow = dispatch_audit_log_workflow E"
| "run_workflow E others Project_Workflow = dispatch_project_workflow E"
| "run_workflow E others Environment_Workflow = dispatch_environment_workflow E"
| "run_workflow E others Folder_Workflow = dispatch_folder_workflow E"
| "run_workflow E others Tag_Workflow = dispatch_tag_workflow E"
| "run_workflow E others Secret_Metadata_List = handle_metadata_list E"
| "run_workflow E others Secret_Workflow = dispatch_secret_workflow E (dispatch_secret_import_workflow E)"
| "run_workflow E others Secret_Import_Workflow = dispatch_secret_workflow E (dispatch_secret_import_workflow E)"
| "run_workflow E others Identity_Workflow = dispatch_identity_workflow E"
| "run_workflow E others Project_User_Membership = dispatch_project_user_membership_workflow E"
| "run_workflow E others Project_Identity_Membership = dispatch_project_identity_membership_workflow E"
| "run_workflow E others Role_Workflow = dispatch_role_workflow E"
| "run_workflow E others Group_Workflow = dispatch_group_workflow E"
| "run_workflow E others Universal_Auth = dispatch_identity_auth_workflow E"
| "run_workflow E others Universal_Auth_Client_Secret = dispatch_identity_auth_workflow E"
| "run_workflow E others Token_Auth = dispatch_identity_auth_workflow E"
| "run_workflow E others Kubernetes_Auth = dispatch_identity_auth_workflow E"
| "run_workflow E others Additional_Privilege_Read = dispatch_additional_privilege_workflow E"
| "run_workflow E others Additional_Privilege_Mutation = dispatch_additional_privilege_workflow E"
| "run_workflow E others Kms_Management = dispatch_kms_workflow E"
| "run_workflow E others Kms_Material = dispatch_kms_workflow E"
| "run_workflow E others Kms_Cryptographic = dispatch_kms_workflow E"
| "run_workflow E others g = others g"

definition dispatch_operation ::
    "tool_env \<Rightarrow> other_workflows \<Rightarrow> call_params \<Rightarrow> tool_state \<Rightarrow> tool_outcome" where
  "dispatch_operation E others params s =
     (case route_operation (cp_name params) of
        None \<Rightarrow> Some (Err method_not_found, s)
      | Some g \<Rightarrow> run_workflow E others g params s)"

definition modelled_workflows :: "workflow list" where
  "modelled_workflows =
     [Audit_Log_Workflow, Project_Workflow, Environment_Workflow, Folder_Workflow, Tag_Workflow,
      Secret_Metadata_List, Secret_Workflow, Secret_Import_Workflow, Identity_Workflow,
      Project_User_Membership, Project_Identity_Membership, Role_Workflow, Group_Workflow,
      Universal_Auth, Universal_Auth_Client_Secret, Token_Auth, Kubernetes_Auth,
      Additional_Privilege_Read, Additional_Privilege_Mutation,
      Kms_Management, Kms_Material, Kms_Cryptographic]"

section \<open>The modelled workflows\<close>

lemma modelled_cases [consumes 1]:
  assumes "g \<in> set modelled_workflows"
  obtains (audit) "g = Audit_Log_Workflow"
    | (project) "g = Project_Workflow"
    | (environment) "g = Environment_Workflow"
    | (folder) "g = Folder_Workflow"
    | (tag) "g = Tag_Workflow"
    | (meta) "g = Secret_Metadata_List"
    | (secret) "g = Secret_Workflow"
    | (import) "g = Secret_Import_Workflow"
    | (identity) "g = Identity_Workflow"
    | (user_membership) "g = Project_User_Membership"
    | (identity_membership) "g = Project_Identity_Membership"
    | (role) "g = Role_Workflow"
    | (group) "g = Group_Workflow"
    | (universal_auth) "g = Universal_Auth"
    | (client_secret) "g = Universal_Auth_Client_Secret"
    | (token_auth) "g = Token_Auth"
    | (kubernetes_auth) "g = Kubernetes_Auth"
    | (privilege_read) "g = Additional_Privilege_Read"
    | (privilege_mutation) "g = Additional_Privilege_Mutation"
    | (kms_management) "g = Kms_Management"
    | (kms_material) "g = Kms_Material"
    | (kms_cryptographic) "g = Kms_Cryptographic"
  using assms by (auto simp: modelled_workflows_def simp del: arms.simps)

lemma modelled_workflow_reads:
  assumes "g \<in> set modelled_workflows" and arm: "cp_name params \<in> set (arms g)"
    and row: "(cp_name params, t) \<in> catalog_rows" and tier: "read_tier t"
  shows "handler_within only_gets (run_workflow E others g params)"
  using assms(1)
proof (cases rule: modelled_cases)
  case audit
  then show ?thesis by (simp add: audit_workflow_reads)
next
  case project
  then show ?thesis using project_read_names [OF _ row tier] arm
    by (simp only: run_workflow.simps) (rule project_workflow_reads, blast)
next
  case environment
  then show ?thesis using environment_read_names [OF _ row tier] arm
    by (simp only: run_workflow.simps) (rule environment_workflow_reads, blast)
next
  case folder
  then show ?thesis using folder_read_names [OF _ row tier] arm
    by (simp only: run_workflow.simps) (rule folder_workflow_reads, blast)
next
  case tag
  then show ?thesis using tag_read_names [OF _ row tier] arm
    by (simp only: run_workflow.simps) (rule tag_workflow_reads, blast)
next
  case meta
  then show ?thesis by (simp add: metadata_list_reads)
next
  case secret
  then show ?thesis using secret_read_names [OF _ row tier] arm
    by (simp only: run_workflow.simps) (rule secret_workflow_reads, blast)
next
  case import
  then show ?thesis using import_read_names [OF _ row tier] arm
    by (simp only: run_workflow.simps) (rule secret_workflow_reads, blast)
next
  case identity
  then show ?thesis using identity_read_names [OF _ row tier] arm
    by (simp only: run_workflow.simps) (rule identity_workflow_reads, blast)
next
  case user_membership
  then show ?thesis using user_membership_read_names [OF _ row tier] arm
    by (simp only: run_workflow.simps) (rule user_membership_workflow_reads, blast)
next
  case identity_membership
  then show ?thesis using identity_membership_read_names [OF _ row tier] arm
    by (simp only: run_workflow.simps) (rule identity_membership_workflow_reads, blast)
next
  case role
  then show ?thesis by (simp add: directory_workflow_reads)
next
  case group
  then show ?thesis by (simp add: directory_workflow_reads)
next
  case universal_auth
  then show ?thesis using universal_auth_read_names [OF _ row tier] arm
    by (simp only: run_workflow.simps) (rule universal_auth_workflow_reads, blast)
next
  case client_secret
  then show ?thesis using client_secret_read_names [OF _ row tier] arm
    by (simp only: run_workflow.simps) (rule universal_auth_workflow_reads, blast)
next
  case token_auth
  then show ?thesis using token_auth_read_names [OF _ row tier] arm
    by (simp only: run_workflow.simps) (rule token_auth_workflow_reads, blast)
next
  case kubernetes_auth
  then show ?thesis using kubernetes_auth_read_names [OF _ row tier] arm
    by (simp only: run_workflow.simps) (rule kubernetes_auth_workflow_reads, blast)
next
  case privilege_read
  then show ?thesis using arm
    by (simp only: run_workflow.simps) (rule privilege_workflow_reads, simp)
next
  case privilege_mutation
  then show ?thesis using privilege_read_names [OF _ row] tier arm by blast
next
  case kms_management
  then show ?thesis using kms_read_names(1) [OF _ row tier] arm
    by (simp only: run_workflow.simps) (rule kms_workflow_reads, blast)
next
  case kms_material
  then show ?thesis using kms_read_names(2) [OF _ row tier] arm
    by (simp only: run_workflow.simps) (rule kms_workflow_reads, blast)
next
  case kms_cryptographic
  then show ?thesis using kms_read_names(3) [OF _ row] tier arm by blast
qed

lemma modelled_workflow_untouched:
  assumes "g \<in> set modelled_workflows" and arm: "cp_name params \<in> set (arms g)"
    and row: "(cp_name params, Destroy) \<in> catalog_rows" and c: "\<not> confirmation_given params"
    and n: "cp_name params \<notin> set conditionally_confirmed"
  shows "untouched (run_workflow E others g params)"
  using assms(1)
proof (cases rule: modelled_cases)
  case audit
  then show ?thesis using nothing_destroyed [OF _ arm] row by blast
next
  case project
  then show ?thesis using project_destroy_names [OF _ row] arm
    by (simp only: run_workflow.simps) (rule tree_deletions_untouched [OF c], blast)
next
  case environment
  then show ?thesis using environment_destroy_names [OF _ row] arm
    by (simp only: run_workflow.simps) (rule tree_deletions_untouched [OF c], blast)
next
  case folder
  then show ?thesis using folder_destroy_names [OF _ row] arm
    by (simp only: run_workflow.simps) (rule tree_deletions_untouched [OF c], blast)
next
  case tag
  then show ?thesis using tag_destroy_names [OF _ row] arm
    by (simp only: run_workflow.simps) (rule tree_deletions_untouched [OF c], blast)
next
  case meta
  then show ?thesis using nothing_destroyed [OF _ arm] row by blast
next
  case secret
  then show ?thesis using secret_destroy_names [OF _ row] arm
    by (simp only: run_workflow.simps) (rule secret_deletions_untouched [OF c], blast)
next
  case import
  then show ?thesis using import_destroy_names [OF _ row] arm
    by (simp only: run_workflow.simps) (rule secret_deletions_untouched [OF c], blast)
next
  case identity
  then show ?thesis using identity_destroy_names [OF _ row] arm
    by (simp only: run_workflow.simps) (rule identity_destruction_untouched [OF c], blast)
next
  case user_membership
  then show ?thesis using user_membership_destroy_names [OF _ row] arm
    by (simp only: run_workflow.simps) (rule user_membership_destruction_untouched [OF c], blast)
next
  case identity_membership
  then show ?thesis using identity_membership_destroy_names [OF _ row] arm
    by (simp only: run_workflow.simps) (rule identity_membership_destruction_untouched [OF c], blast)
next
  case role
  then show ?thesis using nothing_destroyed [OF _ arm] row by blast
next
  case group
  then show ?thesis using nothing_destroyed [OF _ arm] row by blast
next
  case universal_auth
  then show ?thesis using universal_auth_destroy_names [OF _ row] arm
    by (simp only: run_workflow.simps) (rule identity_auth_destruction_untouched [OF c], blast)
next
  case client_secret
  then show ?thesis using client_secret_destroy_names [OF _ row] arm
    by (simp only: run_workflow.simps) (rule identity_auth_destruction_untouched [OF c], blast)
next
  case token_auth
  then show ?thesis using token_auth_destroy_names [OF _ row] arm
    by (simp only: run_workflow.simps) (rule identity_auth_destruction_untouched [OF c], blast)
next
  case kubernetes_auth
  then show ?thesis using kubernetes_auth_destroy_names [OF _ row] arm
    by (simp only: run_workflow.simps) (rule identity_auth_destruction_untouched [OF c], blast)
next
  case privilege_read
  then show ?thesis using nothing_destroyed [OF _ arm] row by blast
next
  case privilege_mutation
  then show ?thesis using privilege_destroy_names [OF _ row] arm n
    by (simp only: run_workflow.simps) (rule privilege_destruction_untouched [OF c], auto simp: conditionally_confirmed_def)
next
  case kms_management
  then show ?thesis using kms_destroy_names [OF _ row] arm
    by (simp only: run_workflow.simps) (rule kms_destruction_untouched [OF c], blast)
next
  case kms_material
  then show ?thesis using nothing_destroyed [OF _ arm] row by blast
next
  case kms_cryptographic
  then show ?thesis using nothing_destroyed [OF _ arm] row by blast
qed

lemma modelled_workflow_changes:
  "g \<in> set modelled_workflows \<Longrightarrow>
     handler_within one_change (run_workflow E others g params)"
  by (auto simp: modelled_workflows_def intro!: workflows_change identity_auth_workflow_changes mixed_handlers)

text \<open>
  C8: What an operation declares is what it sends. For every operation of a modelled workflow: if the
  catalog puts it in a read tier, running it sends nothing but logins and GET requests, whatever its
  arguments and the upstream answers; in any other tier it sends at most one request that is not a GET.
  The metadata profile and the read executors, which go by the declared tier, therefore cannot change
  anything upstream through these operations.
\<close>

theorem declared_tier_on_the_wire:
  assumes "world_ok w" and "d \<in> set build_operation_catalog" and "od_name d = cp_name params"
    and "route_operation (cp_name params) = Some g" and "g \<in> set modelled_workflows"
    and "dispatch_operation E others params (files, w) = Some (r, (files', w'))"
  shows "\<exists>sent. w_sent w' = w_sent w @ sent
    \<and> (if od_tier d \<in> {Read, Read_Audited} then \<forall>q \<in> set (data_requests sent). rq_method q = GET
        else length (filter (\<lambda>q. rq_method q \<noteq> GET) (data_requests sent)) \<le> 1)"
proof -
  have row: "(cp_name params, od_tier d) \<in> catalog_rows"
    using imageI [OF assms(2), of op_row] assms(3) by (simp add: catalog_rows_def op_row_def)
  have "handled (cp_name params)"
    using catalog_handled [of "cp_name params"] assms(2,3) by force
  then have arm: "cp_name params \<in> set (arms g)" using assms(4) by (simp add: handled_def)
  have run: "run_workflow E others g params (files, w) = Some (r, (files', w'))"
    using assms(4,6) by (simp add: dispatch_operation_def)
  show ?thesis
  proof (cases "read_tier (od_tier d)")
    case True
    from handler_withinD [OF modelled_workflow_reads [OF assms(5) arm row True] _ run] assms(1) True
    show ?thesis by (auto simp: stays_def only_gets_def read_tier_def)
  next
    case False
    from handler_withinD [OF modelled_workflow_changes [OF assms(5)] _ run] assms(1) False
    show ?thesis by (auto simp: stays_def one_change_def read_tier_def)
  qed
qed

text \<open>
  C9: Nothing is destroyed without a confirmation. For every operation of a modelled workflow that the
  catalog puts in the destructive tier, a call whose arguments set no confirmation field to true (those
  that operations.describe lists: the names that begin with confirm or acknowledge) ends with the client
  untouched: no login, no request, no change of its token, whatever the other arguments are. The two
  operations that ask for a confirmation only for some arguments are excepted.
\<close>

theorem destruction_needs_confirmation:
  assumes "d \<in> set build_operation_catalog" and "od_tier d = Destroy" and "od_name d = cp_name params"
    and "route_operation (cp_name params) = Some g" and "g \<in> set modelled_workflows"
    and "\<not> confirmation_given params" and "cp_name params \<notin> set conditionally_confirmed"
    and "dispatch_operation E others params (files, w) = Some (r, (files', w'))"
  shows "w' = w"
proof -
  have row: "(cp_name params, Destroy) \<in> catalog_rows"
    using imageI [OF assms(1), of op_row] assms(2,3) by (simp add: catalog_rows_def op_row_def)
  have "handled (cp_name params)"
    using catalog_handled [of "cp_name params"] assms(1,3) by force
  then have arm: "cp_name params \<in> set (arms g)" using assms(4) by (simp add: handled_def)
  have "run_workflow E others g params (files, w) = Some (r, (files', w'))"
    using assms(4,8) by (simp add: dispatch_operation_def)
  from untouchedD [OF modelled_workflow_untouched [OF assms(5) arm row assms(6,7)] this]
  show ?thesis by simp
qed

lemma modelled_workflow_quiet: "g \<in> set modelled_workflows \<Longrightarrow> refuses_quietly (run_workflow E others g params)"
  by (auto simp: modelled_workflows_def intro!: workflows_quiet identity_auth_workflow_quiet quiet_metadata_list)

text \<open>
  C22: Refused arguments cost nothing. Whatever operation of a modelled workflow is called, an answer of
  invalid params (unknown, missing or ill-typed fields, bad identifiers, bad pages, no confirmation,
  delivery the deployment does not offer) means that nothing was sent and the client's state is untouched.
\<close>

theorem refused_arguments_send_nothing:
  assumes "route_operation (cp_name params) = Some g" and "g \<in> set modelled_workflows"
    and "dispatch_operation E others params (files, w) = Some (Err e, (files', w'))"
    and "me_code e = Invalid_Params"
  shows "w' = w"
proof -
  have "run_workflow E others g params (files, w) = Some (Err e, (files', w'))"
    using assms(1,3) by (simp add: dispatch_operation_def)
  from refuses_quietlyD [OF modelled_workflow_quiet [OF assms(2)] this assms(4)] show ?thesis by simp
qed

lemma reveal_routed: "route_operation SECRET_REVEAL_TOOL = Some Secret_Workflow"
  by code_simp

lemma reveal_row: "(SECRET_REVEAL_TOOL, Read) \<in> catalog_rows"
  by (simp add: tree_tiers)

lemma declared_tier_on_the_wire_witness:
  "\<exists>r files w' sent. dispatch_operation (demo_tool_env demo_reveal) (\<lambda>_ _ _. None) demo_call
       (Some (plane_new small_config), settled_world ''{}'') = Some (Ok r, (files, w'))
     \<and> w_sent w' = w_sent (settled_world ''{}'') @ sent
     \<and> (\<forall>q \<in> set (data_requests sent). rq_method q = GET)"
proof -
  obtain rf p w' where run: "handle_reveal (demo_tool_env demo_reveal) demo_call
       (Some (plane_new small_config), settled_world ''{}'') =
     Some (Ok (plain_result (reveal_output_json demo_secret None (Some rf))), (Some p, w'))"
    using demo_reveal_runs by blast
  obtain d where d: "d \<in> set build_operation_catalog" "od_name d = SECRET_REVEAL_TOOL" "od_tier d = Read"
    using reveal_row by (auto simp: catalog_rows_def op_row_def)
  have dispatched: "dispatch_operation (demo_tool_env demo_reveal) (\<lambda>_ _ _. None) demo_call
       (Some (plane_new small_config), settled_world ''{}'') =
     Some (Ok (plain_result (reveal_output_json demo_secret None (Some rf))), (Some p, w'))"
    using run by (simp add: dispatch_operation_def demo_call_def reveal_routed dispatch_secret_workflow_def)
  have "cp_name demo_call = SECRET_REVEAL_TOOL" by (simp add: demo_call_def)
  then show ?thesis
    using declared_tier_on_the_wire [OF settled_ok d(1) _ _ _ dispatched] d dispatched
    by (auto simp: reveal_routed modelled_workflows_def)
qed

definition unconfirmed_call :: call_params where
  "unconfirmed_call =
     \<lparr>cp_name = IDENTITIES_DELETE_TOOL,
      cp_arguments = Some [(''confirm'', Bool False), (''identityId'', String ''machine'')]\<rparr>"

lemma identity_deletion_routed: "route_operation IDENTITIES_DELETE_TOOL = Some Identity_Workflow"
  by code_simp

lemma identity_deletion_row: "(IDENTITIES_DELETE_TOOL, Destroy) \<in> catalog_rows"
  by (simp add: tree_tiers)

lemma destruction_needs_confirmation_witness:
  "\<exists>r. dispatch_operation (demo_tool_env Null) (\<lambda>_ _ _. None) unconfirmed_call
     (None, settled_world ''{}'') = Some (r, (None, settled_world ''{}''))"
proof -
  obtain d where d: "d \<in> set build_operation_catalog" "od_name d = IDENTITIES_DELETE_TOOL" "od_tier d = Destroy"
    using identity_deletion_row by (auto simp: catalog_rows_def op_row_def)
  have name: "cp_name unconfirmed_call = IDENTITIES_DELETE_TOOL" by (simp add: unconfirmed_call_def)
  have "decode_identity_delete (call_arguments unconfirmed_call) = Some (''machine'', False)"
    by (simp add: unconfirmed_call_def call_arguments_def decode_identity_delete_def strict_fields_def
        wire_fields_def wire_field_def decode_bool_def as_str_def)
  moreover have "new_identity_id ''machine'' = Ok ''machine''" by code_simp
  ultimately obtain r w' where run: "dispatch_operation (demo_tool_env Null) (\<lambda>_ _ _. None) unconfirmed_call
     (None, settled_world ''{}'') = Some (r, (None, w'))"
    by (simp add: dispatch_operation_def name identity_deletion_routed workflow_defs with_input_def
        with_parts_def parse_arguments_def call_arguments_def)
  have "\<not> confirmation_given unconfirmed_call"
    by (simp add: confirmation_given_def call_arguments_def unconfirmed_call_def)
  from destruction_needs_confirmation [OF d(1) d(3) _ _ _ this _ run] d(2) name run
  show ?thesis by (auto simp: identity_deletion_routed modelled_workflows_def conditionally_confirmed_def)
qed

definition empty_call :: call_params where
  "empty_call = \<lparr>cp_name = IDENTITIES_DELETE_TOOL, cp_arguments = None\<rparr>"

lemma refused_arguments_send_nothing_witness:
  "\<exists>e. dispatch_operation (demo_tool_env Null) (\<lambda>_ _ _. None) empty_call (None, settled_world ''{}'')
     = Some (Err e, (None, settled_world ''{}'')) \<and> me_code e = Invalid_Params"
proof -
  have name: "cp_name empty_call = IDENTITIES_DELETE_TOOL" by (simp add: empty_call_def)
  have "decode_identity_delete [] = None"
    by (simp add: decode_identity_delete_def strict_fields_def wire_fields_def)
  then obtain e w' where run: "dispatch_operation (demo_tool_env Null) (\<lambda>_ _ _. None) empty_call
      (None, settled_world ''{}'') = Some (Err e, (None, w'))" and e: "me_code e = Invalid_Params"
    by (simp add: dispatch_operation_def name identity_deletion_routed workflow_defs with_input_def
        parse_arguments_def empty_call_def demo_tool_env_def invalid_params_def)
  from refused_arguments_send_nothing [OF _ _ run e] name run e show ?thesis
    by (auto simp: identity_deletion_routed modelled_workflows_def)
qed

end
