(* ===== verification/Email_Grammar.thy ===== *)
theory Email_Grammar
  imports Memberships_Api
begin

text \<open>
  The email addresses an invitation accepts, as a grammar.
\<close>

section \<open>Email addresses\<close>

definition handle_byte :: "char \<Rightarrow> bool" where
  "handle_byte b \<longleftrightarrow> is_ascii_lowercase b \<or> is_ascii_digit b"

text \<open>The grammar: a dot-separated local part, and a domain of at least two labels.\<close>

definition local_segment :: "string \<Rightarrow> bool" where
  "local_segment s \<longleftrightarrow> s \<noteq> [] \<and> list_all (\<lambda>b. handle_byte b \<or> b \<in> set ''_+-'') s"

definition domain_label :: "string \<Rightarrow> bool" where
  "domain_label l \<longleftrightarrow> l \<noteq> [] \<and> length l \<le> 63 \<and> list_all (\<lambda>b. handle_byte b \<or> b = CHR ''-'') l
     \<and> hd l \<noteq> CHR ''-'' \<and> last l \<noteq> CHR ''-''"

definition email_address :: "string \<Rightarrow> bool" where
  "email_address v \<longleftrightarrow>
     (\<exists>segments labels.
        v = join_with (CHR ''.'') segments @ CHR ''@'' # join_with (CHR ''.'') labels
        \<and> segments \<noteq> [] \<and> list_all local_segment segments
        \<and> length (join_with (CHR ''.'') segments) \<le> 64
        \<and> 2 \<le> length labels \<and> list_all domain_label labels
        \<and> length v \<le> 254)"

lemma split_join:
  "xs \<noteq> [] \<Longrightarrow> list_all (\<lambda>x. c \<notin> set x) xs \<Longrightarrow> split_by ((=) c) (join_with c xs) = xs"
proof (induction c xs rule: join_with.induct)
  case (2 c x)
  have "c \<notin> set x \<Longrightarrow> split_by ((=) c) x = [x]" for x
    by (induction x) auto
  with 2 show ?case by simp
next
  case (3 c x y xs)
  have "c \<notin> set x \<Longrightarrow> split_by ((=) c) (x @ c # s) = x # split_by ((=) c) s" for x s
    by (induction x) auto
  with 3 show ?case by simp
qed simp

lemma length_split_by: "length (split_by p s) = Suc (length (filter p s))"
proof (induction s)
  case (Cons a s)
  then show ?case by (cases "split_by p s") auto
qed simp

lemma split_pieces_free: "list_all (\<lambda>x. c \<notin> set x) (split_by ((=) c) (s :: string))"
  unfolding list_all_iff using set_split_by [of _ "(=) c" s] by blast

lemma split_pair:
  "split_by ((=) c) (v :: string) = [a, b] \<longleftrightarrow> v = a @ c # b \<and> c \<notin> set a \<and> c \<notin> set b"
proof
  assume "split_by ((=) c) v = [a, b]"
  with join_with_split_by [of c v] split_pieces_free [of c v]
  show "v = a @ c # b \<and> c \<notin> set a \<and> c \<notin> set b" by simp
next
  assume "v = a @ c # b \<and> c \<notin> set a \<and> c \<notin> set b"
  then show "split_by ((=) c) v = [a, b]" using split_join [of "[a, b]" c] by simp
qed

lemma double_dot: "str_contains ''..'' s \<longleftrightarrow> \<not> single_separators ((=) (CHR ''.'')) s"
proof (induction s)
  case (Cons a s)
  show ?case
  proof (cases s)
    case (Cons b t)
    then show ?thesis using Cons.IH by (auto simp: single_separators_def)
  qed (simp add: single_separators_def)
qed (simp add: single_separators_def)

lemma dotted_nonempty:
  assumes "s \<noteq> []"
  shows "list_all (\<lambda>x. x \<noteq> []) (split_by ((=) (CHR ''.'')) s)
    \<longleftrightarrow> hd s \<noteq> CHR ''.'' \<and> last s \<noteq> CHR ''.'' \<and> \<not> str_contains ''..'' s"
  using assms split_by_nonempty_iff [of "(=) (CHR ''.'')" s] split_by_tl_nonempty [of "(=) (CHR ''.'')" s]
  by (auto simp: double_dot)

lemma list_all_split:
  assumes "q c" shows "list_all q (s :: string) \<longleftrightarrow> list_all (list_all q) (split_by ((=) c) s)"
  unfolding list_all_iff using set_split_by [of _ "(=) c" s] set_split_by_cover [of _ s "(=) c"] assms by metis

text \<open>A dotted text is its pieces, and any dot-free pieces are those of their join.\<close>

lemma joined_pieces:
  assumes "\<And>x. P x \<Longrightarrow> c \<notin> set x"
  shows "(\<exists>xs. s = join_with c xs \<and> xs \<noteq> [] \<and> n \<le> length xs \<and> list_all P xs)
    \<longleftrightarrow> n \<le> length (split_by ((=) c) s) \<and> list_all P (split_by ((=) c) s)"
proof
  assume "\<exists>xs. s = join_with c xs \<and> xs \<noteq> [] \<and> n \<le> length xs \<and> list_all P xs"
  then obtain xs where xs: "s = join_with c xs" "xs \<noteq> []" "n \<le> length xs" "list_all P xs" by blast
  then have "split_by ((=) c) s = xs" using split_join [of xs c] assms by (auto simp: list_all_iff)
  with xs show "n \<le> length (split_by ((=) c) s) \<and> list_all P (split_by ((=) c) s)" by simp
next
  assume "n \<le> length (split_by ((=) c) s) \<and> list_all P (split_by ((=) c) s)"
  then show "\<exists>xs. s = join_with c xs \<and> xs \<noteq> [] \<and> n \<le> length xs \<and> list_all P xs"
    by (intro exI [of _ "split_by ((=) c) s"]) (simp add: join_with_split_by)
qed

definition username_byte :: "char \<Rightarrow> bool" where
  "username_byte b \<longleftrightarrow> is_ascii_lowercase b \<or> is_ascii_digit b \<or> b \<in> set ''@._+-''"

lemma username_byte_alphanumeric: "username_byte b \<Longrightarrow> is_ascii_alphanumeric b \<longleftrightarrow> handle_byte b"
  unfolding username_byte_def handle_byte_def
  by (auto simp: is_ascii_alphanumeric_def is_ascii_lowercase_def is_ascii_digit_def is_ascii_uppercase_def byte_def)

lemma handle_byte_free [simp]: "\<not> handle_byte CHR ''-''" "\<not> handle_byte CHR ''.''" "\<not> handle_byte CHR ''@''"
  by (simp_all add: handle_byte_def is_ascii_lowercase_def is_ascii_digit_def byte_def)

lemma username_byte_split:
  "username_byte b \<longleftrightarrow> handle_byte b \<or> b \<in> set ''_+-'' \<or> b = CHR ''@'' \<or> b = CHR ''.''"
  by (auto simp: username_byte_def handle_byte_def)

lemma username_ascii: "username_byte b \<Longrightarrow> byte b < 128 \<and> \<not> is_whitespace (byte b)"
  by (auto simp: username_byte_def is_ascii_lowercase_def is_ascii_digit_def is_whitespace_def byte_def)

lemma valid_username_alt:
  "is_valid_username v \<longleftrightarrow> v \<noteq> [] \<and> length v \<le> 254 \<and> list_all username_byte v"
proof -
  have "v \<noteq> [] \<Longrightarrow> list_all username_byte v \<Longrightarrow> str_trim v = v"
    by (intro str_trim_ascii) (auto simp: list_all_iff username_ascii)
  then show ?thesis
    by (auto simp: is_valid_username_def max_member_handle_bytes_def username_byte_def [abs_def])
qed

lemma label_alt:
  assumes "list_all username_byte l" "CHR ''@'' \<notin> set l" "CHR ''.'' \<notin> set l"
  shows "is_valid_label l \<longleftrightarrow> domain_label l"
proof (cases "l = []")
  case False
  then have "username_byte (hd l)" "username_byte (last l)" "hd l \<in> set l" "last l \<in> set l"
    using assms(1) by (auto simp: list_all_iff)
  then show ?thesis
    using assms username_byte_alphanumeric
    by (auto simp: is_valid_label_def domain_label_def list_all_iff handle_byte_def [symmetric])
qed (simp add: is_valid_label_def domain_label_def)

lemma local_part_alt:
  assumes "list_all username_byte s" "CHR ''@'' \<notin> set s"
  shows "s \<noteq> [] \<and> hd s \<noteq> CHR ''.'' \<and> last s \<noteq> CHR ''.'' \<and> \<not> str_contains ''..'' s
    \<longleftrightarrow> list_all local_segment (split_by ((=) (CHR ''.'')) s)"
proof (cases "s = []")
  case False
  have "list_all (list_all (\<lambda>b. username_byte b \<and> b \<noteq> CHR ''@'' \<and> b \<noteq> CHR ''.'')) (split_by ((=) (CHR ''.'')) s)"
    using assms set_split_by [of _ "(=) (CHR ''.'')" s] unfolding list_all_iff by blast
  then have "list_all local_segment (split_by ((=) (CHR ''.'')) s)
      \<longleftrightarrow> list_all (\<lambda>x. x \<noteq> []) (split_by ((=) (CHR ''.'')) s)"
    by (auto simp: list_all_iff local_segment_def username_byte_split)
  with dotted_nonempty [OF False] False show ?thesis by simp
qed (simp add: local_segment_def)

lemma domain_alt:
  assumes "list_all username_byte s" "CHR ''@'' \<notin> set s"
  shows "list_all is_valid_label (split_by ((=) (CHR ''.'')) s)
    \<longleftrightarrow> list_all domain_label (split_by ((=) (CHR ''.'')) s)"
proof -
  have "x \<in> set (split_by ((=) (CHR ''.'')) s) \<Longrightarrow> is_valid_label x \<longleftrightarrow> domain_label x" for x
    using label_alt [of x] set_split_by [of x "(=) (CHR ''.'')" s] assms by (auto simp: list_all_iff)
  then show ?thesis by (simp add: list_all_iff)
qed

text \<open>What both sides say about the two parts around the at sign.\<close>

definition address_parts :: "string \<Rightarrow> string \<Rightarrow> string \<Rightarrow> bool" where
  "address_parts v l d \<longleftrightarrow> v = l @ CHR ''@'' # d \<and> CHR ''@'' \<notin> set l \<and> CHR ''@'' \<notin> set d"

definition address_pieces :: "string \<Rightarrow> string \<Rightarrow> bool" where
  "address_pieces l d \<longleftrightarrow> list_all local_segment (split_by ((=) (CHR ''.'')) l) \<and> length l \<le> 64
      \<and> 2 \<le> length (split_by ((=) (CHR ''.'')) d) \<and> list_all domain_label (split_by ((=) (CHR ''.'')) d)"

lemma two_labels: "2 \<le> length (split_by ((=) (CHR ''.'')) d) \<longleftrightarrow> CHR ''.'' \<in> set d"
  by (auto simp: length_split_by filter_empty_conv Suc_le_eq)

lemma address_split: "split_by ((=) (CHR ''@'')) v = [l, d] \<longleftrightarrow> address_parts v l d"
  by (simp add: address_parts_def split_pair)

lemma valid_email_pieces:
  assumes "address_parts v l d" and u: "is_valid_username v"
  shows "is_valid_email v \<longleftrightarrow> address_pieces l d"
proof -
  have b: "list_all username_byte l" "list_all username_byte d" "CHR ''@'' \<notin> set l" "CHR ''@'' \<notin> set d"
    using assms by (simp_all add: address_parts_def valid_username_alt)
  have "is_valid_email v \<longleftrightarrow> (l \<noteq> [] \<and> hd l \<noteq> CHR ''.'' \<and> last l \<noteq> CHR ''.'' \<and> \<not> str_contains ''..'' l)
      \<and> length l \<le> 64 \<and> CHR ''.'' \<in> set d
      \<and> list_all is_valid_label (split_by ((=) (CHR ''.'')) d)"
    using assms(1) u by (auto simp: is_valid_email_def address_split [symmetric])
  then show ?thesis
    unfolding address_pieces_def two_labels local_part_alt [OF b(1,3)] domain_alt [OF b(2,4)] by blast
qed

lemma valid_email_parts:
  "is_valid_email v \<longleftrightarrow> (\<exists>l d. address_parts v l d \<and> is_valid_username v \<and> address_pieces l d)"
proof
  assume e: "is_valid_email v"
  then obtain l d where "address_parts v l d"
    by (auto simp: is_valid_email_def address_split split: list.splits)
  moreover have "is_valid_username v" using e by (simp add: is_valid_email_def)
  ultimately show "\<exists>l d. address_parts v l d \<and> is_valid_username v \<and> address_pieces l d"
    using e valid_email_pieces by blast
qed (use valid_email_pieces in blast)

lemma joined_clean:
  assumes "xs \<noteq> []" and "list_all (\<lambda>x. local_segment x \<or> domain_label x) xs"
  shows "split_by ((=) (CHR ''.'')) (join_with (CHR ''.'') xs) = xs"
    and "list_all (\<lambda>b. username_byte b \<and> b \<noteq> CHR ''@'') (join_with (CHR ''.'') xs)"
proof -
  have bytes: "local_segment x \<Longrightarrow> list_all (\<lambda>b. username_byte b \<and> b \<noteq> CHR ''@'' \<and> b \<noteq> CHR ''.'') x"
      "domain_label x \<Longrightarrow> list_all (\<lambda>b. username_byte b \<and> b \<noteq> CHR ''@'' \<and> b \<noteq> CHR ''.'') x" for x
    by (auto simp: local_segment_def domain_label_def list_all_iff username_byte_split)
  show s: "split_by ((=) (CHR ''.'')) (join_with (CHR ''.'') xs) = xs"
    using assms bytes by (intro split_join) (unfold list_all_iff, blast+)
  have "list_all (list_all (\<lambda>b. username_byte b \<and> b \<noteq> CHR ''@'')) xs"
    using assms bytes unfolding list_all_iff by blast
  with s show "list_all (\<lambda>b. username_byte b \<and> b \<noteq> CHR ''@'') (join_with (CHR ''.'') xs)"
    using list_all_split [of "\<lambda>b. username_byte b \<and> b \<noteq> CHR ''@''" "CHR ''.''" "join_with (CHR ''.'') xs"]
    by (simp add: username_byte_split)
qed

lemma email_address_parts:
  "email_address v \<longleftrightarrow> (\<exists>l d. address_parts v l d \<and> is_valid_username v \<and> address_pieces l d)" (is "_ \<longleftrightarrow> ?R")
proof
  assume ?R
  then obtain l d where "address_parts v l d" "is_valid_username v" "address_pieces l d" by blast
  then show "email_address v" unfolding email_address_def address_parts_def address_pieces_def
    by (intro exI [of _ "split_by ((=) (CHR ''.'')) l"] exI [of _ "split_by ((=) (CHR ''.'')) d"])
      (simp add: join_with_split_by valid_username_alt)
next
  assume "email_address v"
  then obtain ss ls where e: "v = join_with (CHR ''.'') ss @ CHR ''@'' # join_with (CHR ''.'') ls"
    "ss \<noteq> []" "list_all local_segment ss" "length (join_with (CHR ''.'') ss) \<le> 64"
    "2 \<le> length ls" "list_all domain_label ls" "length v \<le> 254"
    unfolding email_address_def by blast
  have ss: "list_all (\<lambda>x. local_segment x \<or> domain_label x) ss" using e(3) by (auto simp: list_all_iff)
  have ls: "ls \<noteq> []" "list_all (\<lambda>x. local_segment x \<or> domain_label x) ls"
    using e(5,6) by (auto simp: list_all_iff)
  define l d where "l = join_with (CHR ''.'') ss" and "d = join_with (CHR ''.'') ls"
  note l = joined_clean [OF e(2) ss, folded l_def] and d = joined_clean [OF ls, folded d_def]
  have v: "v = l @ CHR ''@'' # d" using e(1) by (simp add: l_def d_def)
  have "address_parts v l d" unfolding address_parts_def using v l(2) d(2) by (auto simp: list_all_iff)
  moreover have "is_valid_username v"
    unfolding valid_username_alt using v l(2) d(2) e(7) by (auto simp: list_all_iff username_byte_split)
  moreover have "address_pieces l d"
    unfolding address_pieces_def using l(1) d(1) e(3-6) by (simp add: l_def)
  ultimately show ?R by blast
qed

text \<open>
  C31: The addresses an invitation accepts are those of a grammar: a local part of at most 64 bytes made of
  non-empty dot-separated segments over lower-case letters, digits and the bytes underscore, plus and
  hyphen, one at sign, and a domain of at least two labels of at most 63 lower-case letters, digits and
  hyphens that neither begin nor end with a hyphen; 254 bytes in all.
\<close>

theorem email_grammar: "is_valid_email v = email_address v"
  unfolding valid_email_parts email_address_parts ..

end
