(* ===== verification/Access_Facts.thy ===== *)
theory Access_Facts
  imports Confirmed_Destruction Email_Grammar
begin

text \<open>
  Properties of the access-control operations: what a read returns belongs to what was asked, and
  what an invitation puts on the wire is well formed.
\<close>

section \<open>What a read returns\<close>

lemma page_new_items: "page_new r xs t = Ok pg \<Longrightarrow> page_items pg = xs"
  by (auto simp: page_new_def)

lemma paginate_items: "paginate r xs = Ok pg \<Longrightarrow> set (page_items pg) \<subseteq> set xs"
  unfolding paginate_def Let_def by (drule page_new_items) (auto dest: in_set_takeD in_set_dropD)

lemma read_then:
  assumes "apfst (\<lambda>r. and_then r g) x = (Ok y, w')"
  obtains a where "fst x = Ok a" and "g a = Ok y"
  using assms by (cases x; cases "fst x") auto

lemma traverse_property:
  "traverse f xs = Ok ys \<Longrightarrow> (\<And>x y. f x = Ok y \<Longrightarrow> P y) \<Longrightarrow> y \<in> set ys \<Longrightarrow> P y"
  by (induction xs arbitrary: ys) auto

lemma traverse_checked: "traverse f xs = Ok ys \<Longrightarrow> x \<in> set xs \<Longrightarrow> \<exists>y. f x = Ok y"
  by (induction xs arbitrary: ys) auto

lemma project_summary_scope:
  "into_project_summary p r = Ok s \<Longrightarrow> rl_scope s = Project_Scope \<and> rl_scope_id s = p"
  by (auto simp: into_project_summary_def split: option.splits if_splits)

lemma project_roles_scope:
  assumes "list_project_roles ap p page w = (Ok pg, w')"
  shows "\<forall>r \<in> set (page_items pg). rl_scope r = Project_Scope \<and> rl_scope_id r = p"
proof -
  from assms obtain found roles where t: "traverse (into_project_summary p) found = Ok roles"
    and pg: "paginate page roles = Ok pg"
    unfolding list_project_roles_def
    by (cases "api_read ap (project_roles_endpoint p) [] decode_roles_response w") auto
  have "rl_scope r = Project_Scope \<and> rl_scope_id r = p" if "r \<in> set roles" for r
    by (rule traverse_property [OF t _ that]) (rule project_summary_scope)
  with paginate_items [OF pg] show ?thesis by blast
qed

lemma project_role_scope:
  assumes "get_project_role ap p slug w = (Ok r, w')"
  shows "rl_scope (ro_summary r) = Project_Scope \<and> rl_scope_id (ro_summary r) = p"
  using assms unfolding get_project_role_def
  by (elim read_then) (auto simp: into_project_def dest: project_summary_scope split: option.splits)

lemma group_members_accepted:
  assumes "list_group_members ap g t page w = (Ok pg, w')"
  shows "\<forall>m \<in> set (page_items pg). accepts_member t m \<and> \<not> mismatched_member m"
  using assms unfolding list_group_members_def Let_def
  by (elim read_then) (auto dest!: page_new_items simp: list_ex_iff split: prod.splits if_splits)

lemma group_projects_accepted:
  assumes "list_group_projects ap g f page w = (Ok pg, w')"
  shows "\<forall>q \<in> set (page_items pg). accepts_project f q"
  using assms unfolding list_group_projects_def Let_def
  by (elim read_then) (auto dest!: page_new_items simp: list_ex_iff split: prod.splits if_splits)

lemma validate_membership_scopeD:
  "validate_membership_scope p g m = Ok u \<Longrightarrow>
     gm_project_id m = p \<and> gf_id (gm_group m) = gm_group_id m \<and> (\<forall>i. g = Some i \<longrightarrow> gm_group_id m = i)"
  by (auto simp: validate_membership_scope_def split: option.splits if_splits)

lemma group_memberships_scope:
  assumes "list_project_group_memberships ap p page w = (Ok pg, w')"
  shows "\<forall>m \<in> set (page_items pg). gm_project_id m = p \<and> gf_id (gm_group m) = gm_group_id m"
proof -
  from assms obtain found us where t: "traverse (validate_membership_scope p None) found = Ok us"
    and pg: "paginate page found = Ok pg"
    unfolding list_project_group_memberships_def by (elim read_then) auto
  show ?thesis
    using paginate_items [OF pg] traverse_checked [OF t] validate_membership_scopeD [of p None] by blast
qed

lemma group_membership_scope:
  assumes "get_project_group_membership ap p g w = (Ok m, w')"
  shows "gm_project_id m = p \<and> gm_group_id m = g \<and> gf_id (gm_group m) = g"
  using assms unfolding get_project_group_membership_def
  by (elim read_then) (auto dest: validate_membership_scopeD)

text \<open>
  C30: What an access-control read returns belongs to what was asked, whatever the server answers. The
  roles of a project listing and the role of an exact read carry the scope of that project; a group read
  returns that group; a member listing holds only principals of the asked type whose repeated identifiers
  agree; a project listing of a group only projects in the asked assignment state; and group memberships
  belong to the asked project (and, for an exact read, the asked group) and to the group they embed.
\<close>

theorem access_reads_in_scope:
  "(list_project_roles ap p page w = (Ok roles, w') \<longrightarrow>
      (\<forall>r \<in> set (page_items roles). rl_scope r = Project_Scope \<and> rl_scope_id r = p))
   \<and> (get_project_role ap p slug w = (Ok role, w') \<longrightarrow>
      rl_scope (ro_summary role) = Project_Scope \<and> rl_scope_id (ro_summary role) = p)
   \<and> (get_group ap g w = (Ok found, w') \<longrightarrow> gr_id found = g)
   \<and> (list_group_members ap g t page w = (Ok members, w') \<longrightarrow>
      (\<forall>m \<in> set (page_items members). accepts_member t m \<and> \<not> mismatched_member m))
   \<and> (list_group_projects ap g f page w = (Ok projects, w') \<longrightarrow>
      (\<forall>q \<in> set (page_items projects). accepts_project f q))
   \<and> (list_project_group_memberships ap p page w = (Ok memberships, w') \<longrightarrow>
      (\<forall>m \<in> set (page_items memberships). gm_project_id m = p \<and> gf_id (gm_group m) = gm_group_id m))
   \<and> (get_project_group_membership ap p g w = (Ok membership, w') \<longrightarrow>
      gm_project_id membership = p \<and> gm_group_id membership = g \<and> gf_id (gm_group membership) = g)"
proof (intro conjI impI)
  assume "get_group ap g w = (Ok found, w')"
  then show "gr_id found = g"
    unfolding get_group_def by (elim read_then) (auto split: if_splits)
qed (rule project_roles_scope group_members_accepted group_projects_accepted group_memberships_scope;
    assumption | simp add: project_role_scope group_membership_scope)+

section \<open>Invitations\<close>

definition role_slug :: "string \<Rightarrow> bool" where
  "role_slug s \<longleftrightarrow> s \<noteq> [] \<and> length s \<le> 128 \<and> list_all (\<lambda>b. handle_byte b \<or> b \<in> set ''-_'') s"

definition checked_invitation :: "user_invitation \<Rightarrow> bool" where
  "checked_invitation i \<longleftrightarrow>
     iv_emails i @ iv_usernames i \<noteq> [] \<and> length (iv_emails i @ iv_usernames i) \<le> 50
     \<and> distinct (iv_emails i @ iv_usernames i)
     \<and> list_all email_address (iv_emails i) \<and> list_all is_valid_username (iv_usernames i)
     \<and> iv_roles i \<noteq> [] \<and> length (iv_roles i) \<le> 10 \<and> distinct (iv_roles i) \<and> list_all role_slug (iv_roles i)"

lemma new_project_role_slug_checked: "new_project_role_slug s = Ok t \<Longrightarrow> t = s \<and> role_slug s"
  by (auto simp: new_project_role_slug_def role_slug_def max_project_role_slug_bytes_def handle_byte_def
      split: if_splits)

lemma membership_roles_checked:
  assumes "project_membership_roles xs = Ok roles"
  shows "roles \<noteq> [] \<and> length roles \<le> 10 \<and> distinct roles \<and> list_all role_slug roles"
proof -
  from assms obtain slugs where t: "traverse new_project_role_slug xs = Ok slugs"
    and n: "new_membership_roles slugs = Ok roles"
    by (auto simp: project_membership_roles_def)
  have "role_slug s" if "s \<in> set slugs" for s
    by (rule traverse_property [OF t _ that]) (auto dest: new_project_role_slug_checked)
  with n show ?thesis
    by (auto simp: new_membership_roles_def max_project_membership_roles_def list_all_iff split: if_splits)
qed

lemma invite_parts_checked:
  assumes "user_invite_parts i = Ok (p, ivt)"
  shows "checked_invitation ivt"
proof -
  from assms obtain roles where r: "project_membership_roles (ui_roles i) = Ok roles"
    and n: "new_user_invitation (ui_emails i) (ui_usernames i) roles = Ok ivt"
    by (auto simp: user_invite_parts_def)
  show ?thesis
    using n membership_roles_checked [OF r]
    by (auto simp: new_user_invitation_def Let_def checked_invitation_def max_project_membership_batch_size_def
        valid_email_parts email_address_parts list_all_iff list_ex_iff split: if_splits)
qed

definition invites :: "api \<Rightarrow> request \<Rightarrow> bool" where
  "invites ap q \<longleftrightarrow>
     (\<exists>p i. rq_method q = POST \<and> Inr (rq_path q) = endpoint_url (memberships_endpoint p)
        \<and> rq_body q = Some (ap_json ap (invite_users_request i)) \<and> checked_invitation i)"

definition invitations_only :: "api \<Rightarrow> request list \<Rightarrow> bool" where
  "invitations_only ap qs \<longleftrightarrow> length qs \<le> 1 \<and> list_all (invites ap) qs"

interpretation invitations: wire_discipline "invitations_only ap" for ap
  by unfold_locales (simp add: invitations_only_def)

lemma invitation_sent:
  assumes "checked_invitation i"
  shows "calls_within (invitations_only ap) (invite_project_users ap p i)"
proof (rule calls_withinI)
  fix w assume ok: "world_ok w"
  obtain r w' where run: "invite_project_users ap p i w = (r, w')" by force
  then have m: "api_mutate ap POST (memberships_endpoint p) (invite_users_request i)
      decode_membership_receipts w = (r, w')" by (simp add: invite_project_users_def)
  from api_mutate_log [OF ok m] obtain sent where "w_sent w' = w_sent w @ sent"
    "length (data_requests sent) \<le> 1"
    "\<forall>q \<in> set (data_requests sent). rq_method q = POST \<and> Inr (rq_path q) = endpoint_url (memberships_endpoint p)
        \<and> rq_body q = Some (ap_json ap (invite_users_request i))"
    unfolding only_mutation_def by blast
  then have "stays (invitations_only ap) w w'"
    using assms unfolding stays_def invitations_only_def invites_def list_all_iff by blast
  with run api_mutate_stays [OF ok m]
  show "world_ok (snd (invite_project_users ap p i w))
      \<and> stays (invitations_only ap) w (snd (invite_project_users ap p i w))" by simp
qed

lemma invite_handler:
  "handler_within (invitations_only (te_api E)) (\<lambda>s. with_parts (user_invite_parts i) (\<lambda>(project_id, v).
     upstream_call E (tool_result E receipt_batch_json) (\<lambda>ap. invite_project_users ap project_id v)) s)"
proof (cases "user_invite_parts i")
  case (Inl e)
  then show ?thesis by (simp add: with_parts_def invitations.error)
next
  case (Inr x)
  obtain p v where x: "x = (p, v)" by force
  with Inr have v: "checked_invitation v" using invite_parts_checked by simp
  show ?thesis
  proof (rule handler_withinI)
    fix s r s'
    assume ok: "world_ok (snd s)" and run: "with_parts (user_invite_parts i) (\<lambda>(project_id, v).
       upstream_call E (tool_result E receipt_batch_json) (\<lambda>ap. invite_project_users ap project_id v)) s
       = Some (r, s')"
    obtain y w where c: "invite_project_users (te_api E) p v (snd s) = (y, w)" by force
    with run Inr x have "snd s' = w" by (auto simp: with_parts_def upstream_call_def)
    with calls_withinD [OF invitation_sent [OF v] ok c]
    show "stays (invitations_only (te_api E)) (snd s) (snd s')" by simp
  qed
qed

text \<open>
  C15: Every invitation that leaves the client is well formed. Whatever the arguments of an invite call,
  at most one request is sent, a POST to the memberships of one project, and its body names between one
  and fifty principals, none twice, email addresses of the grammar and bounded lower-case user names,
  and between one and ten distinct permanent roles with valid slugs.
\<close>

theorem invitations_well_formed:
  assumes "world_ok w" and "cp_name params = PROJECT_USER_MEMBERSHIPS_INVITE_TOOL"
    and "dispatch_project_user_membership_workflow E params (files, w) = Some (r, (files', w'))"
  shows "\<exists>sent. w_sent w' = w_sent w @ sent \<and> length (data_requests sent) \<le> 1
    \<and> (\<forall>q \<in> set (data_requests sent). \<exists>p i. rq_method q = POST
         \<and> Inr (rq_path q) = endpoint_url (memberships_endpoint p)
         \<and> rq_body q = Some (ap_json (te_api E) (invite_users_request i)) \<and> checked_invitation i)"
proof -
  have "handler_within (invitations_only (te_api E)) (dispatch_project_user_membership_workflow E params)"
    by (simp add: dispatch_project_user_membership_workflow_def assms(2))
      (rule invitations.input, rule invite_handler)
  from handler_withinD [OF this _ assms(3)] assms(1)
  show ?thesis unfolding stays_def invitations_only_def invites_def list_all_iff by auto
qed

section \<open>Examples\<close>

definition demo_members :: json where
  "demo_members = Object [(''members'', Array [Object [(''type'', String ''user''), (''id'', String ''u''),
      (''user'', Object [(''id'', String ''u''), (''username'', String ''alice'')])]]),
     (''totalCount'', Number (Unsigned 1))]"

definition demo_member :: group_member where
  "demo_member = User_Member ''u'' None
     \<lparr>gu_id = ''u'', gu_first_name = None, gu_last_name = None, gu_email = None, gu_username = ''alice''\<rparr>"

lemma demo_members_decode: "decode_group_members demo_members = Some ([demo_member], 1)"
  by (simp add: decode_group_members_def demo_members_def demo_member_def decode_group_member_def
      decode_group_user_def tagged_by_def wire_fields_def wire_field_def wire_option_def wire_list_def
      decode_u64_def as_str_def)

lemma demo_members_page: "\<exists>pg. page_new (the (clamped_to 100 first_request)) [demo_member] (Some 1) = Ok pg"
  by (simp add: page_new_def first_request_def clamped_to_def request_next_def request_limit_def
      u32_try_from_def checked_add_def)

lemma access_reads_in_scope_witness:
  "\<exists>pg w'. list_group_members (demo_api demo_members) ''g'' Users_Only first_request (settled_world ''{}'') = (Ok pg, w')
     \<and> page_items pg = [demo_member]
     \<and> (\<forall>m \<in> set (page_items pg). accepts_member Users_Only m \<and> \<not> mismatched_member m)"
proof -
  obtain pg where pg: "page_new (the (clamped_to 100 first_request)) [demo_member] (Some 1) = Ok pg"
    using demo_members_page by blast
  have url: "endpoint_url (group_members_endpoint ''g'') = Inr [''api'', ''v1'', ''groups'', ''g'', ''members'']"
    by code_simp
  obtain w' where run: "list_group_members (demo_api demo_members) ''g'' Users_Only first_request
      (settled_world ''{}'') = (Ok pg, w')"
    using pg by (simp add: list_group_members_def settled_read [where decode = decode_group_members, OF url
        demo_members_decode] demo_member_def)
  from access_reads_in_scope [THEN conjunct2, THEN conjunct2, THEN conjunct2, THEN conjunct1, rule_format, OF run]
  show ?thesis using run page_new_items [OF pg] by blast
qed

definition demo_invite :: call_params where
  "demo_invite =
     \<lparr>cp_name = PROJECT_USER_MEMBERSHIPS_INVITE_TOOL,
      cp_arguments = Some [(''projectId'', String ''p''), (''roles'', Array [String ''member'']),
        (''usernames'', Array [String ''alice''])]\<rparr>"

definition demo_receipts :: json where "demo_receipts = Object [(''memberships'', Array [])]"

lemma demo_names:
  "new_project_id ''p'' = Ok ''p''" "new_project_role_slug ''member'' = Ok ''member''"
  "is_valid_username ''alice''"
proof -
  have "str_trim ''member'' = ''member''"
    by (rule str_trim_ascii) (simp_all add: byte_def is_whitespace_def)
  then show "new_project_role_slug ''member'' = Ok ''member''"
    by (simp add: new_project_role_slug_def max_project_role_slug_bytes_def is_ascii_lowercase_def byte_def)
  show "new_project_id ''p'' = Ok ''p''" by code_simp
  show "is_valid_username ''alice''"
    by (simp add: valid_username_alt username_byte_def is_ascii_lowercase_def byte_def)
qed

lemma invitations_well_formed_witness:
  "\<exists>r w' q p i. dispatch_project_user_membership_workflow (demo_tool_env demo_receipts) demo_invite
      (None, settled_world ''{}'') = Some (r, (None, w'))
     \<and> w_sent w' = [q] \<and> rq_method q = POST \<and> Inr (rq_path q) = endpoint_url (memberships_endpoint p)
     \<and> checked_invitation i"
proof -
  let ?i = "\<lparr>iv_emails = [], iv_usernames = [''alice''], iv_roles = [''member'']\<rparr>"
  have dec: "decode_user_invite (call_arguments demo_invite) =
      Some \<lparr>ui_project_id = ''p'', ui_emails = [], ui_usernames = [''alice''], ui_roles = [''member'']\<rparr>"
    and parts: "user_invite_parts \<lparr>ui_project_id = ''p'', ui_emails = [], ui_usernames = [''alice''],
      ui_roles = [''member'']\<rparr> = Ok (''p'', ?i)"
    and url: "endpoint_url (memberships_endpoint ''p'') = Inr [''api'', ''v1'', ''projects'', ''p'', ''memberships'']"
    and resp: "decode_membership_receipts demo_receipts = Some []"
    subgoal by (simp add: decode_user_invite_def demo_invite_def call_arguments_def strict_fields_def
          wire_fields_def wire_field_def wire_default_def wire_list_def as_str_def)
    subgoal
      by (simp add: user_invite_parts_def demo_names project_membership_roles_def new_membership_roles_def
          max_project_membership_roles_def new_user_invitation_def max_project_membership_batch_size_def)
    subgoal by code_simp
    subgoal by (simp add: decode_membership_receipts_def demo_receipts_def wire_fields_def wire_field_def wire_list_def)
    done
  have name: "cp_name demo_invite = PROJECT_USER_MEMBERSHIPS_INVITE_TOOL" by (simp add: demo_invite_def)
  let ?q = "\<lparr>rq_method = POST, rq_path = [''api'', ''v1'', ''projects'', ''p'', ''memberships''], rq_query = [],
      rq_body = Some ''b'', rq_bearer = Some 0\<rparr>"
  let ?w = "(settled_world ''{}'')\<lparr>w_attempts := 1, w_sent := [?q]\<rparr>"
  have "invite_project_users (demo_api demo_receipts) ''p'' ?i (settled_world ''{}'') = (Ok [], ?w)"
    by (simp add: invite_project_users_def settled_mutate [where decode = decode_membership_receipts, OF url resp])
  then obtain r where run: "dispatch_project_user_membership_workflow (demo_tool_env demo_receipts) demo_invite
      (None, settled_world ''{}'') = Some (r, (None, ?w))"
    using dec parts
    by (simp add: dispatch_project_user_membership_workflow_def name with_input_def parse_arguments_def
        with_parts_def upstream_call_def demo_tool_env_def call_arguments_def)
  from invitations_well_formed [OF settled_ok name run] obtain sent where
    s: "w_sent ?w = w_sent (settled_world ''{}'') @ sent"
    and q: "\<forall>q \<in> set (data_requests sent). \<exists>p i. rq_method q = POST
         \<and> Inr (rq_path q) = endpoint_url (memberships_endpoint p)
         \<and> rq_body q = Some (ap_json (te_api (demo_tool_env demo_receipts)) (invite_users_request i))
         \<and> checked_invitation i" by blast
  have "data_requests sent = [?q]" using s by (auto simp: settled_world_def data_requests_def)
  with q obtain p i where "Inr (rq_path ?q) = endpoint_url (memberships_endpoint p)" "checked_invitation i" by auto
  with run show ?thesis by (intro exI [of _ r] exI [of _ ?w] exI [of _ ?q] exI [of _ p] exI [of _ i]) simp
qed

end
