(* ===== verification/Credential_Facts.thy ===== *)
theory Credential_Facts
  imports Upstream_Dispatch
begin

text \<open>
  Credentials of machine identities: what the client returns of a Kubernetes configuration does not
  depend on the credentials in it, a workload policy is read back as it was written, a generated
  credential delivered by reference stays out of the result, and a failed delivery holds nothing.
\<close>

section \<open>Decoding and projecting commute\<close>

lemma rejected_map [simp]: "rejected (map_sum id f r) = rejected r"
  by (cases r) (simp_all add: rejected_def)

lemma ok_or_map: "ok_or e (map_option f x) = map_sum id f (ok_or e x)"
  by (cases x) (simp_all add: ok_or_def)

lemma and_then_map: "and_then r (\<lambda>x. map_sum id f (g x)) = map_sum id f (and_then r g)"
  by (cases r) (simp_all add: and_then_def)

lemma map_err_map: "map_err h (map_sum id f r) = map_sum id f (map_err h r)"
  by (cases r) (simp_all add: map_err_def)

lemma read_response_map:
  "read_response env b (map_option f \<circ> d) ex = map_sum id f (read_response env b d ex)"
  by (auto simp: read_response_def ok_or_map and_then_def split: reply.split sum.split)

lemma send_json_map:
  "send_json env b (map_option f \<circ> d) rq w = apfst (map_sum id f) (send_json env b d rq w)"
  by (simp add: send_json_def Let_def read_response_map split: option.split)

lemma drop_rejected_map:
  "drop_rejected t (apfst (map_sum id f) rw) = apfst (map_sum id f) (drop_rejected t rw)"
  by (cases rw) (simp add: drop_rejected_def)

lemma get_once_map:
  "execute_get_once env ep q (map_option f \<circ> d) w = apfst (map_sum id f) (execute_get_once env ep q d w)"
  by (simp add: execute_get_once_def send_json_map drop_rejected_map split: sum.split prod.split)

lemma execute_read_map:
  "execute_read env ep q (map_option f \<circ> d) w = apfst (map_sum id f) (execute_read env ep q d w)"
  by (simp add: execute_read_def get_once_map split: prod.split)

lemma read_body_map: "read_body ap (map_option f \<circ> d) = map_option f \<circ> read_body ap d"
  by (rule ext) (simp add: read_body_def map_option_bind)

lemma api_read_map:
  "api_read ap ep q (map_option f \<circ> d) w = apfst (map_sum id f) (api_read ap ep q d w)"
  by (cases "execute_read (ap_env ap) ep (ap_query ap q) (read_body ap d) w")
    (simp add: api_read_def read_body_map execute_read_map map_err_map)

lemma api_mutate_map:
  "api_mutate ap meth ep body (map_option f \<circ> d) w = apfst (map_sum id f) (api_mutate ap meth ep body d w)"
proof -
  have m: "apfst (map_err g) (apfst (map_sum id f) rw) = apfst (map_sum id f) (apfst (map_err g) rw)" for g rw
    by (cases rw) (simp add: map_err_map)
  show ?thesis
    by (simp add: api_mutate_def execute_mutation_def json_mutation_def read_body_map send_json_map m
        drop_rejected_map split: sum.split prod.split)
qed

section \<open>Stored credentials\<close>

text \<open>
  Two configurations that agree but for the contents of the credentials: the reviewer's token and the
  CA bundle are present in both or in neither.
\<close>

definition same_but_secrets :: "raw_kubernetes_auth_config \<Rightarrow> raw_kubernetes_auth_config \<Rightarrow> bool" where
  "same_but_secrets r r' \<longleftrightarrow>
     r' = r\<lparr>rk_ca_cert := rk_ca_cert r', rk_reviewer_jwt := rk_reviewer_jwt r'\<rparr>
     \<and> (rk_ca_cert r = [] \<longleftrightarrow> rk_ca_cert r' = [])
     \<and> (rk_reviewer_jwt r \<in> {None, Some []} \<longleftrightarrow> rk_reviewer_jwt r' \<in> {None, Some []})"

lemma same_public_config: "same_but_secrets r r' \<Longrightarrow> kubernetes_config_of r' = kubernetes_config_of r"
  unfolding same_but_secrets_def
  by (elim conjE, erule ssubst) (auto simp: kubernetes_config_of_def split: option.splits)

text \<open>Upstreams whose answers agree but for stored credentials, seen through the JSON parser.\<close>

definition differ_in_secrets :: "api \<Rightarrow> (string \<Rightarrow> json option) \<Rightarrow> bool" where
  "differ_in_secrets ap parse \<longleftrightarrow>
     (\<forall>text. rel_option same_but_secrets (read_body ap decode_kubernetes_auth_response text)
        (read_body (ap\<lparr>ap_parse := parse\<rparr>) decode_kubernetes_auth_response text))"

lemma projected_bodies:
  assumes "differ_in_secrets ap parse"
  shows "read_body (ap\<lparr>ap_parse := parse\<rparr>) (map_option kubernetes_config_of \<circ> decode_kubernetes_auth_response)
    = read_body ap (map_option kubernetes_config_of \<circ> decode_kubernetes_auth_response)"
proof (rule ext)
  fix body
  from assms have "rel_option same_but_secrets (read_body ap decode_kubernetes_auth_response body)
        (read_body (ap\<lparr>ap_parse := parse\<rparr>) decode_kubernetes_auth_response body)"
    by (simp add: differ_in_secrets_def)
  then show "read_body (ap\<lparr>ap_parse := parse\<rparr>) (map_option kubernetes_config_of \<circ> decode_kubernetes_auth_response) body
    = read_body ap (map_option kubernetes_config_of \<circ> decode_kubernetes_auth_response) body"
    by (cases "read_body ap decode_kubernetes_auth_response body";
        cases "read_body (ap\<lparr>ap_parse := parse\<rparr>) decode_kubernetes_auth_response body")
      (simp_all add: read_body_map same_public_config)
qed

lemma projected_calls:
  assumes "differ_in_secrets ap parse"
  shows "apfst (map_sum id kubernetes_config_of) (api_read (ap\<lparr>ap_parse := parse\<rparr>) ep q decode_kubernetes_auth_response w)
      = apfst (map_sum id kubernetes_config_of) (api_read ap ep q decode_kubernetes_auth_response w)"
    and "apfst (map_sum id kubernetes_config_of) (api_mutate (ap\<lparr>ap_parse := parse\<rparr>) meth ep body decode_kubernetes_auth_response w)
      = apfst (map_sum id kubernetes_config_of) (api_mutate ap meth ep body decode_kubernetes_auth_response w)"
  unfolding api_read_map [symmetric] api_mutate_map [symmetric]
  by (simp_all add: api_read_def api_mutate_def json_mutation_def projected_bodies [OF assms])

lemma same_calls:
  assumes "differ_in_secrets ap parse"
  shows "get_kubernetes_auth (ap\<lparr>ap_parse := parse\<rparr>) i w = get_kubernetes_auth ap i w"
    and "attach_kubernetes_auth (ap\<lparr>ap_parse := parse\<rparr>) i settings w = attach_kubernetes_auth ap i settings w"
    and "update_kubernetes_auth (ap\<lparr>ap_parse := parse\<rparr>) i change w = update_kubernetes_auth ap i change w"
    and "remove_kubernetes_auth (ap\<lparr>ap_parse := parse\<rparr>) i b w = remove_kubernetes_auth ap i b w"
  by (simp_all add: get_kubernetes_auth_def attach_kubernetes_auth_def update_kubernetes_auth_def
      remove_kubernetes_auth_def projected_calls [OF assms])

text \<open>Handlers that answer alike whichever of the two upstreams they talk to.\<close>

lemma same_input:
  "with_input (E\<lparr>te_api := ap\<rparr>) t d m params body = with_input E t d m params body"
  by (rule ext) (simp add: with_input_def)

lemma same_upstream:
  "(\<And>w. call (te_api (E\<lparr>te_api := ap\<rparr>)) w = call (te_api E) w) \<Longrightarrow>
     upstream_call (E\<lparr>te_api := ap\<rparr>) (tool_result (E\<lparr>te_api := ap\<rparr>) out) call
       = upstream_call E (tool_result E out) call"
  by (rule ext) (simp add: upstream_call_def tool_result_def upstream_failure_def split: prod.split sum.split)


section \<open>Workload policies\<close>

lemma split_by_join:
  "ps \<noteq> [] \<Longrightarrow> \<forall>p \<in> set ps. c \<notin> set p \<Longrightarrow> split_by ((=) c) (join_with c ps) = ps"
proof (induction ps rule: induct_list012)
  case (2 x)
  then have "c \<notin> set x" by simp
  then show ?case by (induction x) auto
next
  case (3 x y zs)
  have "split_by ((=) c) (x @ c # s) = x # split_by ((=) c) s" if "c \<notin> set x" for s
    using that by (induction x) auto
  with 3 show ?case by simp
qed simp

lemma valid_patterns:
  "validate_patterns ps = Ok s \<longleftrightarrow> ps \<noteq> [] \<and> length ps \<le> 100 \<and> distinct ps \<and> s = join_with (CHR '','') ps
     \<and> (\<forall>p \<in> set ps. p \<noteq> [] \<and> length p \<le> 253 \<and> str_trim p = p \<and> list_all is_pattern_byte p)"
  by (simp add: validate_patterns_def list_ex_iff max_kubernetes_auth_policy_patterns_def
      max_kubernetes_auth_policy_pattern_bytes_def not_less [symmetric] eq_commute [of s])

lemma policy_round_trip: "validate_patterns ps = Ok s \<Longrightarrow> split_patterns s = ps"
proof -
  assume v: "validate_patterns ps = Ok s"
  have "\<not> is_pattern_byte (CHR '','')" by code_simp
  with v have "\<forall>p \<in> set ps. CHR '','' \<notin> set p" by (auto simp: valid_patterns list_all_iff)
  with v have "split_by ((=) (CHR '','')) s = ps" by (simp add: valid_patterns split_by_join)
  moreover have "map str_trim ps = ps" using v by (simp add: valid_patterns map_idI)
  moreover have "filter (\<lambda>item. item \<noteq> []) ps = ps" using v by (auto simp: valid_patterns)
  ultimately show ?thesis by (simp add: split_patterns_def)
qed

text \<open>
  C32: A workload policy is read back as it was written: when settings or a policy change are accepted,
  the comma-separated texts sent upstream are split into exactly the namespaces and service-account
  names of the input if the upstream returns them unchanged, and the audience is the one given; neither
  can be read as more, fewer or other patterns.
\<close>

theorem workload_policy_round_trip:
  assumes "(\<exists>host ca verify jwt ttl max_ttl limit s.
        new_kubernetes_auth_settings K host ca verify jwt namespaces names audience ttl max_ttl limit = Ok s
      \<and> ns = ks_allowed_namespaces s \<and> nm = ks_allowed_names s \<and> au = ks_allowed_audience s)
    \<or> kubernetes_workload_policy namespaces names audience = Ok (Kubernetes_Workload_Policy ns nm au)"
    and "rk_allowed_namespaces r = ns" and "rk_allowed_names r = nm" and "rk_allowed_audience r = au"
  shows "kc_allowed_namespaces (kubernetes_config_of r) = namespaces
    \<and> kc_allowed_names (kubernetes_config_of r) = names
    \<and> kc_allowed_audience (kubernetes_config_of r) = Some audience"
proof -
  have "validate_patterns namespaces = Ok ns \<and> validate_patterns names = Ok nm \<and> validate_audience audience = Ok au"
    using assms(1) by (auto simp: new_kubernetes_auth_settings_def kubernetes_workload_policy_def)
  moreover from this have "au = audience" "audience \<noteq> []" by (auto simp: validate_audience_def split: if_splits)
  ultimately show ?thesis
    using assms(2-4) policy_round_trip by (simp add: kubernetes_config_of_def non_empty_def)
qed

section \<open>Generated credentials\<close>

definition delivery_requested :: "call_params \<Rightarrow> secret_delivery_mode option" where
  "delivery_requested params =
     Option.bind (map_of (call_arguments params) ''delivery'') (decode_variant secret_delivery_variant)"

lemma strict_field_is:
  assumes "strict_fields spec (Object m) = Some fs" and "k \<in> fst ` set spec"
  shows "fs k = map_of m k"
proof -
  have "fs = map_of (filter (\<lambda>kv. fst kv \<in> fst ` set spec) m)"
    using assms(1) by (simp add: strict_fields_def wire_fields_def Let_def split: if_splits)
  with assms(2) show ?thesis by (simp add: map_of_filter_keys)
qed

lemma delivery_field:
  assumes "strict_fields spec (Object (call_arguments params)) = Some fs" and "''delivery'' \<in> fst ` set spec"
    and "wire_option fs ''delivery'' (decode_variant secret_delivery_variant) = Some mode"
  shows "mode = delivery_requested params"
  using strict_field_is [OF assms(1,2)] assms(3)
  by (auto simp: delivery_requested_def wire_option_def decode_option_def decode_variant_def
      split: option.splits json.splits if_splits)

lemma create_deliveries:
  "decode_client_secret_create (call_arguments params) = Some c \<Longrightarrow> cx_delivery c = delivery_requested params"
  "decode_token_create (call_arguments params) = Some t \<Longrightarrow> tx_delivery t = delivery_requested params"
  unfolding decode_client_secret_create_def decode_token_create_def bind_eq_Some_conv
  by (auto dest!: delivery_field)

lemma with_input_runs:
  assumes "with_input E t d m params body s = Some (r, s')"
  obtains (refused) e where "r = Err e" "s' = s"
  | (decoded) i where "d (call_arguments params) = Some i" "body i s = Some (r, s')"
  using assms by (auto simp: with_input_def call_arguments_def split: sum.splits)

text \<open>The handler that a revealing operation runs.\<close>

lemma client_secret_create_handler:
  "cp_name params = UNIVERSAL_AUTH_CLIENT_SECRETS_CREATE_TOOL \<Longrightarrow> dispatch_identity_auth_workflow E params =
     with_input E ''UniversalAuthClientSecretCreateInput'' decode_client_secret_create
       ''identityUniversalAuth.clientSecrets.create arguments do not match the declared schema'' params (\<lambda>i.
       with_delivery E (cx_delivery i) (client_secret_create_parts i)
         (\<lambda>ap (identity_id, creation). create_universal_auth_client_secret ap identity_id creation)
         (deliver_client_secret E))"
  by (simp add: dispatch_identity_auth_workflow_def workflow_defs)

lemma token_create_handler:
  "cp_name params = TOKEN_AUTH_TOKENS_CREATE_TOOL \<Longrightarrow> dispatch_identity_auth_workflow E params =
     with_input E ''TokenAuthTokenCreateInput'' decode_token_create
       ''identityTokenAuth.tokens.create arguments do not match the declared schema'' params (\<lambda>i.
       with_delivery E (tx_delivery i) (token_create_parts i)
         (\<lambda>ap (identity_id, creation). create_token_auth_token ap identity_id creation) (deliver_token E))"
  by (simp add: dispatch_identity_auth_workflow_def workflow_defs)

lemma credential_outputs:
  "json_get ''clientSecret'' (client_secret_output c (Some rf)) = None"
  "json_get ''accessToken'' (client_secret_output c (Some rf)) = None"
  "json_get ''secretFile'' (client_secret_output c (Some rf)) = Some (file_reference_json rf)"
  "json_get ''clientSecret'' (token_output t (Some rf)) = None"
  "json_get ''accessToken'' (token_output t (Some rf)) = None"
  "json_get ''secretFile'' (token_output t (Some rf)) = Some (file_reference_json rf)"
  by (simp_all add: client_secret_output_def token_output_def json_get_object_of optional_field_def)

text \<open>
  C11: A generated credential stays out of the result unless it was asked for inline. When creating a
  Universal Auth client secret or a Token Auth token succeeds on a server with the transfer plane and
  the call does not ask for inlineValue, the result has no clientSecret and no accessToken member, and
  its secretFile names the entry the plane now holds: the envelope of the credential the upstream
  generated in the answer to this call, and of nothing else, not yet downloadable by anyone.
\<close>

theorem generated_credential_out_of_context:
  assumes "structured_ok (te_structured E)"
    and "cp_name params \<in> {UNIVERSAL_AUTH_CLIENT_SECRETS_CREATE_TOOL, TOKEN_AUTH_TOKENS_CREATE_TOOL}"
    and "dispatch_identity_auth_workflow E params (Some pl, w) = Some (Ok res, (files, w'))"
    and "cr_is_error res \<noteq> Some True" and "delivery_requested params \<noteq> Some Inline_Value"
  shows "\<exists>out rf data. cr_structured res = Some out
    \<and> json_get ''clientSecret'' out = None \<and> json_get ''accessToken'' out = None
    \<and> json_get ''secretFile'' out = Some (file_reference_json rf)
    \<and> staged_under E (cp_name params) data files rf
    \<and> (if cp_name params = TOKEN_AUTH_TOKENS_CREATE_TOOL
        then \<exists>c. answered w (read_body (te_api E) decode_created_token) c
               \<and> data = object_of [(''accessToken'', String (ct_access_token c))]
        else \<exists>c. answered w (read_body (te_api E) decode_created_client_secret) c
               \<and> data = object_of [(''clientSecret'', String (cc_client_secret c))])"
  using assms(2)
proof (elim insertE emptyE)
  assume n: "cp_name params = UNIVERSAL_AUTH_CLIENT_SECRETS_CREATE_TOOL"
  from assms(3) [unfolded client_secret_create_handler [OF n]] show ?thesis
  proof (cases rule: with_input_runs)
    case (decoded i)
    have d: "cx_delivery i \<noteq> Some Inline_Value" using assms(5) create_deliveries(1) [OF decoded(1)] by simp
    obtain x v rf where "(case x of (identity_id, creation) \<Rightarrow>
          create_universal_auth_client_secret (te_api E) identity_id creation) w = (Ok v, w')"
        "cr_structured res = Some (client_secret_output v (Some rf))"
        "staged_under E (cp_name params) (object_of [(''clientSecret'', String (cc_client_secret v))]) files rf"
      by (rule delivered_by_reference [OF assms(1) decoded(2) [unfolded deliver_client_secret_def [abs_def]] assms(4) d])
        (rule that; simp add: n)
    then show ?thesis
      by (auto simp: n credential_outputs create_universal_auth_client_secret_def dest: api_mutate_answered
          split: prod.splits intro!: exI [of _ rf])
  qed simp
next
  assume n: "cp_name params = TOKEN_AUTH_TOKENS_CREATE_TOOL"
  from assms(3) [unfolded token_create_handler [OF n]] show ?thesis
  proof (cases rule: with_input_runs)
    case (decoded i)
    have d: "tx_delivery i \<noteq> Some Inline_Value" using assms(5) create_deliveries(2) [OF decoded(1)] by simp
    obtain x v rf where "(case x of (identity_id, creation) \<Rightarrow>
          create_token_auth_token (te_api E) identity_id creation) w = (Ok v, w')"
        "cr_structured res = Some (token_output v (Some rf))"
        "staged_under E (cp_name params) (object_of [(''accessToken'', String (ct_access_token v))]) files rf"
      by (rule delivered_by_reference [OF assms(1) decoded(2) [unfolded deliver_token_def [abs_def]] assms(4) d])
        (rule that; simp add: n)
    then show ?thesis
      by (auto simp: n credential_outputs create_token_auth_token_def dest: api_mutate_answered
          split: prod.splits intro!: exI [of _ rf])
  qed simp
qed

lemma failed_input_releases:
  assumes "structured_ok (te_structured E)" and "accounted ext pl" and "releases build"
    and "with_input E t d m params (\<lambda>i. with_delivery E (del i) (p i) call build) (Some pl, w)
      = Some (r, (files, w'))"
    and "case r of Inl e \<Rightarrow> True | Inr res \<Rightarrow> cr_is_error res = Some True"
  shows "\<exists>pl'. files = Some pl' \<and> accounted ext pl'
    \<and> (same_contents pl' pl \<or> same_contents pl' (sweep_locked (te_reserve_at E) pl))"
  using assms(4)
proof (cases rule: with_input_runs)
  case (refused e)
  with assms(2) show ?thesis by simp
next
  case (decoded i)
  from failed_delivery_releases [OF assms(1-3) decoded(2) assms(5)] show ?thesis .
qed

lemma credential_creation_routed:
  "route_operation UNIVERSAL_AUTH_CLIENT_SECRETS_CREATE_TOOL = Some Universal_Auth_Client_Secret"
  "route_operation TOKEN_AUTH_TOKENS_CREATE_TOOL = Some Token_Auth"
  by code_simp+


section \<open>Examples\<close>

definition demo_kubernetes :: "string \<Rightarrow> json" where
  "demo_kubernetes jwt = Object [(''identityKubernetesAuth'', Object
     [(''id'', String ''k''), (''identityId'', String ''machine''), (''accessTokenTTL'', Number (Unsigned 60)),
      (''accessTokenMaxTTL'', Number (Unsigned 60)), (''accessTokenNumUsesLimit'', Number (Unsigned 0)),
      (''accessTokenTrustedIps'', Array []), (''tokenReviewMode'', String ''api''),
      (''kubernetesHost'', Null), (''allowedNamespaces'', String ''prod,team-*''),
      (''allowedNames'', String ''sa''), (''allowedAudience'', String ''aud''), (''tokenReviewerJwt'', String jwt),
      (''verifyTlsCertificate'', Bool False), (''gatewayId'', Null), (''gatewayPoolId'', Null),
      (''createdAt'', String ''c''), (''updatedAt'', String ''u'')])]"

definition demo_raw :: "string \<Rightarrow> raw_kubernetes_auth_config" where
  "demo_raw jwt = \<lparr>rk_id = ''k'', rk_identity_id = ''machine'', rk_ttl = 60, rk_max_ttl = 60,
     rk_num_uses_limit = 0, rk_trusted_ips = [], rk_review_mode = Api_Review, rk_host = None,
     rk_allowed_namespaces = ''prod,team-*'', rk_allowed_names = ''sa'', rk_allowed_audience = ''aud'',
     rk_ca_cert = [], rk_reviewer_jwt = Some jwt, rk_verify_tls = False, rk_gateway_id = None,
     rk_gateway_pool_id = None, rk_created_at = ''c'', rk_updated_at = ''u''\<rparr>"

lemma demo_kubernetes_decodes: "decode_kubernetes_auth_response (demo_kubernetes jwt) = Some (demo_raw jwt)"
  by (simp add: demo_kubernetes_def demo_raw_def decode_kubernetes_auth_response_def
      decode_raw_kubernetes_auth_config_def wire_fields_def wire_field_def wire_option_def wire_default_def
      wire_list_def decode_option_def decode_u32_def decode_bool_def decode_variant_def variant_named_def
      token_review_modes_def as_str_def)


lemma workload_policy_round_trip_witness:
  "kc_allowed_namespaces (kubernetes_config_of (demo_raw ''jwt'')) = [''prod'', ''team-*'']
   \<and> kc_allowed_audience (kubernetes_config_of (demo_raw ''jwt'')) = Some ''aud''"
proof -
  have "kubernetes_workload_policy [''prod'', ''team-*''] [''sa''] ''aud''
      = Ok (Kubernetes_Workload_Policy ''prod,team-*'' ''sa'' ''aud'')"
    by (simp add: kubernetes_workload_policy_def validate_patterns_def validate_audience_def
        str_trim_ascii byte_def is_whitespace_def has_control_def str_chars_ascii is_control_def is_pattern_byte_def is_ascii_lowercase_def is_ascii_digit_def
        max_kubernetes_auth_policy_patterns_def max_kubernetes_auth_policy_pattern_bytes_def
        max_kubernetes_auth_audience_bytes_def)
  from workload_policy_round_trip [OF disjI2 [OF this], of "demo_raw ''jwt''"] show ?thesis
    by (simp add: demo_raw_def)
qed

definition demo_token_metadata :: token_metadata where
  "demo_token_metadata = \<lparr>tm_id = ''t'', tm_identity_id = ''machine'', tm_name = None, tm_auth_method = ''token-auth'',
     tm_ttl = 60, tm_max_ttl = 60, tm_num_uses = 0, tm_num_uses_limit = 0, tm_last_used_at = None,
     tm_last_renewed_at = None, tm_is_revoked = False, tm_period = 0, tm_sub_organization_id = None,
     tm_created_at = ''c'', tm_updated_at = ''u''\<rparr>"

definition demo_created_token :: created_token where
  "demo_created_token = \<lparr>ct_access_token = ''s3cret'', ct_expires_in = 60, ct_max_ttl = 60,
     ct_metadata = demo_token_metadata\<rparr>"

definition demo_token_answer :: json where
  "demo_token_answer = Object [(''accessToken'', String ''s3cret''), (''expiresIn'', Number (Unsigned 60)),
     (''accessTokenMaxTTL'', Number (Unsigned 60)), (''tokenData'', Object
       [(''id'', String ''t''), (''identityId'', String ''machine''), (''authMethod'', String ''token-auth''),
        (''accessTokenTTL'', Number (Unsigned 60)), (''accessTokenMaxTTL'', Number (Unsigned 60)),
        (''accessTokenNumUses'', Number (Unsigned 0)), (''accessTokenNumUsesLimit'', Number (Unsigned 0)),
        (''isAccessTokenRevoked'', Bool False), (''accessTokenPeriod'', Number (Unsigned 0)),
        (''createdAt'', String ''c''), (''updatedAt'', String ''u'')])]"

lemma demo_token_decodes: "decode_created_token demo_token_answer = Some demo_created_token"
  by (simp add: demo_token_answer_def demo_created_token_def demo_token_metadata_def decode_created_token_def
      decode_token_metadata_def wire_fields_def wire_field_def wire_option_def decode_u32_def decode_bool_def
      as_str_def)

definition token_call :: call_params where
  "token_call = \<lparr>cp_name = TOKEN_AUTH_TOKENS_CREATE_TOOL, cp_arguments = Some [(''identityId'', String ''machine'')]\<rparr>"

lemma token_call_decodes:
  "decode_token_create (call_arguments token_call) =
     Some \<lparr>tx_identity_id = ''machine'', tx_name = None, tx_organization_slug = None, tx_delivery = None\<rparr>"
  by (simp add: token_call_def call_arguments_def decode_token_create_def strict_fields_def wire_fields_def
      wire_field_def wire_option_def as_str_def)

lemma demo_token_runs:
  "\<exists>rf p w'. dispatch_identity_auth_workflow (demo_tool_env demo_token_answer) token_call
       (Some (plane_new small_config), settled_world ''{}'') =
     Some (Ok (plain_result (token_output demo_created_token (Some rf))), (Some p, w'))"
proof -
  let ?data = "object_of [(''accessToken'', String (ct_access_token demo_created_token))]"
  obtain env where env: "secret_envelope brief_writer (\<lambda>k. replicate k CHR ''x'') TOKEN_AUTH_TOKENS_CREATE_TOOL ?data = Some env"
    and len: "length env = 4096"
    by (simp add: secret_envelope_def brief_writer_def Let_def max_envelope_eq min_pad_chars_def
        div_ceil_def envelope_bucket_bytes_def random_hex_of_length_def)
  obtain p where st: "stage 0 ''s'' max_envelope_bytes TOKEN_AUTH_TOKENS_CREATE_TOOL env reserved_plane
      = Some (file_reference ''s'' (TOKEN_AUTH_TOKENS_CREATE_TOOL @ ''.json''), p)"
    by (simp add: stage_def len reservation_shrink_def max_envelope_bytes_def reserved_plane_def Let_def)
  have url: "endpoint_url (tokens_endpoint ''machine'') =
      Inr [''api'', ''v1'', ''auth'', ''token-auth'', ''identities'', ''machine'', ''tokens'']"
    by code_simp
  obtain w' where create: "create_token_auth_token (demo_api demo_token_answer) ''machine''
        \<lparr>tc_name = None, tc_organization_slug = None\<rparr> (settled_world ''{}'') = (Ok demo_created_token, w')"
    using settled_mutate [where decode = decode_created_token and meth = POST, OF url demo_token_decodes]
    by (simp add: create_token_auth_token_def)
  have del: "resolve_delivery 0 (Some (plane_new small_config)) None =
      (Ok (Reference_Disposition max_envelope_bytes), Some reserved_plane)"
    by (simp add: resolve_delivery_def reserve_first)
  have parts: "token_create_parts \<lparr>tx_identity_id = ''machine'', tx_name = None, tx_organization_slug = None,
      tx_delivery = None\<rparr> = Ok (''machine'', \<lparr>tc_name = None, tc_organization_slug = None\<rparr>)"
    by code_simp
  have n: "cp_name token_call = TOKEN_AUTH_TOKENS_CREATE_TOOL" by (simp add: token_call_def)
  show ?thesis
    unfolding token_create_handler [OF n]
    using token_call_decodes parts del create env st
    by (simp add: with_input_def with_delivery_def parse_arguments_def call_arguments_def
        demo_tool_env_def delivered_result_def deliver_token_def staged_output_def stage_disposition_def) blast
qed

lemma generated_credential_out_of_context_witness:
  "\<exists>res files w' out rf. dispatch_identity_auth_workflow (demo_tool_env demo_token_answer) token_call
       (Some (plane_new small_config), settled_world ''{}'') = Some (Ok res, (files, w'))
     \<and> cr_structured res = Some out \<and> json_get ''accessToken'' out = None
     \<and> json_get ''secretFile'' out = Some (file_reference_json rf)"
proof -
  obtain rf p w' where run: "dispatch_identity_auth_workflow (demo_tool_env demo_token_answer) token_call
       (Some (plane_new small_config), settled_world ''{}'') =
     Some (Ok (plain_result (token_output demo_created_token (Some rf))), (Some p, w'))"
    using demo_token_runs by blast
  have ok: "structured_ok (te_structured (demo_tool_env demo_token_answer))"
    by (simp add: demo_tool_env_def plain_result_ok)
  have "cp_name token_call \<in> {UNIVERSAL_AUTH_CLIENT_SECRETS_CREATE_TOOL, TOKEN_AUTH_TOKENS_CREATE_TOOL}"
    and "delivery_requested token_call \<noteq> Some Inline_Value"
    and "cr_is_error (plain_result (token_output demo_created_token (Some rf))) \<noteq> Some True"
    by (simp_all add: token_call_def delivery_requested_def call_arguments_def plain_result_def)
  from generated_credential_out_of_context [OF ok this(1) run this(3,2)] run show ?thesis by blast
qed

definition bare_token_call :: call_params where
  "bare_token_call = \<lparr>cp_name = TOKEN_AUTH_TOKENS_CREATE_TOOL, cp_arguments = None\<rparr>"


end
