(* ===== verification/Spec2Isabelle.thy ===== *)
theory Spec2Isabelle
  imports File_Plane_Refinement File_Routes Identity_Keys Client_Requests Pagination
    Utc_Timestamp Resource_Input File_Envelope Operation_Dispatch_Facts Server_Config
    Upstream_Dispatch Access_Facts Credential_Facts
begin

text \<open>
  A verification library for the Infisical MCP server, a Rust workspace of three crates under
  \<open>src/crates\<close>: \<open>infisical-api\<close> (a typed client of the Infisical REST API), \<open>infisical-mcp\<close> (the
  operations an MCP client can call, and the transfer plane that keeps secret values out of
  results) and \<open>infisical-server\<close> (configuration, authentication of callers, HTTP routes).

  \<^bold>\<open>How the program is put together.\<close> A request of an MCP client passes the ingress of
  \<open>infisical-server\<close> (\<open>auth.rs\<close>), reaches a published tool of \<open>infisical-mcp\<close> (\<open>tools.rs\<close>), is looked
  up in the registry of operations, checked against the profile and the tier of the executor,
  decoded into an argument struct and validated into resource coordinates; a handler then calls the
  client, which logs in when it must, sends one HTTP request and decodes the bounded answer. Large or
  secret results are staged in the file plane and fetched or supplied over two routes of
  \<open>server.rs\<close>, each with a single-use descriptor.

  \<^bold>\<open>Theories and sources.\<close>
  \<^item> Prelude: \<open>Rust_Prelude\<close> (results, UTF-8 byte strings, ASCII classes, splitting, durations, the
    locale \<open>transition_system\<close> used by every transition system), \<open>Http\<close>, \<open>Ip_Text\<close> (the standard
    library's reader of IP addresses), \<open>Mcp_Types\<close> (JSON values, results, errors).
  \<^item> \<open>infisical-api\<close>: \<open>Network\<close> (\<open>network.rs\<close>), \<open>Resource_Input\<close>, \<open>Utc_Timestamp\<close> and
    \<open>Resource_Error\<close> (\<open>resources.rs\<close>), \<open>Pagination\<close> (\<open>pagination.rs\<close>), \<open>Client_Types\<close>,
    \<open>Client_Refresh\<close> and \<open>Client_Requests\<close> (\<open>client.rs\<close>), \<open>Api_Wire\<close> (how typed operations go through
    the client), then one theory per API file: \<open>Secrets_Api\<close>, \<open>Secret_Imports_Api\<close>, \<open>Folders_Api\<close>
    (folders and tags), \<open>Projects_Api\<close> (projects and their administration), \<open>Audit_Logs_Api\<close>,
    \<open>Roles_Api\<close>, \<open>Memberships_Api\<close>, \<open>Groups_Api\<close>, \<open>Identities_Api\<close> (with \<open>Api_Values\<close>, the JSON
    values and tagged objects they share), \<open>Universal_Auth_Api\<close>, \<open>Token_Auth_Api\<close>,
    \<open>Kubernetes_Auth_Api\<close> and \<open>Certificates\<close> (\<open>certificate.rs\<close>).
  \<^item> \<open>infisical-mcp\<close>: \<open>Byte_Budget\<close> (\<open>files/budget.rs\<close>), \<open>File_Envelope\<close>, \<open>File_Plane\<close>,
    \<open>File_Plane_System\<close>, \<open>File_Plane_Properties\<close> and \<open>File_Plane_Refinement\<close> (\<open>files.rs\<close>),
    \<open>File_Receipt\<close> (\<open>file_receipt.rs\<close>), \<open>Result_Delivery\<close>, \<open>Execution_Error\<close>
    (\<open>execution_error.rs\<close>), \<open>Runtime\<close> (\<open>runtime.rs\<close>), \<open>Operation_Names\<close> and \<open>Operation_Policy\<close>
    (\<open>policy.rs\<close>, \<open>operation_policy.rs\<close>), \<open>Operation_Catalog\<close>, \<open>Operation_Registry\<close>,
    \<open>Operation_Catalog_Facts\<close>, \<open>Server_Capabilities\<close>, \<open>Discovery\<close> (\<open>discovery.rs\<close>),
    \<open>Argument_Decoding\<close>, \<open>Local_Discovery\<close> (\<open>collection_cost.rs\<close>), \<open>Operation_Dispatch\<close> with its
    facts, \<open>Tool_Support\<close>, \<open>Secrets_Tools\<close>, \<open>Secrets_Tools_Facts\<close>, \<open>Secret_Tree_Tools\<close> and
    \<open>Project_Tools\<close> (\<open>tools.rs\<close>, \<open>projections.rs\<close>), \<open>Operation_Routing\<close> (which workflow handles
    which name), \<open>Access_Tools\<close> (the tools on roles, groups, memberships and identities),
    \<open>Identity_Auth_Tools\<close> (the authentication methods of identities), \<open>Declared_Tiers\<close> (the tier the
    registry declares for each name),
    \<open>Wire_Discipline\<close> and \<open>Workflow_Wire\<close> (what a handler may send), \<open>Confirmed_Destruction\<close> (what it
    sends without a confirmation), \<open>Upstream_Dispatch\<close> (the workflows run on the client,
    \<open>dispatch_upstream\<close>), \<open>Email_Grammar\<close> and \<open>Access_Facts\<close> (what access tools return and accept),
    \<open>Credential_Facts\<close> (where stored and generated credentials go).
  \<^item> \<open>infisical-server\<close>: \<open>Server_Config\<close> (\<open>config.rs\<close>, \<open>main.rs\<close>, parts of \<open>server.rs\<close>),
    \<open>Ingress_Auth\<close> and \<open>Identity_Keys\<close> (\<open>auth.rs\<close>), \<open>File_Routes\<close> (\<open>server.rs\<close>).

  \<^bold>\<open>How code becomes definitions.\<close> A struct is a record, an enum a datatype, a transparent newtype
  the wrapped type, a function a definition with its early returns as branches; a panic is \<open>None\<close>.
  A \<open>&str\<close> is its UTF-8 bytes. \<open>usize\<close>, \<open>u64\<close>, \<open>u32\<close> are words where the width matters and naturals
  elsewhere; instants and durations count nanoseconds, and clock readings of one critical section
  coincide. The client's environment is a \<open>world\<close> (clock, token, refresh coordinator, what the network
  will answer, and the log of requests sent) passed through every call. Concurrent parts (refresh
  coordinator, file plane, byte budget, key cache) are transition systems whose steps are the atomic
  sections of the code; a watch channel is a flight number, \<open>Arc::ptr_eq\<close> an identity. Maps of the
  file plane are association lists; an overwritten entry gives its reservation back. JSON of a
  response keeps its entries as written: unknown fields are ignored, duplicates refused, a struct may
  be an array, a flattened struct only an object, an untagged enum takes the first fit. Argument
  structs are decoded as their serde attributes say (aliases, unknown fields refused, defaults).
  The data-free variants of \<open>ResourceError\<close> are \<open>Unit_Variant\<close> with their name. Wiping of memory has
  no counterpart.

  \<^bold>\<open>Parameters.\<close> What is not under \<open>src\<close> is an argument of the definitions that use it: the HTTP
  upstream, DNS, URL and authority parsing, JSON text, JWT decoding, SHA-256, base64, random tokens,
  HTTP dates, Unicode tables, JSON pointers, derived schemas (named by their types), how the MCP
  framework renders a structured result (\<open>structured_ok\<close> is its documented behaviour), the PEM, X.509
  and trust anchor libraries (\<open>pki_library\<close>), and the text of argument corrections. The typed operation handlers are a parameter of \<open>Operation_Dispatch\<close>, the
  workflows without a theory a parameter of \<open>Upstream_Dispatch\<close>.

  \<^bold>\<open>What the lemmas show.\<close> The file plane never exceeds its staging, byte and descriptor bounds in any
  interleaving, every descriptor and value is used once, and it refines an abstract vault; at most one
  login is in flight and no waiter is stranded; a mutation is sent at most once and a read replayed at
  most once; only authenticated requests are forwarded; HTTP clients dial only private addresses;
  dispatch stays within profile and tier and terminates; the registry agrees with the reviewed policy;
  revealed values and generated credentials stay out of results, a stored reviewer token never reaches
  one, and a failed delivery gives its capacity back; a workload policy is read back as it was
  written; every published operation is
  routed to a handler that knows it, and an operation declared a read sends only GET requests; refused
  arguments send nothing and nothing is destroyed without a confirmation; what an access read returns
  belongs to what was asked and every invitation sent is well formed; collections page completely;
  timestamps agree with a calendar; bodies and results are bounded. Interfaces are locales
  (\<open>transition_system\<close>, \<open>validated_newtype\<close>, \<open>reservation_ledger\<close>, \<open>wire_discipline\<close>) interpreted on the code's models.

  \<^bold>\<open>Bounds and fuel.\<close> \<open>collect_pages\<close> follows continuations with fuel, enough when
  \<open>length xs - offset < fuel\<close>; listing every operation needs 235 pages of fuel for 234 operations;
  dispatch recurses once through an executor, so fuel 2 is enough and \<open>dispatch_terminates\<close> proves it.

  \<^bold>\<open>Not modelled.\<close> The remaining API files and their tools (dynamic secrets, rotations, app automations, KMS, code signing, PKI,
  SSH), argument corrections, the MCP handler of \<open>lib.rs\<close> (framework glue), the axum layer stack, the
  runtime and signal handling, tracing.
\<close>

end
